(* ===== verification/Sx_Prelude.thy ===== *)
theory Sx_Prelude
  imports Complex_Main "HOL-Library.Word"
begin

unbundle bit_operations_syntax

section \<open>Shared types, byte memory and arithmetic\<close>

text \<open>
  Names and facts the whole development shares.

  The C code computes with the fixed-width types \<open>SIXTRL_UINT64_T\<close> (sizes, addresses, flags,
  type ids) and \<open>SIXTRL_INT64_T\<close> (particle indices, turns, element ids). The unsigned ones are
  modelled as \<open>64 word\<close>, because C defines their wrap-around and the buffer code relies on it.
  Overflow of the signed ones is undefined in C, so they are modelled as \<open>int\<close> and read as the
  values the code has as long as it stays within the type.

  Raw memory is a map from byte positions to bytes. \<open>rd64\<close> and \<open>wr64\<close> are the little-endian
  accesses through an \<open>NS(buffer_addr_t)*\<close>, \<open>mem_set\<close> and \<open>mem_move\<close> are
  \<open>SIXTRACKLIB_SET_VALUES\<close> and \<open>SIXTRACKLIB_COPY_VALUES\<close> or \<open>SIXTRACKLIB_MOVE_VALUES\<close> on raw bytes.
\<close>

type_synonym u8 = "8 word"
type_synonym u64 = "64 word"
type_synonym i64 = int
type_synonym mem = "nat \<Rightarrow> u8"

named_theorems u64_arith \<open>natural-number readings of 64-bit sums, products and orders\<close>
named_theorems mem_simps \<open>reads after writes in byte memory\<close>

subsection \<open>64-bit arithmetic read as natural numbers\<close>

lemma unat_u64_less [simp]: "unat (a :: u64) < 18446744073709551616"
  using unsigned_less [of a] by simp

lemma u64_le_nat [u64_arith]: "(a :: u64) \<le> b \<longleftrightarrow> unat a \<le> unat b"
  by (fact word_le_nat_alt)

lemma u64_less_nat [u64_arith]: "(a :: u64) < b \<longleftrightarrow> unat a < unat b"
  by (fact word_less_nat_alt)

lemma u64_eq_nat: "(a :: u64) = b \<longleftrightarrow> unat a = unat b"
  by (simp add: word_unat_eq_iff)

lemma unat_u64_add:
  "unat (a :: u64) + unat b < 2 ^ 64 \<Longrightarrow> unat (a + b) = unat a + unat b"
  by (simp add: unat_word_ariths)

lemma unat_u64_mult:
  "unat (a :: u64) * unat b < 2 ^ 64 \<Longrightarrow> unat (a * b) = unat a * unat b"
  by (simp add: unat_word_ariths)

lemma unat_u64_sub: "(b :: u64) \<le> a \<Longrightarrow> unat (a - b) = unat a - unat b"
  by (simp add: unat_sub)

lemma unat_u64_div: "unat ((a :: u64) div b) = unat a div unat b"
  by (simp add: unat_div)

lemma unat_u64_mod: "unat ((a :: u64) mod b) = unat a mod unat b"
  by (simp add: unat_mod)

text \<open>The conversion of a signed integer to \<open>SIXTRL_UINT64_T\<close>.\<close>

definition u64_of :: "i64 \<Rightarrow> u64" where
  "u64_of i = word_of_int i"

lemma unat_u64_of: "0 \<le> i \<Longrightarrow> i < 2 ^ 64 \<Longrightarrow> unat (u64_of i) = nat i"
  by (simp add: u64_of_def unat_eq_nat_uint uint_word_of_int)

subsection \<open>Byte memory\<close>

definition rd64 :: "mem \<Rightarrow> u64 \<Rightarrow> u64" where
  "rd64 m a =
     (let n = unat a in
      ucast (m n) OR push_bit 8 (ucast (m (n + 1))) OR
      push_bit 16 (ucast (m (n + 2))) OR push_bit 24 (ucast (m (n + 3))) OR
      push_bit 32 (ucast (m (n + 4))) OR push_bit 40 (ucast (m (n + 5))) OR
      push_bit 48 (ucast (m (n + 6))) OR push_bit 56 (ucast (m (n + 7))))"

definition wr64 :: "mem \<Rightarrow> u64 \<Rightarrow> u64 \<Rightarrow> mem" where
  "wr64 m a v =
     (\<lambda>i. if unat a \<le> i \<and> i < unat a + 8 then ucast (drop_bit (8 * (i - unat a)) v) else m i)"

definition mem_set :: "mem \<Rightarrow> u64 \<Rightarrow> u64 \<Rightarrow> u8 \<Rightarrow> mem" where
  "mem_set m dst n v = (\<lambda>i. if unat dst \<le> i \<and> i < unat dst + unat n then v else m i)"

definition mem_move :: "mem \<Rightarrow> u64 \<Rightarrow> u64 \<Rightarrow> u64 \<Rightarrow> mem" where
  "mem_move m dst src n =
     (\<lambda>i. if unat dst \<le> i \<and> i < unat dst + unat n then m (unat src + (i - unat dst)) else m i)"

text \<open>Two 8-byte cells are apart when their byte ranges do not meet.\<close>

definition apart :: "u64 \<Rightarrow> u64 \<Rightarrow> bool" where
  "apart a b \<longleftrightarrow> unat a + 8 \<le> unat b \<or> unat b + 8 \<le> unat a"

lemma apart_sym: "apart a b \<Longrightarrow> apart b a"
  by (auto simp: apart_def)

lemma rd64_wr64_same [simp, mem_simps]: "rd64 (wr64 m a v) a = v"
proof (rule bit_word_eqI)
  fix n :: nat
  assume "n < LENGTH(64)"
  then consider "n < 8" | "8 \<le> n \<and> n < 16" | "16 \<le> n \<and> n < 24" | "24 \<le> n \<and> n < 32"
    | "32 \<le> n \<and> n < 40" | "40 \<le> n \<and> n < 48" | "48 \<le> n \<and> n < 56" | "56 \<le> n \<and> n < 64"
    by force
  then show "bit (rd64 (wr64 m a v) a) n \<longleftrightarrow> bit v n"
    by cases (auto simp: rd64_def wr64_def Let_def bit_simps)
qed

lemma rd64_cong:
  assumes "\<And>i. unat a \<le> i \<Longrightarrow> i < unat a + 8 \<Longrightarrow> m i = m' i"
  shows "rd64 m a = rd64 m' a"
  using assms by (simp add: rd64_def Let_def)

lemma rd64_shift:
  assumes "\<And>k. k < 8 \<Longrightarrow> m (unat a + k) = m' (unat b + k)"
  shows "rd64 m a = rd64 m' b"
proof -
  have "m (unat a) = m' (unat b)"
    using assms [of 0] by simp
  then show ?thesis
    using assms [of 1] assms [of 2] assms by (simp add: rd64_def Let_def)
qed

lemma rd64_wr64_apart [mem_simps]: "apart a b \<Longrightarrow> rd64 (wr64 m a v) b = rd64 m b"
  by (rule rd64_cong) (auto simp: wr64_def apart_def)

lemma wr64_outside: "i < unat a \<or> unat a + 8 \<le> i \<Longrightarrow> wr64 m a v i = m i"
  by (auto simp: wr64_def)

lemma rd64_mem_set_outside:
  assumes "unat a + 8 \<le> unat dst \<or> unat dst + unat n \<le> unat a"
  shows "rd64 (mem_set m dst n v) a = rd64 m a"
  using assms by (intro rd64_cong) (auto simp: mem_set_def)

lemma rd64_mem_move_outside:
  assumes "unat a + 8 \<le> unat dst \<or> unat dst + unat n \<le> unat a"
  shows "rd64 (mem_move m dst src n) a = rd64 m a"
  using assms by (intro rd64_cong) (auto simp: mem_move_def)

lemma rd64_zero:
  assumes "\<And>i. unat a \<le> i \<Longrightarrow> i < unat a + 8 \<Longrightarrow> m i = 0"
  shows "rd64 m a = 0"
  using assms by (simp add: rd64_def Let_def)

end
