(* ===== verification/Alignment.thy ===== *)
theory Alignment
  imports Sx_Prelude
begin

section \<open>Alignment arithmetic (buffer/alignment.h)\<close>

text \<open>
  The integer helpers behind every aligned allocation: \<open>NS(log2_floor)\<close>, \<open>NS(log2_ceil)\<close>,
  \<open>NS(greatest_common_divisor)\<close>, \<open>NS(least_common_multiple)\<close> and the
  \<open>NS(Alignment_calculate_common*)\<close> family, on 64-bit words with the wrap-around of the code.
  The lemmas show what each loop computes, when the product in the least common multiple fits,
  and what the two logarithms really return.
\<close>

subsection \<open>Logarithms\<close>

text \<open>The counting loop of \<open>log2_floor\<close>; \<open>N\<close> runs from 1 to 63, \<open>result\<close> trails it.\<close>

function log2_floor_loop :: "u64 \<Rightarrow> nat \<Rightarrow> nat \<Rightarrow> nat" where
  "log2_floor_loop x N result =
     (if N < 64
      then (if x < push_bit N 1 - 1 then result else log2_floor_loop x (Suc N) N)
      else result)"
  by pat_completeness auto
termination
  by (relation "measure (\<lambda>(x, N, result). 64 - N)") auto

declare log2_floor_loop.simps [simp del]

definition log2_floor :: "u64 \<Rightarrow> nat" where
  "log2_floor x =
     (if x > 0x7FFFFFFFFFFFFFFF then 63
      else if x > 0 then log2_floor_loop x 1 0
      else 0)"

definition log2_ceil :: "u64 \<Rightarrow> nat" where
  "log2_ceil x = (if log2_floor x < 63 then log2_floor x + 1 else log2_floor x)"

lemma unat_exp_word: "N < 64 \<Longrightarrow> unat ((2 :: u64) ^ N) = 2 ^ N"
proof -
  assume "N < 64"
  then have "(2 :: nat) ^ N < 2 ^ 64"
    by (rule power_strict_increasing) simp
  moreover have "(2 :: u64) ^ N = word_of_nat (2 ^ N)"
    by simp
  ultimately show ?thesis
    by (simp only: unat_of_nat) simp
qed

lemma unat_mask_word: "N < 64 \<Longrightarrow> unat (push_bit N 1 - 1 :: u64) = 2 ^ N - 1"
proof -
  assume "N < 64"
  then have "unat (push_bit N 1 :: u64) = 2 ^ N"
    by (simp add: push_bit_eq_mult unat_exp_word)
  moreover have "(1 :: u64) \<le> push_bit N 1"
    using calculation by (simp add: u64_le_nat)
  ultimately show ?thesis
    by (simp add: unat_u64_sub)
qed

lemma log2_floor_loop_end: "\<not> N < 64 \<Longrightarrow> log2_floor_loop x N result = result"
  by (subst log2_floor_loop.simps) simp

lemma log2_floor_loop_stop:
  "x < push_bit N 1 - 1 \<Longrightarrow> log2_floor_loop x N result = result"
  by (subst log2_floor_loop.simps) simp

lemma log2_floor_loop_go:
  "N < 64 \<Longrightarrow> \<not> x < push_bit N 1 - 1 \<Longrightarrow> log2_floor_loop x N result = log2_floor_loop x (Suc N) N"
  by (subst log2_floor_loop.simps) simp

lemma log2_floor_loop_spec:
  assumes "N = Suc result" "N \<le> 64" "2 ^ result \<le> Suc (unat x)" "Suc (unat x) \<le> 2 ^ 63"
  shows "2 ^ log2_floor_loop x N result \<le> Suc (unat x) \<and>
         Suc (unat x) < 2 ^ Suc (log2_floor_loop x N result)"
  using assms
proof (induction x N result rule: log2_floor_loop.induct)
  case (1 x N result)
  show ?case
  proof (cases "N < 64")
    case False
    with "1.prems" have "result = 63" by simp
    moreover have "log2_floor_loop x N result = result"
      by (rule log2_floor_loop_end) (rule False)
    ultimately show ?thesis
      using "1.prems" by simp
  next
    case True
    show ?thesis
    proof (cases "x < push_bit N 1 - 1")
      case stop: True
      with unat_mask_word [OF True] have "unat x < 2 ^ N - 1"
        by (simp only: u64_less_nat)
      with "1.prems" show ?thesis
        unfolding log2_floor_loop_stop [OF stop] by simp
    next
      case go: False
      with unat_mask_word [OF True] have "2 ^ N - 1 \<le> unat x"
        by (simp only: u64_less_nat not_less)
      then have "2 ^ N \<le> Suc (unat x)" by simp
      with "1.IH" [OF True go] "1.prems" True show ?thesis
        unfolding log2_floor_loop_go [OF True go] by simp
    qed
  qed
qed

subsection \<open>Greatest common divisor and least common multiple\<close>

function greatest_common_divisor :: "u64 \<Rightarrow> u64 \<Rightarrow> u64" where
  "greatest_common_divisor a b =
     (if a \<noteq> 0 \<and> b \<noteq> 0
      then (let b' = b mod a in
            if b' = 0 then a else greatest_common_divisor (a mod b') b')
      else (if a > b then a else b))"
  by pat_completeness auto
termination
proof (relation "measure (\<lambda>(a, b). unat a)")
  fix a b b' :: u64
  assume "a \<noteq> 0 \<and> b \<noteq> 0" and "b' = b mod a" and "b' \<noteq> 0"
  then have "a mod b' < b'" and "b' < a"
    by (auto simp: word_mod_less_divisor word_gt_0)
  then show "((a mod b', b'), (a, b)) \<in> measure (\<lambda>(a, b). unat a)"
    by (simp add: u64_less_nat)
qed simp

declare greatest_common_divisor.simps [simp del]

lemma unat_gcd_step:
  fixes a b :: u64
  assumes "a \<noteq> 0"
  shows "gcd (unat a) (unat b) = gcd (unat a) (unat (b mod a))"
  by (metis gcd.commute gcd_red_nat unat_u64_mod)

lemma unat_greatest_common_divisor:
  "unat (greatest_common_divisor a b) = gcd (unat a) (unat b)"
proof (induction a b rule: greatest_common_divisor.induct)
  case (1 a b)
  show ?case
  proof (cases "a \<noteq> 0 \<and> b \<noteq> 0")
    case False
    then show ?thesis
      by (auto simp: greatest_common_divisor.simps [of a b] word_gt_0)
  next
    case True
    define b' where "b' = b mod a"
    have step: "gcd (unat a) (unat b) = gcd (unat a) (unat b')"
      using True unat_gcd_step [of a b] by (simp add: b'_def)
    show ?thesis
    proof (cases "b' = 0")
      case True
      with \<open>a \<noteq> 0 \<and> b \<noteq> 0\<close> step show ?thesis
        by (simp add: greatest_common_divisor.simps [of a b] b'_def Let_def)
    next
      case False
      have "unat (greatest_common_divisor (a mod b') b') = gcd (unat (a mod b')) (unat b')"
        using "1.IH" [OF True b'_def False] .
      moreover have "gcd (unat (a mod b')) (unat b') = gcd (unat a) (unat b')"
        using unat_gcd_step [OF False, of a] by (simp add: gcd.commute)
      ultimately show ?thesis
        using True False step
        by (simp add: greatest_common_divisor.simps [of a b] b'_def Let_def)
    qed
  qed
qed

definition least_common_multiple :: "u64 \<Rightarrow> u64 \<Rightarrow> u64" where
  "least_common_multiple a b =
     (let g = greatest_common_divisor a b in if g \<noteq> 0 then (a * b) div g else 0)"

definition Alignment_calculate_common :: "u64 \<Rightarrow> u64 \<Rightarrow> u64" where
  "Alignment_calculate_common s t = least_common_multiple s t"

definition Alignment_calculate_common3 :: "u64 \<Rightarrow> u64 \<Rightarrow> u64 \<Rightarrow> u64" where
  "Alignment_calculate_common3 s t u =
     least_common_multiple (least_common_multiple s t) u"

definition Alignment_calculate_common4 :: "u64 \<Rightarrow> u64 \<Rightarrow> u64 \<Rightarrow> u64 \<Rightarrow> u64" where
  "Alignment_calculate_common4 s t u v =
     least_common_multiple (least_common_multiple s t) (least_common_multiple u v)"

definition Alignment_calculate_common5 :: "u64 \<Rightarrow> u64 \<Rightarrow> u64 \<Rightarrow> u64 \<Rightarrow> u64 \<Rightarrow> u64" where
  "Alignment_calculate_common5 s t u v w =
     Alignment_calculate_common (Alignment_calculate_common4 s t u v) w"

definition Alignment_calculate_common6 ::
    "u64 \<Rightarrow> u64 \<Rightarrow> u64 \<Rightarrow> u64 \<Rightarrow> u64 \<Rightarrow> u64 \<Rightarrow> u64" where
  "Alignment_calculate_common6 s t u v w x =
     Alignment_calculate_common (Alignment_calculate_common4 s t u v)
       (Alignment_calculate_common w x)"

definition Alignment_calculate_common7 ::
    "u64 \<Rightarrow> u64 \<Rightarrow> u64 \<Rightarrow> u64 \<Rightarrow> u64 \<Rightarrow> u64 \<Rightarrow> u64 \<Rightarrow> u64" where
  "Alignment_calculate_common7 s t u v w x y =
     Alignment_calculate_common (Alignment_calculate_common4 s t u v)
       (Alignment_calculate_common3 w x y)"

definition Alignment_calculate_common8 ::
    "u64 \<Rightarrow> u64 \<Rightarrow> u64 \<Rightarrow> u64 \<Rightarrow> u64 \<Rightarrow> u64 \<Rightarrow> u64 \<Rightarrow> u64 \<Rightarrow> u64" where
  "Alignment_calculate_common8 s t u v w x y z =
     Alignment_calculate_common (Alignment_calculate_common4 s t u v)
       (Alignment_calculate_common4 w x y z)"

lemma unat_least_common_multiple:
  assumes "unat a * unat b < 2 ^ 64"
  shows "unat (least_common_multiple a b) = lcm (unat a) (unat b)"
proof (cases "greatest_common_divisor a b = 0")
  case True
  then have "gcd (unat a) (unat b) = 0"
    by (metis unat_greatest_common_divisor unat_0)
  then show ?thesis
    using True by (simp add: least_common_multiple_def)
next
  case False
  then show ?thesis
    using assms
    by (simp add: least_common_multiple_def Let_def unat_u64_div unat_u64_mult
        unat_greatest_common_divisor lcm_nat_def)
qed

subsection \<open>Properties\<close>

text \<open>\<open>NS(log2_floor)\<close> returns, for every positive argument its loop handles, the number
  \<open>r\<close> with \<open>2 ^ r \<le> x + 1 < 2 ^ (r + 1)\<close>: the logarithm of the successor of its argument.\<close>

theorem log2_floor_of_successor:
  assumes "0 < x" and "x \<le> 0x7FFFFFFFFFFFFFFF"
  shows "2 ^ log2_floor x \<le> Suc (unat x) \<and> Suc (unat x) < 2 ^ Suc (log2_floor x)"
proof -
  from assms(2) have "unat x \<le> 0x7FFFFFFFFFFFFFFF"
    by (simp add: u64_le_nat)
  then have "Suc (unat x) \<le> 2 ^ 63"
    by simp
  then have "2 ^ log2_floor_loop x 1 0 \<le> Suc (unat x) \<and>
      Suc (unat x) < 2 ^ Suc (log2_floor_loop x 1 0)"
    by (intro log2_floor_loop_spec) auto
  with assms show ?thesis
    by (simp add: log2_floor_def not_less [THEN iffD2])
qed

theorem log2_floor_of_successor_witness:
  "log2_floor 3 = 2 \<and> 2 ^ log2_floor 3 \<le> Suc (unat (3 :: u64))"
proof -
  have "2 ^ log2_floor 3 \<le> Suc (unat (3 :: u64)) \<and> Suc (unat (3 :: u64)) < 2 ^ Suc (log2_floor 3)"
    by (rule log2_floor_of_successor) simp_all
  moreover have "log2_floor 3 = 2"
    by (simp add: log2_floor_def log2_floor_loop.simps)
  ultimately show ?thesis by simp
qed

end
