(* ===== verification/Math_Factorial.thy ===== *)
theory Math_Factorial
  imports Sx_Prelude
begin

section \<open>Factorials (internal/math_factorial.h, C implementation)\<close>

text \<open>
  \<open>NS(Math_factorial)\<close> and \<open>NS(Math_inv_factorial)\<close> tabulate the values up to 20; beyond that the first
  recurses on the remainder modulo 20. They relate the multipole coefficients \<open>bal\<close> to the normalised
  strengths \<open>knl\<close> and \<open>ksl\<close>.
\<close>

lemma mod_20_less: "n \<noteq> 0 \<Longrightarrow> \<not> unat (n :: u64) < 20 \<Longrightarrow> unat (n mod 20) < unat n"
  by (simp add: unat_u64_mod)

lemma u64_ge_20:
  assumes "(n :: u64) \<noteq> 0" "n \<noteq> 1" "n \<noteq> 2" "n \<noteq> 3" "n \<noteq> 4" "n \<noteq> 5" "n \<noteq> 6" "n \<noteq> 7" "n \<noteq> 8" "n \<noteq> 9"
    "n \<noteq> 10" "n \<noteq> 11" "n \<noteq> 12" "n \<noteq> 13" "n \<noteq> 14" "n \<noteq> 15" "n \<noteq> 16" "n \<noteq> 17" "n \<noteq> 18" "n \<noteq> 19"
  shows "\<not> unat n < 20"
proof
  assume "unat n < 20"
  then have "unat n \<in> {0, 1, 2, 3, 4, 5, 6, 7, 8, 9, 10, 11, 12, 13, 14, 15, 16, 17, 18, 19}"
    by (simp add: eval_nat_numeral less_Suc_eq)
  then show False using assms by (auto simp: u64_eq_nat)
qed

function Math_factorial :: "u64 \<Rightarrow> real" where
  "Math_factorial n =
     (if n = 0 then 1 else if n = 1 then 1 else if n = 2 then 2 else if n = 3 then 6
      else if n = 4 then 24 else if n = 5 then 120 else if n = 6 then 720 else if n = 7 then 5040
      else if n = 8 then 40320 else if n = 9 then 362880 else if n = 10 then 3628800
      else if n = 11 then 3628800 else if n = 12 then 479001600 else if n = 13 then 6227020800
      else if n = 14 then 87178291200 else if n = 15 then 1307674368000
      else if n = 16 then 20922789888000 else if n = 17 then 355687428096000
      else if n = 18 then 6402373705728000 else if n = 19 then 121645100408832000
      else if n = 20 then 2432902008176640000
      else
        let nd = n div 20;
            remainder = n mod 20;
            result = real (unat nd) * 2432902008176640000
        in if remainder \<noteq> 0 then result + Math_factorial remainder else result)"
  by pat_completeness auto
termination
  by (relation "measure unat") (simp_all add: mod_20_less u64_ge_20)

declare Math_factorial.simps [simp del]

definition Math_inv_factorial :: "u64 \<Rightarrow> real" where
  "Math_inv_factorial n =
     (if n = 0 then 1
      else if n = 1 then 1
      else if n = 2 then 0.5
      else if n = 3 then 0.166666666666666657
      else if n = 4 then 0.0416666666666666644
      else if n = 5 then 0.00833333333333333322
      else if n = 6 then 0.00138888888888888894
      else if n = 7 then 0.000198412698412698413
      else if n = 8 then 2.48015873015873016 / 10 ^ 5
      else if n = 9 then 2.75573192239858925 / 10 ^ 6
      else if n = 10 then 2.75573192239858883 / 10 ^ 7
      else if n = 11 then 2.50521083854417202 / 10 ^ 8
      else if n = 12 then 2.50521083854417202 / 10 ^ 8
      else if n = 13 then 1.60590438368216133 / 10 ^ 10
      else if n = 14 then 1.14707455977297245 / 10 ^ 11
      else if n = 15 then 7.64716373181981641 / 10 ^ 13
      else if n = 16 then 4.77947733238738525 / 10 ^ 14
      else if n = 17 then 2.8114572543455206 / 10 ^ 15
      else if n = 18 then 1.56192069685862253 / 10 ^ 16
      else if n = 19 then 8.2206352466243295 / 10 ^ 18
      else if n = 20 then 4.11031762331216484 / 10 ^ 19
      else 1 / Math_factorial n)"

lemma u64_upto_20:
  assumes "unat (n :: u64) \<le> 20"
  shows "n \<in> {0, 1, 2, 3, 4, 5, 6, 7, 8, 9, 10, 11, 12, 13, 14, 15, 16, 17, 18, 19, 20}"
proof -
  have "unat n \<in> {0, 1, 2, 3, 4, 5, 6, 7, 8, 9, 10, 11, 12, 13, 14, 15, 16, 17, 18, 19, 20}"
    using assms by (simp add: eval_nat_numeral le_Suc_eq)
  then show ?thesis by (auto simp: u64_eq_nat)
qed

lemma Math_factorial_pos: "0 < Math_factorial n"
proof (induction n rule: Math_factorial.induct)
  case (1 n)
  show ?case
  proof (cases "unat n \<le> 20")
    case True
    then show ?thesis using u64_upto_20 [OF True] by (auto simp: Math_factorial.simps [of n])
  next
    case False
    then have n: "n \<noteq> 0" "n \<noteq> 1" "n \<noteq> 2" "n \<noteq> 3" "n \<noteq> 4" "n \<noteq> 5" "n \<noteq> 6" "n \<noteq> 7" "n \<noteq> 8"
      "n \<noteq> 9" "n \<noteq> 10" "n \<noteq> 11" "n \<noteq> 12" "n \<noteq> 13" "n \<noteq> 14" "n \<noteq> 15" "n \<noteq> 16" "n \<noteq> 17"
      "n \<noteq> 18" "n \<noteq> 19" "n \<noteq> 20" by auto
    have "0 < unat (n div 20)" using False by (simp add: unat_u64_div div_greater_zero_iff)
    then have "0 < real (unat (n div 20)) * 2432902008176640000"
      by (intro mult_pos_pos) (simp_all only: of_nat_0_less_iff zero_less_numeral)
    moreover have "n mod 20 \<noteq> 0 \<Longrightarrow> 0 < Math_factorial (n mod 20)" using n by (intro 1) simp_all
    ultimately show ?thesis using n
      by (auto simp: Math_factorial.simps [of n] Let_def intro!: add_pos_pos)
  qed
qed

text \<open>The table of \<open>NS(Math_factorial)\<close> holds the factorials of 0 to 20 with one exception: the entry
  for 11 repeats the factorial of 10.\<close>

theorem Math_factorial_table:
  assumes "unat n \<le> 20"
  shows "Math_factorial n = (if n = 11 then fact 10 else fact (unat n))"
  using u64_upto_20 [OF assms] by (auto simp: Math_factorial.simps [of n] fact_numeral)

theorem Math_factorial_table_witness:
  "Math_factorial 11 = 3628800 \<and> fact 11 = (39916800 :: real) \<and> Math_factorial 12 = fact 12"
  using Math_factorial_table [of 11] Math_factorial_table [of 12] by (simp add: fact_numeral)

end
