(* ===== verification/Particles.thy ===== *)
theory Particles
  imports Sx_Prelude
begin

section \<open>Particle sets (particles.h)\<close>

text \<open>
  \<open>NS(Particles)\<close> is a structure of arrays: 17 real and 4 index arrays of \<open>num_particles\<close>
  entries. The record \<open>particles\<close> keeps that shape, an array being a list. Floating point numbers
  (\<open>SIXTRL_REAL_T\<close>, a build option of the library) are idealised as real numbers; indices,
  element ids, turns and states (\<open>SIXTRL_INT64_T\<close>) are integers. Arguments of type
  \<open>NS(Particles)*\<close> are the structures they point to, so the NULL guards of the code are met by
  construction; its assertions on indices are the predicate \<open>valid_idx\<close>.

  \<open>particle_of p ii\<close> reads the entries of one particle across all arrays. Every operation on one
  particle is shown to be an update of that view which leaves every other view alone
  (the collection \<open>particle_simps\<close>), and \<open>particles_eqI\<close> turns views back into equality.
\<close>

named_theorems particle_simps \<open>how operations on a particle set act on the view of one particle\<close>
named_theorems particle_ops \<open>definitions of the single-particle operations\<close>

record particles =
  num_particles :: i64
  p_q0 :: "real list"
  p_mass0 :: "real list"
  p_beta0 :: "real list"
  p_gamma0 :: "real list"
  p_p0c :: "real list"
  p_s :: "real list"
  p_x :: "real list"
  p_y :: "real list"
  p_px :: "real list"
  p_py :: "real list"
  p_zeta :: "real list"
  p_psigma :: "real list"
  p_delta :: "real list"
  p_rpp :: "real list"
  p_rvv :: "real list"
  p_chi :: "real list"
  p_charge_ratio :: "real list"
  p_particle_id :: "i64 list"
  p_at_element_id :: "i64 list"
  p_at_turn :: "i64 list"
  p_state :: "i64 list"

text \<open>The entries of one particle.\<close>

record particle =
  pv_q0 :: real
  pv_mass0 :: real
  pv_beta0 :: real
  pv_gamma0 :: real
  pv_p0c :: real
  pv_s :: real
  pv_x :: real
  pv_y :: real
  pv_px :: real
  pv_py :: real
  pv_zeta :: real
  pv_psigma :: real
  pv_delta :: real
  pv_rpp :: real
  pv_rvv :: real
  pv_chi :: real
  pv_charge_ratio :: real
  pv_particle_id :: i64
  pv_at_element_id :: i64
  pv_at_turn :: i64
  pv_state :: i64

definition particle_of :: "particles \<Rightarrow> i64 \<Rightarrow> particle" where
  "particle_of p ii =
     \<lparr>pv_q0 = p_q0 p ! nat ii,
      pv_mass0 = p_mass0 p ! nat ii,
      pv_beta0 = p_beta0 p ! nat ii,
      pv_gamma0 = p_gamma0 p ! nat ii,
      pv_p0c = p_p0c p ! nat ii,
      pv_s = p_s p ! nat ii,
      pv_x = p_x p ! nat ii,
      pv_y = p_y p ! nat ii,
      pv_px = p_px p ! nat ii,
      pv_py = p_py p ! nat ii,
      pv_zeta = p_zeta p ! nat ii,
      pv_psigma = p_psigma p ! nat ii,
      pv_delta = p_delta p ! nat ii,
      pv_rpp = p_rpp p ! nat ii,
      pv_rvv = p_rvv p ! nat ii,
      pv_chi = p_chi p ! nat ii,
      pv_charge_ratio = p_charge_ratio p ! nat ii,
      pv_particle_id = p_particle_id p ! nat ii,
      pv_at_element_id = p_at_element_id p ! nat ii,
      pv_at_turn = p_at_turn p ! nat ii,
      pv_state = p_state p ! nat ii\<rparr>"

definition particles_wf :: "particles \<Rightarrow> bool" where
  "particles_wf p \<longleftrightarrow>
     0 \<le> num_particles p \<and>
     length (p_q0 p) = nat (num_particles p) \<and>
     length (p_mass0 p) = nat (num_particles p) \<and>
     length (p_beta0 p) = nat (num_particles p) \<and>
     length (p_gamma0 p) = nat (num_particles p) \<and>
     length (p_p0c p) = nat (num_particles p) \<and>
     length (p_s p) = nat (num_particles p) \<and>
     length (p_x p) = nat (num_particles p) \<and>
     length (p_y p) = nat (num_particles p) \<and>
     length (p_px p) = nat (num_particles p) \<and>
     length (p_py p) = nat (num_particles p) \<and>
     length (p_zeta p) = nat (num_particles p) \<and>
     length (p_psigma p) = nat (num_particles p) \<and>
     length (p_delta p) = nat (num_particles p) \<and>
     length (p_rpp p) = nat (num_particles p) \<and>
     length (p_rvv p) = nat (num_particles p) \<and>
     length (p_chi p) = nat (num_particles p) \<and>
     length (p_charge_ratio p) = nat (num_particles p) \<and>
     length (p_particle_id p) = nat (num_particles p) \<and>
     length (p_at_element_id p) = nat (num_particles p) \<and>
     length (p_at_turn p) = nat (num_particles p) \<and>
     length (p_state p) = nat (num_particles p)"

definition valid_idx :: "particles \<Rightarrow> i64 \<Rightarrow> bool" where
  "valid_idx p ii \<longleftrightarrow> 0 \<le> ii \<and> ii < num_particles p"

definition Particles_get_num_of_particles :: "particles \<Rightarrow> i64" where
  "Particles_get_num_of_particles p = num_particles p"

definition Particles_set_num_of_particles :: "particles \<Rightarrow> i64 \<Rightarrow> particles" where
  "Particles_set_num_of_particles p n = p\<lparr>num_particles := n\<rparr>"

text \<open>
  \<open>SIXTRACKLIB_COPY_VALUES\<close> and \<open>SIXTRACKLIB_SET_VALUES\<close> on arrays: \<open>n\<close> entries of \<open>src\<close> from
  \<open>si\<close> on overwrite those of \<open>dst\<close> from \<open>di\<close> on; \<open>n\<close> entries from \<open>di\<close> on become \<open>v\<close>.
\<close>

definition copy_values :: "'a list \<Rightarrow> i64 \<Rightarrow> 'a list \<Rightarrow> i64 \<Rightarrow> i64 \<Rightarrow> 'a list" where
  "copy_values dst di src si n =
     take (nat di) dst @ take (nat n) (drop (nat si) src) @ drop (nat di + nat n) dst"

definition set_values :: "'a list \<Rightarrow> i64 \<Rightarrow> i64 \<Rightarrow> 'a \<Rightarrow> 'a list" where
  "set_values dst di n v =
     take (nat di) dst @ replicate (nat n) v @ drop (nat di + nat n) dst"

subsection \<open>Reading and writing one entry\<close>

definition Particles_get_q0_value :: "particles \<Rightarrow> i64 \<Rightarrow> real" where
  "Particles_get_q0_value p ii = p_q0 p ! nat ii"

definition Particles_set_q0_value :: "particles \<Rightarrow> i64 \<Rightarrow> real \<Rightarrow> particles" where
  "Particles_set_q0_value p ii v = p\<lparr>p_q0 := (p_q0 p)[nat ii := v]\<rparr>"

definition Particles_get_mass0_value :: "particles \<Rightarrow> i64 \<Rightarrow> real" where
  "Particles_get_mass0_value p ii = p_mass0 p ! nat ii"

definition Particles_set_mass0_value :: "particles \<Rightarrow> i64 \<Rightarrow> real \<Rightarrow> particles" where
  "Particles_set_mass0_value p ii v = p\<lparr>p_mass0 := (p_mass0 p)[nat ii := v]\<rparr>"

definition Particles_get_beta0_value :: "particles \<Rightarrow> i64 \<Rightarrow> real" where
  "Particles_get_beta0_value p ii = p_beta0 p ! nat ii"

definition Particles_set_beta0_value :: "particles \<Rightarrow> i64 \<Rightarrow> real \<Rightarrow> particles" where
  "Particles_set_beta0_value p ii v = p\<lparr>p_beta0 := (p_beta0 p)[nat ii := v]\<rparr>"

definition Particles_get_gamma0_value :: "particles \<Rightarrow> i64 \<Rightarrow> real" where
  "Particles_get_gamma0_value p ii = p_gamma0 p ! nat ii"

definition Particles_set_gamma0_value :: "particles \<Rightarrow> i64 \<Rightarrow> real \<Rightarrow> particles" where
  "Particles_set_gamma0_value p ii v = p\<lparr>p_gamma0 := (p_gamma0 p)[nat ii := v]\<rparr>"

definition Particles_get_p0c_value :: "particles \<Rightarrow> i64 \<Rightarrow> real" where
  "Particles_get_p0c_value p ii = p_p0c p ! nat ii"

definition Particles_set_p0c_value :: "particles \<Rightarrow> i64 \<Rightarrow> real \<Rightarrow> particles" where
  "Particles_set_p0c_value p ii v = p\<lparr>p_p0c := (p_p0c p)[nat ii := v]\<rparr>"

definition Particles_get_s_value :: "particles \<Rightarrow> i64 \<Rightarrow> real" where
  "Particles_get_s_value p ii = p_s p ! nat ii"

definition Particles_set_s_value :: "particles \<Rightarrow> i64 \<Rightarrow> real \<Rightarrow> particles" where
  "Particles_set_s_value p ii v = p\<lparr>p_s := (p_s p)[nat ii := v]\<rparr>"

definition Particles_get_x_value :: "particles \<Rightarrow> i64 \<Rightarrow> real" where
  "Particles_get_x_value p ii = p_x p ! nat ii"

definition Particles_set_x_value :: "particles \<Rightarrow> i64 \<Rightarrow> real \<Rightarrow> particles" where
  "Particles_set_x_value p ii v = p\<lparr>p_x := (p_x p)[nat ii := v]\<rparr>"

definition Particles_get_y_value :: "particles \<Rightarrow> i64 \<Rightarrow> real" where
  "Particles_get_y_value p ii = p_y p ! nat ii"

definition Particles_set_y_value :: "particles \<Rightarrow> i64 \<Rightarrow> real \<Rightarrow> particles" where
  "Particles_set_y_value p ii v = p\<lparr>p_y := (p_y p)[nat ii := v]\<rparr>"

definition Particles_get_px_value :: "particles \<Rightarrow> i64 \<Rightarrow> real" where
  "Particles_get_px_value p ii = p_px p ! nat ii"

definition Particles_set_px_value :: "particles \<Rightarrow> i64 \<Rightarrow> real \<Rightarrow> particles" where
  "Particles_set_px_value p ii v = p\<lparr>p_px := (p_px p)[nat ii := v]\<rparr>"

definition Particles_get_py_value :: "particles \<Rightarrow> i64 \<Rightarrow> real" where
  "Particles_get_py_value p ii = p_py p ! nat ii"

definition Particles_set_py_value :: "particles \<Rightarrow> i64 \<Rightarrow> real \<Rightarrow> particles" where
  "Particles_set_py_value p ii v = p\<lparr>p_py := (p_py p)[nat ii := v]\<rparr>"

definition Particles_get_zeta_value :: "particles \<Rightarrow> i64 \<Rightarrow> real" where
  "Particles_get_zeta_value p ii = p_zeta p ! nat ii"

definition Particles_set_zeta_value :: "particles \<Rightarrow> i64 \<Rightarrow> real \<Rightarrow> particles" where
  "Particles_set_zeta_value p ii v = p\<lparr>p_zeta := (p_zeta p)[nat ii := v]\<rparr>"

definition Particles_get_psigma_value :: "particles \<Rightarrow> i64 \<Rightarrow> real" where
  "Particles_get_psigma_value p ii = p_psigma p ! nat ii"

definition Particles_set_psigma_value :: "particles \<Rightarrow> i64 \<Rightarrow> real \<Rightarrow> particles" where
  "Particles_set_psigma_value p ii v = p\<lparr>p_psigma := (p_psigma p)[nat ii := v]\<rparr>"

definition Particles_get_delta_value :: "particles \<Rightarrow> i64 \<Rightarrow> real" where
  "Particles_get_delta_value p ii = p_delta p ! nat ii"

definition Particles_set_delta_value :: "particles \<Rightarrow> i64 \<Rightarrow> real \<Rightarrow> particles" where
  "Particles_set_delta_value p ii v = p\<lparr>p_delta := (p_delta p)[nat ii := v]\<rparr>"

definition Particles_get_rpp_value :: "particles \<Rightarrow> i64 \<Rightarrow> real" where
  "Particles_get_rpp_value p ii = p_rpp p ! nat ii"

definition Particles_set_rpp_value :: "particles \<Rightarrow> i64 \<Rightarrow> real \<Rightarrow> particles" where
  "Particles_set_rpp_value p ii v = p\<lparr>p_rpp := (p_rpp p)[nat ii := v]\<rparr>"

definition Particles_get_rvv_value :: "particles \<Rightarrow> i64 \<Rightarrow> real" where
  "Particles_get_rvv_value p ii = p_rvv p ! nat ii"

definition Particles_set_rvv_value :: "particles \<Rightarrow> i64 \<Rightarrow> real \<Rightarrow> particles" where
  "Particles_set_rvv_value p ii v = p\<lparr>p_rvv := (p_rvv p)[nat ii := v]\<rparr>"

definition Particles_get_chi_value :: "particles \<Rightarrow> i64 \<Rightarrow> real" where
  "Particles_get_chi_value p ii = p_chi p ! nat ii"

definition Particles_set_chi_value :: "particles \<Rightarrow> i64 \<Rightarrow> real \<Rightarrow> particles" where
  "Particles_set_chi_value p ii v = p\<lparr>p_chi := (p_chi p)[nat ii := v]\<rparr>"

definition Particles_get_charge_ratio_value :: "particles \<Rightarrow> i64 \<Rightarrow> real" where
  "Particles_get_charge_ratio_value p ii = p_charge_ratio p ! nat ii"

definition Particles_set_charge_ratio_value :: "particles \<Rightarrow> i64 \<Rightarrow> real \<Rightarrow> particles" where
  "Particles_set_charge_ratio_value p ii v = p\<lparr>p_charge_ratio := (p_charge_ratio p)[nat ii := v]\<rparr>"

definition Particles_get_particle_id_value :: "particles \<Rightarrow> i64 \<Rightarrow> i64" where
  "Particles_get_particle_id_value p ii = p_particle_id p ! nat ii"

definition Particles_set_particle_id_value :: "particles \<Rightarrow> i64 \<Rightarrow> i64 \<Rightarrow> particles" where
  "Particles_set_particle_id_value p ii v = p\<lparr>p_particle_id := (p_particle_id p)[nat ii := v]\<rparr>"

definition Particles_get_at_element_id_value :: "particles \<Rightarrow> i64 \<Rightarrow> i64" where
  "Particles_get_at_element_id_value p ii = p_at_element_id p ! nat ii"

definition Particles_set_at_element_id_value :: "particles \<Rightarrow> i64 \<Rightarrow> i64 \<Rightarrow> particles" where
  "Particles_set_at_element_id_value p ii v = p\<lparr>p_at_element_id := (p_at_element_id p)[nat ii := v]\<rparr>"

definition Particles_get_at_turn_value :: "particles \<Rightarrow> i64 \<Rightarrow> i64" where
  "Particles_get_at_turn_value p ii = p_at_turn p ! nat ii"

definition Particles_set_at_turn_value :: "particles \<Rightarrow> i64 \<Rightarrow> i64 \<Rightarrow> particles" where
  "Particles_set_at_turn_value p ii v = p\<lparr>p_at_turn := (p_at_turn p)[nat ii := v]\<rparr>"

definition Particles_get_state_value :: "particles \<Rightarrow> i64 \<Rightarrow> i64" where
  "Particles_get_state_value p ii = p_state p ! nat ii"

definition Particles_set_state_value :: "particles \<Rightarrow> i64 \<Rightarrow> i64 \<Rightarrow> particles" where
  "Particles_set_state_value p ii v = p\<lparr>p_state := (p_state p)[nat ii := v]\<rparr>"

definition Particles_add_to_s_value :: "particles \<Rightarrow> i64 \<Rightarrow> real \<Rightarrow> particles" where
  [particle_ops]: "Particles_add_to_s_value p ii d =
     Particles_set_s_value p ii (Particles_get_s_value p ii + d)"

definition Particles_add_to_x_value :: "particles \<Rightarrow> i64 \<Rightarrow> real \<Rightarrow> particles" where
  [particle_ops]: "Particles_add_to_x_value p ii d =
     Particles_set_x_value p ii (Particles_get_x_value p ii + d)"

definition Particles_add_to_y_value :: "particles \<Rightarrow> i64 \<Rightarrow> real \<Rightarrow> particles" where
  [particle_ops]: "Particles_add_to_y_value p ii d =
     Particles_set_y_value p ii (Particles_get_y_value p ii + d)"

definition Particles_add_to_px_value :: "particles \<Rightarrow> i64 \<Rightarrow> real \<Rightarrow> particles" where
  [particle_ops]: "Particles_add_to_px_value p ii d =
     Particles_set_px_value p ii (Particles_get_px_value p ii + d)"

definition Particles_add_to_py_value :: "particles \<Rightarrow> i64 \<Rightarrow> real \<Rightarrow> particles" where
  [particle_ops]: "Particles_add_to_py_value p ii d =
     Particles_set_py_value p ii (Particles_get_py_value p ii + d)"

definition Particles_add_to_zeta_value :: "particles \<Rightarrow> i64 \<Rightarrow> real \<Rightarrow> particles" where
  [particle_ops]: "Particles_add_to_zeta_value p ii d =
     Particles_set_zeta_value p ii (Particles_get_zeta_value p ii + d)"

definition Particles_add_to_psigma_value :: "particles \<Rightarrow> i64 \<Rightarrow> real \<Rightarrow> particles" where
  [particle_ops]: "Particles_add_to_psigma_value p ii d =
     Particles_set_psigma_value p ii (Particles_get_psigma_value p ii + d)"

definition Particles_add_to_delta_value :: "particles \<Rightarrow> i64 \<Rightarrow> real \<Rightarrow> particles" where
  [particle_ops]: "Particles_add_to_delta_value p ii d =
     Particles_set_delta_value p ii (Particles_get_delta_value p ii + d)"

definition Particles_set_q0 :: "particles \<Rightarrow> real list \<Rightarrow> particles" where
  "Particles_set_q0 p vs =
     p\<lparr>p_q0 := copy_values (p_q0 p) 0 vs 0 (Particles_get_num_of_particles p)\<rparr>"

definition Particles_set_mass0 :: "particles \<Rightarrow> real list \<Rightarrow> particles" where
  "Particles_set_mass0 p vs =
     p\<lparr>p_mass0 := copy_values (p_mass0 p) 0 vs 0 (Particles_get_num_of_particles p)\<rparr>"

definition Particles_set_beta0 :: "particles \<Rightarrow> real list \<Rightarrow> particles" where
  "Particles_set_beta0 p vs =
     p\<lparr>p_beta0 := copy_values (p_beta0 p) 0 vs 0 (Particles_get_num_of_particles p)\<rparr>"

definition Particles_set_gamma0 :: "particles \<Rightarrow> real list \<Rightarrow> particles" where
  "Particles_set_gamma0 p vs =
     p\<lparr>p_gamma0 := copy_values (p_gamma0 p) 0 vs 0 (Particles_get_num_of_particles p)\<rparr>"

definition Particles_set_p0c :: "particles \<Rightarrow> real list \<Rightarrow> particles" where
  "Particles_set_p0c p vs =
     p\<lparr>p_p0c := copy_values (p_p0c p) 0 vs 0 (Particles_get_num_of_particles p)\<rparr>"

definition Particles_set_s :: "particles \<Rightarrow> real list \<Rightarrow> particles" where
  "Particles_set_s p vs =
     p\<lparr>p_s := copy_values (p_s p) 0 vs 0 (Particles_get_num_of_particles p)\<rparr>"

definition Particles_set_x :: "particles \<Rightarrow> real list \<Rightarrow> particles" where
  "Particles_set_x p vs =
     p\<lparr>p_x := copy_values (p_x p) 0 vs 0 (Particles_get_num_of_particles p)\<rparr>"

definition Particles_set_y :: "particles \<Rightarrow> real list \<Rightarrow> particles" where
  "Particles_set_y p vs =
     p\<lparr>p_y := copy_values (p_y p) 0 vs 0 (Particles_get_num_of_particles p)\<rparr>"

definition Particles_set_px :: "particles \<Rightarrow> real list \<Rightarrow> particles" where
  "Particles_set_px p vs =
     p\<lparr>p_px := copy_values (p_px p) 0 vs 0 (Particles_get_num_of_particles p)\<rparr>"

definition Particles_set_py :: "particles \<Rightarrow> real list \<Rightarrow> particles" where
  "Particles_set_py p vs =
     p\<lparr>p_py := copy_values (p_py p) 0 vs 0 (Particles_get_num_of_particles p)\<rparr>"

definition Particles_set_zeta :: "particles \<Rightarrow> real list \<Rightarrow> particles" where
  "Particles_set_zeta p vs =
     p\<lparr>p_zeta := copy_values (p_zeta p) 0 vs 0 (Particles_get_num_of_particles p)\<rparr>"

definition Particles_set_psigma :: "particles \<Rightarrow> real list \<Rightarrow> particles" where
  "Particles_set_psigma p vs =
     p\<lparr>p_psigma := copy_values (p_psigma p) 0 vs 0 (Particles_get_num_of_particles p)\<rparr>"

definition Particles_set_delta :: "particles \<Rightarrow> real list \<Rightarrow> particles" where
  "Particles_set_delta p vs =
     p\<lparr>p_delta := copy_values (p_delta p) 0 vs 0 (Particles_get_num_of_particles p)\<rparr>"

definition Particles_set_rpp :: "particles \<Rightarrow> real list \<Rightarrow> particles" where
  "Particles_set_rpp p vs =
     p\<lparr>p_rpp := copy_values (p_rpp p) 0 vs 0 (Particles_get_num_of_particles p)\<rparr>"

definition Particles_set_rvv :: "particles \<Rightarrow> real list \<Rightarrow> particles" where
  "Particles_set_rvv p vs =
     p\<lparr>p_rvv := copy_values (p_rvv p) 0 vs 0 (Particles_get_num_of_particles p)\<rparr>"

definition Particles_set_chi :: "particles \<Rightarrow> real list \<Rightarrow> particles" where
  "Particles_set_chi p vs =
     p\<lparr>p_chi := copy_values (p_chi p) 0 vs 0 (Particles_get_num_of_particles p)\<rparr>"

definition Particles_set_charge_ratio :: "particles \<Rightarrow> real list \<Rightarrow> particles" where
  "Particles_set_charge_ratio p vs =
     p\<lparr>p_charge_ratio := copy_values (p_charge_ratio p) 0 vs 0 (Particles_get_num_of_particles p)\<rparr>"

definition Particles_set_particle_id :: "particles \<Rightarrow> i64 list \<Rightarrow> particles" where
  "Particles_set_particle_id p vs =
     p\<lparr>p_particle_id := copy_values (p_particle_id p) 0 vs 0 (Particles_get_num_of_particles p)\<rparr>"

definition Particles_set_at_element_id :: "particles \<Rightarrow> i64 list \<Rightarrow> particles" where
  "Particles_set_at_element_id p vs =
     p\<lparr>p_at_element_id := copy_values (p_at_element_id p) 0 vs 0 (Particles_get_num_of_particles p)\<rparr>"

definition Particles_set_at_turn :: "particles \<Rightarrow> i64 list \<Rightarrow> particles" where
  "Particles_set_at_turn p vs =
     p\<lparr>p_at_turn := copy_values (p_at_turn p) 0 vs 0 (Particles_get_num_of_particles p)\<rparr>"

definition Particles_set_state :: "particles \<Rightarrow> i64 list \<Rightarrow> particles" where
  "Particles_set_state p vs =
     p\<lparr>p_state := copy_values (p_state p) 0 vs 0 (Particles_get_num_of_particles p)\<rparr>"

definition Particles_scale_zeta_value :: "particles \<Rightarrow> i64 \<Rightarrow> real \<Rightarrow> particles" where
  [particle_ops]: "Particles_scale_zeta_value p ii factor =
     Particles_set_zeta_value p ii (Particles_get_zeta_value p ii * factor)"

subsection \<open>The view of one particle\<close>

lemma valid_idx_less: "particles_wf p \<Longrightarrow> valid_idx p ii \<Longrightarrow> nat ii < nat (num_particles p)"
  by (auto simp: valid_idx_def)

lemma get_q0_view [particle_simps]: "Particles_get_q0_value p ii = pv_q0 (particle_of p ii)"
  by (simp add: particle_of_def Particles_get_q0_value_def)

lemma get_mass0_view [particle_simps]: "Particles_get_mass0_value p ii = pv_mass0 (particle_of p ii)"
  by (simp add: particle_of_def Particles_get_mass0_value_def)

lemma get_beta0_view [particle_simps]: "Particles_get_beta0_value p ii = pv_beta0 (particle_of p ii)"
  by (simp add: particle_of_def Particles_get_beta0_value_def)

lemma get_gamma0_view [particle_simps]: "Particles_get_gamma0_value p ii = pv_gamma0 (particle_of p ii)"
  by (simp add: particle_of_def Particles_get_gamma0_value_def)

lemma get_p0c_view [particle_simps]: "Particles_get_p0c_value p ii = pv_p0c (particle_of p ii)"
  by (simp add: particle_of_def Particles_get_p0c_value_def)

lemma get_s_view [particle_simps]: "Particles_get_s_value p ii = pv_s (particle_of p ii)"
  by (simp add: particle_of_def Particles_get_s_value_def)

lemma get_x_view [particle_simps]: "Particles_get_x_value p ii = pv_x (particle_of p ii)"
  by (simp add: particle_of_def Particles_get_x_value_def)

lemma get_y_view [particle_simps]: "Particles_get_y_value p ii = pv_y (particle_of p ii)"
  by (simp add: particle_of_def Particles_get_y_value_def)

lemma get_px_view [particle_simps]: "Particles_get_px_value p ii = pv_px (particle_of p ii)"
  by (simp add: particle_of_def Particles_get_px_value_def)

lemma get_py_view [particle_simps]: "Particles_get_py_value p ii = pv_py (particle_of p ii)"
  by (simp add: particle_of_def Particles_get_py_value_def)

lemma get_zeta_view [particle_simps]: "Particles_get_zeta_value p ii = pv_zeta (particle_of p ii)"
  by (simp add: particle_of_def Particles_get_zeta_value_def)

lemma get_psigma_view [particle_simps]: "Particles_get_psigma_value p ii = pv_psigma (particle_of p ii)"
  by (simp add: particle_of_def Particles_get_psigma_value_def)

lemma get_delta_view [particle_simps]: "Particles_get_delta_value p ii = pv_delta (particle_of p ii)"
  by (simp add: particle_of_def Particles_get_delta_value_def)

lemma get_rpp_view [particle_simps]: "Particles_get_rpp_value p ii = pv_rpp (particle_of p ii)"
  by (simp add: particle_of_def Particles_get_rpp_value_def)

lemma get_rvv_view [particle_simps]: "Particles_get_rvv_value p ii = pv_rvv (particle_of p ii)"
  by (simp add: particle_of_def Particles_get_rvv_value_def)

lemma get_chi_view [particle_simps]: "Particles_get_chi_value p ii = pv_chi (particle_of p ii)"
  by (simp add: particle_of_def Particles_get_chi_value_def)

lemma get_charge_ratio_view [particle_simps]: "Particles_get_charge_ratio_value p ii = pv_charge_ratio (particle_of p ii)"
  by (simp add: particle_of_def Particles_get_charge_ratio_value_def)

lemma get_particle_id_view [particle_simps]: "Particles_get_particle_id_value p ii = pv_particle_id (particle_of p ii)"
  by (simp add: particle_of_def Particles_get_particle_id_value_def)

lemma get_at_element_id_view [particle_simps]: "Particles_get_at_element_id_value p ii = pv_at_element_id (particle_of p ii)"
  by (simp add: particle_of_def Particles_get_at_element_id_value_def)

lemma get_at_turn_view [particle_simps]: "Particles_get_at_turn_value p ii = pv_at_turn (particle_of p ii)"
  by (simp add: particle_of_def Particles_get_at_turn_value_def)

lemma get_state_view [particle_simps]: "Particles_get_state_value p ii = pv_state (particle_of p ii)"
  by (simp add: particle_of_def Particles_get_state_value_def)

lemma set_q0_view [particle_simps]:
  "particles_wf p \<Longrightarrow> valid_idx p ii \<Longrightarrow> 0 \<le> jj \<Longrightarrow>
   particle_of (Particles_set_q0_value p ii v) jj =
     (if jj = ii then (particle_of p ii)\<lparr>pv_q0 := v\<rparr> else particle_of p jj)"
  by (cases "jj = ii")
    (simp_all add: particle_of_def Particles_set_q0_value_def particles_wf_def valid_idx_def
      nth_list_update eq_nat_nat_iff nat_less_eq_zless)

lemma set_mass0_view [particle_simps]:
  "particles_wf p \<Longrightarrow> valid_idx p ii \<Longrightarrow> 0 \<le> jj \<Longrightarrow>
   particle_of (Particles_set_mass0_value p ii v) jj =
     (if jj = ii then (particle_of p ii)\<lparr>pv_mass0 := v\<rparr> else particle_of p jj)"
  by (cases "jj = ii")
    (simp_all add: particle_of_def Particles_set_mass0_value_def particles_wf_def valid_idx_def
      nth_list_update eq_nat_nat_iff nat_less_eq_zless)

lemma set_beta0_view [particle_simps]:
  "particles_wf p \<Longrightarrow> valid_idx p ii \<Longrightarrow> 0 \<le> jj \<Longrightarrow>
   particle_of (Particles_set_beta0_value p ii v) jj =
     (if jj = ii then (particle_of p ii)\<lparr>pv_beta0 := v\<rparr> else particle_of p jj)"
  by (cases "jj = ii")
    (simp_all add: particle_of_def Particles_set_beta0_value_def particles_wf_def valid_idx_def
      nth_list_update eq_nat_nat_iff nat_less_eq_zless)

lemma set_gamma0_view [particle_simps]:
  "particles_wf p \<Longrightarrow> valid_idx p ii \<Longrightarrow> 0 \<le> jj \<Longrightarrow>
   particle_of (Particles_set_gamma0_value p ii v) jj =
     (if jj = ii then (particle_of p ii)\<lparr>pv_gamma0 := v\<rparr> else particle_of p jj)"
  by (cases "jj = ii")
    (simp_all add: particle_of_def Particles_set_gamma0_value_def particles_wf_def valid_idx_def
      nth_list_update eq_nat_nat_iff nat_less_eq_zless)

lemma set_p0c_view [particle_simps]:
  "particles_wf p \<Longrightarrow> valid_idx p ii \<Longrightarrow> 0 \<le> jj \<Longrightarrow>
   particle_of (Particles_set_p0c_value p ii v) jj =
     (if jj = ii then (particle_of p ii)\<lparr>pv_p0c := v\<rparr> else particle_of p jj)"
  by (cases "jj = ii")
    (simp_all add: particle_of_def Particles_set_p0c_value_def particles_wf_def valid_idx_def
      nth_list_update eq_nat_nat_iff nat_less_eq_zless)

lemma set_s_view [particle_simps]:
  "particles_wf p \<Longrightarrow> valid_idx p ii \<Longrightarrow> 0 \<le> jj \<Longrightarrow>
   particle_of (Particles_set_s_value p ii v) jj =
     (if jj = ii then (particle_of p ii)\<lparr>pv_s := v\<rparr> else particle_of p jj)"
  by (cases "jj = ii")
    (simp_all add: particle_of_def Particles_set_s_value_def particles_wf_def valid_idx_def
      nth_list_update eq_nat_nat_iff nat_less_eq_zless)

lemma set_x_view [particle_simps]:
  "particles_wf p \<Longrightarrow> valid_idx p ii \<Longrightarrow> 0 \<le> jj \<Longrightarrow>
   particle_of (Particles_set_x_value p ii v) jj =
     (if jj = ii then (particle_of p ii)\<lparr>pv_x := v\<rparr> else particle_of p jj)"
  by (cases "jj = ii")
    (simp_all add: particle_of_def Particles_set_x_value_def particles_wf_def valid_idx_def
      nth_list_update eq_nat_nat_iff nat_less_eq_zless)

lemma set_y_view [particle_simps]:
  "particles_wf p \<Longrightarrow> valid_idx p ii \<Longrightarrow> 0 \<le> jj \<Longrightarrow>
   particle_of (Particles_set_y_value p ii v) jj =
     (if jj = ii then (particle_of p ii)\<lparr>pv_y := v\<rparr> else particle_of p jj)"
  by (cases "jj = ii")
    (simp_all add: particle_of_def Particles_set_y_value_def particles_wf_def valid_idx_def
      nth_list_update eq_nat_nat_iff nat_less_eq_zless)

lemma set_px_view [particle_simps]:
  "particles_wf p \<Longrightarrow> valid_idx p ii \<Longrightarrow> 0 \<le> jj \<Longrightarrow>
   particle_of (Particles_set_px_value p ii v) jj =
     (if jj = ii then (particle_of p ii)\<lparr>pv_px := v\<rparr> else particle_of p jj)"
  by (cases "jj = ii")
    (simp_all add: particle_of_def Particles_set_px_value_def particles_wf_def valid_idx_def
      nth_list_update eq_nat_nat_iff nat_less_eq_zless)

lemma set_py_view [particle_simps]:
  "particles_wf p \<Longrightarrow> valid_idx p ii \<Longrightarrow> 0 \<le> jj \<Longrightarrow>
   particle_of (Particles_set_py_value p ii v) jj =
     (if jj = ii then (particle_of p ii)\<lparr>pv_py := v\<rparr> else particle_of p jj)"
  by (cases "jj = ii")
    (simp_all add: particle_of_def Particles_set_py_value_def particles_wf_def valid_idx_def
      nth_list_update eq_nat_nat_iff nat_less_eq_zless)

lemma set_zeta_view [particle_simps]:
  "particles_wf p \<Longrightarrow> valid_idx p ii \<Longrightarrow> 0 \<le> jj \<Longrightarrow>
   particle_of (Particles_set_zeta_value p ii v) jj =
     (if jj = ii then (particle_of p ii)\<lparr>pv_zeta := v\<rparr> else particle_of p jj)"
  by (cases "jj = ii")
    (simp_all add: particle_of_def Particles_set_zeta_value_def particles_wf_def valid_idx_def
      nth_list_update eq_nat_nat_iff nat_less_eq_zless)

lemma set_psigma_view [particle_simps]:
  "particles_wf p \<Longrightarrow> valid_idx p ii \<Longrightarrow> 0 \<le> jj \<Longrightarrow>
   particle_of (Particles_set_psigma_value p ii v) jj =
     (if jj = ii then (particle_of p ii)\<lparr>pv_psigma := v\<rparr> else particle_of p jj)"
  by (cases "jj = ii")
    (simp_all add: particle_of_def Particles_set_psigma_value_def particles_wf_def valid_idx_def
      nth_list_update eq_nat_nat_iff nat_less_eq_zless)

lemma set_delta_view [particle_simps]:
  "particles_wf p \<Longrightarrow> valid_idx p ii \<Longrightarrow> 0 \<le> jj \<Longrightarrow>
   particle_of (Particles_set_delta_value p ii v) jj =
     (if jj = ii then (particle_of p ii)\<lparr>pv_delta := v\<rparr> else particle_of p jj)"
  by (cases "jj = ii")
    (simp_all add: particle_of_def Particles_set_delta_value_def particles_wf_def valid_idx_def
      nth_list_update eq_nat_nat_iff nat_less_eq_zless)

lemma set_rpp_view [particle_simps]:
  "particles_wf p \<Longrightarrow> valid_idx p ii \<Longrightarrow> 0 \<le> jj \<Longrightarrow>
   particle_of (Particles_set_rpp_value p ii v) jj =
     (if jj = ii then (particle_of p ii)\<lparr>pv_rpp := v\<rparr> else particle_of p jj)"
  by (cases "jj = ii")
    (simp_all add: particle_of_def Particles_set_rpp_value_def particles_wf_def valid_idx_def
      nth_list_update eq_nat_nat_iff nat_less_eq_zless)

lemma set_rvv_view [particle_simps]:
  "particles_wf p \<Longrightarrow> valid_idx p ii \<Longrightarrow> 0 \<le> jj \<Longrightarrow>
   particle_of (Particles_set_rvv_value p ii v) jj =
     (if jj = ii then (particle_of p ii)\<lparr>pv_rvv := v\<rparr> else particle_of p jj)"
  by (cases "jj = ii")
    (simp_all add: particle_of_def Particles_set_rvv_value_def particles_wf_def valid_idx_def
      nth_list_update eq_nat_nat_iff nat_less_eq_zless)

lemma set_chi_view [particle_simps]:
  "particles_wf p \<Longrightarrow> valid_idx p ii \<Longrightarrow> 0 \<le> jj \<Longrightarrow>
   particle_of (Particles_set_chi_value p ii v) jj =
     (if jj = ii then (particle_of p ii)\<lparr>pv_chi := v\<rparr> else particle_of p jj)"
  by (cases "jj = ii")
    (simp_all add: particle_of_def Particles_set_chi_value_def particles_wf_def valid_idx_def
      nth_list_update eq_nat_nat_iff nat_less_eq_zless)

lemma set_charge_ratio_view [particle_simps]:
  "particles_wf p \<Longrightarrow> valid_idx p ii \<Longrightarrow> 0 \<le> jj \<Longrightarrow>
   particle_of (Particles_set_charge_ratio_value p ii v) jj =
     (if jj = ii then (particle_of p ii)\<lparr>pv_charge_ratio := v\<rparr> else particle_of p jj)"
  by (cases "jj = ii")
    (simp_all add: particle_of_def Particles_set_charge_ratio_value_def particles_wf_def valid_idx_def
      nth_list_update eq_nat_nat_iff nat_less_eq_zless)

lemma set_particle_id_view [particle_simps]:
  "particles_wf p \<Longrightarrow> valid_idx p ii \<Longrightarrow> 0 \<le> jj \<Longrightarrow>
   particle_of (Particles_set_particle_id_value p ii v) jj =
     (if jj = ii then (particle_of p ii)\<lparr>pv_particle_id := v\<rparr> else particle_of p jj)"
  by (cases "jj = ii")
    (simp_all add: particle_of_def Particles_set_particle_id_value_def particles_wf_def valid_idx_def
      nth_list_update eq_nat_nat_iff nat_less_eq_zless)

lemma set_at_element_id_view [particle_simps]:
  "particles_wf p \<Longrightarrow> valid_idx p ii \<Longrightarrow> 0 \<le> jj \<Longrightarrow>
   particle_of (Particles_set_at_element_id_value p ii v) jj =
     (if jj = ii then (particle_of p ii)\<lparr>pv_at_element_id := v\<rparr> else particle_of p jj)"
  by (cases "jj = ii")
    (simp_all add: particle_of_def Particles_set_at_element_id_value_def particles_wf_def valid_idx_def
      nth_list_update eq_nat_nat_iff nat_less_eq_zless)

lemma set_at_turn_view [particle_simps]:
  "particles_wf p \<Longrightarrow> valid_idx p ii \<Longrightarrow> 0 \<le> jj \<Longrightarrow>
   particle_of (Particles_set_at_turn_value p ii v) jj =
     (if jj = ii then (particle_of p ii)\<lparr>pv_at_turn := v\<rparr> else particle_of p jj)"
  by (cases "jj = ii")
    (simp_all add: particle_of_def Particles_set_at_turn_value_def particles_wf_def valid_idx_def
      nth_list_update eq_nat_nat_iff nat_less_eq_zless)

lemma set_state_view [particle_simps]:
  "particles_wf p \<Longrightarrow> valid_idx p ii \<Longrightarrow> 0 \<le> jj \<Longrightarrow>
   particle_of (Particles_set_state_value p ii v) jj =
     (if jj = ii then (particle_of p ii)\<lparr>pv_state := v\<rparr> else particle_of p jj)"
  by (cases "jj = ii")
    (simp_all add: particle_of_def Particles_set_state_value_def particles_wf_def valid_idx_def
      nth_list_update eq_nat_nat_iff nat_less_eq_zless)

lemma set_value_wf [particle_simps]:
  "particles_wf (Particles_set_q0_value p ii v_q0) = particles_wf p"
  "particles_wf (Particles_set_mass0_value p ii v_mass0) = particles_wf p"
  "particles_wf (Particles_set_beta0_value p ii v_beta0) = particles_wf p"
  "particles_wf (Particles_set_gamma0_value p ii v_gamma0) = particles_wf p"
  "particles_wf (Particles_set_p0c_value p ii v_p0c) = particles_wf p"
  "particles_wf (Particles_set_s_value p ii v_s) = particles_wf p"
  "particles_wf (Particles_set_x_value p ii v_x) = particles_wf p"
  "particles_wf (Particles_set_y_value p ii v_y) = particles_wf p"
  "particles_wf (Particles_set_px_value p ii v_px) = particles_wf p"
  "particles_wf (Particles_set_py_value p ii v_py) = particles_wf p"
  "particles_wf (Particles_set_zeta_value p ii v_zeta) = particles_wf p"
  "particles_wf (Particles_set_psigma_value p ii v_psigma) = particles_wf p"
  "particles_wf (Particles_set_delta_value p ii v_delta) = particles_wf p"
  "particles_wf (Particles_set_rpp_value p ii v_rpp) = particles_wf p"
  "particles_wf (Particles_set_rvv_value p ii v_rvv) = particles_wf p"
  "particles_wf (Particles_set_chi_value p ii v_chi) = particles_wf p"
  "particles_wf (Particles_set_charge_ratio_value p ii v_charge_ratio) = particles_wf p"
  "particles_wf (Particles_set_particle_id_value p ii v_particle_id) = particles_wf p"
  "particles_wf (Particles_set_at_element_id_value p ii v_at_element_id) = particles_wf p"
  "particles_wf (Particles_set_at_turn_value p ii v_at_turn) = particles_wf p"
  "particles_wf (Particles_set_state_value p ii v_state) = particles_wf p"
  by (simp_all add: particles_wf_def Particles_set_q0_value_def
    Particles_set_mass0_value_def
    Particles_set_beta0_value_def
    Particles_set_gamma0_value_def
    Particles_set_p0c_value_def
    Particles_set_s_value_def
    Particles_set_x_value_def
    Particles_set_y_value_def
    Particles_set_px_value_def
    Particles_set_py_value_def
    Particles_set_zeta_value_def
    Particles_set_psigma_value_def
    Particles_set_delta_value_def
    Particles_set_rpp_value_def
    Particles_set_rvv_value_def
    Particles_set_chi_value_def
    Particles_set_charge_ratio_value_def
    Particles_set_particle_id_value_def
    Particles_set_at_element_id_value_def
    Particles_set_at_turn_value_def
    Particles_set_state_value_def)

lemma set_value_num [particle_simps]:
  "num_particles (Particles_set_q0_value p ii v_q0) = num_particles p"
  "num_particles (Particles_set_mass0_value p ii v_mass0) = num_particles p"
  "num_particles (Particles_set_beta0_value p ii v_beta0) = num_particles p"
  "num_particles (Particles_set_gamma0_value p ii v_gamma0) = num_particles p"
  "num_particles (Particles_set_p0c_value p ii v_p0c) = num_particles p"
  "num_particles (Particles_set_s_value p ii v_s) = num_particles p"
  "num_particles (Particles_set_x_value p ii v_x) = num_particles p"
  "num_particles (Particles_set_y_value p ii v_y) = num_particles p"
  "num_particles (Particles_set_px_value p ii v_px) = num_particles p"
  "num_particles (Particles_set_py_value p ii v_py) = num_particles p"
  "num_particles (Particles_set_zeta_value p ii v_zeta) = num_particles p"
  "num_particles (Particles_set_psigma_value p ii v_psigma) = num_particles p"
  "num_particles (Particles_set_delta_value p ii v_delta) = num_particles p"
  "num_particles (Particles_set_rpp_value p ii v_rpp) = num_particles p"
  "num_particles (Particles_set_rvv_value p ii v_rvv) = num_particles p"
  "num_particles (Particles_set_chi_value p ii v_chi) = num_particles p"
  "num_particles (Particles_set_charge_ratio_value p ii v_charge_ratio) = num_particles p"
  "num_particles (Particles_set_particle_id_value p ii v_particle_id) = num_particles p"
  "num_particles (Particles_set_at_element_id_value p ii v_at_element_id) = num_particles p"
  "num_particles (Particles_set_at_turn_value p ii v_at_turn) = num_particles p"
  "num_particles (Particles_set_state_value p ii v_state) = num_particles p"
  by (simp_all add: Particles_set_q0_value_def
    Particles_set_mass0_value_def
    Particles_set_beta0_value_def
    Particles_set_gamma0_value_def
    Particles_set_p0c_value_def
    Particles_set_s_value_def
    Particles_set_x_value_def
    Particles_set_y_value_def
    Particles_set_px_value_def
    Particles_set_py_value_def
    Particles_set_zeta_value_def
    Particles_set_psigma_value_def
    Particles_set_delta_value_def
    Particles_set_rpp_value_def
    Particles_set_rvv_value_def
    Particles_set_chi_value_def
    Particles_set_charge_ratio_value_def
    Particles_set_particle_id_value_def
    Particles_set_at_element_id_value_def
    Particles_set_at_turn_value_def
    Particles_set_state_value_def)

lemma set_value_valid [particle_simps]:
  "valid_idx (Particles_set_q0_value p ii v_q0) kk = valid_idx p kk"
  "valid_idx (Particles_set_mass0_value p ii v_mass0) kk = valid_idx p kk"
  "valid_idx (Particles_set_beta0_value p ii v_beta0) kk = valid_idx p kk"
  "valid_idx (Particles_set_gamma0_value p ii v_gamma0) kk = valid_idx p kk"
  "valid_idx (Particles_set_p0c_value p ii v_p0c) kk = valid_idx p kk"
  "valid_idx (Particles_set_s_value p ii v_s) kk = valid_idx p kk"
  "valid_idx (Particles_set_x_value p ii v_x) kk = valid_idx p kk"
  "valid_idx (Particles_set_y_value p ii v_y) kk = valid_idx p kk"
  "valid_idx (Particles_set_px_value p ii v_px) kk = valid_idx p kk"
  "valid_idx (Particles_set_py_value p ii v_py) kk = valid_idx p kk"
  "valid_idx (Particles_set_zeta_value p ii v_zeta) kk = valid_idx p kk"
  "valid_idx (Particles_set_psigma_value p ii v_psigma) kk = valid_idx p kk"
  "valid_idx (Particles_set_delta_value p ii v_delta) kk = valid_idx p kk"
  "valid_idx (Particles_set_rpp_value p ii v_rpp) kk = valid_idx p kk"
  "valid_idx (Particles_set_rvv_value p ii v_rvv) kk = valid_idx p kk"
  "valid_idx (Particles_set_chi_value p ii v_chi) kk = valid_idx p kk"
  "valid_idx (Particles_set_charge_ratio_value p ii v_charge_ratio) kk = valid_idx p kk"
  "valid_idx (Particles_set_particle_id_value p ii v_particle_id) kk = valid_idx p kk"
  "valid_idx (Particles_set_at_element_id_value p ii v_at_element_id) kk = valid_idx p kk"
  "valid_idx (Particles_set_at_turn_value p ii v_at_turn) kk = valid_idx p kk"
  "valid_idx (Particles_set_state_value p ii v_state) kk = valid_idx p kk"
  by (simp_all add: valid_idx_def set_value_num)

lemma particles_eqI:
  assumes wf: "particles_wf p" "particles_wf q"
    and num: "num_particles p = num_particles q"
    and views: "\<And>ii. valid_idx p ii \<Longrightarrow> particle_of p ii = particle_of q ii"
  shows "p = q"
proof -
  have pointwise: "particle_of p (int k) = particle_of q (int k)" if "k < nat (num_particles p)" for k
    using that wf(1) by (intro views) (auto simp: valid_idx_def)
  show ?thesis
  proof (rule particles.equality)
    show "num_particles p = num_particles q" by (rule num)
    show "p_q0 p = p_q0 q"
    proof (rule nth_equalityI)
      show "length (p_q0 p) = length (p_q0 q)" using wf num by (simp add: particles_wf_def)
    next
      fix k assume "k < length (p_q0 p)"
      then have "k < nat (num_particles p)" using wf(1) by (simp add: particles_wf_def)
      then show "p_q0 p ! k = p_q0 q ! k"
        using pointwise [of k] by (simp add: particle_of_def)
    qed
    show "p_mass0 p = p_mass0 q"
    proof (rule nth_equalityI)
      show "length (p_mass0 p) = length (p_mass0 q)" using wf num by (simp add: particles_wf_def)
    next
      fix k assume "k < length (p_mass0 p)"
      then have "k < nat (num_particles p)" using wf(1) by (simp add: particles_wf_def)
      then show "p_mass0 p ! k = p_mass0 q ! k"
        using pointwise [of k] by (simp add: particle_of_def)
    qed
    show "p_beta0 p = p_beta0 q"
    proof (rule nth_equalityI)
      show "length (p_beta0 p) = length (p_beta0 q)" using wf num by (simp add: particles_wf_def)
    next
      fix k assume "k < length (p_beta0 p)"
      then have "k < nat (num_particles p)" using wf(1) by (simp add: particles_wf_def)
      then show "p_beta0 p ! k = p_beta0 q ! k"
        using pointwise [of k] by (simp add: particle_of_def)
    qed
    show "p_gamma0 p = p_gamma0 q"
    proof (rule nth_equalityI)
      show "length (p_gamma0 p) = length (p_gamma0 q)" using wf num by (simp add: particles_wf_def)
    next
      fix k assume "k < length (p_gamma0 p)"
      then have "k < nat (num_particles p)" using wf(1) by (simp add: particles_wf_def)
      then show "p_gamma0 p ! k = p_gamma0 q ! k"
        using pointwise [of k] by (simp add: particle_of_def)
    qed
    show "p_p0c p = p_p0c q"
    proof (rule nth_equalityI)
      show "length (p_p0c p) = length (p_p0c q)" using wf num by (simp add: particles_wf_def)
    next
      fix k assume "k < length (p_p0c p)"
      then have "k < nat (num_particles p)" using wf(1) by (simp add: particles_wf_def)
      then show "p_p0c p ! k = p_p0c q ! k"
        using pointwise [of k] by (simp add: particle_of_def)
    qed
    show "p_s p = p_s q"
    proof (rule nth_equalityI)
      show "length (p_s p) = length (p_s q)" using wf num by (simp add: particles_wf_def)
    next
      fix k assume "k < length (p_s p)"
      then have "k < nat (num_particles p)" using wf(1) by (simp add: particles_wf_def)
      then show "p_s p ! k = p_s q ! k"
        using pointwise [of k] by (simp add: particle_of_def)
    qed
    show "p_x p = p_x q"
    proof (rule nth_equalityI)
      show "length (p_x p) = length (p_x q)" using wf num by (simp add: particles_wf_def)
    next
      fix k assume "k < length (p_x p)"
      then have "k < nat (num_particles p)" using wf(1) by (simp add: particles_wf_def)
      then show "p_x p ! k = p_x q ! k"
        using pointwise [of k] by (simp add: particle_of_def)
    qed
    show "p_y p = p_y q"
    proof (rule nth_equalityI)
      show "length (p_y p) = length (p_y q)" using wf num by (simp add: particles_wf_def)
    next
      fix k assume "k < length (p_y p)"
      then have "k < nat (num_particles p)" using wf(1) by (simp add: particles_wf_def)
      then show "p_y p ! k = p_y q ! k"
        using pointwise [of k] by (simp add: particle_of_def)
    qed
    show "p_px p = p_px q"
    proof (rule nth_equalityI)
      show "length (p_px p) = length (p_px q)" using wf num by (simp add: particles_wf_def)
    next
      fix k assume "k < length (p_px p)"
      then have "k < nat (num_particles p)" using wf(1) by (simp add: particles_wf_def)
      then show "p_px p ! k = p_px q ! k"
        using pointwise [of k] by (simp add: particle_of_def)
    qed
    show "p_py p = p_py q"
    proof (rule nth_equalityI)
      show "length (p_py p) = length (p_py q)" using wf num by (simp add: particles_wf_def)
    next
      fix k assume "k < length (p_py p)"
      then have "k < nat (num_particles p)" using wf(1) by (simp add: particles_wf_def)
      then show "p_py p ! k = p_py q ! k"
        using pointwise [of k] by (simp add: particle_of_def)
    qed
    show "p_zeta p = p_zeta q"
    proof (rule nth_equalityI)
      show "length (p_zeta p) = length (p_zeta q)" using wf num by (simp add: particles_wf_def)
    next
      fix k assume "k < length (p_zeta p)"
      then have "k < nat (num_particles p)" using wf(1) by (simp add: particles_wf_def)
      then show "p_zeta p ! k = p_zeta q ! k"
        using pointwise [of k] by (simp add: particle_of_def)
    qed
    show "p_psigma p = p_psigma q"
    proof (rule nth_equalityI)
      show "length (p_psigma p) = length (p_psigma q)" using wf num by (simp add: particles_wf_def)
    next
      fix k assume "k < length (p_psigma p)"
      then have "k < nat (num_particles p)" using wf(1) by (simp add: particles_wf_def)
      then show "p_psigma p ! k = p_psigma q ! k"
        using pointwise [of k] by (simp add: particle_of_def)
    qed
    show "p_delta p = p_delta q"
    proof (rule nth_equalityI)
      show "length (p_delta p) = length (p_delta q)" using wf num by (simp add: particles_wf_def)
    next
      fix k assume "k < length (p_delta p)"
      then have "k < nat (num_particles p)" using wf(1) by (simp add: particles_wf_def)
      then show "p_delta p ! k = p_delta q ! k"
        using pointwise [of k] by (simp add: particle_of_def)
    qed
    show "p_rpp p = p_rpp q"
    proof (rule nth_equalityI)
      show "length (p_rpp p) = length (p_rpp q)" using wf num by (simp add: particles_wf_def)
    next
      fix k assume "k < length (p_rpp p)"
      then have "k < nat (num_particles p)" using wf(1) by (simp add: particles_wf_def)
      then show "p_rpp p ! k = p_rpp q ! k"
        using pointwise [of k] by (simp add: particle_of_def)
    qed
    show "p_rvv p = p_rvv q"
    proof (rule nth_equalityI)
      show "length (p_rvv p) = length (p_rvv q)" using wf num by (simp add: particles_wf_def)
    next
      fix k assume "k < length (p_rvv p)"
      then have "k < nat (num_particles p)" using wf(1) by (simp add: particles_wf_def)
      then show "p_rvv p ! k = p_rvv q ! k"
        using pointwise [of k] by (simp add: particle_of_def)
    qed
    show "p_chi p = p_chi q"
    proof (rule nth_equalityI)
      show "length (p_chi p) = length (p_chi q)" using wf num by (simp add: particles_wf_def)
    next
      fix k assume "k < length (p_chi p)"
      then have "k < nat (num_particles p)" using wf(1) by (simp add: particles_wf_def)
      then show "p_chi p ! k = p_chi q ! k"
        using pointwise [of k] by (simp add: particle_of_def)
    qed
    show "p_charge_ratio p = p_charge_ratio q"
    proof (rule nth_equalityI)
      show "length (p_charge_ratio p) = length (p_charge_ratio q)" using wf num by (simp add: particles_wf_def)
    next
      fix k assume "k < length (p_charge_ratio p)"
      then have "k < nat (num_particles p)" using wf(1) by (simp add: particles_wf_def)
      then show "p_charge_ratio p ! k = p_charge_ratio q ! k"
        using pointwise [of k] by (simp add: particle_of_def)
    qed
    show "p_particle_id p = p_particle_id q"
    proof (rule nth_equalityI)
      show "length (p_particle_id p) = length (p_particle_id q)" using wf num by (simp add: particles_wf_def)
    next
      fix k assume "k < length (p_particle_id p)"
      then have "k < nat (num_particles p)" using wf(1) by (simp add: particles_wf_def)
      then show "p_particle_id p ! k = p_particle_id q ! k"
        using pointwise [of k] by (simp add: particle_of_def)
    qed
    show "p_at_element_id p = p_at_element_id q"
    proof (rule nth_equalityI)
      show "length (p_at_element_id p) = length (p_at_element_id q)" using wf num by (simp add: particles_wf_def)
    next
      fix k assume "k < length (p_at_element_id p)"
      then have "k < nat (num_particles p)" using wf(1) by (simp add: particles_wf_def)
      then show "p_at_element_id p ! k = p_at_element_id q ! k"
        using pointwise [of k] by (simp add: particle_of_def)
    qed
    show "p_at_turn p = p_at_turn q"
    proof (rule nth_equalityI)
      show "length (p_at_turn p) = length (p_at_turn q)" using wf num by (simp add: particles_wf_def)
    next
      fix k assume "k < length (p_at_turn p)"
      then have "k < nat (num_particles p)" using wf(1) by (simp add: particles_wf_def)
      then show "p_at_turn p ! k = p_at_turn q ! k"
        using pointwise [of k] by (simp add: particle_of_def)
    qed
    show "p_state p = p_state q"
    proof (rule nth_equalityI)
      show "length (p_state p) = length (p_state q)" using wf num by (simp add: particles_wf_def)
    next
      fix k assume "k < length (p_state p)"
      then have "k < nat (num_particles p)" using wf(1) by (simp add: particles_wf_def)
      then show "p_state p ! k = p_state q ! k"
        using pointwise [of k] by (simp add: particle_of_def)
    qed
  qed simp_all
qed


lemma length_copy_values [simp]:
  assumes "0 \<le> di" "0 \<le> n" "nat di + nat n \<le> length dst" "nat si + nat n \<le> length src"
  shows "length (copy_values dst di src si n) = length dst"
  using assms by (simp add: copy_values_def)

lemma nth_copy_values:
  assumes "0 \<le> di" "0 \<le> n" "nat di + nat n \<le> length dst" "nat si + nat n \<le> length src"
    and "k < length dst"
  shows "copy_values dst di src si n ! k =
     (if nat di \<le> k \<and> k < nat di + nat n then src ! (nat si + (k - nat di)) else dst ! k)"
proof -
  define d c where "d = nat di" and "c = nat n"
  have lens: "length (take d dst) = d" "length (take c (drop (nat si) src)) = c"
    using assms by (simp_all add: d_def c_def)
  consider "k < d" | "d \<le> k" "k < d + c" | "d + c \<le> k" by linarith
  then show ?thesis
  proof cases
    case 2
    then have "k - d < c" by simp
    then show ?thesis
      using lens 2 by (auto simp: copy_values_def nth_append simp flip: d_def c_def)
  next
    case 3
    then have "\<not> k - d < c" "\<not> k < d" by simp_all
    then have "copy_values dst di src si n ! k = drop (d + c) dst ! (k - d - c)"
      using lens by (auto simp: copy_values_def nth_append simp flip: d_def c_def)
    also have "\<dots> = dst ! k" using 3 assms(5) by (subst nth_drop) simp_all
    finally show ?thesis using 3 by (simp flip: d_def c_def)
  qed (use lens in \<open>simp_all add: copy_values_def nth_append flip: d_def c_def\<close>)
qed

lemma length_set_values [simp]:
  assumes "0 \<le> di" "0 \<le> n" "nat di + nat n \<le> length dst"
  shows "length (set_values dst di n v) = length dst"
  using assms by (simp add: set_values_def)

lemma nth_set_values:
  assumes "0 \<le> di" "0 \<le> n" "nat di + nat n \<le> length dst" and "k < length dst"
  shows "set_values dst di n v ! k =
     (if nat di \<le> k \<and> k < nat di + nat n then v else dst ! k)"
proof -
  have "set_values dst di n v = copy_values dst di (replicate (nat n) v) 0 n"
    by (simp add: set_values_def copy_values_def)
  moreover have "k - nat di < nat n" if "k < nat di + nat n" "nat di \<le> k" using that by simp
  ultimately show ?thesis using assms by (auto simp: nth_copy_values)
qed

subsection \<open>Operations that act on one particle at a time\<close>

text \<open>
  \<open>for_range f a b\<close> is the loop \<open>for( ii = a ; ii < b ; ++ii ) f( p, ii );\<close>. A \<open>particle_kernel\<close> is an
  operation on particle \<open>ii\<close> that is the map \<open>g ii\<close> on the view of that particle and leaves all other
  particles alone: the contract all single-particle operations and all element maps share. Loops over
  a kernel act pointwise, and neither the order in which the particles are processed nor a partition of
  them over several workers matters.
\<close>

definition for_range :: "(particles \<Rightarrow> i64 \<Rightarrow> particles) \<Rightarrow> i64 \<Rightarrow> i64 \<Rightarrow> particles \<Rightarrow> particles" where
  "for_range f a b p = fold (\<lambda>ii q. f q ii) [a..b - 1] p"

locale particle_kernel =
  fixes f :: "particles \<Rightarrow> i64 \<Rightarrow> particles"
    and g :: "i64 \<Rightarrow> particle \<Rightarrow> particle"
  assumes kernel_wf: "particles_wf p \<Longrightarrow> valid_idx p ii \<Longrightarrow> particles_wf (f p ii)"
    and kernel_num: "num_particles (f p ii) = num_particles p"
    and kernel_view: "particles_wf p \<Longrightarrow> valid_idx p ii \<Longrightarrow> 0 \<le> jj \<Longrightarrow>
      particle_of (f p ii) jj = (if jj = ii then g ii (particle_of p ii) else particle_of p jj)"
begin

lemma kernel_valid: "valid_idx (f p ii) jj = valid_idx p jj"
  by (simp add: valid_idx_def kernel_num)

lemma run_invariant:
  assumes "particles_wf p" "\<forall>ii\<in>set iis. valid_idx p ii"
  shows "particles_wf (fold (\<lambda>ii q. f q ii) iis p)"
    and "num_particles (fold (\<lambda>ii q. f q ii) iis p) = num_particles p"
  using assms by (induction iis arbitrary: p) (simp_all add: kernel_wf kernel_valid kernel_num)

lemma run_view:
  assumes "particles_wf p" "\<forall>ii\<in>set iis. valid_idx p ii" "distinct iis" "0 \<le> jj"
  shows "particle_of (fold (\<lambda>ii q. f q ii) iis p) jj =
     (if jj \<in> set iis then g jj (particle_of p jj) else particle_of p jj)"
  using assms by (induction iis arbitrary: p) (auto simp: kernel_wf kernel_valid kernel_view)

text \<open>The order of the particles does not matter.\<close>

lemma run_order:
  assumes wf: "particles_wf p" and valid: "\<forall>ii\<in>set iis. valid_idx p ii"
    and d: "distinct iis" "distinct iis'" and same: "set iis' = set iis"
  shows "fold (\<lambda>ii q. f q ii) iis' p = fold (\<lambda>ii q. f q ii) iis p"
proof (rule particles_eqI)
  have valid': "\<forall>ii\<in>set iis'. valid_idx p ii" using valid same by simp
  show "particles_wf (fold (\<lambda>ii q. f q ii) iis' p)" by (rule run_invariant(1) [OF wf valid'])
  show "particles_wf (fold (\<lambda>ii q. f q ii) iis p)" by (rule run_invariant(1) [OF wf valid])
  show "num_particles (fold (\<lambda>ii q. f q ii) iis' p) = num_particles (fold (\<lambda>ii q. f q ii) iis p)"
    using run_invariant(2) [OF wf valid] run_invariant(2) [OF wf valid'] by simp
  fix ii assume "valid_idx (fold (\<lambda>ii q. f q ii) iis' p) ii"
  then have "0 \<le> ii" by (simp add: valid_idx_def)
  then show "particle_of (fold (\<lambda>ii q. f q ii) iis' p) ii =
      particle_of (fold (\<lambda>ii q. f q ii) iis p) ii"
    using run_view [OF wf valid d(1)] run_view [OF wf valid' d(2)] same by simp
qed

lemma for_range_invariant:
  assumes "particles_wf p" "0 \<le> a" "b \<le> num_particles p"
  shows "particles_wf (for_range f a b p)" "num_particles (for_range f a b p) = num_particles p"
  using run_invariant [of p "[a..b - 1]"] assms by (auto simp: for_range_def valid_idx_def)

lemma for_range_view:
  assumes "particles_wf p" "0 \<le> a" "b \<le> num_particles p" "0 \<le> jj"
  shows "particle_of (for_range f a b p) jj =
     (if a \<le> jj \<and> jj < b then g jj (particle_of p jj) else particle_of p jj)"
  using run_view [of p "[a..b - 1]" jj] assms by (auto simp: for_range_def valid_idx_def)

lemma for_range_num: "num_particles (for_range f a b p) = num_particles p"
proof -
  have "num_particles (fold (\<lambda>ii q. f q ii) iis p) = num_particles p" for iis
    by (induction iis arbitrary: p) (simp_all add: kernel_num)
  then show ?thesis by (simp add: for_range_def)
qed

end

text \<open>The identity, compositions and guarded operations are kernels again.\<close>

lemma particle_kernel_id: "particle_kernel (\<lambda>p ii. p) (\<lambda>ii v. v)"
  by unfold_locales simp_all

lemma particle_kernel_compose:
  assumes f: "particle_kernel f g" and f': "particle_kernel f' g'"
  shows "particle_kernel (\<lambda>p ii. f' (f p ii) ii) (\<lambda>ii v. g' ii (g ii v))"
proof (rule particle_kernel.intro)
  fix p ii jj
  show "num_particles (f' (f p ii) ii) = num_particles p"
    by (simp add: particle_kernel.kernel_num [OF f] particle_kernel.kernel_num [OF f'])
  assume wf: "particles_wf p" and ii: "valid_idx p ii"
  have wf1: "particles_wf (f p ii)" and ii1: "valid_idx (f p ii) ii"
    using wf ii particle_kernel.kernel_wf [OF f] particle_kernel.kernel_valid [OF f] by simp_all
  show "particles_wf (f' (f p ii) ii)"
    by (rule particle_kernel.kernel_wf [OF f' wf1 ii1])
  assume jj: "0 \<le> (jj :: i64)"
  have "0 \<le> ii" using ii by (simp add: valid_idx_def)
  then show "particle_of (f' (f p ii) ii) jj =
      (if jj = ii then g' ii (g ii (particle_of p ii)) else particle_of p jj)"
    using particle_kernel.kernel_view [OF f' wf1 ii1] particle_kernel.kernel_view [OF f wf ii] jj
    by simp
qed

lemma particle_kernel_guard:
  assumes f: "particle_kernel f g" and c: "\<And>p ii. c p ii \<longleftrightarrow> c' (particle_of p ii)"
  shows "particle_kernel (\<lambda>p ii. if c p ii then f p ii else p)
    (\<lambda>ii v. if c' v then g ii v else v)"
  by (rule particle_kernel.intro)
    (auto simp: c particle_kernel.kernel_num [OF f] particle_kernel.kernel_wf [OF f]
      particle_kernel.kernel_view [OF f])

text \<open>An operation whose parameter is computed from the view of its particle.\<close>

lemma particle_kernel_parameter:
  assumes "\<And>c. particle_kernel (F c) (G c)"
  shows "particle_kernel (\<lambda>p ii. F (h (particle_of p ii)) p ii) (\<lambda>ii v. G (h v) ii v)"
  by (rule particle_kernel.intro)
    (simp_all add: particle_kernel.kernel_wf [OF assms] particle_kernel.kernel_num [OF assms]
      particle_kernel.kernel_view [OF assms])

subsection \<open>A bunch on the reference orbit\<close>

text \<open>
  \<open>n\<close> massless particles on the reference orbit, with ids 0 to \<open>n - 1\<close>: the concrete particle sets
  on which the properties of the development are instantiated.
\<close>

definition reference_particles :: "i64 \<Rightarrow> particles" where
  "reference_particles n =
     \<lparr>num_particles = n,
      p_q0 = replicate (nat n) 1,
      p_mass0 = replicate (nat n) 0,
      p_beta0 = replicate (nat n) 1,
      p_gamma0 = replicate (nat n) 1,
      p_p0c = replicate (nat n) 1,
      p_s = replicate (nat n) 0,
      p_x = replicate (nat n) 0,
      p_y = replicate (nat n) 0,
      p_px = replicate (nat n) 0,
      p_py = replicate (nat n) 0,
      p_zeta = replicate (nat n) 0,
      p_psigma = replicate (nat n) 0,
      p_delta = replicate (nat n) 0,
      p_rpp = replicate (nat n) 1,
      p_rvv = replicate (nat n) 1,
      p_chi = replicate (nat n) 1,
      p_charge_ratio = replicate (nat n) 1,
      p_particle_id = [0..n - 1],
      p_at_element_id = replicate (nat n) 0,
      p_at_turn = replicate (nat n) 0,
      p_state = replicate (nat n) 1\<rparr>"

definition reference_particle :: "i64 \<Rightarrow> particle" where
  "reference_particle jj =
     \<lparr>pv_q0 = 1,
      pv_mass0 = 0,
      pv_beta0 = 1,
      pv_gamma0 = 1,
      pv_p0c = 1,
      pv_s = 0,
      pv_x = 0,
      pv_y = 0,
      pv_px = 0,
      pv_py = 0,
      pv_zeta = 0,
      pv_psigma = 0,
      pv_delta = 0,
      pv_rpp = 1,
      pv_rvv = 1,
      pv_chi = 1,
      pv_charge_ratio = 1,
      pv_particle_id = jj,
      pv_at_element_id = 0,
      pv_at_turn = 0,
      pv_state = 1\<rparr>"

lemma reference_particles_wf [simp]: "0 \<le> n \<Longrightarrow> particles_wf (reference_particles n)"
  by (simp add: particles_wf_def reference_particles_def)

lemma reference_particles_num [simp]: "num_particles (reference_particles n) = n"
  by (simp add: reference_particles_def)

lemma reference_particles_valid [simp]:
  "valid_idx (reference_particles n) jj \<longleftrightarrow> 0 \<le> jj \<and> jj < n"
  by (simp add: valid_idx_def)

lemma reference_particles_view [simp]:
  "0 \<le> jj \<Longrightarrow> jj < n \<Longrightarrow> particle_of (reference_particles n) jj = reference_particle jj"
  by (simp add: particle_of_def reference_particles_def reference_particle_def nat_less_eq_zless)

end
