(* ===== verification/Particle_Ops.thy ===== *)
theory Particle_Ops
  imports Particles
begin

section \<open>Operations on particle sets (particles.h)\<close>

text \<open>
  The operations of \<open>particles.h\<close> beyond single entries: bulk updates, the energy and momentum
  deviations and the quantities kept consistent with them, ids, turns and element ids with their
  extremal values, the state flag, and copying, clearing and comparing particle sets.

  Functions that write through a pointer that may be NULL take and return an \<open>option\<close>: \<open>None\<close> is the
  NULL pointer. Status results are the integers of the code, 0 for success and -1 for failure.
\<close>

type_synonym arch_status = int

subsection \<open>Bulk additions\<close>

definition Particles_add_to_s_detailed :: "particles \<Rightarrow> real list \<Rightarrow> particles" where
  "Particles_add_to_s_detailed p s_diff_values =
     for_range (\<lambda>p ii. Particles_add_to_s_value p ii (s_diff_values ! nat ii))
       0 (Particles_get_num_of_particles p) p"

definition Particles_add_to_s :: "particles \<Rightarrow> real \<Rightarrow> particles" where
  "Particles_add_to_s p s_diff_value =
     for_range (\<lambda>p ii. Particles_add_to_s_value p ii s_diff_value)
       0 (Particles_get_num_of_particles p) p"

definition Particles_add_to_x_detailed :: "particles \<Rightarrow> real list \<Rightarrow> particles" where
  "Particles_add_to_x_detailed p x_diff_values =
     for_range (\<lambda>p ii. Particles_add_to_x_value p ii (x_diff_values ! nat ii))
       0 (Particles_get_num_of_particles p) p"

definition Particles_add_to_x :: "particles \<Rightarrow> real \<Rightarrow> particles" where
  "Particles_add_to_x p x_diff_value =
     for_range (\<lambda>p ii. Particles_add_to_x_value p ii x_diff_value)
       0 (Particles_get_num_of_particles p) p"

definition Particles_add_to_y_detailed :: "particles \<Rightarrow> real list \<Rightarrow> particles" where
  "Particles_add_to_y_detailed p y_diff_values =
     for_range (\<lambda>p ii. Particles_add_to_y_value p ii (y_diff_values ! nat ii))
       0 (Particles_get_num_of_particles p) p"

definition Particles_add_to_y :: "particles \<Rightarrow> real \<Rightarrow> particles" where
  "Particles_add_to_y p y_diff_value =
     for_range (\<lambda>p ii. Particles_add_to_y_value p ii y_diff_value)
       0 (Particles_get_num_of_particles p) p"

definition Particles_add_to_px_detailed :: "particles \<Rightarrow> real list \<Rightarrow> particles" where
  "Particles_add_to_px_detailed p px_diff_values =
     for_range (\<lambda>p ii. Particles_add_to_px_value p ii (px_diff_values ! nat ii))
       0 (Particles_get_num_of_particles p) p"

definition Particles_add_to_px :: "particles \<Rightarrow> real \<Rightarrow> particles" where
  "Particles_add_to_px p px_diff_value =
     for_range (\<lambda>p ii. Particles_add_to_px_value p ii px_diff_value)
       0 (Particles_get_num_of_particles p) p"

definition Particles_add_to_py_detailed :: "particles \<Rightarrow> real list \<Rightarrow> particles" where
  "Particles_add_to_py_detailed p py_diff_values =
     for_range (\<lambda>p ii. Particles_add_to_py_value p ii (py_diff_values ! nat ii))
       0 (Particles_get_num_of_particles p) p"

definition Particles_add_to_py :: "particles \<Rightarrow> real \<Rightarrow> particles" where
  "Particles_add_to_py p py_diff_value =
     for_range (\<lambda>p ii. Particles_add_to_py_value p ii py_diff_value)
       0 (Particles_get_num_of_particles p) p"

definition Particles_add_to_zeta_detailed :: "particles \<Rightarrow> real list \<Rightarrow> particles" where
  "Particles_add_to_zeta_detailed p zeta_diff_values =
     for_range (\<lambda>p ii. Particles_add_to_zeta_value p ii (zeta_diff_values ! nat ii))
       0 (Particles_get_num_of_particles p) p"

definition Particles_add_to_zeta :: "particles \<Rightarrow> real \<Rightarrow> particles" where
  "Particles_add_to_zeta p zeta_diff_value =
     for_range (\<lambda>p ii. Particles_add_to_zeta_value p ii zeta_diff_value)
       0 (Particles_get_num_of_particles p) p"

definition Particles_add_to_psigma_detailed :: "particles \<Rightarrow> real list \<Rightarrow> particles" where
  "Particles_add_to_psigma_detailed p psigma_diff_values =
     for_range (\<lambda>p ii. Particles_add_to_psigma_value p ii (psigma_diff_values ! nat ii))
       0 (Particles_get_num_of_particles p) p"

definition Particles_add_to_psigma :: "particles \<Rightarrow> real \<Rightarrow> particles" where
  "Particles_add_to_psigma p psigma_diff_value =
     for_range (\<lambda>p ii. Particles_add_to_psigma_value p ii psigma_diff_value)
       0 (Particles_get_num_of_particles p) p"

definition Particles_add_to_delta_detailed :: "particles \<Rightarrow> real list \<Rightarrow> particles" where
  "Particles_add_to_delta_detailed p delta_diff_values =
     for_range (\<lambda>p ii. Particles_add_to_delta_value p ii (delta_diff_values ! nat ii))
       0 (Particles_get_num_of_particles p) p"

definition Particles_add_to_delta :: "particles \<Rightarrow> real \<Rightarrow> particles" where
  "Particles_add_to_delta p delta_diff_value =
     for_range (\<lambda>p ii. Particles_add_to_delta_value p ii delta_diff_value)
       0 (Particles_get_num_of_particles p) p"

subsection \<open>Energy and momentum deviation\<close>

definition Particles_get_energy0_value :: "particles \<Rightarrow> i64 \<Rightarrow> real" where
  [particle_ops]: "Particles_get_energy0_value p index =
     (let p0c = Particles_get_p0c_value p index;
          m0 = Particles_get_mass0_value p index
      in sqrt (p0c * p0c + m0 * m0))"

definition Particles_get_q_value :: "particles \<Rightarrow> i64 \<Rightarrow> real" where
  [particle_ops]: "Particles_get_q_value p ii =
     Particles_get_q0_value p ii * Particles_get_charge_ratio_value p ii"

definition Particles_get_m_value :: "particles \<Rightarrow> i64 \<Rightarrow> real" where
  [particle_ops]: "Particles_get_m_value p ii =
     (let chi = Particles_get_chi_value p ii;
          qratio = Particles_get_charge_ratio_value p ii
      in (Particles_get_mass0_value p ii * qratio) / chi)"

definition Particles_get_mass_ratio_value :: "particles \<Rightarrow> i64 \<Rightarrow> real" where
  [particle_ops]: "Particles_get_mass_ratio_value p ii =
     Particles_get_charge_ratio_value p ii / Particles_get_chi_value p ii"

definition Particles_set_mass_ratio_value :: "particles \<Rightarrow> i64 \<Rightarrow> real \<Rightarrow> particles" where
  [particle_ops]: "Particles_set_mass_ratio_value p ii mass_ratio_value =
     (let charge_ratio_value = Particles_get_charge_ratio_value p ii
      in Particles_set_chi_value p ii (charge_ratio_value / mass_ratio_value))"

definition Particles_get_energy_value :: "particles \<Rightarrow> i64 \<Rightarrow> real" where
  [particle_ops]: "Particles_get_energy_value p index =
     (let p0c = Particles_get_p0c_value p index;
          mass0 = Particles_get_mass0_value p index
      in (Particles_get_psigma_value p index * Particles_get_beta0_value p index * p0c +
          sqrt (p0c * p0c + mass0 * mass0)) * Particles_get_mass_ratio_value p index)"

definition Particles_add_to_energy_value :: "particles \<Rightarrow> i64 \<Rightarrow> real \<Rightarrow> particles" where
  [particle_ops]: "Particles_add_to_energy_value p ii delta_energy =
     (let beta0 = Particles_get_beta0_value p ii;
          delta_beta0 = Particles_get_delta_value p ii * beta0;
          ptau_beta0 = delta_energy / Particles_get_energy0_value p ii +
            sqrt (delta_beta0 * delta_beta0 + 2 * delta_beta0 * beta0 + 1) - 1;
          ptau = ptau_beta0 / beta0;
          psigma = ptau / beta0;
          delta = sqrt (ptau * ptau + 2 * psigma + 1) - 1;
          one_plus_delta = delta + 1;
          rvv = one_plus_delta / (1 + ptau_beta0);
          p = Particles_set_delta_value p ii delta;
          p = Particles_set_psigma_value p ii psigma;
          p = Particles_scale_zeta_value p ii (rvv / Particles_get_rvv_value p ii);
          p = Particles_set_rvv_value p ii rvv
      in Particles_set_rpp_value p ii (1 / one_plus_delta))"

definition Particles_add_to_energy_detailed :: "particles \<Rightarrow> real list \<Rightarrow> particles" where
  "Particles_add_to_energy_detailed p ptr_to_delta_energies =
     for_range (\<lambda>p ii. Particles_add_to_energy_value p ii (ptr_to_delta_energies ! nat ii))
       0 (Particles_get_num_of_particles p) p"

definition Particles_add_to_energy :: "particles \<Rightarrow> real \<Rightarrow> particles" where
  "Particles_add_to_energy p delta_energy =
     for_range (\<lambda>p ii. Particles_add_to_energy_value p ii delta_energy)
       0 (Particles_get_num_of_particles p) p"

definition Particles_update_delta_value :: "particles \<Rightarrow> i64 \<Rightarrow> real \<Rightarrow> particles" where
  [particle_ops]: "Particles_update_delta_value p index new_delta_value =
     (let beta0 = Particles_get_beta0_value p index;
          delta_beta0 = new_delta_value * beta0;
          ptau_beta0 = sqrt (delta_beta0 * delta_beta0 + 2 * delta_beta0 * beta0 + 1) - 1;
          one_plus_delta = 1 + new_delta_value;
          rvv = one_plus_delta / (1 + ptau_beta0);
          rpp = 1 / one_plus_delta;
          psigma = ptau_beta0 / (beta0 * beta0);
          p = Particles_set_delta_value p index new_delta_value;
          p = Particles_set_rvv_value p index rvv;
          p = Particles_set_rpp_value p index rpp
      in Particles_set_psigma_value p index psigma)"

definition Particles_update_delta_value_increment :: "particles \<Rightarrow> i64 \<Rightarrow> real \<Rightarrow> particles" where
  [particle_ops]: "Particles_update_delta_value_increment p index delta_value_diff =
     (let current_delta = Particles_get_delta_value p index;
          new_delta = current_delta + delta_value_diff
      in Particles_update_delta_value p index new_delta)"

definition Particles_update_delta :: "particles \<Rightarrow> real list \<Rightarrow> particles" where
  "Particles_update_delta p ptr_to_deltas =
     for_range (\<lambda>p ii. Particles_update_delta_value p ii (ptr_to_deltas ! nat ii))
       0 (Particles_get_num_of_particles p) p"

subsection \<open>Ids, element ids, turns and state\<close>

definition Particles_init_particle_ids :: "particles \<Rightarrow> particles" where
  "Particles_init_particle_ids p =
     for_range (\<lambda>p ii. Particles_set_particle_id_value p ii ii)
       0 (Particles_get_num_of_particles p) p"

definition Particles_set_range_at_element_id_value ::
    "particles \<Rightarrow> i64 \<Rightarrow> i64 \<Rightarrow> i64 \<Rightarrow> particles" where
  "Particles_set_range_at_element_id_value p ii end_index at_element_id_value =
     for_range (\<lambda>p ii. Particles_set_at_element_id_value p ii at_element_id_value) ii end_index p"

definition Particles_set_all_at_element_id_value :: "particles \<Rightarrow> i64 \<Rightarrow> particles" where
  "Particles_set_all_at_element_id_value p at_element_id_value =
     Particles_set_range_at_element_id_value p 0 (Particles_get_num_of_particles p)
       at_element_id_value"

definition Particles_increment_at_element_id_value :: "particles \<Rightarrow> i64 \<Rightarrow> particles" where
  [particle_ops]: "Particles_increment_at_element_id_value p ii =
     Particles_set_at_element_id_value p ii (Particles_get_at_element_id_value p ii + 1)"

definition Particles_set_range_at_turn_value ::
    "particles \<Rightarrow> i64 \<Rightarrow> i64 \<Rightarrow> i64 \<Rightarrow> particles" where
  "Particles_set_range_at_turn_value p ii end_index at_turn_value =
     for_range (\<lambda>p ii. Particles_set_at_turn_value p ii at_turn_value) ii end_index p"

definition Particles_set_all_at_turn_value :: "particles \<Rightarrow> i64 \<Rightarrow> particles" where
  "Particles_set_all_at_turn_value p at_turn_value =
     Particles_set_range_at_turn_value p 0 (Particles_get_num_of_particles p) at_turn_value"

definition Particles_increment_at_turn_value :: "particles \<Rightarrow> i64 \<Rightarrow> particles" where
  [particle_ops]: "Particles_increment_at_turn_value p ii =
     Particles_set_at_turn_value p ii (Particles_get_at_turn_value p ii + 1)"

definition Particles_increment_range_at_turn_values ::
    "particles \<Rightarrow> i64 \<Rightarrow> i64 \<Rightarrow> particles" where
  "Particles_increment_range_at_turn_values p begin_index end_index =
     for_range Particles_increment_at_turn_value begin_index end_index p"

definition Particles_increment_all_at_turn_values :: "particles \<Rightarrow> particles" where
  "Particles_increment_all_at_turn_values p =
     Particles_increment_range_at_turn_values p 0 (Particles_get_num_of_particles p)"

definition Particles_update_state_value_if_not_already_lost ::
    "particles \<Rightarrow> i64 \<Rightarrow> i64 \<Rightarrow> particles" where
  [particle_ops]: "Particles_update_state_value_if_not_already_lost p ii new_state =
     Particles_set_state_value p ii (Particles_get_state_value p ii AND new_state)"

definition Particles_mark_as_lost_value :: "particles \<Rightarrow> i64 \<Rightarrow> particles" where
  [particle_ops]: "Particles_mark_as_lost_value p index = Particles_set_state_value p index 0"

definition Particles_is_not_lost_value :: "particles \<Rightarrow> i64 \<Rightarrow> bool" where
  [particle_ops]: "Particles_is_not_lost_value p particle_index \<longleftrightarrow>
     Particles_get_state_value p particle_index = 1"

definition Particles_is_lost_value :: "particles \<Rightarrow> i64 \<Rightarrow> bool" where
  [particle_ops]: "Particles_is_lost_value p particle_index \<longleftrightarrow>
     \<not> Particles_is_not_lost_value p particle_index"

subsection \<open>Extremal ids, element ids and turns\<close>

definition Particles_get_min_at_element_id_value :: "particles \<Rightarrow> i64" where
  "Particles_get_min_at_element_id_value p =
     (let nn = Particles_get_num_of_particles p
      in fold (\<lambda>ii min_at_element_id.
           let temp = Particles_get_at_element_id_value p ii
           in if min_at_element_id > temp then temp else min_at_element_id)
         [1..nn - 1] (Particles_get_at_element_id_value p 0))"

definition Particles_get_max_at_element_id_value :: "particles \<Rightarrow> i64" where
  "Particles_get_max_at_element_id_value p =
     (let nn = Particles_get_num_of_particles p
      in fold (\<lambda>ii max_at_element_id.
           let temp = Particles_get_at_element_id_value p ii
           in if max_at_element_id < temp then temp else max_at_element_id)
         [1..nn - 1] (Particles_get_at_element_id_value p 0))"

definition Particles_get_min_at_turn_value :: "particles \<Rightarrow> i64" where
  "Particles_get_min_at_turn_value p =
     (let nn = Particles_get_num_of_particles p
      in fold (\<lambda>ii min_at_turn.
           let temp = Particles_get_at_turn_value p ii
           in if min_at_turn > temp then temp else min_at_turn)
         [1..nn - 1] (Particles_get_at_turn_value p 0))"

definition Particles_get_max_at_turn_value :: "particles \<Rightarrow> i64" where
  "Particles_get_max_at_turn_value p =
     (let nn = Particles_get_num_of_particles p
      in fold (\<lambda>ii max_at_turn.
           let temp = Particles_get_at_turn_value p ii
           in if max_at_turn < temp then temp else max_at_turn)
         [1..nn - 1] (Particles_get_at_turn_value p 0))"

text \<open>One step of the loops that track a minimum and a maximum together.\<close>

definition min_max_step :: "i64 \<Rightarrow> i64 \<times> i64 \<Rightarrow> i64 \<times> i64" where
  "min_max_step temp mm =
     (if fst mm > temp then temp else fst mm, if snd mm < temp then temp else snd mm)"

text \<open>A write through an optional pointer.\<close>

definition write_opt :: "'a option \<Rightarrow> 'a \<Rightarrow> 'a option" where
  "write_opt ptr v = map_option (\<lambda>_. v) ptr"

definition Particles_get_min_max_particle_id_value_no_duplicate_check ::
    "particles \<Rightarrow> i64 option \<Rightarrow> i64 option \<Rightarrow> int \<times> i64 option \<times> i64 option" where
  "Particles_get_min_max_particle_id_value_no_duplicate_check p ptr_min_part_id ptr_max_part_id =
     (let nn = Particles_get_num_of_particles p
      in if nn > 0 then
           let max_particle_id = Particles_get_at_element_id_value p 0;
               (min_particle_id, max_particle_id) =
                 fold (\<lambda>ii. min_max_step (Particles_get_particle_id_value p ii))
                   [1..nn - 1] (max_particle_id, max_particle_id)
           in (0, write_opt ptr_min_part_id min_particle_id,
               write_opt ptr_max_part_id max_particle_id)
         else (- 1, ptr_min_part_id, ptr_max_part_id))"

definition Particles_get_min_max_at_element_id_value ::
    "particles \<Rightarrow> i64 option \<Rightarrow> i64 option \<Rightarrow> int \<times> i64 option \<times> i64 option" where
  "Particles_get_min_max_at_element_id_value p ptr_min_elem_id ptr_max_elem_id =
     (let nn = Particles_get_num_of_particles p
      in if nn > 0 then
           let max_at_element_id = Particles_get_at_element_id_value p 0;
               (min_at_element_id, max_at_element_id) =
                 fold (\<lambda>ii. min_max_step (Particles_get_at_element_id_value p ii))
                   [1..nn - 1] (max_at_element_id, max_at_element_id)
           in (0, write_opt ptr_min_elem_id min_at_element_id,
               write_opt ptr_max_elem_id max_at_element_id)
         else (- 1, ptr_min_elem_id, ptr_max_elem_id))"

definition Particles_get_min_max_at_turn_value ::
    "particles \<Rightarrow> i64 option \<Rightarrow> i64 option \<Rightarrow> int \<times> i64 option \<times> i64 option" where
  "Particles_get_min_max_at_turn_value p ptr_min_at_turn ptr_max_at_turn =
     (let nn = Particles_get_num_of_particles p
      in if nn > 0 then
           let max_at_turn = Particles_get_at_turn_value p 0;
               (min_at_turn, max_at_turn) =
                 fold (\<lambda>ii. min_max_step (Particles_get_at_turn_value p ii))
                   [1..nn - 1] (max_at_turn, max_at_turn)
           in (0, write_opt ptr_min_at_turn min_at_turn, write_opt ptr_max_at_turn max_at_turn)
         else (- 1, ptr_min_at_turn, ptr_max_at_turn))"

text \<open>The six values that \<open>NS(Particles_find_min_max_attributes)\<close> gathers.\<close>

record min_max_attributes =
  a_min_particle_id :: i64
  a_max_particle_id :: i64
  a_min_at_element :: i64
  a_max_at_element :: i64
  a_min_at_turn :: i64
  a_max_at_turn :: i64

record min_max_ptrs =
  ptr_min_particle_id :: "i64 option"
  ptr_max_particle_id :: "i64 option"
  ptr_min_at_element :: "i64 option"
  ptr_max_at_element :: "i64 option"
  ptr_min_at_turn :: "i64 option"
  ptr_max_at_turn :: "i64 option"

definition Particles_init_min_max_attributes_for_find :: "min_max_ptrs \<Rightarrow> min_max_ptrs" where
  "Particles_init_min_max_attributes_for_find q =
     (let MIN_VALUE = - 9223372036854775808; MAX_VALUE = 9223372036854775807
      in \<lparr>ptr_min_particle_id = write_opt (ptr_min_particle_id q) MAX_VALUE,
          ptr_max_particle_id = write_opt (ptr_max_particle_id q) MIN_VALUE,
          ptr_min_at_element = write_opt (ptr_min_at_element q) MAX_VALUE,
          ptr_max_at_element = write_opt (ptr_max_at_element q) MIN_VALUE,
          ptr_min_at_turn = write_opt (ptr_min_at_turn q) MAX_VALUE,
          ptr_max_at_turn = write_opt (ptr_max_at_turn q) MIN_VALUE\<rparr>)"

definition find_min_max_init :: "particles \<Rightarrow> min_max_attributes" where
  "find_min_max_init p =
     (let temp = Particles_get_particle_id_value p 0;
          min_particle_id = (if temp \<ge> 0 then temp else - temp);
          max_particle_id = (if temp \<ge> 0 then temp else - temp);
          min_at_element = Particles_get_at_element_id_value p 0;
          min_at_turn = Particles_get_at_turn_value p 0
      in \<lparr>a_min_particle_id = min_particle_id, a_max_particle_id = max_particle_id,
          a_min_at_element = min_at_element, a_max_at_element = min_at_element,
          a_min_at_turn = min_at_turn, a_max_at_turn = min_at_turn\<rparr>)"

definition find_min_max_step :: "particles \<Rightarrow> i64 \<Rightarrow> min_max_attributes \<Rightarrow> min_max_attributes" where
  "find_min_max_step p ii a =
     (let temp = Particles_get_particle_id_value p ii;
          temp = (if temp < 0 then - temp else temp);
          (min_particle_id, max_particle_id) =
            min_max_step temp (a_min_particle_id a, a_max_particle_id a);
          (min_at_element, max_at_element) =
            min_max_step (Particles_get_at_element_id_value p ii)
              (a_min_at_element a, a_max_at_element a);
          (min_at_turn, max_at_turn) =
            min_max_step (Particles_get_at_turn_value p ii) (a_min_at_turn a, a_max_at_turn a)
      in \<lparr>a_min_particle_id = min_particle_id, a_max_particle_id = max_particle_id,
          a_min_at_element = min_at_element, a_max_at_element = max_at_element,
          a_min_at_turn = min_at_turn, a_max_at_turn = max_at_turn\<rparr>)"

text \<open>\<open>if( ( ptr != NULL ) && ( *ptr > v ) ) *ptr = v;\<close> and its counterpart for maxima.\<close>

definition lower_opt :: "i64 option \<Rightarrow> i64 \<Rightarrow> i64 option" where
  "lower_opt ptr v = (case ptr of None \<Rightarrow> None | Some w \<Rightarrow> Some (if w > v then v else w))"

definition raise_opt :: "i64 option \<Rightarrow> i64 \<Rightarrow> i64 option" where
  "raise_opt ptr v = (case ptr of None \<Rightarrow> None | Some w \<Rightarrow> Some (if w < v then v else w))"

definition Particles_find_min_max_attributes ::
    "particles \<Rightarrow> min_max_ptrs \<Rightarrow> int \<times> min_max_ptrs" where
  "Particles_find_min_max_attributes p q =
     (let num_particles = Particles_get_num_of_particles p
      in if num_particles > 0 then
           let a = fold (find_min_max_step p) [1..num_particles - 1] (find_min_max_init p)
           in (0, \<lparr>ptr_min_particle_id = lower_opt (ptr_min_particle_id q) (a_min_particle_id a),
                  ptr_max_particle_id = raise_opt (ptr_max_particle_id q) (a_max_particle_id a),
                  ptr_min_at_element = lower_opt (ptr_min_at_element q) (a_min_at_element a),
                  ptr_max_at_element = raise_opt (ptr_max_at_element q) (a_max_at_element a),
                  ptr_min_at_turn = lower_opt (ptr_min_at_turn q) (a_min_at_turn a),
                  ptr_max_at_turn = raise_opt (ptr_max_at_turn q) (a_max_at_turn a)\<rparr>)
         else (- 1, q))"

subsection \<open>Presetting, clearing, copying and comparing\<close>

definition preset_particle :: "particles \<Rightarrow> i64 \<Rightarrow> particles" where
  "preset_particle p ii =
     (let
         p = Particles_set_q0_value p ii 0;
         p = Particles_set_beta0_value p ii 0;
         p = Particles_set_mass0_value p ii 0;
         p = Particles_set_gamma0_value p ii 0;
         p = Particles_set_p0c_value p ii 0;
         p = Particles_set_s_value p ii 0;
         p = Particles_set_x_value p ii 0;
         p = Particles_set_y_value p ii 0;
         p = Particles_set_px_value p ii 0;
         p = Particles_set_py_value p ii 0;
         p = Particles_set_zeta_value p ii 0;
         p = Particles_set_psigma_value p ii 0;
         p = Particles_set_delta_value p ii 0;
         p = Particles_set_rpp_value p ii 0;
         p = Particles_set_rvv_value p ii 0;
         p = Particles_set_chi_value p ii 0;
         p = Particles_set_charge_ratio_value p ii 0;
         p = Particles_set_particle_id_value p ii (- 1);
         p = Particles_set_at_element_id_value p ii (- 1);
         p = Particles_set_at_turn_value p ii (- 1);
         p = Particles_set_state_value p ii 1
      in p)"

definition Particles_preset_values :: "particles \<Rightarrow> particles" where
  "Particles_preset_values p =
     (let temp_num_particles = Particles_get_num_of_particles p;
          num_of_particles = (if temp_num_particles \<ge> 0 then temp_num_particles else 0)
      in if num_of_particles > 0 then for_range preset_particle 0 num_of_particles p else p)"

definition clear_particle :: "particles \<Rightarrow> i64 \<Rightarrow> particles" where
  "clear_particle p index =
     (let
         p = Particles_set_q0_value p index 0;
         p = Particles_set_mass0_value p index 0;
         p = Particles_set_beta0_value p index 0;
         p = Particles_set_gamma0_value p index 0;
         p = Particles_set_p0c_value p index 0;
         p = Particles_set_s_value p index 0;
         p = Particles_set_x_value p index 0;
         p = Particles_set_y_value p index 0;
         p = Particles_set_px_value p index 0;
         p = Particles_set_py_value p index 0;
         p = Particles_set_zeta_value p index 0;
         p = Particles_set_psigma_value p index 0;
         p = Particles_set_delta_value p index 0;
         p = Particles_set_rpp_value p index 0;
         p = Particles_set_rvv_value p index 0;
         p = Particles_set_chi_value p index 0;
         p = Particles_set_charge_ratio_value p index 0;
         p = Particles_set_particle_id_value p index 0;
         p = Particles_set_at_element_id_value p index 0;
         p = Particles_set_at_turn_value p index 0;
         p = Particles_set_state_value p index 0
      in p)"

definition Particles_clear_single :: "particles \<Rightarrow> i64 \<Rightarrow> particles" where
  "Particles_clear_single p index =
     (let num_particles = Particles_get_num_of_particles p
      in if index \<ge> 0 \<and> index < num_particles then clear_particle p index else p)"

definition Particles_clear_range :: "particles \<Rightarrow> i64 \<Rightarrow> i64 \<Rightarrow> particles" where
  "Particles_clear_range p start_index end_index =
     (let num_particles = Particles_get_num_of_particles p
      in if start_index \<ge> 0 \<and> end_index \<ge> start_index \<and> num_particles \<ge> end_index then
           let len = end_index - start_index
           in p\<lparr>
         p_q0 := set_values (p_q0 p) start_index len 0,
         p_mass0 := set_values (p_mass0 p) start_index len 0,
         p_beta0 := set_values (p_beta0 p) start_index len 0,
         p_gamma0 := set_values (p_gamma0 p) start_index len 0,
         p_p0c := set_values (p_p0c p) start_index len 0,
         p_s := set_values (p_s p) start_index len 0,
         p_x := set_values (p_x p) start_index len 0,
         p_y := set_values (p_y p) start_index len 0,
         p_px := set_values (p_px p) start_index len 0,
         p_py := set_values (p_py p) start_index len 0,
         p_zeta := set_values (p_zeta p) start_index len 0,
         p_psigma := set_values (p_psigma p) start_index len 0,
         p_delta := set_values (p_delta p) start_index len 0,
         p_rpp := set_values (p_rpp p) start_index len 0,
         p_rvv := set_values (p_rvv p) start_index len 0,
         p_chi := set_values (p_chi p) start_index len 0,
         p_charge_ratio := set_values (p_charge_ratio p) start_index len 0,
         p_particle_id := set_values (p_particle_id p) start_index len 0,
         p_at_element_id := set_values (p_at_element_id p) start_index len 0,
         p_at_turn := set_values (p_at_turn p) start_index len 0,
         p_state := set_values (p_state p) start_index len 0\<rparr>
         else p)"

definition Particles_clear :: "particles \<Rightarrow> particles" where
  "Particles_clear p = Particles_clear_range p 0 (Particles_get_num_of_particles p)"

text \<open>
  The first argument of the copying operations tells whether \<open>destination\<close> and \<open>source\<close> are the same
  object, which the code compares by address.
\<close>

definition copy_particle :: "particles \<Rightarrow> i64 \<Rightarrow> particles \<Rightarrow> i64 \<Rightarrow> particles" where
  "copy_particle destination destination_idx source source_idx =
     (let
         destination = Particles_set_q0_value destination destination_idx (Particles_get_q0_value source source_idx);
         destination = Particles_set_mass0_value destination destination_idx (Particles_get_mass0_value source source_idx);
         destination = Particles_set_beta0_value destination destination_idx (Particles_get_beta0_value source source_idx);
         destination = Particles_set_gamma0_value destination destination_idx (Particles_get_gamma0_value source source_idx);
         destination = Particles_set_p0c_value destination destination_idx (Particles_get_p0c_value source source_idx);
         destination = Particles_set_s_value destination destination_idx (Particles_get_s_value source source_idx);
         destination = Particles_set_x_value destination destination_idx (Particles_get_x_value source source_idx);
         destination = Particles_set_y_value destination destination_idx (Particles_get_y_value source source_idx);
         destination = Particles_set_px_value destination destination_idx (Particles_get_px_value source source_idx);
         destination = Particles_set_py_value destination destination_idx (Particles_get_py_value source source_idx);
         destination = Particles_set_zeta_value destination destination_idx (Particles_get_zeta_value source source_idx);
         destination = Particles_set_psigma_value destination destination_idx (Particles_get_psigma_value source source_idx);
         destination = Particles_set_delta_value destination destination_idx (Particles_get_delta_value source source_idx);
         destination = Particles_set_rpp_value destination destination_idx (Particles_get_rpp_value source source_idx);
         destination = Particles_set_rvv_value destination destination_idx (Particles_get_rvv_value source source_idx);
         destination = Particles_set_chi_value destination destination_idx (Particles_get_chi_value source source_idx);
         destination = Particles_set_charge_ratio_value destination destination_idx (Particles_get_charge_ratio_value source source_idx);
         destination = Particles_set_particle_id_value destination destination_idx (Particles_get_particle_id_value source source_idx);
         destination = Particles_set_at_element_id_value destination destination_idx (Particles_get_at_element_id_value source source_idx);
         destination = Particles_set_at_turn_value destination destination_idx (Particles_get_at_turn_value source source_idx);
         destination = Particles_set_state_value destination destination_idx (Particles_get_state_value source source_idx)
      in destination)"

definition Particles_copy_single ::
    "bool \<Rightarrow> particles \<Rightarrow> i64 \<Rightarrow> particles \<Rightarrow> i64 \<Rightarrow> particles \<times> arch_status" where
  "Particles_copy_single same destination destination_idx source source_idx =
     (let dest_num_particles = Particles_get_num_of_particles destination;
          source_num_particles = Particles_get_num_of_particles source;
          destination_idx =
            (if destination_idx < 0 \<or> destination_idx > dest_num_particles then
               if source_idx < dest_num_particles then source_idx else destination_idx
             else destination_idx)
      in if \<not> same \<and> source_idx \<ge> 0 \<and> source_idx < source_num_particles \<and>
            destination_idx \<ge> 0 \<and> destination_idx < dest_num_particles then
           (copy_particle destination destination_idx source source_idx, 0)
         else (destination, - 1))"

definition copy_particle_range ::
    "particles \<Rightarrow> particles \<Rightarrow> i64 \<Rightarrow> i64 \<Rightarrow> i64 \<Rightarrow> particles" where
  "copy_particle_range destination source source_start_index num_to_copy dest_start_index =
     destination\<lparr>
         p_q0 := copy_values (p_q0 destination) dest_start_index (p_q0 source) source_start_index num_to_copy,
         p_beta0 := copy_values (p_beta0 destination) dest_start_index (p_beta0 source) source_start_index num_to_copy,
         p_mass0 := copy_values (p_mass0 destination) dest_start_index (p_mass0 source) source_start_index num_to_copy,
         p_gamma0 := copy_values (p_gamma0 destination) dest_start_index (p_gamma0 source) source_start_index num_to_copy,
         p_p0c := copy_values (p_p0c destination) dest_start_index (p_p0c source) source_start_index num_to_copy,
         p_s := copy_values (p_s destination) dest_start_index (p_s source) source_start_index num_to_copy,
         p_x := copy_values (p_x destination) dest_start_index (p_x source) source_start_index num_to_copy,
         p_y := copy_values (p_y destination) dest_start_index (p_y source) source_start_index num_to_copy,
         p_px := copy_values (p_px destination) dest_start_index (p_px source) source_start_index num_to_copy,
         p_py := copy_values (p_py destination) dest_start_index (p_py source) source_start_index num_to_copy,
         p_zeta := copy_values (p_zeta destination) dest_start_index (p_zeta source) source_start_index num_to_copy,
         p_psigma := copy_values (p_psigma destination) dest_start_index (p_psigma source) source_start_index num_to_copy,
         p_delta := copy_values (p_delta destination) dest_start_index (p_delta source) source_start_index num_to_copy,
         p_rpp := copy_values (p_rpp destination) dest_start_index (p_rpp source) source_start_index num_to_copy,
         p_rvv := copy_values (p_rvv destination) dest_start_index (p_rvv source) source_start_index num_to_copy,
         p_chi := copy_values (p_chi destination) dest_start_index (p_chi source) source_start_index num_to_copy,
         p_charge_ratio := copy_values (p_charge_ratio destination) dest_start_index (p_charge_ratio source) source_start_index num_to_copy,
         p_particle_id := copy_values (p_particle_id destination) dest_start_index (p_particle_id source) source_start_index num_to_copy,
         p_at_element_id := copy_values (p_at_element_id destination) dest_start_index (p_at_element_id source) source_start_index num_to_copy,
         p_at_turn := copy_values (p_at_turn destination) dest_start_index (p_at_turn source) source_start_index num_to_copy,
         p_state := copy_values (p_state destination) dest_start_index (p_state source) source_start_index num_to_copy\<rparr>"

definition Particles_copy_range ::
    "bool \<Rightarrow> particles \<Rightarrow> particles \<Rightarrow> i64 \<Rightarrow> i64 \<Rightarrow> i64 \<Rightarrow> particles \<times> arch_status" where
  "Particles_copy_range same destination source source_start_index source_end_index
       dest_start_index =
     (let num_to_copy =
            (if source_start_index \<le> source_end_index
             then source_end_index - source_start_index else 0);
          source_num_particles = Particles_get_num_of_particles source;
          dest_num_particles = Particles_get_num_of_particles destination;
          dest_start_index =
            (if dest_start_index < 0 \<or> dest_start_index \<ge> dest_num_particles then
               if source_end_index < dest_num_particles then source_start_index
               else dest_start_index
             else dest_start_index)
      in if \<not> same \<and> source_start_index \<ge> 0 \<and> source_end_index \<ge> source_start_index \<and>
            source_num_particles \<ge> source_end_index \<and> dest_start_index \<ge> 0 \<and>
            dest_num_particles \<ge> dest_start_index + num_to_copy then
           (copy_particle_range destination source source_start_index num_to_copy dest_start_index,
            0)
         else (destination, - 1))"

definition Particles_copy :: "bool \<Rightarrow> particles \<Rightarrow> particles \<Rightarrow> particles \<times> arch_status" where
  "Particles_copy same destination source =
     (let num = Particles_get_num_of_particles source
      in if num > 0 \<and> num = Particles_get_num_of_particles destination then
           Particles_copy_range same destination source 0 num 0
         else (destination, - 1))"

definition difference_particle :: "particles \<Rightarrow> particles \<Rightarrow> particles \<Rightarrow> i64 \<Rightarrow> particles" where
  "difference_particle lhs rhs diff ii =
     (let
         diff = Particles_set_q0_value diff ii (Particles_get_q0_value lhs ii - Particles_get_q0_value rhs ii);
         diff = Particles_set_mass0_value diff ii (Particles_get_mass0_value lhs ii - Particles_get_mass0_value rhs ii);
         diff = Particles_set_beta0_value diff ii (Particles_get_beta0_value lhs ii - Particles_get_beta0_value rhs ii);
         diff = Particles_set_gamma0_value diff ii (Particles_get_gamma0_value lhs ii - Particles_get_gamma0_value rhs ii);
         diff = Particles_set_p0c_value diff ii (Particles_get_p0c_value lhs ii - Particles_get_p0c_value rhs ii);
         diff = Particles_set_s_value diff ii (Particles_get_s_value lhs ii - Particles_get_s_value rhs ii);
         diff = Particles_set_x_value diff ii (Particles_get_x_value lhs ii - Particles_get_x_value rhs ii);
         diff = Particles_set_y_value diff ii (Particles_get_y_value lhs ii - Particles_get_y_value rhs ii);
         diff = Particles_set_px_value diff ii (Particles_get_px_value lhs ii - Particles_get_px_value rhs ii);
         diff = Particles_set_py_value diff ii (Particles_get_py_value lhs ii - Particles_get_py_value rhs ii);
         diff = Particles_set_zeta_value diff ii (Particles_get_zeta_value lhs ii - Particles_get_zeta_value rhs ii);
         diff = Particles_set_psigma_value diff ii (Particles_get_psigma_value lhs ii - Particles_get_psigma_value rhs ii);
         diff = Particles_set_delta_value diff ii (Particles_get_delta_value lhs ii - Particles_get_delta_value rhs ii);
         diff = Particles_set_rpp_value diff ii (Particles_get_rpp_value lhs ii - Particles_get_rpp_value rhs ii);
         diff = Particles_set_rvv_value diff ii (Particles_get_rvv_value lhs ii - Particles_get_rvv_value rhs ii);
         diff = Particles_set_chi_value diff ii (Particles_get_chi_value lhs ii - Particles_get_chi_value rhs ii);
         diff = Particles_set_charge_ratio_value diff ii (Particles_get_charge_ratio_value lhs ii - Particles_get_charge_ratio_value rhs ii);
         diff = Particles_set_particle_id_value diff ii (Particles_get_particle_id_value lhs ii - Particles_get_particle_id_value rhs ii);
         diff = Particles_set_at_element_id_value diff ii (Particles_get_at_element_id_value lhs ii - Particles_get_at_element_id_value rhs ii);
         diff = Particles_set_at_turn_value diff ii (Particles_get_at_turn_value lhs ii - Particles_get_at_turn_value rhs ii);
         diff = Particles_set_state_value diff ii (Particles_get_state_value lhs ii - Particles_get_state_value rhs ii)
      in diff)"

definition Particles_calculate_difference ::
    "particles \<Rightarrow> particles \<Rightarrow> particles \<Rightarrow> particles" where
  "Particles_calculate_difference lhs rhs diff =
     (let num_particles = Particles_get_num_of_particles lhs
      in if num_particles > 0 \<and>
            num_particles = Particles_get_num_of_particles rhs \<and>
            num_particles = Particles_get_num_of_particles diff then
           for_range (difference_particle lhs rhs) 0 num_particles diff
         else diff)"

text \<open>
  The entry of an array with the greatest absolute value, and its position: 0 and position 0 when the
  array holds zeros only.
\<close>

definition max_abs_step :: "nat \<times> 'a :: linordered_idom \<Rightarrow> 'a \<times> 'a \<times> nat \<Rightarrow> 'a \<times> 'a \<times> nat" where
  "max_abs_step entry best =
     (case (entry, best) of ((kk, val), (max_value, cmp_max_value, max_index)) \<Rightarrow>
        let cmp_value = (if val \<ge> 0 then val else - val)
        in if cmp_max_value < cmp_value then (val, cmp_value, kk)
           else (max_value, cmp_max_value, max_index))"

definition max_abs_value :: "'a :: linordered_idom list \<Rightarrow> 'a \<times> nat" where
  "max_abs_value values =
     (let (max_value, cmp_max_value, max_index) =
        fold max_abs_step (zip [0..<length values] values) (0, 0, 0)
      in (max_value, max_index))"

definition Particles_get_max_value ::
    "particles \<Rightarrow> particles \<Rightarrow> particles \<times> nat list" where
  "Particles_get_max_value destination source =
     (if Particles_get_num_of_particles destination > 0 \<and>
         Particles_get_num_of_particles source > 0 then
       let
         num_particles = Particles_get_num_of_particles destination;
         (q0_value, q0_index) = max_abs_value (take (nat num_particles) (p_q0 source));
         (beta0_value, beta0_index) = max_abs_value (take (nat num_particles) (p_beta0 source));
         (mass0_value, mass0_index) = max_abs_value (take (nat num_particles) (p_mass0 source));
         (gamma0_value, gamma0_index) = max_abs_value (take (nat num_particles) (p_gamma0 source));
         (p0c_value, p0c_index) = max_abs_value (take (nat num_particles) (p_p0c source));
         (s_value, s_index) = max_abs_value (take (nat num_particles) (p_s source));
         (x_value, x_index) = max_abs_value (take (nat num_particles) (p_x source));
         (y_value, y_index) = max_abs_value (take (nat num_particles) (p_y source));
         (px_value, px_index) = max_abs_value (take (nat num_particles) (p_px source));
         (py_value, py_index) = max_abs_value (take (nat num_particles) (p_py source));
         (zeta_value, zeta_index) = max_abs_value (take (nat num_particles) (p_zeta source));
         (psigma_value, psigma_index) = max_abs_value (take (nat num_particles) (p_psigma source));
         (delta_value, delta_index) = max_abs_value (take (nat num_particles) (p_delta source));
         (rpp_value, rpp_index) = max_abs_value (take (nat num_particles) (p_rpp source));
         (rvv_value, rvv_index) = max_abs_value (take (nat num_particles) (p_rvv source));
         (chi_value, chi_index) = max_abs_value (take (nat num_particles) (p_chi source));
         (charge_ratio_value, charge_ratio_index) = max_abs_value (take (nat num_particles) (p_charge_ratio source));
         (particle_id_value, particle_id_index) = max_abs_value (take (nat num_particles) (p_particle_id source));
         (at_element_id_value, at_element_id_index) = max_abs_value (take (nat num_particles) (p_at_element_id source));
         (at_turn_value, at_turn_index) = max_abs_value (take (nat num_particles) (p_at_turn source));
         (state_value, state_index) = max_abs_value (take (nat num_particles) (p_state source))
       in (destination\<lparr>
           p_q0 := (p_q0 destination)[0 := q0_value],
           p_beta0 := (p_beta0 destination)[0 := beta0_value],
           p_mass0 := (p_mass0 destination)[0 := mass0_value],
           p_gamma0 := (p_gamma0 destination)[0 := gamma0_value],
           p_p0c := (p_p0c destination)[0 := p0c_value],
           p_s := (p_s destination)[0 := s_value],
           p_x := (p_x destination)[0 := x_value],
           p_y := (p_y destination)[0 := y_value],
           p_px := (p_px destination)[0 := px_value],
           p_py := (p_py destination)[0 := py_value],
           p_zeta := (p_zeta destination)[0 := zeta_value],
           p_psigma := (p_psigma destination)[0 := psigma_value],
           p_delta := (p_delta destination)[0 := delta_value],
           p_rpp := (p_rpp destination)[0 := rpp_value],
           p_rvv := (p_rvv destination)[0 := rvv_value],
           p_chi := (p_chi destination)[0 := chi_value],
           p_charge_ratio := (p_charge_ratio destination)[0 := charge_ratio_value],
           p_particle_id := (p_particle_id destination)[0 := particle_id_value],
           p_at_element_id := (p_at_element_id destination)[0 := at_element_id_value],
           p_at_turn := (p_at_turn destination)[0 := at_turn_value],
           p_state := (p_state destination)[0 := state_value]\<rparr>,
           [q0_index, beta0_index, mass0_index, gamma0_index, p0c_index, s_index, x_index, y_index, px_index, py_index, zeta_index, psigma_index, delta_index, rpp_index, rvv_index, chi_index, charge_ratio_index, particle_id_index, at_element_id_index, at_turn_index, state_index])
     else (destination, []))"

text \<open>
  The transfers to and from the arrays whose addresses an \<open>NS(ParticlesGenericAddr)\<close> holds; that
  structure is given by the arrays themselves.
\<close>

definition copy_from_generic :: "particles \<Rightarrow> i64 \<Rightarrow> particles \<Rightarrow> i64 \<Rightarrow> particles" where
  "copy_from_generic dest dest_idx src src_idx =
     (let
         dest = Particles_set_q0_value dest dest_idx (p_q0 src ! nat src_idx);
         dest = Particles_set_mass0_value dest dest_idx (p_mass0 src ! nat src_idx);
         dest = Particles_set_beta0_value dest dest_idx (p_beta0 src ! nat src_idx);
         dest = Particles_set_gamma0_value dest dest_idx (p_gamma0 src ! nat src_idx);
         dest = Particles_set_p0c_value dest dest_idx (p_p0c src ! nat src_idx);
         dest = Particles_set_s_value dest dest_idx (p_s src ! nat src_idx);
         dest = Particles_set_x_value dest dest_idx (p_x src ! nat src_idx);
         dest = Particles_set_y_value dest dest_idx (p_y src ! nat src_idx);
         dest = Particles_set_px_value dest dest_idx (p_px src ! nat src_idx);
         dest = Particles_set_py_value dest dest_idx (p_py src ! nat src_idx);
         dest = Particles_set_zeta_value dest dest_idx (p_zeta src ! nat src_idx);
         dest = Particles_set_psigma_value dest dest_idx (p_psigma src ! nat src_idx);
         dest = Particles_set_delta_value dest dest_idx (p_delta src ! nat src_idx);
         dest = Particles_set_rpp_value dest dest_idx (p_rpp src ! nat src_idx);
         dest = Particles_set_rvv_value dest dest_idx (p_rvv src ! nat src_idx);
         dest = Particles_set_chi_value dest dest_idx (p_chi src ! nat src_idx);
         dest = Particles_set_charge_ratio_value dest dest_idx (p_charge_ratio src ! nat src_idx);
         dest = Particles_set_particle_id_value dest dest_idx (p_particle_id src ! nat src_idx);
         dest = Particles_set_at_element_id_value dest dest_idx (p_at_element_id src ! nat src_idx);
         dest = Particles_set_at_turn_value dest dest_idx (p_at_turn src ! nat src_idx);
         dest = Particles_set_state_value dest dest_idx (p_state src ! nat src_idx)
      in dest)"

definition Particles_copy_from_generic_addr_data ::
    "particles \<Rightarrow> i64 \<Rightarrow> particles \<Rightarrow> i64 \<Rightarrow> particles \<times> int" where
  "Particles_copy_from_generic_addr_data dest dest_idx src src_idx =
     (if num_particles src > src_idx \<and> num_particles dest > dest_idx then
        (copy_from_generic dest dest_idx src src_idx, 0)
      else (dest, - 1))"

definition Particles_copy_to_generic_addr_data ::
    "particles \<Rightarrow> i64 \<Rightarrow> particles \<Rightarrow> i64 \<Rightarrow> particles \<times> int" where
  "Particles_copy_to_generic_addr_data dest dest_idx src src_idx =
     (if num_particles src > src_idx \<and> num_particles dest > dest_idx then
        (dest\<lparr>
         p_q0 := (p_q0 dest)[nat dest_idx := Particles_get_q0_value src src_idx],
         p_mass0 := (p_mass0 dest)[nat dest_idx := Particles_get_mass0_value src src_idx],
         p_beta0 := (p_beta0 dest)[nat dest_idx := Particles_get_beta0_value src src_idx],
         p_gamma0 := (p_gamma0 dest)[nat dest_idx := Particles_get_gamma0_value src src_idx],
         p_p0c := (p_p0c dest)[nat dest_idx := Particles_get_p0c_value src src_idx],
         p_s := (p_s dest)[nat dest_idx := Particles_get_s_value src src_idx],
         p_x := (p_x dest)[nat dest_idx := Particles_get_x_value src src_idx],
         p_y := (p_y dest)[nat dest_idx := Particles_get_y_value src src_idx],
         p_px := (p_px dest)[nat dest_idx := Particles_get_px_value src src_idx],
         p_py := (p_py dest)[nat dest_idx := Particles_get_py_value src src_idx],
         p_zeta := (p_zeta dest)[nat dest_idx := Particles_get_zeta_value src src_idx],
         p_psigma := (p_psigma dest)[nat dest_idx := Particles_get_psigma_value src src_idx],
         p_delta := (p_delta dest)[nat dest_idx := Particles_get_delta_value src src_idx],
         p_rpp := (p_rpp dest)[nat dest_idx := Particles_get_rpp_value src src_idx],
         p_rvv := (p_rvv dest)[nat dest_idx := Particles_get_rvv_value src src_idx],
         p_chi := (p_chi dest)[nat dest_idx := Particles_get_chi_value src src_idx],
         p_charge_ratio := (p_charge_ratio dest)[nat dest_idx := Particles_get_charge_ratio_value src src_idx],
         p_particle_id := (p_particle_id dest)[nat dest_idx := Particles_get_particle_id_value src src_idx],
         p_at_element_id := (p_at_element_id dest)[nat dest_idx := Particles_get_at_element_id_value src src_idx],
         p_at_turn := (p_at_turn dest)[nat dest_idx := Particles_get_at_turn_value src src_idx],
         p_state := (p_state dest)[nat dest_idx := Particles_get_state_value src src_idx]\<rparr>, 0)
      else (dest, - 1))"

subsection \<open>Single-particle operations are kernels\<close>

definition preset_view :: particle where
  "preset_view =
     \<lparr>pv_q0 = 0,
      pv_mass0 = 0,
      pv_beta0 = 0,
      pv_gamma0 = 0,
      pv_p0c = 0,
      pv_s = 0,
      pv_x = 0,
      pv_y = 0,
      pv_px = 0,
      pv_py = 0,
      pv_zeta = 0,
      pv_psigma = 0,
      pv_delta = 0,
      pv_rpp = 0,
      pv_rvv = 0,
      pv_chi = 0,
      pv_charge_ratio = 0,
      pv_particle_id = - 1,
      pv_at_element_id = - 1,
      pv_at_turn = - 1,
      pv_state = 1\<rparr>"

definition zero_view :: particle where
  "zero_view =
     \<lparr>pv_q0 = 0,
      pv_mass0 = 0,
      pv_beta0 = 0,
      pv_gamma0 = 0,
      pv_p0c = 0,
      pv_s = 0,
      pv_x = 0,
      pv_y = 0,
      pv_px = 0,
      pv_py = 0,
      pv_zeta = 0,
      pv_psigma = 0,
      pv_delta = 0,
      pv_rpp = 0,
      pv_rvv = 0,
      pv_chi = 0,
      pv_charge_ratio = 0,
      pv_particle_id = 0,
      pv_at_element_id = 0,
      pv_at_turn = 0,
      pv_state = 0\<rparr>"

definition difference_view :: "particle \<Rightarrow> particle \<Rightarrow> particle" where
  "difference_view v w =
     \<lparr>pv_q0 = pv_q0 v - pv_q0 w,
      pv_mass0 = pv_mass0 v - pv_mass0 w,
      pv_beta0 = pv_beta0 v - pv_beta0 w,
      pv_gamma0 = pv_gamma0 v - pv_gamma0 w,
      pv_p0c = pv_p0c v - pv_p0c w,
      pv_s = pv_s v - pv_s w,
      pv_x = pv_x v - pv_x w,
      pv_y = pv_y v - pv_y w,
      pv_px = pv_px v - pv_px w,
      pv_py = pv_py v - pv_py w,
      pv_zeta = pv_zeta v - pv_zeta w,
      pv_psigma = pv_psigma v - pv_psigma w,
      pv_delta = pv_delta v - pv_delta w,
      pv_rpp = pv_rpp v - pv_rpp w,
      pv_rvv = pv_rvv v - pv_rvv w,
      pv_chi = pv_chi v - pv_chi w,
      pv_charge_ratio = pv_charge_ratio v - pv_charge_ratio w,
      pv_particle_id = pv_particle_id v - pv_particle_id w,
      pv_at_element_id = pv_at_element_id v - pv_at_element_id w,
      pv_at_turn = pv_at_turn v - pv_at_turn w,
      pv_state = pv_state v - pv_state w\<rparr>"

interpretation preset: particle_kernel preset_particle "\<lambda>ii v. preset_view"
  by unfold_locales (auto simp: preset_particle_def preset_view_def particle_simps Let_def)

interpretation clear: particle_kernel clear_particle "\<lambda>ii v. zero_view"
  by unfold_locales (auto simp: clear_particle_def zero_view_def particle_simps Let_def)

interpretation copy1: particle_kernel "\<lambda>p ii. copy_particle p ii source (ii + off)"
    "\<lambda>ii v. particle_of source (ii + off)" for source off
  by unfold_locales (auto simp: copy_particle_def particle_simps Let_def)

interpretation difference: particle_kernel "difference_particle lhs rhs"
    "\<lambda>ii v. difference_view (particle_of lhs ii) (particle_of rhs ii)" for lhs rhs
  by unfold_locales (auto simp: difference_particle_def difference_view_def particle_simps Let_def)

interpretation set_at_turn: particle_kernel "\<lambda>p ii. Particles_set_at_turn_value p ii t"
    "\<lambda>ii v. v\<lparr>pv_at_turn := t\<rparr>" for t
  by unfold_locales (auto simp: particle_simps)

interpretation set_at_element: particle_kernel "\<lambda>p ii. Particles_set_at_element_id_value p ii e"
    "\<lambda>ii v. v\<lparr>pv_at_element_id := e\<rparr>" for e
  by unfold_locales (auto simp: particle_simps)

interpretation set_id: particle_kernel "\<lambda>p ii. Particles_set_particle_id_value p ii ii"
    "\<lambda>ii v. v\<lparr>pv_particle_id := ii\<rparr>"
  by unfold_locales (auto simp: particle_simps)

interpretation increment_at_turn: particle_kernel Particles_increment_at_turn_value
    "\<lambda>ii v. v\<lparr>pv_at_turn := pv_at_turn v + 1\<rparr>"
  by unfold_locales (auto simp: particle_ops particle_simps)

interpretation increment_at_element: particle_kernel Particles_increment_at_element_id_value
    "\<lambda>ii v. v\<lparr>pv_at_element_id := pv_at_element_id v + 1\<rparr>"
  by unfold_locales (auto simp: particle_ops particle_simps)

interpretation mark_as_lost: particle_kernel Particles_mark_as_lost_value
    "\<lambda>ii v. v\<lparr>pv_state := 0\<rparr>"
  by unfold_locales (auto simp: particle_ops particle_simps)

interpretation update_state: particle_kernel
    "\<lambda>p ii. Particles_update_state_value_if_not_already_lost p ii new_state"
    "\<lambda>ii v. v\<lparr>pv_state := pv_state v AND new_state\<rparr>" for new_state
  by unfold_locales (auto simp: particle_ops particle_simps)

lemma is_not_lost_view [particle_simps]:
  "Particles_is_not_lost_value p ii \<longleftrightarrow> pv_state (particle_of p ii) = 1"
  by (simp add: particle_ops particle_simps)

subsection \<open>Extremal values\<close>

lemma fold_min_max_step:
  "fold (\<lambda>ii. min_max_step (f ii)) xs (lo, hi) =
     (Min (insert lo (f ` set xs)), Max (insert hi (f ` set xs)))"
proof (induction xs arbitrary: lo hi)
  case (Cons x xs)
  have "Min (insert (min lo (f x)) (f ` set xs)) = Min (insert lo (insert (f x) (f ` set xs)))"
    by (cases "set xs = {}") (simp_all add: min.assoc)
  moreover have
    "Max (insert (max hi (f x)) (f ` set xs)) = Max (insert hi (insert (f x) (f ` set xs)))"
    by (cases "set xs = {}") (simp_all add: max.assoc)
  moreover have "min_max_step (f x) (lo, hi) = (min lo (f x), max hi (f x))"
    by (auto simp: min_max_step_def min_def max_def)
  ultimately show ?case by (simp add: Cons)
qed simp

lemma fold_min:
  "fold (\<lambda>ii m. if m > f ii then f ii else m) xs (lo :: int) =
     Min (insert lo (f ` set xs))"
proof (induction xs arbitrary: lo)
  case (Cons x xs)
  have "Min (insert (min lo (f x)) (f ` set xs)) = Min (insert lo (insert (f x) (f ` set xs)))"
    by (cases "set xs = {}") (simp_all add: min.assoc)
  moreover have "(if lo > f x then f x else lo) = min lo (f x)" by auto
  ultimately show ?case by (simp add: Cons Let_def)
qed simp

lemma fold_max:
  "fold (\<lambda>ii m. if m < f ii then f ii else m) xs (hi :: int) =
     Max (insert hi (f ` set xs))"
proof (induction xs arbitrary: hi)
  case (Cons x xs)
  have "Max (insert (max hi (f x)) (f ` set xs)) = Max (insert hi (insert (f x) (f ` set xs)))"
    by (cases "set xs = {}") (simp_all add: max.assoc)
  moreover have "(if hi < f x then f x else hi) = max hi (f x)" by auto
  ultimately show ?case by (simp add: Cons Let_def)
qed simp

text \<open>The values an index attribute takes on the particles of a set.\<close>

definition attribute_values :: "(particle \<Rightarrow> i64) \<Rightarrow> particles \<Rightarrow> i64 set" where
  "attribute_values attr p = (\<lambda>ii. attr (particle_of p ii)) ` {0..<num_particles p}"

lemma attribute_values_split:
  "0 < num_particles p \<Longrightarrow>
     insert (attr (particle_of p 0)) ((\<lambda>ii. attr (particle_of p ii)) ` {1..num_particles p - 1}) =
     attribute_values attr p"
proof -
  assume "0 < num_particles p"
  then have "{0..<num_particles p} = insert 0 {1..num_particles p - 1}" by auto
  then show ?thesis by (simp add: attribute_values_def)
qed

lemma min_max_turn_and_element:
  assumes "0 < num_particles p"
  shows "Particles_get_min_at_turn_value p = Min (attribute_values pv_at_turn p)"
    and "Particles_get_max_at_turn_value p = Max (attribute_values pv_at_turn p)"
    and "Particles_get_min_at_element_id_value p = Min (attribute_values pv_at_element_id p)"
    and "Particles_get_max_at_element_id_value p = Max (attribute_values pv_at_element_id p)"
    and "Particles_get_min_max_at_turn_value p lo hi =
      (0, write_opt lo (Min (attribute_values pv_at_turn p)),
          write_opt hi (Max (attribute_values pv_at_turn p)))"
    and "Particles_get_min_max_at_element_id_value p lo hi =
      (0, write_opt lo (Min (attribute_values pv_at_element_id p)),
          write_opt hi (Max (attribute_values pv_at_element_id p)))"
  using attribute_values_split [OF assms] assms
  by (simp_all add: Particles_get_min_at_turn_value_def Particles_get_max_at_turn_value_def
      Particles_get_min_at_element_id_value_def Particles_get_max_at_element_id_value_def
      Particles_get_min_max_at_turn_value_def Particles_get_min_max_at_element_id_value_def
      Particles_get_num_of_particles_def Let_def fold_min fold_max fold_min_max_step particle_simps)

lemma find_min_max_fold:
  "fold (find_min_max_step p) xs a =
     (let ids = fold (\<lambda>ii. min_max_step \<bar>pv_particle_id (particle_of p ii)\<bar>) xs
            (a_min_particle_id a, a_max_particle_id a);
          elems = fold (\<lambda>ii. min_max_step (pv_at_element_id (particle_of p ii))) xs
            (a_min_at_element a, a_max_at_element a);
          turns = fold (\<lambda>ii. min_max_step (pv_at_turn (particle_of p ii))) xs
            (a_min_at_turn a, a_max_at_turn a)
      in \<lparr>a_min_particle_id = fst ids, a_max_particle_id = snd ids,
          a_min_at_element = fst elems, a_max_at_element = snd elems,
          a_min_at_turn = fst turns, a_max_at_turn = snd turns\<rparr>)"
proof (induction xs arbitrary: a)
  case (Cons x xs)
  have step: "find_min_max_step p x a =
    (let ids = min_max_step \<bar>pv_particle_id (particle_of p x)\<bar> (a_min_particle_id a, a_max_particle_id a);
         elems = min_max_step (pv_at_element_id (particle_of p x)) (a_min_at_element a, a_max_at_element a);
         turns = min_max_step (pv_at_turn (particle_of p x)) (a_min_at_turn a, a_max_at_turn a)
     in \<lparr>a_min_particle_id = fst ids, a_max_particle_id = snd ids,
         a_min_at_element = fst elems, a_max_at_element = snd elems,
         a_min_at_turn = fst turns, a_max_at_turn = snd turns\<rparr>)"
    by (simp add: find_min_max_step_def Let_def particle_simps case_prod_beta abs_if)
  show ?case by (simp add: Cons step Let_def)
qed simp

lemma lower_opt_min: "lower_opt q v = map_option (min v) q"
  by (cases q) (auto simp: lower_opt_def min_def)

lemma raise_opt_max: "raise_opt q v = map_option (max v) q"
  by (cases q) (auto simp: raise_opt_def max_def)

text \<open>\<open>NS(Particles_find_min_max_attributes)\<close> succeeds exactly on a non-empty particle set. It then
  lowers each minimum it was handed to the least absolute particle id, element id or turn of the set, and
  raises each maximum to the greatest; NULL pointers stay untouched.\<close>

theorem find_min_max_attributes_spec:
  "Particles_find_min_max_attributes p q =
     (if num_particles p > 0 then
        (0, \<lparr>ptr_min_particle_id =
               map_option (min (Min (attribute_values (\<lambda>v. \<bar>pv_particle_id v\<bar>) p))) (ptr_min_particle_id q),
             ptr_max_particle_id =
               map_option (max (Max (attribute_values (\<lambda>v. \<bar>pv_particle_id v\<bar>) p))) (ptr_max_particle_id q),
             ptr_min_at_element =
               map_option (min (Min (attribute_values pv_at_element_id p))) (ptr_min_at_element q),
             ptr_max_at_element =
               map_option (max (Max (attribute_values pv_at_element_id p))) (ptr_max_at_element q),
             ptr_min_at_turn =
               map_option (min (Min (attribute_values pv_at_turn p))) (ptr_min_at_turn q),
             ptr_max_at_turn =
               map_option (max (Max (attribute_values pv_at_turn p))) (ptr_max_at_turn q)\<rparr>)
      else (- 1, q))"
proof (cases "num_particles p > 0")
  case True
  have init: "find_min_max_init p =
     (let i = \<bar>pv_particle_id (particle_of p 0)\<bar>; e = pv_at_element_id (particle_of p 0);
          t = pv_at_turn (particle_of p 0)
      in \<lparr>a_min_particle_id = i, a_max_particle_id = i, a_min_at_element = e,
          a_max_at_element = e, a_min_at_turn = t, a_max_at_turn = t\<rparr>)"
    by (simp add: find_min_max_init_def Let_def particle_simps)
  show ?thesis
    using True attribute_values_split [OF True] attribute_values_split [OF True, of "\<lambda>v. \<bar>pv_particle_id v\<bar>"]
    by (simp add: Particles_find_min_max_attributes_def Particles_get_num_of_particles_def Let_def
        find_min_max_fold init fold_min_max_step lower_opt_min raise_opt_max)
next
  case False
  then show ?thesis
    by (simp add: Particles_find_min_max_attributes_def Particles_get_num_of_particles_def)
qed

text \<open>Looking for the extremal particle ids of a set with
  \<open>NS(Particles_get_min_max_particle_id_value_no_duplicate_check)\<close> starts the search from the element
  id of the first particle, not from its particle id: the bounds it reports can lie outside the ids of
  the set.\<close>

theorem min_max_particle_id_starts_from_element_id:
  "0 < num_particles p \<Longrightarrow>
   Particles_get_min_max_particle_id_value_no_duplicate_check p lo hi =
     (let candidates = insert (pv_at_element_id (particle_of p 0))
        ((\<lambda>ii. pv_particle_id (particle_of p ii)) ` {1..num_particles p - 1})
      in (0, write_opt lo (Min candidates), write_opt hi (Max candidates)))"
  by (simp add: Particles_get_min_max_particle_id_value_no_duplicate_check_def Let_def
      Particles_get_num_of_particles_def fold_min_max_step particle_simps)

theorem min_max_particle_id_starts_from_element_id_witness:
  "Particles_get_min_max_particle_id_value_no_duplicate_check
     (Particles_set_at_element_id_value (reference_particles 1) 0 7) (Some 0) (Some 0) =
     (0, Some 7, Some 7) \<and>
   attribute_values pv_particle_id
     (Particles_set_at_element_id_value (reference_particles 1) 0 7) = {0}"
proof -
  have one: "{0..<1 :: int} = {0}" by auto
  show ?thesis
  using min_max_particle_id_starts_from_element_id
    [of "Particles_set_at_element_id_value (reference_particles 1) 0 7" "Some 0" "Some 0"]
  by (simp add: particle_simps reference_particle_def write_opt_def attribute_values_def
      Let_def one)
qed

subsection \<open>Presetting, clearing and copying\<close>

lemma copy_values_entry:
  assumes "0 \<le> a" "0 \<le> n" "a + n \<le> ns" "0 \<le> b" "b + n \<le> nd" "0 \<le> jj" "jj < nd"
    and "length dst = nat nd" "length src = nat ns"
  shows "copy_values dst b src a n ! nat jj =
     (if b \<le> jj \<and> jj < b + n then src ! nat (a + (jj - b)) else dst ! nat jj)"
proof -
  have "nat b \<le> nat jj \<and> nat jj < nat b + nat n \<longleftrightarrow> b \<le> jj \<and> jj < b + n" using assms by auto
  moreover have "nat a + (nat jj - nat b) = nat (a + (jj - b))" if "b \<le> jj" using that assms by auto
  moreover have "nat b + nat n \<le> nat nd" "nat a + nat n \<le> nat ns" "nat jj < nat nd" using assms by auto
  ultimately show ?thesis using assms by (auto simp: nth_copy_values)
qed

lemma length_copy_values_int:
  assumes "0 \<le> a" "0 \<le> n" "a + n \<le> ns" "0 \<le> b" "b + n \<le> nd"
    and "length dst = nat nd" "length src = nat ns"
  shows "length (copy_values dst b src a n) = nat nd"
proof -
  have "nat b + nat n \<le> nat nd" "nat a + nat n \<le> nat ns" using assms by auto
  then show ?thesis using assms by simp
qed

lemma copy_particle_range_laws:
  assumes wf: "particles_wf d" "particles_wf s"
    and b: "0 \<le> a" "0 \<le> n" "a + n \<le> num_particles s" "0 \<le> b" "b + n \<le> num_particles d"
  shows copy_particle_range_wf: "particles_wf (copy_particle_range d s a n b)"
    and copy_particle_range_num: "num_particles (copy_particle_range d s a n b) = num_particles d"
    and copy_particle_range_view: "\<And>jj. valid_idx d jj \<Longrightarrow>
      particle_of (copy_particle_range d s a n b) jj =
        (if b \<le> jj \<and> jj < b + n then particle_of s (a + (jj - b)) else particle_of d jj)"
proof -
  show "num_particles (copy_particle_range d s a n b) = num_particles d"
    by (simp add: copy_particle_range_def)
  show "particles_wf (copy_particle_range d s a n b)"
    using wf
    by (simp add: copy_particle_range_def particles_wf_def length_copy_values_int [OF b])
  fix jj assume "valid_idx d jj"
  then have jj: "0 \<le> jj" "jj < num_particles d" by (simp_all add: valid_idx_def)
  show "particle_of (copy_particle_range d s a n b) jj =
      (if b \<le> jj \<and> jj < b + n then particle_of s (a + (jj - b)) else particle_of d jj)"
    using wf
    by (simp add: particle_of_def copy_particle_range_def particles_wf_def copy_values_entry [OF b jj])
qed

text \<open>\<open>set_values\<close> with one value is \<open>copy_values\<close> from a constant array, entry by entry.\<close>

lemma set_values_entry:
  assumes "0 \<le> a" "0 \<le> n" "a + n \<le> nd" "0 \<le> jj" "jj < nd" and "length dst = nat nd"
  shows "set_values dst a n v ! nat jj = (if a \<le> jj \<and> jj < a + n then v else dst ! nat jj)"
proof -
  have "nat a \<le> nat jj \<and> nat jj < nat a + nat n \<longleftrightarrow> a \<le> jj \<and> jj < a + n" using assms by auto
  moreover have "nat a + nat n \<le> nat nd" "nat jj < nat nd" using assms by auto
  ultimately show ?thesis using assms by (simp add: nth_set_values)
qed

lemma length_set_values_int:
  assumes "0 \<le> a" "0 \<le> n" "a + n \<le> nd" and "length dst = nat nd"
  shows "length (set_values dst a n v) = nat nd"
proof -
  have "nat a + nat n \<le> nat nd" using assms by auto
  then show ?thesis using assms by simp
qed

lemma clear_single_kernel:
  "particles_wf p \<Longrightarrow> valid_idx p ii \<Longrightarrow> Particles_clear_single p ii = clear_particle p ii"
  by (simp add: Particles_clear_single_def Particles_get_num_of_particles_def valid_idx_def Let_def)

interpretation clear_single: particle_kernel Particles_clear_single "\<lambda>ii v. zero_view"
proof
  show "num_particles (Particles_clear_single p ii) = num_particles p" for p ii
    by (simp add: Particles_clear_single_def clear.kernel_num Let_def)
qed (simp_all add: clear_single_kernel clear.kernel_wf clear.kernel_view)

lemma clear_range_laws:
  assumes wf: "particles_wf p" and b: "0 \<le> a" "a \<le> e" "e \<le> num_particles p"
  shows "particles_wf (Particles_clear_range p a e)"
    and "num_particles (Particles_clear_range p a e) = num_particles p"
    and "\<And>jj. valid_idx p jj \<Longrightarrow> particle_of (Particles_clear_range p a e) jj =
      (if a \<le> jj \<and> jj < e then zero_view else particle_of p jj)"
proof -
  have n: "0 \<le> e - a" "a + (e - a) \<le> num_particles p" using b by simp_all
  note defs = Particles_clear_range_def Particles_get_num_of_particles_def Let_def
  show "num_particles (Particles_clear_range p a e) = num_particles p" by (simp add: defs)
  show "particles_wf (Particles_clear_range p a e)"
    using wf b
    by (simp add: defs particles_wf_def length_set_values_int [OF b(1) n])
  fix jj assume "valid_idx p jj"
  then have jj: "0 \<le> jj" "jj < num_particles p" by (simp_all add: valid_idx_def)
  show "particle_of (Particles_clear_range p a e) jj =
      (if a \<le> jj \<and> jj < e then zero_view else particle_of p jj)"
    using wf b
    by (simp add: defs particle_of_def particles_wf_def zero_view_def set_values_entry [OF b(1) n jj])
qed

text \<open>\<open>NS(Particles_clear_range)\<close>, which overwrites whole array sections, equals the loop that
  clears the particles of the range one by one with \<open>NS(Particles_clear_single)\<close>.\<close>

theorem clear_range_is_loop_of_clear_single:
  assumes wf: "particles_wf p" and b: "0 \<le> start_index" "start_index \<le> end_index" "end_index \<le> num_particles p"
  shows "Particles_clear_range p start_index end_index =
    for_range Particles_clear_single start_index end_index p"
  using clear_range_laws [OF wf b] clear_single.for_range_invariant [OF wf b(1,3)]
    clear_single.for_range_view [OF wf b(1,3)]
  by (intro particles_eqI) (simp_all add: valid_idx_def)

theorem clear_range_is_loop_of_clear_single_witness:
  "Particles_clear_range (reference_particles 3) 1 3 =
   for_range Particles_clear_single 1 3 (reference_particles 3)"
  using clear_range_is_loop_of_clear_single [of "reference_particles 3" 1 3] by simp

text \<open>\<open>NS(Particles_copy_range)\<close> into a distinct particle set succeeds for every source range that
  exists and fits at the destination, and is the same as copying its particles one by one with
  \<open>NS(Particles_copy_single)\<close>: everything outside the destination range keeps its value.\<close>

theorem copy_range_is_loop_of_copy_single:
  assumes wf: "particles_wf destination" "particles_wf source"
    and b: "0 \<le> a" "a \<le> e" "e \<le> num_particles source" "0 \<le> b" "b < num_particles destination"
      "b + (e - a) \<le> num_particles destination"
  shows "Particles_copy_range False destination source a e b =
    (for_range (\<lambda>d ii. fst (Particles_copy_single False d ii source (ii + (a - b)))) b (b + (e - a))
       destination, 0)"
proof -
  note copy = copy_particle_range_laws [OF wf b(1) _ _ b(4), of "e - a"]
  have single: "fold (\<lambda>ii d. fst (Particles_copy_single False d ii source (ii + (a - b)))) iis d =
      fold (\<lambda>ii d. copy_particle d ii source (ii + (a - b))) iis d"
    if "\<forall>ii\<in>set iis. b \<le> ii \<and> ii < b + (e - a)" "num_particles d = num_particles destination" for iis d
    using that b
    by (induction iis arbitrary: d)
      (simp_all add: Particles_copy_single_def Particles_get_num_of_particles_def Let_def
        copy1.kernel_num)
  have "for_range (\<lambda>d ii. fst (Particles_copy_single False d ii source (ii + (a - b)))) b (b + (e - a))
      destination = for_range (\<lambda>d ii. copy_particle d ii source (ii + (a - b))) b (b + (e - a)) destination"
    by (simp add: for_range_def single)
  also have "\<dots> = copy_particle_range destination source a (e - a) b"
    using copy b copy1.for_range_invariant [OF wf(1) b(4,6), where source = source and off = "a - b"]
      copy1.for_range_view [OF wf(1) b(4,6), where source = source and off = "a - b"]
    by (intro particles_eqI) (simp_all add: valid_idx_def algebra_simps)
  finally show ?thesis
    using b by (simp add: Particles_copy_range_def Particles_get_num_of_particles_def Let_def)
qed

theorem copy_range_is_loop_of_copy_single_witness:
  "Particles_copy_range False (reference_particles 4) (reference_particles 3) 1 3 2 =
    (for_range (\<lambda>d ii. fst (Particles_copy_single False d ii (reference_particles 3) (ii + (1 - 2))))
       2 (2 + (3 - 1)) (reference_particles 4), 0)"
  by (rule copy_range_is_loop_of_copy_single) simp_all

text \<open>\<open>NS(Particles_copy)\<close> between two distinct particle sets of the same positive size makes the
  destination equal to the source; with any other size, or onto itself, it fails and changes nothing.\<close>

theorem copy_makes_equal:
  assumes wf: "particles_wf destination" "particles_wf source"
  shows "Particles_copy same destination source =
    (if \<not> same \<and> 0 < num_particles source \<and> num_particles source = num_particles destination
     then (source, 0) else (destination, - 1))"
proof (cases "\<not> same \<and> 0 < num_particles source \<and> num_particles source = num_particles destination")
  case True
  then have "copy_particle_range destination source 0 (num_particles source) 0 = source"
    using copy_particle_range_laws [OF wf, of 0 "num_particles source" 0] wf(2)
    by (intro particles_eqI) (simp_all add: valid_idx_def)
  then show ?thesis
    using True by (simp add: Particles_copy_def Particles_copy_range_def
        Particles_get_num_of_particles_def Let_def)
next
  case False
  then show ?thesis
    by (auto simp: Particles_copy_def Particles_copy_range_def Particles_get_num_of_particles_def
        Let_def)
qed

theorem copy_makes_equal_witness:
  "Particles_copy False (Particles_clear (reference_particles 2)) (reference_particles 2) =
     (reference_particles 2, 0)"
proof -
  have "particles_wf (Particles_clear (reference_particles 2))"
    "num_particles (Particles_clear (reference_particles 2)) = 2"
    using clear_range_laws [of "reference_particles 2" 0 2]
    by (simp_all add: Particles_clear_def Particles_get_num_of_particles_def)
  then show ?thesis using copy_makes_equal [of _ "reference_particles 2" False] by simp
qed

lemma copy_to_generic_laws:
  assumes wf: "particles_wf dest" and d: "valid_idx dest dest_idx" and n: "src_idx < num_particles src"
  shows "snd (Particles_copy_to_generic_addr_data dest dest_idx src src_idx) = 0"
    and "particles_wf (fst (Particles_copy_to_generic_addr_data dest dest_idx src src_idx))"
    and "0 \<le> jj \<Longrightarrow>
      particle_of (fst (Particles_copy_to_generic_addr_data dest dest_idx src src_idx)) jj =
        (if jj = dest_idx then particle_of src src_idx else particle_of dest jj)"
proof -
  note defs = Particles_copy_to_generic_addr_data_def
  have c: "num_particles src > src_idx \<and> num_particles dest > dest_idx"
    using d n by (simp add: valid_idx_def)
  show "snd (Particles_copy_to_generic_addr_data dest dest_idx src src_idx) = 0"
    using c by (simp add: defs)
  show "particles_wf (fst (Particles_copy_to_generic_addr_data dest dest_idx src src_idx))"
    using c wf by (simp add: defs particles_wf_def)
  have i: "nat dest_idx < nat (num_particles dest)" "0 \<le> dest_idx" using d by (auto simp: valid_idx_def)
  assume jj: "0 \<le> jj"
  show "particle_of (fst (Particles_copy_to_generic_addr_data dest dest_idx src src_idx)) jj =
      (if jj = dest_idx then particle_of src src_idx else particle_of dest jj)"
    using c wf i jj
    by (cases "jj = dest_idx")
      (simp_all add: defs particle_of_def particles_wf_def particle_simps eq_nat_nat_iff
        nth_list_update)
qed

lemma copy_to_generic_num:
  "num_particles (fst (Particles_copy_to_generic_addr_data dest dest_idx src src_idx)) = num_particles dest"
  by (simp add: Particles_copy_to_generic_addr_data_def)

lemma copy_to_generic_status:
  "snd (Particles_copy_to_generic_addr_data dest dest_idx src src_idx) =
     (if num_particles src > src_idx \<and> num_particles dest > dest_idx then 0 else - 1)"
  by (simp add: Particles_copy_to_generic_addr_data_def)

text \<open>\<open>NS(Particles_calculate_difference)\<close> on three particle sets of the same positive size leaves
  in \<open>diff\<close> the entry-wise differences of all attributes, whatever \<open>diff\<close> held before.\<close>

theorem calculate_difference_spec:
  assumes wf: "particles_wf diff" and n: "0 < num_particles lhs"
    "num_particles rhs = num_particles lhs" "num_particles diff = num_particles lhs"
    and jj: "valid_idx lhs jj"
  shows "particle_of (Particles_calculate_difference lhs rhs diff) jj =
    difference_view (particle_of lhs jj) (particle_of rhs jj)"
  using difference.for_range_view [OF wf, of 0 "num_particles lhs" jj lhs rhs] n jj
  by (simp add: Particles_calculate_difference_def Particles_get_num_of_particles_def Let_def
      valid_idx_def)

theorem calculate_difference_spec_witness:
  "pv_delta (particle_of (Particles_calculate_difference
     (Particles_set_delta_value (reference_particles 2) 1 5) (reference_particles 2)
     (reference_particles 2)) 1) = 5"
  using calculate_difference_spec [of "reference_particles 2"
      "Particles_set_delta_value (reference_particles 2) 1 5" "reference_particles 2" 1]
  by (simp add: particle_simps reference_particle_def difference_view_def)

subsection \<open>The entry of greatest absolute value\<close>

definition max_abs_inv :: "'a :: linordered_idom list \<Rightarrow> 'a \<times> 'a \<times> nat \<Rightarrow> bool" where
  "max_abs_inv xs r \<longleftrightarrow>
     (case r of (m, c, k) \<Rightarrow> c = \<bar>m\<bar> \<and> (\<forall>x\<in>set xs. \<bar>x\<bar> \<le> c) \<and>
       (if \<forall>x\<in>set xs. x = 0 then m = 0 \<and> k = 0
        else k < length xs \<and> xs ! k = m \<and> m \<noteq> 0 \<and> (\<forall>i<k. \<bar>xs ! i\<bar> < c)))"

lemma max_abs_loop:
  "max_abs_inv xs (fold max_abs_step (zip [0..<length xs] xs) (0, 0, 0))"
proof (induction xs rule: rev_induct)
  case (snoc x xs)
  obtain m c k where r: "fold max_abs_step (zip [0..<length xs] xs) (0, 0, 0) = (m, c, k)"
    by (rule prod_cases3)
  have ih: "max_abs_inv xs (m, c, k)" using snoc r by simp
  have step: "max_abs_step (length xs, x) (m, c, k) =
      (if c < \<bar>x\<bar> then (x, \<bar>x\<bar>, length xs) else (m, c, k))"
    by (auto simp: max_abs_step_def Let_def)
  have "max_abs_inv (xs @ [x]) (if c < \<bar>x\<bar> then (x, \<bar>x\<bar>, length xs) else (m, c, k))"
  proof (cases "c < \<bar>x\<bar>")
    case True
    then have "\<forall>y\<in>set xs. \<bar>y\<bar> < \<bar>x\<bar>" and "x \<noteq> 0"
      using ih by (auto simp: max_abs_inv_def)
    then show ?thesis using True by (auto simp: max_abs_inv_def nth_append less_imp_le)
  next
    case False
    then show ?thesis
      using ih by (cases "\<forall>y\<in>set xs. y = 0") (auto simp: max_abs_inv_def nth_append)
  qed
  then show ?case by (simp add: r step)
qed (simp add: max_abs_inv_def)

text \<open>The search that \<open>NS(Particles_get_max_value)\<close> runs over each array finds the entry of greatest
  absolute value and the first position that holds it; an array of zeros gives value 0 at position 0.\<close>

theorem max_abs_value_spec:
  assumes "max_abs_value xs = (m, k)"
  shows "(\<forall>x\<in>set xs. \<bar>x\<bar> \<le> \<bar>m\<bar>) \<and>
    (if \<forall>x\<in>set xs. x = 0 then m = 0 \<and> k = 0
     else k < length xs \<and> xs ! k = m \<and> (\<forall>i<k. \<bar>xs ! i\<bar> < \<bar>m\<bar>))"
  using max_abs_loop [of xs] assms
  by (auto simp: max_abs_value_def max_abs_inv_def split: prod.splits if_splits)

theorem max_abs_value_spec_witness: "max_abs_value [2, - 7, 7 :: int] = (- 7, 1) \<and> \<bar>2\<bar> \<le> \<bar>- 7 :: int\<bar>"
proof -
  have "max_abs_value [2, - 7, 7 :: int] = (- 7, 1)" by code_simp
  then show ?thesis using max_abs_value_spec [of "[2, - 7, 7 :: int]" "- 7" 1] by simp
qed

subsection \<open>Energy and momentum deviation: laws\<close>

text \<open>
  The redundant quantities of one particle agree: the relative momentum deviation \<open>delta\<close>, the
  relative energy deviation \<open>psigma\<close> (scaled by the reference velocity \<open>beta0\<close>), the inverse momentum
  ratio \<open>rpp\<close> and the velocity ratio \<open>rvv\<close>. \<open>delta_map\<close> and \<open>energy_map\<close> are the effects of
  \<open>NS(Particles_update_delta_value)\<close> and \<open>NS(Particles_add_to_energy_value)\<close> on the view of a particle;
  \<open>energy_at t\<close> brings a particle to total energy \<open>t\<close> in units of the reference energy.
\<close>

definition momentum_consistent :: "particle \<Rightarrow> bool" where
  "momentum_consistent v \<longleftrightarrow>
     0 < pv_beta0 v \<and> pv_beta0 v \<le> 1 \<and> 0 < 1 + pv_delta v \<and>
     0 < 1 + (pv_beta0 v)\<^sup>2 * pv_psigma v \<and>
     (1 + pv_delta v)\<^sup>2 = 1 + 2 * pv_psigma v + (pv_beta0 v * pv_psigma v)\<^sup>2 \<and>
     pv_rpp v * (1 + pv_delta v) = 1 \<and>
     pv_rvv v * (1 + (pv_beta0 v)\<^sup>2 * pv_psigma v) = 1 + pv_delta v"

definition energy0_of :: "particle \<Rightarrow> real" where
  "energy0_of v = sqrt (pv_p0c v * pv_p0c v + pv_mass0 v * pv_mass0 v)"

definition delta_map :: "real \<Rightarrow> particle \<Rightarrow> particle" where
  "delta_map d v =
     (let t = sqrt (d * pv_beta0 v * (d * pv_beta0 v) + 2 * (d * pv_beta0 v) * pv_beta0 v + 1)
      in v\<lparr>pv_delta := d, pv_rvv := (1 + d) / t, pv_rpp := 1 / (1 + d),
           pv_psigma := (t - 1) / (pv_beta0 v * pv_beta0 v)\<rparr>)"

definition energy_map :: "real \<Rightarrow> particle \<Rightarrow> particle" where
  "energy_map dE v =
     (let db = pv_delta v * pv_beta0 v;
          ptau_beta0 = dE / energy0_of v + sqrt (db * db + 2 * db * pv_beta0 v + 1) - 1;
          ptau = ptau_beta0 / pv_beta0 v;
          psigma = ptau / pv_beta0 v;
          d = sqrt (ptau * ptau + 2 * psigma + 1) - 1;
          rvv = (d + 1) / (1 + ptau_beta0)
      in v\<lparr>pv_delta := d, pv_psigma := psigma, pv_zeta := pv_zeta v * (rvv / pv_rvv v),
           pv_rvv := rvv, pv_rpp := 1 / (d + 1)\<rparr>)"

definition energy_ratio :: "particle \<Rightarrow> real" where
  "energy_ratio v = 1 + (pv_beta0 v)\<^sup>2 * pv_psigma v"

definition energy_reachable :: "particle \<Rightarrow> real \<Rightarrow> bool" where
  "energy_reachable v t \<longleftrightarrow> 0 < t \<and> 1 - (pv_beta0 v)\<^sup>2 < t\<^sup>2"

definition energy_at :: "real \<Rightarrow> particle \<Rightarrow> particle" where
  "energy_at t v =
     (let ptau = (t - 1) / pv_beta0 v;
          psigma = ptau / pv_beta0 v;
          d = sqrt (ptau * ptau + 2 * psigma + 1)
      in v\<lparr>pv_delta := d - 1, pv_psigma := psigma, pv_zeta := pv_zeta v * (d / t / pv_rvv v),
           pv_rvv := d / t, pv_rpp := 1 / d\<rparr>)"

interpretation update_delta: particle_kernel "\<lambda>p ii. Particles_update_delta_value p ii d"
    "\<lambda>ii. delta_map d" for d
  by unfold_locales (auto simp: particle_ops particle_simps Let_def delta_map_def)

interpretation add_to_energy: particle_kernel "\<lambda>p ii. Particles_add_to_energy_value p ii dE"
    "\<lambda>ii. energy_map dE" for dE
  by unfold_locales
    (auto simp: particle_ops particle_simps Let_def energy_map_def energy0_of_def)

lemma sqrt_energy:
  assumes "momentum_consistent v"
  shows "sqrt (pv_delta v * pv_beta0 v * (pv_delta v * pv_beta0 v) +
      2 * (pv_delta v * pv_beta0 v) * pv_beta0 v + 1) = 1 + (pv_beta0 v)\<^sup>2 * pv_psigma v"
proof (rule real_sqrt_unique)
  have "(1 + pv_delta v)\<^sup>2 - 1 = 2 * pv_psigma v + (pv_beta0 v * pv_psigma v)\<^sup>2"
    using assms by (simp add: momentum_consistent_def)
  then have "(pv_beta0 v)\<^sup>2 * ((1 + pv_delta v)\<^sup>2 - 1) =
      (pv_beta0 v)\<^sup>2 * (2 * pv_psigma v + (pv_beta0 v * pv_psigma v)\<^sup>2)" by simp
  then show "(1 + (pv_beta0 v)\<^sup>2 * pv_psigma v)\<^sup>2 = pv_delta v * pv_beta0 v * (pv_delta v * pv_beta0 v) +
      2 * (pv_delta v * pv_beta0 v) * pv_beta0 v + 1"
    by (simp add: power2_eq_square algebra_simps)
  show "0 \<le> 1 + (pv_beta0 v)\<^sup>2 * pv_psigma v" using assms by (simp add: momentum_consistent_def)
qed

lemma delta_map_consistent:
  assumes "0 < pv_beta0 v" "pv_beta0 v \<le> 1" "0 < 1 + d"
  shows "momentum_consistent (delta_map d v)"
proof -
  define b t where "b = pv_beta0 v"
    and "t = sqrt (d * b * (d * b) + 2 * (d * b) * b + 1)"
  have b: "0 < b" "b \<le> 1" using assms by (simp_all add: b_def)
  have "b * b \<le> 1" using b mult_mono [of b 1 b 1] by simp
  moreover have "d * b * (d * b) + 2 * (d * b) * b + 1 = b\<^sup>2 * (1 + d)\<^sup>2 + (1 - b * b)"
    by (simp add: power2_eq_square algebra_simps)
  moreover have "0 < b\<^sup>2 * (1 + d)\<^sup>2" using b assms(3) by simp
  ultimately have pos: "0 < d * b * (d * b) + 2 * (d * b) * b + 1" by linarith
  then have t: "0 < t" by (simp add: t_def)
  have tt: "t * t = d * b * (d * b) + 2 * (d * b) * b + 1"
    using pos by (simp add: t_def)
  have e: "1 + b\<^sup>2 * ((t - 1) / (b * b)) = t" using b by (simp add: power2_eq_square)
  have "1 + 2 * ((t - 1) / (b * b)) + (b * ((t - 1) / (b * b)))\<^sup>2 = (t * t - 1) / (b * b) + 1"
    using b by (simp add: field_simps power2_eq_square)
  also have "\<dots> = (1 + d)\<^sup>2" unfolding tt using b by (simp add: field_simps power2_eq_square)
  finally have sq: "(1 + d)\<^sup>2 = 1 + 2 * ((t - 1) / (b * b)) + (b * ((t - 1) / (b * b)))\<^sup>2" by simp
  show ?thesis
    using b t assms(3) e sq
    by (simp add: momentum_consistent_def delta_map_def Let_def flip: b_def t_def)
qed

lemma energy_map_at:
  assumes "momentum_consistent v"
  shows "energy_map dE v = energy_at (energy_ratio v + dE / energy0_of v) v"
proof -
  define t where "t = energy_ratio v + dE / energy0_of v"
  have "dE / energy0_of v + sqrt (pv_delta v * pv_beta0 v * (pv_delta v * pv_beta0 v) +
      2 * (pv_delta v * pv_beta0 v) * pv_beta0 v + 1) - 1 = t - 1"
    using sqrt_energy [OF assms] by (simp add: energy_ratio_def t_def)
  then show ?thesis
    unfolding t_def [symmetric] energy_map_def Let_def by (simp only: energy_at_def Let_def) simp
qed

lemma energy_at_radicand:
  assumes "0 < pv_beta0 v" "energy_reachable v t"
  shows "0 < ((t - 1) / pv_beta0 v) * ((t - 1) / pv_beta0 v) + 2 * ((t - 1) / pv_beta0 v / pv_beta0 v) + 1"
proof -
  have "((t - 1) / pv_beta0 v) * ((t - 1) / pv_beta0 v) + 2 * ((t - 1) / pv_beta0 v / pv_beta0 v) + 1 =
      (t\<^sup>2 - (1 - (pv_beta0 v)\<^sup>2)) / (pv_beta0 v)\<^sup>2"
    using assms by (simp add: field_simps power2_eq_square)
  then show ?thesis using assms by (simp add: energy_reachable_def)
qed

lemma energy_at_consistent:
  assumes b: "0 < pv_beta0 v" "pv_beta0 v \<le> 1" and t: "energy_reachable v t"
  shows "momentum_consistent (energy_at t v)" and "energy_ratio (energy_at t v) = t"
proof -
  define b ptau d where "b = pv_beta0 v" and "ptau = (t - 1) / b"
    and "d = sqrt (ptau * ptau + 2 * (ptau / b) + 1)"
  have b: "0 < b" "b \<le> 1" using b by (simp_all add: b_def)
  have "0 < ptau * ptau + 2 * (ptau / b) + 1"
    using energy_at_radicand [OF assms(1) t] by (simp add: ptau_def b_def)
  then have d: "0 < d" "d * d = ptau * ptau + 2 * (ptau / b) + 1" by (simp_all add: d_def)
  have m: "energy_at t v = v\<lparr>pv_delta := d - 1, pv_psigma := ptau / b,
      pv_zeta := pv_zeta v * (d / t / pv_rvv v), pv_rvv := d / t, pv_rpp := 1 / d\<rparr>"
    unfolding energy_at_def Let_def b_def [symmetric] by (simp add: d_def flip: ptau_def)
  have psi: "b\<^sup>2 * (ptau / b) = t - 1" using b by (simp add: ptau_def power2_eq_square)
  then show "energy_ratio (energy_at t v) = t" by (simp add: m energy_ratio_def b_def)
  have "b * (ptau / b) = ptau" using b by simp
  then have "(d - 1 + 1)\<^sup>2 = 1 + 2 * (ptau / b) + (b * (ptau / b))\<^sup>2"
    using d(2) by (simp add: power2_eq_square)
  then show "momentum_consistent (energy_at t v)"
    unfolding momentum_consistent_def m using b t d(1) psi
    by (simp add: energy_reachable_def flip: b_def)
qed

lemma energy_at_again:
  assumes "0 < pv_beta0 v" "energy_reachable v t"
  shows "energy_at t' (energy_at t v) = energy_at t' v"
  using energy_at_radicand [OF assms] assms(2)
  by (simp add: energy_at_def Let_def energy_reachable_def)

lemma energy_at_base [simp]:
  "pv_beta0 (energy_at t v) = pv_beta0 v" "energy0_of (energy_at t v) = energy0_of v"
  "energy_reachable (energy_at t v) t' = energy_reachable v t'"
  by (simp_all add: energy_at_def Let_def energy0_of_def energy_reachable_def)

text \<open>\<open>NS(Particles_update_delta_value)\<close> sets the momentum deviation of particle \<open>ii\<close> to the new
  value and makes every quantity derived from it consistent with it; all other particles, and all other
  quantities of that particle, keep their values.\<close>

theorem update_delta_value_consistent:
  assumes "particles_wf p" "valid_idx p ii"
    and "0 < pv_beta0 (particle_of p ii)" "pv_beta0 (particle_of p ii) \<le> 1" "- 1 < new_delta_value"
  shows "let q = Particles_update_delta_value p ii new_delta_value in
    particles_wf q \<and> momentum_consistent (particle_of q ii) \<and>
    pv_delta (particle_of q ii) = new_delta_value \<and>
    (\<exists>s rvv rpp. particle_of q ii = (particle_of p ii)
       \<lparr>pv_delta := new_delta_value, pv_rvv := rvv, pv_rpp := rpp, pv_psigma := s\<rparr>) \<and>
    (\<forall>jj\<ge>0. jj \<noteq> ii \<longrightarrow> particle_of q jj = particle_of p jj)"
proof -
  have ii: "0 \<le> ii" using assms(2) by (simp add: valid_idx_def)
  have "\<exists>s rvv rpp. delta_map d v =
      v\<lparr>pv_delta := d, pv_rvv := rvv, pv_rpp := rpp, pv_psigma := s\<rparr>" for d v
    unfolding delta_map_def Let_def by blast
  moreover have "pv_delta (delta_map d v) = d" for d v by (simp add: delta_map_def Let_def)
  ultimately show ?thesis
    using assms ii delta_map_consistent [of "particle_of p ii" new_delta_value]
    by (simp add: update_delta.kernel_wf update_delta.kernel_view)
qed

theorem update_delta_value_consistent_witness:
  "pv_delta (particle_of (Particles_update_delta_value (reference_particles 2) 1 3) 1) = 3 \<and>
   momentum_consistent (particle_of (Particles_update_delta_value (reference_particles 2) 1 3) 1)"
  using update_delta_value_consistent [of "reference_particles 2" 1 3]
  by (simp add: reference_particle_def Let_def)

text \<open>\<open>NS(Particles_add_to_energy)\<close> adds the same energy to every particle: the total energy of
  each, in units of its reference energy, grows by exactly the amount given, and the momentum deviation,
  \<open>psigma\<close>, \<open>rpp\<close> and \<open>rvv\<close> stay consistent with each other.\<close>

theorem add_to_energy_all:
  assumes wf: "particles_wf p"
    and all: "\<And>jj. valid_idx p jj \<Longrightarrow> momentum_consistent (particle_of p jj) \<and>
      energy_reachable (particle_of p jj)
        (energy_ratio (particle_of p jj) + delta_energy / energy0_of (particle_of p jj))"
    and jj: "valid_idx p jj"
  shows "momentum_consistent (particle_of (Particles_add_to_energy p delta_energy) jj) \<and>
    energy_ratio (particle_of (Particles_add_to_energy p delta_energy) jj) =
      energy_ratio (particle_of p jj) + delta_energy / energy0_of (particle_of p jj)"
proof -
  have b: "0 < pv_beta0 (particle_of p jj)" "pv_beta0 (particle_of p jj) \<le> 1"
    using all [OF jj] by (simp_all add: momentum_consistent_def)
  have "particle_of (Particles_add_to_energy p delta_energy) jj =
      energy_map delta_energy (particle_of p jj)"
    using jj add_to_energy.for_range_view [OF wf, of 0 "num_particles p" jj delta_energy]
    by (simp add: Particles_add_to_energy_def Particles_get_num_of_particles_def valid_idx_def)
  then show ?thesis
    using all [OF jj] energy_at_consistent [OF b] by (simp add: energy_map_at)
qed

theorem add_to_energy_all_witness:
  "energy_ratio (particle_of (Particles_add_to_energy (reference_particles 2) 3) 1) = 4"
  using add_to_energy_all [of "reference_particles 2" 3 1]
  by (simp add: reference_particle_def momentum_consistent_def energy_reachable_def
      energy_ratio_def energy0_of_def)

text \<open>Adding energy to a particle twice with \<open>NS(Particles_add_to_energy_value)\<close> gives exactly the
  particle set that adding the sum once gives, all derived quantities and the longitudinal coordinate
  included, whenever the intermediate energy is above the rest energy.\<close>

theorem add_to_energy_additive:
  assumes wf: "particles_wf p" and ii: "valid_idx p ii"
    and c: "momentum_consistent (particle_of p ii)"
    and r: "energy_reachable (particle_of p ii)
      (energy_ratio (particle_of p ii) + dE1 / energy0_of (particle_of p ii))"
  shows "Particles_add_to_energy_value (Particles_add_to_energy_value p ii dE1) ii dE2 =
    Particles_add_to_energy_value p ii (dE1 + dE2)"
proof (rule particles_eqI)
  have wf1: "particles_wf (Particles_add_to_energy_value p ii dE1)"
    and ii1: "valid_idx (Particles_add_to_energy_value p ii dE1) ii"
    using wf ii by (simp_all add: add_to_energy.kernel_wf add_to_energy.kernel_valid)
  have ii0: "0 \<le> ii" using ii by (simp add: valid_idx_def)
  show "particles_wf (Particles_add_to_energy_value (Particles_add_to_energy_value p ii dE1) ii dE2)"
    by (rule add_to_energy.kernel_wf [OF wf1 ii1])
  show "particles_wf (Particles_add_to_energy_value p ii (dE1 + dE2))"
    by (rule add_to_energy.kernel_wf [OF wf ii])
  show "num_particles (Particles_add_to_energy_value (Particles_add_to_energy_value p ii dE1) ii dE2) =
      num_particles (Particles_add_to_energy_value p ii (dE1 + dE2))"
    by (simp add: add_to_energy.kernel_num)
  fix jj assume "valid_idx (Particles_add_to_energy_value (Particles_add_to_energy_value p ii dE1) ii dE2) jj"
  then have jj: "0 \<le> jj" by (simp add: valid_idx_def)
  have b: "0 < pv_beta0 (particle_of p ii)" "pv_beta0 (particle_of p ii) \<le> 1"
    using c by (simp_all add: momentum_consistent_def)
  show "particle_of (Particles_add_to_energy_value (Particles_add_to_energy_value p ii dE1) ii dE2) jj =
      particle_of (Particles_add_to_energy_value p ii (dE1 + dE2)) jj"
    using wf ii wf1 ii1 jj ii0 c energy_at_consistent [OF b r] energy_at_again [OF b(1) r]
    by (simp add: add_to_energy.kernel_view energy_map_at add_divide_distrib add.assoc)
qed

theorem add_to_energy_additive_witness:
  "Particles_add_to_energy_value (Particles_add_to_energy_value (reference_particles 2) 1 3) 1 4 =
   Particles_add_to_energy_value (reference_particles 2) 1 7"
  using add_to_energy_additive [of "reference_particles 2" 1 3 4]
  by (simp add: reference_particle_def momentum_consistent_def energy_reachable_def
      energy_ratio_def energy0_of_def)

end
