(* ===== verification/Elements.thy ===== *)
theory Elements
  imports Particle_Ops
begin

section \<open>Drifts, shifts, rotations, edges and cavities\<close>

text \<open>
  The beam elements without tables or apertures: \<open>be_drift\<close>, \<open>be_xyshift\<close>, \<open>be_srotation\<close>,
  \<open>be_dipedge\<close> and \<open>be_cavity\<close>. Each component is the structure of its header, its setters, and its
  tracking function, which returns the particle set together with the status of the code.

  Every tracking function is a \<open>particle_kernel\<close>; the map it applies to the view of a particle is named
  \<open><element>_map\<close>. Elements of one kind whose maps compose additively in a parameter (a length, an
  angle) satisfy the \<open>additive_map\<close> interface, from which slicing and inversion follow once for all.
\<close>

type_synonym track_status = int

subsection \<open>Physical constants\<close>

definition SIXTRL_PI :: real where
  "SIXTRL_PI = 3.1415926535897932384626433832795028841971693993751"

definition SIXTRL_C_LIGHT :: real where
  "SIXTRL_C_LIGHT = 299792458"

definition MathConst_deg2rad :: real where
  "MathConst_deg2rad = 0.0174532925199432957692369076848861271344287188854172546"

definition MathConst_rad2deg :: real where
  "MathConst_rad2deg = 57.29577951308232087679815481410517033240547246656432154916"

definition PhysConst_charge0 :: real where
  "PhysConst_charge0 = 1"

subsection \<open>Drift\<close>

record Drift =
  Drift_length :: real

definition Drift_set_length :: "Drift \<Rightarrow> real \<Rightarrow> Drift \<times> arch_status" where
  "Drift_set_length drift len = (drift\<lparr>Drift_length := len\<rparr>, 0)"

definition Drift_clear :: "Drift \<Rightarrow> Drift \<times> arch_status" where
  "Drift_clear drift = Drift_set_length drift 0"

definition Drift_copy :: "Drift \<Rightarrow> Drift \<Rightarrow> Drift \<times> arch_status" where
  "Drift_copy destination source = Drift_set_length destination (Drift_length source)"

definition Track_particle_drift :: "particles \<Rightarrow> i64 \<Rightarrow> Drift \<Rightarrow> particles \<times> track_status" where
  "Track_particle_drift p ii drift =
     (let rpp = Particles_get_rpp_value p ii;
          xp = Particles_get_px_value p ii * rpp;
          yp = Particles_get_py_value p ii * rpp;
          len = Drift_length drift;
          dzeta = Particles_get_rvv_value p ii - (1 + (xp * xp + yp * yp) / 2);
          p = Particles_add_to_x_value p ii (xp * len);
          p = Particles_add_to_y_value p ii (yp * len);
          p = Particles_add_to_s_value p ii len;
          p = Particles_add_to_zeta_value p ii (len * dzeta)
      in (p, 0))"

record DriftExact =
  DriftExact_length :: real

definition DriftExact_set_length :: "DriftExact \<Rightarrow> real \<Rightarrow> DriftExact \<times> arch_status" where
  "DriftExact_set_length drift len = (drift\<lparr>DriftExact_length := len\<rparr>, 0)"

definition DriftExact_clear :: "DriftExact \<Rightarrow> DriftExact \<times> arch_status" where
  "DriftExact_clear drift = DriftExact_set_length drift 0"

definition DriftExact_copy :: "DriftExact \<Rightarrow> DriftExact \<Rightarrow> DriftExact \<times> arch_status" where
  "DriftExact_copy destination source = DriftExact_set_length destination (DriftExact_length source)"

definition Track_particle_drift_exact ::
    "particles \<Rightarrow> i64 \<Rightarrow> DriftExact \<Rightarrow> particles \<times> track_status" where
  "Track_particle_drift_exact p ii drift =
     (let len = DriftExact_length drift;
          px = Particles_get_px_value p ii;
          py = Particles_get_py_value p ii;
          opd = Particles_get_delta_value p ii + 1;
          lpzi = len / sqrt (opd * opd - (px * px + py * py));
          dzeta = Particles_get_rvv_value p ii * len - opd * lpzi;
          p = Particles_add_to_x_value p ii (px * lpzi);
          p = Particles_add_to_y_value p ii (py * lpzi);
          p = Particles_add_to_s_value p ii len;
          p = Particles_add_to_zeta_value p ii dzeta
      in (p, 0))"

subsection \<open>Shift of the transverse origin\<close>

record XYShift =
  XYShift_dx :: real
  XYShift_dy :: real

definition XYShift_set_dx :: "XYShift \<Rightarrow> real \<Rightarrow> XYShift \<times> arch_status" where
  "XYShift_set_dx xy_shift dx = (xy_shift\<lparr>XYShift_dx := dx\<rparr>, 0)"

definition XYShift_set_dy :: "XYShift \<Rightarrow> real \<Rightarrow> XYShift \<times> arch_status" where
  "XYShift_set_dy xy_shift dy = (xy_shift\<lparr>XYShift_dy := dy\<rparr>, 0)"

definition XYShift_clear :: "XYShift \<Rightarrow> XYShift \<times> arch_status" where
  "XYShift_clear xy_shift =
     (let (xy_shift, status1) = XYShift_set_dx xy_shift 0;
          (xy_shift, status2) = XYShift_set_dy xy_shift 0
      in (xy_shift, status1 OR status2))"

definition XYShift_copy :: "XYShift \<Rightarrow> XYShift \<Rightarrow> XYShift \<times> arch_status" where
  "XYShift_copy destination source =
     (let (destination, status1) = XYShift_set_dx destination (XYShift_dx source);
          (destination, status2) = XYShift_set_dy destination (XYShift_dy source)
      in (destination, status1 OR status2))"

definition Track_particle_xy_shift :: "particles \<Rightarrow> i64 \<Rightarrow> XYShift \<Rightarrow> particles \<times> track_status" where
  "Track_particle_xy_shift p index xy_shift =
     (let minus_dx = - XYShift_dx xy_shift;
          minus_dy = - XYShift_dy xy_shift;
          p = Particles_add_to_x_value p index minus_dx;
          p = Particles_add_to_y_value p index minus_dy
      in (p, 0))"

subsection \<open>Rotation about the longitudinal axis\<close>

record SRotation =
  SRotation_cos_angle :: real
  SRotation_sin_angle :: real

definition SRotation_set_angle :: "SRotation \<Rightarrow> real \<Rightarrow> SRotation \<times> arch_status" where
  "SRotation_set_angle srotation angle =
     (srotation\<lparr>SRotation_cos_angle := cos angle, SRotation_sin_angle := sin angle\<rparr>, 0)"

definition SRotation_set_angle_deg :: "SRotation \<Rightarrow> real \<Rightarrow> SRotation \<times> arch_status" where
  "SRotation_set_angle_deg srotation angle_deg =
     SRotation_set_angle srotation (MathConst_deg2rad * angle_deg)"

definition SRotation_set_cos_angle :: "SRotation \<Rightarrow> real \<Rightarrow> SRotation \<times> arch_status" where
  "SRotation_set_cos_angle srotation cos_angle = (srotation\<lparr>SRotation_cos_angle := cos_angle\<rparr>, 0)"

definition SRotation_set_sin_angle :: "SRotation \<Rightarrow> real \<Rightarrow> SRotation \<times> arch_status" where
  "SRotation_set_sin_angle srotation sin_angle = (srotation\<lparr>SRotation_sin_angle := sin_angle\<rparr>, 0)"

definition SRotation_clear :: "SRotation \<Rightarrow> SRotation \<times> arch_status" where
  "SRotation_clear srotation =
     (let (srotation, status1) = SRotation_set_cos_angle srotation 1;
          (srotation, status2) = SRotation_set_sin_angle srotation 0
      in (srotation, status1 OR status2))"

definition SRotation_copy :: "bool \<Rightarrow> SRotation \<Rightarrow> SRotation \<Rightarrow> SRotation \<times> arch_status" where
  "SRotation_copy same dst src =
     (if \<not> same then
        let (dst, status1) = SRotation_set_cos_angle dst (SRotation_cos_angle src);
            (dst, status2) = SRotation_set_sin_angle dst (SRotation_sin_angle src)
        in (dst, status1 OR status2)
      else (dst, 0))"

definition Track_particle_srotation ::
    "particles \<Rightarrow> i64 \<Rightarrow> SRotation \<Rightarrow> particles \<times> track_status" where
  "Track_particle_srotation p index srotation =
     (let sin_z = SRotation_sin_angle srotation;
          cos_z = SRotation_cos_angle srotation;
          x = Particles_get_x_value p index;
          y = Particles_get_y_value p index;
          px = Particles_get_px_value p index;
          py = Particles_get_py_value p index;
          x_hat = cos_z * x + sin_z * y;
          y_hat = - sin_z * x + cos_z * y;
          px_hat = cos_z * px + sin_z * py;
          py_hat = - sin_z * px + cos_z * py;
          p = Particles_set_x_value p index x_hat;
          p = Particles_set_y_value p index y_hat;
          p = Particles_set_px_value p index px_hat;
          p = Particles_set_py_value p index py_hat
      in (p, 0))"

subsection \<open>Dipole edge\<close>

record DipoleEdge =
  DipoleEdge_r21 :: real
  DipoleEdge_r43 :: real

definition DipoleEdge_set_r21 :: "DipoleEdge \<Rightarrow> real \<Rightarrow> DipoleEdge \<times> arch_status" where
  "DipoleEdge_set_r21 dipedge r21 = (dipedge\<lparr>DipoleEdge_r21 := r21\<rparr>, 0)"

definition DipoleEdge_set_r43 :: "DipoleEdge \<Rightarrow> real \<Rightarrow> DipoleEdge \<times> arch_status" where
  "DipoleEdge_set_r43 dipedge r43 = (dipedge\<lparr>DipoleEdge_r43 := r43\<rparr>, 0)"

definition DipoleEdge_clear :: "DipoleEdge \<Rightarrow> DipoleEdge \<times> arch_status" where
  "DipoleEdge_clear dipedge =
     (let (dipedge, status1) = DipoleEdge_set_r21 dipedge 0;
          (dipedge, status2) = DipoleEdge_set_r43 dipedge 1
      in (dipedge, status1 OR status2))"

definition DipoleEdge_copy :: "bool \<Rightarrow> DipoleEdge \<Rightarrow> DipoleEdge \<Rightarrow> DipoleEdge \<times> arch_status" where
  "DipoleEdge_copy same dst src =
     (if \<not> same then
        let (dst, status1) = DipoleEdge_set_r21 dst (DipoleEdge_r21 src);
            (dst, status2) = DipoleEdge_set_r43 dst (DipoleEdge_r43 src)
        in (dst, status1 OR status2)
      else (dst, 0))"

definition Track_particle_dipedge ::
    "particles \<Rightarrow> i64 \<Rightarrow> DipoleEdge \<Rightarrow> particles \<times> track_status" where
  "Track_particle_dipedge p particle_idx dipedge =
     (let p = Particles_add_to_px_value p particle_idx
            (DipoleEdge_r21 dipedge * Particles_get_x_value p particle_idx);
          p = Particles_add_to_py_value p particle_idx
            (DipoleEdge_r43 dipedge * Particles_get_y_value p particle_idx)
      in (p, 0))"

subsection \<open>Cavity\<close>

record Cavity =
  Cavity_voltage :: real
  Cavity_frequency :: real
  Cavity_lag :: real

definition Cavity_set_voltage :: "Cavity \<Rightarrow> real \<Rightarrow> Cavity \<times> arch_status" where
  "Cavity_set_voltage cavity voltage = (cavity\<lparr>Cavity_voltage := voltage\<rparr>, 0)"

definition Cavity_set_frequency :: "Cavity \<Rightarrow> real \<Rightarrow> Cavity \<times> arch_status" where
  "Cavity_set_frequency cavity frequency = (cavity\<lparr>Cavity_frequency := frequency\<rparr>, 0)"

definition Cavity_set_lag :: "Cavity \<Rightarrow> real \<Rightarrow> Cavity \<times> arch_status" where
  "Cavity_set_lag cavity lag = (cavity\<lparr>Cavity_lag := lag\<rparr>, 0)"

definition Cavity_clear :: "Cavity \<Rightarrow> Cavity \<times> arch_status" where
  "Cavity_clear cavity =
     (let (cavity, status) = Cavity_set_voltage cavity 0;
          (cavity, status2) = Cavity_set_frequency cavity 0;
          (cavity, status3) = Cavity_set_lag cavity 0
      in (cavity, status OR status2 OR status3))"

definition Cavity_copy :: "bool \<Rightarrow> Cavity \<Rightarrow> Cavity \<Rightarrow> Cavity \<times> arch_status" where
  "Cavity_copy same destination source =
     (if \<not> same then
        let (destination, status1) = Cavity_set_voltage destination (Cavity_voltage source);
            (destination, status2) = Cavity_set_frequency destination (Cavity_frequency source);
            (destination, status3) = Cavity_set_lag destination (Cavity_lag source)
        in (destination, 0 OR status1 OR status2 OR status3)
      else (destination, 0))"

definition Track_particle_cavity :: "particles \<Rightarrow> i64 \<Rightarrow> Cavity \<Rightarrow> particles \<times> track_status" where
  "Track_particle_cavity p index cavity =
     (let DEG2RAD = SIXTRL_PI / 180;
          K_FACTOR = (2 * SIXTRL_PI) / SIXTRL_C_LIGHT;
          beta0 = Particles_get_beta0_value p index;
          zeta = Particles_get_zeta_value p index;
          q = Particles_get_q0_value p index * Particles_get_charge_ratio_value p index;
          rvv = Particles_get_rvv_value p index;
          tau = zeta / (beta0 * rvv);
          phase = DEG2RAD * Cavity_lag cavity - K_FACTOR * Cavity_frequency cavity * tau;
          energy = q * Cavity_voltage cavity * sin phase
      in (Particles_add_to_energy_value p index energy, 0))"

subsection \<open>Maps on the view of one particle\<close>

definition drift_map :: "real \<Rightarrow> particle \<Rightarrow> particle" where
  "drift_map len v =
     (let xp = pv_px v * pv_rpp v; yp = pv_py v * pv_rpp v
      in v\<lparr>pv_x := pv_x v + xp * len, pv_y := pv_y v + yp * len, pv_s := pv_s v + len,
           pv_zeta := pv_zeta v + len * (pv_rvv v - (1 + (xp * xp + yp * yp) / 2))\<rparr>)"

definition drift_exact_map :: "real \<Rightarrow> particle \<Rightarrow> particle" where
  "drift_exact_map len v =
     (let opd = pv_delta v + 1;
          lpzi = len / sqrt (opd * opd - (pv_px v * pv_px v + pv_py v * pv_py v))
      in v\<lparr>pv_x := pv_x v + pv_px v * lpzi, pv_y := pv_y v + pv_py v * lpzi, pv_s := pv_s v + len,
           pv_zeta := pv_zeta v + (pv_rvv v * len - opd * lpzi)\<rparr>)"

definition xy_shift_map :: "XYShift \<Rightarrow> particle \<Rightarrow> particle" where
  "xy_shift_map e v = v\<lparr>pv_x := pv_x v - XYShift_dx e, pv_y := pv_y v - XYShift_dy e\<rparr>"

definition srotation_map :: "SRotation \<Rightarrow> particle \<Rightarrow> particle" where
  "srotation_map e v =
     (let c = SRotation_cos_angle e; s = SRotation_sin_angle e
      in v\<lparr>pv_x := c * pv_x v + s * pv_y v, pv_y := - s * pv_x v + c * pv_y v,
           pv_px := c * pv_px v + s * pv_py v, pv_py := - s * pv_px v + c * pv_py v\<rparr>)"

definition dipedge_map :: "DipoleEdge \<Rightarrow> particle \<Rightarrow> particle" where
  "dipedge_map e v = v\<lparr>pv_px := pv_px v + DipoleEdge_r21 e * pv_x v,
     pv_py := pv_py v + DipoleEdge_r43 e * pv_y v\<rparr>"

definition cavity_kick :: "Cavity \<Rightarrow> particle \<Rightarrow> real" where
  "cavity_kick e v = pv_q0 v * pv_charge_ratio v * Cavity_voltage e *
     sin (SIXTRL_PI / 180 * Cavity_lag e -
       2 * SIXTRL_PI / SIXTRL_C_LIGHT * Cavity_frequency e * (pv_zeta v / (pv_beta0 v * pv_rvv v)))"

definition cavity_map :: "Cavity \<Rightarrow> particle \<Rightarrow> particle" where
  "cavity_map e v = energy_map (cavity_kick e v) v"

interpretation drift: particle_kernel "\<lambda>p ii. fst (Track_particle_drift p ii e)"
    "\<lambda>ii. drift_map (Drift_length e)" for e
  by unfold_locales
    (auto simp: Track_particle_drift_def Let_def particle_ops particle_simps drift_map_def)

interpretation drift_exact: particle_kernel "\<lambda>p ii. fst (Track_particle_drift_exact p ii e)"
    "\<lambda>ii. drift_exact_map (DriftExact_length e)" for e
  by unfold_locales
    (auto simp: Track_particle_drift_exact_def Let_def particle_ops particle_simps drift_exact_map_def)

interpretation xy_shift: particle_kernel "\<lambda>p ii. fst (Track_particle_xy_shift p ii e)"
    "\<lambda>ii. xy_shift_map e" for e
  by unfold_locales
    (auto simp: Track_particle_xy_shift_def Let_def particle_ops particle_simps xy_shift_map_def)

interpretation srotation: particle_kernel "\<lambda>p ii. fst (Track_particle_srotation p ii e)"
    "\<lambda>ii. srotation_map e" for e
  by unfold_locales
    (auto simp: Track_particle_srotation_def Let_def particle_ops particle_simps srotation_map_def)

interpretation dipedge: particle_kernel "\<lambda>p ii. fst (Track_particle_dipedge p ii e)"
    "\<lambda>ii. dipedge_map e" for e
  by unfold_locales
    (auto simp: Track_particle_dipedge_def Let_def particle_ops particle_simps dipedge_map_def)

lemma cavity_as_energy:
  "fst (Track_particle_cavity p ii e) =
     Particles_add_to_energy_value p ii (cavity_kick e (particle_of p ii))"
  by (simp add: Track_particle_cavity_def Let_def cavity_kick_def particle_simps)

interpretation cavity: particle_kernel "\<lambda>p ii. fst (Track_particle_cavity p ii e)"
    "\<lambda>ii. cavity_map e" for e
  by unfold_locales
    (simp_all add: cavity_as_energy cavity_map_def add_to_energy.kernel_wf add_to_energy.kernel_num
      add_to_energy.kernel_view)

lemma element_success [simp]:
  "snd (Track_particle_drift p ii drift) = 0"
  "snd (Track_particle_drift_exact p ii drift_exact) = 0"
  "snd (Track_particle_xy_shift p ii xy_shift) = 0"
  "snd (Track_particle_srotation p ii srotation) = 0"
  "snd (Track_particle_dipedge p ii dipedge) = 0"
  "snd (Track_particle_cavity p ii cavity) = 0"
  by (simp_all add: Track_particle_drift_def Track_particle_drift_exact_def
      Track_particle_xy_shift_def Track_particle_srotation_def Track_particle_dipedge_def
      Track_particle_cavity_def Let_def)

subsection \<open>Elements that compose additively\<close>

text \<open>
  The interface of an element kind with a parameter in which its maps are additive: a particle kernel
  for every value of the parameter, and \<open>act (a + b)\<close> being \<open>act a\<close> followed by \<open>act b\<close>. Consecutive
  elements then act like one element with the sum of the parameters, in any order, and the element of
  the opposite parameter undoes an element.
\<close>

locale additive_map =
  fixes step :: "'a :: ab_group_add \<Rightarrow> particles \<Rightarrow> i64 \<Rightarrow> particles"
    and act :: "'a \<Rightarrow> particle \<Rightarrow> particle"
  assumes step_kernel: "particle_kernel (step a) (\<lambda>ii. act a)"
    and act_zero: "act 0 v = v"
    and act_add: "act (a + b) v = act b (act a v)"
begin

lemma act_inverse: "act (- a) (act a v) = v"
  using act_add [of a "- a" v] by (simp add: act_zero)

lemma act_list: "fold act as v = act (sum_list as) v"
  by (induction as arbitrary: v) (simp_all add: act_zero act_add)

lemma step_view:
  assumes "particles_wf p" "valid_idx p ii" "0 \<le> jj"
  shows "particle_of (step a p ii) jj = (if jj = ii then act a (particle_of p ii) else particle_of p jj)"
  using particle_kernel.kernel_view [OF step_kernel assms] .

lemma steps:
  assumes "particles_wf p" "valid_idx p ii"
  shows "particles_wf (fold (\<lambda>a q. step a q ii) as p)"
    and "num_particles (fold (\<lambda>a q. step a q ii) as p) = num_particles p"
    and "0 \<le> jj \<Longrightarrow> particle_of (fold (\<lambda>a q. step a q ii) as p) jj =
      (if jj = ii then act (sum_list as) (particle_of p ii) else particle_of p jj)"
proof -
  have "particles_wf (fold (\<lambda>a q. step a q ii) as p) \<and>
      num_particles (fold (\<lambda>a q. step a q ii) as p) = num_particles p \<and>
      (0 \<le> jj \<longrightarrow> particle_of (fold (\<lambda>a q. step a q ii) as p) jj =
        (if jj = ii then act (sum_list as) (particle_of p ii) else particle_of p jj))"
    using assms
  proof (induction as arbitrary: p)
    case (Cons a as)
    have ii: "0 \<le> ii" using Cons.prems by (simp add: valid_idx_def)
    have wf: "particles_wf (step a p ii)" and v: "valid_idx (step a p ii) ii"
      and n: "num_particles (step a p ii) = num_particles p"
      using Cons.prems particle_kernel.kernel_wf [OF step_kernel]
        particle_kernel.kernel_valid [OF step_kernel] particle_kernel.kernel_num [OF step_kernel]
      by simp_all
    show ?case
      using Cons.IH [OF wf v] Cons.prems ii n by (simp add: step_view act_add)
  qed (simp add: act_zero)
  then show "particles_wf (fold (\<lambda>a q. step a q ii) as p)"
    and "num_particles (fold (\<lambda>a q. step a q ii) as p) = num_particles p"
    and "0 \<le> jj \<Longrightarrow> particle_of (fold (\<lambda>a q. step a q ii) as p) jj =
      (if jj = ii then act (sum_list as) (particle_of p ii) else particle_of p jj)"
    by simp_all
qed

lemma slices:
  assumes "particles_wf p" "valid_idx p ii"
  shows "fold (\<lambda>a q. step a q ii) as p = step (sum_list as) p ii"
proof (rule particles_eqI)
  show "particles_wf (fold (\<lambda>a q. step a q ii) as p)" by (rule steps(1) [OF assms])
  show "particles_wf (step (sum_list as) p ii)"
    by (rule particle_kernel.kernel_wf [OF step_kernel assms])
  show "num_particles (fold (\<lambda>a q. step a q ii) as p) = num_particles (step (sum_list as) p ii)"
    by (simp add: steps(2) [OF assms] particle_kernel.kernel_num [OF step_kernel])
  fix jj assume "valid_idx (fold (\<lambda>a q. step a q ii) as p) jj"
  then have jj: "0 \<le> jj" by (simp add: valid_idx_def)
  show "particle_of (fold (\<lambda>a q. step a q ii) as p) jj = particle_of (step (sum_list as) p ii) jj"
    by (simp add: steps(3) [OF assms jj] step_view [OF assms jj])
qed

lemma step_back:
  assumes "particles_wf p" "valid_idx p ii"
  shows "step (- a) (step a p ii) ii = p"
proof -
  have "step 0 p ii = p"
    using assms particle_kernel.kernel_wf [OF step_kernel assms]
    by (intro particles_eqI)
      (auto simp: particle_kernel.kernel_num [OF step_kernel] step_view act_zero valid_idx_def)
  then show ?thesis using slices [OF assms, of "[a, - a]"] by simp
qed

end

interpretation drift_length: additive_map
    "\<lambda>len p ii. fst (Track_particle_drift p ii \<lparr>Drift_length = len\<rparr>)" drift_map
proof (rule additive_map.intro)
  show "drift_map 0 v = v" for v by (simp add: drift_map_def)
  show "drift_map (a + b) v = drift_map b (drift_map a v)" for a b v
    by (simp add: drift_map_def Let_def distrib_left distrib_right add.assoc)
  show "particle_kernel (\<lambda>p ii. fst (Track_particle_drift p ii \<lparr>Drift_length = a\<rparr>)) (\<lambda>ii. drift_map a)"
    for a using drift.particle_kernel_axioms [of "\<lparr>Drift_length = a\<rparr>"] by simp
qed

interpretation drift_exact_length: additive_map
    "\<lambda>len p ii. fst (Track_particle_drift_exact p ii \<lparr>DriftExact_length = len\<rparr>)" drift_exact_map
proof (rule additive_map.intro)
  show "drift_exact_map 0 v = v" for v by (simp add: drift_exact_map_def)
  show "drift_exact_map (a + b) v = drift_exact_map b (drift_exact_map a v)" for a b v
    by (simp add: drift_exact_map_def Let_def algebra_simps add_divide_distrib)
  show "particle_kernel (\<lambda>p ii. fst (Track_particle_drift_exact p ii \<lparr>DriftExact_length = a\<rparr>))
      (\<lambda>ii. drift_exact_map a)"
    for a using drift_exact.particle_kernel_axioms [of "\<lparr>DriftExact_length = a\<rparr>"] by simp
qed

interpretation rotation_angle: additive_map
    "\<lambda>angle p ii. fst (Track_particle_srotation p ii (fst (SRotation_set_angle e angle)))"
    "\<lambda>angle. srotation_map (fst (SRotation_set_angle e angle))" for e
proof (rule additive_map.intro)
  show "srotation_map (fst (SRotation_set_angle e 0)) v = v" for v
    by (simp add: srotation_map_def SRotation_set_angle_def)
  show "srotation_map (fst (SRotation_set_angle e (a + b))) v =
      srotation_map (fst (SRotation_set_angle e b)) (srotation_map (fst (SRotation_set_angle e a)) v)"
    for a b v
    by (simp add: srotation_map_def SRotation_set_angle_def Let_def cos_add sin_add algebra_simps)
  show "particle_kernel
      (\<lambda>p ii. fst (Track_particle_srotation p ii (fst (SRotation_set_angle e a))))
      (\<lambda>ii. srotation_map (fst (SRotation_set_angle e a)))" for a
    by (rule srotation.particle_kernel_axioms)
qed

text \<open>Tracking a particle through consecutive drifts equals tracking it through one drift with the
  total length: slicing a drift does not change the result, for any number and lengths of slices.\<close>

theorem drift_slices:
  assumes "particles_wf p" "valid_idx p ii"
  shows "fold (\<lambda>len q. fst (Track_particle_drift q ii \<lparr>Drift_length = len\<rparr>)) lens p =
    fst (Track_particle_drift p ii \<lparr>Drift_length = sum_list lens\<rparr>)"
  by (rule drift_length.slices [OF assms])

theorem drift_slices_witness:
  "fold (\<lambda>len q. fst (Track_particle_drift q 1 \<lparr>Drift_length = len\<rparr>)) [1, 2, 3] (reference_particles 2) =
   fst (Track_particle_drift (reference_particles 2) 1 \<lparr>Drift_length = 6\<rparr>)"
  using drift_slices [of "reference_particles 2" 1 "[1, 2, 3]"] by simp

text \<open>The same holds for exact drifts, whose coordinates grow with the exact path length.\<close>

theorem drift_exact_slices:
  assumes "particles_wf p" "valid_idx p ii"
  shows "fold (\<lambda>len q. fst (Track_particle_drift_exact q ii \<lparr>DriftExact_length = len\<rparr>)) lens p =
    fst (Track_particle_drift_exact p ii \<lparr>DriftExact_length = sum_list lens\<rparr>)"
  by (rule drift_exact_length.slices [OF assms])

theorem drift_exact_slices_witness:
  "fold (\<lambda>len q. fst (Track_particle_drift_exact q 1 \<lparr>DriftExact_length = len\<rparr>)) [1, 2, 3]
     (reference_particles 2) =
   fst (Track_particle_drift_exact (reference_particles 2) 1 \<lparr>DriftExact_length = 6\<rparr>)"
  using drift_exact_slices [of "reference_particles 2" 1 "[1, 2, 3]"] by simp

text \<open>A rotation set up with \<open>NS(SRotation_set_angle)\<close> is undone exactly by the rotation through the
  opposite angle, and it keeps the distance from the axis and the transverse momentum of the particle.\<close>

theorem srotation_inverse_and_norm:
  assumes "particles_wf p" "valid_idx p ii"
  shows "let q = fst (Track_particle_srotation p ii (fst (SRotation_set_angle e angle))) in
    fst (Track_particle_srotation q ii (fst (SRotation_set_angle e (- angle)))) = p \<and>
    (pv_x (particle_of q ii))\<^sup>2 + (pv_y (particle_of q ii))\<^sup>2 =
      (pv_x (particle_of p ii))\<^sup>2 + (pv_y (particle_of p ii))\<^sup>2 \<and>
    (pv_px (particle_of q ii))\<^sup>2 + (pv_py (particle_of q ii))\<^sup>2 =
      (pv_px (particle_of p ii))\<^sup>2 + (pv_py (particle_of p ii))\<^sup>2"
proof -
  have expand: "(c * x + s * y)\<^sup>2 + (c * y - s * x)\<^sup>2 = (x\<^sup>2 + y\<^sup>2) * (s\<^sup>2 + c\<^sup>2)"
    for c s x y :: real by (simp add: power2_eq_square algebra_simps)
  have rot: "(cos a * x + sin a * y)\<^sup>2 + (cos a * y - sin a * x)\<^sup>2 = x\<^sup>2 + y\<^sup>2" for a x y :: real
    by (simp add: expand)
  have "0 \<le> ii" using assms(2) by (simp add: valid_idx_def)
  then show ?thesis
    using assms rotation_angle.step_back [OF assms, of e angle]
    by (simp add: Let_def srotation.kernel_view srotation_map_def SRotation_set_angle_def rot)
qed

theorem srotation_inverse_and_norm_witness:
  "let e = \<lparr>SRotation_cos_angle = 1, SRotation_sin_angle = 0\<rparr>
   in fst (Track_particle_srotation
     (fst (Track_particle_srotation (reference_particles 2) 1 (fst (SRotation_set_angle e 3)))) 1
     (fst (SRotation_set_angle e (- 3)))) = reference_particles 2"
  using srotation_inverse_and_norm [of "reference_particles 2" 1
      "\<lparr>SRotation_cos_angle = 1, SRotation_sin_angle = 0\<rparr>" 3]
  by (simp add: Let_def)

text \<open>Clearing a drift, an exact drift, a shift, a rotation or a cavity gives an element that leaves
  every particle as it is, except that the cavity recomputes the derived momentum quantities; a cleared
  dipole edge, in contrast, adds the vertical position to the vertical momentum.\<close>

theorem cleared_elements:
  "drift_map (Drift_length (fst (Drift_clear d))) v = v \<and>
   drift_exact_map (DriftExact_length (fst (DriftExact_clear de))) v = v \<and>
   xy_shift_map (fst (XYShift_clear xy)) v = v \<and>
   srotation_map (fst (SRotation_clear sr)) v = v \<and>
   cavity_map (fst (Cavity_clear cav)) v = energy_map 0 v \<and>
   dipedge_map (fst (DipoleEdge_clear de')) v = v\<lparr>pv_py := pv_py v + pv_y v\<rparr>"
  by (simp add: drift_map_def drift_exact_map_def xy_shift_map_def srotation_map_def cavity_map_def
      cavity_kick_def dipedge_map_def Drift_clear_def Drift_set_length_def DriftExact_clear_def
      DriftExact_set_length_def XYShift_clear_def XYShift_set_dx_def XYShift_set_dy_def
      SRotation_clear_def SRotation_set_cos_angle_def SRotation_set_sin_angle_def Cavity_clear_def
      Cavity_set_voltage_def Cavity_set_frequency_def Cavity_set_lag_def DipoleEdge_clear_def
      DipoleEdge_set_r21_def DipoleEdge_set_r43_def Let_def)

end
