(* ===== verification/Multipole.thy ===== *)
theory Multipole
  imports Elements Math_Factorial
begin

section \<open>Multipoles (be_multipole, be_rfmultipole)\<close>

text \<open>
  A multipole of order \<open>n\<close> owns an array \<open>bal\<close> of \<open>2 n + 2\<close> coefficients, normal and skew components
  interleaved. The array behind \<open>bal_addr\<close> is the field \<open>Multipole_bal_values\<close>, \<open>None\<close> being the null
  address. The normalised strengths \<open>knl\<close> and \<open>ksl\<close> are read and written through it, divided by
  factorials. The tracking function evaluates the field polynomial by Horner's rule on real and
  imaginary parts.
\<close>

record Multipole =
  Multipole_order :: i64
  Multipole_length :: real
  Multipole_hxl :: real
  Multipole_hyl :: real
  Multipole_bal_values :: "real list option"

definition Multipole_bal_length :: "Multipole \<Rightarrow> u64" where
  "Multipole_bal_length mp =
     (if Multipole_order mp \<ge> 0 then u64_of (2 * Multipole_order mp + 2) else 0)"

definition Multipole_bal :: "Multipole \<Rightarrow> u64 \<Rightarrow> real" where
  "Multipole_bal mp bal_index = the (Multipole_bal_values mp) ! unat bal_index"

definition Multipole_knl :: "Multipole \<Rightarrow> i64 \<Rightarrow> real" where
  "Multipole_knl mp knl_index =
     (let idx = u64_of (2 * knl_index)
      in Multipole_bal mp idx * Math_factorial (u64_of knl_index))"

definition Multipole_ksl :: "Multipole \<Rightarrow> i64 \<Rightarrow> real" where
  "Multipole_ksl mp ksl_index =
     (let idx = u64_of (2 * ksl_index + 1)
      in Multipole_bal mp idx * Math_factorial (u64_of ksl_index))"

definition Multipole_set_length :: "Multipole \<Rightarrow> real \<Rightarrow> Multipole \<times> arch_status" where
  "Multipole_set_length mp len = (mp\<lparr>Multipole_length := len\<rparr>, 0)"

definition Multipole_set_hxl :: "Multipole \<Rightarrow> real \<Rightarrow> Multipole \<times> arch_status" where
  "Multipole_set_hxl mp hxl = (mp\<lparr>Multipole_hxl := hxl\<rparr>, 0)"

definition Multipole_set_hyl :: "Multipole \<Rightarrow> real \<Rightarrow> Multipole \<times> arch_status" where
  "Multipole_set_hyl mp hyl = (mp\<lparr>Multipole_hyl := hyl\<rparr>, 0)"

definition Multipole_set_order :: "Multipole \<Rightarrow> i64 \<Rightarrow> Multipole \<times> arch_status" where
  "Multipole_set_order mp order =
     (if order \<ge> 0 then (mp\<lparr>Multipole_order := order\<rparr>, 0) else (mp, - 1))"

definition Multipole_set_bal_addr :: "Multipole \<Rightarrow> real list option \<Rightarrow> Multipole \<times> arch_status" where
  "Multipole_set_bal_addr mp bal = (mp\<lparr>Multipole_bal_values := bal\<rparr>, 0)"

definition Multipole_clear :: "Multipole \<Rightarrow> Multipole \<times> arch_status" where
  "Multipole_clear mp =
     (let (mp, status) = Multipole_set_length mp 0;
          (mp, s1) = Multipole_set_hxl mp 0;
          (mp, s2) = Multipole_set_hyl mp 0;
          (mp, s3) = Multipole_set_order mp 0;
          (mp, s4) = Multipole_set_bal_addr mp None
      in (mp, status OR s1 OR s2 OR s3 OR s4))"

definition Multipole_set_bal_value :: "Multipole \<Rightarrow> u64 \<Rightarrow> real \<Rightarrow> Multipole \<times> arch_status" where
  "Multipole_set_bal_value mp bal_index bal_value =
     (case Multipole_bal_values mp of
        None \<Rightarrow> (mp, - 1)
      | Some bal \<Rightarrow>
          if bal_index < Multipole_bal_length mp then
            (mp\<lparr>Multipole_bal_values := Some (bal[unat bal_index := bal_value])\<rparr>, 0)
          else (mp, - 1))"

text \<open>
  The end of the loop of \<open>NS(Multipole_set_all_bal_values)\<close> is initialised with the begin of the array,
  so the number of entries it visits is \<open>bal_end - bal_it = 0\<close>.
\<close>

definition Multipole_set_all_bal_values :: "Multipole \<Rightarrow> real \<Rightarrow> Multipole \<times> arch_status" where
  "Multipole_set_all_bal_values mp bal_value =
     (case Multipole_bal_values mp of
        None \<Rightarrow> (mp, - 1)
      | Some bal \<Rightarrow>
          let bal_it = 0; bal_end = 0
          in (mp\<lparr>Multipole_bal_values :=
                Some (fold (\<lambda>i bal. bal[i := bal_value]) [bal_it..<bal_end] bal)\<rparr>, 0))"

definition Multipole_set_bal :: "Multipole \<Rightarrow> real list option \<Rightarrow> Multipole \<times> arch_status" where
  "Multipole_set_bal mp in_bal =
     (case (Multipole_bal_values mp, in_bal) of
        (Some bal, Some in_values) \<Rightarrow>
          (mp\<lparr>Multipole_bal_values :=
             Some (fold (\<lambda>i bal. bal[i := in_values ! i]) [0..<unat (Multipole_bal_length mp)] bal)\<rparr>, 0)
      | _ \<Rightarrow> (mp, - 1))"

definition Multipole_set_knl_value :: "Multipole \<Rightarrow> u64 \<Rightarrow> real \<Rightarrow> Multipole \<times> arch_status" where
  "Multipole_set_knl_value mp knl_index knl_value =
     (case Multipole_bal_values mp of
        None \<Rightarrow> (mp, - 1)
      | Some bal \<Rightarrow>
          let bal_index = 2 * knl_index
          in if bal_index < Multipole_bal_length mp then
               (mp\<lparr>Multipole_bal_values :=
                  Some (bal[unat bal_index := knl_value / Math_factorial knl_index])\<rparr>, 0)
             else (mp, - 1))"

definition Multipole_set_ksl_value :: "Multipole \<Rightarrow> u64 \<Rightarrow> real \<Rightarrow> Multipole \<times> arch_status" where
  "Multipole_set_ksl_value mp ksl_index ksl_value =
     (case Multipole_bal_values mp of
        None \<Rightarrow> (mp, - 1)
      | Some bal \<Rightarrow>
          let bal_index = 2 * ksl_index + 1
          in if bal_index < Multipole_bal_length mp then
               (mp\<lparr>Multipole_bal_values :=
                  Some (bal[unat bal_index := ksl_value / Math_factorial ksl_index])\<rparr>, 0)
             else (mp, - 1))"

text \<open>
  The loops \<open>for( ; ii < nn ; ii += 2u, ++index )\<close>: in round \<open>k\<close>, \<open>index\<close> is \<open>k\<close> and \<open>ii\<close> is \<open>ii0 + 2 k\<close>.
\<close>

definition strided_update :: "nat \<Rightarrow> nat \<Rightarrow> (nat \<Rightarrow> real) \<Rightarrow> real list \<Rightarrow> real list" where
  "strided_update ii0 nn f bal =
     fold (\<lambda>k bal. bal[ii0 + 2 * k := f k]) [0..<(nn + 1 - ii0) div 2] bal"

definition Multipole_set_all_knl_values :: "Multipole \<Rightarrow> real \<Rightarrow> Multipole \<times> arch_status" where
  "Multipole_set_all_knl_values mp knl_value =
     (case Multipole_bal_values mp of
        None \<Rightarrow> (mp, - 1)
      | Some bal \<Rightarrow>
          (mp\<lparr>Multipole_bal_values :=
             Some (strided_update 0 (unat (Multipole_bal_length mp))
               (\<lambda>knl_index. knl_value / Math_factorial (u64_of (int knl_index))) bal)\<rparr>, 0))"

definition Multipole_set_knl :: "Multipole \<Rightarrow> real list option \<Rightarrow> Multipole \<times> arch_status" where
  "Multipole_set_knl mp knl_begin =
     (case (Multipole_bal_values mp, knl_begin) of
        (Some bal, Some knl) \<Rightarrow>
          (mp\<lparr>Multipole_bal_values :=
             Some (strided_update 0 (unat (Multipole_bal_length mp))
               (\<lambda>knl_index. knl ! knl_index / Math_factorial (u64_of (int knl_index))) bal)\<rparr>, 0)
      | _ \<Rightarrow> (mp, - 1))"

definition Multipole_set_all_ksl_values :: "Multipole \<Rightarrow> real \<Rightarrow> Multipole \<times> arch_status" where
  "Multipole_set_all_ksl_values mp ksl_value =
     (case Multipole_bal_values mp of
        None \<Rightarrow> (mp, - 1)
      | Some bal \<Rightarrow>
          (mp\<lparr>Multipole_bal_values :=
             Some (strided_update 1 (unat (Multipole_bal_length mp))
               (\<lambda>ksl_index. ksl_value / Math_factorial (u64_of (int ksl_index))) bal)\<rparr>, 0))"

definition Multipole_set_ksl :: "Multipole \<Rightarrow> real list option \<Rightarrow> Multipole \<times> arch_status" where
  "Multipole_set_ksl mp ksl_begin =
     (case (Multipole_bal_values mp, ksl_begin) of
        (Some bal, Some ksl) \<Rightarrow>
          (mp\<lparr>Multipole_bal_values :=
             Some (strided_update 1 (unat (Multipole_bal_length mp))
               (\<lambda>ksl_index. ksl ! ksl_index / Math_factorial (u64_of (int ksl_index))) bal)\<rparr>, 0)
      | _ \<Rightarrow> (mp, - 1))"

definition Multipole_copy :: "bool \<Rightarrow> Multipole \<Rightarrow> Multipole \<Rightarrow> Multipole \<times> arch_status" where
  "Multipole_copy same dst src =
     (if \<not> same \<and> Multipole_order src = Multipole_order dst then
        let (dst, status) = Multipole_set_length dst (Multipole_length src);
            (dst, s1) = Multipole_set_hxl dst (Multipole_hxl src);
            (dst, s2) = Multipole_set_hyl dst (Multipole_hyl src);
            (dst, s3) = Multipole_set_bal dst (Multipole_bal_values src)
        in (dst, status OR s1 OR s2 OR s3)
      else if same then (dst, 0)
      else (dst, - 1))"

subsection \<open>Tracking\<close>

function multipole_horner ::
    "Multipole \<Rightarrow> real \<Rightarrow> real \<Rightarrow> i64 \<Rightarrow> i64 \<Rightarrow> real \<Rightarrow> real \<Rightarrow> real \<times> real" where
  "multipole_horner mp x y index_x index_y dpx dpy =
     (if index_x > 0 then
        let zre = dpx * x - dpy * y;
            zim = dpx * y + dpy * x;
            index_x = index_x - 2;
            index_y = index_y - 2
        in multipole_horner mp x y index_x index_y
             (Multipole_bal mp (u64_of index_x) + zre) (Multipole_bal mp (u64_of index_y) + zim)
      else (dpx, dpy))"
  by pat_completeness auto
termination by (relation "measure (\<lambda>(mp, x, y, index_x, _). nat index_x)") simp_all

declare multipole_horner.simps [simp del]

definition Track_particle_multipole :: "particles \<Rightarrow> i64 \<Rightarrow> Multipole \<Rightarrow> particles \<times> track_status" where
  "Track_particle_multipole p index mp =
     (let order = Multipole_order mp;
          index_x = 2 * order;
          index_y = index_x + 1;
          dpx = Multipole_bal mp (u64_of index_x);
          dpy = Multipole_bal mp (u64_of index_y);
          x = Particles_get_x_value p index;
          y = Particles_get_y_value p index;
          chi = Particles_get_chi_value p index;
          hxl = Multipole_hxl mp;
          hyl = Multipole_hyl mp;
          (dpx, dpy) = multipole_horner mp x y index_x index_y dpx dpy;
          dpx = - chi * dpx;
          dpy = chi * dpy;
          (p, dpx, dpy) =
            (if hxl > 0 \<or> hyl > 0 \<or> hxl < 0 \<or> hyl < 0 then
               let delta = Particles_get_delta_value p index;
                   len = Multipole_length mp;
                   hxlx = x * hxl;
                   hyly = y * hyl;
                   p = Particles_add_to_zeta_value p index (chi * (hyly - hxlx));
                   dpx = dpx + (hxl + hxl * delta);
                   dpy = dpy - (hyl + hyl * delta)
               in if len > 0 then
                    let b1l = chi * Multipole_bal mp 0;
                        a1l = chi * Multipole_bal mp 1;
                        dpx = dpx - b1l * hxlx / len;
                        dpy = dpy + a1l * hyly / len
                    in (p, dpx, dpy)
                  else (p, dpx, dpy)
             else (p, dpx, dpy));
          p = Particles_add_to_px_value p index dpx;
          p = Particles_add_to_py_value p index dpy
      in (p, 0))"

record RFMultipole =
  RFMultipole_order :: i64
  RFMultipole_voltage :: real
  RFMultipole_frequency :: real
  RFMultipole_lag :: real
  RFMultipole_bal_values :: "real list"
  RFMultipole_phase_values :: "real list"

text \<open>One round of the loop over the orders: \<open>(dpx, dpy, dptr, zre, zim)\<close>.\<close>

definition rf_multipole_step ::
    "RFMultipole \<Rightarrow> real \<Rightarrow> real \<Rightarrow> real \<Rightarrow> nat \<Rightarrow> real \<times> real \<times> real \<times> real \<times> real \<Rightarrow>
     real \<times> real \<times> real \<times> real \<times> real" where
  "rf_multipole_step mpole x y ktau kk st =
     (let (dpx, dpy, dptr, zre, zim) = st;
          DEG2RAD = SIXTRL_PI / 180;
          bal = RFMultipole_bal_values mpole;
          phase = RFMultipole_phase_values mpole;
          pn_kk = MathConst_deg2rad * phase ! (2 * kk) - ktau;
          ps_kk = DEG2RAD * phase ! (2 * kk + 1) - ktau;
          bal_n_kk = bal ! (2 * kk);
          bal_s_kk = bal ! (2 * kk + 1);
          cn = cos pn_kk;
          cs = cos ps_kk;
          sn = sin pn_kk;
          ss = sin ps_kk;
          dpx = dpx + (cn * (bal_n_kk * zre) - cs * (bal_s_kk * zim));
          dpy = dpy + (cs * (bal_s_kk * zre) + cn * (bal_n_kk * zim));
          zret = zre * x - zim * y;
          zim = zim * x + zre * y;
          zre = zret;
          dptr = dptr + (sn * (bal_n_kk * zre) - ss * (bal_s_kk * zim))
      in (dpx, dpy, dptr, zre, zim))"

definition Track_particle_rf_multipole ::
    "particles \<Rightarrow> i64 \<Rightarrow> RFMultipole \<Rightarrow> particles \<times> track_status" where
  "Track_particle_rf_multipole p ii mpole =
     (let order = RFMultipole_order mpole;
          k = RFMultipole_frequency mpole * (2 * SIXTRL_PI) / SIXTRL_C_LIGHT;
          x = Particles_get_x_value p ii;
          y = Particles_get_y_value p ii;
          beta0 = Particles_get_beta0_value p ii;
          zeta = Particles_get_zeta_value p ii;
          q = Particles_get_q0_value p ii * Particles_get_charge_ratio_value p ii * PhysConst_charge0;
          rvv = Particles_get_rvv_value p ii;
          ktau = k * zeta / (beta0 * rvv);
          (dpx, dpy, dptr, zre, zim) =
            fold (rf_multipole_step mpole x y ktau) [0..<nat (order + 1)] (0, 0, 0, 1, 0);
          cav_energy = q * (RFMultipole_voltage mpole *
            sin (RFMultipole_lag mpole * MathConst_deg2rad - ktau));
          p0c = Particles_get_p0c_value p ii;
          rfmultipole_energy = - q * ((k * p0c) * dptr);
          chi = Particles_get_chi_value p ii;
          px_kick = - chi * dpx;
          py_kick = chi * dpy;
          energy_kick = cav_energy + rfmultipole_energy;
          p = Particles_add_to_px_value p ii px_kick;
          p = Particles_add_to_py_value p ii py_kick;
          p = Particles_add_to_energy_value p ii energy_kick
      in (p, 0))"

subsection \<open>The field polynomial\<close>

text \<open>
  \<open>field_coeff mp k\<close> is the \<open>k\<close>-th complex coefficient, and \<open>field_poly mp n z\<close> the polynomial with the
  coefficients up to \<open>n\<close>.
\<close>

definition field_coeff :: "Multipole \<Rightarrow> nat \<Rightarrow> complex" where
  "field_coeff mp k = Complex (the (Multipole_bal_values mp) ! (2 * k)) (the (Multipole_bal_values mp) ! (2 * k + 1))"

definition field_poly :: "Multipole \<Rightarrow> nat \<Rightarrow> complex \<Rightarrow> complex" where
  "field_poly mp n z = (\<Sum>k\<le>n. field_coeff mp k * z ^ k)"

lemma bal_at:
  assumes "0 \<le> i" "i < 2 ^ 64"
  shows "Multipole_bal mp (u64_of i) = the (Multipole_bal_values mp) ! nat i"
  by (simp add: Multipole_bal_def unat_u64_of [OF assms])

lemma bal_even_odd:
  assumes "2 * int n + 1 < 2 ^ 64"
  shows "Multipole_bal mp (u64_of (2 * int n)) = the (Multipole_bal_values mp) ! (2 * n)"
    and "Multipole_bal mp (u64_of (2 * int n + 1)) = the (Multipole_bal_values mp) ! (2 * n + 1)"
proof -
  have "nat (2 * int n) = 2 * n" "nat (2 * int n + 1) = 2 * n + 1" by simp_all
  then show "Multipole_bal mp (u64_of (2 * int n)) = the (Multipole_bal_values mp) ! (2 * n)"
    and "Multipole_bal mp (u64_of (2 * int n + 1)) = the (Multipole_bal_values mp) ! (2 * n + 1)"
    using assms by (simp_all only: bal_at)
qed

lemma horner_poly:
  assumes "2 * int n + 1 < 2 ^ 64"
  shows "multipole_horner mp x y (2 * int n) (2 * int n + 1) dpx dpy =
    (let w = Complex dpx dpy * Complex x y ^ n + (\<Sum>k<n. field_coeff mp k * Complex x y ^ k)
     in (Re w, Im w))"
  using assms
proof (induction n arbitrary: dpx dpy)
  case 0
  then show ?case by (simp add: multipole_horner.simps)
next
  case (Suc n)
  define dpx' dpy' where
    "dpx' = the (Multipole_bal_values mp) ! (2 * n) + (dpx * x - dpy * y)" and
    "dpy' = the (Multipole_bal_values mp) ! (2 * n + 1) + (dpx * y + dpy * x)"
  have lt: "2 * int n + 1 < 2 ^ 64" using Suc.prems by simp
  have index: "2 * int (Suc n) - 2 = 2 * int n" "2 * int (Suc n) + 1 - 2 = 2 * int n + 1" by simp_all
  have step: "multipole_horner mp x y (2 * int (Suc n)) (2 * int (Suc n) + 1) dpx dpy =
      multipole_horner mp x y (2 * int n) (2 * int n + 1) dpx' dpy'"
    unfolding dpx'_def dpy'_def bal_even_odd [OF lt, symmetric]
    by (subst multipole_horner.simps) (simp only: index Let_def, simp)
  have "Complex dpx' dpy' = field_coeff mp n + Complex dpx dpy * Complex x y"
    by (simp add: complex_eq_iff dpx'_def dpy'_def field_coeff_def)
  then have "Complex dpx' dpy' * Complex x y ^ n + (\<Sum>k<n. field_coeff mp k * Complex x y ^ k) =
      Complex dpx dpy * Complex x y ^ Suc n + (\<Sum>k<Suc n. field_coeff mp k * Complex x y ^ k)"
    by (simp add: algebra_simps)
  then show ?case by (simp only: step Suc.IH [OF lt])
qed

lemma horner_field:
  assumes "0 \<le> order" "2 * order + 1 < 2 ^ 64"
  shows "multipole_horner mp x y (2 * order) (2 * order + 1)
      (Multipole_bal mp (u64_of (2 * order))) (Multipole_bal mp (u64_of (2 * order + 1))) =
    (Re (field_poly mp (nat order) (Complex x y)), Im (field_poly mp (nat order) (Complex x y)))"
proof -
  obtain n where n: "order = int n" using assms(1) nonneg_int_cases by blast
  have lt: "2 * int n + 1 < 2 ^ 64" using assms n by simp
  have "(\<Sum>k\<le>n. field_coeff mp k * Complex x y ^ k) =
      field_coeff mp n * Complex x y ^ n + (\<Sum>k<n. field_coeff mp k * Complex x y ^ k)"
    by (simp add: lessThan_Suc_atMost [symmetric])
  then show ?thesis
    by (simp only: n horner_poly [OF lt] bal_even_odd [OF lt] field_poly_def Let_def nat_int
        field_coeff_def [of mp n, symmetric])
qed

text \<open>The kick of a multipole: the field polynomial, the curvature terms and the weak focusing.\<close>

definition multipole_kick :: "Multipole \<Rightarrow> particle \<Rightarrow> real \<times> real" where
  "multipole_kick mp v =
     multipole_horner mp (pv_x v) (pv_y v) (2 * Multipole_order mp) (2 * Multipole_order mp + 1)
       (Multipole_bal mp (u64_of (2 * Multipole_order mp)))
       (Multipole_bal mp (u64_of (2 * Multipole_order mp + 1)))"

definition weak_focusing :: "Multipole \<Rightarrow> real \<Rightarrow> real" where
  "weak_focusing mp v = (if Multipole_length mp > 0 then v / Multipole_length mp else 0)"

definition multipole_map :: "Multipole \<Rightarrow> particle \<Rightarrow> particle" where
  "multipole_map mp v =
     (let (bx, by) = multipole_kick mp v;
          hx = Multipole_hxl mp; hy = Multipole_hyl mp; chi = pv_chi v
      in v\<lparr>pv_zeta := pv_zeta v + chi * (pv_y v * hy - pv_x v * hx),
           pv_px := pv_px v + (- chi * bx + hx * (1 + pv_delta v)
             - weak_focusing mp (chi * Multipole_bal mp 0 * (pv_x v * hx))),
           pv_py := pv_py v + (chi * by - hy * (1 + pv_delta v)
             + weak_focusing mp (chi * Multipole_bal mp 1 * (pv_y v * hy)))\<rparr>)"

interpretation multipole: particle_kernel "\<lambda>p ii. fst (Track_particle_multipole p ii mp)"
    "\<lambda>ii. multipole_map mp" for mp
proof
  fix p ii jj
  obtain bx "by" where k: "multipole_kick mp (particle_of p ii) = (bx, by)" by fastforce
  note defs = Track_particle_multipole_def Let_def particle_ops particle_simps
    k [unfolded multipole_kick_def]
  show "num_particles (fst (Track_particle_multipole p ii mp)) = num_particles p"
    by (simp add: defs)
  assume *: "particles_wf p" "valid_idx p ii"
  show "particles_wf (fst (Track_particle_multipole p ii mp))"
    using * by (simp add: defs)
  have ii: "0 \<le> ii" using * by (simp add: valid_idx_def)
  assume jj: "0 \<le> (jj :: i64)"
  let ?curved = "Multipole_hxl mp > 0 \<or> Multipole_hyl mp > 0 \<or> Multipole_hxl mp < 0 \<or> Multipole_hyl mp < 0"
  consider "?curved" "Multipole_length mp > 0" | "?curved" "\<not> Multipole_length mp > 0"
    | "\<not> ?curved" "Multipole_hxl mp = 0" "Multipole_hyl mp = 0" by linarith
  then show "particle_of (fst (Track_particle_multipole p ii mp)) jj =
      (if jj = ii then multipole_map mp (particle_of p ii) else particle_of p jj)"
  proof cases
    case 1
    then show ?thesis
      using * jj ii
      by (cases "jj = ii") (simp_all add: defs multipole_map_def k weak_focusing_def distrib_left)
  next
    case 2
    then show ?thesis
      using * jj ii
      by (cases "jj = ii") (simp_all add: defs multipole_map_def k weak_focusing_def distrib_left)
  next
    case 3
    then show ?thesis
      using * jj ii
      by (cases "jj = ii") (simp_all add: defs multipole_map_def k weak_focusing_def)
  qed
qed

text \<open>C38: On a particle at \<open>x + i y\<close>, \<open>NS(Track_particle_multipole)\<close> evaluates the complex field
  polynomial of the coefficients \<open>bal\<close>: the transverse kick is \<open>- chi\<close> times its real part and \<open>chi\<close>
  times its imaginary part, plus the terms of the reference curvature and of weak focusing, which are the
  same whether or not the code takes its branch for straight multipoles.\<close>

theorem multipole_field:
  assumes "particles_wf p" "valid_idx p ii"
    and "0 \<le> Multipole_order mp" "2 * Multipole_order mp + 1 < 2 ^ 64"
  shows "let v = particle_of p ii; w = particle_of (fst (Track_particle_multipole p ii mp)) ii;
       B = field_poly mp (nat (Multipole_order mp)) (Complex (pv_x v) (pv_y v));
       hx = Multipole_hxl mp; hy = Multipole_hyl mp; chi = pv_chi v
    in pv_px w = pv_px v - chi * Re B + hx * (1 + pv_delta v)
         - weak_focusing mp (chi * Multipole_bal mp 0 * (pv_x v * hx)) \<and>
       pv_py w = pv_py v + chi * Im B - hy * (1 + pv_delta v)
         + weak_focusing mp (chi * Multipole_bal mp 1 * (pv_y v * hy)) \<and>
       pv_zeta w = pv_zeta v + chi * (pv_y v * hy - pv_x v * hx) \<and>
       pv_x w = pv_x v \<and> pv_y w = pv_y v \<and> pv_delta w = pv_delta v"
proof -
  have "0 \<le> ii" using assms(2) by (simp add: valid_idx_def)
  then show ?thesis
    using assms
    by (simp add: Let_def multipole.kernel_view multipole_map_def multipole_kick_def horner_field)
qed

text \<open>A sextupole of strength 3 without curvature.\<close>

definition sample_multipole :: Multipole where
  "sample_multipole = \<lparr>Multipole_order = 2, Multipole_length = 1, Multipole_hxl = 0,
     Multipole_hyl = 0, Multipole_bal_values = Some [0, 0, 0, 0, 3, 0]\<rparr>"

theorem multipole_field_witness:
  "let p = Particles_set_x_value (reference_particles 2) 1 2
   in pv_px (particle_of (fst (Track_particle_multipole p 1 sample_multipole)) 1) = - 12"
  using multipole_field [of "Particles_set_x_value (reference_particles 2) 1 2" 1 sample_multipole]
  by (simp add: Let_def particle_simps sample_multipole_def reference_particle_def field_poly_def
      field_coeff_def weak_focusing_def numeral_2_eq_2 atMost_Suc)

subsection \<open>Strengths and coefficients\<close>

lemma length_strided_update [simp]: "length (strided_update i n f bal) = length bal"
proof -
  have "length (fold (\<lambda>k bal. bal[i + 2 * k := f k]) ks bal) = length bal" for ks
    by (induction ks arbitrary: bal) simp_all
  then show ?thesis by (simp add: strided_update_def)
qed

lemma nth_strided_miss:
  "\<forall>k<m. i + 2 * k \<noteq> j \<Longrightarrow> j < length bal \<Longrightarrow>
   fold (\<lambda>k bal. bal[i + 2 * k := f k]) [0..<m] bal ! j = bal ! j"
  by (induction m) simp_all

lemma nth_strided_hit:
  assumes "q < m" "i + 2 * q < length bal"
  shows "fold (\<lambda>k bal. bal[i + 2 * k := f k]) [0..<m] bal ! (i + 2 * q) = f q"
  using assms
proof (induction m)
  case (Suc m)
  have len: "length (fold (\<lambda>k bal. bal[i + 2 * k := f k]) ks bal) = length bal" for ks bal
    by (induction ks arbitrary: bal) simp_all
  show ?case using Suc by (cases "q = m") (simp_all add: len)
qed simp

lemma strided_even:
  assumes "length bal = 2 * n + 2" "q \<le> n"
  shows "strided_update 0 (2 * n + 2) f bal ! (2 * q) = f q"
    and "strided_update 0 (2 * n + 2) f bal ! (2 * q + 1) = bal ! (2 * q + 1)"
proof -
  show "strided_update 0 (2 * n + 2) f bal ! (2 * q) = f q"
    using nth_strided_hit [of q "n + 1" 0 bal f] assms by (simp add: strided_update_def)
  have "2 * k \<noteq> 2 * q + 1" for k q :: nat by presburger
  then show "strided_update 0 (2 * n + 2) f bal ! (2 * q + 1) = bal ! (2 * q + 1)"
    using nth_strided_miss [of "n + 1" 0 "2 * q + 1" bal f] assms by (simp add: strided_update_def)
qed

lemma strided_odd:
  assumes "length bal = 2 * n + 2" "q \<le> n"
  shows "strided_update 1 (2 * n + 2) f bal ! (2 * q + 1) = f q"
    and "strided_update 1 (2 * n + 2) f bal ! (2 * q) = bal ! (2 * q)"
proof -
  show "strided_update 1 (2 * n + 2) f bal ! (2 * q + 1) = f q"
    using nth_strided_hit [of q "n + 1" 1 bal f] assms by (simp add: strided_update_def)
  have "1 + 2 * k \<noteq> 2 * q" for k q :: nat by presburger
  then show "strided_update 1 (2 * n + 2) f bal ! (2 * q) = bal ! (2 * q)"
    using nth_strided_miss [of "n + 1" 1 "2 * q" bal f] assms by (simp add: strided_update_def)
qed

text \<open>The coefficient array has the size the order announces.\<close>

definition multipole_wf :: "Multipole \<Rightarrow> bool" where
  "multipole_wf mp \<longleftrightarrow> 0 \<le> Multipole_order mp \<and> 2 * Multipole_order mp + 2 < 2 ^ 64 \<and>
     (case Multipole_bal_values mp of None \<Rightarrow> False
      | Some bal \<Rightarrow> length bal = nat (2 * Multipole_order mp + 2))"

lemma multipole_wfE:
  assumes "multipole_wf mp"
  obtains bal n where "Multipole_bal_values mp = Some bal" "Multipole_order mp = int n"
    "length bal = 2 * n + 2" "2 * int n + 2 < 2 ^ 64" "unat (Multipole_bal_length mp) = 2 * n + 2"
proof -
  from assms obtain bal where b: "Multipole_bal_values mp = Some bal"
    by (auto simp: multipole_wf_def split: option.splits)
  from assms obtain n where n: "Multipole_order mp = int n"
    using nonneg_int_cases by (auto simp: multipole_wf_def)
  have lt: "2 * int n + 2 < 2 ^ 64" using assms n by (simp add: multipole_wf_def)
  have two: "nat (2 * int n + 2) = 2 * n + 2" by simp
  then have "unat (Multipole_bal_length mp) = 2 * n + 2"
    using lt by (simp only: Multipole_bal_length_def n unat_u64_of if_True of_nat_0_le_iff)
  moreover have "length bal = 2 * n + 2" using assms b n two by (simp add: multipole_wf_def)
  ultimately show ?thesis using that b n lt by blast
qed

text \<open>Setting all normal strengths of a multipole with \<open>NS(Multipole_set_knl)\<close> and reading them back
  with \<open>NS(Multipole_knl)\<close> gives the values set, for every order, and leaves all skew strengths as they
  were.\<close>

theorem knl_round_trip:
  assumes wf: "multipole_wf mp" and k: "0 \<le> k" "k \<le> Multipole_order mp"
  shows "let r = Multipole_set_knl mp (Some knl)
    in snd r = 0 \<and> multipole_wf (fst r) \<and> Multipole_knl (fst r) k = knl ! nat k \<and>
       Multipole_ksl (fst r) k = Multipole_ksl mp k"
proof -
  from wf obtain bal n where m: "Multipole_bal_values mp = Some bal" "Multipole_order mp = int n"
    "length bal = 2 * n + 2" "2 * int n + 2 < 2 ^ 64" "unat (Multipole_bal_length mp) = 2 * n + 2"
    by (rule multipole_wfE)
  obtain i where i: "k = int i" using k(1) nonneg_int_cases by blast
  have two: "nat (2 * int i) = 2 * i" "nat (2 * int i + 1) = 2 * i + 1" by simp_all
  have "2 * int i + 1 < 2 ^ 64" using k m(2,4) by (simp add: i)
  then have idx: "unat (u64_of (2 * int i)) = 2 * i" "unat (u64_of (2 * int i + 1)) = 2 * i + 1"
    using unat_u64_of [of "2 * int i"] unat_u64_of [of "2 * int i + 1"] two by linarith+
  have lt: "2 * i < length bal" "2 * i + 1 < length bal" using k m by (simp_all add: i)
  have nz: "Math_factorial (u64_of (int i)) \<noteq> 0" using Math_factorial_pos [of "u64_of (int i)"] by simp
  define bal' where "bal' = strided_update 0 (2 * n + 2)
    (\<lambda>knl_index. knl ! knl_index / Math_factorial (u64_of (int knl_index))) bal"
  have e: "bal' ! (2 * i) = knl ! i / Math_factorial (u64_of (int i))" "bal' ! (2 * i + 1) = bal ! (2 * i + 1)"
    using k m strided_even [of bal n i] by (simp_all add: bal'_def i)
  have r: "Multipole_set_knl mp (Some knl) = (mp\<lparr>Multipole_bal_values := Some bal'\<rparr>, 0)"
    by (simp add: Multipole_set_knl_def m bal'_def)
  show ?thesis
    using wf m nz e
    by (simp add: r Let_def Multipole_knl_def Multipole_ksl_def Multipole_bal_def idx
        multipole_wf_def bal'_def i)
qed

theorem knl_round_trip_witness:
  "Multipole_knl (fst (Multipole_set_knl sample_multipole (Some [4, 5, 7]))) 2 = 7"
  using knl_round_trip [of sample_multipole 2 "[4, 5, 7]"]
  by (simp add: sample_multipole_def multipole_wf_def Let_def)

text \<open>\<open>NS(Multipole_set_all_bal_values)\<close> reports success but never writes a coefficient, because the
  end of its loop is computed as the begin of the array; \<open>NS(Multipole_set_bal)\<close> writes them all.\<close>

theorem set_all_bal_values_writes_nothing:
  assumes "multipole_wf mp"
  shows "Multipole_set_all_bal_values mp bal_value = (mp, 0) \<and>
    (length vs = nat (2 * Multipole_order mp + 2) \<longrightarrow>
     Multipole_bal_values (fst (Multipole_set_bal mp (Some vs))) = Some vs)"
proof -
  from assms obtain bal n where m: "Multipole_bal_values mp = Some bal" "Multipole_order mp = int n"
    "length bal = 2 * n + 2" "2 * int n + 2 < 2 ^ 64" "unat (Multipole_bal_length mp) = 2 * n + 2"
    by (rule multipole_wfE)
  have copy: "fold (\<lambda>i bal. bal[i := vs ! i]) [0..<l] bal = take l vs @ drop l bal"
    if "l \<le> length vs" "length vs = length bal" for l
    using that
  proof (induction l)
    case (Suc l)
    then have "drop l bal = bal ! l # drop (Suc l) bal" by (simp add: Cons_nth_drop_Suc)
    then show ?case using Suc by (simp add: list_update_append take_Suc_conv_app_nth)
  qed simp
  have "nat (2 * int n + 2) = 2 * n + 2" by (simp add: nat_add_distrib nat_mult_distrib)
  then show ?thesis
    using m copy [of "2 * n + 2"]
    by (simp add: Multipole_set_all_bal_values_def Multipole_set_bal_def)
qed

theorem set_all_bal_values_writes_nothing_witness:
  "Multipole_set_all_bal_values sample_multipole 5 = (sample_multipole, 0)"
  using set_all_bal_values_writes_nothing [of sample_multipole 5 "[]"]
  by (simp add: sample_multipole_def multipole_wf_def)

subsection \<open>RF multipoles\<close>

definition rf_ktau :: "RFMultipole \<Rightarrow> particle \<Rightarrow> real" where
  "rf_ktau mpole v = RFMultipole_frequency mpole * (2 * SIXTRL_PI) / SIXTRL_C_LIGHT * pv_zeta v /
     (pv_beta0 v * pv_rvv v)"

definition rf_sums :: "RFMultipole \<Rightarrow> particle \<Rightarrow> real \<times> real \<times> real \<times> real \<times> real" where
  "rf_sums mpole v =
     fold (rf_multipole_step mpole (pv_x v) (pv_y v) (rf_ktau mpole v))
       [0..<nat (RFMultipole_order mpole + 1)] (0, 0, 0, 1, 0)"

definition rf_energy_kick :: "RFMultipole \<Rightarrow> particle \<Rightarrow> real" where
  "rf_energy_kick mpole v =
     (case rf_sums mpole v of (dpx, dpy, dptr, zre, zim) \<Rightarrow>
       let q = pv_q0 v * pv_charge_ratio v * PhysConst_charge0
       in q * (RFMultipole_voltage mpole *
            sin (RFMultipole_lag mpole * MathConst_deg2rad - rf_ktau mpole v)) +
          - q * ((RFMultipole_frequency mpole * (2 * SIXTRL_PI) / SIXTRL_C_LIGHT * pv_p0c v) * dptr))"

definition rf_multipole_map :: "RFMultipole \<Rightarrow> particle \<Rightarrow> particle" where
  "rf_multipole_map mpole v =
     (case rf_sums mpole v of (dpx, dpy, dptr, zre, zim) \<Rightarrow>
       energy_map (rf_energy_kick mpole v)
         (v\<lparr>pv_px := pv_px v + (- pv_chi v * dpx), pv_py := pv_py v + pv_chi v * dpy\<rparr>))"

lemma rf_multipole_as_steps:
  assumes "rf_sums mpole (particle_of p ii) = (dpx, dpy, dptr, zre, zim)"
  shows "fst (Track_particle_rf_multipole p ii mpole) =
    Particles_add_to_energy_value
      (Particles_add_to_py_value
        (Particles_add_to_px_value p ii (- pv_chi (particle_of p ii) * dpx)) ii
        (pv_chi (particle_of p ii) * dpy)) ii (rf_energy_kick mpole (particle_of p ii))"
  using assms
  by (simp add: Track_particle_rf_multipole_def Let_def particle_simps rf_energy_kick_def
      rf_sums_def rf_ktau_def)

interpretation rf_multipole: particle_kernel "\<lambda>p ii. fst (Track_particle_rf_multipole p ii mpole)"
    "\<lambda>ii. rf_multipole_map mpole" for mpole
proof
  fix p ii jj
  obtain dpx dpy dptr zre zim where
    k: "rf_sums mpole (particle_of p ii) = (dpx, dpy, dptr, zre, zim)" by (rule prod_cases5)
  note defs = rf_multipole_as_steps [OF k] particle_simps Particles_add_to_px_value_def
    Particles_add_to_py_value_def
  show "num_particles (fst (Track_particle_rf_multipole p ii mpole)) = num_particles p"
    by (simp add: defs add_to_energy.kernel_num)
  assume *: "particles_wf p" "valid_idx p ii"
  show "particles_wf (fst (Track_particle_rf_multipole p ii mpole))"
    using * by (simp add: defs add_to_energy.kernel_wf)
  assume jj: "0 \<le> (jj :: i64)"
  have "0 \<le> ii" using * by (simp add: valid_idx_def)
  then show "particle_of (fst (Track_particle_rf_multipole p ii mpole)) jj =
      (if jj = ii then rf_multipole_map mpole (particle_of p ii) else particle_of p jj)"
    using * jj by (simp add: defs add_to_energy.kernel_view rf_multipole_map_def k)
qed

lemma multipole_success [simp]:
  "snd (Track_particle_multipole p ii mp) = 0"
  "snd (Track_particle_rf_multipole p ii mpole) = 0"
  by (simp_all add: Track_particle_multipole_def Track_particle_rf_multipole_def Let_def
      split: prod.splits)

text \<open>At rest in the RF phase, the loop of the RF multipole sums the static field polynomial.\<close>

lemma rf_static_sums:
  assumes "\<And>k. k < 2 * n \<Longrightarrow> RFMultipole_phase_values mpole ! k = 0"
    and "Multipole_bal_values mp = Some (RFMultipole_bal_values mpole)"
  shows "fold (rf_multipole_step mpole x y 0) [0..<n] (0, 0, 0, 1, 0) =
    (Re (\<Sum>k<n. field_coeff mp k * Complex x y ^ k), Im (\<Sum>k<n. field_coeff mp k * Complex x y ^ k),
     0, Re (Complex x y ^ n), Im (Complex x y ^ n))"
  using assms(1)
proof (induction n)
  case (Suc n)
  have "Re (field_coeff mp n) = RFMultipole_bal_values mpole ! (2 * n)"
    "Im (field_coeff mp n) = RFMultipole_bal_values mpole ! (2 * n + 1)"
    by (simp_all add: field_coeff_def assms(2))
  then show ?case
    using Suc by (simp add: rf_multipole_step_def Let_def algebra_simps)
qed simp

lemma energy_at_self:
  assumes "momentum_consistent v"
  shows "energy_at (energy_ratio v) v = v"
proof -
  define b where "b = pv_beta0 v"
  have c: "0 < b" "0 < 1 + pv_delta v" "0 < 1 + b\<^sup>2 * pv_psigma v"
    "(1 + pv_delta v)\<^sup>2 = 1 + 2 * pv_psigma v + (b * pv_psigma v)\<^sup>2"
    "pv_rpp v * (1 + pv_delta v) = 1" "pv_rvv v * (1 + b\<^sup>2 * pv_psigma v) = 1 + pv_delta v"
    using assms by (simp_all add: momentum_consistent_def b_def)
  have ptau: "(energy_ratio v - 1) / b = b * pv_psigma v" "(b * pv_psigma v) / b = pv_psigma v"
    using c(1) by (simp_all add: energy_ratio_def power2_eq_square flip: b_def)
  have d: "sqrt (b * pv_psigma v * (b * pv_psigma v) + 2 * pv_psigma v + 1) = 1 + pv_delta v"
    using c(2,4) by (intro real_sqrt_unique) (simp_all add: power2_eq_square)
  have rvv: "(1 + pv_delta v) / energy_ratio v = pv_rvv v"
    using c(3,6) by (simp add: energy_ratio_def field_simps flip: b_def)
  have "pv_rvv v \<noteq> 0" using c(2,6) by auto
  moreover have "1 / (1 + pv_delta v) = pv_rpp v" using c(2,5) by (simp add: field_simps)
  ultimately show ?thesis
    unfolding energy_at_def Let_def b_def [symmetric] ptau d rvv by simp
qed

text \<open>An RF multipole without cavity voltage, at zero frequency and with zero phases, tracks every
  particle exactly as the straight multipole with the same coefficients does.\<close>

theorem rf_multipole_static:
  assumes wf: "particles_wf p" "valid_idx p ii"
    and c: "momentum_consistent (particle_of p ii)"
    and order: "0 \<le> RFMultipole_order mpole" "2 * RFMultipole_order mpole + 1 < 2 ^ 64"
    and static: "RFMultipole_voltage mpole = 0" "RFMultipole_frequency mpole = 0"
      "\<And>k. k < 2 * nat (RFMultipole_order mpole + 1) \<Longrightarrow> RFMultipole_phase_values mpole ! k = 0"
    and mp: "Multipole_bal_values mp = Some (RFMultipole_bal_values mpole)"
      "Multipole_order mp = RFMultipole_order mpole" "Multipole_hxl mp = 0" "Multipole_hyl mp = 0"
  shows "fst (Track_particle_rf_multipole p ii mpole) = fst (Track_particle_multipole p ii mp)"
proof -
  define v where "v = particle_of p ii"
  define B where "B = field_poly mp (nat (RFMultipole_order mpole)) (Complex (pv_x v) (pv_y v))"
  have n: "nat (RFMultipole_order mpole + 1) = Suc (nat (RFMultipole_order mpole))"
    using order(1) by (simp add: nat_add_distrib)
  define z where "z = Complex (pv_x v) (pv_y v)"
  have B: "(\<Sum>k<nat (RFMultipole_order mpole + 1). field_coeff mp k * z ^ k) = B"
    by (simp only: n lessThan_Suc_atMost B_def field_poly_def z_def)
  have ktau: "rf_ktau mpole v = 0" by (simp add: rf_ktau_def static(2))
  have "rf_sums mpole v = (Re B, Im B, 0,
      Re (z ^ nat (RFMultipole_order mpole + 1)), Im (z ^ nat (RFMultipole_order mpole + 1)))"
    unfolding rf_sums_def ktau
    by (subst rf_static_sums [where mp = mp, OF static(3) mp(1)]) (simp_all only: B flip: z_def)
  then obtain zre zim where s: "rf_sums mpole v = (Re B, Im B, 0, zre, zim)" by blast
  have kick: "rf_energy_kick mpole v = 0" by (simp add: rf_energy_kick_def s static)
  let ?w = "v\<lparr>pv_px := pv_px v - pv_chi v * Re B, pv_py := pv_py v + pv_chi v * Im B\<rparr>"
  have "momentum_consistent ?w" using c by (simp add: momentum_consistent_def v_def)
  then have "energy_map 0 ?w = ?w" by (simp add: energy_map_at energy_at_self)
  then have rf: "rf_multipole_map mpole v = ?w" by (simp add: rf_multipole_map_def s kick)
  have "multipole_kick mp v = (Re B, Im B)"
    using order by (simp add: multipole_kick_def mp horner_field B_def)
  then have "multipole_map mp v = ?w"
    by (simp add: multipole_map_def mp weak_focusing_def Let_def)
  then show ?thesis
    using rf wf rf_multipole.kernel_wf [OF wf] multipole.kernel_wf [OF wf]
    by (intro particles_eqI)
      (auto simp: rf_multipole.kernel_num multipole.kernel_num rf_multipole.kernel_view
        multipole.kernel_view rf_multipole.kernel_valid v_def valid_idx_def)
qed

theorem rf_multipole_static_witness:
  "fst (Track_particle_rf_multipole (reference_particles 2) 1
     \<lparr>RFMultipole_order = 0, RFMultipole_voltage = 0, RFMultipole_frequency = 0, RFMultipole_lag = 3,
      RFMultipole_bal_values = [5, 7], RFMultipole_phase_values = [0, 0]\<rparr>) =
   fst (Track_particle_multipole (reference_particles 2) 1
     \<lparr>Multipole_order = 0, Multipole_length = 1, Multipole_hxl = 0, Multipole_hyl = 0,
      Multipole_bal_values = Some [5, 7]\<rparr>)"
  by (rule rf_multipole_static)
    (auto simp: reference_particle_def momentum_consistent_def less_2_cases_iff)

end
