(* ===== verification/Apertures.thy ===== *)
theory Apertures
  imports Elements
begin

section \<open>Apertures (be_limit)\<close>

text \<open>
  The global aperture check and the rectangular, elliptic and combined apertures. All of them combine
  the state of a particle with the outcome of a test by a bitwise \<open>and\<close>: a particle inside keeps its
  state, a particle outside becomes lost. The limits of the global check are build options and default
  to 1.0.
\<close>

definition SIXTRL_APERTURE_X_LIMIT :: real where
  "SIXTRL_APERTURE_X_LIMIT = 1"

definition SIXTRL_APERTURE_Y_LIMIT :: real where
  "SIXTRL_APERTURE_Y_LIMIT = 1"

subsection \<open>Structures and setters\<close>

record LimitRect =
  LimitRect_min_x :: real
  LimitRect_max_x :: real
  LimitRect_min_y :: real
  LimitRect_max_y :: real

definition LimitRect_set_min_x :: "LimitRect \<Rightarrow> real \<Rightarrow> LimitRect \<times> arch_status" where
  "LimitRect_set_min_x limit min_x = (limit\<lparr>LimitRect_min_x := min_x\<rparr>, 0)"

definition LimitRect_set_max_x :: "LimitRect \<Rightarrow> real \<Rightarrow> LimitRect \<times> arch_status" where
  "LimitRect_set_max_x limit max_x = (limit\<lparr>LimitRect_max_x := max_x\<rparr>, 0)"

definition LimitRect_set_min_y :: "LimitRect \<Rightarrow> real \<Rightarrow> LimitRect \<times> arch_status" where
  "LimitRect_set_min_y limit min_y = (limit\<lparr>LimitRect_min_y := min_y\<rparr>, 0)"

definition LimitRect_set_max_y :: "LimitRect \<Rightarrow> real \<Rightarrow> LimitRect \<times> arch_status" where
  "LimitRect_set_max_y limit max_y = (limit\<lparr>LimitRect_max_y := max_y\<rparr>, 0)"

definition LimitRect_set_x_limit :: "LimitRect \<Rightarrow> real \<Rightarrow> LimitRect \<times> arch_status" where
  "LimitRect_set_x_limit limit x_limit =
     (let (limit, status) = LimitRect_set_min_x limit (- x_limit);
          (limit, s1) = LimitRect_set_max_x limit x_limit
      in (limit, status OR s1))"

definition LimitRect_set_y_limit :: "LimitRect \<Rightarrow> real \<Rightarrow> LimitRect \<times> arch_status" where
  "LimitRect_set_y_limit limit y_limit =
     (let (limit, status) = LimitRect_set_min_y limit (- y_limit);
          (limit, s1) = LimitRect_set_max_y limit y_limit
      in (limit, status OR s1))"

definition LimitRect_clear :: "LimitRect \<Rightarrow> LimitRect \<times> arch_status" where
  "LimitRect_clear limit =
     (let (limit, status) = LimitRect_set_min_x limit (- SIXTRL_APERTURE_X_LIMIT);
          (limit, s1) = LimitRect_set_max_x limit SIXTRL_APERTURE_X_LIMIT;
          (limit, s2) = LimitRect_set_min_y limit (- SIXTRL_APERTURE_Y_LIMIT);
          (limit, s3) = LimitRect_set_max_y limit SIXTRL_APERTURE_Y_LIMIT
      in (limit, status OR s1 OR s2 OR s3))"

definition LimitRect_copy :: "bool \<Rightarrow> LimitRect \<Rightarrow> LimitRect \<Rightarrow> LimitRect \<times> arch_status" where
  "LimitRect_copy same dst src =
     (if \<not> same then
        let (dst, status) = LimitRect_set_min_x dst (LimitRect_min_x src);
            (dst, s1) = LimitRect_set_max_x dst (LimitRect_max_x src);
            (dst, s2) = LimitRect_set_min_y dst (LimitRect_min_y src);
            (dst, s3) = LimitRect_set_max_y dst (LimitRect_max_y src)
        in (dst, status OR s1 OR s2 OR s3)
      else (dst, 0))"

record LimitEllipse =
  LimitEllipse_x_half_axis_squ :: real
  LimitEllipse_y_half_axis_squ :: real
  LimitEllipse_half_axes_product_squ :: real

definition LimitEllipse_x_half_axis :: "LimitEllipse \<Rightarrow> real" where
  "LimitEllipse_x_half_axis limit = sqrt (LimitEllipse_x_half_axis_squ limit)"

definition LimitEllipse_y_half_axis :: "LimitEllipse \<Rightarrow> real" where
  "LimitEllipse_y_half_axis limit = sqrt (LimitEllipse_y_half_axis_squ limit)"

definition LimitEllipse_set_half_axes_squ ::
    "LimitEllipse \<Rightarrow> real \<Rightarrow> real \<Rightarrow> LimitEllipse \<times> arch_status" where
  "LimitEllipse_set_half_axes_squ limit x_half_axis_squ y_half_axis_squ =
     (if x_half_axis_squ \<ge> 0 \<and> y_half_axis_squ \<ge> 0 then
        (limit\<lparr>LimitEllipse_x_half_axis_squ := x_half_axis_squ,
               LimitEllipse_y_half_axis_squ := y_half_axis_squ,
               LimitEllipse_half_axes_product_squ := x_half_axis_squ * y_half_axis_squ\<rparr>, 0)
      else (limit, - 1))"

definition LimitEllipse_set_half_axes ::
    "LimitEllipse \<Rightarrow> real \<Rightarrow> real \<Rightarrow> LimitEllipse \<times> arch_status" where
  "LimitEllipse_set_half_axes limit x_half_axis y_half_axis =
     LimitEllipse_set_half_axes_squ limit (x_half_axis * x_half_axis) (y_half_axis * y_half_axis)"

definition LimitEllipse_clear :: "LimitEllipse \<Rightarrow> LimitEllipse \<times> arch_status" where
  "LimitEllipse_clear limit =
     LimitEllipse_set_half_axes limit SIXTRL_APERTURE_X_LIMIT SIXTRL_APERTURE_Y_LIMIT"

definition LimitEllipse_copy ::
    "bool \<Rightarrow> LimitEllipse \<Rightarrow> LimitEllipse \<Rightarrow> LimitEllipse \<times> arch_status" where
  "LimitEllipse_copy same dst src =
     (if \<not> same then
        LimitEllipse_set_half_axes_squ dst (LimitEllipse_x_half_axis_squ src)
          (LimitEllipse_y_half_axis_squ src)
      else (dst, 0))"

record LimitRectEllipse =
  LimitRectEllipse_max_x :: real
  LimitRectEllipse_max_y :: real
  LimitRectEllipse_a_squ :: real
  LimitRectEllipse_b_squ :: real
  LimitRectEllipse_a_squ_b_squ :: real

definition LimitRectEllipse_a :: "LimitRectEllipse \<Rightarrow> real" where
  "LimitRectEllipse_a limit = sqrt (LimitRectEllipse_a_squ limit)"

definition LimitRectEllipse_b :: "LimitRectEllipse \<Rightarrow> real" where
  "LimitRectEllipse_b limit = sqrt (LimitRectEllipse_b_squ limit)"

definition LimitRectEllipse_set_max_x ::
    "LimitRectEllipse \<Rightarrow> real \<Rightarrow> LimitRectEllipse \<times> arch_status" where
  "LimitRectEllipse_set_max_x limit max_x = (limit\<lparr>LimitRectEllipse_max_x := max_x\<rparr>, 0)"

definition LimitRectEllipse_set_max_y ::
    "LimitRectEllipse \<Rightarrow> real \<Rightarrow> LimitRectEllipse \<times> arch_status" where
  "LimitRectEllipse_set_max_y limit max_y = (limit\<lparr>LimitRectEllipse_max_y := max_y\<rparr>, 0)"

definition LimitRectEllipse_set_a_squ ::
    "LimitRectEllipse \<Rightarrow> real \<Rightarrow> LimitRectEllipse \<times> arch_status" where
  "LimitRectEllipse_set_a_squ limit a_squ = (limit\<lparr>LimitRectEllipse_a_squ := a_squ\<rparr>, 0)"

definition LimitRectEllipse_set_b_squ ::
    "LimitRectEllipse \<Rightarrow> real \<Rightarrow> LimitRectEllipse \<times> arch_status" where
  "LimitRectEllipse_set_b_squ limit b_squ = (limit\<lparr>LimitRectEllipse_b_squ := b_squ\<rparr>, 0)"

definition LimitRectEllipse_set_a_squ_b_squ ::
    "LimitRectEllipse \<Rightarrow> real \<Rightarrow> LimitRectEllipse \<times> arch_status" where
  "LimitRectEllipse_set_a_squ_b_squ limit a_squ_b_squ =
     (limit\<lparr>LimitRectEllipse_a_squ_b_squ := a_squ_b_squ\<rparr>, 0)"

definition LimitRectEllipse_set_a ::
    "LimitRectEllipse \<Rightarrow> real \<Rightarrow> LimitRectEllipse \<times> arch_status" where
  "LimitRectEllipse_set_a limit a = (limit\<lparr>LimitRectEllipse_a_squ := a * a\<rparr>, 0)"

definition LimitRectEllipse_set_b ::
    "LimitRectEllipse \<Rightarrow> real \<Rightarrow> LimitRectEllipse \<times> arch_status" where
  "LimitRectEllipse_set_b limit b = (limit\<lparr>LimitRectEllipse_b_squ := b * b\<rparr>, 0)"

definition LimitRectEllipse_clear :: "LimitRectEllipse \<Rightarrow> LimitRectEllipse \<times> arch_status" where
  "LimitRectEllipse_clear limit =
     (let (limit, status) = LimitRectEllipse_set_max_x limit SIXTRL_APERTURE_X_LIMIT;
          (limit, s1) = LimitRectEllipse_set_max_y limit SIXTRL_APERTURE_Y_LIMIT;
          (limit, s2) = LimitRectEllipse_set_a limit SIXTRL_APERTURE_X_LIMIT;
          (limit, s3) = LimitRectEllipse_set_b limit SIXTRL_APERTURE_Y_LIMIT;
          (limit, s4) = LimitRectEllipse_set_a_squ_b_squ limit
            (LimitRectEllipse_a_squ limit * LimitRectEllipse_b_squ limit)
      in (limit, status OR s1 OR s2 OR s3 OR s4))"

definition LimitRectEllipse_copy ::
    "bool \<Rightarrow> LimitRectEllipse \<Rightarrow> LimitRectEllipse \<Rightarrow> LimitRectEllipse \<times> arch_status" where
  "LimitRectEllipse_copy same dst src =
     (if \<not> same then
        let (dst, status) = LimitRectEllipse_set_max_x dst (LimitRectEllipse_max_x src);
            (dst, s1) = LimitRectEllipse_set_max_y dst (LimitRectEllipse_max_y src);
            (dst, s2) = LimitRectEllipse_set_a_squ dst (LimitRectEllipse_a_squ src);
            (dst, s3) = LimitRectEllipse_set_b_squ dst (LimitRectEllipse_b_squ src)
        in (dst, status OR s1 OR s2 OR s3)
      else (dst, 0))"

subsection \<open>Tracking\<close>

text \<open>The C value of a truth value.\<close>

definition int_of_bool :: "bool \<Rightarrow> int" where
  "int_of_bool b = (if b then 1 else 0)"

definition Track_particle_limit_global :: "particles \<Rightarrow> i64 \<Rightarrow> particles \<times> track_status" where
  "Track_particle_limit_global p idx =
     (let X_LIMIT = SIXTRL_APERTURE_X_LIMIT;
          Y_LIMIT = SIXTRL_APERTURE_Y_LIMIT;
          state = Particles_get_state_value p idx;
          x = Particles_get_x_value p idx;
          y = Particles_get_y_value p idx;
          sign_x = real_of_int (int_of_bool (0 < x)) - real_of_int (int_of_bool (x < 0));
          sign_y = real_of_int (int_of_bool (0 < y)) - real_of_int (int_of_bool (y < 0));
          state = state AND
            (int_of_bool (sign_x * x < X_LIMIT) AND int_of_bool (sign_y * y < Y_LIMIT))
      in (Particles_set_state_value p idx state, 0))"

definition Track_particle_limit_rect ::
    "particles \<Rightarrow> i64 \<Rightarrow> LimitRect \<Rightarrow> particles \<times> track_status" where
  "Track_particle_limit_rect p particle_idx limit =
     (let x = Particles_get_x_value p particle_idx;
          y = Particles_get_y_value p particle_idx;
          new_state = int_of_bool (x \<ge> LimitRect_min_x limit \<and> x \<le> LimitRect_max_x limit \<and>
            y \<ge> LimitRect_min_y limit \<and> y \<le> LimitRect_max_y limit)
      in (Particles_update_state_value_if_not_already_lost p particle_idx new_state, 0))"

definition Track_particle_limit_ellipse ::
    "particles \<Rightarrow> i64 \<Rightarrow> LimitEllipse \<Rightarrow> particles \<times> track_status" where
  "Track_particle_limit_ellipse p particle_idx limit =
     (let temp = Particles_get_x_value p particle_idx;
          y_squ = Particles_get_y_value p particle_idx;
          temp = temp * temp;
          temp = temp * LimitEllipse_y_half_axis_squ limit;
          y_squ = y_squ * y_squ;
          y_squ = y_squ * LimitEllipse_x_half_axis_squ limit;
          temp = temp + y_squ
      in (Particles_update_state_value_if_not_already_lost p particle_idx
            (int_of_bool (temp \<le> LimitEllipse_half_axes_product_squ limit)), 0))"

definition Track_particle_limit_rect_ellipse ::
    "particles \<Rightarrow> i64 \<Rightarrow> LimitRectEllipse \<Rightarrow> particles \<times> track_status" where
  "Track_particle_limit_rect_ellipse p ii limit =
     (let x = Particles_get_x_value p ii;
          y = Particles_get_y_value p ii;
          temp = x * x * LimitRectEllipse_b_squ limit;
          temp = temp + y * y * LimitRectEllipse_a_squ limit;
          new_state = int_of_bool (x \<le> LimitRectEllipse_max_x limit \<and>
            x \<ge> - LimitRectEllipse_max_x limit \<and> y \<le> LimitRectEllipse_max_y limit \<and>
            y \<ge> - LimitRectEllipse_max_y limit \<and> temp \<le> LimitRectEllipse_a_squ_b_squ limit)
      in (Particles_update_state_value_if_not_already_lost p ii new_state, 0))"

subsection \<open>Inside and outside\<close>

definition inside_global :: "real \<Rightarrow> real \<Rightarrow> bool" where
  "inside_global x y \<longleftrightarrow> \<bar>x\<bar> < SIXTRL_APERTURE_X_LIMIT \<and> \<bar>y\<bar> < SIXTRL_APERTURE_Y_LIMIT"

definition inside_rect :: "LimitRect \<Rightarrow> real \<Rightarrow> real \<Rightarrow> bool" where
  "inside_rect limit x y \<longleftrightarrow> LimitRect_min_x limit \<le> x \<and> x \<le> LimitRect_max_x limit \<and>
     LimitRect_min_y limit \<le> y \<and> y \<le> LimitRect_max_y limit"

definition inside_ellipse :: "LimitEllipse \<Rightarrow> real \<Rightarrow> real \<Rightarrow> bool" where
  "inside_ellipse limit x y \<longleftrightarrow>
     x\<^sup>2 * LimitEllipse_y_half_axis_squ limit + y\<^sup>2 * LimitEllipse_x_half_axis_squ limit
       \<le> LimitEllipse_half_axes_product_squ limit"

definition inside_rect_ellipse :: "LimitRectEllipse \<Rightarrow> real \<Rightarrow> real \<Rightarrow> bool" where
  "inside_rect_ellipse limit x y \<longleftrightarrow> \<bar>x\<bar> \<le> LimitRectEllipse_max_x limit \<and>
     \<bar>y\<bar> \<le> LimitRectEllipse_max_y limit \<and>
     x\<^sup>2 * LimitRectEllipse_b_squ limit + y\<^sup>2 * LimitRectEllipse_a_squ limit
       \<le> LimitRectEllipse_a_squ_b_squ limit"

definition limit_map :: "(real \<Rightarrow> real \<Rightarrow> bool) \<Rightarrow> particle \<Rightarrow> particle" where
  "limit_map inside v = v\<lparr>pv_state := pv_state v AND int_of_bool (inside (pv_x v) (pv_y v))\<rparr>"

lemma limit_as_update:
  "fst (Track_particle_limit_global p ii) = Particles_update_state_value_if_not_already_lost p ii
     (int_of_bool (inside_global (pv_x (particle_of p ii)) (pv_y (particle_of p ii))))"
  "fst (Track_particle_limit_rect p ii r) = Particles_update_state_value_if_not_already_lost p ii
     (int_of_bool (inside_rect r (pv_x (particle_of p ii)) (pv_y (particle_of p ii))))"
  "fst (Track_particle_limit_ellipse p ii e) = Particles_update_state_value_if_not_already_lost p ii
     (int_of_bool (inside_ellipse e (pv_x (particle_of p ii)) (pv_y (particle_of p ii))))"
  "fst (Track_particle_limit_rect_ellipse p ii re) = Particles_update_state_value_if_not_already_lost p ii
     (int_of_bool (inside_rect_ellipse re (pv_x (particle_of p ii)) (pv_y (particle_of p ii))))"
proof -
  have sign: "(real_of_int (int_of_bool (0 < x)) - real_of_int (int_of_bool (x < 0))) * x = \<bar>x\<bar>"
    for x :: real by (simp add: int_of_bool_def)
  have conj: "int_of_bool a AND int_of_bool b = int_of_bool (a \<and> b)" for a b
    by (simp add: int_of_bool_def)
  show "fst (Track_particle_limit_global p ii) = Particles_update_state_value_if_not_already_lost p ii
     (int_of_bool (inside_global (pv_x (particle_of p ii)) (pv_y (particle_of p ii))))"
    by (simp add: Track_particle_limit_global_def Let_def inside_global_def sign conj
        Particles_update_state_value_if_not_already_lost_def particle_simps)
  show "fst (Track_particle_limit_rect p ii r) = Particles_update_state_value_if_not_already_lost p ii
     (int_of_bool (inside_rect r (pv_x (particle_of p ii)) (pv_y (particle_of p ii))))"
    by (simp add: Track_particle_limit_rect_def Let_def inside_rect_def particle_simps)
  show "fst (Track_particle_limit_ellipse p ii e) = Particles_update_state_value_if_not_already_lost p ii
     (int_of_bool (inside_ellipse e (pv_x (particle_of p ii)) (pv_y (particle_of p ii))))"
    by (simp add: Track_particle_limit_ellipse_def Let_def inside_ellipse_def power2_eq_square
        particle_simps)
  have "inside_rect_ellipse re x y \<longleftrightarrow>
      x \<le> LimitRectEllipse_max_x re \<and> x \<ge> - LimitRectEllipse_max_x re \<and>
      y \<le> LimitRectEllipse_max_y re \<and> y \<ge> - LimitRectEllipse_max_y re \<and>
      x * x * LimitRectEllipse_b_squ re + y * y * LimitRectEllipse_a_squ re
        \<le> LimitRectEllipse_a_squ_b_squ re" for x y
    by (auto simp: inside_rect_ellipse_def power2_eq_square abs_le_iff)
  then show "fst (Track_particle_limit_rect_ellipse p ii re) =
      Particles_update_state_value_if_not_already_lost p ii
        (int_of_bool (inside_rect_ellipse re (pv_x (particle_of p ii)) (pv_y (particle_of p ii))))"
    by (simp add: Track_particle_limit_rect_ellipse_def Let_def particle_simps)
qed

interpretation limit_global: particle_kernel "\<lambda>p ii. fst (Track_particle_limit_global p ii)"
    "\<lambda>ii. limit_map inside_global"
  by unfold_locales
    (simp_all add: limit_as_update update_state.kernel_wf update_state.kernel_num
      update_state.kernel_view limit_map_def)

interpretation limit_rect: particle_kernel "\<lambda>p ii. fst (Track_particle_limit_rect p ii e)"
    "\<lambda>ii. limit_map (inside_rect e)" for e
  by unfold_locales
    (simp_all add: limit_as_update update_state.kernel_wf update_state.kernel_num
      update_state.kernel_view limit_map_def)

interpretation limit_ellipse: particle_kernel "\<lambda>p ii. fst (Track_particle_limit_ellipse p ii e)"
    "\<lambda>ii. limit_map (inside_ellipse e)" for e
  by unfold_locales
    (simp_all add: limit_as_update update_state.kernel_wf update_state.kernel_num
      update_state.kernel_view limit_map_def)

interpretation limit_rect_ellipse: particle_kernel
    "\<lambda>p ii. fst (Track_particle_limit_rect_ellipse p ii e)"
    "\<lambda>ii. limit_map (inside_rect_ellipse e)" for e
  by unfold_locales
    (simp_all add: limit_as_update update_state.kernel_wf update_state.kernel_num
      update_state.kernel_view limit_map_def)

lemma limit_success [simp]:
  "snd (Track_particle_limit_global p ii) = 0" "snd (Track_particle_limit_rect p ii r) = 0"
  "snd (Track_particle_limit_ellipse p ii e) = 0" "snd (Track_particle_limit_rect_ellipse p ii re) = 0"
  by (simp_all add: Track_particle_limit_global_def Track_particle_limit_rect_def
      Track_particle_limit_ellipse_def Track_particle_limit_rect_ellipse_def Let_def)

text \<open>A particle is alive after a limit when it was alive before and is inside.\<close>

lemma limit_map_alive:
  "pv_state v \<in> {0, 1} \<Longrightarrow>
   pv_state (limit_map inside v) = (if pv_state v = 1 \<and> inside (pv_x v) (pv_y v) then 1 else 0)"
  by (auto simp: limit_map_def int_of_bool_def)

text \<open>An aperture changes nothing but the state of a particle. A tracked particle stays tracked exactly
  when it is inside (strictly inside both bounds for the global check, inside or on the border otherwise);
  a lost particle stays lost.\<close>

theorem limits_only_lose:
  assumes wf: "particles_wf p" and ii: "valid_idx p ii" and st: "pv_state (particle_of p ii) \<in> {0, 1}"
  shows "let v = particle_of p ii;
       kept = (\<lambda>inside q. particle_of q ii =
         v\<lparr>pv_state := if pv_state v = 1 \<and> inside (pv_x v) (pv_y v) then 1 else 0\<rparr>)
    in kept inside_global (fst (Track_particle_limit_global p ii)) \<and>
       kept (inside_rect r) (fst (Track_particle_limit_rect p ii r)) \<and>
       kept (inside_ellipse e) (fst (Track_particle_limit_ellipse p ii e)) \<and>
       kept (inside_rect_ellipse re) (fst (Track_particle_limit_rect_ellipse p ii re))"
proof -
  have "limit_map inside v = v\<lparr>pv_state := if pv_state v = 1 \<and> inside (pv_x v) (pv_y v) then 1 else 0\<rparr>"
    if "pv_state v \<in> {0, 1}" for inside v
    using that by (auto simp: limit_map_def int_of_bool_def)
  then show ?thesis
    using wf ii st valid_idx_def [of p ii]
    by (simp add: Let_def limit_global.kernel_view limit_rect.kernel_view limit_ellipse.kernel_view
        limit_rect_ellipse.kernel_view)
qed

theorem limits_only_lose_witness:
  "pv_state (particle_of (fst (Track_particle_limit_global
     (Particles_set_x_value (reference_particles 2) 1 1) 1)) 1) = 0"
  using limits_only_lose [of "Particles_set_x_value (reference_particles 2) 1 1" 1]
  by (simp add: Let_def particle_simps reference_particle_def inside_global_def
      SIXTRL_APERTURE_X_LIMIT_def)

text \<open>Copying a combined aperture with \<open>NS(LimitRectEllipse_copy)\<close> reports success but does not copy
  the product \<open>a_squ_b_squ\<close> that the aperture test compares with, so that the copy can lose particles
  which the original keeps; copying the other two apertures makes the copy equal to the original.\<close>

theorem limit_copy:
  assumes "LimitEllipse_half_axes_product_squ e =
      LimitEllipse_x_half_axis_squ e * LimitEllipse_y_half_axis_squ e"
    and "0 \<le> LimitEllipse_x_half_axis_squ e" "0 \<le> LimitEllipse_y_half_axis_squ e"
  shows "LimitRect_copy False r' r = (r, 0) \<and> LimitEllipse_copy False e' e = (e, 0) \<and>
    LimitRectEllipse_copy False re' re =
      (re\<lparr>LimitRectEllipse_a_squ_b_squ := LimitRectEllipse_a_squ_b_squ re'\<rparr>, 0)"
  using assms
  by (simp add: LimitRect_copy_def LimitRect_set_min_x_def LimitRect_set_max_x_def
      LimitRect_set_min_y_def LimitRect_set_max_y_def LimitEllipse_copy_def
      LimitEllipse_set_half_axes_squ_def LimitRectEllipse_copy_def LimitRectEllipse_set_max_x_def
      LimitRectEllipse_set_max_y_def LimitRectEllipse_set_a_squ_def LimitRectEllipse_set_b_squ_def
      Let_def)

text \<open>A copy onto an all-zero structure loses a particle at half the aperture.\<close>

theorem limit_copy_witness:
  "let re = fst (LimitRectEllipse_clear
         \<lparr>LimitRectEllipse_max_x = 0, LimitRectEllipse_max_y = 0, LimitRectEllipse_a_squ = 0,
          LimitRectEllipse_b_squ = 0, LimitRectEllipse_a_squ_b_squ = 0\<rparr>);
       copy = fst (LimitRectEllipse_copy False
         \<lparr>LimitRectEllipse_max_x = 0, LimitRectEllipse_max_y = 0, LimitRectEllipse_a_squ = 0,
          LimitRectEllipse_b_squ = 0, LimitRectEllipse_a_squ_b_squ = 0\<rparr> re)
   in inside_rect_ellipse re (1 / 2) 0 \<and> \<not> inside_rect_ellipse copy (1 / 2) 0"
  using limit_copy [of "\<lparr>LimitEllipse_x_half_axis_squ = 1, LimitEllipse_y_half_axis_squ = 1,
      LimitEllipse_half_axes_product_squ = 1\<rparr>" undefined undefined undefined]
  by (simp add: Let_def LimitRectEllipse_clear_def LimitRectEllipse_set_max_x_def
      LimitRectEllipse_set_max_y_def LimitRectEllipse_set_a_def LimitRectEllipse_set_b_def
      LimitRectEllipse_set_a_squ_b_squ_def SIXTRL_APERTURE_X_LIMIT_def SIXTRL_APERTURE_Y_LIMIT_def
      inside_rect_ellipse_def power2_eq_square)

end
