(* ===== verification/Store_Index.thy ===== *)
theory Store_Index
  imports Particle_Ops
begin

section \<open>Stores of particle snapshots\<close>

text \<open>
  Beam monitors and element by element output write snapshots of particles into a particle set whose
  address they keep. An \<open>out_store\<close> gives the particle set at every address; the arrays behind an
  \<open>NS(ParticlesGenericAddr)\<close> are that set. Both components compute the index of a snapshot from a key:
  what makes such an index function usable is the \<open>store_index\<close> interface, indices in range and
  different for different keys, from which no snapshot overwrites another.
\<close>

type_synonym out_store = "u64 \<Rightarrow> particles"

definition store_sizes :: "out_store \<Rightarrow> u64 \<Rightarrow> i64" where
  "store_sizes st addr = num_particles (st addr)"

definition store_wf :: "out_store \<Rightarrow> bool" where
  "store_wf st \<longleftrightarrow> (\<forall>addr. particles_wf (st addr))"

text \<open>Copying particle \<open>idx\<close> of \<open>p\<close> to position \<open>out_idx\<close> of the set at an address.\<close>

definition store_particle ::
    "out_store \<Rightarrow> u64 \<Rightarrow> i64 \<Rightarrow> particles \<Rightarrow> i64 \<Rightarrow> out_store \<times> int" where
  "store_particle st addr out_idx p idx =
     (let (out, success) = Particles_copy_to_generic_addr_data (st addr) out_idx p idx
      in (st(addr := out), success))"

lemma store_particle_sizes [simp]:
  "store_sizes (fst (store_particle st addr out_idx p idx)) = store_sizes st"
  by (rule ext)
    (simp add: store_sizes_def store_particle_def case_prod_beta Let_def copy_to_generic_num)

lemma store_particle_status:
  "valid_idx p idx \<Longrightarrow> snd (store_particle st addr out_idx p idx) =
     (if out_idx < store_sizes st addr then 0 else - 1)"
  by (auto simp: store_particle_def case_prod_beta Let_def copy_to_generic_status store_sizes_def
      valid_idx_def)

lemma store_particle_wf:
  assumes "store_wf st" "0 \<le> out_idx"
  shows "store_wf (fst (store_particle st addr out_idx p idx))"
proof -
  have "particles_wf (fst (Particles_copy_to_generic_addr_data (st addr) out_idx p idx))"
  proof (cases "out_idx < num_particles (st addr) \<and> idx < num_particles p")
    case True
    then show ?thesis using assms copy_to_generic_laws(2) [of "st addr" out_idx idx p]
      by (simp add: store_wf_def valid_idx_def)
  next
    case False
    then show ?thesis
      using assms by (auto simp: Particles_copy_to_generic_addr_data_def store_wf_def)
  qed
  then show ?thesis using assms by (simp add: store_wf_def store_particle_def case_prod_beta Let_def)
qed

lemma store_particle_view:
  assumes "store_wf st" "valid_idx p idx" "valid_idx (st addr) out_idx" "0 \<le> jj"
  shows "particle_of (fst (store_particle st addr out_idx p idx) addr') jj =
    (if addr' = addr \<and> jj = out_idx then particle_of p idx else particle_of (st addr') jj)"
  using assms copy_to_generic_laws(3) [of "st addr" out_idx idx p jj]
  by (auto simp: store_particle_def case_prod_beta Let_def store_wf_def valid_idx_def)

subsection \<open>Index functions\<close>

locale store_index =
  fixes index :: "'k \<Rightarrow> i64" and valid :: "'k \<Rightarrow> bool" and capacity :: i64
  assumes index_nonneg: "valid k \<Longrightarrow> 0 \<le> index k"
    and index_less: "valid k \<Longrightarrow> index k < capacity"
    and index_inj: "valid k \<Longrightarrow> valid k' \<Longrightarrow> index k = index k' \<Longrightarrow> k = k'"
begin

text \<open>Writing snapshots at their indices.\<close>

definition write_all :: "('k \<times> 'v) list \<Rightarrow> (i64 \<Rightarrow> 'v) \<Rightarrow> i64 \<Rightarrow> 'v" where
  "write_all kvs m = fold (\<lambda>(k, v) m. m(index k := v)) kvs m"

lemma write_all_Nil [simp]: "write_all [] m = m"
  by (simp add: write_all_def)

lemma write_all_Cons [simp]: "write_all ((k, v) # kvs) m = write_all kvs (m(index k := v))"
  by (simp add: write_all_def)

lemma write_all_other:
  "i \<notin> index ` fst ` set kvs \<Longrightarrow> write_all kvs m i = m i"
  by (induction kvs arbitrary: m) auto

lemma read_back:
  assumes "distinct (map fst kvs)" "\<forall>k\<in>set (map fst kvs). valid k" "(k, v) \<in> set kvs"
  shows "write_all kvs m (index k) = v"
  using assms
proof (induction kvs arbitrary: m)
  case (Cons kv kvs)
  obtain k' v' where kv: "kv = (k', v')" by (cases kv)
  show ?case
  proof (cases "(k, v) = kv")
    case True
    have "index k \<noteq> index k'" if "k' \<in> fst ` set kvs" for k'
    proof
      assume "index k = index k'"
      moreover have "valid k" "valid k'" using Cons.prems(2) True kv that by auto
      ultimately have "k = k'" by (intro index_inj)
      then show False using Cons.prems(1) True kv that by auto
    qed
    then have "index k \<notin> index ` fst ` set kvs" by blast
    then show ?thesis using True kv by (simp add: write_all_other)
  next
    case False
    then have "(k, v) \<in> set kvs" using Cons.prems(3) by simp
    then show ?thesis using Cons.IH Cons.prems(1,2) kv by simp
  qed
qed simp

lemma untouched_outside: "\<forall>k\<in>set (map fst kvs). valid k \<Longrightarrow> capacity \<le> i \<or> i < 0 \<Longrightarrow> write_all kvs m i = m i"
proof (rule write_all_other)
  assume valid: "\<forall>k\<in>set (map fst kvs). valid k" and i: "capacity \<le> i \<or> i < 0"
  show "i \<notin> index ` fst ` set kvs"
  proof
    assume "i \<in> index ` fst ` set kvs"
    then obtain k where "k \<in> fst ` set kvs" "i = index k" by blast
    then show False using valid i index_nonneg [of k] index_less [of k] by auto
  qed
qed

end

lemma mixed_radix_inj:
  assumes "0 \<le> a" "a < n" "0 \<le> a'" "a' < n" "b * n + a = b' * n + (a' :: int)"
  shows "a = a' \<and> b = b'"
proof -
  have "(b * n + a) mod n = a" "(b' * n + a') mod n = a'" using assms(1-4) by simp_all
  then have "a = a'" unfolding assms(5) by simp
  moreover have "n \<noteq> 0" using assms by simp
  ultimately show ?thesis using assms(5) by simp
qed

lemma mixed_radix_less:
  assumes "a < n" "b < m" "0 \<le> (b :: int)" "0 \<le> a"
  shows "b * n + a < m * n" "0 \<le> b * n + a"
proof -
  have "(b + 1) * n \<le> m * n" using assms by (intro mult_right_mono) simp_all
  then show "b * n + a < m * n" using assms(1) by (simp add: distrib_right)
  show "0 \<le> b * n + a" using assms by simp
qed

end
