(* ===== verification/Beam_Monitor.thy ===== *)
theory Beam_Monitor
  imports Store_Index Elements
begin

section \<open>Beam monitors (be_monitor)\<close>

text \<open>
  A beam monitor records snapshots of passing particles: from turn \<open>start\<close> on, every \<open>skip\<close> turns, up to
  \<open>num_stores\<close> times, or cyclically when it is rolling. \<open>BeamMonitor_get_store_particle_index\<close> is the
  position of a snapshot in the output, or -1 when the turn is not recorded. The assertions of the code
  (\<open>skip > 0\<close>, a particle id within the bounds) are \<open>monitor_wf\<close> and the bounds on ids; under them the
  quotients of C are those of the integers.
\<close>

record BeamMonitor =
  BeamMonitor_num_stores :: i64
  BeamMonitor_start :: i64
  BeamMonitor_skip :: i64
  BeamMonitor_out_address :: u64
  BeamMonitor_max_particle_id :: i64
  BeamMonitor_min_particle_id :: i64
  BeamMonitor_is_rolling_flag :: i64
  BeamMonitor_is_turn_ordered_flag :: i64

definition BeamMonitor_is_rolling :: "BeamMonitor \<Rightarrow> bool" where
  "BeamMonitor_is_rolling monitor \<longleftrightarrow> BeamMonitor_is_rolling_flag monitor = 1"

definition BeamMonitor_is_turn_ordered :: "BeamMonitor \<Rightarrow> bool" where
  "BeamMonitor_is_turn_ordered monitor \<longleftrightarrow> BeamMonitor_is_turn_ordered_flag monitor = 1"

definition BeamMonitor_is_particle_ordered :: "BeamMonitor \<Rightarrow> bool" where
  "BeamMonitor_is_particle_ordered monitor \<longleftrightarrow> \<not> BeamMonitor_is_turn_ordered monitor"

definition BeamMonitor_set_num_stores :: "BeamMonitor \<Rightarrow> i64 \<Rightarrow> BeamMonitor \<times> arch_status" where
  "BeamMonitor_set_num_stores monitor num_stores = (monitor\<lparr>BeamMonitor_num_stores := num_stores\<rparr>, 0)"

definition BeamMonitor_set_start :: "BeamMonitor \<Rightarrow> i64 \<Rightarrow> BeamMonitor \<times> arch_status" where
  "BeamMonitor_set_start monitor start = (monitor\<lparr>BeamMonitor_start := start\<rparr>, 0)"

definition BeamMonitor_set_skip :: "BeamMonitor \<Rightarrow> i64 \<Rightarrow> BeamMonitor \<times> arch_status" where
  "BeamMonitor_set_skip monitor skip = (monitor\<lparr>BeamMonitor_skip := skip\<rparr>, 0)"

definition BeamMonitor_set_is_rolling :: "BeamMonitor \<Rightarrow> bool \<Rightarrow> BeamMonitor \<times> arch_status" where
  "BeamMonitor_set_is_rolling monitor is_rolling =
     (monitor\<lparr>BeamMonitor_is_rolling_flag := if is_rolling then 1 else 0\<rparr>, 0)"

definition BeamMonitor_set_is_turn_ordered :: "BeamMonitor \<Rightarrow> bool \<Rightarrow> BeamMonitor \<times> arch_status" where
  "BeamMonitor_set_is_turn_ordered monitor is_turn_ordered =
     (monitor\<lparr>BeamMonitor_is_turn_ordered_flag := if is_turn_ordered then 1 else 0\<rparr>, 0)"

definition BeamMonitor_set_is_particle_ordered ::
    "BeamMonitor \<Rightarrow> bool \<Rightarrow> BeamMonitor \<times> arch_status" where
  "BeamMonitor_set_is_particle_ordered monitor is_particle_ordered =
     (monitor\<lparr>BeamMonitor_is_turn_ordered_flag := if is_particle_ordered then 0 else 1\<rparr>, 0)"

definition BeamMonitor_set_out_address :: "BeamMonitor \<Rightarrow> u64 \<Rightarrow> BeamMonitor \<times> arch_status" where
  "BeamMonitor_set_out_address monitor out_address =
     (monitor\<lparr>BeamMonitor_out_address := out_address\<rparr>, 0)"

definition BeamMonitor_set_min_particle_id :: "BeamMonitor \<Rightarrow> i64 \<Rightarrow> BeamMonitor \<times> arch_status" where
  "BeamMonitor_set_min_particle_id monitor min_particle_id =
     (monitor\<lparr>BeamMonitor_min_particle_id := min_particle_id\<rparr>, 0)"

definition BeamMonitor_set_max_particle_id :: "BeamMonitor \<Rightarrow> i64 \<Rightarrow> BeamMonitor \<times> arch_status" where
  "BeamMonitor_set_max_particle_id monitor max_particle_id =
     (monitor\<lparr>BeamMonitor_max_particle_id := max_particle_id\<rparr>, 0)"

definition BeamMonitor_clear :: "BeamMonitor \<Rightarrow> BeamMonitor \<times> arch_status" where
  "BeamMonitor_clear monitor =
     (let (monitor, status) = BeamMonitor_set_num_stores monitor 0;
          (monitor, s1) = BeamMonitor_set_start monitor 0;
          (monitor, s2) = BeamMonitor_set_skip monitor 1;
          (monitor, s3) = BeamMonitor_set_is_rolling monitor False;
          (monitor, s4) = BeamMonitor_set_is_turn_ordered monitor True;
          (monitor, s5) = BeamMonitor_set_out_address monitor 0;
          (monitor, s6) = BeamMonitor_set_min_particle_id monitor (- 1);
          (monitor, s7) = BeamMonitor_set_max_particle_id monitor (- 1)
      in (monitor, status OR s1 OR s2 OR s3 OR s4 OR s5 OR s6 OR s7))"

definition BeamMonitor_reset :: "BeamMonitor \<Rightarrow> BeamMonitor \<times> arch_status" where
  "BeamMonitor_reset monitor =
     (let (monitor, status) = BeamMonitor_set_out_address monitor 0;
          (monitor, s1) = BeamMonitor_set_min_particle_id monitor (- 1);
          (monitor, s2) = BeamMonitor_set_max_particle_id monitor (- 1)
      in (monitor, status OR s1 OR s2))"

definition BeamMonitor_copy :: "bool \<Rightarrow> BeamMonitor \<Rightarrow> BeamMonitor \<Rightarrow> BeamMonitor \<times> arch_status" where
  "BeamMonitor_copy same dst src =
     (if \<not> same then
        let (dst, status) = BeamMonitor_set_num_stores dst (BeamMonitor_num_stores src);
            (dst, s1) = BeamMonitor_set_start dst (BeamMonitor_start src);
            (dst, s2) = BeamMonitor_set_skip dst (BeamMonitor_skip src);
            (dst, s3) = BeamMonitor_set_out_address dst (BeamMonitor_out_address src);
            (dst, s4) = BeamMonitor_set_max_particle_id dst (BeamMonitor_max_particle_id src);
            (dst, s5) = BeamMonitor_set_min_particle_id dst (BeamMonitor_min_particle_id src);
            (dst, s6) = BeamMonitor_set_is_rolling dst (BeamMonitor_is_rolling src);
            (dst, s7) = BeamMonitor_set_is_turn_ordered dst (BeamMonitor_is_turn_ordered src)
        in (dst, status OR s1 OR s2 OR s3 OR s4 OR s5 OR s6 OR s7)
      else (dst, 0))"

definition BeamMonitor_stored_num_particles :: "BeamMonitor \<Rightarrow> u64" where
  "BeamMonitor_stored_num_particles monitor =
     (let min_particle_id = BeamMonitor_min_particle_id monitor;
          max_particle_id = BeamMonitor_max_particle_id monitor
      in if min_particle_id \<ge> 0 \<and> max_particle_id \<ge> min_particle_id then
           (u64_of (max_particle_id - min_particle_id) + 1) * u64_of (BeamMonitor_num_stores monitor)
         else 0)"

definition BeamMonitor_has_turn_stored :: "BeamMonitor \<Rightarrow> i64 \<Rightarrow> i64 \<Rightarrow> bool" where
  "BeamMonitor_has_turn_stored monitor turn_id max_num_turns =
     (let num_stores = BeamMonitor_num_stores monitor;
          start_turn = BeamMonitor_start monitor;
          skip_turns = BeamMonitor_skip monitor
      in if start_turn \<ge> 0 \<and> start_turn \<le> turn_id \<and> num_stores > 0 \<and> skip_turns > 0 \<and>
            (max_num_turns \<ge> turn_id \<or> max_num_turns < 0) \<and> turn_id \<ge> start_turn then
           let turns_since_start = turn_id - start_turn
           in if turns_since_start mod skip_turns = 0 then
                let store_idx = turns_since_start div skip_turns
                in if \<not> BeamMonitor_is_rolling monitor then store_idx < num_stores
                   else if max_num_turns > start_turn then
                     let max_turn = max_num_turns - start_turn;
                         max_num_stores = max_turn div skip_turns;
                         max_num_stores =
                           (if max_turn mod skip_turns \<noteq> 0 then max_num_stores + 1
                            else max_num_stores)
                     in max_num_stores \<le> store_idx + num_stores
                   else False
              else False
         else False)"

definition BeamMonitor_get_store_particle_index :: "BeamMonitor \<Rightarrow> i64 \<Rightarrow> i64 \<Rightarrow> i64" where
  "BeamMonitor_get_store_particle_index monitor at_turn_number in_particle_id =
     (let monitor_start = BeamMonitor_start monitor;
          num_stores = BeamMonitor_num_stores monitor;
          skip = BeamMonitor_skip monitor;
          turns_since_start = at_turn_number - monitor_start
      in if turns_since_start \<ge> 0 \<and> turns_since_start mod skip = 0 then
           let store_idx = turns_since_start div skip;
               store_idx = (if store_idx \<ge> num_stores \<and> BeamMonitor_is_rolling monitor
                            then store_idx mod num_stores else store_idx)
           in if store_idx < num_stores then
                let particle_id_offset = in_particle_id - BeamMonitor_min_particle_id monitor;
                    num_particles_to_store = BeamMonitor_max_particle_id monitor -
                      BeamMonitor_min_particle_id monitor + 1
                in if BeamMonitor_is_turn_ordered monitor then
                     num_particles_to_store * store_idx + particle_id_offset
                   else particle_id_offset * num_particles_to_store + store_idx
              else - 1
         else - 1)"

definition Track_particle_beam_monitor ::
    "particles \<Rightarrow> out_store \<Rightarrow> i64 \<Rightarrow> BeamMonitor \<Rightarrow> (particles \<times> out_store) \<times> track_status" where
  "Track_particle_beam_monitor p st idx monitor =
     (let turn = Particles_get_at_turn_value p idx
      in if BeamMonitor_out_address monitor \<noteq> 0 then
           let particle_id = Particles_get_particle_id_value p idx;
               out_particle_id = BeamMonitor_get_store_particle_index monitor turn particle_id
           in if out_particle_id \<ge> 0 then
                let (st, success) =
                      store_particle st (BeamMonitor_out_address monitor) out_particle_id p idx
                in if success \<noteq> 0 then ((Particles_set_state_value p idx 0, st), success)
                   else ((p, st), success)
              else ((p, st), 0)
         else ((p, st), 0))"

subsection \<open>Which turns are recorded, and where\<close>

definition monitor_wf :: "BeamMonitor \<Rightarrow> bool" where
  "monitor_wf m \<longleftrightarrow> 0 \<le> BeamMonitor_start m \<and> 0 < BeamMonitor_skip m \<and> 0 < BeamMonitor_num_stores m \<and>
     0 \<le> BeamMonitor_min_particle_id m \<and>
     BeamMonitor_min_particle_id m \<le> BeamMonitor_max_particle_id m"

definition monitored_id :: "BeamMonitor \<Rightarrow> i64 \<Rightarrow> bool" where
  "monitored_id m pid \<longleftrightarrow> BeamMonitor_min_particle_id m \<le> pid \<and> pid \<le> BeamMonitor_max_particle_id m"

definition monitor_width :: "BeamMonitor \<Rightarrow> i64" where
  "monitor_width m = BeamMonitor_max_particle_id m - BeamMonitor_min_particle_id m + 1"

text \<open>The \<open>k\<close>-th recorded turn.\<close>

definition recorded_turn :: "BeamMonitor \<Rightarrow> i64 \<Rightarrow> i64" where
  "recorded_turn m k = BeamMonitor_start m + BeamMonitor_skip m * k"

lemma recorded_turn_cases:
  assumes "monitor_wf m" "BeamMonitor_start m \<le> t" "(t - BeamMonitor_start m) mod BeamMonitor_skip m = 0"
  obtains k where "0 \<le> k" "t = recorded_turn m k"
proof
  have "t - BeamMonitor_start m = BeamMonitor_skip m * ((t - BeamMonitor_start m) div BeamMonitor_skip m)"
    using assms(3) mult_div_mod_eq [of "BeamMonitor_skip m" "t - BeamMonitor_start m"] by simp
  then show "t = recorded_turn m ((t - BeamMonitor_start m) div BeamMonitor_skip m)"
    by (simp add: recorded_turn_def)
  show "0 \<le> (t - BeamMonitor_start m) div BeamMonitor_skip m"
    using assms by (simp add: monitor_wf_def pos_imp_zdiv_nonneg_iff)
qed

lemma recorded_turn_simps:
  assumes "monitor_wf m" "0 \<le> k"
  shows "recorded_turn m k - BeamMonitor_start m = BeamMonitor_skip m * k"
    "BeamMonitor_skip m * k mod BeamMonitor_skip m = 0" "BeamMonitor_skip m * k div BeamMonitor_skip m = k"
    "0 \<le> BeamMonitor_skip m * k" "BeamMonitor_start m \<le> recorded_turn m k"
  using assms by (simp_all add: recorded_turn_def monitor_wf_def)

lemma index_of_recorded_turn:
  assumes "monitor_wf m" "0 \<le> k" "BeamMonitor_is_turn_ordered m"
    and "k < BeamMonitor_num_stores m \<or> BeamMonitor_is_rolling m"
  shows "BeamMonitor_get_store_particle_index m (recorded_turn m k) pid =
    (k mod BeamMonitor_num_stores m) * monitor_width m + (pid - BeamMonitor_min_particle_id m)"
proof -
  have "k mod BeamMonitor_num_stores m < BeamMonitor_num_stores m"
    using assms(1) by (simp add: monitor_wf_def)
  moreover have "k < BeamMonitor_num_stores m \<Longrightarrow> k mod BeamMonitor_num_stores m = k"
    using assms(2) by simp
  ultimately show ?thesis
    using assms(3,4)
    by (auto simp: BeamMonitor_get_store_particle_index_def recorded_turn_simps [OF assms(1,2)]
        monitor_width_def Let_def)
qed

text \<open>The keys of a monitor that is filled once: (number of the recorded turn, particle id).\<close>

definition monitor_key_valid :: "BeamMonitor \<Rightarrow> i64 \<times> i64 \<Rightarrow> bool" where
  "monitor_key_valid m k \<longleftrightarrow> monitor_wf m \<and> BeamMonitor_is_turn_ordered m \<and>
     0 \<le> fst k \<and> fst k < BeamMonitor_num_stores m \<and> monitored_id m (snd k)"

interpretation monitor_store: store_index
    "\<lambda>k. BeamMonitor_get_store_particle_index m (recorded_turn m (fst k)) (snd k)"
    "monitor_key_valid m" "BeamMonitor_num_stores m * monitor_width m" for m
proof
  fix k k' assume k: "monitor_key_valid m k"
  have i: "BeamMonitor_get_store_particle_index m (recorded_turn m (fst k)) (snd k) =
      fst k * monitor_width m + (snd k - BeamMonitor_min_particle_id m)"
    if "monitor_key_valid m k" for k
    using that index_of_recorded_turn [of m "fst k" "snd k"] by (simp add: monitor_key_valid_def)
  have b: "0 \<le> snd k - BeamMonitor_min_particle_id m \<and>
      snd k - BeamMonitor_min_particle_id m < monitor_width m"
    if "monitor_key_valid m k" for k
    using that by (simp add: monitor_key_valid_def monitored_id_def monitor_width_def)
  have "0 \<le> fst k" "fst k < BeamMonitor_num_stores m" using k by (simp_all add: monitor_key_valid_def)
  then show "0 \<le> BeamMonitor_get_store_particle_index m (recorded_turn m (fst k)) (snd k)"
    "BeamMonitor_get_store_particle_index m (recorded_turn m (fst k)) (snd k)
      < BeamMonitor_num_stores m * monitor_width m"
    unfolding i [OF k] using b [OF k]
    by (simp_all only: mixed_radix_less)
  assume k': "monitor_key_valid m k'"
    and "BeamMonitor_get_store_particle_index m (recorded_turn m (fst k)) (snd k) =
      BeamMonitor_get_store_particle_index m (recorded_turn m (fst k')) (snd k')"
  then have "fst k * monitor_width m + (snd k - BeamMonitor_min_particle_id m) =
      fst k' * monitor_width m + (snd k' - BeamMonitor_min_particle_id m)"
    by (simp add: i [OF k] i [OF k'])
  then have "snd k - BeamMonitor_min_particle_id m = snd k' - BeamMonitor_min_particle_id m \<and>
      fst k = fst k'"
    using b [OF k] b [OF k'] by (intro mixed_radix_inj) simp_all
  then show "k = k'" by (simp add: prod_eq_iff)
qed

text \<open>C35: A turn-ordered monitor that is filled at most once stores every snapshot inside an output of
  \<open>num_stores\<close> times the number of monitored ids, and never two snapshots at the same index: writing
  any sequence of snapshots of distinct turns and particles and reading an index returns the snapshot
  written there.\<close>

theorem monitor_no_overwrite:
  assumes keys: "\<forall>k\<in>set (map fst snapshots). monitor_key_valid m k" "distinct (map fst snapshots)"
    and key: "((k, pid), v) \<in> set snapshots"
  shows "0 \<le> BeamMonitor_get_store_particle_index m (recorded_turn m k) pid \<and>
    BeamMonitor_get_store_particle_index m (recorded_turn m k) pid
      < BeamMonitor_num_stores m * monitor_width m \<and>
    fold (\<lambda>(k, v) out. out(BeamMonitor_get_store_particle_index m (recorded_turn m (fst k)) (snd k) := v))
      snapshots out (BeamMonitor_get_store_particle_index m (recorded_turn m k) pid) = v"
proof -
  have "monitor_key_valid m (k, pid)" using keys(1) key by force
  then show ?thesis
    using monitor_store.index_nonneg [of m "(k, pid)"] monitor_store.index_less [of m "(k, pid)"]
      monitor_store.read_back [OF keys(2,1) key]
    by (simp add: monitor_store.write_all_def)
qed

definition sample_monitor :: BeamMonitor where
  "sample_monitor = \<lparr>BeamMonitor_num_stores = 3, BeamMonitor_start = 5, BeamMonitor_skip = 2,
     BeamMonitor_out_address = 4096, BeamMonitor_max_particle_id = 1, BeamMonitor_min_particle_id = 0,
     BeamMonitor_is_rolling_flag = 0, BeamMonitor_is_turn_ordered_flag = 1\<rparr>"

theorem monitor_no_overwrite_witness:
  "fold (\<lambda>(k, v) out. out(BeamMonitor_get_store_particle_index sample_monitor
       (recorded_turn sample_monitor (fst k)) (snd k) := v))
     [((0, 0), CHR ''a''), ((0, 1), CHR ''b''), ((1, 0), CHR ''c'')] (\<lambda>_. CHR ''x'')
     (BeamMonitor_get_store_particle_index sample_monitor (recorded_turn sample_monitor 0) 1) = CHR ''b''"
  using monitor_no_overwrite
    [of "[((0, 0), CHR ''a''), ((0, 1), CHR ''b''), ((1, 0), CHR ''c'')]" sample_monitor 0 1 "CHR ''b''"
      "\<lambda>_. CHR ''x''"]
  by (simp add: monitor_key_valid_def monitor_wf_def monitored_id_def sample_monitor_def
      BeamMonitor_is_turn_ordered_def)

text \<open>The index in particle order.\<close>

lemma particle_ordered_index:
  assumes "monitor_wf m" "\<not> BeamMonitor_is_turn_ordered m" "0 \<le> k" "k < BeamMonitor_num_stores m"
  shows "BeamMonitor_get_store_particle_index m (recorded_turn m k) pid =
    (pid - BeamMonitor_min_particle_id m) * monitor_width m + k"
  using assms(2-4)
  by (simp add: BeamMonitor_get_store_particle_index_def recorded_turn_simps [OF assms(1,3)] monitor_width_def Let_def)

text \<open>C37: In particle order the index function strides by the number of monitored particles instead of the number of
  stores. The snapshots of the monitored particles at the recorded turns get pairwise different indices exactly if
  there are no more stores than monitored ids, or only one id. Otherwise snapshots collide: the snapshot of a monitored
  particle at the \<open>n\<close>-th recorded turn, \<open>n\<close> being the number of monitored ids, has the index of the first snapshot of the
  next one.\<close>

theorem particle_order_collides:
  assumes "monitor_wf m" "\<not> BeamMonitor_is_turn_ordered m"
  shows "(inj_on (\<lambda>(k, pid). BeamMonitor_get_store_particle_index m (recorded_turn m k) pid)
      ({0..<BeamMonitor_num_stores m} \<times> {pid. monitored_id m pid}) \<longleftrightarrow>
      BeamMonitor_num_stores m \<le> monitor_width m \<or> monitor_width m = 1) \<and>
    (monitor_width m < BeamMonitor_num_stores m \<longrightarrow> monitored_id m pid \<longrightarrow> monitored_id m (pid + 1) \<longrightarrow>
      BeamMonitor_get_store_particle_index m (recorded_turn m (monitor_width m)) pid =
      BeamMonitor_get_store_particle_index m (recorded_turn m 0) (pid + 1))"
proof -
  define lo w n where "lo = BeamMonitor_min_particle_id m" and "w = monitor_width m" and "n = BeamMonitor_num_stores m"
  define index where "index = (\<lambda>(k, pid). BeamMonitor_get_store_particle_index m (recorded_turn m k) pid)"
  have pos: "0 < w" "0 < n" using assms(1) by (simp_all add: monitor_wf_def monitor_width_def w_def n_def)
  have id: "monitored_id m pid \<longleftrightarrow> 0 \<le> pid - lo \<and> pid - lo < w" for pid
    by (auto simp: monitored_id_def monitor_width_def lo_def w_def)
  have index: "index (k, pid) = (pid - lo) * w + k" if "0 \<le> k" "k < n" for k pid
    using particle_ordered_index [OF assms that [unfolded n_def]] by (simp add: index_def lo_def w_def)
  have collide: "index (w, pid) = index (0, pid + 1)" if "w < n" for pid
    using index [of w pid] index [of 0 "pid + 1"] that pos by (simp add: algebra_simps)
  have "inj_on index ({0..<n} \<times> {pid. monitored_id m pid}) \<longleftrightarrow> n \<le> w \<or> w = 1"
  proof
    assume inj: "inj_on index ({0..<n} \<times> {pid. monitored_id m pid})"
    show "n \<le> w \<or> w = 1"
    proof (rule ccontr)
      assume "\<not> (n \<le> w \<or> w = 1)"
      then have "w < n" "monitored_id m lo" "monitored_id m (lo + 1)" using pos by (simp_all add: id)
      then have "(w, lo) = (0, lo + 1)" using inj collide [of lo] pos by (intro inj_onD [OF inj]) simp_all
      then show False by simp
    qed
  next
    assume few: "n \<le> w \<or> w = 1"
    show "inj_on index ({0..<n} \<times> {pid. monitored_id m pid})"
    proof (rule inj_onI, clarify)
      fix k pid k' pid' assume k: "k \<in> {0..<n}" "k' \<in> {0..<n}" and p: "monitored_id m pid" "monitored_id m pid'"
        and eq: "index (k, pid) = index (k', pid')"
      have "k = k' \<and> pid - lo = pid' - lo"
      proof (cases "n \<le> w")
        case True
        then show ?thesis using eq k by (intro mixed_radix_inj [where n = w]) (simp_all add: index)
      next
        case False
        then show ?thesis using few p eq k by (simp add: id index)
      qed
      then show "k = k' \<and> pid = pid'" by simp
    qed
  qed
  then show ?thesis using collide [of pid] by (simp add: index_def w_def n_def)
qed

text \<open>Two particles and three stores: the third snapshot of the first particle is overwritten. Two stores are enough room.\<close>

theorem particle_order_collides_witness:
  "let m = fst (BeamMonitor_set_is_particle_ordered sample_monitor True)
   in monitored_id m 0 \<and> monitored_id m 1 \<and>
     BeamMonitor_get_store_particle_index m 9 0 = BeamMonitor_get_store_particle_index m 5 1 \<and>
     inj_on (\<lambda>(k, pid). BeamMonitor_get_store_particle_index (m\<lparr>BeamMonitor_num_stores := 2\<rparr>)
       (recorded_turn (m\<lparr>BeamMonitor_num_stores := 2\<rparr>) k) pid)
       ({0..<2} \<times> {pid. monitored_id (m\<lparr>BeamMonitor_num_stores := 2\<rparr>) pid})"
  using particle_order_collides [of "fst (BeamMonitor_set_is_particle_ordered sample_monitor True)" 0]
    particle_order_collides [of "fst (BeamMonitor_set_is_particle_ordered sample_monitor True)\<lparr>BeamMonitor_num_stores := 2\<rparr>"]
  by (simp add: monitor_wf_def sample_monitor_def BeamMonitor_set_is_particle_ordered_def
      BeamMonitor_is_turn_ordered_def monitor_width_def recorded_turn_def monitored_id_def)

text \<open>The number of recorded turns before turn \<open>n\<close>.\<close>

definition num_recorded :: "BeamMonitor \<Rightarrow> i64 \<Rightarrow> i64" where
  "num_recorded m n =
     (let q = (n - BeamMonitor_start m) div BeamMonitor_skip m
      in if (n - BeamMonitor_start m) mod BeamMonitor_skip m \<noteq> 0 then q + 1 else q)"

lemma num_recorded_less:
  assumes "monitor_wf m"
  shows "k < num_recorded m n \<longleftrightarrow> recorded_turn m k < n"
proof -
  define s d where "s = BeamMonitor_skip m" and "d = n - BeamMonitor_start m"
  have s: "0 < s" using assms by (simp add: monitor_wf_def s_def)
  have "k < (if d mod s \<noteq> 0 then d div s + 1 else d div s) \<longleftrightarrow> s * k < d"
  proof (cases "d mod s = 0")
    case True
    then have d: "d = s * (d div s)" using mult_div_mod_eq [of s d] by simp
    have "s * k < s * (d div s) \<longleftrightarrow> k < d div s" using s by simp
    then show ?thesis using True d by simp
  next
    case False
    define q r where "q = d div s" and "r = d mod s"
    have eq: "d = s * q + r" by (simp add: q_def r_def)
    have r: "0 < r" "r < s"
      using False s by (simp_all add: r_def order.not_eq_order_implies_strict)
    have "s * k < d" if "k \<le> q"
    proof -
      have "s * k \<le> s * q" using s that by simp
      then show ?thesis using eq r by linarith
    qed
    moreover have "\<not> s * k < d" if "\<not> k \<le> q"
    proof -
      have "s * (q + 1) \<le> s * k" using s that by (intro mult_left_mono) simp_all
      then show ?thesis using eq r by (simp add: distrib_left)
    qed
    ultimately have "k < d div s + 1 \<longleftrightarrow> s * k < d" unfolding q_def by auto
    then show ?thesis using False by simp
  qed
  then show ?thesis by (auto simp: num_recorded_def recorded_turn_def s_def d_def Let_def)
qed

text \<open>C36: For a rolling turn-ordered monitor and a recorded turn that the tracking has passed,
  \<open>NS(BeamMonitor_has_turn_stored)\<close> tells whether the snapshots of that turn are still there: it is true
  exactly when no later recorded turn before the end of tracking was written to the same index.\<close>

theorem has_turn_stored_iff_not_overwritten:
  assumes wf: "monitor_wf m" and ord: "BeamMonitor_is_turn_ordered m" "BeamMonitor_is_rolling m"
    and k: "0 \<le> k" "recorded_turn m k < max_num_turns"
  shows "BeamMonitor_has_turn_stored m (recorded_turn m k) max_num_turns \<longleftrightarrow>
    (\<forall>k'>k. recorded_turn m k' < max_num_turns \<longrightarrow>
       BeamMonitor_get_store_particle_index m (recorded_turn m k') pid \<noteq>
       BeamMonitor_get_store_particle_index m (recorded_turn m k) pid)"
proof -
  define n where "n = BeamMonitor_num_stores m"
  have n: "0 < n" using wf by (simp add: monitor_wf_def n_def)
  have w: "monitor_width m \<noteq> 0" using wf by (simp add: monitor_wf_def monitor_width_def)
  have start: "BeamMonitor_start m \<le> recorded_turn m k" "0 \<le> BeamMonitor_start m"
    using recorded_turn_simps [OF wf k(1)] wf by (simp_all add: monitor_wf_def)
  have lt: "BeamMonitor_start m < max_num_turns" using start(1) k(2) by linarith
  have "BeamMonitor_has_turn_stored m (recorded_turn m k) max_num_turns \<longleftrightarrow>
      num_recorded m max_num_turns \<le> k + n"
    using wf ord k start
    by (simp add: BeamMonitor_has_turn_stored_def recorded_turn_simps [OF wf k(1)] num_recorded_def
        lt Let_def monitor_wf_def n_def)
  also have "\<dots> \<longleftrightarrow> \<not> recorded_turn m (k + n) < max_num_turns"
    using num_recorded_less [OF wf, of "k + n" max_num_turns] by auto
  also have "\<dots> \<longleftrightarrow> (\<forall>k'>k. recorded_turn m k' < max_num_turns \<longrightarrow> k' mod n \<noteq> k mod n)"
  proof
    assume stored: "\<not> recorded_turn m (k + n) < max_num_turns"
    show "\<forall>k'>k. recorded_turn m k' < max_num_turns \<longrightarrow> k' mod n \<noteq> k mod n"
    proof (intro allI impI notI)
      fix k' assume k': "k < k'" "recorded_turn m k' < max_num_turns" "k' mod n = k mod n"
      have "n dvd k' - k" using k'(3) by (simp add: mod_eq_dvd_iff)
      then have "n \<le> k' - k" using k'(1) by (intro zdvd_imp_le) simp_all
      then have "BeamMonitor_skip m * (k + n) \<le> BeamMonitor_skip m * k'"
        using wf by (intro mult_left_mono) (simp_all add: monitor_wf_def)
      then show False using stored k'(2) by (simp add: recorded_turn_def)
    qed
  next
    assume "\<forall>k'>k. recorded_turn m k' < max_num_turns \<longrightarrow> k' mod n \<noteq> k mod n"
    then have "recorded_turn m (k + n) < max_num_turns \<longrightarrow> (k + n) mod n \<noteq> k mod n"
      using n by (metis less_add_same_cancel1)
    then show "\<not> recorded_turn m (k + n) < max_num_turns" by simp
  qed
  also have "\<dots> \<longleftrightarrow> (\<forall>k'>k. recorded_turn m k' < max_num_turns \<longrightarrow>
       BeamMonitor_get_store_particle_index m (recorded_turn m k') pid \<noteq>
       BeamMonitor_get_store_particle_index m (recorded_turn m k) pid)"
    using index_of_recorded_turn [OF wf _ ord(1), of _ pid] ord(2) k(1) w
    by (simp add: n_def)
  finally show ?thesis .
qed

theorem has_turn_stored_iff_not_overwritten_witness:
  "let m = fst (BeamMonitor_set_is_rolling sample_monitor True)
   in \<not> BeamMonitor_has_turn_stored m 5 12 \<and>
      BeamMonitor_get_store_particle_index m 11 0 = BeamMonitor_get_store_particle_index m 5 0"
  using has_turn_stored_iff_not_overwritten
    [of "fst (BeamMonitor_set_is_rolling sample_monitor True)" 0 12 0]
  by (auto simp: monitor_wf_def sample_monitor_def BeamMonitor_set_is_rolling_def
      BeamMonitor_is_turn_ordered_def BeamMonitor_is_rolling_def recorded_turn_def
      BeamMonitor_has_turn_stored_def BeamMonitor_get_store_particle_index_def)

subsection \<open>Tracking through a monitor\<close>

definition monitor_map :: "(u64 \<Rightarrow> i64) \<Rightarrow> BeamMonitor \<Rightarrow> particle \<Rightarrow> particle \<times> track_status" where
  "monitor_map sizes m v =
     (let i = BeamMonitor_get_store_particle_index m (pv_at_turn v) (pv_particle_id v)
      in if BeamMonitor_out_address m \<noteq> 0 \<and> 0 \<le> i \<and> sizes (BeamMonitor_out_address m) \<le> i
         then (v\<lparr>pv_state := 0\<rparr>, - 1) else (v, 0))"

lemma monitor_laws:
  assumes p: "particles_wf p" "valid_idx p ii" and st: "store_wf st"
  shows "snd (Track_particle_beam_monitor p st ii m) = snd (monitor_map (store_sizes st) m (particle_of p ii))"
    and "particles_wf (fst (fst (Track_particle_beam_monitor p st ii m)))"
    and "num_particles (fst (fst (Track_particle_beam_monitor p st ii m))) = num_particles p"
    and "store_wf (snd (fst (Track_particle_beam_monitor p st ii m)))"
    and "store_sizes (snd (fst (Track_particle_beam_monitor p st ii m))) = store_sizes st"
    and "0 \<le> jj \<Longrightarrow> particle_of (fst (fst (Track_particle_beam_monitor p st ii m))) jj =
      (if jj = ii then fst (monitor_map (store_sizes st) m (particle_of p ii)) else particle_of p jj)"
  using p st
  by (auto simp: Track_particle_beam_monitor_def monitor_map_def Let_def case_prod_beta
      store_particle_status store_particle_wf particle_simps)

end
