(* ===== verification/Gauss_Fields.thy ===== *)
theory Gauss_Fields
  imports Elements
begin

section \<open>Fields of Gaussian beams (be_beamfields/faddeeva_cern.h, gauss_fields.h, internal/math_qgauss.h)\<close>

text \<open>
  The transverse electric field of a Gaussian charge distribution, which beam-beam and space charge
  elements turn into momentum kicks: the complex error function \<open>cerrf\<close> with its two recurrences, the
  round and the elliptic field, the choice between them, and the q-Gaussian line density. Where the code
  divides by zero to signal a case it does not handle, the model has the value of the real division,
  \<open>1 / 0\<close>; no property speaks about that case.
\<close>

definition SIXTRL_EPSILON_0 :: real where
  "SIXTRL_EPSILON_0 = 8.854187817620 / 10 ^ 12"

definition SIXTRL_SQRT_PI :: real where
  "SIXTRL_SQRT_PI = 1.7724538509055160272981674833411451827975494561224"

definition SIXTRL_QELEM :: real where
  "SIXTRL_QELEM = 1.60217662 / 10 ^ 19"

definition PhysConst_charge0_si :: real where
  "PhysConst_charge0_si = 1.602176634 / 10 ^ 19"

definition MathConst_sqrt_pi :: real where
  "MathConst_sqrt_pi = 1.77245385090551602729816748334114518279754945612238712821381"

subsection \<open>The complex error function\<close>

text \<open>
  The loops of \<open>cerrf\<close>. The first runs \<open>n\<close> from \<open>nu\<close> down to 1 and fills the arrays \<open>Rx\<close> and \<open>Ry\<close> of 33
  entries, the second sums over them for \<open>n\<close> from \<open>nc\<close> down to 1, the third is the continued fraction
  that replaces both outside the box \<open>xLim\<close>, \<open>yLim\<close>.
\<close>

primrec cerrf_fill :: "real \<Rightarrow> real \<Rightarrow> nat \<Rightarrow> real list \<times> real list \<Rightarrow> real list \<times> real list" where
  "cerrf_fill xh yh 0 R = R"
| "cerrf_fill xh yh (Suc n) R =
     (let (Rx, Ry) = R;
          Tx = xh + real (Suc n) * Rx ! Suc n;
          Ty = yh - real (Suc n) * Ry ! Suc n;
          Tn = Tx * Tx + Ty * Ty
      in cerrf_fill xh yh n (Rx[n := 0.5 * Tx / Tn], Ry[n := 0.5 * Ty / Tn]))"

primrec cerrf_sum :: "real \<Rightarrow> real list \<times> real list \<Rightarrow> nat \<Rightarrow> real \<times> real \<times> real \<Rightarrow> real \<times> real" where
  "cerrf_sum h R 0 S = (fst S, fst (snd S))"
| "cerrf_sum h R (Suc n) S =
     (let (Rx, Ry) = R;
          (Sx, Sy, xl) = S;
          Saux = Sx + xl
      in cerrf_sum h R n (Rx ! n * Saux - Ry ! n * Sy, Rx ! n * Sy + Ry ! n * Saux, h * xl))"

primrec cerrf_fraction :: "real \<Rightarrow> real \<Rightarrow> nat \<Rightarrow> real \<times> real \<Rightarrow> real \<times> real" where
  "cerrf_fraction xh yh 0 R = R"
| "cerrf_fraction xh yh (Suc n) R =
     (let (Rx, Ry) = R;
          Tx = xh + real (Suc n) * Rx;
          Ty = yh - real (Suc n) * Ry;
          Tn = Tx * Tx + Ty * Ty
      in cerrf_fraction xh yh n (0.5 * Tx / Tn, 0.5 * Ty / Tn))"

definition cerrf_q :: "real \<Rightarrow> real \<Rightarrow> real" where
  "cerrf_q x y = (1 - y / 4.29) * sqrt (1 - (x / 5.33) * (x / 5.33))"

definition cerrf_nc :: "real \<Rightarrow> real \<Rightarrow> nat" where
  "cerrf_nc x y = 7 + nat \<lfloor>23 * cerrf_q x y\<rfloor>"

definition cerrf_nu :: "real \<Rightarrow> real \<Rightarrow> nat" where
  "cerrf_nu x y = 10 + nat \<lfloor>21 * cerrf_q x y\<rfloor>"

text \<open>The body of \<open>cerrf\<close>, started with whatever the two local arrays contain.\<close>

definition cerrf_from :: "real list \<times> real list \<Rightarrow> real \<Rightarrow> real \<Rightarrow> real \<times> real" where
  "cerrf_from R in_real in_imag =
     (let a_constant = 1.12837916709551;
          xLim = 5.33;
          yLim = 4.29;
          x = \<bar>in_real\<bar>;
          y = \<bar>in_imag\<bar>;
          (Wx, Wy) =
            (if y < yLim \<and> x < xLim then
               let q = cerrf_q x y;
                   h = 1 / (3.2 * q);
                   nc = cerrf_nc x y;
                   xl = power_int h (1 - int nc);
                   xh = y + 0.5 / h;
                   yh = x;
                   nu = cerrf_nu x y;
                   R = ((fst R)[nu := 0], (snd R)[nu := 0]);
                   R = cerrf_fill xh yh nu R;
                   (Sx, Sy) = cerrf_sum h R nc (0, 0, xl)
               in (a_constant * Sx, a_constant * Sy)
             else
               let (Rx, Ry) = cerrf_fraction y x 9 (0, 0)
               in (a_constant * Rx, a_constant * Ry));
          Wx = (if y = 0 then exp (- x * x) else Wx)
      in if in_imag < 0 then
           let Wx = 2 * exp (y * y - x * x) * cos (2 * x * y) - Wx;
               Wy = - 2 * exp (y * y - x * x) * sin (2 * x * y) - Wy
           in (Wx, if in_real > 0 then - Wy else Wy)
         else (Wx, if in_real < 0 then - Wy else Wy))"

definition cerrf :: "real \<Rightarrow> real \<Rightarrow> real \<times> real" where
  "cerrf in_real in_imag = cerrf_from (replicate 33 0, replicate 33 0) in_real in_imag"

subsection \<open>Transverse fields\<close>

definition get_transv_field_gauss_round ::
    "real \<Rightarrow> real \<Rightarrow> real \<Rightarrow> real \<Rightarrow> real \<Rightarrow> real \<times> real" where
  "get_transv_field_gauss_round sigma Delta_x Delta_y x y =
     (let r2 = (x - Delta_x) * (x - Delta_x) + (y - Delta_y) * (y - Delta_y);
          temp = (if r2 < 1 / 10 ^ 20 then sqrt r2 / (2 * SIXTRL_PI * SIXTRL_EPSILON_0 * sigma)
                  else (1 - exp (- 0.5 * r2 / (sigma * sigma))) / (2 * SIXTRL_PI * SIXTRL_EPSILON_0 * r2))
      in (temp * (x - Delta_x), temp * (y - Delta_y)))"

definition get_transv_field_gauss_ellip ::
    "real \<Rightarrow> real \<Rightarrow> real \<Rightarrow> real \<Rightarrow> real \<Rightarrow> real \<Rightarrow> real \<times> real" where
  "get_transv_field_gauss_ellip sigma_x sigma_y Delta_x Delta_y x y =
     (let sigmax = sigma_x;
          sigmay = sigma_y;
          abx = \<bar>x - Delta_x\<bar>;
          aby = \<bar>y - Delta_y\<bar>;
          (Ex, Ey) =
            (if sigmax > sigmay then
               let S = sqrt (2 * (sigmax * sigmax - sigmay * sigmay));
                   factBE = 1 / (2 * SIXTRL_EPSILON_0 * SIXTRL_SQRT_PI * S);
                   etaBE_re = sigmay / sigmax * abx;
                   etaBE_im = sigmax / sigmay * aby;
                   zetaBE_re = abx;
                   zetaBE_im = aby;
                   (w_zetaBE_re, w_zetaBE_im) = cerrf (zetaBE_re / S) (zetaBE_im / S);
                   (w_etaBE_re, w_etaBE_im) = cerrf (etaBE_re / S) (etaBE_im / S);
                   expBE = exp (- abx * abx / (2 * sigmax * sigmax) - aby * aby / (2 * sigmay * sigmay))
               in (factBE * (w_zetaBE_im - w_etaBE_im * expBE), factBE * (w_zetaBE_re - w_etaBE_re * expBE))
             else if sigmax < sigmay then
               let S = sqrt (2 * (sigmay * sigmay - sigmax * sigmax));
                   factBE = 1 / (2 * SIXTRL_EPSILON_0 * SIXTRL_SQRT_PI * S);
                   etaBE_re = sigmax / sigmay * aby;
                   etaBE_im = sigmay / sigmax * abx;
                   zetaBE_re = aby;
                   zetaBE_im = abx;
                   (w_zetaBE_re, w_zetaBE_im) = cerrf (zetaBE_re / S) (zetaBE_im / S);
                   (w_etaBE_re, w_etaBE_im) = cerrf (etaBE_re / S) (etaBE_im / S);
                   expBE = exp (- aby * aby / (2 * sigmay * sigmay) - abx * abx / (2 * sigmax * sigmax))
               in (factBE * (w_zetaBE_re - w_etaBE_re * expBE), factBE * (w_zetaBE_im - w_etaBE_im * expBE))
             else (1 / 0, 1 / 0))
      in (if x - Delta_x < 0 then - Ex else Ex, if y - Delta_y < 0 then - Ey else Ey))"

text \<open>\<open>None\<close> for the second pair when the gradients are skipped and the code does not write them.\<close>

definition get_Ex_Ey_Gx_Gy_gauss ::
    "real \<Rightarrow> real \<Rightarrow> real \<Rightarrow> real \<Rightarrow> real \<Rightarrow> bool \<Rightarrow> (real \<times> real) \<times> (real \<times> real) option" where
  "get_Ex_Ey_Gx_Gy_gauss x y sigma_x sigma_y min_sigma_diff skip_Gs =
     (if \<bar>sigma_x - sigma_y\<bar> < min_sigma_diff then
        let sigma = 0.5 * (sigma_x + sigma_y);
            (Ex, Ey) = get_transv_field_gauss_round sigma 0 0 x y
        in ((Ex, Ey),
            if skip_Gs then None
            else Some
              (1 / (2 * (x * x + y * y)) * (y * Ey - x * Ex + 1 / (2 * SIXTRL_PI * SIXTRL_EPSILON_0 * sigma * sigma)
                 * x * x * exp (- (x * x + y * y) / (2 * sigma * sigma))),
               1 / (2 * (x * x + y * y)) * (x * Ex - y * Ey + 1 / (2 * SIXTRL_PI * SIXTRL_EPSILON_0 * sigma * sigma)
                 * y * y * exp (- (x * x + y * y) / (2 * sigma * sigma)))))
      else
        let (Ex, Ey) = get_transv_field_gauss_ellip sigma_x sigma_y 0 0 x y;
            Sig_11 = sigma_x * sigma_x;
            Sig_33 = sigma_y * sigma_y
        in ((Ex, Ey),
            if skip_Gs then None
            else Some
              (- 1 / (2 * (Sig_11 - Sig_33)) * (x * Ex + y * Ey + 1 / (2 * SIXTRL_PI * SIXTRL_EPSILON_0) *
                 (sigma_y / sigma_x * exp (- x * x / (2 * Sig_11) - y * y / (2 * Sig_33)) - 1)),
               1 / (2 * (Sig_11 - Sig_33)) * (x * Ex + y * Ey + 1 / (2 * SIXTRL_PI * SIXTRL_EPSILON_0) *
                 (sigma_x / sigma_y * exp (- x * x / (2 * Sig_11) - y * y / (2 * Sig_33)) - 1)))))"

subsection \<open>The q-Gaussian distribution\<close>

definition SIXTRL_MATH_QGAUSSIAN_Q_EPS :: real where
  "SIXTRL_MATH_QGAUSSIAN_Q_EPS = 1 / 10 ^ 6"

text \<open>The gamma function of the C library, by Gauss' product formula.\<close>

definition tgamma :: "real \<Rightarrow> real" where
  "tgamma x = lim (\<lambda>n. fact n * real n powr x / (\<Prod>k\<le>n. x + real k))"

definition Math_q_gauss_min_support :: "real \<Rightarrow> real \<Rightarrow> real" where
  "Math_q_gauss_min_support q sqrt_beta =
     (if q \<ge> 1 then - (10 ^ 10) else - 1 / sqrt (sqrt_beta * sqrt_beta * (1 - q)))"

definition Math_q_gauss_max_support :: "real \<Rightarrow> real \<Rightarrow> real" where
  "Math_q_gauss_max_support q sqrt_beta =
     (if q \<ge> 1 then 10 ^ 10 else 1 / sqrt (sqrt_beta * sqrt_beta * (1 - q)))"

definition Math_q_gauss_exp_q :: "real \<Rightarrow> real \<Rightarrow> real" where
  "Math_q_gauss_exp_q x q =
     (let one_minus_q = 1 - q;
          abs_one_minus_q = (if one_minus_q \<ge> 0 then one_minus_q else - one_minus_q)
      in if abs_one_minus_q \<ge> SIXTRL_MATH_QGAUSSIAN_Q_EPS then
           let u_plus = 1 + one_minus_q * x;
               u_plus = (if u_plus < 0 then 0 else u_plus)
           in u_plus powr (1 / one_minus_q)
         else exp x)"

definition Math_q_gauss_cq :: "real \<Rightarrow> real" where
  "Math_q_gauss_cq q =
     (let cq = MathConst_sqrt_pi
      in if q \<ge> 1 + SIXTRL_MATH_QGAUSSIAN_Q_EPS then
           let q_minus_1 = q - 1;
               cq = cq * tgamma ((3 - q) / (2 * q_minus_1))
           in cq / (sqrt q_minus_1 * tgamma (1 / q_minus_1))
         else if q \<le> 1 - SIXTRL_MATH_QGAUSSIAN_Q_EPS then
           let one_minus_q = 1 - q;
               three_minus_q = 3 - q;
               cq = cq * (2 * tgamma (1 / one_minus_q))
           in cq / (three_minus_q * sqrt one_minus_q * tgamma (three_minus_q / (2 * one_minus_q)))
         else cq)"

definition Math_q_gauss_sqrt_beta_from_gauss_sigma :: "real \<Rightarrow> real" where
  "Math_q_gauss_sqrt_beta_from_gauss_sigma sigma = 1 / (sqrt 2 * sigma)"

definition Math_q_gauss :: "real \<Rightarrow> real \<Rightarrow> real \<Rightarrow> real \<Rightarrow> real" where
  "Math_q_gauss x q sqrt_beta cq =
     (sqrt_beta / cq) * Math_q_gauss_exp_q (- (sqrt_beta * sqrt_beta * x * x)) q"

definition Math_q_gauss_shifted :: "real \<Rightarrow> real \<Rightarrow> real \<Rightarrow> real \<Rightarrow> real \<Rightarrow> real" where
  "Math_q_gauss_shifted x q sqrt_beta cq mu = Math_q_gauss (x - mu) q sqrt_beta cq"

subsection \<open>The arrays of the error function\<close>

lemma cerrf_fill_length [simp]:
  "length (fst (cerrf_fill xh yh n R)) = length (fst R)"
  "length (snd (cerrf_fill xh yh n R)) = length (snd R)"
  by (induction n arbitrary: R) (simp_all add: Let_def case_prod_beta)

lemma cerrf_fill_above:
  "n \<le> k \<Longrightarrow> fst (cerrf_fill xh yh n R) ! k = fst R ! k \<and> snd (cerrf_fill xh yh n R) ! k = snd R ! k"
  by (induction n arbitrary: R) (simp_all add: Let_def case_prod_beta)

lemma cerrf_fill_determined:
  assumes "n < length (fst R)" "n < length (snd R)" "n < length (fst R')" "n < length (snd R')"
    "fst R ! n = fst R' ! n" "snd R ! n = snd R' ! n" "k \<le> n"
  shows "fst (cerrf_fill xh yh n R) ! k = fst (cerrf_fill xh yh n R') ! k \<and>
    snd (cerrf_fill xh yh n R) ! k = snd (cerrf_fill xh yh n R') ! k"
  using assms
proof (induction n arbitrary: R R')
  case (Suc n)
  show ?case
  proof (cases "k = Suc n")
    case True
    then show ?thesis using Suc.prems cerrf_fill_above [of "Suc n" k xh yh] by simp
  next
    case False
    then show ?thesis using Suc.prems
      by (simp add: Let_def case_prod_beta del: One_nat_def) (rule Suc.IH, simp_all)
  qed
qed simp

lemma cerrf_sum_cong:
  assumes "\<forall>k<n. fst R ! k = fst R' ! k \<and> snd R ! k = snd R' ! k"
  shows "cerrf_sum h R n S = cerrf_sum h R' n S"
  using assms by (induction n arbitrary: S) (simp_all add: Let_def case_prod_beta)

lemma cerrf_q_range:
  assumes "0 \<le> x" "x < 5.33" "0 \<le> y" "y < 4.29"
  shows "0 < cerrf_q x y" "cerrf_q x y \<le> 1"
proof -
  have x: "(x / 5.33) * (x / 5.33) < 1" "0 \<le> (x / 5.33) * (x / 5.33)"
    using assms mult_strict_mono [of "x / 5.33" 1 "x / 5.33" 1] by simp_all
  have y: "0 < 1 - y / 4.29" "1 - y / 4.29 \<le> 1" using assms by simp_all
  have s: "0 < sqrt (1 - (x / 5.33) * (x / 5.33))" "sqrt (1 - (x / 5.33) * (x / 5.33)) \<le> 1"
    using x by simp_all
  show "0 < cerrf_q x y" using y s by (simp add: cerrf_q_def)
  show "cerrf_q x y \<le> 1" unfolding cerrf_q_def
    using mult_mono [OF y(2) s(2)] s(1) by simp
qed

lemma cerrf_counts:
  assumes "0 \<le> x" "x < 5.33" "0 \<le> y" "y < 4.29"
  shows "cerrf_nc x y \<le> cerrf_nu x y" "cerrf_nu x y < 33"
proof -
  note q = cerrf_q_range [OF assms]
  have "\<lfloor>23 * cerrf_q x y\<rfloor> \<le> \<lfloor>21 * cerrf_q x y\<rfloor> + 2"
    using q floor_mono [of "23 * cerrf_q x y" "21 * cerrf_q x y + 2"] by simp
  moreover have "0 \<le> \<lfloor>21 * cerrf_q x y\<rfloor>" "\<lfloor>21 * cerrf_q x y\<rfloor> \<le> 21"
    using q by (simp_all add: floor_le_iff)
  ultimately show "cerrf_nc x y \<le> cerrf_nu x y" "cerrf_nu x y < 33"
    unfolding cerrf_nc_def cerrf_nu_def by arith+
qed

text \<open>C39: The two local arrays of \<open>cerrf\<close> are used safely: inside the box in which they are used, both loops
  stay below their 33 entries, and whatever the arrays contain at the start, the result is the same, since
  every entry is written before it is read.\<close>

theorem cerrf_arrays_safe:
  assumes "length (fst R) = 33" "length (snd R) = 33"
  shows "cerrf_from R in_real in_imag = cerrf in_real in_imag \<and>
    (\<bar>in_real\<bar> < 5.33 \<and> \<bar>in_imag\<bar> < 4.29 \<longrightarrow>
       cerrf_nc \<bar>in_real\<bar> \<bar>in_imag\<bar> \<le> cerrf_nu \<bar>in_real\<bar> \<bar>in_imag\<bar> \<and> cerrf_nu \<bar>in_real\<bar> \<bar>in_imag\<bar> < 33)"
proof -
  define x y where "x = \<bar>in_real\<bar>" and "y = \<bar>in_imag\<bar>"
  have counts: "x < 5.33 \<Longrightarrow> y < 4.29 \<Longrightarrow> cerrf_nc x y \<le> cerrf_nu x y \<and> cerrf_nu x y < 33"
    using cerrf_counts [of x y] by (simp add: x_def y_def)
  let ?Z = "(replicate 33 0, replicate 33 0) :: real list \<times> real list"
  have sum: "cerrf_sum h (cerrf_fill xh yh (cerrf_nu x y)
        ((fst R)[cerrf_nu x y := 0], (snd R)[cerrf_nu x y := 0])) (cerrf_nc x y) S =
      cerrf_sum h (cerrf_fill xh yh (cerrf_nu x y)
        ((fst ?Z)[cerrf_nu x y := 0], (snd ?Z)[cerrf_nu x y := 0])) (cerrf_nc x y) S"
    if "x < 5.33" "y < 4.29" for h xh yh S
    using counts [OF that] assms by (intro cerrf_sum_cong allI impI cerrf_fill_determined) simp_all
  have "cerrf_from R in_real in_imag = cerrf in_real in_imag"
    using sum by (simp add: cerrf_def cerrf_from_def Let_def flip: x_def y_def)
  then show ?thesis using counts by (simp flip: x_def y_def)
qed

theorem cerrf_arrays_safe_witness:
  "cerrf_from (replicate 33 7, replicate 33 5) 1 2 = cerrf 1 2 \<and> cerrf_nu 1 2 < 33"
  using cerrf_arrays_safe [of "(replicate 33 7, replicate 33 5)" 1 2] by simp

text \<open>\<open>cerrf\<close> has the symmetries of the complex error function \<open>w\<close>: on the upper half plane,
  reflecting the real part conjugates the value, and across the real axis \<open>w z + w (- z) = 2 exp (- z\<^sup>2)\<close>.\<close>

theorem cerrf_symmetries:
  assumes "a \<noteq> 0"
  shows "(0 \<le> b \<longrightarrow> cerrf (- a) b = (fst (cerrf a b), - snd (cerrf a b))) \<and>
    (b \<noteq> 0 \<longrightarrow>
      fst (cerrf a b) + fst (cerrf (- a) (- b)) = 2 * exp (b * b - a * a) * cos (2 * a * b) \<and>
      snd (cerrf a b) + snd (cerrf (- a) (- b)) = - (2 * exp (b * b - a * a) * sin (2 * a * b)))"
proof -
  have cos: "cos (2 * \<bar>a\<bar> * \<bar>b\<bar>) = cos (2 * a * b)" by (simp add: abs_if)
  have sin: "sin (2 * \<bar>a\<bar> * \<bar>b\<bar>) = (if 0 < a * b then sin (2 * a * b) else - sin (2 * a * b))"
    using assms by (simp add: abs_if zero_less_mult_iff)
  show ?thesis
    using assms
    by (auto simp: cerrf_def cerrf_from_def Let_def case_prod_beta cos sin zero_less_mult_iff)
qed

theorem cerrf_symmetries_witness:
  "cerrf (- 1) 2 = (fst (cerrf 1 2), - snd (cerrf 1 2)) \<and>
   fst (cerrf 1 2) + fst (cerrf (- 1) (- 2)) = 2 * exp 3 * cos 4"
  using cerrf_symmetries [of 1 2] by simp

subsection \<open>The fields\<close>

text \<open>The elliptic field is odd in each coordinate, and exchanging the two axes exchanges the two
  components.\<close>

theorem elliptic_field_symmetries:
  assumes "x \<noteq> 0" "y \<noteq> 0" "sx \<noteq> sy"
  shows "get_transv_field_gauss_ellip sx sy 0 0 (- x) y =
      (- fst (get_transv_field_gauss_ellip sx sy 0 0 x y), snd (get_transv_field_gauss_ellip sx sy 0 0 x y)) \<and>
    get_transv_field_gauss_ellip sx sy 0 0 x (- y) =
      (fst (get_transv_field_gauss_ellip sx sy 0 0 x y), - snd (get_transv_field_gauss_ellip sx sy 0 0 x y)) \<and>
    get_transv_field_gauss_ellip sy sx 0 0 y x = prod.swap (get_transv_field_gauss_ellip sx sy 0 0 x y)"
  using assms by (auto simp: get_transv_field_gauss_ellip_def Let_def case_prod_beta)

theorem elliptic_field_symmetries_witness:
  "fst (get_transv_field_gauss_ellip 1 2 0 0 (- 3) 4) = - fst (get_transv_field_gauss_ellip 1 2 0 0 3 4)"
  using elliptic_field_symmetries [of 3 4 1 2] by simp

text \<open>The round field without the special case near the centre.\<close>

definition round_field_exact :: "real \<Rightarrow> real \<Rightarrow> real" where
  "round_field_exact sigma r =
     (1 - exp (- (r\<^sup>2) / (2 * sigma\<^sup>2))) / (2 * SIXTRL_PI * SIXTRL_EPSILON_0 * r)"

lemma one_minus_exp_ge:
  assumes "0 \<le> u" "u \<le> 1"
  shows "u / 2 \<le> 1 - exp (- u :: real)"
proof -
  have "(1 + u) * (1 - u / 2) = 1 + u * (1 - u) / 2" by (simp add: field_simps)
  moreover have "0 \<le> u * (1 - u)" using assms by simp
  ultimately have "1 \<le> (1 + u) * (1 - u / 2)" by simp
  also have "\<dots> \<le> exp u * (1 - u / 2)" using assms exp_ge_add_one_self [of u] by (intro mult_right_mono) simp_all
  finally have "exp (- u) \<le> 1 - u / 2" by (simp add: exp_minus divide_simps mult.commute)
  then show ?thesis by simp
qed

text \<open>Within a distance of 1e-10 of the centre of a round beam the code replaces the field by a
  "linearised" expression with the wrong coefficient: it grows with the square of the distance and is
  smaller than the field of the beam by a factor of at most \<open>4 r sigma\<close>, that is, practically zero.
  Outside that distance the field is the exact one.\<close>

theorem round_field_near_centre:
  assumes "0 < r" "r \<le> sigma"
  shows "if r < 1 / 10 ^ 10
    then fst (get_transv_field_gauss_round sigma 0 0 r 0) \<le> 4 * r * sigma * round_field_exact sigma r
    else fst (get_transv_field_gauss_round sigma 0 0 r 0) = round_field_exact sigma r"
proof (cases "r < 1 / 10 ^ 10")
  case True
  define k where "k = 2 * SIXTRL_PI * SIXTRL_EPSILON_0"
  have k: "0 < k" by (simp add: k_def SIXTRL_PI_def SIXTRL_EPSILON_0_def)
  have "r * r < 1 / 10 ^ 10 * (1 / 10 ^ 10)" using True assms by (intro mult_strict_mono) simp_all
  then have small: "r * r < 1 / 10 ^ 20" by simp
  define u where "u = r\<^sup>2 / (2 * sigma\<^sup>2)"
  have "r\<^sup>2 \<le> sigma\<^sup>2" using assms by (intro power_mono) simp_all
  then have "r\<^sup>2 \<le> 2 * sigma\<^sup>2" using zero_le_power2 [of sigma] by linarith
  then have "u / 2 \<le> 1 - exp (- u)" using assms by (intro one_minus_exp_ge) (simp_all add: u_def)
  moreover have "round_field_exact sigma r = (1 - exp (- u)) / (k * r)"
    by (simp add: round_field_exact_def u_def k_def)
  ultimately have "4 * r * sigma * (u / 2 / (k * r)) \<le> 4 * r * sigma * round_field_exact sigma r"
    using assms k by (simp only:) (intro mult_left_mono divide_right_mono, simp_all)
  moreover have "4 * r * sigma * (u / 2 / (k * r)) = r * r / (k * sigma)"
    using assms k by (simp add: u_def field_simps power2_eq_square)
  moreover have "fst (get_transv_field_gauss_round sigma 0 0 r 0) = r * r / (k * sigma)"
    using small assms by (simp add: get_transv_field_gauss_round_def k_def)
  ultimately show ?thesis using True by simp
next
  case False
  then have "1 / 10 ^ 10 * (1 / 10 ^ 10) \<le> r * r" by (intro mult_mono) simp_all
  then have "\<not> r * r < 1 / 10 ^ 20" by simp
  then show ?thesis using False assms
    by (simp add: get_transv_field_gauss_round_def round_field_exact_def power2_eq_square)
qed

theorem round_field_near_centre_witness:
  "fst (get_transv_field_gauss_round 1 0 0 (1 / 10 ^ 11) 0) \<le>
     4 / 10 ^ 11 * round_field_exact 1 (1 / 10 ^ 11)"
  using round_field_near_centre [of "1 / 10 ^ 11" 1] by simp

text \<open>For \<open>q\<close> below 1 the q-Gaussian vanishes exactly outside the interval between
  \<open>NS(Math_q_gauss_min_support)\<close> and \<open>NS(Math_q_gauss_max_support)\<close>.\<close>

theorem q_gauss_support:
  assumes "q \<le> 1 - SIXTRL_MATH_QGAUSSIAN_Q_EPS" "0 < sqrt_beta" "0 < cq"
  shows "(Math_q_gauss x q sqrt_beta cq = 0 \<longleftrightarrow>
      x \<le> Math_q_gauss_min_support q sqrt_beta \<or> Math_q_gauss_max_support q sqrt_beta \<le> x) \<and>
    0 \<le> Math_q_gauss x q sqrt_beta cq"
proof -
  define d where "d = 1 - q"
  have d: "0 < d" "SIXTRL_MATH_QGAUSSIAN_Q_EPS \<le> d" using assms(1)
    by (simp_all add: d_def SIXTRL_MATH_QGAUSSIAN_Q_EPS_def)
  define m where "m = 1 / sqrt (sqrt_beta * sqrt_beta * d)"
  have pos: "0 < sqrt_beta * sqrt_beta * d" using d assms by simp
  have m: "0 < m" "m * m = 1 / (sqrt_beta * sqrt_beta * d)" using pos by (simp_all add: m_def)
  have supp: "Math_q_gauss_max_support q sqrt_beta = m" "Math_q_gauss_min_support q sqrt_beta = - m"
    using d by (simp_all add: Math_q_gauss_max_support_def Math_q_gauss_min_support_def m_def d_def)
  have u: "1 - d * (sqrt_beta * sqrt_beta * x * x) \<le> 0 \<longleftrightarrow> m \<le> \<bar>x\<bar>"
  proof -
    have "1 - d * (sqrt_beta * sqrt_beta * x * x) \<le> 0 \<longleftrightarrow> m * m \<le> x * x"
      using pos by (simp add: m(2) divide_simps ac_simps)
    also have "\<dots> \<longleftrightarrow> m \<le> \<bar>x\<bar>"
      using abs_le_square_iff [of m x] m(1) by (simp add: power2_eq_square)
    finally show ?thesis .
  qed
  have "Math_q_gauss x q sqrt_beta cq = 0 \<longleftrightarrow> m \<le> \<bar>x\<bar>"
    using assms d u by (auto simp: Math_q_gauss_def Math_q_gauss_exp_q_def Let_def simp flip: d_def)
  moreover have "m \<le> \<bar>x\<bar> \<longleftrightarrow> x \<le> - m \<or> m \<le> x" by linarith
  moreover have "0 \<le> Math_q_gauss x q sqrt_beta cq"
    using assms by (simp add: Math_q_gauss_def Math_q_gauss_exp_q_def Let_def)
  ultimately show ?thesis by (simp add: supp)
qed

theorem q_gauss_support_witness: "Math_q_gauss 2 0 1 5 = 0 \<and> 0 < Math_q_gauss 0 0 1 5"
  using q_gauss_support [of 0 1 5 2] q_gauss_support [of 0 1 5 0]
  by (simp add: SIXTRL_MATH_QGAUSSIAN_Q_EPS_def Math_q_gauss_min_support_def
      Math_q_gauss_max_support_def)

end
