(* ===== verification/Math_Interpol.thy ===== *)
theory Math_Interpol
  imports Particle_Ops
begin

section \<open>Interpolation (internal/math_interpol.h)\<close>

text \<open>
  Linear and cubic interpolation over equidistant abscissae, used by the interpolated line density of
  space charge elements. Preparing a linear interpolation computes the slopes, preparing a cubic one
  solves the tridiagonal system for the second derivatives with Thomas' algorithm, in place in the
  output array and in five work arrays inside \<open>temp_values\<close>. Arrays are lists; the arguments \<open>None\<close> and
  the flag \<open>disjoint_arrays\<close> stand for the NULL and aliasing checks of the code. Real numbers are neither NaN nor
  infinite, so those checks hold.
\<close>

datatype math_interpol =
  MATH_INTERPOL_LINEAR | MATH_INTERPOL_CUBIC | MATH_INTERPOL_NONE

datatype math_interpol_boundary =
  MATH_INTERPOL_LINEAR_BOUNDARY_NONE | MATH_INTERPOL_CUBIC_BOUNDARY_NATURAL
  | MATH_INTERPOL_CUBIC_BOUNDARY_CLAMPED | MATH_INTERPOL_CUBIC_BOUNDARY_PROPORTIONAL
  | MATH_INTERPOL_CUBIC_BOUNDARY_NOT_A_KNOT

text \<open>The conversion of a floating point number to an integer, which cuts off the fraction.\<close>

definition truncate_real :: "real \<Rightarrow> int" where
  "truncate_real r = (if r \<ge> 0 then \<lfloor>r\<rfloor> else \<lceil>r\<rceil>)"

definition Math_abscissa_index_equ :: "real \<Rightarrow> real \<Rightarrow> real \<Rightarrow> i64 \<Rightarrow> i64" where
  "Math_abscissa_index_equ x_value x0 dx num_x_values = truncate_real ((x_value - x0) / dx)"

definition Math_abscissa_index_equ_ex :: "real \<Rightarrow> real \<Rightarrow> real \<Rightarrow> i64 \<Rightarrow> i64" where
  "Math_abscissa_index_equ_ex x_value x0 dx num_x_values =
     (let max_x = x0 + dx * real_of_int num_x_values
      in if x_value \<ge> x0 then
           (if x_value < max_x then Math_abscissa_index_equ x_value x0 dx num_x_values
            else num_x_values)
         else - 1)"

definition Math_interpol_boundary_begin_default_param :: "math_interpol_boundary \<Rightarrow> real" where
  "Math_interpol_boundary_begin_default_param boundary_type =
     (case boundary_type of MATH_INTERPOL_CUBIC_BOUNDARY_PROPORTIONAL \<Rightarrow> 1 | _ \<Rightarrow> 0)"

definition Math_interpol_boundary_end_default_param :: "math_interpol_boundary \<Rightarrow> real" where
  "Math_interpol_boundary_end_default_param boundary_type =
     Math_interpol_boundary_begin_default_param boundary_type"

subsection \<open>Linear interpolation: preparation\<close>

definition Math_interpol_linear_prepare_equ ::
    "bool \<Rightarrow> real list \<Rightarrow> real list \<Rightarrow> real \<Rightarrow> real \<Rightarrow> i64 \<Rightarrow> real list \<times> arch_status" where
  "Math_interpol_linear_prepare_equ disjoint_arrays yp y x0 dx num_values =
     (if disjoint_arrays \<and> dx > 0 \<and> num_values > 1 then
        (fold (\<lambda>ii yp. yp[ii := (y ! (ii + 1) - y ! ii) / dx]) [0..<nat (num_values - 1)] yp, 0)
      else (yp, - 1))"

subsection \<open>Cubic interpolation: preparation\<close>

record spline_work =
  sw_l :: "real list"
  sw_d :: "real list"
  sw_h :: "real list"
  sw_g :: "real list"
  sw_dy :: "real list"
  sw_ypp :: "real list"

text \<open>The initialisation of the work arrays.\<close>

definition spline_fill_first :: "real \<Rightarrow> spline_work \<Rightarrow> spline_work" where
  "spline_fill_first dx w =
     w\<lparr>sw_h := (sw_h w)[0 := dx], sw_g := (sw_g w)[0 := 0], sw_l := (sw_l w)[0 := 0],
       sw_d := (sw_d w)[0 := 0], sw_dy := (sw_dy w)[0 := 0]\<rparr>"

definition spline_fill_step :: "real list \<Rightarrow> real \<Rightarrow> nat \<Rightarrow> spline_work \<Rightarrow> spline_work" where
  "spline_fill_step y dx ii w =
     (let h = (sw_h w)[ii := dx];
          g = (sw_g w)[ii := (h ! (ii - 1) + h ! ii) * 2];
          dy_ii = (y ! (ii + 1) - y ! ii) / h ! ii;
          dy_ii = dy_ii - (y ! ii - y ! (ii - 1)) / h ! (ii - 1);
          dy_ii = dy_ii * 6
      in w\<lparr>sw_h := h, sw_g := g, sw_dy := (sw_dy w)[ii := dy_ii]\<rparr>)"

definition spline_fill_last :: "real \<Rightarrow> nat \<Rightarrow> spline_work \<Rightarrow> spline_work" where
  "spline_fill_last dx n_minus_1 w =
     w\<lparr>sw_h := (sw_h w)[n_minus_1 := dx], sw_g := (sw_g w)[n_minus_1 := 0],
       sw_l := (sw_l w)[n_minus_1 := 0], sw_d := (sw_d w)[n_minus_1 := 0],
       sw_dy := (sw_dy w)[n_minus_1 := 0]\<rparr>"

text \<open>The two boundary switches before the elimination; \<open>None\<close> is their failing default case.\<close>

definition spline_begin_boundary ::
    "math_interpol_boundary \<Rightarrow> real \<Rightarrow> spline_work \<Rightarrow> spline_work option" where
  "spline_begin_boundary boundary_type param w =
     (case boundary_type of
        MATH_INTERPOL_CUBIC_BOUNDARY_NATURAL \<Rightarrow> Some w
      | MATH_INTERPOL_CUBIC_BOUNDARY_CLAMPED \<Rightarrow>
          Some (w\<lparr>sw_dy := (sw_dy w)[1 := sw_dy w ! 1 - param * sw_h w ! 0]\<rparr>)
      | MATH_INTERPOL_CUBIC_BOUNDARY_PROPORTIONAL \<Rightarrow>
          Some (w\<lparr>sw_g := (sw_g w)[1 := (param + 2) * sw_h w ! 0 + sw_h w ! 1 * 2]\<rparr>)
      | MATH_INTERPOL_CUBIC_BOUNDARY_NOT_A_KNOT \<Rightarrow>
          let d_h = (sw_h w ! 0 * sw_h w ! 0) / sw_h w ! 1
          in Some (w\<lparr>sw_g := (sw_g w)[1 := sw_h w ! 0 * 3 + sw_h w ! 1 * 2 + d_h],
                     sw_h := (sw_h w)[1 := sw_h w ! 1 - d_h]\<rparr>)
      | _ \<Rightarrow> None)"

definition spline_end_boundary ::
    "math_interpol_boundary \<Rightarrow> real \<Rightarrow> nat \<Rightarrow> spline_work \<Rightarrow> spline_work option" where
  "spline_end_boundary boundary_type param n w =
     (let n_minus_1 = n - 1;
          n_minus_2 = n - 2;
          n_minus_3 = n - 3
      in case boundary_type of
        MATH_INTERPOL_CUBIC_BOUNDARY_NATURAL \<Rightarrow> Some w
      | MATH_INTERPOL_CUBIC_BOUNDARY_CLAMPED \<Rightarrow>
          Some (w\<lparr>sw_dy := (sw_dy w)[n_minus_2 := sw_dy w ! n_minus_2 - param * sw_h w ! n_minus_2]\<rparr>)
      | MATH_INTERPOL_CUBIC_BOUNDARY_PROPORTIONAL \<Rightarrow>
          Some (w\<lparr>sw_g := (sw_g w)[n_minus_2 := sw_h w ! n_minus_1 * 2 + sw_h w ! n_minus_2 * (param + 2)]\<rparr>)
      | MATH_INTERPOL_CUBIC_BOUNDARY_NOT_A_KNOT \<Rightarrow>
          let d_h = (sw_h w ! n_minus_2 * sw_h w ! n_minus_2) / sw_h w ! n_minus_3
          in Some (w\<lparr>sw_g := (sw_g w)[n_minus_2 := sw_h w ! n_minus_3 * 2 + sw_h w ! n_minus_2 * 3 + d_h],
                     sw_h := (sw_h w)[n_minus_3 := sw_h w ! n_minus_3 - d_h]\<rparr>)
      | _ \<Rightarrow> None)"

text \<open>The elimination, and the substitution, which overwrites the eliminated right-hand sides.\<close>

definition spline_forward_step :: "nat \<Rightarrow> spline_work \<Rightarrow> spline_work" where
  "spline_forward_step ii w =
     (let l = (sw_l w)[ii := sw_h w ! ii / sw_d w ! (ii - 1)]
      in w\<lparr>sw_l := l, sw_d := (sw_d w)[ii := sw_g w ! (ii + 1) - l ! ii * sw_h w ! ii],
           sw_ypp := (sw_ypp w)[ii := sw_dy w ! (ii + 1) - sw_ypp w ! (ii - 1) * l ! ii]\<rparr>)"

definition spline_backward_step :: "nat \<Rightarrow> spline_work \<Rightarrow> spline_work" where
  "spline_backward_step ii w =
     w\<lparr>sw_ypp := (sw_ypp w)[ii + 1 :=
         (sw_ypp w ! ii - sw_h w ! (ii + 1) * sw_ypp w ! (ii + 2)) / sw_d w ! ii]\<rparr>"

definition spline_solve :: "nat \<Rightarrow> spline_work \<Rightarrow> spline_work" where
  "spline_solve n w =
     (let w = w\<lparr>sw_d := (sw_d w)[0 := sw_g w ! 1], sw_ypp := (sw_ypp w)[0 := sw_dy w ! 1]\<rparr>;
          w = fold spline_forward_step [1..<n - 2] w;
          ii = n - 3;
          w = w\<lparr>sw_ypp := (sw_ypp w)[ii + 1 := sw_ypp w ! ii / sw_d w ! ii]\<rparr>
      in fold spline_backward_step (rev [0..<n - 3]) w)"

text \<open>The two boundary switches after the substitution.\<close>

definition spline_begin_value ::
    "math_interpol_boundary \<Rightarrow> real \<Rightarrow> spline_work \<Rightarrow> spline_work option" where
  "spline_begin_value boundary_type param w =
     (case boundary_type of
        MATH_INTERPOL_CUBIC_BOUNDARY_NATURAL \<Rightarrow> Some (w\<lparr>sw_ypp := (sw_ypp w)[0 := 0]\<rparr>)
      | MATH_INTERPOL_CUBIC_BOUNDARY_CLAMPED \<Rightarrow> Some (w\<lparr>sw_ypp := (sw_ypp w)[0 := param]\<rparr>)
      | MATH_INTERPOL_CUBIC_BOUNDARY_PROPORTIONAL \<Rightarrow>
          Some (w\<lparr>sw_ypp := (sw_ypp w)[0 := param * sw_ypp w ! 1]\<rparr>)
      | MATH_INTERPOL_CUBIC_BOUNDARY_NOT_A_KNOT \<Rightarrow> Some w
      | _ \<Rightarrow> None)"

definition spline_end_value ::
    "math_interpol_boundary \<Rightarrow> real \<Rightarrow> nat \<Rightarrow> spline_work \<Rightarrow> spline_work option" where
  "spline_end_value boundary_type param n w =
     (case boundary_type of
        MATH_INTERPOL_CUBIC_BOUNDARY_NATURAL \<Rightarrow> Some (w\<lparr>sw_ypp := (sw_ypp w)[n - 1 := 0]\<rparr>)
      | MATH_INTERPOL_CUBIC_BOUNDARY_CLAMPED \<Rightarrow> Some (w\<lparr>sw_ypp := (sw_ypp w)[n - 1 := param]\<rparr>)
      | MATH_INTERPOL_CUBIC_BOUNDARY_PROPORTIONAL \<Rightarrow>
          Some (w\<lparr>sw_ypp := (sw_ypp w)[n - 1 := param * sw_ypp w ! (n - 2)]\<rparr>)
      | MATH_INTERPOL_CUBIC_BOUNDARY_NOT_A_KNOT \<Rightarrow> Some w
      | _ \<Rightarrow> None)"

text \<open>
  The second derivatives after the call, and the status. The first pair of switches and the second one
  fail for the same boundary types, so with a failing type nothing is solved.
\<close>

definition Math_interpol_cubic_prepare_equ ::
    "bool \<Rightarrow> real list \<Rightarrow> real list \<Rightarrow> real list \<Rightarrow> real \<Rightarrow> real \<Rightarrow> i64 \<Rightarrow>
     math_interpol_boundary \<Rightarrow> math_interpol_boundary \<Rightarrow> real \<Rightarrow> real \<Rightarrow> real list \<times> arch_status" where
  "Math_interpol_cubic_prepare_equ disjoint_arrays ypp temp_values y x0 dx num_values begin_boundary_type
       end_boundary_type begin_boundary_param end_boundary_param =
     (if disjoint_arrays \<and> dx > 0 \<and> num_values > 3 then
        let n = nat num_values;
            w = \<lparr>sw_l = take n temp_values, sw_d = take n (drop n temp_values),
                 sw_h = take n (drop (2 * n) temp_values), sw_g = take n (drop (3 * n) temp_values),
                 sw_dy = take n (drop (4 * n) temp_values), sw_ypp = ypp\<rparr>;
            w = spline_fill_first dx w;
            w = fold (spline_fill_step y dx) [1..<n - 1] w;
            w = spline_fill_last dx (n - 1) w
        in case Option.bind (spline_begin_boundary begin_boundary_type begin_boundary_param w)
                  (spline_end_boundary end_boundary_type end_boundary_param n) of
             None \<Rightarrow> (ypp, - 1)
           | Some w \<Rightarrow>
               let w = spline_solve n w
               in (case Option.bind (spline_begin_value begin_boundary_type begin_boundary_param w)
                     (spline_end_value end_boundary_type end_boundary_param n) of
                    None \<Rightarrow> (sw_ypp w, - 1)
                  | Some w \<Rightarrow> (sw_ypp w, 0))
      else (ypp, - 1))"

definition Math_interpol_prepare_equ ::
    "bool \<Rightarrow> real list \<Rightarrow> real list \<Rightarrow> real list \<Rightarrow> real \<Rightarrow> real \<Rightarrow> i64 \<Rightarrow> math_interpol \<Rightarrow>
     real list \<times> arch_status" where
  "Math_interpol_prepare_equ disjoint_arrays yp temp_values y x0 dx num_values interpol_type =
     (case interpol_type of
        MATH_INTERPOL_LINEAR \<Rightarrow> Math_interpol_linear_prepare_equ disjoint_arrays yp y x0 dx num_values
      | MATH_INTERPOL_CUBIC \<Rightarrow>
          let begin_param = Math_interpol_boundary_begin_default_param MATH_INTERPOL_CUBIC_BOUNDARY_NATURAL;
              end_param = Math_interpol_boundary_begin_default_param MATH_INTERPOL_CUBIC_BOUNDARY_NATURAL
          in Math_interpol_cubic_prepare_equ disjoint_arrays yp temp_values y x0 dx num_values
               MATH_INTERPOL_CUBIC_BOUNDARY_NATURAL MATH_INTERPOL_CUBIC_BOUNDARY_NATURAL
               begin_param end_param
      | MATH_INTERPOL_NONE \<Rightarrow> (yp, - 1))"

subsection \<open>Evaluation\<close>

definition Math_interpol_linear_y_equ :: "real \<Rightarrow> real \<Rightarrow> real \<Rightarrow> real list \<Rightarrow> real list \<Rightarrow> i64 \<Rightarrow> real" where
  "Math_interpol_linear_y_equ x x0 dx y yp num_values =
     (let idx = Math_abscissa_index_equ x x0 dx num_values
      in y ! nat idx + (x - (x0 + dx * real_of_int idx)) * yp ! nat idx)"

definition Math_interpol_linear_yp_equ :: "real \<Rightarrow> real \<Rightarrow> real \<Rightarrow> real list \<Rightarrow> real list \<Rightarrow> i64 \<Rightarrow> real" where
  "Math_interpol_linear_yp_equ x x0 dx y yp num_values =
     (let idx = Math_abscissa_index_equ x x0 dx num_values in yp ! nat idx)"

definition Math_interpol_linear_ypp_equ :: "real \<Rightarrow> real \<Rightarrow> real \<Rightarrow> real list \<Rightarrow> real list \<Rightarrow> i64 \<Rightarrow> real" where
  "Math_interpol_linear_ypp_equ x x0 dx y yp num_values = 0"

definition Math_interpol_linear_y_equ_ex :: "real \<Rightarrow> real \<Rightarrow> real \<Rightarrow> real list \<Rightarrow> real list \<Rightarrow> i64 \<Rightarrow> real" where
  "Math_interpol_linear_y_equ_ex x x0 dx y yp num_values =
     (let idx = Math_abscissa_index_equ x x0 dx num_values;
          idx = (if idx \<ge> num_values \<and> num_values > 0 then num_values - 1 else idx)
      in if idx \<ge> 0 \<and> idx < num_values then
           y ! nat idx + (x - (x0 + dx * real_of_int idx)) * yp ! nat idx
         else if idx < 0 \<and> num_values > 0 then y ! 0 - yp ! 0 * (x0 - x)
         else 0)"

definition Math_interpol_linear_yp_equ_ex :: "real \<Rightarrow> real \<Rightarrow> real \<Rightarrow> real list \<Rightarrow> real list \<Rightarrow> i64 \<Rightarrow> real" where
  "Math_interpol_linear_yp_equ_ex x x0 dx y yp num_values =
     (let idx = Math_abscissa_index_equ x x0 dx num_values
      in if idx \<ge> num_values \<and> num_values > 0 then yp ! nat (num_values - 1)
         else if idx < 0 \<and> num_values > 0 then yp ! 0
         else 0)"

definition Math_interpol_linear_ypp_equ_ex :: "real \<Rightarrow> real \<Rightarrow> real \<Rightarrow> real list \<Rightarrow> real list \<Rightarrow> i64 \<Rightarrow> real" where
  "Math_interpol_linear_ypp_equ_ex x x0 dx y yp num_values =
     Math_interpol_linear_ypp_equ x x0 dx y yp num_values"

definition Math_interpol_cubic_y_equ :: "real \<Rightarrow> real \<Rightarrow> real \<Rightarrow> real list \<Rightarrow> real list \<Rightarrow> i64 \<Rightarrow> real" where
  "Math_interpol_cubic_y_equ x x0 dx y ypp num_values =
     (let idx = Math_abscissa_index_equ x x0 dx num_values;
          t2 = (x0 + dx * real_of_int (idx + 1) - x) / dx;
          t1 = (x - (x0 + dx * real_of_int idx)) / dx
      in y ! nat (idx + 1) * t1 + y ! nat idx * t2
         - ypp ! nat idx * dx * dx * (t2 - t2 * t2 * t2) / 6
         - ypp ! nat (idx + 1) * dx * dx * (t1 - t1 * t1 * t1) / 6)"

definition Math_interpol_cubic_yp_equ :: "real \<Rightarrow> real \<Rightarrow> real \<Rightarrow> real list \<Rightarrow> real list \<Rightarrow> i64 \<Rightarrow> real" where
  "Math_interpol_cubic_yp_equ x x0 dx y ypp num_values =
     (let idx = Math_abscissa_index_equ x x0 dx num_values;
          t2 = (x0 + dx * real_of_int (idx + 1) - x) / dx;
          t1 = (x - (x0 + dx * real_of_int idx)) / dx
      in (y ! nat (idx + 1) - y ! nat idx) / dx
         - ypp ! nat idx * dx * (3 * t2 * t2 - 1) / 6
         - ypp ! nat (idx + 1) * dx * (1 - 3 * t1 * t1) / 6)"

definition Math_interpol_cubic_ypp_equ :: "real \<Rightarrow> real \<Rightarrow> real \<Rightarrow> real list \<Rightarrow> real list \<Rightarrow> i64 \<Rightarrow> real" where
  "Math_interpol_cubic_ypp_equ x x0 dx y ypp num_values =
     (let idx = Math_abscissa_index_equ x x0 dx num_values
      in (ypp ! nat idx * (x0 + dx * real_of_int (idx + 1) - x) +
          ypp ! nat (idx + 1) * (x - (x0 + dx * real_of_int idx))) / dx)"

definition Math_interpol_cubic_y_equ_ex :: "real \<Rightarrow> real \<Rightarrow> real \<Rightarrow> real list \<Rightarrow> real list \<Rightarrow> i64 \<Rightarrow> real" where
  "Math_interpol_cubic_y_equ_ex x x0 dx y ypp num_values =
     Math_interpol_cubic_y_equ x x0 dx y ypp num_values"

definition Math_interpol_cubic_yp_equ_ex :: "real \<Rightarrow> real \<Rightarrow> real \<Rightarrow> real list \<Rightarrow> real list \<Rightarrow> i64 \<Rightarrow> real" where
  "Math_interpol_cubic_yp_equ_ex x x0 dx y ypp num_values =
     Math_interpol_cubic_yp_equ x x0 dx y ypp num_values"

definition Math_interpol_cubic_ypp_equ_ex :: "real \<Rightarrow> real \<Rightarrow> real \<Rightarrow> real list \<Rightarrow> real list \<Rightarrow> i64 \<Rightarrow> real" where
  "Math_interpol_cubic_ypp_equ_ex x x0 dx y ypp num_values =
     Math_interpol_cubic_ypp_equ x x0 dx y ypp num_values"

text \<open>The six functions that dispatch on the interpolation type.\<close>

definition Math_interpol_y_equ ::
    "real \<Rightarrow> real \<Rightarrow> real \<Rightarrow> real list \<Rightarrow> real list \<Rightarrow> i64 \<Rightarrow> math_interpol \<Rightarrow> real" where
  "Math_interpol_y_equ x x0 dx y derivatives num_values interpol_type =
     (case interpol_type of
        MATH_INTERPOL_LINEAR \<Rightarrow> Math_interpol_linear_y_equ x x0 dx y derivatives num_values
      | MATH_INTERPOL_CUBIC \<Rightarrow> Math_interpol_cubic_y_equ x x0 dx y derivatives num_values
      | MATH_INTERPOL_NONE \<Rightarrow> 0)"

definition Math_interpol_yp_equ ::
    "real \<Rightarrow> real \<Rightarrow> real \<Rightarrow> real list \<Rightarrow> real list \<Rightarrow> i64 \<Rightarrow> math_interpol \<Rightarrow> real" where
  "Math_interpol_yp_equ x x0 dx y derivatives num_values interpol_type =
     (case interpol_type of
        MATH_INTERPOL_LINEAR \<Rightarrow> Math_interpol_linear_yp_equ x x0 dx y derivatives num_values
      | MATH_INTERPOL_CUBIC \<Rightarrow> Math_interpol_cubic_yp_equ x x0 dx y derivatives num_values
      | MATH_INTERPOL_NONE \<Rightarrow> 0)"

definition Math_interpol_ypp_equ ::
    "real \<Rightarrow> real \<Rightarrow> real \<Rightarrow> real list \<Rightarrow> real list \<Rightarrow> i64 \<Rightarrow> math_interpol \<Rightarrow> real" where
  "Math_interpol_ypp_equ x x0 dx y derivatives num_values interpol_type =
     (case interpol_type of
        MATH_INTERPOL_LINEAR \<Rightarrow> Math_interpol_linear_ypp_equ x x0 dx y derivatives num_values
      | MATH_INTERPOL_CUBIC \<Rightarrow> Math_interpol_cubic_ypp_equ x x0 dx y derivatives num_values
      | MATH_INTERPOL_NONE \<Rightarrow> 0)"

definition Math_interpol_y_equ_ex ::
    "real \<Rightarrow> real \<Rightarrow> real \<Rightarrow> real list \<Rightarrow> real list \<Rightarrow> i64 \<Rightarrow> math_interpol \<Rightarrow> real" where
  "Math_interpol_y_equ_ex x x0 dx y derivatives num_values interpol_type =
     (case interpol_type of
        MATH_INTERPOL_LINEAR \<Rightarrow> Math_interpol_linear_y_equ_ex x x0 dx y derivatives num_values
      | MATH_INTERPOL_CUBIC \<Rightarrow> Math_interpol_cubic_y_equ_ex x x0 dx y derivatives num_values
      | MATH_INTERPOL_NONE \<Rightarrow> 0)"

definition Math_interpol_yp_equ_ex ::
    "real \<Rightarrow> real \<Rightarrow> real \<Rightarrow> real list \<Rightarrow> real list \<Rightarrow> i64 \<Rightarrow> math_interpol \<Rightarrow> real" where
  "Math_interpol_yp_equ_ex x x0 dx y derivatives num_values interpol_type =
     (case interpol_type of
        MATH_INTERPOL_LINEAR \<Rightarrow> Math_interpol_linear_yp_equ_ex x x0 dx y derivatives num_values
      | MATH_INTERPOL_CUBIC \<Rightarrow> Math_interpol_cubic_yp_equ_ex x x0 dx y derivatives num_values
      | MATH_INTERPOL_NONE \<Rightarrow> 0)"

definition Math_interpol_ypp_equ_ex ::
    "real \<Rightarrow> real \<Rightarrow> real \<Rightarrow> real list \<Rightarrow> real list \<Rightarrow> i64 \<Rightarrow> math_interpol \<Rightarrow> real" where
  "Math_interpol_ypp_equ_ex x x0 dx y derivatives num_values interpol_type =
     (case interpol_type of
        MATH_INTERPOL_LINEAR \<Rightarrow> Math_interpol_linear_ypp_equ_ex x x0 dx y derivatives num_values
      | MATH_INTERPOL_CUBIC \<Rightarrow> Math_interpol_cubic_ypp_equ_ex x x0 dx y derivatives num_values
      | MATH_INTERPOL_NONE \<Rightarrow> 0)"

subsection \<open>The natural cubic spline\<close>

text \<open>The right-hand sides of the tridiagonal system, and the pivots and right-hand sides that the
  elimination computes from them.\<close>

definition spline_rhs :: "real list \<Rightarrow> real \<Rightarrow> nat \<Rightarrow> real" where
  "spline_rhs y dx i = ((y ! (i + 1) - y ! i) / dx - (y ! i - y ! (i - 1)) / dx) * 6"

primrec spline_pivot :: "real \<Rightarrow> nat \<Rightarrow> real" where
  "spline_pivot dx 0 = 4 * dx"
| "spline_pivot dx (Suc i) = 4 * dx - dx / spline_pivot dx i * dx"

primrec spline_reduced :: "real list \<Rightarrow> real \<Rightarrow> nat \<Rightarrow> real" where
  "spline_reduced y dx 0 = spline_rhs y dx 1"
| "spline_reduced y dx (Suc i) =
     spline_rhs y dx (Suc i + 1) - spline_reduced y dx i * (dx / spline_pivot dx i)"

lemma spline_pivot_pos: "0 < dx \<Longrightarrow> dx < spline_pivot dx i"
proof (induction i)
  case (Suc i)
  then have "dx / spline_pivot dx i * dx < 1 * dx" by (intro mult_strict_right_mono) simp_all
  then show ?case using Suc.prems by simp
qed simp

definition spline_lengths :: "nat \<Rightarrow> spline_work \<Rightarrow> bool" where
  "spline_lengths n w \<longleftrightarrow> length (sw_l w) = n \<and> length (sw_d w) = n \<and> length (sw_h w) = n \<and>
     length (sw_g w) = n \<and> length (sw_dy w) = n \<and> length (sw_ypp w) = n"

lemma spline_fill:
  assumes "spline_lengths n w" "Suc k < n" "0 < dx"
    and w': "w' = fold (spline_fill_step y dx) [1..<Suc k] (spline_fill_first dx w)"
  shows "spline_lengths n w' \<and> (\<forall>i\<le>k. sw_h w' ! i = dx) \<and>
    (\<forall>i. 1 \<le> i \<and> i \<le> k \<longrightarrow> sw_g w' ! i = 4 * dx \<and> sw_dy w' ! i = spline_rhs y dx i)"
  using assms(2) w'
proof (induction k arbitrary: w')
  case 0
  then show ?case using assms(1) by (simp add: spline_fill_first_def spline_lengths_def)
next
  case (Suc k)
  define v where "v = fold (spline_fill_step y dx) [1..<Suc k] (spline_fill_first dx w)"
  have IH: "spline_lengths n v" "\<forall>i\<le>k. sw_h v ! i = dx"
    "\<forall>i. 1 \<le> i \<and> i \<le> k \<longrightarrow> sw_g v ! i = 4 * dx \<and> sw_dy v ! i = spline_rhs y dx i"
    using Suc.IH [of v] Suc.prems v_def by simp_all
  have w': "w' = spline_fill_step y dx (Suc k) v" using Suc.prems(2) by (simp add: v_def)
  show ?case
    using IH Suc.prems(1)
    by (auto simp: w' spline_fill_step_def Let_def spline_lengths_def nth_list_update spline_rhs_def
        le_Suc_eq)
qed

lemma spline_forward:
  assumes "spline_lengths n w" "k + 2 < n" "\<forall>i<n. sw_h w ! i = dx"
    "\<forall>i. 1 \<le> i \<and> i < n - 1 \<longrightarrow> sw_g w ! i = 4 * dx \<and> sw_dy w ! i = spline_rhs y dx i"
    "sw_d w ! 0 = spline_pivot dx 0" "sw_ypp w ! 0 = spline_reduced y dx 0"
    and w': "w' = fold spline_forward_step [1..<Suc k] w"
  shows "spline_lengths n w' \<and> sw_h w' = sw_h w \<and> sw_g w' = sw_g w \<and> sw_dy w' = sw_dy w \<and>
    (\<forall>i\<le>k. sw_d w' ! i = spline_pivot dx i \<and> sw_ypp w' ! i = spline_reduced y dx i)"
  using assms(2) w'
proof (induction k arbitrary: w')
  case 0
  then show ?case using assms by simp
next
  case (Suc k)
  define v where "v = fold spline_forward_step [1..<Suc k] w"
  have IH: "spline_lengths n v" "sw_h v = sw_h w" "sw_g v = sw_g w" "sw_dy v = sw_dy w"
    "\<forall>i\<le>k. sw_d v ! i = spline_pivot dx i \<and> sw_ypp v ! i = spline_reduced y dx i"
    using Suc.IH [of v] Suc.prems v_def by simp_all
  have w': "w' = spline_forward_step (Suc k) v" using Suc.prems(2) by (simp add: v_def)
  have gd: "sw_g w ! Suc (Suc k) = 4 * dx" "sw_dy w ! Suc (Suc k) = spline_rhs y dx (Suc (Suc k))"
    using assms(4) [rule_format, of "Suc (Suc k)"] Suc.prems(1) by simp_all
  show ?case
    using IH Suc.prems(1) assms(3) gd
    by (auto simp: w' spline_forward_step_def Let_def spline_lengths_def nth_list_update le_Suc_eq)
qed

text \<open>What the substitution has established from position \<open>j\<close> upwards.\<close>

definition spline_solved :: "real list \<Rightarrow> real \<Rightarrow> nat \<Rightarrow> nat \<Rightarrow> real list \<Rightarrow> bool" where
  "spline_solved y dx m j z \<longleftrightarrow> (\<forall>i\<le>j. z ! i = spline_reduced y dx i) \<and>
     (\<forall>i. j \<le> i \<and> i \<le> m \<longrightarrow>
        spline_pivot dx i * z ! (i + 1) + dx * (if i < m then z ! (i + 2) else 0) = spline_reduced y dx i)"

lemma spline_backward:
  assumes "spline_lengths n w" "n = m + 3" "j \<le> m" "0 < dx" "\<forall>i<n. sw_h w ! i = dx"
    "\<forall>i\<le>m. sw_d w ! i = spline_pivot dx i" "spline_solved y dx m j (sw_ypp w)"
    and w': "w' = fold spline_backward_step (rev [0..<j]) w"
  shows "spline_lengths n w' \<and> spline_solved y dx m 0 (sw_ypp w')"
  using assms
proof (induction j arbitrary: w)
  case (Suc j)
  let ?v = "spline_backward_step j w"
  have piv: "spline_pivot dx j \<noteq> 0" using spline_pivot_pos [of dx j] Suc.prems(4) by linarith
  have "spline_lengths n ?v" "\<forall>i<n. sw_h ?v ! i = dx" "\<forall>i\<le>m. sw_d ?v ! i = spline_pivot dx i"
    using Suc.prems by (simp_all add: spline_backward_step_def spline_lengths_def)
  moreover have "spline_solved y dx m j (sw_ypp ?v)"
    unfolding spline_solved_def
  proof (intro conjI allI impI)
    fix i assume "i \<le> j"
    then show "sw_ypp ?v ! i = spline_reduced y dx i"
      using Suc.prems by (simp add: spline_backward_step_def spline_solved_def)
  next
    fix i assume i: "j \<le> i \<and> i \<le> m"
    show "spline_pivot dx i * sw_ypp ?v ! (i + 1) + dx * (if i < m then sw_ypp ?v ! (i + 2) else 0) =
        spline_reduced y dx i"
    proof (cases "i = j")
      case True
      then show ?thesis using Suc.prems piv
        by (simp add: spline_backward_step_def spline_solved_def spline_lengths_def)
    next
      case False
      then have "Suc j \<le> i \<and> i \<le> m" using i by simp
      then show ?thesis using Suc.prems(7)
        by (auto simp: spline_backward_step_def spline_solved_def nth_list_update)
    qed
  qed
  ultimately show ?case using Suc.IH [of ?v] Suc.prems by simp
qed simp

text \<open>Elimination and substitution solve the system.\<close>

lemma spline_solved_system:
  assumes s: "spline_solved y dx m 0 z" and dx: "0 < dx" and i: "i \<le> m"
  shows "dx * (if i = 0 then 0 else z ! i) + 4 * dx * z ! (i + 1) + dx * (if i < m then z ! (i + 2) else 0)
    = spline_rhs y dx (i + 1)"
proof (cases i)
  case 0
  then show ?thesis using s unfolding spline_solved_def by (auto dest: spec [of _ 0])
next
  case (Suc k)
  let ?D = "spline_pivot dx k" and ?n = "if i < m then z ! (i + 2) else 0"
  have D: "?D \<noteq> 0" using spline_pivot_pos [OF dx, of k] dx by linarith
  have prev: "?D * z ! (k + 1) + dx * z ! (k + 2) = spline_reduced y dx k"
    using s i Suc unfolding spline_solved_def by (auto dest: spec [of _ k])
  have "spline_pivot dx i * z ! (i + 1) + dx * ?n = spline_reduced y dx i"
    using s i unfolding spline_solved_def by blast
  then have "(4 * dx - dx / ?D * dx) * z ! (k + 2) + dx * ?n =
      spline_rhs y dx (i + 1) - (?D * z ! (k + 1) + dx * z ! (k + 2)) * (dx / ?D)"
    using prev Suc by simp
  also have "\<dots> = spline_rhs y dx (i + 1) - dx * z ! (k + 1) - dx / ?D * dx * z ! (k + 2)"
    using D by (simp add: field_simps)
  finally show ?thesis using Suc by (simp add: algebra_simps)
qed

text \<open>What the whole routine computes with natural boundaries.\<close>

definition natural_spline :: "real list \<Rightarrow> real \<Rightarrow> nat \<Rightarrow> real list \<Rightarrow> bool" where
  "natural_spline y dx n m \<longleftrightarrow> length m = n \<and> m ! 0 = 0 \<and> m ! (n - 1) = 0 \<and>
     (\<forall>i. 1 \<le> i \<and> i < n - 1 \<longrightarrow>
        dx * m ! (i - 1) + 4 * dx * m ! i + dx * m ! (i + 1) = spline_rhs y dx i)"

lemma spline_solve_natural:
  assumes w: "spline_lengths n w" and n: "n = m + 3" and dx: "0 < dx" and h: "\<forall>i<n. sw_h w ! i = dx"
    and g: "\<forall>i. 1 \<le> i \<and> i < n - 1 \<longrightarrow> sw_g w ! i = 4 * dx \<and> sw_dy w ! i = spline_rhs y dx i"
  shows "natural_spline y dx n ((sw_ypp (spline_solve n w))[0 := 0, n - 1 := 0])"
proof -
  define w0 where "w0 = w\<lparr>sw_d := (sw_d w)[0 := sw_g w ! 1], sw_ypp := (sw_ypp w)[0 := sw_dy w ! 1]\<rparr>"
  define w1 where "w1 = fold spline_forward_step [1..<Suc m] w0"
  define w2 where "w2 = w1\<lparr>sw_ypp := (sw_ypp w1)[m + 1 := sw_ypp w1 ! m / sw_d w1 ! m]\<rparr>"
  define w3 where "w3 = fold spline_backward_step (rev [0..<m]) w2"
  have solve: "spline_solve n w = w3"
    by (simp add: spline_solve_def Let_def n w3_def w2_def w1_def w0_def)
  have w0: "spline_lengths n w0" "sw_h w0 = sw_h w" "sw_g w0 = sw_g w" "sw_dy w0 = sw_dy w"
    "sw_d w0 ! 0 = spline_pivot dx 0" "sw_ypp w0 ! 0 = spline_reduced y dx 0"
    using w n g by (auto simp: spline_lengths_def w0_def)
  have fwd: "spline_lengths n w1" "sw_h w1 = sw_h w"
    "\<forall>i\<le>m. sw_d w1 ! i = spline_pivot dx i \<and> sw_ypp w1 ! i = spline_reduced y dx i"
    using spline_forward [OF w0(1) _ _ _ w0(5,6) w1_def] n h g w0(2-4) by simp_all
  have piv: "spline_pivot dx m \<noteq> 0" using spline_pivot_pos [OF dx, of m] dx by linarith
  have "sw_ypp w2 ! i = spline_reduced y dx i" if "i \<le> m" for i
    using fwd that by (simp add: w2_def)
  moreover have "spline_pivot dx m * sw_ypp w2 ! (m + 1) = spline_reduced y dx m"
    using fwd(1,3) n piv by (simp add: w2_def spline_lengths_def)
  ultimately have "spline_solved y dx m m (sw_ypp w2)"
    unfolding spline_solved_def by (metis add_0_right dual_order.antisym less_irrefl mult_zero_right)
  moreover have "spline_lengths n w2" "sw_h w2 = sw_h w" "sw_d w2 = sw_d w1"
    using fwd by (simp_all add: w2_def spline_lengths_def)
  ultimately have sol: "spline_lengths n w3 \<and> spline_solved y dx m 0 (sw_ypp w3)"
    using spline_backward [OF _ n _ dx _ _ _ w3_def] fwd(3) h by simp
  let ?z = "sw_ypp w3" and ?m = "(sw_ypp w3)[0 := 0, n - 1 := 0]"
  have len: "length ?z = n" using sol by (simp add: spline_lengths_def)
  have "dx * ?m ! (i - 1) + 4 * dx * ?m ! i + dx * ?m ! (i + 1) = spline_rhs y dx i"
    if "1 \<le> i" "i < n - 1" for i
    using spline_solved_system [OF conjunct2 [OF sol] dx, of "i - 1"] that len n
    by (cases i) (auto simp: nth_list_update split: if_splits)
  then have "\<forall>i. 1 \<le> i \<and> i < n - 1 \<longrightarrow>
      dx * ?m ! (i - 1) + 4 * dx * ?m ! i + dx * ?m ! (i + 1) = spline_rhs y dx i" by blast
  moreover have "length ?m = n" "?m ! 0 = 0" "?m ! (n - 1) = 0" using len n by simp_all
  ultimately show ?thesis unfolding natural_spline_def solve by blast
qed

lemma prepare_cubic:
  assumes n: "3 < n" and len: "length ypp = n" "5 * n \<le> length temp" and dx: "0 < dx"
  shows "natural_spline y dx n (fst (Math_interpol_prepare_equ True ypp temp y x0 dx (int n) MATH_INTERPOL_CUBIC)) \<and>
    snd (Math_interpol_prepare_equ True ypp temp y x0 dx (int n) MATH_INTERPOL_CUBIC) = 0"
proof -
  define m where "m = n - 3"
  have m: "n = m + 3" using n by (simp add: m_def)
  define w0 where "w0 = \<lparr>sw_l = take n temp, sw_d = take n (drop n temp), sw_h = take n (drop (2 * n) temp),
    sw_g = take n (drop (3 * n) temp), sw_dy = take n (drop (4 * n) temp), sw_ypp = ypp\<rparr>"
  define w1 where "w1 = fold (spline_fill_step y dx) [1..<Suc (n - 2)] (spline_fill_first dx w0)"
  define w where "w = spline_fill_last dx (n - 1) w1"
  have "spline_lengths n w0" using len by (simp add: spline_lengths_def w0_def)
  then have w1: "spline_lengths n w1" "\<forall>i\<le>n - 2. sw_h w1 ! i = dx"
    "\<forall>i. 1 \<le> i \<and> i \<le> n - 2 \<longrightarrow> sw_g w1 ! i = 4 * dx \<and> sw_dy w1 ! i = spline_rhs y dx i"
    using spline_fill [of n w0 "n - 2" dx w1 y] n dx w1_def by simp_all
  have w: "spline_lengths n w" "\<forall>i<n. sw_h w ! i = dx"
    "\<forall>i. 1 \<le> i \<and> i < n - 1 \<longrightarrow> sw_g w ! i = 4 * dx \<and> sw_dy w ! i = spline_rhs y dx i"
    using w1 n by (auto simp: w_def spline_fill_last_def spline_lengths_def nth_list_update)
  have "Suc (n - 2) = n - 1" using n by simp
  then have "Math_interpol_prepare_equ True ypp temp y x0 dx (int n) MATH_INTERPOL_CUBIC =
      ((sw_ypp (spline_solve n w))[0 := 0, n - 1 := 0], 0)"
    using n dx
    by (simp add: Math_interpol_prepare_equ_def Math_interpol_cubic_prepare_equ_def Let_def
        spline_begin_boundary_def spline_end_boundary_def spline_begin_value_def spline_end_value_def
        w_def w1_def w0_def)
  then show ?thesis using spline_solve_natural [OF w(1) m dx w(2,3)] by simp
qed

text \<open>C40: Preparing a cubic interpolation over more than three values succeeds and yields
  the second derivatives of the natural cubic spline through the values: zero at both ends, and
  solving the tridiagonal spline equations at every inner point.\<close>

theorem cubic_prepare_is_natural_spline:
  assumes "3 < n" "length ypp = n" "5 * n \<le> length temp" "0 < dx"
  shows "case Math_interpol_prepare_equ True ypp temp y x0 dx (int n) MATH_INTERPOL_CUBIC of (m, status) \<Rightarrow>
    status = 0 \<and> length m = n \<and> m ! 0 = 0 \<and> m ! (n - 1) = 0 \<and> (\<forall>i. 1 \<le> i \<and> i < n - 1 \<longrightarrow>
      dx * m ! (i - 1) + 4 * dx * m ! i + dx * m ! (i + 1) =
        6 * ((y ! (i + 1) - y ! i) / dx - (y ! i - y ! (i - 1)) / dx))"
  using prepare_cubic [OF assms]
  by (simp add: case_prod_beta natural_spline_def spline_rhs_def mult.commute)

theorem cubic_prepare_is_natural_spline_witness:
  "let m = fst (Math_interpol_prepare_equ True [0, 0, 0, 0] (replicate 20 0) [0, 1, 0, 2] 0 1 4 MATH_INTERPOL_CUBIC)
   in m ! 0 + 4 * m ! 1 + m ! 2 = - 12"
proof -
  let ?m = "fst (Math_interpol_prepare_equ True [0, 0, 0, 0] (replicate 20 0) [0, 1, 0, 2] 0 1 4 MATH_INTERPOL_CUBIC)"
  have "\<forall>i. 1 \<le> i \<and> i < 3 \<longrightarrow> ?m ! (i - 1) + 4 * ?m ! i + ?m ! (i + 1) =
      6 * (([0, 1, 0, 2] ! (i + 1) - [0, 1, 0, 2] ! i) - ([0, 1, 0, 2] ! i - [0, 1, 0, 2] ! (i - 1)))"
    using cubic_prepare_is_natural_spline [of 4 "[0, 0, 0, 0]" "replicate 20 0" 1 "[0, 1, 0, 2]" 0]
    by (simp add: case_prod_beta)
  from this [rule_format, of 1] show ?thesis by (simp add: Let_def numeral_2_eq_2)
qed

subsection \<open>The interpolant\<close>

text \<open>The polynomial pieces of the cubic interpolant, with their first and second derivatives.\<close>

definition spline_piece :: "real list \<Rightarrow> real list \<Rightarrow> real \<Rightarrow> real \<Rightarrow> nat \<Rightarrow> real \<Rightarrow> real" where
  "spline_piece y m x0 dx i x =
     (let t2 = (x0 + dx * real (i + 1) - x) / dx; t1 = (x - (x0 + dx * real i)) / dx
      in y ! (i + 1) * t1 + y ! i * t2 - m ! i * dx * dx * (t2 - t2 * t2 * t2) / 6
         - m ! (i + 1) * dx * dx * (t1 - t1 * t1 * t1) / 6)"

definition spline_piece' :: "real list \<Rightarrow> real list \<Rightarrow> real \<Rightarrow> real \<Rightarrow> nat \<Rightarrow> real \<Rightarrow> real" where
  "spline_piece' y m x0 dx i x =
     (let t2 = (x0 + dx * real (i + 1) - x) / dx; t1 = (x - (x0 + dx * real i)) / dx
      in (y ! (i + 1) - y ! i) / dx - m ! i * dx * (3 * t2 * t2 - 1) / 6
         - m ! (i + 1) * dx * (1 - 3 * t1 * t1) / 6)"

definition spline_piece'' :: "real list \<Rightarrow> real \<Rightarrow> real \<Rightarrow> nat \<Rightarrow> real \<Rightarrow> real" where
  "spline_piece'' m x0 dx i x =
     (m ! i * (x0 + dx * real (i + 1) - x) + m ! (i + 1) * (x - (x0 + dx * real i))) / dx"

lemma spline_piece_deriv:
  assumes "0 < dx"
  shows "(spline_piece y m x0 dx i has_real_derivative spline_piece' y m x0 dx i x) (at x)"
    and "(spline_piece' y m x0 dx i has_real_derivative spline_piece'' m x0 dx i x) (at x)"
  using assms
  by (auto simp: spline_piece_def [abs_def] spline_piece'_def [abs_def] spline_piece''_def Let_def
      field_simps intro!: derivative_eq_intros)

lemma truncate_real_floor: "0 \<le> r \<Longrightarrow> truncate_real r = \<lfloor>r\<rfloor>"
  by (simp add: truncate_real_def)

lemma abscissa_index:
  assumes "0 < dx" "x0 + dx * real i \<le> x" "x < x0 + dx * real (i + 1)"
  shows "Math_abscissa_index_equ x x0 dx n = int i"
proof -
  have "real i \<le> (x - x0) / dx" "(x - x0) / dx < real i + 1"
    using assms by (simp_all add: field_simps)
  moreover from this have "0 \<le> (x - x0) / dx" using of_nat_0_le_iff [of i] by linarith
  ultimately show ?thesis
    by (simp add: Math_abscissa_index_equ_def truncate_real_floor floor_eq_iff)
qed

lemma cubic_as_piece:
  assumes "0 < dx" "x0 + dx * real i \<le> x" "x < x0 + dx * real (i + 1)"
  shows "Math_interpol_cubic_y_equ x x0 dx y m n = spline_piece y m x0 dx i x"
    and "Math_interpol_cubic_yp_equ x x0 dx y m n = spline_piece' y m x0 dx i x"
    and "Math_interpol_cubic_ypp_equ x x0 dx y m n = spline_piece'' m x0 dx i x"
  by (simp_all add: abscissa_index [OF assms] Math_interpol_cubic_y_equ_def spline_piece_def
      Math_interpol_cubic_yp_equ_def spline_piece'_def Math_interpol_cubic_ypp_equ_def
      spline_piece''_def Let_def nat_add_distrib algebra_simps)

text \<open>Two functions that meet in a point with the same derivative.\<close>

lemma derivative_glue:
  fixes f :: "real \<Rightarrow> real"
  assumes l: "(l has_real_derivative c) (at x)" and r: "(r has_real_derivative c) (at x)"
    and fl: "\<forall>\<^sub>F z in at_left x. f z = l z" and fr: "\<forall>\<^sub>F z in at_right x. f z = r z"
    and eq: "f x = l x" "f x = r x"
  shows "(f has_real_derivative c) (at x)"
proof -
  have quotient: "((\<lambda>z. (f z - f x) / (z - x)) \<longlongrightarrow> c) (at x within S)"
    if g: "(g has_real_derivative c) (at x)" and ev: "\<forall>\<^sub>F z in at x within S. f z = g z" and "f x = g x" for g S
  proof -
    have "((\<lambda>z. (g z - g x) / (z - x)) \<longlongrightarrow> c) (at x within S)"
      using g unfolding has_field_derivative_iff by (rule tendsto_mono [rotated]) (rule at_le, simp)
    then show ?thesis
      by (rule Lim_transform_eventually) (use ev \<open>f x = g x\<close> in \<open>auto elim: eventually_mono\<close>)
  qed
  show ?thesis
    unfolding has_field_derivative_iff
    by (rule filterlim_split_at_real) (use quotient [OF l fl eq(1)] quotient [OF r fr eq(2)] in auto)
qed

text \<open>The cubic interpolation evaluated by the code is twice continuously differentiable at every inner
  knot when its coefficients come from the preparation: it takes the given value there, its derivative is
  the value that the code computes as first derivative, whose derivative in turn is the one computed as
  second derivative.\<close>

theorem cubic_interpolation_smooth:
  assumes prep: "Math_interpol_prepare_equ True ypp temp y x0 dx (int n) MATH_INTERPOL_CUBIC = (m, 0)"
    and n: "3 < n" "length ypp = n" "5 * n \<le> length temp" and dx: "0 < dx"
    and i: "1 \<le> i" "i < n - 1"
  shows "let x = x0 + dx * real i in
    Math_interpol_cubic_y_equ x x0 dx y m (int n) = y ! i \<and>
    ((\<lambda>x. Math_interpol_cubic_y_equ x x0 dx y m (int n)) has_real_derivative
       Math_interpol_cubic_yp_equ x x0 dx y m (int n)) (at x) \<and>
    ((\<lambda>x. Math_interpol_cubic_yp_equ x x0 dx y m (int n)) has_real_derivative
       Math_interpol_cubic_ypp_equ x x0 dx y m (int n)) (at x)"
proof -
  define x where "x = x0 + dx * real i"
  obtain k where k: "i = Suc k" using i by (cases i) auto
  have system: "dx * m ! k + 4 * dx * m ! i + dx * m ! (i + 1) = spline_rhs y dx i"
  proof -
    have "\<forall>i. 1 \<le> i \<and> i < n - 1 \<longrightarrow>
        dx * m ! (i - 1) + 4 * dx * m ! i + dx * m ! (i + 1) = spline_rhs y dx i"
      using prepare_cubic [OF n dx, of y x0] unfolding prep natural_spline_def by simp
    from this [rule_format, of i] show ?thesis using i by (simp add: k)
  qed
  have here: "x0 + dx * real i \<le> x" "x < x0 + dx * real (i + 1)" using dx by (simp_all add: x_def)
  note at_x = cubic_as_piece [OF dx here]
  have left: "\<forall>\<^sub>F z in at_left x. x0 + dx * real k \<le> z \<and> z < x0 + dx * real (k + 1)"
    by (rule eventually_at_leftI [of "x0 + dx * real k"]) (use dx in \<open>simp_all add: x_def k algebra_simps\<close>)
  have right: "\<forall>\<^sub>F z in at_right x. x0 + dx * real i \<le> z \<and> z < x0 + dx * real (i + 1)"
    by (rule eventually_at_rightI [of _ "x0 + dx * real (i + 1)"]) (use dx in \<open>simp_all add: x_def\<close>)
  have meet: "spline_piece y m x0 dx i x = y ! i" "spline_piece y m x0 dx k x = y ! i"
    "spline_piece'' m x0 dx k x = spline_piece'' m x0 dx i x"
    using dx by (simp_all add: spline_piece_def spline_piece''_def x_def k field_simps)
  have slope: "spline_piece' y m x0 dx k x = spline_piece' y m x0 dx i x"
  proof -
    have k1: "(x0 + dx * real (k + 1) - x) / dx = 0" "(x - (x0 + dx * real k)) / dx = 1"
      "(x0 + dx * real (i + 1) - x) / dx = 1" "(x - (x0 + dx * real i)) / dx = 0"
      using dx by (simp_all add: x_def k field_simps)
    define A B where "A = (y ! (i + 1) - y ! i) / dx" and "B = (y ! i - y ! k) / dx"
    have "dx * m ! k + 4 * (dx * m ! i) + dx * m ! (i + 1) = (A - B) * 6"
      using system by (simp add: A_def B_def spline_rhs_def k)
    moreover have "spline_piece' y m x0 dx k x = B + dx * m ! k / 6 + dx * m ! i / 3"
      unfolding spline_piece'_def Let_def k1 by (simp add: B_def k mult.commute)
    moreover have "spline_piece' y m x0 dx i x = A - dx * m ! i / 3 - dx * m ! (i + 1) / 6"
      unfolding spline_piece'_def Let_def k1 by (simp add: A_def mult.commute)
    moreover have "B + a / 6 + b / 3 = A - b / 3 - c / 6" if "a + 4 * b + c = (A - B) * 6" for a b c
      using that by (simp add: field_simps)
    ultimately show ?thesis by presburger
  qed
  have "((\<lambda>x. Math_interpol_cubic_y_equ x x0 dx y m (int n)) has_real_derivative spline_piece' y m x0 dx i x) (at x)"
  proof (rule derivative_glue)
    show "(spline_piece y m x0 dx k has_real_derivative spline_piece' y m x0 dx i x) (at x)"
      using spline_piece_deriv(1) [OF dx, of y m x0 k x] slope by simp
    show "(spline_piece y m x0 dx i has_real_derivative spline_piece' y m x0 dx i x) (at x)"
      by (rule spline_piece_deriv(1) [OF dx])
  qed (use left right cubic_as_piece(1) [OF dx] at_x(1) meet in \<open>auto elim!: eventually_mono\<close>)
  moreover have "((\<lambda>x. Math_interpol_cubic_yp_equ x x0 dx y m (int n)) has_real_derivative
      spline_piece'' m x0 dx i x) (at x)"
  proof (rule derivative_glue)
    show "(spline_piece' y m x0 dx k has_real_derivative spline_piece'' m x0 dx i x) (at x)"
      using spline_piece_deriv(2) [OF dx, of y m x0 k x] meet(3) by simp
    show "(spline_piece' y m x0 dx i has_real_derivative spline_piece'' m x0 dx i x) (at x)"
      by (rule spline_piece_deriv(2) [OF dx])
  qed (use left right cubic_as_piece(2) [OF dx] at_x(2) slope in \<open>auto elim!: eventually_mono\<close>)
  ultimately show ?thesis using at_x meet(1) by (simp add: Let_def flip: x_def)
qed

theorem cubic_interpolation_smooth_witness:
  "let m = fst (Math_interpol_prepare_equ True [0, 0, 0, 0] (replicate 20 0) [0, 1, 0, 2] 0 1 4 MATH_INTERPOL_CUBIC)
   in Math_interpol_cubic_y_equ 1 0 1 [0, 1, 0, 2] m 4 = 1 \<and>
      ((\<lambda>x. Math_interpol_cubic_y_equ x 0 1 [0, 1, 0, 2] m 4) has_real_derivative
         Math_interpol_cubic_yp_equ 1 0 1 [0, 1, 0, 2] m 4) (at 1)"
proof -
  let ?p = "Math_interpol_prepare_equ True [0, 0, 0, 0] (replicate 20 0) [0, 1, 0, 2] 0 1 (int 4) MATH_INTERPOL_CUBIC"
  have "?p = (fst ?p, 0)"
    using prepare_cubic [of 4 "[0, 0, 0, 0]" "replicate 20 0" 1 "[0, 1, 0, 2]" 0] by (simp add: prod_eq_iff)
  from cubic_interpolation_smooth [OF this, of 1] show ?thesis by (simp add: Let_def)
qed

end
