(* ===== verification/Beam_Fields.thy ===== *)
theory Beam_Fields
  imports Gauss_Fields Math_Interpol
begin

section \<open>Beam-beam and space charge elements (be_beamfields)\<close>

text \<open>
  The elements that kick a particle by the field of a beam: the four-dimensional beam-beam lens and space
  charge for a coasting beam, for a q-Gaussian bunch and for a bunch with an interpolated line density.
  Fields that hold an address are \<open>option\<close>s of what the address points to, \<open>None\<close> for the address 0.
  The tracking functions read the data behind the address, which the code does not check, so they take
  it as an argument or use \<open>the\<close>.
\<close>

subsection \<open>Structures\<close>

record BB4D_data =
  bb4_q_part :: real
  bb4_N_part :: real
  bb4_sigma_x :: real
  bb4_sigma_y :: real
  bb4_beta_s :: real
  bb4_min_sigma_diff :: real
  bb4_Delta_x :: real
  bb4_Delta_y :: real
  bb4_Dpx_sub :: real
  bb4_Dpy_sub :: real
  bb4_enabled :: real

record BeamBeam4D =
  BeamBeam4D_data_size :: u64
  BeamBeam4D_data :: "BB4D_data option"

definition BeamBeam4D_set_data_addr ::
    "BeamBeam4D \<Rightarrow> BB4D_data option \<Rightarrow> BeamBeam4D \<times> arch_status" where
  "BeamBeam4D_set_data_addr bb_elem data_addr = (bb_elem\<lparr>BeamBeam4D_data := data_addr\<rparr>, 0)"

record SCCoasting =
  SCCoasting_number_of_particles :: real
  SCCoasting_circumference :: real
  SCCoasting_sigma_x :: real
  SCCoasting_sigma_y :: real
  SCCoasting_length :: real
  SCCoasting_x_co :: real
  SCCoasting_y_co :: real
  SCCoasting_min_sigma_diff :: real
  SCCoasting_enabled_field :: u64

definition SCCoasting_set_number_of_particles :: "SCCoasting \<Rightarrow> real \<Rightarrow> SCCoasting \<times> arch_status" where
  "SCCoasting_set_number_of_particles e number_of_particles = (e\<lparr>SCCoasting_number_of_particles := number_of_particles\<rparr>, 0)"

definition SCCoasting_set_circumference :: "SCCoasting \<Rightarrow> real \<Rightarrow> SCCoasting \<times> arch_status" where
  "SCCoasting_set_circumference e circumference = (e\<lparr>SCCoasting_circumference := circumference\<rparr>, 0)"

definition SCCoasting_set_sigma_x :: "SCCoasting \<Rightarrow> real \<Rightarrow> SCCoasting \<times> arch_status" where
  "SCCoasting_set_sigma_x e sigma_x = (e\<lparr>SCCoasting_sigma_x := sigma_x\<rparr>, 0)"

definition SCCoasting_set_sigma_y :: "SCCoasting \<Rightarrow> real \<Rightarrow> SCCoasting \<times> arch_status" where
  "SCCoasting_set_sigma_y e sigma_y = (e\<lparr>SCCoasting_sigma_y := sigma_y\<rparr>, 0)"

definition SCCoasting_set_length :: "SCCoasting \<Rightarrow> real \<Rightarrow> SCCoasting \<times> arch_status" where
  "SCCoasting_set_length e len = (e\<lparr>SCCoasting_length := len\<rparr>, 0)"

definition SCCoasting_set_x_co :: "SCCoasting \<Rightarrow> real \<Rightarrow> SCCoasting \<times> arch_status" where
  "SCCoasting_set_x_co e x_co = (e\<lparr>SCCoasting_x_co := x_co\<rparr>, 0)"

definition SCCoasting_set_y_co :: "SCCoasting \<Rightarrow> real \<Rightarrow> SCCoasting \<times> arch_status" where
  "SCCoasting_set_y_co e y_co = (e\<lparr>SCCoasting_y_co := y_co\<rparr>, 0)"

definition SCCoasting_set_min_sigma_diff :: "SCCoasting \<Rightarrow> real \<Rightarrow> SCCoasting \<times> arch_status" where
  "SCCoasting_set_min_sigma_diff e min_sigma_diff = (e\<lparr>SCCoasting_min_sigma_diff := min_sigma_diff\<rparr>, 0)"

definition SCCoasting_enabled :: "SCCoasting \<Rightarrow> bool" where
  "SCCoasting_enabled e \<longleftrightarrow> SCCoasting_enabled_field e = 1"

definition SCCoasting_set_enabled :: "SCCoasting \<Rightarrow> bool \<Rightarrow> SCCoasting \<times> arch_status" where
  "SCCoasting_set_enabled e is_enabled = (e\<lparr>SCCoasting_enabled_field := if is_enabled then 1 else 0\<rparr>, 0)"

definition SCCoasting_clear :: "SCCoasting \<Rightarrow> SCCoasting \<times> arch_status" where
  "SCCoasting_clear e =
     (let (e, status1) = SCCoasting_set_number_of_particles e 0;
          (e, status2) = SCCoasting_set_circumference e 1;
          (e, status3) = SCCoasting_set_sigma_x e 1;
          (e, status4) = SCCoasting_set_sigma_y e 1;
          (e, status5) = SCCoasting_set_length e 0;
          (e, status6) = SCCoasting_set_x_co e 0;
          (e, status7) = SCCoasting_set_y_co e 0;
          (e, status8) = SCCoasting_set_min_sigma_diff e (1 / 10 ^ 10);
          (e, status9) = SCCoasting_set_enabled e True
      in (e, status1 OR status2 OR status3 OR status4 OR status5 OR status6 OR status7 OR status8 OR status9))"

definition SCCoasting_copy :: "bool \<Rightarrow> SCCoasting \<Rightarrow> SCCoasting \<Rightarrow> SCCoasting \<times> arch_status" where
  "SCCoasting_copy same dest src =
     (if \<not> same then
        let (dest, status1) = SCCoasting_set_number_of_particles dest (SCCoasting_number_of_particles src);
          (dest, status2) = SCCoasting_set_circumference dest (SCCoasting_circumference src);
          (dest, status3) = SCCoasting_set_sigma_x dest (SCCoasting_sigma_x src);
          (dest, status4) = SCCoasting_set_sigma_y dest (SCCoasting_sigma_y src);
          (dest, status5) = SCCoasting_set_length dest (SCCoasting_length src);
          (dest, status6) = SCCoasting_set_x_co dest (SCCoasting_x_co src);
          (dest, status7) = SCCoasting_set_y_co dest (SCCoasting_y_co src);
          (dest, status8) = SCCoasting_set_min_sigma_diff dest (SCCoasting_min_sigma_diff src);
          (dest, status9) = SCCoasting_set_enabled dest (SCCoasting_enabled src)
      in (dest, status1 OR status2 OR status3 OR status4 OR status5 OR status6 OR status7 OR status8 OR status9)
      else (dest, 0))"

record SCQGaussProfile =
  SCQGaussProfile_number_of_particles :: real
  SCQGaussProfile_bunchlength_rms :: real
  SCQGaussProfile_sigma_x :: real
  SCQGaussProfile_sigma_y :: real
  SCQGaussProfile_length :: real
  SCQGaussProfile_x_co :: real
  SCQGaussProfile_y_co :: real
  SCQGaussProfile_min_sigma_diff :: real
  SCQGaussProfile_q_param :: real
  SCQGaussProfile_cq :: real
  SCQGaussProfile_enabled_field :: u64

definition SCQGaussProfile_set_number_of_particles :: "SCQGaussProfile \<Rightarrow> real \<Rightarrow> SCQGaussProfile \<times> arch_status" where
  "SCQGaussProfile_set_number_of_particles e number_of_particles = (e\<lparr>SCQGaussProfile_number_of_particles := number_of_particles\<rparr>, 0)"

definition SCQGaussProfile_set_bunchlength_rms :: "SCQGaussProfile \<Rightarrow> real \<Rightarrow> SCQGaussProfile \<times> arch_status" where
  "SCQGaussProfile_set_bunchlength_rms e bunchlength_rms = (e\<lparr>SCQGaussProfile_bunchlength_rms := bunchlength_rms\<rparr>, 0)"

definition SCQGaussProfile_set_sigma_x :: "SCQGaussProfile \<Rightarrow> real \<Rightarrow> SCQGaussProfile \<times> arch_status" where
  "SCQGaussProfile_set_sigma_x e sigma_x = (e\<lparr>SCQGaussProfile_sigma_x := sigma_x\<rparr>, 0)"

definition SCQGaussProfile_set_sigma_y :: "SCQGaussProfile \<Rightarrow> real \<Rightarrow> SCQGaussProfile \<times> arch_status" where
  "SCQGaussProfile_set_sigma_y e sigma_y = (e\<lparr>SCQGaussProfile_sigma_y := sigma_y\<rparr>, 0)"

definition SCQGaussProfile_set_length :: "SCQGaussProfile \<Rightarrow> real \<Rightarrow> SCQGaussProfile \<times> arch_status" where
  "SCQGaussProfile_set_length e len = (e\<lparr>SCQGaussProfile_length := len\<rparr>, 0)"

definition SCQGaussProfile_set_x_co :: "SCQGaussProfile \<Rightarrow> real \<Rightarrow> SCQGaussProfile \<times> arch_status" where
  "SCQGaussProfile_set_x_co e x_co = (e\<lparr>SCQGaussProfile_x_co := x_co\<rparr>, 0)"

definition SCQGaussProfile_set_y_co :: "SCQGaussProfile \<Rightarrow> real \<Rightarrow> SCQGaussProfile \<times> arch_status" where
  "SCQGaussProfile_set_y_co e y_co = (e\<lparr>SCQGaussProfile_y_co := y_co\<rparr>, 0)"

definition SCQGaussProfile_set_min_sigma_diff :: "SCQGaussProfile \<Rightarrow> real \<Rightarrow> SCQGaussProfile \<times> arch_status" where
  "SCQGaussProfile_set_min_sigma_diff e min_sigma_diff = (e\<lparr>SCQGaussProfile_min_sigma_diff := min_sigma_diff\<rparr>, 0)"

definition SCQGaussProfile_set_q_param :: "SCQGaussProfile \<Rightarrow> real \<Rightarrow> SCQGaussProfile \<times> arch_status" where
  "SCQGaussProfile_set_q_param e q_param =
     (if q_param < 3 then
        (e\<lparr>SCQGaussProfile_q_param := q_param, SCQGaussProfile_cq := Math_q_gauss_cq q_param\<rparr>, 0)
      else (e, - 1))"

definition SCQGaussProfile_enabled :: "SCQGaussProfile \<Rightarrow> bool" where
  "SCQGaussProfile_enabled e \<longleftrightarrow> SCQGaussProfile_enabled_field e = 1"

definition SCQGaussProfile_set_enabled :: "SCQGaussProfile \<Rightarrow> bool \<Rightarrow> SCQGaussProfile \<times> arch_status" where
  "SCQGaussProfile_set_enabled e is_enabled = (e\<lparr>SCQGaussProfile_enabled_field := if is_enabled then 1 else 0\<rparr>, 0)"

definition SCQGaussProfile_clear :: "SCQGaussProfile \<Rightarrow> SCQGaussProfile \<times> arch_status" where
  "SCQGaussProfile_clear e =
     (let (e, status1) = SCQGaussProfile_set_number_of_particles e 0;
          (e, status2) = SCQGaussProfile_set_bunchlength_rms e 1;
          (e, status3) = SCQGaussProfile_set_sigma_x e 1;
          (e, status4) = SCQGaussProfile_set_sigma_y e 1;
          (e, status5) = SCQGaussProfile_set_length e 0;
          (e, status6) = SCQGaussProfile_set_x_co e 0;
          (e, status7) = SCQGaussProfile_set_y_co e 0;
          (e, status8) = SCQGaussProfile_set_q_param e 1;
          (e, status9) = SCQGaussProfile_set_enabled e True
      in (e, status1 OR status2 OR status3 OR status4 OR status5 OR status6 OR status7 OR status8 OR status9))"

definition SCQGaussProfile_copy :: "bool \<Rightarrow> SCQGaussProfile \<Rightarrow> SCQGaussProfile \<Rightarrow> SCQGaussProfile \<times> arch_status" where
  "SCQGaussProfile_copy same dest src =
     (if \<not> same then
        let (dest, status1) = SCQGaussProfile_set_number_of_particles dest (SCQGaussProfile_number_of_particles src);
          (dest, status2) = SCQGaussProfile_set_bunchlength_rms dest (SCQGaussProfile_bunchlength_rms src);
          (dest, status3) = SCQGaussProfile_set_sigma_x dest (SCQGaussProfile_sigma_x src);
          (dest, status4) = SCQGaussProfile_set_sigma_y dest (SCQGaussProfile_sigma_y src);
          (dest, status5) = SCQGaussProfile_set_length dest (SCQGaussProfile_length src);
          (dest, status6) = SCQGaussProfile_set_x_co dest (SCQGaussProfile_x_co src);
          (dest, status7) = SCQGaussProfile_set_y_co dest (SCQGaussProfile_y_co src);
          (dest, status8) = SCQGaussProfile_set_min_sigma_diff dest (SCQGaussProfile_min_sigma_diff src);
          (dest, status9) = SCQGaussProfile_set_q_param dest (SCQGaussProfile_q_param src);
          (dest, status10) = SCQGaussProfile_set_enabled dest (SCQGaussProfile_enabled src)
      in (dest, status1 OR status2 OR status3 OR status4 OR status5 OR status6 OR status7 OR status8 OR status9 OR status10)
      else (dest, 0))"

record LineDensityProfileData =
  LineDensityProfileData_method :: math_interpol
  LineDensityProfileData_capacity :: i64
  LineDensityProfileData_values :: "real list option"
  LineDensityProfileData_derivatives :: "real list option"
  LineDensityProfileData_z0 :: real
  LineDensityProfileData_dz :: real
  LineDensityProfileData_num_values :: i64

definition LineDensityProfileData_set_z0 :: "LineDensityProfileData \<Rightarrow> real \<Rightarrow> LineDensityProfileData \<times> arch_status" where
  "LineDensityProfileData_set_z0 e z0 = (e\<lparr>LineDensityProfileData_z0 := z0\<rparr>, 0)"

definition LineDensityProfileData_set_dz :: "LineDensityProfileData \<Rightarrow> real \<Rightarrow> LineDensityProfileData \<times> arch_status" where
  "LineDensityProfileData_set_dz e dz = (e\<lparr>LineDensityProfileData_dz := dz\<rparr>, 0)"

definition LineDensityProfileData_set_num_values :: "LineDensityProfileData \<Rightarrow> i64 \<Rightarrow> LineDensityProfileData \<times> arch_status" where
  "LineDensityProfileData_set_num_values e num_values = (e\<lparr>LineDensityProfileData_num_values := num_values\<rparr>, 0)"

definition LineDensityProfileData_set_capacity :: "LineDensityProfileData \<Rightarrow> i64 \<Rightarrow> LineDensityProfileData \<times> arch_status" where
  "LineDensityProfileData_set_capacity e capacity = (e\<lparr>LineDensityProfileData_capacity := capacity\<rparr>, 0)"

definition LineDensityProfileData_set_method :: "LineDensityProfileData \<Rightarrow> math_interpol \<Rightarrow> LineDensityProfileData \<times> arch_status" where
  "LineDensityProfileData_set_method e method = (e\<lparr>LineDensityProfileData_method := method\<rparr>, 0)"

definition LineDensityProfileData_set_values_addr :: "LineDensityProfileData \<Rightarrow> real list option \<Rightarrow> LineDensityProfileData \<times> arch_status" where
  "LineDensityProfileData_set_values_addr e values_addr = (e\<lparr>LineDensityProfileData_values := values_addr\<rparr>, 0)"

definition LineDensityProfileData_set_derivatives_addr :: "LineDensityProfileData \<Rightarrow> real list option \<Rightarrow> LineDensityProfileData \<times> arch_status" where
  "LineDensityProfileData_set_derivatives_addr e derivatives_addr = (e\<lparr>LineDensityProfileData_derivatives := derivatives_addr\<rparr>, 0)"

definition LineDensityProfileData_clear :: "LineDensityProfileData \<Rightarrow> LineDensityProfileData \<times> arch_status" where
  "LineDensityProfileData_clear e =
     (let (e, status1) = LineDensityProfileData_set_method e MATH_INTERPOL_NONE;
          (e, status2) = LineDensityProfileData_set_capacity e 2;
          (e, status3) = LineDensityProfileData_set_values_addr e None;
          (e, status4) = LineDensityProfileData_set_derivatives_addr e None;
          (e, status5) = LineDensityProfileData_set_z0 e 0;
          (e, status6) = LineDensityProfileData_set_dz e 1;
          (e, status7) = LineDensityProfileData_set_num_values e 0
      in (e, status1 OR status2 OR status3 OR status4 OR status5 OR status6 OR status7))"

definition LineDensityProfileData_value_at_idx :: "LineDensityProfileData \<Rightarrow> i64 \<Rightarrow> real" where
  "LineDensityProfileData_value_at_idx data idx = the (LineDensityProfileData_values data) ! nat idx"

definition LineDensityProfileData_derivatives_at_idx :: "LineDensityProfileData \<Rightarrow> i64 \<Rightarrow> real" where
  "LineDensityProfileData_derivatives_at_idx data idx =
     the (LineDensityProfileData_derivatives data) ! nat idx"

definition LineDensityProfileData_z_min :: "LineDensityProfileData \<Rightarrow> real" where
  "LineDensityProfileData_z_min data = LineDensityProfileData_z0 data"

definition LineDensityProfileData_z_max :: "LineDensityProfileData \<Rightarrow> real" where
  "LineDensityProfileData_z_max data = LineDensityProfileData_z0 data +
     LineDensityProfileData_dz data * real_of_int (LineDensityProfileData_num_values data)"

definition LineDensityProfileData_find_idx :: "LineDensityProfileData \<Rightarrow> real \<Rightarrow> i64" where
  "LineDensityProfileData_find_idx data z =
     Math_abscissa_index_equ z (LineDensityProfileData_z0 data) (LineDensityProfileData_dz data)
       (LineDensityProfileData_num_values data)"

definition LineDensityProfileData_interpolate_value :: "LineDensityProfileData \<Rightarrow> real \<Rightarrow> real" where
  "LineDensityProfileData_interpolate_value data z =
     (if z \<le> LineDensityProfileData_z_max data \<and> z \<ge> LineDensityProfileData_z_min data then
        Math_interpol_y_equ z (LineDensityProfileData_z0 data) (LineDensityProfileData_dz data)
          (the (LineDensityProfileData_values data)) (the (LineDensityProfileData_derivatives data))
          (LineDensityProfileData_num_values data) (LineDensityProfileData_method data)
      else 0)"

definition LineDensityProfileData_interpolate_1st_derivative :: "LineDensityProfileData \<Rightarrow> real \<Rightarrow> real" where
  "LineDensityProfileData_interpolate_1st_derivative data z =
     (if z \<le> LineDensityProfileData_z_max data \<and> z \<ge> LineDensityProfileData_z_min data then
        Math_interpol_yp_equ z (LineDensityProfileData_z0 data) (LineDensityProfileData_dz data)
          (the (LineDensityProfileData_values data)) (the (LineDensityProfileData_derivatives data))
          (LineDensityProfileData_num_values data) (LineDensityProfileData_method data)
      else 0)"

definition LineDensityProfileData_interpolate_2nd_derivative :: "LineDensityProfileData \<Rightarrow> real \<Rightarrow> real" where
  "LineDensityProfileData_interpolate_2nd_derivative data z =
     (if z \<le> LineDensityProfileData_z_max data \<and> z \<ge> LineDensityProfileData_z_min data then
        Math_interpol_ypp_equ z (LineDensityProfileData_z0 data) (LineDensityProfileData_dz data)
          (the (LineDensityProfileData_values data)) (the (LineDensityProfileData_derivatives data))
          (LineDensityProfileData_num_values data) (LineDensityProfileData_method data)
      else 0)"

text \<open>
  The values and the derivatives of a profile lie in different arrays. The status starts as the debugging
  failure flag, whose lower 32 bits are zero: converted to a status it is 0, the success value, so that
  the call reports success when it does nothing.
\<close>

definition SIXTRL_ARCH_DEBUGGING_GENERAL_FAILURE :: u64 where
  "SIXTRL_ARCH_DEBUGGING_GENERAL_FAILURE = 0xFFFFFFFF00000000"

definition status_of_flags :: "u64 \<Rightarrow> arch_status" where
  "status_of_flags flags = sint (ucast flags :: 32 word)"

definition LineDensityProfileData_prepare_interpolation ::
    "LineDensityProfileData \<Rightarrow> real list \<Rightarrow> LineDensityProfileData \<times> arch_status" where
  "LineDensityProfileData_prepare_interpolation data temp_data =
     (case (LineDensityProfileData_values data, LineDensityProfileData_derivatives data) of
        (Some vals, Some derivs) \<Rightarrow>
          if LineDensityProfileData_num_values data > 0 then
            let (derivs, status) = Math_interpol_prepare_equ True derivs temp_data vals
                  (LineDensityProfileData_z0 data) (LineDensityProfileData_dz data)
                  (LineDensityProfileData_num_values data) (LineDensityProfileData_method data)
            in (data\<lparr>LineDensityProfileData_derivatives := Some derivs\<rparr>, status)
          else (data, status_of_flags SIXTRL_ARCH_DEBUGGING_GENERAL_FAILURE)
      | _ \<Rightarrow> (data, status_of_flags SIXTRL_ARCH_DEBUGGING_GENERAL_FAILURE))"

text \<open>Copying between two profiles whose arrays do not overlap; with \<open>same\<close> both are one profile.\<close>

definition LineDensityProfileData_copy ::
    "bool \<Rightarrow> LineDensityProfileData \<Rightarrow> LineDensityProfileData \<Rightarrow> LineDensityProfileData \<times> arch_status" where
  "LineDensityProfileData_copy same dest src =
     (if LineDensityProfileData_capacity dest \<ge> LineDensityProfileData_num_values src then
        if same then (dest, 0)
        else case (LineDensityProfileData_values dest, LineDensityProfileData_values src,
                   LineDensityProfileData_derivatives dest, LineDensityProfileData_derivatives src) of
          (Some dest_values, Some src_values, Some dest_derivatives, Some src_derivatives) \<Rightarrow>
            let num_values = LineDensityProfileData_num_values src;
                (dest, s1) = LineDensityProfileData_set_method dest (LineDensityProfileData_method src);
                (dest, s2) = LineDensityProfileData_set_num_values dest num_values;
                (dest, s3) = LineDensityProfileData_set_z0 dest (LineDensityProfileData_z0 src);
                (dest, s4) = LineDensityProfileData_set_dz dest (LineDensityProfileData_dz src)
            in (dest\<lparr>LineDensityProfileData_values :=
                    Some (fold (\<lambda>ii v. v[ii := src_values ! ii]) [0..<nat num_values] dest_values),
                  LineDensityProfileData_derivatives :=
                    Some (fold (\<lambda>ii v. v[ii := src_derivatives ! ii]) [0..<nat num_values] dest_derivatives)\<rparr>, 0)
        | _ \<Rightarrow> (dest, - 1)
      else (dest, - 1))"

record SCInterpolatedProfile =
  SCInterpolatedProfile_number_of_particles :: real
  SCInterpolatedProfile_sigma_x :: real
  SCInterpolatedProfile_sigma_y :: real
  SCInterpolatedProfile_length :: real
  SCInterpolatedProfile_x_co :: real
  SCInterpolatedProfile_y_co :: real
  SCInterpolatedProfile_interpol_data :: "LineDensityProfileData option"
  SCInterpolatedProfile_line_density_prof_fallback :: real
  SCInterpolatedProfile_min_sigma_diff :: real
  SCInterpolatedProfile_enabled_field :: u64

definition SCInterpolatedProfile_set_number_of_particles :: "SCInterpolatedProfile \<Rightarrow> real \<Rightarrow> SCInterpolatedProfile \<times> arch_status" where
  "SCInterpolatedProfile_set_number_of_particles e number_of_particles = (e\<lparr>SCInterpolatedProfile_number_of_particles := number_of_particles\<rparr>, 0)"

definition SCInterpolatedProfile_set_sigma_x :: "SCInterpolatedProfile \<Rightarrow> real \<Rightarrow> SCInterpolatedProfile \<times> arch_status" where
  "SCInterpolatedProfile_set_sigma_x e sigma_x = (e\<lparr>SCInterpolatedProfile_sigma_x := sigma_x\<rparr>, 0)"

definition SCInterpolatedProfile_set_sigma_y :: "SCInterpolatedProfile \<Rightarrow> real \<Rightarrow> SCInterpolatedProfile \<times> arch_status" where
  "SCInterpolatedProfile_set_sigma_y e sigma_y = (e\<lparr>SCInterpolatedProfile_sigma_y := sigma_y\<rparr>, 0)"

definition SCInterpolatedProfile_set_length :: "SCInterpolatedProfile \<Rightarrow> real \<Rightarrow> SCInterpolatedProfile \<times> arch_status" where
  "SCInterpolatedProfile_set_length e len = (e\<lparr>SCInterpolatedProfile_length := len\<rparr>, 0)"

definition SCInterpolatedProfile_set_x_co :: "SCInterpolatedProfile \<Rightarrow> real \<Rightarrow> SCInterpolatedProfile \<times> arch_status" where
  "SCInterpolatedProfile_set_x_co e x_co = (e\<lparr>SCInterpolatedProfile_x_co := x_co\<rparr>, 0)"

definition SCInterpolatedProfile_set_y_co :: "SCInterpolatedProfile \<Rightarrow> real \<Rightarrow> SCInterpolatedProfile \<times> arch_status" where
  "SCInterpolatedProfile_set_y_co e y_co = (e\<lparr>SCInterpolatedProfile_y_co := y_co\<rparr>, 0)"

definition SCInterpolatedProfile_set_line_density_prof_fallback :: "SCInterpolatedProfile \<Rightarrow> real \<Rightarrow> SCInterpolatedProfile \<times> arch_status" where
  "SCInterpolatedProfile_set_line_density_prof_fallback e line_density_prof_fallback = (e\<lparr>SCInterpolatedProfile_line_density_prof_fallback := line_density_prof_fallback\<rparr>, 0)"

definition SCInterpolatedProfile_set_min_sigma_diff :: "SCInterpolatedProfile \<Rightarrow> real \<Rightarrow> SCInterpolatedProfile \<times> arch_status" where
  "SCInterpolatedProfile_set_min_sigma_diff e min_sigma_diff = (e\<lparr>SCInterpolatedProfile_min_sigma_diff := min_sigma_diff\<rparr>, 0)"

definition SCInterpolatedProfile_set_interpol_data_addr ::
    "SCInterpolatedProfile \<Rightarrow> LineDensityProfileData option \<Rightarrow> SCInterpolatedProfile \<times> arch_status" where
  "SCInterpolatedProfile_set_interpol_data_addr e interpol_data_addr = (e\<lparr>SCInterpolatedProfile_interpol_data := interpol_data_addr\<rparr>, 0)"

definition SCInterpolatedProfile_enabled :: "SCInterpolatedProfile \<Rightarrow> bool" where
  "SCInterpolatedProfile_enabled e \<longleftrightarrow> SCInterpolatedProfile_enabled_field e = 1"

definition SCInterpolatedProfile_set_enabled :: "SCInterpolatedProfile \<Rightarrow> bool \<Rightarrow> SCInterpolatedProfile \<times> arch_status" where
  "SCInterpolatedProfile_set_enabled e is_enabled = (e\<lparr>SCInterpolatedProfile_enabled_field := if is_enabled then 1 else 0\<rparr>, 0)"

definition SCInterpolatedProfile_clear :: "SCInterpolatedProfile \<Rightarrow> SCInterpolatedProfile \<times> arch_status" where
  "SCInterpolatedProfile_clear e =
     (let (e, status1) = SCInterpolatedProfile_set_number_of_particles e 0;
          (e, status2) = SCInterpolatedProfile_set_sigma_x e 1;
          (e, status3) = SCInterpolatedProfile_set_sigma_y e 1;
          (e, status4) = SCInterpolatedProfile_set_length e 0;
          (e, status5) = SCInterpolatedProfile_set_x_co e 0;
          (e, status6) = SCInterpolatedProfile_set_y_co e 0;
          (e, status7) = SCInterpolatedProfile_set_interpol_data_addr e None;
          (e, status8) = SCInterpolatedProfile_set_line_density_prof_fallback e 1;
          (e, status9) = SCInterpolatedProfile_set_min_sigma_diff e (1 / 10 ^ 10);
          (e, status10) = SCInterpolatedProfile_set_enabled e True
      in (e, status1 OR status2 OR status3 OR status4 OR status5 OR status6 OR status7 OR status8 OR status9 OR status10))"

definition SCInterpolatedProfile_copy :: "bool \<Rightarrow> SCInterpolatedProfile \<Rightarrow> SCInterpolatedProfile \<Rightarrow> SCInterpolatedProfile \<times> arch_status" where
  "SCInterpolatedProfile_copy same dest src =
     (if \<not> same then
        let (dest, status1) = SCInterpolatedProfile_set_number_of_particles dest (SCInterpolatedProfile_number_of_particles src);
          (dest, status2) = SCInterpolatedProfile_set_sigma_x dest (SCInterpolatedProfile_sigma_x src);
          (dest, status3) = SCInterpolatedProfile_set_sigma_y dest (SCInterpolatedProfile_sigma_y src);
          (dest, status4) = SCInterpolatedProfile_set_length dest (SCInterpolatedProfile_length src);
          (dest, status5) = SCInterpolatedProfile_set_x_co dest (SCInterpolatedProfile_x_co src);
          (dest, status6) = SCInterpolatedProfile_set_y_co dest (SCInterpolatedProfile_y_co src);
          (dest, status7) = SCInterpolatedProfile_set_interpol_data_addr dest (SCInterpolatedProfile_interpol_data src);
          (dest, status8) = SCInterpolatedProfile_set_line_density_prof_fallback dest (SCInterpolatedProfile_line_density_prof_fallback src);
          (dest, status9) = SCInterpolatedProfile_set_min_sigma_diff dest (SCInterpolatedProfile_min_sigma_diff src);
          (dest, status10) = SCInterpolatedProfile_set_enabled dest (SCInterpolatedProfile_enabled src)
      in (dest, 0)
      else (dest, 0))"

definition SCInterpolatedProfile_has_interpol_data :: "SCInterpolatedProfile \<Rightarrow> bool" where
  "SCInterpolatedProfile_has_interpol_data e \<longleftrightarrow>
     (case SCInterpolatedProfile_interpol_data e of None \<Rightarrow> False
      | Some data \<Rightarrow> LineDensityProfileData_method data \<noteq> MATH_INTERPOL_NONE \<and>
          LineDensityProfileData_num_values data \<ge> 0 \<and> LineDensityProfileData_values data \<noteq> None \<and>
          LineDensityProfileData_derivatives data \<noteq> None)"

definition SCInterpolatedProfile_line_density_profile :: "SCInterpolatedProfile \<Rightarrow> real \<Rightarrow> real" where
  "SCInterpolatedProfile_line_density_profile e z =
     LineDensityProfileData_interpolate_value (the (SCInterpolatedProfile_interpol_data e)) z"

definition SCInterpolatedProfile_line_density_profile_1st_derivative ::
    "SCInterpolatedProfile \<Rightarrow> real \<Rightarrow> real" where
  "SCInterpolatedProfile_line_density_profile_1st_derivative e z =
     LineDensityProfileData_interpolate_1st_derivative (the (SCInterpolatedProfile_interpol_data e)) z"

definition SCInterpolatedProfile_line_density_profile_2nd_derivative ::
    "SCInterpolatedProfile \<Rightarrow> real \<Rightarrow> real" where
  "SCInterpolatedProfile_line_density_profile_2nd_derivative e z =
     LineDensityProfileData_interpolate_2nd_derivative (the (SCInterpolatedProfile_interpol_data e)) z"

subsection \<open>Tracking\<close>

definition Track_particle_beam_beam_4d ::
    "particles \<Rightarrow> i64 \<Rightarrow> BeamBeam4D \<Rightarrow> particles \<times> track_status" where
  "Track_particle_beam_beam_4d p ii bb =
     (let bb4ddata = the (BeamBeam4D_data bb)
      in if bb4_enabled bb4ddata > 0 then
        let px = Particles_get_px_value p ii;
            py = Particles_get_py_value p ii;
            qratio = 1;
            charge = qratio * Particles_get_q0_value p ii * SIXTRL_QELEM;
            x = Particles_get_x_value p ii - bb4_Delta_x bb4ddata;
            y = Particles_get_y_value p ii - bb4_Delta_y bb4ddata;
            chi = Particles_get_chi_value p ii;
            beta = Particles_get_beta0_value p ii / Particles_get_rvv_value p ii;
            p0c = Particles_get_p0c_value p ii * SIXTRL_QELEM;
            ((Ex, Ey), _) = get_Ex_Ey_Gx_Gy_gauss x y (bb4_sigma_x bb4ddata) (bb4_sigma_y bb4ddata)
              (bb4_min_sigma_diff bb4ddata) True;
            fact_kick = chi * bb4_N_part bb4ddata * bb4_q_part bb4ddata * charge *
              (1 + beta * bb4_beta_s bb4ddata) / (p0c * (beta + bb4_beta_s bb4ddata));
            px = px + (fact_kick * Ex - bb4_Dpx_sub bb4ddata);
            py = py + (fact_kick * Ey - bb4_Dpy_sub bb4ddata);
            p = Particles_set_px_value p ii px;
            p = Particles_set_py_value p ii py
        in (p, 0)
      else (p, 0))"

definition Track_particle_space_charge_coasting ::
    "particles \<Rightarrow> i64 \<Rightarrow> SCCoasting \<Rightarrow> particles \<times> track_status" where
  "Track_particle_space_charge_coasting p ii sc_elem =
     (let charge = PhysConst_charge0_si * Particles_get_q0_value p ii;
          beta0 = Particles_get_beta0_value p ii;
          pc0 = Particles_get_p0c_value p ii * PhysConst_charge0_si;
          fact_kick = SCCoasting_number_of_particles sc_elem * SCCoasting_length sc_elem *
            Particles_get_chi_value p ii * Particles_get_charge_ratio_value p ii *
            charge * charge * (1 - beta0 * beta0);
          fact_kick = fact_kick / (SCCoasting_circumference sc_elem * pc0 * beta0 *
            Particles_get_rvv_value p ii);
          ((Ex, Ey), _) = get_Ex_Ey_Gx_Gy_gauss
            (Particles_get_x_value p ii - SCCoasting_x_co sc_elem)
            (Particles_get_y_value p ii - SCCoasting_y_co sc_elem)
            (SCCoasting_sigma_x sc_elem) (SCCoasting_sigma_y sc_elem)
            (SCCoasting_min_sigma_diff sc_elem) True;
          p = Particles_add_to_px_value p ii (fact_kick * Ex);
          p = Particles_add_to_py_value p ii (fact_kick * Ey)
      in (p, 0))"

definition Track_particle_space_charge_qgaussian_profile ::
    "particles \<Rightarrow> i64 \<Rightarrow> SCQGaussProfile \<Rightarrow> particles \<times> track_status" where
  "Track_particle_space_charge_qgaussian_profile p ii sc_elem =
     (let charge = PhysConst_charge0_si * Particles_get_q0_value p ii;
          beta0 = Particles_get_beta0_value p ii;
          beta = beta0 * Particles_get_rvv_value p ii;
          pc0 = Particles_get_p0c_value p ii * PhysConst_charge0_si;
          z = Particles_get_zeta_value p ii / Particles_get_rvv_value p ii;
          bunchlength_rms = SCQGaussProfile_bunchlength_rms sc_elem;
          fact_kick = Particles_get_chi_value p ii * Particles_get_charge_ratio_value p ii *
            SCQGaussProfile_length sc_elem * charge * charge * (1 - beta0 * beta);
          fact_kick = fact_kick * SCQGaussProfile_number_of_particles sc_elem;
          fact_kick = fact_kick * Math_q_gauss z (SCQGaussProfile_q_param sc_elem)
            (Math_q_gauss_sqrt_beta_from_gauss_sigma bunchlength_rms) (SCQGaussProfile_cq sc_elem);
          fact_kick = fact_kick / (pc0 * beta);
          ((Ex, Ey), _) = get_Ex_Ey_Gx_Gy_gauss
            (Particles_get_x_value p ii - SCQGaussProfile_x_co sc_elem)
            (Particles_get_y_value p ii - SCQGaussProfile_y_co sc_elem)
            (SCQGaussProfile_sigma_x sc_elem) (SCQGaussProfile_sigma_y sc_elem)
            (SCQGaussProfile_min_sigma_diff sc_elem) True;
          p = Particles_add_to_px_value p ii (fact_kick * Ex);
          p = Particles_add_to_py_value p ii (fact_kick * Ey)
      in (p, 0))"

definition Track_particle_space_charge_interpolated_profile ::
    "particles \<Rightarrow> i64 \<Rightarrow> SCInterpolatedProfile \<Rightarrow> particles \<times> track_status" where
  "Track_particle_space_charge_interpolated_profile p ii sc_elem =
     (let charge = PhysConst_charge0_si * Particles_get_q0_value p ii;
          beta0 = Particles_get_beta0_value p ii;
          beta = beta0 * Particles_get_rvv_value p ii;
          pc0 = Particles_get_p0c_value p ii * PhysConst_charge0_si;
          fact_kick = Particles_get_chi_value p ii * Particles_get_charge_ratio_value p ii *
            SCInterpolatedProfile_length sc_elem * SCInterpolatedProfile_number_of_particles sc_elem *
            charge * charge * (1 - beta0 * beta);
          fact_kick = (case SCInterpolatedProfile_interpol_data sc_elem of
              None \<Rightarrow> fact_kick * SCInterpolatedProfile_line_density_prof_fallback sc_elem
            | Some interpol \<Rightarrow>
                if LineDensityProfileData_method interpol \<noteq> MATH_INTERPOL_NONE \<and>
                   LineDensityProfileData_num_values interpol > 0
                then fact_kick * LineDensityProfileData_interpolate_value interpol
                  (Particles_get_zeta_value p ii)
                else fact_kick * SCInterpolatedProfile_line_density_prof_fallback sc_elem);
          fact_kick = fact_kick / (pc0 * beta);
          ((Ex, Ey), _) = get_Ex_Ey_Gx_Gy_gauss
            (Particles_get_x_value p ii - SCInterpolatedProfile_x_co sc_elem)
            (Particles_get_y_value p ii - SCInterpolatedProfile_y_co sc_elem)
            (SCInterpolatedProfile_sigma_x sc_elem) (SCInterpolatedProfile_sigma_y sc_elem)
            (SCInterpolatedProfile_min_sigma_diff sc_elem) True;
          p = Particles_add_to_px_value p ii (fact_kick * Ex);
          p = Particles_add_to_py_value p ii (fact_kick * Ey)
      in (p, 0))"

subsection \<open>Tracking one particle\<close>

text \<open>The kick of a field with a given strength.\<close>

definition field_kick :: "real \<Rightarrow> real \<times> real \<Rightarrow> particle \<Rightarrow> particle" where
  "field_kick k E v = v\<lparr>pv_px := pv_px v + k * fst E, pv_py := pv_py v + k * snd E\<rparr>"

definition gauss_field :: "real \<Rightarrow> real \<Rightarrow> real \<Rightarrow> real \<Rightarrow> real \<Rightarrow> real \<times> real" where
  "gauss_field x y sigma_x sigma_y min_sigma_diff =
     fst (get_Ex_Ey_Gx_Gy_gauss x y sigma_x sigma_y min_sigma_diff True)"

definition bb4d_map :: "BeamBeam4D \<Rightarrow> particle \<Rightarrow> particle" where
  "bb4d_map bb v =
     (let d = the (BeamBeam4D_data bb); beta = pv_beta0 v / pv_rvv v;
          E = gauss_field (pv_x v - bb4_Delta_x d) (pv_y v - bb4_Delta_y d) (bb4_sigma_x d)
            (bb4_sigma_y d) (bb4_min_sigma_diff d);
          k = pv_chi v * bb4_N_part d * bb4_q_part d * (pv_q0 v * SIXTRL_QELEM) *
            (1 + beta * bb4_beta_s d) / (pv_p0c v * SIXTRL_QELEM * (beta + bb4_beta_s d))
      in if bb4_enabled d > 0 then
           v\<lparr>pv_px := pv_px v + (k * fst E - bb4_Dpx_sub d), pv_py := pv_py v + (k * snd E - bb4_Dpy_sub d)\<rparr>
         else v)"

definition sc_coasting_map :: "SCCoasting \<Rightarrow> particle \<Rightarrow> particle" where
  "sc_coasting_map e v =
     (let charge = PhysConst_charge0_si * pv_q0 v
      in field_kick (SCCoasting_number_of_particles e * SCCoasting_length e * pv_chi v *
           pv_charge_ratio v * charge * charge * (1 - pv_beta0 v * pv_beta0 v) /
           (SCCoasting_circumference e * (pv_p0c v * PhysConst_charge0_si) * pv_beta0 v * pv_rvv v))
         (gauss_field (pv_x v - SCCoasting_x_co e) (pv_y v - SCCoasting_y_co e)
           (SCCoasting_sigma_x e) (SCCoasting_sigma_y e) (SCCoasting_min_sigma_diff e)) v)"

definition sc_qgauss_map :: "SCQGaussProfile \<Rightarrow> particle \<Rightarrow> particle" where
  "sc_qgauss_map e v =
     (let charge = PhysConst_charge0_si * pv_q0 v; beta = pv_beta0 v * pv_rvv v
      in field_kick (pv_chi v * pv_charge_ratio v * SCQGaussProfile_length e * charge * charge *
           (1 - pv_beta0 v * beta) * SCQGaussProfile_number_of_particles e *
           Math_q_gauss (pv_zeta v / pv_rvv v) (SCQGaussProfile_q_param e)
             (Math_q_gauss_sqrt_beta_from_gauss_sigma (SCQGaussProfile_bunchlength_rms e))
             (SCQGaussProfile_cq e) /
           (pv_p0c v * PhysConst_charge0_si * beta))
         (gauss_field (pv_x v - SCQGaussProfile_x_co e) (pv_y v - SCQGaussProfile_y_co e)
           (SCQGaussProfile_sigma_x e) (SCQGaussProfile_sigma_y e) (SCQGaussProfile_min_sigma_diff e)) v)"

text \<open>The line density at a position, or the fallback value.\<close>

definition line_density :: "SCInterpolatedProfile \<Rightarrow> real \<Rightarrow> real" where
  "line_density e z = (case SCInterpolatedProfile_interpol_data e of
      None \<Rightarrow> SCInterpolatedProfile_line_density_prof_fallback e
    | Some d \<Rightarrow> if LineDensityProfileData_method d \<noteq> MATH_INTERPOL_NONE \<and>
          LineDensityProfileData_num_values d > 0
        then LineDensityProfileData_interpolate_value d z
        else SCInterpolatedProfile_line_density_prof_fallback e)"

definition sc_interpolated_map :: "SCInterpolatedProfile \<Rightarrow> particle \<Rightarrow> particle" where
  "sc_interpolated_map e v =
     (let charge = PhysConst_charge0_si * pv_q0 v; beta = pv_beta0 v * pv_rvv v
      in field_kick (pv_chi v * pv_charge_ratio v * SCInterpolatedProfile_length e *
           SCInterpolatedProfile_number_of_particles e * charge * charge *
           (1 - pv_beta0 v * beta) * line_density e (pv_zeta v) /
           (pv_p0c v * PhysConst_charge0_si * beta))
         (gauss_field (pv_x v - SCInterpolatedProfile_x_co e) (pv_y v - SCInterpolatedProfile_y_co e)
           (SCInterpolatedProfile_sigma_x e) (SCInterpolatedProfile_sigma_y e)
           (SCInterpolatedProfile_min_sigma_diff e)) v)"

interpretation beam_beam_4d: particle_kernel "\<lambda>p ii. fst (Track_particle_beam_beam_4d p ii e)"
    "\<lambda>ii. bb4d_map e" for e
  by unfold_locales
    (auto simp: Track_particle_beam_beam_4d_def Let_def case_prod_beta particle_ops particle_simps
      bb4d_map_def gauss_field_def)

interpretation sc_coasting: particle_kernel "\<lambda>p ii. fst (Track_particle_space_charge_coasting p ii e)"
    "\<lambda>ii. sc_coasting_map e" for e
  by unfold_locales
    (auto simp: Track_particle_space_charge_coasting_def Let_def case_prod_beta particle_ops
      particle_simps sc_coasting_map_def gauss_field_def field_kick_def)

interpretation sc_qgauss: particle_kernel
    "\<lambda>p ii. fst (Track_particle_space_charge_qgaussian_profile p ii e)" "\<lambda>ii. sc_qgauss_map e" for e
  by unfold_locales
    (auto simp: Track_particle_space_charge_qgaussian_profile_def Let_def case_prod_beta particle_ops
      particle_simps sc_qgauss_map_def gauss_field_def field_kick_def)

interpretation sc_interpolated: particle_kernel
    "\<lambda>p ii. fst (Track_particle_space_charge_interpolated_profile p ii e)"
    "\<lambda>ii. sc_interpolated_map e" for e
  by unfold_locales
    (auto simp: Track_particle_space_charge_interpolated_profile_def Let_def case_prod_beta particle_ops
      particle_simps sc_interpolated_map_def line_density_def gauss_field_def field_kick_def
      split: option.splits)

lemma beam_field_success [simp]:
  "snd (Track_particle_beam_beam_4d p ii bb) = 0"
  "snd (Track_particle_space_charge_coasting p ii scc) = 0"
  "snd (Track_particle_space_charge_qgaussian_profile p ii scq) = 0"
  "snd (Track_particle_space_charge_interpolated_profile p ii sci) = 0"
  by (simp_all add: Track_particle_beam_beam_4d_def Track_particle_space_charge_coasting_def
      Track_particle_space_charge_qgaussian_profile_def
      Track_particle_space_charge_interpolated_profile_def Let_def case_prod_beta)

text \<open>On a particle at the reference velocity, space charge of a bunch with a constant line density, the
  inverse of the circumference, equals space charge of a coasting beam with the same parameters.\<close>

theorem coasting_is_constant_density:
  assumes p: "particles_wf p" "valid_idx p ii" and rvv: "pv_rvv (particle_of p ii) = 1"
    and none: "SCInterpolatedProfile_interpol_data e = None"
    and density: "SCInterpolatedProfile_line_density_prof_fallback e = 1 / SCCoasting_circumference c"
    and same: "SCInterpolatedProfile_number_of_particles e = SCCoasting_number_of_particles c"
      "SCInterpolatedProfile_length e = SCCoasting_length c"
      "SCInterpolatedProfile_x_co e = SCCoasting_x_co c" "SCInterpolatedProfile_y_co e = SCCoasting_y_co c"
      "SCInterpolatedProfile_sigma_x e = SCCoasting_sigma_x c"
      "SCInterpolatedProfile_sigma_y e = SCCoasting_sigma_y c"
      "SCInterpolatedProfile_min_sigma_diff e = SCCoasting_min_sigma_diff c"
  shows "fst (Track_particle_space_charge_interpolated_profile p ii e) =
    fst (Track_particle_space_charge_coasting p ii c)"
proof (rule particles_eqI)
  fix jj assume "valid_idx (fst (Track_particle_space_charge_interpolated_profile p ii e)) jj"
  then have "0 \<le> jj" by (simp add: valid_idx_def)
  moreover have "sc_interpolated_map e (particle_of p ii) = sc_coasting_map c (particle_of p ii)"
    by (simp add: sc_interpolated_map_def sc_coasting_map_def Let_def line_density_def none density same
        rvv ac_simps)
  ultimately show "particle_of (fst (Track_particle_space_charge_interpolated_profile p ii e)) jj =
      particle_of (fst (Track_particle_space_charge_coasting p ii c)) jj"
    using p by (simp add: sc_interpolated.kernel_view sc_coasting.kernel_view)
qed (use p in \<open>simp_all add: sc_interpolated.kernel_wf sc_coasting.kernel_wf
    sc_interpolated.kernel_num sc_coasting.kernel_num\<close>)

definition sample_coasting :: SCCoasting where
  "sample_coasting = \<lparr>SCCoasting_number_of_particles = 3, SCCoasting_circumference = 100,
     SCCoasting_sigma_x = 1, SCCoasting_sigma_y = 2, SCCoasting_length = 5, SCCoasting_x_co = 0,
     SCCoasting_y_co = 0, SCCoasting_min_sigma_diff = 1 / 10, SCCoasting_enabled_field = 1\<rparr>"

definition sample_interpolated :: SCInterpolatedProfile where
  "sample_interpolated = \<lparr>SCInterpolatedProfile_number_of_particles = 3,
     SCInterpolatedProfile_sigma_x = 1, SCInterpolatedProfile_sigma_y = 2,
     SCInterpolatedProfile_length = 5, SCInterpolatedProfile_x_co = 0, SCInterpolatedProfile_y_co = 0,
     SCInterpolatedProfile_interpol_data = None,
     SCInterpolatedProfile_line_density_prof_fallback = 1 / 100,
     SCInterpolatedProfile_min_sigma_diff = 1 / 10, SCInterpolatedProfile_enabled_field = 1\<rparr>"

theorem coasting_is_constant_density_witness:
  "fst (Track_particle_space_charge_interpolated_profile (reference_particles 2) 1 sample_interpolated) =
   fst (Track_particle_space_charge_coasting (reference_particles 2) 1 sample_coasting)"
  by (rule coasting_is_constant_density)
    (simp_all add: reference_particle_def sample_interpolated_def sample_coasting_def)

text \<open>The \<open>enabled\<close> flag of the space charge elements has no effect on tracking: a disabled element
  kicks like an enabled one.\<close>

theorem space_charge_enabled_is_ignored:
  "Track_particle_space_charge_coasting p ii (fst (SCCoasting_set_enabled c flag)) =
     Track_particle_space_charge_coasting p ii c \<and>
   Track_particle_space_charge_qgaussian_profile p ii (fst (SCQGaussProfile_set_enabled q flag)) =
     Track_particle_space_charge_qgaussian_profile p ii q \<and>
   Track_particle_space_charge_interpolated_profile p ii (fst (SCInterpolatedProfile_set_enabled e flag)) =
     Track_particle_space_charge_interpolated_profile p ii e"
  by (simp add: Track_particle_space_charge_coasting_def SCCoasting_set_enabled_def
      Track_particle_space_charge_qgaussian_profile_def SCQGaussProfile_set_enabled_def
      Track_particle_space_charge_interpolated_profile_def SCInterpolatedProfile_set_enabled_def
      Let_def case_prod_beta split: option.splits)

text \<open>A line density whose array of values holds \<open>c\<close> at index \<open>i\<close>.\<close>

definition with_value ::
    "LineDensityProfileData \<Rightarrow> real list \<Rightarrow> nat \<Rightarrow> real \<Rightarrow> LineDensityProfileData" where
  "with_value d ys i c = d\<lparr>LineDensityProfileData_values := Some (ys[i := c])\<rparr>"

text \<open>The upper end \<open>NS(LineDensityProfileData_z_max)\<close> of a line density lies one step beyond its last
  value: between the last value and that end, the interpolation accepts the position and finds the index
  of the last value, so that the cubic interpolation reads the entry behind it.\<close>

theorem line_density_reads_past_the_end:
  assumes "0 < LineDensityProfileData_dz d" "LineDensityProfileData_num_values d = int n + 1"
    "LineDensityProfileData_method d = MATH_INTERPOL_CUBIC" "n + 1 < length ys"
    "LineDensityProfileData_z0 d + LineDensityProfileData_dz d * real n \<le> z"
    "z < LineDensityProfileData_z_max d"
  shows "LineDensityProfileData_find_idx d z = int n \<and>
    LineDensityProfileData_interpolate_value (with_value d ys (n + 1) a) z -
      LineDensityProfileData_interpolate_value (with_value d ys (n + 1) b) z =
      (a - b) * ((z - (LineDensityProfileData_z0 d + LineDensityProfileData_dz d * real n)) /
        LineDensityProfileData_dz d)"
proof -
  define z0 dz where "z0 = LineDensityProfileData_z0 d" and "dz = LineDensityProfileData_dz d"
  have dz: "0 < dz" using assms(1) by (simp add: dz_def)
  have z: "z0 + dz * real n \<le> z" "z < z0 + dz * real (n + 1)"
    using assms by (simp_all add: z0_def dz_def LineDensityProfileData_z_max_def add.commute)
  have "0 \<le> dz * real n" using dz by simp
  then have low: "z0 \<le> z" using z(1) by linarith
  have high: "z \<le> LineDensityProfileData_z_max (with_value d ys (n + 1) c)" for c
    using assms(6) by (simp add: with_value_def LineDensityProfileData_z_max_def)
  define t1 t2 ms where "t1 = (z - (z0 + dz * real n)) / dz" and "t2 = (z0 + dz * real (n + 1) - z) / dz"
    and "ms = the (LineDensityProfileData_derivatives d)"
  define rest where "rest = ys ! n * t2 - ms ! n * dz * dz * (t2 - t2 * t2 * t2) / 6
    - ms ! (n + 1) * dz * dz * (t1 - t1 * t1 * t1) / 6"
  have "LineDensityProfileData_interpolate_value (with_value d ys (n + 1) c) z =
      spline_piece (ys[n + 1 := c]) ms z0 dz n z" for c
    using high [of c] low assms(2,3) cubic_as_piece(1) [OF dz z]
    by (simp add: LineDensityProfileData_interpolate_value_def LineDensityProfileData_z_min_def
        with_value_def z0_def dz_def ms_def Math_interpol_y_equ_def)
  moreover have "spline_piece (ys[n + 1 := c]) ms z0 dz n z = c * t1 + rest" for c
    using assms(4) unfolding spline_piece_def Let_def t1_def [symmetric] t2_def [symmetric]
    by (simp add: rest_def)
  moreover have "LineDensityProfileData_find_idx d z = int n"
    using abscissa_index [OF dz z] by (simp add: LineDensityProfileData_find_idx_def z0_def dz_def)
  moreover have "(a * t1 + rest) - (b * t1 + rest) = (a - b) * t1" by (simp add: left_diff_distrib)
  ultimately show ?thesis by (simp only: t1_def z0_def dz_def)
qed

definition sample_profile :: LineDensityProfileData where
  "sample_profile = \<lparr>LineDensityProfileData_method = MATH_INTERPOL_CUBIC, LineDensityProfileData_capacity = 6,
     LineDensityProfileData_values = None, LineDensityProfileData_derivatives = Some [0, 0, 0, 0, 0, 0],
     LineDensityProfileData_z0 = 0, LineDensityProfileData_dz = 2, LineDensityProfileData_num_values = 5\<rparr>"

theorem line_density_reads_past_the_end_witness:
  "LineDensityProfileData_interpolate_value
     (with_value sample_profile [1, 2, 3, 2, 1, 0] (4 + 1) 7) 9 -
   LineDensityProfileData_interpolate_value
     (with_value sample_profile [1, 2, 3, 2, 1, 0] (4 + 1) 5) 9 = 1"
  using line_density_reads_past_the_end [of sample_profile 4 "[1, 2, 3, 2, 1, 0]" 9 7 5]
  by (simp add: sample_profile_def LineDensityProfileData_z_max_def)

end
