(* ===== verification/Beam_Beam6D.thy ===== *)
theory Beam_Beam6D
  imports Beam_Fields
begin

section \<open>The six-dimensional beam-beam lens (be_beamfields)\<close>

text \<open>
  The synchro-beam lens of Hirata: the particle is boosted into the frame in which the collision is
  head-on, kicked by every slice of the strong beam, and boosted back. The data of the lens is the
  structure \<open>NS(BB6D_data)\<close> followed in memory by the arrays of the slices; the structure holds the
  distance, in 8-byte slots, from its own pointer member to the array, which the macro
  \<open>SIXTRL_BB_GET_PTR\<close> resolves. The model keeps the structure and the slots behind it apart: the slots
  are a function from the position in the data block.
\<close>

subsection \<open>Structures\<close>

record BB6D_boost_data =
  sphi :: real
  cphi :: real
  tphi :: real
  salpha :: real
  calpha :: real

record BB6D_Sigmas =
  Sig_11_0 :: real
  Sig_12_0 :: real
  Sig_13_0 :: real
  Sig_14_0 :: real
  Sig_22_0 :: real
  Sig_23_0 :: real
  Sig_24_0 :: real
  Sig_33_0 :: real
  Sig_34_0 :: real
  Sig_44_0 :: real

record BB6D_data =
  bb6_q_part :: real
  bb6_parboost :: BB6D_boost_data
  bb6_Sigmas_0_star :: BB6D_Sigmas
  bb6_min_sigma_diff :: real
  bb6_threshold_singular :: real
  bb6_N_slices :: i64
  bb6_delta_x :: real
  bb6_delta_y :: real
  bb6_x_CO :: real
  bb6_px_CO :: real
  bb6_y_CO :: real
  bb6_py_CO :: real
  bb6_sigma_CO :: real
  bb6_delta_CO :: real
  bb6_Dx_sub :: real
  bb6_Dpx_sub :: real
  bb6_Dy_sub :: real
  bb6_Dpy_sub :: real
  bb6_Dsigma_sub :: real
  bb6_Ddelta_sub :: real
  bb6_enabled :: real
  bb6_N_part_per_slice :: u64
  bb6_x_slices_star :: u64
  bb6_y_slices_star :: u64
  bb6_sigma_slices_star :: u64

type_synonym bb6_slots = "nat \<Rightarrow> real"

text \<open>
  \<open>bb_get_ptr slots pos off\<close> is the array at \<open>SIXTRL_BB_GET_PTR(d, name)\<close> for the pointer member at
  slot \<open>pos\<close> of the structure, whose value is \<open>off\<close>. The structure has 38 slots, the last four are the
  pointers.
\<close>

definition bb_get_ptr :: "bb6_slots \<Rightarrow> nat \<Rightarrow> u64 \<Rightarrow> nat \<Rightarrow> real" where
  "bb_get_ptr slots pos off i = slots (pos + unat off + 1 + i)"

definition bb6_data_slots :: nat where
  "bb6_data_slots = 38"

record BeamBeam6D =
  BeamBeam6D_data_size :: u64
  BeamBeam6D_data :: "(BB6D_data \<times> bb6_slots) option"

definition BeamBeam6D_set_data_addr ::
    "BeamBeam6D \<Rightarrow> (BB6D_data \<times> bb6_slots) option \<Rightarrow> BeamBeam6D \<times> arch_status" where
  "BeamBeam6D_set_data_addr bb_elem data_addr = (bb_elem\<lparr>BeamBeam6D_data := data_addr\<rparr>, 0)"

definition BeamBeam6D_set_data_size :: "BeamBeam6D \<Rightarrow> u64 \<Rightarrow> BeamBeam6D \<times> arch_status" where
  "BeamBeam6D_set_data_size bb_elem data_size =
     (if data_size = 0 \<or> data_size \<ge> of_nat bb6_data_slots
      then (bb_elem\<lparr>BeamBeam6D_data_size := data_size\<rparr>, 0)
      else (bb_elem, - 1))"

definition BeamBeam6D_clear :: "BeamBeam6D \<Rightarrow> BeamBeam6D" where
  "BeamBeam6D_clear bb_elem =
     (let (bb_elem, status) = BeamBeam6D_set_data_addr bb_elem None;
          (bb_elem, status') = BeamBeam6D_set_data_size bb_elem 0
      in bb_elem)"

definition BeamBeam6D_preset :: "BeamBeam6D option \<Rightarrow> BeamBeam6D option" where
  "BeamBeam6D_preset bb_elem = map_option BeamBeam6D_clear bb_elem"

text \<open>
  The assignment \<open>*dst_data = *src_data\<close> copies the structure, not the slots behind it. \<open>same\<close> tells
  whether both elements are the same object, \<open>same_data\<close> whether they share their data block.
\<close>

definition BeamBeam6D_copy ::
    "bool \<Rightarrow> bool \<Rightarrow> BeamBeam6D \<Rightarrow> BeamBeam6D \<Rightarrow> BeamBeam6D \<times> arch_status" where
  "BeamBeam6D_copy same same_data destination source =
     (if \<not> same then
        (case (BeamBeam6D_data destination, BeamBeam6D_data source) of
           (Some (dst_data, dst_slots), Some (src_data, src_slots)) \<Rightarrow>
             if BeamBeam6D_data_size destination \<ge> BeamBeam6D_data_size source \<and> \<not> same_data
             then BeamBeam6D_set_data_size
               (destination\<lparr>BeamBeam6D_data := Some (src_data, dst_slots)\<rparr>) (BeamBeam6D_data_size source)
             else (destination, - 1)
         | _ \<Rightarrow> (destination, - 1))
      else (destination, 0))"

subsection \<open>The boost\<close>

text \<open>The six coordinates behind the pointers of the boost, in the order of its arguments.\<close>

record boost_coords =
  bc_x :: real
  bc_px :: real
  bc_y :: real
  bc_py :: real
  bc_sigma :: real
  bc_delta :: real

definition BeamBeam6D_boost :: "BB6D_boost_data \<Rightarrow> boost_coords \<Rightarrow> boost_coords" where
  "BeamBeam6D_boost data star =
     (let sphi = sphi data; cphi = cphi data; tphi = tphi data;
          salpha = salpha data; calpha = calpha data;
          x = bc_x star; px = bc_px star; y = bc_y star; py = bc_py star;
          sigma = bc_sigma star; delta = bc_delta star;
          h = delta + 1 - sqrt ((1 + delta) * (1 + delta) - px * px - py * py);
          px_st = px / cphi - h * calpha * tphi / cphi;
          py_st = py / cphi - h * salpha * tphi / cphi;
          delta_st = delta - px * calpha * tphi - py * salpha * tphi + h * tphi * tphi;
          pz_st = sqrt ((1 + delta_st) * (1 + delta_st) - px_st * px_st - py_st * py_st);
          hx_st = px_st / pz_st;
          hy_st = py_st / pz_st;
          hsigma_st = 1 - (delta_st + 1) / pz_st;
          L11 = 1 + hx_st * calpha * sphi;
          L12 = hx_st * salpha * sphi;
          L13 = calpha * tphi;
          L21 = hy_st * calpha * sphi;
          L22 = 1 + hy_st * salpha * sphi;
          L23 = salpha * tphi;
          L31 = hsigma_st * calpha * sphi;
          L32 = hsigma_st * salpha * sphi;
          L33 = 1 / cphi;
          x_st = L11 * x + L12 * y + L13 * sigma;
          y_st = L21 * x + L22 * y + L23 * sigma;
          sigma_st = L31 * x + L32 * y + L33 * sigma
      in \<lparr>bc_x = x_st, bc_px = px_st, bc_y = y_st, bc_py = py_st, bc_sigma = sigma_st,
          bc_delta = delta_st\<rparr>)"

definition BeamBeam6D_inv_boost :: "BB6D_boost_data \<Rightarrow> boost_coords \<Rightarrow> boost_coords" where
  "BeamBeam6D_inv_boost data star =
     (let sphi = sphi data; cphi = cphi data; tphi = tphi data;
          salpha = salpha data; calpha = calpha data;
          x_st = bc_x star; px_st = bc_px star; y_st = bc_y star; py_st = bc_py star;
          sigma_st = bc_sigma star; delta_st = bc_delta star;
          pz_st = sqrt ((1 + delta_st) * (1 + delta_st) - px_st * px_st - py_st * py_st);
          hx_st = px_st / pz_st;
          hy_st = py_st / pz_st;
          hsigma_st = 1 - (delta_st + 1) / pz_st;
          Det_L = 1 / cphi + (hx_st * calpha + hy_st * salpha - hsigma_st * sphi) * tphi;
          Linv_11 = (1 / cphi + salpha * tphi * (hy_st - hsigma_st * salpha * sphi)) / Det_L;
          Linv_12 = (salpha * tphi * (hsigma_st * calpha * sphi - hx_st)) / Det_L;
          Linv_13 = - tphi * (calpha - hx_st * salpha * salpha * sphi + hy_st * calpha * salpha * sphi) / Det_L;
          Linv_21 = (calpha * tphi * (- hy_st + hsigma_st * salpha * sphi)) / Det_L;
          Linv_22 = (1 / cphi + calpha * tphi * (hx_st - hsigma_st * calpha * sphi)) / Det_L;
          Linv_23 = - tphi * (salpha - hy_st * calpha * calpha * sphi + hx_st * calpha * salpha * sphi) / Det_L;
          Linv_31 = - hsigma_st * calpha * sphi / Det_L;
          Linv_32 = - hsigma_st * salpha * sphi / Det_L;
          Linv_33 = (1 + hx_st * calpha * sphi + hy_st * salpha * sphi) / Det_L;
          x_i = Linv_11 * x_st + Linv_12 * y_st + Linv_13 * sigma_st;
          y_i = Linv_21 * x_st + Linv_22 * y_st + Linv_23 * sigma_st;
          sigma_i = Linv_31 * x_st + Linv_32 * y_st + Linv_33 * sigma_st;
          h = (delta_st + 1 - pz_st) * cphi * cphi;
          px_i = px_st * cphi + h * calpha * tphi;
          py_i = py_st * cphi + h * salpha * tphi;
          delta_i = delta_st + px_i * calpha * tphi + py_i * salpha * tphi - h * tphi * tphi
      in \<lparr>bc_x = x_i, bc_px = px_i, bc_y = y_i, bc_py = py_i, bc_sigma = sigma_i, bc_delta = delta_i\<rparr>)"

text \<open>Half the crossing angle and the crossing plane as angles, and a particle that moves forward in the
  boosted frame.\<close>

definition boost_angles :: "BB6D_boost_data \<Rightarrow> bool" where
  "boost_angles d \<longleftrightarrow> cphi d \<noteq> 0 \<and> (cphi d)\<^sup>2 + (sphi d)\<^sup>2 = 1 \<and> tphi d = sphi d / cphi d \<and>
     (calpha d)\<^sup>2 + (salpha d)\<^sup>2 = 1"

definition moves_forward :: "BB6D_boost_data \<Rightarrow> boost_coords \<Rightarrow> bool" where
  "moves_forward d c \<longleftrightarrow>
     (bc_px c)\<^sup>2 + (bc_py c)\<^sup>2 < (1 + bc_delta c)\<^sup>2 \<and>
     (bc_px c * calpha d + bc_py c * salpha d) * tphi d
       < sqrt ((1 + bc_delta c) * (1 + bc_delta c) - bc_px c * bc_px c - bc_py c * bc_py c)"

lemma crossing_angle:
  fixes c s t :: real
  assumes "c \<noteq> 0" "c\<^sup>2 + s\<^sup>2 = 1" "t = s / c"
  shows "(1 / c)\<^sup>2 = 1 + t\<^sup>2" "1 / c * c = 1" "s = t * c"
proof -
  show k: "1 / c * c = 1" and s: "s = t * c" using assms by simp_all
  show "(1 / c)\<^sup>2 = 1 + t\<^sup>2" using k s assms(2) by algebra
qed

lemma boosted_momentum:
  fixes c s t ca sa px py E h :: real
  assumes c: "c \<noteq> 0" "c\<^sup>2 + s\<^sup>2 = 1" "t = s / c" and a: "ca\<^sup>2 + sa\<^sup>2 = 1"
    and h: "(E - h)\<^sup>2 = E\<^sup>2 - px\<^sup>2 - py\<^sup>2" and pos: "(px * ca + py * sa) * t < E - h"
  shows "sqrt ((E - px * ca * t - py * sa * t + h * t * t) * (E - px * ca * t - py * sa * t + h * t * t)
      - (px / c - h * ca * t / c) * (px / c - h * ca * t / c)
      - (py / c - h * sa * t / c) * (py / c - h * sa * t / c)) = E - h - (px * ca + py * sa) * t"
proof (rule real_sqrt_unique)
  define k where "k = 1 / c"
  have k: "k\<^sup>2 = 1 + t\<^sup>2"
    unfolding k_def by (rule crossing_angle(1) [OF c])
  have "(px / c - h * ca * t / c) = (px - h * ca * t) * k" "(py / c - h * sa * t / c) = (py - h * sa * t) * k"
    by (simp_all add: k_def diff_divide_distrib)
  then show "(E - h - (px * ca + py * sa) * t)\<^sup>2 =
      (E - px * ca * t - py * sa * t + h * t * t) * (E - px * ca * t - py * sa * t + h * t * t)
      - (px / c - h * ca * t / c) * (px / c - h * ca * t / c)
      - (py / c - h * sa * t / c) * (py / c - h * sa * t / c)"
    using k a h by (simp only:) algebra
qed (use pos in simp)

lemma boost_determinant:
  fixes c s t ca sa px py E h pz :: real
  assumes c: "c \<noteq> 0" "c\<^sup>2 + s\<^sup>2 = 1" "t = s / c" and a: "ca\<^sup>2 + sa\<^sup>2 = 1"
    and pz: "pz = E - h - (px * ca + py * sa) * t" "pz \<noteq> 0"
  shows "1 / c + ((px / c - h * ca * t / c) / pz * ca + (py / c - h * sa * t / c) / pz * sa
      - (1 - (E - px * ca * t - py * sa * t + h * t * t) / pz) * s) * t = (E - h) / (c * pz)"
proof -
  define k where "k = 1 / c"
  have k: "k\<^sup>2 = 1 + t\<^sup>2" "k * c = 1" "s = t * c"
    unfolding k_def by (fact crossing_angle [OF c])+
  have scaled: "(px / c - h * ca * t / c) = (px - h * ca * t) * k" "(py / c - h * sa * t / c) = (py - h * sa * t) * k"
    by (simp_all add: k_def diff_divide_distrib)
  have key: "k * pz + ((px - h * ca * t) * k * ca + (py - h * sa * t) * k * sa
      - (pz - (E - px * ca * t - py * sa * t + h * t * t)) * s) * t = (E - h) * k"
    using k a pz by algebra
  have common: "k + (X / pz * ca + Y / pz * sa - (1 - G / pz) * s) * t =
      (k * pz + (X * ca + Y * sa - (pz - G) * s) * t) / pz" for X Y G
    using pz(2) by (simp add: field_simps)
  show ?thesis
    unfolding k_def [symmetric] scaled common key by (simp add: k_def)
qed

text \<open>The inverse matrix of the code, as polynomials over the determinant.\<close>

lemma boost_matrix_inverse:
  fixes k s t ca sa hx hy hs x y z D :: real
  assumes a: "ca\<^sup>2 + sa\<^sup>2 = 1" and k: "k\<^sup>2 = 1 + t\<^sup>2" "s * k = t"
    and D: "D = k + (hx * ca + hy * sa - hs * s) * t"
    and st: "x' = (1 + hx * ca * s) * x + hx * sa * s * y + ca * t * z"
      "y' = hy * ca * s * x + (1 + hy * sa * s) * y + sa * t * z"
      "z' = hs * ca * s * x + hs * sa * s * y + k * z"
  shows "(k + sa * t * (hy - hs * sa * s)) * x' + sa * t * (hs * ca * s - hx) * y'
      + - t * (ca - hx * sa * sa * s + hy * ca * sa * s) * z' = D * x"
    and "ca * t * (- hy + hs * sa * s) * x' + (k + ca * t * (hx - hs * ca * s)) * y'
      + - t * (sa - hy * ca * ca * s + hx * ca * sa * s) * z' = D * y"
    and "- hs * ca * s * x' + - hs * sa * s * y' + (1 + hx * ca * s + hy * sa * s) * z' = D * z"
  subgoal using a k(2) unfolding D st by algebra
  subgoal using a k(2) unfolding D st by algebra
  subgoal using a k(2) unfolding D st by algebra
  done

lemma combine_quotients:
  fixes D :: real
  assumes "A * x' + B * y' + C * z' = D * x" "D \<noteq> 0"
  shows "A / D * x' + B / D * y' + C / D * z' = x"
proof -
  have "A / D * x' + B / D * y' + C / D * z' = (A * x' + B * y' + C * z') / D"
    by (simp add: add_divide_distrib)
  then show ?thesis using assms by simp
qed

text \<open>The longitudinal momentum of a particle in its own and in the boosted frame.\<close>

definition boost_pz :: "boost_coords \<Rightarrow> real" where
  "boost_pz c = sqrt ((1 + bc_delta c) * (1 + bc_delta c) - bc_px c * bc_px c - bc_py c * bc_py c)"

definition boosted_pz :: "BB6D_boost_data \<Rightarrow> boost_coords \<Rightarrow> real" where
  "boosted_pz d c = boost_pz c - (bc_px c * calpha d + bc_py c * salpha d) * tphi d"

lemma boost_momenta:
  fixes d c
  defines "h \<equiv> 1 + bc_delta c - boost_pz c"
  shows "bc_px (BeamBeam6D_boost d c) = bc_px c / cphi d - h * calpha d * tphi d / cphi d"
    and "bc_py (BeamBeam6D_boost d c) = bc_py c / cphi d - h * salpha d * tphi d / cphi d"
    and "1 + bc_delta (BeamBeam6D_boost d c) = 1 + bc_delta c - bc_px c * calpha d * tphi d
      - bc_py c * salpha d * tphi d + h * tphi d * tphi d"
  by (simp_all add: BeamBeam6D_boost_def Let_def h_def boost_pz_def algebra_simps)

lemma boost_pz_boost:
  assumes d: "boost_angles d" and c: "moves_forward d c"
  shows "boost_pz (BeamBeam6D_boost d c) = boosted_pz d c" "0 < boosted_pz d c" "0 < boost_pz c"
proof -
  define h where "h = 1 + bc_delta c - boost_pz c"
  have less: "(bc_px c)\<^sup>2 + (bc_py c)\<^sup>2 < (1 + bc_delta c)\<^sup>2"
    and fwd: "(bc_px c * calpha d + bc_py c * salpha d) * tphi d < 1 + bc_delta c - h"
    using c by (simp_all add: moves_forward_def h_def boost_pz_def)
  have h: "(1 + bc_delta c - h)\<^sup>2 = (1 + bc_delta c)\<^sup>2 - (bc_px c)\<^sup>2 - (bc_py c)\<^sup>2"
    using less by (simp add: h_def boost_pz_def power2_eq_square)
  show "0 < boosted_pz d c" using fwd by (simp add: boosted_pz_def h_def)
  show "0 < boost_pz c" using less by (simp add: boost_pz_def power2_eq_square)
  show "boost_pz (BeamBeam6D_boost d c) = boosted_pz d c"
    using boosted_momentum [OF _ _ _ _ h fwd, of "cphi d" "sphi d"] d
    unfolding boost_pz_def [of "BeamBeam6D_boost d c"] boost_momenta h_def [symmetric]
    by (simp add: boost_angles_def boosted_pz_def h_def)
qed

lemma boost_positions:
  fixes d c
  defines "b \<equiv> BeamBeam6D_boost d c"
  defines "hx \<equiv> bc_px b / boost_pz b" and "hy \<equiv> bc_py b / boost_pz b"
    and "hs \<equiv> 1 - (bc_delta b + 1) / boost_pz b"
  shows "bc_x b = (1 + hx * calpha d * sphi d) * bc_x c + hx * salpha d * sphi d * bc_y c
      + calpha d * tphi d * bc_sigma c"
    and "bc_y b = hy * calpha d * sphi d * bc_x c + (1 + hy * salpha d * sphi d) * bc_y c
      + salpha d * tphi d * bc_sigma c"
    and "bc_sigma b = hs * calpha d * sphi d * bc_x c + hs * salpha d * sphi d * bc_y c
      + 1 / cphi d * bc_sigma c"
  unfolding hx_def hy_def hs_def boost_pz_def b_def
  by (simp_all only: BeamBeam6D_boost_def Let_def boost_coords.simps)

lemma inv_boost_positions:
  fixes d b
  defines "hx \<equiv> bc_px b / boost_pz b" and "hy \<equiv> bc_py b / boost_pz b"
    and "hs \<equiv> 1 - (bc_delta b + 1) / boost_pz b"
  defines "D \<equiv> 1 / cphi d + (hx * calpha d + hy * salpha d - hs * sphi d) * tphi d"
  shows "bc_x (BeamBeam6D_inv_boost d b) =
      (1 / cphi d + salpha d * tphi d * (hy - hs * salpha d * sphi d)) / D * bc_x b
      + salpha d * tphi d * (hs * calpha d * sphi d - hx) / D * bc_y b
      + - tphi d * (calpha d - hx * salpha d * salpha d * sphi d + hy * calpha d * salpha d * sphi d) / D
        * bc_sigma b"
    and "bc_y (BeamBeam6D_inv_boost d b) =
      calpha d * tphi d * (- hy + hs * salpha d * sphi d) / D * bc_x b
      + (1 / cphi d + calpha d * tphi d * (hx - hs * calpha d * sphi d)) / D * bc_y b
      + - tphi d * (salpha d - hy * calpha d * calpha d * sphi d + hx * calpha d * salpha d * sphi d) / D
        * bc_sigma b"
    and "bc_sigma (BeamBeam6D_inv_boost d b) =
      - hs * calpha d * sphi d / D * bc_x b + - hs * salpha d * sphi d / D * bc_y b
      + (1 + hx * calpha d * sphi d + hy * salpha d * sphi d) / D * bc_sigma b"
  unfolding D_def hx_def hy_def hs_def boost_pz_def
  by (simp_all only: BeamBeam6D_inv_boost_def Let_def boost_coords.simps)

lemma inv_boost_momenta:
  fixes d b
  defines "h \<equiv> (bc_delta b + 1 - boost_pz b) * cphi d * cphi d"
  shows "bc_px (BeamBeam6D_inv_boost d b) = bc_px b * cphi d + h * calpha d * tphi d"
    and "bc_py (BeamBeam6D_inv_boost d b) = bc_py b * cphi d + h * salpha d * tphi d"
    and "bc_delta (BeamBeam6D_inv_boost d b) = bc_delta b
      + bc_px (BeamBeam6D_inv_boost d b) * calpha d * tphi d
      + bc_py (BeamBeam6D_inv_boost d b) * salpha d * tphi d - h * tphi d * tphi d"
  unfolding h_def boost_pz_def
  by (simp_all only: BeamBeam6D_inv_boost_def Let_def boost_coords.simps)

lemma undo_momentum: "c \<noteq> 0 \<Longrightarrow> (p / c - h * a * t / c) * c + h * a * t = (p :: real)"
  by (simp add: left_diff_distrib)

lemma boost_h:
  assumes d: "boost_angles d" and c: "moves_forward d c"
  shows "(bc_delta (BeamBeam6D_boost d c) + 1 - boost_pz (BeamBeam6D_boost d c)) * cphi d * cphi d =
    1 + bc_delta c - boost_pz c"
proof -
  have angle: "cphi d \<noteq> 0" "(cphi d)\<^sup>2 + (sphi d)\<^sup>2 = 1" "tphi d = sphi d / cphi d"
    using d by (simp_all add: boost_angles_def)
  define h k where "h = 1 + bc_delta c - boost_pz c" and "k = 1 / cphi d"
  have k: "k\<^sup>2 = 1 + (tphi d)\<^sup>2" "k * cphi d = 1" "sphi d = tphi d * cphi d"
    unfolding k_def by (fact crossing_angle [OF angle])+
  have "1 + bc_delta (BeamBeam6D_boost d c) - boost_pz (BeamBeam6D_boost d c) = h * (1 + (tphi d)\<^sup>2)"
    by (simp add: boost_pz_boost [OF d c] boost_momenta boosted_pz_def h_def algebra_simps power2_eq_square)
  then have "(1 + bc_delta (BeamBeam6D_boost d c) - boost_pz (BeamBeam6D_boost d c)) * cphi d * cphi d = h"
    using k by algebra
  then show ?thesis by (simp add: h_def add.commute)
qed

lemma boost_round_trip_aux:
  assumes d: "boost_angles d" and c: "moves_forward d c"
  shows "BeamBeam6D_inv_boost d (BeamBeam6D_boost d c) = c"
proof (rule boost_coords.equality)
  define b where "b = BeamBeam6D_boost d c"
  define pz where "pz = boost_pz b"
  define hx hy hs where "hx = bc_px b / pz" and "hy = bc_py b / pz" and "hs = 1 - (bc_delta b + 1) / pz"
  define D where "D = 1 / cphi d + (hx * calpha d + hy * salpha d - hs * sphi d) * tphi d"
  have a: "(calpha d)\<^sup>2 + (salpha d)\<^sup>2 = 1"
    and angle: "cphi d \<noteq> 0" "(cphi d)\<^sup>2 + (sphi d)\<^sup>2 = 1" "tphi d = sphi d / cphi d"
    using d by (simp_all add: boost_angles_def)
  have pz: "pz = boosted_pz d c" "0 < pz"
    using boost_pz_boost [OF d c] by (simp_all add: pz_def b_def)
  have "D = boost_pz c / (cphi d * pz)"
    using boost_determinant [OF angle a, of pz "1 + bc_delta c" "1 + bc_delta c - boost_pz c" "bc_px c" "bc_py c"] pz
    by (simp add: D_def hx_def hy_def hs_def b_def boost_momenta boosted_pz_def add.commute)
  then have D: "D \<noteq> 0" using boost_pz_boost [OF d c] pz angle by simp
  have k: "(1 / cphi d)\<^sup>2 = 1 + (tphi d)\<^sup>2" "sphi d * (1 / cphi d) = tphi d"
    using crossing_angle(1) [OF angle] angle by simp_all
  note inverse = boost_matrix_inverse [OF a k D_def
      boost_positions [of d c, folded b_def, folded pz_def, folded hx_def hy_def hs_def]]
  note inv = inv_boost_positions [of d b, folded pz_def, folded hx_def hy_def hs_def, folded D_def]
  show "bc_x (BeamBeam6D_inv_boost d (BeamBeam6D_boost d c)) = bc_x c"
    "bc_y (BeamBeam6D_inv_boost d (BeamBeam6D_boost d c)) = bc_y c"
    "bc_sigma (BeamBeam6D_inv_boost d (BeamBeam6D_boost d c)) = bc_sigma c"
    unfolding b_def [symmetric] inv by (rule combine_quotients [OF inverse(1) D],
      rule combine_quotients [OF inverse(2) D], rule combine_quotients [OF inverse(3) D])
  show px: "bc_px (BeamBeam6D_inv_boost d (BeamBeam6D_boost d c)) = bc_px c"
    and py: "bc_py (BeamBeam6D_inv_boost d (BeamBeam6D_boost d c)) = bc_py c"
    unfolding inv_boost_momenta(1,2) boost_h [OF d c] boost_momenta by (rule undo_momentum [OF angle(1)])+
  show "bc_delta (BeamBeam6D_inv_boost d (BeamBeam6D_boost d c)) = bc_delta c"
    unfolding inv_boost_momenta(3) px py boost_h [OF d c] using boost_momenta(3) [of d c] by simp
qed simp

text \<open>C32: The inverse boost undoes the boost of the six-dimensional beam-beam lens on every particle that
  moves forward in both frames, for every crossing angle and crossing plane.\<close>

theorem boost_round_trip:
  assumes d: "boost_angles d" and c: "moves_forward d c"
  shows "BeamBeam6D_inv_boost d (BeamBeam6D_boost d c) = c"
  by (rule boost_round_trip_aux [OF assms])

definition sample_angles :: BB6D_boost_data where
  "sample_angles = \<lparr>sphi = 3 / 5, cphi = 4 / 5, tphi = 3 / 4, salpha = 0, calpha = 1\<rparr>"

theorem boost_round_trip_witness:
  "BeamBeam6D_inv_boost sample_angles (BeamBeam6D_boost sample_angles
     \<lparr>bc_x = 1, bc_px = - 1, bc_y = 2, bc_py = 0, bc_sigma = 3, bc_delta = 1\<rparr>) =
   \<lparr>bc_x = 1, bc_px = - 1, bc_y = 2, bc_py = 0, bc_sigma = 3, bc_delta = 1\<rparr>"
proof (rule boost_round_trip)
  have "0 < sqrt (3 :: real)" by simp
  then have "- (3 / 4) < sqrt (3 :: real)" by linarith
  then show "moves_forward sample_angles
      \<lparr>bc_x = 1, bc_px = - 1, bc_y = 2, bc_py = 0, bc_sigma = 3, bc_delta = 1\<rparr>"
    by (simp add: moves_forward_def sample_angles_def)
qed (simp add: boost_angles_def sample_angles_def power2_eq_square)

subsection \<open>The shape of the strong beam at the collision point\<close>

definition mysign :: "real \<Rightarrow> real" where
  "mysign a = (if a \<ge> 0 then 1 else 0) - (if a < 0 then 1 else 0)"

text \<open>The eight values behind the result pointers.\<close>

record sigma_hat =
  Sig_11_hat :: real
  Sig_33_hat :: real
  costheta :: real
  sintheta :: real
  dS_Sig_11_hat :: real
  dS_Sig_33_hat :: real
  dS_costheta :: real
  dS_sintheta :: real

definition BeamBeam6D_propagate_Sigma_matrix ::
    "BB6D_Sigmas \<Rightarrow> real \<Rightarrow> real \<Rightarrow> bool \<Rightarrow> sigma_hat" where
  "BeamBeam6D_propagate_Sigma_matrix data S threshold_singular handle_singularities =
     (let Sig_11_0 = Sig_11_0 data; Sig_12_0 = Sig_12_0 data; Sig_13_0 = Sig_13_0 data;
          Sig_14_0 = Sig_14_0 data; Sig_22_0 = Sig_22_0 data; Sig_23_0 = Sig_23_0 data;
          Sig_24_0 = Sig_24_0 data; Sig_33_0 = Sig_33_0 data; Sig_34_0 = Sig_34_0 data;
          Sig_44_0 = Sig_44_0 data;
          Sig_11 = Sig_11_0 + 2 * Sig_12_0 * S + Sig_22_0 * S * S;
          Sig_33 = Sig_33_0 + 2 * Sig_34_0 * S + Sig_44_0 * S * S;
          Sig_13 = Sig_13_0 + (Sig_14_0 + Sig_23_0) * S + Sig_24_0 * S * S;
          Sig_12 = Sig_12_0 + Sig_22_0 * S;
          Sig_14 = Sig_14_0 + Sig_24_0 * S;
          Sig_22 = Sig_22_0 + 0 * S;
          Sig_23 = Sig_23_0 + Sig_24_0 * S;
          Sig_24 = Sig_24_0 + 0 * S;
          Sig_34 = Sig_34_0 + Sig_44_0 * S;
          Sig_44 = Sig_44_0 + 0 * S;
          R = Sig_11 - Sig_33;
          W = Sig_11 + Sig_33;
          T = R * R + 4 * Sig_13 * Sig_13;
          dS_R = 2 * (Sig_12_0 - Sig_34_0) + 2 * S * (Sig_22_0 - Sig_44_0);
          dS_W = 2 * (Sig_12_0 + Sig_34_0) + 2 * S * (Sig_22_0 + Sig_44_0);
          dS_Sig_13 = Sig_14_0 + Sig_23_0 + 2 * Sig_24_0 * S;
          dS_T = 2 * R * dS_R + 8 * Sig_13 * dS_Sig_13;
          signR = mysign R
      in if T < threshold_singular \<and> handle_singularities then
           let a = Sig_12 - Sig_34; b = Sig_22 - Sig_44; c = Sig_14 + Sig_23; d = Sig_24;
               sqrt_a2_c2 = sqrt (a * a + c * c)
           in if sqrt_a2_c2 * sqrt_a2_c2 * sqrt_a2_c2 < threshold_singular then
                let cos2theta = (if \<bar>d\<bar> > threshold_singular then \<bar>b\<bar> / sqrt (b * b + 4 * d * d) else 1)
                in \<lparr>Sig_11_hat = 0.5 * W, Sig_33_hat = 0.5 * W,
                    costheta = sqrt (0.5 * (1 + cos2theta)),
                    sintheta = mysign b * mysign d * sqrt (0.5 * (1 - cos2theta)),
                    dS_Sig_11_hat = 0.5 * dS_W, dS_Sig_33_hat = 0.5 * dS_W,
                    dS_costheta = 0, dS_sintheta = 0\<rparr>
              else
                let cos2theta = \<bar>2 * a\<bar> / (2 * sqrt_a2_c2);
                    costheta = sqrt (0.5 * (1 + cos2theta));
                    sintheta = mysign a * mysign c * sqrt (0.5 * (1 - cos2theta));
                    dS_cos2theta = mysign a * (0.5 * b / sqrt_a2_c2
                      - a * (a * b + 2 * c * d) / (2 * sqrt_a2_c2 * sqrt_a2_c2 * sqrt_a2_c2))
                in \<lparr>Sig_11_hat = 0.5 * W, Sig_33_hat = 0.5 * W, costheta = costheta, sintheta = sintheta,
                    dS_Sig_11_hat = 0.5 * dS_W + mysign a * sqrt_a2_c2,
                    dS_Sig_33_hat = 0.5 * dS_W - mysign a * sqrt_a2_c2,
                    dS_costheta = 1 / (4 * costheta) * dS_cos2theta,
                    dS_sintheta = (if \<bar>sintheta\<bar> > threshold_singular
                      then - 1 / (4 * sintheta) * dS_cos2theta else d / (2 * a))\<rparr>
         else
           let sqrtT = sqrt T;
               cos2theta = signR * R / sqrtT;
               costheta = sqrt (0.5 * (1 + cos2theta));
               sintheta = signR * mysign Sig_13 * sqrt (0.5 * (1 - cos2theta));
               dS_cos2theta = signR * (dS_R / sqrtT - R / (2 * sqrtT * sqrtT * sqrtT) * dS_T)
           in \<lparr>Sig_11_hat = 0.5 * (W + signR * sqrtT), Sig_33_hat = 0.5 * (W - signR * sqrtT),
               costheta = costheta, sintheta = sintheta,
               dS_Sig_11_hat = 0.5 * (dS_W + signR * 0.5 / sqrtT * dS_T),
               dS_Sig_33_hat = 0.5 * (dS_W - signR * 0.5 / sqrtT * dS_T),
               dS_costheta = 1 / (4 * costheta) * dS_cos2theta,
               dS_sintheta = (if \<bar>sintheta\<bar> < threshold_singular \<and> handle_singularities
                 then (Sig_14 + Sig_23) / R else - 1 / (4 * sintheta) * dS_cos2theta)\<rparr>)"

text \<open>The transverse sigma matrix at the collision point.\<close>

definition Sig_11_at :: "BB6D_Sigmas \<Rightarrow> real \<Rightarrow> real" where
  "Sig_11_at d S = Sig_11_0 d + 2 * Sig_12_0 d * S + Sig_22_0 d * S * S"

definition Sig_33_at :: "BB6D_Sigmas \<Rightarrow> real \<Rightarrow> real" where
  "Sig_33_at d S = Sig_33_0 d + 2 * Sig_34_0 d * S + Sig_44_0 d * S * S"

definition Sig_13_at :: "BB6D_Sigmas \<Rightarrow> real \<Rightarrow> real" where
  "Sig_13_at d S = Sig_13_0 d + (Sig_14_0 d + Sig_23_0 d) * S + Sig_24_0 d * S * S"

definition Sig_T_at :: "BB6D_Sigmas \<Rightarrow> real \<Rightarrow> real" where
  "Sig_T_at d S = (Sig_11_at d S - Sig_33_at d S)\<^sup>2 + 4 * (Sig_13_at d S)\<^sup>2"

lemma mysign_simps [simp]:
  "mysign a * mysign a = 1" "mysign a * a = \<bar>a\<bar>" "\<bar>mysign a\<bar> = 1"
  by (auto simp: mysign_def)

lemma half_angle:
  fixes C :: real
  assumes "\<bar>C\<bar> \<le> 1" "\<bar>e\<bar> = 1"
  defines "ct \<equiv> sqrt (0.5 * (1 + C))" and "st \<equiv> e * sqrt (0.5 * (1 - C))"
  shows "ct\<^sup>2 + st\<^sup>2 = 1" "ct\<^sup>2 - st\<^sup>2 = C" "2 * (ct * st) = e * sqrt (1 - C\<^sup>2)"
proof -
  have e: "e\<^sup>2 = 1" using assms(2) by (metis one_power2 power2_abs)
  have ct: "ct\<^sup>2 = 0.5 * (1 + C)" and st: "st\<^sup>2 = 0.5 * (1 - C)"
    using assms(1) e by (simp_all add: ct_def st_def power_mult_distrib)
  show "ct\<^sup>2 + st\<^sup>2 = 1" "ct\<^sup>2 - st\<^sup>2 = C"
    unfolding ct st by (simp_all add: field_simps)
  have "0.5 * (1 + C) * (0.5 * (1 - C)) = (1 - C\<^sup>2) / 2\<^sup>2"
    by (simp add: field_simps power2_eq_square)
  then have "sqrt (0.5 * (1 + C)) * sqrt (0.5 * (1 - C)) = sqrt (1 - C\<^sup>2) / 2"
    by (simp only: flip: real_sqrt_mult) (simp add: real_sqrt_divide)
  then show "2 * (ct * st) = e * sqrt (1 - C\<^sup>2)"
    by (simp add: ct_def st_def)
qed

text \<open>The regular branch of the propagation, over the matrix at the collision point.\<close>

definition sigma_cos2 :: "BB6D_Sigmas \<Rightarrow> real \<Rightarrow> real" where
  "sigma_cos2 d S = \<bar>Sig_11_at d S - Sig_33_at d S\<bar> / sqrt (Sig_T_at d S)"

definition sigma_regular :: "BB6D_Sigmas \<Rightarrow> real \<Rightarrow> real \<Rightarrow> bool \<Rightarrow> bool" where
  "sigma_regular d S threshold handle \<longleftrightarrow> 0 < Sig_T_at d S \<and> \<not> (Sig_T_at d S < threshold \<and> handle)"

lemma sigma_regular_branch:
  assumes "sigma_regular d S threshold handle"
  defines "q \<equiv> BeamBeam6D_propagate_Sigma_matrix d S threshold handle"
    and "signR \<equiv> mysign (Sig_11_at d S - Sig_33_at d S)"
  shows "Sig_11_hat q = (Sig_11_at d S + Sig_33_at d S + signR * sqrt (Sig_T_at d S)) / 2"
    and "Sig_33_hat q = (Sig_11_at d S + Sig_33_at d S - signR * sqrt (Sig_T_at d S)) / 2"
    and "costheta q = sqrt (0.5 * (1 + sigma_cos2 d S))"
    and "sintheta q = signR * mysign (Sig_13_at d S) * sqrt (0.5 * (1 - sigma_cos2 d S))"
proof -
  have T: "(Sig_11_at d S - Sig_33_at d S) * (Sig_11_at d S - Sig_33_at d S)
      + 4 * Sig_13_at d S * Sig_13_at d S = Sig_T_at d S"
    by (simp add: Sig_T_at_def power2_eq_square)
  have regular: "(Sig_T_at d S < threshold \<and> handle) = False"
    using assms(1) by (simp add: sigma_regular_def)
  note unfolded = q_def BeamBeam6D_propagate_Sigma_matrix_def Let_def Sig_11_at_def [symmetric]
    Sig_33_at_def [symmetric] Sig_13_at_def [symmetric] T regular if_False sigma_hat.simps
  show "Sig_11_hat q = (Sig_11_at d S + Sig_33_at d S + signR * sqrt (Sig_T_at d S)) / 2"
    "Sig_33_hat q = (Sig_11_at d S + Sig_33_at d S - signR * sqrt (Sig_T_at d S)) / 2"
    "costheta q = sqrt (0.5 * (1 + sigma_cos2 d S))"
    "sintheta q = signR * mysign (Sig_13_at d S) * sqrt (0.5 * (1 - sigma_cos2 d S))"
    unfolding unfolded by (simp_all add: signR_def sigma_cos2_def)
qed

lemma sigma_cos2_bounds:
  assumes "0 < Sig_T_at d S"
  shows "0 \<le> sigma_cos2 d S" "sigma_cos2 d S \<le> 1"
    and "sqrt (1 - (sigma_cos2 d S)\<^sup>2) = 2 * \<bar>Sig_13_at d S\<bar> / sqrt (Sig_T_at d S)"
proof -
  define R X T where "R = Sig_11_at d S - Sig_33_at d S" and "X = Sig_13_at d S" and "T = Sig_T_at d S"
  have T: "0 < T" "T = R\<^sup>2 + 4 * X\<^sup>2"
    using assms by (simp_all add: T_def Sig_T_at_def R_def X_def)
  show "0 \<le> sigma_cos2 d S" by (simp add: sigma_cos2_def assms less_imp_le)
  have "\<bar>R\<bar> \<le> sqrt T" using T by (intro real_le_rsqrt) simp
  then show "sigma_cos2 d S \<le> 1" using T by (simp add: sigma_cos2_def R_def T_def)
  have "1 - (sigma_cos2 d S)\<^sup>2 = (2 * \<bar>X\<bar>)\<^sup>2 / T"
    using T(1) by (simp add: sigma_cos2_def power_divide flip: R_def T_def)
      (simp add: T(2) field_simps power2_eq_square)
  then show "sqrt (1 - (sigma_cos2 d S)\<^sup>2) = 2 * \<bar>Sig_13_at d S\<bar> / sqrt (Sig_T_at d S)"
    by (simp only: real_sqrt_divide real_sqrt_abs) (simp add: X_def T_def)
qed

text \<open>C33: Where the coupling is regular, the code rotates the transverse sigma matrix of the strong beam at
  the collision point into its principal axes: the angle is an angle, the rotated matrix has the values
  \<open>Sig_11_hat\<close> and \<open>Sig_33_hat\<close> on the diagonal and no coupling.\<close>

theorem propagate_diagonalises:
  fixes d S threshold handle
  assumes "sigma_regular d S threshold handle"
  shows "let q = BeamBeam6D_propagate_Sigma_matrix d S threshold handle;
      c = costheta q; s = sintheta q; s11 = Sig_11_at d S; s33 = Sig_33_at d S; s13 = Sig_13_at d S
    in c\<^sup>2 + s\<^sup>2 = 1 \<and>
       c\<^sup>2 * s11 + 2 * (c * s) * s13 + s\<^sup>2 * s33 = Sig_11_hat q \<and>
       s\<^sup>2 * s11 - 2 * (c * s) * s13 + c\<^sup>2 * s33 = Sig_33_hat q \<and>
       c * s * (s33 - s11) + (c\<^sup>2 - s\<^sup>2) * s13 = 0"
proof -
  define q where "q = BeamBeam6D_propagate_Sigma_matrix d S threshold handle"
  define c s where "c = costheta q" and "s = sintheta q"
  define R X T C e where "R = Sig_11_at d S - Sig_33_at d S" and "X = Sig_13_at d S"
    and "T = Sig_T_at d S" and "C = sigma_cos2 d S" and "e = mysign R * mysign X"
  have T: "0 < T" "T = R\<^sup>2 + 4 * X\<^sup>2"
    using assms by (simp_all add: sigma_regular_def T_def Sig_T_at_def R_def X_def)
  note branch = sigma_regular_branch [OF assms, folded q_def, folded R_def X_def T_def C_def, folded c_def s_def e_def]
  have C: "\<bar>C\<bar> \<le> 1" "sqrt (1 - C\<^sup>2) = 2 * \<bar>X\<bar> / sqrt T" "C = mysign R * R / sqrt T"
    using sigma_cos2_bounds [of d S] T(1) by (simp_all add: C_def T_def X_def R_def sigma_cos2_def)
  have e: "\<bar>e\<bar> = 1" by (simp add: e_def abs_mult)
  have one: "c\<^sup>2 + s\<^sup>2 = 1" and cos2: "c\<^sup>2 - s\<^sup>2 = C" and "2 * (c * s) = e * sqrt (1 - C\<^sup>2)"
    unfolding branch by (rule half_angle [OF C(1) e])+
  moreover have "mysign X * \<bar>X\<bar> = X" by (simp add: mysign_def)
  ultimately have sin2: "2 * (c * s) = mysign R * (2 * X / sqrt T)"
    by (simp add: C(2) e_def mult.assoc)
  define r m W where "r = sqrt T" and "m = mysign R" and "W = Sig_11_at d S + Sig_33_at d S"
  have r: "0 < r" "r * r = R\<^sup>2 + 4 * X\<^sup>2" using T by (simp_all add: r_def)
  have C': "C * r = m * R" and sin2': "2 * (c * s) * r = 2 * m * X"
    using r(1) by (simp_all add: C(3) sin2 m_def flip: r_def)
  have "(R * C + 2 * X * (2 * (c * s))) * r = m * r * r"
    using C' sin2' r(2) by algebra
  then have key: "R * C + 2 * X * (2 * (c * s)) = m * r" using r(1) by simp
  have "(C * X - c * s * R) * r = 0" using C' sin2' by algebra
  then have cross: "C * X - c * s * R = 0" using r(1) by simp
  have s11: "Sig_11_at d S = (W + R) / 2" and s33: "Sig_33_at d S = (W - R) / 2"
    by (simp_all add: W_def R_def)
  have hats: "Sig_11_hat q = (W + m * r) / 2" "Sig_33_hat q = (W - m * r) / 2"
    by (simp_all add: branch W_def m_def r_def)
  have "2 * (c\<^sup>2 * Sig_11_at d S + 2 * (c * s) * X + s\<^sup>2 * Sig_33_at d S) = 2 * Sig_11_hat q"
    "2 * (s\<^sup>2 * Sig_11_at d S - 2 * (c * s) * X + c\<^sup>2 * Sig_33_at d S) = 2 * Sig_33_hat q"
    using one cos2 key unfolding s11 s33 hats by algebra+
  moreover have "c * s * (Sig_33_at d S - Sig_11_at d S) + (c\<^sup>2 - s\<^sup>2) * X = 0"
    using cross by (simp add: cos2 R_def algebra_simps)
  ultimately show ?thesis
    using one by (simp add: Let_def flip: q_def X_def c_def s_def)
qed

definition sample_sigmas :: BB6D_Sigmas where
  "sample_sigmas = \<lparr>Sig_11_0 = 4, Sig_12_0 = 1, Sig_13_0 = 2, Sig_14_0 = 0, Sig_22_0 = 1, Sig_23_0 = 0,
     Sig_24_0 = 0, Sig_33_0 = 1, Sig_34_0 = 0, Sig_44_0 = 2\<rparr>"

lemma sample_sigmas_regular: "sigma_regular sample_sigmas 0 1 True"
  by (simp add: sigma_regular_def Sig_T_at_def Sig_11_at_def Sig_33_at_def Sig_13_at_def sample_sigmas_def)

theorem propagate_diagonalises_witness:
  "let q = BeamBeam6D_propagate_Sigma_matrix sample_sigmas 0 1 True
   in (costheta q)\<^sup>2 + (sintheta q)\<^sup>2 = 1 \<and>
     costheta q * sintheta q * (- 3) + ((costheta q)\<^sup>2 - (sintheta q)\<^sup>2) * 2 = 0"
  using propagate_diagonalises [OF sample_sigmas_regular]
  by (simp add: Let_def Sig_11_at_def Sig_33_at_def Sig_13_at_def sample_sigmas_def)

text \<open>The derivatives along the longitudinal coordinate of the collision point.\<close>

lemma eventually_same_sign:
  assumes "isCont g (x :: real)" "g x \<noteq> 0"
  shows "\<forall>\<^sub>F y in nhds x. mysign (g y) = mysign (g x)"
proof -
  have lim: "(g \<longlongrightarrow> g x) (nhds x)"
    using assms(1) by (simp add: isCont_def tendsto_at_iff_tendsto_nhds)
  consider "0 < g x" | "g x < 0" using assms(2) by linarith
  then show ?thesis
  proof cases
    case 1
    show ?thesis by (rule eventually_mono [OF order_tendstoD(1) [OF lim 1]]) (use 1 in \<open>simp add: mysign_def\<close>)
  next
    case 2
    show ?thesis by (rule eventually_mono [OF order_tendstoD(2) [OF lim 2]]) (use 2 in \<open>simp add: mysign_def\<close>)
  qed
qed

lemma sigma_at_derivatives [derivative_intros]:
  "(Sig_11_at d has_field_derivative 2 * Sig_12_0 d + 2 * Sig_22_0 d * S) (at S)"
  "(Sig_33_at d has_field_derivative 2 * Sig_34_0 d + 2 * Sig_44_0 d * S) (at S)"
  "(Sig_13_at d has_field_derivative Sig_14_0 d + Sig_23_0 d + 2 * Sig_24_0 d * S) (at S)"
  unfolding Sig_11_at_def [abs_def] Sig_33_at_def [abs_def] Sig_13_at_def [abs_def]
  by (auto intro!: derivative_eq_intros)

definition dS_R_at :: "BB6D_Sigmas \<Rightarrow> real \<Rightarrow> real" where
  "dS_R_at d S = 2 * (Sig_12_0 d - Sig_34_0 d) + 2 * S * (Sig_22_0 d - Sig_44_0 d)"

definition dS_T_at :: "BB6D_Sigmas \<Rightarrow> real \<Rightarrow> real" where
  "dS_T_at d S = 2 * (Sig_11_at d S - Sig_33_at d S) * dS_R_at d S
     + 8 * Sig_13_at d S * (Sig_14_0 d + Sig_23_0 d + 2 * Sig_24_0 d * S)"

lemma Sig_R_derivative:
  "((\<lambda>S. Sig_11_at d S - Sig_33_at d S) has_field_derivative dS_R_at d S) (at S)"
  by (auto intro!: derivative_eq_intros simp: dS_R_at_def algebra_simps)

lemma Sig_T_derivative [derivative_intros]:
  "(Sig_T_at d has_field_derivative dS_T_at d S) (at S)"
proof -
  have "((\<lambda>S. (Sig_11_at d S - Sig_33_at d S)\<^sup>2 + 4 * (Sig_13_at d S)\<^sup>2)
      has_field_derivative dS_T_at d S) (at S)"
    by (rule derivative_eq_intros Sig_R_derivative refl)+ (simp add: dS_T_at_def algebra_simps)
  then show ?thesis by (simp add: Sig_T_at_def [abs_def])
qed

definition dS_cos2_at :: "BB6D_Sigmas \<Rightarrow> real \<Rightarrow> real" where
  "dS_cos2_at d S = mysign (Sig_11_at d S - Sig_33_at d S) *
     (dS_R_at d S / sqrt (Sig_T_at d S) -
      (Sig_11_at d S - Sig_33_at d S) / (2 * sqrt (Sig_T_at d S) * sqrt (Sig_T_at d S) * sqrt (Sig_T_at d S))
        * dS_T_at d S)"

lemma sigma_regular_derivatives:
  assumes "sigma_regular d S threshold handle"
  defines "q \<equiv> BeamBeam6D_propagate_Sigma_matrix d S threshold handle"
    and "signR \<equiv> mysign (Sig_11_at d S - Sig_33_at d S)"
    and "dS_W \<equiv> 2 * (Sig_12_0 d + Sig_34_0 d) + 2 * S * (Sig_22_0 d + Sig_44_0 d)"
  shows "dS_Sig_11_hat q = (dS_W + signR * (dS_T_at d S / (2 * sqrt (Sig_T_at d S)))) / 2"
    and "dS_Sig_33_hat q = (dS_W - signR * (dS_T_at d S / (2 * sqrt (Sig_T_at d S)))) / 2"
    and "dS_costheta q = 1 / (4 * costheta q) * dS_cos2_at d S"
    and "\<not> (\<bar>sintheta q\<bar> < threshold \<and> handle) \<Longrightarrow>
      dS_sintheta q = - 1 / (4 * sintheta q) * dS_cos2_at d S"
proof -
  have T: "(Sig_11_at d S - Sig_33_at d S) * (Sig_11_at d S - Sig_33_at d S)
      + 4 * Sig_13_at d S * Sig_13_at d S = Sig_T_at d S"
    by (simp add: Sig_T_at_def power2_eq_square)
  have regular: "(Sig_T_at d S < threshold \<and> handle) = False"
    using assms(1) by (simp add: sigma_regular_def)
  note unfolded = q_def BeamBeam6D_propagate_Sigma_matrix_def Let_def Sig_11_at_def [symmetric]
    Sig_33_at_def [symmetric] Sig_13_at_def [symmetric] T regular if_False sigma_hat.simps
    dS_R_at_def [symmetric] dS_T_at_def [symmetric]
  show "dS_Sig_11_hat q = (dS_W + signR * (dS_T_at d S / (2 * sqrt (Sig_T_at d S)))) / 2"
    "dS_Sig_33_hat q = (dS_W - signR * (dS_T_at d S / (2 * sqrt (Sig_T_at d S)))) / 2"
    "dS_costheta q = 1 / (4 * costheta q) * dS_cos2_at d S"
    unfolding unfolded by (simp_all add: signR_def dS_W_def dS_cos2_at_def)
  show "\<not> (\<bar>sintheta q\<bar> < threshold \<and> handle) \<Longrightarrow>
      dS_sintheta q = - 1 / (4 * sintheta q) * dS_cos2_at d S"
    unfolding unfolded by (auto simp: dS_cos2_at_def)
qed

lemma sigma_cos2_derivative:
  assumes T: "0 < Sig_T_at d S" and R: "Sig_11_at d S \<noteq> Sig_33_at d S"
  shows "(sigma_cos2 d has_field_derivative dS_cos2_at d S) (at S)"
proof -
  define m where "m = mysign (Sig_11_at d S - Sig_33_at d S)"
  have "isCont (\<lambda>S. Sig_11_at d S - Sig_33_at d S) S"
    by (rule DERIV_isCont [OF Sig_R_derivative])
  then have "\<forall>\<^sub>F S' in nhds S. mysign (Sig_11_at d S' - Sig_33_at d S') = m"
    unfolding m_def by (rule eventually_same_sign) (use R in simp)
  then have "\<forall>\<^sub>F S' in nhds S. sigma_cos2 d S' = m * (Sig_11_at d S' - Sig_33_at d S') / sqrt (Sig_T_at d S')"
    by (rule eventually_mono) (metis mysign_simps(2) sigma_cos2_def)
  moreover have "((\<lambda>S'. m * (Sig_11_at d S' - Sig_33_at d S') / sqrt (Sig_T_at d S'))
      has_field_derivative dS_cos2_at d S) (at S)"
  proof -
    define r where "r = sqrt (Sig_T_at d S)"
    have r: "r \<noteq> 0" using T by (simp add: r_def)
    have "((\<lambda>S'. sqrt (Sig_T_at d S')) has_field_derivative dS_T_at d S / (2 * r)) (at S)"
      using T by (auto intro!: derivative_eq_intros simp: r_def field_simps)
    from DERIV_divide [OF DERIV_cmult [OF Sig_R_derivative, of m] this]
    have "((\<lambda>S'. m * (Sig_11_at d S' - Sig_33_at d S') / sqrt (Sig_T_at d S')) has_field_derivative
        (m * dS_R_at d S * r - m * (Sig_11_at d S - Sig_33_at d S) * (dS_T_at d S / (2 * r))) / (r * r)) (at S)"
      using r by (simp add: r_def)
    moreover have "(m * dS_R_at d S * r - m * (Sig_11_at d S - Sig_33_at d S) * (dS_T_at d S / (2 * r))) / (r * r)
        = dS_cos2_at d S"
      unfolding dS_cos2_at_def m_def [symmetric] r_def [symmetric] using r by (simp add: field_simps)
    ultimately show ?thesis by simp
  qed
  ultimately show ?thesis by (subst DERIV_cong_ev [OF refl _ refl]) auto
qed

lemma sigma_regular_nearby:
  assumes "0 < Sig_T_at d S" "handle \<longrightarrow> threshold < Sig_T_at d S"
  shows "\<forall>\<^sub>F S' in nhds S. sigma_regular d S' threshold handle"
proof -
  have lim: "(Sig_T_at d \<longlongrightarrow> Sig_T_at d S) (nhds S)"
    using DERIV_isCont [OF Sig_T_derivative] by (simp add: isCont_def tendsto_at_iff_tendsto_nhds)
  have "\<forall>\<^sub>F S' in nhds S. 0 < Sig_T_at d S'" by (rule order_tendstoD(1) [OF lim assms(1)])
  moreover have "\<forall>\<^sub>F S' in nhds S. handle \<longrightarrow> threshold < Sig_T_at d S'"
    using assms(2) order_tendstoD(1) [OF lim, of threshold] by (cases handle) auto
  ultimately show ?thesis by eventually_elim (auto simp: sigma_regular_def)
qed

text \<open>The values \<open>dS_\<close> of the propagation are the derivatives, along the position of the collision point,
  of the beam sizes and of the rotation, wherever the matrix is coupled and away from the singular branch.\<close>

theorem propagate_derivatives:
  assumes T: "0 < Sig_T_at d S" "handle \<longrightarrow> threshold < Sig_T_at d S"
    and R: "Sig_11_at d S \<noteq> Sig_33_at d S" and X: "Sig_13_at d S \<noteq> 0"
    and sint: "handle \<longrightarrow> threshold \<le> \<bar>sintheta (BeamBeam6D_propagate_Sigma_matrix d S threshold handle)\<bar>"
  shows "let shape = (\<lambda>S. BeamBeam6D_propagate_Sigma_matrix d S threshold handle)
    in ((\<lambda>S. Sig_11_hat (shape S)) has_field_derivative dS_Sig_11_hat (shape S)) (at S) \<and>
       ((\<lambda>S. Sig_33_hat (shape S)) has_field_derivative dS_Sig_33_hat (shape S)) (at S) \<and>
       ((\<lambda>S. costheta (shape S)) has_field_derivative dS_costheta (shape S)) (at S) \<and>
       ((\<lambda>S. sintheta (shape S)) has_field_derivative dS_sintheta (shape S)) (at S)"
proof -
  define shape where "shape = (\<lambda>S. BeamBeam6D_propagate_Sigma_matrix d S threshold handle)"
  define m e where "m = mysign (Sig_11_at d S - Sig_33_at d S)" and "e = m * mysign (Sig_13_at d S)"
  have regular: "sigma_regular d S threshold handle"
    using T by (auto simp: sigma_regular_def)
  have "\<forall>\<^sub>F S' in nhds S. mysign (Sig_11_at d S' - Sig_33_at d S') = m"
    unfolding m_def by (rule eventually_same_sign [OF DERIV_isCont [OF Sig_R_derivative]]) (use R in simp)
  moreover have "\<forall>\<^sub>F S' in nhds S. mysign (Sig_13_at d S') = mysign (Sig_13_at d S)"
    by (rule eventually_same_sign [OF DERIV_isCont [OF sigma_at_derivatives(3)] X])
  ultimately have nearby: "\<forall>\<^sub>F S' in nhds S.
      Sig_11_hat (shape S') = (Sig_11_at d S' + Sig_33_at d S' + m * sqrt (Sig_T_at d S')) / 2 \<and>
      Sig_33_hat (shape S') = (Sig_11_at d S' + Sig_33_at d S' - m * sqrt (Sig_T_at d S')) / 2 \<and>
      costheta (shape S') = sqrt (0.5 * (1 + sigma_cos2 d S')) \<and>
      sintheta (shape S') = e * sqrt (0.5 * (1 - sigma_cos2 d S'))"
    using sigma_regular_nearby [OF T]
    by eventually_elim (simp add: shape_def sigma_regular_branch e_def)
  have eventually_DERIV: "(f has_field_derivative D) (at S)"
    if "\<forall>\<^sub>F S' in nhds S. f S' = g S'" "(g has_field_derivative D) (at S)" for f g D
    using that by (subst DERIV_cong_ev [OF refl _ refl]) auto
  have "sqrt (1 - (sigma_cos2 d S)\<^sup>2) \<noteq> 0"
    using sigma_cos2_bounds(3) [OF T(1)] X T(1) by simp
  then have cos2: "0 \<le> sigma_cos2 d S" "sigma_cos2 d S < 1"
    using sigma_cos2_bounds(1,2) [OF T(1)] by (auto simp: order_less_le)
  note derivatives = sigma_regular_derivatives [OF regular]
  note branch = sigma_regular_branch [OF regular, folded m_def, folded e_def]
  have e: "e * e = 1" "e \<noteq> 0" unfolding e_def m_def by (auto simp: mysign_def)
  have 1: "((\<lambda>S'. (Sig_11_at d S' + Sig_33_at d S' + m * sqrt (Sig_T_at d S')) / 2)
      has_field_derivative dS_Sig_11_hat (shape S)) (at S)"
    and 2: "((\<lambda>S'. (Sig_11_at d S' + Sig_33_at d S' - m * sqrt (Sig_T_at d S')) / 2)
      has_field_derivative dS_Sig_33_hat (shape S)) (at S)"
    unfolding shape_def derivatives m_def [symmetric] using T(1)
    by (auto intro!: derivative_eq_intros simp: field_simps)
  have 3: "((\<lambda>S'. sqrt (0.5 * (1 + sigma_cos2 d S'))) has_field_derivative dS_costheta (shape S)) (at S)"
    unfolding shape_def derivatives branch using cos2
    by (auto intro!: derivative_eq_intros sigma_cos2_derivative [OF T(1) R] simp: field_simps)
  have 4: "((\<lambda>S'. e * sqrt (0.5 * (1 - sigma_cos2 d S'))) has_field_derivative dS_sintheta (shape S)) (at S)"
  proof -
    have "dS_sintheta (shape S) = - 1 / (4 * (e * sqrt (0.5 * (1 - sigma_cos2 d S)))) * dS_cos2_at d S"
      unfolding shape_def branch(4) [symmetric] by (rule derivatives(4)) (use sint in auto)
    moreover have "- 1 / (4 * (e * r)) = e * (- 1 / (4 * r))" for r
      unfolding e_def m_def by (auto simp: mysign_def)
    ultimately have dS_sint: "dS_sintheta (shape S) =
        e * (- 1 / (4 * sqrt (0.5 * (1 - sigma_cos2 d S))) * dS_cos2_at d S)"
      by (simp only: mult.assoc)
    show ?thesis unfolding dS_sint using cos2
      by (auto intro!: derivative_eq_intros sigma_cos2_derivative [OF T(1) R] simp: field_simps)
  qed
  show ?thesis
    unfolding Let_def shape_def [symmetric]
    by (intro conjI eventually_DERIV [OF _ 1] eventually_DERIV [OF _ 2] eventually_DERIV [OF _ 3]
        eventually_DERIV [OF _ 4] eventually_mono [OF nearby]) simp_all
qed

theorem propagate_derivatives_witness:
  "((\<lambda>S. Sig_11_hat (BeamBeam6D_propagate_Sigma_matrix sample_sigmas S 1 False)) has_field_derivative
     dS_Sig_11_hat (BeamBeam6D_propagate_Sigma_matrix sample_sigmas 0 1 False)) (at 0)"
  using propagate_derivatives [of sample_sigmas 0 False 1]
  by (simp add: Let_def Sig_T_at_def Sig_11_at_def Sig_33_at_def Sig_13_at_def sample_sigmas_def)

subsection \<open>Tracking\<close>

text \<open>The passage of a particle through one slice of the strong beam, in the boosted frame.\<close>

definition bb6d_slice ::
    "BB6D_data \<Rightarrow> bb6_slots \<Rightarrow> real \<Rightarrow> real \<Rightarrow> nat \<Rightarrow> boost_coords \<Rightarrow> boost_coords" where
  "bb6d_slice bb6ddata slots q0 P0 i_slice star =
     (let N_part_per_slice = bb_get_ptr slots 34 (bb6_N_part_per_slice bb6ddata);
          x_slices_star = bb_get_ptr slots 35 (bb6_x_slices_star bb6ddata);
          y_slices_star = bb_get_ptr slots 36 (bb6_y_slices_star bb6ddata);
          sigma_slices_star = bb_get_ptr slots 37 (bb6_sigma_slices_star bb6ddata);
          x_star = bc_x star; px_star = bc_px star; y_star = bc_y star; py_star = bc_py star;
          sigma_star = bc_sigma star; delta_star = bc_delta star;
          sigma_slice_star = sigma_slices_star i_slice;
          x_slice_star = x_slices_star i_slice;
          y_slice_star = y_slices_star i_slice;
          Ksl = N_part_per_slice i_slice * bb6_q_part bb6ddata * q0 / (P0 * SIXTRL_C_LIGHT);
          S = 0.5 * (sigma_star - sigma_slice_star);
          q = BeamBeam6D_propagate_Sigma_matrix (bb6_Sigmas_0_star bb6ddata) S
            (bb6_threshold_singular bb6ddata) True;
          x_bar_star = x_star + px_star * S - x_slice_star;
          y_bar_star = y_star + py_star * S - y_slice_star;
          x_bar_hat_star = x_bar_star * costheta q + y_bar_star * sintheta q;
          y_bar_hat_star = - x_bar_star * sintheta q + y_bar_star * costheta q;
          dS_x_bar_hat_star = x_bar_star * dS_costheta q + y_bar_star * dS_sintheta q;
          dS_y_bar_hat_star = - x_bar_star * dS_sintheta q + y_bar_star * dS_costheta q;
          ((Ex, Ey), G) = get_Ex_Ey_Gx_Gy_gauss x_bar_hat_star y_bar_hat_star
            (sqrt (Sig_11_hat q)) (sqrt (Sig_33_hat q)) (bb6_min_sigma_diff bb6ddata) False;
          (Gx, Gy) = (case G of None \<Rightarrow> (0, 0) | Some g \<Rightarrow> g);
          Fx_hat_star = Ksl * Ex;
          Fy_hat_star = Ksl * Ey;
          Gx_hat_star = Ksl * Gx;
          Gy_hat_star = Ksl * Gy;
          Fx_star = Fx_hat_star * costheta q - Fy_hat_star * sintheta q;
          Fy_star = Fx_hat_star * sintheta q + Fy_hat_star * costheta q;
          Fz_star = 0.5 * (Fx_hat_star * dS_x_bar_hat_star + Fy_hat_star * dS_y_bar_hat_star +
            Gx_hat_star * dS_Sig_11_hat q + Gy_hat_star * dS_Sig_33_hat q)
      in star\<lparr>bc_delta := delta_star + Fz_star + 0.5 * (Fx_star * (px_star + 0.5 * Fx_star) +
              Fy_star * (py_star + 0.5 * Fy_star)),
            bc_x := x_star - S * Fx_star,
            bc_px := px_star + Fx_star,
            bc_y := y_star - S * Fy_star,
            bc_py := py_star + Fy_star\<rparr>)"

text \<open>The number of slices is cast to a 32-bit \<open>int\<close> before the loop.\<close>

definition Track_particle_beam_beam_6d ::
    "particles \<Rightarrow> i64 \<Rightarrow> BeamBeam6D \<Rightarrow> particles \<times> track_status" where
  "Track_particle_beam_beam_6d p ii bb =
     (let (bb6ddata, slots) = the (BeamBeam6D_data bb)
      in if bb6_enabled bb6ddata > 0 then
        let N_slices = signed_take_bit 31 (bb6_N_slices bb6ddata);
            x = Particles_get_x_value p ii;
            px = Particles_get_px_value p ii;
            y = Particles_get_y_value p ii;
            py = Particles_get_py_value p ii;
            zeta = Particles_get_zeta_value p ii;
            delta = Particles_get_delta_value p ii;
            q0 = SIXTRL_QELEM * Particles_get_q0_value p ii;
            p0c = Particles_get_p0c_value p ii;
            P0 = p0c / SIXTRL_C_LIGHT * SIXTRL_QELEM;
            star = \<lparr>bc_x = x - bb6_x_CO bb6ddata - bb6_delta_x bb6ddata,
              bc_px = px - bb6_px_CO bb6ddata,
              bc_y = y - bb6_y_CO bb6ddata - bb6_delta_y bb6ddata,
              bc_py = py - bb6_py_CO bb6ddata,
              bc_sigma = zeta - bb6_sigma_CO bb6ddata,
              bc_delta = delta - bb6_delta_CO bb6ddata\<rparr>;
            star = BeamBeam6D_boost (bb6_parboost bb6ddata) star;
            star = fold (bb6d_slice bb6ddata slots q0 P0) [0..<nat N_slices] star;
            star = BeamBeam6D_inv_boost (bb6_parboost bb6ddata) star;
            x = bc_x star + bb6_x_CO bb6ddata + bb6_delta_x bb6ddata - bb6_Dx_sub bb6ddata;
            px = bc_px star + bb6_px_CO bb6ddata - bb6_Dpx_sub bb6ddata;
            y = bc_y star + bb6_y_CO bb6ddata + bb6_delta_y bb6ddata - bb6_Dy_sub bb6ddata;
            py = bc_py star + bb6_py_CO bb6ddata - bb6_Dpy_sub bb6ddata;
            zeta = bc_sigma star + bb6_sigma_CO bb6ddata - bb6_Dsigma_sub bb6ddata;
            delta = bc_delta star + bb6_delta_CO bb6ddata - bb6_Ddelta_sub bb6ddata;
            p = Particles_set_x_value p ii x;
            p = Particles_set_px_value p ii px;
            p = Particles_set_y_value p ii y;
            p = Particles_set_py_value p ii py;
            p = Particles_set_zeta_value p ii zeta;
            p = Particles_update_delta_value p ii delta
        in (p, 0)
      else (p, 0))"

text \<open>The effect of the lens on the view of a particle.\<close>

definition bb6d_enter :: "BB6D_data \<Rightarrow> particle \<Rightarrow> boost_coords" where
  "bb6d_enter d v = \<lparr>bc_x = pv_x v - bb6_x_CO d - bb6_delta_x d, bc_px = pv_px v - bb6_px_CO d,
     bc_y = pv_y v - bb6_y_CO d - bb6_delta_y d, bc_py = pv_py v - bb6_py_CO d,
     bc_sigma = pv_zeta v - bb6_sigma_CO d, bc_delta = pv_delta v - bb6_delta_CO d\<rparr>"

definition bb6d_leave :: "BB6D_data \<Rightarrow> boost_coords \<Rightarrow> particle \<Rightarrow> particle" where
  "bb6d_leave d c v = delta_map (bc_delta c + bb6_delta_CO d - bb6_Ddelta_sub d)
     (v\<lparr>pv_x := bc_x c + bb6_x_CO d + bb6_delta_x d - bb6_Dx_sub d,
        pv_px := bc_px c + bb6_px_CO d - bb6_Dpx_sub d,
        pv_y := bc_y c + bb6_y_CO d + bb6_delta_y d - bb6_Dy_sub d,
        pv_py := bc_py c + bb6_py_CO d - bb6_Dpy_sub d,
        pv_zeta := bc_sigma c + bb6_sigma_CO d - bb6_Dsigma_sub d\<rparr>)"

definition bb6d_collide :: "BB6D_data \<Rightarrow> bb6_slots \<Rightarrow> particle \<Rightarrow> boost_coords \<Rightarrow> boost_coords" where
  "bb6d_collide d slots v = fold (bb6d_slice d slots (SIXTRL_QELEM * pv_q0 v)
     (pv_p0c v / SIXTRL_C_LIGHT * SIXTRL_QELEM)) [0..<nat (signed_take_bit 31 (bb6_N_slices d))]"

definition bb6d_passage :: "BB6D_data \<Rightarrow> bb6_slots \<Rightarrow> particle \<Rightarrow> boost_coords" where
  "bb6d_passage d slots v = BeamBeam6D_inv_boost (bb6_parboost d) (bb6d_collide d slots v
     (BeamBeam6D_boost (bb6_parboost d) (bb6d_enter d v)))"

definition bb6d_map :: "BeamBeam6D \<Rightarrow> particle \<Rightarrow> particle" where
  "bb6d_map bb v =
     (let (d, slots) = the (BeamBeam6D_data bb)
      in if bb6_enabled d > 0 then
           bb6d_leave d (bb6d_passage d slots v) v
         else v)"

definition bb6d_write :: "BB6D_data \<Rightarrow> boost_coords \<Rightarrow> particles \<Rightarrow> i64 \<Rightarrow> particles" where
  "bb6d_write d c p ii =
     (let p = Particles_set_x_value p ii (bc_x c + bb6_x_CO d + bb6_delta_x d - bb6_Dx_sub d);
          p = Particles_set_px_value p ii (bc_px c + bb6_px_CO d - bb6_Dpx_sub d);
          p = Particles_set_y_value p ii (bc_y c + bb6_y_CO d + bb6_delta_y d - bb6_Dy_sub d);
          p = Particles_set_py_value p ii (bc_py c + bb6_py_CO d - bb6_Dpy_sub d);
          p = Particles_set_zeta_value p ii (bc_sigma c + bb6_sigma_CO d - bb6_Dsigma_sub d)
      in Particles_update_delta_value p ii (bc_delta c + bb6_delta_CO d - bb6_Ddelta_sub d))"

lemma bb6d_write_kernel: "particle_kernel (bb6d_write d c) (\<lambda>ii. bb6d_leave d c)"
  by unfold_locales
    (auto simp: bb6d_write_def bb6d_leave_def delta_map_def Let_def particle_ops particle_simps)

lemma bb6d_as_write:
  assumes "the (BeamBeam6D_data bb) = (d, slots)"
  shows "fst (Track_particle_beam_beam_6d p ii bb) =
    (if bb6_enabled d > 0 then bb6d_write d (bb6d_passage d slots (particle_of p ii)) p ii else p)"
proof -
  have views: "Particles_get_x_value p ii = pv_x (particle_of p ii)"
    "Particles_get_px_value p ii = pv_px (particle_of p ii)"
    "Particles_get_y_value p ii = pv_y (particle_of p ii)"
    "Particles_get_py_value p ii = pv_py (particle_of p ii)"
    "Particles_get_zeta_value p ii = pv_zeta (particle_of p ii)"
    "Particles_get_delta_value p ii = pv_delta (particle_of p ii)"
    "Particles_get_q0_value p ii = pv_q0 (particle_of p ii)"
    "Particles_get_p0c_value p ii = pv_p0c (particle_of p ii)"
    by (simp_all add: particle_simps particle_ops)
  show ?thesis
    unfolding Track_particle_beam_beam_6d_def assms bb6d_write_def bb6d_passage_def bb6d_enter_def
      bb6d_collide_def Let_def prod.case views
    by simp
qed

interpretation beam_beam_6d: particle_kernel "\<lambda>p ii. fst (Track_particle_beam_beam_6d p ii e)"
    "\<lambda>ii. bb6d_map e" for e
proof -
  obtain d slots where d: "the (BeamBeam6D_data e) = (d, slots)" by (cases "the (BeamBeam6D_data e)")
  have "particle_kernel (\<lambda>p ii. if bb6_enabled d > 0
        then bb6d_write d (bb6d_passage d slots (particle_of p ii)) p ii else p)
      (\<lambda>ii v. if bb6_enabled d > 0 then bb6d_leave d (bb6d_passage d slots v) v else v)"
    by (rule particle_kernel_guard [OF particle_kernel_parameter [OF bb6d_write_kernel]]) simp
  then show "particle_kernel (\<lambda>p ii. fst (Track_particle_beam_beam_6d p ii e)) (\<lambda>ii. bb6d_map e)"
    by (simp add: bb6d_as_write [OF d] bb6d_map_def [abs_def] d Let_def)
qed

lemma bb6d_success [simp]: "snd (Track_particle_beam_beam_6d p ii bb) = 0"
  by (simp add: Track_particle_beam_beam_6d_def Let_def case_prod_beta)

text \<open>Slices without particles do not kick.\<close>

lemma bb6d_slice_empty:
  "bb_get_ptr slots 34 (bb6_N_part_per_slice d) i = 0 \<Longrightarrow> bb6d_slice d slots q0 P0 i c = c"
  by (simp add: bb6d_slice_def Let_def case_prod_beta)

lemma bb6d_collide_empty:
  assumes "\<And>i. i < nat (signed_take_bit 31 (bb6_N_slices d)) \<Longrightarrow>
    bb_get_ptr slots 34 (bb6_N_part_per_slice d) i = 0"
  shows "bb6d_collide d slots v c = c"
proof -
  have "fold (bb6d_slice d slots q0 P0) is c = c"
    if "\<forall>i\<in>set is. bb_get_ptr slots 34 (bb6_N_part_per_slice d) i = 0" for q0 P0 "is"
    using that by (induction "is") (simp_all add: bb6d_slice_empty)
  then show ?thesis using assms by (simp add: bb6d_collide_def)
qed

lemma delta_map_same: "momentum_consistent v \<Longrightarrow> delta_map (pv_delta v) v = v"
  using sqrt_energy [of v] by (auto simp: delta_map_def Let_def momentum_consistent_def power2_eq_square
      field_simps intro: particle.equality)

definition bb6d_no_dipole :: "BB6D_data \<Rightarrow> bool" where
  "bb6d_no_dipole d \<longleftrightarrow> bb6_Dx_sub d = 0 \<and> bb6_Dpx_sub d = 0 \<and> bb6_Dy_sub d = 0 \<and> bb6_Dpy_sub d = 0 \<and>
     bb6_Dsigma_sub d = 0 \<and> bb6_Ddelta_sub d = 0"

text \<open>A six-dimensional beam-beam lens whose strong beam carries no particles and that subtracts no
  dipole kick leaves the whole particle set as it is, whatever its crossing angle, closed orbit and beam
  sizes: the boost, the slices and the inverse boost cancel, and so do the updates of the momenta.\<close>

theorem bb6d_without_strong_beam:
  assumes p: "particles_wf p" "valid_idx p ii" and e: "momentum_consistent (particle_of p ii)"
    and data: "BeamBeam6D_data bb = Some (d, slots)"
    and angles: "boost_angles (bb6_parboost d)"
    and fwd: "moves_forward (bb6_parboost d) (bb6d_enter d (particle_of p ii))"
    and empty: "\<And>i. i < nat (signed_take_bit 31 (bb6_N_slices d)) \<Longrightarrow>
      bb_get_ptr slots 34 (bb6_N_part_per_slice d) i = 0"
    and sub: "bb6d_no_dipole d"
  shows "Track_particle_beam_beam_6d p ii bb = (p, 0)"
proof -
  define v where "v = particle_of p ii"
  have "bb6d_leave d (bb6d_enter d v) v = delta_map (pv_delta v) v"
    using sub by (simp add: bb6d_leave_def bb6d_enter_def bb6d_no_dipole_def)
  moreover have "bb6d_passage d slots v = bb6d_enter d v"
    using boost_round_trip_aux [OF angles fwd] bb6d_collide_empty [OF empty]
    by (simp add: bb6d_passage_def v_def)
  ultimately have map: "bb6d_map bb v = v"
    using delta_map_same [of v] e by (simp add: bb6d_map_def data v_def)
  have "fst (Track_particle_beam_beam_6d p ii bb) = p"
  proof (rule particles_eqI)
    fix jj assume "valid_idx (fst (Track_particle_beam_beam_6d p ii bb)) jj"
    then have "0 \<le> jj" by (simp add: valid_idx_def)
    then show "particle_of (fst (Track_particle_beam_beam_6d p ii bb)) jj = particle_of p jj"
      using beam_beam_6d.kernel_view [OF p] map by (simp add: v_def)
  qed (use p in \<open>simp_all add: beam_beam_6d.kernel_wf beam_beam_6d.kernel_num\<close>)
  then show ?thesis by (metis bb6d_success prod.collapse)
qed

definition sample_lens :: BB6D_data where
  "sample_lens = \<lparr>bb6_q_part = 1, bb6_parboost = sample_angles, bb6_Sigmas_0_star = sample_sigmas,
     bb6_min_sigma_diff = 1 / 10, bb6_threshold_singular = 0, bb6_N_slices = 3, bb6_delta_x = 1,
     bb6_delta_y = 0, bb6_x_CO = 2, bb6_px_CO = 0, bb6_y_CO = 0, bb6_py_CO = 0, bb6_sigma_CO = 0,
     bb6_delta_CO = 0, bb6_Dx_sub = 0, bb6_Dpx_sub = 0, bb6_Dy_sub = 0, bb6_Dpy_sub = 0,
     bb6_Dsigma_sub = 0, bb6_Ddelta_sub = 0, bb6_enabled = 1, bb6_N_part_per_slice = 3,
     bb6_x_slices_star = 5, bb6_y_slices_star = 7, bb6_sigma_slices_star = 9\<rparr>"

theorem bb6d_without_strong_beam_witness:
  "Track_particle_beam_beam_6d (reference_particles 2) 1
     \<lparr>BeamBeam6D_data_size = 50, BeamBeam6D_data = Some (sample_lens, \<lambda>i. if i < 41 then 0 else real i)\<rparr> =
   (reference_particles 2, 0)"
  by (rule bb6d_without_strong_beam [where d = sample_lens and slots = "\<lambda>i. if i < 41 then 0 else real i"])
    (simp_all add: sample_lens_def sample_angles_def boost_angles_def moves_forward_def bb6d_enter_def
      bb6d_no_dipole_def bb_get_ptr_def momentum_consistent_def reference_particle_def power2_eq_square
      signed_take_bit_int_eq_self)

end
