(* ===== verification/Tri_Cub_Coefficients.thy ===== *)
theory Tri_Cub_Coefficients
  imports Complex_Main
begin

section \<open>Coefficients of the tricubic interpolation (be_tricub)\<close>

text \<open>
  \<open>tricub_construct_coefs\<close> computes the 64 coefficients of a tricubic polynomial from the values and
  derivatives of a function in the eight corners of a cell, by 1000 assignments written out in the source.
  Every statement has the form \<open>coefs[i] = f * b[k]\<close>, \<open>coefs[i] = -(f * b[k])\<close>, \<open>coefs[i] += f * b[k]\<close> or
  \<open>coefs[i] -= f * b[k]\<close>, where the factor \<open>f\<close> is an entry of the table \<open>tri_consts\<close> or missing. The
  model keeps the statements, in the order of the source, as data that \<open>exec\<close> executes; the statements
  that read \<open>b[k]\<close> are the list \<open>tricub_ops_k\<close>. The array \<open>coefs\<close> is uninitialised when the function is
  called, so its contents are an argument of the model.
\<close>

subsection \<open>The statements and their execution\<close>

datatype factor = Const nat | One

datatype coef_stmt = Assign nat factor | Negate nat factor | Add nat factor | Sub nat factor

definition tri_consts :: "int list" where
  "tri_consts = [2, 3, 4, 6, 8, 9, 12, 18, 27]"

fun factor_value :: "factor \<Rightarrow> int" where
  "factor_value (Const c) = tri_consts ! c"
| "factor_value One = 1"

fun exec :: "coef_stmt \<Rightarrow> real \<Rightarrow> real list \<Rightarrow> real list" where
  "exec (Assign i f) b coefs = coefs[i := of_int (factor_value f) * b]"
| "exec (Negate i f) b coefs = coefs[i := - (of_int (factor_value f) * b)]"
| "exec (Add i f) b coefs = coefs[i := coefs ! i + of_int (factor_value f) * b]"
| "exec (Sub i f) b coefs = coefs[i := coefs ! i - of_int (factor_value f) * b]"

definition tricub_ops_0 :: "coef_stmt list" where
  "tricub_ops_0 =
    [Assign 0 One, Negate 2 (Const 1), Assign 3 (Const 0), Negate 8 (Const 1),
     Assign 10 (Const 5), Negate 11 (Const 3), Assign 12 (Const 0), Negate 14 (Const 3),
     Assign 15 (Const 2), Negate 32 (Const 1), Assign 34 (Const 5), Negate 35 (Const 3),
     Assign 40 (Const 5), Negate 42 (Const 8), Assign 43 (Const 7), Negate 44 (Const 3),
     Assign 46 (Const 7), Negate 47 (Const 6), Assign 48 (Const 0), Negate 50 (Const 3),
     Assign 51 (Const 2), Negate 56 (Const 3), Assign 58 (Const 7), Negate 59 (Const 6),
     Assign 60 (Const 2), Negate 62 (Const 6), Assign 63 (Const 4)]"

definition tricub_ops_1 :: "coef_stmt list" where
  "tricub_ops_1 =
    [Add 2 (Const 1), Sub 3 (Const 0), Sub 10 (Const 5), Add 11 (Const 3), Add 14 (Const 3),
     Sub 15 (Const 2), Sub 34 (Const 5), Add 35 (Const 3), Add 42 (Const 8), Sub 43 (Const 7),
     Sub 46 (Const 7), Add 47 (Const 6), Add 50 (Const 3), Sub 51 (Const 2), Sub 58 (Const 7),
     Add 59 (Const 6), Add 62 (Const 6), Sub 63 (Const 4)]"

definition tricub_ops_2 :: "coef_stmt list" where
  "tricub_ops_2 =
    [Add 8 (Const 1), Sub 10 (Const 5), Add 11 (Const 3), Sub 12 (Const 0), Add 14 (Const 3),
     Sub 15 (Const 2), Sub 40 (Const 5), Add 42 (Const 8), Sub 43 (Const 7), Add 44 (Const 3),
     Sub 46 (Const 7), Add 47 (Const 6), Add 56 (Const 3), Sub 58 (Const 7), Add 59 (Const 6),
     Sub 60 (Const 2), Add 62 (Const 6), Sub 63 (Const 4)]"

definition tricub_ops_3 :: "coef_stmt list" where
  "tricub_ops_3 =
    [Add 10 (Const 5), Sub 11 (Const 3), Sub 14 (Const 3), Add 15 (Const 2), Sub 42 (Const 8),
     Add 43 (Const 7), Add 46 (Const 7), Sub 47 (Const 6), Add 58 (Const 7), Sub 59 (Const 6),
     Sub 62 (Const 6), Add 63 (Const 4)]"

definition tricub_ops_4 :: "coef_stmt list" where
  "tricub_ops_4 =
    [Add 32 (Const 1), Sub 34 (Const 5), Add 35 (Const 3), Sub 40 (Const 5), Add 42 (Const 8),
     Sub 43 (Const 7), Add 44 (Const 3), Sub 46 (Const 7), Add 47 (Const 6), Sub 48 (Const 0),
     Add 50 (Const 3), Sub 51 (Const 2), Add 56 (Const 3), Sub 58 (Const 7), Add 59 (Const 6),
     Sub 60 (Const 2), Add 62 (Const 6), Sub 63 (Const 4)]"

definition tricub_ops_5 :: "coef_stmt list" where
  "tricub_ops_5 =
    [Add 34 (Const 5), Sub 35 (Const 3), Sub 42 (Const 8), Add 43 (Const 7), Add 46 (Const 7),
     Sub 47 (Const 6), Sub 50 (Const 3), Add 51 (Const 2), Add 58 (Const 7), Sub 59 (Const 6),
     Sub 62 (Const 6), Add 63 (Const 4)]"

definition tricub_ops_6 :: "coef_stmt list" where
  "tricub_ops_6 =
    [Add 40 (Const 5), Sub 42 (Const 8), Add 43 (Const 7), Sub 44 (Const 3), Add 46 (Const 7),
     Sub 47 (Const 6), Sub 56 (Const 3), Add 58 (Const 7), Sub 59 (Const 6), Add 60 (Const 2),
     Sub 62 (Const 6), Add 63 (Const 4)]"

definition tricub_ops_7 :: "coef_stmt list" where
  "tricub_ops_7 =
    [Add 42 (Const 8), Sub 43 (Const 7), Sub 46 (Const 7), Add 47 (Const 6), Sub 58 (Const 7),
     Add 59 (Const 6), Add 62 (Const 6), Sub 63 (Const 4)]"

definition tricub_ops_8 :: "coef_stmt list" where
  "tricub_ops_8 =
    [Assign 1 One, Sub 2 (Const 0), Add 3 One, Negate 9 (Const 1), Add 10 (Const 3),
     Sub 11 (Const 1), Assign 13 (Const 0), Sub 14 (Const 2), Add 15 (Const 0),
     Negate 33 (Const 1), Add 34 (Const 3), Sub 35 (Const 1), Assign 41 (Const 5),
     Sub 42 (Const 7), Add 43 (Const 5), Negate 45 (Const 3), Add 46 (Const 6),
     Sub 47 (Const 3), Assign 49 (Const 0), Sub 50 (Const 2), Add 51 (Const 0),
     Negate 57 (Const 3), Add 58 (Const 6), Sub 59 (Const 3), Assign 61 (Const 2),
     Sub 62 (Const 4), Add 63 (Const 2)]"

definition tricub_ops_9 :: "coef_stmt list" where
  "tricub_ops_9 =
    [Sub 2 One, Add 3 One, Add 10 (Const 1), Sub 11 (Const 1), Sub 14 (Const 0),
     Add 15 (Const 0), Add 34 (Const 1), Sub 35 (Const 1), Sub 42 (Const 5), Add 43 (Const 5),
     Add 46 (Const 3), Sub 47 (Const 3), Sub 50 (Const 0), Add 51 (Const 0), Add 58 (Const 3),
     Sub 59 (Const 3), Sub 62 (Const 2), Add 63 (Const 2)]"

definition tricub_ops_10 :: "coef_stmt list" where
  "tricub_ops_10 =
    [Add 9 (Const 1), Sub 10 (Const 3), Add 11 (Const 1), Sub 13 (Const 0), Add 14 (Const 2),
     Sub 15 (Const 0), Sub 41 (Const 5), Add 42 (Const 7), Sub 43 (Const 5), Add 45 (Const 3),
     Sub 46 (Const 6), Add 47 (Const 3), Add 57 (Const 3), Sub 58 (Const 6), Add 59 (Const 3),
     Sub 61 (Const 2), Add 62 (Const 4), Sub 63 (Const 2)]"

definition tricub_ops_11 :: "coef_stmt list" where
  "tricub_ops_11 =
    [Sub 10 (Const 1), Add 11 (Const 1), Add 14 (Const 0), Sub 15 (Const 0), Add 42 (Const 5),
     Sub 43 (Const 5), Sub 46 (Const 3), Add 47 (Const 3), Sub 58 (Const 3), Add 59 (Const 3),
     Add 62 (Const 2), Sub 63 (Const 2)]"

definition tricub_ops_12 :: "coef_stmt list" where
  "tricub_ops_12 =
    [Add 33 (Const 1), Sub 34 (Const 3), Add 35 (Const 1), Sub 41 (Const 5), Add 42 (Const 7),
     Sub 43 (Const 5), Add 45 (Const 3), Sub 46 (Const 6), Add 47 (Const 3), Sub 49 (Const 0),
     Add 50 (Const 2), Sub 51 (Const 0), Add 57 (Const 3), Sub 58 (Const 6), Add 59 (Const 3),
     Sub 61 (Const 2), Add 62 (Const 4), Sub 63 (Const 2)]"

definition tricub_ops_13 :: "coef_stmt list" where
  "tricub_ops_13 =
    [Sub 34 (Const 1), Add 35 (Const 1), Add 42 (Const 5), Sub 43 (Const 5), Sub 46 (Const 3),
     Add 47 (Const 3), Add 50 (Const 0), Sub 51 (Const 0), Sub 58 (Const 3), Add 59 (Const 3),
     Add 62 (Const 2), Sub 63 (Const 2)]"

definition tricub_ops_14 :: "coef_stmt list" where
  "tricub_ops_14 =
    [Add 41 (Const 5), Sub 42 (Const 7), Add 43 (Const 5), Sub 45 (Const 3), Add 46 (Const 6),
     Sub 47 (Const 3), Sub 57 (Const 3), Add 58 (Const 6), Sub 59 (Const 3), Add 61 (Const 2),
     Sub 62 (Const 4), Add 63 (Const 2)]"

definition tricub_ops_15 :: "coef_stmt list" where
  "tricub_ops_15 =
    [Sub 42 (Const 5), Add 43 (Const 5), Add 46 (Const 3), Sub 47 (Const 3), Add 58 (Const 3),
     Sub 59 (Const 3), Sub 62 (Const 2), Add 63 (Const 2)]"

definition tricub_ops_16 :: "coef_stmt list" where
  "tricub_ops_16 =
    [Assign 4 One, Negate 6 (Const 1), Assign 7 (Const 0), Sub 8 (Const 0), Add 10 (Const 3),
     Sub 11 (Const 2), Add 12 One, Sub 14 (Const 1), Add 15 (Const 0), Negate 36 (Const 1),
     Assign 38 (Const 5), Negate 39 (Const 3), Add 40 (Const 3), Sub 42 (Const 7),
     Add 43 (Const 6), Sub 44 (Const 1), Add 46 (Const 5), Sub 47 (Const 3),
     Assign 52 (Const 0), Negate 54 (Const 3), Assign 55 (Const 2), Sub 56 (Const 2),
     Add 58 (Const 6), Sub 59 (Const 4), Add 60 (Const 0), Sub 62 (Const 3), Add 63 (Const 2)]"

definition tricub_ops_17 :: "coef_stmt list" where
  "tricub_ops_17 =
    [Add 6 (Const 1), Sub 7 (Const 0), Sub 10 (Const 3), Add 11 (Const 2), Add 14 (Const 1),
     Sub 15 (Const 0), Sub 38 (Const 5), Add 39 (Const 3), Add 42 (Const 7), Sub 43 (Const 6),
     Sub 46 (Const 5), Add 47 (Const 3), Add 54 (Const 3), Sub 55 (Const 2), Sub 58 (Const 6),
     Add 59 (Const 4), Add 62 (Const 3), Sub 63 (Const 2)]"

definition tricub_ops_18 :: "coef_stmt list" where
  "tricub_ops_18 =
    [Sub 8 One, Add 10 (Const 1), Sub 11 (Const 0), Add 12 One, Sub 14 (Const 1),
     Add 15 (Const 0), Add 40 (Const 1), Sub 42 (Const 5), Add 43 (Const 3), Sub 44 (Const 1),
     Add 46 (Const 5), Sub 47 (Const 3), Sub 56 (Const 0), Add 58 (Const 3), Sub 59 (Const 2),
     Add 60 (Const 0), Sub 62 (Const 3), Add 63 (Const 2)]"

definition tricub_ops_19 :: "coef_stmt list" where
  "tricub_ops_19 =
    [Sub 10 (Const 1), Add 11 (Const 0), Add 14 (Const 1), Sub 15 (Const 0), Add 42 (Const 5),
     Sub 43 (Const 3), Sub 46 (Const 5), Add 47 (Const 3), Sub 58 (Const 3), Add 59 (Const 2),
     Add 62 (Const 3), Sub 63 (Const 2)]"

definition tricub_ops_20 :: "coef_stmt list" where
  "tricub_ops_20 =
    [Add 36 (Const 1), Sub 38 (Const 5), Add 39 (Const 3), Sub 40 (Const 3), Add 42 (Const 7),
     Sub 43 (Const 6), Add 44 (Const 1), Sub 46 (Const 5), Add 47 (Const 3), Sub 52 (Const 0),
     Add 54 (Const 3), Sub 55 (Const 2), Add 56 (Const 2), Sub 58 (Const 6), Add 59 (Const 4),
     Sub 60 (Const 0), Add 62 (Const 3), Sub 63 (Const 2)]"

definition tricub_ops_21 :: "coef_stmt list" where
  "tricub_ops_21 =
    [Add 38 (Const 5), Sub 39 (Const 3), Sub 42 (Const 7), Add 43 (Const 6), Add 46 (Const 5),
     Sub 47 (Const 3), Sub 54 (Const 3), Add 55 (Const 2), Add 58 (Const 6), Sub 59 (Const 4),
     Sub 62 (Const 3), Add 63 (Const 2)]"

definition tricub_ops_22 :: "coef_stmt list" where
  "tricub_ops_22 =
    [Sub 40 (Const 1), Add 42 (Const 5), Sub 43 (Const 3), Add 44 (Const 1), Sub 46 (Const 5),
     Add 47 (Const 3), Add 56 (Const 0), Sub 58 (Const 3), Add 59 (Const 2), Sub 60 (Const 0),
     Add 62 (Const 3), Sub 63 (Const 2)]"

definition tricub_ops_23 :: "coef_stmt list" where
  "tricub_ops_23 =
    [Sub 42 (Const 5), Add 43 (Const 3), Add 46 (Const 5), Sub 47 (Const 3), Add 58 (Const 3),
     Sub 59 (Const 2), Sub 62 (Const 3), Add 63 (Const 2)]"

definition tricub_ops_24 :: "coef_stmt list" where
  "tricub_ops_24 =
    [Assign 16 One, Negate 18 (Const 1), Assign 19 (Const 0), Negate 24 (Const 1),
     Assign 26 (Const 5), Negate 27 (Const 3), Assign 28 (Const 0), Negate 30 (Const 3),
     Assign 31 (Const 2), Sub 32 (Const 0), Add 34 (Const 3), Sub 35 (Const 2),
     Add 40 (Const 3), Sub 42 (Const 7), Add 43 (Const 6), Sub 44 (Const 2), Add 46 (Const 6),
     Sub 47 (Const 4), Add 48 One, Sub 50 (Const 1), Add 51 (Const 0), Sub 56 (Const 1),
     Add 58 (Const 5), Sub 59 (Const 3), Add 60 (Const 0), Sub 62 (Const 3), Add 63 (Const 2)]"

definition tricub_ops_25 :: "coef_stmt list" where
  "tricub_ops_25 =
    [Add 18 (Const 1), Sub 19 (Const 0), Sub 26 (Const 5), Add 27 (Const 3), Add 30 (Const 3),
     Sub 31 (Const 2), Sub 34 (Const 3), Add 35 (Const 2), Add 42 (Const 7), Sub 43 (Const 6),
     Sub 46 (Const 6), Add 47 (Const 4), Add 50 (Const 1), Sub 51 (Const 0), Sub 58 (Const 5),
     Add 59 (Const 3), Add 62 (Const 3), Sub 63 (Const 2)]"

definition tricub_ops_26 :: "coef_stmt list" where
  "tricub_ops_26 =
    [Add 24 (Const 1), Sub 26 (Const 5), Add 27 (Const 3), Sub 28 (Const 0), Add 30 (Const 3),
     Sub 31 (Const 2), Sub 40 (Const 3), Add 42 (Const 7), Sub 43 (Const 6), Add 44 (Const 2),
     Sub 46 (Const 6), Add 47 (Const 4), Add 56 (Const 1), Sub 58 (Const 5), Add 59 (Const 3),
     Sub 60 (Const 0), Add 62 (Const 3), Sub 63 (Const 2)]"

definition tricub_ops_27 :: "coef_stmt list" where
  "tricub_ops_27 =
    [Add 26 (Const 5), Sub 27 (Const 3), Sub 30 (Const 3), Add 31 (Const 2), Sub 42 (Const 7),
     Add 43 (Const 6), Add 46 (Const 6), Sub 47 (Const 4), Add 58 (Const 5), Sub 59 (Const 3),
     Sub 62 (Const 3), Add 63 (Const 2)]"

definition tricub_ops_28 :: "coef_stmt list" where
  "tricub_ops_28 =
    [Sub 32 One, Add 34 (Const 1), Sub 35 (Const 0), Add 40 (Const 1), Sub 42 (Const 5),
     Add 43 (Const 3), Sub 44 (Const 0), Add 46 (Const 3), Sub 47 (Const 2), Add 48 One,
     Sub 50 (Const 1), Add 51 (Const 0), Sub 56 (Const 1), Add 58 (Const 5), Sub 59 (Const 3),
     Add 60 (Const 0), Sub 62 (Const 3), Add 63 (Const 2)]"

definition tricub_ops_29 :: "coef_stmt list" where
  "tricub_ops_29 =
    [Sub 34 (Const 1), Add 35 (Const 0), Add 42 (Const 5), Sub 43 (Const 3), Sub 46 (Const 3),
     Add 47 (Const 2), Add 50 (Const 1), Sub 51 (Const 0), Sub 58 (Const 5), Add 59 (Const 3),
     Add 62 (Const 3), Sub 63 (Const 2)]"

definition tricub_ops_30 :: "coef_stmt list" where
  "tricub_ops_30 =
    [Sub 40 (Const 1), Add 42 (Const 5), Sub 43 (Const 3), Add 44 (Const 0), Sub 46 (Const 3),
     Add 47 (Const 2), Add 56 (Const 1), Sub 58 (Const 5), Add 59 (Const 3), Sub 60 (Const 0),
     Add 62 (Const 3), Sub 63 (Const 2)]"

definition tricub_ops_31 :: "coef_stmt list" where
  "tricub_ops_31 =
    [Sub 42 (Const 5), Add 43 (Const 3), Add 46 (Const 3), Sub 47 (Const 2), Add 58 (Const 5),
     Sub 59 (Const 3), Sub 62 (Const 3), Add 63 (Const 2)]"

definition tricub_ops_32 :: "coef_stmt list" where
  "tricub_ops_32 =
    [Assign 5 One, Sub 6 (Const 0), Add 7 One, Sub 9 (Const 0), Add 10 (Const 2),
     Sub 11 (Const 0), Add 13 One, Sub 14 (Const 0), Add 15 One, Negate 37 (Const 1),
     Add 38 (Const 3), Sub 39 (Const 1), Add 41 (Const 3), Sub 42 (Const 6), Add 43 (Const 3),
     Sub 45 (Const 1), Add 46 (Const 3), Sub 47 (Const 1), Assign 53 (Const 0),
     Sub 54 (Const 2), Add 55 (Const 0), Sub 57 (Const 2), Add 58 (Const 4), Sub 59 (Const 2),
     Add 61 (Const 0), Sub 62 (Const 2), Add 63 (Const 0)]"

definition tricub_ops_33 :: "coef_stmt list" where
  "tricub_ops_33 =
    [Sub 6 One, Add 7 One, Add 10 (Const 0), Sub 11 (Const 0), Sub 14 One, Add 15 One,
     Add 38 (Const 1), Sub 39 (Const 1), Sub 42 (Const 3), Add 43 (Const 3), Add 46 (Const 1),
     Sub 47 (Const 1), Sub 54 (Const 0), Add 55 (Const 0), Add 58 (Const 2), Sub 59 (Const 2),
     Sub 62 (Const 0), Add 63 (Const 0)]"

definition tricub_ops_34 :: "coef_stmt list" where
  "tricub_ops_34 =
    [Sub 9 One, Add 10 (Const 0), Sub 11 One, Add 13 One, Sub 14 (Const 0), Add 15 One,
     Add 41 (Const 1), Sub 42 (Const 3), Add 43 (Const 1), Sub 45 (Const 1), Add 46 (Const 3),
     Sub 47 (Const 1), Sub 57 (Const 0), Add 58 (Const 2), Sub 59 (Const 0), Add 61 (Const 0),
     Sub 62 (Const 2), Add 63 (Const 0)]"

definition tricub_ops_35 :: "coef_stmt list" where
  "tricub_ops_35 =
    [Add 10 One, Sub 11 One, Sub 14 One, Add 15 One, Sub 42 (Const 1), Add 43 (Const 1),
     Add 46 (Const 1), Sub 47 (Const 1), Add 58 (Const 0), Sub 59 (Const 0), Sub 62 (Const 0),
     Add 63 (Const 0)]"

definition tricub_ops_36 :: "coef_stmt list" where
  "tricub_ops_36 =
    [Add 37 (Const 1), Sub 38 (Const 3), Add 39 (Const 1), Sub 41 (Const 3), Add 42 (Const 6),
     Sub 43 (Const 3), Add 45 (Const 1), Sub 46 (Const 3), Add 47 (Const 1), Sub 53 (Const 0),
     Add 54 (Const 2), Sub 55 (Const 0), Add 57 (Const 2), Sub 58 (Const 4), Add 59 (Const 2),
     Sub 61 (Const 0), Add 62 (Const 2), Sub 63 (Const 0)]"

definition tricub_ops_37 :: "coef_stmt list" where
  "tricub_ops_37 =
    [Sub 38 (Const 1), Add 39 (Const 1), Add 42 (Const 3), Sub 43 (Const 3), Sub 46 (Const 1),
     Add 47 (Const 1), Add 54 (Const 0), Sub 55 (Const 0), Sub 58 (Const 2), Add 59 (Const 2),
     Add 62 (Const 0), Sub 63 (Const 0)]"

definition tricub_ops_38 :: "coef_stmt list" where
  "tricub_ops_38 =
    [Sub 41 (Const 1), Add 42 (Const 3), Sub 43 (Const 1), Add 45 (Const 1), Sub 46 (Const 3),
     Add 47 (Const 1), Add 57 (Const 0), Sub 58 (Const 2), Add 59 (Const 0), Sub 61 (Const 0),
     Add 62 (Const 2), Sub 63 (Const 0)]"

definition tricub_ops_39 :: "coef_stmt list" where
  "tricub_ops_39 =
    [Add 42 (Const 1), Sub 43 (Const 1), Sub 46 (Const 1), Add 47 (Const 1), Sub 58 (Const 0),
     Add 59 (Const 0), Add 62 (Const 0), Sub 63 (Const 0)]"

definition tricub_ops_40 :: "coef_stmt list" where
  "tricub_ops_40 =
    [Assign 17 One, Sub 18 (Const 0), Add 19 One, Negate 25 (Const 1), Add 26 (Const 3),
     Sub 27 (Const 1), Assign 29 (Const 0), Sub 30 (Const 2), Add 31 (Const 0),
     Sub 33 (Const 0), Add 34 (Const 2), Sub 35 (Const 0), Add 41 (Const 3), Sub 42 (Const 6),
     Add 43 (Const 3), Sub 45 (Const 2), Add 46 (Const 4), Sub 47 (Const 2), Add 49 One,
     Sub 50 (Const 0), Add 51 One, Sub 57 (Const 1), Add 58 (Const 3), Sub 59 (Const 1),
     Add 61 (Const 0), Sub 62 (Const 2), Add 63 (Const 0)]"

definition tricub_ops_41 :: "coef_stmt list" where
  "tricub_ops_41 =
    [Sub 18 One, Add 19 One, Add 26 (Const 1), Sub 27 (Const 1), Sub 30 (Const 0),
     Add 31 (Const 0), Add 34 (Const 0), Sub 35 (Const 0), Sub 42 (Const 3), Add 43 (Const 3),
     Add 46 (Const 2), Sub 47 (Const 2), Sub 50 One, Add 51 One, Add 58 (Const 1),
     Sub 59 (Const 1), Sub 62 (Const 0), Add 63 (Const 0)]"

definition tricub_ops_42 :: "coef_stmt list" where
  "tricub_ops_42 =
    [Add 25 (Const 1), Sub 26 (Const 3), Add 27 (Const 1), Sub 29 (Const 0), Add 30 (Const 2),
     Sub 31 (Const 0), Sub 41 (Const 3), Add 42 (Const 6), Sub 43 (Const 3), Add 45 (Const 2),
     Sub 46 (Const 4), Add 47 (Const 2), Add 57 (Const 1), Sub 58 (Const 3), Add 59 (Const 1),
     Sub 61 (Const 0), Add 62 (Const 2), Sub 63 (Const 0)]"

definition tricub_ops_43 :: "coef_stmt list" where
  "tricub_ops_43 =
    [Sub 26 (Const 1), Add 27 (Const 1), Add 30 (Const 0), Sub 31 (Const 0), Add 42 (Const 3),
     Sub 43 (Const 3), Sub 46 (Const 2), Add 47 (Const 2), Sub 58 (Const 1), Add 59 (Const 1),
     Add 62 (Const 0), Sub 63 (Const 0)]"

definition tricub_ops_44 :: "coef_stmt list" where
  "tricub_ops_44 =
    [Sub 33 One, Add 34 (Const 0), Sub 35 One, Add 41 (Const 1), Sub 42 (Const 3),
     Add 43 (Const 1), Sub 45 (Const 0), Add 46 (Const 2), Sub 47 (Const 0), Add 49 One,
     Sub 50 (Const 0), Add 51 One, Sub 57 (Const 1), Add 58 (Const 3), Sub 59 (Const 1),
     Add 61 (Const 0), Sub 62 (Const 2), Add 63 (Const 0)]"

definition tricub_ops_45 :: "coef_stmt list" where
  "tricub_ops_45 =
    [Add 34 One, Sub 35 One, Sub 42 (Const 1), Add 43 (Const 1), Add 46 (Const 0),
     Sub 47 (Const 0), Sub 50 One, Add 51 One, Add 58 (Const 1), Sub 59 (Const 1),
     Sub 62 (Const 0), Add 63 (Const 0)]"

definition tricub_ops_46 :: "coef_stmt list" where
  "tricub_ops_46 =
    [Sub 41 (Const 1), Add 42 (Const 3), Sub 43 (Const 1), Add 45 (Const 0), Sub 46 (Const 2),
     Add 47 (Const 0), Add 57 (Const 1), Sub 58 (Const 3), Add 59 (Const 1), Sub 61 (Const 0),
     Add 62 (Const 2), Sub 63 (Const 0)]"

definition tricub_ops_47 :: "coef_stmt list" where
  "tricub_ops_47 =
    [Add 42 (Const 1), Sub 43 (Const 1), Sub 46 (Const 0), Add 47 (Const 0), Sub 58 (Const 1),
     Add 59 (Const 1), Add 62 (Const 0), Sub 63 (Const 0)]"

definition tricub_ops_48 :: "coef_stmt list" where
  "tricub_ops_48 =
    [Assign 20 One, Negate 22 (Const 1), Assign 23 (Const 0), Sub 24 (Const 0),
     Add 26 (Const 3), Sub 27 (Const 2), Add 28 One, Sub 30 (Const 1), Add 31 (Const 0),
     Sub 36 (Const 0), Add 38 (Const 3), Sub 39 (Const 2), Add 40 (Const 2), Sub 42 (Const 6),
     Add 43 (Const 4), Sub 44 (Const 0), Add 46 (Const 3), Sub 47 (Const 2), Add 52 One,
     Sub 54 (Const 1), Add 55 (Const 0), Sub 56 (Const 0), Add 58 (Const 3), Sub 59 (Const 2),
     Add 60 One, Sub 62 (Const 1), Add 63 (Const 0)]"

definition tricub_ops_49 :: "coef_stmt list" where
  "tricub_ops_49 =
    [Add 22 (Const 1), Sub 23 (Const 0), Sub 26 (Const 3), Add 27 (Const 2), Add 30 (Const 1),
     Sub 31 (Const 0), Sub 38 (Const 3), Add 39 (Const 2), Add 42 (Const 6), Sub 43 (Const 4),
     Sub 46 (Const 3), Add 47 (Const 2), Add 54 (Const 1), Sub 55 (Const 0), Sub 58 (Const 3),
     Add 59 (Const 2), Add 62 (Const 1), Sub 63 (Const 0)]"

definition tricub_ops_50 :: "coef_stmt list" where
  "tricub_ops_50 =
    [Sub 24 One, Add 26 (Const 1), Sub 27 (Const 0), Add 28 One, Sub 30 (Const 1),
     Add 31 (Const 0), Add 40 (Const 0), Sub 42 (Const 3), Add 43 (Const 2), Sub 44 (Const 0),
     Add 46 (Const 3), Sub 47 (Const 2), Sub 56 One, Add 58 (Const 1), Sub 59 (Const 0),
     Add 60 One, Sub 62 (Const 1), Add 63 (Const 0)]"

definition tricub_ops_51 :: "coef_stmt list" where
  "tricub_ops_51 =
    [Sub 26 (Const 1), Add 27 (Const 0), Add 30 (Const 1), Sub 31 (Const 0), Add 42 (Const 3),
     Sub 43 (Const 2), Sub 46 (Const 3), Add 47 (Const 2), Sub 58 (Const 1), Add 59 (Const 0),
     Add 62 (Const 1), Sub 63 (Const 0)]"

definition tricub_ops_52 :: "coef_stmt list" where
  "tricub_ops_52 =
    [Sub 36 One, Add 38 (Const 1), Sub 39 (Const 0), Add 40 (Const 0), Sub 42 (Const 3),
     Add 43 (Const 2), Sub 44 One, Add 46 (Const 1), Sub 47 (Const 0), Add 52 One,
     Sub 54 (Const 1), Add 55 (Const 0), Sub 56 (Const 0), Add 58 (Const 3), Sub 59 (Const 2),
     Add 60 One, Sub 62 (Const 1), Add 63 (Const 0)]"

definition tricub_ops_53 :: "coef_stmt list" where
  "tricub_ops_53 =
    [Sub 38 (Const 1), Add 39 (Const 0), Add 42 (Const 3), Sub 43 (Const 2), Sub 46 (Const 1),
     Add 47 (Const 0), Add 54 (Const 1), Sub 55 (Const 0), Sub 58 (Const 3), Add 59 (Const 2),
     Add 62 (Const 1), Sub 63 (Const 0)]"

definition tricub_ops_54 :: "coef_stmt list" where
  "tricub_ops_54 =
    [Add 40 One, Sub 42 (Const 1), Add 43 (Const 0), Sub 44 One, Add 46 (Const 1),
     Sub 47 (Const 0), Sub 56 One, Add 58 (Const 1), Sub 59 (Const 0), Add 60 One,
     Sub 62 (Const 1), Add 63 (Const 0)]"

definition tricub_ops_55 :: "coef_stmt list" where
  "tricub_ops_55 =
    [Add 42 (Const 1), Sub 43 (Const 0), Sub 46 (Const 1), Add 47 (Const 0), Sub 58 (Const 1),
     Add 59 (Const 0), Add 62 (Const 1), Sub 63 (Const 0)]"

definition tricub_ops_56 :: "coef_stmt list" where
  "tricub_ops_56 =
    [Assign 21 One, Sub 22 (Const 0), Add 23 One, Sub 25 (Const 0), Add 26 (Const 2),
     Sub 27 (Const 0), Add 29 One, Sub 30 (Const 0), Add 31 One, Sub 37 (Const 0),
     Add 38 (Const 2), Sub 39 (Const 0), Add 41 (Const 2), Sub 42 (Const 4), Add 43 (Const 2),
     Sub 45 (Const 0), Add 46 (Const 2), Sub 47 (Const 0), Add 53 One, Sub 54 (Const 0),
     Add 55 One, Sub 57 (Const 0), Add 58 (Const 2), Sub 59 (Const 0), Add 61 One,
     Sub 62 (Const 0), Add 63 One]"

definition tricub_ops_57 :: "coef_stmt list" where
  "tricub_ops_57 =
    [Sub 22 One, Add 23 One, Add 26 (Const 0), Sub 27 (Const 0), Sub 30 One, Add 31 One,
     Add 38 (Const 0), Sub 39 (Const 0), Sub 42 (Const 2), Add 43 (Const 2), Add 46 (Const 0),
     Sub 47 (Const 0), Sub 54 One, Add 55 One, Add 58 (Const 0), Sub 59 (Const 0), Sub 62 One,
     Add 63 One]"

definition tricub_ops_58 :: "coef_stmt list" where
  "tricub_ops_58 =
    [Sub 25 One, Add 26 (Const 0), Sub 27 One, Add 29 One, Sub 30 (Const 0), Add 31 One,
     Add 41 (Const 0), Sub 42 (Const 2), Add 43 (Const 0), Sub 45 (Const 0), Add 46 (Const 2),
     Sub 47 (Const 0), Sub 57 One, Add 58 (Const 0), Sub 59 One, Add 61 One, Sub 62 (Const 0),
     Add 63 One]"

definition tricub_ops_59 :: "coef_stmt list" where
  "tricub_ops_59 =
    [Add 26 One, Sub 27 One, Sub 30 One, Add 31 One, Sub 42 (Const 0), Add 43 (Const 0),
     Add 46 (Const 0), Sub 47 (Const 0), Add 58 One, Sub 59 One, Sub 62 One, Add 63 One]"

definition tricub_ops_60 :: "coef_stmt list" where
  "tricub_ops_60 =
    [Sub 37 One, Add 38 (Const 0), Sub 39 One, Add 41 (Const 0), Sub 42 (Const 2),
     Add 43 (Const 0), Sub 45 One, Add 46 (Const 0), Sub 47 One, Add 53 One, Sub 54 (Const 0),
     Add 55 One, Sub 57 (Const 0), Add 58 (Const 2), Sub 59 (Const 0), Add 61 One,
     Sub 62 (Const 0), Add 63 One]"

definition tricub_ops_61 :: "coef_stmt list" where
  "tricub_ops_61 =
    [Add 38 One, Sub 39 One, Sub 42 (Const 0), Add 43 (Const 0), Add 46 One, Sub 47 One,
     Sub 54 One, Add 55 One, Add 58 (Const 0), Sub 59 (Const 0), Sub 62 One, Add 63 One]"

definition tricub_ops_62 :: "coef_stmt list" where
  "tricub_ops_62 =
    [Add 41 One, Sub 42 (Const 0), Add 43 One, Sub 45 One, Add 46 (Const 0), Sub 47 One,
     Sub 57 One, Add 58 (Const 0), Sub 59 One, Add 61 One, Sub 62 (Const 0), Add 63 One]"

definition tricub_ops_63 :: "coef_stmt list" where
  "tricub_ops_63 =
    [Sub 42 One, Add 43 One, Add 46 One, Sub 47 One, Add 58 One, Sub 59 One, Sub 62 One,
     Add 63 One]"

definition tricub_ops :: "coef_stmt list list" where
  "tricub_ops =
    [tricub_ops_0, tricub_ops_1, tricub_ops_2, tricub_ops_3,
     tricub_ops_4, tricub_ops_5, tricub_ops_6, tricub_ops_7,
     tricub_ops_8, tricub_ops_9, tricub_ops_10, tricub_ops_11,
     tricub_ops_12, tricub_ops_13, tricub_ops_14, tricub_ops_15,
     tricub_ops_16, tricub_ops_17, tricub_ops_18, tricub_ops_19,
     tricub_ops_20, tricub_ops_21, tricub_ops_22, tricub_ops_23,
     tricub_ops_24, tricub_ops_25, tricub_ops_26, tricub_ops_27,
     tricub_ops_28, tricub_ops_29, tricub_ops_30, tricub_ops_31,
     tricub_ops_32, tricub_ops_33, tricub_ops_34, tricub_ops_35,
     tricub_ops_36, tricub_ops_37, tricub_ops_38, tricub_ops_39,
     tricub_ops_40, tricub_ops_41, tricub_ops_42, tricub_ops_43,
     tricub_ops_44, tricub_ops_45, tricub_ops_46, tricub_ops_47,
     tricub_ops_48, tricub_ops_49, tricub_ops_50, tricub_ops_51,
     tricub_ops_52, tricub_ops_53, tricub_ops_54, tricub_ops_55,
     tricub_ops_56, tricub_ops_57, tricub_ops_58, tricub_ops_59,
     tricub_ops_60, tricub_ops_61, tricub_ops_62, tricub_ops_63]"

lemmas tricub_ops_defs =
  tricub_ops_0_def tricub_ops_1_def tricub_ops_2_def tricub_ops_3_def
  tricub_ops_4_def tricub_ops_5_def tricub_ops_6_def tricub_ops_7_def
  tricub_ops_8_def tricub_ops_9_def tricub_ops_10_def tricub_ops_11_def
  tricub_ops_12_def tricub_ops_13_def tricub_ops_14_def tricub_ops_15_def
  tricub_ops_16_def tricub_ops_17_def tricub_ops_18_def tricub_ops_19_def
  tricub_ops_20_def tricub_ops_21_def tricub_ops_22_def tricub_ops_23_def
  tricub_ops_24_def tricub_ops_25_def tricub_ops_26_def tricub_ops_27_def
  tricub_ops_28_def tricub_ops_29_def tricub_ops_30_def tricub_ops_31_def
  tricub_ops_32_def tricub_ops_33_def tricub_ops_34_def tricub_ops_35_def
  tricub_ops_36_def tricub_ops_37_def tricub_ops_38_def tricub_ops_39_def
  tricub_ops_40_def tricub_ops_41_def tricub_ops_42_def tricub_ops_43_def
  tricub_ops_44_def tricub_ops_45_def tricub_ops_46_def tricub_ops_47_def
  tricub_ops_48_def tricub_ops_49_def tricub_ops_50_def tricub_ops_51_def
  tricub_ops_52_def tricub_ops_53_def tricub_ops_54_def tricub_ops_55_def
  tricub_ops_56_def tricub_ops_57_def tricub_ops_58_def tricub_ops_59_def
  tricub_ops_60_def tricub_ops_61_def tricub_ops_62_def tricub_ops_63_def

text \<open>One pass over the statements of an entry of \<open>b\<close>, and all passes in turn.\<close>

definition tricub_pass :: "coef_stmt list \<Rightarrow> real \<Rightarrow> real list \<Rightarrow> real list" where
  "tricub_pass ops b coefs = fold (\<lambda>op. exec op b) ops coefs"

fun tricub_passes :: "coef_stmt list list \<Rightarrow> real list \<Rightarrow> real list \<Rightarrow> real list" where
  "tricub_passes (ops # rest) (b # bs) coefs = tricub_passes rest bs (tricub_pass ops b coefs)"
| "tricub_passes _ _ coefs = coefs"

definition tricub_construct_coefs :: "real list \<Rightarrow> real list \<Rightarrow> real list" where
  "tricub_construct_coefs b coefs = tricub_passes tricub_ops b coefs"

subsection \<open>The reference: tensor products of Hermite polynomials\<close>

text \<open>
  \<open>hermite c d i\<close> is the coefficient of \<open>t ^ i\<close> of the cubic polynomial on the unit interval with value 1
  (\<open>d = 0\<close>) or slope 1 (\<open>d = 1\<close>) at the end \<open>c\<close> and values and slopes 0 otherwise. Entry \<open>8 * l + c\<close> of \<open>b\<close>
  is the derivative number \<open>l\<close> at the corner number \<open>c\<close>; coefficient \<open>i + 4 * j + 16 * k\<close> belongs to
  \<open>x ^ i * y ^ j * z ^ k\<close>.
\<close>

definition hermite :: "nat \<Rightarrow> nat \<Rightarrow> nat \<Rightarrow> int" where
  "hermite c d i = (if d = 0 then (if c = 0 then [1, 0, - 3, 2] else [0, 0, 3, - 2])
     else (if c = 0 then [0, 1, - 2, 1] else [0, 0, - 1, 1])) ! i"

definition deriv_orders :: "nat \<Rightarrow> nat \<times> nat \<times> nat" where
  "deriv_orders l = [(0, 0, 0), (1, 0, 0), (0, 1, 0), (0, 0, 1), (1, 1, 0), (1, 0, 1), (0, 1, 1), (1, 1, 1)] ! l"

definition corner :: "nat \<Rightarrow> nat \<times> nat \<times> nat" where
  "corner c = (c mod 2, c div 2 mod 2, c div 4)"

definition tensor :: "nat \<Rightarrow> nat \<Rightarrow> int" where
  "tensor m n =
     (let (dx, dy, dz) = deriv_orders (m div 8); (cx, cy, cz) = corner (m mod 8)
      in hermite cx dx (n mod 4) * hermite cy dy (n div 4 mod 4) * hermite cz dz (n div 16))"

text \<open>The pass in which coefficient \<open>n\<close> is assigned.\<close>

definition first_pass :: "nat \<Rightarrow> nat" where
  "first_pass n =
     (let x = n mod 4 = 1; y = n div 4 mod 4 = 1; z = n div 16 = 1
      in 8 * (if x then if y then if z then 7 else 4 else if z then 5 else 1
              else if y then if z then 6 else 2 else if z then 3 else 0))"

text \<open>What a statement does: its coefficient, whether it assigns, and its weight.\<close>

fun stmt_entry :: "coef_stmt \<Rightarrow> nat \<times> bool \<times> int" where
  "stmt_entry (Assign i f) = (i, True, factor_value f)"
| "stmt_entry (Negate i f) = (i, True, - factor_value f)"
| "stmt_entry (Add i f) = (i, False, factor_value f)"
| "stmt_entry (Sub i f) = (i, False, - factor_value f)"

definition expected_entries :: "nat \<Rightarrow> (nat \<times> bool \<times> int) list" where
  "expected_entries m = [(n, (m = first_pass n, tensor m n)). n \<leftarrow> [0..<64], tensor m n \<noteq> 0]"

text \<open>The statements of every pass are those the reference asks for.\<close>

lemma tricub_ops_entries:
  "map (map stmt_entry) tricub_ops = map expected_entries [0..<64]"
  by code_simp

lemma first_pass_before:
  "list_all (\<lambda>n. first_pass n < 64 \<and> tensor (first_pass n) n \<noteq> 0 \<and>
     list_all (\<lambda>m. tensor m n = 0) [0..<first_pass n]) [0..<64]"
  by code_simp

lemma first_pass_simps:
  assumes "n < 64"
  shows "first_pass n < 64" "tensor (first_pass n) n \<noteq> 0" "m < first_pass n \<Longrightarrow> tensor m n = 0"
  using first_pass_before assms by (simp_all add: list_all_iff)

subsection \<open>What the passes compute\<close>

lemma exec_entry:
  "stmt_entry op = (i, a, w) \<Longrightarrow>
   exec op b coefs = coefs[i := (if a then 0 else coefs ! i) + of_int w * b]"
  by (cases op) auto

lemma length_exec [simp]: "length (exec op b coefs) = length coefs"
  by (cases op) simp_all

lemma length_pass [simp]: "length (tricub_pass ops b coefs) = length coefs"
  unfolding tricub_pass_def by (induction ops arbitrary: coefs) simp_all

lemma pass_nth:
  assumes "distinct (map (fst \<circ> stmt_entry) ops)" "n < length coefs"
  shows "tricub_pass ops b coefs ! n = (case map_of (map stmt_entry ops) n of
      None \<Rightarrow> coefs ! n
    | Some (a, w) \<Rightarrow> (if a then 0 else coefs ! n) + of_int w * b)"
  using assms
proof (induction ops arbitrary: coefs)
  case Nil
  then show ?case by (simp add: tricub_pass_def)
next
  case (Cons op ops)
  obtain i a w where op: "stmt_entry op = (i, a, w)" by (cases "stmt_entry op")
  have pass: "tricub_pass (op # ops) b coefs = tricub_pass ops b (exec op b coefs)"
    by (simp add: tricub_pass_def)
  have rest: "map_of (map stmt_entry ops) i = None"
    using Cons.prems(1) by (auto simp: op map_of_eq_None_iff image_comp)
  show ?case
    using Cons.IH [of "exec op b coefs"] Cons.prems rest
    by (auto simp: pass op exec_entry split: option.split)
qed

lemma map_of_expected:
  assumes "n < 64"
  shows "map_of (expected_entries m) n =
    (if tensor m n \<noteq> 0 then Some (m = first_pass n, tensor m n) else None)"
proof -
  have "map_of [(n, f n). n \<leftarrow> ns, P n] n = (if n \<in> set ns \<and> P n then Some (f n) else None)"
    for f :: "nat \<Rightarrow> bool \<times> int" and P ns
    by (induction ns) auto
  then show ?thesis using assms by (simp add: expected_entries_def)
qed

lemma distinct_expected: "distinct (map fst (expected_entries m))"
proof -
  have "distinct ns \<Longrightarrow> distinct (map fst [(n, f n). n \<leftarrow> ns, P n])"
    for f :: "nat \<Rightarrow> bool \<times> int" and P and ns :: "nat list"
    by (induction ns) (auto simp: in_set_conv_decomp)
  then show ?thesis by (simp add: expected_entries_def)
qed

lemma expected_pass_nth:
  assumes ops: "map stmt_entry ops = expected_entries m" and n: "n < 64" "length coefs = 64"
  shows "tricub_pass ops b coefs ! n = (if m = first_pass n then 0 else coefs ! n) + of_int (tensor m n) * b"
proof -
  have "distinct (map (fst \<circ> stmt_entry) ops)"
    using distinct_expected [of m] by (simp add: ops flip: map_map)
  then show ?thesis
    using first_pass_simps(2) [OF n(1)] n
    by (auto simp: pass_nth ops map_of_expected split: if_splits)
qed

lemma passes_nth:
  assumes "map (map stmt_entry) opss = map expected_entries [m..<m + length opss]"
    and "length bs = length opss" and n: "n < 64" and "length coefs = 64"
  shows "tricub_passes opss bs coefs ! n =
      (if m \<le> first_pass n \<and> first_pass n < m + length opss then 0 else coefs ! n)
      + (\<Sum>k<length opss. of_int (tensor (m + k) n) * bs ! k)"
  using assms
proof (induction opss bs coefs arbitrary: m rule: tricub_passes.induct)
  case (1 ops rest b bs coefs)
  have "[m..<m + length (ops # rest)] = m # [Suc m..<Suc m + length rest]"
    using upt_conv_Cons [of m "Suc (m + length rest)"] by (simp del: upt_Suc)
  then have ops: "map stmt_entry ops = expected_entries m"
    and rest: "map (map stmt_entry) rest = map expected_entries [Suc m..<Suc m + length rest]"
    using "1.prems"(1) by simp_all
  let ?coefs = "tricub_pass ops b coefs"
  note IH = "1.IH" [OF rest _ n] 
  have "?coefs ! n = (if m = first_pass n then 0 else coefs ! n) + of_int (tensor m n) * b"
    by (rule expected_pass_nth [OF ops n "1.prems"(4)])
  moreover have "(\<Sum>k<length (ops # rest). of_int (tensor (m + k) n) * (b # bs) ! k) =
      of_int (tensor m n) * b + (\<Sum>k<length rest. of_int (tensor (Suc m + k) n) * bs ! k)"
    by (simp add: sum.lessThan_Suc_shift del: sum.lessThan_Suc)
  moreover have "tensor m n = 0" if "m < first_pass n"
    by (rule first_pass_simps(3) [OF n that])
  ultimately show ?case
    using IH "1.prems"(2,4) by (auto simp del: sum.lessThan_Suc)
qed simp_all

lemma tricub_coefs_nth:
  assumes "length b = 64" "length coefs = 64" "n < 64"
  shows "tricub_construct_coefs b coefs ! n = (\<Sum>m<64. of_int (tensor m n) * b ! m)"
proof -
  have len: "length tricub_ops = 64" using arg_cong [OF tricub_ops_entries, of length] by simp
  have "tricub_construct_coefs b coefs ! n =
      (if 0 \<le> first_pass n \<and> first_pass n < 0 + length tricub_ops then 0 else coefs ! n)
      + (\<Sum>k<length tricub_ops. of_int (tensor (0 + k) n) * b ! k)"
    unfolding tricub_construct_coefs_def
    by (rule passes_nth) (use assms tricub_ops_entries in \<open>simp_all add: len\<close>)
  then show ?thesis using first_pass_simps(1) [OF assms(3)] by (simp add: len)
qed

text \<open>C29: The 1000 assignments of \<open>tricub_construct_coefs\<close> compute the tensor product of the Hermite
  polynomials with the values and derivatives \<open>b\<close> in the corners of the cell. The result does not depend
  on what the array held before, so no coefficient is read before it is assigned.\<close>

theorem tricub_coefs_are_hermite:
  assumes "length b = 64" "length coefs = 64" "n < 64"
  shows "tricub_construct_coefs b coefs ! n = (\<Sum>m<64. of_int (tensor m n) * b ! m)"
  by (rule tricub_coefs_nth [OF assms])

theorem tricub_coefs_are_hermite_witness:
  "tricub_construct_coefs (replicate 64 1) (replicate 64 7) ! 0 = (\<Sum>m<64. of_int (tensor m 0))"
  using tricub_coefs_are_hermite [of "replicate 64 1" "replicate 64 7" 0] by simp

end
