(* ===== verification/Tri_Cub.thy ===== *)
theory Tri_Cub
  imports Tri_Cub_Coefficients Elements
begin

section \<open>Tricubic interpolation of a field map (be_tricub)\<close>

text \<open>
  A \<open>TriCub\<close> element kicks a particle by the gradient of a potential that is given by the values of the
  potential and of its mixed first derivatives on a grid, eight entries for each grid point. The grid data
  is a \<open>TriCubData\<close> object; its table is \<open>None\<close> for the address 0. The index type is a signed 64-bit
  integer.
\<close>

subsection \<open>Structures\<close>

record TriCubData =
  TriCubData_x0 :: real
  TriCubData_dx :: real
  TriCubData_nx :: i64
  TriCubData_y0 :: real
  TriCubData_dy :: real
  TriCubData_ny :: i64
  TriCubData_z0 :: real
  TriCubData_dz :: real
  TriCubData_nz :: i64
  TriCubData_mirror_x :: i64
  TriCubData_mirror_y :: i64
  TriCubData_mirror_z :: i64
  TriCubData_table_addr :: "real list option"

record TriCub =
  TriCub_x_shift :: real
  TriCub_y_shift :: real
  TriCub_tau_shift :: real
  TriCub_dipolar_kick_px :: real
  TriCub_dipolar_kick_py :: real
  TriCub_dipolar_kick_ptau :: real
  TriCub_length :: real
  TriCub_data_addr :: "TriCubData option"

definition TriCubData_set_x0 :: "TriCubData \<Rightarrow> real \<Rightarrow> TriCubData \<times> arch_status" where
  "TriCubData_set_x0 data x0 = (data\<lparr>TriCubData_x0 := x0\<rparr>, 0)"

definition TriCubData_set_dx :: "TriCubData \<Rightarrow> real \<Rightarrow> TriCubData \<times> arch_status" where
  "TriCubData_set_dx data dx = (if dx \<ge> 0 then (data\<lparr>TriCubData_dx := dx\<rparr>, 0) else (data, - 1))"

definition TriCubData_set_nx :: "TriCubData \<Rightarrow> i64 \<Rightarrow> TriCubData \<times> arch_status" where
  "TriCubData_set_nx data nx = (if nx \<ge> 0 then (data\<lparr>TriCubData_nx := nx\<rparr>, 0) else (data, - 1))"

definition TriCubData_set_y0 :: "TriCubData \<Rightarrow> real \<Rightarrow> TriCubData \<times> arch_status" where
  "TriCubData_set_y0 data y0 = (data\<lparr>TriCubData_y0 := y0\<rparr>, 0)"

definition TriCubData_set_dy :: "TriCubData \<Rightarrow> real \<Rightarrow> TriCubData \<times> arch_status" where
  "TriCubData_set_dy data dy = (if dy \<ge> 0 then (data\<lparr>TriCubData_dy := dy\<rparr>, 0) else (data, - 1))"

definition TriCubData_set_ny :: "TriCubData \<Rightarrow> i64 \<Rightarrow> TriCubData \<times> arch_status" where
  "TriCubData_set_ny data ny = (if ny \<ge> 0 then (data\<lparr>TriCubData_ny := ny\<rparr>, 0) else (data, - 1))"

definition TriCubData_set_z0 :: "TriCubData \<Rightarrow> real \<Rightarrow> TriCubData \<times> arch_status" where
  "TriCubData_set_z0 data z0 = (data\<lparr>TriCubData_z0 := z0\<rparr>, 0)"

definition TriCubData_set_dz :: "TriCubData \<Rightarrow> real \<Rightarrow> TriCubData \<times> arch_status" where
  "TriCubData_set_dz data dz = (if dz \<ge> 0 then (data\<lparr>TriCubData_dz := dz\<rparr>, 0) else (data, - 1))"

definition TriCubData_set_nz :: "TriCubData \<Rightarrow> i64 \<Rightarrow> TriCubData \<times> arch_status" where
  "TriCubData_set_nz data nz = (if nz \<ge> 0 then (data\<lparr>TriCubData_nz := nz\<rparr>, 0) else (data, - 1))"

definition TriCubData_set_mirror_x :: "TriCubData \<Rightarrow> i64 \<Rightarrow> TriCubData \<times> arch_status" where
  "TriCubData_set_mirror_x data mirror_x = (data\<lparr>TriCubData_mirror_x := mirror_x\<rparr>, 0)"

definition TriCubData_set_mirror_y :: "TriCubData \<Rightarrow> i64 \<Rightarrow> TriCubData \<times> arch_status" where
  "TriCubData_set_mirror_y data mirror_y = (data\<lparr>TriCubData_mirror_y := mirror_y\<rparr>, 0)"

definition TriCubData_set_mirror_z :: "TriCubData \<Rightarrow> i64 \<Rightarrow> TriCubData \<times> arch_status" where
  "TriCubData_set_mirror_z data mirror_z = (data\<lparr>TriCubData_mirror_z := mirror_z\<rparr>, 0)"

definition TriCubData_set_table_addr :: "TriCubData \<Rightarrow> real list option \<Rightarrow> TriCubData \<times> arch_status" where
  "TriCubData_set_table_addr data addr = (data\<lparr>TriCubData_table_addr := addr\<rparr>, 0)"

definition TriCub_set_x_shift :: "TriCub \<Rightarrow> real \<Rightarrow> TriCub \<times> arch_status" where
  "TriCub_set_x_shift data val = (data\<lparr>TriCub_x_shift := val\<rparr>, 0)"

definition TriCub_set_y_shift :: "TriCub \<Rightarrow> real \<Rightarrow> TriCub \<times> arch_status" where
  "TriCub_set_y_shift data val = (data\<lparr>TriCub_y_shift := val\<rparr>, 0)"

definition TriCub_set_tau_shift :: "TriCub \<Rightarrow> real \<Rightarrow> TriCub \<times> arch_status" where
  "TriCub_set_tau_shift data val = (data\<lparr>TriCub_tau_shift := val\<rparr>, 0)"

definition TriCub_set_dipolar_kick_px :: "TriCub \<Rightarrow> real \<Rightarrow> TriCub \<times> arch_status" where
  "TriCub_set_dipolar_kick_px data val = (data\<lparr>TriCub_dipolar_kick_px := val\<rparr>, 0)"

definition TriCub_set_dipolar_kick_py :: "TriCub \<Rightarrow> real \<Rightarrow> TriCub \<times> arch_status" where
  "TriCub_set_dipolar_kick_py data val = (data\<lparr>TriCub_dipolar_kick_py := val\<rparr>, 0)"

definition TriCub_set_dipolar_kick_ptau :: "TriCub \<Rightarrow> real \<Rightarrow> TriCub \<times> arch_status" where
  "TriCub_set_dipolar_kick_ptau data val = (data\<lparr>TriCub_dipolar_kick_ptau := val\<rparr>, 0)"

definition TriCub_set_length :: "TriCub \<Rightarrow> real \<Rightarrow> TriCub \<times> arch_status" where
  "TriCub_set_length data len = (data\<lparr>TriCub_length := len\<rparr>, 0)"

definition TriCub_set_data_addr :: "TriCub \<Rightarrow> TriCubData option \<Rightarrow> TriCub \<times> arch_status" where
  "TriCub_set_data_addr data addr = (data\<lparr>TriCub_data_addr := addr\<rparr>, 0)"

text \<open>The product is computed with the unsigned factor 8 as a signed 64-bit integer.\<close>

definition TriCubData_table_size :: "TriCubData \<Rightarrow> i64" where
  "TriCubData_table_size data = TriCubData_nx data * TriCubData_ny data * TriCubData_nz data * 8"

text \<open>The status is initialised with the failure and never changed.\<close>

definition TriCubData_clear :: "TriCubData \<Rightarrow> TriCubData \<times> arch_status" where
  "TriCubData_clear data =
     (let status = - 1;
          data = fst (TriCubData_set_x0 data 0);
          data = fst (TriCubData_set_dx data 0);
          data = fst (TriCubData_set_y0 data 0);
          data = fst (TriCubData_set_dy data 0);
          data = fst (TriCubData_set_z0 data 0);
          data = fst (TriCubData_set_dz data 0);
          data = fst (TriCubData_set_mirror_x data 0);
          data = fst (TriCubData_set_mirror_y data 0);
          data = fst (TriCubData_set_mirror_z data 0)
      in if TriCubData_table_size data > 0 \<and> TriCubData_table_addr data \<noteq> None
         then let n = nat (TriCubData_table_size data); table = the (TriCubData_table_addr data)
              in (data\<lparr>TriCubData_table_addr := Some (replicate n 0 @ drop n table)\<rparr>, status)
         else (data, status))"

definition TriCubData_preset :: "TriCubData option \<Rightarrow> TriCubData option" where
  "TriCubData_preset data = (case data of None \<Rightarrow> None
    | Some data \<Rightarrow>
        let data = fst (TriCubData_set_nx data 0);
            data = fst (TriCubData_set_ny data 0);
            data = fst (TriCubData_set_nz data 0);
            data = fst (TriCubData_set_table_addr data None)
        in Some (fst (TriCubData_clear data)))"

text \<open>\<open>same\<close>: both arguments are the same object. \<open>same_table\<close>: their tables are the same memory.\<close>

definition TriCubData_copy ::
    "bool \<Rightarrow> bool \<Rightarrow> TriCubData \<Rightarrow> TriCubData \<Rightarrow> TriCubData \<times> arch_status" where
  "TriCubData_copy same same_table dest src =
     (if same then (dest, 0)
      else
        let src_size = TriCubData_table_size src;
            dest_size = TriCubData_table_size dest;
            (dest, status) =
              (case (TriCubData_table_addr dest, TriCubData_table_addr src) of
                 (Some dest_table, Some src_table) \<Rightarrow>
                   if src_size > 0 \<and> src_size = dest_size
                   then (if same_table then dest
                         else dest\<lparr>TriCubData_table_addr :=
                           Some (take (nat src_size) src_table @ drop (nat src_size) dest_table)\<rparr>, 0)
                   else if src_size = 0 \<and> src_size = dest_size \<and> same_table then (dest, 0)
                   else (dest, - 1)
               | (None, None) \<Rightarrow> if src_size = 0 \<and> src_size = dest_size then (dest, 0) else (dest, - 1)
               | _ \<Rightarrow> (dest, - 1))
        in if status = 0 then
          let (dest, status1) = TriCubData_set_x0 dest (TriCubData_x0 src);
            (dest, status2) = TriCubData_set_dx dest (TriCubData_dx src);
            (dest, status3) = TriCubData_set_nx dest (TriCubData_nx src);
            (dest, status4) = TriCubData_set_y0 dest (TriCubData_y0 src);
            (dest, status5) = TriCubData_set_dy dest (TriCubData_dy src);
            (dest, status6) = TriCubData_set_ny dest (TriCubData_ny src);
            (dest, status7) = TriCubData_set_z0 dest (TriCubData_z0 src);
            (dest, status8) = TriCubData_set_dz dest (TriCubData_dz src);
            (dest, status9) = TriCubData_set_nz dest (TriCubData_nz src);
            (dest, status10) = TriCubData_set_mirror_x dest (TriCubData_mirror_x src);
            (dest, status11) = TriCubData_set_mirror_y dest (TriCubData_mirror_y src);
            (dest, status12) = TriCubData_set_mirror_z dest (TriCubData_mirror_z src)
          in (dest, status1 OR status2 OR status3 OR status4 OR status5 OR status6 OR status7 OR status8 OR status9 OR status10 OR status11 OR status12)
        else (dest, status))"

definition TriCub_clear :: "TriCub \<Rightarrow> TriCub \<times> arch_status" where
  "TriCub_clear tricub =
     (let (tricub, status1) = TriCub_set_x_shift tricub 0;
          (tricub, status2) = TriCub_set_y_shift tricub 0;
          (tricub, status3) = TriCub_set_tau_shift tricub 0;
          (tricub, status4) = TriCub_set_dipolar_kick_px tricub 0;
          (tricub, status5) = TriCub_set_dipolar_kick_py tricub 0;
          (tricub, status6) = TriCub_set_dipolar_kick_ptau tricub 0;
          (tricub, status7) = TriCub_set_length tricub 0
      in (tricub, status1 OR status2 OR status3 OR status4 OR status5 OR status6 OR status7))"

definition TriCub_preset :: "TriCub option \<Rightarrow> TriCub option" where
  "TriCub_preset tricub =
     map_option (\<lambda>tricub. fst (TriCub_clear (fst (TriCub_set_data_addr tricub None)))) tricub"

definition TriCub_copy :: "bool \<Rightarrow> TriCub \<Rightarrow> TriCub \<Rightarrow> TriCub \<times> arch_status" where
  "TriCub_copy same dest src =
     (if \<not> same then
        let (dest, status1) = TriCub_set_x_shift dest (TriCub_x_shift src);
            (dest, status2) = TriCub_set_y_shift dest (TriCub_y_shift src);
            (dest, status3) = TriCub_set_tau_shift dest (TriCub_tau_shift src);
            (dest, status4) = TriCub_set_dipolar_kick_px dest (TriCub_dipolar_kick_px src);
            (dest, status5) = TriCub_set_dipolar_kick_py dest (TriCub_dipolar_kick_py src);
            (dest, status6) = TriCub_set_dipolar_kick_ptau dest (TriCub_dipolar_kick_ptau src);
            (dest, status7) = TriCub_set_length dest (TriCub_length src);
            (dest, status8) = TriCub_set_data_addr dest (TriCub_data_addr src)
        in (dest, status1 OR status2 OR status3 OR status4 OR status5 OR status6 OR status7 OR status8)
      else (dest, 0))"

subsection \<open>Tracking\<close>

text \<open>\<open>tricub_entry d l ix iy iz\<close> is the entry of the lookup table that holds the derivative number \<open>l\<close> in
  the grid point \<open>(ix, iy, iz)\<close>; the loop of \<open>tricub_construct_b_vector\<close> reads the eight corners of the
  cell for each \<open>l\<close>.\<close>

definition tricub_entry :: "TriCubData \<Rightarrow> i64 \<Rightarrow> i64 \<Rightarrow> i64 \<Rightarrow> i64 \<Rightarrow> real" where
  "tricub_entry d l ix iy iz =
     the (TriCubData_table_addr d) ! nat (l + 8 * (ix + TriCubData_nx d * (iy + TriCubData_ny d * iz)))"

definition tricub_construct_b_vector :: "TriCubData \<Rightarrow> i64 \<Rightarrow> i64 \<Rightarrow> i64 \<Rightarrow> real list" where
  "tricub_construct_b_vector d ix iy iz =
     concat (map (\<lambda>l.
       [tricub_entry d (int l) ix iy iz, tricub_entry d (int l) (ix + 1) iy iz,
        tricub_entry d (int l) ix (iy + 1) iz, tricub_entry d (int l) (ix + 1) (iy + 1) iz,
        tricub_entry d (int l) ix iy (iz + 1), tricub_entry d (int l) (ix + 1) iy (iz + 1),
        tricub_entry d (int l) ix (iy + 1) (iz + 1), tricub_entry d (int l) (ix + 1) (iy + 1) (iz + 1)]) [0..<8])"

text \<open>The arrays \<open>x_power\<close>, \<open>y_power\<close> and \<open>z_power\<close>.\<close>

definition tricub_power :: "real \<Rightarrow> real list" where
  "tricub_power xn = [1, xn, xn * xn, xn * xn * xn]"

text \<open>The uninitialised array of coefficients is the argument \<open>uninit\<close>.\<close>

definition Track_particle_tricub ::
    "real list \<Rightarrow> particles \<Rightarrow> i64 \<Rightarrow> TriCub \<Rightarrow> particles \<times> track_status" where
  "Track_particle_tricub uninit p ii tricub =
     (let tricub_data = the (TriCub_data_addr tricub);
          len = TriCub_length tricub;
          x_shift = TriCub_x_shift tricub;
          y_shift = TriCub_y_shift tricub;
          z_shift = TriCub_tau_shift tricub;
          inv_dx = 1 / TriCubData_dx tricub_data;
          inv_dy = 1 / TriCubData_dy tricub_data;
          inv_dz = 1 / TriCubData_dz tricub_data;
          x0 = TriCubData_x0 tricub_data;
          y0 = TriCubData_y0 tricub_data;
          z0 = TriCubData_z0 tricub_data;
          zeta = Particles_get_zeta_value p ii;
          rvv = Particles_get_rvv_value p ii;
          beta0 = Particles_get_beta0_value p ii;
          x = Particles_get_x_value p ii;
          y = Particles_get_y_value p ii;
          z = zeta / (beta0 * rvv);
          fx = ((x - x_shift) - x0) * inv_dx;
          fy = ((y - y_shift) - y0) * inv_dy;
          fz = ((z - z_shift) - z0) * inv_dz;
          sign_x = (if TriCubData_mirror_x tricub_data = 1 \<and> fx < 0 then - 1 else 1);
          sign_y = (if TriCubData_mirror_y tricub_data = 1 \<and> fy < 0 then - 1 else 1);
          sign_z = (if TriCubData_mirror_z tricub_data = 1 \<and> fz < 0 then - 1 else 1);
          sfx = sign_x * fx;
          sfy = sign_y * fy;
          sfz = sign_z * fz;
          ix = \<lfloor>sfx\<rfloor>;
          iy = \<lfloor>sfy\<rfloor>;
          iz = \<lfloor>sfz\<rfloor>;
          xn = sfx - of_int ix;
          yn = sfy - of_int iy;
          zn = sfz - of_int iz;
          b_vector = tricub_construct_b_vector tricub_data ix iy iz;
          coefs = tricub_construct_coefs b_vector uninit;
          x_power = tricub_power xn;
          y_power = tricub_power yn;
          z_power = tricub_power zn;
          kick_px = (\<Sum>i = 1..<4. \<Sum>j = 0..<4. \<Sum>k = 0..<4. real i *
            (coefs ! (i + 4 * j + 16 * k) * x_power ! (i - 1) * y_power ! j * z_power ! k));
          kick_px = kick_px * (len * inv_dx);
          kick_px = kick_px * - sign_x;
          kick_px = kick_px - TriCub_dipolar_kick_px tricub;
          kick_py = (\<Sum>i = 0..<4. \<Sum>j = 1..<4. \<Sum>k = 0..<4. real j *
            (coefs ! (i + 4 * j + 16 * k) * x_power ! i * y_power ! (j - 1) * z_power ! k));
          kick_py = kick_py * (len * inv_dy);
          kick_py = kick_py * - sign_y;
          kick_py = kick_py - TriCub_dipolar_kick_py tricub;
          kick_ptau = (\<Sum>i = 0..<4. \<Sum>j = 0..<4. \<Sum>k = 1..<4. real k *
            (coefs ! (i + 4 * j + 16 * k) * x_power ! i * y_power ! j * z_power ! (k - 1)));
          kick_ptau = kick_ptau * (len * inv_dz);
          kick_ptau = kick_ptau * - sign_z;
          kick_ptau = kick_ptau - TriCub_dipolar_kick_ptau tricub;
          q = Particles_get_q0_value p ii * Particles_get_charge_ratio_value p ii;
          p0c = Particles_get_p0c_value p ii;
          energy_kick = q * (p0c * kick_ptau);
          p = Particles_add_to_px_value p ii kick_px;
          p = Particles_add_to_py_value p ii kick_py;
          p = Particles_add_to_energy_value p ii energy_kick
      in (p, 0))"

lemma tricub_success [simp]: "snd (Track_particle_tricub uninit p ii e) = 0"
  by (simp add: Track_particle_tricub_def Let_def)

subsection \<open>The interpolated potential\<close>

text \<open>
  \<open>dpow e i t\<close> is \<open>t ^ i\<close> or, for \<open>e = 1\<close>, its derivative. \<open>tri_poly\<close> is the tricubic polynomial, or its
  mixed derivative of the given orders.
\<close>

definition dpow :: "nat \<Rightarrow> nat \<Rightarrow> real \<Rightarrow> real" where
  "dpow e i t = (if e = 0 then t ^ i else real i * t ^ (i - 1))"

fun tri_poly :: "real list \<Rightarrow> nat \<times> nat \<times> nat \<Rightarrow> real \<Rightarrow> real \<Rightarrow> real \<Rightarrow> real" where
  "tri_poly coefs (a, b, c) x y z = (\<Sum>i<4. \<Sum>j<4. \<Sum>k<4.
     coefs ! (i + 4 * j + 16 * k) * dpow a i x * dpow b j y * dpow c k z)"

definition hermite_poly :: "nat \<Rightarrow> nat \<Rightarrow> nat \<Rightarrow> real \<Rightarrow> real" where
  "hermite_poly c d e t = (\<Sum>i<4. of_int (hermite c d i) * dpow e i t)"

lemma hermite_poly_ends:
  assumes "c < 2" "d < 2" "e < 2"
  shows "hermite_poly c d e 0 = (if c = 0 \<and> d = e then 1 else 0)"
    and "hermite_poly c d e 1 = (if c = 1 \<and> d = e then 1 else 0)"
proof -
  have "c = 0 \<or> c = 1" "d = 0 \<or> d = 1" "e = 0 \<or> e = 1" using assms by auto
  then show "hermite_poly c d e 0 = (if c = 0 \<and> d = e then 1 else 0)"
    "hermite_poly c d e 1 = (if c = 1 \<and> d = e then 1 else 0)"
    by (auto simp: hermite_poly_def hermite_def dpow_def numeral_eq_Suc)
qed

text \<open>The polynomial that the corner data number \<open>m\<close> contributes.\<close>

definition tensor_poly :: "nat \<Rightarrow> nat \<times> nat \<times> nat \<Rightarrow> real \<Rightarrow> real \<Rightarrow> real \<Rightarrow> real" where
  "tensor_poly m e x y z =
     (let (dx, dy, dz) = deriv_orders (m div 8); (cx, cy, cz) = corner (m mod 8); (a, b, c) = e
      in hermite_poly cx dx a x * hermite_poly cy dy b y * hermite_poly cz dz c z)"

lemma sum_product3:
  fixes f g h :: "nat \<Rightarrow> real"
  shows "(\<Sum>i<m. \<Sum>j<n. \<Sum>k<l. f i * g j * h k) = (\<Sum>i<m. f i) * (\<Sum>j<n. g j) * (\<Sum>k<l. h k)"
proof -
  have "(\<Sum>i<m. f i) * (\<Sum>j<n. g j) * (\<Sum>k<l. h k) = (\<Sum>i<m. \<Sum>j<n. f i * g j) * (\<Sum>k<l. h k)"
    by (simp only: sum_product)
  also have "\<dots> = (\<Sum>i<m. \<Sum>j<n. f i * g j * (\<Sum>k<l. h k))"
    by (simp only: sum_distrib_right)
  finally show ?thesis by (simp only: sum_distrib_left)
qed

lemma coef_digits:
  fixes i j k :: nat
  assumes "i < 4" "j < 4"
  shows "(i + 4 * j + 16 * k) mod 4 = i" "(i + 4 * j + 16 * k) div 4 mod 4 = j"
    "(i + 4 * j + 16 * k) div 16 = k"
proof -
  have e: "i + 4 * j + 16 * k = i + 4 * (j + 4 * k)" by simp
  show "(i + 4 * j + 16 * k) mod 4 = i" unfolding e mod_mult_self2 using assms by simp
  have d: "(i + 4 * j + 16 * k) div 4 = j + 4 * k"
    unfolding e using div_mult_self2 [of 4 i "j + 4 * k"] assms by simp
  show "(i + 4 * j + 16 * k) div 4 mod 4 = j" unfolding d mod_mult_self2 using assms by simp
  have "(i + 4 * j + 16 * k) div 16 = (i + 4 * j + 16 * k) div 4 div 4"
    by (simp add: div_mult2_eq [of _ 4 4, simplified])
  then show "(i + 4 * j + 16 * k) div 16 = k" unfolding d using assms by simp
qed

lemma tensor_poly_sum:
  "(\<Sum>i<4. \<Sum>j<4. \<Sum>k<4. of_int (tensor m (i + 4 * j + 16 * k)) * dpow a i x * dpow b j y * dpow c k z) =
    tensor_poly m (a, b, c) x y z"
proof -
  obtain dx dy dz where d: "deriv_orders (m div 8) = (dx, dy, dz)" by (metis surj_pair)
  obtain cx cy cz where c: "corner (m mod 8) = (cx, cy, cz)" by (metis surj_pair)
  have "(\<Sum>i<4. \<Sum>j<4. \<Sum>k<4. of_int (tensor m (i + 4 * j + 16 * k)) * dpow a i x * dpow b j y * dpow c k z) =
      (\<Sum>i<4. \<Sum>j<4. \<Sum>k<4. (of_int (hermite cx dx i) * dpow a i x) *
        (of_int (hermite cy dy j) * dpow b j y) * (of_int (hermite cz dz k) * dpow c k z))"
    by (intro sum.cong refl) (simp add: tensor_def d c coef_digits)
  also have "\<dots> = tensor_poly m (a, b, c) x y z"
    by (simp only: sum_product3) (simp add: tensor_poly_def d c hermite_poly_def)
  finally show ?thesis .
qed

lemma tri_poly_tensor:
  assumes "length b = 64" "length coefs = 64"
  shows "tri_poly (tricub_construct_coefs b coefs) e x y z = (\<Sum>m<64. b ! m * tensor_poly m e x y z)"
proof -
  obtain u v w where e: "e = (u, v, w)" by (metis surj_pair)
  define S where "S = ({..<4} :: nat set)"
  define h where "h = (\<lambda>i j k m. of_int (tensor m (i + 4 * j + 16 * k)) * b ! m *
    dpow u i x * dpow v j y * dpow w k z)"
  have small: "i + 4 * j + 16 * k < 64" if "i \<in> S" "j \<in> S" "k \<in> S" for i j k
    using that by (simp add: S_def)
  have "tri_poly (tricub_construct_coefs b coefs) e x y z = (\<Sum>i\<in>S. \<Sum>j\<in>S. \<Sum>k\<in>S. \<Sum>m<64. h i j k m)"
    unfolding e tri_poly.simps S_def [symmetric]
    by (intro sum.cong refl)
      (simp add: tricub_coefs_nth [OF assms small] sum_distrib_right h_def)
  also have "\<dots> = (\<Sum>m<64. \<Sum>i\<in>S. \<Sum>j\<in>S. \<Sum>k\<in>S. h i j k m)"
    by (simp only: sum.swap [of _ "{..<64}" S])
  also have "\<dots> = (\<Sum>m<64. b ! m * tensor_poly m e x y z)"
  proof (intro sum.cong refl)
    fix m
    have "(\<Sum>i\<in>S. \<Sum>j\<in>S. \<Sum>k\<in>S. h i j k m) = b ! m * (\<Sum>i\<in>S. \<Sum>j\<in>S. \<Sum>k\<in>S.
        of_int (tensor m (i + 4 * j + 16 * k)) * dpow u i x * dpow v j y * dpow w k z)"
      by (simp add: sum_distrib_left h_def ac_simps)
    then show "(\<Sum>i\<in>S. \<Sum>j\<in>S. \<Sum>k\<in>S. h i j k m) = b ! m * tensor_poly m e x y z"
      unfolding S_def tensor_poly_sum by (simp add: e)
  qed
  finally show ?thesis .
qed

lemma tensor_poly_corner:
  assumes m: "m < 64" and l: "l < 8" and c: "c < 8"
  shows "(let (cx, cy, cz) = corner c
    in tensor_poly m (deriv_orders l) (real cx) (real cy) (real cz)) = (if m = 8 * l + c then 1 else 0)"
proof -
  have "list_all (\<lambda>l. list_all (\<lambda>l'. (deriv_orders l = deriv_orders l') = (l = l')) [0..<8] \<and>
      fst (deriv_orders l) < 2 \<and> fst (snd (deriv_orders l)) < 2 \<and> snd (snd (deriv_orders l)) < 2 \<and>
      list_all (\<lambda>l'. (corner l = corner l') = (l = l')) [0..<8] \<and>
      fst (corner l) < 2 \<and> fst (snd (corner l)) < 2 \<and> snd (snd (corner l)) < 2) [0..<8]"
    by code_simp
  then have table: "l' < 8 \<Longrightarrow> (deriv_orders l = deriv_orders l') = (l = l')"
      "fst (deriv_orders l) < 2" "fst (snd (deriv_orders l)) < 2" "snd (snd (deriv_orders l)) < 2"
      "l' < 8 \<Longrightarrow> (corner l = corner l') = (l = l')"
      "fst (corner l) < 2" "fst (snd (corner l)) < 2" "snd (snd (corner l)) < 2" if "l < 8" for l l'
    using that by (simp_all add: list_all_iff)
  have l8: "m div 8 < 8" and c8: "m mod 8 < 8" using m by simp_all
  obtain dx dy dz where d: "deriv_orders (m div 8) = (dx, dy, dz)" by (metis surj_pair)
  obtain cx cy cz where cm: "corner (m mod 8) = (cx, cy, cz)" by (metis surj_pair)
  obtain ex ey ez where e: "deriv_orders l = (ex, ey, ez)" by (metis surj_pair)
  obtain bx b' bz where b: "corner c = (bx, b', bz)" by (metis surj_pair)
  have ends: "hermite_poly c1 d1 e1 (real b1) = (if c1 = b1 \<and> d1 = e1 then 1 else 0)"
    if "c1 < 2" "d1 < 2" "e1 < 2" "b1 < 2" for c1 d1 e1 b1
  proof -
    have "b1 = 0 \<or> b1 = 1" using that(4) by auto
    then show ?thesis using hermite_poly_ends [OF that(1-3)] by auto
  qed
  have "tensor_poly m (deriv_orders l) (real bx) (real b') (real bz) =
      (if corner (m mod 8) = corner c \<and> deriv_orders (m div 8) = deriv_orders l then 1 else 0)"
    using table(2-4) [OF l8] table(2-4) [OF l] table(6-8) [OF c8] table(6-8) [OF c]
    by (simp add: tensor_poly_def d cm e b ends)
  also have "\<dots> = (if m mod 8 = c \<and> m div 8 = l then 1 else 0)"
    using table(1) [OF l8 l] table(5) [OF c8 c] by simp
  also have "\<dots> = (if m = 8 * l + c then 1 else 0)"
    using c by (auto simp: div_mult_mod_eq)
  finally show ?thesis by (simp add: b)
qed

lemma nth_concat_blocks:
  assumes "\<And>l. length (f l) = 8" "c < 8" "l < n"
  shows "concat (map f [0..<n]) ! (8 * l + c) = f l ! c"
proof -
  have len: "length (concat (map f [0..<n])) = 8 * n" for n
    using assms(1) by (induction n) simp_all
  show ?thesis using assms by (induction n) (auto simp: nth_append len less_Suc_eq)
qed

lemma length_b_vector [simp]: "length (tricub_construct_b_vector d ix iy iz) = 64"
  by (simp add: tricub_construct_b_vector_def upt_rec)

lemma b_vector_nth:
  assumes "l < 8" "c < 8"
  shows "tricub_construct_b_vector d ix iy iz ! (8 * l + c) =
    (let (cx, cy, cz) = corner c
     in tricub_entry d (int l) (ix + int cx) (iy + int cy) (iz + int cz))"
proof -
  have "c = 0 \<or> c = 1 \<or> c = 2 \<or> c = 3 \<or> c = 4 \<or> c = 5 \<or> c = 6 \<or> c = 7" using assms(2) by auto
  then show ?thesis
    unfolding tricub_construct_b_vector_def
    by (subst nth_concat_blocks) (use assms in \<open>auto simp: corner_def\<close>)
qed

text \<open>The polynomial of the cell with lower corner \<open>(ix, iy, iz)\<close>, in coordinates from 0 to 1.\<close>

definition tricub_cell ::
    "real list \<Rightarrow> TriCubData \<Rightarrow> i64 \<Rightarrow> i64 \<Rightarrow> i64 \<Rightarrow> nat \<times> nat \<times> nat \<Rightarrow> real \<Rightarrow> real \<Rightarrow> real \<Rightarrow> real" where
  "tricub_cell uninit d ix iy iz =
     tri_poly (tricub_construct_coefs (tricub_construct_b_vector d ix iy iz) uninit)"

text \<open>C30: In every cell, the interpolated potential and its seven mixed derivatives take the values of the
  lookup table in all eight corners of the cell.\<close>

theorem tricub_interpolates_grid:
  assumes "length uninit = 64" "l < 8" "c < 8"
  shows "let (cx, cy, cz) = corner c
    in tricub_cell uninit d ix iy iz (deriv_orders l) (real cx) (real cy) (real cz) =
       tricub_entry d (int l) (ix + int cx) (iy + int cy) (iz + int cz)"
proof -
  obtain cx cy cz where corner: "corner c = (cx, cy, cz)" by (metis surj_pair)
  define b where "b = tricub_construct_b_vector d ix iy iz"
  have "tri_poly (tricub_construct_coefs b uninit) (deriv_orders l) (real cx) (real cy) (real cz) =
      (\<Sum>m<64. b ! m * tensor_poly m (deriv_orders l) (real cx) (real cy) (real cz))"
    by (rule tri_poly_tensor) (simp_all add: b_def assms)
  also have "\<dots> = (\<Sum>m<64. if m = 8 * l + c then b ! (8 * l + c) else 0)"
    using tensor_poly_corner [OF _ assms(2,3)] by (intro sum.cong refl) (auto simp: corner)
  also have "\<dots> = b ! (8 * l + c)" using assms by simp
  also have "\<dots> = tricub_entry d (int l) (ix + int cx) (iy + int cy) (iz + int cz)"
    unfolding b_def using b_vector_nth [OF assms(2,3)] by (simp add: corner)
  finally show ?thesis by (simp add: corner b_def tricub_cell_def)
qed

definition sample_map :: TriCubData where
  "sample_map = \<lparr>TriCubData_x0 = 0, TriCubData_dx = 1, TriCubData_nx = 2, TriCubData_y0 = 0,
     TriCubData_dy = 1, TriCubData_ny = 2, TriCubData_z0 = 0, TriCubData_dz = 1, TriCubData_nz = 2,
     TriCubData_mirror_x = 0, TriCubData_mirror_y = 0, TriCubData_mirror_z = 0,
     TriCubData_table_addr = Some (map real [0..<64])\<rparr>"

theorem tricub_interpolates_grid_witness:
  "tricub_cell (replicate 64 5) sample_map 0 0 0 (0, 1, 0) 1 0 0 = 10"
  using tricub_interpolates_grid [of "replicate 64 5" 2 1 sample_map 0 0 0]
  by (simp add: corner_def deriv_orders_def tricub_entry_def sample_map_def)

text \<open>The sum over the corner data, grouped by derivative.\<close>

lemma sum_64: "(\<Sum>m<64. f m) = (\<Sum>l<8. \<Sum>c<8. f (8 * l + c :: nat) :: real)"
proof -
  have "(\<Sum>m<64. f m) = (\<Sum>l<8. sum f {l * 8..<l * 8 + 8})"
    using sum.nat_group [of f 8 8] by simp
  also have "\<dots> = (\<Sum>l<8. \<Sum>c<8. f (8 * l + c))"
  proof (rule sum.cong [OF refl])
    fix l
    show "sum f {l * 8..<l * 8 + 8} = (\<Sum>c<8. f (8 * l + c))"
      using sum.shift_bounds_nat_ivl [of f 0 "l * 8" 8] by (simp add: ac_simps lessThan_atLeast0)
  qed
  finally show ?thesis .
qed

lemma tri_poly_cell:
  assumes "length uninit = 64"
  shows "tricub_cell uninit d ix iy iz (a, b, c) x y z =
    (\<Sum>l<8. let (dx, dy, dz) = deriv_orders l in
       \<Sum>n<8. let (cx, cy, cz) = corner n in
         tricub_entry d (int l) (ix + int cx) (iy + int cy) (iz + int cz) *
         (hermite_poly cx dx a x * hermite_poly cy dy b y * hermite_poly cz dz c z))"
  unfolding tricub_cell_def tri_poly_tensor [OF length_b_vector assms] sum_64 Let_def case_prod_beta
  by (intro sum.cong refl)
    (simp add: b_vector_nth [unfolded Let_def case_prod_beta] tensor_poly_def case_prod_beta)

lemma deriv_orders_less:
  "l < 8 \<Longrightarrow> fst (deriv_orders l) < 2 \<and> fst (snd (deriv_orders l)) < 2 \<and> snd (snd (deriv_orders l)) < 2"
  by (auto simp: deriv_orders_def less_Suc_eq numeral_eq_Suc)

lemma tricub_faces:
  assumes u: "length uninit = 64" and orders: "a < 2" "b < 2" "c < 2"
  shows "tricub_cell uninit d ix iy iz (a, b, c) 1 y z = tricub_cell uninit d (ix + 1) iy iz (a, b, c) 0 y z"
    and "tricub_cell uninit d ix iy iz (a, b, c) x 1 z = tricub_cell uninit d ix (iy + 1) iz (a, b, c) x 0 z"
    and "tricub_cell uninit d ix iy iz (a, b, c) x y 1 = tricub_cell uninit d ix iy (iz + 1) (a, b, c) x y 0"
proof -
  have eight: "(\<Sum>n<8. f n) = f 0 + f 1 + f 2 + f 3 + f 4 + f 5 + f 6 + f 7" for f :: "nat \<Rightarrow> real"
    by (simp add: numeral_eq_Suc)
  note ends = hermite_poly_ends [OF _ _ orders(1)] hermite_poly_ends [OF _ _ orders(2)]
    hermite_poly_ends [OF _ _ orders(3)]
  show "tricub_cell uninit d ix iy iz (a, b, c) 1 y z = tricub_cell uninit d (ix + 1) iy iz (a, b, c) 0 y z"
    "tricub_cell uninit d ix iy iz (a, b, c) x 1 z = tricub_cell uninit d ix (iy + 1) iz (a, b, c) x 0 z"
    "tricub_cell uninit d ix iy iz (a, b, c) x y 1 = tricub_cell uninit d ix iy (iz + 1) (a, b, c) x y 0"
    unfolding tri_poly_cell [OF u] Let_def case_prod_beta
    by (rule sum.cong [OF refl]; use deriv_orders_less in \<open>simp add: eight corner_def ends add.assoc\<close>)+
qed

text \<open>The interpolated potential and its first derivatives, hence the kicks, are continuous across the
  faces between neighbouring cells, in all three directions.\<close>

theorem tricub_continuous:
  assumes "length uninit = 64" "a < 2" "b < 2" "c < 2"
  shows "tricub_cell uninit d ix iy iz (a, b, c) 1 y z = tricub_cell uninit d (ix + 1) iy iz (a, b, c) 0 y z \<and>
    tricub_cell uninit d ix iy iz (a, b, c) x 1 z = tricub_cell uninit d ix (iy + 1) iz (a, b, c) x 0 z \<and>
    tricub_cell uninit d ix iy iz (a, b, c) x y 1 = tricub_cell uninit d ix iy (iz + 1) (a, b, c) x y 0"
  by (intro conjI tricub_faces [OF assms])

theorem tricub_continuous_witness:
  "tricub_cell (replicate 64 5) sample_map 0 0 0 (1, 0, 0) 1 (1 / 2) (1 / 3) =
   tricub_cell (replicate 64 5) sample_map 1 0 0 (1, 0, 0) 0 (1 / 2) (1 / 3)"
  using tricub_continuous [of "replicate 64 5" 1 0 0 sample_map 0 0 0] by simp

subsection \<open>The kick as the gradient of the potential\<close>

text \<open>
  \<open>tricub_scaled\<close> is the position on the grid, \<open>tricub_sign\<close> the sign with which a mirrored map is read.
  \<open>tricub_place\<close> holds the signs, the cell and the position in the cell of a particle.
\<close>

definition tricub_scaled :: "real \<Rightarrow> real \<Rightarrow> real \<Rightarrow> real \<Rightarrow> real" where
  "tricub_scaled shift x0 dx x = ((x - shift) - x0) * (1 / dx)"

definition tricub_sign :: "i64 \<Rightarrow> real \<Rightarrow> real" where
  "tricub_sign mirror f = (if mirror = 1 \<and> f < 0 then - 1 else 1)"

definition tricub_z :: "particle \<Rightarrow> real" where
  "tricub_z v = pv_zeta v / (pv_beta0 v * pv_rvv v)"

definition tricub_grid :: "TriCub \<Rightarrow> real \<times> real \<times> real \<Rightarrow> real \<times> real \<times> real" where
  "tricub_grid e = (\<lambda>(x, y, z). let d = the (TriCub_data_addr e) in
     (tricub_scaled (TriCub_x_shift e) (TriCubData_x0 d) (TriCubData_dx d) x,
      tricub_scaled (TriCub_y_shift e) (TriCubData_y0 d) (TriCubData_dy d) y,
      tricub_scaled (TriCub_tau_shift e) (TriCubData_z0 d) (TriCubData_dz d) z))"

definition tricub_signs :: "TriCub \<Rightarrow> real \<times> real \<times> real \<Rightarrow> real \<times> real \<times> real" where
  "tricub_signs e r = (let d = the (TriCub_data_addr e); (fx, fy, fz) = tricub_grid e r in
     (tricub_sign (TriCubData_mirror_x d) fx, tricub_sign (TriCubData_mirror_y d) fy,
      tricub_sign (TriCubData_mirror_z d) fz))"

text \<open>The potential at position \<open>r'\<close> as the polynomial of the cell in which position \<open>r\<close> lies gives it, with
  the derivative of the given orders.\<close>

definition tricub_potential ::
    "real list \<Rightarrow> TriCub \<Rightarrow> real \<times> real \<times> real \<Rightarrow> nat \<times> nat \<times> nat \<Rightarrow> real \<times> real \<times> real \<Rightarrow> real" where
  "tricub_potential uninit e r orders r' =
     (let (sx, sy, sz) = tricub_signs e r; (fx, fy, fz) = tricub_grid e r; (gx, gy, gz) = tricub_grid e r';
          ix = \<lfloor>sx * fx\<rfloor>; iy = \<lfloor>sy * fy\<rfloor>; iz = \<lfloor>sz * fz\<rfloor>
      in tricub_cell uninit (the (TriCub_data_addr e)) ix iy iz orders
           (sx * gx - of_int ix) (sy * gy - of_int iy) (sz * gz - of_int iz))"

definition tricub_gradient :: "real list \<Rightarrow> TriCub \<Rightarrow> real \<times> real \<times> real \<Rightarrow> real \<times> real \<times> real" where
  "tricub_gradient uninit e r =
     (let d = the (TriCub_data_addr e); (sx, sy, sz) = tricub_signs e r
      in (tricub_potential uninit e r (1, 0, 0) r * (sx * (1 / TriCubData_dx d)),
          tricub_potential uninit e r (0, 1, 0) r * (sy * (1 / TriCubData_dy d)),
          tricub_potential uninit e r (0, 0, 1) r * (sz * (1 / TriCubData_dz d))))"

lemma dpow_derivative: "(dpow 0 i has_field_derivative dpow 1 i t) (at t)"
  unfolding dpow_def by (auto intro!: derivative_eq_intros)

lemma tri_poly_derivatives:
  "((\<lambda>x. tri_poly coefs (0, b, c) x y z) has_field_derivative tri_poly coefs (1, b, c) x y z) (at x)"
  "((\<lambda>y. tri_poly coefs (a, 0, c) x y z) has_field_derivative tri_poly coefs (a, 1, c) x y z) (at y)"
  "((\<lambda>z. tri_poly coefs (a, b, 0) x y z) has_field_derivative tri_poly coefs (a, b, 1) x y z) (at z)"
  unfolding tri_poly.simps
  by (intro DERIV_sum DERIV_cmult DERIV_cmult_right dpow_derivative)+

lemma tricub_potential_derivatives:
  fixes uninit e r
  defines "D \<equiv> tricub_gradient uninit e r" and "x \<equiv> fst r" and "y \<equiv> fst (snd r)" and "z \<equiv> snd (snd r)"
  shows "((\<lambda>x. tricub_potential uninit e r (0, 0, 0) (x, y, z)) has_field_derivative fst D) (at x)"
    and "((\<lambda>y. tricub_potential uninit e r (0, 0, 0) (x, y, z)) has_field_derivative fst (snd D)) (at y)"
    and "((\<lambda>z. tricub_potential uninit e r (0, 0, 0) (x, y, z)) has_field_derivative snd (snd D)) (at z)"
proof -
  have scaled: "((\<lambda>t. s * tricub_scaled shift t0 dt t - k) has_field_derivative s * (1 / dt)) (at t)"
    for s shift t0 dt k t
  proof -
    have "((\<lambda>t. s * (((t - shift) - t0) * w) - k) has_field_derivative s * w) (at t)" for w
      by (auto intro!: derivative_eq_intros)
    then show ?thesis by (simp only: tricub_scaled_def)
  qed
  note simps = D_def x_def y_def z_def tricub_gradient_def tricub_potential_def tricub_grid_def
    tricub_cell_def Let_def case_prod_beta
  show "((\<lambda>x. tricub_potential uninit e r (0, 0, 0) (x, y, z)) has_field_derivative fst D) (at x)"
    "((\<lambda>y. tricub_potential uninit e r (0, 0, 0) (x, y, z)) has_field_derivative fst (snd D)) (at y)"
    "((\<lambda>z. tricub_potential uninit e r (0, 0, 0) (x, y, z)) has_field_derivative snd (snd D)) (at z)"
    unfolding simps fst_conv snd_conv
    by (rule DERIV_chain2 [OF tri_poly_derivatives(1) scaled] DERIV_chain2 [OF tri_poly_derivatives(2) scaled]
        DERIV_chain2 [OF tri_poly_derivatives(3) scaled])+
qed

definition tricub_position :: "particle \<Rightarrow> real \<times> real \<times> real" where
  "tricub_position v = (pv_x v, pv_y v, tricub_z v)"

text \<open>The three kicks of the code, as derivatives of the interpolated potential.\<close>

lemma power_nth: "i < 4 \<Longrightarrow> tricub_power t ! i = t ^ i"
  by (auto simp: tricub_power_def less_Suc_eq numeral_eq_Suc power_Suc)

lemma sum_from_1: "f 0 = 0 \<Longrightarrow> (\<Sum>i = 1..<4. f i) = (\<Sum>i<4. f (i :: nat) :: real)"
  by (simp add: numeral_eq_Suc)

lemma kick_sums:
  "(\<Sum>i = 1..<4. \<Sum>j = 0..<4. \<Sum>k = 0..<4. real i *
      (coefs ! (i + 4 * j + 16 * k) * tricub_power x ! (i - 1) * tricub_power y ! j * tricub_power z ! k)) =
    tri_poly coefs (1, 0, 0) x y z"
  "(\<Sum>i = 0..<4. \<Sum>j = 1..<4. \<Sum>k = 0..<4. real j *
      (coefs ! (i + 4 * j + 16 * k) * tricub_power x ! i * tricub_power y ! (j - 1) * tricub_power z ! k)) =
    tri_poly coefs (0, 1, 0) x y z"
  "(\<Sum>i = 0..<4. \<Sum>j = 0..<4. \<Sum>k = 1..<4. real k *
      (coefs ! (i + 4 * j + 16 * k) * tricub_power x ! i * tricub_power y ! j * tricub_power z ! (k - 1))) =
    tri_poly coefs (0, 0, 1) x y z"
  unfolding tri_poly.simps lessThan_atLeast0 [symmetric]
  by (subst sum_from_1, simp, intro sum.cong refl, simp add: power_nth dpow_def)+

definition tricub_kicks :: "real list \<Rightarrow> TriCub \<Rightarrow> particle \<Rightarrow> real \<times> real \<times> real" where
  "tricub_kicks uninit e v =
     (let (Dx, Dy, Dz) = tricub_gradient uninit e (tricub_position v)
      in (- TriCub_length e * Dx - TriCub_dipolar_kick_px e, - TriCub_length e * Dy - TriCub_dipolar_kick_py e,
          pv_q0 v * pv_charge_ratio v * (pv_p0c v * (- TriCub_length e * Dz - TriCub_dipolar_kick_ptau e))))"

definition tricub_kick :: "real \<times> real \<times> real \<Rightarrow> particles \<Rightarrow> i64 \<Rightarrow> particles" where
  "tricub_kick k p ii =
     (let (kx, ky, kE) = k;
          p = Particles_add_to_px_value p ii kx;
          p = Particles_add_to_py_value p ii ky
      in Particles_add_to_energy_value p ii kE)"

definition tricub_kick_map :: "real \<times> real \<times> real \<Rightarrow> particle \<Rightarrow> particle" where
  "tricub_kick_map k v =
     (let (kx, ky, kE) = k in energy_map kE (v\<lparr>pv_px := pv_px v + kx, pv_py := pv_py v + ky\<rparr>))"

lemma tricub_kick_kernel: "particle_kernel (tricub_kick k) (\<lambda>ii. tricub_kick_map k)"
proof -
  obtain kx ky kE where k: "k = (kx, ky, kE)" by (metis surj_pair)
  have add: "particle_kernel (\<lambda>p ii. Particles_add_to_px_value p ii kx) (\<lambda>ii v. v\<lparr>pv_px := pv_px v + kx\<rparr>)"
    "particle_kernel (\<lambda>p ii. Particles_add_to_py_value p ii ky) (\<lambda>ii v. v\<lparr>pv_py := pv_py v + ky\<rparr>)"
    by unfold_locales (auto simp: particle_ops particle_simps)
  show ?thesis
    using particle_kernel_compose [OF particle_kernel_compose [OF add]
        add_to_energy.particle_kernel_axioms, of kE]
    by (simp add: tricub_kick_def [abs_def] tricub_kick_map_def [abs_def] k Let_def)
qed

lemma tricub_effect:
  "fst (Track_particle_tricub uninit p ii e) = tricub_kick (tricub_kicks uninit e (particle_of p ii)) p ii"
proof -
  have views: "Particles_get_x_value p ii = pv_x (particle_of p ii)"
    "Particles_get_y_value p ii = pv_y (particle_of p ii)"
    "Particles_get_zeta_value p ii = pv_zeta (particle_of p ii)"
    "Particles_get_rvv_value p ii = pv_rvv (particle_of p ii)"
    "Particles_get_beta0_value p ii = pv_beta0 (particle_of p ii)"
    "Particles_get_q0_value p ii = pv_q0 (particle_of p ii)"
    "Particles_get_charge_ratio_value p ii = pv_charge_ratio (particle_of p ii)"
    "Particles_get_p0c_value p ii = pv_p0c (particle_of p ii)"
    by (simp_all add: particle_simps particle_ops)
  show ?thesis
    unfolding Track_particle_tricub_def Let_def views kick_sums fst_conv
      tricub_gradient_def tricub_potential_def tricub_signs_def tricub_grid_def tricub_position_def
      tricub_z_def tricub_scaled_def tricub_sign_def tricub_cell_def case_prod_beta snd_conv
      tricub_kick_def tricub_kicks_def
    by (simp only: mult_minus_right mult_minus_left ac_simps)
qed

definition tricub_map :: "real list \<Rightarrow> TriCub \<Rightarrow> particle \<Rightarrow> particle" where
  "tricub_map uninit e v = tricub_kick_map (tricub_kicks uninit e v) v"

interpretation tricub: particle_kernel "\<lambda>p ii. fst (Track_particle_tricub uninit p ii e)"
    "\<lambda>ii. tricub_map uninit e" for uninit e
  using particle_kernel_parameter [where F = tricub_kick, OF tricub_kick_kernel]
  by (simp add: tricub_effect tricub_map_def [abs_def])

text \<open>C31: The kicks of a tricubic map are the negative gradient of the interpolated potential in the cell
  of the particle, times the length of the element, less the dipolar kicks; the longitudinal one acts on
  the energy. Mirrored maps, shifts and grid spacings are part of the potential.\<close>

theorem tricub_kicks_are_gradient:
  assumes p: "particles_wf p" "valid_idx p ii"
  shows "let v = particle_of p ii; (x, y, z) = tricub_position v;
      pot = (\<lambda>x y z. tricub_potential uninit e (tricub_position v) (0, 0, 0) (x, y, z))
    in \<exists>Dx Dy Dz.
      ((\<lambda>x. pot x y z) has_field_derivative Dx) (at x) \<and>
      ((\<lambda>y. pot x y z) has_field_derivative Dy) (at y) \<and>
      ((\<lambda>z. pot x y z) has_field_derivative Dz) (at z) \<and>
      particle_of (fst (Track_particle_tricub uninit p ii e)) ii =
        energy_map (pv_q0 v * pv_charge_ratio v * (pv_p0c v * (- TriCub_length e * Dz - TriCub_dipolar_kick_ptau e)))
          (v\<lparr>pv_px := pv_px v + (- TriCub_length e * Dx - TriCub_dipolar_kick_px e),
             pv_py := pv_py v + (- TriCub_length e * Dy - TriCub_dipolar_kick_py e)\<rparr>)"
proof -
  define v where "v = particle_of p ii"
  obtain x y z where r: "tricub_position v = (x, y, z)" by (metis surj_pair)
  obtain Dx Dy Dz where D: "tricub_gradient uninit e (x, y, z) = (Dx, Dy, Dz)" by (metis surj_pair)
  have "particle_of (fst (Track_particle_tricub uninit p ii e)) ii = tricub_map uninit e v"
    using tricub.kernel_view [OF p, of ii] p(2) by (simp add: v_def valid_idx_def)
  then show ?thesis
    using tricub_potential_derivatives [of uninit e "(x, y, z)"]
    by (auto simp: r D Let_def tricub_map_def tricub_kick_map_def tricub_kicks_def simp flip: v_def)
qed

definition sample_tricub :: TriCub where
  "sample_tricub = \<lparr>TriCub_x_shift = 0, TriCub_y_shift = 0, TriCub_tau_shift = 0,
     TriCub_dipolar_kick_px = 1, TriCub_dipolar_kick_py = 0, TriCub_dipolar_kick_ptau = 0,
     TriCub_length = 2, TriCub_data_addr = Some sample_map\<rparr>"

theorem tricub_kicks_are_gradient_witness:
  "\<exists>Dx. ((\<lambda>x. tricub_potential (replicate 64 0) sample_tricub (0, 0, 0) (0, 0, 0) (x, 0, 0))
      has_field_derivative Dx) (at 0)"
proof -
  have "tricub_position (particle_of (reference_particles 2) 1) = (0, 0, 0)"
    by (simp add: tricub_position_def tricub_z_def reference_particle_def)
  then show ?thesis
    using tricub_kicks_are_gradient [of "reference_particles 2" 1 "replicate 64 0" sample_tricub]
    by (auto simp: Let_def)
qed

text \<open>\<open>NS(TriCubData_clear)\<close> reports a failure whatever it does.\<close>

lemma TriCubData_clear_fails: "snd (TriCubData_clear d) = - 1"
  by (simp add: TriCubData_clear_def Let_def)

end
