(* ===== verification/Track_Element.thy ===== *)
theory Track_Element
  imports Multipole Apertures Beam_Monitor Beam_Beam6D Tri_Cub
begin

section \<open>One particle through one beam element (track/track.h)\<close>

text \<open>
  A lattice is a sequence of objects in a buffer, each with a type id and the address of the element. The
  model is a list of \<open>beam_element\<close>s, one constructor for each type id that the dispatcher knows and
  \<open>BE_Other\<close> for the rest. The tracking functions change the particle set and, through beam monitors and
  element by element output, the particle sets at other addresses: a \<open>world\<close> is the particle set and the
  store of those sets. \<open>track_config\<close> is the build configuration, the preprocessor macros that choose the
  aperture check and the maps; \<open>uninit_coefs\<close> is what the uninitialised array of the tricubic map holds.
\<close>

type_synonym world = "particles \<times> out_store"

datatype beam_element =
    BE_Drift Drift
  | BE_DriftExact DriftExact
  | BE_Multipole Multipole
  | BE_RFMultipole RFMultipole
  | BE_Cavity Cavity
  | BE_XYShift XYShift
  | BE_SRotation SRotation
  | BE_BeamMonitor BeamMonitor
  | BE_LimitRect LimitRect
  | BE_LimitEllipse LimitEllipse
  | BE_LimitRectEllipse LimitRectEllipse
  | BE_DipoleEdge DipoleEdge
  | BE_TriCub TriCub
  | BE_TriCubData TriCubData
  | BE_BeamBeam4D BeamBeam4D
  | BE_BeamBeam6D BeamBeam6D
  | BE_SCCoasting SCCoasting
  | BE_SCQGaussProfile SCQGaussProfile
  | BE_SCInterpolatedProfile SCInterpolatedProfile
  | BE_Other

text \<open>A map macro is undefined or has one of three values. The aperture macro is undefined or has one of
  three values; the macro that would make the conditional check depend on the length of the drift is
  defined nowhere in the build, so the conditional check is the unconditional one.\<close>

datatype map_macro = Map_Undefined | Map_Enabled | Map_Skip | Map_Disabled

datatype aperture_macro = Aperture_Undefined | Aperture_Always | Aperture_Conditional | Aperture_Never

record track_config =
  check_at_drift :: aperture_macro
  track_tricub :: map_macro
  track_beambeam4d :: map_macro
  track_beambeam6d :: map_macro
  track_spacecharge :: map_macro
  uninit_coefs :: "real list"

text \<open>A tracking function that does not touch the stores, and a map that the macros enable, skip or
  disable.\<close>

definition on_particles :: "(particles \<Rightarrow> particles \<times> track_status) \<Rightarrow> world \<Rightarrow> world \<times> track_status" where
  "on_particles f w = (let (p, ret) = f (fst w) in ((p, snd w), ret))"

definition if_enabled ::
    "map_macro \<Rightarrow> (world \<Rightarrow> world \<times> track_status) \<Rightarrow> world \<Rightarrow> world \<times> track_status" where
  "if_enabled m f w =
     (if m = Map_Undefined \<or> m = Map_Enabled then f w else if m = Map_Skip then (w, 0) else (w, - 1))"

text \<open>The drift kinds, with the global aperture check behind them.\<close>

definition then_limit_global ::
    "track_config \<Rightarrow> bool \<Rightarrow> i64 \<Rightarrow> particles \<times> track_status \<Rightarrow> particles \<times> track_status" where
  "then_limit_global cfg perform_global_aperture_check index r =
     (case r of (p, ret) \<Rightarrow>
        if check_at_drift cfg \<noteq> Aperture_Never \<and> perform_global_aperture_check
        then let (p, ret') = Track_particle_limit_global p index in (p, ret OR ret')
        else (p, ret))"

text \<open>
  The \<open>case\<close> labels of the space charge elements share one \<open>#if\<close>: where it is false the label of the
  interpolated profile is removed together with the code above it, and the element falls into the
  \<open>default\<close> branch. The label of the tricubic data is a success only when the macro is defined.
\<close>

definition Track_particle_beam_element_obj_dispatcher_aperture_check ::
    "track_config \<Rightarrow> world \<Rightarrow> i64 \<Rightarrow> beam_element \<Rightarrow> bool \<Rightarrow> world \<times> track_status" where
  "Track_particle_beam_element_obj_dispatcher_aperture_check cfg w index be_info perform_global_aperture_check =
     (case be_info of
        BE_Drift belem \<Rightarrow> on_particles (\<lambda>p. then_limit_global cfg perform_global_aperture_check index
          (Track_particle_drift p index belem)) w
      | BE_DriftExact belem \<Rightarrow> on_particles (\<lambda>p. then_limit_global cfg perform_global_aperture_check index
          (Track_particle_drift_exact p index belem)) w
      | BE_Multipole belem \<Rightarrow> on_particles (\<lambda>p. Track_particle_multipole p index belem) w
      | BE_RFMultipole belem \<Rightarrow> on_particles (\<lambda>p. Track_particle_rf_multipole p index belem) w
      | BE_Cavity belem \<Rightarrow> on_particles (\<lambda>p. Track_particle_cavity p index belem) w
      | BE_XYShift belem \<Rightarrow> on_particles (\<lambda>p. Track_particle_xy_shift p index belem) w
      | BE_SRotation belem \<Rightarrow> on_particles (\<lambda>p. Track_particle_srotation p index belem) w
      | BE_BeamMonitor belem \<Rightarrow> Track_particle_beam_monitor (fst w) (snd w) index belem
      | BE_LimitRect belem \<Rightarrow> on_particles (\<lambda>p. Track_particle_limit_rect p index belem) w
      | BE_LimitEllipse belem \<Rightarrow> on_particles (\<lambda>p. Track_particle_limit_ellipse p index belem) w
      | BE_LimitRectEllipse belem \<Rightarrow> on_particles (\<lambda>p. Track_particle_limit_rect_ellipse p index belem) w
      | BE_DipoleEdge belem \<Rightarrow> on_particles (\<lambda>p. Track_particle_dipedge p index belem) w
      | BE_TriCub belem \<Rightarrow> if_enabled (track_tricub cfg)
          (on_particles (\<lambda>p. Track_particle_tricub (uninit_coefs cfg) p index belem)) w
      | BE_TriCubData _ \<Rightarrow>
          (w, if track_tricub cfg \<noteq> Map_Undefined \<and> track_tricub cfg \<noteq> Map_Disabled then 0 else - 1)
      | BE_BeamBeam4D belem \<Rightarrow> if_enabled (track_beambeam4d cfg)
          (on_particles (\<lambda>p. Track_particle_beam_beam_4d p index belem)) w
      | BE_BeamBeam6D belem \<Rightarrow> if_enabled (track_beambeam6d cfg)
          (on_particles (\<lambda>p. Track_particle_beam_beam_6d p index belem)) w
      | BE_SCCoasting belem \<Rightarrow> if_enabled (track_spacecharge cfg)
          (on_particles (\<lambda>p. Track_particle_space_charge_coasting p index belem)) w
      | BE_SCQGaussProfile belem \<Rightarrow> if_enabled (track_spacecharge cfg)
          (on_particles (\<lambda>p. Track_particle_space_charge_qgaussian_profile p index belem)) w
      | BE_SCInterpolatedProfile belem \<Rightarrow>
          if track_spacecharge cfg = Map_Undefined \<or> track_spacecharge cfg = Map_Enabled
          then on_particles (\<lambda>p. Track_particle_space_charge_interpolated_profile p index belem) w
          else on_particles (\<lambda>p. (Particles_mark_as_lost_value p index, - 1)) w
      | BE_Other \<Rightarrow> on_particles (\<lambda>p. (Particles_mark_as_lost_value p index, - 1)) w)"

definition Track_particle_beam_element_obj_dispatcher ::
    "track_config \<Rightarrow> world \<Rightarrow> i64 \<Rightarrow> beam_element \<Rightarrow> world \<times> track_status" where
  "Track_particle_beam_element_obj_dispatcher cfg w index be_info =
     Track_particle_beam_element_obj_dispatcher_aperture_check cfg w index be_info
       (check_at_drift cfg \<noteq> Aperture_Never)"

definition Track_particle_beam_element_obj ::
    "track_config \<Rightarrow> world \<Rightarrow> i64 \<Rightarrow> beam_element \<Rightarrow> world \<times> track_status" where
  "Track_particle_beam_element_obj cfg w particle_index be_obj =
     (let was_not_lost = Particles_is_not_lost_value (fst w) particle_index;
          (w, status) = (if was_not_lost
            then Track_particle_beam_element_obj_dispatcher cfg w particle_index be_obj else (w, 0))
      in if was_not_lost \<and> status = 0 \<and> Particles_is_not_lost_value (fst w) particle_index
         then ((Particles_increment_at_element_id_value (fst w) particle_index, snd w), status)
         else (w, status))"

subsection \<open>Tracking one particle\<close>

text \<open>
  A tracking function works on the particle at its index: it leaves the other particles, the number of
  particles and the sizes of the stores as they are, and what it does to its particle and the status it
  returns depend only on that particle and the sizes of the stores. \<open>tracks_to w ii r r'\<close> says that the
  result \<open>r'\<close> is like that, with the particle and the status of \<open>r\<close>.
\<close>

definition world_wf :: "world \<Rightarrow> bool" where
  "world_wf w \<longleftrightarrow> particles_wf (fst w) \<and> store_wf (snd w)"

definition world_sizes :: "world \<Rightarrow> u64 \<Rightarrow> i64" where
  "world_sizes w = store_sizes (snd w)"

definition tracks_to ::
    "world \<Rightarrow> i64 \<Rightarrow> particle \<times> track_status \<Rightarrow> world \<times> track_status \<Rightarrow> bool" where
  "tracks_to w ii r r' \<longleftrightarrow>
     world_wf (fst r') \<and> num_particles (fst (fst r')) = num_particles (fst w) \<and>
     world_sizes (fst r') = world_sizes w \<and> snd r' = snd r \<and>
     (\<forall>jj\<ge>0. particle_of (fst (fst r')) jj = (if jj = ii then fst r else particle_of (fst w) jj))"

text \<open>The effect of the elements on the view of a particle.\<close>

definition drift_kind_map :: "track_config \<Rightarrow> bool \<Rightarrow> (particle \<Rightarrow> particle) \<Rightarrow> particle \<Rightarrow> particle" where
  "drift_kind_map cfg perform m v =
     (if check_at_drift cfg \<noteq> Aperture_Never \<and> perform then limit_map inside_global (m v) else m v)"

definition if_enabled_map :: "map_macro \<Rightarrow> (particle \<Rightarrow> particle) \<Rightarrow> particle \<Rightarrow> particle \<times> track_status" where
  "if_enabled_map m f v =
     (if m = Map_Undefined \<or> m = Map_Enabled then (f v, 0) else if m = Map_Skip then (v, 0) else (v, - 1))"

definition element_map_check ::
    "track_config \<Rightarrow> bool \<Rightarrow> (u64 \<Rightarrow> i64) \<Rightarrow> beam_element \<Rightarrow> particle \<Rightarrow> particle \<times> track_status" where
  "element_map_check cfg perform sizes be v =
     (case be of
        BE_Drift e \<Rightarrow> (drift_kind_map cfg perform (drift_map (Drift_length e)) v, 0)
      | BE_DriftExact e \<Rightarrow> (drift_kind_map cfg perform (drift_exact_map (DriftExact_length e)) v, 0)
      | BE_Multipole e \<Rightarrow> (multipole_map e v, 0)
      | BE_RFMultipole e \<Rightarrow> (rf_multipole_map e v, 0)
      | BE_Cavity e \<Rightarrow> (cavity_map e v, 0)
      | BE_XYShift e \<Rightarrow> (xy_shift_map e v, 0)
      | BE_SRotation e \<Rightarrow> (srotation_map e v, 0)
      | BE_BeamMonitor e \<Rightarrow> monitor_map sizes e v
      | BE_LimitRect e \<Rightarrow> (limit_map (inside_rect e) v, 0)
      | BE_LimitEllipse e \<Rightarrow> (limit_map (inside_ellipse e) v, 0)
      | BE_LimitRectEllipse e \<Rightarrow> (limit_map (inside_rect_ellipse e) v, 0)
      | BE_DipoleEdge e \<Rightarrow> (dipedge_map e v, 0)
      | BE_TriCub e \<Rightarrow> if_enabled_map (track_tricub cfg) (tricub_map (uninit_coefs cfg) e) v
      | BE_TriCubData _ \<Rightarrow>
          (v, if track_tricub cfg \<noteq> Map_Undefined \<and> track_tricub cfg \<noteq> Map_Disabled then 0 else - 1)
      | BE_BeamBeam4D e \<Rightarrow> if_enabled_map (track_beambeam4d cfg) (bb4d_map e) v
      | BE_BeamBeam6D e \<Rightarrow> if_enabled_map (track_beambeam6d cfg) (bb6d_map e) v
      | BE_SCCoasting e \<Rightarrow> if_enabled_map (track_spacecharge cfg) (sc_coasting_map e) v
      | BE_SCQGaussProfile e \<Rightarrow> if_enabled_map (track_spacecharge cfg) (sc_qgauss_map e) v
      | BE_SCInterpolatedProfile e \<Rightarrow>
          if track_spacecharge cfg = Map_Undefined \<or> track_spacecharge cfg = Map_Enabled
          then (sc_interpolated_map e v, 0) else (v\<lparr>pv_state := 0\<rparr>, - 1)
      | BE_Other \<Rightarrow> (v\<lparr>pv_state := 0\<rparr>, - 1))"

definition element_map ::
    "track_config \<Rightarrow> (u64 \<Rightarrow> i64) \<Rightarrow> beam_element \<Rightarrow> particle \<Rightarrow> particle \<times> track_status" where
  "element_map cfg sizes be v = element_map_check cfg (check_at_drift cfg \<noteq> Aperture_Never) sizes be v"

lemma tracks_to_kernel:
  assumes "particle_kernel (\<lambda>p ii. fst (T p ii)) (\<lambda>ii. m)" "snd (T (fst w) ii) = s"
    and "world_wf w" "valid_idx (fst w) ii"
  shows "tracks_to w ii (m (particle_of (fst w) ii), s) (on_particles (\<lambda>p. T p ii) w)"
  using assms particle_kernel.kernel_wf [OF assms(1)] particle_kernel.kernel_num [OF assms(1)]
    particle_kernel.kernel_view [OF assms(1)]
  by (auto simp: tracks_to_def world_wf_def on_particles_def case_prod_beta Let_def world_sizes_def)

lemma tracks_to_refl: "world_wf w \<Longrightarrow> tracks_to w ii (particle_of (fst w) ii, s) (w, s)"
  by (simp add: tracks_to_def)

lemma enabled_tracks:
  assumes "particle_kernel (\<lambda>p ii. fst (T p ii)) (\<lambda>ii. m)" "snd (T (fst w) ii) = 0"
    and w: "world_wf w" "valid_idx (fst w) ii"
  shows "tracks_to w ii (if_enabled_map mac m (particle_of (fst w) ii))
    (if_enabled mac (on_particles (\<lambda>p. T p ii)) w)"
  using tracks_to_kernel [OF assms] tracks_to_refl [OF w(1)]
  by (auto simp: if_enabled_def if_enabled_map_def)

lemma drift_kind_kernel:
  assumes "particle_kernel (\<lambda>p ii. fst (T p ii)) (\<lambda>ii. m)"
  shows "particle_kernel (\<lambda>p ii. fst (then_limit_global cfg perform ii (T p ii)))
    (\<lambda>ii. drift_kind_map cfg perform m)"
proof (cases "check_at_drift cfg \<noteq> Aperture_Never \<and> perform")
  case True
  then show ?thesis
    using particle_kernel_compose [OF assms limit_global.particle_kernel_axioms]
    by (simp add: then_limit_global_def drift_kind_map_def [abs_def] case_prod_beta Let_def)
next
  case False
  then have "(\<lambda>p ii. fst (then_limit_global cfg perform ii (T p ii))) = (\<lambda>p ii. fst (T p ii))"
    "drift_kind_map cfg perform m = m"
    by (auto simp: then_limit_global_def drift_kind_map_def fun_eq_iff case_prod_beta)
  then show ?thesis using assms by simp
qed

lemma then_limit_global_status:
  "snd r = 0 \<Longrightarrow> snd (then_limit_global cfg perform ii r) = 0"
  by (simp add: then_limit_global_def case_prod_beta Let_def)

lemma monitor_tracks:
  assumes "world_wf w" "valid_idx (fst w) ii"
  shows "tracks_to w ii (monitor_map (world_sizes w) m (particle_of (fst w) ii))
    (Track_particle_beam_monitor (fst w) (snd w) ii m)"
  using assms monitor_laws [where p = "fst w" and ii = ii and st = "snd w" and m = m]
  by (auto simp: tracks_to_def world_wf_def world_sizes_def)

lemma lose_tracks:
  assumes "world_wf w" "valid_idx (fst w) ii"
  shows "tracks_to w ii ((particle_of (fst w) ii)\<lparr>pv_state := 0\<rparr>, s)
    (on_particles (\<lambda>p. (Particles_mark_as_lost_value p ii, s)) w)"
  using tracks_to_kernel [where T = "\<lambda>p ii. (Particles_mark_as_lost_value p ii, s)" and w = w and ii = ii
      and m = "\<lambda>v. v\<lparr>pv_state := 0\<rparr>"] mark_as_lost.particle_kernel_axioms assms
  by simp

lemma dispatcher_check_tracks:
  assumes w: "world_wf w" "valid_idx (fst w) ii"
  shows "tracks_to w ii (element_map_check cfg perform (world_sizes w) be (particle_of (fst w) ii))
    (Track_particle_beam_element_obj_dispatcher_aperture_check cfg w ii be perform)"
proof -
  note kernel = tracks_to_kernel [OF _ _ w]
  note status = element_success multipole_success limit_success beam_field_success bb6d_success tricub_success
    then_limit_global_status
  note defs = element_map_check_def Track_particle_beam_element_obj_dispatcher_aperture_check_def
    beam_element.case
  note enabled = enabled_tracks [OF _ _ w]
  show ?thesis
  proof (cases be)
    case (BE_Drift e)
    show ?thesis unfolding BE_Drift defs
      by (rule kernel [OF drift_kind_kernel [OF drift.particle_kernel_axioms]]) (simp add: status)
  next
    case (BE_DriftExact e)
    show ?thesis unfolding BE_DriftExact defs
      by (rule kernel [OF drift_kind_kernel [OF drift_exact.particle_kernel_axioms]]) (simp add: status)
  next
    case (BE_Multipole e)
    show ?thesis unfolding BE_Multipole defs by (rule kernel [OF multipole.particle_kernel_axioms]) simp
  next
    case (BE_RFMultipole e)
    show ?thesis unfolding BE_RFMultipole defs by (rule kernel [OF rf_multipole.particle_kernel_axioms]) simp
  next
    case (BE_Cavity e)
    show ?thesis unfolding BE_Cavity defs by (rule kernel [OF cavity.particle_kernel_axioms]) simp
  next
    case (BE_XYShift e)
    show ?thesis unfolding BE_XYShift defs by (rule kernel [OF xy_shift.particle_kernel_axioms]) simp
  next
    case (BE_SRotation e)
    show ?thesis unfolding BE_SRotation defs by (rule kernel [OF srotation.particle_kernel_axioms]) simp
  next
    case (BE_BeamMonitor e)
    show ?thesis unfolding BE_BeamMonitor defs by (rule monitor_tracks [OF w])
  next
    case (BE_LimitRect e)
    show ?thesis unfolding BE_LimitRect defs by (rule kernel [OF limit_rect.particle_kernel_axioms]) simp
  next
    case (BE_LimitEllipse e)
    show ?thesis unfolding BE_LimitEllipse defs by (rule kernel [OF limit_ellipse.particle_kernel_axioms]) simp
  next
    case (BE_LimitRectEllipse e)
    show ?thesis unfolding BE_LimitRectEllipse defs
      by (rule kernel [OF limit_rect_ellipse.particle_kernel_axioms]) simp
  next
    case (BE_DipoleEdge e)
    show ?thesis unfolding BE_DipoleEdge defs by (rule kernel [OF dipedge.particle_kernel_axioms]) simp
  next
    case (BE_TriCub e)
    show ?thesis unfolding BE_TriCub defs by (rule enabled [OF tricub.particle_kernel_axioms]) simp
  next
    case (BE_TriCubData e)
    show ?thesis unfolding BE_TriCubData defs by (rule tracks_to_refl [OF w(1)])
  next
    case (BE_BeamBeam4D e)
    show ?thesis unfolding BE_BeamBeam4D defs by (rule enabled [OF beam_beam_4d.particle_kernel_axioms]) simp
  next
    case (BE_BeamBeam6D e)
    show ?thesis unfolding BE_BeamBeam6D defs by (rule enabled [OF beam_beam_6d.particle_kernel_axioms]) simp
  next
    case (BE_SCCoasting e)
    show ?thesis unfolding BE_SCCoasting defs by (rule enabled [OF sc_coasting.particle_kernel_axioms]) simp
  next
    case (BE_SCQGaussProfile e)
    show ?thesis unfolding BE_SCQGaussProfile defs by (rule enabled [OF sc_qgauss.particle_kernel_axioms]) simp
  next
    case (BE_SCInterpolatedProfile e)
    show ?thesis unfolding BE_SCInterpolatedProfile defs
      using kernel [OF sc_interpolated.particle_kernel_axioms] lose_tracks [OF w] by simp
  next
    case BE_Other
    show ?thesis unfolding BE_Other defs by (rule lose_tracks [OF w])
  qed
qed

lemma dispatcher_tracks:
  "world_wf w \<Longrightarrow> valid_idx (fst w) ii \<Longrightarrow>
   tracks_to w ii (element_map cfg (world_sizes w) be (particle_of (fst w) ii))
     (Track_particle_beam_element_obj_dispatcher cfg w ii be)"
  unfolding element_map_def Track_particle_beam_element_obj_dispatcher_def by (rule dispatcher_check_tracks)

text \<open>No element changes the id, the element id or the turn of a particle.\<close>

definition same_place :: "particle \<Rightarrow> particle \<Rightarrow> bool" where
  "same_place v v' \<longleftrightarrow> pv_particle_id v' = pv_particle_id v \<and>
     pv_at_element_id v' = pv_at_element_id v \<and> pv_at_turn v' = pv_at_turn v"

named_theorems same_place

lemma same_place_energy [same_place]: "same_place v (energy_map dE v') = same_place v v'"
  "same_place v (delta_map d v') = same_place v v'"
  by (simp_all add: same_place_def energy_map_def delta_map_def Let_def)

lemma same_place_maps [same_place]:
  "same_place v (drift_map len v)" "same_place v (drift_exact_map len v)" "same_place v (xy_shift_map xy v)"
  "same_place v (srotation_map sr v)" "same_place v (dipedge_map dp v)" "same_place v (multipole_map mp v)"
  "same_place v (fst (monitor_map sizes mon v))"
  by (simp_all add: same_place_def drift_map_def drift_exact_map_def xy_shift_map_def srotation_map_def
      dipedge_map_def multipole_map_def monitor_map_def Let_def case_prod_beta)

lemma same_place_limit [same_place]: "same_place v (limit_map inside v') = same_place v v'"
  by (simp add: same_place_def limit_map_def)

lemma same_place_energy_maps [same_place]:
  "same_place v (cavity_map cav v)" "same_place v (rf_multipole_map rf v)"
  "same_place v (bb6d_map b6 v)" "same_place v (tricub_map u tri v)"
  by (auto simp: cavity_map_def rf_multipole_map_def bb6d_map_def bb6d_leave_def tricub_map_def
      tricub_kick_map_def same_place Let_def case_prod_beta) (simp_all add: same_place_def)

lemma same_place_field_maps [same_place]:
  "same_place v (bb4d_map b4 v)" "same_place v (sc_coasting_map scc v)" "same_place v (sc_qgauss_map scq v)"
  "same_place v (sc_interpolated_map sci v)"
  by (simp_all add: same_place_def bb4d_map_def sc_coasting_map_def sc_qgauss_map_def
      sc_interpolated_map_def field_kick_def Let_def)

lemma same_place_element: "same_place v (fst (element_map cfg sizes be v))"
proof -
  have "same_place v v" "same_place v (v\<lparr>pv_state := 0\<rparr>)" by (simp_all add: same_place_def)
  then show ?thesis
    by (cases be) (auto simp: element_map_def element_map_check_def drift_kind_map_def if_enabled_map_def
        same_place)
qed

end
