(* ===== verification/Elem_By_Elem.thy ===== *)
theory Elem_By_Elem
  imports Store_Index
begin

section \<open>Element by element configuration (output/elem_by_elem_config.h)\<close>

text \<open>
  Element by element output stores every particle before every beam element of a number of turns. An
  \<open>ElemByElemConfig\<close> holds the ranges of particle ids, element ids and turns, and maps (particle, element,
  turn) to a position in the output and back. \<open>None\<close> stands for a NULL configuration where the code
  checks for it.
\<close>

definition ELEM_BY_ELEM_ORDER_INVALID :: i64 where
  "ELEM_BY_ELEM_ORDER_INVALID = - 1"

definition ELEM_BY_ELEM_ORDER_TURN_ELEM_PARTICLES :: i64 where
  "ELEM_BY_ELEM_ORDER_TURN_ELEM_PARTICLES = 0"

record ElemByElemConfig =
  ebe_order :: i64
  ebe_num_particles_to_store :: i64
  ebe_num_elements_to_store :: i64
  ebe_num_turns_to_store :: i64
  ebe_min_particle_id :: i64
  ebe_min_element_id :: i64
  ebe_min_turn :: i64
  ebe_max_particle_id :: i64
  ebe_max_element_id :: i64
  ebe_max_turn :: i64
  ebe_is_rolling :: i64
  ebe_out_store_addr :: u64

definition ElemByElemConfig_is_active :: "ElemByElemConfig option \<Rightarrow> bool" where
  "ElemByElemConfig_is_active c \<longleftrightarrow>
     (case c of None \<Rightarrow> False
      | Some config \<Rightarrow> ebe_num_particles_to_store config > 0 \<and>
          ebe_num_elements_to_store config > 0 \<and> ebe_num_turns_to_store config > 0 \<and>
          ebe_order config \<noteq> ELEM_BY_ELEM_ORDER_INVALID)"

definition ElemByElemConfig_get_out_store_num_particles :: "ElemByElemConfig \<Rightarrow> i64" where
  "ElemByElemConfig_get_out_store_num_particles config =
     ebe_num_particles_to_store config * ebe_num_elements_to_store config *
     ebe_num_turns_to_store config"

definition ElemByElemConfig_is_rolling :: "ElemByElemConfig \<Rightarrow> bool" where
  "ElemByElemConfig_is_rolling config \<longleftrightarrow> ebe_is_rolling config \<noteq> 0"

definition ElemByElemConfig_get_particles_store_index_details ::
    "ElemByElemConfig \<Rightarrow> i64 \<Rightarrow> i64 \<Rightarrow> i64 \<Rightarrow> i64" where
  "ElemByElemConfig_get_particles_store_index_details config particle_id at_element at_turn =
     (if ebe_min_particle_id config \<le> particle_id \<and> ebe_max_particle_id config \<ge> particle_id \<and>
         ebe_min_element_id config \<le> at_element \<and> ebe_max_element_id config \<ge> at_element \<and>
         ebe_min_turn config \<le> at_turn \<and>
         (ebe_max_turn config \<ge> at_turn \<or> ElemByElemConfig_is_rolling config) then
        let particle_id_offset = particle_id - ebe_min_particle_id config;
            start_elem_id = at_element - ebe_min_element_id config;
            turn_offset = at_turn - ebe_min_turn config;
            num_particles_to_store = ebe_num_particles_to_store config;
            num_elements_to_store = ebe_num_elements_to_store config;
            num_turns_to_store = ebe_num_turns_to_store config;
            (out_store_index, store_capacity) =
              (if ebe_order config = ELEM_BY_ELEM_ORDER_TURN_ELEM_PARTICLES then
                 (turn_offset * num_particles_to_store * num_elements_to_store +
                    start_elem_id * num_particles_to_store + particle_id_offset,
                  num_particles_to_store * num_elements_to_store * num_turns_to_store)
               else (- 1, 0))
        in if out_store_index \<ge> store_capacity \<and> store_capacity > 0 \<and>
              ElemByElemConfig_is_rolling config then
             out_store_index mod store_capacity
           else out_store_index
      else - 1)"

definition ElemByElemConfig_get_particles_store_index ::
    "ElemByElemConfig \<Rightarrow> particles \<Rightarrow> i64 \<Rightarrow> i64" where
  "ElemByElemConfig_get_particles_store_index config p index =
     (let temp_particle_id = Particles_get_particle_id_value p index;
          particle_id = (if temp_particle_id \<ge> 0 then temp_particle_id else - temp_particle_id)
      in ElemByElemConfig_get_particles_store_index_details config particle_id
           (Particles_get_at_element_id_value p index) (Particles_get_at_turn_value p index))"

definition ElemByElemConfig_get_particle_id_from_store_index ::
    "ElemByElemConfig \<Rightarrow> i64 \<Rightarrow> i64" where
  "ElemByElemConfig_get_particle_id_from_store_index config out_store_index =
     (if out_store_index \<ge> 0 \<and>
         out_store_index < ElemByElemConfig_get_out_store_num_particles config then
        let num_particles_to_store = ebe_num_particles_to_store config;
            num_elements_to_store = ebe_num_elements_to_store config;
            particle_id =
              (if ebe_order config = ELEM_BY_ELEM_ORDER_TURN_ELEM_PARTICLES then
                 let stored_particles_per_turn = num_particles_to_store * num_elements_to_store;
                     temp = out_store_index mod stored_particles_per_turn;
                     temp = temp mod num_particles_to_store
                 in temp
               else - 1)
        in if particle_id \<ge> 0 then particle_id + ebe_min_particle_id config else particle_id
      else - 1)"

definition ElemByElemConfig_get_at_element_id_from_store_index ::
    "ElemByElemConfig \<Rightarrow> i64 \<Rightarrow> i64" where
  "ElemByElemConfig_get_at_element_id_from_store_index config out_store_index =
     (if out_store_index \<ge> 0 \<and>
         out_store_index < ElemByElemConfig_get_out_store_num_particles config then
        let num_particles_to_store = ebe_num_particles_to_store config;
            num_elements_to_store = ebe_num_elements_to_store config;
            at_element_id =
              (if ebe_order config = ELEM_BY_ELEM_ORDER_TURN_ELEM_PARTICLES then
                 let stored_particles_per_turn = num_particles_to_store * num_elements_to_store;
                     temp = out_store_index mod stored_particles_per_turn;
                     temp = temp div num_particles_to_store
                 in temp
               else - 1)
        in if at_element_id \<ge> 0 then at_element_id + ebe_min_element_id config else at_element_id
      else - 1)"

definition ElemByElemConfig_get_at_turn_from_store_index :: "ElemByElemConfig \<Rightarrow> i64 \<Rightarrow> i64" where
  "ElemByElemConfig_get_at_turn_from_store_index config out_store_index =
     (if out_store_index \<ge> 0 \<and>
         out_store_index < ElemByElemConfig_get_out_store_num_particles config then
        let num_particles_to_store = ebe_num_particles_to_store config;
            num_elements_to_store = ebe_num_elements_to_store config;
            at_turn =
              (if ebe_order config = ELEM_BY_ELEM_ORDER_TURN_ELEM_PARTICLES then
                 let stored_particles_per_turn = num_particles_to_store * num_elements_to_store
                 in out_store_index div stored_particles_per_turn
               else - 1)
        in if at_turn \<ge> 0 then at_turn + ebe_min_turn config else at_turn
      else - 1)"

definition ElemByElemConfig_set_order :: "ElemByElemConfig \<Rightarrow> i64 \<Rightarrow> ElemByElemConfig" where
  "ElemByElemConfig_set_order config order = config\<lparr>ebe_order := order\<rparr>"

definition ElemByElemConfig_set_is_rolling :: "ElemByElemConfig \<Rightarrow> bool \<Rightarrow> ElemByElemConfig" where
  "ElemByElemConfig_set_is_rolling config is_rolling_flag =
     config\<lparr>ebe_is_rolling := if is_rolling_flag then 1 else 0\<rparr>"

definition ElemByElemConfig_set_output_store_address ::
    "ElemByElemConfig \<Rightarrow> u64 \<Rightarrow> ElemByElemConfig" where
  "ElemByElemConfig_set_output_store_address config out_address =
     config\<lparr>ebe_out_store_addr := out_address\<rparr>"

definition ElemByElemConfig_clear :: "ElemByElemConfig \<Rightarrow> ElemByElemConfig" where
  "ElemByElemConfig_clear config =
     ElemByElemConfig_set_output_store_address
       (config\<lparr>ebe_num_particles_to_store := 0, ebe_num_elements_to_store := 0,
          ebe_num_turns_to_store := 0, ebe_min_particle_id := - 1, ebe_max_particle_id := - 1,
          ebe_min_element_id := - 1, ebe_max_element_id := - 1, ebe_min_turn := - 1,
          ebe_max_turn := - 1\<rparr>) 0"

definition ElemByElemConfig_preset :: "ElemByElemConfig \<Rightarrow> ElemByElemConfig" where
  "ElemByElemConfig_preset conf =
     (let conf = ElemByElemConfig_clear conf;
          conf = ElemByElemConfig_set_order conf ELEM_BY_ELEM_ORDER_INVALID
      in ElemByElemConfig_set_is_rolling conf True)"

definition ElemByElemConfig_init_detailed ::
    "ElemByElemConfig \<Rightarrow> i64 \<Rightarrow> i64 \<Rightarrow> i64 \<Rightarrow> i64 \<Rightarrow> i64 \<Rightarrow> i64 \<Rightarrow> i64 \<Rightarrow> bool \<Rightarrow>
     ElemByElemConfig \<times> arch_status" where
  "ElemByElemConfig_init_detailed config order min_particle_id max_particle_id min_element_id
       max_element_id min_turn max_turn is_rolling_flag =
     (if order \<noteq> ELEM_BY_ELEM_ORDER_INVALID \<and>
         min_particle_id \<ge> 0 \<and> max_particle_id \<ge> min_particle_id \<and>
         min_element_id \<ge> 0 \<and> max_element_id \<ge> min_element_id \<and>
         min_turn \<ge> 0 \<and> max_turn \<ge> min_turn then
        let num_particles_to_store = max_particle_id - min_particle_id + 1;
            num_elements_to_store = max_element_id - min_element_id + 1;
            num_turns_to_store = max_turn - min_turn + 1;
            config = ElemByElemConfig_set_order config order;
            config = ElemByElemConfig_clear config;
            config = ElemByElemConfig_set_is_rolling config is_rolling_flag
        in (config\<lparr>ebe_num_particles_to_store := num_particles_to_store,
              ebe_num_elements_to_store := num_elements_to_store,
              ebe_num_turns_to_store := num_turns_to_store,
              ebe_min_particle_id := min_particle_id, ebe_max_particle_id := max_particle_id,
              ebe_min_element_id := min_element_id, ebe_max_element_id := max_element_id,
              ebe_min_turn := min_turn, ebe_max_turn := max_turn\<rparr>, 0)
      else (config, - 1))"

definition ElemByElemConfig_get_stored_num_particles_detailed ::
    "i64 \<Rightarrow> i64 \<Rightarrow> i64 \<Rightarrow> i64 \<Rightarrow> i64 \<Rightarrow> i64 \<Rightarrow> u64" where
  "ElemByElemConfig_get_stored_num_particles_detailed min_part_id max_part_id min_elem_id max_elem_id
       min_turn_id max_elem_by_elem_turn_id =
     (if min_part_id \<ge> 0 \<and> max_part_id \<ge> min_part_id \<and> min_elem_id \<ge> 0 \<and>
         max_elem_id \<ge> min_elem_id \<and> min_turn_id \<ge> 0 \<and>
         max_elem_by_elem_turn_id \<ge> min_turn_id then
        let num_particles_per_elem = u64_of (1 + max_part_id - min_part_id);
            num_elems_per_turn = u64_of (1 + max_elem_id - min_elem_id);
            num_turns_to_store = u64_of (1 + max_elem_by_elem_turn_id - min_turn_id)
        in num_particles_per_elem * num_elems_per_turn * num_turns_to_store
      else 0)"

definition ElemByElemConfig_get_stored_num_particles :: "ElemByElemConfig \<Rightarrow> u64" where
  "ElemByElemConfig_get_stored_num_particles config =
     (if ebe_order config \<noteq> ELEM_BY_ELEM_ORDER_INVALID then
        ElemByElemConfig_get_stored_num_particles_detailed (ebe_min_particle_id config)
          (ebe_max_particle_id config) (ebe_min_element_id config) (ebe_max_element_id config)
          (ebe_min_turn config) (ebe_max_turn config)
      else 0)"

subsection \<open>Properties of the index\<close>

text \<open>A configuration whose counts fit its ranges.\<close>

definition ebe_wf :: "ElemByElemConfig \<Rightarrow> bool" where
  "ebe_wf c \<longleftrightarrow>
     ebe_order c = ELEM_BY_ELEM_ORDER_TURN_ELEM_PARTICLES \<and>
     0 \<le> ebe_min_particle_id c \<and> ebe_min_particle_id c \<le> ebe_max_particle_id c \<and>
     0 \<le> ebe_min_element_id c \<and> ebe_min_element_id c \<le> ebe_max_element_id c \<and>
     0 \<le> ebe_min_turn c \<and> ebe_min_turn c \<le> ebe_max_turn c \<and>
     ebe_num_particles_to_store c = ebe_max_particle_id c - ebe_min_particle_id c + 1 \<and>
     ebe_num_elements_to_store c = ebe_max_element_id c - ebe_min_element_id c + 1 \<and>
     ebe_num_turns_to_store c = ebe_max_turn c - ebe_min_turn c + 1"

text \<open>The keys (particle id, element id, turn) in range; turns are restricted to a window of the stored
  length, which is the whole range unless the output is rolling.\<close>

definition ebe_key_valid :: "ElemByElemConfig \<Rightarrow> i64 \<Rightarrow> i64 \<times> i64 \<times> i64 \<Rightarrow> bool" where
  "ebe_key_valid c first_turn k \<longleftrightarrow>
     (case k of (pid, e, t) \<Rightarrow>
       ebe_wf c \<and> ebe_min_particle_id c \<le> pid \<and> pid \<le> ebe_max_particle_id c \<and>
       ebe_min_element_id c \<le> e \<and> e \<le> ebe_max_element_id c \<and>
       ebe_min_turn c \<le> first_turn \<and> first_turn \<le> t \<and> t < first_turn + ebe_num_turns_to_store c \<and>
       (first_turn = ebe_min_turn c \<or> ElemByElemConfig_is_rolling c))"

definition ebe_index :: "ElemByElemConfig \<Rightarrow> i64 \<times> i64 \<times> i64 \<Rightarrow> i64" where
  "ebe_index c k =
     (case k of (pid, e, t) \<Rightarrow> ElemByElemConfig_get_particles_store_index_details c pid e t)"

definition ebe_slot :: "ElemByElemConfig \<Rightarrow> i64 \<times> i64 \<Rightarrow> i64" where
  "ebe_slot c k = (case k of (pid, e) \<Rightarrow>
     (e - ebe_min_element_id c) * ebe_num_particles_to_store c + (pid - ebe_min_particle_id c))"

lemma ebe_slot_range:
  assumes "ebe_wf c" "ebe_min_particle_id c \<le> pid" "pid \<le> ebe_max_particle_id c"
    "ebe_min_element_id c \<le> e" "e \<le> ebe_max_element_id c"
  shows "0 \<le> ebe_slot c (pid, e)"
    and "ebe_slot c (pid, e) < ebe_num_particles_to_store c * ebe_num_elements_to_store c"
proof -
  have "0 \<le> pid - ebe_min_particle_id c" "pid - ebe_min_particle_id c < ebe_num_particles_to_store c"
    "0 \<le> e - ebe_min_element_id c" "e - ebe_min_element_id c < ebe_num_elements_to_store c"
    using assms by (simp_all add: ebe_wf_def)
  then show "0 \<le> ebe_slot c (pid, e)"
    and "ebe_slot c (pid, e) < ebe_num_particles_to_store c * ebe_num_elements_to_store c"
    using mixed_radix_less [of "pid - ebe_min_particle_id c" "ebe_num_particles_to_store c"
        "e - ebe_min_element_id c" "ebe_num_elements_to_store c"]
    by (simp_all add: ebe_slot_def mult.commute)
qed

lemma mod_block:
  assumes "0 < b" "0 < m" "0 \<le> s" "s < (b :: int)"
  shows "(q * b + s) mod (b * m) = (q mod m) * b + s"
proof -
  have "q * b = b * m * (q div m) + (q mod m) * b"
    by (subst mult_div_mod_eq [of m q, symmetric]) (simp only: distrib_right distrib_left ac_simps)
  then have eq: "q * b + s = ((q mod m) * b + s) + (b * m) * (q div m)" by linarith
  have "(q mod m) * b + s < b * m" "0 \<le> (q mod m) * b + s"
    using mixed_radix_less [of s b "q mod m" m] assms by (simp_all add: mult.commute)
  then show ?thesis unfolding eq mod_mult_self2 by (intro mod_pos_pos_trivial)
qed

lemma ebe_index_valid:
  assumes "ebe_key_valid c first_turn (pid, e, t)"
  shows "ebe_index c (pid, e, t) =
    ((t - ebe_min_turn c) mod ebe_num_turns_to_store c) *
      (ebe_num_particles_to_store c * ebe_num_elements_to_store c) + ebe_slot c (pid, e)"
proof -
  define b m q where "b = ebe_num_particles_to_store c * ebe_num_elements_to_store c"
    and "m = ebe_num_turns_to_store c" and "q = t - ebe_min_turn c"
  have wf: "ebe_wf c" and r: "ebe_min_particle_id c \<le> pid" "pid \<le> ebe_max_particle_id c"
    "ebe_min_element_id c \<le> e" "e \<le> ebe_max_element_id c" "ebe_min_turn c \<le> t"
    "ebe_max_turn c \<ge> t \<or> ElemByElemConfig_is_rolling c"
    using assms by (auto simp: ebe_key_valid_def ebe_wf_def)
  have pos: "0 < b" "0 < m" using wf by (simp_all add: ebe_wf_def b_def m_def)
  have q: "0 \<le> q" "q < m \<or> ElemByElemConfig_is_rolling c"
    using r wf by (auto simp: q_def m_def ebe_wf_def)
  have s: "0 \<le> ebe_slot c (pid, e)" "ebe_slot c (pid, e) < b"
    using ebe_slot_range [OF wf r(1-4)] by (simp_all add: b_def)
  have idx: "ebe_index c (pid, e, t) =
      (if b * m \<le> q * b + ebe_slot c (pid, e) \<and> ElemByElemConfig_is_rolling c
       then (q * b + ebe_slot c (pid, e)) mod (b * m) else q * b + ebe_slot c (pid, e))"
    using wf r pos
    by (simp add: ebe_index_def ElemByElemConfig_get_particles_store_index_details_def Let_def
        ebe_wf_def b_def m_def q_def ebe_slot_def algebra_simps)
  have small: "q * b + ebe_slot c (pid, e) < b * m" if "q < m"
    using mixed_radix_less(1) [OF s(2) that q(1) s(1)] by (simp add: mult.commute)
  have big: "b * m \<le> q * b + ebe_slot c (pid, e)" if "\<not> q < m"
  proof -
    have "m * b \<le> q * b" using that pos by simp
    then show ?thesis using s(1) by (simp add: mult.commute)
  qed
  have "ebe_index c (pid, e, t) = (q mod m) * b + ebe_slot c (pid, e)"
    using idx small big q mod_block [OF pos s, of q] by (cases "q < m") auto
  then show ?thesis by (simp add: b_def m_def q_def)
qed

text \<open>A window of \<open>n\<close> consecutive numbers has distinct remainders modulo \<open>n\<close>.\<close>

lemma window_mod_inj:
  assumes "a \<le> t" "t < a + n" "a \<le> t'" "t' < a + n" "(t - o') mod n = (t' - o') mod (n :: int)"
  shows "t = t'"
proof -
  have "n dvd t - t'" using assms(5) by (simp add: mod_eq_dvd_iff)
  moreover have "\<bar>t - t'\<bar> < n" using assms(1-4) by linarith
  ultimately show ?thesis using dvd_imp_le_int [of "t - t'" n] by fastforce
qed

interpretation ebe_store: store_index "ebe_index c" "ebe_key_valid c first_turn"
    "ElemByElemConfig_get_out_store_num_particles c" for c first_turn
proof
  fix k k' :: "i64 \<times> i64 \<times> i64"
  obtain pid e t where k: "k = (pid, e, t)" by (cases k)
  assume v: "ebe_key_valid c first_turn k"
  then have s: "0 \<le> ebe_slot c (pid, e)"
    "ebe_slot c (pid, e) < ebe_num_particles_to_store c * ebe_num_elements_to_store c"
    using ebe_slot_range [of c pid e] by (auto simp: ebe_key_valid_def k)
  have m: "0 < ebe_num_turns_to_store c" using v by (auto simp: ebe_key_valid_def ebe_wf_def)
  note i = ebe_index_valid [OF v [unfolded k], folded k]
  show "0 \<le> ebe_index c k" "ebe_index c k < ElemByElemConfig_get_out_store_num_particles c"
    unfolding i ElemByElemConfig_get_out_store_num_particles_def
    using mixed_radix_less [of "ebe_slot c (pid, e)"
        "ebe_num_particles_to_store c * ebe_num_elements_to_store c"
        "(t - ebe_min_turn c) mod ebe_num_turns_to_store c" "ebe_num_turns_to_store c"] s m
    by (simp_all add: ac_simps)
  obtain pid' e' t' where k': "k' = (pid', e', t')" by (cases k')
  assume v': "ebe_key_valid c first_turn k'" and eq: "ebe_index c k = ebe_index c k'"
  then have s': "0 \<le> ebe_slot c (pid', e')"
    "ebe_slot c (pid', e') < ebe_num_particles_to_store c * ebe_num_elements_to_store c"
    using ebe_slot_range [of c pid' e'] by (auto simp: ebe_key_valid_def k')
  note i' = ebe_index_valid [OF v' [unfolded k'], folded k']
  have "ebe_slot c (pid, e) = ebe_slot c (pid', e') \<and>
      (t - ebe_min_turn c) mod ebe_num_turns_to_store c = (t' - ebe_min_turn c) mod ebe_num_turns_to_store c"
    by (rule mixed_radix_inj [OF s s']) (use eq in \<open>simp add: i i'\<close>)
  then have slot: "ebe_slot c (pid, e) = ebe_slot c (pid', e')" and "t = t'"
    using v v' window_mod_inj [of first_turn t "ebe_num_turns_to_store c" t' "ebe_min_turn c"]
    by (auto simp: ebe_key_valid_def k k')
  have "pid - ebe_min_particle_id c = pid' - ebe_min_particle_id c \<and>
      e - ebe_min_element_id c = e' - ebe_min_element_id c"
    using slot v v'
    by (intro mixed_radix_inj [where n = "ebe_num_particles_to_store c"])
      (auto simp: ebe_slot_def ebe_key_valid_def ebe_wf_def k k')
  then show "k = k'" using \<open>t = t'\<close> by (simp add: k k')
qed

text \<open>The positions that \<open>NS(ElemByElemConfig_get_particles_store_index_details)\<close> computes for the
  particles, elements and turns of a configuration lie inside its output, and no two of them coincide.
  For a rolling configuration the same holds in every window of as many turns as are stored.\<close>

theorem ebe_index_injective:
  assumes "ebe_key_valid c first_turn (pid, e, t)" "ebe_key_valid c first_turn (pid', e', t')"
  shows "0 \<le> ElemByElemConfig_get_particles_store_index_details c pid e t \<and>
    ElemByElemConfig_get_particles_store_index_details c pid e t
      < ElemByElemConfig_get_out_store_num_particles c \<and>
    (ElemByElemConfig_get_particles_store_index_details c pid e t =
       ElemByElemConfig_get_particles_store_index_details c pid' e' t' \<longrightarrow>
     pid = pid' \<and> e = e' \<and> t = t')"
  using ebe_store.index_nonneg [OF assms(1)] ebe_store.index_less [OF assms(1)]
    ebe_store.index_inj [OF assms]
  by (simp add: ebe_index_def)

definition sample_config :: ElemByElemConfig where
  "sample_config = fst (ElemByElemConfig_init_detailed
     \<lparr>ebe_order = 0, ebe_num_particles_to_store = 0, ebe_num_elements_to_store = 0,
      ebe_num_turns_to_store = 0, ebe_min_particle_id = 0, ebe_min_element_id = 0, ebe_min_turn = 0,
      ebe_max_particle_id = 0, ebe_max_element_id = 0, ebe_max_turn = 0, ebe_is_rolling = 0,
      ebe_out_store_addr = 0\<rparr> 0 0 4 0 2 1 2 True)"

lemma sample_config_simps:
  "ebe_wf sample_config" "ebe_num_particles_to_store sample_config = 5"
  "ebe_num_elements_to_store sample_config = 3" "ebe_num_turns_to_store sample_config = 2"
  "ebe_min_particle_id sample_config = 0" "ebe_max_particle_id sample_config = 4"
  "ebe_min_element_id sample_config = 0" "ebe_max_element_id sample_config = 2"
  "ebe_min_turn sample_config = 1" "ebe_max_turn sample_config = 2"
  "ElemByElemConfig_is_rolling sample_config"
  by (simp_all add: sample_config_def ElemByElemConfig_init_detailed_def
      ElemByElemConfig_set_order_def ElemByElemConfig_clear_def ElemByElemConfig_is_rolling_def
      ElemByElemConfig_set_output_store_address_def ElemByElemConfig_set_is_rolling_def ebe_wf_def
      ELEM_BY_ELEM_ORDER_INVALID_def ELEM_BY_ELEM_ORDER_TURN_ELEM_PARTICLES_def Let_def)

theorem ebe_index_injective_witness:
  "ElemByElemConfig_get_particles_store_index_details sample_config 3 1 8 < 30 \<and>
   ElemByElemConfig_get_particles_store_index_details sample_config 3 1 8 \<noteq>
   ElemByElemConfig_get_particles_store_index_details sample_config 3 1 7"
  using ebe_index_injective [of sample_config 7 3 1 8 3 1 7]
  by (auto simp: ebe_key_valid_def sample_config_simps
      ElemByElemConfig_get_out_store_num_particles_def)

text \<open>The three functions that recover particle id, element id and turn from a position in the output
  invert the index function on the particles, elements and turns of a configuration.\<close>

theorem ebe_index_round_trip:
  assumes v: "ebe_key_valid c (ebe_min_turn c) (pid, e, t)"
  shows "let i = ElemByElemConfig_get_particles_store_index_details c pid e t in
    ElemByElemConfig_get_particle_id_from_store_index c i = pid \<and>
    ElemByElemConfig_get_at_element_id_from_store_index c i = e \<and>
    ElemByElemConfig_get_at_turn_from_store_index c i = t"
proof -
  define b m n where "b = ebe_num_particles_to_store c * ebe_num_elements_to_store c"
    and "m = ebe_num_turns_to_store c" and "n = ebe_num_particles_to_store c"
  define i where "i = ElemByElemConfig_get_particles_store_index_details c pid e t"
  have wf: "ebe_wf c" and r: "ebe_min_particle_id c \<le> pid" "pid \<le> ebe_max_particle_id c"
    "ebe_min_element_id c \<le> e" "e \<le> ebe_max_element_id c" "ebe_min_turn c \<le> t"
    "t < ebe_min_turn c + ebe_num_turns_to_store c"
    using v by (auto simp: ebe_key_valid_def)
  have s: "0 \<le> ebe_slot c (pid, e)" "ebe_slot c (pid, e) < b"
    using ebe_slot_range [OF wf r(1-4)] by (simp_all add: b_def)
  have "(t - ebe_min_turn c) mod m = t - ebe_min_turn c" using r by (simp add: m_def)
  then have i: "i = (t - ebe_min_turn c) * b + ebe_slot c (pid, e)"
    using ebe_index_valid [OF v] by (simp add: i_def ebe_index_def b_def m_def)
  have range: "0 \<le> i" "i < ElemByElemConfig_get_out_store_num_particles c"
    using ebe_store.index_nonneg [OF v] ebe_store.index_less [OF v]
    by (simp_all add: ebe_index_def i_def)
  have "i mod b = ebe_slot c (pid, e)" "i div b = t - ebe_min_turn c"
    using s by (simp_all add: i div_pos_pos_trivial)
  moreover have p: "0 \<le> pid - ebe_min_particle_id c" "pid - ebe_min_particle_id c < n"
    using wf r by (simp_all add: n_def ebe_wf_def)
  then have "ebe_slot c (pid, e) mod n = pid - ebe_min_particle_id c"
    "ebe_slot c (pid, e) div n = e - ebe_min_element_id c"
    by (simp_all add: ebe_slot_def flip: n_def)
  ultimately show ?thesis
    using wf r range
    by (simp add: ElemByElemConfig_get_particle_id_from_store_index_def
        ElemByElemConfig_get_at_element_id_from_store_index_def
        ElemByElemConfig_get_at_turn_from_store_index_def ebe_wf_def Let_def b_def n_def
        flip: i_def)
qed

theorem ebe_index_round_trip_witness:
  "let i = ElemByElemConfig_get_particles_store_index_details sample_config 3 1 2
   in ElemByElemConfig_get_particle_id_from_store_index sample_config i = 3 \<and>
      ElemByElemConfig_get_at_element_id_from_store_index sample_config i = 1 \<and>
      ElemByElemConfig_get_at_turn_from_store_index sample_config i = 2"
  using ebe_index_round_trip [of sample_config 3 1 2]
  by (simp add: ebe_key_valid_def sample_config_simps)

text \<open>\<open>NS(ElemByElemConfig_init_detailed)\<close> accepts exactly the ordered non-negative ranges with a valid
  order, and then sets up a well-formed configuration that is active and announces, without overflow, the
  number of stored particles that the output holds; on any other input it fails and leaves the
  configuration as it was.\<close>

theorem ebe_init_detailed:
  "ElemByElemConfig_init_detailed c 0 p0 p1 e0 e1 t0 t1 rolling =
     (if 0 \<le> p0 \<and> p0 \<le> p1 \<and> 0 \<le> e0 \<and> e0 \<le> e1 \<and> 0 \<le> t0 \<and> t0 \<le> t1
      then (fst (ElemByElemConfig_init_detailed c 0 p0 p1 e0 e1 t0 t1 rolling), 0) else (c, - 1)) \<and>
   (0 \<le> p0 \<and> p0 \<le> p1 \<and> 0 \<le> e0 \<and> e0 \<le> e1 \<and> 0 \<le> t0 \<and> t0 \<le> t1 \<longrightarrow>
      (let d = fst (ElemByElemConfig_init_detailed c 0 p0 p1 e0 e1 t0 t1 rolling)
       in ebe_wf d \<and> ElemByElemConfig_is_active (Some d) \<and>
          ElemByElemConfig_is_rolling d = rolling \<and> ebe_out_store_addr d = 0 \<and>
          ((p1 - p0 + 1) * (e1 - e0 + 1) * (t1 - t0 + 1) < 2 ^ 64 \<longrightarrow>
           int (unat (ElemByElemConfig_get_stored_num_particles d)) =
             ElemByElemConfig_get_out_store_num_particles d)))"
proof -
  have count: "int (unat (u64_of a * u64_of b * u64_of d)) = a * b * d"
    if "0 < a" "0 < b" "0 < d" "a * b * d < 2 ^ 64" for a b d
  proof -
    have "0 < a * b" using that by simp
    then have pos: "1 \<le> a * b" by linarith
    have le: "a * b \<le> a * b * d" "a \<le> a * b" "b \<le> a * b" "d \<le> a * b * d"
      using mult_left_mono [of 1 d "a * b"] mult_left_mono [of 1 b a] mult_right_mono [of 1 a b]
        mult_right_mono [of 1 "a * b" d] that pos by simp_all
    have lt: "a < 2 ^ 64" "b < 2 ^ 64" "d < 2 ^ 64" "a * b < 2 ^ 64"
      using le that(4) by linarith+
    have u: "unat (u64_of a) = nat a" "unat (u64_of b) = nat b" "unat (u64_of d) = nat d"
      using lt that by (simp_all add: unat_u64_of)
    have ab: "nat a * nat b = nat (a * b)" "nat (a * b) * nat d = nat (a * b * d)"
      using that by (simp_all add: nat_mult_distrib)
    have "unat (u64_of a * u64_of b) = nat (a * b)"
      using lt that pos by (subst unat_u64_mult) (simp_all add: u ab nat_less_iff)
    then have "unat (u64_of a * u64_of b * u64_of d) = nat (a * b * d)"
      using lt that pos by (subst unat_u64_mult) (simp_all add: u ab nat_less_iff)
    then show ?thesis using that by simp
  qed
  have swap: "1 + x - y = x - y + 1" for x y :: int by simp
  show ?thesis
    using count [of "p1 - p0 + 1" "e1 - e0 + 1" "t1 - t0 + 1"]
    by (simp add: ElemByElemConfig_init_detailed_def ElemByElemConfig_set_order_def
        ElemByElemConfig_clear_def ElemByElemConfig_set_output_store_address_def
        ElemByElemConfig_set_is_rolling_def ebe_wf_def ElemByElemConfig_is_active_def
        ElemByElemConfig_is_rolling_def ELEM_BY_ELEM_ORDER_INVALID_def
        ELEM_BY_ELEM_ORDER_TURN_ELEM_PARTICLES_def ElemByElemConfig_get_stored_num_particles_def
        ElemByElemConfig_get_stored_num_particles_detailed_def
        ElemByElemConfig_get_out_store_num_particles_def Let_def swap)
qed

theorem ebe_init_detailed_witness:
  "int (unat (ElemByElemConfig_get_stored_num_particles sample_config)) = 30"
  using ebe_init_detailed [of
      "\<lparr>ebe_order = 0, ebe_num_particles_to_store = 0, ebe_num_elements_to_store = 0,
        ebe_num_turns_to_store = 0, ebe_min_particle_id = 0, ebe_min_element_id = 0, ebe_min_turn = 0,
        ebe_max_particle_id = 0, ebe_max_element_id = 0, ebe_max_turn = 0, ebe_is_rolling = 0,
        ebe_out_store_addr = 0\<rparr>" 0 4 0 2 1 2 True]
  by (simp add: Let_def ElemByElemConfig_get_out_store_num_particles_def sample_config_simps
      flip: sample_config_def)

end
