(* ===== verification/Track.thy ===== *)
theory Track
  imports Track_Element Elem_By_Elem "HOL-Library.Multiset"
begin

section \<open>Tracking through a lattice (track/track.h, track/track.c)\<close>

text \<open>
  The loops over the elements of a lattice, over turns and over particles. The loop over turns is a
  \<open>partial_function\<close>: it ends because every complete turn increments the turn of the particle, which is
  proved, not assumed. Every tracking function refines a function on the view of a particle; the interface
  \<open>tracker\<close> says so, and from it follow the loops over all particles, in any order and in any partition
  into strided kernels.
\<close>

subsection \<open>Along the elements\<close>

text \<open>\<open>set_p w f\<close> changes the particle set of a world.\<close>

definition set_p :: "world \<Rightarrow> (particles \<Rightarrow> particles) \<Rightarrow> world" where
  "set_p w f = (f (fst w), snd w)"

text \<open>
  The inner loop that \<open>NS(Track_particle_until_turn_objs)\<close> and \<open>NS(Track_particle_line_objs)\<close> share: the
  last component of the result tells whether tracking continues.
\<close>

fun track_elements ::
    "track_config \<Rightarrow> i64 \<Rightarrow> beam_element list \<Rightarrow> world \<Rightarrow> world \<times> track_status \<times> bool" where
  "track_elements cfg idx [] w = (w, 0, True)"
| "track_elements cfg idx (be_it # rest) w =
     (let (w, success) = Track_particle_beam_element_obj_dispatcher cfg w idx be_it
      in if success = 0 \<and> Particles_is_not_lost_value (fst w) idx
         then track_elements cfg idx rest (set_p w (\<lambda>p. Particles_increment_at_element_id_value p idx))
         else (w, success, False))"

text \<open>The statements at the end of a turn.\<close>

definition finish_turn_of :: "i64 \<Rightarrow> i64 \<Rightarrow> particles \<Rightarrow> particles" where
  "finish_turn_of start idx p =
     (let p = Particles_set_at_element_id_value p idx start;
          p = Particles_increment_at_turn_value p idx
      in Particles_set_s_value p idx 0)"

definition Track_particle_line_objs ::
    "track_config \<Rightarrow> world \<Rightarrow> i64 \<Rightarrow> beam_element list \<Rightarrow> bool \<Rightarrow> world \<times> track_status" where
  "Track_particle_line_objs cfg w index line finish_turn =
     (let continue_tracking = (line \<noteq> [] \<and> Particles_is_not_lost_value (fst w) index);
          (w, success) =
            (if continue_tracking
             then case track_elements cfg index line w of (w, success, _) \<Rightarrow> (w, success) else (w, 0))
      in if finish_turn \<and> success = 0 \<and> Particles_is_not_lost_value (fst w) index
         then (set_p w (finish_turn_of 0 index), success)
         else (w, success))"

subsection \<open>Until a turn\<close>

partial_function (option) until_turn_loop ::
    "track_config \<Rightarrow> i64 \<Rightarrow> beam_element list \<Rightarrow> i64 \<Rightarrow> i64 \<Rightarrow> world \<Rightarrow> (world \<times> track_status) option" where
  "until_turn_loop cfg idx bes start_at_element until_turn w =
     (let r = track_elements cfg idx bes w;
          w = fst r; success = fst (snd r); continue_tracking = snd (snd r)
      in if continue_tracking then
           let w = set_p w (finish_turn_of start_at_element idx)
           in if Particles_get_at_turn_value (fst w) idx < until_turn
              then until_turn_loop cfg idx bes start_at_element until_turn w
              else Some (w, success)
         else Some (set_p w (\<lambda>p. Particles_mark_as_lost_value p idx), success))"

definition Track_particle_until_turn_objs ::
    "track_config \<Rightarrow> world \<Rightarrow> i64 \<Rightarrow> beam_element list \<Rightarrow> i64 \<Rightarrow> (world \<times> track_status) option" where
  "Track_particle_until_turn_objs cfg w idx bes until_turn =
     (let success = (if bes \<noteq> [] then 0 else - 1);
          start_at_element = Particles_get_at_element_id_value (fst w) idx;
          continue_tracking = (success = 0 \<and> until_turn > Particles_get_at_turn_value (fst w) idx \<and>
            Particles_is_not_lost_value (fst w) idx)
      in if continue_tracking then until_turn_loop cfg idx bes start_at_element until_turn w
         else Some (w, success))"

subsection \<open>Element by element\<close>

text \<open>The inner loop, one turn: before every element a snapshot of the particle is stored at the index of
  the configuration if it lies inside the output; after the last element the turn ends.\<close>

fun ebe_elements ::
    "track_config \<Rightarrow> ElemByElemConfig \<Rightarrow> i64 \<Rightarrow> i64 \<Rightarrow> i64 \<Rightarrow> i64 \<Rightarrow> i64 \<Rightarrow> beam_element list \<Rightarrow> world \<Rightarrow>
     world \<times> track_status \<times> bool" where
  "ebe_elements cfg config idx part_id start_at_element_id at_turn at_element_id [] w = (w, 0, True)"
| "ebe_elements cfg config idx part_id start_at_element_id at_turn at_element_id (be_it # rest) w =
     (let out_addr = ebe_out_store_addr config;
          out_nn = store_sizes (snd w) out_addr;
          out_idx = ElemByElemConfig_get_particles_store_index_details config part_id at_element_id at_turn;
          (w, continue_tracking) =
            (if out_idx \<ge> 0 \<and> out_idx < out_nn
             then let (st, status) = store_particle (snd w) out_addr out_idx (fst w) idx
                  in ((fst w, st), status = 0)
             else (w, True))
      in if continue_tracking then
           let (w, success) = Track_particle_beam_element_obj_dispatcher cfg w idx be_it;
               continue_tracking = (success = 0 \<and> Particles_is_not_lost_value (fst w) idx)
           in if continue_tracking then
                if rest \<noteq> [] then
                  ebe_elements cfg config idx part_id start_at_element_id at_turn (at_element_id + 1) rest
                    (set_p w (\<lambda>p. Particles_increment_at_element_id_value p idx))
                else (set_p w (\<lambda>p.
                        let p = Particles_set_at_element_id_value p idx start_at_element_id;
                            p = Particles_set_s_value p idx 0
                        in Particles_increment_at_turn_value p idx), success, True)
              else (w, success, False)
         else (w, 0, False))"

partial_function (option) ebe_loop ::
    "track_config \<Rightarrow> ElemByElemConfig \<Rightarrow> i64 \<Rightarrow> i64 \<Rightarrow> i64 \<Rightarrow> beam_element list \<Rightarrow> i64 \<Rightarrow> i64 \<Rightarrow> world \<Rightarrow>
     (world \<times> track_status) option" where
  "ebe_loop cfg config idx part_id start_at_element_id bes until_turn at_turn w =
     (let r = ebe_elements cfg config idx part_id start_at_element_id at_turn start_at_element_id bes w;
          w = fst r; success = fst (snd r); continue_tracking = snd (snd r)
      in if continue_tracking \<and> at_turn + 1 < until_turn
         then ebe_loop cfg config idx part_id start_at_element_id bes until_turn (at_turn + 1) w
         else Some (w, success))"

definition Track_particle_element_by_element_until_turn_objs ::
    "track_config \<Rightarrow> world \<Rightarrow> i64 \<Rightarrow> ElemByElemConfig \<Rightarrow> beam_element list \<Rightarrow> i64 \<Rightarrow>
     (world \<times> track_status) option" where
  "Track_particle_element_by_element_until_turn_objs cfg w idx config bes until_turn =
     (if ebe_out_store_addr config \<noteq> 0 then
        let part_id = Particles_get_particle_id_value (fst w) idx;
            start_at_element_id = Particles_get_at_element_id_value (fst w) idx;
            at_turn = Particles_get_at_turn_value (fst w) idx;
            continue_tracking = (bes \<noteq> [] \<and> until_turn > at_turn \<and> at_turn \<ge> 0 \<and>
              start_at_element_id \<ge> 0 \<and> part_id \<ge> 0)
        in if continue_tracking
           then ebe_loop cfg config idx part_id start_at_element_id bes until_turn at_turn w
           else Some (w, 0)
      else Track_particle_until_turn_objs cfg w idx bes until_turn)"

subsection \<open>All particles\<close>

text \<open>The loop over a sequence of particle indices, collecting the status.\<close>

fun track_indices ::
    "(world \<Rightarrow> i64 \<Rightarrow> (world \<times> track_status) option) \<Rightarrow> i64 list \<Rightarrow> world \<Rightarrow> track_status \<Rightarrow>
     (world \<times> track_status) option" where
  "track_indices f [] w status = Some (w, status)"
| "track_indices f (ii # rest) w status =
     (case f w ii of None \<Rightarrow> None
      | Some (w, status') \<Rightarrow> track_indices f rest w (status OR status'))"

text \<open>The indices of \<open>for( ; pidx < num_particles ; pidx += stride )\<close> for a positive stride.\<close>

function stride_indices :: "i64 \<Rightarrow> i64 \<Rightarrow> i64 \<Rightarrow> i64 list" where
  "stride_indices pidx stride n =
     (if pidx < n \<and> stride > 0 then pidx # stride_indices (pidx + stride) stride n else [])"
  by pat_completeness auto
termination by (relation "measure (\<lambda>(pidx, stride, n). nat (n - pidx))") auto

declare stride_indices.simps [simp del]

definition Track_particle_until_turn ::
    "track_config \<Rightarrow> world \<Rightarrow> i64 \<Rightarrow> beam_element list \<Rightarrow> i64 \<Rightarrow> (world \<times> track_status) option" where
  "Track_particle_until_turn cfg w particle_index bes until_turn =
     Track_particle_until_turn_objs cfg w particle_index bes until_turn"

definition Track_particle_element_by_element_until_turn ::
    "track_config \<Rightarrow> world \<Rightarrow> i64 \<Rightarrow> ElemByElemConfig \<Rightarrow> beam_element list \<Rightarrow> i64 \<Rightarrow>
     (world \<times> track_status) option" where
  "Track_particle_element_by_element_until_turn cfg w particle_index config bes until_turn =
     Track_particle_element_by_element_until_turn_objs cfg w particle_index config bes until_turn"

definition Track_all_particles_until_turn ::
    "track_config \<Rightarrow> world \<Rightarrow> beam_element list \<Rightarrow> i64 \<Rightarrow> (world \<times> track_status) option" where
  "Track_all_particles_until_turn cfg w bes until_turn =
     track_indices (\<lambda>w ii. Track_particle_until_turn_objs cfg w ii bes until_turn)
       [0..Particles_get_num_of_particles (fst w) - 1] w 0"

definition Track_all_particles_element_by_element_until_turn ::
    "track_config \<Rightarrow> world \<Rightarrow> ElemByElemConfig \<Rightarrow> beam_element list \<Rightarrow> i64 \<Rightarrow> (world \<times> track_status) option" where
  "Track_all_particles_element_by_element_until_turn cfg w config bes until_turn =
     track_indices (\<lambda>w ii. Track_particle_element_by_element_until_turn_objs cfg w ii config bes until_turn)
       [0..Particles_get_num_of_particles (fst w) - 1] w 0"

text \<open>The part of the lattice between two element indices, for \<open>begin_idx \<le> end_idx\<close> and \<open>end_idx\<close> at most the
  number of elements; outside, the pointers of the code leave the lattice.\<close>

definition line_of :: "beam_element list \<Rightarrow> nat \<Rightarrow> nat \<Rightarrow> beam_element list" where
  "line_of bes begin_idx end_idx = take (end_idx - begin_idx) (drop begin_idx bes)"

definition Track_particle_line ::
    "track_config \<Rightarrow> world \<Rightarrow> i64 \<Rightarrow> beam_element list \<Rightarrow> nat \<Rightarrow> nat \<Rightarrow> bool \<Rightarrow> world \<times> track_status" where
  "Track_particle_line cfg w particle_index bes line_begin_idx line_end_idx finish_turn =
     Track_particle_line_objs cfg w particle_index (line_of bes line_begin_idx line_end_idx) finish_turn"

definition Track_all_particles_line ::
    "track_config \<Rightarrow> world \<Rightarrow> beam_element list \<Rightarrow> nat \<Rightarrow> nat \<Rightarrow> bool \<Rightarrow> (world \<times> track_status) option" where
  "Track_all_particles_line cfg w bes begin_idx end_idx finish_turn =
     track_indices (\<lambda>w ii. Some (Track_particle_line_objs cfg w ii (line_of bes begin_idx end_idx) finish_turn))
       [0..Particles_get_num_of_particles (fst w) - 1] w 0"

subsection \<open>Sequences of tracking steps\<close>

lemma tracks_to_keeps:
  assumes "tracks_to w ii r r'"
  shows "world_wf (fst r')" "valid_idx (fst (fst r')) jj = valid_idx (fst w) jj"
    "world_sizes (fst r') = world_sizes w" "num_particles (fst (fst r')) = num_particles (fst w)"
    "snd r' = snd r"
  using assms by (simp_all add: tracks_to_def valid_idx_def)

lemma tracks_to_view:
  "tracks_to w ii r r' \<Longrightarrow> 0 \<le> jj \<Longrightarrow>
   particle_of (fst (fst r')) jj = (if jj = ii then fst r else particle_of (fst w) jj)"
  by (simp add: tracks_to_def)

lemma tracks_to_self: "tracks_to w ii r r' \<Longrightarrow> valid_idx (fst w) ii \<Longrightarrow> particle_of (fst (fst r')) ii = fst r"
  by (simp add: tracks_to_def valid_idx_def)

lemma tracks_to_trans:
  assumes "tracks_to w ii r r'" "tracks_to (fst r') ii q q'"
  shows "tracks_to w ii q q'"
  using assms by (auto simp: tracks_to_def)

lemma set_p_tracks:
  assumes "particle_kernel F (\<lambda>ii. m)" "world_wf w" "valid_idx (fst w) ii"
  shows "tracks_to w ii (m (particle_of (fst w) ii), s) (set_p w (\<lambda>p. F p ii), s)"
  using assms(2,3) particle_kernel.kernel_wf [OF assms(1)] particle_kernel.kernel_num [OF assms(1)]
    particle_kernel.kernel_view [OF assms(1)]
  by (auto simp: tracks_to_def world_wf_def world_sizes_def set_p_def)

lemma store_tracks:
  assumes "world_wf w" "valid_idx (fst w) ii" "0 \<le> out_idx"
  shows "tracks_to w ii (particle_of (fst w) ii, s) ((fst w, fst (store_particle (snd w) addr out_idx (fst w) ii)), s)"
  using assms by (auto simp: tracks_to_def world_wf_def world_sizes_def store_particle_wf)

text \<open>The end of a turn.\<close>

definition end_turn :: "i64 \<Rightarrow> particle \<Rightarrow> particle" where
  "end_turn start v = v\<lparr>pv_at_element_id := start, pv_at_turn := pv_at_turn v + 1, pv_s := 0\<rparr>"

lemma end_turn_kernel:
  "particle_kernel (\<lambda>p ii. finish_turn_of start ii p) (\<lambda>ii. end_turn start)"
  "particle_kernel (\<lambda>p ii. let p = Particles_set_at_element_id_value p ii start;
      p = Particles_set_s_value p ii 0 in Particles_increment_at_turn_value p ii) (\<lambda>ii. end_turn start)"
  by (unfold_locales; auto simp: finish_turn_of_def end_turn_def particle_ops particle_simps Let_def)+

subsection \<open>The effect on one particle\<close>

fun elements_map ::
    "track_config \<Rightarrow> (u64 \<Rightarrow> i64) \<Rightarrow> beam_element list \<Rightarrow> particle \<Rightarrow> particle \<times> track_status \<times> bool" where
  "elements_map cfg sizes [] v = (v, 0, True)"
| "elements_map cfg sizes (be # rest) v =
     (let (v, s) = element_map cfg sizes be v
      in if s = 0 \<and> pv_state v = 1
         then elements_map cfg sizes rest (v\<lparr>pv_at_element_id := pv_at_element_id v + 1\<rparr>)
         else (v, s, False))"

definition line_map ::
    "track_config \<Rightarrow> beam_element list \<Rightarrow> bool \<Rightarrow> (u64 \<Rightarrow> i64) \<Rightarrow> particle \<Rightarrow> particle \<times> track_status" where
  "line_map cfg line finish sizes v =
     (let (v, s) = (if line \<noteq> [] \<and> pv_state v = 1
          then case elements_map cfg sizes line v of (v, s, _) \<Rightarrow> (v, s) else (v, 0))
      in if finish \<and> s = 0 \<and> pv_state v = 1 then (end_turn 0 v, s) else (v, s))"

fun turns_map ::
    "track_config \<Rightarrow> (u64 \<Rightarrow> i64) \<Rightarrow> beam_element list \<Rightarrow> i64 \<Rightarrow> nat \<Rightarrow> particle \<Rightarrow> particle \<times> track_status" where
  "turns_map cfg sizes bes start 0 v = (v, 0)"
| "turns_map cfg sizes bes start (Suc n) v =
     (case elements_map cfg sizes bes v of (v, s, continue) \<Rightarrow>
        if continue then turns_map cfg sizes bes start n (end_turn start v)
        else (v\<lparr>pv_state := 0\<rparr>, s))"

definition until_turn_map ::
    "track_config \<Rightarrow> beam_element list \<Rightarrow> i64 \<Rightarrow> (u64 \<Rightarrow> i64) \<Rightarrow> particle \<Rightarrow> particle \<times> track_status" where
  "until_turn_map cfg bes until sizes v =
     (if bes = [] then (v, - 1)
      else if pv_at_turn v < until \<and> pv_state v = 1
      then turns_map cfg sizes bes (pv_at_element_id v) (nat (until - pv_at_turn v)) v
      else (v, 0))"

text \<open>What the loop over the elements leaves when it continues or stops.\<close>

lemma elements_map_end:
  assumes "elements_map cfg sizes bes v = (v', s, continue)"
  shows "pv_at_turn v' = pv_at_turn v" "pv_particle_id v' = pv_particle_id v"
    and "continue \<Longrightarrow> pv_at_element_id v' = pv_at_element_id v + int (length bes)"
    and "continue \<Longrightarrow> pv_state v = 1 \<Longrightarrow> pv_state v' = 1" and "continue \<Longrightarrow> s = 0"
proof -
  have "pv_at_turn v' = pv_at_turn v \<and> pv_particle_id v' = pv_particle_id v \<and>
      (continue \<longrightarrow> pv_at_element_id v' = pv_at_element_id v + int (length bes) \<and> s = 0 \<and>
        (pv_state v = 1 \<longrightarrow> pv_state v' = 1))"
    using assms
  proof (induction bes arbitrary: v)
    case (Cons be bes)
    obtain w t where w: "element_map cfg sizes be v = (w, t)" by (metis surj_pair)
    then have "pv_at_turn w = pv_at_turn v" "pv_particle_id w = pv_particle_id v"
      "pv_at_element_id w = pv_at_element_id v"
      using same_place_element [of v cfg sizes be] by (simp_all add: same_place_def)
    then show ?case
      using Cons.prems Cons.IH [of "w\<lparr>pv_at_element_id := pv_at_element_id w + 1\<rparr>"]
      by (auto simp: w split: if_splits)
  qed simp
  then show "pv_at_turn v' = pv_at_turn v" "pv_particle_id v' = pv_particle_id v"
    "continue \<Longrightarrow> pv_at_element_id v' = pv_at_element_id v + int (length bes)"
    "continue \<Longrightarrow> pv_state v = 1 \<Longrightarrow> pv_state v' = 1" "continue \<Longrightarrow> s = 0"
    by simp_all
qed

lemma track_elements_tracks:
  assumes "world_wf w" "valid_idx (fst w) ii"
    and "elements_map cfg (world_sizes w) bes (particle_of (fst w) ii) = (v, s, continue)"
  shows "\<exists>w'. track_elements cfg ii bes w = (w', s, continue) \<and> tracks_to w ii (v, s) (w', s)"
  using assms
proof (induction bes arbitrary: w)
  case Nil
  then show ?case using tracks_to_refl [of w ii 0] by auto
next
  case (Cons be bes)
  obtain v1 s1 where v1: "element_map cfg (world_sizes w) be (particle_of (fst w) ii) = (v1, s1)"
    by (metis surj_pair)
  obtain w1 t1 where w1: "Track_particle_beam_element_obj_dispatcher cfg w ii be = (w1, t1)"
    by (metis surj_pair)
  have step: "tracks_to w ii (v1, s1) (w1, t1)"
    using dispatcher_tracks [OF Cons.prems(1,2), of cfg be] by (simp add: v1 w1)
  have view: "particle_of (fst w1) ii = v1" and "t1 = s1" and sizes: "world_sizes w1 = world_sizes w"
    and wf1: "world_wf w1" "valid_idx (fst w1) ii"
    using tracks_to_self [OF step Cons.prems(2)] tracks_to_keeps [OF step] Cons.prems(2) by simp_all
  show ?case
  proof (cases "s1 = 0 \<and> pv_state v1 = 1")
    case True
    define w2 where "w2 = set_p w1 (\<lambda>p. Particles_increment_at_element_id_value p ii)"
    have step2: "tracks_to w1 ii (v1\<lparr>pv_at_element_id := pv_at_element_id v1 + 1\<rparr>, t1) (w2, t1)"
      using set_p_tracks [OF increment_at_element.particle_kernel_axioms wf1, of t1] by (simp add: w2_def view)
    have view2: "particle_of (fst w2) ii = v1\<lparr>pv_at_element_id := pv_at_element_id v1 + 1\<rparr>"
      and sizes2: "world_sizes w2 = world_sizes w" and wf2: "world_wf w2" "valid_idx (fst w2) ii"
      using tracks_to_self [OF step2 wf1(2)] tracks_to_keeps [OF step2] wf1 sizes by simp_all
    have "elements_map cfg (world_sizes w2) bes (particle_of (fst w2) ii) = (v, s, continue)"
      using Cons.prems(3) True by (simp add: v1 view2 sizes2)
    from Cons.IH [OF wf2 this] obtain w' where w': "track_elements cfg ii bes w2 = (w', s, continue)"
      "tracks_to w2 ii (v, s) (w', s)" by blast
    have "tracks_to w ii (v, s) (w', s)"
      by (rule tracks_to_trans [OF step, unfolded fst_conv,
            OF tracks_to_trans [OF step2, unfolded fst_conv, OF w'(2)]])
    then show ?thesis
      using w'(1) True by (simp add: w1 is_not_lost_view view \<open>t1 = s1\<close> w2_def)
  next
    case False
    then show ?thesis
      using Cons.prems(3) step
      by (intro exI [of _ w1]) (auto simp: v1 w1 is_not_lost_view view \<open>t1 = s1\<close>)
  qed
qed

subsection \<open>The interface of the tracking functions\<close>

locale tracker =
  fixes f :: "world \<Rightarrow> i64 \<Rightarrow> (world \<times> track_status) option"
    and g :: "(u64 \<Rightarrow> i64) \<Rightarrow> particle \<Rightarrow> particle \<times> track_status"
  assumes tracks: "world_wf w \<Longrightarrow> valid_idx (fst w) ii \<Longrightarrow>
    \<exists>r. f w ii = Some r \<and> tracks_to w ii (g (world_sizes w) (particle_of (fst w) ii)) r"
begin

text \<open>Tracking distinct particles one after the other returns, and treats every one of them as if it was
  tracked alone.\<close>

lemma run:
  assumes "world_wf w" "\<forall>ii\<in>set iis. valid_idx (fst w) ii" "distinct iis"
  shows "\<exists>w' s'. track_indices f iis w s = Some (w', s') \<and> world_wf w' \<and>
    num_particles (fst w') = num_particles (fst w) \<and> world_sizes w' = world_sizes w \<and>
    s' = fold (\<lambda>ii s. s OR snd (g (world_sizes w) (particle_of (fst w) ii))) iis s \<and>
    (\<forall>jj\<ge>0. particle_of (fst w') jj = (if jj \<in> set iis
       then fst (g (world_sizes w) (particle_of (fst w) jj)) else particle_of (fst w) jj))"
  using assms
proof (induction iis arbitrary: w s)
  case (Cons ii iis)
  have ii: "valid_idx (fst w) ii" "0 \<le> ii" using Cons.prems(2) by (simp_all add: valid_idx_def)
  obtain w1 s1 where w1: "f w ii = Some (w1, s1)"
    and step: "tracks_to w ii (g (world_sizes w) (particle_of (fst w) ii)) (w1, s1)"
    using tracks [OF Cons.prems(1) ii(1)] by auto
  note keeps = tracks_to_keeps [OF step, unfolded fst_conv snd_conv]
  have view: "particle_of (fst w1) jj = (if jj = ii then fst (g (world_sizes w) (particle_of (fst w) ii))
      else particle_of (fst w) jj)" if "0 \<le> jj" for jj
    using tracks_to_view [OF step that] by simp
  have "\<forall>jj\<in>set iis. valid_idx (fst w1) jj" "distinct iis" using Cons.prems keeps(2) by simp_all
  from Cons.IH [OF keeps(1) this, of "s OR s1"] obtain w' s' where
    run: "track_indices f iis w1 (s OR s1) = Some (w', s')" "world_wf w'"
      "num_particles (fst w') = num_particles (fst w)" "world_sizes w' = world_sizes w"
    and s': "s' = fold (\<lambda>jj s. s OR snd (g (world_sizes w) (particle_of (fst w1) jj))) iis (s OR s1)"
    and view': "\<forall>jj\<ge>0. particle_of (fst w') jj = (if jj \<in> set iis
       then fst (g (world_sizes w) (particle_of (fst w1) jj)) else particle_of (fst w1) jj)"
    using keeps by auto
  have other: "particle_of (fst w1) jj = particle_of (fst w) jj" if "jj \<in> set iis" for jj
    using view [of jj] that Cons.prems(2,3) by (auto simp: valid_idx_def)
  have "s' = fold (\<lambda>jj s. s OR snd (g (world_sizes w) (particle_of (fst w) jj))) iis (s OR s1)"
    unfolding s' by (rule fold_cong) (simp_all add: other)
  moreover have "particle_of (fst w') jj = (if jj \<in> set (ii # iis)
      then fst (g (world_sizes w) (particle_of (fst w) jj)) else particle_of (fst w) jj)" if "0 \<le> jj" for jj
    using view' view [OF that] other [of jj] that Cons.prems(3) by auto
  ultimately show ?case using run w1 keeps(5) by simp
qed simp

text \<open>The order of the particles does not matter for the particles and the status.\<close>

lemma run_order:
  assumes w: "world_wf w" and valid: "\<forall>ii\<in>set iis. valid_idx (fst w) ii"
    and d: "distinct iis" "distinct iis'" and same: "set iis' = set iis"
  shows "\<exists>p s' st st'. track_indices f iis w s = Some ((p, st), s') \<and> track_indices f iis' w s = Some ((p, st'), s')"
proof -
  have valid': "\<forall>ii\<in>set iis'. valid_idx (fst w) ii" using valid same by simp
  obtain w1 s1 where 1: "track_indices f iis w s = Some (w1, s1)" "world_wf w1"
    "num_particles (fst w1) = num_particles (fst w)"
    "s1 = fold (\<lambda>ii s. s OR snd (g (world_sizes w) (particle_of (fst w) ii))) iis s"
    "\<forall>jj\<ge>0. particle_of (fst w1) jj = (if jj \<in> set iis
       then fst (g (world_sizes w) (particle_of (fst w) jj)) else particle_of (fst w) jj)"
    using run [OF w valid d(1), of s] by blast
  obtain w2 s2 where 2: "track_indices f iis' w s = Some (w2, s2)" "world_wf w2"
    "num_particles (fst w2) = num_particles (fst w)"
    "s2 = fold (\<lambda>ii s. s OR snd (g (world_sizes w) (particle_of (fst w) ii))) iis' s"
    "\<forall>jj\<ge>0. particle_of (fst w2) jj = (if jj \<in> set iis
       then fst (g (world_sizes w) (particle_of (fst w) jj)) else particle_of (fst w) jj)"
    using run [OF w valid' d(2), of s] unfolding same by blast
  have p: "fst w1 = fst w2"
  proof (rule particles_eqI)
    show "particles_wf (fst w1)" "particles_wf (fst w2)" using 1(2) 2(2) by (simp_all add: world_wf_def)
    show "num_particles (fst w1) = num_particles (fst w2)" using 1(3) 2(3) by simp
    fix jj assume "valid_idx (fst w1) jj"
    then have "0 \<le> jj" by (simp add: valid_idx_def)
    then show "particle_of (fst w1) jj = particle_of (fst w2) jj" using 1(5) 2(5) by simp
  qed
  have comm: "(s OR a) OR b = (s OR b) OR a" for s a b :: int
    by (simp only: or.assoc or.commute [of a b])
  have mset: "mset iis = mset iis'" using d same set_eq_iff_mset_eq_distinct by blast
  have "fold (\<lambda>ii s. s OR snd (g (world_sizes w) (particle_of (fst w) ii))) iis =
      fold (\<lambda>ii s. s OR snd (g (world_sizes w) (particle_of (fst w) ii))) iis'"
    by (rule fold_multiset_equiv [OF _ mset]) (simp only: comp_def comm)
  then have s: "s1 = s2" by (simp only: 1(4) 2(4))
  show ?thesis
    using 1(1) 2(1) p s
    by (cases w1, cases w2) auto
qed

lemma run_append:
  "track_indices f (iis @ iis') w s = (case track_indices f iis w s of None \<Rightarrow> None
     | Some (w', s') \<Rightarrow> track_indices f iis' w' s')"
  by (induction f iis w s rule: track_indices.induct) (auto split: option.splits)

end

text \<open>The strided kernels cover every particle once.\<close>

lemma stride_indices_laws:
  assumes "0 < stride"
  shows "set (stride_indices pidx stride n) = {i. pidx \<le> i \<and> i < n \<and> stride dvd i - pidx} \<and>
    distinct (stride_indices pidx stride n)"
  using assms
proof (induction pidx stride n rule: stride_indices.induct)
  case (1 pidx stride n)
  have shift: "stride dvd i - (pidx + stride) \<longleftrightarrow> stride dvd i - pidx" for i
    by (metis diff_diff_eq dvd_minus_self dvd_diff_commute dvd_refl dvd_diff dvd_diff_right_iff)
  have jump: "i = pidx \<or> pidx + stride \<le> i" if "pidx \<le> i" "stride dvd i - pidx" for i
    using that zdvd_imp_le [of stride "i - pidx"] by force
  show ?case
  proof (cases "pidx < n")
    case True
    then have "stride_indices pidx stride n = pidx # stride_indices (pidx + stride) stride n"
      using 1 by (subst stride_indices.simps) simp
    moreover have "{i. pidx \<le> i \<and> i < n \<and> stride dvd i - pidx} =
        insert pidx {i. pidx + stride \<le> i \<and> i < n \<and> stride dvd i - (pidx + stride)}"
      using True jump 1(2) by (auto simp: shift)
    ultimately show ?thesis using 1 True by simp
  next
    case False
    then have "stride_indices pidx stride n = []" by (subst stride_indices.simps) simp
    then show ?thesis using False by auto
  qed
qed

lemmas stride_indices_set = stride_indices_laws [THEN conjunct1]
lemmas stride_indices_distinct = stride_indices_laws [THEN conjunct2]

lemma stride_class:
  assumes "stride dvd i - k" "0 \<le> k" "k < (stride :: int)"
  shows "k = i mod stride"
  using assms by (metis mod_eq_dvd_iff mod_pos_pos_trivial)

lemma strides_distinct:
  assumes "0 < stride" "distinct ks" "set ks \<subseteq> {0..<stride}"
  shows "distinct (concat (map (\<lambda>k. stride_indices k stride n) ks))"
  using assms(2,3)
proof (induction ks)
  case (Cons k ks)
  have "set (stride_indices k stride n) \<inter> set (stride_indices k' stride n) = {}" if "k' \<in> set ks" for k'
  proof (rule ccontr)
    assume "set (stride_indices k stride n) \<inter> set (stride_indices k' stride n) \<noteq> {}"
    then obtain i where "stride dvd i - k" "stride dvd i - k'"
      by (auto simp: stride_indices_set [OF assms(1)])
    then have "k = i mod stride" "k' = i mod stride"
      using Cons.prems(2) that by (auto intro!: stride_class)
    then show False using Cons.prems(1) that by simp
  qed
  then show ?case using Cons by (auto simp: stride_indices_distinct [OF assms(1)])
qed simp

lemma strides_cover:
  assumes "0 < stride" "set ks = {0..<stride}"
  shows "set (concat (map (\<lambda>k. stride_indices k stride n) ks)) = {0..<n}"
proof (intro set_eqI iffI)
  fix i assume "i \<in> set (concat (map (\<lambda>k. stride_indices k stride n) ks))"
  then show "i \<in> {0..<n}" using assms(2) by (auto simp: stride_indices_set [OF assms(1)])
next
  fix i assume i: "i \<in> {0..<n}"
  then have "i \<in> set (stride_indices (i mod stride) stride n)"
    using zmod_le_nonneg_dividend [of i stride]
    by (simp add: stride_indices_set [OF assms(1)] minus_mod_eq_mult_div)
  moreover have "i mod stride \<in> set ks" using assms by simp
  ultimately show "i \<in> set (concat (map (\<lambda>k. stride_indices k stride n) ks))"
    unfolding set_concat set_map by blast
qed

subsection \<open>The tracking functions as trackers\<close>

interpretation dispatcher: tracker "\<lambda>w ii. Some (Track_particle_beam_element_obj_dispatcher cfg w ii be)"
    "\<lambda>sizes. element_map cfg sizes be" for cfg be
  by unfold_locales (simp add: dispatcher_tracks)

lemma line_tracks:
  assumes w: "world_wf w" "valid_idx (fst w) ii"
  shows "tracks_to w ii (line_map cfg line finish (world_sizes w) (particle_of (fst w) ii))
    (Track_particle_line_objs cfg w ii line finish)"
proof -
  define go where "go = (line \<noteq> [] \<and> Particles_is_not_lost_value (fst w) ii)"
  define r where "r = (if go then case track_elements cfg ii line w of (w, s, _) \<Rightarrow> (w, s) else (w, 0))"
  define m where "m = (if go then case elements_map cfg (world_sizes w) line (particle_of (fst w) ii)
    of (v, s, _) \<Rightarrow> (v, s) else (particle_of (fst w) ii, 0))"
  have step: "tracks_to w ii m r"
  proof (cases go)
    case True
    obtain v s c where v: "elements_map cfg (world_sizes w) line (particle_of (fst w) ii) = (v, s, c)"
      by (metis surj_pair)
    show ?thesis using track_elements_tracks [OF w v] True by (auto simp: r_def m_def v)
  qed (simp add: r_def m_def tracks_to_refl [OF w(1)])
  note keeps = tracks_to_keeps [OF step]
  have wf: "world_wf (fst r)" "valid_idx (fst (fst r)) ii" using keeps w by simp_all
  have view: "particle_of (fst (fst r)) ii = fst m" by (rule tracks_to_self [OF step w(2)])
  have "tracks_to w ii (end_turn 0 (fst m), snd r)
      (set_p (fst r) (finish_turn_of 0 ii), snd r)"
    using tracks_to_trans [OF step set_p_tracks [OF end_turn_kernel(1) wf]] by (simp only: view)
  moreover have "Track_particle_line_objs cfg w ii line finish =
      (if finish \<and> snd r = 0 \<and> Particles_is_not_lost_value (fst (fst r)) ii
       then (set_p (fst r) (finish_turn_of 0 ii), snd r) else r)"
    by (cases "track_elements cfg ii line w") (auto simp: Track_particle_line_objs_def Let_def r_def go_def)
  moreover have "line_map cfg line finish (world_sizes w) (particle_of (fst w) ii) =
      (if finish \<and> snd m = 0 \<and> pv_state (fst m) = 1 then (end_turn 0 (fst m), snd m) else m)"
    by (cases "elements_map cfg (world_sizes w) line (particle_of (fst w) ii)")
      (auto simp: line_map_def Let_def m_def go_def is_not_lost_view)
  ultimately show ?thesis
    using step keeps(5) by (auto simp: is_not_lost_view view)
qed

interpretation line: tracker "\<lambda>w ii. Some (Track_particle_line_objs cfg w ii line finish)"
    "line_map cfg line finish" for cfg line finish
  by unfold_locales (simp add: line_tracks)

lemma until_turn_loop_tracks:
  assumes "world_wf w" "valid_idx (fst w) ii" "n = nat (until - pv_at_turn (particle_of (fst w) ii))" "0 < n"
  shows "\<exists>r. until_turn_loop cfg ii bes start until w = Some r \<and>
    tracks_to w ii (turns_map cfg (world_sizes w) bes start n (particle_of (fst w) ii)) r"
  using assms
proof (induction n arbitrary: w)
  case (Suc n)
  note w = Suc.prems(1,2)
  obtain v s c where v: "elements_map cfg (world_sizes w) bes (particle_of (fst w) ii) = (v, s, c)"
    by (metis surj_pair)
  obtain w1 where w1: "track_elements cfg ii bes w = (w1, s, c)" and step: "tracks_to w ii (v, s) (w1, s)"
    using track_elements_tracks [OF w v] by blast
  note keeps = tracks_to_keeps [OF step, unfolded fst_conv snd_conv]
  have wf1: "world_wf w1" "valid_idx (fst w1) ii" and view1: "particle_of (fst w1) ii = v"
    using keeps w tracks_to_self [OF step w(2)] by simp_all
  show ?case
  proof (cases c)
    case True
    define w2 where "w2 = set_p w1 (finish_turn_of start ii)"
    have step2: "tracks_to w1 ii (end_turn start v, s) (w2, s)"
      unfolding w2_def using set_p_tracks [OF end_turn_kernel(1) wf1, of start s] by (simp add: view1)
    note keeps2 = tracks_to_keeps [OF step2, unfolded fst_conv snd_conv]
    have wf2: "world_wf w2" "valid_idx (fst w2) ii" "world_sizes w2 = world_sizes w"
      and view2: "particle_of (fst w2) ii = end_turn start v"
      using keeps keeps2 wf1 tracks_to_self [OF step2 wf1(2)] by simp_all
    have both: "tracks_to w ii r r'" if "tracks_to w2 ii r r'" for r r'
      by (rule tracks_to_trans [OF step, unfolded fst_conv, OF tracks_to_trans [OF step2, unfolded fst_conv, OF that]])
    have n: "n = nat (until - pv_at_turn (particle_of (fst w2) ii))"
      using Suc.prems(3) elements_map_end(1) [OF v] by (simp add: view2 end_turn_def)
    have turn: "Particles_get_at_turn_value (fst w2) ii < until \<longleftrightarrow> 0 < n"
      using n by (simp add: particle_simps)
    have "s = 0" by (rule elements_map_end(5) [OF v True])
    have loop: "until_turn_loop cfg ii bes start until w =
        (if 0 < n then until_turn_loop cfg ii bes start until w2 else Some (w2, s))"
      by (subst until_turn_loop.simps) (simp add: w1 True turn Let_def flip: w2_def)
    show ?thesis
    proof (cases "0 < n")
      case True
      from Suc.IH [OF wf2(1,2) n this] obtain r where
        "until_turn_loop cfg ii bes start until w2 = Some r"
        "tracks_to w2 ii (turns_map cfg (world_sizes w) bes start n (end_turn start v)) r"
        by (auto simp: wf2(3) view2)
      then show ?thesis using both True by (auto simp: loop v \<open>c\<close>)
    next
      case False
      have "tracks_to w2 ii (end_turn start v, 0) (w2, s)"
        using tracks_to_refl [OF wf2(1), of ii s] \<open>s = 0\<close> by (simp add: view2)
      then show ?thesis using both False by (auto simp: loop v \<open>c\<close>)
    qed
  next
    case False
    have "tracks_to w1 ii (v\<lparr>pv_state := 0\<rparr>, s) (set_p w1 (\<lambda>p. Particles_mark_as_lost_value p ii), s)"
      using set_p_tracks [OF mark_as_lost.particle_kernel_axioms wf1, of s] by (simp add: view1)
    then have "tracks_to w ii (v\<lparr>pv_state := 0\<rparr>, s) (set_p w1 (\<lambda>p. Particles_mark_as_lost_value p ii), s)"
      by (rule tracks_to_trans [OF step, unfolded fst_conv])
    moreover have "until_turn_loop cfg ii bes start until w =
        Some (set_p w1 (\<lambda>p. Particles_mark_as_lost_value p ii), s)"
      by (subst until_turn_loop.simps) (simp add: w1 False)
    ultimately show ?thesis by (simp add: v False)
  qed
qed simp

lemma until_turn_tracks:
  assumes w: "world_wf w" "valid_idx (fst w) ii"
  shows "\<exists>r. Track_particle_until_turn_objs cfg w ii bes until = Some r \<and>
    tracks_to w ii (until_turn_map cfg bes until (world_sizes w) (particle_of (fst w) ii)) r"
proof -
  define v where "v = particle_of (fst w) ii"
  have views: "Particles_get_at_turn_value (fst w) ii = pv_at_turn v"
    "Particles_get_at_element_id_value (fst w) ii = pv_at_element_id v"
    "Particles_is_not_lost_value (fst w) ii \<longleftrightarrow> pv_state v = 1"
    by (simp_all add: v_def particle_simps)
  show ?thesis
  proof (cases "bes \<noteq> [] \<and> pv_at_turn v < until \<and> pv_state v = 1")
    case True
    then have "0 < nat (until - pv_at_turn v)" by simp
    from until_turn_loop_tracks [OF w _ this, of until cfg bes "pv_at_element_id v"] show ?thesis
      using True by (simp add: Track_particle_until_turn_objs_def views until_turn_map_def flip: v_def)
  next
    case False
    then have "Track_particle_until_turn_objs cfg w ii bes until = Some (w, if bes = [] then - 1 else 0)"
      by (auto simp: Track_particle_until_turn_objs_def views)
    moreover have "until_turn_map cfg bes until (world_sizes w) v = (v, if bes = [] then - 1 else 0)"
      using False by (auto simp: until_turn_map_def)
    ultimately show ?thesis
      using tracks_to_refl [OF w(1), of ii "if bes = [] then - 1 else 0"] by (simp flip: v_def)
  qed
qed

interpretation until_turn: tracker "\<lambda>w ii. Track_particle_until_turn_objs cfg w ii bes until"
    "until_turn_map cfg bes until" for cfg bes until
  by unfold_locales (rule until_turn_tracks)

text \<open>Element by element tracking does the same to the particle, apart from a failing turn, after which the
  particle is not marked as lost.\<close>

fun ebe_turns_map ::
    "track_config \<Rightarrow> (u64 \<Rightarrow> i64) \<Rightarrow> beam_element list \<Rightarrow> i64 \<Rightarrow> nat \<Rightarrow> particle \<Rightarrow> particle \<times> track_status" where
  "ebe_turns_map cfg sizes bes start 0 v = (v, 0)"
| "ebe_turns_map cfg sizes bes start (Suc n) v =
     (case elements_map cfg sizes bes v of (v, s, continue) \<Rightarrow>
        if continue then ebe_turns_map cfg sizes bes start n (end_turn start v) else (v, s))"

definition ebe_map ::
    "track_config \<Rightarrow> ElemByElemConfig \<Rightarrow> beam_element list \<Rightarrow> i64 \<Rightarrow> (u64 \<Rightarrow> i64) \<Rightarrow> particle \<Rightarrow>
     particle \<times> track_status" where
  "ebe_map cfg config bes until sizes v =
     (if ebe_out_store_addr config \<noteq> 0 then
        if bes \<noteq> [] \<and> pv_at_turn v < until \<and> 0 \<le> pv_at_turn v \<and> 0 \<le> pv_at_element_id v \<and> 0 \<le> pv_particle_id v
        then ebe_turns_map cfg sizes bes (pv_at_element_id v) (nat (until - pv_at_turn v)) v
        else (v, 0)
      else until_turn_map cfg bes until sizes v)"

text \<open>The snapshot in front of an element.\<close>

definition ebe_snapshot :: "ElemByElemConfig \<Rightarrow> i64 \<Rightarrow> i64 \<Rightarrow> i64 \<Rightarrow> i64 \<Rightarrow> world \<Rightarrow> world" where
  "ebe_snapshot config idx part_id at_element_id at_turn w =
     (let out_addr = ebe_out_store_addr config;
          out_idx = ElemByElemConfig_get_particles_store_index_details config part_id at_element_id at_turn
      in if out_idx \<ge> 0 \<and> out_idx < store_sizes (snd w) out_addr
         then (fst w, fst (store_particle (snd w) out_addr out_idx (fst w) idx)) else w)"

lemma ebe_snapshot_tracks:
  assumes "world_wf w" "valid_idx (fst w) ii"
  shows "tracks_to w ii (particle_of (fst w) ii, s) (ebe_snapshot config ii pid el t w, s)"
  using store_tracks [OF assms] tracks_to_refl [OF assms(1)] by (auto simp: ebe_snapshot_def Let_def)

lemma ebe_elements_Cons:
  assumes "valid_idx (fst w) ii"
  shows "ebe_elements cfg config ii pid start t el (be # rest) w =
    (let (w, success) = Track_particle_beam_element_obj_dispatcher cfg (ebe_snapshot config ii pid el t w) ii be
     in if success = 0 \<and> Particles_is_not_lost_value (fst w) ii
        then if rest \<noteq> []
          then ebe_elements cfg config ii pid start t (el + 1) rest
            (set_p w (\<lambda>p. Particles_increment_at_element_id_value p ii))
          else (set_p w (\<lambda>p. let p = Particles_set_at_element_id_value p ii start;
                p = Particles_set_s_value p ii 0 in Particles_increment_at_turn_value p ii), success, True)
        else (w, success, False))"
proof -
  define i where "i = ElemByElemConfig_get_particles_store_index_details config pid el t"
  have "snd (store_particle (snd w) (ebe_out_store_addr config) i (fst w) ii) = 0"
    if "i < store_sizes (snd w) (ebe_out_store_addr config)"
    using store_particle_status [OF assms] that by simp
  then show ?thesis
    by (cases "i \<ge> 0 \<and> i < store_sizes (snd w) (ebe_out_store_addr config)")
      (auto simp: ebe_snapshot_def case_prod_beta Let_def simp flip: i_def)
qed

lemma ebe_elements_tracks:
  assumes "world_wf w" "valid_idx (fst w) ii" "bes \<noteq> []"
    and "elements_map cfg (world_sizes w) bes (particle_of (fst w) ii) = (v, s, continue)"
  shows "\<exists>w'. ebe_elements cfg config ii pid start t el bes w = (w', s, continue) \<and>
    tracks_to w ii (if continue then end_turn start v else v, s) (w', s)"
  using assms
proof (induction bes arbitrary: w el)
  case (Cons be rest)
  note w = Cons.prems(1,2)
  define w0 where "w0 = ebe_snapshot config ii pid el t w"
  have step0: "tracks_to w ii (particle_of (fst w) ii, 0) (w0, 0)"
    unfolding w0_def by (rule ebe_snapshot_tracks [OF w])
  note keeps0 = tracks_to_keeps [OF step0, unfolded fst_conv snd_conv]
  have wf0: "world_wf w0" "valid_idx (fst w0) ii" and view0: "particle_of (fst w0) ii = particle_of (fst w) ii"
    using keeps0 w tracks_to_self [OF step0 w(2)] by simp_all
  obtain v1 s1 where v1: "element_map cfg (world_sizes w) be (particle_of (fst w) ii) = (v1, s1)"
    by (metis surj_pair)
  obtain w1 where w1: "Track_particle_beam_element_obj_dispatcher cfg w0 ii be = (w1, s1)"
    and step1: "tracks_to w0 ii (v1, s1) (w1, s1)"
    using dispatcher_tracks [OF wf0, of cfg be] tracks_to_keeps(5) [OF dispatcher_tracks [OF wf0, of cfg be]]
    by (cases "Track_particle_beam_element_obj_dispatcher cfg w0 ii be") (simp add: v1 view0 keeps0)
  note keeps1 = tracks_to_keeps [OF step1, unfolded fst_conv snd_conv]
  have wf1: "world_wf w1" "valid_idx (fst w1) ii" and view1: "particle_of (fst w1) ii = v1"
    using keeps1 wf0 tracks_to_self [OF step1 wf0(2)] by simp_all
  have both: "tracks_to w ii q q'" if "tracks_to w1 ii q q'" for q q'
    by (rule tracks_to_trans [OF step0, unfolded fst_conv, OF tracks_to_trans [OF step1, unfolded fst_conv, OF that]])
  have unfold: "ebe_elements cfg config ii pid start t el (be # rest) w =
      (if s1 = 0 \<and> pv_state v1 = 1
       then if rest \<noteq> [] then ebe_elements cfg config ii pid start t (el + 1) rest
            (set_p w1 (\<lambda>p. Particles_increment_at_element_id_value p ii))
          else (set_p w1 (\<lambda>p. let p = Particles_set_at_element_id_value p ii start;
                p = Particles_set_s_value p ii 0 in Particles_increment_at_turn_value p ii), s1, True)
       else (w1, s1, False))"
    unfolding ebe_elements_Cons [OF w(2)] w0_def [symmetric] w1 by (simp add: is_not_lost_view view1)
  consider (stop) "\<not> (s1 = 0 \<and> pv_state v1 = 1)" | (last) "s1 = 0 \<and> pv_state v1 = 1" "rest = []"
    | (more) "s1 = 0 \<and> pv_state v1 = 1" "rest \<noteq> []" by blast
  then show ?case
  proof cases
    case stop
    have "tracks_to w ii (v1, s1) (w1, s1)"
      by (rule tracks_to_trans [OF step0, unfolded fst_conv, OF step1])
    then show ?thesis
      using Cons.prems(4) stop by (intro exI [of _ w1]) (auto simp: unfold v1 simp del: ebe_elements.simps)
  next
    case last
    then show ?thesis
      using Cons.prems(4) unfold both [OF set_p_tracks [OF end_turn_kernel(2) wf1, of start s1]]
      by (intro exI [of _ "set_p w1 (\<lambda>p. let p = Particles_set_at_element_id_value p ii start;
                p = Particles_set_s_value p ii 0 in Particles_increment_at_turn_value p ii)"]) (auto simp: v1 view1 end_turn_def simp del: ebe_elements.simps)
  next
    case more
    define w2 where "w2 = set_p w1 (\<lambda>p. Particles_increment_at_element_id_value p ii)"
    have step2: "tracks_to w1 ii (v1\<lparr>pv_at_element_id := pv_at_element_id v1 + 1\<rparr>, 0) (w2, 0)"
      using set_p_tracks [OF increment_at_element.particle_kernel_axioms wf1, of 0] by (simp add: w2_def view1)
    note keeps2 = tracks_to_keeps [OF step2, unfolded fst_conv snd_conv]
    have wf2: "world_wf w2" "valid_idx (fst w2) ii"
      and view2: "particle_of (fst w2) ii = v1\<lparr>pv_at_element_id := pv_at_element_id v1 + 1\<rparr>"
      and sizes2: "world_sizes w2 = world_sizes w"
      using keeps2 keeps1 keeps0 wf1 tracks_to_self [OF step2 wf1(2)] by simp_all
    have "elements_map cfg (world_sizes w2) rest (particle_of (fst w2) ii) = (v, s, continue)"
      using Cons.prems(4) more by (simp add: v1 view2 sizes2)
    from Cons.IH [OF wf2 more(2) this, of "el + 1"] obtain w' where
      "ebe_elements cfg config ii pid start t (el + 1) rest w2 = (w', s, continue)"
      "tracks_to w2 ii (if continue then end_turn start v else v, s) (w', s)" by blast
    then show ?thesis
      using both [OF tracks_to_trans [OF step2, unfolded fst_conv]] more
      by (intro exI [of _ w']) (simp add: unfold w2_def [symmetric] del: ebe_elements.simps)
  qed
qed simp

lemma ebe_loop_tracks:
  assumes "world_wf w" "valid_idx (fst w) ii" "bes \<noteq> []" "n = nat (until - t)" "0 < n"
  shows "\<exists>r. ebe_loop cfg config ii pid start bes until t w = Some r \<and>
    tracks_to w ii (ebe_turns_map cfg (world_sizes w) bes start n (particle_of (fst w) ii)) r"
  using assms
proof (induction n arbitrary: w t)
  case (Suc n)
  note w = Suc.prems(1,2)
  obtain v s c where v: "elements_map cfg (world_sizes w) bes (particle_of (fst w) ii) = (v, s, c)"
    by (metis surj_pair)
  obtain w1 where w1: "ebe_elements cfg config ii pid start t start bes w = (w1, s, c)"
    and step: "tracks_to w ii (if c then end_turn start v else v, s) (w1, s)"
    using ebe_elements_tracks [OF w Suc.prems(3) v] by blast
  note keeps = tracks_to_keeps [OF step, unfolded fst_conv snd_conv]
  have wf1: "world_wf w1" "valid_idx (fst w1) ii" and view1: "particle_of (fst w1) ii = (if c then end_turn start v else v)"
    using keeps w tracks_to_self [OF step w(2)] by simp_all
  have n: "n = nat (until - (t + 1))" using Suc.prems(4) by simp
  have loop: "ebe_loop cfg config ii pid start bes until t w =
      (if c \<and> 0 < n then ebe_loop cfg config ii pid start bes until (t + 1) w1 else Some (w1, s))"
    using n by (subst ebe_loop.simps) (simp add: w1)
  show ?case
  proof (cases "c \<and> 0 < n")
    case True
    then obtain r where "ebe_loop cfg config ii pid start bes until (t + 1) w1 = Some r"
      "tracks_to w1 ii (ebe_turns_map cfg (world_sizes w) bes start n (end_turn start v)) r"
      using Suc.IH [OF wf1 Suc.prems(3) n] by (auto simp: keeps view1)
    then show ?thesis
      using True tracks_to_trans [OF step, unfolded fst_conv] by (simp add: loop v)
  next
    case False
    then show ?thesis
      using step elements_map_end(5) [OF v] by (intro exI [of _ "(w1, s)"]) (auto simp: loop v)
  qed
qed simp

lemma ebe_tracks:
  assumes w: "world_wf w" "valid_idx (fst w) ii"
  shows "\<exists>r. Track_particle_element_by_element_until_turn_objs cfg w ii config bes until = Some r \<and>
    tracks_to w ii (ebe_map cfg config bes until (world_sizes w) (particle_of (fst w) ii)) r"
proof -
  define v where "v = particle_of (fst w) ii"
  have views: "Particles_get_at_turn_value (fst w) ii = pv_at_turn v"
    "Particles_get_at_element_id_value (fst w) ii = pv_at_element_id v"
    "Particles_get_particle_id_value (fst w) ii = pv_particle_id v"
    by (simp_all add: v_def particle_simps)
  define go where "go = (bes \<noteq> [] \<and> pv_at_turn v < until \<and> 0 \<le> pv_at_turn v \<and> 0 \<le> pv_at_element_id v \<and>
    0 \<le> pv_particle_id v)"
  note defs = Track_particle_element_by_element_until_turn_objs_def ebe_map_def Let_def views
  consider (none) "ebe_out_store_addr config = 0" | (stop) "ebe_out_store_addr config \<noteq> 0" "\<not> go"
    | (go) "ebe_out_store_addr config \<noteq> 0" go by blast
  then show ?thesis
  proof cases
    case none
    then show ?thesis using until_turn_tracks [OF w] by (simp add: defs)
  next
    case stop
    then have "Track_particle_element_by_element_until_turn_objs cfg w ii config bes until = Some (w, 0)"
      "ebe_map cfg config bes until (world_sizes w) v = (v, 0)"
      by (auto simp: defs go_def)
    then show ?thesis using tracks_to_refl [OF w(1), of ii 0] by (simp flip: v_def)
  next
    case go
    then have b: "bes \<noteq> []" "0 < nat (until - pv_at_turn v)" by (simp_all add: go_def)
    have "Track_particle_element_by_element_until_turn_objs cfg w ii config bes until =
        ebe_loop cfg config ii (pv_particle_id v) (pv_at_element_id v) bes until (pv_at_turn v) w"
      "ebe_map cfg config bes until (world_sizes w) v =
        ebe_turns_map cfg (world_sizes w) bes (pv_at_element_id v) (nat (until - pv_at_turn v)) v"
      using go by (simp_all add: defs go_def)
    then show ?thesis
      using ebe_loop_tracks [OF w b(1) refl b(2)] by (simp flip: v_def)
  qed
qed

interpretation ebe: tracker
    "\<lambda>w ii. Track_particle_element_by_element_until_turn_objs cfg w ii config bes until"
    "ebe_map cfg config bes until" for cfg config bes until
  by unfold_locales (rule ebe_tracks)

end
