(* ===== verification/Track_Results.thy ===== *)
theory Track_Results
  imports Track
begin

section \<open>What tracking does\<close>

text \<open>
  Properties of the tracking loops: they end, reach the turn they are asked for, can be cut into pieces
  along turns and along the lattice, and treat every particle on its own; element by element output holds
  the state of every particle in front of every element.
\<close>

subsection \<open>Alive and lost\<close>

text \<open>The state of a particle is 1 while it is tracked and 0 when it is lost.\<close>

lemma bit_and_state: "(s :: int) \<in> {0, 1} \<Longrightarrow> s AND int_of_bool b \<in> {0, 1}"
  by (auto simp: int_of_bool_def)

named_theorems keeps_state

lemma keeps_state_energy [keeps_state]:
  "pv_state (energy_map dE v) = pv_state v" "pv_state (delta_map d v) = pv_state v"
  by (simp_all add: energy_map_def delta_map_def Let_def)

lemma keeps_state_maps [keeps_state]:
  "pv_state (drift_map len v) = pv_state v" "pv_state (drift_exact_map len v) = pv_state v"
  "pv_state (xy_shift_map xy v) = pv_state v" "pv_state (srotation_map sr v) = pv_state v"
  "pv_state (dipedge_map dp v) = pv_state v" "pv_state (multipole_map mp v) = pv_state v"
  "pv_state (bb4d_map b4 v) = pv_state v" "pv_state (sc_coasting_map scc v) = pv_state v"
  "pv_state (sc_qgauss_map scq v) = pv_state v" "pv_state (sc_interpolated_map sci v) = pv_state v"
  by (simp_all add: drift_map_def drift_exact_map_def xy_shift_map_def srotation_map_def dipedge_map_def
      multipole_map_def bb4d_map_def sc_coasting_map_def sc_qgauss_map_def sc_interpolated_map_def
      field_kick_def Let_def case_prod_beta)

lemma keeps_state_energy_maps [keeps_state]:
  "pv_state (cavity_map cav v) = pv_state v" "pv_state (rf_multipole_map rf v) = pv_state v"
  "pv_state (bb6d_map b6 v) = pv_state v" "pv_state (tricub_map u tri v) = pv_state v"
  by (simp_all add: cavity_map_def rf_multipole_map_def bb6d_map_def bb6d_leave_def tricub_map_def
      tricub_kick_map_def keeps_state Let_def case_prod_beta)

lemma element_map_state:
  assumes "pv_state v \<in> {0, 1}"
  shows "pv_state (fst (element_map cfg sizes be v)) \<in> {0, 1}"
proof -
  have limit: "pv_state (limit_map inside v') \<in> {0, 1}" if "pv_state v' = pv_state v" for inside v'
    using bit_and_state [of "pv_state v'"] assms that by (simp add: limit_map_def)
  show ?thesis
    using assms limit
    by (cases be) (auto simp: element_map_def element_map_check_def drift_kind_map_def if_enabled_map_def
        monitor_map_def keeps_state Let_def)
qed

lemma elements_map_stop:
  assumes "elements_map cfg sizes bes v = (v', s, False)" "pv_state v = 1"
  shows "pv_state v' \<in> {0, 1}" "s = 0 \<Longrightarrow> pv_state v' = 0"
    and "\<exists>k<length bes. pv_at_element_id v' = pv_at_element_id v + int k"
proof -
  have "pv_state v' \<in> {0, 1} \<and> (s = 0 \<longrightarrow> pv_state v' = 0) \<and>
      (\<exists>k<length bes. pv_at_element_id v' = pv_at_element_id v + int k)"
    using assms
  proof (induction bes arbitrary: v)
    case (Cons be bes)
    obtain w t where w: "element_map cfg sizes be v = (w, t)" by (metis surj_pair)
    have place: "pv_at_element_id w = pv_at_element_id v" and state: "pv_state w \<in> {0, 1}"
      using same_place_element [of v cfg sizes be] element_map_state [of v cfg sizes be] Cons.prems(2)
      by (simp_all add: w same_place_def)
    show ?case
    proof (cases "t = 0 \<and> pv_state w = 1")
      case True
      then have "elements_map cfg sizes bes (w\<lparr>pv_at_element_id := pv_at_element_id w + 1\<rparr>) = (v', s, False)"
        using Cons.prems(1) by (simp add: w)
      from Cons.IH [OF this] obtain k where "pv_state v' \<in> {0, 1}" "s = 0 \<longrightarrow> pv_state v' = 0" "k < length bes"
        "pv_at_element_id v' = pv_at_element_id v + int (Suc k)"
        using True place by auto
      then show ?thesis by (intro conjI exI [of _ "Suc k"]) simp_all
    next
      case False
      then show ?thesis using Cons.prems(1) state place
        by (intro conjI exI [of _ 0]) (auto simp: w split: if_splits)
    qed
  qed simp
  then show "pv_state v' \<in> {0, 1}" "s = 0 \<Longrightarrow> pv_state v' = 0"
    "\<exists>k<length bes. pv_at_element_id v' = pv_at_element_id v + int k" by auto
qed

subsection \<open>Turns\<close>

lemma end_turn_simps [simp]:
  "pv_at_turn (end_turn start v) = pv_at_turn v + 1" "pv_at_element_id (end_turn start v) = start"
  "pv_state (end_turn start v) = pv_state v" "pv_s (end_turn start v) = 0"
  "pv_particle_id (end_turn start v) = pv_particle_id v"
  by (simp_all add: end_turn_def)

text \<open>Either all turns are completed, or the particle is lost in one of them, at an element of the lattice.\<close>

lemma turns_map_result:
  assumes "turns_map cfg sizes bes start n v = (v', s)" "pv_state v = 1" "pv_at_element_id v = start"
  shows "(pv_state v' = 1 \<and> s = 0 \<and> pv_at_turn v' = pv_at_turn v + int n \<and> pv_at_element_id v' = start \<and>
      (0 < n \<longrightarrow> pv_s v' = 0)) \<or>
    (pv_state v' = 0 \<and> pv_at_turn v' < pv_at_turn v + int n \<and>
      (\<exists>k<length bes. pv_at_element_id v' = start + int k))"
  using assms
proof (induction n arbitrary: v)
  case (Suc n)
  obtain u t c where u: "elements_map cfg sizes bes v = (u, t, c)" by (metis surj_pair)
  note ends = elements_map_end [OF u]
  show ?case
  proof (cases c)
    case True
    then have rec: "turns_map cfg sizes bes start n (end_turn start u) = (v', s)"
      using Suc.prems(1) by (simp add: u)
    from Suc.IH [OF this] show ?thesis
      using ends True Suc.prems(2) rec by (cases "n = 0") auto
  next
    case False
    then show ?thesis
      using Suc.prems ends elements_map_stop(3) [of cfg sizes bes v u t] by (auto simp: u)
  qed
qed simp

lemma turns_map_add:
  "turns_map cfg sizes bes start (m + n) v =
    (case turns_map cfg sizes bes start m v of (v', s) \<Rightarrow>
       if s = 0 \<and> pv_state v' = 1 then turns_map cfg sizes bes start n v' else (v', s))"
  if "pv_state v = 1"
  using that
proof (induction m arbitrary: v)
  case (Suc m)
  obtain u t c where u: "elements_map cfg sizes bes v = (u, t, c)" by (metis surj_pair)
  then have "c \<Longrightarrow> pv_state (end_turn start u) = 1" using elements_map_end(4) [OF u] Suc.prems by simp
  then show ?case using Suc.IH [of "end_turn start u"] by (cases c) (simp_all add: u)
qed simp

lemma until_turn_map_split:
  assumes "t1 \<le> t2"
  shows "until_turn_map cfg bes t2 sizes v =
    (let (v1, s1) = until_turn_map cfg bes t1 sizes v; (v2, s2) = until_turn_map cfg bes t2 sizes v1
     in (v2, s1 OR s2))"
proof (cases "bes \<noteq> [] \<and> pv_at_turn v < t1 \<and> pv_state v = 1")
  case True
  define start m n where "start = pv_at_element_id v" and "m = nat (t1 - pv_at_turn v)" and "n = nat (t2 - t1)"
  obtain v1 s1 where v1: "turns_map cfg sizes bes start m v = (v1, s1)" by (metis surj_pair)
  have mn: "nat (t2 - pv_at_turn v) = m + n" unfolding m_def n_def using assms True by linarith
  have r1: "until_turn_map cfg bes t1 sizes v = (v1, s1)"
    using True v1 by (simp add: until_turn_map_def start_def m_def)
  have r: "until_turn_map cfg bes t2 sizes v = turns_map cfg sizes bes start (m + n) v"
    using True assms by (simp add: until_turn_map_def start_def flip: mn)
  have int_m: "pv_at_turn v + int m = t1" using True by (simp add: m_def)
  have cases1: "(pv_state v1 = 1 \<and> s1 = 0 \<and> pv_at_turn v1 = t1 \<and> pv_at_element_id v1 = start) \<or> pv_state v1 = 0"
    using turns_map_result [OF v1] True start_def int_m by auto
  then show ?thesis
  proof
    assume alive: "pv_state v1 = 1 \<and> s1 = 0 \<and> pv_at_turn v1 = t1 \<and> pv_at_element_id v1 = start"
    then have "until_turn_map cfg bes t2 sizes v1 = turns_map cfg sizes bes start n v1"
      using True assms by (auto simp: until_turn_map_def n_def)
    then show ?thesis
      unfolding r r1 using alive True turns_map_add [of v cfg sizes bes start m n]
      by (simp add: v1 case_prod_beta Let_def)
  next
    assume lost: "pv_state v1 = 0"
    then have "until_turn_map cfg bes t2 sizes v1 = (v1, 0)" using True by (simp add: until_turn_map_def)
    then show ?thesis
      unfolding r r1 using lost True turns_map_add [of v cfg sizes bes start m n] by (simp add: v1)
  qed
next
  case False
  then show ?thesis
    using assms by (auto simp: until_turn_map_def Let_def)
qed

subsection \<open>Until a turn\<close>

text \<open>A world to try the properties on: three reference particles and empty stores, and a lattice with an
  aperture between two drifts.\<close>

definition sample_world :: "i64 \<Rightarrow> world" where
  "sample_world n = (reference_particles 3, \<lambda>_. reference_particles n)"

definition sample_track_config :: track_config where
  "sample_track_config = \<lparr>check_at_drift = Aperture_Never, track_tricub = Map_Undefined,
     track_beambeam4d = Map_Undefined, track_beambeam6d = Map_Undefined, track_spacecharge = Map_Undefined,
     uninit_coefs = []\<rparr>"

definition sample_lattice :: "beam_element list" where
  "sample_lattice = [BE_Drift \<lparr>Drift_length = 1\<rparr>, BE_LimitRect \<lparr>LimitRect_min_x = - 1, LimitRect_max_x = 1,
     LimitRect_min_y = - 1, LimitRect_max_y = 1\<rparr>, BE_Drift \<lparr>Drift_length = 2\<rparr>]"

lemma sample_world_simps [simp]:
  "0 \<le> n \<Longrightarrow> world_wf (sample_world n)" "fst (sample_world n) = reference_particles 3"
  "store_sizes (snd (sample_world n)) addr = n" "num_particles (snd (sample_world n) addr) = n"
  by (simp_all add: sample_world_def world_wf_def store_wf_def store_sizes_def)

text \<open>The loop over all particles visits the valid indices once.\<close>

lemma all_indices:
  "\<forall>ii\<in>set [0..num_particles p - 1]. valid_idx p ii" "distinct [0..num_particles p - 1]"
  "0 \<le> jj \<Longrightarrow> jj \<in> set [0..num_particles p - 1] \<longleftrightarrow> valid_idx p jj"
  by (auto simp: valid_idx_def)

lemma fold_or_split:
  "fold (\<lambda>i s. s OR (f i OR g i)) iis (a OR b) = fold (\<lambda>i s. s OR f i) iis a OR fold (\<lambda>i s. s OR g i) iis (b :: int)"
proof (induction iis arbitrary: a b)
  case (Cons i iis)
  have "(a OR b) OR (f i OR g i) = (a OR f i) OR (b OR g i)" by (simp add: ac_simps)
  then show ?case using Cons.IH [of "a OR f i" "b OR g i"] by simp
qed simp

lemma all_particles_run:
  assumes "tracker f g" "world_wf w"
  shows "\<exists>w' s'. track_indices f [0..num_particles (fst w) - 1] w s = Some (w', s') \<and> world_wf w' \<and>
    num_particles (fst w') = num_particles (fst w) \<and> world_sizes w' = world_sizes w \<and>
    s' = fold (\<lambda>ii s. s OR snd (g (world_sizes w) (particle_of (fst w) ii))) [0..num_particles (fst w) - 1] s \<and>
    (\<forall>jj. valid_idx (fst w) jj \<longrightarrow>
      particle_of (fst w') jj = fst (g (world_sizes w) (particle_of (fst w) jj)))"
proof -
  obtain w' s' where r: "track_indices f [0..num_particles (fst w) - 1] w s = Some (w', s')" "world_wf w'"
    "num_particles (fst w') = num_particles (fst w)" "world_sizes w' = world_sizes w"
    "s' = fold (\<lambda>ii s. s OR snd (g (world_sizes w) (particle_of (fst w) ii))) [0..num_particles (fst w) - 1] s"
    "\<forall>jj\<ge>0. particle_of (fst w') jj = (if jj \<in> set [0..num_particles (fst w) - 1]
       then fst (g (world_sizes w) (particle_of (fst w) jj)) else particle_of (fst w) jj)"
    using tracker.run [OF assms all_indices(1,2), of s] by blast
  show ?thesis
    by (intro exI [of _ w'] exI [of _ s'] conjI r(1-5)) (simp add: r(6) valid_idx_def)
qed

lemma until_turn_run:
  assumes "world_wf w"
  shows "\<exists>w' s'. Track_all_particles_until_turn cfg w bes until = Some (w', s') \<and> world_wf w' \<and>
    num_particles (fst w') = num_particles (fst w) \<and> world_sizes w' = world_sizes w \<and>
    s' = fold (\<lambda>ii s. s OR snd (until_turn_map cfg bes until (world_sizes w) (particle_of (fst w) ii)))
      [0..num_particles (fst w) - 1] 0 \<and>
    (\<forall>jj. valid_idx (fst w) jj \<longrightarrow>
      particle_of (fst w') jj = fst (until_turn_map cfg bes until (world_sizes w) (particle_of (fst w) jj)))"
  unfolding Track_all_particles_until_turn_def Particles_get_num_of_particles_def
  by (rule all_particles_run [OF until_turn.tracker_axioms assms])

text \<open>C1: \<open>NS(Track_all_particles_until_turn)\<close> returns for every set of particles and every lattice that is
  not empty. Every particle that is tracked and has not reached the turn yet then is either still tracked,
  at exactly that turn, at the element where it started and with the path length reset, or it is lost in an
  earlier turn, at an element of the lattice; all other particles are left as they are.\<close>

theorem until_turn_reaches_turn:
  assumes "world_wf w" "bes \<noteq> []"
  shows "\<exists>w' s. Track_all_particles_until_turn cfg w bes until = Some (w', s) \<and>
    num_particles (fst w') = num_particles (fst w) \<and>
    (\<forall>jj. valid_idx (fst w) jj \<longrightarrow>
      (let v = particle_of (fst w) jj; v' = particle_of (fst w') jj in
        if pv_state v = 1 \<and> pv_at_turn v < until
        then (pv_state v' = 1 \<and> pv_at_turn v' = until \<and> pv_at_element_id v' = pv_at_element_id v \<and> pv_s v' = 0) \<or>
          (pv_state v' = 0 \<and> pv_at_turn v' < until \<and>
            (\<exists>k<length bes. pv_at_element_id v' = pv_at_element_id v + int k))
        else v' = v))"
proof -
  obtain w' s where r: "Track_all_particles_until_turn cfg w bes until = Some (w', s)"
    "num_particles (fst w') = num_particles (fst w)"
    "\<forall>jj. valid_idx (fst w) jj \<longrightarrow>
      particle_of (fst w') jj = fst (until_turn_map cfg bes until (world_sizes w) (particle_of (fst w) jj))"
    using until_turn_run [OF assms(1), of cfg bes until] by blast
  have "let v' = particle_of (fst w') jj in
      if pv_state v = 1 \<and> pv_at_turn v < until
      then (pv_state v' = 1 \<and> pv_at_turn v' = until \<and> pv_at_element_id v' = pv_at_element_id v \<and> pv_s v' = 0) \<or>
        (pv_state v' = 0 \<and> pv_at_turn v' < until \<and>
          (\<exists>k<length bes. pv_at_element_id v' = pv_at_element_id v + int k))
      else v' = v"
    if jj: "valid_idx (fst w) jj" and v: "v = particle_of (fst w) jj" for jj v
  proof (cases "pv_state v = 1 \<and> pv_at_turn v < until")
    case True
    obtain v' t where v': "turns_map cfg (world_sizes w) bes (pv_at_element_id v) (nat (until - pv_at_turn v)) v = (v', t)"
      by (metis surj_pair)
    then have "particle_of (fst w') jj = v'"
      using r(3) jj True assms(2) by (simp add: until_turn_map_def flip: v)
    then show ?thesis using turns_map_result [OF v'] True by (auto simp: Let_def)
  next
    case False
    then show ?thesis using r(3) jj assms(2) by (auto simp: until_turn_map_def Let_def simp flip: v)
  qed
  then show ?thesis using r(1,2) by (intro exI [of _ w'] exI [of _ s]) (simp add: Let_def)
qed

theorem until_turn_reaches_turn_witness:
  "\<exists>w' s. Track_all_particles_until_turn sample_track_config (sample_world 0) sample_lattice 7 = Some (w', s) \<and>
     pv_at_turn (particle_of (fst w') 2) \<le> 7"
proof -
  have "world_wf (sample_world 0)" "sample_lattice \<noteq> []" by (simp_all add: sample_lattice_def)
  from until_turn_reaches_turn [OF this, of sample_track_config 7] show ?thesis
    by (elim exE conjE) (intro exI conjI, assumption, drule spec [of _ 2],
      auto simp: Let_def reference_particle_def)
qed

text \<open>C2: Tracking all particles until a turn and from there until a later turn does the same to every
  particle as tracking them until the later turn at once, and the status of the whole is the status of the
  parts combined: simulations can be stopped and continued at any turn.\<close>

theorem until_turn_splits:
  assumes "world_wf w" "t1 \<le> t2"
  shows "\<exists>w1 s1 w2 s2 st. Track_all_particles_until_turn cfg w bes t1 = Some (w1, s1) \<and>
    Track_all_particles_until_turn cfg w1 bes t2 = Some (w2, s2) \<and>
    Track_all_particles_until_turn cfg w bes t2 = Some ((fst w2, st), s1 OR s2)"
proof -
  obtain w1 s1 where r1: "Track_all_particles_until_turn cfg w bes t1 = Some (w1, s1)" "world_wf w1"
    "num_particles (fst w1) = num_particles (fst w)" "world_sizes w1 = world_sizes w"
    "s1 = fold (\<lambda>ii s. s OR snd (until_turn_map cfg bes t1 (world_sizes w) (particle_of (fst w) ii)))
      [0..num_particles (fst w) - 1] 0"
    "\<forall>jj. valid_idx (fst w) jj \<longrightarrow>
      particle_of (fst w1) jj = fst (until_turn_map cfg bes t1 (world_sizes w) (particle_of (fst w) jj))"
    using until_turn_run [OF assms(1), of cfg bes t1] by blast
  obtain w2 s2 where r2: "Track_all_particles_until_turn cfg w1 bes t2 = Some (w2, s2)" "world_wf w2"
    "num_particles (fst w2) = num_particles (fst w1)" "world_sizes w2 = world_sizes w1"
    "s2 = fold (\<lambda>ii s. s OR snd (until_turn_map cfg bes t2 (world_sizes w1) (particle_of (fst w1) ii)))
      [0..num_particles (fst w1) - 1] 0"
    "\<forall>jj. valid_idx (fst w1) jj \<longrightarrow>
      particle_of (fst w2) jj = fst (until_turn_map cfg bes t2 (world_sizes w1) (particle_of (fst w1) jj))"
    using until_turn_run [OF r1(2), of cfg bes t2] by blast
  obtain w3 s3 where r3: "Track_all_particles_until_turn cfg w bes t2 = Some (w3, s3)" "world_wf w3"
    "num_particles (fst w3) = num_particles (fst w)" "world_sizes w3 = world_sizes w"
    "s3 = fold (\<lambda>ii s. s OR snd (until_turn_map cfg bes t2 (world_sizes w) (particle_of (fst w) ii)))
      [0..num_particles (fst w) - 1] 0"
    "\<forall>jj. valid_idx (fst w) jj \<longrightarrow>
      particle_of (fst w3) jj = fst (until_turn_map cfg bes t2 (world_sizes w) (particle_of (fst w) jj))"
    using until_turn_run [OF assms(1), of cfg bes t2] by blast
  have split: "fst (until_turn_map cfg bes t2 sizes v) = fst (until_turn_map cfg bes t2 sizes (fst (until_turn_map cfg bes t1 sizes v)))"
    "snd (until_turn_map cfg bes t2 sizes v) = snd (until_turn_map cfg bes t1 sizes v) OR
      snd (until_turn_map cfg bes t2 sizes (fst (until_turn_map cfg bes t1 sizes v)))" for sizes v
    using until_turn_map_split [OF assms(2), of cfg bes sizes v] by (simp_all add: case_prod_beta Let_def)
  have view: "valid_idx (fst w1) jj \<longleftrightarrow> valid_idx (fst w) jj" for jj by (simp add: valid_idx_def r1(3))
  have "fst w3 = fst w2"
  proof (rule particles_eqI)
    show "particles_wf (fst w3)" "particles_wf (fst w2)" "num_particles (fst w3) = num_particles (fst w2)"
      using r2(2) r3(2) by (simp_all add: world_wf_def r1(3) r2(3) r3(3))
    fix jj assume "valid_idx (fst w3) jj"
    then have "valid_idx (fst w) jj" "valid_idx (fst w1) jj" by (simp_all add: valid_idx_def r1(3) r3(3))
    then show "particle_of (fst w3) jj = particle_of (fst w2) jj"
      using r3(6) r2(6) r1(6) split(1) [of "world_sizes w" "particle_of (fst w) jj"] by (simp add: r1(4))
  qed
  moreover have "s3 = s1 OR s2"
  proof -
    have "s2 = fold (\<lambda>ii s. s OR snd (until_turn_map cfg bes t2 (world_sizes w)
        (fst (until_turn_map cfg bes t1 (world_sizes w) (particle_of (fst w) ii))))) [0..num_particles (fst w) - 1] 0"
      unfolding r1(3,4) r2(5) by (rule fold_cong) (auto simp: r1(6) valid_idx_def)
    moreover have "s3 = fold (\<lambda>ii s. s OR (snd (until_turn_map cfg bes t1 (world_sizes w) (particle_of (fst w) ii)) OR
        snd (until_turn_map cfg bes t2 (world_sizes w)
          (fst (until_turn_map cfg bes t1 (world_sizes w) (particle_of (fst w) ii))))))
        [0..num_particles (fst w) - 1] 0"
      unfolding r3(5) by (rule fold_cong) (simp_all add: split(2) [symmetric])
    ultimately show ?thesis
      unfolding r1(5) using fold_or_split [of _ _ _ 0 0] by (simp only: or.right_neutral)
  qed
  ultimately show ?thesis
    using r1(1) r2(1) r3(1)
    by (intro exI [of _ w1] exI [of _ s1] exI [of _ w2] exI [of _ s2] exI [of _ "snd w3"]) (metis prod.collapse)
qed

theorem until_turn_splits_witness:
  "\<exists>w1 s1 w2 s2 st.
     Track_all_particles_until_turn sample_track_config (sample_world 0) sample_lattice 3 = Some (w1, s1) \<and>
     Track_all_particles_until_turn sample_track_config w1 sample_lattice 7 = Some (w2, s2) \<and>
     Track_all_particles_until_turn sample_track_config (sample_world 0) sample_lattice 7 =
       Some ((fst w2, st), s1 OR s2)"
  by (rule until_turn_splits) simp_all

subsection \<open>Along the lattice\<close>

lemma track_elements_append:
  "track_elements cfg idx (l1 @ l2) w =
    (case track_elements cfg idx l1 w of (w', s, continue) \<Rightarrow>
       if continue then track_elements cfg idx l2 w' else (w', s, False))"
  by (induction l1 arbitrary: w) (auto simp: Let_def split: prod.splits)

lemma not_lost_increment [simp]:
  "Particles_is_not_lost_value (fst (set_p w (\<lambda>p. Particles_increment_at_element_id_value p idx))) idx =
   Particles_is_not_lost_value (fst w) idx"
  by (simp add: set_p_def particle_ops Let_def Particles_get_state_value_def
      Particles_set_at_element_id_value_def)

lemma track_elements_end:
  "track_elements cfg idx bes w = (w', s, continue) \<Longrightarrow> Particles_is_not_lost_value (fst w) idx \<Longrightarrow>
   (if continue then s = 0 \<and> Particles_is_not_lost_value (fst w') idx
    else s \<noteq> 0 \<or> \<not> Particles_is_not_lost_value (fst w') idx)"
proof (induction bes arbitrary: w)
  case (Cons be bes)
  obtain w1 s1 where w1: "Track_particle_beam_element_obj_dispatcher cfg w idx be = (w1, s1)" by (metis surj_pair)
  then show ?case
    using Cons.prems Cons.IH [of "set_p w1 (\<lambda>p. Particles_increment_at_element_id_value p idx)"]
    by (cases "s1 = 0 \<and> Particles_is_not_lost_value (fst w1) idx") (auto split: if_splits)
qed simp

lemma line_objs_append:
  "Track_particle_line_objs cfg w ii (l1 @ l2) finish =
    (case Track_particle_line_objs cfg w ii l1 False of (w1, s1) \<Rightarrow>
       if s1 = 0 then Track_particle_line_objs cfg w1 ii l2 finish else (w1, s1))"
proof (cases "Particles_is_not_lost_value (fst w) ii")
  case True
  obtain w1 s1 c where w1: "track_elements cfg ii l1 w = (w1, s1, c)" by (metis surj_pair)
  then show ?thesis
    using track_elements_end [OF w1 True] True
    by (cases "l2 = []"; cases "l1 = []"; cases c)
      (auto simp: Track_particle_line_objs_def track_elements_append Let_def)
qed (simp add: Track_particle_line_objs_def)

lemma line_of_append:
  "a \<le> b \<Longrightarrow> b \<le> c \<Longrightarrow> line_of bes a c = line_of bes a b @ line_of bes b c"
  using take_add [of "b - a" "c - b" "drop a bes"] by (simp add: line_of_def)

text \<open>Tracking a particle along a part of the lattice can be cut at any element in between: the part from
  \<open>a\<close> to \<open>c\<close> does the same, to the particle, the output and the status, as the part from \<open>a\<close> to \<open>b\<close>
  followed, unless that fails, by the part from \<open>b\<close> to \<open>c\<close>; only the last part finishes the turn.\<close>

theorem line_splits:
  assumes "a \<le> b" "b \<le> c"
  shows "Track_particle_line cfg w ii bes a c finish =
    (case Track_particle_line cfg w ii bes a b False of (w1, s1) \<Rightarrow>
       if s1 = 0 then Track_particle_line cfg w1 ii bes b c finish else (w1, s1))"
  unfolding Track_particle_line_def line_of_append [OF assms] by (rule line_objs_append)

theorem line_splits_witness:
  "Track_particle_line sample_track_config (sample_world 0) 1 sample_lattice 0 3 True =
    (case Track_particle_line sample_track_config (sample_world 0) 1 sample_lattice 0 2 False of (w1, s1) \<Rightarrow>
       if s1 = 0 then Track_particle_line sample_track_config w1 1 sample_lattice 2 3 True else (w1, s1))"
  by (rule line_splits) simp_all

text \<open>Tracking a particle along the whole lattice and finishing the turn is the same as tracking it until
  the next turn, for a particle that is tracked and starts at element 0, unless a tracking function fails.\<close>

theorem whole_line_is_a_turn:
  assumes w: "world_wf w" "valid_idx (fst w) ii" and bes: "bes \<noteq> []"
    and alive: "Particles_is_not_lost_value (fst w) ii" "Particles_get_at_element_id_value (fst w) ii = 0"
    and ok: "Track_particle_line cfg w ii bes 0 (length bes) True = (w', 0)"
  shows "Track_particle_until_turn_objs cfg w ii bes (Particles_get_at_turn_value (fst w) ii + 1) = Some (w', 0)"
proof -
  define v where "v = particle_of (fst w) ii"
  obtain v1 s1 c where v1: "elements_map cfg (world_sizes w) bes v = (v1, s1, c)" by (metis surj_pair)
  obtain w1 where w1: "track_elements cfg ii bes w = (w1, s1, c)" and step: "tracks_to w ii (v1, s1) (w1, s1)"
    using track_elements_tracks [OF w v1 [unfolded v_def]] by blast
  note keeps = tracks_to_keeps [OF step, unfolded fst_conv snd_conv]
  have wf1: "world_wf w1" "valid_idx (fst w1) ii" and view1: "particle_of (fst w1) ii = v1"
    using keeps w tracks_to_self [OF step w(2)] by simp_all
  have line: "Track_particle_line cfg w ii bes 0 (length bes) True =
      (if s1 = 0 \<and> c then set_p w1 (finish_turn_of 0 ii) else w1, s1)"
    using track_elements_end [OF w1 alive(1)] bes alive(1)
    by (cases c; cases "s1 = 0") (simp_all add: Track_particle_line_def line_of_def Track_particle_line_objs_def w1)
  have turn1: "Particles_get_at_turn_value (fst w) ii = pv_at_turn v" "pv_at_turn v1 = pv_at_turn v"
    using elements_map_end(1) [OF v1] by (simp_all add: v_def particle_simps)
  have turn2: "Particles_get_at_turn_value (fst (set_p w1 (finish_turn_of 0 ii))) ii = pv_at_turn v1 + 1"
    using tracks_to_self [OF set_p_tracks [OF end_turn_kernel(1) wf1, of 0 s1] wf1(2)] view1
    by (simp add: particle_simps)
  have loop: "until_turn_loop cfg ii bes 0 (pv_at_turn v + 1) w =
      Some (if c then set_p w1 (finish_turn_of 0 ii) else set_p w1 (\<lambda>p. Particles_mark_as_lost_value p ii), s1)"
    by (subst until_turn_loop.simps) (simp add: w1 turn2 turn1 Let_def)
  have "set_p w1 (\<lambda>p. Particles_mark_as_lost_value p ii) = w1" if "\<not> c" "s1 = 0"
  proof -
    have state: "pv_state v1 = 0"
      using elements_map_stop(2) [of cfg "world_sizes w" bes v v1 s1] v1 that alive(1)
      by (simp add: v_def is_not_lost_view)
    have "Particles_mark_as_lost_value (fst w1) ii = fst w1"
      using wf1 state view1 mark_as_lost.kernel_wf mark_as_lost.kernel_num mark_as_lost.kernel_view
      by (intro particles_eqI) (auto simp: world_wf_def valid_idx_def)
    then show ?thesis by (simp add: set_p_def)
  qed
  then show ?thesis
    using line ok bes alive by (auto simp: Track_particle_until_turn_objs_def turn1 loop)
qed

theorem whole_line_is_a_turn_witness:
  "Track_particle_until_turn_objs sample_track_config (sample_world 0) 1 sample_lattice 1 =
     Some (fst (Track_particle_line sample_track_config (sample_world 0) 1 sample_lattice 0 3 True), 0)"
proof -
  have len: "length sample_lattice = 3" by (simp add: sample_lattice_def)
  have "snd (Track_particle_line sample_track_config (sample_world 0) 1 sample_lattice 0 (length sample_lattice) True) = 0"
    using tracks_to_keeps(5) [OF line_tracks [of "sample_world 0" 1 sample_track_config sample_lattice True]]
    by (simp add: Track_particle_line_def line_of_def line_map_def sample_lattice_def element_map_def
        element_map_check_def Let_def case_prod_beta sample_track_config_def)
  then have "Track_particle_line sample_track_config (sample_world 0) 1 sample_lattice 0 (length sample_lattice) True =
      (fst (Track_particle_line sample_track_config (sample_world 0) 1 sample_lattice 0 3 True), 0)"
    unfolding len by (metis prod.collapse)
  from whole_line_is_a_turn [OF _ _ _ _ _ this] show ?thesis
    by (simp add: particle_simps reference_particle_def sample_lattice_def)
qed

end
