(* ===== verification/Track_Snapshots.thy ===== *)
theory Track_Snapshots
  imports Track_Results
begin

section \<open>Element by element output\<close>

text \<open>
  What element by element tracking does to the particles, and what it leaves in the output. The abstract
  description of the output is a log: the sequence of keys (particle id, element id, turn) with the particle
  in front of that element. The tracking loops refine it: the output holds what replaying the log leaves,
  and by the index interface \<open>ebe_store\<close> every entry of the log can be read back.
\<close>

subsection \<open>The particles\<close>

lemma ebe_turns_map_turns:
  "pv_state v = 1 \<Longrightarrow> turns_map cfg sizes bes start n v =
    (let (u, s) = ebe_turns_map cfg sizes bes start n v in (if s = 0 then u else u\<lparr>pv_state := 0\<rparr>, s))"
proof (induction n arbitrary: v)
  case (Suc n)
  obtain u s c where u: "elements_map cfg sizes bes v = (u, s, c)" by (metis surj_pair)
  show ?case
  proof (cases c)
    case True
    then have "pv_state (end_turn start u) = 1" using elements_map_end(4) [OF u] Suc.prems by simp
    from Suc.IH [OF this] show ?thesis using True by (simp add: u)
  next
    case False
    then have "u\<lparr>pv_state := 0\<rparr> = u" if "s = 0"
      using elements_map_stop(2) [of cfg sizes bes v u s] u Suc.prems that by simp
    then show ?thesis using False by (auto simp: u)
  qed
qed simp

lemma until_turn_map_failed:
  assumes "bes \<noteq> []" "until_turn_map cfg bes until sizes v = (u, s)" "s \<noteq> 0"
  shows "u\<lparr>pv_state := 0\<rparr> = u"
proof -
  have go: "pv_at_turn v < until" "pv_state v = 1" and u: "turns_map cfg sizes bes (pv_at_element_id v) (nat (until - pv_at_turn v)) v = (u, s)"
    using assms by (auto simp: until_turn_map_def split: if_splits)
  show ?thesis using turns_map_result [OF u go(2) refl] assms(3) by auto
qed

lemma ebe_map_until_turn:
  assumes "pv_state v = 1" "0 \<le> pv_at_turn v" "0 \<le> pv_at_element_id v" "0 \<le> pv_particle_id v" "bes \<noteq> []"
  shows "until_turn_map cfg bes until sizes v =
    (let (u, s) = ebe_map cfg config bes until sizes v in (if s = 0 then u else u\<lparr>pv_state := 0\<rparr>, s))"
proof (cases "ebe_out_store_addr config = 0")
  case True
  obtain u s where u: "until_turn_map cfg bes until sizes v = (u, s)" by (metis surj_pair)
  then show ?thesis using until_turn_map_failed [OF assms(5) u] True by (simp add: ebe_map_def)
next
  case False
  then show ?thesis using assms ebe_turns_map_turns [OF assms(1)] by (auto simp: ebe_map_def until_turn_map_def)
qed



subsection \<open>The log\<close>

type_synonym ebe_key = "i64 \<times> i64 \<times> i64"

fun element_log ::
    "track_config \<Rightarrow> (u64 \<Rightarrow> i64) \<Rightarrow> beam_element list \<Rightarrow> i64 \<Rightarrow> i64 \<Rightarrow> i64 \<Rightarrow> particle \<Rightarrow>
     (ebe_key \<times> particle) list" where
  "element_log cfg sizes [] pid t el v = []"
| "element_log cfg sizes (be # rest) pid t el v =
     ((pid, el, t), v) #
     (let (v, s) = element_map cfg sizes be v
      in if s = 0 \<and> pv_state v = 1
         then element_log cfg sizes rest pid t (el + 1) (v\<lparr>pv_at_element_id := pv_at_element_id v + 1\<rparr>)
         else [])"

fun turns_log ::
    "track_config \<Rightarrow> (u64 \<Rightarrow> i64) \<Rightarrow> beam_element list \<Rightarrow> i64 \<Rightarrow> i64 \<Rightarrow> nat \<Rightarrow> i64 \<Rightarrow> particle \<Rightarrow>
     (ebe_key \<times> particle) list" where
  "turns_log cfg sizes bes pid start 0 t v = []"
| "turns_log cfg sizes bes pid start (Suc n) t v =
     element_log cfg sizes bes pid t start v @
     (case elements_map cfg sizes bes v of (v, s, continue) \<Rightarrow>
        if continue then turns_log cfg sizes bes pid start n (t + 1) (end_turn start v) else [])"

definition ebe_log ::
    "track_config \<Rightarrow> beam_element list \<Rightarrow> i64 \<Rightarrow> (u64 \<Rightarrow> i64) \<Rightarrow> particle \<Rightarrow> (ebe_key \<times> particle) list" where
  "ebe_log cfg bes until sizes v =
     (if pv_at_turn v < until \<and> 0 \<le> pv_at_turn v \<and> 0 \<le> pv_at_element_id v \<and> 0 \<le> pv_particle_id v
      then turns_log cfg sizes bes (pv_particle_id v) (pv_at_element_id v) (nat (until - pv_at_turn v))
        (pv_at_turn v) v
      else [])"

text \<open>Replaying a log into an output of a given size.\<close>

definition record_log ::
    "ElemByElemConfig \<Rightarrow> i64 \<Rightarrow> (ebe_key \<times> particle) list \<Rightarrow> (i64 \<Rightarrow> particle) \<Rightarrow> i64 \<Rightarrow> particle" where
  "record_log config nn lg out =
     fold (\<lambda>(k, v) out. if 0 \<le> ebe_index config k \<and> ebe_index config k < nn
       then out(ebe_index config k := v) else out) lg out"

lemma record_log_simps [simp]:
  "record_log config nn [] out = out"
  "record_log config nn ((k, v) # lg) out = record_log config nn lg
     (if 0 \<le> ebe_index config k \<and> ebe_index config k < nn then out(ebe_index config k := v) else out)"
  "record_log config nn (lg @ lg') out = record_log config nn lg' (record_log config nn lg out)"
  by (simp_all add: record_log_def)

text \<open>Replaying only looks at positions where the outputs agree.\<close>

lemma record_log_cong:
  "\<forall>i\<ge>0. out i = out' i \<Longrightarrow> 0 \<le> i \<Longrightarrow> record_log config nn lg out i = record_log config nn lg out' i"
proof (induction lg arbitrary: out out')
  case (Cons e lg)
  obtain k v where e: "e = (k, v)" by (cases e)
  have "\<forall>i\<ge>0. (out(ebe_index config k := v)) i = (out'(ebe_index config k := v)) i"
    using Cons.prems(1) by simp
  from Cons.IH [OF this Cons.prems(2)] Cons.IH [OF Cons.prems(1,2)] show ?case
    by (simp add: e del: fun_upd_apply)
qed simp

text \<open>The particles at an address.\<close>

definition output_at :: "u64 \<Rightarrow> world \<Rightarrow> i64 \<Rightarrow> particle" where
  "output_at addr w i = particle_of (snd w addr) i"

text \<open>An element that may write to an address of its own accord.\<close>

fun writes_to :: "u64 \<Rightarrow> beam_element \<Rightarrow> bool" where
  "writes_to addr (BE_BeamMonitor m) \<longleftrightarrow> BeamMonitor_out_address m = addr"
| "writes_to addr _ \<longleftrightarrow> False"

lemma dispatcher_keeps_output:
  assumes "\<not> writes_to addr be"
  shows "snd (fst (Track_particle_beam_element_obj_dispatcher cfg w ii be)) addr = snd w addr"
proof (cases be)
  case (BE_BeamMonitor m)
  then show ?thesis
    using assms by (auto simp: Track_particle_beam_element_obj_dispatcher_def Let_def case_prod_beta
        Track_particle_beam_element_obj_dispatcher_aperture_check_def Track_particle_beam_monitor_def
        store_particle_def)
qed (simp_all add: Track_particle_beam_element_obj_dispatcher_def on_particles_def if_enabled_def
    Track_particle_beam_element_obj_dispatcher_aperture_check_def case_prod_beta Let_def)

lemma snapshot_output:
  assumes "world_wf w" "valid_idx (fst w) ii" "0 \<le> i"
  shows "output_at (ebe_out_store_addr config) (ebe_snapshot config ii pid el t w) i =
    record_log config (world_sizes w (ebe_out_store_addr config)) [((pid, el, t), particle_of (fst w) ii)]
      (output_at (ebe_out_store_addr config) w) i"
  using assms
  by (auto simp: output_at_def ebe_snapshot_def ebe_index_def world_sizes_def Let_def world_wf_def
      store_particle_view store_sizes_def valid_idx_def)

lemma set_p_output [simp]: "output_at addr (set_p w f) = output_at addr w"
  by (simp add: output_at_def set_p_def fun_eq_iff)

lemma elements_output:
  assumes "world_wf w" "valid_idx (fst w) ii" "\<forall>be\<in>set bes. \<not> writes_to (ebe_out_store_addr config) be" "0 \<le> i"
  shows "output_at (ebe_out_store_addr config) (fst (ebe_elements cfg config ii pid start t el bes w)) i =
    record_log config (world_sizes w (ebe_out_store_addr config))
      (element_log cfg (world_sizes w) bes pid t el (particle_of (fst w) ii))
      (output_at (ebe_out_store_addr config) w) i"
  using assms
proof (induction bes arbitrary: w el)
  case (Cons be rest)
  let ?addr = "ebe_out_store_addr config"
  note w = Cons.prems(1,2)
  define w0 where "w0 = ebe_snapshot config ii pid el t w"
  define v where "v = particle_of (fst w) ii"
  have step0: "tracks_to w ii (v, 0) (w0, 0)"
    unfolding w0_def v_def by (rule ebe_snapshot_tracks [OF w])
  note keeps0 = tracks_to_keeps [OF step0, unfolded fst_conv snd_conv]
  have wf0: "world_wf w0" "valid_idx (fst w0) ii" and view0: "particle_of (fst w0) ii = v"
    using keeps0 w tracks_to_self [OF step0 w(2)] by simp_all
  obtain v1 s1 where v1: "element_map cfg (world_sizes w) be v = (v1, s1)" by (metis surj_pair)
  obtain w1 where w1: "Track_particle_beam_element_obj_dispatcher cfg w0 ii be = (w1, s1)"
    and step1: "tracks_to w0 ii (v1, s1) (w1, s1)"
    using dispatcher_tracks [OF wf0, of cfg be] tracks_to_keeps(5) [OF dispatcher_tracks [OF wf0, of cfg be]]
    by (cases "Track_particle_beam_element_obj_dispatcher cfg w0 ii be") (simp add: v1 view0 keeps0)
  note keeps1 = tracks_to_keeps [OF step1, unfolded fst_conv snd_conv]
  have wf1: "world_wf w1" "valid_idx (fst w1) ii" and view1: "particle_of (fst w1) ii = v1"
    using keeps1 wf0 tracks_to_self [OF step1 wf0(2)] by simp_all
  have "snd w1 ?addr = snd w0 ?addr"
    using dispatcher_keeps_output [of ?addr be cfg w0 ii] Cons.prems(3) by (simp add: w1)
  then have out1: "output_at ?addr w1 i =
      record_log config (world_sizes w ?addr) [((pid, el, t), v)] (output_at ?addr w) i" if "0 \<le> i" for i
    using snapshot_output [OF w that, of config pid el t] by (simp add: output_at_def v_def w0_def)
  define w2 where "w2 = set_p w1 (\<lambda>p. Particles_increment_at_element_id_value p ii)"
  define v2 where "v2 = v1\<lparr>pv_at_element_id := pv_at_element_id v1 + 1\<rparr>"
  have step2: "tracks_to w1 ii (v2, 0) (w2, 0)"
    using set_p_tracks [OF increment_at_element.particle_kernel_axioms wf1, of 0]
    by (simp add: w2_def v2_def view1)
  note keeps2 = tracks_to_keeps [OF step2, unfolded fst_conv snd_conv]
  have wf2: "world_wf w2" "valid_idx (fst w2) ii" and view2: "particle_of (fst w2) ii = v2"
    and sizes2: "world_sizes w2 = world_sizes w"
    using keeps2 keeps1 keeps0 wf1 tracks_to_self [OF step2 wf1(2)] by simp_all
  have unfold: "output_at ?addr (fst (ebe_elements cfg config ii pid start t el (be # rest) w)) i =
      (if s1 = 0 \<and> pv_state v1 = 1 \<and> rest \<noteq> []
       then output_at ?addr (fst (ebe_elements cfg config ii pid start t (el + 1) rest w2)) i
       else output_at ?addr w1 i)"
    unfolding ebe_elements_Cons [OF w(2)] w0_def [symmetric] w1 w2_def
    by (simp add: is_not_lost_view view1 del: ebe_elements.simps)
  have lg: "element_log cfg (world_sizes w) (be # rest) pid t el v = ((pid, el, t), v) #
      (if s1 = 0 \<and> pv_state v1 = 1 then element_log cfg (world_sizes w) rest pid t (el + 1) v2 else [])"
    by (simp add: v1 v2_def)
  show ?case
  proof (cases "s1 = 0 \<and> pv_state v1 = 1 \<and> rest \<noteq> []")
    case True
    have "output_at ?addr (fst (ebe_elements cfg config ii pid start t (el + 1) rest w2)) i =
        record_log config (world_sizes w ?addr) (element_log cfg (world_sizes w) rest pid t (el + 1) v2)
          (output_at ?addr w1) i"
      using Cons.IH [OF wf2 _ Cons.prems(4), of "el + 1"] Cons.prems(3)
      unfolding sizes2 view2 by (simp add: w2_def)
    also have "\<dots> = record_log config (world_sizes w ?addr) (element_log cfg (world_sizes w) rest pid t (el + 1) v2)
        (record_log config (world_sizes w ?addr) [((pid, el, t), v)] (output_at ?addr w)) i"
      using out1 Cons.prems(4) by (intro record_log_cong) simp_all
    finally show ?thesis unfolding unfold v_def [symmetric] lg using True by simp
  next
    case False
    then have "(if s1 = 0 \<and> pv_state v1 = 1 then element_log cfg (world_sizes w) rest pid t (el + 1) v2 else []) = []"
      by auto
    then show ?thesis unfolding unfold if_not_P [OF False] v_def [symmetric] lg by (simp only: out1 [OF Cons.prems(4)])
  qed
qed simp

lemma loop_output:
  assumes "world_wf w" "valid_idx (fst w) ii" "bes \<noteq> []" "n = nat (until - t)" "0 < n"
    and "\<forall>be\<in>set bes. \<not> writes_to (ebe_out_store_addr config) be" "0 \<le> i"
  shows "output_at (ebe_out_store_addr config) (fst (the (ebe_loop cfg config ii pid start bes until t w))) i =
    record_log config (world_sizes w (ebe_out_store_addr config))
      (turns_log cfg (world_sizes w) bes pid start n t (particle_of (fst w) ii))
      (output_at (ebe_out_store_addr config) w) i"
  using assms
proof (induction n arbitrary: w t)
  case (Suc n)
  let ?addr = "ebe_out_store_addr config"
  note w = Suc.prems(1,2)
  obtain v s c where v: "elements_map cfg (world_sizes w) bes (particle_of (fst w) ii) = (v, s, c)"
    by (metis surj_pair)
  obtain w1 where w1: "ebe_elements cfg config ii pid start t start bes w = (w1, s, c)"
    and step: "tracks_to w ii (if c then end_turn start v else v, s) (w1, s)"
    using ebe_elements_tracks [OF w Suc.prems(3) v] by blast
  note keeps = tracks_to_keeps [OF step, unfolded fst_conv snd_conv]
  have wf1: "world_wf w1" "valid_idx (fst w1) ii" and view1: "particle_of (fst w1) ii = (if c then end_turn start v else v)"
    using keeps w tracks_to_self [OF step w(2)] by simp_all
  have out1: "output_at ?addr w1 i = record_log config (world_sizes w ?addr)
      (element_log cfg (world_sizes w) bes pid t start (particle_of (fst w) ii)) (output_at ?addr w) i" if "0 \<le> i" for i
    using elements_output [OF w Suc.prems(6) that, of cfg pid start t start] by (simp add: w1)
  have n: "n = nat (until - (t + 1))" using Suc.prems(4) by simp
  have loop: "ebe_loop cfg config ii pid start bes until t w =
      (if c \<and> 0 < n then ebe_loop cfg config ii pid start bes until (t + 1) w1 else Some (w1, s))"
    using n by (subst ebe_loop.simps) (simp add: w1)
  show ?case
  proof (cases "c \<and> 0 < n")
    case True
    then have "output_at ?addr (fst (the (ebe_loop cfg config ii pid start bes until (t + 1) w1))) i =
        record_log config (world_sizes w ?addr)
          (turns_log cfg (world_sizes w) bes pid start n (t + 1) (end_turn start v)) (output_at ?addr w1) i"
      using Suc.IH [OF wf1 Suc.prems(3) n _ Suc.prems(6,7)] by (simp add: keeps view1)
    also have "\<dots> = record_log config (world_sizes w ?addr)
          (turns_log cfg (world_sizes w) bes pid start n (t + 1) (end_turn start v))
          (record_log config (world_sizes w ?addr)
            (element_log cfg (world_sizes w) bes pid t start (particle_of (fst w) ii)) (output_at ?addr w)) i"
      using out1 Suc.prems(7) by (intro record_log_cong) simp_all
    finally show ?thesis using True by (simp add: loop v)
  next
    case False
    then show ?thesis using out1 [OF Suc.prems(7)] by (auto simp: loop v)
  qed
qed simp

lemma ebe_output:
  assumes w: "world_wf w" "valid_idx (fst w) ii" and bes: "bes \<noteq> []" and addr: "ebe_out_store_addr config \<noteq> 0"
    and nw: "\<forall>be\<in>set bes. \<not> writes_to (ebe_out_store_addr config) be" "0 \<le> i"
    and r: "Track_particle_element_by_element_until_turn_objs cfg w ii config bes until = Some (w', s)"
  shows "output_at (ebe_out_store_addr config) w' i =
    record_log config (world_sizes w (ebe_out_store_addr config))
      (ebe_log cfg bes until (world_sizes w) (particle_of (fst w) ii)) (output_at (ebe_out_store_addr config) w) i"
proof -
  define v where "v = particle_of (fst w) ii"
  have views: "Particles_get_at_turn_value (fst w) ii = pv_at_turn v"
    "Particles_get_at_element_id_value (fst w) ii = pv_at_element_id v"
    "Particles_get_particle_id_value (fst w) ii = pv_particle_id v"
    by (simp_all add: v_def particle_simps)
  note defs = Track_particle_element_by_element_until_turn_objs_def Let_def views
  show ?thesis
  proof (cases "pv_at_turn v < until \<and> 0 \<le> pv_at_turn v \<and> 0 \<le> pv_at_element_id v \<and> 0 \<le> pv_particle_id v")
    case True
    then have "ebe_loop cfg config ii (pv_particle_id v) (pv_at_element_id v) bes until (pv_at_turn v) w = Some (w', s)"
      using r addr bes by (simp add: defs)
    moreover have "0 < nat (until - pv_at_turn v)" using True by simp
    ultimately show ?thesis
      using loop_output [OF w bes refl _ nw, of until "pv_at_turn v" cfg "pv_particle_id v" "pv_at_element_id v"] True
      by (simp add: ebe_log_def flip: v_def)
  next
    case False
    then show ?thesis using r addr by (auto simp: defs ebe_log_def simp flip: v_def)
  qed
qed

subsection \<open>All particles\<close>

text \<open>The log of the particles at a sequence of indices.\<close>

definition all_log ::
    "track_config \<Rightarrow> beam_element list \<Rightarrow> i64 \<Rightarrow> world \<Rightarrow> i64 list \<Rightarrow> (ebe_key \<times> particle) list" where
  "all_log cfg bes until w iis =
     concat (map (\<lambda>ii. ebe_log cfg bes until (world_sizes w) (particle_of (fst w) ii)) iis)"

lemma indices_output:
  assumes "world_wf w" "\<forall>ii\<in>set iis. valid_idx (fst w) ii" "distinct iis"
    and bes: "bes \<noteq> []" and addr: "ebe_out_store_addr config \<noteq> 0"
    and nw: "\<forall>be\<in>set bes. \<not> writes_to (ebe_out_store_addr config) be" "0 \<le> i"
  shows "\<exists>w' s'. track_indices
      (\<lambda>w ii. Track_particle_element_by_element_until_turn_objs cfg w ii config bes until) iis w s = Some (w', s') \<and>
    output_at (ebe_out_store_addr config) w' i =
      record_log config (world_sizes w (ebe_out_store_addr config)) (all_log cfg bes until w iis)
        (output_at (ebe_out_store_addr config) w) i"
  using assms(1-3)
proof (induction iis arbitrary: w s)
  case Nil
  then show ?case by (simp add: all_log_def)
next
  case (Cons ii iis)
  let ?addr = "ebe_out_store_addr config"
  have ii: "valid_idx (fst w) ii" using Cons.prems(2) by simp
  obtain w1 s1 where w1: "Track_particle_element_by_element_until_turn_objs cfg w ii config bes until = Some (w1, s1)"
    and step: "tracks_to w ii (ebe_map cfg config bes until (world_sizes w) (particle_of (fst w) ii)) (w1, s1)"
    using ebe_tracks [OF Cons.prems(1) ii, of cfg config bes until] by auto
  note keeps = tracks_to_keeps [OF step, unfolded fst_conv snd_conv]
  have "\<forall>jj\<in>set iis. valid_idx (fst w1) jj" "distinct iis" using Cons.prems keeps(2) by simp_all
  from Cons.IH [OF keeps(1) this, of "s OR s1"] obtain w' s' where
    run: "track_indices (\<lambda>w ii. Track_particle_element_by_element_until_turn_objs cfg w ii config bes until)
      iis w1 (s OR s1) = Some (w', s')"
    and out: "output_at ?addr w' i = record_log config (world_sizes w ?addr) (all_log cfg bes until w1 iis)
      (output_at ?addr w1) i"
    by (auto simp: keeps)
  have "particle_of (fst w1) jj = particle_of (fst w) jj" if "jj \<in> set iis" for jj
    using tracks_to_view [OF step, of jj] that Cons.prems(2,3) by (auto simp: valid_idx_def)
  then have "map (\<lambda>ii. ebe_log cfg bes until (world_sizes w1) (particle_of (fst w1) ii)) iis =
      map (\<lambda>ii. ebe_log cfg bes until (world_sizes w) (particle_of (fst w) ii)) iis"
    by (simp add: keeps)
  then have "all_log cfg bes until w1 iis = all_log cfg bes until w iis" by (simp only: all_log_def)
  moreover have "record_log config (world_sizes w ?addr) (all_log cfg bes until w iis) (output_at ?addr w1) i =
      record_log config (world_sizes w ?addr) (all_log cfg bes until w iis)
        (record_log config (world_sizes w ?addr) (ebe_log cfg bes until (world_sizes w) (particle_of (fst w) ii))
          (output_at ?addr w)) i"
    using ebe_output [OF Cons.prems(1) ii bes addr nw(1) _ w1] nw(2) by (intro record_log_cong) simp_all
  moreover have "all_log cfg bes until w (ii # iis) =
      ebe_log cfg bes until (world_sizes w) (particle_of (fst w) ii) @ all_log cfg bes until w iis"
    by (simp add: all_log_def)
  ultimately show ?case using run out w1 by (intro exI [of _ w'] exI [of _ s']) simp
qed

text \<open>Keys of a log are different, for different particle ids.\<close>

lemma element_log_keys:
  "(k, u) \<in> set (element_log cfg sizes bes pid t el v) \<Longrightarrow> fst k = pid \<and> el \<le> fst (snd k) \<and> snd (snd k) = t"
proof (induction bes arbitrary: el v)
  case (Cons be bes)
  obtain v1 s1 where v1: "element_map cfg sizes be v = (v1, s1)" by (metis surj_pair)
  have "el \<le> fst (snd k)" if "el + 1 \<le> fst (snd k)" using that by simp
  then show ?case
    using Cons.prems Cons.IH [of "el + 1" "v1\<lparr>pv_at_element_id := pv_at_element_id v1 + 1\<rparr>"]
    by (auto simp: v1 split: if_splits)
qed simp

lemma element_log_distinct: "distinct (map fst (element_log cfg sizes bes pid t el v))"
proof (induction bes arbitrary: el v)
  case (Cons be bes)
  obtain v1 s1 where v1: "element_map cfg sizes be v = (v1, s1)" by (metis surj_pair)
  show ?case
    using Cons.IH [of "el + 1"] element_log_keys [of "(pid, el, t)" _ cfg sizes bes pid t "el + 1"]
    by (auto simp: v1)
qed simp

lemma turns_log_keys:
  "(k, u) \<in> set (turns_log cfg sizes bes pid start n t v) \<Longrightarrow> fst k = pid \<and> t \<le> snd (snd k)"
proof (induction n arbitrary: t v)
  case (Suc n)
  obtain v1 s1 c where v1: "elements_map cfg sizes bes v = (v1, s1, c)" by (metis surj_pair)
  show ?case
    using Suc.prems Suc.IH [of "t + 1" "end_turn start v1"] element_log_keys [of k u cfg sizes bes pid t start v]
    by (auto simp: v1 split: if_splits)
qed simp

lemma turns_log_distinct: "distinct (map fst (turns_log cfg sizes bes pid start n t v))"
proof (induction n arbitrary: t v)
  case (Suc n)
  obtain v1 s1 c where v1: "elements_map cfg sizes bes v = (v1, s1, c)" by (metis surj_pair)
  have "fst ` set (element_log cfg sizes bes pid t start v) \<inter>
      fst ` set (turns_log cfg sizes bes pid start n (t + 1) (end_turn start v1)) = {}"
    using element_log_keys [of _ _ cfg sizes bes pid t start v]
      turns_log_keys [of _ _ cfg sizes bes pid start n "t + 1" "end_turn start v1"] by force
  then show ?case
    using Suc.IH [of "t + 1" "end_turn start v1"] element_log_distinct [of cfg sizes bes pid t start v]
    by (simp add: v1)
qed simp

lemma ebe_log_keys: "(k, u) \<in> set (ebe_log cfg bes until sizes v) \<Longrightarrow> fst k = pv_particle_id v"
  by (auto simp: ebe_log_def split: if_splits dest!: turns_log_keys)

lemma all_log_distinct:
  assumes "distinct iis" "inj_on (\<lambda>ii. pv_particle_id (particle_of (fst w) ii)) (set iis)"
  shows "distinct (map fst (all_log cfg bes until w iis))"
  using assms
proof (induction iis)
  case (Cons ii iis)
  let ?log = "\<lambda>ii. ebe_log cfg bes until (world_sizes w) (particle_of (fst w) ii)"
  have "fst ` set (?log ii) \<inter> fst ` set (?log jj) = {}" if "jj \<in> set iis" for jj
  proof -
    have "pv_particle_id (particle_of (fst w) ii) \<noteq> pv_particle_id (particle_of (fst w) jj)"
      using Cons.prems that by (auto simp: inj_on_def)
    then show ?thesis using ebe_log_keys by fastforce
  qed
  moreover have "distinct (map fst (?log ii))"
    using turns_log_distinct by (auto simp: ebe_log_def)
  moreover have "distinct (map fst (all_log cfg bes until w iis))" using Cons by simp
  ultimately show ?case by (auto simp: all_log_def image_Union)
qed (simp add: all_log_def)

lemma record_log_write_all:
  assumes "\<forall>k\<in>set (map fst lg). ebe_key_valid c first_turn k"
    and "ElemByElemConfig_get_out_store_num_particles c \<le> nn"
  shows "record_log c nn lg out = ebe_store.write_all c lg out"
  using assms(1)
proof (induction lg arbitrary: out)
  case (Cons e lg)
  obtain k v where e: "e = (k, v)" by (cases e)
  have "ebe_key_valid c first_turn k" using Cons.prems by (simp add: e)
  then have "0 \<le> ebe_index c k" "ebe_index c k < nn"
    using ebe_store.index_nonneg ebe_store.index_less assms(2) by fastforce+
  then show ?case using Cons by (simp add: e)
qed simp

text \<open>C28: The output that \<open>NS(Track_all_particles_element_by_element_until_turn)\<close> leaves is the replay of
  the log: for every particle in turn the particle in front of every element it reaches, stored at the index
  of its id, the element and the turn where that lies inside the output, provided that no beam monitor of
  the lattice shares the output.\<close>

theorem ebe_output_is_replay:
  assumes "world_wf w" "bes \<noteq> []" "ebe_out_store_addr config \<noteq> 0"
    and "\<forall>be\<in>set bes. \<not> writes_to (ebe_out_store_addr config) be" "0 \<le> i"
  shows "\<exists>w' s. Track_all_particles_element_by_element_until_turn cfg w config bes until = Some (w', s) \<and>
    particle_of (snd w' (ebe_out_store_addr config)) i =
      record_log config (num_particles (snd w (ebe_out_store_addr config)))
        (all_log cfg bes until w [0..num_particles (fst w) - 1])
        (particle_of (snd w (ebe_out_store_addr config))) i"
  using indices_output [OF assms(1) all_indices(1,2) assms(2-5), of cfg until 0]
  unfolding Track_all_particles_element_by_element_until_turn_def Particles_get_num_of_particles_def
  by (simp add: output_at_def [abs_def] world_sizes_def store_sizes_def)

definition sample_output_config :: ElemByElemConfig where
  "sample_output_config = ElemByElemConfig_set_output_store_address
     (fst (ElemByElemConfig_init_detailed sample_config 0 0 2 0 2 0 1 False)) 4096"

lemma sample_output_config_simps:
  "ebe_wf sample_output_config" "ebe_num_particles_to_store sample_output_config = 3"
  "ebe_num_elements_to_store sample_output_config = 3" "ebe_num_turns_to_store sample_output_config = 2"
  "ebe_min_particle_id sample_output_config = 0" "ebe_max_particle_id sample_output_config = 2"
  "ebe_min_element_id sample_output_config = 0" "ebe_max_element_id sample_output_config = 2"
  "ebe_min_turn sample_output_config = 0" "ebe_max_turn sample_output_config = 1"
  "ebe_out_store_addr sample_output_config = 4096"
  by (simp_all add: sample_output_config_def ElemByElemConfig_init_detailed_def
      ElemByElemConfig_set_order_def ElemByElemConfig_clear_def ElemByElemConfig_is_rolling_def
      ElemByElemConfig_set_output_store_address_def ElemByElemConfig_set_is_rolling_def ebe_wf_def
      ELEM_BY_ELEM_ORDER_INVALID_def ELEM_BY_ELEM_ORDER_TURN_ELEM_PARTICLES_def Let_def)

theorem ebe_output_is_replay_witness:
  "\<exists>w' s. Track_all_particles_element_by_element_until_turn sample_track_config (sample_world 18)
      sample_output_config sample_lattice 2 = Some (w', s) \<and>
    particle_of (snd w' (ebe_out_store_addr sample_output_config)) 7 =
      record_log sample_output_config (num_particles (snd (sample_world 18) (ebe_out_store_addr sample_output_config)))
        (all_log sample_track_config sample_lattice 2 (sample_world 18) [0..num_particles (fst (sample_world 18)) - 1])
        (particle_of (snd (sample_world 18) (ebe_out_store_addr sample_output_config))) 7"
  by (rule ebe_output_is_replay) (simp_all add: sample_output_config_simps sample_lattice_def)

text \<open>C3: Where the particles have different ids and all keys of the log belong to the configuration, within a
  window of as many turns as it stores, and the output is large enough, every snapshot can be read back from
  the output after tracking: at the index of a particle id, an element and a turn stands the particle as it
  was in front of that element.\<close>

theorem ebe_snapshots_readable:
  assumes w: "world_wf w" and bes: "bes \<noteq> []" and addr: "ebe_out_store_addr config \<noteq> 0"
    and nw: "\<forall>be\<in>set bes. \<not> writes_to (ebe_out_store_addr config) be"
    and ids: "inj_on (\<lambda>ii. pv_particle_id (particle_of (fst w) ii)) {0..<num_particles (fst w)}"
    and keys: "\<forall>(k, v)\<in>set (all_log cfg bes until w [0..num_particles (fst w) - 1]). ebe_key_valid config first_turn k"
    and nn: "ElemByElemConfig_get_out_store_num_particles config \<le> num_particles (snd w (ebe_out_store_addr config))"
    and entry: "((pid, el, t), v) \<in> set (all_log cfg bes until w [0..num_particles (fst w) - 1])"
  shows "\<exists>w' s. Track_all_particles_element_by_element_until_turn cfg w config bes until = Some (w', s) \<and>
    particle_of (snd w' (ebe_out_store_addr config))
      (ElemByElemConfig_get_particles_store_index_details config pid el t) = v"
proof -
  let ?log = "all_log cfg bes until w [0..num_particles (fst w) - 1]"
  let ?i = "ebe_index config (pid, el, t)"
  have valid: "\<forall>k\<in>set (map fst ?log). ebe_key_valid config first_turn k" using keys by auto
  have key: "ebe_key_valid config first_turn (pid, el, t)" using keys entry by blast
  have "set [0..num_particles (fst w) - 1] = {0..<num_particles (fst w)}" by auto
  then have distinct: "distinct (map fst ?log)" using ids by (intro all_log_distinct) simp_all
  obtain w' s where run: "Track_all_particles_element_by_element_until_turn cfg w config bes until = Some (w', s)"
    and out: "output_at (ebe_out_store_addr config) w' ?i = record_log config
      (num_particles (snd w (ebe_out_store_addr config))) ?log (output_at (ebe_out_store_addr config) w) ?i"
    using indices_output [OF w all_indices(1,2) bes addr nw ebe_store.index_nonneg [OF key], of cfg until 0]
    unfolding Track_all_particles_element_by_element_until_turn_def Particles_get_num_of_particles_def
    by (auto simp: world_sizes_def store_sizes_def)
  show ?thesis
    using run out ebe_store.read_back [OF distinct valid entry]
    unfolding record_log_write_all [OF valid nn]
    by (intro exI [of _ w'] exI [of _ s]) (simp add: output_at_def ebe_index_def)
qed

lemma sample_lattice_simps: "sample_lattice \<noteq> []" "\<forall>be\<in>set sample_lattice. \<not> writes_to addr be"
  by (simp_all add: sample_lattice_def)

lemma sample_log:
  "all_log sample_track_config sample_lattice 1 (sample_world 18) [0..2] =
    concat (map (\<lambda>jj. map (\<lambda>el. ((jj, el, 0), (reference_particle jj)\<lparr>pv_at_element_id := el,
      pv_s := [0, 1, 1] ! nat el\<rparr>)) [0, 1, 2]) [0, 1, 2])"
proof -
  have "element_log sample_track_config sizes sample_lattice jj 0 0 (reference_particle jj) =
      map (\<lambda>el. ((jj, el, 0), (reference_particle jj)\<lparr>pv_at_element_id := el, pv_s := [0, 1, 1] ! nat el\<rparr>)) [0, 1, 2]"
    for sizes jj
    by (simp add: sample_lattice_def sample_track_config_def element_map_def element_map_check_def
        drift_kind_map_def drift_map_def limit_map_def inside_rect_def int_of_bool_def reference_particle_def Let_def)
  moreover have "ebe_log sample_track_config sample_lattice 1 sizes (reference_particle jj) =
      element_log sample_track_config sizes sample_lattice jj 0 0 (reference_particle jj)" if "0 \<le> jj" for sizes jj
  proof -
    have "pv_at_turn (reference_particle jj) = 0" "pv_at_element_id (reference_particle jj) = 0"
      "pv_particle_id (reference_particle jj) = jj" by (simp_all add: reference_particle_def)
    then show ?thesis using that by (simp add: ebe_log_def case_prod_beta)
  qed
  moreover have "[0..2 :: int] = [0, 1, 2]" by (simp add: upto.simps)
  ultimately show ?thesis by (simp add: all_log_def)
qed

theorem ebe_snapshots_readable_witness:
  "\<exists>w' s. Track_all_particles_element_by_element_until_turn sample_track_config (sample_world 18)
      sample_output_config sample_lattice 1 = Some (w', s) \<and>
    particle_of (snd w' (ebe_out_store_addr sample_output_config))
      (ElemByElemConfig_get_particles_store_index_details sample_output_config 1 2 0) =
    (reference_particle 1)\<lparr>pv_at_element_id := 2, pv_s := 1\<rparr>"
proof -
  have n: "num_particles (fst (sample_world 18)) - 1 = 2" by simp
  have inj: "inj_on (\<lambda>ii. pv_particle_id (particle_of (fst (sample_world 18)) ii)) {0..<num_particles (fst (sample_world 18))}"
    by (auto simp: inj_on_def reference_particle_def)
  show ?thesis
    by (rule ebe_snapshots_readable [where first_turn = 0, OF _ _ _ _ inj])
      (simp_all add: n sample_log sample_output_config_simps ebe_key_valid_def sample_lattice_simps
        ElemByElemConfig_get_out_store_num_particles_def)
qed

text \<open>Element by element tracking does not look at the state of a particle before it tracks it: a lost
  particle is moved by a drift in front of it, where tracking until a turn leaves it alone.\<close>

theorem ebe_tracks_lost_particles:
  assumes w: "world_wf w" "valid_idx (fst w) ii" and addr: "ebe_out_store_addr config \<noteq> 0"
    and lost: "pv_state (particle_of (fst w) ii) = 0"
    and pos: "0 \<le> pv_at_turn (particle_of (fst w) ii)" "0 \<le> pv_at_element_id (particle_of (fst w) ii)"
      "0 \<le> pv_particle_id (particle_of (fst w) ii)" "pv_at_turn (particle_of (fst w) ii) < until"
    and cfg: "check_at_drift cfg = Aperture_Never"
  shows "\<exists>w1 w2. Track_particle_element_by_element_until_turn_objs cfg w ii config (BE_Drift e # bes) until = Some (w1, 0) \<and>
    Track_particle_until_turn_objs cfg w ii (BE_Drift e # bes) until = Some (w2, 0) \<and>
    particle_of (fst w1) ii = drift_map (Drift_length e) (particle_of (fst w) ii) \<and>
    particle_of (fst w2) ii = particle_of (fst w) ii"
proof -
  define v where "v = particle_of (fst w) ii"
  obtain n where n: "nat (until - pv_at_turn v) = Suc n" using pos by (cases "nat (until - pv_at_turn v)") (auto simp: v_def)
  have "element_map cfg sizes (BE_Drift e) v = (drift_map (Drift_length e) v, 0)" for sizes
    by (simp add: element_map_def element_map_check_def drift_kind_map_def cfg)
  moreover have "pv_state (drift_map (Drift_length e) v) = 0" using lost by (simp add: keeps_state v_def)
  ultimately have m: "ebe_map cfg config (BE_Drift e # bes) until (world_sizes w) v = (drift_map (Drift_length e) v, 0)"
    "until_turn_map cfg (BE_Drift e # bes) until (world_sizes w) v = (v, 0)"
    using pos addr lost n by (simp_all add: ebe_map_def until_turn_map_def flip: v_def)
  obtain r1 where r1: "Track_particle_element_by_element_until_turn_objs cfg w ii config (BE_Drift e # bes) until = Some r1"
    "tracks_to w ii (drift_map (Drift_length e) v, 0) r1"
    using ebe_tracks [OF w, of cfg config "BE_Drift e # bes" until] m by (auto simp flip: v_def)
  obtain r2 where r2: "Track_particle_until_turn_objs cfg w ii (BE_Drift e # bes) until = Some r2"
    "tracks_to w ii (v, 0) r2"
    using until_turn_tracks [OF w, of cfg "BE_Drift e # bes" until] m by (auto simp flip: v_def)
  have "r1 = (fst r1, 0)" "r2 = (fst r2, 0)"
    using tracks_to_keeps(5) [OF r1(2)] tracks_to_keeps(5) [OF r2(2)] by (simp_all add: prod_eq_iff)
  then show ?thesis
    using r1 r2 tracks_to_self [OF r1(2) w(2)] tracks_to_self [OF r2(2) w(2)]
    by (intro exI [of _ "fst r1"] exI [of _ "fst r2"]) (simp add: v_def)
qed

theorem ebe_tracks_lost_particles_witness:
  "let w = set_p (sample_world 18) (\<lambda>p. Particles_mark_as_lost_value (Particles_set_px_value p 1 1) 1)
   in \<exists>w1 w2. Track_particle_element_by_element_until_turn_objs sample_track_config w 1 sample_output_config
        (BE_Drift \<lparr>Drift_length = 1\<rparr> # []) 1 = Some (w1, 0) \<and>
      Track_particle_until_turn_objs sample_track_config w 1 (BE_Drift \<lparr>Drift_length = 1\<rparr> # []) 1 = Some (w2, 0) \<and>
      pv_x (particle_of (fst w1) 1) = 1 \<and> pv_x (particle_of (fst w2) 1) = 0"
proof -
  define w where "w = set_p (sample_world 18) (\<lambda>p. Particles_mark_as_lost_value (Particles_set_px_value p 1 1) 1)"
  have p: "particles_wf (Particles_mark_as_lost_value (Particles_set_px_value (reference_particles 3) 1 1) 1)"
    "num_particles (Particles_mark_as_lost_value (Particles_set_px_value (reference_particles 3) 1 1) 1) = 3"
    "particle_of (Particles_mark_as_lost_value (Particles_set_px_value (reference_particles 3) 1 1) 1) 1 =
       (reference_particle 1)\<lparr>pv_px := 1, pv_state := 0\<rparr>"
    by (simp_all add: particle_simps particle_ops)
  have wf: "world_wf w" using p(1) sample_world_simps(1) [of 18] by (simp add: w_def world_wf_def set_p_def)
  show ?thesis
    using ebe_tracks_lost_particles [OF wf, of 1 sample_output_config 1 sample_track_config "\<lparr>Drift_length = 1\<rparr>" "[]"] p
    by (auto simp: w_def set_p_def valid_idx_def sample_output_config_simps sample_track_config_def
        reference_particle_def drift_map_def Let_def)
qed

end
