(* ===== verification/Track_Schedule.thy ===== *)
theory Track_Schedule
  imports Track_Results
begin

section \<open>Tracking in pieces\<close>

text \<open>
  A simulation may track all particles piece by piece: each call covers a part of the lattice that starts where the
  last one ended, the one that reaches the end of the lattice finishes the turn. \<open>schedule cfg bes w n missed w' pos\<close>:
  \<open>n\<close> such calls, with whatever status, lead from \<open>w\<close> to \<open>w'\<close> with the particles in front of element \<open>pos\<close>; \<open>missed\<close> of the
  calls that should have finished a turn reported a failure. How the lattice is cut may be different in every turn.
\<close>

inductive schedule :: "track_config \<Rightarrow> beam_element list \<Rightarrow> world \<Rightarrow> nat \<Rightarrow> nat \<Rightarrow> world \<Rightarrow> nat \<Rightarrow> bool"
  for cfg bes w where
  start: "schedule cfg bes w 0 0 w 0"
| piece: "schedule cfg bes w n missed w1 pos \<Longrightarrow> pos < end \<Longrightarrow> end \<le> length bes \<Longrightarrow>
    Track_all_particles_line cfg w1 bes pos end (end = length bes) = Some (w2, s) \<Longrightarrow>
    schedule cfg bes w (Suc n) (if end = length bes \<and> s \<noteq> 0 then Suc missed else missed) w2 (if end = length bes then 0 else end)"

inductive_simps schedule_0: "schedule cfg bes w 0 missed w' pos"

lemma fold_or_zero: "fold (\<lambda>i s. s OR f i) iis a = 0 \<longleftrightarrow> a = 0 \<and> (\<forall>i\<in>set iis. f i = 0)" for a :: int
  by (induction iis arbitrary: a) (auto simp: or_eq_0_iff)

lemma all_line_run:
  assumes "world_wf w"
  shows "\<exists>w' s'. Track_all_particles_line cfg w bes a b finish = Some (w', s') \<and> world_wf w' \<and>
    num_particles (fst w') = num_particles (fst w) \<and> world_sizes w' = world_sizes w \<and>
    (s' = 0 \<longleftrightarrow> (\<forall>jj. valid_idx (fst w) jj \<longrightarrow> snd (line_map cfg (line_of bes a b) finish (world_sizes w) (particle_of (fst w) jj)) = 0)) \<and>
    (\<forall>jj. valid_idx (fst w) jj \<longrightarrow>
      particle_of (fst w') jj = fst (line_map cfg (line_of bes a b) finish (world_sizes w) (particle_of (fst w) jj)))"
proof -
  obtain w' s' where "Track_all_particles_line cfg w bes a b finish = Some (w', s')" "world_wf w'"
      "num_particles (fst w') = num_particles (fst w)" "world_sizes w' = world_sizes w"
      "s' = fold (\<lambda>ii s. s OR snd (line_map cfg (line_of bes a b) finish (world_sizes w) (particle_of (fst w) ii))) [0..num_particles (fst w) - 1] 0"
      "\<forall>jj. valid_idx (fst w) jj \<longrightarrow>
        particle_of (fst w') jj = fst (line_map cfg (line_of bes a b) finish (world_sizes w) (particle_of (fst w) jj))"
    unfolding Track_all_particles_line_def Particles_get_num_of_particles_def
    using all_particles_run [OF line.tracker_axioms assms] by blast
  moreover have "ii \<in> set [0..num_particles (fst w) - 1] \<longleftrightarrow> valid_idx (fst w) ii" for ii
    by (auto simp: valid_idx_def)
  ultimately show ?thesis by (intro exI [of _ w'] exI [of _ s'] conjI) (auto simp: fold_or_zero)
qed

text \<open>One piece for one particle that is still tracked.\<close>

lemma line_map_progress:
  assumes "line_map cfg line finish sizes v = (v', s)" "pv_state v = 1"
  shows "pv_state v' = 1 \<and> pv_at_turn v' = pv_at_turn v + (if finish \<and> s = 0 then 1 else 0) \<or>
    pv_state v' = 0 \<and> pv_at_turn v' = pv_at_turn v"
proof (cases "line = []")
  case False
  obtain u t c where u: "elements_map cfg sizes line v = (u, t, c)" by (metis surj_pair)
  then show ?thesis
    using assms False elements_map_end [OF u] elements_map_stop [of cfg sizes line v u t]
    by (cases c) (auto simp: line_map_def Let_def split: if_splits)
qed (use assms in \<open>auto simp: line_map_def Let_def split: if_splits\<close>)

lemma line_map_lost: "pv_state v \<noteq> 1 \<Longrightarrow> line_map cfg line finish sizes v = (v, 0)"
  by (simp add: line_map_def)

text \<open>A particle after some turns, up to some of which it has missed.\<close>

definition on_schedule :: "particle \<Rightarrow> nat \<Rightarrow> nat \<Rightarrow> particle \<Rightarrow> bool" where
  "on_schedule v turns missed v' \<longleftrightarrow> (if pv_state v = 1
     then pv_state v' = 1 \<and> pv_at_turn v + int turns \<le> pv_at_turn v' + int missed \<or> pv_state v' = 0
     else v' = v)"

lemma on_schedule_step:
  assumes "on_schedule v turns missed u" "line_map cfg line finish sizes u = (u', s)" "finish \<and> s \<noteq> 0 \<longrightarrow> missed' = Suc missed"
    and "missed \<le> missed'"
  shows "on_schedule v (if finish then Suc turns else turns) missed' u'"
  using assms(1,3,4) line_map_progress [OF assms(2)] line_map_lost [of u cfg line finish sizes] assms(2)
  by (cases "pv_state u = 1") (auto simp: on_schedule_def split: if_splits)

text \<open>Elements that always report success.\<close>

lemma steady_line:
  assumes "\<forall>be\<in>set bes. \<forall>v. snd (element_map cfg sizes be v) = 0" "set line \<subseteq> set bes"
  shows "snd (line_map cfg line finish sizes v) = 0"
proof -
  have "fst (snd (elements_map cfg sizes line v)) = 0" using assms(2)
  proof (induction line arbitrary: v)
    case (Cons be line)
    obtain u t where u: "element_map cfg sizes be v = (u, t)" by (metis surj_pair)
    then have "t = 0" using Cons.prems assms(1) by (metis list.set_intros(1) snd_conv subsetD)
    then show ?case using Cons u by simp
  qed simp
  then show ?thesis by (auto simp: line_map_def Let_def split: prod.splits)
qed

lemma line_of_subset: "set (line_of bes a b) \<subseteq> set bes"
  unfolding line_of_def by (meson order_trans set_drop_subset set_take_subset)

lemma steady_piece:
  assumes "world_wf w" "\<forall>be\<in>set bes. \<forall>v. snd (element_map cfg (world_sizes w) be v) = 0"
  shows "\<exists>w'. Track_all_particles_line cfg w bes a b finish = Some (w', 0)"
  using all_line_run [OF assms(1), of cfg bes a b finish] steady_line [OF assms(2) line_of_subset] by fastforce

lemma schedule_progress:
  assumes "schedule cfg bes w n missed w' pos" "world_wf w" "bes \<noteq> []"
  shows "world_wf w' \<and> num_particles (fst w') = num_particles (fst w) \<and> world_sizes w' = world_sizes w \<and> pos < length bes \<and>
    ((\<forall>be\<in>set bes. \<forall>v. snd (element_map cfg (world_sizes w) be v) = 0) \<longrightarrow> missed = 0) \<and>
    (\<exists>turns. n \<le> turns * length bes + pos \<and>
      (\<forall>jj. valid_idx (fst w) jj \<longrightarrow> on_schedule (particle_of (fst w) jj) turns missed (particle_of (fst w') jj)))"
  using assms(1)
proof (induction rule: schedule.induct)
  case start
  have "on_schedule v 0 0 v" for v
    by (simp add: on_schedule_def)
  then show ?case using assms(2,3) by (intro conjI exI [of _ 0]) auto
next
  case (piece n missed w1 pos end' w2 s)
  define finish where "finish = (end' = length bes)"
  define missed' where "missed' = (if finish \<and> s \<noteq> 0 then Suc missed else missed)"
  define f where "f v = line_map cfg (line_of bes pos end') finish (world_sizes w1) v" for v
  obtain turns where T: "world_wf w1" "num_particles (fst w1) = num_particles (fst w)" "world_sizes w1 = world_sizes w"
      "n \<le> turns * length bes + pos"
      "\<forall>jj. valid_idx (fst w) jj \<longrightarrow> on_schedule (particle_of (fst w) jj) turns missed (particle_of (fst w1) jj)"
    using piece.IH by blast
  have R: "world_wf w2" "num_particles (fst w2) = num_particles (fst w1)" "world_sizes w2 = world_sizes w1"
      "s = 0 \<longleftrightarrow> (\<forall>jj. valid_idx (fst w1) jj \<longrightarrow> snd (f (particle_of (fst w1) jj)) = 0)"
      "\<forall>jj. valid_idx (fst w1) jj \<longrightarrow> particle_of (fst w2) jj = fst (f (particle_of (fst w1) jj))"
    using all_line_run [OF T(1), of cfg bes pos end' finish] piece.hyps(4) by (auto simp: f_def finish_def)
  have valid: "valid_idx (fst w1) jj = valid_idx (fst w) jj" for jj by (simp add: valid_idx_def T(2))
  have "on_schedule (particle_of (fst w) jj) (if finish then Suc turns else turns) missed' (particle_of (fst w2) jj)"
    if jj: "valid_idx (fst w) jj" for jj
  proof -
    obtain t where t: "f (particle_of (fst w1) jj) = (particle_of (fst w2) jj, t)" using R(5) jj valid by (metis prod.collapse)
    then have "t \<noteq> 0 \<Longrightarrow> s \<noteq> 0" using R(4) jj valid by (metis snd_conv)
    then show ?thesis using T(5) jj t
      unfolding f_def by (intro on_schedule_step [where missed = missed and u = "particle_of (fst w1) jj" and s = t]) (auto simp: missed'_def)
  qed
  moreover have "Suc n \<le> (if finish then Suc turns else turns) * length bes + (if finish then 0 else end')"
    using T(4) piece.hyps(2,3) by (auto simp: finish_def)
  moreover have "missed' = 0" if "\<forall>be\<in>set bes. \<forall>v. snd (element_map cfg (world_sizes w) be v) = 0"
    using piece.IH steady_piece [OF T(1), of bes cfg pos end' finish] piece.hyps(4) that by (auto simp: missed'_def finish_def T(3))
  ultimately show ?case using R(1-3) T(2,3) piece.hyps(2,3) assms(3) unfolding finish_def missed'_def
    by (intro conjI exI [of _ "if end' = length bes then Suc turns else turns"]) auto
qed

text \<open>C5: Tracking in pieces gets on, however the lattice is cut and whatever the pieces report. At any point a next piece
  up to any later element can follow; and once there have been at least as many pieces as \<open>k\<close> turns have elements,
  every particle that was tracked is lost or has done at least \<open>k\<close> turns, less those turns whose last piece reported a
  failure. There are none of these if the tracking functions of all elements report success. Lost particles stay
  as they are.\<close>

theorem pieces_make_progress:
  assumes "schedule cfg bes w n missed w' pos" "world_wf w" "bes \<noteq> []"
  shows "(\<forall>b. pos < b \<longrightarrow> b \<le> length bes \<longrightarrow> (\<exists>w'' s. Track_all_particles_line cfg w' bes pos b (b = length bes) = Some (w'', s) \<and>
      schedule cfg bes w (Suc n) (if b = length bes \<and> s \<noteq> 0 then Suc missed else missed) w'' (if b = length bes then 0 else b))) \<and>
    (\<forall>k jj. k * length bes \<le> n \<longrightarrow> valid_idx (fst w) jj \<longrightarrow>
      (let v = particle_of (fst w) jj; v' = particle_of (fst w') jj in
       if pv_state v = 1 then pv_state v' = 1 \<and> pv_at_turn v + int k \<le> pv_at_turn v' + int missed \<or> pv_state v' = 0 else v' = v)) \<and>
    ((\<forall>be\<in>set bes. \<forall>v. snd (element_map cfg (world_sizes w) be v) = 0) \<longrightarrow> missed = 0)"
proof (intro conjI allI)
  obtain turns where S: "world_wf w'" "pos < length bes" "n \<le> turns * length bes + pos"
      "\<forall>jj. valid_idx (fst w) jj \<longrightarrow> on_schedule (particle_of (fst w) jj) turns missed (particle_of (fst w') jj)"
    and steady: "(\<forall>be\<in>set bes. \<forall>v. snd (element_map cfg (world_sizes w) be v) = 0) \<longrightarrow> missed = 0"
    using schedule_progress [OF assms] by blast
  show "pos < b \<longrightarrow> b \<le> length bes \<longrightarrow> (\<exists>w'' s. Track_all_particles_line cfg w' bes pos b (b = length bes) = Some (w'', s) \<and>
      schedule cfg bes w (Suc n) (if b = length bes \<and> s \<noteq> 0 then Suc missed else missed) w'' (if b = length bes then 0 else b))" for b
    using all_line_run [OF S(1), of cfg bes pos b "b = length bes"] schedule.piece [OF assms(1), of b] by blast
  show "k * length bes \<le> n \<longrightarrow> valid_idx (fst w) jj \<longrightarrow> (let v = particle_of (fst w) jj; v' = particle_of (fst w') jj in
      if pv_state v = 1 then pv_state v' = 1 \<and> pv_at_turn v + int k \<le> pv_at_turn v' + int missed \<or> pv_state v' = 0 else v' = v)" for k jj
  proof (intro impI)
    assume "k * length bes \<le> n" and jj: "valid_idx (fst w) jj"
    then have "k * length bes < Suc turns * length bes" using S(2,3) by simp
    then have "k < Suc turns" by (metis mult_less_cancel2)
    then have "k \<le> turns" by simp
    then show "let v = particle_of (fst w) jj; v' = particle_of (fst w') jj in
        if pv_state v = 1 then pv_state v' = 1 \<and> pv_at_turn v + int k \<le> pv_at_turn v' + int missed \<or> pv_state v' = 0 else v' = v"
      using S(4) jj by (auto simp: on_schedule_def Let_def)
  qed
  show "(\<forall>be\<in>set bes. \<forall>v. snd (element_map cfg (world_sizes w) be v) = 0) \<longrightarrow> missed = 0" by (rule steady)
qed

subsection \<open>Samples\<close>

lemma one_by_one:
  assumes "world_wf w" "bes \<noteq> []"
  shows "\<exists>missed w'. schedule cfg bes w n missed w' (n mod length bes)"
proof (induction n)
  case 0
  show ?case using schedule.start [of cfg bes w] by (intro exI [of _ 0] exI [of _ w]) simp
next
  case (Suc n)
  then obtain missed w1 where S: "schedule cfg bes w n missed w1 (n mod length bes)" by blast
  define end' where "end' = n mod length bes + 1"
  have "world_wf w1" using schedule_progress [OF S assms] by blast
  then obtain w2 s where L: "Track_all_particles_line cfg w1 bes (n mod length bes) end' (end' = length bes) = Some (w2, s)"
    using all_line_run [of w1 cfg bes "n mod length bes" end' "end' = length bes"] by fastforce
  have "end' \<le> length bes" "n mod length bes < end'" using assms(2) by (simp_all add: end'_def Suc_leI)
  note next' = schedule.piece [OF S this(2,1) L]
  have "(if end' = length bes then 0 else end') = Suc n mod length bes" by (simp add: end'_def mod_Suc)
  then show ?case using next' by (intro exI [of _ "if end' = length bes \<and> s \<noteq> 0 then Suc missed else missed"] exI [of _ w2]) simp
qed

theorem pieces_make_progress_witness:
  "\<exists>w'. schedule sample_track_config sample_lattice (sample_world 0) 9 0 w' 0 \<and>
    (pv_state (particle_of (fst w') 2) = 1 \<and> pv_at_turn (particle_of (fst w') 2) \<ge> 3 \<or> pv_state (particle_of (fst w') 2) = 0)"
proof -
  have len: "length sample_lattice = 3" "sample_lattice \<noteq> []" by (simp_all add: sample_lattice_def)
  have steady: "\<forall>be\<in>set sample_lattice. \<forall>v. snd (element_map sample_track_config sizes be v) = 0" for sizes
    by (simp add: sample_lattice_def sample_track_config_def element_map_def element_map_check_def Let_def case_prod_beta)
  obtain missed w' where S: "schedule sample_track_config sample_lattice (sample_world 0) 9 missed w' 0"
    using one_by_one [of "sample_world 0" sample_lattice sample_track_config 9] len by auto
  note P = pieces_make_progress [OF S _ len(2)]
  have missed: "missed = 0" using P steady by simp
  have "valid_idx (fst (sample_world 0)) 2" by (simp add: valid_idx_def reference_particles_def)
  then have "let v = particle_of (fst (sample_world 0)) 2; v' = particle_of (fst w') 2 in
      if pv_state v = 1 then pv_state v' = 1 \<and> pv_at_turn v + int 3 \<le> pv_at_turn v' + int missed \<or> pv_state v' = 0 else v' = v"
    using P len(1) by simp
  then show ?thesis using S missed by (intro exI [of _ w'] conjI) (simp_all add: Let_def reference_particle_def)
qed

end
