(* ===== verification/Track_Outputs.thy ===== *)
theory Track_Outputs
  imports Track_Results
begin

section \<open>What tracking leaves in the outputs\<close>

text \<open>
  The only elements that write to outputs are beam monitors. What one particle writes is a map from slots - an address
  and an index - to particles, which depends on that particle and the sizes of the outputs only; the loops combine these
  maps. Where the maps of different particles are on different slots, the order of the particles does not matter to the
  outputs either. \<open>separate_outputs\<close> is a condition on the monitors under which this is so.
\<close>

type_synonym slot = "u64 \<times> i64"

definition slot_of :: "world \<Rightarrow> slot \<Rightarrow> particle" where
  "slot_of w k = particle_of (snd w (fst k)) (snd k)"

definition overwrite :: "(slot \<rightharpoonup> particle) \<Rightarrow> (slot \<Rightarrow> particle) \<Rightarrow> slot \<Rightarrow> particle" where
  "overwrite W out k = (case W k of None \<Rightarrow> out k | Some v \<Rightarrow> v)"

lemma overwrite_simps [simp]:
  "overwrite Map.empty out = out" "overwrite (W ++ W') out = overwrite W' (overwrite W out)"
  by (auto simp: overwrite_def fun_eq_iff map_add_def split: option.splits)

text \<open>The outputs of a world after some writes: every slot with a non-negative index holds what was written to it.\<close>

definition leaves :: "world \<Rightarrow> (slot \<rightharpoonup> particle) \<Rightarrow> world \<Rightarrow> bool" where
  "leaves w W w' \<longleftrightarrow> (\<forall>k. 0 \<le> snd k \<longrightarrow> slot_of w' k = overwrite W (slot_of w) k)"

lemma leaves_refl: "snd w' = snd w \<Longrightarrow> leaves w Map.empty w'"
  by (simp add: leaves_def slot_of_def)

lemma leaves_trans: "leaves w W w1 \<Longrightarrow> leaves w1 W' w' \<Longrightarrow> leaves w (W ++ W') w'"
  by (auto simp: leaves_def overwrite_def split: option.splits)

subsection \<open>The writes of one particle\<close>

definition element_writes :: "(u64 \<Rightarrow> i64) \<Rightarrow> beam_element \<Rightarrow> particle \<Rightarrow> slot \<rightharpoonup> particle" where
  "element_writes sizes be v = (case be of
     BE_BeamMonitor m \<Rightarrow>
       let i = BeamMonitor_get_store_particle_index m (pv_at_turn v) (pv_particle_id v)
       in if BeamMonitor_out_address m \<noteq> 0 \<and> 0 \<le> i \<and> i < sizes (BeamMonitor_out_address m)
          then [(BeamMonitor_out_address m, i) \<mapsto> v] else Map.empty
   | _ \<Rightarrow> Map.empty)"

fun elements_writes :: "track_config \<Rightarrow> (u64 \<Rightarrow> i64) \<Rightarrow> beam_element list \<Rightarrow> particle \<Rightarrow> slot \<rightharpoonup> particle" where
  "elements_writes cfg sizes [] v = Map.empty"
| "elements_writes cfg sizes (be # rest) v = element_writes sizes be v ++
     (let (v, s) = element_map cfg sizes be v
      in if s = 0 \<and> pv_state v = 1
         then elements_writes cfg sizes rest (v\<lparr>pv_at_element_id := pv_at_element_id v + 1\<rparr>) else Map.empty)"

fun turns_writes :: "track_config \<Rightarrow> (u64 \<Rightarrow> i64) \<Rightarrow> beam_element list \<Rightarrow> i64 \<Rightarrow> nat \<Rightarrow> particle \<Rightarrow> slot \<rightharpoonup> particle" where
  "turns_writes cfg sizes bes start 0 v = Map.empty"
| "turns_writes cfg sizes bes start (Suc n) v = elements_writes cfg sizes bes v ++
     (case elements_map cfg sizes bes v of (v, s, continue) \<Rightarrow>
        if continue then turns_writes cfg sizes bes start n (end_turn start v) else Map.empty)"

definition until_turn_writes :: "track_config \<Rightarrow> beam_element list \<Rightarrow> i64 \<Rightarrow> (u64 \<Rightarrow> i64) \<Rightarrow> particle \<Rightarrow> slot \<rightharpoonup> particle" where
  "until_turn_writes cfg bes until sizes v =
     (if bes \<noteq> [] \<and> pv_at_turn v < until \<and> pv_state v = 1
      then turns_writes cfg sizes bes (pv_at_element_id v) (nat (until - pv_at_turn v)) v else Map.empty)"

lemma dispatcher_leaves:
  assumes "world_wf w" "valid_idx (fst w) ii"
  shows "leaves w (element_writes (world_sizes w) be (particle_of (fst w) ii))
    (fst (Track_particle_beam_element_obj_dispatcher cfg w ii be))"
proof (cases "\<exists>m. be = BE_BeamMonitor m")
  case True
  then obtain m where be: "be = BE_BeamMonitor m" by blast
  define a i where "a = BeamMonitor_out_address m"
    and "i = BeamMonitor_get_store_particle_index m (pv_at_turn (particle_of (fst w) ii)) (pv_particle_id (particle_of (fst w) ii))"
  have run: "fst (Track_particle_beam_element_obj_dispatcher cfg w ii be) = fst (Track_particle_beam_monitor (fst w) (snd w) ii m)"
    by (simp add: be Track_particle_beam_element_obj_dispatcher_def Track_particle_beam_element_obj_dispatcher_aperture_check_def)
  have st: "snd (fst (Track_particle_beam_monitor (fst w) (snd w) ii m)) =
      (if a \<noteq> 0 \<and> 0 \<le> i then fst (store_particle (snd w) a i (fst w) ii) else snd w)"
    by (auto simp: Track_particle_beam_monitor_def a_def i_def particle_simps Let_def case_prod_beta)
  have W: "element_writes (world_sizes w) be (particle_of (fst w) ii) =
      (if a \<noteq> 0 \<and> 0 \<le> i \<and> i < world_sizes w a then [(a, i) \<mapsto> particle_of (fst w) ii] else Map.empty)"
    by (simp add: element_writes_def be a_def i_def Let_def)
  consider (stored) "a \<noteq> 0" "0 \<le> i" "i < world_sizes w a" | (full) "a \<noteq> 0" "0 \<le> i" "\<not> i < world_sizes w a"
    | (none) "\<not> (a \<noteq> 0 \<and> 0 \<le> i)" by blast
  then show ?thesis
  proof cases
    case stored
    then have "valid_idx (snd w a) i" by (simp add: valid_idx_def world_sizes_def store_sizes_def)
    then have view: "0 \<le> jj \<Longrightarrow> particle_of (fst (store_particle (snd w) a i (fst w) ii) addr') jj =
        (if addr' = a \<and> jj = i then particle_of (fst w) ii else particle_of (snd w addr') jj)" for addr' jj
      using assms by (intro store_particle_view) (simp_all add: world_wf_def)
    show ?thesis unfolding leaves_def run W
      using view assms(1) stored by (auto simp: slot_of_def st overwrite_def world_wf_def)
  next
    case full
    have "fst (store_particle (snd w) a i (fst w) ii) = snd w"
      using full by (simp add: store_particle_def Particles_copy_to_generic_addr_data_def world_sizes_def store_sizes_def)
    then show ?thesis unfolding run W using full by (simp add: leaves_refl st)
  next
    case none
    then show ?thesis unfolding run W by (auto simp: leaves_refl st)
  qed
next
  case False
  then have "element_writes (world_sizes w) be (particle_of (fst w) ii) = Map.empty"
    by (cases be) (simp_all add: element_writes_def)
  moreover have "snd (fst (Track_particle_beam_element_obj_dispatcher cfg w ii be)) = snd w"
    using False by (cases be) (simp_all add: Track_particle_beam_element_obj_dispatcher_def on_particles_def if_enabled_def
        Track_particle_beam_element_obj_dispatcher_aperture_check_def case_prod_beta Let_def)
  ultimately show ?thesis by (simp add: leaves_refl)
qed

lemma elements_leave:
  assumes "world_wf w" "valid_idx (fst w) ii"
  shows "leaves w (elements_writes cfg (world_sizes w) bes (particle_of (fst w) ii)) (fst (track_elements cfg ii bes w))"
  using assms
proof (induction bes arbitrary: w)
  case Nil
  then show ?case by (simp add: leaves_refl)
next
  case (Cons be bes)
  obtain v1 s1 where v1: "element_map cfg (world_sizes w) be (particle_of (fst w) ii) = (v1, s1)" by (metis surj_pair)
  obtain w1 t1 where w1: "Track_particle_beam_element_obj_dispatcher cfg w ii be = (w1, t1)" by (metis surj_pair)
  have step: "tracks_to w ii (v1, s1) (w1, t1)"
    using dispatcher_tracks [OF Cons.prems, of cfg be] by (simp add: v1 w1)
  have view: "particle_of (fst w1) ii = v1" and "t1 = s1" and sizes: "world_sizes w1 = world_sizes w"
    and wf1: "world_wf w1" "valid_idx (fst w1) ii"
    using tracks_to_self [OF step Cons.prems(2)] tracks_to_keeps [OF step] Cons.prems(2) by simp_all
  have first: "leaves w (element_writes (world_sizes w) be (particle_of (fst w) ii)) w1"
    using dispatcher_leaves [OF Cons.prems, of be cfg] by (simp add: w1)
  show ?case
  proof (cases "s1 = 0 \<and> pv_state v1 = 1")
    case True
    define w2 where "w2 = set_p w1 (\<lambda>p. Particles_increment_at_element_id_value p ii)"
    have step2: "tracks_to w1 ii (v1\<lparr>pv_at_element_id := pv_at_element_id v1 + 1\<rparr>, t1) (w2, t1)"
      using set_p_tracks [OF increment_at_element.particle_kernel_axioms wf1, of t1] by (simp add: w2_def view)
    have view2: "particle_of (fst w2) ii = v1\<lparr>pv_at_element_id := pv_at_element_id v1 + 1\<rparr>"
      and sizes2: "world_sizes w2 = world_sizes w" and wf2: "world_wf w2" "valid_idx (fst w2) ii"
      using tracks_to_self [OF step2 wf1(2)] tracks_to_keeps [OF step2] wf1 sizes by simp_all
    have "leaves w1 Map.empty w2" by (simp add: leaves_refl w2_def set_p_def)
    from leaves_trans [OF leaves_trans [OF first this] Cons.IH [OF wf2]] show ?thesis
      using True by (simp add: v1 w1 is_not_lost_view view \<open>t1 = s1\<close> view2 sizes2 flip: w2_def)
  next
    case False
    then show ?thesis using first by (auto simp: v1 w1 is_not_lost_view view \<open>t1 = s1\<close>)
  qed
qed

lemma until_turn_loop_leaves:
  assumes "world_wf w" "valid_idx (fst w) ii" "n = nat (until - pv_at_turn (particle_of (fst w) ii))" "0 < n"
  shows "leaves w (turns_writes cfg (world_sizes w) bes start n (particle_of (fst w) ii))
    (fst (the (until_turn_loop cfg ii bes start until w)))"
  using assms
proof (induction n arbitrary: w)
  case (Suc n)
  note w = Suc.prems(1,2)
  obtain v s c where v: "elements_map cfg (world_sizes w) bes (particle_of (fst w) ii) = (v, s, c)" by (metis surj_pair)
  obtain w1 where w1: "track_elements cfg ii bes w = (w1, s, c)" and step: "tracks_to w ii (v, s) (w1, s)"
    using track_elements_tracks [OF w v] by blast
  note keeps = tracks_to_keeps [OF step, unfolded fst_conv snd_conv]
  have wf1: "world_wf w1" "valid_idx (fst w1) ii" and view1: "particle_of (fst w1) ii = v"
    using keeps w tracks_to_self [OF step w(2)] by simp_all
  have first: "leaves w (elements_writes cfg (world_sizes w) bes (particle_of (fst w) ii)) w1"
    using elements_leave [OF w, of cfg bes] by (simp add: w1)
  show ?case
  proof (cases c)
    case True
    define w2 where "w2 = set_p w1 (finish_turn_of start ii)"
    have step2: "tracks_to w1 ii (end_turn start v, s) (w2, s)"
      unfolding w2_def using set_p_tracks [OF end_turn_kernel(1) wf1, of start s] by (simp add: view1)
    note keeps2 = tracks_to_keeps [OF step2, unfolded fst_conv snd_conv]
    have wf2: "world_wf w2" "valid_idx (fst w2) ii" "world_sizes w2 = world_sizes w" and view2: "particle_of (fst w2) ii = end_turn start v"
      using keeps keeps2 wf1 tracks_to_self [OF step2 wf1(2)] by simp_all
    have "leaves w1 Map.empty w2" by (simp add: leaves_refl w2_def set_p_def)
    note both = leaves_trans [OF first this]
    have n: "n = nat (until - pv_at_turn (particle_of (fst w2) ii))"
      using Suc.prems(3) elements_map_end(1) [OF v] by (simp add: view2)
    have turn: "Particles_get_at_turn_value (fst w2) ii < until \<longleftrightarrow> 0 < n" using n by (simp add: particle_simps)
    have loop: "until_turn_loop cfg ii bes start until w =
        (if 0 < n then until_turn_loop cfg ii bes start until w2 else Some (w2, s))"
      by (subst until_turn_loop.simps) (simp add: w1 True turn flip: w2_def)
    show ?thesis
      using both leaves_trans [OF both Suc.IH [OF wf2(1,2) n]] by (cases "0 < n") (simp_all add: loop v True wf2(3) view2)
  next
    case False
    have "leaves w1 Map.empty (set_p w1 (\<lambda>p. Particles_mark_as_lost_value p ii))" by (simp add: leaves_refl set_p_def)
    moreover have "until_turn_loop cfg ii bes start until w = Some (set_p w1 (\<lambda>p. Particles_mark_as_lost_value p ii), s)"
      by (subst until_turn_loop.simps) (simp add: w1 False)
    ultimately show ?thesis using leaves_trans [OF first] by (fastforce simp: v False)
  qed
qed simp

lemma until_turn_leaves:
  assumes w: "world_wf w" "valid_idx (fst w) ii" and run: "Track_particle_until_turn_objs cfg w ii bes until = Some (w', s)"
  shows "leaves w (until_turn_writes cfg bes until (world_sizes w) (particle_of (fst w) ii)) w'"
proof -
  define v where "v = particle_of (fst w) ii"
  have views: "Particles_get_at_turn_value (fst w) ii = pv_at_turn v"
    "Particles_get_at_element_id_value (fst w) ii = pv_at_element_id v"
    "Particles_is_not_lost_value (fst w) ii \<longleftrightarrow> pv_state v = 1"
    by (simp_all add: v_def particle_simps)
  show ?thesis
  proof (cases "bes \<noteq> [] \<and> pv_at_turn v < until \<and> pv_state v = 1")
    case True
    then have "0 < nat (until - pv_at_turn v)" by simp
    from until_turn_loop_leaves [OF w _ this, of until cfg bes "pv_at_element_id v"] show ?thesis
      using True run by (simp add: Track_particle_until_turn_objs_def views until_turn_writes_def flip: v_def)
  next
    case False
    then have "w' = w" using run by (auto simp: Track_particle_until_turn_objs_def views)
    then show ?thesis using False by (auto simp: until_turn_writes_def leaves_refl simp flip: v_def)
  qed
qed

subsection \<open>All particles\<close>

text \<open>A tracking function of which is known what it writes to the outputs.\<close>

locale output_tracker = tracker +
  fixes writes :: "(u64 \<Rightarrow> i64) \<Rightarrow> particle \<Rightarrow> slot \<rightharpoonup> particle"
  assumes leaves_writes: "world_wf w \<Longrightarrow> valid_idx (fst w) ii \<Longrightarrow> f w ii = Some (w', s) \<Longrightarrow>
    leaves w (writes (world_sizes w) (particle_of (fst w) ii)) w'"
begin

definition all_writes :: "world \<Rightarrow> i64 list \<Rightarrow> slot \<rightharpoonup> particle" where
  "all_writes w iis = foldr (\<lambda>ii W. writes (world_sizes w) (particle_of (fst w) ii) ++ W) iis Map.empty"

lemma run_leaves:
  assumes "world_wf w" "\<forall>ii\<in>set iis. valid_idx (fst w) ii" "distinct iis" "track_indices f iis w s = Some (w', s')"
  shows "leaves w (all_writes w iis) w'"
  using assms
proof (induction iis arbitrary: w s)
  case Nil
  then show ?case by (simp add: all_writes_def leaves_refl)
next
  case (Cons ii iis)
  have ii: "valid_idx (fst w) ii" using Cons.prems(2) by simp
  obtain w1 s1 where w1: "f w ii = Some (w1, s1)" and step: "tracks_to w ii (g (world_sizes w) (particle_of (fst w) ii)) (w1, s1)"
    using tracks [OF Cons.prems(1) ii] by auto
  note keeps = tracks_to_keeps [OF step, unfolded fst_conv snd_conv]
  have "\<forall>jj\<in>set iis. valid_idx (fst w1) jj" "distinct iis" using Cons.prems keeps(2) by simp_all
  from Cons.IH [OF keeps(1) this] have "leaves w1 (all_writes w1 iis) w'" using Cons.prems(4) w1 by simp
  moreover have "particle_of (fst w1) jj = particle_of (fst w) jj" if "jj \<in> set iis" for jj
    using tracks_to_view [OF step, of jj] that Cons.prems(2,3) by (auto simp: valid_idx_def)
  then have "all_writes w1 iis = all_writes w iis" unfolding all_writes_def keeps(3) by (intro foldr_cong) simp_all
  ultimately show ?case using leaves_trans [OF leaves_writes [OF Cons.prems(1) ii w1]] by (simp add: all_writes_def)
qed

text \<open>Where different particles write to different slots, every particle finds its writes again, in whatever order.\<close>

lemma all_writes_of:
  assumes "distinct iis" "ii \<in> set iis" "k \<in> dom (writes (world_sizes w) (particle_of (fst w) ii))"
    and "\<And>jj. jj \<in> set iis \<Longrightarrow> jj \<noteq> ii \<Longrightarrow> k \<notin> dom (writes (world_sizes w) (particle_of (fst w) jj))"
  shows "all_writes w iis k = writes (world_sizes w) (particle_of (fst w) ii) k"
  using assms
proof (induction iis)
  case (Cons jj iis)
  have none: "all_writes w iis k = None" if "\<And>jj. jj \<in> set iis \<Longrightarrow> k \<notin> dom (writes (world_sizes w) (particle_of (fst w) jj))"
    using that by (induction iis) (auto simp: all_writes_def map_add_def split: option.splits)
  show ?case
  proof (cases "jj = ii")
    case True
    then have "all_writes w iis k = None" using Cons.prems by (intro none) auto
    then show ?thesis using True by (simp add: all_writes_def map_add_def)
  next
    case False
    then have "all_writes w iis k = writes (world_sizes w) (particle_of (fst w) ii) k" using Cons by simp
    then show ?thesis using Cons.prems(3) by (auto simp: all_writes_def map_add_def split: option.splits)
  qed
qed simp

lemma all_writes_none:
  "(\<And>ii. ii \<in> set iis \<Longrightarrow> k \<notin> dom (writes (world_sizes w) (particle_of (fst w) ii))) \<Longrightarrow> all_writes w iis k = None"
  by (induction iis) (auto simp: all_writes_def map_add_def split: option.splits)

lemma all_writes_order:
  assumes "distinct iis" "distinct iis'" "set iis' = set iis"
    and apart: "\<And>ii jj. ii \<in> set iis \<Longrightarrow> jj \<in> set iis \<Longrightarrow> ii \<noteq> jj \<Longrightarrow>
      dom (writes (world_sizes w) (particle_of (fst w) ii)) \<inter> dom (writes (world_sizes w) (particle_of (fst w) jj)) = {}"
  shows "all_writes w iis = all_writes w iis'"
proof
  fix k
  show "all_writes w iis k = all_writes w iis' k"
  proof (cases "\<exists>ii\<in>set iis. k \<in> dom (writes (world_sizes w) (particle_of (fst w) ii))")
    case True
    then obtain ii where ii: "ii \<in> set iis" "k \<in> dom (writes (world_sizes w) (particle_of (fst w) ii))" by blast
    then have "k \<notin> dom (writes (world_sizes w) (particle_of (fst w) jj))" if "jj \<in> set iis" "jj \<noteq> ii" for jj
      using apart [of ii jj] that by blast
    then show ?thesis using all_writes_of [OF assms(1) ii] all_writes_of [OF assms(2) _ ii(2)] ii(1) assms(3) by auto
  next
    case False
    then have "all_writes w iis k = None" "all_writes w iis' k = None" using assms(3) by (auto intro!: all_writes_none)
    then show ?thesis by simp
  qed
qed

lemma run_order_outputs:
  assumes w: "world_wf w" and valid: "\<forall>ii\<in>set iis. valid_idx (fst w) ii"
    and d: "distinct iis" "distinct iis'" and same: "set iis' = set iis"
    and apart: "\<And>ii jj. ii \<in> set iis \<Longrightarrow> jj \<in> set iis \<Longrightarrow> ii \<noteq> jj \<Longrightarrow>
      dom (writes (world_sizes w) (particle_of (fst w) ii)) \<inter> dom (writes (world_sizes w) (particle_of (fst w) jj)) = {}"
    and run: "track_indices f iis w s = Some (w1, s1)" "track_indices f iis' w s = Some (w2, s2)"
  shows "snd w1 = snd w2"
proof
  fix addr
  have valid': "\<forall>ii\<in>set iis'. valid_idx (fst w) ii" using valid same by simp
  have L: "leaves w (all_writes w iis) w1" "leaves w (all_writes w iis) w2"
    using run_leaves [OF w valid d(1) run(1)] run_leaves [OF w valid' d(2) run(2)] all_writes_order [OF d same apart] by simp_all
  have wf: "world_wf w1" "world_wf w2" "world_sizes w1 = world_sizes w" "world_sizes w2 = world_sizes w"
    using tracker.run [OF tracker_axioms w valid d(1), of s] tracker.run [OF tracker_axioms w valid' d(2), of s] run by auto
  show "snd w1 addr = snd w2 addr"
  proof (rule particles_eqI)
    show "particles_wf (snd w1 addr)" "particles_wf (snd w2 addr)" using wf(1,2) by (simp_all add: world_wf_def store_wf_def)
    show "num_particles (snd w1 addr) = num_particles (snd w2 addr)"
      using fun_cong [OF wf(3), of addr] fun_cong [OF wf(4), of addr] by (simp add: world_sizes_def store_sizes_def)
    fix i assume "valid_idx (snd w1 addr) i"
    then show "particle_of (snd w1 addr) i = particle_of (snd w2 addr) i"
      using L by (simp add: leaves_def slot_of_def valid_idx_def)
  qed
qed

end

interpretation until_turn_outputs: output_tracker "\<lambda>w ii. Track_particle_until_turn_objs cfg w ii bes until"
    "until_turn_map cfg bes until" "until_turn_writes cfg bes until" for cfg bes until
  by unfold_locales (rule until_turn_leaves)

subsection \<open>Outputs that keep particles apart\<close>

definition monitors_of :: "beam_element list \<Rightarrow> BeamMonitor list" where
  "monitors_of bes = concat (map (\<lambda>be. case be of
     BE_BeamMonitor m \<Rightarrow> if BeamMonitor_out_address m \<noteq> 0 then [m] else [] | _ \<Rightarrow> []) bes)"

text \<open>The monitors with an output are in turn order and monitor all particles, which have different ids, and different
  monitors have different outputs.\<close>

definition separate_outputs :: "beam_element list \<Rightarrow> particles \<Rightarrow> bool" where
  "separate_outputs bes p \<longleftrightarrow> (\<forall>m\<in>set (monitors_of bes). monitor_wf m \<and> BeamMonitor_is_turn_ordered m \<and>
     (\<forall>ii\<in>set [0..num_particles p - 1]. monitored_id m (pv_particle_id (particle_of p ii))) \<and>
     inj_on (\<lambda>ii. pv_particle_id (particle_of p ii)) (set [0..num_particles p - 1]) \<and>
     (\<forall>m'\<in>set (monitors_of bes). BeamMonitor_out_address m' = BeamMonitor_out_address m \<longrightarrow> m' = m))"

definition monitor_slots :: "beam_element list \<Rightarrow> i64 \<Rightarrow> slot set" where
  "monitor_slots bes pid = {(addr, i). 0 \<le> i \<and>
     (\<exists>m\<in>set (monitors_of bes). \<exists>t. addr = BeamMonitor_out_address m \<and> i = BeamMonitor_get_store_particle_index m t pid)}"

lemma monitor_slots_Cons: "monitor_slots bes pid \<subseteq> monitor_slots (be # bes) pid"
  by (auto simp: monitor_slots_def monitors_of_def)

lemma element_writes_slots: "dom (element_writes sizes be v) \<subseteq> monitor_slots (be # bes) (pv_particle_id v)"
  by (cases be) (auto simp: element_writes_def monitor_slots_def monitors_of_def Let_def)

lemma elements_writes_slots: "dom (elements_writes cfg sizes bes v) \<subseteq> monitor_slots bes (pv_particle_id v)"
proof (induction bes arbitrary: v)
  case (Cons be bes)
  obtain u s where u: "element_map cfg sizes be v = (u, s)" by (metis surj_pair)
  then have "pv_particle_id u = pv_particle_id v" using same_place_element [of v cfg sizes be] by (simp add: same_place_def)
  then show ?case
    using Cons.IH [of "u\<lparr>pv_at_element_id := pv_at_element_id u + 1\<rparr>"] monitor_slots_Cons [of bes "pv_particle_id v" be]
      element_writes_slots [of sizes be v bes]
    by (auto simp: u)
qed simp

lemma turns_writes_slots: "dom (turns_writes cfg sizes bes start n v) \<subseteq> monitor_slots bes (pv_particle_id v)"
proof (induction n arbitrary: v)
  case (Suc n)
  obtain u s c where u: "elements_map cfg sizes bes v = (u, s, c)" by (metis surj_pair)
  then show ?case
    using Suc.IH [of "end_turn start u"] elements_map_end(2) [OF u] elements_writes_slots [of cfg sizes bes v] by auto
qed simp

lemma until_turn_writes_slots: "dom (until_turn_writes cfg bes until sizes v) \<subseteq> monitor_slots bes (pv_particle_id v)"
  using turns_writes_slots by (auto simp: until_turn_writes_def)

text \<open>In turn order the index modulo the number of monitored ids is the particle.\<close>

lemma turn_ordered_index_mod:
  assumes "BeamMonitor_is_turn_ordered m" "monitored_id m pid" "0 \<le> BeamMonitor_get_store_particle_index m t pid"
  shows "BeamMonitor_get_store_particle_index m t pid mod monitor_width m = pid - BeamMonitor_min_particle_id m"
proof -
  have "0 \<le> pid - BeamMonitor_min_particle_id m" "pid - BeamMonitor_min_particle_id m < monitor_width m"
    using assms(2) by (simp_all add: monitored_id_def monitor_width_def)
  moreover obtain k where "BeamMonitor_get_store_particle_index m t pid = monitor_width m * k + (pid - BeamMonitor_min_particle_id m)"
    using assms(1,3) by (auto simp: BeamMonitor_get_store_particle_index_def monitor_width_def Let_def split: if_splits)
  ultimately show ?thesis by simp
qed

lemma separate_slots:
  assumes "separate_outputs bes p" "ii \<in> set [0..num_particles p - 1]" "jj \<in> set [0..num_particles p - 1]" "ii \<noteq> jj"
  shows "monitor_slots bes (pv_particle_id (particle_of p ii)) \<inter> monitor_slots bes (pv_particle_id (particle_of p jj)) = {}"
proof (rule ccontr)
  assume "\<not> ?thesis"
  then obtain m m' t t' where m: "m \<in> set (monitors_of bes)" "m' \<in> set (monitors_of bes)"
      "BeamMonitor_out_address m = BeamMonitor_out_address m'"
      "0 \<le> BeamMonitor_get_store_particle_index m' t' (pv_particle_id (particle_of p jj))"
      "BeamMonitor_get_store_particle_index m t (pv_particle_id (particle_of p ii)) =
        BeamMonitor_get_store_particle_index m' t' (pv_particle_id (particle_of p jj))"
    by (auto simp: monitor_slots_def)
  have S: "BeamMonitor_is_turn_ordered m" "monitored_id m (pv_particle_id (particle_of p ii))"
      "monitored_id m (pv_particle_id (particle_of p jj))" "inj_on (\<lambda>ii. pv_particle_id (particle_of p ii)) (set [0..num_particles p - 1])" "m' = m"
    using assms(1-3) m(1-3) unfolding separate_outputs_def by (metis (no_types))+
  have "pv_particle_id (particle_of p ii) - BeamMonitor_min_particle_id m = pv_particle_id (particle_of p jj) - BeamMonitor_min_particle_id m"
    using turn_ordered_index_mod [OF S(1,2), of t] turn_ordered_index_mod [OF S(1,3), of t'] m(4,5) S(5) by simp
  then have "ii = jj" using inj_onD [OF S(4) _ assms(2,3)] by simp
  then show False using assms(4) by simp
qed

text \<open>C26: The kernels that let every work-item track the particles of its own residue class modulo the number
  of work-items do, in whatever order the work-items run, the same to all particles as the one loop of
  \<open>NS(Track_all_particles_until_turn)\<close>, with the same combined status. They leave the same in the outputs of the beam
  monitors, too, where the monitors with an output are in turn order, have different outputs and monitor all
  particles, and the particles have different ids; otherwise particles may write to the same place, and the last one
  wins.\<close>

theorem strided_kernels_equal_loop:
  assumes "world_wf w" "0 < stride" "distinct items" "set items = {0..<stride}"
  shows "\<exists>p s st st'.
    track_indices (\<lambda>w ii. Track_particle_until_turn_objs cfg w ii bes until)
      (concat (map (\<lambda>k. stride_indices k stride (num_particles (fst w))) items)) w 0 = Some ((p, st), s) \<and>
    Track_all_particles_until_turn cfg w bes until = Some ((p, st'), s) \<and>
    (separate_outputs bes (fst w) \<longrightarrow> st = st')"
proof -
  let ?n = "num_particles (fst w)"
  let ?iis = "concat (map (\<lambda>k. stride_indices k stride ?n) items)"
  have cover: "set ?iis = {0..<?n}" by (rule strides_cover [OF assms(2,4)])
  have distinct: "distinct ?iis" by (rule strides_distinct [OF assms(2,3)]) (simp add: assms(4))
  have valid: "\<forall>ii\<in>set ?iis. valid_idx (fst w) ii" unfolding cover by (simp add: valid_idx_def)
  have same: "set [0..?n - 1] = set ?iis" unfolding cover by auto
  obtain p s st st' where R: "track_indices (\<lambda>w ii. Track_particle_until_turn_objs cfg w ii bes until) ?iis w 0 = Some ((p, st), s)"
      "track_indices (\<lambda>w ii. Track_particle_until_turn_objs cfg w ii bes until) [0..?n - 1] w 0 = Some ((p, st'), s)"
    using until_turn.run_order [OF assms(1) valid distinct all_indices(2) same, of cfg bes until 0] by blast
  have "st = st'" if "separate_outputs bes (fst w)"
  proof -
    have "dom (until_turn_writes cfg bes until (world_sizes w) (particle_of (fst w) ii)) \<inter>
        dom (until_turn_writes cfg bes until (world_sizes w) (particle_of (fst w) jj)) = {}"
      if "ii \<in> set ?iis" "jj \<in> set ?iis" "ii \<noteq> jj" for ii jj
      using separate_slots [OF \<open>separate_outputs bes (fst w)\<close>, of ii jj] that unfolding same
      using until_turn_writes_slots by blast
    from until_turn_outputs.run_order_outputs [OF assms(1) valid distinct all_indices(2) same this R] show ?thesis by simp
  qed
  then show ?thesis
    using R unfolding Track_all_particles_until_turn_def Particles_get_num_of_particles_def by blast
qed

text \<open>Three particles, two work-items and a lattice with a monitor in it.\<close>

theorem strided_kernels_equal_loop_witness:
  "let bes = sample_lattice @ [BE_BeamMonitor (sample_monitor\<lparr>BeamMonitor_max_particle_id := 2\<rparr>)]
   in track_indices (\<lambda>w ii. Track_particle_until_turn_objs sample_track_config w ii bes 7)
        (concat (map (\<lambda>k. stride_indices k 2 (num_particles (fst (sample_world 9)))) [1, 0])) (sample_world 9) 0 =
      Track_all_particles_until_turn sample_track_config (sample_world 9) bes 7"
proof -
  define bes where "bes = sample_lattice @ [BE_BeamMonitor (sample_monitor\<lparr>BeamMonitor_max_particle_id := 2\<rparr>)]"
  have "separate_outputs bes (fst (sample_world 9))"
    by (auto simp: separate_outputs_def bes_def monitors_of_def sample_lattice_def monitor_wf_def sample_monitor_def
        BeamMonitor_is_turn_ordered_def monitored_id_def reference_particle_def inj_on_def)
  moreover have "set [1, 0] = {0..<2 :: int}" by auto
  ultimately show ?thesis
    using strided_kernels_equal_loop [of "sample_world 9" 2 "[1, 0]" sample_track_config bes 7]
    by (auto simp: Let_def simp flip: bes_def)
qed

end
