(* ===== verification/Managed_Buffer_Layout.thy ===== *)
theory Managed_Buffer_Layout
  imports Sx_Prelude
begin

section \<open>The layout of managed buffers (buffer/managed_buffer_minimal.h, buffer_object.h, buffer_garbage.h)\<close>

text \<open>
  A managed buffer is a flat range of bytes with an address: a header of 64-bit words, the stored address of
  the buffer (word 0), its length (1), the length of the header (2) and the addresses of the sections of
  slots (3), objects (4), data pointers (5) and garbage ranges (6). A section starts with its maximal size in
  bytes and the number of its entities. The model keeps the byte memory and passes addresses as 64-bit words;
  address 0 is NULL. Signed address differences are kept as 64-bit words too, since they are only added to
  addresses and compared for equality. The slot size is an argument, as in the code; the sizes of addresses,
  objects and garbage ranges are those of a 64-bit host.
\<close>

definition sizeof_address :: u64 where
  "sizeof_address = 8"

definition sizeof_Object :: u64 where
  "sizeof_Object = 24"

definition sizeof_BufferGarbage :: u64 where
  "sizeof_BufferGarbage = 16"

subsection \<open>Objects and garbage ranges\<close>

definition Object_get_begin_addr :: "mem \<Rightarrow> u64 \<Rightarrow> u64" where
  "Object_get_begin_addr m object = (if object \<noteq> 0 then rd64 m object else 0)"

definition Object_set_begin_addr :: "mem \<Rightarrow> u64 \<Rightarrow> u64 \<Rightarrow> mem" where
  "Object_set_begin_addr m object begin_addr = (if object \<noteq> 0 then wr64 m object begin_addr else m)"

definition Object_get_type_id :: "mem \<Rightarrow> u64 \<Rightarrow> u64" where
  "Object_get_type_id m object = (if object \<noteq> 0 then rd64 m (object + 8) else 0)"

definition Object_set_type_id :: "mem \<Rightarrow> u64 \<Rightarrow> u64 \<Rightarrow> mem" where
  "Object_set_type_id m object type_id = (if object \<noteq> 0 then wr64 m (object + 8) type_id else m)"

definition Object_get_size :: "mem \<Rightarrow> u64 \<Rightarrow> u64" where
  "Object_get_size m object = (if object \<noteq> 0 then rd64 m (object + 16) else 0)"

definition Object_set_size :: "mem \<Rightarrow> u64 \<Rightarrow> u64 \<Rightarrow> mem" where
  "Object_set_size m object size' = (if object \<noteq> 0 then wr64 m (object + 16) size' else m)"

definition Object_preset :: "mem \<Rightarrow> u64 \<Rightarrow> mem" where
  "Object_preset m object =
     (if object \<noteq> 0 then
        let m = Object_set_begin_addr m object 0;
            m = Object_set_type_id m object 0
        in Object_set_size m object 0
      else m)"

definition Object_get_const_begin_ptr :: "mem \<Rightarrow> u64 \<Rightarrow> u64" where
  "Object_get_const_begin_ptr m object = Object_get_begin_addr m object"

definition Object_get_begin_ptr :: "mem \<Rightarrow> u64 \<Rightarrow> u64" where
  "Object_get_begin_ptr m object = Object_get_const_begin_ptr m object"

definition Object_set_begin_ptr :: "mem \<Rightarrow> u64 \<Rightarrow> u64 \<Rightarrow> mem" where
  "Object_set_begin_ptr m object begin_ptr = Object_set_begin_addr m object begin_ptr"

definition BufferGarbage_get_begin_addr :: "mem \<Rightarrow> u64 \<Rightarrow> u64" where
  "BufferGarbage_get_begin_addr m garbage_range = (if garbage_range \<noteq> 0 then rd64 m garbage_range else 0)"

definition BufferGarbage_get_size :: "mem \<Rightarrow> u64 \<Rightarrow> u64" where
  "BufferGarbage_get_size m garbage_range = (if garbage_range \<noteq> 0 then rd64 m (garbage_range + 8) else 0)"

definition BufferGarbage_set_begin_addr :: "mem \<Rightarrow> u64 \<Rightarrow> u64 \<Rightarrow> mem" where
  "BufferGarbage_set_begin_addr m garbage_range begin_addr = (if garbage_range \<noteq> 0 then wr64 m garbage_range begin_addr else m)"

definition BufferGarbage_set_size :: "mem \<Rightarrow> u64 \<Rightarrow> u64 \<Rightarrow> mem" where
  "BufferGarbage_set_size m garbage_range range_size = (if garbage_range \<noteq> 0 then wr64 m (garbage_range + 8) range_size else m)"

definition BufferGarbage_preset :: "mem \<Rightarrow> u64 \<Rightarrow> mem" where
  "BufferGarbage_preset m garbage_range = BufferGarbage_set_size (BufferGarbage_set_begin_addr m garbage_range 0) garbage_range 0"

subsection \<open>Lengths\<close>

definition ManagedBuffer_get_slot_based_length :: "u64 \<Rightarrow> u64 \<Rightarrow> u64" where
  "ManagedBuffer_get_slot_based_length in_length slot_size =
     (let remainder = (if slot_size > 0 then in_length mod slot_size else 0)
      in if remainder = 0 then in_length else in_length + (slot_size - remainder))"

definition ManagedBuffer_get_section_entity_size :: "u64 \<Rightarrow> u64 \<Rightarrow> u64" where
  "ManagedBuffer_get_section_entity_size header_section_id slot_size =
     (if slot_size > 0 then
        if header_section_id = 3 then slot_size
        else if header_section_id = 4 then ManagedBuffer_get_slot_based_length sizeof_Object slot_size
        else if header_section_id = 5 then ManagedBuffer_get_slot_based_length sizeof_address slot_size
        else if header_section_id = 6 then ManagedBuffer_get_slot_based_length sizeof_BufferGarbage slot_size
        else 0
      else 0)"

definition ManagedBuffer_get_section_header_length :: "u64 \<Rightarrow> u64" where
  "ManagedBuffer_get_section_header_length slot_size =
     (if slot_size > 0 then 2 * ManagedBuffer_get_slot_based_length sizeof_address slot_size else 0)"

definition ManagedBuffer_get_header_length :: "mem \<Rightarrow> u64 \<Rightarrow> u64 \<Rightarrow> u64" where
  "ManagedBuffer_get_header_length m begin' slot_size =
     (if slot_size > 0 then
        let header_length = (if begin' \<noteq> 0 then rd64 m (begin' + 8 * 2) else 0)
        in if header_length = 0 then ManagedBuffer_get_slot_based_length sizeof_address slot_size * 8
           else header_length
      else 0)"

definition ManagedBuffer_get_buffer_length :: "mem \<Rightarrow> u64 \<Rightarrow> u64 \<Rightarrow> u64" where
  "ManagedBuffer_get_buffer_length m begin' slot_size =
     (if begin' \<noteq> 0 \<and> slot_size > 0 then rd64 m (begin' + 8 * 1) else 0)"

subsection \<open>Sections\<close>

definition ManagedBuffer_get_const_ptr_to_section :: "mem \<Rightarrow> u64 \<Rightarrow> u64 \<Rightarrow> u64 \<Rightarrow> u64" where
  "ManagedBuffer_get_const_ptr_to_section m begin' section_id slot_size =
     (if begin' \<noteq> 0 \<and> slot_size > 0 \<and> section_id \<ge> 3 \<and> section_id \<le> 6
      then rd64 m (begin' + 8 * section_id) else 0)"

definition ManagedBuffer_get_const_ptr_to_section_data :: "mem \<Rightarrow> u64 \<Rightarrow> u64 \<Rightarrow> u64 \<Rightarrow> u64" where
  "ManagedBuffer_get_const_ptr_to_section_data m begin' section_id slot_size =
     (let ptr_data_begin = ManagedBuffer_get_const_ptr_to_section m begin' section_id slot_size
      in if ptr_data_begin \<noteq> 0 then ptr_data_begin + ManagedBuffer_get_section_header_length slot_size
         else ptr_data_begin)"

definition ManagedBuffer_get_section_max_size :: "mem \<Rightarrow> u64 \<Rightarrow> u64 \<Rightarrow> u64 \<Rightarrow> u64" where
  "ManagedBuffer_get_section_max_size m begin' section_id slot_size =
     (let ptr_to_section = ManagedBuffer_get_const_ptr_to_section m begin' section_id slot_size
      in if ptr_to_section \<noteq> 0 then rd64 m ptr_to_section else 0)"

definition ManagedBuffer_get_section_size :: "mem \<Rightarrow> u64 \<Rightarrow> u64 \<Rightarrow> u64 \<Rightarrow> u64" where
  "ManagedBuffer_get_section_size m begin' section_id slot_size =
     (let ptr_to_section = ManagedBuffer_get_const_ptr_to_section m begin' section_id slot_size;
          section_header_length = ManagedBuffer_get_section_header_length slot_size;
          num_elements = (if ptr_to_section \<noteq> 0 then rd64 m (ptr_to_section + 8 * 1) else 0);
          entity_size = ManagedBuffer_get_section_entity_size section_id slot_size
      in section_header_length + num_elements * entity_size)"

definition ManagedBuffer_get_const_ptr_to_section_end :: "mem \<Rightarrow> u64 \<Rightarrow> u64 \<Rightarrow> u64 \<Rightarrow> u64" where
  "ManagedBuffer_get_const_ptr_to_section_end m begin' section_id slot_size =
     (let end_ptr = ManagedBuffer_get_const_ptr_to_section m begin' section_id slot_size
      in if end_ptr \<noteq> 0 then end_ptr + ManagedBuffer_get_section_size m begin' section_id slot_size
         else end_ptr)"

definition ManagedBuffer_get_ptr_to_section :: "mem \<Rightarrow> u64 \<Rightarrow> u64 \<Rightarrow> u64 \<Rightarrow> u64" where
  "ManagedBuffer_get_ptr_to_section m begin' section_id slot_size =
     ManagedBuffer_get_const_ptr_to_section m begin' section_id slot_size"

definition ManagedBuffer_get_ptr_to_section_data :: "mem \<Rightarrow> u64 \<Rightarrow> u64 \<Rightarrow> u64 \<Rightarrow> u64" where
  "ManagedBuffer_get_ptr_to_section_data m begin' section_id slot_size =
     ManagedBuffer_get_const_ptr_to_section_data m begin' section_id slot_size"

definition ManagedBuffer_get_ptr_to_section_end :: "mem \<Rightarrow> u64 \<Rightarrow> u64 \<Rightarrow> u64 \<Rightarrow> u64" where
  "ManagedBuffer_get_ptr_to_section_end m begin' section_id slot_size =
     ManagedBuffer_get_const_ptr_to_section_end m begin' section_id slot_size"

definition ManagedBuffer_get_section_max_num_entities :: "mem \<Rightarrow> u64 \<Rightarrow> u64 \<Rightarrow> u64 \<Rightarrow> u64" where
  "ManagedBuffer_get_section_max_num_entities m begin' section_id slot_size =
     (let ptr_to_section = ManagedBuffer_get_const_ptr_to_section m begin' section_id slot_size;
          section_header_length = ManagedBuffer_get_section_header_length slot_size;
          max_section_size = (if ptr_to_section \<noteq> 0 then rd64 m ptr_to_section else 0);
          entity_size = ManagedBuffer_get_section_entity_size section_id slot_size;
          max_num_elements = (if max_section_size \<ge> section_header_length
            then max_section_size - section_header_length else 0)
      in max_num_elements div entity_size)"

definition ManagedBuffer_get_section_num_entities :: "mem \<Rightarrow> u64 \<Rightarrow> u64 \<Rightarrow> u64 \<Rightarrow> u64" where
  "ManagedBuffer_get_section_num_entities m begin' section_id slot_size =
     (let ptr_to_section = ManagedBuffer_get_const_ptr_to_section m begin' section_id slot_size
      in if ptr_to_section \<noteq> 0 then rd64 m (ptr_to_section + 8 * 1) else 0)"

subsection \<open>Access to objects\<close>

definition ManagedBuffer_get_const_objects_index_begin :: "mem \<Rightarrow> u64 \<Rightarrow> u64 \<Rightarrow> u64" where
  "ManagedBuffer_get_const_objects_index_begin m begin' slot_size =
     ManagedBuffer_get_const_ptr_to_section_data m begin' 4 slot_size"

definition ManagedBuffer_get_const_objects_index_end :: "mem \<Rightarrow> u64 \<Rightarrow> u64 \<Rightarrow> u64" where
  "ManagedBuffer_get_const_objects_index_end m begin' slot_size =
     ManagedBuffer_get_const_ptr_to_section_data m begin' 4 slot_size +
     sizeof_Object * ManagedBuffer_get_section_num_entities m begin' 4 slot_size"

definition ManagedBuffer_get_objects_index_begin :: "mem \<Rightarrow> u64 \<Rightarrow> u64 \<Rightarrow> u64" where
  "ManagedBuffer_get_objects_index_begin m begin' slot_size =
     ManagedBuffer_get_const_objects_index_begin m begin' slot_size"

definition ManagedBuffer_get_objects_index_end :: "mem \<Rightarrow> u64 \<Rightarrow> u64 \<Rightarrow> u64" where
  "ManagedBuffer_get_objects_index_end m begin' slot_size =
     ManagedBuffer_get_const_objects_index_end m begin' slot_size"

definition ManagedBuffer_get_num_objects :: "mem \<Rightarrow> u64 \<Rightarrow> u64 \<Rightarrow> u64" where
  "ManagedBuffer_get_num_objects m begin' slot_size =
     ManagedBuffer_get_section_num_entities m begin' 4 slot_size"

definition ManagedBuffer_get_const_object :: "mem \<Rightarrow> u64 \<Rightarrow> u64 \<Rightarrow> u64 \<Rightarrow> u64" where
  "ManagedBuffer_get_const_object m begin' buffer_index slot_size =
     (let obj_ptr = ManagedBuffer_get_const_objects_index_begin m begin' slot_size
      in if begin' \<noteq> 0 \<and> buffer_index \<le> ManagedBuffer_get_num_objects m begin' slot_size
         then obj_ptr + sizeof_Object * buffer_index else 0)"

definition ManagedBuffer_get_object :: "mem \<Rightarrow> u64 \<Rightarrow> u64 \<Rightarrow> u64 \<Rightarrow> u64" where
  "ManagedBuffer_get_object m begin' buffer_index slot_size =
     ManagedBuffer_get_const_object m begin' buffer_index slot_size"

definition ManagedBuffer_get_object_begin_addr_by_index_filter_by_type_id ::
    "mem \<Rightarrow> u64 \<Rightarrow> u64 \<Rightarrow> u64 \<Rightarrow> u64 \<Rightarrow> u64" where
  "ManagedBuffer_get_object_begin_addr_by_index_filter_by_type_id m begin' index required_type_id slot_size =
     (let obj = ManagedBuffer_get_const_objects_index_begin m begin' slot_size
      in if obj \<noteq> 0 \<and> required_type_id \<noteq> 0 \<and> index < ManagedBuffer_get_num_objects m begin' slot_size
         then let obj = obj + sizeof_Object * index
              in if Object_get_type_id m obj = required_type_id then Object_get_begin_addr m obj else 0
         else 0)"

definition ManagedBuffer_get_stored_begin_addr :: "mem \<Rightarrow> u64 \<Rightarrow> u64" where
  "ManagedBuffer_get_stored_begin_addr m begin' = (if begin' \<noteq> 0 then rd64 m begin' else 0)"

definition ManagedBuffer_get_buffer_begin_addr :: "u64 \<Rightarrow> u64" where
  "ManagedBuffer_get_buffer_begin_addr begin' = begin'"

definition ManagedBuffer_needs_remapping :: "mem \<Rightarrow> u64 \<Rightarrow> u64 \<Rightarrow> bool" where
  "ManagedBuffer_needs_remapping m begin' slot_size \<longleftrightarrow>
     slot_size > 0 \<and> rd64 m begin' \<noteq> begin' \<and> rd64 m begin' \<noteq> 0"

end
