(* ===== verification/Word_Arrays.thy ===== *)
theory Word_Arrays
  imports Sx_Prelude
begin

section \<open>Ranges of 64-bit words in byte memory\<close>

text \<open>
  Buffers are accessed as arrays of 64-bit words. \<open>word_addr b k\<close> is the address of word \<open>k\<close> of the range at
  \<open>b\<close>; \<open>buf m0 b n f m\<close> says that the \<open>n\<close> words at \<open>b\<close> are those of \<open>f\<close> in memory \<open>m\<close>, which otherwise
  is \<open>m0\<close>. Writes at word addresses become updates of \<open>f\<close>.
\<close>

definition word_addr :: "u64 \<Rightarrow> nat \<Rightarrow> u64" where
  "word_addr b k = b + 8 * of_nat k"

definition fits :: "u64 \<Rightarrow> nat \<Rightarrow> bool" where
  "fits b n \<longleftrightarrow> b \<noteq> 0 \<and> unat b + 8 * n < 2 ^ 64"

definition buf :: "mem \<Rightarrow> u64 \<Rightarrow> nat \<Rightarrow> (nat \<Rightarrow> u64) \<Rightarrow> mem \<Rightarrow> bool" where
  "buf m0 b n f m \<longleftrightarrow> (\<forall>k<n. rd64 m (word_addr b k) = f k) \<and>
     (\<forall>i. i < unat b \<or> unat b + 8 * n \<le> i \<longrightarrow> m i = m0 i)"

named_theorems addr_simps

lemma unat_of_nat_u64: "k < 2 ^ 64 \<Longrightarrow> unat (of_nat k :: u64) = k"
  by (simp add: unsigned_of_nat take_bit_nat_eq_self)

lemma unat_addr: "fits b n \<Longrightarrow> k \<le> n \<Longrightarrow> unat (word_addr b k) = unat b + 8 * k"
proof -
  assume fits: "fits b n" and k: "k \<le> n"
  then have "k < 2 ^ 64" "8 * k < 2 ^ 64" by (simp_all add: fits_def)
  then have of_nat: "unat (of_nat k :: u64) = k" by (simp add: unat_of_nat_u64)
  then have "unat (8 * of_nat k :: u64) = 8 * k"
    using \<open>8 * k < 2 ^ 64\<close> by (subst unat_u64_mult) simp_all
  then show ?thesis
    unfolding word_addr_def using fits k by (subst unat_u64_add) (simp_all add: fits_def)
qed

lemma addr_plus [addr_simps]:
  "word_addr b k + 8 * of_nat j = word_addr b (k + j)" "word_addr b k + 8 * 1 = word_addr b (k + 1)" "word_addr b k + 8 = word_addr b (k + 1)"
  "word_addr b k + 16 = word_addr b (k + 2)" "word_addr b k + 24 = word_addr b (k + 3)" "word_addr b k + 8 * 0 = word_addr b k"
  by (simp_all add: word_addr_def algebra_simps)

lemma addr_begin [addr_simps]:
  "b + 8 * 0 = word_addr b 0" "b + 8 * 1 = word_addr b 1" "b + 8 * numeral k = word_addr b (numeral k)"
  by (simp_all add: word_addr_def)

lemma addr_0: "word_addr b 0 = b"
  by (simp add: word_addr_def)

lemma addr_shift: "word_addr a k + (b - a) = word_addr b k"
  by (simp add: word_addr_def)

lemma addr_neq_0: "fits b n \<Longrightarrow> k \<le> n \<Longrightarrow> word_addr b k \<noteq> 0"
  using unat_addr [of b n k] by (auto simp: fits_def unat_eq_zero)

lemma addr_less: "fits b n \<Longrightarrow> j \<le> n \<Longrightarrow> k \<le> n \<Longrightarrow> word_addr b j < word_addr b k \<longleftrightarrow> j < k"
  by (simp add: u64_less_nat unat_addr)

lemma addr_le: "fits b n \<Longrightarrow> j \<le> n \<Longrightarrow> k \<le> n \<Longrightarrow> word_addr b j \<le> word_addr b k \<longleftrightarrow> j \<le> k"
  by (simp add: u64_le_nat unat_addr)

lemma addr_inj: "fits b n \<Longrightarrow> j \<le> n \<Longrightarrow> k \<le> n \<Longrightarrow> word_addr b j = word_addr b k \<longleftrightarrow> j = k"
  by (simp add: u64_eq_nat unat_addr)

lemma buf_read: "buf m0 b n f m \<Longrightarrow> k < n \<Longrightarrow> rd64 m (word_addr b k) = f k"
  by (simp add: buf_def)

lemma buf_outside: "buf m0 b n f m \<Longrightarrow> i < unat b \<or> unat b + 8 * n \<le> i \<Longrightarrow> m i = m0 i"
  by (auto simp: buf_def)

lemma buf_write:
  assumes "buf m0 b n f m" "fits b n" "k < n"
  shows "buf m0 b n (f(k := v)) (wr64 m (word_addr b k) v)"
proof -
  have "rd64 (wr64 m (word_addr b k) v) (word_addr b j) = (f(k := v)) j" if "j < n" for j
  proof (cases "j = k")
    case False
    then have "apart (word_addr b k) (word_addr b j)"
      using assms(2,3) that by (auto simp: apart_def unat_addr)
    then show ?thesis using False assms(1) that by (simp add: rd64_wr64_apart buf_read)
  qed simp
  moreover have "wr64 m (word_addr b k) v i = m0 i" if "i < unat b \<or> unat b + 8 * n \<le> i" for i
    using that assms by (subst wr64_outside) (auto simp: unat_addr buf_def)
  ultimately show ?thesis by (simp add: buf_def)
qed

lemma buf_cong: "buf m0 b n f m \<Longrightarrow> (\<And>k. k < n \<Longrightarrow> f k = g k) \<Longrightarrow> buf m0 b n g m"
  by (simp add: buf_def)

text \<open>Copying a range of words.\<close>

lemma buf_copy:
  assumes "buf m0 a n f m" "fits a n" "fits b n"
  shows "buf m b n f (mem_move m b a (8 * of_nat n))"
proof -
  have n: "unat (8 * of_nat n :: u64) = 8 * n"
    using assms(2) by (subst unat_u64_mult) (simp_all add: fits_def unat_of_nat_u64)
  have "rd64 (mem_move m b a (8 * of_nat n)) (word_addr b k) = rd64 m (word_addr a k)" if "k < n" for k
  proof (rule rd64_shift)
    fix i :: nat assume "i < 8"
    then show "mem_move m b a (8 * of_nat n) (unat (word_addr b k) + i) = m (unat (word_addr a k) + i)"
      using that assms(2,3) by (simp add: mem_move_def n unat_addr add.assoc)
  qed
  moreover have "mem_move m b a (8 * of_nat n) i = m i" if "i < unat b \<or> unat b + 8 * n \<le> i" for i
    using that by (auto simp: mem_move_def n)
  ultimately show ?thesis using assms(1) by (simp add: buf_def)
qed

text \<open>Filling and moving words inside a range.\<close>

lemma unat_words: "8 * k < 2 ^ 64 \<Longrightarrow> unat (8 * of_nat k :: u64) = 8 * k"
  by (subst unat_u64_mult) (simp_all add: unat_of_nat_u64)

lemma words_le: "8 * j < 2 ^ 64 \<Longrightarrow> 8 * k < 2 ^ 64 \<Longrightarrow> (8 * of_nat j :: u64) \<le> 8 * of_nat k \<longleftrightarrow> j \<le> k"
  by (simp add: u64_le_nat unat_words)

lemma words_less: "8 * j < 2 ^ 64 \<Longrightarrow> 8 * k < 2 ^ 64 \<Longrightarrow> (8 * of_nat j :: u64) < 8 * of_nat k \<longleftrightarrow> j < k"
  by (simp add: u64_less_nat unat_words)

lemma words_eq: "8 * j < 2 ^ 64 \<Longrightarrow> 8 * k < 2 ^ 64 \<Longrightarrow> (8 * of_nat j :: u64) = 8 * of_nat k \<longleftrightarrow> j = k"
  by (simp add: u64_eq_nat unat_words)

lemma words_diff: "j \<le> k \<Longrightarrow> (8 * of_nat k - 8 * of_nat j :: u64) = 8 * of_nat (k - j)"
  by (simp add: of_nat_diff right_diff_distrib)

lemma rd64_zeros: "(\<And>i. i < 8 \<Longrightarrow> m (unat x + i) = 0) \<Longrightarrow> rd64 m x = 0"
proof -
  assume zero: "\<And>i. i < 8 \<Longrightarrow> m (unat x + i) = 0"
  then have "rd64 m x = rd64 (\<lambda>_. 0) x" by (intro rd64_shift) simp
  also have "\<dots> = 0" by (simp add: rd64_def)
  finally show ?thesis .
qed

lemma buf_fill:
  assumes "buf m0 b n f m" "fits b n" "j + k \<le> n"
  shows "buf m0 b n (\<lambda>i. if j \<le> i \<and> i < j + k then 0 else f i) (mem_set m (word_addr b j) (8 * of_nat k) 0)"
proof -
  have k: "unat (8 * of_nat k :: u64) = 8 * k" using assms(2,3) by (intro unat_words) (simp add: fits_def)
  have j: "unat (word_addr b j) = unat b + 8 * j" using assms(2,3) by (simp add: unat_addr)
  have "rd64 (mem_set m (word_addr b j) (8 * of_nat k) 0) (word_addr b i) = (if j \<le> i \<and> i < j + k then 0 else f i)"
    if "i < n" for i
  proof (cases "j \<le> i \<and> i < j + k")
    case True
    then have "rd64 (mem_set m (word_addr b j) (8 * of_nat k) 0) (word_addr b i) = 0"
      using assms(2) that by (intro rd64_zeros) (simp add: mem_set_def j k unat_addr)
    then show ?thesis using True by simp
  next
    case False
    then have "rd64 (mem_set m (word_addr b j) (8 * of_nat k) 0) (word_addr b i) = rd64 m (word_addr b i)"
      using assms(2) that by (intro rd64_mem_set_outside) (auto simp: j k unat_addr)
    then show ?thesis unfolding if_not_P [OF False] using buf_read [OF assms(1) that] by simp
  qed
  moreover have "mem_set m (word_addr b j) (8 * of_nat k) 0 i = m0 i" if "i < unat b \<or> unat b + 8 * n \<le> i" for i
    using that assms by (auto simp: mem_set_def j k buf_def)
  ultimately show ?thesis by (simp add: buf_def)
qed

lemma buf_move:
  assumes "buf m0 b n f m" "fits b n" "i + k \<le> n" "j + k \<le> n"
  shows "buf m0 b n (\<lambda>x. if j \<le> x \<and> x < j + k then f (i + (x - j)) else f x)
    (mem_move m (word_addr b j) (word_addr b i) (8 * of_nat k))"
proof -
  have k: "unat (8 * of_nat k :: u64) = 8 * k" using assms(2,3) by (intro unat_words) (simp add: fits_def)
  have j: "unat (word_addr b j) = unat b + 8 * j" using assms(2,4) by (simp add: unat_addr)
  have i: "unat (word_addr b i) = unat b + 8 * i" using assms(2,3) by (simp add: unat_addr)
  have "rd64 (mem_move m (word_addr b j) (word_addr b i) (8 * of_nat k)) (word_addr b x) =
      (if j \<le> x \<and> x < j + k then f (i + (x - j)) else f x)" if "x < n" for x
  proof (cases "j \<le> x \<and> x < j + k")
    case True
    then have x: "i + (x - j) < n" using True assms(3) by linarith
    have "rd64 (mem_move m (word_addr b j) (word_addr b i) (8 * of_nat k)) (word_addr b x) =
        rd64 m (word_addr b (i + (x - j)))"
    proof (rule rd64_shift)
      fix t :: nat assume t: "t < 8"
      obtain y where y: "x = j + y" "y < k" using True by (metis add_less_cancel_left le_Suc_ex)
      have "unat b + 8 * i + (unat b + 8 * (j + y) + t - (unat b + 8 * j)) = unat b + 8 * (i + y) + t"
        "unat b + 8 * j \<le> unat b + 8 * (j + y) + t" "unat b + 8 * (j + y) + t < unat b + 8 * j + 8 * k"
        using y t by simp_all
      then show "mem_move m (word_addr b j) (word_addr b i) (8 * of_nat k) (unat (word_addr b x) + t) =
          m (unat (word_addr b (i + (x - j))) + t)"
        using that x assms(2) unfolding y by (simp add: mem_move_def i j k unat_addr add.assoc)
    qed
    then show ?thesis unfolding if_P [OF True] using buf_read [OF assms(1) x] by simp
  next
    case False
    then have "rd64 (mem_move m (word_addr b j) (word_addr b i) (8 * of_nat k)) (word_addr b x) = rd64 m (word_addr b x)"
      using assms(2) that by (intro rd64_mem_move_outside) (auto simp: j k unat_addr)
    then show ?thesis unfolding if_not_P [OF False] using buf_read [OF assms(1) that] by simp
  qed
  moreover have "mem_move m (word_addr b j) (word_addr b i) (8 * of_nat k) x = m0 x"
    if "x < unat b \<or> unat b + 8 * n \<le> x" for x
    using that assms by (auto simp: mem_move_def j k buf_def)
  ultimately show ?thesis by (simp add: buf_def)
qed

lemma buf_self: "buf m b n (\<lambda>k. rd64 m (word_addr b k)) m"
  by (simp add: buf_def)

text \<open>Words determine bytes.\<close>

lemma rd64_byte:
  assumes "unat x \<le> i" "i < unat x + 8"
  shows "m i = ucast (drop_bit (8 * (i - unat x)) (rd64 m x))"
proof -
  obtain j where j: "i = unat x + j" "j < 8" using assms by (metis le_Suc_ex nat_add_left_cancel_less)
  show ?thesis
  proof (rule bit_word_eqI)
    fix n assume "n < LENGTH(8)"
    then have n: "n < 8" by simp
    have none: "\<not> bit (m k) (n + c)" if "8 \<le> c" for k c
      using bit_imp_le_length [of "m k" "n + c"] that by auto
    consider "j = 0" | "j = 1" | "j = 2" | "j = 3" | "j = 4" | "j = 5" | "j = 6" | "j = 7"
      using j(2) by linarith
    then show "bit (m i) n \<longleftrightarrow> bit (ucast (drop_bit (8 * (i - unat x)) (rd64 m x)) :: u8) n"
      using n none by cases (auto simp: j rd64_def Let_def bit_simps add.commute [of _ n])
  qed
qed

lemma buf_unique:
  assumes "buf m0 b n f m" "buf m0 b n f m'" "fits b n"
  shows "m = m'"
proof
  fix i
  show "m i = m' i"
  proof (cases "i < unat b \<or> unat b + 8 * n \<le> i")
    case True
    then show ?thesis using buf_outside [OF assms(1)] buf_outside [OF assms(2)] by simp
  next
    case False
    define k where "k = (i - unat b) div 8"
    have "8 * k + (i - unat b) mod 8 = i - unat b" "(i - unat b) mod 8 < 8" by (simp_all add: k_def)
    then have k: "k < n" "unat b + 8 * k \<le> i" "i < unat b + 8 * k + 8" using False by linarith+
    then have i: "unat (word_addr b k) \<le> i" "i < unat (word_addr b k) + 8" using assms(3) by (simp_all add: unat_addr)
    show ?thesis
      unfolding rd64_byte [OF i, of m] rd64_byte [OF i, of m'] buf_read [OF assms(1) k(1)] buf_read [OF assms(2) k(1)]
      by (rule refl)
  qed
qed

end
