(* ===== verification/Managed_Buffer_Remap.thy ===== *)
theory Managed_Buffer_Remap
  imports Managed_Buffer_Layout Word_Arrays
begin

section \<open>Remapping a managed buffer (buffer/managed_buffer_remap.h)\<close>

text \<open>
  A managed buffer holds absolute addresses of its own parts. After its bytes have been copied to another
  address, or read from a file, the stored address in the header tells how far all of them have to be
  shifted: \<open>NS(ManagedBuffer_remap)\<close> does that section by section, with every check of the code. The
  memory is passed along; a result is the memory and the status, 0 or -1, and the statuses of the steps are
  combined with a bitwise OR.
\<close>

definition ManagedBuffer_check_addr_arithmetic :: "u64 \<Rightarrow> u64 \<Rightarrow> u64 \<Rightarrow> bool" where
  "ManagedBuffer_check_addr_arithmetic addr offset slot_size \<longleftrightarrow>
     addr \<noteq> 0 \<and> addr mod slot_size = 0 \<and>
     ((0 \<le> sint offset \<and> offset mod slot_size = 0 \<and> 9223372036854775807 - offset \<ge> addr) \<or>
      (sint offset < 0 \<and> (- offset) mod slot_size = 0 \<and> addr \<ge> - offset))"

definition ManagedBuffer_perform_addr_shift :: "u64 \<Rightarrow> u64 \<Rightarrow> u64" where
  "ManagedBuffer_perform_addr_shift addr offset = addr + offset"

text \<open>\<open>previous\<close> is what the variable behind the pointer held before.\<close>

definition ManagedBuffer_get_addr_offset :: "mem \<Rightarrow> u64 \<Rightarrow> u64 \<Rightarrow> u64 \<Rightarrow> u64 \<times> int" where
  "ManagedBuffer_get_addr_offset m previous begin' slot_size =
     (if begin' \<noteq> 0 \<and> slot_size > 0 \<and> begin' mod slot_size = 0 then
        let stored_base_addr = rd64 m begin';
            base_address = begin';
            addr_offset = (if base_address \<ge> stored_base_addr then base_address - stored_base_addr
                           else - (stored_base_addr - base_address))
        in (addr_offset, 0)
      else (previous, - 1))"

definition ManagedBuffer_remap_header :: "mem \<Rightarrow> u64 \<Rightarrow> u64 list \<Rightarrow> u64 \<Rightarrow> mem \<times> int" where
  "ManagedBuffer_remap_header m begin' offsets slot_size =
     (if begin' \<noteq> 0 \<and> slot_size > 0 then
        let slots_addr_offset = offsets ! 1; objs_addr_offset = offsets ! 2;
            dataptrs_addr_offset = offsets ! 3; garbage_addr_offset = offsets ! 4;
            (base_addr_offset, success) = ManagedBuffer_get_addr_offset m 0 begin' slot_size
        in if success \<noteq> 0 \<or> base_addr_offset \<noteq> offsets ! 0 then (m, success)
           else if base_addr_offset \<noteq> 0 \<or> slots_addr_offset \<noteq> 0 \<or> objs_addr_offset \<noteq> 0 \<or>
                   dataptrs_addr_offset \<noteq> 0 \<or> garbage_addr_offset \<noteq> 0 then
             let remap_base_addr = ManagedBuffer_perform_addr_shift (rd64 m (begin' + 8 * 0)) base_addr_offset
             in if remap_base_addr \<noteq> 0 \<and> remap_base_addr = begin' then
                  let remap_slots_begin_addr =
                        ManagedBuffer_perform_addr_shift (rd64 m (begin' + 8 * 3)) slots_addr_offset;
                      remap_objs_begin_addr =
                        ManagedBuffer_perform_addr_shift (rd64 m (begin' + 8 * 4)) objs_addr_offset;
                      remap_dataptrs_begin_addr =
                        ManagedBuffer_perform_addr_shift (rd64 m (begin' + 8 * 5)) dataptrs_addr_offset;
                      remap_garbage_begin_addr =
                        ManagedBuffer_perform_addr_shift (rd64 m (begin' + 8 * 6)) garbage_addr_offset
                  in if remap_base_addr \<noteq> 0 \<and> remap_slots_begin_addr \<noteq> 0 \<and> remap_objs_begin_addr \<noteq> 0 \<and>
                        remap_dataptrs_begin_addr \<noteq> 0 \<and> remap_garbage_begin_addr \<noteq> 0 then
                       let m = wr64 m (begin' + 8 * 0) remap_base_addr;
                           m = wr64 m (begin' + 8 * 3) remap_slots_begin_addr;
                           m = wr64 m (begin' + 8 * 4) remap_objs_begin_addr;
                           m = wr64 m (begin' + 8 * 5) remap_dataptrs_begin_addr;
                           m = wr64 m (begin' + 8 * 6) remap_garbage_begin_addr
                       in (m, success)
                     else (m, - 1)
                else (m, success)
           else (m, success)
      else (m, - 1))"

definition ManagedBuffer_remap_section_slots :: "mem \<Rightarrow> u64 \<Rightarrow> u64 list \<Rightarrow> u64 \<Rightarrow> mem \<times> int" where
  "ManagedBuffer_remap_section_slots m begin' offsets slot_size =
     (if begin' \<noteq> 0 \<and> slot_size \<noteq> 0 \<and> begin' mod slot_size = 0 then
        let ptr_section_begin = ManagedBuffer_get_const_ptr_to_section m begin' 3 slot_size
        in if ptr_section_begin \<noteq> 0 then
             let slots_capacity = rd64 m (ptr_section_begin + 8 * 0);
                 num_entities = rd64 m (ptr_section_begin + 8 * 1);
                 entity_size = ManagedBuffer_get_section_entity_size 3 slot_size
             in (m, if slots_capacity \<ge> num_entities * entity_size then 0 else - 1)
           else (m, - 1)
      else (m, - 1))"

text \<open>The loop over the objects; the first argument counts those that are left.\<close>

fun remap_objects_loop ::
    "nat \<Rightarrow> mem \<Rightarrow> u64 \<Rightarrow> u64 \<Rightarrow> u64 \<Rightarrow> u64 \<Rightarrow> u64 \<Rightarrow> u64 \<Rightarrow> mem \<times> int" where
  "remap_objects_loop 0 m obj_it offset lo hi min_valid_obj_addr slot_size = (m, 0)"
| "remap_objects_loop (Suc n) m obj_it offset lo hi min_valid_obj_addr slot_size =
     (let obj_size = Object_get_size m obj_it;
          obj_offset = ManagedBuffer_get_slot_based_length obj_size slot_size;
          obj_begin_addr = Object_get_begin_addr m obj_it;
          remapped_obj_begin_addr = ManagedBuffer_perform_addr_shift obj_begin_addr offset
      in if remapped_obj_begin_addr < lo \<or> remapped_obj_begin_addr > hi \<or>
            remapped_obj_begin_addr < min_valid_obj_addr
         then (m, - 1)
         else remap_objects_loop n (Object_set_begin_addr m obj_it remapped_obj_begin_addr)
                (obj_it + sizeof_Object) offset lo hi (remapped_obj_begin_addr + obj_offset) slot_size)"

definition ManagedBuffer_remap_section_objects :: "mem \<Rightarrow> u64 \<Rightarrow> u64 list \<Rightarrow> u64 \<Rightarrow> mem \<times> int" where
  "ManagedBuffer_remap_section_objects m begin' offsets slot_size =
     (if begin' \<noteq> 0 \<and> slot_size \<noteq> 0 then
        let ptr_section_begin = ManagedBuffer_get_ptr_to_section m begin' 4 slot_size;
            objs_max_size = ManagedBuffer_get_section_max_size m begin' 4 slot_size;
            objs_size = ManagedBuffer_get_section_size m begin' 4 slot_size;
            ptr_objects_begin = ManagedBuffer_get_ptr_to_section_data m begin' 4 slot_size;
            num_objects = ManagedBuffer_get_section_num_entities m begin' 4 slot_size;
            success = (if ptr_section_begin \<noteq> 0 \<and> objs_max_size \<ge> objs_size then 0 else - 1)
        in if success = 0 \<and> num_objects > 0 then
             let slots_addr_offset = offsets ! 1;
                 slots_section_begin_addr = ManagedBuffer_get_ptr_to_section_data m begin' 3 slot_size;
                 slots_section_end_addr = ManagedBuffer_get_ptr_to_section_end m begin' 3 slot_size
             in remap_objects_loop (unat num_objects) m ptr_objects_begin slots_addr_offset
                  slots_section_begin_addr slots_section_end_addr slots_section_begin_addr slot_size
           else (m, success)
      else (m, - 1))"

fun remap_dataptrs_loop :: "nat \<Rightarrow> mem \<Rightarrow> u64 \<Rightarrow> u64 \<Rightarrow> u64 \<Rightarrow> u64 \<Rightarrow> mem \<times> int" where
  "remap_dataptrs_loop 0 m dataptr_it offset lo hi = (m, 0)"
| "remap_dataptrs_loop (Suc n) m dataptr_it offset lo hi =
     (let slot_ptr_addr = rd64 m dataptr_it;
          remap_slot_ptr_addr = ManagedBuffer_perform_addr_shift slot_ptr_addr offset;
          remap_slot_addr = (if remap_slot_ptr_addr \<noteq> 0
            then ManagedBuffer_perform_addr_shift (rd64 m remap_slot_ptr_addr) offset else 0)
      in if remap_slot_ptr_addr \<noteq> 0 \<and> remap_slot_addr \<noteq> 0 \<and>
            remap_slot_ptr_addr \<ge> lo \<and> remap_slot_ptr_addr < hi \<and>
            remap_slot_addr \<ge> lo \<and> remap_slot_addr < hi
         then remap_dataptrs_loop n (wr64 (wr64 m remap_slot_ptr_addr remap_slot_addr) dataptr_it remap_slot_ptr_addr)
                (dataptr_it + sizeof_address) offset lo hi
         else (m, - 1))"

definition ManagedBuffer_remap_section_dataptrs :: "mem \<Rightarrow> u64 \<Rightarrow> u64 list \<Rightarrow> u64 \<Rightarrow> mem \<times> int" where
  "ManagedBuffer_remap_section_dataptrs m begin' offsets slot_size =
     (if begin' \<noteq> 0 \<and> slot_size \<noteq> 0 then
        let ptr_section_begin = ManagedBuffer_get_ptr_to_section_data m begin' 5 slot_size;
            num_dataptrs = ManagedBuffer_get_section_num_entities m begin' 5 slot_size;
            dataptrs_size = ManagedBuffer_get_section_size m begin' 5 slot_size;
            max_dataptrs_size = ManagedBuffer_get_section_max_size m begin' 5 slot_size;
            success = (if ptr_section_begin \<noteq> 0 \<and> max_dataptrs_size \<ge> dataptrs_size then 0 else - 1)
        in if success = 0 \<and> num_dataptrs > 0 then
             let slots_addr_offset = offsets ! 1;
                 slots_section_begin_addr = ManagedBuffer_get_ptr_to_section_data m begin' 3 slot_size;
                 slots_section_end_addr = ManagedBuffer_get_ptr_to_section_end m begin' 3 slot_size
             in remap_dataptrs_loop (unat num_dataptrs) m ptr_section_begin slots_addr_offset
                  slots_section_begin_addr slots_section_end_addr
           else (m, success)
      else (m, - 1))"

fun remap_garbage_loop :: "nat \<Rightarrow> mem \<Rightarrow> u64 \<Rightarrow> u64 \<Rightarrow> u64 \<Rightarrow> u64 \<Rightarrow> mem \<times> int" where
  "remap_garbage_loop 0 m it offset lo hi = (m, 0)"
| "remap_garbage_loop (Suc n) m it offset lo hi =
     (let garbage_begin_addr = BufferGarbage_get_begin_addr m it;
          remap_slot_addr = ManagedBuffer_perform_addr_shift garbage_begin_addr offset
      in if remap_slot_addr \<ge> lo \<and> remap_slot_addr < hi
         then remap_garbage_loop n (BufferGarbage_set_begin_addr m it remap_slot_addr)
                (it + sizeof_BufferGarbage) offset lo hi
         else (m, - 1))"

definition ManagedBuffer_remap_section_garbage :: "mem \<Rightarrow> u64 \<Rightarrow> u64 list \<Rightarrow> u64 \<Rightarrow> mem \<times> int" where
  "ManagedBuffer_remap_section_garbage m begin' offsets slot_size =
     (if begin' \<noteq> 0 \<and> slot_size \<noteq> 0 \<and> begin' mod slot_size = 0 then
        let ptr_section_begin = ManagedBuffer_get_ptr_to_section_data m begin' 6 slot_size;
            num_garbage_ranges = ManagedBuffer_get_section_num_entities m begin' 6 slot_size;
            garbage_ranges_size = ManagedBuffer_get_section_size m begin' 6 slot_size;
            max_garbage_range_size = ManagedBuffer_get_section_max_size m begin' 6 slot_size;
            success = (if ptr_section_begin \<noteq> 0 \<and> max_garbage_range_size \<ge> garbage_ranges_size then 0 else - 1)
        in if success = 0 \<and> num_garbage_ranges > 0 then
             let slots_addr_offset = offsets ! 1;
                 slots_section_begin_addr = ManagedBuffer_get_ptr_to_section_data m begin' 3 slot_size;
                 slots_section_end_addr = ManagedBuffer_get_ptr_to_section_end m begin' 3 slot_size
             in remap_garbage_loop (unat num_garbage_ranges) m ptr_section_begin slots_addr_offset
                  slots_section_begin_addr slots_section_end_addr
           else (m, success)
      else (m, - 1))"

definition ManagedBuffer_remap :: "mem \<Rightarrow> u64 \<Rightarrow> u64 \<Rightarrow> mem \<times> int" where
  "ManagedBuffer_remap m begin' slot_size =
     (let (base_addr_offset, success) = ManagedBuffer_get_addr_offset m 0 begin' slot_size
      in if success = 0 \<and> base_addr_offset \<noteq> 0 then
           let offsets = replicate 5 base_addr_offset;
               (m, success) = ManagedBuffer_remap_header m begin' offsets slot_size;
               (m, status) = ManagedBuffer_remap_section_slots m begin' offsets slot_size;
               success = success OR status;
               (m, status) = ManagedBuffer_remap_section_objects m begin' offsets slot_size;
               success = success OR status;
               (m, status) = ManagedBuffer_remap_section_dataptrs m begin' offsets slot_size;
               success = success OR status;
               (m, status) = ManagedBuffer_remap_section_garbage m begin' offsets slot_size
           in (m, success OR status)
         else (m, success))"

subsection \<open>The relative layout\<close>

text \<open>
  What a buffer means does not depend on its address: where the sections begin and how long they may become,
  how many slots, objects, data pointers and garbage ranges there are, and which word each of them refers
  to, counted from the begin of the buffer. \<open>describes a n L f\<close> says that the \<open>n\<close> words \<open>f\<close> of a buffer at
  address \<open>a\<close> with slots of 8 bytes have the layout \<open>L\<close>: the addresses in it are those of the layout,
  sections and objects lie in order, and no two data pointers lead to the same slot.
\<close>

record buffer_layout =
  at_slots :: nat
  at_objs :: nat
  at_ptrs :: nat
  at_ranges :: nat
  max_slots :: nat
  max_objs :: nat
  max_ptrs :: nat
  max_ranges :: nat
  num_slots :: nat
  objs_to :: "nat list"
  ptrs_to :: "(nat \<times> nat) list"
  ranges_to :: "nat list"

abbreviation num_objs :: "buffer_layout \<Rightarrow> nat" where "num_objs L \<equiv> length (objs_to L)"
abbreviation num_ptrs :: "buffer_layout \<Rightarrow> nat" where "num_ptrs L \<equiv> length (ptrs_to L)"
abbreviation num_ranges :: "buffer_layout \<Rightarrow> nat" where "num_ranges L \<equiv> length (ranges_to L)"
abbreviation obj_at :: "buffer_layout \<Rightarrow> nat \<Rightarrow> nat" where "obj_at L i \<equiv> objs_to L ! i"
abbreviation ptr_at :: "buffer_layout \<Rightarrow> nat \<Rightarrow> nat" where "ptr_at L i \<equiv> fst (ptrs_to L ! i)"
abbreviation target_of :: "buffer_layout \<Rightarrow> nat \<Rightarrow> nat" where "target_of L i \<equiv> snd (ptrs_to L ! i)"
abbreviation range_at :: "buffer_layout \<Rightarrow> nat \<Rightarrow> nat" where "range_at L i \<equiv> ranges_to L ! i"

definition header_at :: "u64 \<Rightarrow> buffer_layout \<Rightarrow> (nat \<Rightarrow> u64) \<Rightarrow> bool" where
  "header_at a L f \<longleftrightarrow> f 0 = word_addr a 0 \<and> f 3 = word_addr a (at_slots L) \<and> f 4 = word_addr a (at_objs L) \<and>
     f 5 = word_addr a (at_ptrs L) \<and> f 6 = word_addr a (at_ranges L)"

definition sections_ok :: "nat \<Rightarrow> buffer_layout \<Rightarrow> (nat \<Rightarrow> u64) \<Rightarrow> bool" where
  "sections_ok n L f \<longleftrightarrow> f 1 = 8 * of_nat n \<and> f 2 = 64 \<and>
     f (at_slots L) = 8 * of_nat (max_slots L) \<and> f (at_slots L + 1) = of_nat (num_slots L) \<and>
     f (at_objs L) = 8 * of_nat (max_objs L) \<and> f (at_objs L + 1) = of_nat (num_objs L) \<and>
     f (at_ptrs L) = 8 * of_nat (max_ptrs L) \<and> f (at_ptrs L + 1) = of_nat (num_ptrs L) \<and>
     f (at_ranges L) = 8 * of_nat (max_ranges L) \<and> f (at_ranges L + 1) = of_nat (num_ranges L)"

definition layout_ok :: "nat \<Rightarrow> buffer_layout \<Rightarrow> bool" where
  "layout_ok n L \<longleftrightarrow>
     8 \<le> at_slots L \<and> num_slots L + 2 \<le> max_slots L \<and> at_slots L + max_slots L \<le> at_objs L \<and>
     3 * num_objs L + 2 \<le> max_objs L \<and> at_objs L + max_objs L \<le> at_ptrs L \<and>
     num_ptrs L + 2 \<le> max_ptrs L \<and> at_ptrs L + max_ptrs L \<le> at_ranges L \<and>
     2 * num_ranges L + 2 \<le> max_ranges L \<and> at_ranges L + max_ranges L \<le> n"

definition in_slots :: "buffer_layout \<Rightarrow> nat \<Rightarrow> bool" where
  "in_slots L k \<longleftrightarrow> at_slots L + 2 \<le> k \<and> k < at_slots L + 2 + num_slots L"

text \<open>Object \<open>i\<close> and its size in words.\<close>

definition obj_words :: "buffer_layout \<Rightarrow> (nat \<Rightarrow> u64) \<Rightarrow> nat \<Rightarrow> nat" where
  "obj_words L f i = (unat (f (at_objs L + 2 + 3 * i + 2)) + 7) div 8"

definition objects_at :: "u64 \<Rightarrow> buffer_layout \<Rightarrow> (nat \<Rightarrow> u64) \<Rightarrow> bool" where
  "objects_at a L f \<longleftrightarrow> (\<forall>i<num_objs L.
     f (at_objs L + 2 + 3 * i) = word_addr a (obj_at L i) \<and> at_slots L + 2 \<le> obj_at L i \<and>
     obj_at L i + obj_words L f i \<le> (if i + 1 < num_objs L then obj_at L (i + 1) else at_slots L + 2 + num_slots L))"

definition ptrs_at :: "u64 \<Rightarrow> buffer_layout \<Rightarrow> (nat \<Rightarrow> u64) \<Rightarrow> bool" where
  "ptrs_at a L f \<longleftrightarrow> inj_on (ptr_at L) {..<num_ptrs L} \<and> (\<forall>i<num_ptrs L.
     f (at_ptrs L + 2 + i) = word_addr a (ptr_at L i) \<and> in_slots L (ptr_at L i) \<and>
     f (ptr_at L i) = word_addr a (target_of L i) \<and> in_slots L (target_of L i))"

definition ranges_at :: "u64 \<Rightarrow> buffer_layout \<Rightarrow> (nat \<Rightarrow> u64) \<Rightarrow> bool" where
  "ranges_at a L f \<longleftrightarrow> (\<forall>i<num_ranges L.
     f (at_ranges L + 2 + 2 * i) = word_addr a (range_at L i) \<and> in_slots L (range_at L i))"

definition describes :: "u64 \<Rightarrow> nat \<Rightarrow> buffer_layout \<Rightarrow> (nat \<Rightarrow> u64) \<Rightarrow> bool" where
  "describes a n L f \<longleftrightarrow> header_at a L f \<and> sections_ok n L f \<and> layout_ok n L \<and>
     objects_at a L f \<and> ptrs_at a L f \<and> ranges_at a L f"

text \<open>The words that hold addresses, and shifting them.\<close>

definition header_words :: "nat set" where
  "header_words = {0, 3, 4, 5, 6}"

definition obj_words_at :: "buffer_layout \<Rightarrow> nat set" where
  "obj_words_at L = (\<lambda>i. at_objs L + 2 + 3 * i) ` {..<num_objs L}"

definition ptr_words_at :: "buffer_layout \<Rightarrow> nat set" where
  "ptr_words_at L = (\<lambda>i. at_ptrs L + 2 + i) ` {..<num_ptrs L} \<union> ptr_at L ` {..<num_ptrs L}"

definition range_words_at :: "buffer_layout \<Rightarrow> nat set" where
  "range_words_at L = (\<lambda>i. at_ranges L + 2 + 2 * i) ` {..<num_ranges L}"

definition address_words :: "buffer_layout \<Rightarrow> nat set" where
  "address_words L = header_words \<union> obj_words_at L \<union> ptr_words_at L \<union> range_words_at L"

definition shift :: "u64 \<Rightarrow> nat set \<Rightarrow> (nat \<Rightarrow> u64) \<Rightarrow> nat \<Rightarrow> u64" where
  "shift d S f k = (if k \<in> S then f k + d else f k)"

lemma shift_simps [simp]:
  "k \<in> S \<Longrightarrow> shift d S f k = f k + d" "k \<notin> S \<Longrightarrow> shift d S f k = f k" "shift d {} f = f"
  by (simp_all add: shift_def fun_eq_iff)

lemma shift_shift: "S \<inter> T = {} \<Longrightarrow> shift d S (shift d T f) = shift d (T \<union> S) f"
  by (auto simp: shift_def fun_eq_iff)

lemma shift_insert: "k \<notin> S \<Longrightarrow> shift d S (f(k := f k + d)) = shift d (insert k S) f"
  by (auto simp: shift_def fun_eq_iff)

lemma shift_back: "shift (- d) S (shift d S f) = f"
  by (auto simp: shift_def fun_eq_iff)

subsection \<open>The loops\<close>

lemma round_up_8: "(if u mod 8 = 0 then u else u + (8 - u mod 8)) = 8 * ((u + 7) div 8)" for u :: nat
proof -
  define q r where "q = u div 8" and "r = u mod 8"
  have u: "u = 8 * q + r" "r < 8" by (simp_all add: q_def r_def)
  have "(u + 7) div 8 = (if r = 0 then q else q + 1)"
    using u by (intro div_nat_eqI) (auto split: if_splits)
  then show ?thesis using u by (auto simp flip: r_def)
qed

lemma slot_length_8:
  assumes "unat x < 2 ^ 64 - 8"
  shows "unat (ManagedBuffer_get_slot_based_length x 8) = 8 * ((unat x + 7) div 8)"
proof -
  define u where "u = unat x"
  have r: "unat (x mod 8) = u mod 8" by (simp add: unat_mod u_def)
  then have zero: "x mod 8 = 0 \<longleftrightarrow> u mod 8 = 0" by (metis unat_eq_zero)
  have "x mod 8 \<le> 8" using r by (simp add: u64_le_nat)
  then have "unat (8 - x mod 8) = 8 - u mod 8" using unat_u64_sub r by fastforce
  then have "unat (x + (8 - x mod 8)) = u + (8 - u mod 8)"
    using assms by (subst unat_u64_add) (simp_all add: u_def)
  then have "unat (ManagedBuffer_get_slot_based_length x 8) = (if u mod 8 = 0 then u else u + (8 - u mod 8))"
    by (simp add: ManagedBuffer_get_slot_based_length_def Let_def zero flip: u_def)
  also have "\<dots> = 8 * ((u + 7) div 8)" by (rule round_up_8)
  finally show ?thesis by (simp add: u_def)
qed

lemma slot_length_words:
  assumes "unat x < 2 ^ 64 - 8"
  shows "ManagedBuffer_get_slot_based_length x 8 = 8 * of_nat ((unat x + 7) div 8)"
proof -
  have "8 * ((unat x + 7) div 8) < 2 ^ 64" using assms by linarith
  then have "unat (8 * of_nat ((unat x + 7) div 8) :: u64) = 8 * ((unat x + 7) div 8)"
    by (subst unat_u64_mult) (simp_all add: unat_of_nat_u64)
  then show ?thesis using slot_length_8 [OF assms] by (simp add: u64_eq_nat)
qed

lemma image_lessThan_Suc: "(\<lambda>i. p + c * i) ` {..<Suc n} = insert p ((\<lambda>i. (p + c) + c * i) ` {..<n})" for p c :: nat
  by (auto simp: lessThan_Suc_eq_insert_0 image_image)

lemma image_above: "p \<notin> (\<lambda>i. (p + Suc c) + j * i) ` {..<n}" for p c j :: nat
  by auto

lemma objects_loop:
  assumes "buf m0 b n F m" "fits b n" "8 \<le> unat b" "p + 3 * cnt \<le> n" "lo \<le> low" "low \<le> n" "hi \<le> n"
    and "0 < cnt \<longrightarrow> low \<le> q 0"
    and "\<forall>i<cnt. F (p + 3 * i) + d = word_addr b (q i) \<and>
      q i + (unat (F (p + 3 * i + 2)) + 7) div 8 \<le> (if i + 1 < cnt then q (i + 1) else hi)"
  shows "\<exists>m'. remap_objects_loop cnt m (word_addr b p) d (word_addr b lo) (word_addr b hi) (word_addr b low) 8 = (m', 0) \<and>
    buf m0 b n (shift d ((\<lambda>i. p + 3 * i) ` {..<cnt}) F) m'"
  using assms
proof (induction cnt arbitrary: p F m q low)
  case 0
  then show ?case by simp
next
  case (Suc c)
  note fits = Suc.prems(2)
  define w where "w = (unat (F (p + 2)) + 7) div 8"
  have q0: "F p + d = word_addr b (q 0)" "low \<le> q 0" "q 0 + w \<le> (if 0 < c then q 1 else hi)"
    using Suc.prems(8) Suc.prems(9) [rule_format, of 0] by (auto simp: w_def split: if_splits)
  note all = Suc.prems(9) [rule_format, THEN conjunct2]
  have mono: "q i \<le> hi" if "i < Suc c" for i
    using that
  proof (induction "c - i" arbitrary: i)
    case 0
    then show ?case using all [of i] by (auto split: if_splits)
  next
    case (Suc k)
    then have "k = c - Suc i" "Suc i < Suc c" by linarith+
    then have "q (Suc i) \<le> hi" by (rule Suc.hyps(1))
    then show ?case using all [OF Suc.prems] Suc.hyps(2) by (auto split: if_splits)
  qed
  have le: "q 0 \<le> hi" "q 0 + w \<le> hi" using q0(3) mono [of 0] mono [of 1] by (auto split: if_splits)
  have p: "p < n" "p + 1 < n" "p + 2 < n" using Suc.prems(4) by simp_all
  have "unat (F (p + 2)) \<le> 8 * n" using le Suc.prems(7) by (simp add: w_def)
  then have "unat (F (p + 2)) < 2 ^ 64 - 8" using fits Suc.prems(3) by (simp add: fits_def)
  then have len: "ManagedBuffer_get_slot_based_length (F (p + 2)) 8 = 8 * of_nat w"
    unfolding w_def by (rule slot_length_words)
  have after: "word_addr b (q 0) + ManagedBuffer_get_slot_based_length (F (p + 2)) 8 = word_addr b (q 0 + w)"
    by (simp only: len addr_simps)
  have reads: "Object_get_size m (word_addr b p) = F (p + 2)" "Object_get_begin_addr m (word_addr b p) = F p"
    using addr_neq_0 [OF fits, of p] p buf_read [OF Suc.prems(1)]
    by (simp_all add: Object_get_size_def Object_get_begin_addr_def addr_simps)
  have checks: "\<not> word_addr b (q 0) < word_addr b lo" "\<not> word_addr b (q 0) > word_addr b hi"
    "\<not> word_addr b (q 0) < word_addr b low"
    using Suc.prems(5-7) q0(2) le by (simp_all add: addr_less [OF fits])
  define m1 where "m1 = Object_set_begin_addr m (word_addr b p) (word_addr b (q 0))"
  have m1: "buf m0 b n (F(p := F p + d)) m1"
    using addr_neq_0 [OF fits, of p] p buf_write [OF Suc.prems(1) fits p(1)]
    by (simp add: m1_def Object_set_begin_addr_def q0(1))
  have step: "remap_objects_loop (Suc c) m (word_addr b p) d (word_addr b lo) (word_addr b hi) (word_addr b low) 8 =
      remap_objects_loop c m1 (word_addr b (p + 3)) d (word_addr b lo) (word_addr b hi) (word_addr b (q 0 + w)) 8"
    using checks by (simp add: reads ManagedBuffer_perform_addr_shift_def q0(1) after [simplified] m1_def
        sizeof_Object_def addr_simps Let_def)
  have "\<exists>m'. remap_objects_loop c m1 (word_addr b (p + 3)) d (word_addr b lo) (word_addr b hi) (word_addr b (q 0 + w)) 8 =
      (m', 0) \<and> buf m0 b n (shift d ((\<lambda>i. p + 3 + 3 * i) ` {..<c}) (F(p := F p + d))) m'"
  proof (rule Suc.IH [OF m1 fits Suc.prems(3), where q = "\<lambda>i. q (Suc i)"])
    show "p + 3 + 3 * c \<le> n" "lo \<le> q 0 + w" "q 0 + w \<le> n" "hi \<le> n" "0 < c \<longrightarrow> q 0 + w \<le> q (Suc 0)"
      using Suc.prems(4,5,7) q0 le by (auto split: if_splits)
    show "\<forall>i<c. (F(p := F p + d)) (p + 3 + 3 * i) + d = word_addr b (q (Suc i)) \<and>
        q (Suc i) + (unat ((F(p := F p + d)) (p + 3 + 3 * i + 2)) + 7) div 8 \<le>
          (if i + 1 < c then q (Suc (i + 1)) else hi)"
    proof (intro allI impI)
      fix i assume "i < c"
      then show "(F(p := F p + d)) (p + 3 + 3 * i) + d = word_addr b (q (Suc i)) \<and>
        q (Suc i) + (unat ((F(p := F p + d)) (p + 3 + 3 * i + 2)) + 7) div 8 \<le>
          (if i + 1 < c then q (Suc (i + 1)) else hi)"
        using Suc.prems(9) [rule_format, of "Suc i"] by (auto simp: algebra_simps split: if_splits)
    qed
  qed
  moreover have "shift d ((\<lambda>i. p + 3 + 3 * i) ` {..<c}) (F(p := F p + d)) = shift d ((\<lambda>i. p + 3 * i) ` {..<Suc c}) F"
    unfolding image_lessThan_Suc by (rule shift_insert) auto
  ultimately show ?case unfolding step by simp
qed

lemma shift_pointers:
  fixes p c :: nat
  assumes "inj_on q {..<Suc c}" "\<forall>i<Suc c. q i < p"
  shows "shift d ((\<lambda>i. p + 1 + i) ` {..<c} \<union> (\<lambda>i. q (Suc i)) ` {..<c}) (F(q 0 := F (q 0) + d, p := F p + d)) =
    shift d ((\<lambda>i. p + i) ` {..<Suc c} \<union> q ` {..<Suc c}) F"
proof -
  have "q 0 \<noteq> q (Suc i)" if "i < c" for i
    using inj_onD [OF assms(1), of 0 "Suc i"] that by auto
  moreover have "p \<noteq> q i" if "i < Suc c" for i
    using assms(2) that by fastforce
  ultimately have "(\<lambda>i. p + i) ` {..<Suc c} \<union> q ` {..<Suc c} =
      insert p (insert (q 0) ((\<lambda>i. p + 1 + i) ` {..<c} \<union> (\<lambda>i. q (Suc i)) ` {..<c}))"
    "p \<noteq> q 0" "p \<notin> (\<lambda>i. p + 1 + i) ` {..<c} \<union> (\<lambda>i. q (Suc i)) ` {..<c}"
    "q 0 \<notin> (\<lambda>i. p + 1 + i) ` {..<c} \<union> (\<lambda>i. q (Suc i)) ` {..<c}"
    using assms(2) [rule_format, of 0] by (auto simp: lessThan_Suc_eq_insert_0 image_image)
  then show ?thesis by (auto simp: shift_def fun_eq_iff)
qed

lemma dataptrs_loop:
  assumes "buf m0 b n F m" "fits b n" "p + cnt \<le> n" "lo \<le> hi" "hi \<le> p"
    and "inj_on q {..<cnt}"
    and "\<forall>i<cnt. F (p + i) + d = word_addr b (q i) \<and> lo \<le> q i \<and> q i < hi \<and>
      F (q i) + d = word_addr b (t i) \<and> lo \<le> t i \<and> t i < hi"
  shows "\<exists>m'. remap_dataptrs_loop cnt m (word_addr b p) d (word_addr b lo) (word_addr b hi) = (m', 0) \<and>
    buf m0 b n (shift d ((\<lambda>i. p + i) ` {..<cnt} \<union> q ` {..<cnt}) F) m'"
  using assms
proof (induction cnt arbitrary: p F m q t)
  case 0
  then show ?case by simp
next
  case (Suc c)
  note fits = Suc.prems(2)
  have q0: "F p + d = word_addr b (q 0)" "lo \<le> q 0" "q 0 < hi" "F (q 0) + d = word_addr b (t 0)"
    "lo \<le> t 0" "t 0 < hi"
    using Suc.prems(7) [rule_format, of 0] by simp_all
  have p: "p < n" "q 0 < n" "t 0 < n" "lo \<le> n" "hi \<le> n" using Suc.prems(3,5) q0 by simp_all
  have neq: "word_addr b (q 0) \<noteq> 0" "word_addr b (t 0) \<noteq> 0" using addr_neq_0 [OF fits] p by simp_all
  have reads: "rd64 m (word_addr b p) = F p" "rd64 m (word_addr b (q 0)) = F (q 0)"
    using buf_read [OF Suc.prems(1)] p by simp_all
  define F1 where "F1 = F(q 0 := F (q 0) + d, p := F p + d)"
  define m1 where "m1 = wr64 (wr64 m (word_addr b (q 0)) (word_addr b (t 0))) (word_addr b p) (word_addr b (q 0))"
  have m1: "buf m0 b n F1 m1"
    unfolding m1_def F1_def q0(4) q0(1) by (intro buf_write [OF _ fits] Suc.prems(1) p)
  have step: "remap_dataptrs_loop (Suc c) m (word_addr b p) d (word_addr b lo) (word_addr b hi) =
      remap_dataptrs_loop c m1 (word_addr b (p + 1)) d (word_addr b lo) (word_addr b hi)"
    using neq q0 p by (simp add: reads ManagedBuffer_perform_addr_shift_def q0(1,4) addr_less [OF fits] addr_le [OF fits]
        m1_def sizeof_address_def addr_simps Let_def)
  have q1: "q (Suc i) \<noteq> q 0" if "i < c" for i
    using inj_onD [OF Suc.prems(6), of "Suc i" 0] that by auto
  have F1: "F1 (p + 1 + i) = F (p + Suc i)" "F1 (q (Suc i)) = F (q (Suc i))" if "i < c" for i
    using q1 [OF that] Suc.prems(7) [rule_format, of "Suc i"] Suc.prems(5) q0(3) that by (auto simp: F1_def)
  have "\<exists>m'. remap_dataptrs_loop c m1 (word_addr b (p + 1)) d (word_addr b lo) (word_addr b hi) = (m', 0) \<and>
      buf m0 b n (shift d ((\<lambda>i. p + 1 + i) ` {..<c} \<union> (\<lambda>i. q (Suc i)) ` {..<c}) F1) m'"
  proof (rule Suc.IH [OF m1 fits, where t = "\<lambda>i. t (Suc i)"])
    show "p + 1 + c \<le> n" "lo \<le> hi" "hi \<le> p + 1" using Suc.prems(3-5) by simp_all
    show "inj_on (\<lambda>i. q (Suc i)) {..<c}" using Suc.prems(6) by (auto simp: inj_on_def)
    show "\<forall>i<c. F1 (p + 1 + i) + d = word_addr b (q (Suc i)) \<and> lo \<le> q (Suc i) \<and> q (Suc i) < hi \<and>
        F1 (q (Suc i)) + d = word_addr b (t (Suc i)) \<and> lo \<le> t (Suc i) \<and> t (Suc i) < hi"
      using Suc.prems(7) F1 by auto
  qed
  moreover have "shift d ((\<lambda>i. p + 1 + i) ` {..<c} \<union> (\<lambda>i. q (Suc i)) ` {..<c}) F1 =
      shift d ((\<lambda>i. p + i) ` {..<Suc c} \<union> q ` {..<Suc c}) F"
    unfolding F1_def by (rule shift_pointers) (use Suc.prems(5-7) in force)+
  ultimately show ?case unfolding step by simp
qed

lemma garbage_loop:
  assumes "buf m0 b n F m" "fits b n" "p + 2 * cnt \<le> n" "lo \<le> hi" "hi \<le> n"
    and "\<forall>i<cnt. F (p + 2 * i) + d = word_addr b (q i) \<and> lo \<le> q i \<and> q i < hi"
  shows "\<exists>m'. remap_garbage_loop cnt m (word_addr b p) d (word_addr b lo) (word_addr b hi) = (m', 0) \<and>
    buf m0 b n (shift d ((\<lambda>i. p + 2 * i) ` {..<cnt}) F) m'"
  using assms
proof (induction cnt arbitrary: p F m q)
  case 0
  then show ?case by simp
next
  case (Suc c)
  note fits = Suc.prems(2)
  have q0: "F p + d = word_addr b (q 0)" "lo \<le> q 0" "q 0 < hi"
    using Suc.prems(6) [rule_format, of 0] by simp_all
  have p: "p < n" "q 0 < n" "lo \<le> n" "hi \<le> n" using Suc.prems(3,5) q0 by simp_all
  have neq: "word_addr b p \<noteq> 0" using addr_neq_0 [OF fits] p by simp
  define m1 where "m1 = BufferGarbage_set_begin_addr m (word_addr b p) (word_addr b (q 0))"
  have m1: "buf m0 b n (F(p := F p + d)) m1"
    using neq buf_write [OF Suc.prems(1) fits p(1)] by (simp add: m1_def BufferGarbage_set_begin_addr_def q0(1))
  have step: "remap_garbage_loop (Suc c) m (word_addr b p) d (word_addr b lo) (word_addr b hi) =
      remap_garbage_loop c m1 (word_addr b (p + 2)) d (word_addr b lo) (word_addr b hi)"
    using neq q0 p buf_read [OF Suc.prems(1) p(1)]
    by (simp add: BufferGarbage_get_begin_addr_def ManagedBuffer_perform_addr_shift_def addr_less [OF fits]
        addr_le [OF fits] m1_def sizeof_BufferGarbage_def addr_simps)
  have "\<exists>m'. remap_garbage_loop c m1 (word_addr b (p + 2)) d (word_addr b lo) (word_addr b hi) = (m', 0) \<and>
      buf m0 b n (shift d ((\<lambda>i. p + 2 + 2 * i) ` {..<c}) (F(p := F p + d))) m'"
  proof (rule Suc.IH [OF m1 fits, where q = "\<lambda>i. q (Suc i)"])
    show "p + 2 + 2 * c \<le> n" "lo \<le> hi" "hi \<le> n" using Suc.prems(3-5) by simp_all
    show "\<forall>i<c. (F(p := F p + d)) (p + 2 + 2 * i) + d = word_addr b (q (Suc i)) \<and> lo \<le> q (Suc i) \<and> q (Suc i) < hi"
    proof (intro allI impI)
      fix i assume "i < c"
      then show "(F(p := F p + d)) (p + 2 + 2 * i) + d = word_addr b (q (Suc i)) \<and> lo \<le> q (Suc i) \<and> q (Suc i) < hi"
        using Suc.prems(6) [rule_format, of "Suc i"] by (simp add: algebra_simps)
    qed
  qed
  moreover have "shift d ((\<lambda>i. p + 2 + 2 * i) ` {..<c}) (F(p := F p + d)) = shift d ((\<lambda>i. p + 2 * i) ` {..<Suc c}) F"
    unfolding image_lessThan_Suc by (rule shift_insert) auto
  ultimately show ?case unfolding step by simp
qed

subsection \<open>Sections of a buffer in place\<close>

definition in_place :: "mem \<Rightarrow> u64 \<Rightarrow> nat \<Rightarrow> buffer_layout \<Rightarrow> (nat \<Rightarrow> u64) \<Rightarrow> mem \<Rightarrow> bool" where
  "in_place m0 b n L F m \<longleftrightarrow> buf m0 b n F m \<and> fits b n \<and> 8 \<le> unat b \<and> b mod 8 = 0 \<and>
     header_at b L F \<and> sections_ok n L F \<and> layout_ok n L"

definition header_in_place :: "mem \<Rightarrow> u64 \<Rightarrow> nat \<Rightarrow> buffer_layout \<Rightarrow> (nat \<Rightarrow> u64) \<Rightarrow> mem \<Rightarrow> bool" where
  "header_in_place m0 b n L F m \<longleftrightarrow> buf m0 b n F m \<and> fits b n \<and> header_at b L F \<and> layout_ok n L"

lemma entity_sizes [simp]:
  "ManagedBuffer_get_section_entity_size 3 8 = 8" "ManagedBuffer_get_section_entity_size 4 8 = 24"
  "ManagedBuffer_get_section_entity_size 5 8 = 8" "ManagedBuffer_get_section_entity_size 6 8 = 16"
  "ManagedBuffer_get_section_header_length 8 = 16"
  by (simp_all add: ManagedBuffer_get_section_entity_size_def ManagedBuffer_get_slot_based_length_def
      ManagedBuffer_get_section_header_length_def sizeof_address_def sizeof_Object_def sizeof_BufferGarbage_def)

lemma section_bytes:
  "16 + of_nat k * 8 = (8 * of_nat (k + 2) :: u64)" "16 + of_nat k * 24 = (8 * of_nat (3 * k + 2) :: u64)"
  "16 + of_nat k * 16 = (8 * of_nat (2 * k + 2) :: u64)"
  by simp_all

lemma layout_bounds:
  assumes "layout_ok n L"
  shows "6 < n" "at_slots L + 1 < n" "at_objs L + 1 < n" "at_ptrs L + 1 < n" "at_ranges L + 1 < n"
    and "at_slots L + 2 + num_slots L \<le> at_objs L" "at_objs L + 2 + 3 * num_objs L \<le> at_ptrs L"
    and "at_ptrs L + 2 + num_ptrs L \<le> at_ranges L" "at_ranges L + 2 + 2 * num_ranges L \<le> n" "8 \<le> at_slots L"
  using assms by (simp_all add: layout_ok_def)

lemma header_ptrs:
  assumes "header_in_place m0 b n L F m"
  shows "ManagedBuffer_get_const_ptr_to_section m b 3 8 = word_addr b (at_slots L)"
    and "ManagedBuffer_get_const_ptr_to_section m b 4 8 = word_addr b (at_objs L)"
    and "ManagedBuffer_get_const_ptr_to_section m b 5 8 = word_addr b (at_ptrs L)"
    and "ManagedBuffer_get_const_ptr_to_section m b 6 8 = word_addr b (at_ranges L)"
    and "word_addr b (at_slots L) \<noteq> 0" "word_addr b (at_objs L) \<noteq> 0" "word_addr b (at_ptrs L) \<noteq> 0"
    and "word_addr b (at_ranges L) \<noteq> 0" "b \<noteq> 0"
proof -
  have fits: "fits b n" and buf: "buf m0 b n F m" and h: "header_at b L F" and lo: "layout_ok n L"
    using assms by (simp_all add: header_in_place_def)
  show "b \<noteq> 0" using fits by (simp add: fits_def)
  note reads = buf_read [OF buf]
  show "ManagedBuffer_get_const_ptr_to_section m b 3 8 = word_addr b (at_slots L)"
    "ManagedBuffer_get_const_ptr_to_section m b 4 8 = word_addr b (at_objs L)"
    "ManagedBuffer_get_const_ptr_to_section m b 5 8 = word_addr b (at_ptrs L)"
    "ManagedBuffer_get_const_ptr_to_section m b 6 8 = word_addr b (at_ranges L)"
    using h layout_bounds(1) [OF lo] \<open>b \<noteq> 0\<close> reads [of 3] reads [of 4] reads [of 5] reads [of 6]
    unfolding ManagedBuffer_get_const_ptr_to_section_def addr_begin by (simp_all add: header_at_def)
  show "word_addr b (at_slots L) \<noteq> 0" "word_addr b (at_objs L) \<noteq> 0" "word_addr b (at_ptrs L) \<noteq> 0"
    "word_addr b (at_ranges L) \<noteq> 0"
    using layout_bounds(2-5) [OF lo] by (auto intro!: addr_neq_0 [OF fits])
qed

lemma header_data:
  assumes "header_in_place m0 b n L F m"
  shows "ManagedBuffer_get_const_ptr_to_section_data m b 3 8 = word_addr b (at_slots L + 2)"
    and "ManagedBuffer_get_const_ptr_to_section_data m b 4 8 = word_addr b (at_objs L + 2)"
    and "ManagedBuffer_get_const_ptr_to_section_data m b 5 8 = word_addr b (at_ptrs L + 2)"
    and "ManagedBuffer_get_const_ptr_to_section_data m b 6 8 = word_addr b (at_ranges L + 2)"
  using header_ptrs [OF assms]
  by (simp_all add: ManagedBuffer_get_const_ptr_to_section_data_def addr_simps del: add_2_eq_Suc add_2_eq_Suc')

lemma in_place_header: "in_place m0 b n L F m \<Longrightarrow> header_in_place m0 b n L F m"
  by (simp add: in_place_def header_in_place_def)

lemmas section_ptrs = header_ptrs [OF in_place_header]

lemmas section_data = header_data [OF in_place_header]

lemma section_counts:
  assumes "in_place m0 b n L F m"
  shows "ManagedBuffer_get_section_num_entities m b 3 8 = of_nat (num_slots L)"
    and "ManagedBuffer_get_section_num_entities m b 4 8 = of_nat (num_objs L)"
    and "ManagedBuffer_get_section_num_entities m b 5 8 = of_nat (num_ptrs L)"
    and "ManagedBuffer_get_section_num_entities m b 6 8 = of_nat (num_ranges L)"
    and "ManagedBuffer_get_section_max_size m b 3 8 = 8 * of_nat (max_slots L)"
    and "ManagedBuffer_get_section_max_size m b 4 8 = 8 * of_nat (max_objs L)"
    and "ManagedBuffer_get_section_max_size m b 5 8 = 8 * of_nat (max_ptrs L)"
    and "ManagedBuffer_get_section_max_size m b 6 8 = 8 * of_nat (max_ranges L)"
proof -
  have buf: "buf m0 b n F m" and sec: "sections_ok n L F" and lo: "layout_ok n L"
    using assms by (simp_all add: in_place_def)
  note bounds = layout_bounds [OF lo]
  have words: "rd64 m (word_addr b (at_slots L)) = 8 * of_nat (max_slots L)"
    "rd64 m (word_addr b (at_slots L + 1)) = of_nat (num_slots L)"
    "rd64 m (word_addr b (at_objs L)) = 8 * of_nat (max_objs L)"
    "rd64 m (word_addr b (at_objs L + 1)) = of_nat (num_objs L)"
    "rd64 m (word_addr b (at_ptrs L)) = 8 * of_nat (max_ptrs L)"
    "rd64 m (word_addr b (at_ptrs L + 1)) = of_nat (num_ptrs L)"
    "rd64 m (word_addr b (at_ranges L)) = 8 * of_nat (max_ranges L)"
    "rd64 m (word_addr b (at_ranges L + 1)) = of_nat (num_ranges L)"
    using sec bounds(2-5) buf_read [OF buf] by (simp_all add: sections_ok_def)
  note defs = ManagedBuffer_get_section_num_entities_def ManagedBuffer_get_section_max_size_def Let_def
    section_ptrs [OF assms] addr_plus
  show "ManagedBuffer_get_section_num_entities m b 3 8 = of_nat (num_slots L)"
    "ManagedBuffer_get_section_num_entities m b 4 8 = of_nat (num_objs L)"
    "ManagedBuffer_get_section_num_entities m b 5 8 = of_nat (num_ptrs L)"
    "ManagedBuffer_get_section_num_entities m b 6 8 = of_nat (num_ranges L)"
    "ManagedBuffer_get_section_max_size m b 3 8 = 8 * of_nat (max_slots L)"
    "ManagedBuffer_get_section_max_size m b 4 8 = 8 * of_nat (max_objs L)"
    "ManagedBuffer_get_section_max_size m b 5 8 = 8 * of_nat (max_ptrs L)"
    "ManagedBuffer_get_section_max_size m b 6 8 = 8 * of_nat (max_ranges L)"
    unfolding defs words using section_ptrs(5-8) [OF assms] by simp_all
qed

lemma section_size_sum:
  "ManagedBuffer_get_section_size m b k 8 = 16 + ManagedBuffer_get_section_num_entities m b k 8 *
     ManagedBuffer_get_section_entity_size k 8"
  by (simp add: ManagedBuffer_get_section_size_def ManagedBuffer_get_section_num_entities_def Let_def)

lemma section_sizes:
  assumes "in_place m0 b n L F m"
  shows "ManagedBuffer_get_section_size m b 3 8 = 8 * of_nat (num_slots L + 2)"
    and "ManagedBuffer_get_section_size m b 4 8 = 8 * of_nat (3 * num_objs L + 2)"
    and "ManagedBuffer_get_section_size m b 5 8 = 8 * of_nat (num_ptrs L + 2)"
    and "ManagedBuffer_get_section_size m b 6 8 = 8 * of_nat (2 * num_ranges L + 2)"
    and "ManagedBuffer_get_const_ptr_to_section_end m b 3 8 = word_addr b (at_slots L + 2 + num_slots L)"
proof -
  show size: "ManagedBuffer_get_section_size m b 3 8 = 8 * of_nat (num_slots L + 2)"
    "ManagedBuffer_get_section_size m b 4 8 = 8 * of_nat (3 * num_objs L + 2)"
    "ManagedBuffer_get_section_size m b 5 8 = 8 * of_nat (num_ptrs L + 2)"
    "ManagedBuffer_get_section_size m b 6 8 = 8 * of_nat (2 * num_ranges L + 2)"
    unfolding section_size_sum section_counts [OF assms] entity_sizes section_bytes by (rule refl)+
  show "ManagedBuffer_get_const_ptr_to_section_end m b 3 8 = word_addr b (at_slots L + 2 + num_slots L)"
    unfolding ManagedBuffer_get_const_ptr_to_section_end_def Let_def section_ptrs(1) [OF assms] size(1) addr_plus
    using section_ptrs(5) [OF assms] by (simp add: ac_simps)
qed

text \<open>The sections never take more room than they have.\<close>

lemma section_room:
  assumes "in_place m0 b n L F m"
  shows "(8 * of_nat (num_slots L + 2) :: u64) \<le> 8 * of_nat (max_slots L)"
    "(8 * of_nat (3 * num_objs L + 2) :: u64) \<le> 8 * of_nat (max_objs L)"
    "(8 * of_nat (num_ptrs L + 2) :: u64) \<le> 8 * of_nat (max_ptrs L)"
    "(8 * of_nat (2 * num_ranges L + 2) :: u64) \<le> 8 * of_nat (max_ranges L)"
    "of_nat (num_slots L) * 8 \<le> (8 * of_nat (max_slots L) :: u64)"
proof -
  have "fits b n" and lo: "layout_ok n L" using assms by (simp_all add: in_place_def)
  then have "8 * n < 2 ^ 64" by (simp add: fits_def)
  then have le: "(8 * of_nat j :: u64) \<le> 8 * of_nat k" if "j \<le> k" "k \<le> n" for j k
    using that by (subst words_le) simp_all
  show "(8 * of_nat (num_slots L + 2) :: u64) \<le> 8 * of_nat (max_slots L)"
    "(8 * of_nat (3 * num_objs L + 2) :: u64) \<le> 8 * of_nat (max_objs L)"
    "(8 * of_nat (num_ptrs L + 2) :: u64) \<le> 8 * of_nat (max_ptrs L)"
    "(8 * of_nat (2 * num_ranges L + 2) :: u64) \<le> 8 * of_nat (max_ranges L)"
    using lo by (intro le; simp add: layout_ok_def)+
  show "of_nat (num_slots L) * 8 \<le> (8 * of_nat (max_slots L) :: u64)"
    unfolding mult.commute [of _ 8] using lo by (intro le; simp add: layout_ok_def)
qed

subsection \<open>Relocation\<close>

text \<open>The address words lie in different parts of the buffer.\<close>

lemma address_words_disjoint:
  assumes "layout_ok n L" "ptrs_at a L f"
  shows "header_words \<inter> obj_words_at L = {}" "header_words \<inter> ptr_words_at L = {}"
    "header_words \<inter> range_words_at L = {}" "obj_words_at L \<inter> ptr_words_at L = {}"
    "obj_words_at L \<inter> range_words_at L = {}" "ptr_words_at L \<inter> range_words_at L = {}"
proof -
  have slots: "at_slots L + 2 \<le> ptr_at L i \<and> ptr_at L i < at_slots L + 2 + num_slots L" if "i < num_ptrs L" for i
    using assms(2) that by (simp add: ptrs_at_def in_slots_def)
  have h: "k \<le> 6" if "k \<in> header_words" for k using that by (auto simp: header_words_def)
  have o: "at_objs L + 2 \<le> k \<and> k < at_ptrs L" if "k \<in> obj_words_at L" for k
    using that layout_bounds [OF assms(1)] by (auto simp: obj_words_at_def)
  have p: "(8 \<le> k \<and> k < at_objs L) \<or> (at_ptrs L + 2 \<le> k \<and> k < at_ranges L)" if "k \<in> ptr_words_at L" for k
    using that layout_bounds [OF assms(1)] slots unfolding ptr_words_at_def by fastforce
  have r: "at_ranges L + 2 \<le> k" if "k \<in> range_words_at L" for k
    using that by (auto simp: range_words_at_def)
  note b = layout_bounds [OF assms(1)]
  show "header_words \<inter> obj_words_at L = {}" "header_words \<inter> range_words_at L = {}"
    "obj_words_at L \<inter> range_words_at L = {}" using h o r b by fastforce+
  show "header_words \<inter> ptr_words_at L = {}" "obj_words_at L \<inter> ptr_words_at L = {}"
    "ptr_words_at L \<inter> range_words_at L = {}" using h o p r b by fastforce+
qed

text \<open>Words that hold no address.\<close>

lemma plain_words:
  assumes "layout_ok n L" "ptrs_at a L f"
  shows "1 \<notin> address_words L" "2 \<notin> address_words L"
    and "at_slots L \<notin> address_words L" "at_slots L + 1 \<notin> address_words L"
    and "at_objs L \<notin> address_words L" "at_objs L + 1 \<notin> address_words L"
    and "at_ptrs L \<notin> address_words L" "at_ptrs L + 1 \<notin> address_words L"
    and "at_ranges L \<notin> address_words L" "at_ranges L + 1 \<notin> address_words L"
    and "i < num_objs L \<Longrightarrow> at_objs L + 2 + 3 * i + 2 \<notin> address_words L"
proof -
  have slots: "at_slots L + 2 \<le> ptr_at L i \<and> ptr_at L i < at_slots L + 2 + num_slots L" if "i < num_ptrs L" for i
    using assms(2) that by (simp add: ptrs_at_def in_slots_def)
  have A: "k \<in> address_words L \<Longrightarrow> k \<in> {0, 3, 4, 5, 6} \<or> (at_slots L + 2 \<le> k \<and> k < at_slots L + 2 + num_slots L) \<or>
      (\<exists>i<num_objs L. k = at_objs L + 2 + 3 * i) \<or> (at_ptrs L + 2 \<le> k \<and> k < at_ptrs L + 2 + num_ptrs L) \<or>
      at_ranges L + 2 \<le> k" for k
    using slots
    by (fastforce simp: address_words_def header_words_def obj_words_at_def ptr_words_at_def range_words_at_def)
  note b = layout_bounds [OF assms(1)]
  show "1 \<notin> address_words L" "2 \<notin> address_words L"
    "at_slots L \<notin> address_words L" "at_slots L + 1 \<notin> address_words L"
    "at_objs L \<notin> address_words L" "at_objs L + 1 \<notin> address_words L"
    "at_ptrs L \<notin> address_words L" "at_ptrs L + 1 \<notin> address_words L"
    "at_ranges L \<notin> address_words L" "at_ranges L + 1 \<notin> address_words L"
    using b by (auto dest!: A)
  show "at_objs L + 2 + 3 * i + 2 \<notin> address_words L" if "i < num_objs L"
  proof
    assume "at_objs L + 2 + 3 * i + 2 \<in> address_words L"
    from A [OF this] show False using b that by (auto; presburger)
  qed
qed

lemma addr_offset_eq:
  assumes "buf m0 b n f m" "fits b n" "b mod 8 = 0" "f 0 = word_addr a 0" "0 < n"
  shows "ManagedBuffer_get_addr_offset m previous b 8 = (b - a, 0)"
proof -
  have "rd64 m b = a" using buf_read [OF assms(1,5)] assms(4) by (simp add: addr_0)
  moreover have "b \<noteq> 0" using assms(2) by (simp add: fits_def)
  ultimately show ?thesis using assms(3) by (simp add: ManagedBuffer_get_addr_offset_def Let_def)
qed

lemma remap_header_step:
  assumes buf: "buf m0 b n f m" and fits: "fits b n" and al: "b mod 8 = 0" and "a \<noteq> b"
    and h: "header_at a L f" and lo: "layout_ok n L"
  shows "\<exists>m'. ManagedBuffer_remap_header m b (replicate 5 (b - a)) 8 = (m', 0) \<and>
    buf m0 b n (shift (b - a) header_words f) m'"
proof -
  have n: "0 < n" "3 < n" "4 < n" "5 < n" "6 < n" using layout_bounds(1) [OF lo] by simp_all
  have f: "f 0 = word_addr a 0" "f 3 = word_addr a (at_slots L)" "f 4 = word_addr a (at_objs L)"
    "f 5 = word_addr a (at_ptrs L)" "f 6 = word_addr a (at_ranges L)" using h by (simp_all add: header_at_def)
  have b0: "b \<noteq> 0" using fits by (simp add: fits_def)
  have d: "b - a \<noteq> 0" using \<open>a \<noteq> b\<close> by simp
  have neq: "word_addr b (at_slots L) \<noteq> 0" "word_addr b (at_objs L) \<noteq> 0" "word_addr b (at_ptrs L) \<noteq> 0"
    "word_addr b (at_ranges L) \<noteq> 0"
    using layout_bounds(2-5) [OF lo] by (auto intro!: addr_neq_0 [OF fits])
  define m' where "m' = wr64 (wr64 (wr64 (wr64 (wr64 m (word_addr b 0) (word_addr b 0))
    (word_addr b 3) (word_addr b (at_slots L))) (word_addr b 4) (word_addr b (at_objs L)))
    (word_addr b 5) (word_addr b (at_ptrs L))) (word_addr b 6) (word_addr b (at_ranges L))"
  have "ManagedBuffer_remap_header m b (replicate 5 (b - a)) 8 = (m', 0)"
    unfolding ManagedBuffer_remap_header_def addr_offset_eq [OF buf fits al f(1) n(1)] addr_begin
      ManagedBuffer_perform_addr_shift_def
      buf_read [OF buf n(1)] buf_read [OF buf n(2)] buf_read [OF buf n(3)] buf_read [OF buf n(4)] buf_read [OF buf n(5)]
      f addr_shift Let_def
    using b0 d neq by (simp add: m'_def addr_0 addr_shift)
  moreover have "buf m0 b n (f(0 := word_addr b 0, 3 := word_addr b (at_slots L), 4 := word_addr b (at_objs L),
      5 := word_addr b (at_ptrs L), 6 := word_addr b (at_ranges L))) m'"
    unfolding m'_def by (intro buf_write fits n buf)
  moreover have "f(0 := word_addr b 0, 3 := word_addr b (at_slots L), 4 := word_addr b (at_objs L),
      5 := word_addr b (at_ptrs L), 6 := word_addr b (at_ranges L)) = shift (b - a) header_words f"
    by (auto simp: shift_def header_words_def fun_eq_iff f addr_shift)
  ultimately show ?thesis by auto
qed

lemma slots_step:
  assumes "in_place m0 b n L F m"
  shows "ManagedBuffer_remap_section_slots m b offsets 8 = (m, 0)"
proof -
  have "b mod 8 = 0" using assms by (simp add: in_place_def)
  moreover have "rd64 m (word_addr b (at_slots L)) = 8 * of_nat (max_slots L)"
    "rd64 m (word_addr b (at_slots L + 1)) = of_nat (num_slots L)"
    using section_counts(1,5) [OF assms] section_ptrs(1,5) [OF assms]
    by (simp_all add: ManagedBuffer_get_section_max_size_def ManagedBuffer_get_section_num_entities_def addr_plus)
  ultimately show ?thesis
    using section_ptrs(1,5,9) [OF assms] section_room(5) [OF assms]
    by (simp add: ManagedBuffer_remap_section_slots_def addr_plus)
qed

lemma num_words: "in_place m0 b n L F m \<Longrightarrow> k \<le> n \<Longrightarrow> unat (of_nat k :: u64) = k"
  by (rule unat_of_nat_u64) (simp add: in_place_def fits_def)

lemma count_pos: "unat (of_nat k :: u64) = k \<Longrightarrow> (0 :: u64) < of_nat k \<longleftrightarrow> k \<noteq> 0"
  unfolding u64_less_nat by simp

lemma data_ptrs_neq_0:
  assumes "in_place m0 b n L F m"
  shows "word_addr b (at_ptrs L + 2) \<noteq> 0" "word_addr b (at_ranges L + 2) \<noteq> 0"
proof -
  have "fits b n" "layout_ok n L" using assms by (simp_all add: in_place_def)
  moreover from this have "at_ptrs L + 2 \<le> n" "at_ranges L + 2 \<le> n" using layout_bounds(5,8) [of n L] by linarith+
  ultimately show "word_addr b (at_ptrs L + 2) \<noteq> 0" "word_addr b (at_ranges L + 2) \<noteq> 0"
    using addr_neq_0 by blast+
qed

lemma offset_1: "replicate 5 d ! 1 = d" for d :: u64
  by simp

lemmas mutable_ptrs = ManagedBuffer_get_ptr_to_section_def ManagedBuffer_get_ptr_to_section_data_def
  ManagedBuffer_get_ptr_to_section_end_def

lemma objects_step:
  assumes place: "in_place m0 b n L F m" and objs: "objects_at a L F"
  shows "\<exists>m'. ManagedBuffer_remap_section_objects m b (replicate 5 (b - a)) 8 = (m', 0) \<and>
    buf m0 b n (shift (b - a) (obj_words_at L) F) m'"
proof -
  have pl: "buf m0 b n F m" "fits b n" "8 \<le> unat b" "layout_ok n L" using place by (simp_all add: in_place_def)
  note bounds = layout_bounds [OF pl(4)]
  have cnt: "unat (of_nat (num_objs L) :: u64) = num_objs L" using bounds by (intro num_words [OF place]) simp
  have "\<exists>m'. remap_objects_loop (num_objs L) m (word_addr b (at_objs L + 2)) (b - a) (word_addr b (at_slots L + 2))
      (word_addr b (at_slots L + 2 + num_slots L)) (word_addr b (at_slots L + 2)) 8 = (m', 0) \<and>
    buf m0 b n (shift (b - a) ((\<lambda>i. at_objs L + 2 + 3 * i) ` {..<num_objs L}) F) m'"
  proof (rule objects_loop [OF pl(1-3), where q = "obj_at L"])
    show "at_objs L + 2 + 3 * num_objs L \<le> n" "at_slots L + 2 \<le> at_slots L + 2" "at_slots L + 2 \<le> n"
      "at_slots L + 2 + num_slots L \<le> n" using bounds by simp_all
    show "0 < num_objs L \<longrightarrow> at_slots L + 2 \<le> obj_at L 0"
      "\<forall>i<num_objs L. F (at_objs L + 2 + 3 * i) + (b - a) = word_addr b (obj_at L i) \<and>
        obj_at L i + (unat (F (at_objs L + 2 + 3 * i + 2)) + 7) div 8 \<le>
          (if i + 1 < num_objs L then obj_at L (i + 1) else at_slots L + 2 + num_slots L)"
      using objs unfolding objects_at_def obj_words_def by (auto simp: addr_shift)
  qed
  moreover have "ManagedBuffer_remap_section_objects m b (replicate 5 (b - a)) 8 =
      (if num_objs L = 0 then (m, 0) else
        remap_objects_loop (num_objs L) m (word_addr b (at_objs L + 2)) (b - a) (word_addr b (at_slots L + 2))
          (word_addr b (at_slots L + 2 + num_slots L)) (word_addr b (at_slots L + 2)) 8)"
    unfolding ManagedBuffer_remap_section_objects_def mutable_ptrs section_ptrs(2) [OF place] section_data(1,2) [OF place]
      section_counts(2,6) [OF place] section_sizes(2,5) [OF place] Let_def cnt
    by (simp only: section_ptrs(6,9) [OF place] section_room(2) [OF place] count_pos [OF cnt] offset_1) simp
  ultimately show ?thesis using pl(1) by (cases "num_objs L = 0") (simp_all add: obj_words_at_def)
qed

lemma dataptrs_step:
  assumes place: "in_place m0 b n L F m" and ptrs: "ptrs_at a L F"
  shows "\<exists>m'. ManagedBuffer_remap_section_dataptrs m b (replicate 5 (b - a)) 8 = (m', 0) \<and>
    buf m0 b n (shift (b - a) (ptr_words_at L) F) m'"
proof -
  have pl: "buf m0 b n F m" "fits b n" "layout_ok n L" using place by (simp_all add: in_place_def)
  note bounds = layout_bounds [OF pl(3)]
  have cnt: "unat (of_nat (num_ptrs L) :: u64) = num_ptrs L" using bounds by (intro num_words [OF place]) simp
  have "\<exists>m'. remap_dataptrs_loop (num_ptrs L) m (word_addr b (at_ptrs L + 2)) (b - a) (word_addr b (at_slots L + 2))
      (word_addr b (at_slots L + 2 + num_slots L)) = (m', 0) \<and>
    buf m0 b n (shift (b - a) ((\<lambda>i. at_ptrs L + 2 + i) ` {..<num_ptrs L} \<union> ptr_at L ` {..<num_ptrs L}) F) m'"
  proof (rule dataptrs_loop [OF pl(1,2), where t = "target_of L"])
    show "at_ptrs L + 2 + num_ptrs L \<le> n" "at_slots L + 2 \<le> at_slots L + 2 + num_slots L"
      "at_slots L + 2 + num_slots L \<le> at_ptrs L + 2" using bounds by simp_all
    show "inj_on (ptr_at L) {..<num_ptrs L}"
      "\<forall>i<num_ptrs L. F (at_ptrs L + 2 + i) + (b - a) = word_addr b (ptr_at L i) \<and>
        at_slots L + 2 \<le> ptr_at L i \<and> ptr_at L i < at_slots L + 2 + num_slots L \<and>
        F (ptr_at L i) + (b - a) = word_addr b (target_of L i) \<and>
        at_slots L + 2 \<le> target_of L i \<and> target_of L i < at_slots L + 2 + num_slots L"
      using ptrs unfolding ptrs_at_def in_slots_def by (auto simp: addr_shift)
  qed
  moreover have "ManagedBuffer_remap_section_dataptrs m b (replicate 5 (b - a)) 8 =
      (if num_ptrs L = 0 then (m, 0) else
        remap_dataptrs_loop (num_ptrs L) m (word_addr b (at_ptrs L + 2)) (b - a) (word_addr b (at_slots L + 2))
          (word_addr b (at_slots L + 2 + num_slots L)))"
    unfolding ManagedBuffer_remap_section_dataptrs_def mutable_ptrs section_data(1,3) [OF place]
      section_counts(3,7) [OF place] section_sizes(3,5) [OF place] Let_def cnt
    by (simp only: data_ptrs_neq_0 [OF place] section_ptrs(9) [OF place] section_room(3) [OF place]
        count_pos [OF cnt] offset_1) simp
  ultimately show ?thesis using pl(1) by (cases "num_ptrs L = 0") (simp_all add: ptr_words_at_def)
qed

lemma garbage_step:
  assumes place: "in_place m0 b n L F m" and ranges: "ranges_at a L F"
  shows "\<exists>m'. ManagedBuffer_remap_section_garbage m b (replicate 5 (b - a)) 8 = (m', 0) \<and>
    buf m0 b n (shift (b - a) (range_words_at L) F) m'"
proof -
  have pl: "buf m0 b n F m" "fits b n" "layout_ok n L" "b mod 8 = 0" using place by (simp_all add: in_place_def)
  note bounds = layout_bounds [OF pl(3)]
  have cnt: "unat (of_nat (num_ranges L) :: u64) = num_ranges L" using bounds by (intro num_words [OF place]) simp
  have "\<exists>m'. remap_garbage_loop (num_ranges L) m (word_addr b (at_ranges L + 2)) (b - a) (word_addr b (at_slots L + 2))
      (word_addr b (at_slots L + 2 + num_slots L)) = (m', 0) \<and>
    buf m0 b n (shift (b - a) ((\<lambda>i. at_ranges L + 2 + 2 * i) ` {..<num_ranges L}) F) m'"
  proof (rule garbage_loop [OF pl(1,2), where q = "range_at L"])
    show "at_ranges L + 2 + 2 * num_ranges L \<le> n" "at_slots L + 2 \<le> at_slots L + 2 + num_slots L"
      "at_slots L + 2 + num_slots L \<le> n" using bounds by simp_all
    show "\<forall>i<num_ranges L. F (at_ranges L + 2 + 2 * i) + (b - a) = word_addr b (range_at L i) \<and>
        at_slots L + 2 \<le> range_at L i \<and> range_at L i < at_slots L + 2 + num_slots L"
      using ranges unfolding ranges_at_def in_slots_def by (auto simp: addr_shift)
  qed
  moreover have "ManagedBuffer_remap_section_garbage m b (replicate 5 (b - a)) 8 =
      (if num_ranges L = 0 then (m, 0) else
        remap_garbage_loop (num_ranges L) m (word_addr b (at_ranges L + 2)) (b - a) (word_addr b (at_slots L + 2))
          (word_addr b (at_slots L + 2 + num_slots L)))"
    unfolding ManagedBuffer_remap_section_garbage_def mutable_ptrs section_data(1,4) [OF place]
      section_counts(4,8) [OF place] section_sizes(4,5) [OF place] Let_def cnt pl(4)
    by (simp only: data_ptrs_neq_0 [OF place] section_ptrs(9) [OF place] section_room(4) [OF place]
        count_pos [OF cnt] offset_1) simp
  ultimately show ?thesis using pl(1) by (cases "num_ranges L = 0") (simp_all add: range_words_at_def)
qed

text \<open>Shifting some of the addresses keeps what is said about the other words.\<close>

lemma parts_of_address_words:
  "header_words \<subseteq> address_words L" "obj_words_at L \<subseteq> address_words L" "ptr_words_at L \<subseteq> address_words L"
  "range_words_at L \<subseteq> address_words L"
  by (auto simp: address_words_def)

lemma sections_kept:
  assumes "sections_ok n L f" "layout_ok n L" "ptrs_at a L f" "S \<subseteq> address_words L"
  shows "sections_ok n L (shift d S f)"
proof -
  have "k \<notin> address_words L \<Longrightarrow> shift d S f k = f k" for k using assms(4) by (auto simp: shift_def)
  then show ?thesis
    using assms(1) plain_words(1-10) [OF assms(2,3)] unfolding sections_ok_def by simp
qed

lemma header_kept: "header_at b L f \<Longrightarrow> S \<inter> header_words = {} \<Longrightarrow> header_at b L (shift d S f)"
  by (auto simp: header_at_def header_words_def)

lemma header_shifted: "header_at a L f \<Longrightarrow> header_words \<subseteq> S \<Longrightarrow> header_at b L (shift (b - a) S f)"
  by (simp add: header_at_def header_words_def addr_shift)

lemma obj_words_shift:
  assumes "layout_ok n L" "ptrs_at a L f" "S \<subseteq> address_words L" "i < num_objs L"
  shows "obj_words L (shift d S f) i = obj_words L f i"
proof -
  have "at_objs L + 2 + 3 * i + 2 \<notin> S" using plain_words(11) [OF assms(1,2,4)] assms(3) by blast
  then show ?thesis by (simp add: obj_words_def)
qed

lemma obj_words_at_iff: "(\<forall>i<num_objs L. at_objs L + 2 + 3 * i \<in> S) \<longleftrightarrow> obj_words_at L \<subseteq> S"
  by (auto simp: obj_words_at_def)

lemma objects_kept:
  assumes "objects_at a L f" "layout_ok n L" "ptrs_at a L f" "S \<subseteq> address_words L" "S \<inter> obj_words_at L = {}"
  shows "objects_at a L (shift d S f)"
proof -
  have "at_objs L + 2 + 3 * i \<notin> S" if "i < num_objs L" for i
    using that assms(5) by (auto simp: obj_words_at_def)
  then show ?thesis
    using assms(1) by (simp add: objects_at_def obj_words_shift [OF assms(2-4)] del: add_2_eq_Suc')
qed

lemma objects_shifted:
  assumes "objects_at a L f" "layout_ok n L" "ptrs_at a L f" "S \<subseteq> address_words L" "obj_words_at L \<subseteq> S"
  shows "objects_at b L (shift (b - a) S f)"
proof -
  have "at_objs L + 2 + 3 * i \<in> S" if "i < num_objs L" for i
    using that assms(5) by (auto simp: obj_words_at_def)
  then show ?thesis
    using assms(1) by (simp add: objects_at_def obj_words_shift [OF assms(2-4)] addr_shift del: add_2_eq_Suc')
qed

lemma ptrs_kept:
  assumes "ptrs_at a L f" "S \<inter> ptr_words_at L = {}"
  shows "ptrs_at a L (shift d S f)"
proof -
  have "at_ptrs L + 2 + i \<notin> S" "ptr_at L i \<notin> S" if "i < num_ptrs L" for i
    using that assms(2) by (auto simp: ptr_words_at_def)
  then show ?thesis using assms(1) by (simp add: ptrs_at_def del: add_2_eq_Suc')
qed

lemma ptrs_shifted:
  assumes "ptrs_at a L f" "ptr_words_at L \<subseteq> S"
  shows "ptrs_at b L (shift (b - a) S f)"
proof -
  have "at_ptrs L + 2 + i \<in> S" "ptr_at L i \<in> S" if "i < num_ptrs L" for i
    using that assms(2) by (auto simp: ptr_words_at_def)
  then show ?thesis using assms(1) by (simp add: ptrs_at_def addr_shift del: add_2_eq_Suc')
qed

lemma ranges_kept: "ranges_at a L f \<Longrightarrow> S \<inter> range_words_at L = {} \<Longrightarrow> ranges_at a L (shift d S f)"
  by (auto simp: ranges_at_def range_words_at_def shift_def)

lemma ranges_shifted: "ranges_at a L f \<Longrightarrow> range_words_at L \<subseteq> S \<Longrightarrow> ranges_at b L (shift (b - a) S f)"
  by (auto simp: ranges_at_def range_words_at_def shift_def addr_shift)

lemma describes_shift:
  assumes "describes a n L f"
  shows "describes b n L (shift (b - a) (address_words L) f)"
proof -
  have d: "header_at a L f" "sections_ok n L f" "layout_ok n L" "objects_at a L f" "ptrs_at a L f" "ranges_at a L f"
    using assms by (simp_all add: describes_def)
  show ?thesis
    unfolding describes_def
    by (intro conjI header_shifted [OF d(1)] sections_kept [OF d(2,3,5)] objects_shifted [OF d(4,3,5)]
        ptrs_shifted [OF d(5)] ranges_shifted [OF d(6)] d(3) parts_of_address_words order_refl)
qed

lemma remap_shifts:
  assumes desc: "describes a n L f" and buf: "buf m0 b n f m" and fits: "fits b n"
    and b: "8 \<le> unat b" "b mod 8 = 0" and "a \<noteq> b"
  shows "\<exists>m'. ManagedBuffer_remap m b 8 = (m', 0) \<and> buf m0 b n (shift (b - a) (address_words L) f) m'"
proof -
  have d: "header_at a L f" "sections_ok n L f" "layout_ok n L" "objects_at a L f" "ptrs_at a L f" "ranges_at a L f"
    using desc by (simp_all add: describes_def)
  note dis = address_words_disjoint [OF d(3,5)]
  define F1 where "F1 = shift (b - a) header_words f"
  define F2 where "F2 = shift (b - a) (obj_words_at L) F1"
  define F3 where "F3 = shift (b - a) (ptr_words_at L) F2"
  define F4 where "F4 = shift (b - a) (range_words_at L) F3"
  have F2: "F2 = shift (b - a) (header_words \<union> obj_words_at L) f"
    unfolding F2_def F1_def using dis by (intro shift_shift) blast
  have F3: "F3 = shift (b - a) (header_words \<union> obj_words_at L \<union> ptr_words_at L) f"
    unfolding F3_def F2 using dis by (intro shift_shift) blast
  have F4: "F4 = shift (b - a) (address_words L) f"
    unfolding F4_def F3 address_words_def using dis by (intro shift_shift) blast
  have place: "in_place m0 b n L (shift (b - a) S f) m'" if "buf m0 b n (shift (b - a) S f) m'"
      "header_words \<subseteq> S" "S \<subseteq> address_words L" for S m'
    using that header_shifted [OF d(1)] sections_kept [OF d(2,3,5)] fits b d(3) by (simp add: in_place_def)
  obtain m1 where m1: "ManagedBuffer_remap_header m b (replicate 5 (b - a)) 8 = (m1, 0)" "buf m0 b n F1 m1"
    using remap_header_step [OF buf fits b(2) \<open>a \<noteq> b\<close> d(1,3)] by (auto simp: F1_def)
  have p1: "in_place m0 b n L F1 m1" using m1(2) unfolding F1_def
    by (rule place) (auto simp: address_words_def)
  have o1: "objects_at a L F1" unfolding F1_def
    by (rule objects_kept [OF d(4,3,5)]) (use dis in \<open>auto simp: address_words_def\<close>)
  obtain m2 where m2: "ManagedBuffer_remap_section_objects m1 b (replicate 5 (b - a)) 8 = (m2, 0)" "buf m0 b n F2 m2"
    using objects_step [OF p1 o1] by (auto simp: F2_def)
  have p2: "in_place m0 b n L F2 m2" using m2(2) unfolding F2
    by (rule place) (auto simp: address_words_def)
  have o2: "ptrs_at a L F2" unfolding F2 by (rule ptrs_kept [OF d(5)]) (use dis in blast)
  obtain m3 where m3: "ManagedBuffer_remap_section_dataptrs m2 b (replicate 5 (b - a)) 8 = (m3, 0)" "buf m0 b n F3 m3"
    using dataptrs_step [OF p2 o2] by (auto simp: F3_def)
  have p3: "in_place m0 b n L F3 m3" using m3(2) unfolding F3
    by (rule place) (auto simp: address_words_def)
  have o3: "ranges_at a L F3" unfolding F3 by (rule ranges_kept [OF d(6)]) (use dis in blast)
  obtain m4 where m4: "ManagedBuffer_remap_section_garbage m3 b (replicate 5 (b - a)) 8 = (m4, 0)" "buf m0 b n F4 m4"
    using garbage_step [OF p3 o3] by (auto simp: F4_def)
  have off: "ManagedBuffer_get_addr_offset m 0 b 8 = (b - a, 0)"
    using addr_offset_eq [OF buf fits b(2)] d(1,3) layout_bounds(1) [OF d(3)] by (simp add: header_at_def)
  have "ManagedBuffer_remap m b 8 = (m4, 0)"
    using \<open>a \<noteq> b\<close> unfolding ManagedBuffer_remap_def off Let_def
    by (simp add: m1 [simplified] m2 [simplified] m3 [simplified] m4 [simplified] slots_step [OF p1])
  then show ?thesis using m4(2) by (simp add: F4)
qed

end
