(* ===== verification/Managed_Buffer_Moves.thy ===== *)
theory Managed_Buffer_Moves
  imports Managed_Buffer_Remap
begin

section \<open>Moving managed buffers\<close>

text \<open>
  What remapping promises to the code that copies, sends or stores buffers: the buffer means the same at its
  new address, nothing else in memory changes, and the move can be undone byte by byte.
\<close>

subsection \<open>Building a buffer\<close>

primrec put_words :: "mem \<Rightarrow> u64 \<Rightarrow> (nat \<Rightarrow> u64) \<Rightarrow> nat \<Rightarrow> mem" where
  "put_words m b f 0 = m"
| "put_words m b f (Suc k) = wr64 (put_words m b f k) (word_addr b k) (f k)"

lemma buf_put_words: "fits b n \<Longrightarrow> buf m b n f (put_words m b f n)"
proof -
  assume fits: "fits b n"
  have "buf m b n (\<lambda>j. if j < k then f j else rd64 m (word_addr b j)) (put_words m b f k)" if "k \<le> n" for k
    using that
  proof (induction k)
    case 0
    then show ?case by (simp add: buf_def)
  next
    case (Suc k)
    then have "buf m b n ((\<lambda>j. if j < k then f j else rd64 m (word_addr b j))(k := f k)) (put_words m b f (Suc k))"
      unfolding put_words.simps by (intro buf_write fits) simp_all
    then show ?case by (rule buf_cong) auto
  qed
  from this [OF order_refl] show ?thesis by (rule buf_cong) simp
qed

text \<open>
  A buffer with one object of two slots: the second of them points to the third slot of the buffer, which a
  data pointer records; the last slot is garbage.
\<close>

definition sample_layout :: buffer_layout where
  "sample_layout = \<lparr>at_slots = 8, at_objs = 14, at_ptrs = 19, at_ranges = 22, max_slots = 6, max_objs = 5,
     max_ptrs = 3, max_ranges = 4, num_slots = 4, objs_to = [10], ptrs_to = [(11, 12)], ranges_to = [13]\<rparr>"

definition sample_words :: "u64 \<Rightarrow> nat \<Rightarrow> u64" where
  "sample_words a k = [a, 208, 64, a + 64, a + 112, a + 152, a + 176, 0,
     48, 4, 7, a + 96, 5, 0,
     40, 1, a + 80, 1, 16,
     24, 1, a + 88,
     32, 1, a + 104, 8] ! k"

definition sample_clean_words :: "u64 \<Rightarrow> nat \<Rightarrow> u64" where
  "sample_clean_words a = (sample_words a)(23 := 0)"

lemma sample_clean_describes: "describes a 26 (sample_layout\<lparr>ranges_to := []\<rparr>) (sample_clean_words a)"
  by (simp add: describes_def header_at_def sections_ok_def layout_ok_def objects_at_def ptrs_at_def ranges_at_def
      in_slots_def obj_words_def sample_layout_def sample_clean_words_def sample_words_def word_addr_def less_Suc_eq
      inj_on_def)

lemma sample_describes: "describes a 26 sample_layout (sample_words a)"
  by (simp add: describes_def header_at_def sections_ok_def layout_ok_def objects_at_def ptrs_at_def ranges_at_def
      in_slots_def obj_words_def sample_layout_def sample_words_def word_addr_def less_Suc_eq inj_on_def)

subsection \<open>Relocation\<close>

lemma shift_0: "shift 0 S f = f"
  by (simp add: shift_def fun_eq_iff)

lemma remap_in_place:
  assumes "buf m0 b n f m" "header_at b L f" "0 < n" "8 \<le> unat b" "b mod 8 = 0" "fits b n"
  shows "ManagedBuffer_remap m b 8 = (m, 0)"
proof -
  have "ManagedBuffer_get_addr_offset m 0 b 8 = (b - b, 0)"
    using assms(2) by (intro addr_offset_eq [OF assms(1,6,5) _ assms(3)]) (simp add: header_at_def)
  then show ?thesis by (simp add: ManagedBuffer_remap_def)
qed

lemma remap_relocation:
  assumes "describes a n L f" "buf m0 b n f m" "fits b n" "8 \<le> unat b" "b mod 8 = 0"
  shows "\<exists>m'. ManagedBuffer_remap m b 8 = (m', 0) \<and> buf m0 b n (shift (b - a) (address_words L) f) m'"
proof (cases "a = b")
  case True
  have "6 < n" "header_at a L f" using assms(1) layout_bounds(1) by (auto simp: describes_def)
  then show ?thesis
    using True assms remap_in_place [OF assms(2), of L] by (simp add: shift_0)
next
  case False
  show ?thesis by (rule remap_shifts [OF assms False])
qed

text \<open>C7: Remapping relocates: if the bytes of a well-formed buffer of address \<open>a\<close> lie at \<open>b\<close>, remapping
  succeeds, leaves a buffer with the same layout at \<open>b\<close> whose address words are shifted by the distance and
  whose other words are as before, does not touch memory outside the buffer, and is not needed again.\<close>

theorem remap_relocates:
  assumes "describes a n L f" "buf m0 b n f m" "fits b n" "8 \<le> unat b" "b mod 8 = 0"
  shows "snd (ManagedBuffer_remap m b 8) = 0 \<and>
    buf m0 b n (shift (b - a) (address_words L) f) (fst (ManagedBuffer_remap m b 8)) \<and>
    describes b n L (shift (b - a) (address_words L) f) \<and>
    \<not> ManagedBuffer_needs_remapping (fst (ManagedBuffer_remap m b 8)) b 8"
proof -
  obtain m' where m': "ManagedBuffer_remap m b 8 = (m', 0)" "buf m0 b n (shift (b - a) (address_words L) f) m'"
    using remap_relocation [OF assms] by blast
  note after = describes_shift [OF assms(1), of b]
  have "layout_ok n L" using after by (simp add: describes_def)
  then have "0 < n" using layout_bounds(1) by force
  then have "rd64 m' b = b"
    using buf_read [OF m'(2), of 0] after by (simp add: describes_def header_at_def addr_0)
  then show ?thesis using m' after by (simp add: ManagedBuffer_needs_remapping_def)
qed

theorem remap_relocates_witness:
  "snd (ManagedBuffer_remap (put_words (\<lambda>_. 0) 65536 (sample_words 4096) 26) 65536 8) = 0"
proof -
  have fits: "fits 65536 26" by (simp add: fits_def)
  show ?thesis
    using remap_relocates [OF sample_describes [of 4096] buf_put_words [OF fits] fits] by simp
qed

subsection \<open>Round trips\<close>

lemma buf_bytes:
  assumes "buf m0 b n f m" "buf m1 b n f m'" "fits b n" "unat b \<le> i" "i < unat b + 8 * n"
  shows "m i = m' i"
proof -
  define k where "k = (i - unat b) div 8"
  have "8 * k + (i - unat b) mod 8 = i - unat b" "(i - unat b) mod 8 < 8" by (simp_all add: k_def)
  then have k: "k < n" "unat b + 8 * k \<le> i" "i < unat b + 8 * k + 8" using assms(4,5) by linarith+
  then have i: "unat (word_addr b k) \<le> i" "i < unat (word_addr b k) + 8" using assms(3) by (simp_all add: unat_addr)
  show ?thesis
    unfolding rd64_byte [OF i, of m] rd64_byte [OF i, of m'] buf_read [OF assms(1) k(1)] buf_read [OF assms(2) k(1)]
    by (rule refl)
qed

text \<open>Copying a buffer of \<open>n\<close> words and remapping the copy, as after a transfer or when reading a file.\<close>

definition move_buffer :: "nat \<Rightarrow> u64 \<Rightarrow> u64 \<Rightarrow> mem \<Rightarrow> mem" where
  "move_buffer n to from m = fst (ManagedBuffer_remap (mem_move m to from (8 * of_nat n)) to 8)"

lemma move_buffer_words:
  assumes "describes a n L f" "buf m0 s n f m" "fits s n" "fits b n" "8 \<le> unat b" "b mod 8 = 0"
  shows "buf m b n (shift (b - a) (address_words L) f) (move_buffer n b s m)"
  using remap_relocation [OF assms(1) buf_copy [OF assms(2,3,4)] assms(4-6)] by (auto simp: move_buffer_def)

text \<open>C8: Moving a buffer to another address and back, remapping it each time, restores every byte of it,
  also when the two places overlap.\<close>

theorem move_there_and_back:
  assumes "describes a n L f" "buf m0 a n f m" "fits a n" "8 \<le> unat a" "a mod 8 = 0"
    and "fits b n" "8 \<le> unat b" "b mod 8 = 0" "unat a \<le> i" "i < unat a + 8 * n"
  shows "move_buffer n a b (move_buffer n b a m) i = m i"
proof -
  note there = move_buffer_words [OF assms(1-3) assms(6-8)]
  have "shift (a - b) (address_words L) (shift (b - a) (address_words L) f) = f"
    using shift_back [of "b - a" "address_words L" f] by simp
  then have "buf (move_buffer n b a m) a n f (move_buffer n a b (move_buffer n b a m))"
    using move_buffer_words [OF describes_shift [OF assms(1), of b] there assms(6,3-5)] by simp
  then show ?thesis using buf_bytes [OF _ assms(2,3,9,10)] by blast
qed

theorem move_there_and_back_witness:
  "move_buffer 26 4096 4104 (move_buffer 26 4104 4096 (put_words (\<lambda>_. 0) 4096 (sample_words 4096) 26)) 4200 =
   put_words (\<lambda>_. 0) 4096 (sample_words 4096) 26 4200"
proof -
  have fits: "fits 4096 26" "fits 4104 26" by (simp_all add: fits_def)
  show ?thesis
    using move_there_and_back [OF sample_describes [of 4096] buf_put_words [OF fits(1)] fits(1) _ _ fits(2), of 4200]
    by simp
qed

end
