(* ===== verification/Managed_Buffer_Offset.thy ===== *)
theory Managed_Buffer_Offset
  imports Managed_Buffer_Moves
begin

section \<open>Preparing a buffer for another address (buffer/managed_buffer_remap.h)\<close>

text \<open>
  \<open>NS(ManagedBuffer_apply_addr_offset)\<close> shifts the addresses in a buffer that stays where it is, so that
  the bytes can be written to a file as those of a buffer at a normalised address. The loop over the garbage
  ranges starts at the header of their section, not at its data, so it shifts other words than those of the
  ranges.
\<close>

fun apply_garbage_loop :: "nat \<Rightarrow> mem \<Rightarrow> u64 \<Rightarrow> u64 \<Rightarrow> mem \<times> int" where
  "apply_garbage_loop 0 m it addr_offset = (m, 0)"
| "apply_garbage_loop (Suc n) m it addr_offset =
     (let garbage_begin_addr = BufferGarbage_get_begin_addr m it;
          remap_slot_addr = ManagedBuffer_perform_addr_shift garbage_begin_addr addr_offset
      in if remap_slot_addr \<noteq> 0
         then apply_garbage_loop n (BufferGarbage_set_begin_addr m it remap_slot_addr) (it + sizeof_BufferGarbage) addr_offset
         else (m, - 1))"

fun apply_dataptrs_loop :: "nat \<Rightarrow> mem \<Rightarrow> u64 \<Rightarrow> u64 \<Rightarrow> mem \<times> int" where
  "apply_dataptrs_loop 0 m dataptr_it addr_offset = (m, 0)"
| "apply_dataptrs_loop (Suc n) m dataptr_it addr_offset =
     (let slot_ptr = rd64 m dataptr_it;
          remap_slot_addr = ManagedBuffer_perform_addr_shift (rd64 m slot_ptr) addr_offset;
          remap_slot_ptr_addr = ManagedBuffer_perform_addr_shift (rd64 m dataptr_it) addr_offset
      in if remap_slot_addr \<noteq> 0 \<and> remap_slot_ptr_addr \<noteq> 0
         then apply_dataptrs_loop n (wr64 (wr64 m slot_ptr remap_slot_addr) dataptr_it remap_slot_ptr_addr)
                (dataptr_it + sizeof_address) addr_offset
         else (m, - 1))"

fun apply_objects_loop :: "nat \<Rightarrow> mem \<Rightarrow> u64 \<Rightarrow> u64 \<Rightarrow> mem \<times> int" where
  "apply_objects_loop 0 m obj_it addr_offset = (m, 0)"
| "apply_objects_loop (Suc n) m obj_it addr_offset =
     (let obj_begin_addr = Object_get_begin_addr m obj_it;
          remapped_obj_begin_addr = ManagedBuffer_perform_addr_shift obj_begin_addr addr_offset
      in if remapped_obj_begin_addr \<noteq> 0
         then apply_objects_loop n (Object_set_begin_addr m obj_it remapped_obj_begin_addr) (obj_it + sizeof_Object)
                addr_offset
         else (m, - 1))"

definition apply_header :: "mem \<Rightarrow> u64 \<Rightarrow> u64 \<Rightarrow> mem \<times> int" where
  "apply_header m begin' addr_offset =
     (let remapped_base_addr = ManagedBuffer_perform_addr_shift (rd64 m (begin' + 8 * 0)) addr_offset;
          remapped_slots_addr = ManagedBuffer_perform_addr_shift (rd64 m (begin' + 8 * 3)) addr_offset;
          remapped_objects_addr = ManagedBuffer_perform_addr_shift (rd64 m (begin' + 8 * 4)) addr_offset;
          remapped_dataptrs_addr = ManagedBuffer_perform_addr_shift (rd64 m (begin' + 8 * 5)) addr_offset;
          remapped_garbage_addr = ManagedBuffer_perform_addr_shift (rd64 m (begin' + 8 * 6)) addr_offset
      in if remapped_base_addr \<noteq> 0 \<and> remapped_slots_addr \<noteq> 0 \<and> remapped_objects_addr \<noteq> 0 \<and>
            remapped_dataptrs_addr \<noteq> 0 \<and> remapped_garbage_addr \<noteq> 0 then
           let m = wr64 m (begin' + 8 * 0) remapped_base_addr;
               m = wr64 m (begin' + 8 * 3) remapped_slots_addr;
               m = wr64 m (begin' + 8 * 4) remapped_objects_addr;
               m = wr64 m (begin' + 8 * 5) remapped_dataptrs_addr;
               m = wr64 m (begin' + 8 * 6) remapped_garbage_addr
           in (m, 0)
         else (m, - 1))"

definition ManagedBuffer_apply_addr_offset :: "mem \<Rightarrow> u64 \<Rightarrow> u64 \<Rightarrow> u64 \<Rightarrow> mem \<times> int" where
  "ManagedBuffer_apply_addr_offset m begin' addr_offset slot_size =
     (if begin' \<noteq> 0 \<and> slot_size \<noteq> 0 \<and> begin' mod slot_size = 0 \<and> \<not> ManagedBuffer_needs_remapping m begin' slot_size then
        if addr_offset \<noteq> 0 then
          let num_objects = ManagedBuffer_get_section_num_entities m begin' 4 slot_size;
              num_dataptrs = ManagedBuffer_get_section_num_entities m begin' 5 slot_size;
              num_garbage_ranges = ManagedBuffer_get_section_num_entities m begin' 6 slot_size;
              (m, success) = (if num_garbage_ranges > 0
                then apply_garbage_loop (unat num_garbage_ranges) m
                       (ManagedBuffer_get_ptr_to_section m begin' 6 slot_size) addr_offset
                else (m, 0));
              (m, success) = (if success = 0 \<and> num_dataptrs > 0
                then apply_dataptrs_loop (unat num_dataptrs) m
                       (ManagedBuffer_get_ptr_to_section_data m begin' 5 slot_size) addr_offset
                else (m, success));
              (m, success) = (if success = 0 \<and> num_objects > 0
                then apply_objects_loop (unat num_objects) m
                       (ManagedBuffer_get_ptr_to_section_data m begin' 4 slot_size) addr_offset
                else (m, success))
          in if success = 0 then apply_header m begin' addr_offset else (m, success)
        else (m, 0)
      else (m, - 1))"

subsection \<open>The loops\<close>

lemma apply_garbage_loop:
  assumes "buf m0 b n F m" "fits b n" "p + 2 * cnt \<le> n" "\<forall>i<cnt. F (p + 2 * i) + d \<noteq> 0"
  shows "\<exists>m'. apply_garbage_loop cnt m (word_addr b p) d = (m', 0) \<and>
    buf m0 b n (shift d ((\<lambda>i. p + 2 * i) ` {..<cnt}) F) m'"
  using assms
proof (induction cnt arbitrary: p F m)
  case 0
  then show ?case by simp
next
  case (Suc c)
  note fits = Suc.prems(2)
  have p: "p < n" using Suc.prems(3) by simp
  have q0: "F p + d \<noteq> 0" using Suc.prems(4) [rule_format, of 0] by simp
  have neq: "word_addr b p \<noteq> 0" using addr_neq_0 [OF fits] p by simp
  define m1 where "m1 = BufferGarbage_set_begin_addr m (word_addr b p) (F p + d)"
  have m1: "buf m0 b n (F(p := F p + d)) m1"
    using neq buf_write [OF Suc.prems(1) fits p] by (simp add: m1_def BufferGarbage_set_begin_addr_def)
  have step: "apply_garbage_loop (Suc c) m (word_addr b p) d = apply_garbage_loop c m1 (word_addr b (p + 2)) d"
    using neq q0 buf_read [OF Suc.prems(1) p]
    by (simp add: BufferGarbage_get_begin_addr_def ManagedBuffer_perform_addr_shift_def m1_def
        sizeof_BufferGarbage_def addr_simps)
  have "\<exists>m'. apply_garbage_loop c m1 (word_addr b (p + 2)) d = (m', 0) \<and>
      buf m0 b n (shift d ((\<lambda>i. p + 2 + 2 * i) ` {..<c}) (F(p := F p + d))) m'"
  proof (rule Suc.IH [OF m1 fits])
    show "p + 2 + 2 * c \<le> n" using Suc.prems(3) by simp
    show "\<forall>i<c. (F(p := F p + d)) (p + 2 + 2 * i) + d \<noteq> 0"
    proof (intro allI impI)
      fix i assume "i < c"
      then show "(F(p := F p + d)) (p + 2 + 2 * i) + d \<noteq> 0"
        using Suc.prems(4) [rule_format, of "Suc i"] by (simp add: algebra_simps)
    qed
  qed
  moreover have "shift d ((\<lambda>i. p + 2 + 2 * i) ` {..<c}) (F(p := F p + d)) = shift d ((\<lambda>i. p + 2 * i) ` {..<Suc c}) F"
    unfolding image_lessThan_Suc by (rule shift_insert) auto
  ultimately show ?case unfolding step by simp
qed

lemma apply_objects_loop:
  assumes "buf m0 b n F m" "fits b n" "p + 3 * cnt \<le> n" "\<forall>i<cnt. F (p + 3 * i) + d \<noteq> 0"
  shows "\<exists>m'. apply_objects_loop cnt m (word_addr b p) d = (m', 0) \<and>
    buf m0 b n (shift d ((\<lambda>i. p + 3 * i) ` {..<cnt}) F) m'"
  using assms
proof (induction cnt arbitrary: p F m)
  case 0
  then show ?case by simp
next
  case (Suc c)
  note fits = Suc.prems(2)
  have p: "p < n" using Suc.prems(3) by simp
  have q0: "F p + d \<noteq> 0" using Suc.prems(4) [rule_format, of 0] by simp
  have neq: "word_addr b p \<noteq> 0" using addr_neq_0 [OF fits] p by simp
  define m1 where "m1 = Object_set_begin_addr m (word_addr b p) (F p + d)"
  have m1: "buf m0 b n (F(p := F p + d)) m1"
    using neq buf_write [OF Suc.prems(1) fits p] by (simp add: m1_def Object_set_begin_addr_def)
  have step: "apply_objects_loop (Suc c) m (word_addr b p) d = apply_objects_loop c m1 (word_addr b (p + 3)) d"
    using neq q0 buf_read [OF Suc.prems(1) p]
    by (simp add: Object_get_begin_addr_def ManagedBuffer_perform_addr_shift_def m1_def
        sizeof_Object_def addr_simps)
  have "\<exists>m'. apply_objects_loop c m1 (word_addr b (p + 3)) d = (m', 0) \<and>
      buf m0 b n (shift d ((\<lambda>i. p + 3 + 3 * i) ` {..<c}) (F(p := F p + d))) m'"
  proof (rule Suc.IH [OF m1 fits])
    show "p + 3 + 3 * c \<le> n" using Suc.prems(3) by simp
    show "\<forall>i<c. (F(p := F p + d)) (p + 3 + 3 * i) + d \<noteq> 0"
    proof (intro allI impI)
      fix i assume "i < c"
      then show "(F(p := F p + d)) (p + 3 + 3 * i) + d \<noteq> 0"
        using Suc.prems(4) [rule_format, of "Suc i"] by (simp add: algebra_simps)
    qed
  qed
  moreover have "shift d ((\<lambda>i. p + 3 + 3 * i) ` {..<c}) (F(p := F p + d)) = shift d ((\<lambda>i. p + 3 * i) ` {..<Suc c}) F"
    unfolding image_lessThan_Suc by (rule shift_insert) auto
  ultimately show ?case unfolding step by simp
qed

lemma apply_dataptrs_loop:
  assumes "buf m0 b n F m" "fits b n" "p + cnt \<le> n" "hi \<le> p" "inj_on q {..<cnt}"
    and "\<forall>i<cnt. F (p + i) = word_addr b (q i) \<and> q i < hi \<and> F (p + i) + d \<noteq> 0 \<and> F (q i) + d \<noteq> 0"
  shows "\<exists>m'. apply_dataptrs_loop cnt m (word_addr b p) d = (m', 0) \<and>
    buf m0 b n (shift d ((\<lambda>i. p + i) ` {..<cnt} \<union> q ` {..<cnt}) F) m'"
  using assms
proof (induction cnt arbitrary: p F m q)
  case 0
  then show ?case by simp
next
  case (Suc c)
  note fits = Suc.prems(2)
  have q0: "F p = word_addr b (q 0)" "q 0 < hi" "F p + d \<noteq> 0" "F (q 0) + d \<noteq> 0"
    using Suc.prems(6) [rule_format, OF zero_less_Suc, unfolded add_0_right] by blast+
  have p: "p < n" "q 0 < n" using Suc.prems(3,4) q0 by simp_all
  have reads: "rd64 m (word_addr b p) = F p" "rd64 m (word_addr b (q 0)) = F (q 0)"
    using buf_read [OF Suc.prems(1)] p by simp_all
  define F1 where "F1 = F(q 0 := F (q 0) + d, p := F p + d)"
  define m1 where "m1 = wr64 (wr64 m (word_addr b (q 0)) (F (q 0) + d)) (word_addr b p) (F p + d)"
  have m1: "buf m0 b n F1 m1"
    unfolding m1_def F1_def by (intro buf_write [OF _ fits] Suc.prems(1) p)
  have step: "apply_dataptrs_loop (Suc c) m (word_addr b p) d = apply_dataptrs_loop c m1 (word_addr b (p + 1)) d"
    using q0 p by (simp add: reads ManagedBuffer_perform_addr_shift_def m1_def sizeof_address_def addr_simps Let_def)
  have q1: "q (Suc i) \<noteq> q 0" if "i < c" for i
    using inj_onD [OF Suc.prems(5), of "Suc i" 0] that by auto
  have F1: "F1 (p + 1 + i) = F (p + Suc i)" "F1 (q (Suc i)) = F (q (Suc i))" if "i < c" for i
    using q1 [OF that] Suc.prems(6) [rule_format, of "Suc i"] Suc.prems(4) q0(2) that by (auto simp: F1_def)
  have "\<exists>m'. apply_dataptrs_loop c m1 (word_addr b (p + 1)) d = (m', 0) \<and>
      buf m0 b n (shift d ((\<lambda>i. p + 1 + i) ` {..<c} \<union> (\<lambda>i. q (Suc i)) ` {..<c}) F1) m'"
  proof (rule Suc.IH [OF m1 fits])
    show "p + 1 + c \<le> n" "hi \<le> p + 1" using Suc.prems(3,4) by simp_all
    show "inj_on (\<lambda>i. q (Suc i)) {..<c}" using Suc.prems(5) by (auto simp: inj_on_def)
    show "\<forall>i<c. F1 (p + 1 + i) = word_addr b (q (Suc i)) \<and> q (Suc i) < hi \<and> F1 (p + 1 + i) + d \<noteq> 0 \<and>
        F1 (q (Suc i)) + d \<noteq> 0"
      using Suc.prems(6) F1 by auto
  qed
  moreover have "shift d ((\<lambda>i. p + 1 + i) ` {..<c} \<union> (\<lambda>i. q (Suc i)) ` {..<c}) F1 =
      shift d ((\<lambda>i. p + i) ` {..<Suc c} \<union> q ` {..<Suc c}) F"
    unfolding F1_def by (rule shift_pointers) (use Suc.prems(4-6) in force)+
  ultimately show ?case unfolding step by simp
qed

subsection \<open>The whole operation\<close>

text \<open>The words that the garbage loop shifts, and all words that are shifted.\<close>

definition garbage_hits :: "buffer_layout \<Rightarrow> nat set" where
  "garbage_hits L = (\<lambda>i. at_ranges L + 2 * i) ` {..<num_ranges L}"

definition offset_words :: "buffer_layout \<Rightarrow> nat set" where
  "offset_words L = header_words \<union> obj_words_at L \<union> ptr_words_at L \<union> garbage_hits L"

lemma garbage_hits_disjoint:
  assumes "layout_ok n L" "ptrs_at a L f"
  shows "garbage_hits L \<inter> header_words = {}" "garbage_hits L \<inter> obj_words_at L = {}" "garbage_hits L \<inter> ptr_words_at L = {}"
proof -
  note b = layout_bounds [OF assms(1)]
  have g: "at_ranges L \<le> k" if "k \<in> garbage_hits L" for k using that by (auto simp: garbage_hits_def)
  have "k < at_ranges L" if "k \<in> header_words" for k using that b by (auto simp: header_words_def)
  moreover have "k < at_ranges L" if "k \<in> obj_words_at L" for k using that b by (auto simp: obj_words_at_def)
  moreover have "k < at_ranges L" if "k \<in> ptr_words_at L" for k
    using that b assms(2) unfolding ptr_words_at_def ptrs_at_def in_slots_def by fastforce
  ultimately show "garbage_hits L \<inter> header_words = {}" "garbage_hits L \<inter> obj_words_at L = {}"
    "garbage_hits L \<inter> ptr_words_at L = {}" using g by fastforce+
qed

lemma shifted_neq_0: "fits (b + d) n \<Longrightarrow> k \<le> n \<Longrightarrow> word_addr b k + d \<noteq> 0"
proof -
  have "word_addr b k + d = word_addr (b + d) k" by (simp add: word_addr_def)
  then show "fits (b + d) n \<Longrightarrow> k \<le> n \<Longrightarrow> ?thesis" by (simp add: addr_neq_0)
qed

lemma apply_header_step:
  assumes place: "header_in_place m0 b n L F m" and fits: "fits (b + d) n"
  shows "\<exists>m'. apply_header m b d = (m', 0) \<and> buf m0 b n (shift d header_words F) m'"
proof -
  have pl: "buf m0 b n F m" "fits b n" "header_at b L F" "layout_ok n L"
    using place by (simp_all add: header_in_place_def)
  note bounds = layout_bounds [OF pl(4)]
  have n: "0 < n" "3 < n" "4 < n" "5 < n" "6 < n" using bounds(1) by simp_all
  have neq: "F 0 + d \<noteq> 0" "F 3 + d \<noteq> 0" "F 4 + d \<noteq> 0" "F 5 + d \<noteq> 0" "F 6 + d \<noteq> 0"
    using pl(3) bounds shifted_neq_0 [OF fits] by (simp_all add: header_at_def)
  define m' where "m' = wr64 (wr64 (wr64 (wr64 (wr64 m (word_addr b 0) (F 0 + d))
    (word_addr b 3) (F 3 + d)) (word_addr b 4) (F 4 + d)) (word_addr b 5) (F 5 + d)) (word_addr b 6) (F 6 + d)"
  have "apply_header m b d = (m', 0)"
    unfolding apply_header_def addr_begin ManagedBuffer_perform_addr_shift_def buf_read [OF pl(1) n(1)]
      buf_read [OF pl(1) n(2)] buf_read [OF pl(1) n(3)] buf_read [OF pl(1) n(4)] buf_read [OF pl(1) n(5)] Let_def
    using neq by (simp add: m'_def)
  moreover have "buf m0 b n (F(0 := F 0 + d, 3 := F 3 + d, 4 := F 4 + d, 5 := F 5 + d, 6 := F 6 + d)) m'"
    unfolding m'_def by (intro buf_write pl n)
  moreover have "F(0 := F 0 + d, 3 := F 3 + d, 4 := F 4 + d, 5 := F 5 + d, 6 := F 6 + d) = shift d header_words F"
    by (auto simp: shift_def header_words_def fun_eq_iff)
  ultimately show ?thesis by auto
qed

lemma slot_le: "layout_ok n L \<Longrightarrow> in_slots L k \<Longrightarrow> k \<le> n"
  using layout_bounds(3,6) [of n L] by (simp add: in_slots_def)

lemma objects_le:
  assumes "objects_at a L f" "i < num_objs L"
  shows "obj_at L i \<le> at_slots L + 2 + num_slots L"
  using assms(2)
proof (induction "num_objs L - Suc i" arbitrary: i)
  case 0
  then have "\<not> i + 1 < num_objs L" by linarith
  then show ?case using assms(1) 0(2) unfolding objects_at_def by fastforce
next
  case (Suc k)
  then have "k = num_objs L - Suc (i + 1)" "i + 1 < num_objs L" by linarith+
  then have "obj_at L (i + 1) \<le> at_slots L + 2 + num_slots L" by (rule Suc.hyps(1))
  then show ?case using assms(1) Suc.prems \<open>i + 1 < num_objs L\<close> unfolding objects_at_def by fastforce
qed

lemma garbage_neq_0:
  assumes "describes b n L f" "fits (b + d) n" "ranges_to L \<noteq> [] \<longrightarrow> 8 * of_nat (max_ranges L) + d \<noteq> 0"
  shows "\<forall>i<num_ranges L. f (at_ranges L + 2 * i) + d \<noteq> 0"
proof (intro allI impI)
  have d: "sections_ok n L f" "layout_ok n L" "ranges_at b L f" using assms(1) by (simp_all add: describes_def)
  fix i assume i: "i < num_ranges L"
  show "f (at_ranges L + 2 * i) + d \<noteq> 0"
  proof (cases i)
    case 0
    then show ?thesis using i assms(3) d(1) by (auto simp: sections_ok_def)
  next
    case (Suc j)
    then have "f (at_ranges L + 2 * i) = word_addr b (range_at L j)" "in_slots L (range_at L j)"
      using i d(3) by (simp_all add: ranges_at_def)
    moreover from this(2) have "range_at L j \<le> n" by (rule slot_le [OF d(2)])
    ultimately show ?thesis using shifted_neq_0 [OF assms(2)] by simp
  qed
qed

lemma objects_neq_0:
  assumes "describes b n L f" "fits (b + d) n" "i < num_objs L"
  shows "f (at_objs L + 2 + 3 * i) + d \<noteq> 0"
proof -
  have "layout_ok n L" "objects_at b L f" using assms(1) by (simp_all add: describes_def)
  then have "obj_at L i \<le> n" "f (at_objs L + 2 + 3 * i) = word_addr b (obj_at L i)"
    using objects_le [OF _ assms(3), of b f] layout_bounds(3,6) [of n L] assms(3)
    by (force, simp add: objects_at_def)
  then show ?thesis using shifted_neq_0 [OF assms(2)] by simp
qed

lemma apply_ptrs:
  assumes "header_in_place m0 b n L F m" "ptrs_at b L F" "fits (b + d) n"
  shows "\<exists>m'. apply_dataptrs_loop (num_ptrs L) m (word_addr b (at_ptrs L + 2)) d = (m', 0) \<and>
    buf m0 b n (shift d (ptr_words_at L) F) m'"
  unfolding ptr_words_at_def
proof (rule apply_dataptrs_loop)
  have lo: "layout_ok n L" using assms(1) by (simp add: header_in_place_def)
  show "buf m0 b n F m" "fits b n" using assms(1) by (simp_all add: header_in_place_def)
  show "at_ptrs L + 2 + num_ptrs L \<le> n" "at_slots L + 2 + num_slots L \<le> at_ptrs L + 2" using layout_bounds [OF lo] by simp_all
  show "inj_on (ptr_at L) {..<num_ptrs L}" using assms(2) by (simp add: ptrs_at_def)
  show "\<forall>i<num_ptrs L. F (at_ptrs L + 2 + i) = word_addr b (ptr_at L i) \<and> ptr_at L i < at_slots L + 2 + num_slots L \<and>
      F (at_ptrs L + 2 + i) + d \<noteq> 0 \<and> F (ptr_at L i) + d \<noteq> 0"
  proof (intro allI impI)
    fix i assume "i < num_ptrs L"
    then have "F (at_ptrs L + 2 + i) = word_addr b (ptr_at L i)" "in_slots L (ptr_at L i)"
      "F (ptr_at L i) = word_addr b (target_of L i)" "in_slots L (target_of L i)"
      using assms(2) unfolding ptrs_at_def by blast+
    then show "F (at_ptrs L + 2 + i) = word_addr b (ptr_at L i) \<and> ptr_at L i < at_slots L + 2 + num_slots L \<and>
      F (at_ptrs L + 2 + i) + d \<noteq> 0 \<and> F (ptr_at L i) + d \<noteq> 0"
      using shifted_neq_0 [OF assms(3)] slot_le [OF lo] by (simp add: in_slots_def)
  qed
qed

lemma apply_offset_words:
  assumes desc: "describes b n L f" and buf: "buf m0 b n f m" and fits: "fits b n" "fits (b + d) n"
    and b: "8 \<le> unat b" "b mod 8 = 0" and "d \<noteq> 0" and room: "ranges_to L \<noteq> [] \<longrightarrow> 8 * of_nat (max_ranges L) + d \<noteq> 0"
  shows "\<exists>m'. ManagedBuffer_apply_addr_offset m b d 8 = (m', 0) \<and> buf m0 b n (shift d (offset_words L) f) m'"
proof -
  have d: "header_at b L f" "sections_ok n L f" "layout_ok n L" "objects_at b L f" "ptrs_at b L f" "ranges_at b L f"
    using desc by (simp_all add: describes_def)
  note bounds = layout_bounds [OF d(3)] and dis = address_words_disjoint [OF d(3,5)] garbage_hits_disjoint [OF d(3,5)]
  note neq = shifted_neq_0 [OF fits(2)]
  have dis2: "(garbage_hits L \<union> ptr_words_at L) \<inter> header_words = {}"
    "(garbage_hits L \<union> ptr_words_at L \<union> obj_words_at L) \<inter> header_words = {}"
    "(garbage_hits L \<union> ptr_words_at L) \<inter> obj_words_at L = {}" using dis by blast+
  define F1 where "F1 = shift d (garbage_hits L) f"
  define F2 where "F2 = shift d (ptr_words_at L) F1"
  define F3 where "F3 = shift d (obj_words_at L) F2"
  have F2: "F2 = shift d (garbage_hits L \<union> ptr_words_at L) f"
    unfolding F2_def F1_def using dis by (intro shift_shift) blast
  have F3: "F3 = shift d (garbage_hits L \<union> ptr_words_at L \<union> obj_words_at L) f"
    unfolding F3_def F2 using dis by (intro shift_shift) blast
  have F4: "shift d header_words F3 = shift d (offset_words L) f"
    unfolding F3 offset_words_def using dis by (subst shift_shift) (auto simp: ac_simps)
  have place: "header_in_place m0 b n L (shift d S f) m'" if "buf m0 b n (shift d S f) m'"
      "S \<inter> header_words = {}" for S m'
    using that header_kept [OF d(1)] fits d(3) by (simp add: header_in_place_def)
  have p0: "in_place m0 b n L f m" using buf fits b d by (simp add: in_place_def)
  have cnt: "unat (of_nat (num_ranges L) :: u64) = num_ranges L" "unat (of_nat (num_ptrs L) :: u64) = num_ptrs L"
    "unat (of_nat (num_objs L) :: u64) = num_objs L"
    using bounds by (auto intro!: num_words [OF p0])
  obtain m1 where m1: "apply_garbage_loop (num_ranges L) m (word_addr b (at_ranges L)) d = (m1, 0)" "buf m0 b n F1 m1"
    using apply_garbage_loop [OF buf fits(1), of "at_ranges L" "num_ranges L" d] garbage_neq_0 [OF desc fits(2) room]
      bounds(9) by (auto simp: F1_def garbage_hits_def)
  have p1: "header_in_place m0 b n L F1 m1" using m1(2) dis unfolding F1_def by (intro place) blast
  have "ptrs_at b L F1" unfolding F1_def using dis by (intro ptrs_kept d) blast
  then obtain m2 where m2: "apply_dataptrs_loop (num_ptrs L) m1 (word_addr b (at_ptrs L + 2)) d = (m2, 0)" "buf m0 b n F2 m2"
    using apply_ptrs [OF p1 _ fits(2)] by (auto simp: F2_def)
  have p2: "header_in_place m0 b n L F2 m2" using m2(2) dis2(1) unfolding F2 by (intro place)
  have "\<forall>i<num_objs L. F2 (at_objs L + 2 + 3 * i) + d \<noteq> 0"
    using objects_neq_0 [OF desc fits(2)] dis2(3) unfolding F2 by (auto simp: shift_def obj_words_at_def)
  then obtain m3 where m3: "apply_objects_loop (num_objs L) m2 (word_addr b (at_objs L + 2)) d = (m3, 0)" "buf m0 b n F3 m3"
    using apply_objects_loop [OF m2(2) fits(1), of "at_objs L + 2" "num_objs L" d] bounds
    by (auto simp: F3_def obj_words_at_def)
  have p3: "header_in_place m0 b n L F3 m3" using m3(2) dis2(2) unfolding F3 by (intro place)
  obtain m4 where m4: "apply_header m3 b d = (m4, 0)" "buf m0 b n (shift d (offset_words L) f) m4"
    using apply_header_step [OF p3 fits(2)] unfolding F4 by blast
  have "\<not> ManagedBuffer_needs_remapping m b 8"
    using buf_read [OF buf, of 0] d(1) bounds by (simp add: ManagedBuffer_needs_remapping_def header_at_def addr_0)
  moreover have "b \<noteq> 0" using fits(1) by (simp add: fits_def)
  ultimately have guard: "b \<noteq> 0 \<and> (8::u64) \<noteq> 0 \<and> b mod 8 = 0 \<and> \<not> ManagedBuffer_needs_remapping m b 8" using b by simp
  have garbage: "(if (0::u64) < of_nat (num_ranges L)
      then apply_garbage_loop (unat (of_nat (num_ranges L) :: u64)) m (word_addr b (at_ranges L)) d else (m, 0)) = (m1, 0)"
    using m1(1) unfolding count_pos [OF cnt(1)] cnt(1) by (cases "num_ranges L = 0") simp_all
  have ptrs: "(if (0::u64) < of_nat (num_ptrs L)
      then apply_dataptrs_loop (unat (of_nat (num_ptrs L) :: u64)) m1 (word_addr b (at_ptrs L + 2)) d else (m1, 0)) = (m2, 0)"
    using m2(1) unfolding count_pos [OF cnt(2)] cnt(2) by (cases "num_ptrs L = 0") simp_all
  have objs: "(if (0::u64) < of_nat (num_objs L)
      then apply_objects_loop (unat (of_nat (num_objs L) :: u64)) m2 (word_addr b (at_objs L + 2)) d else (m2, 0)) = (m3, 0)"
    using m3(1) unfolding count_pos [OF cnt(3)] cnt(3) by (cases "num_objs L = 0") simp_all
  have "ManagedBuffer_apply_addr_offset m b d 8 = (m4, 0)"
    unfolding ManagedBuffer_apply_addr_offset_def mutable_ptrs Let_def section_counts(2-4) [OF p0] section_ptrs(4) [OF p0]
    by (simp only: guard \<open>d \<noteq> 0\<close> garbage ptrs objs m4(1) header_data(3) [OF p1] header_data(2) [OF p2]
        prod.case if_True simp_thms)
  then show ?thesis using m4(2) by blast
qed

text \<open>Preparing a buffer without garbage ranges for the address \<open>b + d\<close> leaves it in place with the
  words of the same buffer at \<open>b + d\<close>.\<close>

theorem apply_offset_prepares:
  assumes "describes b n L f" "buf m0 b n f m" "fits b n" "fits (b + d) n" "8 \<le> unat b" "b mod 8 = 0"
    and "d \<noteq> 0" "ranges_to L = []"
  shows "snd (ManagedBuffer_apply_addr_offset m b d 8) = 0 \<and>
    buf m0 b n (shift d (address_words L) f) (fst (ManagedBuffer_apply_addr_offset m b d 8)) \<and>
    describes (b + d) n L (shift d (address_words L) f)"
proof -
  have "offset_words L = address_words L"
    using assms(8) by (simp add: offset_words_def address_words_def garbage_hits_def range_words_at_def)
  then show ?thesis
    using apply_offset_words [OF assms(1-7)] describes_shift [OF assms(1), of "b + d"] assms(8) by auto
qed

theorem apply_offset_prepares_witness:
  "snd (ManagedBuffer_apply_addr_offset (put_words (\<lambda>_. 0) 4096 (sample_clean_words 4096) 26) 4096 61440 8) = 0"
proof -
  have fits: "fits 4096 26" "fits (4096 + 61440) 26" by (simp_all add: fits_def)
  show ?thesis
    using apply_offset_prepares [OF sample_clean_describes buf_put_words [OF fits(1)] fits] by simp
qed

text \<open>Writing a buffer without garbage ranges for another address and reading it back gives the same bytes
  at the place of reading as moving the buffer there directly.\<close>

theorem normalised_copy_is_move:
  assumes "describes b n L f" "buf m0 b n f m" "fits b n" "fits (b + d) n" "8 \<le> unat b" "b mod 8 = 0"
    and "d \<noteq> 0" "ranges_to L = []" "fits c n" "8 \<le> unat c" "c mod 8 = 0" "unat c \<le> i" "i < unat c + 8 * n"
  shows "move_buffer n c b (fst (ManagedBuffer_apply_addr_offset m b d 8)) i = move_buffer n c b m i"
proof -
  obtain m' where m': "fst (ManagedBuffer_apply_addr_offset m b d 8) = m'" "buf m0 b n (shift d (address_words L) f) m'"
    and desc: "describes (b + d) n L (shift d (address_words L) f)"
    using apply_offset_words [OF assms(1-7)] describes_shift [OF assms(1), of "b + d"] assms(8)
    by (auto simp: offset_words_def address_words_def garbage_hits_def range_words_at_def)
  have "shift (c - (b + d)) (address_words L) (shift d (address_words L) f) = shift (c - b) (address_words L) f"
    by (simp add: shift_def fun_eq_iff)
  then show ?thesis
    using buf_bytes [OF move_buffer_words [OF desc m'(2) assms(3,9-11)] _ assms(9,12,13)]
      move_buffer_words [OF assms(1-3,9-11)] by (simp add: m'(1))
qed

theorem normalised_copy_is_move_witness:
  "move_buffer 26 8192 4096
      (fst (ManagedBuffer_apply_addr_offset (put_words (\<lambda>_. 0) 4096 (sample_clean_words 4096) 26) 4096 61440 8)) 8200 =
    move_buffer 26 8192 4096 (put_words (\<lambda>_. 0) 4096 (sample_clean_words 4096) 26) 8200"
proof -
  have fits: "fits 4096 26" "fits (4096 + 61440) 26" "fits 8192 26" by (simp_all add: fits_def)
  show ?thesis
    using normalised_copy_is_move [OF sample_clean_describes buf_put_words [OF fits(1)] fits(1,2) _ _ _ _ fits(3)] by simp
qed

text \<open>C22: With garbage ranges, the operation reports success and leaves words that are not those of the
  buffer at \<open>b + d\<close>: the maximal size of the garbage section has been shifted as if it were an address.\<close>

theorem apply_offset_breaks_garbage:
  assumes "describes b n L f" "buf m0 b n f m" "fits b n" "fits (b + d) n" "8 \<le> unat b" "b mod 8 = 0"
    and "d \<noteq> 0" "ranges_to L \<noteq> []" "8 * of_nat (max_ranges L) + d \<noteq> 0"
  shows "snd (ManagedBuffer_apply_addr_offset m b d 8) = 0 \<and>
    rd64 (fst (ManagedBuffer_apply_addr_offset m b d 8)) (word_addr b (at_ranges L)) = 8 * of_nat (max_ranges L) + d \<and>
    (\<forall>g. buf m0 b n g (fst (ManagedBuffer_apply_addr_offset m b d 8)) \<longrightarrow> \<not> describes (b + d) n L g)"
proof -
  obtain m' where m': "ManagedBuffer_apply_addr_offset m b d 8 = (m', 0)" "buf m0 b n (shift d (offset_words L) f) m'"
    using apply_offset_words [OF assms(1-7)] assms(9) by blast
  have f: "f (at_ranges L) = 8 * of_nat (max_ranges L)" and lo: "layout_ok n L"
    using assms(1) by (simp_all add: describes_def sections_ok_def)
  have "at_ranges L \<in> offset_words L" using assms(8) by (auto simp: offset_words_def garbage_hits_def)
  moreover have n: "at_ranges L < n" using layout_bounds(5) [OF lo] by simp
  ultimately have word: "rd64 m' (word_addr b (at_ranges L)) = 8 * of_nat (max_ranges L) + d"
    using buf_read [OF m'(2) n] f by simp
  have "\<not> describes (b + d) n L g" if "buf m0 b n g m'" for g
    using buf_read [OF that n] word assms(7) by (auto simp: describes_def sections_ok_def)
  then show ?thesis using m'(1) word by simp
qed

theorem apply_offset_breaks_garbage_witness:
  "rd64 (fst (ManagedBuffer_apply_addr_offset (put_words (\<lambda>_. 0) 4096 (sample_words 4096) 26) 4096 61440 8)) 4272 = 61472"
proof -
  have fits: "fits 4096 26" "fits (4096 + 61440) 26" by (simp_all add: fits_def)
  show ?thesis
    using apply_offset_breaks_garbage [OF sample_describes buf_put_words [OF fits(1)] fits]
    by (simp add: sample_layout_def word_addr_def)
qed

end
