(* ===== verification/Mem_Pool.thy ===== *)
theory Mem_Pool
  imports Word_Arrays Alignment
begin

section \<open>The memory pool (buffer/mem_pool.h and buffer/mem_pool.c)\<close>

text \<open>
  A pool hands out blocks of one range of memory from its begin to its end, in multiples of a chunk size and
  at aligned addresses, and moves to a larger range when it has to grow. Pointers are addresses, 0 is NULL;
  the pool itself is a value (the operations do nothing for a NULL pool). The address that \<open>malloc\<close> returns
  is an argument, 0 when it fails; \<open>free\<close> does not change the contents of memory.
\<close>

record MemPool =
  mp_buffer :: u64
  mp_begin_pos :: u64
  mp_begin_offset :: u64
  mp_capacity :: u64
  mp_size :: u64
  mp_chunk_size :: u64

record AllocResult =
  res_p :: u64
  res_offset :: u64
  res_length :: u64

definition AllocResult_valid :: "AllocResult \<Rightarrow> bool" where
  "AllocResult_valid result \<longleftrightarrow> res_p result \<noteq> 0 \<and> res_length result > 0"

definition AllocResult_is_aligned :: "AllocResult \<Rightarrow> u64 \<Rightarrow> bool" where
  "AllocResult_is_aligned result alignment \<longleftrightarrow> alignment > 0 \<and> res_p result \<noteq> 0 \<and> res_p result mod alignment = 0"

definition AllocResult_preset :: AllocResult where
  "AllocResult_preset = \<lparr>res_p = 0, res_offset = 0, res_length = 0\<rparr>"

definition AllocResult_get_pointer :: "AllocResult \<Rightarrow> u64" where
  "AllocResult_get_pointer result = res_p result"

definition AllocResult_get_offset :: "AllocResult \<Rightarrow> u64" where
  "AllocResult_get_offset result = res_offset result"

definition AllocResult_get_length :: "AllocResult \<Rightarrow> u64" where
  "AllocResult_get_length result = res_length result"

definition AllocResult_assign_ptr :: "AllocResult \<Rightarrow> u64 \<Rightarrow> AllocResult" where
  "AllocResult_assign_ptr result ptr = result\<lparr>res_p := ptr\<rparr>"

definition AllocResult_set_length :: "AllocResult \<Rightarrow> u64 \<Rightarrow> AllocResult" where
  "AllocResult_set_length result len = result\<lparr>res_length := len\<rparr>"

definition AllocResult_set_offset :: "AllocResult \<Rightarrow> u64 \<Rightarrow> AllocResult" where
  "AllocResult_set_offset result offset = result\<lparr>res_offset := offset\<rparr>"

definition MemPool_preset :: MemPool where
  "MemPool_preset = \<lparr>mp_buffer = 0, mp_begin_pos = 0, mp_begin_offset = 0, mp_capacity = 0, mp_size = 0,
     mp_chunk_size = 0\<rparr>"

definition MemPool_set_chunk_size :: "MemPool \<Rightarrow> u64 \<Rightarrow> MemPool" where
  "MemPool_set_chunk_size pool chunk_size = pool\<lparr>mp_chunk_size := chunk_size\<rparr>"

definition MemPool_free :: "MemPool \<Rightarrow> MemPool" where
  "MemPool_free pool = MemPool_preset"

definition MemPool_clear :: "MemPool \<Rightarrow> MemPool" where
  "MemPool_clear pool = pool\<lparr>mp_size := 0\<rparr>"

definition MemPool_get_capacity :: "MemPool \<Rightarrow> u64" where
  "MemPool_get_capacity pool = mp_capacity pool"

definition MemPool_get_buffer_capacity :: "MemPool \<Rightarrow> u64" where
  "MemPool_get_buffer_capacity pool = mp_capacity pool + mp_begin_offset pool"

definition MemPool_get_size :: "MemPool \<Rightarrow> u64" where
  "MemPool_get_size pool = mp_size pool"

definition MemPool_is_empty :: "MemPool \<Rightarrow> bool" where
  "MemPool_is_empty pool \<longleftrightarrow> MemPool_get_size pool = 0"

definition MemPool_get_chunk_size :: "MemPool \<Rightarrow> u64" where
  "MemPool_get_chunk_size pool = mp_chunk_size pool"

definition MemPool_get_begin_offset :: "MemPool \<Rightarrow> u64" where
  "MemPool_get_begin_offset pool = mp_begin_offset pool"

definition MemPool_get_const_begin_pos :: "MemPool \<Rightarrow> u64" where
  "MemPool_get_const_begin_pos pool = mp_begin_pos pool"

definition MemPool_get_begin_pos :: "MemPool \<Rightarrow> u64" where
  "MemPool_get_begin_pos pool = MemPool_get_const_begin_pos pool"

definition MemPool_is_begin_aligned_with :: "MemPool \<Rightarrow> u64 \<Rightarrow> bool" where
  "MemPool_is_begin_aligned_with pool alignment \<longleftrightarrow>
     alignment > 0 \<and> MemPool_get_const_begin_pos pool \<noteq> 0 \<and> MemPool_get_const_begin_pos pool mod alignment = 0"

abbreviation U64_MAX :: u64 where
  "U64_MAX \<equiv> 0xffffffffffffffff"

definition MemPool_get_next_begin_offset :: "MemPool \<Rightarrow> u64 \<Rightarrow> u64" where
  "MemPool_get_next_begin_offset pool alignment =
     (let chunk_size = MemPool_get_chunk_size pool;
          use_align = Alignment_calculate_common alignment chunk_size;
          current_size = MemPool_get_size pool;
          begin_pos = MemPool_get_const_begin_pos pool;
          current_offset_addr = begin_pos + current_size;
          addr_mod = current_offset_addr mod use_align;
          offset = (if addr_mod \<noteq> 0 then use_align - addr_mod else 0);
          temp_next_offset = current_size;
          temp_next_offset = (if offset \<noteq> 0 \<and> temp_next_offset < U64_MAX - offset
            then temp_next_offset + offset else temp_next_offset)
      in if temp_next_offset \<le> MemPool_get_capacity pool then temp_next_offset else U64_MAX)"

definition MemPool_get_remaining_bytes :: "MemPool \<Rightarrow> u64" where
  "MemPool_get_remaining_bytes pool =
     (MemPool_get_capacity pool - MemPool_get_size pool) div MemPool_get_chunk_size pool * MemPool_get_chunk_size pool"

definition MemPool_append_aligned :: "MemPool \<Rightarrow> u64 \<Rightarrow> u64 \<Rightarrow> MemPool \<times> AllocResult" where
  "MemPool_append_aligned pool num_bytes alignment =
     (let begin_pos = MemPool_get_begin_pos pool;
          next_offset = MemPool_get_next_begin_offset pool alignment;
          chunk_size = MemPool_get_chunk_size pool;
          result = AllocResult_preset
      in if begin_pos \<noteq> 0 \<and> num_bytes > 0 \<and> next_offset \<noteq> U64_MAX \<and> chunk_size > 0 then
           let new_size = next_offset;
               bytes_to_add = num_bytes div chunk_size * chunk_size;
               bytes_to_add = (if bytes_to_add < num_bytes then bytes_to_add + chunk_size else bytes_to_add)
           in if new_size < U64_MAX - bytes_to_add then
                let new_size = new_size + bytes_to_add
                in if new_size \<le> MemPool_get_capacity pool then
                     (pool\<lparr>mp_size := new_size\<rparr>,
                      result\<lparr>res_p := begin_pos + next_offset, res_offset := next_offset, res_length := bytes_to_add\<rparr>)
                   else (pool, result)
              else (pool, result)
         else (pool, result))"

definition MemPool_append :: "MemPool \<Rightarrow> u64 \<Rightarrow> MemPool \<times> AllocResult" where
  "MemPool_append pool num_bytes = MemPool_append_aligned pool num_bytes 1"

definition MemPool_get_const_pointer_by_offset :: "MemPool \<Rightarrow> u64 \<Rightarrow> u64" where
  "MemPool_get_const_pointer_by_offset pool offset = MemPool_get_const_begin_pos pool + offset"

definition MemPool_get_pointer_by_offset :: "MemPool \<Rightarrow> u64 \<Rightarrow> u64" where
  "MemPool_get_pointer_by_offset pool offset = MemPool_get_const_pointer_by_offset pool offset"

definition MemPool_increment_size :: "MemPool \<Rightarrow> u64 \<Rightarrow> MemPool" where
  "MemPool_increment_size pool new_size = pool\<lparr>mp_size := new_size\<rparr>"

definition MemPool_get_next_begin_const_pointer :: "MemPool \<Rightarrow> u64 \<Rightarrow> u64" where
  "MemPool_get_next_begin_const_pointer pool alignment =
     (let begin_pos = MemPool_get_const_begin_pos pool
      in if begin_pos \<noteq> 0 then begin_pos + MemPool_get_next_begin_offset pool alignment else begin_pos)"

definition MemPool_get_next_begin_pointer :: "MemPool \<Rightarrow> u64 \<Rightarrow> u64" where
  "MemPool_get_next_begin_pointer pool alignment = MemPool_get_next_begin_const_pointer pool alignment"

definition MemPool_set_capacity :: "MemPool \<Rightarrow> u64 \<Rightarrow> MemPool" where
  "MemPool_set_capacity pool new_capacity = pool\<lparr>mp_capacity := new_capacity\<rparr>"

definition MemPool_set_size :: "MemPool \<Rightarrow> u64 \<Rightarrow> MemPool" where
  "MemPool_set_size pool new_size = pool\<lparr>mp_size := new_size\<rparr>"

definition MemPool_set_buffer :: "MemPool \<Rightarrow> u64 \<Rightarrow> MemPool" where
  "MemPool_set_buffer pool new_buffer = pool\<lparr>mp_buffer := new_buffer\<rparr>"

definition MemPool_set_begin_pos :: "MemPool \<Rightarrow> u64 \<Rightarrow> MemPool" where
  "MemPool_set_begin_pos pool begin_pos = pool\<lparr>mp_begin_pos := begin_pos\<rparr>"

definition MemPool_set_begin_offset :: "MemPool \<Rightarrow> u64 \<Rightarrow> MemPool" where
  "MemPool_set_begin_offset pool begin_offset = pool\<lparr>mp_begin_offset := begin_offset\<rparr>"

definition MemPool_get_buffer :: "MemPool \<Rightarrow> u64" where
  "MemPool_get_buffer pool = mp_buffer pool"

definition MemPool_get_const_buffer :: "MemPool \<Rightarrow> u64" where
  "MemPool_get_const_buffer pool = mp_buffer pool"

text \<open>The number of bytes that \<open>NS(MemPool_init_aligned)\<close> requests from \<open>malloc\<close>.\<close>

definition init_request :: "u64 \<Rightarrow> u64 \<Rightarrow> u64 \<Rightarrow> u64" where
  "init_request capacity chunk_size begin_alignment =
     (let requested_capacity = begin_alignment + (if capacity > chunk_size then capacity else chunk_size);
          num_chunks = requested_capacity div chunk_size;
          calc_capacity = num_chunks * chunk_size
      in if calc_capacity < requested_capacity then calc_capacity + chunk_size else calc_capacity)"

definition MemPool_init_aligned :: "u64 \<Rightarrow> u64 \<Rightarrow> u64 \<Rightarrow> u64 \<Rightarrow> MemPool" where
  "MemPool_init_aligned new_buffer capacity chunk_size begin_alignment =
     (let pool = MemPool_preset
      in if chunk_size > 0 \<and> begin_alignment > 0 then
           let capacity = init_request capacity chunk_size begin_alignment
           in if new_buffer \<noteq> 0 then
                let addr_mod = new_buffer mod begin_alignment;
                    begin_offset = (if addr_mod \<noteq> 0 then begin_alignment - addr_mod else 0);
                    begin_pos = new_buffer + begin_offset;
                    capacity = (if begin_offset > 0 then capacity - begin_offset else capacity);
                    pool = MemPool_set_buffer pool new_buffer;
                    pool = MemPool_set_begin_pos pool begin_pos;
                    pool = MemPool_set_capacity pool capacity;
                    pool = MemPool_set_begin_offset pool begin_offset;
                    pool = MemPool_set_size pool 0
                in MemPool_set_chunk_size pool chunk_size
              else pool
         else pool)"

definition MemPool_init :: "u64 \<Rightarrow> u64 \<Rightarrow> u64 \<Rightarrow> MemPool" where
  "MemPool_init new_buffer capacity chunk_size = MemPool_init_aligned new_buffer capacity chunk_size chunk_size"

definition MemPool_clear_to_aligned_position :: "MemPool \<Rightarrow> u64 \<Rightarrow> MemPool \<times> bool" where
  "MemPool_clear_to_aligned_position pool alignment =
     (let chunk_size = MemPool_get_chunk_size pool;
          buffer_capacity = MemPool_get_buffer_capacity pool;
          buffer = MemPool_get_buffer pool;
          pool = MemPool_clear pool
      in if alignment > 0 \<and> chunk_size > 0 \<and> buffer \<noteq> 0 then
           let use_align = least_common_multiple alignment chunk_size
           in if use_align = 0 then (pool, False)
              else if use_align > buffer_capacity then
                let addr_mod = buffer mod use_align
                in if addr_mod \<noteq> 0 then
                     let offset = use_align - addr_mod
                     in if offset = 0 then
                          (MemPool_set_capacity (MemPool_set_begin_pos pool buffer) buffer_capacity, True)
                        else if offset \<noteq> 0 \<and> buffer_capacity > offset then
                          (MemPool_set_capacity (MemPool_set_begin_pos pool (buffer + offset)) (buffer_capacity - offset), True)
                        else (MemPool_set_capacity (MemPool_set_begin_pos pool 0) 0, True)
                   else (pool, False)
              else (pool, False)
         else (pool, False))"

definition MemPool_reserve_aligned :: "mem \<Rightarrow> u64 \<Rightarrow> MemPool \<Rightarrow> u64 \<Rightarrow> u64 \<Rightarrow> mem \<times> MemPool \<times> bool" where
  "MemPool_reserve_aligned m new_buffer pool new_capacity align =
     (let current_capacity = MemPool_get_capacity pool;
          chunk_size = MemPool_get_chunk_size pool
      in if new_capacity > current_capacity \<and> chunk_size > 0 then
           let rollback_copy = pool;
               pool = MemPool_init_aligned new_buffer new_capacity chunk_size align
           in if MemPool_get_const_buffer pool \<noteq> 0 then
                let prev_begin_pos = MemPool_get_const_begin_pos rollback_copy
                in if prev_begin_pos \<noteq> 0 then
                     let prev_size = MemPool_get_size rollback_copy
                     in if prev_size > 0 then
                          (mem_move m (MemPool_get_begin_pos pool) prev_begin_pos prev_size,
                           MemPool_set_size pool prev_size, True)
                        else (m, pool, True)
                   else (m, pool, True)
              else (m, rollback_copy, False)
         else (m, pool, False))"

definition MemPool_reserve :: "mem \<Rightarrow> u64 \<Rightarrow> MemPool \<Rightarrow> u64 \<Rightarrow> mem \<times> MemPool \<times> bool" where
  "MemPool_reserve m new_buffer pool new_capacity =
     MemPool_reserve_aligned m new_buffer pool new_capacity (MemPool_get_chunk_size pool)"

subsection \<open>Rounding\<close>

definition round_up_to :: "u64 \<Rightarrow> u64 \<Rightarrow> u64" where
  "round_up_to n chunk = (if n div chunk * chunk < n then n div chunk * chunk + chunk else n div chunk * chunk)"

lemma round_up_to_bounds:
  assumes "0 < chunk" "unat n + unat chunk < 2 ^ 64"
  shows "unat n \<le> unat (round_up_to n chunk)" "unat (round_up_to n chunk) < unat n + unat chunk"
    "unat chunk dvd unat (round_up_to n chunk)"
proof -
  define c u where "c = unat chunk" and "u = unat n"
  have c: "0 < c" using assms(1) by (simp add: c_def u64_less_nat)
  have uc: "u + c < 2 ^ 64" using assms(2) by (simp add: c_def u_def)
  have split: "u = u div c * c + u mod c" "u mod c < c" using c by simp_all
  have le: "u div c * c \<le> u" by simp
  then have lt: "u div c * c < 2 ^ 64" using uc by linarith
  have prod: "unat (n div chunk * chunk) = u div c * c"
    using lt by (subst unat_u64_mult) (simp_all add: unat_u64_div c_def u_def)
  have "u div c * c + c < 2 ^ 64" using le uc by linarith
  then have sum: "unat (n div chunk * chunk + chunk) = u div c * c + c"
    by (subst unat_u64_add) (simp_all only: prod c_def [symmetric])
  have "unat (round_up_to n chunk) = (if u div c * c < u then u div c * c + c else u div c * c)"
    by (cases "u div c * c < u") (simp_all only: round_up_to_def u64_less_nat prod sum u_def [symmetric] if_True if_False)
  then have r: "unat (round_up_to n chunk) = (if u div c * c < u then u div c * c + c else u div c * c)" .
  show "unat n \<le> unat (round_up_to n chunk)" "unat (round_up_to n chunk) < unat n + unat chunk"
    unfolding r u_def [symmetric] c_def [symmetric]
    by (cases "u div c * c < u"; simp only: if_True if_False; use split c in linarith)+
  show "unat chunk dvd unat (round_up_to n chunk)"
    unfolding r c_def [symmetric] by (auto intro: dvd_add)
qed

subsection \<open>The invariant\<close>

text \<open>A pool with memory: its range lies in the address space and its used part within its capacity.\<close>

definition pool_ok :: "MemPool \<Rightarrow> bool" where
  "pool_ok pool \<longleftrightarrow> mp_begin_pos pool \<noteq> 0 \<and> mp_chunk_size pool > 0 \<and>
     mp_begin_pos pool = mp_buffer pool + mp_begin_offset pool \<and>
     unat (mp_begin_pos pool) + unat (mp_capacity pool) < 2 ^ 64 \<and> mp_size pool \<le> mp_capacity pool"

lemma pool_ok_size: "pool_ok pool \<Longrightarrow> s \<le> mp_capacity pool \<Longrightarrow> pool_ok (pool\<lparr>mp_size := s\<rparr>)"
  unfolding pool_ok_def by (elim conjE, intro conjI) simp_all

text \<open>Requests that leave room for padding in the address space.\<close>

definition request_ok :: "MemPool \<Rightarrow> u64 \<Rightarrow> u64 \<Rightarrow> bool" where
  "request_ok pool num_bytes alignment \<longleftrightarrow> alignment > 0 \<and>
     unat (mp_begin_pos pool) + unat (mp_capacity pool) + unat alignment * unat (mp_chunk_size pool) < 2 ^ 64 \<and>
     unat num_bytes + unat (mp_chunk_size pool) < 2 ^ 64"

lemma padding:
  fixes x a :: nat
  assumes "0 < a"
  shows "(x + (if x mod a \<noteq> 0 then a - x mod a else 0)) mod a = 0" "(if x mod a \<noteq> 0 then a - x mod a else 0) < a"
proof -
  have "x mod a < a" using assms by simp
  then have "(x mod a + (a - x mod a)) mod a = 0" by simp
  then show "(x + (if x mod a \<noteq> 0 then a - x mod a else 0)) mod a = 0"
    by (simp add: mod_add_left_eq [symmetric, of x])
  show "(if x mod a \<noteq> 0 then a - x mod a else 0) < a" using assms by simp
qed

lemma next_begin_offset:
  assumes "pool_ok pool" "request_ok pool num_bytes alignment"
  shows "MemPool_get_next_begin_offset pool alignment = U64_MAX \<or>
    (mp_size pool \<le> MemPool_get_next_begin_offset pool alignment \<and>
     MemPool_get_next_begin_offset pool alignment \<le> mp_capacity pool \<and>
     unat alignment dvd unat (mp_begin_pos pool) + unat (MemPool_get_next_begin_offset pool alignment))"
proof -
  define a where "a = Alignment_calculate_common alignment (mp_chunk_size pool)"
  define x where "x = unat (mp_begin_pos pool) + unat (mp_size pool)"
  have pos: "0 < unat alignment" "0 < unat (mp_chunk_size pool)"
    using assms by (simp_all add: pool_ok_def request_ok_def u64_less_nat)
  have room: "unat (mp_begin_pos pool) + unat (mp_capacity pool) + unat alignment * unat (mp_chunk_size pool) < 2 ^ 64"
    using assms by (simp add: request_ok_def)
  have a: "unat a = lcm (unat alignment) (unat (mp_chunk_size pool))"
    unfolding a_def Alignment_calculate_common_def using room by (intro unat_least_common_multiple) linarith
  have "unat a dvd unat alignment * unat (mp_chunk_size pool)" unfolding a by (intro lcm_least) simp_all
  moreover have "0 < unat alignment * unat (mp_chunk_size pool)" using pos by simp
  ultimately have a_bounds: "unat a \<le> unat alignment * unat (mp_chunk_size pool)" by (rule dvd_imp_le)
  have a_pos: "0 < unat a" "unat alignment dvd unat a" unfolding a using pos by (simp_all add: lcm_pos_nat)
  have size: "unat (mp_size pool) \<le> unat (mp_capacity pool)" using assms by (simp add: pool_ok_def u64_le_nat)
  define d where "d = (if x mod unat a \<noteq> 0 then unat a - x mod unat a else 0)"
  have d: "d < unat a" "unat a dvd x + d" 
    unfolding d_def dvd_eq_mod_eq_0 by (rule padding [OF a_pos(1)])+
  have addr: "unat (mp_begin_pos pool + mp_size pool) = x"
    unfolding x_def using size room by (intro unat_u64_add) linarith
  define off where "off = (if (mp_begin_pos pool + mp_size pool) mod a \<noteq> 0 then a - (mp_begin_pos pool + mp_size pool) mod a else 0)"
  have off: "unat off = d"
  proof -
    have m: "unat ((mp_begin_pos pool + mp_size pool) mod a) = x mod unat a" by (simp only: unat_u64_mod addr)
    have "x mod unat a \<le> unat a" using a_pos(1) by (simp add: less_imp_le)
    then have "unat (a - (mp_begin_pos pool + mp_size pool) mod a) = unat a - x mod unat a"
      using m by (subst unat_u64_sub) (simp_all only: u64_le_nat)
    moreover have "(mp_begin_pos pool + mp_size pool) mod a = 0 \<longleftrightarrow> x mod unat a = 0"
      using m by (metis unat_eq_zero)
    ultimately show ?thesis by (simp add: off_def d_def)
  qed
  define nxt where "nxt = (if off \<noteq> 0 \<and> mp_size pool < U64_MAX - off then mp_size pool + off else mp_size pool)"
  have d_room: "unat (mp_size pool) + d < 2 ^ 64 - 1"
    using d(1) a_bounds room size by linarith
  have nxt: "unat nxt = unat (mp_size pool) + d"
  proof (cases "off = 0")
    case True
    then show ?thesis using off by (simp add: nxt_def)
  next
    case False
    have "unat (U64_MAX - off) = 2 ^ 64 - 1 - d" using off d_room by (subst unat_u64_sub) (simp_all add: u64_le_nat)
    then have "mp_size pool < U64_MAX - off" using d_room by (simp add: u64_less_nat)
    then have "nxt = mp_size pool + off" using False by (simp add: nxt_def)
    then show ?thesis using d_room off by (simp add: unat_u64_add)
  qed
  have nextoff: "MemPool_get_next_begin_offset pool alignment = (if nxt \<le> mp_capacity pool then nxt else U64_MAX)"
    unfolding MemPool_get_next_begin_offset_def MemPool_get_chunk_size_def MemPool_get_size_def
      MemPool_get_const_begin_pos_def MemPool_get_capacity_def Let_def
    unfolding a_def [symmetric] off_def [symmetric] nxt_def [symmetric] by (rule refl)
  have "unat alignment dvd unat (mp_begin_pos pool) + unat nxt"
    using dvd_trans [OF a_pos(2) d(2)] by (simp add: nxt x_def add.assoc)
  moreover have "mp_size pool \<le> nxt" by (simp add: u64_le_nat nxt)
  ultimately show ?thesis unfolding nextoff by simp
qed

subsection \<open>Appending blocks\<close>

definition fresh_block :: "MemPool \<Rightarrow> u64 \<Rightarrow> u64 \<Rightarrow> MemPool \<Rightarrow> AllocResult \<Rightarrow> bool" where
  "fresh_block pool num_bytes alignment pool' result \<longleftrightarrow>
     mp_size pool \<le> res_offset result \<and> unat (res_offset result) + unat (res_length result) = unat (mp_size pool') \<and>
     mp_size pool' \<le> mp_capacity pool \<and> num_bytes \<le> res_length result \<and>
     unat (res_p result) = unat (mp_begin_pos pool) + unat (res_offset result) \<and> res_p result mod alignment = 0 \<and>
     unat (mp_chunk_size pool) dvd unat (res_length result) \<and> pool' = pool\<lparr>mp_size := mp_size pool'\<rparr>"

lemma append_aligned:
  assumes ok: "pool_ok pool" and req: "request_ok pool num_bytes alignment"
    and append: "MemPool_append_aligned pool num_bytes alignment = (pool', result)"
  shows "pool_ok pool' \<and> (if AllocResult_valid result then fresh_block pool num_bytes alignment pool' result
    else pool' = pool \<and> result = AllocResult_preset)"
proof -
  define nxt where "nxt = MemPool_get_next_begin_offset pool alignment"
  define r where "r = round_up_to num_bytes (mp_chunk_size pool)"
  have P: "mp_begin_pos pool \<noteq> 0" "mp_chunk_size pool > 0" "unat (mp_begin_pos pool) + unat (mp_capacity pool) < 2 ^ 64"
    "mp_size pool \<le> mp_capacity pool" using ok unfolding pool_ok_def by blast+
  have r: "unat num_bytes \<le> unat r" "unat (mp_chunk_size pool) dvd unat r"
    using round_up_to_bounds [OF P(2), of num_bytes] req by (simp_all add: request_ok_def r_def)
  have eq: "MemPool_append_aligned pool num_bytes alignment =
      (if num_bytes > 0 \<and> nxt \<noteq> U64_MAX \<and> nxt < U64_MAX - r \<and> nxt + r \<le> mp_capacity pool
       then (pool\<lparr>mp_size := nxt + r\<rparr>, \<lparr>res_p = mp_begin_pos pool + nxt, res_offset = nxt, res_length = r\<rparr>)
       else (pool, AllocResult_preset))"
    using P(1,2) by (simp add: MemPool_append_aligned_def MemPool_get_begin_pos_def MemPool_get_const_begin_pos_def
        MemPool_get_chunk_size_def MemPool_get_capacity_def Let_def nxt_def [symmetric] round_up_to_def [symmetric]
        r_def [symmetric] AllocResult_preset_def)
  show ?thesis
  proof (cases "num_bytes > 0 \<and> nxt \<noteq> U64_MAX \<and> nxt < U64_MAX - r \<and> nxt + r \<le> mp_capacity pool")
    case False
    then show ?thesis using append ok unfolding eq if_not_P [OF False] by (auto simp: AllocResult_valid_def AllocResult_preset_def)
  next
    case True
    then have new: "pool' = pool\<lparr>mp_size := nxt + r\<rparr>" "result = \<lparr>res_p = mp_begin_pos pool + nxt, res_offset = nxt, res_length = r\<rparr>"
      using append unfolding eq if_P [OF True] by simp_all
    have at: "mp_size pool \<le> nxt" "unat alignment dvd unat (mp_begin_pos pool) + unat nxt"
      using next_begin_offset [OF ok req] True unfolding nxt_def [symmetric] by blast+
    have "r \<le> U64_MAX" by (simp add: u64_le_nat less_Suc_eq_le [symmetric])
    then have "unat (U64_MAX - r) = 2 ^ 64 - 1 - unat r" by (subst unat_u64_sub) simp_all
    then have "unat nxt < 2 ^ 64 - 1 - unat r" using True by (simp only: u64_less_nat)
    then have sum: "unat (nxt + r) = unat nxt + unat r" by (intro unat_u64_add) linarith
    have cap: "unat nxt + unat r \<le> unat (mp_capacity pool)" using True sum by (simp add: u64_le_nat)
    have p: "unat (mp_begin_pos pool + nxt) = unat (mp_begin_pos pool) + unat nxt"
      using cap P(3) by (intro unat_u64_add) linarith
    have "(mp_begin_pos pool + nxt) mod alignment = 0"
      using at(2) p by (simp add: u64_eq_nat unat_u64_mod dvd_eq_mod_eq_0)
    then have "fresh_block pool num_bytes alignment pool' result"
      using at(1) sum cap p r by (simp add: fresh_block_def new u64_le_nat)
    moreover have "AllocResult_valid result"
    proof -
      have "0 < unat (mp_begin_pos pool + nxt)" using P(1) by (simp add: p unat_gt_0)
      moreover have "0 < unat r" using True r(1) by (simp add: u64_less_nat)
      ultimately show ?thesis by (simp add: AllocResult_valid_def new u64_less_nat unat_gt_0)
    qed
    moreover have "pool_ok pool'" 
      unfolding new using ok cap sum by (intro pool_ok_size) (simp_all add: u64_le_nat)
    ultimately show ?thesis by simp
  qed
qed

subsection \<open>Sequences of requests\<close>

text \<open>The results of a list of requests, one after the other.\<close>

fun alloc_run :: "('p \<Rightarrow> 'r \<Rightarrow> 'p \<times> 'b) \<Rightarrow> 'p \<Rightarrow> 'r list \<Rightarrow> 'p \<times> 'b list" where
  "alloc_run alloc p [] = (p, [])"
| "alloc_run alloc p (r # rs) = (let (p', b) = alloc p r; (p'', bs) = alloc_run alloc p' rs in (p'', b # bs))"

text \<open>
  What the users of an allocator rely on, for any allocator that takes blocks from the front of its free room:
  \<open>used\<close> is the end of the part that has been given away, \<open>from\<close> and \<open>upto\<close> are the bounds of a block.
\<close>

locale front_allocator =
  fixes alloc :: "'p \<Rightarrow> 'r \<Rightarrow> 'p \<times> 'b"
    and good :: "'p \<Rightarrow> bool"
    and legal :: "'p \<Rightarrow> 'r \<Rightarrow> bool"
    and used room :: "'p \<Rightarrow> nat"
    and valid :: "'b \<Rightarrow> bool"
    and start stop :: "'b \<Rightarrow> nat"
    and serves :: "'r \<Rightarrow> 'b \<Rightarrow> bool"
  assumes keeps_good: "good p \<Longrightarrow> legal p r \<Longrightarrow> alloc p r = (p', b) \<Longrightarrow> good p' \<and> room p' = room p \<and> (\<forall>s. legal p' s \<longleftrightarrow> legal p s)"
    and grows: "good p \<Longrightarrow> legal p r \<Longrightarrow> alloc p r = (p', b) \<Longrightarrow> used p \<le> used p'"
    and block: "good p \<Longrightarrow> legal p r \<Longrightarrow> alloc p r = (p', b) \<Longrightarrow> valid b \<Longrightarrow>
      used p \<le> start b \<and> start b \<le> stop b \<and> stop b \<le> used p' \<and> used p' \<le> room p"
    and serves: "good p \<Longrightarrow> legal p r \<Longrightarrow> alloc p r = (p', b) \<Longrightarrow> valid b \<Longrightarrow> serves r b"
begin

lemma run_good:
  "good p \<Longrightarrow> \<forall>r\<in>set rs. legal p r \<Longrightarrow> alloc_run alloc p rs = (p', bs) \<Longrightarrow>
     good p' \<and> used p \<le> used p' \<and> room p' = room p \<and>
     (\<forall>b\<in>set bs. valid b \<longrightarrow> used p \<le> start b \<and> stop b \<le> used p' \<and> stop b \<le> room p)"
proof (induction rs arbitrary: p p' bs)
  case Nil
  then show ?case by simp
next
  case (Cons r rs)
  obtain q b where q: "alloc p r = (q, b)" by fastforce
  obtain bs' where bs: "alloc_run alloc q rs = (p', bs')" "bs = b # bs'" using Cons.prems(3) q by (auto split: prod.splits)
  have r: "legal p r" using Cons.prems(2) by simp
  note step = keeps_good [OF Cons.prems(1) r q] grows [OF Cons.prems(1) r q]
  have "\<forall>s\<in>set rs. legal q s" using step(1) Cons.prems(2) by simp
  with Cons.IH [OF _ this bs(1)] step(1)
  have IH: "good p'" "used q \<le> used p'" "room p' = room q"
    "\<forall>b\<in>set bs'. valid b \<longrightarrow> used q \<le> start b \<and> stop b \<le> used p' \<and> stop b \<le> room q" by auto
  have "valid b \<longrightarrow> used p \<le> start b \<and> stop b \<le> used q \<and> stop b \<le> room p"
    using block [OF Cons.prems(1) r q] by auto
  then show ?case using IH step bs(2) by auto
qed

lemma run_serves:
  "good p \<Longrightarrow> \<forall>r\<in>set rs. legal p r \<Longrightarrow> alloc_run alloc p rs = (p', bs) \<Longrightarrow>
     length bs = length rs \<and> (\<forall>i<length rs. valid (bs ! i) \<longrightarrow> serves (rs ! i) (bs ! i))"
proof (induction rs arbitrary: p bs)
  case Nil
  then show ?case by simp
next
  case (Cons r rs)
  obtain q b where q: "alloc p r = (q, b)" by fastforce
  obtain bs' where bs: "alloc_run alloc q rs = (p', bs')" "bs = b # bs'" using Cons.prems(3) q by (auto split: prod.splits)
  have r: "legal p r" using Cons.prems(2) by simp
  have good: "good q" and legal: "\<forall>s\<in>set rs. legal q s"
    using keeps_good [OF Cons.prems(1) r q] Cons.prems(2) by auto
  show ?case
    using Cons.IH [OF good legal bs(1)] serves [OF Cons.prems(1) r q] by (simp add: bs(2) nth_Cons split: nat.split)
qed

lemma run_disjoint:
  "good p \<Longrightarrow> \<forall>r\<in>set rs. legal p r \<Longrightarrow> alloc_run alloc p rs = (p', bs) \<Longrightarrow> i < j \<Longrightarrow> j < length bs \<Longrightarrow>
   valid (bs ! i) \<Longrightarrow> valid (bs ! j) \<Longrightarrow> stop (bs ! i) \<le> start (bs ! j)"
proof (induction rs arbitrary: p bs i j)
  case Nil
  then show ?case by simp
next
  case (Cons r rs)
  obtain q b where q: "alloc p r = (q, b)" by fastforce
  obtain bs' where bs: "alloc_run alloc q rs = (p', bs')" "bs = b # bs'" using Cons.prems(3) q by (auto split: prod.splits)
  have r: "legal p r" using Cons.prems(2) by simp
  have good: "good q" and legal: "\<forall>s\<in>set rs. legal q s"
    using keeps_good [OF Cons.prems(1) r q] Cons.prems(2) by auto
  obtain j' where j: "j = Suc j'" "j' < length bs'" using Cons.prems(4,5) bs(2) by (cases j) auto
  show ?case
  proof (cases i)
    case 0
    have "bs' ! j' \<in> set bs'" using j(2) by simp
    then have "used q \<le> start (bs' ! j')"
      using run_good [OF good legal bs(1)] Cons.prems(7) by (simp add: j bs(2))
    moreover have "stop b \<le> used q" using block [OF Cons.prems(1) r q] Cons.prems(6) 0 by (simp add: bs(2))
    ultimately show ?thesis using 0 by (simp add: bs(2) j)
  next
    case (Suc i')
    then show ?thesis using Cons.IH [OF good legal bs(1), of i' j'] Cons.prems(4,6,7) j by (simp add: bs(2))
  qed
qed

end

text \<open>Appending to a pool is such an allocator; a request is a number of bytes and an alignment.\<close>

definition append_request :: "MemPool \<Rightarrow> u64 \<times> u64 \<Rightarrow> MemPool \<times> AllocResult" where
  "append_request pool = (\<lambda>(num_bytes, alignment). MemPool_append_aligned pool num_bytes alignment)"

definition legal_request :: "MemPool \<Rightarrow> u64 \<times> u64 \<Rightarrow> bool" where
  "legal_request pool = (\<lambda>(num_bytes, alignment). request_ok pool num_bytes alignment)"

definition pool_used :: "MemPool \<Rightarrow> nat" where
  "pool_used pool = unat (mp_begin_pos pool) + unat (mp_size pool)"

definition pool_end :: "MemPool \<Rightarrow> nat" where
  "pool_end pool = unat (mp_begin_pos pool) + unat (mp_capacity pool)"

definition block_begin :: "AllocResult \<Rightarrow> nat" where
  "block_begin result = unat (res_p result)"

definition block_end :: "AllocResult \<Rightarrow> nat" where
  "block_end result = unat (res_p result) + unat (res_length result)"

definition request_served :: "u64 \<times> u64 \<Rightarrow> AllocResult \<Rightarrow> bool" where
  "request_served = (\<lambda>(num_bytes, alignment) result. num_bytes \<le> res_length result \<and> AllocResult_is_aligned result alignment)"

interpretation pool: front_allocator append_request pool_ok legal_request pool_used pool_end AllocResult_valid block_begin block_end request_served
proof
  fix p r p' b assume p: "pool_ok p" "legal_request p r" "append_request p r = (p', b)"
  obtain n a where r: "r = (n, a)" by fastforce
  have "pool_ok p' \<and> (if AllocResult_valid b then fresh_block p n a p' b else p' = p \<and> b = AllocResult_preset)"
    using append_aligned [OF p(1)] p(2,3) by (simp add: r legal_request_def append_request_def)
  then have A: "pool_ok p'" "AllocResult_valid b \<Longrightarrow> fresh_block p n a p' b" "\<not> AllocResult_valid b \<Longrightarrow> p' = p"
    by (auto split: if_splits)
  have same: "p' = p\<lparr>mp_size := mp_size p'\<rparr>" using A(2,3) by (cases "AllocResult_valid b") (auto simp: fresh_block_def)
  have fields: "mp_begin_pos p' = mp_begin_pos p" "mp_capacity p' = mp_capacity p" "mp_chunk_size p' = mp_chunk_size p"
    by (subst same, simp)+
  show "pool_ok p' \<and> pool_end p' = pool_end p \<and> (\<forall>s. legal_request p' s \<longleftrightarrow> legal_request p s)"
    using A(1) by (simp add: pool_end_def legal_request_def request_ok_def fields)
  show "pool_used p \<le> pool_used p'"
    using A(2,3) by (cases "AllocResult_valid b") (auto simp: fresh_block_def pool_used_def fields u64_le_nat)
  show "pool_used p \<le> block_begin b \<and> block_begin b \<le> block_end b \<and> block_end b \<le> pool_used p' \<and> pool_used p' \<le> pool_end p"
    if "AllocResult_valid b"
    using A(2) [OF that] by (auto simp: fresh_block_def pool_used_def pool_end_def block_begin_def block_end_def fields u64_le_nat)
  show "request_served r b" if "AllocResult_valid b"
    using A(2) [OF that] that p(2)
    by (simp add: r fresh_block_def request_served_def AllocResult_is_aligned_def AllocResult_valid_def legal_request_def request_ok_def)
qed

text \<open>C21: Whatever blocks a pool hands out in a sequence of requests, each is at least as long as requested and
  aligned as requested, lies inside the range of the pool and behind what was in use before, and no two of
  them overlap.\<close>

theorem pool_blocks_disjoint:
  assumes "pool_ok pool" "\<forall>r\<in>set requests. legal_request pool r"
    and "alloc_run append_request pool requests = (pool', blocks)"
  shows "pool_ok pool' \<and> length blocks = length requests \<and>
    (\<forall>i<length blocks. AllocResult_valid (blocks ! i) \<longrightarrow>
      fst (requests ! i) \<le> res_length (blocks ! i) \<and> AllocResult_is_aligned (blocks ! i) (snd (requests ! i)) \<and>
      pool_used pool \<le> block_begin (blocks ! i) \<and> block_end (blocks ! i) \<le> pool_end pool \<and>
      (\<forall>j<length blocks. i < j \<and> AllocResult_valid (blocks ! j) \<longrightarrow> block_end (blocks ! i) \<le> block_begin (blocks ! j)))"
proof -
  note serves = pool.run_serves [OF assms] and good = pool.run_good [OF assms] and disjoint = pool.run_disjoint [OF assms]
  have "fst (requests ! i) \<le> res_length (blocks ! i) \<and> AllocResult_is_aligned (blocks ! i) (snd (requests ! i)) \<and>
      pool_used pool \<le> block_begin (blocks ! i) \<and> block_end (blocks ! i) \<le> pool_end pool"
    if "i < length blocks" "AllocResult_valid (blocks ! i)" for i
    using serves good that nth_mem [OF that(1)] by (cases "requests ! i") (auto simp: request_served_def)
  then show ?thesis using serves good disjoint by blast
qed

definition sample_pool :: MemPool where
  "sample_pool = \<lparr>mp_buffer = 4100, mp_begin_pos = 4104, mp_begin_offset = 4, mp_capacity = 64, mp_size = 0, mp_chunk_size = 8\<rparr>"

theorem pool_blocks_disjoint_witness:
  "let blocks = snd (alloc_run append_request sample_pool [(20, 16), (8, 8)]) in
   AllocResult_valid (blocks ! 0) \<and> AllocResult_valid (blocks ! 1) \<and> block_end (blocks ! 0) \<le> block_begin (blocks ! 1)"
proof -
  obtain pool' blocks where run: "alloc_run append_request sample_pool [(20, 16), (8, 8)] = (pool', blocks)" by fastforce
  have ok: "pool_ok sample_pool" "\<forall>r\<in>set [(20, 16), (8, 8)]. legal_request sample_pool r"
    by (simp_all add: pool_ok_def sample_pool_def legal_request_def request_ok_def)
  have "map AllocResult_valid (snd (alloc_run append_request sample_pool [(20, 16), (8, 8)])) = [True, True]" by code_simp
  then have "length blocks = 2" "AllocResult_valid (blocks ! 0)" "AllocResult_valid (blocks ! 1)"
    unfolding run by (auto simp: map_eq_Cons_conv)
  then show ?thesis using pool_blocks_disjoint [OF ok run] unfolding run by simp
qed

subsection \<open>Growing a pool\<close>

lemma init_request_bounds:
  assumes "0 < chunk" "unat align + (if capacity > chunk then unat capacity else unat chunk) + unat chunk < 2 ^ 64"
  shows "unat align + unat capacity \<le> unat (init_request capacity chunk align)"
proof -
  define c where "c = (if capacity > chunk then capacity else chunk)"
  have c: "unat c = (if capacity > chunk then unat capacity else unat chunk)" "unat capacity \<le> unat c"
    by (auto simp: c_def u64_less_nat)
  have sum: "unat (align + c) = unat align + unat c" using assms(2) c(1) by (intro unat_u64_add) simp
  have "init_request capacity chunk align = round_up_to (align + c) chunk"
    by (simp add: init_request_def round_up_to_def c_def Let_def)
  moreover have "unat (align + c) \<le> unat (round_up_to (align + c) chunk)"
    using sum assms c(1) by (intro round_up_to_bounds) simp_all
  ultimately show ?thesis using sum c(2) by simp
qed

lemma init_aligned_ok:
  assumes "new_buffer \<noteq> 0" "0 < chunk" "0 < align"
    and "unat align + (if capacity > chunk then unat capacity else unat chunk) + unat chunk < 2 ^ 64"
    and "unat new_buffer + unat (init_request capacity chunk align) < 2 ^ 64"
  shows "pool_ok (MemPool_init_aligned new_buffer capacity chunk align) \<and>
    capacity \<le> mp_capacity (MemPool_init_aligned new_buffer capacity chunk align) \<and>
    mp_size (MemPool_init_aligned new_buffer capacity chunk align) = 0 \<and>
    mp_buffer (MemPool_init_aligned new_buffer capacity chunk align) = new_buffer \<and>
    mp_chunk_size (MemPool_init_aligned new_buffer capacity chunk align) = chunk \<and>
    mp_begin_pos (MemPool_init_aligned new_buffer capacity chunk align) mod align = 0 \<and>
    unat (mp_begin_pos (MemPool_init_aligned new_buffer capacity chunk align)) +
      unat (mp_capacity (MemPool_init_aligned new_buffer capacity chunk align)) =
      unat new_buffer + unat (init_request capacity chunk align)"
proof -
  define off where "off = (if new_buffer mod align \<noteq> 0 then align - new_buffer mod align else 0)"
  define req where "req = init_request capacity chunk align"
  define d where "d = (if unat new_buffer mod unat align \<noteq> 0 then unat align - unat new_buffer mod unat align else 0)"
  have align: "0 < unat align" using assms(3) by (simp add: u64_less_nat)
  have req: "unat align + unat capacity \<le> unat req" unfolding req_def by (rule init_request_bounds [OF assms(2,4)])
  have d: "(unat new_buffer + d) mod unat align = 0" "d < unat align"
    unfolding d_def by (rule padding [OF align])+
  have off: "unat off = d"
  proof -
    have "new_buffer mod align \<le> align" using align by (simp add: u64_le_nat unat_u64_mod less_imp_le)
    then have "unat (align - new_buffer mod align) = unat align - unat new_buffer mod unat align"
      by (subst unat_u64_sub) (simp_all add: unat_u64_mod)
    moreover have "new_buffer mod align = 0 \<longleftrightarrow> unat new_buffer mod unat align = 0"
      by (simp add: u64_eq_nat unat_u64_mod)
    ultimately show ?thesis by (simp add: off_def d_def)
  qed
  have pos: "unat (new_buffer + off) = unat new_buffer + d"
    using assms(5) req d(2) off unfolding req_def [symmetric] by (subst unat_u64_add) linarith+
  have le: "off \<le> req" using req d(2) off by (simp add: u64_le_nat)
  have cap: "unat (req - off) = unat req - d" using le off by (subst unat_u64_sub) simp_all
  have pool: "MemPool_init_aligned new_buffer capacity chunk align = \<lparr>mp_buffer = new_buffer, mp_begin_pos = new_buffer + off,
      mp_begin_offset = off, mp_capacity = req - off, mp_size = 0, mp_chunk_size = chunk\<rparr>"
    unfolding MemPool_init_aligned_def Let_def req_def [symmetric] off_def [symmetric]
    using assms(1-3) by (simp add: MemPool_preset_def MemPool_set_buffer_def MemPool_set_begin_pos_def MemPool_set_capacity_def
        MemPool_set_begin_offset_def MemPool_set_size_def MemPool_set_chunk_size_def word_gt_0)
  have "new_buffer + off \<noteq> 0" using pos assms(1) by (auto simp: u64_eq_nat)
  moreover have "(new_buffer + off) mod align = 0" using pos d(1) by (simp add: u64_eq_nat unat_u64_mod)
  moreover have "unat new_buffer + d + (unat req - d) = unat new_buffer + unat req" "unat capacity \<le> unat req - d"
    using req d(2) by linarith+
  ultimately show ?thesis
    unfolding pool using assms(2,5) pos cap by (simp add: pool_ok_def u64_le_nat req_def)
qed

text \<open>Growing a pool either fails and leaves it and the memory as they were, or moves it to a range that is
  aligned and large enough: what was in use keeps its offset and its bytes, and nothing outside the used part
  of the new range is written.\<close>

theorem pool_reserve_keeps_contents:
  assumes "pool_ok pool" "mp_capacity pool < new_capacity" "0 < align"
    and "unat align + (if new_capacity > mp_chunk_size pool then unat new_capacity else unat (mp_chunk_size pool)) +
      unat (mp_chunk_size pool) < 2 ^ 64"
    and "unat new_buffer + unat (init_request new_capacity (mp_chunk_size pool) align) < 2 ^ 64"
    and "MemPool_reserve_aligned m new_buffer pool new_capacity align = (m', pool', changed)"
  shows "if new_buffer = 0 then m' = m \<and> pool' = pool \<and> \<not> changed
    else changed \<and> pool_ok pool' \<and> new_capacity \<le> mp_capacity pool' \<and> mp_size pool' = mp_size pool \<and>
      mp_chunk_size pool' = mp_chunk_size pool \<and> MemPool_is_begin_aligned_with pool' align \<and>
      (\<forall>i < unat (mp_size pool). m' (unat (mp_begin_pos pool') + i) = m (unat (mp_begin_pos pool) + i)) \<and>
      (\<forall>x. x < unat (mp_begin_pos pool') \<or> unat (mp_begin_pos pool') + unat (mp_size pool) \<le> x \<longrightarrow> m' x = m x)"
proof (cases "new_buffer = 0")
  case True
  have "MemPool_init_aligned 0 new_capacity (mp_chunk_size pool) align = MemPool_preset"
    by (simp add: MemPool_init_aligned_def Let_def)
  then show ?thesis
    using assms(2,6) True by (auto simp: MemPool_reserve_aligned_def MemPool_get_capacity_def MemPool_get_chunk_size_def
        MemPool_get_const_buffer_def MemPool_preset_def Let_def split: if_splits)
next
  case False
  have P: "mp_begin_pos pool \<noteq> 0" "0 < mp_chunk_size pool" "mp_size pool \<le> mp_capacity pool"
    using assms(1) unfolding pool_ok_def by blast+
  define q where "q = MemPool_init_aligned new_buffer new_capacity (mp_chunk_size pool) align"
  have q: "pool_ok q" "new_capacity \<le> mp_capacity q" "mp_size q = 0" "mp_buffer q = new_buffer"
    "mp_chunk_size q = mp_chunk_size pool" "mp_begin_pos q mod align = 0"
    using init_aligned_ok [OF False P(2) assms(3,4,5)] unfolding q_def by blast+
  have "mp_size pool \<le> mp_capacity q" using P(3) assms(2) q(2) by (simp add: u64_le_nat u64_less_nat)
  then have grown: "pool_ok (q\<lparr>mp_size := mp_size pool\<rparr>)" by (rule pool_ok_size [OF q(1)])
  have "q\<lparr>mp_size := mp_size pool\<rparr> = q" if "mp_size pool = 0" using that q(3) by simp
  then have res: "MemPool_reserve_aligned m new_buffer pool new_capacity align =
      (if mp_size pool > 0 then mem_move m (mp_begin_pos q) (mp_begin_pos pool) (mp_size pool) else m, q\<lparr>mp_size := mp_size pool\<rparr>, True)"
    unfolding MemPool_reserve_aligned_def MemPool_get_capacity_def MemPool_get_chunk_size_def Let_def q_def [symmetric]
    using False P(1,2) assms(2) q(4)
    by (cases "mp_size pool = 0") (auto simp: MemPool_get_const_buffer_def MemPool_get_const_begin_pos_def MemPool_get_size_def
        MemPool_get_begin_pos_def MemPool_set_size_def word_gt_0)
  have "m' (unat (mp_begin_pos q) + i) = m (unat (mp_begin_pos pool) + i)" if "i < unat (mp_size pool)" for i
    using that assms(6) unfolding res by (auto simp: mem_move_def word_gt_0 split: if_splits)
  moreover have "m' x = m x" if "x < unat (mp_begin_pos q) \<or> unat (mp_begin_pos q) + unat (mp_size pool) \<le> x" for x
    using that assms(6) unfolding res by (auto simp: mem_move_def split: if_splits)
  moreover have "mp_begin_pos q \<noteq> 0" using q(1) unfolding pool_ok_def by blast
  moreover from this have "MemPool_is_begin_aligned_with (q\<lparr>mp_size := mp_size pool\<rparr>) align"
    using q(6) assms(3) unfolding MemPool_is_begin_aligned_with_def MemPool_get_const_begin_pos_def by simp
  ultimately show ?thesis
    using assms(6) False grown q(2,5) unfolding res by auto
qed

theorem pool_reserve_keeps_contents_witness:
  "fst (MemPool_reserve_aligned (\<lambda>i. of_nat i) 8196 (sample_pool\<lparr>mp_size := 24\<rparr>) 128 16) (8208 + 5) = of_nat (4104 + 5)"
proof -
  obtain m' pool' changed where res:
    "MemPool_reserve_aligned (\<lambda>i. of_nat i) 8196 (sample_pool\<lparr>mp_size := 24\<rparr>) 128 16 = (m', pool', changed)"
    using prod_cases3 by blast
  have ok: "pool_ok (sample_pool\<lparr>mp_size := 24\<rparr>)" "mp_capacity (sample_pool\<lparr>mp_size := 24\<rparr>) < 128" "0 < (16 :: u64)"
    by (simp_all add: pool_ok_def sample_pool_def)
  have "mp_begin_pos (fst (snd (MemPool_reserve_aligned (\<lambda>i. of_nat i) 8196 (sample_pool\<lparr>mp_size := 24\<rparr>) 128 16))) = 8208"
    by (simp add: MemPool_reserve_aligned_def MemPool_init_aligned_def MemPool_get_capacity_def MemPool_get_chunk_size_def
        MemPool_get_const_buffer_def MemPool_get_const_begin_pos_def MemPool_get_size_def Let_def sample_pool_def
        MemPool_preset_def MemPool_set_buffer_def MemPool_set_begin_pos_def MemPool_set_capacity_def
        MemPool_set_begin_offset_def MemPool_set_size_def MemPool_set_chunk_size_def)
  then have "mp_begin_pos pool' = 8208" by (simp add: res)
  moreover have "mp_begin_pos (sample_pool\<lparr>mp_size := 24\<rparr>) = 4104" "mp_size (sample_pool\<lparr>mp_size := 24\<rparr>) = 24"
    "mp_chunk_size (sample_pool\<lparr>mp_size := 24\<rparr>) = 8" by (simp_all add: sample_pool_def)
  moreover have "unat (init_request 128 8 16) = 144" by (simp add: init_request_def Let_def)
  ultimately show ?thesis
    using pool_reserve_keeps_contents [OF ok _ _ res] unfolding res by (auto dest!: spec [of _ "5 :: nat"])
qed

text \<open>
  \<open>NS(MemPool_clear_to_aligned_position)\<close> moves the begin of the pool only if the alignment is larger than
  the whole pool; in every other case it empties the pool and reports a failure.
\<close>

lemma clear_to_aligned_position_fails:
  assumes "least_common_multiple alignment (mp_chunk_size pool) \<le> MemPool_get_buffer_capacity pool"
  shows "MemPool_clear_to_aligned_position pool alignment = (MemPool_clear pool, False)"
  using leD [OF assms] by (simp add: MemPool_clear_to_aligned_position_def MemPool_get_chunk_size_def Let_def)

end
