(* ===== verification/Particle_Ids.thy ===== *)
theory Particle_Ids
  imports Particle_Ops "HOL-Library.Multiset"
begin

section \<open>The range of the particle ids (particles/particles.c)\<close>

text \<open>
  \<open>NS(Particles_get_min_max_particle_id)\<close> sorts the absolute values of the particle ids with a merge sort on an
  array and two temporary arrays. Merging stops with an error when it meets two equal ids, so that the function
  succeeds exactly if the ids are distinct. Arrays are lists, indices into them natural numbers; \<open>malloc\<close> is
  taken to succeed.
\<close>

subsection \<open>Merging\<close>

text \<open>The loops that copy a range of one array to another one.\<close>

function copy_ids :: "i64 list \<Rightarrow> i64 list \<Rightarrow> nat \<Rightarrow> nat \<Rightarrow> nat \<Rightarrow> i64 list" where
  "copy_ids dest source ii jj jj_end =
     (if jj < jj_end then copy_ids (dest[ii := source ! jj]) source (ii + 1) (jj + 1) jj_end else dest)"
  by pat_completeness auto
termination by (relation "measure (\<lambda>(dest, source, ii, jj, jj_end). jj_end - jj)") auto

declare copy_ids.simps [simp del]

function merge_loop :: "i64 list \<Rightarrow> i64 list \<Rightarrow> i64 list \<Rightarrow> nat \<Rightarrow> nat \<Rightarrow> nat \<Rightarrow> nat \<Rightarrow> nat \<Rightarrow> i64 list \<times> nat \<times> nat \<times> nat \<times> int" where
  "merge_loop particle_id_array lhs_temp_array rhs_temp_array ii jj kk lhs_num rhs_num =
     (if ii < lhs_num \<and> jj < rhs_num then
        if lhs_temp_array ! ii < rhs_temp_array ! jj then
          merge_loop (particle_id_array[kk := lhs_temp_array ! ii]) lhs_temp_array rhs_temp_array (ii + 1) jj (kk + 1)
            lhs_num rhs_num
        else if lhs_temp_array ! ii > rhs_temp_array ! jj then
          merge_loop (particle_id_array[kk := rhs_temp_array ! jj]) lhs_temp_array rhs_temp_array ii (jj + 1) (kk + 1)
            lhs_num rhs_num
        else (particle_id_array, ii, jj, kk, - 1)
      else (particle_id_array, ii, jj, kk, 0))"
  by pat_completeness auto
termination
  by (relation "measure (\<lambda>(a, lhs, rhs, ii, jj, kk, lhs_num, rhs_num). (lhs_num - ii) + (rhs_num - jj))") auto

declare merge_loop.simps [simp del]

definition Particles_particle_id_merge_and_check_for_duplicate ::
    "i64 list \<Rightarrow> i64 list \<Rightarrow> i64 list \<Rightarrow> nat \<Rightarrow> nat \<Rightarrow> nat \<Rightarrow> i64 list \<times> i64 list \<times> i64 list \<times> int" where
  "Particles_particle_id_merge_and_check_for_duplicate particle_id_array lhs_temp_array rhs_temp_array
       lhs_begin_index lhs_end_index rhs_end_index =
     (let lhs_num = lhs_end_index - lhs_begin_index;
          rhs_num = rhs_end_index - lhs_end_index;
          lhs_temp_array = copy_ids lhs_temp_array particle_id_array 0 lhs_begin_index lhs_end_index;
          rhs_temp_array = copy_ids rhs_temp_array particle_id_array 0 lhs_end_index rhs_end_index;
          (particle_id_array, ii, jj, kk, success) =
            merge_loop particle_id_array lhs_temp_array rhs_temp_array 0 0 lhs_begin_index lhs_num rhs_num;
          (particle_id_array, kk) = (if success = 0 \<and> ii < lhs_num
            then (copy_ids particle_id_array lhs_temp_array kk ii lhs_num, kk + (lhs_num - ii)) else (particle_id_array, kk));
          particle_id_array = (if success = 0 \<and> jj < rhs_num
            then copy_ids particle_id_array rhs_temp_array kk jj rhs_num else particle_id_array)
      in (particle_id_array, lhs_temp_array, rhs_temp_array, success))"

function Particles_particle_id_recursive_merge_sort ::
    "i64 list \<Rightarrow> i64 list \<Rightarrow> i64 list \<Rightarrow> nat \<Rightarrow> nat \<Rightarrow> i64 list \<times> i64 list \<times> i64 list \<times> int" where
  "Particles_particle_id_recursive_merge_sort particle_id_array lhs_temp_array rhs_temp_array left_index right_index =
     (if left_index < right_index then
        let mid_index = left_index + (right_index - left_index) div 2;
            mid_p1_index = mid_index + 1;
            (particle_id_array, lhs_temp_array, rhs_temp_array, status) = Particles_particle_id_recursive_merge_sort
              particle_id_array lhs_temp_array rhs_temp_array left_index mid_index
        in if status = 0 then
             let (particle_id_array, lhs_temp_array, rhs_temp_array, status) = Particles_particle_id_recursive_merge_sort
                   particle_id_array lhs_temp_array rhs_temp_array mid_p1_index right_index
             in if status = 0 then Particles_particle_id_merge_and_check_for_duplicate
                    particle_id_array lhs_temp_array rhs_temp_array left_index mid_p1_index (right_index + 1)
                else (particle_id_array, lhs_temp_array, rhs_temp_array, - 1)
           else (particle_id_array, lhs_temp_array, rhs_temp_array, - 1)
      else if left_index = right_index then (particle_id_array, lhs_temp_array, rhs_temp_array, 0)
      else (particle_id_array, lhs_temp_array, rhs_temp_array, - 1))"
  by pat_completeness auto
termination by (relation "measure (\<lambda>(a, lhs, rhs, l, r). r - l)") auto

declare Particles_particle_id_recursive_merge_sort.simps [simp del]

text \<open>The check that the sorted ids ascend is compiled unless \<open>NDEBUG\<close> is defined.\<close>

definition Particles_get_min_max_particle_id ::
    "bool \<Rightarrow> particles \<Rightarrow> i64 option \<Rightarrow> i64 option \<Rightarrow> int \<times> i64 option \<times> i64 option" where
  "Particles_get_min_max_particle_id debug particles ptr_min_id ptr_max_id =
     (let num_particles = nat (Particles_get_num_of_particles particles)
      in if num_particles > 0 then
           let particle_id_array = map (\<lambda>ii. let temp_particle_id = Particles_get_particle_id_value particles (int ii)
                 in if temp_particle_id \<ge> 0 then temp_particle_id else - temp_particle_id) [0..<num_particles];
               lhs_temp_array = replicate num_particles 0;
               rhs_temp_array = replicate num_particles 0;
               (particle_id_array, lhs_temp_array, rhs_temp_array, success) = Particles_particle_id_recursive_merge_sort
                 particle_id_array lhs_temp_array rhs_temp_array 0 (num_particles - 1);
               success = (if debug \<and> success = 0 \<and>
                   \<not> list_all (\<lambda>jj. particle_id_array ! (jj - 1) < particle_id_array ! jj) [1..<num_particles]
                 then - 1 else success)
           in if success = 0 then (success, write_opt ptr_min_id (particle_id_array ! 0),
                write_opt ptr_max_id (particle_id_array ! (num_particles - 1)))
              else (success, ptr_min_id, ptr_max_id)
         else (- 1, ptr_min_id, ptr_max_id))"

subsection \<open>What merging does\<close>

text \<open>The elements of a list from one index to before another one, and merging as a function on lists.\<close>

definition segment :: "nat \<Rightarrow> nat \<Rightarrow> 'a list \<Rightarrow> 'a list" where
  "segment l r xs = take (r - l) (drop l xs)"

fun merge_ids :: "i64 list \<Rightarrow> i64 list \<Rightarrow> i64 list option" where
  "merge_ids [] ys = Some ys"
| "merge_ids xs [] = Some xs"
| "merge_ids (x # xs) (y # ys) =
     (if x < y then map_option ((#) x) (merge_ids xs (y # ys))
      else if y < x then map_option ((#) y) (merge_ids (x # xs) ys) else None)"

lemma merge_ids_Nil2 [simp]: "merge_ids xs [] = Some xs" by (cases xs) simp_all

lemma segment_step: "jj < jj_end \<Longrightarrow> jj_end \<le> length xs \<Longrightarrow> segment jj jj_end xs = xs ! jj # segment (jj + 1) jj_end xs"
  by (simp add: segment_def Cons_nth_drop_Suc [symmetric] Suc_diff_Suc [symmetric] take_Suc_Cons)

lemma segment_empty [simp]: "\<not> jj < jj_end \<Longrightarrow> segment jj jj_end xs = []" by (simp add: segment_def)

lemma length_segment [simp]: "r \<le> length xs \<Longrightarrow> length (segment l r xs) = r - l" by (simp add: segment_def)

lemma replaced_step:
  "kk < length a \<Longrightarrow> take (kk + 1) (a[kk := x]) @ zs @ drop (kk + 1 + length zs) (a[kk := x]) =
   take kk a @ (x # zs) @ drop (kk + length (x # zs)) a"
  by (simp add: take_Suc_conv_app_nth drop_update_cancel)

lemma copy_ids:
  assumes "jj_end \<le> length source" "ii + (jj_end - jj) \<le> length dest"
  shows "copy_ids dest source ii jj jj_end =
    take ii dest @ segment jj jj_end source @ drop (ii + length (segment jj jj_end source)) dest"
  using assms
proof (induction dest source ii jj jj_end rule: copy_ids.induct)
  case (1 dest source ii jj jj_end)
  show ?case
  proof (cases "jj < jj_end")
    case True
    define zs where "zs = segment (jj + 1) jj_end source"
    have "copy_ids dest source ii jj jj_end = copy_ids (dest[ii := source ! jj]) source (ii + 1) (jj + 1) jj_end"
      using True by (subst copy_ids.simps) simp
    also have "\<dots> = take (ii + 1) (dest[ii := source ! jj]) @ zs @ drop (ii + 1 + length zs) (dest[ii := source ! jj])"
      unfolding zs_def using True 1(2,3) by (intro 1(1)) simp_all
    also have "\<dots> = take ii dest @ (source ! jj # zs) @ drop (ii + length (source ! jj # zs)) dest"
      using True 1(3) by (intro replaced_step) simp
    also have "source ! jj # zs = segment jj jj_end source" unfolding zs_def using True 1(2) by (simp add: segment_step)
    finally show ?thesis .
  qed (simp add: copy_ids.simps)
qed

text \<open>The loop with the two copies that follow it.\<close>

definition merged :: "i64 list \<Rightarrow> i64 list \<Rightarrow> i64 list \<Rightarrow> nat \<Rightarrow> nat \<Rightarrow> nat \<Rightarrow> nat \<Rightarrow> nat \<Rightarrow> i64 list \<times> int" where
  "merged a lhs rhs ii jj kk lhs_num rhs_num =
     (let (a, ii, jj, kk, success) = merge_loop a lhs rhs ii jj kk lhs_num rhs_num;
          (a, kk) = (if success = 0 \<and> ii < lhs_num then (copy_ids a lhs kk ii lhs_num, kk + (lhs_num - ii)) else (a, kk));
          a = (if success = 0 \<and> jj < rhs_num then copy_ids a rhs kk jj rhs_num else a)
      in (a, success))"

lemma merged:
  assumes "lhs_num \<le> length lhs" "rhs_num \<le> length rhs" "ii \<le> lhs_num" "jj \<le> rhs_num"
    "kk + (lhs_num - ii) + (rhs_num - jj) \<le> length a"
  shows "case merge_ids (segment ii lhs_num lhs) (segment jj rhs_num rhs) of
      None \<Rightarrow> snd (merged a lhs rhs ii jj kk lhs_num rhs_num) = - 1 \<and>
        length (fst (merged a lhs rhs ii jj kk lhs_num rhs_num)) = length a
    | Some zs \<Rightarrow> merged a lhs rhs ii jj kk lhs_num rhs_num = (take kk a @ zs @ drop (kk + length zs) a, 0)"
  using assms
proof (induction a lhs rhs ii jj kk lhs_num rhs_num rule: merge_loop.induct)
  case (1 a lhs rhs ii jj kk lhs_num rhs_num)
  consider "ii < lhs_num" "jj < rhs_num" "lhs ! ii < rhs ! jj" | "ii < lhs_num" "jj < rhs_num" "lhs ! ii > rhs ! jj"
    | "ii < lhs_num" "jj < rhs_num" "lhs ! ii = rhs ! jj" | "ii < lhs_num" "\<not> jj < rhs_num" | "\<not> ii < lhs_num"
    by (meson linorder_cases)
  then show ?case
  proof cases
    case 1
    have step: "merged a lhs rhs ii jj kk lhs_num rhs_num = merged (a[kk := lhs ! ii]) lhs rhs (ii + 1) jj (kk + 1) lhs_num rhs_num"
      using 1 unfolding merged_def by (subst merge_loop.simps) simp
    have ids: "merge_ids (segment ii lhs_num lhs) (segment jj rhs_num rhs) =
        map_option ((#) (lhs ! ii)) (merge_ids (segment (ii + 1) lhs_num lhs) (segment jj rhs_num rhs))"
      using 1 "1.prems" by (simp add: segment_step del: One_nat_def)
    have kk: "kk < length a" using 1 "1.prems" by simp
    have IH: "case merge_ids (segment (ii + 1) lhs_num lhs) (segment (jj) rhs_num rhs) of
        None \<Rightarrow> snd (merged (a[kk := lhs ! ii]) lhs rhs (ii + 1) (jj) (kk + 1) lhs_num rhs_num) = - 1 \<and>
          length (fst (merged (a[kk := lhs ! ii]) lhs rhs (ii + 1) (jj) (kk + 1) lhs_num rhs_num)) = length (a[kk := lhs ! ii])
      | Some zs \<Rightarrow> merged (a[kk := lhs ! ii]) lhs rhs (ii + 1) (jj) (kk + 1) lhs_num rhs_num =
          (take (kk + 1) (a[kk := lhs ! ii]) @ zs @ drop (kk + 1 + length zs) (a[kk := lhs ! ii]), 0)"
      using 1 "1.prems" by (intro "1.IH"(1)) auto
    show ?thesis using IH unfolding step ids replaced_step [OF kk] by (simp split: option.splits)
  next
    case 2
    have step: "merged a lhs rhs ii jj kk lhs_num rhs_num = merged (a[kk := rhs ! jj]) lhs rhs ii (jj + 1) (kk + 1) lhs_num rhs_num"
      using 2 unfolding merged_def by (subst merge_loop.simps) simp
    have ids: "merge_ids (segment ii lhs_num lhs) (segment jj rhs_num rhs) =
        map_option ((#) (rhs ! jj)) (merge_ids (segment ii lhs_num lhs) (segment (jj + 1) rhs_num rhs))"
      using 2 "1.prems" by (simp add: segment_step del: One_nat_def)
    have kk: "kk < length a" using 2 "1.prems" by simp
    have IH: "case merge_ids (segment (ii) lhs_num lhs) (segment (jj + 1) rhs_num rhs) of
        None \<Rightarrow> snd (merged (a[kk := rhs ! jj]) lhs rhs (ii) (jj + 1) (kk + 1) lhs_num rhs_num) = - 1 \<and>
          length (fst (merged (a[kk := rhs ! jj]) lhs rhs (ii) (jj + 1) (kk + 1) lhs_num rhs_num)) = length (a[kk := rhs ! jj])
      | Some zs \<Rightarrow> merged (a[kk := rhs ! jj]) lhs rhs (ii) (jj + 1) (kk + 1) lhs_num rhs_num =
          (take (kk + 1) (a[kk := rhs ! jj]) @ zs @ drop (kk + 1 + length zs) (a[kk := rhs ! jj]), 0)"
      using 2 "1.prems" by (intro "1.IH"(2)) auto
    show ?thesis using IH unfolding step ids replaced_step [OF kk] by (simp split: option.splits)
  next
    case 3
    then show ?thesis using "1.prems" by (simp add: merged_def merge_loop.simps segment_step)
  next
    case 4
    then show ?thesis using "1.prems" by (simp add: merged_def merge_loop.simps copy_ids)
  next
    case 5
    then show ?thesis using "1.prems" by (cases "jj < rhs_num") (simp_all add: merged_def merge_loop.simps copy_ids)
  qed
qed

lemma merge_ids_Some: "merge_ids xs ys = Some zs \<Longrightarrow> mset zs = mset xs + mset ys"
  by (induction xs ys arbitrary: zs rule: merge_ids.induct) (auto split: if_splits)

lemma merge_ids_sorted:
  "merge_ids xs ys = Some zs \<Longrightarrow> sorted_wrt (<) xs \<Longrightarrow> sorted_wrt (<) ys \<Longrightarrow> sorted_wrt (<) zs"
proof (induction xs ys arbitrary: zs rule: merge_ids.induct)
  case (3 x xs y ys)
  consider zs' where "x < y" "merge_ids xs (y # ys) = Some zs'" "zs = x # zs'"
    | zs' where "y < x" "merge_ids (x # xs) ys = Some zs'" "zs = y # zs'"
    using 3(3) by (auto split: if_splits)
  then show ?case
  proof cases
    case 1
    have "set zs' = set xs \<union> set (y # ys)" using merge_ids_Some [OF 1(2)] by (metis set_mset_mset set_mset_union)
    then show ?thesis using 1 3 by auto
  next
    case 2
    have "set zs' = set (x # xs) \<union> set ys" using merge_ids_Some [OF 2(2)] by (metis set_mset_mset set_mset_union)
    then show ?thesis using 2 3 by auto
  qed
qed auto

lemma merge_ids_None: "merge_ids xs ys = None \<Longrightarrow> set xs \<inter> set ys \<noteq> {}"
  by (induction xs ys rule: merge_ids.induct) (auto split: if_splits)

lemma merge_ids_distinct:
  assumes "sorted_wrt (<) xs" "sorted_wrt (<) ys"
  shows "merge_ids xs ys = None \<longleftrightarrow> \<not> distinct (xs @ ys)"
proof
  show "merge_ids xs ys = None \<Longrightarrow> \<not> distinct (xs @ ys)" using merge_ids_None by auto
  show "merge_ids xs ys = None" if "\<not> distinct (xs @ ys)"
  proof (cases "merge_ids xs ys")
    case (Some zs)
    have "distinct zs" using merge_ids_sorted [OF Some assms] by (simp add: strict_sorted_iff)
    then have "distinct (xs @ ys)" using merge_ids_Some [OF Some] by (metis mset_append mset_eq_imp_distinct_iff)
    then show ?thesis using that by simp
  qed
qed

lemma merge_and_check:
  assumes "length lhs = length a" "length rhs = length a" "l \<le> m" "m \<le> r" "r \<le> length a"
  obtains a' lhs' rhs' s where
    "Particles_particle_id_merge_and_check_for_duplicate a lhs rhs l m r = (a', lhs', rhs', s)"
    "length a' = length a" "length lhs' = length a" "length rhs' = length a"
    "case merge_ids (segment l m a) (segment m r a) of None \<Rightarrow> s = - 1
     | Some zs \<Rightarrow> s = 0 \<and> a' = take l a @ zs @ drop r a"
proof -
  define lhs' where "lhs' = copy_ids lhs a 0 l m"
  define rhs' where "rhs' = copy_ids rhs a 0 m r"
  have L: "lhs' = segment l m a @ drop (m - l) lhs" unfolding lhs'_def using assms by (subst copy_ids) simp_all
  have R: "rhs' = segment m r a @ drop (r - m) rhs" unfolding rhs'_def using assms by (subst copy_ids) simp_all
  have temps: "segment 0 (m - l) lhs' = segment l m a" "segment 0 (r - m) rhs' = segment m r a"
    using assms by (simp_all add: L R segment_def)
  have len: "length lhs' = length a" "length rhs' = length a" using assms by (simp_all add: L R)
  have fold_merged: "Particles_particle_id_merge_and_check_for_duplicate a lhs rhs l m r =
      (fst (merged a lhs' rhs' 0 0 l (m - l) (r - m)), lhs', rhs', snd (merged a lhs' rhs' 0 0 l (m - l) (r - m)))"
    unfolding Particles_particle_id_merge_and_check_for_duplicate_def merged_def lhs'_def rhs'_def Let_def by (simp split: prod.splits)
  have M: "case merge_ids (segment l m a) (segment m r a) of
      None \<Rightarrow> snd (merged a lhs' rhs' 0 0 l (m - l) (r - m)) = - 1 \<and>
        length (fst (merged a lhs' rhs' 0 0 l (m - l) (r - m))) = length a
    | Some zs \<Rightarrow> merged a lhs' rhs' 0 0 l (m - l) (r - m) = (take l a @ zs @ drop (l + length zs) a, 0)"
    using merged [of "m - l" lhs' "r - m" rhs' 0 0 l a] assms len unfolding temps by simp
  show thesis
  proof (cases "merge_ids (segment l m a) (segment m r a)")
    case None
    with M show ?thesis by (intro that [OF fold_merged]) (simp_all add: len)
  next
    case (Some zs)
    have "length zs = (m - l) + (r - m)" using arg_cong [OF merge_ids_Some [OF Some], of size] assms by simp
    with M Some assms show ?thesis by (intro that [OF fold_merged]) (simp_all add: len)
  qed
qed

subsection \<open>What sorting does\<close>

lemma segment_append: "l \<le> m \<Longrightarrow> m \<le> r \<Longrightarrow> segment l r a = segment l m a @ segment m r a"
  proof -
  assume "l \<le> m" "m \<le> r"
  then show ?thesis using take_add [of "m - l" "r - m" "drop l a"] by (simp add: segment_def)
qed

lemma segment_replaced:
  assumes "l \<le> length a" "length zs = r - l" "r \<le> length a" "l \<le> r" "a' = take l a @ zs @ drop r a"
  shows "segment l r a' = zs" "m \<ge> r \<Longrightarrow> segment m k a' = segment m k a" "m \<le> l \<Longrightarrow> segment k m a' = segment k m a"
    "length a' = length a" "m \<le> l \<Longrightarrow> take m a' = take m a" "m \<ge> r \<Longrightarrow> drop m a' = drop m a"
  using assms by (auto simp: segment_def min_def drop_take)

text \<open>The elements between two indices have been sorted, unless two of them are equal.\<close>

definition sorted_part :: "nat \<Rightarrow> nat \<Rightarrow> i64 list \<Rightarrow> i64 list \<Rightarrow> int \<Rightarrow> bool" where
  "sorted_part l r a a' s \<longleftrightarrow> length a' = length a \<and> (if distinct (segment l r a) then s = 0 \<and>
     (\<exists>zs. a' = take l a @ zs @ drop r a \<and> mset zs = mset (segment l r a) \<and> sorted_wrt (<) zs) else s = - 1)"

lemma sorted_part_fails: "sorted_part l r a a' s \<Longrightarrow> s \<noteq> 0 \<Longrightarrow> \<not> distinct (segment l r a)"
  by (auto simp: sorted_part_def split: if_splits)

lemma sorted_partE:
  assumes "sorted_part l r a a' 0" "l \<le> r" "r \<le> length a"
  obtains zs where "a' = take l a @ zs @ drop r a" "mset zs = mset (segment l r a)" "sorted_wrt (<) zs" "length zs = r - l"
proof -
  obtain zs where zs: "a' = take l a @ zs @ drop r a" "mset zs = mset (segment l r a)" "sorted_wrt (<) zs"
    using assms(1) by (auto simp: sorted_part_def split: if_splits)
  moreover have "length zs = r - l" using arg_cong [OF zs(2), of size] assms(2,3) by simp
  ultimately show thesis by (rule that)
qed

lemma sorted_part_halves:
  assumes "sorted_part l m a a1 0" "sorted_part m r a1 a2 0" "l \<le> m" "m \<le> r" "r \<le> length a"
  shows "sorted_wrt (<) (segment l m a2)" "sorted_wrt (<) (segment m r a2)"
    "mset (segment l m a2 @ segment m r a2) = mset (segment l r a)" "take l a2 = take l a" "drop r a2 = drop r a"
proof -
  have len: "length a1 = length a" using assms(1) by (simp add: sorted_part_def)
  obtain zs where zs: "a1 = take l a @ zs @ drop m a" "mset zs = mset (segment l m a)" "sorted_wrt (<) zs" "length zs = m - l"
    using sorted_partE [OF assms(1)] assms by (metis le_trans)
  obtain ws where ws: "a2 = take m a1 @ ws @ drop r a1" "mset ws = mset (segment m r a1)" "sorted_wrt (<) ws" "length ws = r - m"
    using sorted_partE [OF assms(2)] assms len by metis
  have le: "l \<le> length a" "m \<le> length a" "m \<le> length a1" "r \<le> length a1" using assms len by simp_all
  note r1 = segment_replaced [OF le(1) zs(4) le(2) assms(3) zs(1)]
  note r2 = segment_replaced [OF le(3) ws(4) le(4) assms(4) ws(1)]
  have segs: "segment m r a2 = ws" "segment l m a2 = zs" using r2(1) r2(3) [of m l] r1(1) by simp_all
  then show "sorted_wrt (<) (segment l m a2)" "sorted_wrt (<) (segment m r a2)" using zs(3) ws(3) by simp_all
  show "mset (segment l m a2 @ segment m r a2) = mset (segment l r a)"
    unfolding segs segment_append [OF assms(3,4)] using zs(2) ws(2) r1(2) [of m r] by simp
  show "take l a2 = take l a" "drop r a2 = drop r a"
    using r2(5) [OF assms(3)] r2(6) [of r] r1(5) [of l] r1(6) [OF assms(4)] by simp_all
qed

lemma sorted_part_fails_second:
  assumes "sorted_part l m a a1 0" "sorted_part m r a1 a2 s" "s \<noteq> 0" "l \<le> m" "m \<le> r" "r \<le> length a"
  shows "\<not> distinct (segment l r a)"
proof -
  have le: "l \<le> length a" "m \<le> length a" using assms by simp_all
  obtain zs where zs: "a1 = take l a @ zs @ drop m a" "length zs = m - l"
    using sorted_partE [OF assms(1,4)] le(2) by metis
  have "segment m r a1 = segment m r a" by (rule segment_replaced(2) [OF le(1) zs(2) le(2) assms(4) zs(1)]) simp
  then show ?thesis using sorted_part_fails [OF assms(2,3)] segment_append [OF assms(4,5), of a] by simp
qed

lemma merge_sort:
  assumes "l \<le> r" "r < length a" "length lhs = length a" "length rhs = length a"
  shows "\<exists>a' lhs' rhs' s. Particles_particle_id_recursive_merge_sort a lhs rhs l r = (a', lhs', rhs', s) \<and>
    length lhs' = length a \<and> length rhs' = length a \<and> sorted_part l (r + 1) a a' s"
  using assms
proof (induction a lhs rhs l r rule: Particles_particle_id_recursive_merge_sort.induct)
  case (1 a lhs rhs l r)
  note sort = Particles_particle_id_recursive_merge_sort.simps [of a lhs rhs l r]
  show ?case
  proof (cases "l < r")
    case False
    then have "r = l" using 1(3) by simp
    then show ?thesis using 1(4-) by (simp add: Particles_particle_id_recursive_merge_sort.simps [of a lhs rhs l l]
        sorted_part_def segment_def Cons_nth_drop_Suc [symmetric]
        id_take_nth_drop [symmetric] exI [of _ "[a ! l]"])
  next
    case True
    define m where "m = l + (r - l) div 2"
    have m: "l \<le> m" "m < r" "l \<le> m + 1" "m + 1 \<le> r + 1" "r + 1 \<le> length a" using True 1(4) by (auto simp: m_def)
    obtain a1 lhs1 rhs1 s1 where sort1: "Particles_particle_id_recursive_merge_sort a lhs rhs l m = (a1, lhs1, rhs1, s1)"
      and part1: "length lhs1 = length a" "length rhs1 = length a" "sorted_part l (m + 1) a a1 s1"
      using 1(1) [OF True m_def] m 1(4-) by auto
    have len1: "length a1 = length a" using part1(3) by (simp add: sorted_part_def)
    show ?thesis
    proof (cases "s1 = 0")
      case False
      then have "\<not> distinct (segment l (r + 1) a)"
        using sorted_part_fails [OF part1(3)] segment_append [OF m(3,4), of a] by simp
      then show ?thesis using True False sort1 part1 len1 unfolding m_def by (simp add: sort Let_def sorted_part_def)
    next
      case s1: True
      obtain a2 lhs2 rhs2 s2 where sort2: "Particles_particle_id_recursive_merge_sort a1 lhs1 rhs1 (m + 1) r = (a2, lhs2, rhs2, s2)"
        and part2: "length lhs2 = length a" "length rhs2 = length a" "sorted_part (m + 1) (r + 1) a1 a2 s2"
        using 1(2) [OF True m_def refl sort1 [symmetric] refl refl refl s1] m 1(4) len1 part1 by auto
      have len2: "length a2 = length a" using part2(3) len1 by (simp add: sorted_part_def)
      show ?thesis
      proof (cases "s2 = 0")
        case False
        then have "\<not> distinct (segment l (r + 1) a)"
          using sorted_part_fails_second [OF part1(3) [unfolded s1] part2(3) _ m(3-5)] by simp
        then show ?thesis using True False s1 sort1 sort2 part2 len2 unfolding m_def by (simp add: sort Let_def sorted_part_def)
      next
        case s2: True
        note halves = sorted_part_halves [OF part1(3) [unfolded s1] part2(3) [unfolded s2] m(3-5)]
        have pre: "length lhs2 = length a2" "length rhs2 = length a2" "r + 1 \<le> length a2" using part2 len2 m(5) by simp_all
        obtain a3 lhs3 rhs3 s3 where merge: "Particles_particle_id_merge_and_check_for_duplicate a2 lhs2 rhs2 l (m + 1) (r + 1) =
            (a3, lhs3, rhs3, s3)" and len3: "length a3 = length a2" "length lhs3 = length a2" "length rhs3 = length a2"
          and res3: "case merge_ids (segment l (m + 1) a2) (segment (m + 1) (r + 1) a2) of None \<Rightarrow> s3 = - 1
            | Some xs \<Rightarrow> s3 = 0 \<and> a3 = take l a @ xs @ drop (r + 1) a"
          by (rule merge_and_check [OF pre(1,2) m(3,4) pre(3), unfolded halves(4,5)])
        have "Particles_particle_id_recursive_merge_sort a lhs rhs l r = (a3, lhs3, rhs3, s3)"
          using True s1 s2 sort1 sort2 merge unfolding m_def by (simp add: sort Let_def)
        moreover have "sorted_part l (r + 1) a a3 s3"
          using res3 len3 len2 merge_ids_distinct [OF halves(1,2)] mset_eq_imp_distinct_iff [OF halves(3)]
            merge_ids_Some merge_ids_sorted [OF _ halves(1,2)] halves(3)
          by (auto simp: sorted_part_def simp del: distinct_append split: option.splits)
        ultimately show ?thesis using len3 len2 by simp
      qed
    qed
  qed
qed

subsection \<open>The range of the ids\<close>

lemma strictly_sorted_ends:
  assumes "sorted_wrt (<) (zs :: i64 list)" "zs \<noteq> []"
  shows "zs ! 0 = Min (set zs)" "zs ! (length zs - 1) = Max (set zs)"
proof -
  have sorted: "sorted zs" using assms(1) by (simp add: strict_sorted_iff)
  have "zs ! 0 \<le> x" "x \<le> zs ! (length zs - 1)" if x: "x \<in> set zs" for x
  proof -
    obtain i where "i < length zs" "x = zs ! i" using x by (auto simp: in_set_conv_nth)
    then show "zs ! 0 \<le> x" "x \<le> zs ! (length zs - 1)" using sorted_nth_mono [OF sorted] by simp_all
  qed
  moreover have "zs ! 0 \<in> set zs" "zs ! (length zs - 1) \<in> set zs" using assms(2) by simp_all
  ultimately show "zs ! 0 = Min (set zs)" "zs ! (length zs - 1) = Max (set zs)"
    by (intro Min_eqI [symmetric] Max_eqI [symmetric]; simp)+
qed

definition absolute_ids :: "particles \<Rightarrow> i64 list" where
  "absolute_ids p = map (\<lambda>ii. \<bar>Particles_get_particle_id_value p (int ii)\<bar>) [0..<nat (num_particles p)]"

text \<open>C19: The function that looks for the range of the particle ids succeeds exactly if there are particles and no two
  of them have the same id up to sign, whether or not its self-check is compiled; it then writes the smallest and
  the greatest absolute value of an id through the pointers that are not NULL, and otherwise nothing.\<close>

theorem min_max_particle_id:
  "Particles_get_min_max_particle_id debug p ptr_min_id ptr_max_id =
     (if absolute_ids p \<noteq> [] \<and> distinct (absolute_ids p)
      then (0, write_opt ptr_min_id (Min (set (absolute_ids p))), write_opt ptr_max_id (Max (set (absolute_ids p))))
      else (- 1, ptr_min_id, ptr_max_id))"
proof (cases "absolute_ids p = []")
  case True
  then show ?thesis by (simp add: Particles_get_min_max_particle_id_def Particles_get_num_of_particles_def absolute_ids_def)
next
  case False
  define n where "n = nat (num_particles p)"
  have n: "0 < n" "length (absolute_ids p) = n" using False by (simp_all add: absolute_ids_def n_def)
  have ids: "map (\<lambda>ii. let temp_particle_id = Particles_get_particle_id_value p (int ii)
      in if temp_particle_id \<ge> 0 then temp_particle_id else - temp_particle_id) [0..<n] = absolute_ids p"
    unfolding absolute_ids_def n_def by (simp add: Let_def abs_if)
  obtain a lhs rhs s where sort: "Particles_particle_id_recursive_merge_sort (absolute_ids p) (replicate n 0) (replicate n 0) 0 (n - 1) =
      (a, lhs, rhs, s)" and part: "sorted_part 0 n (absolute_ids p) a s"
    using merge_sort [of 0 "n - 1" "absolute_ids p" "replicate n 0" "replicate n 0"] n by auto
  have whole: "segment 0 n (absolute_ids p) = absolute_ids p" by (simp add: segment_def n(2))
  show ?thesis
  proof (cases "distinct (absolute_ids p)")
    case False
    then show ?thesis using sort part whole n(1) ids
      by (simp add: Particles_get_min_max_particle_id_def Particles_get_num_of_particles_def sorted_part_def flip: n_def)
  next
    case True
    then have a: "s = 0" "mset a = mset (absolute_ids p)" "sorted_wrt (<) a" "length a = n"
      using part whole n(2) by (auto simp: sorted_part_def)
    have "list_all (\<lambda>jj. a ! (jj - 1) < a ! jj) [1..<n]"
      using a(3,4) by (auto simp: list_all_iff sorted_wrt_iff_nth_less)
    moreover have "a ! 0 = Min (set (absolute_ids p))" "a ! (n - 1) = Max (set (absolute_ids p))"
      using strictly_sorted_ends [OF a(3)] a(2,4) n(1) mset_eq_setD [OF a(2)] by auto
    ultimately show ?thesis using True False sort n(1) ids a(1)
      by (simp add: Particles_get_min_max_particle_id_def Particles_get_num_of_particles_def flip: n_def)
  qed
qed

end
