(* ===== verification/Managed_Buffer.thy ===== *)
theory Managed_Buffer
  imports Managed_Buffer_Remap
begin

section \<open>Creating and growing managed buffers (buffer/managed_buffer.h)\<close>

text \<open>
  Initialising a buffer in a range of memory, changing the capacity of its sections in place, and emptying
  it. A pointer that takes the resulting length is modelled by a result: the value written through it if it
  is not NULL, \<open>None\<close> if nothing is written. Memory is passed along and comes first in the results.
\<close>

definition ManagedBuffer_calculate_section_size :: "u64 \<Rightarrow> u64 \<Rightarrow> u64 \<Rightarrow> u64" where
  "ManagedBuffer_calculate_section_size header_section_id num_entities slot_size =
     (if slot_size > 0 then
        num_entities * ManagedBuffer_get_section_entity_size header_section_id slot_size +
        ManagedBuffer_get_section_header_length slot_size
      else 0)"

definition ManagedBuffer_get_section_offset :: "mem \<Rightarrow> u64 \<Rightarrow> u64 \<Rightarrow> u64 \<Rightarrow> u64" where
  "ManagedBuffer_get_section_offset m begin' section_id slot_size =
     (if begin' \<noteq> 0 \<and> slot_size > 0 then
        if rd64 m (begin' + 8 * section_id) \<ge> rd64 m (begin' + 8 * 0)
        then rd64 m (begin' + 8 * section_id) - rd64 m (begin' + 8 * 0) else 0
      else 0)"

definition ManagedBuffer_set_section_num_entities :: "mem \<Rightarrow> u64 \<Rightarrow> u64 \<Rightarrow> u64 \<Rightarrow> u64 \<Rightarrow> mem" where
  "ManagedBuffer_set_section_num_entities m begin' section_id num_entities slot_size =
     (let ptr_to_section = ManagedBuffer_get_ptr_to_section m begin' section_id slot_size
      in if ptr_to_section \<noteq> 0 then wr64 m (ptr_to_section + 8 * 1) num_entities else m)"

definition ManagedBuffer_set_section_max_size :: "mem \<Rightarrow> u64 \<Rightarrow> u64 \<Rightarrow> u64 \<Rightarrow> u64 \<Rightarrow> mem" where
  "ManagedBuffer_set_section_max_size m begin' section_id max_section_size slot_size =
     (let ptr_to_section = ManagedBuffer_get_ptr_to_section m begin' section_id slot_size
      in if ptr_to_section \<noteq> 0 then wr64 m ptr_to_section max_section_size else m)"

text \<open>The attributes are given as a list of sizes and counts.\<close>

definition ManagedBuffer_predict_required_num_slots :: "u64 \<Rightarrow> (u64 \<times> u64) list \<Rightarrow> u64 \<Rightarrow> u64" where
  "ManagedBuffer_predict_required_num_slots obj_handle_size obj_attrs slot_size =
     (if slot_size > 0 \<and> obj_handle_size > 0 then
        let requ_num_slots = ManagedBuffer_get_slot_based_length obj_handle_size slot_size;
            requ_num_slots = (if length obj_attrs > 0 then
              let requ_num_slots = foldl (\<lambda>requ_num_slots (obj_attr_size, obj_attr_count). requ_num_slots +
                    ManagedBuffer_get_slot_based_length (obj_attr_size * obj_attr_count) slot_size) requ_num_slots obj_attrs;
                  mod_slot_size = requ_num_slots mod slot_size
              in if mod_slot_size \<noteq> 0 then requ_num_slots + (slot_size - mod_slot_size) else requ_num_slots
              else requ_num_slots)
        in requ_num_slots div slot_size
      else 0)"

definition ManagedBuffer_calculate_buffer_length :: "mem \<Rightarrow> u64 \<Rightarrow> u64 \<Rightarrow> u64 \<Rightarrow> u64 \<Rightarrow> u64 \<Rightarrow> u64 \<Rightarrow> u64" where
  "ManagedBuffer_calculate_buffer_length m begin' max_num_objects max_num_slots max_num_dataptrs
       max_num_garbage_ranges slot_size =
     (let header_length = ManagedBuffer_get_header_length m begin' slot_size;
          requ_slots_extent = ManagedBuffer_calculate_section_size 3 max_num_slots slot_size;
          requ_objs_extent = ManagedBuffer_calculate_section_size 4 max_num_objects slot_size;
          requ_dataptrs_extent = ManagedBuffer_calculate_section_size 5 max_num_dataptrs slot_size;
          requ_garbage_extent = ManagedBuffer_calculate_section_size 6 max_num_garbage_ranges slot_size
      in header_length + requ_slots_extent + requ_objs_extent + requ_dataptrs_extent + requ_garbage_extent)"

definition ManagedBuffer_can_reserve ::
    "mem \<Rightarrow> u64 \<Rightarrow> u64 \<Rightarrow> u64 \<Rightarrow> u64 \<Rightarrow> u64 \<Rightarrow> u64 \<Rightarrow> u64 \<Rightarrow> u64 \<times> bool" where
  "ManagedBuffer_can_reserve m begin' max_num_objects max_num_slots max_num_dataptrs max_num_garbage_ranges
       max_data_buffer_length slot_size =
     (let requ_buffer_length = ManagedBuffer_calculate_buffer_length m begin' max_num_objects max_num_slots
            max_num_dataptrs max_num_garbage_ranges slot_size
      in (requ_buffer_length,
          requ_buffer_length \<le> max_data_buffer_length \<and>
          ManagedBuffer_get_section_num_entities m begin' 3 slot_size \<le> max_num_slots \<and>
          ManagedBuffer_get_section_num_entities m begin' 4 slot_size \<le> max_num_objects \<and>
          ManagedBuffer_get_section_num_entities m begin' 5 slot_size \<le> max_num_dataptrs \<and>
          ManagedBuffer_get_section_num_entities m begin' 6 slot_size \<le> max_num_garbage_ranges))"

text \<open>
  The block that moves one section, which \<open>NS(ManagedBuffer_reserve)\<close> has for the garbage, the data
  pointers and the objects; \<open>left_limit\<close> is the current end of the section before it. The second result is
  its \<open>finished\<close> flag.
\<close>

definition reserve_move_section ::
    "mem \<Rightarrow> u64 \<Rightarrow> u64 \<Rightarrow> u64 \<Rightarrow> u64 \<Rightarrow> u64 \<Rightarrow> u64 \<Rightarrow> mem \<times> bool" where
  "reserve_move_section m begin' new_offset cur_offset cur_size requ_extent left_limit =
     (if new_offset > cur_offset then
        let source = begin' + cur_offset; destination = begin' + new_offset;
            bytes_to_fill_at_begin = new_offset - cur_offset;
            m = mem_move m destination source cur_size;
            bytes_to_fill_at_begin = (if bytes_to_fill_at_begin > cur_size then cur_size else bytes_to_fill_at_begin);
            m = mem_set m source bytes_to_fill_at_begin 0;
            m = (if requ_extent > cur_size
                 then mem_set m (destination + cur_size) (requ_extent - cur_size) 0 else m)
        in (m, True)
      else if new_offset \<ge> left_limit then
        (mem_move m (begin' + new_offset) (begin' + cur_offset) cur_size, True)
      else (m, False))"

definition reserve_set_header :: "mem \<Rightarrow> u64 \<Rightarrow> u64 \<Rightarrow> u64 \<Rightarrow> u64 \<Rightarrow> u64 \<Rightarrow> u64 \<Rightarrow> mem" where
  "reserve_set_header m begin' new_buffer_length slots_addr objs_addr dataptrs_addr garbage_addr =
     (let m = wr64 m (begin' + 8 * 1) new_buffer_length;
          m = wr64 m (begin' + 8 * 3) slots_addr;
          m = wr64 m (begin' + 8 * 4) objs_addr;
          m = wr64 m (begin' + 8 * 5) dataptrs_addr
      in wr64 m (begin' + 8 * 6) garbage_addr)"

definition set_max_sizes :: "mem \<Rightarrow> u64 \<Rightarrow> u64 \<Rightarrow> u64 \<Rightarrow> u64 \<Rightarrow> u64 \<Rightarrow> u64 \<Rightarrow> mem" where
  "set_max_sizes m begin' slots_size objs_size dataptrs_size garbage_size slot_size =
     (let m = ManagedBuffer_set_section_max_size m begin' 3 slots_size slot_size;
          m = ManagedBuffer_set_section_max_size m begin' 4 objs_size slot_size;
          m = ManagedBuffer_set_section_max_size m begin' 5 dataptrs_size slot_size
      in ManagedBuffer_set_section_max_size m begin' 6 garbage_size slot_size)"

definition ManagedBuffer_reserve ::
    "mem \<Rightarrow> u64 \<Rightarrow> u64 \<Rightarrow> u64 \<Rightarrow> u64 \<Rightarrow> u64 \<Rightarrow> u64 \<Rightarrow> u64 \<Rightarrow> mem \<times> u64 option \<times> int" where
  "ManagedBuffer_reserve m begin' max_num_objects max_num_slots max_num_dataptrs max_num_garbage_ranges
       max_data_buffer_length slot_size =
     (let cur_max_num_slots = ManagedBuffer_get_section_max_num_entities m begin' 3 slot_size;
          cur_num_slots = ManagedBuffer_get_section_num_entities m begin' 3 slot_size;
          cur_max_num_objects = ManagedBuffer_get_section_max_num_entities m begin' 4 slot_size;
          cur_num_objects = ManagedBuffer_get_section_num_entities m begin' 4 slot_size;
          cur_max_num_dataptrs = ManagedBuffer_get_section_max_num_entities m begin' 5 slot_size;
          cur_num_dataptrs = ManagedBuffer_get_section_num_entities m begin' 5 slot_size;
          cur_max_num_garbage_ranges = ManagedBuffer_get_section_max_num_entities m begin' 6 slot_size;
          cur_num_garbage_ranges = ManagedBuffer_get_section_num_entities m begin' 6 slot_size;
          current_buffer_length = ManagedBuffer_get_buffer_length m begin' slot_size;
          success = (if begin' \<noteq> 0 \<and> slot_size > 0 \<and> current_buffer_length > 0 \<and>
                        current_buffer_length \<le> max_data_buffer_length \<and>
                        cur_num_objects \<le> max_num_objects \<and> cur_num_slots \<le> max_num_slots \<and>
                        cur_num_dataptrs \<le> max_num_dataptrs \<and> cur_num_garbage_ranges \<le> max_num_garbage_ranges
                     then 0 else - 1)
      in if success = 0 \<and>
            (max_num_objects \<noteq> cur_max_num_objects \<or> max_num_slots \<noteq> cur_max_num_slots \<or>
             max_num_dataptrs \<noteq> cur_max_num_dataptrs \<or> max_num_garbage_ranges \<noteq> cur_max_num_garbage_ranges) then
           let header_length = ManagedBuffer_get_header_length m begin' slot_size;
               requ_objs_extent = ManagedBuffer_calculate_section_size 4 max_num_objects slot_size;
               requ_slots_extent = ManagedBuffer_calculate_section_size 3 max_num_slots slot_size;
               requ_dataptrs_extent = ManagedBuffer_calculate_section_size 5 max_num_dataptrs slot_size;
               requ_garbage_extent = ManagedBuffer_calculate_section_size 6 max_num_garbage_ranges slot_size;
               new_buffer_length = header_length + requ_slots_extent + requ_objs_extent +
                 requ_dataptrs_extent + requ_garbage_extent
           in if new_buffer_length \<le> max_data_buffer_length then
                let cur_slots_offset = ManagedBuffer_get_section_offset m begin' 3 slot_size;
                    cur_slots_size = ManagedBuffer_get_section_size m begin' 3 slot_size;
                    new_slots_offset = header_length;
                    cur_objs_offset = ManagedBuffer_get_section_offset m begin' 4 slot_size;
                    cur_objs_size = ManagedBuffer_get_section_size m begin' 4 slot_size;
                    new_objs_offset = new_slots_offset + requ_slots_extent;
                    cur_dataptrs_offset = ManagedBuffer_get_section_offset m begin' 5 slot_size;
                    cur_dataptrs_size = ManagedBuffer_get_section_size m begin' 5 slot_size;
                    new_dataptrs_offset = new_objs_offset + requ_objs_extent;
                    cur_garbage_offset = ManagedBuffer_get_section_offset m begin' 6 slot_size;
                    cur_garbage_size = ManagedBuffer_get_section_size m begin' 6 slot_size;
                    new_garbage_offset = new_dataptrs_offset + requ_dataptrs_extent;
                    objs_finished = (new_objs_offset = cur_objs_offset);
                    slots_finished = (new_slots_offset = cur_slots_offset);
                    dataptrs_finished = (new_dataptrs_offset = cur_dataptrs_offset);
                    garbage_finished = (new_garbage_offset = cur_garbage_offset);
                    (m, garbage_finished) = (if \<not> garbage_finished
                      then reserve_move_section m begin' new_garbage_offset cur_garbage_offset cur_garbage_size
                             requ_garbage_extent (cur_dataptrs_offset + cur_dataptrs_size)
                      else (m, garbage_finished));
                    (m, dataptrs_finished) = (if garbage_finished \<and> \<not> dataptrs_finished
                      then reserve_move_section m begin' new_dataptrs_offset cur_dataptrs_offset cur_dataptrs_size
                             requ_dataptrs_extent (cur_objs_offset + cur_objs_size)
                      else (m, dataptrs_finished));
                    (m, objs_finished) = (if garbage_finished \<and> dataptrs_finished \<and> \<not> objs_finished
                      then reserve_move_section m begin' new_objs_offset cur_objs_offset cur_objs_size
                             requ_objs_extent (cur_slots_offset + cur_slots_size)
                      else (m, objs_finished))
                in if slots_finished \<and> dataptrs_finished \<and> objs_finished \<and> garbage_finished then
                     let m = (if requ_slots_extent > cur_slots_size
                              then mem_set m (begin' + new_slots_offset + cur_slots_size)
                                     (requ_slots_extent - cur_slots_size) 0 else m);
                         m = reserve_set_header m begin' new_buffer_length (begin' + new_slots_offset)
                               (begin' + new_objs_offset) (begin' + new_dataptrs_offset) (begin' + new_garbage_offset);
                         m = set_max_sizes m begin' requ_slots_extent requ_objs_extent requ_dataptrs_extent
                               requ_garbage_extent slot_size
                     in (m, Some new_buffer_length, 0)
                   else (m, Some new_buffer_length, - 1)
              else (m, Some new_buffer_length, - 1)
         else if success = 0 then (m, Some (ManagedBuffer_get_buffer_length m begin' slot_size), 0)
         else (m, None, success))"

definition init_write_header :: "mem \<Rightarrow> u64 \<Rightarrow> u64 \<Rightarrow> u64 \<Rightarrow> u64 \<Rightarrow> u64 \<Rightarrow> u64 \<Rightarrow> u64 \<Rightarrow> mem" where
  "init_write_header m begin' requ_buffer_length header_length slots_section_begin objs_section_begin
       dataptrs_section_begin garbage_section_begin =
     (let m = wr64 m (begin' + 8 * 0) begin';
          m = wr64 m (begin' + 8 * 1) requ_buffer_length;
          m = wr64 m (begin' + 8 * 2) header_length;
          m = wr64 m (begin' + 8 * 3) slots_section_begin;
          m = wr64 m (begin' + 8 * 4) objs_section_begin;
          m = wr64 m (begin' + 8 * 5) dataptrs_section_begin
      in wr64 m (begin' + 8 * 6) garbage_section_begin)"

definition init_write_section :: "mem \<Rightarrow> u64 \<Rightarrow> u64 \<Rightarrow> u64 \<Rightarrow> u64 \<Rightarrow> mem" where
  "init_write_section m begin' section_id section_max_size slot_size =
     ManagedBuffer_set_section_num_entities
       (ManagedBuffer_set_section_max_size m begin' section_id section_max_size slot_size) begin' section_id 0 slot_size"

definition ManagedBuffer_init ::
    "mem \<Rightarrow> u64 \<Rightarrow> u64 \<Rightarrow> u64 \<Rightarrow> u64 \<Rightarrow> u64 \<Rightarrow> u64 \<Rightarrow> u64 \<Rightarrow> mem \<times> u64 option \<times> int" where
  "ManagedBuffer_init m begin' max_num_objects max_num_slots max_num_dataptrs max_num_garbage_ranges
       max_data_buffer_length slot_size =
     (if begin' \<noteq> 0 \<and> slot_size \<noteq> 0 then
        let header_length = ManagedBuffer_get_header_length m begin' slot_size;
            slots_section_max_size = ManagedBuffer_calculate_section_size 3 max_num_slots slot_size;
            objs_section_max_size = ManagedBuffer_calculate_section_size 4 max_num_objects slot_size;
            dataptrs_section_max_size = ManagedBuffer_calculate_section_size 5 max_num_dataptrs slot_size;
            garbage_section_max_size = ManagedBuffer_calculate_section_size 6 max_num_garbage_ranges slot_size;
            requ_buffer_length = header_length + slots_section_max_size + objs_section_max_size +
              dataptrs_section_max_size + garbage_section_max_size
        in if requ_buffer_length \<le> max_data_buffer_length then
             let slots_offset = header_length;
                 objs_offset = slots_offset + slots_section_max_size;
                 dataptrs_offset = objs_offset + objs_section_max_size;
                 garbage_offset = dataptrs_offset + dataptrs_section_max_size;
                 m = mem_set m begin' requ_buffer_length 0;
                 m = init_write_header m begin' requ_buffer_length header_length (begin' + slots_offset)
                       (begin' + objs_offset) (begin' + dataptrs_offset) (begin' + garbage_offset);
                 m = init_write_section m begin' 3 slots_section_max_size slot_size;
                 m = init_write_section m begin' 4 objs_section_max_size slot_size;
                 m = init_write_section m begin' 5 dataptrs_section_max_size slot_size;
                 m = init_write_section m begin' 6 garbage_section_max_size slot_size
             in (m, Some requ_buffer_length, 0)
           else (m, Some requ_buffer_length, - 1)
      else (m, None, - 1))"

text \<open>The loops of \<open>NS(ManagedBuffer_clear)\<close>; the first argument counts the elements that are left.\<close>

fun clear_objects_loop :: "nat \<Rightarrow> mem \<Rightarrow> u64 \<Rightarrow> mem" where
  "clear_objects_loop 0 m obj_it = m"
| "clear_objects_loop (Suc n) m obj_it = clear_objects_loop n (Object_preset m obj_it) (obj_it + sizeof_Object)"

fun clear_garbage_loop :: "nat \<Rightarrow> mem \<Rightarrow> u64 \<Rightarrow> mem" where
  "clear_garbage_loop 0 m it = m"
| "clear_garbage_loop (Suc n) m it = clear_garbage_loop n (BufferGarbage_preset m it) (it + sizeof_BufferGarbage)"

fun clear_addr_loop :: "nat \<Rightarrow> mem \<Rightarrow> u64 \<Rightarrow> mem" where
  "clear_addr_loop 0 m it = m"
| "clear_addr_loop (Suc n) m it = clear_addr_loop n (wr64 m it 0) (it + sizeof_address)"

definition ManagedBuffer_clear :: "mem \<Rightarrow> u64 \<Rightarrow> bool \<Rightarrow> u64 \<Rightarrow> mem" where
  "ManagedBuffer_clear m begin' set_data_to_zero slot_size =
     (if begin' \<noteq> 0 \<and> slot_size > 0 \<and> begin' mod slot_size = 0 then
        let num_objects = ManagedBuffer_get_section_num_entities m begin' 4 slot_size;
            num_dataptrs = ManagedBuffer_get_section_num_entities m begin' 5 slot_size;
            num_slots = ManagedBuffer_get_section_num_entities m begin' 3 slot_size;
            num_garbage_ranges = ManagedBuffer_get_section_num_entities m begin' 6 slot_size;
            m = (if set_data_to_zero then
                   let m = (if num_objects > 0 then clear_objects_loop (unat num_objects) m
                              (ManagedBuffer_get_ptr_to_section_data m begin' 4 slot_size) else m);
                       m = (if num_garbage_ranges > 0 then clear_garbage_loop (unat num_garbage_ranges) m
                              (ManagedBuffer_get_ptr_to_section_data m begin' 6 slot_size) else m);
                       m = (if num_dataptrs > 0 then clear_addr_loop (unat num_dataptrs) m
                              (ManagedBuffer_get_ptr_to_section_data m begin' 5 slot_size) else m)
                   in if num_slots > 0 then clear_addr_loop (unat num_slots) m
                        (ManagedBuffer_get_ptr_to_section_data m begin' 3 slot_size) else m
                 else m);
            m = ManagedBuffer_set_section_num_entities m begin' 3 0 slot_size;
            m = ManagedBuffer_set_section_num_entities m begin' 4 0 slot_size;
            m = ManagedBuffer_set_section_num_entities m begin' 5 0 slot_size
        in ManagedBuffer_set_section_num_entities m begin' 6 0 slot_size
      else m)"

definition Buffer_num_slots_for_trivial_object :: "u64 \<Rightarrow> u64 \<Rightarrow> u64" where
  "Buffer_num_slots_for_trivial_object obj_handle_size slot_size =
     (if slot_size > 0 \<and> obj_handle_size > 0 then
        let data_size = ManagedBuffer_get_slot_based_length obj_handle_size slot_size;
            num_slots = data_size div slot_size
        in if num_slots * slot_size < data_size then num_slots + 1 else num_slots
      else 0)"

subsection \<open>An empty buffer\<close>

definition capacity_words :: "nat \<Rightarrow> nat \<Rightarrow> nat \<Rightarrow> nat \<Rightarrow> nat" where
  "capacity_words objs slots ptrs ranges = 8 + (slots + 2) + (3 * objs + 2) + (ptrs + 2) + (2 * ranges + 2)"

text \<open>The layout with the given capacities and numbers of elements, its sections one after the other.\<close>

definition with_capacity :: "nat \<Rightarrow> nat \<Rightarrow> nat \<Rightarrow> nat \<Rightarrow> buffer_layout \<Rightarrow> buffer_layout" where
  "with_capacity objs slots ptrs ranges L = L\<lparr>at_slots := 8, at_objs := 8 + (slots + 2),
     at_ptrs := 8 + (slots + 2) + (3 * objs + 2), at_ranges := 8 + (slots + 2) + (3 * objs + 2) + (ptrs + 2),
     max_slots := slots + 2, max_objs := 3 * objs + 2, max_ptrs := ptrs + 2, max_ranges := 2 * ranges + 2\<rparr>"

definition no_contents :: buffer_layout where
  "no_contents = \<lparr>at_slots = 0, at_objs = 0, at_ptrs = 0, at_ranges = 0, max_slots = 0, max_objs = 0, max_ptrs = 0,
     max_ranges = 0, num_slots = 0, objs_to = [], ptrs_to = [], ranges_to = []\<rparr>"

definition empty_words :: "u64 \<Rightarrow> nat \<Rightarrow> buffer_layout \<Rightarrow> nat \<Rightarrow> u64" where
  "empty_words b n L = (\<lambda>_. 0)(0 := word_addr b 0, 1 := 8 * of_nat n, 2 := 64, 3 := word_addr b (at_slots L),
     4 := word_addr b (at_objs L), 5 := word_addr b (at_ptrs L), 6 := word_addr b (at_ranges L),
     at_slots L := 8 * of_nat (max_slots L), at_objs L := 8 * of_nat (max_objs L),
     at_ptrs L := 8 * of_nat (max_ptrs L), at_ranges L := 8 * of_nat (max_ranges L))"

lemma with_capacity_simps [simp]:
  "at_slots (with_capacity os sl ps rs L) = 8" "at_objs (with_capacity os sl ps rs L) = 8 + (sl + 2)"
  "at_ptrs (with_capacity os sl ps rs L) = 8 + (sl + 2) + (3 * os + 2)"
  "at_ranges (with_capacity os sl ps rs L) = 8 + (sl + 2) + (3 * os + 2) + (ps + 2)"
  "max_slots (with_capacity os sl ps rs L) = sl + 2" "max_objs (with_capacity os sl ps rs L) = 3 * os + 2"
  "max_ptrs (with_capacity os sl ps rs L) = ps + 2" "max_ranges (with_capacity os sl ps rs L) = 2 * rs + 2"
  "num_slots (with_capacity os sl ps rs L) = num_slots L" "objs_to (with_capacity os sl ps rs L) = objs_to L"
  "ptrs_to (with_capacity os sl ps rs L) = ptrs_to L" "ranges_to (with_capacity os sl ps rs L) = ranges_to L"
  by (simp_all add: with_capacity_def)

lemma capacity_layout_ok:
  "num_slots L \<le> sl \<Longrightarrow> num_objs L \<le> os \<Longrightarrow> num_ptrs L \<le> ps \<Longrightarrow> num_ranges L \<le> rs \<Longrightarrow>
   layout_ok (capacity_words os sl ps rs) (with_capacity os sl ps rs L)"
  by (simp add: layout_ok_def capacity_words_def)

lemma no_contents_simps [simp]:
  "num_slots no_contents = 0" "objs_to no_contents = []" "ptrs_to no_contents = []" "ranges_to no_contents = []"
  by (simp_all add: no_contents_def)

lemma empty_describes:
  assumes "layout_ok n L" "num_slots L = 0" "objs_to L = []" "ptrs_to L = []" "ranges_to L = []"
  shows "describes b n L (empty_words b n L)"
  using assms layout_bounds [OF assms(1)]
  by (simp add: describes_def header_at_def sections_ok_def objects_at_def ptrs_at_def ranges_at_def empty_words_def
      layout_ok_def)

text \<open>Sizes and offsets in words.\<close>

lemma calculated_sizes:
  "ManagedBuffer_calculate_section_size 3 (of_nat k) 8 = 8 * of_nat (k + 2)"
  "ManagedBuffer_calculate_section_size 4 (of_nat k) 8 = 8 * of_nat (3 * k + 2)"
  "ManagedBuffer_calculate_section_size 5 (of_nat k) 8 = 8 * of_nat (k + 2)"
  "ManagedBuffer_calculate_section_size 6 (of_nat k) 8 = 8 * of_nat (2 * k + 2)"
  by (simp_all add: ManagedBuffer_calculate_section_size_def)

lemma words_sum: "(8 * of_nat j + 8 * of_nat k :: u64) = 8 * of_nat (j + k)" "(64 + 8 * of_nat k :: u64) = 8 * of_nat (8 + k)"
  by simp_all

lemma begin_plus_words: "b + 8 * of_nat k = word_addr b k" "b + 64 = word_addr b 8"
  by (simp_all add: word_addr_def)

lemma set_section_words:
  assumes "buf m0 b n F m" "b \<noteq> 0" "k \<in> {3, 4, 5, 6}" "k < n" "F k = word_addr b j" "word_addr b j \<noteq> 0"
  shows "ManagedBuffer_set_section_max_size m b (of_nat k) x 8 = wr64 m (word_addr b j) x"
    and "ManagedBuffer_set_section_num_entities m b (of_nat k) x 8 = wr64 m (word_addr b (j + 1)) x"
proof -
  have "rd64 m (word_addr b k) = word_addr b j" using buf_read [OF assms(1,4)] assms(5) by simp
  then have "ManagedBuffer_get_const_ptr_to_section m b (of_nat k) 8 = word_addr b j"
    using assms(2,3) by (auto simp: ManagedBuffer_get_const_ptr_to_section_def word_addr_def)
  then show "ManagedBuffer_set_section_max_size m b (of_nat k) x 8 = wr64 m (word_addr b j) x"
    "ManagedBuffer_set_section_num_entities m b (of_nat k) x 8 = wr64 m (word_addr b (j + 1)) x"
    using assms(6) by (simp_all add: ManagedBuffer_set_section_max_size_def ManagedBuffer_get_ptr_to_section_def
        ManagedBuffer_set_section_num_entities_def addr_plus)
qed

lemma init_section_words:
  assumes "buf m0 b n F m" "fits b n" "k \<in> {3, 4, 5, 6}" "F k = word_addr b j" "8 \<le> j" "j + 1 < n"
  shows "buf m0 b n (F(j := x, j + 1 := 0)) (init_write_section m b (of_nat k) x 8)"
proof -
  have b: "b \<noteq> 0" "word_addr b j \<noteq> 0" "k < n" "j < n" using assms(2,3,5,6) addr_neq_0 by (auto simp: fits_def)
  define m1 where "m1 = wr64 m (word_addr b j) x"
  have m1: "buf m0 b n (F(j := x)) m1" unfolding m1_def by (intro buf_write assms b)
  have "(F(j := x)) k = word_addr b j" using assms(3-5) by auto
  then have "init_write_section m b (of_nat k) x 8 = wr64 m1 (word_addr b (j + 1)) 0"
    using set_section_words(1) [OF assms(1) b(1) assms(3) b(3) assms(4) b(2), of x]
      set_section_words(2) [OF m1 b(1) assms(3) b(3) _ b(2), of 0]
    by (simp only: init_write_section_def m1_def)
  then show ?thesis using buf_write [OF m1 assms(2,6)] by simp
qed

lemma init_header_words:
  assumes "buf m0 b n F m" "fits b n" "8 \<le> n"
  shows "buf m0 b n (F(0 := b, 1 := len, 2 := hl, 3 := s, 4 := ob, 5 := d, 6 := g)) (init_write_header m b len hl s ob d g)"
  unfolding init_write_header_def Let_def addr_begin using assms(3) by (intro buf_write assms(1,2)) simp_all

lemma header_length_64: "b \<noteq> 0 \<Longrightarrow> rd64 m (b + 16) = 0 \<or> rd64 m (b + 16) = 64 \<Longrightarrow> ManagedBuffer_get_header_length m b 8 = 8 * of_nat 8"
  by (auto simp: ManagedBuffer_get_header_length_def Let_def ManagedBuffer_get_slot_based_length_def sizeof_address_def)

lemma init_writes_empty_words:
  assumes fits: "fits b n" and header: "rd64 m (b + 16) = 0 \<or> rd64 m (b + 16) = 64"
    and n: "n = capacity_words os sl ps rs" and room: "8 * of_nat n \<le> len"
    and L: "L = with_capacity os sl ps rs no_contents"
  shows "\<exists>m'. ManagedBuffer_init m b (of_nat os) (of_nat sl) (of_nat ps) (of_nat rs) len 8 = (m', Some (8 * of_nat n), 0) \<and>
    buf m b n (empty_words b n L) m'"
proof -
  have lo: "layout_ok n L" unfolding n L by (intro capacity_layout_ok) simp_all
  note bounds = layout_bounds [OF lo]
  have b: "b \<noteq> 0" using fits by (simp add: fits_def)
  have n8: "8 \<le> n" by (simp add: n capacity_words_def)
  define m1 where "m1 = mem_set m b (8 * of_nat n) 0"
  have m1: "buf m b n (\<lambda>_. 0) m1"
    using buf_fill [OF buf_self fits, of 0 n m] unfolding m1_def addr_0 by (auto elim: buf_cong)
  define m2 where "m2 = init_write_header m1 b (8 * of_nat n) (8 * of_nat 8) (word_addr b (at_slots L))
    (word_addr b (at_objs L)) (word_addr b (at_ptrs L)) (word_addr b (at_ranges L))"
  note m2 = init_header_words [OF m1 fits n8, of "8 * of_nat n" "8 * of_nat 8" "word_addr b (at_slots L)"
    "word_addr b (at_objs L)" "word_addr b (at_ptrs L)" "word_addr b (at_ranges L)", folded m2_def]
  define m3 where "m3 = init_write_section m2 b (of_nat 3) (8 * of_nat (max_slots L)) 8"
  note m3 = init_section_words [OF m2 fits, of 3 "at_slots L" "8 * of_nat (max_slots L)", folded m3_def]
  define m4 where "m4 = init_write_section m3 b (of_nat 4) (8 * of_nat (max_objs L)) 8"
  note m4 = init_section_words [OF m3 fits, of 4 "at_objs L" "8 * of_nat (max_objs L)", folded m4_def]
  define m5 where "m5 = init_write_section m4 b (of_nat 5) (8 * of_nat (max_ptrs L)) 8"
  note m5 = init_section_words [OF m4 fits, of 5 "at_ptrs L" "8 * of_nat (max_ptrs L)", folded m5_def]
  define m6 where "m6 = init_write_section m5 b (of_nat 6) (8 * of_nat (max_ranges L)) 8"
  note m6 = init_section_words [OF m5 fits, of 6 "at_ranges L" "8 * of_nat (max_ranges L)", folded m6_def]
  have at: "at_slots L = 8" "at_slots L + 1 < at_objs L" "at_objs L + 1 < at_ptrs L" "at_ptrs L + 1 < at_ranges L"
    "at_ranges L + 1 < n" using bounds by (simp_all add: L)
  have "buf m b n (empty_words b n L) m6"
  proof (rule buf_cong [OF m6])
  qed (use at in \<open>auto simp: empty_words_def addr_0\<close>)
  moreover have "ManagedBuffer_init m b (of_nat os) (of_nat sl) (of_nat ps) (of_nat rs) len 8 = (m6, Some (8 * of_nat n), 0)"
  proof -
    have sizes: "ManagedBuffer_calculate_section_size 3 (of_nat sl) 8 = 8 * of_nat (max_slots L)"
      "ManagedBuffer_calculate_section_size 4 (of_nat os) 8 = 8 * of_nat (max_objs L)"
      "ManagedBuffer_calculate_section_size 5 (of_nat ps) 8 = 8 * of_nat (max_ptrs L)"
      "ManagedBuffer_calculate_section_size 6 (of_nat rs) 8 = 8 * of_nat (max_ranges L)"
      unfolding calculated_sizes by (simp_all add: L)
    have ends: "8 + max_slots L = at_objs L" "at_objs L + max_objs L = at_ptrs L" "at_ptrs L + max_ptrs L = at_ranges L"
      "at_ranges L + max_ranges L = n" "word_addr b 8 = word_addr b (at_slots L)"
      by (simp_all add: L n capacity_words_def)
    have "of_nat 3 = (3 :: u64)" "of_nat 4 = (4 :: u64)" "of_nat 5 = (5 :: u64)" "of_nat 6 = (6 :: u64)" by simp_all
    then show ?thesis
      unfolding ManagedBuffer_init_def header_length_64 [OF b header] sizes Let_def words_sum(1) ends(1-4)
      unfolding begin_plus_words(1) ends(5) m6_def m5_def m4_def m3_def m2_def m1_def by (simp add: b room)
  qed
  ultimately show ?thesis by blast
qed

text \<open>Initialising a range of memory that is large enough makes it an empty buffer with the requested
  capacities: its sections follow each other without gaps after a header of eight words, they fill exactly
  the reported length, every other word is zero, and nothing outside that length is written.\<close>

theorem init_gives_empty_buffer:
  assumes "fits b n" "rd64 m (b + 16) = 0 \<or> rd64 m (b + 16) = 64" "n = capacity_words os sl ps rs"
    and "8 * of_nat n \<le> len" "L = with_capacity os sl ps rs no_contents"
  shows "\<exists>m'. ManagedBuffer_init m b (of_nat os) (of_nat sl) (of_nat ps) (of_nat rs) len 8 = (m', Some (8 * of_nat n), 0) \<and>
    buf m b n (empty_words b n L) m' \<and> describes b n L (empty_words b n L)"
proof -
  have "layout_ok n L" unfolding assms(3,5) by (intro capacity_layout_ok) simp_all
  then have "describes b n L (empty_words b n L)" by (rule empty_describes) (simp_all add: assms(5))
  then show ?thesis using init_writes_empty_words [OF assms] by blast
qed

theorem init_gives_empty_buffer_witness:
  "\<exists>m'. ManagedBuffer_init (\<lambda>_. 0) 4096 (of_nat 2) (of_nat 16) (of_nat 3) (of_nat 1) 4096 8 = (m', Some 344, 0)"
proof -
  have a1: "fits 4096 43" by (simp add: fits_def)
  have "rd64 (\<lambda>_. 0) (4096 + 16) = 0" by (rule rd64_zeros) (rule refl)
  then have a2: "rd64 (\<lambda>_. 0) (4096 + 16) = 0 \<or> rd64 (\<lambda>_. 0) (4096 + 16) = 64" by (rule disjI1)
  have a3: "43 = capacity_words 2 16 3 1" by (simp add: capacity_words_def)
  have a4: "8 * of_nat 43 \<le> (4096 :: u64)" by simp
  obtain m' where
    "ManagedBuffer_init (\<lambda>_. 0) 4096 (of_nat 2) (of_nat 16) (of_nat 3) (of_nat 1) 4096 8 = (m', Some (8 * of_nat 43), 0)"
    using init_gives_empty_buffer [OF a1 a2 a3 a4 refl] by (elim exE conjE)
  moreover have "(8 * of_nat 43 :: u64) = 344" by simp
  ultimately show ?thesis by (intro exI [of _ m']) (simp only:)
qed

text \<open>
  The length of the header is read from the memory that is to be initialised. If it holds another value than
  0 there, the requested buffer is laid out for a header of that length.
\<close>

lemma init_reads_old_memory:
  assumes "b \<noteq> 0" "rd64 m (b + 16) = h" "h \<noteq> 0"
    and "h + 8 * of_nat (sl + 2) + 8 * of_nat (3 * os + 2) + 8 * of_nat (ps + 2) + 8 * of_nat (2 * rs + 2) > len"
  shows "snd (snd (ManagedBuffer_init m b (of_nat os) (of_nat sl) (of_nat ps) (of_nat rs) len 8)) = - 1"
proof -
  have h: "ManagedBuffer_get_header_length m b 8 = h"
    using assms(1-3) by (simp add: ManagedBuffer_get_header_length_def Let_def)
  show ?thesis
    unfolding ManagedBuffer_init_def h calculated_sizes Let_def using assms(1,4) by (simp add: not_le)
qed

end
