(* ===== verification/Managed_Buffer_Reserve.thy ===== *)
theory Managed_Buffer_Reserve
  imports Managed_Buffer Managed_Buffer_Moves
begin

section \<open>Changing the capacity of a managed buffer\<close>

text \<open>
  \<open>NS(ManagedBuffer_reserve)\<close> moves the sections of a buffer inside the memory it has, from the last to the
  first, and rewrites the header. The contents survive: the slots stay where they are, so no address that
  leads into them has to change, and the tables of objects, data pointers and garbage ranges are copied
  before anything overwrites them.
\<close>

subsection \<open>Moving one section\<close>

definition kept_outside :: "nat \<Rightarrow> nat \<Rightarrow> nat \<Rightarrow> nat \<Rightarrow> (nat \<Rightarrow> u64) \<Rightarrow> (nat \<Rightarrow> u64) \<Rightarrow> bool" where
  "kept_outside j ext i sz F F' \<longleftrightarrow>
     (\<forall>y. (y < j \<or> j + ext \<le> y) \<and> (y < i \<or> i + sz \<le> y) \<longrightarrow> F' y = F y)"

lemma word_addr_word: "b + 8 * of_nat j = word_addr b j"
  by (simp add: word_addr_def)

lemma fill_begin:
  assumes "8 * n < (2 :: nat) ^ 64" "i \<le> j" "j \<le> n" "sz \<le> n"
  shows "(if (8 * of_nat j - 8 * of_nat i :: u64) > 8 * of_nat sz then 8 * of_nat sz else 8 * of_nat j - 8 * of_nat i) =
    (8 * of_nat (if j - i > sz then sz else j - i) :: u64)"
proof -
  have "8 * sz < 2 ^ 64" "8 * (j - i) < 2 ^ 64" using assms by linarith+
  then have "(8 * of_nat sz :: u64) < 8 * of_nat (j - i) \<longleftrightarrow> sz < j - i" by (rule words_less)
  then show ?thesis unfolding words_diff [OF assms(2)] by (cases "sz < j - i") (simp_all only: if_True if_False)
qed

lemma move_right:
  assumes buf: "buf m0 b n F m" and fits: "fits b n" and within: "i + sz \<le> n" "j + ext \<le> n" "sz \<le> ext" and less: "i < j"
  shows "\<exists>m' F'. reserve_move_section m b (8 * of_nat j) (8 * of_nat i) (8 * of_nat sz) (8 * of_nat ext) lmt = (m', True) \<and>
    buf m0 b n F' m' \<and> (\<forall>x < sz. F' (j + x) = F (i + x)) \<and> kept_outside j ext i sz F F'"
proof -
  have n: "8 * n < 2 ^ 64" using fits by (simp add: fits_def)
  have bounds: "8 * i < 2 ^ 64" "8 * j < 2 ^ 64" "8 * sz < 2 ^ 64" "8 * ext < 2 ^ 64" "j \<le> n" "sz \<le> n" "i \<le> j"
    using n within less by linarith+
  have lt: "(8 * of_nat i :: u64) < 8 * of_nat j" "(8 * of_nat sz :: u64) < 8 * of_nat ext \<longleftrightarrow> sz < ext"
    using less words_less [OF bounds(1,2)] words_less [OF bounds(3,4)] by (simp_all only:)
  define z where "z = (if j - i > sz then sz else j - i)"
  have z: "z \<le> sz" "i + z \<le> j" "i + z \<le> n" using less within by (auto simp: z_def)
  define F1 where "F1 = (\<lambda>x. if j \<le> x \<and> x < j + sz then F (i + (x - j)) else F x)"
  define m1 where "m1 = mem_move m (word_addr b j) (word_addr b i) (8 * of_nat sz)"
  have m1: "buf m0 b n F1 m1"
    unfolding F1_def m1_def using within by (intro buf_move buf fits) simp_all
  define F2 where "F2 = (\<lambda>x. if i \<le> x \<and> x < i + z then 0 else F1 x)"
  define m2 where "m2 = mem_set m1 (word_addr b i) (8 * of_nat z) 0"
  have m2: "buf m0 b n F2 m2" unfolding F2_def m2_def using z by (intro buf_fill m1 fits)
  define F3 where "F3 = (\<lambda>x. if j + sz \<le> x \<and> x < j + sz + (ext - sz) then 0 else F2 x)"
  define m3 where "m3 = (if (8 * of_nat ext :: u64) > 8 * of_nat sz
    then mem_set m2 (word_addr b (j + sz)) (8 * of_nat (ext - sz)) 0 else m2)"
  have m3: "buf m0 b n F3 m3"
  proof (cases "sz < ext")
    case True
    have "buf m0 b n F3 (mem_set m2 (word_addr b (j + sz)) (8 * of_nat (ext - sz)) 0)"
      unfolding F3_def using True within by (intro buf_fill m2 fits) simp
    then show ?thesis unfolding m3_def lt(2) if_P [OF True] .
  next
    case False
    then have "F3 = F2" using within by (auto simp: F3_def fun_eq_iff)
    then show ?thesis unfolding m3_def lt(2) if_not_P [OF False] using m2 by simp
  qed
  have "reserve_move_section m b (8 * of_nat j) (8 * of_nat i) (8 * of_nat sz) (8 * of_nat ext) lmt = (m3, True)"
    unfolding reserve_move_section_def Let_def fill_begin [OF n bounds(7,5,6)] word_addr_word [of b] addr_plus(1)
      words_diff [OF within(3)] if_P [OF lt(1)]
    unfolding m3_def m2_def m1_def z_def by (rule refl)
  moreover have "F3 (j + x) = F (i + x)" if "x < sz" for x
    using that z(2) by (simp add: F3_def F2_def F1_def)
  moreover have "F3 y = F y" if "y < j \<or> j + ext \<le> y" "y < i \<or> i + sz \<le> y" for y
  proof -
    have "\<not> (j + sz \<le> y \<and> y < j + sz + (ext - sz))" "\<not> (i \<le> y \<and> y < i + z)" "\<not> (j \<le> y \<and> y < j + sz)"
      using that z(1) within(3) by linarith+
    then show ?thesis by (simp only: F3_def F2_def F1_def if_False)
  qed
  ultimately show ?thesis using m3 by (intro exI [of _ m3] exI [of _ F3]) (simp add: kept_outside_def)
qed


text \<open>The whole of the block for one section, with the case that it is in its place already.\<close>

definition moved_section :: "mem \<Rightarrow> u64 \<Rightarrow> nat \<Rightarrow> nat \<Rightarrow> nat \<Rightarrow> nat \<Rightarrow> nat \<Rightarrow> mem \<times> bool" where
  "moved_section m b j i sz ext lmt =
     (if (8 * of_nat j :: u64) \<noteq> 8 * of_nat i
      then reserve_move_section m b (8 * of_nat j) (8 * of_nat i) (8 * of_nat sz) (8 * of_nat ext) (8 * of_nat lmt)
      else (m, True))"

lemma move_section:
  assumes buf: "buf m0 b n F m" and fits: "fits b n" and within: "i + sz \<le> n" "j + ext \<le> n" "sz \<le> ext" "lmt \<le> n"
    and movable: "i \<le> j \<or> lmt \<le> j"
  shows "\<exists>m' F'. moved_section m b j i sz ext lmt = (m', True) \<and>
    buf m0 b n F' m' \<and> (\<forall>x < sz. F' (j + x) = F (i + x)) \<and> kept_outside j ext i sz F F'"
proof -
  have "8 * n < 2 ^ 64" using fits by (simp add: fits_def)
  then have bounds: "8 * i < 2 ^ 64" "8 * j < 2 ^ 64" "8 * lmt < 2 ^ 64" using within by linarith+
  note words = words_eq [OF bounds(2,1)] words_less [OF bounds(1,2)] words_le [OF bounds(3,2)]
  consider "j = i" | "i < j" | "j < i" by linarith
  then show ?thesis
  proof cases
    case 1
    then show ?thesis using buf by (auto simp: kept_outside_def moved_section_def)
  next
    case 2
    then show ?thesis using move_right [OF buf fits within(1-3), of "8 * of_nat lmt"] words(1) by (simp add: moved_section_def)
  next
    case 3
    define F1 where "F1 = (\<lambda>x. if j \<le> x \<and> x < j + sz then F (i + (x - j)) else F x)"
    define m1 where "m1 = mem_move m (word_addr b j) (word_addr b i) (8 * of_nat sz)"
    have "buf m0 b n F1 m1"
      unfolding F1_def m1_def using within by (intro buf_move buf fits) simp_all
    moreover have "reserve_move_section m b (8 * of_nat j) (8 * of_nat i) (8 * of_nat sz) (8 * of_nat ext) (8 * of_nat lmt) = (m1, True)"
      using words(2,3) 3 movable by (simp add: reserve_move_section_def m1_def word_addr_word [of b])
    moreover have "\<forall>x < sz. F1 (j + x) = F (i + x)" by (simp add: F1_def)
    moreover have "kept_outside j ext i sz F F1" using within(3) by (auto simp: kept_outside_def F1_def)
    ultimately show ?thesis using 3 words(1) by (intro exI [of _ m1] exI [of _ F1]) (simp add: moved_section_def)
  qed
qed

subsection \<open>What a buffer contains\<close>

text \<open>
  Two layouts with the same contents: the same slots, and tables of objects, data pointers and garbage ranges
  with the same words, wherever they lie.
\<close>

definition same_contents :: "buffer_layout \<Rightarrow> (nat \<Rightarrow> u64) \<Rightarrow> buffer_layout \<Rightarrow> (nat \<Rightarrow> u64) \<Rightarrow> bool" where
  "same_contents L f L' f' \<longleftrightarrow>
     at_slots L' = at_slots L \<and> num_slots L' = num_slots L \<and> objs_to L' = objs_to L \<and>
     ptrs_to L' = ptrs_to L \<and> ranges_to L' = ranges_to L \<and>
     (\<forall>k. in_slots L k \<longrightarrow> f' k = f k) \<and>
     (\<forall>x < 3 * num_objs L. f' (at_objs L' + 2 + x) = f (at_objs L + 2 + x)) \<and>
     (\<forall>x < num_ptrs L. f' (at_ptrs L' + 2 + x) = f (at_ptrs L + 2 + x)) \<and>
     (\<forall>x < 2 * num_ranges L. f' (at_ranges L' + 2 + x) = f (at_ranges L + 2 + x))"

definition has_capacity :: "nat \<Rightarrow> nat \<Rightarrow> nat \<Rightarrow> nat \<Rightarrow> buffer_layout \<Rightarrow> bool" where
  "has_capacity os sl ps rs L \<longleftrightarrow> sl + 2 \<le> max_slots L \<and> 3 * os + 2 \<le> max_objs L \<and> ps + 2 \<le> max_ptrs L \<and>
     2 * rs + 2 \<le> max_ranges L"

lemma same_contents_refl: "same_contents L f L f"
  by (simp add: same_contents_def)

lemma describes_same_contents:
  assumes "describes b n L f" "same_contents L f L' f'" "header_at b L' f'" "sections_ok n' L' f'" "layout_ok n' L'"
  shows "describes b n' L' f'"
proof -
  have same: "at_slots L' = at_slots L" "num_slots L' = num_slots L" "objs_to L' = objs_to L" "ptrs_to L' = ptrs_to L"
    "ranges_to L' = ranges_to L" "\<And>k. in_slots L k \<Longrightarrow> f' k = f k"
    "\<And>x. x < 3 * num_objs L \<Longrightarrow> f' (at_objs L' + 2 + x) = f (at_objs L + 2 + x)"
    "\<And>x. x < num_ptrs L \<Longrightarrow> f' (at_ptrs L' + 2 + x) = f (at_ptrs L + 2 + x)"
    "\<And>x. x < 2 * num_ranges L \<Longrightarrow> f' (at_ranges L' + 2 + x) = f (at_ranges L + 2 + x)"
    using assms(2) by (simp_all only: same_contents_def)
  have d: "objects_at b L f" "ptrs_at b L f" "ranges_at b L f" using assms(1) by (simp_all add: describes_def)
  have slots: "in_slots L' k \<longleftrightarrow> in_slots L k" for k by (simp add: in_slots_def same)
  have obj: "f' (at_objs L' + 2 + 3 * i) = f (at_objs L + 2 + 3 * i)" "obj_words L' f' i = obj_words L f i"
    if "i < num_objs L" for i
    using same(7) [of "3 * i"] same(7) [of "3 * i + 2"] that by (simp_all add: obj_words_def add.assoc)
  have "objects_at b L' f'"
    using d(1) unfolding objects_at_def same(1-5) by (auto simp only: obj)
  moreover have "ptrs_at b L' f'"
    using d(2) same(6,8) by (simp add: ptrs_at_def same slots del: add_2_eq_Suc')
  moreover have "ranges_at b L' f'"
    using d(3) same(9) by (simp add: ranges_at_def same slots del: add_2_eq_Suc')
  ultimately show ?thesis using assms(3-5) by (simp add: describes_def)
qed

subsection \<open>The three moves\<close>

text \<open>The buffer of \<open>n\<close> words lies in memory of \<open>N\<close> words; \<open>L'\<close> is the layout to be reached.\<close>

definition growable :: "nat \<Rightarrow> buffer_layout \<Rightarrow> buffer_layout \<Rightarrow> bool" where
  "growable N L L' \<longleftrightarrow>
     (at_ptrs L \<le> at_ptrs L' \<or> at_objs L + (3 * num_objs L + 2) \<le> at_ptrs L') \<and>
     (at_ranges L \<le> at_ranges L' \<or> at_ptrs L + (num_ptrs L + 2) \<le> at_ranges L')"

lemma kept_outsideD: "kept_outside j ext i sz F F' \<Longrightarrow> y < j \<or> j + ext \<le> y \<Longrightarrow> y < i \<or> i + sz \<le> y \<Longrightarrow> F' y = F y"
  by (simp add: kept_outside_def)

lemma three_moves:
  assumes buf: "buf m0 b N F m" and fits: "fits b N" and lo: "layout_ok n L" "layout_ok n' L'" and room: "n \<le> N" "n' \<le> N"
    and slots: "at_slots L = 8" "at_slots L' = 8"
    and L': "at_objs L' = 8 + max_slots L'" "at_ptrs L' = at_objs L' + max_objs L'" "at_ranges L' = at_ptrs L' + max_ptrs L'"
    and counts: "num_slots L' = num_slots L" "num_objs L' = num_objs L" "num_ptrs L' = num_ptrs L" "num_ranges L' = num_ranges L"
    and growable: "growable N L L'"
  shows "\<exists>m1 m2 m3 F'.
    moved_section m b (at_ranges L') (at_ranges L) (2 * num_ranges L + 2) (max_ranges L') (at_ptrs L + (num_ptrs L + 2)) = (m1, True) \<and>
    moved_section m1 b (at_ptrs L') (at_ptrs L) (num_ptrs L + 2) (max_ptrs L') (at_objs L + (3 * num_objs L + 2)) = (m2, True) \<and>
    moved_section m2 b (at_objs L') (at_objs L) (3 * num_objs L + 2) (max_objs L') (at_slots L + (num_slots L + 2)) = (m3, True) \<and>
    buf m0 b N F' m3 \<and> (\<forall>y < 8 + (num_slots L + 2). F' y = F y) \<and>
    (\<forall>x < 3 * num_objs L + 2. F' (at_objs L' + x) = F (at_objs L + x)) \<and>
    (\<forall>x < num_ptrs L + 2. F' (at_ptrs L' + x) = F (at_ptrs L + x)) \<and>
    (\<forall>x < 2 * num_ranges L + 2. F' (at_ranges L' + x) = F (at_ranges L + x))"
proof -
  have l: "8 + (num_slots L + 2) \<le> at_objs L" "at_objs L + (3 * num_objs L + 2) \<le> at_ptrs L"
    "at_ptrs L + (num_ptrs L + 2) \<le> at_ranges L" "at_ranges L + (2 * num_ranges L + 2) \<le> n"
    using lo(1) slots by (simp_all add: layout_ok_def)
  have l': "num_slots L + 2 \<le> max_slots L'" "3 * num_objs L + 2 \<le> max_objs L'" "num_ptrs L + 2 \<le> max_ptrs L'"
    "2 * num_ranges L + 2 \<le> max_ranges L'" "at_ranges L' + max_ranges L' \<le> n'"
    using lo(2) counts by (simp_all add: layout_ok_def)
  have grow: "at_ptrs L \<le> at_ptrs L' \<or> at_objs L + (3 * num_objs L + 2) \<le> at_ptrs L'"
    "at_ranges L \<le> at_ranges L' \<or> at_ptrs L + (num_ptrs L + 2) \<le> at_ranges L'"
    using growable unfolding growable_def by blast+
  have w: "at_ranges L + (2 * num_ranges L + 2) \<le> N" "at_ranges L' + max_ranges L' \<le> N"
    "at_ptrs L + (num_ptrs L + 2) \<le> N" "at_ptrs L' + max_ptrs L' \<le> N" "at_objs L + (3 * num_objs L + 2) \<le> N"
    "at_objs L' + max_objs L' \<le> N" "at_slots L + (num_slots L + 2) \<le> N"
    using l l' L' slots room by linarith+
  obtain m1 F1 where m1: "moved_section m b (at_ranges L') (at_ranges L) (2 * num_ranges L + 2) (max_ranges L') (at_ptrs L + (num_ptrs L + 2)) = (m1, True)"
    "buf m0 b N F1 m1" "\<forall>x < 2 * num_ranges L + 2. F1 (at_ranges L' + x) = F (at_ranges L + x)"
    "kept_outside (at_ranges L') (max_ranges L') (at_ranges L) (2 * num_ranges L + 2) F F1"
    using move_section [OF buf fits w(1,2) l'(4) w(3) grow(2)] by blast
  obtain m2 F2 where m2: "moved_section m1 b (at_ptrs L') (at_ptrs L) (num_ptrs L + 2) (max_ptrs L') (at_objs L + (3 * num_objs L + 2)) = (m2, True)"
    "buf m0 b N F2 m2" "\<forall>x < num_ptrs L + 2. F2 (at_ptrs L' + x) = F1 (at_ptrs L + x)"
    "kept_outside (at_ptrs L') (max_ptrs L') (at_ptrs L) (num_ptrs L + 2) F1 F2"
    using move_section [OF m1(2) fits w(3,4) l'(3) w(5) grow(1)] by blast
  have "at_objs L \<le> at_objs L' \<or> at_slots L + (num_slots L + 2) \<le> at_objs L'" using L' l' slots by simp
  then obtain m3 F3 where m3: "moved_section m2 b (at_objs L') (at_objs L) (3 * num_objs L + 2) (max_objs L') (at_slots L + (num_slots L + 2)) = (m3, True)"
    "buf m0 b N F3 m3" "\<forall>x < 3 * num_objs L + 2. F3 (at_objs L' + x) = F2 (at_objs L + x)"
    "kept_outside (at_objs L') (max_objs L') (at_objs L) (3 * num_objs L + 2) F2 F3"
    using move_section [OF m2(2) fits w(5,6) l'(2) w(7)] by blast
  have after: "8 + (num_slots L + 2) \<le> at_objs L'" "at_objs L + (3 * num_objs L + 2) \<le> at_ptrs L'"
    "at_ptrs L + (num_ptrs L + 2) \<le> at_ranges L'"
    using L' l l' grow by linarith+
  have F1: "F1 y = F y" if "y < at_ptrs L + (num_ptrs L + 2)" for y
    by (rule kept_outsideD [OF m1(4)]) (use that after l in linarith)+
  have F2: "F2 y = F1 y" if "y < at_objs L + (3 * num_objs L + 2) \<or> at_ranges L' \<le> y" for y
    by (rule kept_outsideD [OF m2(4)]) (use that after l L' in linarith)+
  have F3: "F3 y = F2 y" if "y < 8 + (num_slots L + 2) \<or> at_ptrs L' \<le> y" for y
    by (rule kept_outsideD [OF m3(4)]) (use that after l L' in linarith)+
  have "\<forall>y < 8 + (num_slots L + 2). F3 y = F y" using F1 F2 F3 l by simp
  moreover have "\<forall>x < 3 * num_objs L + 2. F3 (at_objs L' + x) = F (at_objs L + x)"
    using m3(3) F2 F1 l by simp
  moreover have "\<forall>x < num_ptrs L + 2. F3 (at_ptrs L' + x) = F (at_ptrs L + x)"
    using m2(3) F3 F1 by simp
  moreover have "\<forall>x < 2 * num_ranges L + 2. F3 (at_ranges L' + x) = F (at_ranges L + x)"
    using m1(3) F2 F3 L' by simp
  ultimately show ?thesis using m1(1) m2(1) m3(1,2) by blast
qed

subsection \<open>The new header\<close>

lemma fill_tail:
  assumes "buf m0 b n F m" "fits b n" "sz \<le> ext" "j + ext \<le> n"
  shows "\<exists>F'. buf m0 b n F' (if (8 * of_nat ext :: u64) > 8 * of_nat sz
      then mem_set m (word_addr b (j + sz)) (8 * of_nat ext - 8 * of_nat sz) 0 else m) \<and>
    (\<forall>y. y < j + sz \<or> j + ext \<le> y \<longrightarrow> F' y = F y)"
proof (cases "(8 * of_nat ext :: u64) > 8 * of_nat sz")
  case True
  have "buf m0 b n (\<lambda>y. if j + sz \<le> y \<and> y < j + sz + (ext - sz) then 0 else F y)
      (mem_set m (word_addr b (j + sz)) (8 * of_nat (ext - sz)) 0)"
    using assms(3,4) by (intro buf_fill assms(1,2)) simp
  then show ?thesis
    unfolding if_P [OF True] words_diff [OF assms(3)]
    by (intro exI [of _ "\<lambda>y. if j + sz \<le> y \<and> y < j + sz + (ext - sz) then 0 else F y"]) (use assms(3) in auto)
next
  case False
  then show ?thesis using assms(1) by auto
qed

definition new_header :: "u64 \<Rightarrow> nat \<Rightarrow> buffer_layout \<Rightarrow> (nat \<Rightarrow> u64) \<Rightarrow> nat \<Rightarrow> u64" where
  "new_header b n L F = F(1 := 8 * of_nat n, 3 := word_addr b (at_slots L), 4 := word_addr b (at_objs L),
     5 := word_addr b (at_ptrs L), 6 := word_addr b (at_ranges L), at_slots L := 8 * of_nat (max_slots L),
     at_objs L := 8 * of_nat (max_objs L), at_ptrs L := 8 * of_nat (max_ptrs L),
     at_ranges L := 8 * of_nat (max_ranges L))"

lemma set_max_size_words:
  assumes "buf m0 b N F m" "fits b N" "k \<in> {3, 4, 5, 6}" "F k = word_addr b j" "k < N" "j < N"
  shows "buf m0 b N (F(j := x)) (ManagedBuffer_set_section_max_size m b (of_nat k) x 8)"
proof -
  have b: "b \<noteq> 0" "word_addr b j \<noteq> 0" using assms(2,6) addr_neq_0 by (auto simp: fits_def)
  show ?thesis
    unfolding set_section_words(1) [OF assms(1) b(1) assms(3,5,4) b(2)] by (rule buf_write [OF assms(1,2,6)])
qed

lemma header_words_written:
  assumes buf: "buf m0 b N F m" and fits: "fits b N" and lo: "layout_ok n L" and room: "n \<le> N"
  shows "buf m0 b N (new_header b n L F)
    (set_max_sizes (reserve_set_header m b (8 * of_nat n) (word_addr b (at_slots L)) (word_addr b (at_objs L))
        (word_addr b (at_ptrs L)) (word_addr b (at_ranges L))) b (8 * of_nat (max_slots L)) (8 * of_nat (max_objs L))
      (8 * of_nat (max_ptrs L)) (8 * of_nat (max_ranges L)) 8)"
proof -
  note bounds = layout_bounds [OF lo]
  have N: "6 < N" "at_slots L < N" "at_objs L < N" "at_ptrs L < N" "at_ranges L < N" using bounds(1-5) room by simp_all
  have above: "6 < at_slots L" "6 < at_objs L" "6 < at_ptrs L" "6 < at_ranges L" using bounds by simp_all
  define m1 where "m1 = reserve_set_header m b (8 * of_nat n) (word_addr b (at_slots L)) (word_addr b (at_objs L))
        (word_addr b (at_ptrs L)) (word_addr b (at_ranges L))"
  have m1: "buf m0 b N (F(1 := 8 * of_nat n, 3 := word_addr b (at_slots L), 4 := word_addr b (at_objs L),
      5 := word_addr b (at_ptrs L), 6 := word_addr b (at_ranges L))) m1"
    unfolding m1_def reserve_set_header_def Let_def addr_begin using N(1) by (intro buf_write buf fits) simp_all
  note m2 = set_max_size_words [OF m1 fits, of 3 "at_slots L" "8 * of_nat (max_slots L)", simplified, OF _ N(2)]
  note m3 = set_max_size_words [OF m2 fits, of 4 "at_objs L" "8 * of_nat (max_objs L)", simplified]
  note m4 = set_max_size_words [OF m3 fits, of 5 "at_ptrs L" "8 * of_nat (max_ptrs L)", simplified]
  note m5 = set_max_size_words [OF m4 fits, of 6 "at_ranges L" "8 * of_nat (max_ranges L)", simplified]
  show ?thesis
    unfolding m1_def [symmetric] set_max_sizes_def Let_def new_header_def using m5 N above by simp
qed

subsection \<open>The whole operation\<close>

lemma buf_part: "buf m0 b N f m \<Longrightarrow> n \<le> N \<Longrightarrow> buf m b n f m"
  by (simp add: buf_def)

lemma section_offsets:
  assumes "in_place m0 b n L F m"
  shows "ManagedBuffer_get_section_offset m b 3 8 = 8 * of_nat (at_slots L)"
    and "ManagedBuffer_get_section_offset m b 4 8 = 8 * of_nat (at_objs L)"
    and "ManagedBuffer_get_section_offset m b 5 8 = 8 * of_nat (at_ptrs L)"
    and "ManagedBuffer_get_section_offset m b 6 8 = 8 * of_nat (at_ranges L)"
proof -
  have pl: "buf m0 b n F m" "fits b n" "header_at b L F" "layout_ok n L" using assms by (simp_all add: in_place_def)
  note bounds = layout_bounds [OF pl(4)]
  have b: "b \<noteq> 0" using pl(2) by (simp add: fits_def)
  have reads: "rd64 m (word_addr b 0) = word_addr b 0" "rd64 m (word_addr b 3) = word_addr b (at_slots L)"
    "rd64 m (word_addr b 4) = word_addr b (at_objs L)" "rd64 m (word_addr b 5) = word_addr b (at_ptrs L)"
    "rd64 m (word_addr b 6) = word_addr b (at_ranges L)"
    using buf_read [OF pl(1)] pl(3) bounds(1) by (simp_all add: header_at_def)
  have diff: "word_addr b k - word_addr b 0 = 8 * of_nat k" for k by (simp add: word_addr_def)
  have le: "word_addr b 0 \<le> word_addr b k" if "k \<le> n" for k using that by (simp add: addr_le [OF pl(2)])
  have n: "at_slots L \<le> n" "at_objs L \<le> n" "at_ptrs L \<le> n" "at_ranges L \<le> n" using bounds by simp_all
  show "ManagedBuffer_get_section_offset m b 3 8 = 8 * of_nat (at_slots L)"
    "ManagedBuffer_get_section_offset m b 4 8 = 8 * of_nat (at_objs L)"
    "ManagedBuffer_get_section_offset m b 5 8 = 8 * of_nat (at_ptrs L)"
    "ManagedBuffer_get_section_offset m b 6 8 = 8 * of_nat (at_ranges L)"
    unfolding ManagedBuffer_get_section_offset_def addr_begin reads diff using b le [OF n(1)] le [OF n(2)] le [OF n(3)] le [OF n(4)]
    by simp_all
qed

lemma section_sizes_sum:
  assumes "in_place m0 b n L F m"
  shows "ManagedBuffer_get_section_size m b 3 8 = 8 * of_nat (num_slots L + 2)"
    "ManagedBuffer_get_section_size m b 4 8 = 8 * of_nat (3 * num_objs L + 2)"
    "ManagedBuffer_get_section_size m b 5 8 = 8 * of_nat (num_ptrs L + 2)"
    "ManagedBuffer_get_section_size m b 6 8 = 8 * of_nat (2 * num_ranges L + 2)"
  by (rule section_sizes [OF assms])+

lemma flag_or_move: "(if \<not> (x = y) then t else (m, x = y)) = (if x \<noteq> y then t else (m, True))"
  by simp

lemma layout_spans:
  assumes "layout_ok n L"
  shows "at_objs L + 2 + 3 * num_objs L \<le> at_ptrs L" "at_ptrs L + 2 + num_ptrs L \<le> at_ranges L"
    "at_objs L < at_ptrs L" "at_ptrs L < at_ranges L" "at_slots L < at_objs L"
  using assms by (simp_all add: layout_ok_def)

lemma reserve_moves:
  assumes desc: "describes b n L f" and buf: "buf m0 b N f m" and fits: "fits b N" and b: "8 \<le> unat b" "b mod 8 = 0"
    and slots: "at_slots L = 8" and room: "n \<le> N" "n' \<le> N"
    and n': "n' = capacity_words os sl ps rs" and L': "L' = with_capacity os sl ps rs L"
    and counts: "num_slots L \<le> sl" "num_objs L \<le> os" "num_ptrs L \<le> ps" "num_ranges L \<le> rs"
    and growable: "growable N L L'"
    and changed: "of_nat os \<noteq> ManagedBuffer_get_section_max_num_entities m b 4 8 \<or>
      of_nat sl \<noteq> ManagedBuffer_get_section_max_num_entities m b 3 8 \<or>
      of_nat ps \<noteq> ManagedBuffer_get_section_max_num_entities m b 5 8 \<or>
      of_nat rs \<noteq> ManagedBuffer_get_section_max_num_entities m b 6 8"
  shows "\<exists>m' f'. ManagedBuffer_reserve m b (of_nat os) (of_nat sl) (of_nat ps) (of_nat rs) (8 * of_nat N) 8 =
      (m', Some (8 * of_nat n'), 0) \<and>
    buf m0 b N f' m' \<and> describes b n' L' f' \<and> same_contents L f L' f'"
proof -
  have d: "header_at b L f" "sections_ok n L f" "layout_ok n L" using desc by (simp_all add: describes_def)
  have place: "in_place m b n L f m"
    using buf_part [OF buf room(1)] fits room(1) b d by (simp add: in_place_def fits_def)
  have lo': "layout_ok n' L'" unfolding n' L' using counts by (intro capacity_layout_ok)
  have l': "at_slots L' = 8" "at_objs L' = 8 + max_slots L'" "at_ptrs L' = at_objs L' + max_objs L'"
    "at_ranges L' = at_ptrs L' + max_ptrs L'" "n' = at_ranges L' + max_ranges L'"
    "num_slots L' = num_slots L" "num_objs L' = num_objs L" "num_ptrs L' = num_ptrs L" "num_ranges L' = num_ranges L"
    by (simp_all add: L' n' capacity_words_def)
  obtain m1 m2 m3 F where moves:
    "moved_section m b (at_ranges L') (at_ranges L) (2 * num_ranges L + 2) (max_ranges L') (at_ptrs L + (num_ptrs L + 2)) = (m1, True)"
    "moved_section m1 b (at_ptrs L') (at_ptrs L) (num_ptrs L + 2) (max_ptrs L') (at_objs L + (3 * num_objs L + 2)) = (m2, True)"
    "moved_section m2 b (at_objs L') (at_objs L) (3 * num_objs L + 2) (max_objs L') (at_slots L + (num_slots L + 2)) = (m3, True)"
    "buf m0 b N F m3" "\<forall>y < 8 + (num_slots L + 2). F y = f y"
    "\<forall>x < 3 * num_objs L + 2. F (at_objs L' + x) = f (at_objs L + x)"
    "\<forall>x < num_ptrs L + 2. F (at_ptrs L' + x) = f (at_ptrs L + x)"
    "\<forall>x < 2 * num_ranges L + 2. F (at_ranges L' + x) = f (at_ranges L + x)"
    using three_moves [OF buf fits d(3) lo' room slots l'(1-4,6-9) growable] by blast
  have fill: "num_slots L + 2 \<le> max_slots L'" "8 + max_slots L' \<le> N" using lo' l' room by (simp_all add: layout_ok_def)
  define m4 where "m4 = (if (8 * of_nat (max_slots L') :: u64) > 8 * of_nat (num_slots L + 2)
      then mem_set m3 (word_addr b (8 + (num_slots L + 2))) (8 * of_nat (max_slots L') - 8 * of_nat (num_slots L + 2)) 0 else m3)"
  obtain G where G: "buf m0 b N G m4" "\<forall>y. y < 8 + (num_slots L + 2) \<or> 8 + max_slots L' \<le> y \<longrightarrow> G y = F y"
    using fill_tail [OF moves(4) fits fill] unfolding m4_def by blast
  define m5 where "m5 = set_max_sizes (reserve_set_header m4 b (8 * of_nat n') (word_addr b (at_slots L')) (word_addr b (at_objs L'))
        (word_addr b (at_ptrs L')) (word_addr b (at_ranges L'))) b (8 * of_nat (max_slots L')) (8 * of_nat (max_objs L'))
      (8 * of_nat (max_ptrs L')) (8 * of_nat (max_ranges L')) 8"
  have m5: "buf m0 b N (new_header b n' L' G) m5" unfolding m5_def by (rule header_words_written [OF G(1) fits lo' room(2)])
  note above = layout_bounds [OF lo'] layout_bounds [OF d(3)] layout_spans [OF lo']
  have kept: "new_header b n' L' G k = F k"
    if "k < 8 + (num_slots L + 2) \<or> at_objs L' \<le> k" "k \<notin> {1, 3, 4, 5, 6, 8, at_objs L', at_ptrs L', at_ranges L'}" for k
  proof -
    have "G k = F k" using that(1) G(2) unfolding l'(2) by blast
    then show ?thesis using that(2) l'(1) by (simp add: new_header_def)
  qed
  have tables: "new_header b n' L' G (at_objs L' + x) = f (at_objs L + x)" if "x < 3 * num_objs L + 2" "0 < x" for x
    using kept [of "at_objs L' + x"] moves(6) that above l' by simp
  have tables2: "new_header b n' L' G (at_ptrs L' + x) = f (at_ptrs L + x)" if "x < num_ptrs L + 2" "0 < x" for x
    using kept [of "at_ptrs L' + x"] moves(7) that above l' by simp
  have tables3: "new_header b n' L' G (at_ranges L' + x) = f (at_ranges L + x)" if "x < 2 * num_ranges L + 2" "0 < x" for x
    using kept [of "at_ranges L' + x"] moves(8) that above l' by simp
  have low: "new_header b n' L' G k = f k" if "k < 8 + (num_slots L + 2)" "k \<notin> {1, 3, 4, 5, 6, 8}" for k
    using kept [of k] moves(5) that above l' by simp
  have same: "same_contents L f L' (new_header b n' L' G)"
    unfolding same_contents_def
  proof (intro conjI allI impI)
    show "new_header b n' L' G k = f k" if "in_slots L k" for k
      using low [of k] that slots by (simp add: in_slots_def)
    show "new_header b n' L' G (at_objs L' + 2 + x) = f (at_objs L + 2 + x)" if "x < 3 * num_objs L" for x
      using tables [of "2 + x"] that by (simp add: add.assoc)
    show "new_header b n' L' G (at_ptrs L' + 2 + x) = f (at_ptrs L + 2 + x)" if "x < num_ptrs L" for x
      using tables2 [of "2 + x"] that by (simp add: add.assoc)
    show "new_header b n' L' G (at_ranges L' + 2 + x) = f (at_ranges L + 2 + x)" if "x < 2 * num_ranges L" for x
      using tables3 [of "2 + x"] that by (simp add: add.assoc)
  qed (simp_all add: L' slots)
  have f: "f 0 = word_addr b 0" "f 2 = 64" "f 9 = of_nat (num_slots L)" "f (at_objs L + 1) = of_nat (num_objs L)"
    "f (at_ptrs L + 1) = of_nat (num_ptrs L)" "f (at_ranges L + 1) = of_nat (num_ranges L)"
    using d(1,2) slots by (simp_all add: header_at_def sections_ok_def)
  have words: "new_header b n' L' G 0 = f 0" "new_header b n' L' G 2 = f 2" "new_header b n' L' G 9 = f 9"
    "new_header b n' L' G (at_objs L' + 1) = f (at_objs L + 1)" "new_header b n' L' G (at_ptrs L' + 1) = f (at_ptrs L + 1)"
    "new_header b n' L' G (at_ranges L' + 1) = f (at_ranges L + 1)"
    using low [of 0] low [of 2] low [of 9] tables [of 1] tables2 [of 1] tables3 [of 1] by simp_all
  have set: "new_header b n' L' G 1 = 8 * of_nat n'" "new_header b n' L' G 3 = word_addr b (at_slots L')"
    "new_header b n' L' G 4 = word_addr b (at_objs L')" "new_header b n' L' G 5 = word_addr b (at_ptrs L')"
    "new_header b n' L' G 6 = word_addr b (at_ranges L')" "new_header b n' L' G (at_slots L') = 8 * of_nat (max_slots L')"
    "new_header b n' L' G (at_objs L') = 8 * of_nat (max_objs L')" "new_header b n' L' G (at_ptrs L') = 8 * of_nat (max_ptrs L')"
    "new_header b n' L' G (at_ranges L') = 8 * of_nat (max_ranges L')"
    using above l' by (simp_all add: new_header_def)
  have "header_at b L' (new_header b n' L' G)"
    using words(1) f(1) set(2-5) by (simp add: header_at_def)
  moreover have "sections_ok n' L' (new_header b n' L' G)"
    unfolding sections_ok_def using words f set l'(1,6-9) by simp
  ultimately have desc': "describes b n' L' (new_header b n' L' G)"
    using describes_same_contents [OF desc same _ _ lo'] by blast
  have "ManagedBuffer_reserve m b (of_nat os) (of_nat sl) (of_nat ps) (of_nat rs) (8 * of_nat N) 8 = (m5, Some (8 * of_nat n'), 0)"
  proof -
    have b0: "b \<noteq> 0" using fits by (simp add: fits_def)
    have N: "8 * N < 2 ^ 64" using fits by (simp add: fits_def)
    have reads: "rd64 m (word_addr b 1) = 8 * of_nat n" "rd64 m (b + 16) = 64"
      using buf_read [OF buf, of 1] buf_read [OF buf, of 2] d(2) above(1) room
      by (simp_all add: sections_ok_def word_addr_def)
    have len: "ManagedBuffer_get_buffer_length m b 8 = 8 * of_nat n"
      using b0 reads(1) by (simp only: ManagedBuffer_get_buffer_length_def addr_begin) simp
    have header: "ManagedBuffer_get_header_length m b 8 = 8 * of_nat 8" using header_length_64 [OF b0] reads(2) by blast
    have sizes: "ManagedBuffer_calculate_section_size 3 (of_nat sl) 8 = 8 * of_nat (max_slots L')"
      "ManagedBuffer_calculate_section_size 4 (of_nat os) 8 = 8 * of_nat (max_objs L')"
      "ManagedBuffer_calculate_section_size 5 (of_nat ps) 8 = 8 * of_nat (max_ptrs L')"
      "ManagedBuffer_calculate_section_size 6 (of_nat rs) 8 = 8 * of_nat (max_ranges L')"
      unfolding calculated_sizes by (simp_all add: L')
    have le: "(of_nat i :: u64) \<le> of_nat k" if "i \<le> k" "k \<le> N" for i k
    proof -
      have "i < 2 ^ 64" "k < 2 ^ 64" using that N by linarith+
      then show ?thesis using that by (simp add: u64_le_nat unat_of_nat_u64)
    qed
    have caps: "os \<le> N" "sl \<le> N" "ps \<le> N" "rs \<le> N" using room(2) by (simp_all add: n' capacity_words_def)
    have n8: "8 * n < 2 ^ 64" "8 * n' < 2 ^ 64" using N room by linarith+
    have "(8 * of_nat n :: u64) > 0" using words_less [of 0 n] n8 above(11) by simp
    moreover have "(8 * of_nat n :: u64) \<le> 8 * of_nat N" "(8 * of_nat n' :: u64) \<le> 8 * of_nat N"
      using room n8 N by (simp_all only: words_le)
    ultimately have guard: "(b \<noteq> 0 \<and> (8 :: u64) > 0 \<and> (8 * of_nat n :: u64) > 0 \<and> (8 * of_nat n :: u64) \<le> 8 * of_nat N \<and>
        (of_nat (num_objs L) :: u64) \<le> of_nat os \<and> (of_nat (num_slots L) :: u64) \<le> of_nat sl \<and>
        (of_nat (num_ptrs L) :: u64) \<le> of_nat ps \<and> (of_nat (num_ranges L) :: u64) \<le> of_nat rs) = True"
      "((8 * of_nat n' :: u64) \<le> 8 * of_nat N) = True"
      using b0 le counts caps by simp_all
    have ends: "8 + max_slots L' = at_objs L'" "at_objs L' + max_objs L' = at_ptrs L'" "at_ptrs L' + max_ptrs L' = at_ranges L'"
      "at_ranges L' + max_ranges L' = n'" "8 = at_slots L'" using l' by simp_all
    note counts' = section_counts(1-4) [OF place]
    show ?thesis
      unfolding ManagedBuffer_reserve_def Let_def counts' len header sizes section_offsets [OF place]
        section_sizes_sum [OF place] words_sum(1) ends(1-4) guard
      unfolding if_True simp_thms if_P [OF changed] flag_or_move moved_section_def [symmetric] moves(1-3) prod.case
      unfolding slots word_addr_word [of b]
      unfolding addr_plus(1) m4_def [symmetric]
      by (simp only: m5_def l'(1) simp_thms if_True)
  qed
  then show ?thesis using m5 same desc' by blast
qed

text \<open>A request for the capacities that the buffer has already is a success without any change.\<close>

lemma unat_section_room: "8 * k < (2 :: nat) ^ 64 \<Longrightarrow> 2 \<le> k \<Longrightarrow> unat (8 * of_nat k - 16 :: u64) = 8 * (k - 2)"
proof -
  assume k: "8 * k < (2 :: nat) ^ 64" "2 \<le> k"
  have "(8 * of_nat k - 16 :: u64) = 8 * of_nat k - 8 * of_nat 2" by simp
  also have "\<dots> = 8 * of_nat (k - 2)" by (rule words_diff [OF k(2)])
  finally have "(8 * of_nat k - 16 :: u64) = 8 * of_nat (k - 2)" .
  moreover have "8 * (k - 2) < 2 ^ 64" using k by linarith
  ultimately show ?thesis by (simp only: unat_words)
qed

lemma unat_max_entities:
  assumes "ManagedBuffer_get_section_max_size m b sec 8 = 8 * of_nat w" "8 * w < (2 :: nat) ^ 64" "2 \<le> w"
  shows "unat (ManagedBuffer_get_section_max_num_entities m b sec 8) = 8 * (w - 2) div unat (ManagedBuffer_get_section_entity_size sec 8)"
proof -
  have "(16 :: u64) \<le> 8 * of_nat w" using words_le [of 2 w] assms(2,3) by simp
  then have "ManagedBuffer_get_section_max_num_entities m b sec 8 =
      (8 * of_nat w - 16) div ManagedBuffer_get_section_entity_size sec 8"
    using assms(1) by (simp add: ManagedBuffer_get_section_max_num_entities_def ManagedBuffer_get_section_max_size_def Let_def)
  then show ?thesis by (simp only: unat_div unat_section_room [OF assms(2,3)])
qed

lemma max_entities_section:
  assumes "ManagedBuffer_get_section_max_size m b sec 8 = 8 * of_nat w"
    and "ManagedBuffer_get_section_max_num_entities m b sec 8 = of_nat k"
    and "k < 2 ^ 64" "8 * w < (2 :: nat) ^ 64" "2 \<le> w"
  shows "k = 8 * (w - 2) div unat (ManagedBuffer_get_section_entity_size sec 8)"
  using unat_max_entities [OF assms(1,4,5)] unfolding assms(2) unat_of_nat_u64 [OF assms(3)] .

lemma max_entities:
  assumes "in_place m0 b n L F m" "8 * k < (2 :: nat) ^ 64"
  shows "ManagedBuffer_get_section_max_num_entities m b 3 8 = of_nat k \<Longrightarrow> k + 2 \<le> max_slots L"
    and "ManagedBuffer_get_section_max_num_entities m b 4 8 = of_nat k \<Longrightarrow> 3 * k + 2 \<le> max_objs L"
    and "ManagedBuffer_get_section_max_num_entities m b 5 8 = of_nat k \<Longrightarrow> k + 2 \<le> max_ptrs L"
    and "ManagedBuffer_get_section_max_num_entities m b 6 8 = of_nat k \<Longrightarrow> 2 * k + 2 \<le> max_ranges L"
proof -
  have lo: "layout_ok n L" and n: "8 * n < 2 ^ 64" using assms by (simp_all add: in_place_def fits_def)
  have k: "k < 2 ^ 64" using assms(2) n by linarith
  have w: "8 * max_slots L < 2 ^ 64" "2 \<le> max_slots L" "8 * max_objs L < 2 ^ 64" "2 \<le> max_objs L"
    "8 * max_ptrs L < 2 ^ 64" "2 \<le> max_ptrs L" "8 * max_ranges L < 2 ^ 64" "2 \<le> max_ranges L"
    using lo n by (simp_all add: layout_ok_def)
  note max = section_counts(5-8) [OF assms(1)]
  show "k + 2 \<le> max_slots L" if "ManagedBuffer_get_section_max_num_entities m b 3 8 = of_nat k"
    using max_entities_section [OF max(1) that k w(1,2)] w(2) by simp
  show "3 * k + 2 \<le> max_objs L" if "ManagedBuffer_get_section_max_num_entities m b 4 8 = of_nat k"
    using max_entities_section [OF max(2) that k w(3,4)] w(4) by simp
  show "k + 2 \<le> max_ptrs L" if "ManagedBuffer_get_section_max_num_entities m b 5 8 = of_nat k"
    using max_entities_section [OF max(3) that k w(5,6)] w(6) by simp
  show "2 * k + 2 \<le> max_ranges L" if "ManagedBuffer_get_section_max_num_entities m b 6 8 = of_nat k"
    using max_entities_section [OF max(4) that k w(7,8)] w(8) by simp
qed

lemma reserve_unchanged:
  assumes place: "in_place m b n L f m" and len: "ManagedBuffer_get_buffer_length m b 8 = 8 * of_nat n" and "n \<le> N" "8 * N < (2 :: nat) ^ 64"
    and same: "ManagedBuffer_get_section_max_num_entities m b 4 8 = of_nat os" "ManagedBuffer_get_section_max_num_entities m b 3 8 = of_nat sl"
      "ManagedBuffer_get_section_max_num_entities m b 5 8 = of_nat ps" "ManagedBuffer_get_section_max_num_entities m b 6 8 = of_nat rs"
    and counts: "num_slots L \<le> sl" "num_objs L \<le> os" "num_ptrs L \<le> ps" "num_ranges L \<le> rs"
    and caps: "os \<le> N" "sl \<le> N" "ps \<le> N" "rs \<le> N"
  shows "ManagedBuffer_reserve m b (of_nat os) (of_nat sl) (of_nat ps) (of_nat rs) (8 * of_nat N) 8 =
    (m, Some (8 * of_nat n), 0)"
proof -
  have "b \<noteq> 0" "6 < n" using place layout_bounds(1) by (auto simp: in_place_def fits_def)
  have le: "(of_nat i :: u64) \<le> of_nat k" if "i \<le> k" "k \<le> N" for i k
  proof -
    have "i < 2 ^ 64" "k < 2 ^ 64" using that assms(4) by linarith+
    then show ?thesis using that by (simp add: u64_le_nat unat_of_nat_u64)
  qed
  have n8: "8 * n < 2 ^ 64" using assms(3,4) by linarith
  have "(8 * of_nat n :: u64) > 0" using words_less [of 0 n] n8 \<open>6 < n\<close> by simp
  moreover have "(8 * of_nat n :: u64) \<le> 8 * of_nat N" using assms(3,4) n8 by (simp only: words_le)
  moreover have "(of_nat (num_objs L) :: u64) \<le> of_nat os" "(of_nat (num_slots L) :: u64) \<le> of_nat sl"
    "(of_nat (num_ptrs L) :: u64) \<le> of_nat ps" "(of_nat (num_ranges L) :: u64) \<le> of_nat rs"
    using le counts caps by blast+
  ultimately show ?thesis
    unfolding ManagedBuffer_reserve_def Let_def section_counts(1-4) [OF place] len same
    using \<open>b \<noteq> 0\<close> by simp
qed

text \<open>C9: Changing the capacity of a buffer keeps its contents: if the new sizes fit the available memory and
  are not below what is in use, the result is a well-formed buffer at the same address that has at least the
  requested capacities, with the same slots, objects, data pointers and garbage ranges, and its length is
  reported. (Sections may move down only as far as the condition \<open>growable\<close> of the code's checks allows.)\<close>

theorem reserve_keeps_contents:
  assumes desc: "describes b n L f" and buf: "buf m0 b N f m" and fits: "fits b N" and b: "8 \<le> unat b" "b mod 8 = 0"
    and slots: "at_slots L = 8" and room: "n \<le> N" "capacity_words os sl ps rs \<le> N"
    and counts: "num_slots L \<le> sl" "num_objs L \<le> os" "num_ptrs L \<le> ps" "num_ranges L \<le> rs"
    and growable: "growable N L (with_capacity os sl ps rs L)"
  shows "\<exists>m' n' L' f'. ManagedBuffer_reserve m b (of_nat os) (of_nat sl) (of_nat ps) (of_nat rs) (8 * of_nat N) 8 =
      (m', Some (8 * of_nat n'), 0) \<and> n' \<le> N \<and>
    buf m0 b N f' m' \<and> describes b n' L' f' \<and> same_contents L f L' f' \<and> has_capacity os sl ps rs L'"
proof (cases "of_nat os \<noteq> ManagedBuffer_get_section_max_num_entities m b 4 8 \<or>
      of_nat sl \<noteq> ManagedBuffer_get_section_max_num_entities m b 3 8 \<or>
      of_nat ps \<noteq> ManagedBuffer_get_section_max_num_entities m b 5 8 \<or>
      of_nat rs \<noteq> ManagedBuffer_get_section_max_num_entities m b 6 8")
  case True
  have "has_capacity os sl ps rs (with_capacity os sl ps rs L)" by (simp add: has_capacity_def)
  then show ?thesis
    using reserve_moves [OF desc buf fits b slots room refl refl counts growable True] room(2) by blast
next
  case False
  then have same: "ManagedBuffer_get_section_max_num_entities m b 4 8 = of_nat os"
    "ManagedBuffer_get_section_max_num_entities m b 3 8 = of_nat sl"
    "ManagedBuffer_get_section_max_num_entities m b 5 8 = of_nat ps"
    "ManagedBuffer_get_section_max_num_entities m b 6 8 = of_nat rs"
    by auto
  have d: "header_at b L f" "sections_ok n L f" "layout_ok n L" using desc by (simp_all add: describes_def)
  have place: "in_place m b n L f m"
    using buf_part [OF buf room(1)] fits room(1) b d by (simp add: in_place_def fits_def)
  have "rd64 m (word_addr b 1) = 8 * of_nat n"
    using buf_read [OF buf, of 1] d(2) layout_bounds(1) [OF d(3)] room(1) by (simp add: sections_ok_def)
  then have len: "ManagedBuffer_get_buffer_length m b 8 = 8 * of_nat n"
    using fits by (simp only: ManagedBuffer_get_buffer_length_def addr_begin fits_def) simp
  have caps: "os \<le> N" "sl \<le> N" "ps \<le> N" "rs \<le> N" using room(2) by (simp_all add: capacity_words_def)
  have "8 * N < 2 ^ 64" using fits by (simp add: fits_def)
  note unchanged = reserve_unchanged [OF place len room(1) this same counts caps]
  have "8 * os < 2 ^ 64" "8 * sl < 2 ^ 64" "8 * ps < 2 ^ 64" "8 * rs < 2 ^ 64"
    using caps \<open>8 * N < 2 ^ 64\<close> by linarith+
  then have cap: "has_capacity os sl ps rs L"
    using max_entities [OF place] same unfolding has_capacity_def by blast
  show ?thesis using unchanged room(1) buf desc same_contents_refl cap by blast
qed

theorem reserve_keeps_contents_witness:
  "\<exists>m' n'. ManagedBuffer_reserve (put_words (\<lambda>_. 0) 4096 (sample_words 4096) 26) 4096 (of_nat 2) (of_nat 16) (of_nat 3)
    (of_nat 1) (8 * of_nat 64) 8 = (m', Some (8 * of_nat n'), 0)"
proof -
  define m where "m = put_words (\<lambda>_. 0) 4096 (sample_words 4096) 26"
  define f where "f k = (if k < 26 then sample_words 4096 k else rd64 m (word_addr 4096 k))" for k
  have fits: "fits 4096 64" "fits 4096 26" by (simp_all add: fits_def)
  have buf: "buf m 4096 64 f m"
    using buf_read [OF buf_put_words [OF fits(2)]] by (intro buf_cong [OF buf_self]) (simp add: f_def m_def)
  have desc: "describes 4096 26 sample_layout f"
    by (simp add: describes_def header_at_def sections_ok_def layout_ok_def objects_at_def ptrs_at_def ranges_at_def
      in_slots_def obj_words_def sample_layout_def sample_words_def word_addr_def less_Suc_eq inj_on_def f_def)
  have room: "at_slots sample_layout = 8" "26 \<le> (64 :: nat)" "capacity_words 2 16 3 1 \<le> 64" "num_slots sample_layout \<le> 16"
    "num_objs sample_layout \<le> 2" "num_ptrs sample_layout \<le> 3" "num_ranges sample_layout \<le> 1"
    "growable 64 sample_layout (with_capacity 2 16 3 1 sample_layout)"
    by (simp_all add: sample_layout_def capacity_words_def growable_def with_capacity_def)
  have b: "8 \<le> unat (4096 :: u64)" "(4096 :: u64) mod 8 = 0" by simp_all
  show ?thesis
    using reserve_keeps_contents [OF desc buf fits(1) b room] unfolding m_def by blast
qed

end
