(* ===== verification/Managed_Buffer_Clear.thy ===== *)
theory Managed_Buffer_Clear
  imports Managed_Buffer_Reserve
begin

section \<open>Emptying a managed buffer\<close>

text \<open>
  \<open>NS(ManagedBuffer_clear)\<close> forgets the contents of a buffer and keeps its sections; on request it also
  overwrites the forgotten elements with zeros.
\<close>

subsection \<open>The loops\<close>

definition zeroed :: "nat \<Rightarrow> nat \<Rightarrow> (nat \<Rightarrow> u64) \<Rightarrow> nat \<Rightarrow> u64" where
  "zeroed p k F = (\<lambda>y. if p \<le> y \<and> y < p + k then 0 else F y)"

lemma zeroed_0 [simp]: "zeroed p 0 F = F"
  by (auto simp: zeroed_def fun_eq_iff)

lemma zeroed_outside: "y < p \<or> p + k \<le> y \<Longrightarrow> zeroed p k F y = F y"
  by (auto simp: zeroed_def)

lemma clear_addr_loop:
  assumes "buf m0 b n F m" "fits b n" "p + cnt \<le> n"
  shows "buf m0 b n (zeroed p cnt F) (clear_addr_loop cnt m (word_addr b p))"
  using assms
proof (induction cnt arbitrary: p F m)
  case 0
  then show ?case by simp
next
  case (Suc c)
  have p: "p < n" "p + 1 + c \<le> n" using Suc.prems(3) by simp_all
  have "buf m0 b n (zeroed (p + 1) c (F(p := 0))) (clear_addr_loop c (wr64 m (word_addr b p) 0) (word_addr b (p + 1)))"
    by (rule Suc.IH [OF buf_write [OF Suc.prems(1,2) p(1)] Suc.prems(2) p(2)])
  moreover have "zeroed (p + 1) c (F(p := 0)) = zeroed p (Suc c) F"
    by (auto simp: zeroed_def fun_eq_iff)
  ultimately show ?case by (simp add: sizeof_address_def addr_simps)
qed

lemma clear_objects_loop:
  assumes "buf m0 b n F m" "fits b n" "p + 3 * cnt \<le> n"
  shows "buf m0 b n (zeroed p (3 * cnt) F) (clear_objects_loop cnt m (word_addr b p))"
  using assms
proof (induction cnt arbitrary: p F m)
  case 0
  then show ?case by simp
next
  case (Suc c)
  have p: "p < n" "p + 1 < n" "p + 2 < n" "p + 3 + 3 * c \<le> n" using Suc.prems(3) by simp_all
  have "word_addr b p \<noteq> 0" using addr_neq_0 [OF Suc.prems(2)] p(1) by simp
  then have "Object_preset m (word_addr b p) =
      wr64 (wr64 (wr64 m (word_addr b p) 0) (word_addr b (p + 1)) 0) (word_addr b (p + 2)) 0"
    by (simp add: Object_preset_def Object_set_begin_addr_def Object_set_type_id_def Object_set_size_def addr_simps)
  moreover have "buf m0 b n (F(p := 0, p + 1 := 0, p + 2 := 0))
      (wr64 (wr64 (wr64 m (word_addr b p) 0) (word_addr b (p + 1)) 0) (word_addr b (p + 2)) 0)"
    by (intro buf_write Suc.prems p)
  ultimately have "buf m0 b n (F(p := 0, p + 1 := 0, p + 2 := 0)) (Object_preset m (word_addr b p))" by simp
  from Suc.IH [OF this Suc.prems(2) p(4)]
  have "buf m0 b n (zeroed (p + 3) (3 * c) (F(p := 0, p + 1 := 0, p + 2 := 0)))
      (clear_objects_loop c (Object_preset m (word_addr b p)) (word_addr b (p + 3)))" .
  moreover have "zeroed (p + 3) (3 * c) (F(p := 0, p + 1 := 0, p + 2 := 0)) = zeroed p (3 * Suc c) F"
    by (auto simp: zeroed_def fun_eq_iff)
  ultimately show ?case by (simp add: sizeof_Object_def addr_simps)
qed

lemma clear_garbage_loop:
  assumes "buf m0 b n F m" "fits b n" "p + 2 * cnt \<le> n"
  shows "buf m0 b n (zeroed p (2 * cnt) F) (clear_garbage_loop cnt m (word_addr b p))"
  using assms
proof (induction cnt arbitrary: p F m)
  case 0
  then show ?case by simp
next
  case (Suc c)
  have p: "p < n" "p + 1 < n" "p + 2 + 2 * c \<le> n" using Suc.prems(3) by simp_all
  have "word_addr b p \<noteq> 0" using addr_neq_0 [OF Suc.prems(2)] p(1) by simp
  then have "BufferGarbage_preset m (word_addr b p) = wr64 (wr64 m (word_addr b p) 0) (word_addr b (p + 1)) 0"
    by (simp add: BufferGarbage_preset_def BufferGarbage_set_begin_addr_def BufferGarbage_set_size_def addr_simps)
  moreover have "buf m0 b n (F(p := 0, p + 1 := 0)) (wr64 (wr64 m (word_addr b p) 0) (word_addr b (p + 1)) 0)"
    by (intro buf_write Suc.prems p)
  ultimately have "buf m0 b n (F(p := 0, p + 1 := 0)) (BufferGarbage_preset m (word_addr b p))" by simp
  from Suc.IH [OF this Suc.prems(2) p(3)]
  have "buf m0 b n (zeroed (p + 2) (2 * c) (F(p := 0, p + 1 := 0)))
      (clear_garbage_loop c (BufferGarbage_preset m (word_addr b p)) (word_addr b (p + 2)))" .
  moreover have "zeroed (p + 2) (2 * c) (F(p := 0, p + 1 := 0)) = zeroed p (2 * Suc c) F"
    by (auto simp: zeroed_def fun_eq_iff)
  ultimately show ?case by (simp add: sizeof_BufferGarbage_def addr_simps)
qed

subsection \<open>The whole operation\<close>

text \<open>The layout that is left, and the words with and without overwriting.\<close>

definition without_contents :: "buffer_layout \<Rightarrow> buffer_layout" where
  "without_contents L = L\<lparr>num_slots := 0, objs_to := [], ptrs_to := [], ranges_to := []\<rparr>"

definition zeroed_contents :: "buffer_layout \<Rightarrow> (nat \<Rightarrow> u64) \<Rightarrow> nat \<Rightarrow> u64" where
  "zeroed_contents L f = zeroed (at_slots L + 2) (num_slots L) (zeroed (at_ptrs L + 2) (num_ptrs L)
     (zeroed (at_ranges L + 2) (2 * num_ranges L) (zeroed (at_objs L + 2) (3 * num_objs L) f)))"

definition no_entities :: "buffer_layout \<Rightarrow> (nat \<Rightarrow> u64) \<Rightarrow> nat \<Rightarrow> u64" where
  "no_entities L f = f(at_slots L + 1 := 0, at_objs L + 1 := 0, at_ptrs L + 1 := 0, at_ranges L + 1 := 0)"

lemma without_contents_describes:
  assumes "describes b n L f" "\<And>k. k \<in> {0, 1, 2, 3, 4, 5, 6, at_slots L, at_objs L, at_ptrs L, at_ranges L} \<Longrightarrow> F k = f k"
  shows "describes b n (without_contents L) (no_entities L F)"
proof -
  have lo: "layout_ok n L" using assms(1) by (simp add: describes_def)
  note b = layout_bounds [OF lo] layout_spans [OF lo]
  show ?thesis
    using assms b by (simp add: describes_def header_at_def sections_ok_def layout_ok_def objects_at_def ptrs_at_def ranges_at_def
      without_contents_def no_entities_def)
qed

lemma count_zeroed:
  assumes "buf m0 b n F m" "fits b n" "k \<in> {3, 4, 5, 6}" "F k = word_addr b j" "k < n" "j + 1 < n"
  shows "buf m0 b n (F(j + 1 := 0)) (ManagedBuffer_set_section_num_entities m b (of_nat k) 0 8)"
proof -
  have "b \<noteq> 0" "word_addr b j \<noteq> 0" using assms(2,6) addr_neq_0 by (auto simp: fits_def)
  then show ?thesis
    using set_section_words(2) [OF assms(1) _ assms(3,5,4)] buf_write [OF assms(1,2,6)] by simp
qed

lemma header_in_place_zeroed:
  assumes "header_in_place m0 b n L F m" "buf m0 b n (zeroed p k F) m'" "8 \<le> p"
  shows "header_in_place m0 b n L (zeroed p k F) m'"
  using assms by (simp add: header_in_place_def header_at_def zeroed_def)

lemma clear_words:
  assumes desc: "describes b n L f" and buf: "buf m0 b n f m" and fits: "fits b n" and b: "8 \<le> unat b" "b mod 8 = 0"
  shows "buf m0 b n (no_entities L (if zero then zeroed_contents L f else f)) (ManagedBuffer_clear m b zero 8)"
proof -
  have d: "header_at b L f" "sections_ok n L f" "layout_ok n L" using desc by (simp_all add: describes_def)
  note bounds = layout_bounds [OF d(3)] and spans = layout_spans [OF d(3)]
  have place: "in_place m0 b n L f m" using buf fits b d by (simp add: in_place_def)
  have cnt: "unat (of_nat (num_ranges L) :: u64) = num_ranges L" "unat (of_nat (num_ptrs L) :: u64) = num_ptrs L"
    "unat (of_nat (num_objs L) :: u64) = num_objs L" "unat (of_nat (num_slots L) :: u64) = num_slots L"
    using bounds by (auto intro!: num_words [OF place])
  have p8: "8 \<le> at_objs L + 2" "8 \<le> at_ranges L + 2" "8 \<le> at_ptrs L + 2" "8 \<le> at_slots L + 2" using bounds by simp_all
  have ends: "at_objs L + 2 + 3 * num_objs L \<le> n" "at_ranges L + 2 + 2 * num_ranges L \<le> n"
    "at_ptrs L + 2 + num_ptrs L \<le> n" "at_slots L + 2 + num_slots L \<le> n" using bounds by simp_all
  define m1 where "m1 = clear_objects_loop (num_objs L) m (word_addr b (at_objs L + 2))"
  define F1 where "F1 = zeroed (at_objs L + 2) (3 * num_objs L) f"
  have m1: "buf m0 b n F1 m1" unfolding m1_def F1_def by (rule clear_objects_loop [OF buf fits ends(1)])
  have h1: "header_in_place m0 b n L F1 m1"
    using header_in_place_zeroed [OF in_place_header [OF place] _ p8(1)] m1 by (simp add: F1_def)
  define m2 where "m2 = clear_garbage_loop (num_ranges L) m1 (word_addr b (at_ranges L + 2))"
  define F2 where "F2 = zeroed (at_ranges L + 2) (2 * num_ranges L) F1"
  have m2: "buf m0 b n F2 m2" unfolding m2_def F2_def by (rule clear_garbage_loop [OF m1 fits ends(2)])
  have h2: "header_in_place m0 b n L F2 m2" using header_in_place_zeroed [OF h1 _ p8(2)] m2 by (simp add: F2_def)
  define m3 where "m3 = clear_addr_loop (num_ptrs L) m2 (word_addr b (at_ptrs L + 2))"
  define F3 where "F3 = zeroed (at_ptrs L + 2) (num_ptrs L) F2"
  have m3: "buf m0 b n F3 m3" unfolding m3_def F3_def by (rule clear_addr_loop [OF m2 fits ends(3)])
  have h3: "header_in_place m0 b n L F3 m3" using header_in_place_zeroed [OF h2 _ p8(3)] m3 by (simp add: F3_def)
  define m4 where "m4 = clear_addr_loop (num_slots L) m3 (word_addr b (at_slots L + 2))"
  define F4 where "F4 = zeroed (at_slots L + 2) (num_slots L) F3"
  have m4: "buf m0 b n F4 m4" unfolding m4_def F4_def by (rule clear_addr_loop [OF m3 fits ends(4)])
  have h4: "header_in_place m0 b n L F4 m4" using header_in_place_zeroed [OF h3 _ p8(4)] m4 by (simp add: F4_def)
  define M where "M = (if zero then m4 else m)"
  define F where "F = (if zero then F4 else f)"
  have M: "buf m0 b n F M" and hF: "header_at b L F"
    using m4 buf h4 d(1) by (simp_all add: M_def F_def header_in_place_def)
  have F: "F = (if zero then zeroed_contents L f else f)"
    by (simp add: F_def F4_def F3_def F2_def F1_def zeroed_contents_def)
  have counts: "buf m0 b n (no_entities L F)
    (ManagedBuffer_set_section_num_entities (ManagedBuffer_set_section_num_entities (ManagedBuffer_set_section_num_entities
      (ManagedBuffer_set_section_num_entities M b 3 0 8) b 4 0 8) b 5 0 8) b 6 0 8)"
  proof -
    have N: "6 < n" "at_slots L + 1 < n" "at_objs L + 1 < n" "at_ptrs L + 1 < n" "at_ranges L + 1 < n"
      using bounds(1-5) by simp_all
    have above: "6 < at_slots L" "6 < at_objs L" "6 < at_ptrs L" "6 < at_ranges L" using bounds by simp_all
    have hw: "F 3 = word_addr b (at_slots L)" "F 4 = word_addr b (at_objs L)" "F 5 = word_addr b (at_ptrs L)"
      "F 6 = word_addr b (at_ranges L)" using hF by (simp_all add: header_at_def)
    note c1 = count_zeroed [OF M fits, of 3 "at_slots L", simplified, OF hw(1)]
    note c2 = count_zeroed [OF c1 fits, of 4 "at_objs L", simplified]
    note c3 = count_zeroed [OF c2 fits, of 5 "at_ptrs L", simplified]
    note c4 = count_zeroed [OF c3 fits, of 6 "at_ranges L", simplified]
    show ?thesis unfolding no_entities_def using c4 N above hw by simp
  qed
  have "ManagedBuffer_clear m b zero 8 = ManagedBuffer_set_section_num_entities (ManagedBuffer_set_section_num_entities
      (ManagedBuffer_set_section_num_entities (ManagedBuffer_set_section_num_entities M b 3 0 8) b 4 0 8) b 5 0 8) b 6 0 8"
  proof -
    have objs: "(if (0 :: u64) < of_nat (num_objs L) then clear_objects_loop (unat (of_nat (num_objs L) :: u64)) m
        (word_addr b (at_objs L + 2)) else m) = m1"
      unfolding count_pos [OF cnt(3)] cnt(3) m1_def by (cases "num_objs L = 0") simp_all
    have garbage: "(if (0 :: u64) < of_nat (num_ranges L) then clear_garbage_loop (unat (of_nat (num_ranges L) :: u64)) m1
        (word_addr b (at_ranges L + 2)) else m1) = m2"
      unfolding count_pos [OF cnt(1)] cnt(1) m2_def by (cases "num_ranges L = 0") simp_all
    have ptrs: "(if (0 :: u64) < of_nat (num_ptrs L) then clear_addr_loop (unat (of_nat (num_ptrs L) :: u64)) m2
        (word_addr b (at_ptrs L + 2)) else m2) = m3"
      unfolding count_pos [OF cnt(2)] cnt(2) m3_def by (cases "num_ptrs L = 0") simp_all
    have slots: "(if (0 :: u64) < of_nat (num_slots L) then clear_addr_loop (unat (of_nat (num_slots L) :: u64)) m3
        (word_addr b (at_slots L + 2)) else m3) = m4"
      unfolding count_pos [OF cnt(4)] cnt(4) m4_def by (cases "num_slots L = 0") simp_all
    have guard: "b \<noteq> 0 \<and> (8 :: u64) > 0 \<and> b mod 8 = 0" using fits b by (simp add: fits_def)
    show ?thesis
      unfolding ManagedBuffer_clear_def mutable_ptrs Let_def if_P [OF guard] section_counts(1-4) [OF place]
        section_data(2) [OF place] objs header_data(4) [OF h1] garbage header_data(3) [OF h2] ptrs
        header_data(1) [OF h3] slots M_def ..
  qed
  then show ?thesis using counts by (simp add: F)
qed

lemma cleared_describes:
  assumes "describes b n L f"
  shows "describes b n (without_contents L) (no_entities L (if zero then zeroed_contents L f else f))"
proof (rule without_contents_describes [OF assms])
  have lo: "layout_ok n L" using assms by (simp add: describes_def)
  note spans = layout_bounds [OF lo] layout_spans [OF lo]
  fix k assume "k \<in> {0, 1, 2, 3, 4, 5, 6, at_slots L, at_objs L, at_ptrs L, at_ranges L}"
  then show "(if zero then zeroed_contents L f else f) k = f k"
    using spans by (auto simp: zeroed_contents_def zeroed_def)
qed

text \<open>Clearing a buffer leaves a well-formed buffer without objects, with the same sections and capacities;
  the words of the sections are kept as they are or, on request, set to zero, and only the four numbers of
  elements are written besides.\<close>

theorem clear_gives_empty_buffer:
  assumes "describes b n L f" "buf m0 b n f m" "fits b n" "8 \<le> unat b" "b mod 8 = 0"
  shows "buf m0 b n (no_entities L (if zero then zeroed_contents L f else f)) (ManagedBuffer_clear m b zero 8) \<and>
    describes b n (without_contents L) (no_entities L (if zero then zeroed_contents L f else f))"
  using cleared_describes [OF assms(1)] clear_words [OF assms] by blast

theorem clear_gives_empty_buffer_witness:
  "describes 4096 26 (without_contents sample_layout) (no_entities sample_layout (zeroed_contents sample_layout (sample_words 4096)))"
proof -
  have fits: "fits 4096 26" by (simp add: fits_def)
  show ?thesis
    using clear_gives_empty_buffer [OF sample_describes buf_put_words [OF fits] fits, where zero = True] by simp
qed

end
