(* ===== verification/Object_Buffer.thy ===== *)
theory Object_Buffer
  imports Mem_Pool Managed_Buffer_Clear
begin

section \<open>The object buffer (buffer.h, buffer/buffer_type.h, buffer/buffer_generic.h)\<close>

text \<open>
  \<open>NS(Buffer)\<close> is the handle of a managed buffer: the address, size and capacity of its data, the place and
  number of its objects, and flags that say what may be done with it and who owns the memory. An owned buffer
  lies in a memory pool, whose address is \<open>datastore_addr\<close>. The operations take the byte memory, the pool at
  that address and the handle, and return them; an operation that may grow the pool also takes the address
  that \<open>malloc\<close> would return. Handles are not NULL. The back ends for OpenCL and CUDA are not enabled, so the
  dispatching functions of \<open>buffer.h\<close> call the generic ones.
\<close>

record Buffer =
  bf_data_addr :: u64
  bf_data_size :: u64
  bf_header_size :: u64
  bf_data_capacity :: u64
  bf_slot_length :: u64
  bf_object_addr :: u64
  bf_num_objects :: u64
  bf_datastore_flags :: u64
  bf_datastore_addr :: u64

subsection \<open>Flags\<close>

definition BUFFER_FLAGS_NONE :: u64 where
  "BUFFER_FLAGS_NONE = 0x00000000"

definition BUFFER_USES_DATASTORE :: u64 where
  "BUFFER_USES_DATASTORE = 0x00000001"

definition BUFFER_OWNS_DATASTORE :: u64 where
  "BUFFER_OWNS_DATASTORE = 0x00000002"

definition BUFFER_DATASTORE_ALLOW_APPENDS :: u64 where
  "BUFFER_DATASTORE_ALLOW_APPENDS = 0x00000004"

definition BUFFER_DATASTORE_ALLOW_CLEAR :: u64 where
  "BUFFER_DATASTORE_ALLOW_CLEAR = 0x00000008"

definition BUFFER_DATASTORE_ALLOW_DELETES :: u64 where
  "BUFFER_DATASTORE_ALLOW_DELETES = 0x00000010"

definition BUFFER_DATASTORE_ALLOW_REMAPPING :: u64 where
  "BUFFER_DATASTORE_ALLOW_REMAPPING = 0x00000020"

definition BUFFER_DATASTORE_ALLOW_RESIZE :: u64 where
  "BUFFER_DATASTORE_ALLOW_RESIZE = 0x00000040"

definition BUFFER_DATASTORE_MEMPOOL :: u64 where
  "BUFFER_DATASTORE_MEMPOOL = 0x00010000"

definition BUFFER_DATASTORE_OPENCL :: u64 where
  "BUFFER_DATASTORE_OPENCL = 0x00020000"

definition BUFFER_DATASTORE_CUDA :: u64 where
  "BUFFER_DATASTORE_CUDA = 0x00040000"

definition BUFFER_DATASTORE_SPECIAL_FLAGS_MASK :: u64 where
  "BUFFER_DATASTORE_SPECIAL_FLAGS_MASK = 0xff000000"

definition BUFFER_DATASTORE_SPECIAL_FLAGS_BITS :: nat where
  "BUFFER_DATASTORE_SPECIAL_FLAGS_BITS = 24"

definition BUFFER_DEFAULT_SLOT_SIZE :: u64 where
  "BUFFER_DEFAULT_SLOT_SIZE = 8"

definition BUFFER_DEFAULT_HEADER_SIZE :: u64 where
  "BUFFER_DEFAULT_HEADER_SIZE = 64"

lemmas buffer_flags = BUFFER_FLAGS_NONE_def BUFFER_USES_DATASTORE_def BUFFER_OWNS_DATASTORE_def
  BUFFER_DATASTORE_ALLOW_APPENDS_def BUFFER_DATASTORE_ALLOW_CLEAR_def BUFFER_DATASTORE_ALLOW_DELETES_def
  BUFFER_DATASTORE_ALLOW_REMAPPING_def BUFFER_DATASTORE_ALLOW_RESIZE_def BUFFER_DATASTORE_MEMPOOL_def
  BUFFER_DATASTORE_OPENCL_def BUFFER_DATASTORE_CUDA_def

definition Buffer_preset :: "Buffer \<Rightarrow> Buffer" where
  "Buffer_preset buffer = buffer\<lparr>bf_data_addr := 0, bf_data_size := 0, bf_header_size := BUFFER_DEFAULT_HEADER_SIZE,
     bf_data_capacity := 0, bf_slot_length := BUFFER_DEFAULT_SLOT_SIZE, bf_object_addr := 0, bf_num_objects := 0,
     bf_datastore_flags := 0, bf_datastore_addr := 0\<rparr>"

definition Buffer_get_slot_size :: "Buffer \<Rightarrow> u64" where
  "Buffer_get_slot_size buffer = bf_slot_length buffer"

definition Buffer_check_for_flags :: "Buffer \<Rightarrow> u64 \<Rightarrow> bool" where
  "Buffer_check_for_flags buffer flags_to_check \<longleftrightarrow> bf_datastore_flags buffer AND flags_to_check = flags_to_check"

definition Buffer_get_flags :: "Buffer \<Rightarrow> u64" where
  "Buffer_get_flags buffer = bf_datastore_flags buffer"

definition Buffer_owns_datastore :: "Buffer \<Rightarrow> bool" where
  "Buffer_owns_datastore buffer \<longleftrightarrow> Buffer_check_for_flags buffer BUFFER_OWNS_DATASTORE"

definition Buffer_has_datastore :: "Buffer \<Rightarrow> bool" where
  "Buffer_has_datastore buffer \<longleftrightarrow> bf_datastore_addr buffer \<noteq> 0"

definition Buffer_uses_datastore :: "Buffer \<Rightarrow> bool" where
  "Buffer_uses_datastore buffer \<longleftrightarrow> Buffer_has_datastore buffer \<and> Buffer_check_for_flags buffer BUFFER_USES_DATASTORE"

definition Buffer_allow_clear :: "Buffer \<Rightarrow> bool" where
  "Buffer_allow_clear buffer \<longleftrightarrow>
     Buffer_check_for_flags buffer (BUFFER_DATASTORE_ALLOW_CLEAR OR BUFFER_USES_DATASTORE)"

definition Buffer_allow_append_objects :: "Buffer \<Rightarrow> bool" where
  "Buffer_allow_append_objects buffer \<longleftrightarrow>
     Buffer_check_for_flags buffer (BUFFER_DATASTORE_ALLOW_APPENDS OR BUFFER_USES_DATASTORE)"

definition Buffer_allow_delete_objects :: "Buffer \<Rightarrow> bool" where
  "Buffer_allow_delete_objects buffer \<longleftrightarrow>
     Buffer_check_for_flags buffer (BUFFER_DATASTORE_ALLOW_DELETES OR BUFFER_USES_DATASTORE)"

definition Buffer_allow_modify_datastore_contents :: "Buffer \<Rightarrow> bool" where
  "Buffer_allow_modify_datastore_contents buffer \<longleftrightarrow> Buffer_allow_clear buffer \<and>
     (Buffer_allow_append_objects buffer \<or> Buffer_allow_delete_objects buffer)"

definition Buffer_allow_remapping :: "Buffer \<Rightarrow> bool" where
  "Buffer_allow_remapping buffer \<longleftrightarrow> Buffer_check_for_flags buffer BUFFER_DATASTORE_ALLOW_REMAPPING"

definition Buffer_allow_resize :: "Buffer \<Rightarrow> bool" where
  "Buffer_allow_resize buffer \<longleftrightarrow> Buffer_check_for_flags buffer
     (BUFFER_DATASTORE_ALLOW_RESIZE OR BUFFER_USES_DATASTORE OR BUFFER_OWNS_DATASTORE)"

definition Buffer_uses_mempool_datastore :: "Buffer \<Rightarrow> bool" where
  "Buffer_uses_mempool_datastore buffer \<longleftrightarrow>
     Buffer_check_for_flags buffer (BUFFER_USES_DATASTORE OR BUFFER_DATASTORE_MEMPOOL)"

definition Buffer_uses_special_opencl_datastore :: "Buffer \<Rightarrow> bool" where
  "Buffer_uses_special_opencl_datastore buffer \<longleftrightarrow>
     Buffer_check_for_flags buffer (BUFFER_USES_DATASTORE OR BUFFER_DATASTORE_OPENCL)"

definition Buffer_uses_special_cuda_datastore :: "Buffer \<Rightarrow> bool" where
  "Buffer_uses_special_cuda_datastore buffer \<longleftrightarrow>
     Buffer_check_for_flags buffer (BUFFER_USES_DATASTORE OR BUFFER_DATASTORE_CUDA)"

definition Buffer_get_datastore_special_flags :: "Buffer \<Rightarrow> u64" where
  "Buffer_get_datastore_special_flags buffer =
     drop_bit BUFFER_DATASTORE_SPECIAL_FLAGS_BITS (bf_datastore_flags buffer AND BUFFER_DATASTORE_SPECIAL_FLAGS_MASK)"

definition Buffer_set_datastore_special_flags :: "Buffer \<Rightarrow> u64 \<Rightarrow> Buffer" where
  "Buffer_set_datastore_special_flags buffer flags =
     (let temp = push_bit BUFFER_DATASTORE_SPECIAL_FLAGS_BITS (flags AND
            drop_bit BUFFER_DATASTORE_SPECIAL_FLAGS_BITS BUFFER_DATASTORE_SPECIAL_FLAGS_MASK)
      in buffer\<lparr>bf_datastore_flags := bf_datastore_flags buffer AND NOT BUFFER_DATASTORE_SPECIAL_FLAGS_MASK OR temp\<rparr>)"

definition Buffer_get_datastore_begin_addr :: "Buffer \<Rightarrow> u64" where
  "Buffer_get_datastore_begin_addr buffer = (if Buffer_has_datastore buffer then bf_datastore_addr buffer else 0)"

lemma special_flags_read_back:
  "Buffer_get_datastore_special_flags (Buffer_set_datastore_special_flags buffer flags) = flags AND 0xff"
proof -
  have masks: "BUFFER_DATASTORE_SPECIAL_FLAGS_MASK = push_bit 24 (mask 8)" "(0xff :: u64) = mask 8"
    by (simp_all add: BUFFER_DATASTORE_SPECIAL_FLAGS_MASK_def mask_numeral push_bit_eq_mult)
  show ?thesis
    unfolding Buffer_get_datastore_special_flags_def Buffer_set_datastore_special_flags_def Let_def masks
      BUFFER_DATASTORE_SPECIAL_FLAGS_BITS_def
    by (rule bit_word_eqI) (auto simp del: push_bit_mask_eq simp: bit_drop_bit_eq bit_and_iff bit_or_iff bit_not_iff bit_push_bit_iff bit_mask_iff)
qed

subsection \<open>Sizes and addresses\<close>

definition Buffer_get_size :: "Buffer \<Rightarrow> u64" where
  "Buffer_get_size buffer = bf_data_size buffer"

definition Buffer_get_capacity :: "Buffer \<Rightarrow> u64" where
  "Buffer_get_capacity buffer = bf_data_capacity buffer"

definition Buffer_get_header_size :: "Buffer \<Rightarrow> u64" where
  "Buffer_get_header_size buffer = bf_header_size buffer"

definition Buffer_get_data_begin_addr :: "Buffer \<Rightarrow> u64" where
  "Buffer_get_data_begin_addr buffer = bf_data_addr buffer"

definition Buffer_get_data_end_addr :: "Buffer \<Rightarrow> u64" where
  "Buffer_get_data_end_addr buffer =
     (let end_addr = Buffer_get_data_begin_addr buffer
      in if end_addr \<noteq> 0 then end_addr + Buffer_get_size buffer else end_addr)"

definition Buffer_get_objects_begin_addr :: "Buffer \<Rightarrow> u64" where
  "Buffer_get_objects_begin_addr buffer = bf_object_addr buffer"

definition Buffer_get_objects_end_addr :: "Buffer \<Rightarrow> u64" where
  "Buffer_get_objects_end_addr buffer =
     (let end_addr = Buffer_get_objects_begin_addr buffer
      in if end_addr \<noteq> 0 then
           end_addr + ManagedBuffer_get_slot_based_length sizeof_Object (Buffer_get_slot_size buffer) * bf_num_objects buffer
         else end_addr)"

definition Buffer_get_section_header_size :: "Buffer \<Rightarrow> u64" where
  "Buffer_get_section_header_size buffer = ManagedBuffer_get_section_header_length (Buffer_get_slot_size buffer)"

definition Buffer_get_slots_size :: "mem \<Rightarrow> Buffer \<Rightarrow> u64" where
  "Buffer_get_slots_size m buffer =
     ManagedBuffer_get_section_size m (Buffer_get_data_begin_addr buffer) 3 (Buffer_get_slot_size buffer)"

definition Buffer_get_num_of_slots :: "mem \<Rightarrow> Buffer \<Rightarrow> u64" where
  "Buffer_get_num_of_slots m buffer =
     ManagedBuffer_get_section_num_entities m (Buffer_get_data_begin_addr buffer) 3 (Buffer_get_slot_size buffer)"

definition Buffer_get_max_num_of_slots :: "mem \<Rightarrow> Buffer \<Rightarrow> u64" where
  "Buffer_get_max_num_of_slots m buffer =
     ManagedBuffer_get_section_max_num_entities m (Buffer_get_data_begin_addr buffer) 3 (Buffer_get_slot_size buffer)"

definition Buffer_get_objects_size :: "mem \<Rightarrow> Buffer \<Rightarrow> u64" where
  "Buffer_get_objects_size m buffer =
     ManagedBuffer_get_section_size m (Buffer_get_data_begin_addr buffer) 4 (Buffer_get_slot_size buffer)"

definition Buffer_get_num_of_objects :: "mem \<Rightarrow> Buffer \<Rightarrow> u64" where
  "Buffer_get_num_of_objects m buffer =
     ManagedBuffer_get_section_num_entities m (Buffer_get_data_begin_addr buffer) 4 (Buffer_get_slot_size buffer)"

definition Buffer_get_max_num_of_objects :: "mem \<Rightarrow> Buffer \<Rightarrow> u64" where
  "Buffer_get_max_num_of_objects m buffer =
     ManagedBuffer_get_section_max_num_entities m (Buffer_get_data_begin_addr buffer) 4 (Buffer_get_slot_size buffer)"

definition Buffer_get_dataptrs_size :: "mem \<Rightarrow> Buffer \<Rightarrow> u64" where
  "Buffer_get_dataptrs_size m buffer =
     ManagedBuffer_get_section_size m (Buffer_get_data_begin_addr buffer) 5 (Buffer_get_slot_size buffer)"

definition Buffer_get_num_of_dataptrs :: "mem \<Rightarrow> Buffer \<Rightarrow> u64" where
  "Buffer_get_num_of_dataptrs m buffer =
     ManagedBuffer_get_section_num_entities m (Buffer_get_data_begin_addr buffer) 5 (Buffer_get_slot_size buffer)"

definition Buffer_get_max_num_of_dataptrs :: "mem \<Rightarrow> Buffer \<Rightarrow> u64" where
  "Buffer_get_max_num_of_dataptrs m buffer =
     ManagedBuffer_get_section_max_num_entities m (Buffer_get_data_begin_addr buffer) 5 (Buffer_get_slot_size buffer)"

definition Buffer_get_garbage_size :: "mem \<Rightarrow> Buffer \<Rightarrow> u64" where
  "Buffer_get_garbage_size m buffer =
     ManagedBuffer_get_section_size m (Buffer_get_data_begin_addr buffer) 6 (Buffer_get_slot_size buffer)"

definition Buffer_get_num_of_garbage_ranges :: "mem \<Rightarrow> Buffer \<Rightarrow> u64" where
  "Buffer_get_num_of_garbage_ranges m buffer =
     ManagedBuffer_get_section_num_entities m (Buffer_get_data_begin_addr buffer) 6 (Buffer_get_slot_size buffer)"

definition Buffer_get_max_num_of_garbage_ranges :: "mem \<Rightarrow> Buffer \<Rightarrow> u64" where
  "Buffer_get_max_num_of_garbage_ranges m buffer =
     ManagedBuffer_get_section_max_num_entities m (Buffer_get_data_begin_addr buffer) 6 (Buffer_get_slot_size buffer)"

definition Buffer_calculate_required_buffer_length :: "mem \<Rightarrow> Buffer \<Rightarrow> u64 \<Rightarrow> u64 \<Rightarrow> u64 \<Rightarrow> u64 \<Rightarrow> u64" where
  "Buffer_calculate_required_buffer_length m buffer requ_objects requ_slots requ_dataptrs requ_garbage_ranges =
     ManagedBuffer_calculate_buffer_length m 0 requ_objects requ_slots requ_dataptrs requ_garbage_ranges
       (Buffer_get_slot_size buffer)"

definition Buffer_predict_required_num_slots :: "Buffer \<Rightarrow> u64 \<Rightarrow> (u64 \<times> u64) list \<Rightarrow> u64" where
  "Buffer_predict_required_num_slots buffer object_size obj_attrs =
     ManagedBuffer_predict_required_num_slots object_size obj_attrs (Buffer_get_slot_size buffer)"

text \<open>
  Whether an object can be added. The second result are the three numbers that are written through the
  pointers: what is required if there is room, and otherwise what is missing, as the negative number modulo
  the word size.
\<close>

definition Buffer_can_add_object :: "mem \<Rightarrow> Buffer \<Rightarrow> u64 \<Rightarrow> (u64 \<times> u64) list \<Rightarrow> bool \<times> (u64 \<times> u64 \<times> u64) option" where
  "Buffer_can_add_object m buffer object_size obj_attrs =
     (if Buffer_allow_append_objects buffer \<and> object_size > 0 then
        let max_num_slots = Buffer_get_max_num_of_slots m buffer;
            max_num_objects = Buffer_get_max_num_of_objects m buffer;
            max_num_dataptrs = Buffer_get_max_num_of_dataptrs m buffer;
            requ_num_objects = Buffer_get_num_of_objects m buffer + 1;
            requ_num_dataptrs = Buffer_get_num_of_dataptrs m buffer + of_nat (length obj_attrs);
            requ_num_slots = Buffer_get_num_of_slots m buffer +
              Buffer_predict_required_num_slots buffer object_size obj_attrs
        in if max_num_objects \<ge> requ_num_objects \<and> max_num_slots \<ge> requ_num_slots \<and>
              max_num_dataptrs \<ge> requ_num_dataptrs then
             (True, Some (requ_num_objects, requ_num_slots, requ_num_dataptrs))
           else
             (False, Some (if requ_num_objects \<le> max_num_objects then 0 else max_num_objects - requ_num_objects,
                if requ_num_slots \<le> max_num_slots then 0 else max_num_slots - requ_num_slots,
                if requ_num_dataptrs \<le> max_num_dataptrs then 0 else max_num_dataptrs - requ_num_dataptrs))
      else (False, None))"

definition Buffer_can_add_trivial_object :: "mem \<Rightarrow> Buffer \<Rightarrow> u64 \<Rightarrow> bool \<times> (u64 \<times> u64 \<times> u64) option" where
  "Buffer_can_add_trivial_object m buffer object_size = Buffer_can_add_object m buffer object_size []"

subsection \<open>Clearing, resetting and remapping\<close>

definition Buffer_clear_generic :: "mem \<Rightarrow> Buffer \<Rightarrow> bool \<Rightarrow> mem \<times> Buffer \<times> int" where
  "Buffer_clear_generic m buffer set_data_to_zero =
     (if Buffer_has_datastore buffer \<and> Buffer_allow_clear buffer then
        (ManagedBuffer_clear m (Buffer_get_data_begin_addr buffer) set_data_to_zero (Buffer_get_slot_size buffer),
         buffer\<lparr>bf_num_objects := 0\<rparr>, 0)
      else (m, buffer, - 1))"

definition Buffer_reset_detailed_generic ::
    "mem \<Rightarrow> Buffer \<Rightarrow> u64 \<Rightarrow> u64 \<Rightarrow> u64 \<Rightarrow> u64 \<Rightarrow> mem \<times> Buffer \<times> int" where
  "Buffer_reset_detailed_generic m buffer max_num_objects max_num_slots max_num_dataptrs max_num_garbage_ranges =
     (let begin' = Buffer_get_data_begin_addr buffer;
          slot_size = Buffer_get_slot_size buffer
      in if Buffer_uses_datastore buffer \<and> Buffer_allow_modify_datastore_contents buffer \<and> Buffer_allow_clear buffer then
           let capacity = Buffer_get_capacity buffer;
               (m, written_size, success) = ManagedBuffer_init m begin' max_num_objects max_num_slots max_num_dataptrs
                 max_num_garbage_ranges capacity slot_size;
               buffer_size = (case written_size of None \<Rightarrow> 0 | Some size' \<Rightarrow> size')
           in if success = 0 then
                (m, buffer\<lparr>bf_data_addr := begin', bf_data_size := buffer_size, bf_data_capacity := capacity,
                   bf_num_objects := 0, bf_object_addr := ManagedBuffer_get_const_objects_index_begin m begin' slot_size\<rparr>,
                 success)
              else (m, buffer, success)
         else (m, buffer, - 1))"

definition Buffer_reset_generic :: "mem \<Rightarrow> Buffer \<Rightarrow> mem \<times> Buffer \<times> int" where
  "Buffer_reset_generic m buffer = Buffer_reset_detailed_generic m buffer 0 0 0 0"

definition Buffer_needs_remapping_generic :: "mem \<Rightarrow> Buffer \<Rightarrow> bool" where
  "Buffer_needs_remapping_generic m buffer =
     ManagedBuffer_needs_remapping m (Buffer_get_data_begin_addr buffer) (Buffer_get_slot_size buffer)"

definition Buffer_remap_generic :: "mem \<Rightarrow> Buffer \<Rightarrow> mem \<times> Buffer \<times> int" where
  "Buffer_remap_generic m buffer =
     (if Buffer_allow_remapping buffer then
        let begin' = Buffer_get_data_begin_addr buffer;
            slot_size = Buffer_get_slot_size buffer
        in if rd64 m (begin' + 8 * 0) \<noteq> 0 \<and> rd64 m (begin' + 8 * 0) = begin' then (m, buffer, 0)
           else if rd64 m (begin' + 8 * 0) \<noteq> 0 \<and> slot_size > 0 \<and> begin' \<noteq> 0 then
             let (m, success) = ManagedBuffer_remap m begin' slot_size
             in if success = 0 then
                  (m, buffer\<lparr>bf_data_addr := rd64 m (begin' + 8 * 0), bf_data_size := rd64 m (begin' + 8 * 1),
                     bf_header_size := rd64 m (begin' + 8 * 2),
                     bf_object_addr := ManagedBuffer_get_ptr_to_section_data m begin' 4 slot_size,
                     bf_num_objects := ManagedBuffer_get_section_num_entities m begin' 4 slot_size\<rparr>, success)
                else (m, buffer, success)
           else (m, buffer, - 1)
      else (m, buffer, - 1))"

definition Buffer_refresh_generic :: "mem \<Rightarrow> Buffer \<Rightarrow> mem \<times> Buffer \<times> int" where
  "Buffer_refresh_generic m buffer =
     (let slot_s = Buffer_get_slot_size buffer;
          ptr = Buffer_get_data_begin_addr buffer
      in if ptr \<noteq> 0 \<and> slot_s > 0 \<and> ptr mod slot_s = 0 then
           let (m, success) =
                 (if ManagedBuffer_needs_remapping m ptr slot_s then
                    if Buffer_allow_remapping buffer then ManagedBuffer_remap m ptr slot_s else (m, - 1)
                  else (m, 0))
           in if success = 0 then
                let buffer = buffer\<lparr>bf_data_size := ManagedBuffer_get_buffer_length m ptr slot_s\<rparr>;
                    buffer = (if bf_data_capacity buffer < bf_data_size buffer
                              then buffer\<lparr>bf_data_capacity := bf_data_size buffer\<rparr> else buffer);
                    buffer = buffer\<lparr>bf_object_addr := ManagedBuffer_get_const_objects_index_begin m ptr slot_s\<rparr>;
                    buffer = buffer\<lparr>bf_num_objects := ManagedBuffer_get_section_num_entities m ptr 4 slot_s\<rparr>
                in (m, buffer, success)
              else (m, buffer, success)
         else (m, buffer, - 1))"

subsection \<open>Capacities\<close>

text \<open>\<open>reserve_pool_block\<close> is the end of \<open>NS(Buffer_reserve_capacity_generic)\<close>, when the pool has moved and the
  buffer in it has been remapped.\<close>

definition reserve_pool_block :: "mem \<Rightarrow> MemPool \<Rightarrow> Buffer \<Rightarrow> u64 \<Rightarrow> u64 \<Rightarrow> mem \<times> MemPool \<times> Buffer" where
  "reserve_pool_block m mem_pool buffer bytes_missing slot_size =
     (let new_begin = MemPool_get_begin_pos mem_pool;
          (mem_pool, result) = MemPool_append_aligned mem_pool bytes_missing slot_size
      in if AllocResult_valid result then
           let buffer = buffer\<lparr>bf_object_addr := ManagedBuffer_get_const_ptr_to_section m new_begin 4 slot_size,
                 bf_data_capacity := MemPool_get_size mem_pool, bf_data_addr := new_begin\<rparr>;
               m = mem_set m (AllocResult_get_pointer result) (AllocResult_get_length result) 0
           in (m, mem_pool, buffer)
         else (m, mem_pool, buffer))"

definition Buffer_reserve_capacity_generic ::
    "mem \<Rightarrow> u64 \<Rightarrow> MemPool \<Rightarrow> Buffer \<Rightarrow> u64 \<Rightarrow> mem \<times> MemPool \<times> Buffer \<times> int" where
  "Buffer_reserve_capacity_generic m new_buffer mem_pool buffer new_buffer_capacity =
     (let slot_size = Buffer_get_slot_size buffer
      in if slot_size \<noteq> 0 \<and> Buffer_owns_datastore buffer \<and> Buffer_allow_resize buffer \<and>
            Buffer_get_capacity buffer < new_buffer_capacity \<and> Buffer_uses_mempool_datastore buffer then
           let old_base_addr = MemPool_get_begin_pos mem_pool;
               current_capacity = MemPool_get_size mem_pool;
               bytes_missing = new_buffer_capacity -
                 (if new_buffer_capacity \<ge> current_capacity then current_capacity else new_buffer_capacity)
           in if bytes_missing > 0 then
                let (m, mem_pool, changed_base_addr) =
                      MemPool_reserve_aligned m new_buffer mem_pool new_buffer_capacity slot_size
                in if MemPool_get_remaining_bytes mem_pool \<ge> bytes_missing then
                     let new_begin_addr = MemPool_get_begin_pos mem_pool;
                         (m, success) = (if new_begin_addr = old_base_addr \<and> \<not> changed_base_addr then (m, 0)
                           else ManagedBuffer_remap m new_begin_addr slot_size)
                     in if success = 0 then
                          let (m, mem_pool, buffer) = reserve_pool_block m mem_pool buffer bytes_missing slot_size
                          in (m, mem_pool, buffer, success)
                        else (m, mem_pool, buffer, success)
                   else (m, mem_pool, buffer, - 1)
              else (m, mem_pool, buffer, 0)
         else (m, mem_pool, buffer, - 1))"

definition Buffer_reserve_generic ::
    "mem \<Rightarrow> u64 \<Rightarrow> MemPool \<Rightarrow> Buffer \<Rightarrow> u64 \<Rightarrow> u64 \<Rightarrow> u64 \<Rightarrow> u64 \<Rightarrow> mem \<times> MemPool \<times> Buffer \<times> int" where
  "Buffer_reserve_generic m new_buffer mem_pool buffer max_num_objects max_num_slots max_num_dataptrs
       max_num_garbage_ranges =
     (let begin' = Buffer_get_data_begin_addr buffer;
          slot_size = Buffer_get_slot_size buffer
      in if Buffer_uses_datastore buffer \<and> Buffer_allow_modify_datastore_contents buffer \<and>
            (max_num_objects \<noteq> ManagedBuffer_get_section_max_num_entities m begin' 4 slot_size \<or>
             max_num_slots \<noteq> ManagedBuffer_get_section_max_num_entities m begin' 3 slot_size \<or>
             max_num_dataptrs \<noteq> ManagedBuffer_get_section_max_num_entities m begin' 5 slot_size \<or>
             max_num_garbage_ranges \<noteq> ManagedBuffer_get_section_max_num_entities m begin' 6 slot_size) then
           let current_capacity = Buffer_get_capacity buffer;
               requ_buffer_capacity = ManagedBuffer_calculate_buffer_length m begin' max_num_objects max_num_slots
                 max_num_dataptrs max_num_garbage_ranges slot_size;
               needs_resizing = (current_capacity < requ_buffer_capacity);
               (m, mem_pool, buffer, success, current_capacity, needs_resizing) =
                 (if needs_resizing then
                    let (m, mem_pool, buffer, success) =
                          Buffer_reserve_capacity_generic m new_buffer mem_pool buffer requ_buffer_capacity
                    in if success = 0 then
                         let current_capacity = Buffer_get_capacity buffer
                         in (m, mem_pool, buffer, success, current_capacity, current_capacity < requ_buffer_capacity)
                       else (m, mem_pool, buffer, success, current_capacity, needs_resizing)
                  else (m, mem_pool, buffer, 0, current_capacity, needs_resizing))
           in if \<not> needs_resizing then
                let new_begin = Buffer_get_data_begin_addr buffer;
                    (m, written_size, success) = ManagedBuffer_reserve m new_begin max_num_objects max_num_slots
                      max_num_dataptrs max_num_garbage_ranges current_capacity slot_size;
                    cur_buffer_size = (case written_size of None \<Rightarrow> 0 | Some size' \<Rightarrow> size')
                in if success = 0 then
                     (m, mem_pool, buffer\<lparr>bf_data_size := cur_buffer_size,
                        bf_object_addr := ManagedBuffer_get_const_objects_index_begin m new_begin slot_size,
                        bf_num_objects := ManagedBuffer_get_section_num_entities m new_begin 4 slot_size\<rparr>, success)
                   else (m, mem_pool, buffer, success)
              else (m, mem_pool, buffer, success)
         else (m, mem_pool, buffer, - 1))"

definition Buffer_free_generic :: "MemPool \<Rightarrow> Buffer \<Rightarrow> MemPool \<times> Buffer" where
  "Buffer_free_generic mem_pool buffer =
     (if Buffer_has_datastore buffer \<and> Buffer_owns_datastore buffer then
        let buffer_flags = Buffer_get_datastore_special_flags buffer;
            (mem_pool, buffer_flags) = (if Buffer_uses_mempool_datastore buffer
              then (MemPool_free mem_pool, 0) else (mem_pool, buffer_flags))
        in (mem_pool, Buffer_preset (Buffer_set_datastore_special_flags buffer buffer_flags))
      else (mem_pool, buffer))"

end
