(* ===== verification/Object_Buffer_Ops.thy ===== *)
theory Object_Buffer_Ops
  imports Object_Buffer Managed_Buffer_Offset
begin

section \<open>Adding objects, initialising and creating buffers (buffer_generic.h, buffer.h, buffer.c)\<close>

text \<open>
  The rest of the operations on object buffers. Adding an object copies its bytes to the end of the slots,
  copies the arrays its pointers lead to behind it, redirects the pointers and records their places, so that
  the copy is complete and survives remapping. A buffer is created in new memory, on memory of the caller, on
  existing data or as a copy. The attributes of an object are given as a list of the offset of its pointer,
  the size of an entry and the number of entries. Files are lists of bytes, \<open>None\<close> if the file cannot be
  opened.
\<close>

subsection \<open>Adding an object\<close>

text \<open>The entry of the object in the table, a local variable that is copied into the buffer.\<close>

definition store_obj_info :: "mem \<Rightarrow> u64 \<Rightarrow> u64 \<Rightarrow> u64 \<Rightarrow> u64 \<Rightarrow> mem" where
  "store_obj_info m dest_obj_info begin_addr type_id obj_size =
     wr64 (wr64 (wr64 m dest_obj_info begin_addr) (dest_obj_info + 8) type_id) (dest_obj_info + 16) obj_size"

fun add_dataptrs_loop :: "(u64 \<times> u64 \<times> u64) list \<Rightarrow> mem \<Rightarrow> u64 \<Rightarrow> u64 \<Rightarrow> u64 \<Rightarrow> u64 \<Rightarrow> mem" where
  "add_dataptrs_loop [] m stored_obj_begin dest_slots out_it slot_size = m"
| "add_dataptrs_loop ((dataptr_offset, dataptr_size, dataptr_count) # attrs) m stored_obj_begin dest_slots out_it slot_size =
     (let attr_size = dataptr_count * dataptr_size;
          attr_extent = ManagedBuffer_get_slot_based_length attr_size slot_size;
          attr_slot_addr = stored_obj_begin + dataptr_offset;
          source_addr = (if attr_slot_addr \<noteq> 0 then rd64 m attr_slot_addr else 0);
          m = (if source_addr \<noteq> 0 then
                 let m = mem_move m dest_slots source_addr attr_size
                 in if attr_extent > attr_size
                    then mem_set m (dest_slots + attr_size) (attr_extent - attr_size) 0 else m
               else mem_set m dest_slots attr_extent 0);
          m = wr64 m attr_slot_addr dest_slots;
          m = wr64 m out_it attr_slot_addr
      in add_dataptrs_loop attrs m stored_obj_begin (dest_slots + attr_extent) (out_it + sizeof_address) slot_size)"

text \<open>What is stored once there is room; the second result is the address of the entry of the object.\<close>

definition store_object :: "mem \<Rightarrow> u64 \<Rightarrow> u64 \<Rightarrow> u64 \<Rightarrow> u64 \<Rightarrow> (u64 \<times> u64 \<times> u64) list \<Rightarrow> u64 \<Rightarrow> u64 \<Rightarrow> mem \<times> u64 \<times> int" where
  "store_object m begin' ptr_to_object object_size type_id attrs additional_num_slots_size slot_size =
     (let dest_slots = ManagedBuffer_get_ptr_to_section m begin' 3 slot_size +
            ManagedBuffer_get_section_size m begin' 3 slot_size;
          stored_obj_begin = dest_slots;
          dest_obj_info = ManagedBuffer_get_ptr_to_section m begin' 4 slot_size;
          (m, success) = (if stored_obj_begin \<noteq> 0 then (mem_move m stored_obj_begin ptr_to_object object_size, 0)
            else (m, - 1));
          (m, result_object, success) = (if success = 0 \<and> dest_obj_info \<noteq> 0 then
              let dest_obj_info = dest_obj_info + ManagedBuffer_get_section_size m begin' 4 slot_size
              in (store_obj_info m dest_obj_info stored_obj_begin type_id additional_num_slots_size, dest_obj_info, success)
            else (m, 0, - 1));
          dest_slots = (if success = 0 then dest_slots + ManagedBuffer_get_slot_based_length object_size slot_size
            else dest_slots);
          m = (if success = 0 \<and> attrs \<noteq> [] then
              add_dataptrs_loop attrs m stored_obj_begin dest_slots
                (ManagedBuffer_get_ptr_to_section m begin' 5 slot_size + ManagedBuffer_get_section_size m begin' 5 slot_size)
                slot_size
            else m)
      in (m, result_object, success))"

definition Buffer_add_object_generic ::
    "mem \<Rightarrow> u64 \<Rightarrow> MemPool \<Rightarrow> Buffer \<Rightarrow> u64 \<Rightarrow> u64 \<Rightarrow> u64 \<Rightarrow> (u64 \<times> u64 \<times> u64) list \<Rightarrow> mem \<times> MemPool \<times> Buffer \<times> u64" where
  "Buffer_add_object_generic m new_buffer mem_pool buffer ptr_to_object object_size type_id attrs =
     (let slot_size = Buffer_get_slot_size buffer;
          num_obj_dataptr = of_nat (length attrs)
      in if slot_size \<noteq> 0 \<and> object_size > 0 \<and> ptr_to_object \<noteq> 0 \<and> Buffer_allow_append_objects buffer then
           let begin' = Buffer_get_data_begin_addr buffer;
               cur_num_slots = ManagedBuffer_get_section_num_entities m begin' 3 slot_size;
               max_num_slots = ManagedBuffer_get_section_max_num_entities m begin' 3 slot_size;
               cur_num_objects = ManagedBuffer_get_section_num_entities m begin' 4 slot_size;
               max_num_objects = ManagedBuffer_get_section_max_num_entities m begin' 4 slot_size;
               cur_num_dataptrs = ManagedBuffer_get_section_num_entities m begin' 5 slot_size;
               max_num_dataptrs = ManagedBuffer_get_section_max_num_entities m begin' 5 slot_size;
               max_num_garbage_ranges = ManagedBuffer_get_section_max_num_entities m begin' 6 slot_size;
               requ_num_objects = cur_num_objects + 1;
               requ_num_dataptrs = cur_num_dataptrs + num_obj_dataptr;
               additional_num_slots = ManagedBuffer_predict_required_num_slots object_size (map snd attrs) slot_size;
               additional_num_slots_size = additional_num_slots * slot_size;
               requ_num_slots = cur_num_slots + additional_num_slots;
               (m, mem_pool, buffer, success) =
                 (if requ_num_objects > max_num_objects \<or> requ_num_slots > max_num_slots \<or> requ_num_dataptrs > max_num_dataptrs
                  then Buffer_reserve_generic m new_buffer mem_pool buffer requ_num_objects requ_num_slots requ_num_dataptrs
                         max_num_garbage_ranges
                  else (m, mem_pool, buffer, 0));
               begin' = Buffer_get_data_begin_addr buffer
           in if success = 0 then
                let (m, result_object, success) = store_object m begin' ptr_to_object object_size type_id attrs
                      additional_num_slots_size slot_size
                in if success = 0 then
                     let m = (if attrs \<noteq> [] then
                           ManagedBuffer_set_section_num_entities m begin' 5 requ_num_dataptrs slot_size else m);
                         m = ManagedBuffer_set_section_num_entities m begin' 3 requ_num_slots slot_size;
                         m = ManagedBuffer_set_section_num_entities m begin' 4 requ_num_objects slot_size
                     in (m, mem_pool, buffer\<lparr>bf_num_objects := requ_num_objects\<rparr>, result_object)
                   else (m, mem_pool, buffer, 0)
              else (m, mem_pool, buffer, 0)
         else (m, mem_pool, buffer, 0))"

subsection \<open>Initialising on existing memory\<close>

text \<open>
  \<open>init_grow_pool\<close> is the part of \<open>NS(Buffer_init_from_data)\<close> that resizes the pool. The code stores the
  \<open>bool\<close> that \<open>NS(MemPool_reserve_aligned)\<close> returns as a status.
\<close>

definition init_grow_pool :: "mem \<Rightarrow> u64 \<Rightarrow> MemPool \<Rightarrow> Buffer \<Rightarrow> u64 \<Rightarrow> u64 \<Rightarrow> mem \<times> MemPool \<times> Buffer \<times> int" where
  "init_grow_pool m new_buffer mem_pool buffer in_length slot_size =
     (let mem_pool = MemPool_clear mem_pool;
          (m, mem_pool, changed) = MemPool_reserve_aligned m new_buffer mem_pool in_length slot_size;
          success = (if changed then 1 else 0 :: int)
      in if success = 0 then
           let (mem_pool, result) = MemPool_append_aligned mem_pool in_length slot_size
           in if AllocResult_valid result then
                (m, mem_pool, buffer\<lparr>bf_data_addr := AllocResult_get_pointer result,
                   bf_data_capacity := AllocResult_get_length result, bf_data_size := 0\<rparr>, 0)
              else (m, mem_pool, buffer, success)
         else (m, mem_pool, buffer, success))"

definition Buffer_init_from_data ::
    "mem \<Rightarrow> u64 \<Rightarrow> MemPool \<Rightarrow> Buffer \<Rightarrow> u64 \<Rightarrow> u64 \<Rightarrow> mem \<times> MemPool \<times> Buffer \<times> int" where
  "Buffer_init_from_data m new_buffer mem_pool buffer begin' max_data_buffer_length =
     (let slot_size = Buffer_get_slot_size buffer
      in if slot_size > 0 \<and> begin' \<noteq> 0 then
           let (m, status) = (if ManagedBuffer_needs_remapping m begin' slot_size
                 then ManagedBuffer_remap m begin' slot_size else (m, 0))
           in if status \<noteq> 0 then (m, mem_pool, buffer, - 1)
              else
                let in_length = ManagedBuffer_get_buffer_length m begin' slot_size
                in if \<not> Buffer_uses_datastore buffer then
                     (m, mem_pool, buffer\<lparr>bf_data_addr := begin', bf_data_size := in_length,
                        bf_data_capacity := max_data_buffer_length,
                        bf_object_addr := ManagedBuffer_get_const_objects_index_begin m begin' slot_size,
                        bf_num_objects := ManagedBuffer_get_section_num_entities m begin' 4 slot_size,
                        bf_datastore_flags := BUFFER_USES_DATASTORE OR BUFFER_DATASTORE_ALLOW_APPENDS OR
                          BUFFER_DATASTORE_ALLOW_CLEAR OR BUFFER_DATASTORE_ALLOW_REMAPPING\<rparr>, 0)
                   else if Buffer_allow_clear buffer \<and> Buffer_allow_modify_datastore_contents buffer then
                     let needs_resizing = (in_length > Buffer_get_capacity buffer);
                         (m, mem_pool, buffer, success) =
                           (if needs_resizing \<and> Buffer_owns_datastore buffer \<and> Buffer_allow_resize buffer \<and>
                               Buffer_uses_mempool_datastore buffer
                            then init_grow_pool m new_buffer mem_pool buffer in_length slot_size
                            else (m, mem_pool, buffer, if \<not> needs_resizing then 0 else - 1))
                     in if success = 0 \<and> in_length \<le> Buffer_get_capacity buffer then
                          let out_begin = Buffer_get_data_begin_addr buffer;
                              m = mem_move m out_begin begin' in_length;
                              (m, success) = (if ManagedBuffer_needs_remapping m out_begin slot_size
                                then ManagedBuffer_remap m out_begin slot_size else (m, success));
                              buffer = (if success = 0 then buffer\<lparr>bf_data_addr := out_begin, bf_data_size := in_length,
                                  bf_object_addr := ManagedBuffer_get_const_objects_index_begin m begin' slot_size,
                                  bf_num_objects := ManagedBuffer_get_section_num_entities m begin' 4 slot_size,
                                  bf_datastore_flags := bf_datastore_flags buffer OR
                                    (BUFFER_DATASTORE_ALLOW_APPENDS OR BUFFER_DATASTORE_ALLOW_REMAPPING)\<rparr>
                                else buffer)
                          in (m, mem_pool, buffer, 0)
                        else (m, mem_pool, buffer, success)
                   else (m, mem_pool, buffer, - 1)
         else (m, mem_pool, buffer, - 1))"

definition Buffer_init_on_flat_memory_detailed ::
    "mem \<Rightarrow> Buffer \<Rightarrow> u64 \<Rightarrow> u64 \<Rightarrow> u64 \<Rightarrow> u64 \<Rightarrow> u64 \<Rightarrow> u64 \<Rightarrow> mem \<times> Buffer \<times> int" where
  "Buffer_init_on_flat_memory_detailed m buffer data_buffer_begin buffer_capacity max_num_objects max_num_slots
       max_num_dataptrs max_num_garbage_ranges =
     (let slot_size = Buffer_get_slot_size buffer;
          (m, written_size, success) = ManagedBuffer_init m data_buffer_begin max_num_objects max_num_slots max_num_dataptrs
            max_num_garbage_ranges buffer_capacity slot_size;
          new_buffer_size = (case written_size of None \<Rightarrow> 0 | Some size' \<Rightarrow> size')
      in if success = 0 then
           (m, buffer\<lparr>bf_data_addr := data_buffer_begin, bf_data_size := new_buffer_size, bf_data_capacity := buffer_capacity,
              bf_num_objects := ManagedBuffer_get_section_num_entities m data_buffer_begin 4 slot_size,
              bf_object_addr := ManagedBuffer_get_ptr_to_section_data m data_buffer_begin 4 slot_size,
              bf_datastore_addr := data_buffer_begin,
              bf_datastore_flags := BUFFER_DATASTORE_ALLOW_APPENDS OR BUFFER_USES_DATASTORE OR BUFFER_DATASTORE_ALLOW_CLEAR OR
                BUFFER_DATASTORE_ALLOW_DELETES OR BUFFER_DATASTORE_ALLOW_REMAPPING\<rparr>, success)
         else (m, buffer, success))"

definition Buffer_init_on_flat_memory :: "mem \<Rightarrow> Buffer \<Rightarrow> u64 \<Rightarrow> u64 \<Rightarrow> mem \<times> Buffer \<times> int" where
  "Buffer_init_on_flat_memory m buffer data_buffer_begin buffer_capacity =
     Buffer_init_on_flat_memory_detailed m buffer data_buffer_begin buffer_capacity 0 0 0 0"

definition Buffer_init :: "mem \<Rightarrow> u64 \<Rightarrow> MemPool \<Rightarrow> Buffer \<Rightarrow> u64 \<Rightarrow> u64 \<Rightarrow> mem \<times> MemPool \<times> Buffer \<times> int" where
  "Buffer_init m new_buffer mem_pool buffer begin' data_buffer_capacity =
     (if Buffer_get_slot_size buffer \<noteq> 0 \<and> begin' \<noteq> 0 then
        if rd64 m (begin' + 8 * 0) = 0 then
          let (m, buffer, success) = Buffer_init_on_flat_memory m buffer begin' data_buffer_capacity
          in (m, mem_pool, buffer, success)
        else Buffer_init_from_data m new_buffer mem_pool buffer begin' data_buffer_capacity
      else (m, mem_pool, buffer, - 1))"

subsection \<open>Access to objects\<close>

definition Buffer_get_const_objects_begin :: "Buffer \<Rightarrow> u64" where
  "Buffer_get_const_objects_begin buffer = Buffer_get_objects_begin_addr buffer"

definition Buffer_get_const_objects_end :: "Buffer \<Rightarrow> u64" where
  "Buffer_get_const_objects_end buffer = Buffer_get_objects_end_addr buffer"

definition Buffer_get_const_object :: "mem \<Rightarrow> Buffer \<Rightarrow> u64 \<Rightarrow> u64" where
  "Buffer_get_const_object m buffer object_index =
     (let ptr_obj = Buffer_get_const_objects_begin buffer;
          num_objects = Buffer_get_num_of_objects m buffer
      in if ptr_obj \<noteq> 0 \<and> object_index \<le> num_objects then ptr_obj + sizeof_Object * object_index
         else if ptr_obj \<noteq> 0 then 0 else ptr_obj)"

definition Buffer_get_object :: "mem \<Rightarrow> Buffer \<Rightarrow> u64 \<Rightarrow> u64" where
  "Buffer_get_object m buffer object_index = Buffer_get_const_object m buffer object_index"

subsection \<open>The operations of \<open>buffer.h\<close>\<close>

definition Buffer_reset_detailed :: "mem \<Rightarrow> Buffer \<Rightarrow> u64 \<Rightarrow> u64 \<Rightarrow> u64 \<Rightarrow> u64 \<Rightarrow> mem \<times> Buffer \<times> int" where
  "Buffer_reset_detailed m buffer max_num_objects max_num_slots max_num_dataptrs max_num_garbage_ranges =
     (if Buffer_uses_datastore buffer then
        Buffer_reset_detailed_generic m buffer max_num_objects max_num_slots max_num_dataptrs max_num_garbage_ranges
      else (m, buffer, - 1))"

definition Buffer_reset :: "mem \<Rightarrow> Buffer \<Rightarrow> mem \<times> Buffer \<times> int" where
  "Buffer_reset m buffer = Buffer_reset_detailed m buffer 0 0 0 0"

definition Buffer_reserve ::
    "mem \<Rightarrow> u64 \<Rightarrow> MemPool \<Rightarrow> Buffer \<Rightarrow> u64 \<Rightarrow> u64 \<Rightarrow> u64 \<Rightarrow> u64 \<Rightarrow> mem \<times> MemPool \<times> Buffer \<times> int" where
  "Buffer_reserve m new_buffer mem_pool buffer max_num_objects max_num_slots max_num_dataptrs max_num_garbage_ranges =
     (if Buffer_uses_datastore buffer then
        Buffer_reserve_generic m new_buffer mem_pool buffer max_num_objects max_num_slots max_num_dataptrs
          max_num_garbage_ranges
      else (m, mem_pool, buffer, - 1))"

definition Buffer_reserve_capacity :: "mem \<Rightarrow> u64 \<Rightarrow> MemPool \<Rightarrow> Buffer \<Rightarrow> u64 \<Rightarrow> mem \<times> MemPool \<times> Buffer \<times> int" where
  "Buffer_reserve_capacity m new_buffer mem_pool buffer new_buffer_capacity =
     (if Buffer_uses_datastore buffer \<and> Buffer_allow_resize buffer then
        Buffer_reserve_capacity_generic m new_buffer mem_pool buffer new_buffer_capacity
      else (m, mem_pool, buffer, - 1))"

definition Buffer_needs_remapping :: "mem \<Rightarrow> Buffer \<Rightarrow> bool" where
  "Buffer_needs_remapping m buffer \<longleftrightarrow>
     Buffer_has_datastore buffer \<and> Buffer_allow_remapping buffer \<and> Buffer_needs_remapping_generic m buffer"

definition Buffer_remap :: "mem \<Rightarrow> Buffer \<Rightarrow> mem \<times> Buffer \<times> int" where
  "Buffer_remap m buffer = (if Buffer_allow_remapping buffer then Buffer_remap_generic m buffer else (m, buffer, - 1))"

definition Buffer_refresh :: "mem \<Rightarrow> Buffer \<Rightarrow> mem \<times> Buffer \<times> int" where
  "Buffer_refresh m buffer =
     (if Buffer_has_datastore buffer \<and> Buffer_allow_remapping buffer then Buffer_refresh_generic m buffer
      else (m, buffer, - 1))"

definition Buffer_clear :: "mem \<Rightarrow> Buffer \<Rightarrow> bool \<Rightarrow> mem \<times> Buffer \<times> int" where
  "Buffer_clear m buffer set_data_to_zero =
     (if Buffer_has_datastore buffer \<and> Buffer_allow_clear buffer then Buffer_clear_generic m buffer set_data_to_zero
      else (m, buffer, - 1))"

definition Buffer_free :: "MemPool \<Rightarrow> Buffer \<Rightarrow> MemPool \<times> Buffer" where
  "Buffer_free mem_pool buffer =
     (if Buffer_owns_datastore buffer then Buffer_free_generic mem_pool buffer else (mem_pool, buffer))"

definition Buffer_add_object ::
    "mem \<Rightarrow> u64 \<Rightarrow> MemPool \<Rightarrow> Buffer \<Rightarrow> u64 \<Rightarrow> u64 \<Rightarrow> u64 \<Rightarrow> (u64 \<times> u64 \<times> u64) list \<Rightarrow> mem \<times> MemPool \<times> Buffer \<times> u64" where
  "Buffer_add_object m new_buffer mem_pool buffer obj_handle obj_size type_id attrs =
     (if Buffer_allow_append_objects buffer then
        Buffer_add_object_generic m new_buffer mem_pool buffer obj_handle obj_size type_id attrs
      else (m, mem_pool, buffer, 0))"

definition Buffer_add_trivial_object ::
    "mem \<Rightarrow> u64 \<Rightarrow> MemPool \<Rightarrow> Buffer \<Rightarrow> u64 \<Rightarrow> u64 \<Rightarrow> u64 \<Rightarrow> mem \<times> MemPool \<times> Buffer \<times> u64" where
  "Buffer_add_trivial_object m new_buffer mem_pool buffer object_handle object_size type_id =
     Buffer_add_object m new_buffer mem_pool buffer object_handle object_size type_id []"

subsection \<open>Creating buffers (buffer.c)\<close>

text \<open>
  The handle and the pool structure are allocated with \<open>malloc\<close>, which is taken to succeed; \<open>pool_addr\<close> is the
  address of the pool structure and \<open>new_memory\<close> that of the memory of the pool. The handle of a new buffer
  is uninitialised until it is preset.
\<close>

definition new_handle :: Buffer where
  "new_handle = \<lparr>bf_data_addr = 0, bf_data_size = 0, bf_header_size = BUFFER_DEFAULT_HEADER_SIZE, bf_data_capacity = 0,
     bf_slot_length = BUFFER_DEFAULT_SLOT_SIZE, bf_object_addr = 0, bf_num_objects = 0, bf_datastore_flags = 0,
     bf_datastore_addr = 0\<rparr>"

lemma preset_new_handle: "Buffer_preset buffer = new_handle"
  by (cases buffer) (simp add: Buffer_preset_def new_handle_def)

definition Buffer_allocate_generic :: "mem \<Rightarrow> u64 \<Rightarrow> u64 \<Rightarrow> u64 \<Rightarrow> u64 \<Rightarrow> mem \<times> MemPool \<times> Buffer option" where
  "Buffer_allocate_generic m pool_addr new_memory buffer_capacity buffer_flags =
     (let ptr_buffer = new_handle;
          slot_size = Buffer_get_slot_size ptr_buffer;
          addr_size = ManagedBuffer_get_slot_based_length sizeof_address slot_size;
          section_hd_size = 2 * addr_size;
          min_required_capacity = BUFFER_DEFAULT_HEADER_SIZE + 4 * section_hd_size;
          requ_capacity = (if min_required_capacity \<le> buffer_capacity then buffer_capacity else min_required_capacity);
          mem_pool = MemPool_set_chunk_size MemPool_preset slot_size
      in if buffer_flags AND BUFFER_DATASTORE_MEMPOOL = BUFFER_DATASTORE_MEMPOOL then
           let (m, mem_pool, reserved) = MemPool_reserve_aligned m new_memory mem_pool requ_capacity slot_size
           in if reserved then
                let (mem_pool, result) = MemPool_append_aligned mem_pool requ_capacity slot_size
                in if AllocResult_valid result then
                     let m = mem_set m (AllocResult_get_pointer result) (AllocResult_get_length result) 0;
                         (m, ptr_buffer, success) = Buffer_init_on_flat_memory m ptr_buffer (AllocResult_get_pointer result)
                           (AllocResult_get_length result)
                     in if success = 0 then
                          (m, mem_pool, Some (ptr_buffer\<lparr>bf_datastore_addr := pool_addr,
                             bf_datastore_flags := buffer_flags OR BUFFER_USES_DATASTORE OR BUFFER_OWNS_DATASTORE OR
                               BUFFER_DATASTORE_MEMPOOL OR BUFFER_DATASTORE_ALLOW_APPENDS OR BUFFER_DATASTORE_ALLOW_CLEAR OR
                               BUFFER_DATASTORE_ALLOW_REMAPPING OR BUFFER_DATASTORE_ALLOW_RESIZE\<rparr>))
                        else (m, mem_pool, None)
                   else (m, mem_pool, None)
              else (m, mem_pool, None)
         else (m, mem_pool, None))"

definition Buffer_delete :: "MemPool \<Rightarrow> Buffer \<Rightarrow> MemPool \<times> Buffer" where
  "Buffer_delete mem_pool buffer = Buffer_free mem_pool buffer"

definition Buffer_new :: "mem \<Rightarrow> u64 \<Rightarrow> u64 \<Rightarrow> u64 \<Rightarrow> mem \<times> MemPool \<times> Buffer option" where
  "Buffer_new m pool_addr new_memory buffer_capacity =
     (let (m, mem_pool, ptr_buffer) = Buffer_allocate_generic m pool_addr new_memory buffer_capacity BUFFER_DATASTORE_MEMPOOL
      in case ptr_buffer of
           None \<Rightarrow> (m, mem_pool, None)
         | Some buffer \<Rightarrow>
             let (m, buffer, status) = Buffer_reset_generic m buffer
             in if status \<noteq> 0 then (m, fst (Buffer_delete mem_pool buffer), None) else (m, mem_pool, Some buffer))"

definition Buffer_new_detailed ::
    "mem \<Rightarrow> u64 \<Rightarrow> u64 \<Rightarrow> u64 \<Rightarrow> u64 \<Rightarrow> u64 \<Rightarrow> u64 \<Rightarrow> u64 \<Rightarrow> mem \<times> MemPool \<times> Buffer option" where
  "Buffer_new_detailed m pool_addr new_memory initial_max_num_objects initial_max_num_slots initial_max_num_dataptrs
       initial_max_num_garbage_elements buffer_flags =
     (let slot_size = BUFFER_DEFAULT_SLOT_SIZE;
          addr_size = ManagedBuffer_get_slot_based_length sizeof_address slot_size;
          obj_info_size = ManagedBuffer_get_slot_based_length sizeof_Object slot_size;
          dataptrs_size = ManagedBuffer_get_slot_based_length sizeof_address slot_size;
          garbage_size = slot_size;
          section_hd_size = 2 * addr_size;
          required_capacity = 8 * addr_size +
            section_hd_size + initial_max_num_slots * slot_size +
            section_hd_size + initial_max_num_objects * obj_info_size +
            section_hd_size + initial_max_num_dataptrs * dataptrs_size +
            section_hd_size + initial_max_num_garbage_elements * garbage_size + slot_size;
          (m, mem_pool, ptr_buffer) = Buffer_allocate_generic m pool_addr new_memory required_capacity buffer_flags
      in case ptr_buffer of
           None \<Rightarrow> (m, mem_pool, None)
         | Some buffer \<Rightarrow>
             let (m, buffer, status) = Buffer_reset_detailed_generic m buffer initial_max_num_objects initial_max_num_slots
                   initial_max_num_dataptrs initial_max_num_garbage_elements
             in if status \<noteq> 0 then (m, fst (Buffer_delete mem_pool buffer), None) else (m, mem_pool, Some buffer))"

definition Buffer_new_on_memory :: "mem \<Rightarrow> u64 \<Rightarrow> u64 \<Rightarrow> mem \<times> Buffer option" where
  "Buffer_new_on_memory m data_buffer_begin buffer_capacity =
     (if data_buffer_begin \<noteq> 0 \<and> buffer_capacity > 0 then
        let (m, mem_pool, buffer, status) = Buffer_init m 0 MemPool_preset new_handle data_buffer_begin buffer_capacity
        in if status \<noteq> 0 then (m, None) else (m, Some buffer)
      else (m, None))"

definition Buffer_new_on_data :: "mem \<Rightarrow> u64 \<Rightarrow> u64 \<Rightarrow> mem \<times> Buffer option" where
  "Buffer_new_on_data m data_buffer_begin max_data_buffer_length =
     (if data_buffer_begin \<noteq> 0 \<and> max_data_buffer_length > 0 then
        let (m, mem_pool, buffer, status) =
              Buffer_init_from_data m 0 MemPool_preset new_handle data_buffer_begin max_data_buffer_length
        in if status \<noteq> 0 then (m, None) else (m, Some buffer)
      else (m, None))"

definition Buffer_new_from_copy :: "mem \<Rightarrow> u64 \<Rightarrow> u64 \<Rightarrow> Buffer \<Rightarrow> mem \<times> MemPool \<times> Buffer option" where
  "Buffer_new_from_copy m pool_addr new_memory original =
     (let orig_capacity = Buffer_get_capacity original
      in if Buffer_get_slot_size original \<noteq> 0 \<and> orig_capacity > 0 \<and> Buffer_get_data_begin_addr original \<noteq> 0 then
           let orig_size = Buffer_get_size original;
               (m, mem_pool, ptr_buffer) = Buffer_new m pool_addr new_memory orig_capacity
           in case ptr_buffer of
                None \<Rightarrow> (m, mem_pool, None)
              | Some buffer \<Rightarrow>
                  if orig_size > 0 then
                    let orig_begin = Buffer_get_data_begin_addr original;
                        dest_begin = Buffer_get_data_begin_addr buffer;
                        (m, buffer, status) = (if orig_begin \<noteq> 0 \<and> dest_begin \<noteq> 0
                          then Buffer_refresh (mem_move m dest_begin orig_begin orig_size) buffer else (m, buffer, - 1))
                    in if status \<noteq> 0 then (m, fst (Buffer_delete mem_pool buffer), None) else (m, mem_pool, Some buffer)
                  else (m, mem_pool, Some buffer)
         else (m, MemPool_preset, None))"

subsection \<open>Files (buffer.c)\<close>

text \<open>The bytes that \<open>fread\<close> stores and \<open>fwrite\<close> takes; \<open>fwrite\<close> may fail, \<open>written\<close> being its success.\<close>

definition fread_bytes :: "mem \<Rightarrow> u64 \<Rightarrow> u8 list \<Rightarrow> mem" where
  "fread_bytes m dst bytes =
     (\<lambda>i. if unat dst \<le> i \<and> i < unat dst + length bytes then bytes ! (i - unat dst) else m i)"

definition fwrite_bytes :: "mem \<Rightarrow> u64 \<Rightarrow> u64 \<Rightarrow> u8 list" where
  "fwrite_bytes m src n = map (\<lambda>i. m (unat src + i)) [0..<unat n]"

definition Buffer_read_from_file :: "mem \<Rightarrow> u64 \<Rightarrow> MemPool \<Rightarrow> Buffer \<Rightarrow> u8 list option \<Rightarrow> mem \<times> MemPool \<times> Buffer \<times> bool" where
  "Buffer_read_from_file m new_buffer mem_pool buffer file =
     (let success = False
      in if Buffer_allow_clear buffer \<and> Buffer_allow_modify_datastore_contents buffer then
           case file of
             None \<Rightarrow> (m, mem_pool, buffer, success)
           | Some bytes \<Rightarrow>
               let size_of_file = of_nat (length bytes)
               in if size_of_file > 0 then
                    let buffer_capacity = Buffer_get_capacity buffer;
                        (m, mem_pool, buffer, buffer_capacity, success) =
                          (if size_of_file \<le> buffer_capacity then (m, mem_pool, buffer, buffer_capacity, False)
                           else
                             let (m, mem_pool, buffer, status) = Buffer_reserve_capacity m new_buffer mem_pool buffer size_of_file
                             in if status = 0 then (m, mem_pool, buffer, Buffer_get_capacity buffer, False)
                                else (m, mem_pool, buffer, buffer_capacity, success))
                    in if success = False \<and> size_of_file \<le> buffer_capacity then
                         let success = True;
                             m = fread_bytes m (Buffer_get_data_begin_addr buffer) bytes;
                             (m, buffer, status) = Buffer_remap m buffer
                         in if status = 0 then (m, mem_pool, buffer, False) else (m, mem_pool, buffer, success)
                       else (m, mem_pool, buffer, success)
                  else (m, mem_pool, buffer, success)
         else (m, mem_pool, buffer, success))"

definition Buffer_new_from_file :: "mem \<Rightarrow> u64 \<Rightarrow> u64 \<Rightarrow> u8 list option \<Rightarrow> mem \<times> MemPool \<times> Buffer option" where
  "Buffer_new_from_file m pool_addr new_memory file =
     (case file of
        None \<Rightarrow> (m, MemPool_preset, None)
      | Some bytes \<Rightarrow>
          let size_of_file = of_nat (length bytes)
          in if size_of_file > 0 then
               let (m, mem_pool, ptr_buffer) = Buffer_new m pool_addr new_memory size_of_file
               in case ptr_buffer of
                    None \<Rightarrow> (m, mem_pool, None)
                  | Some buffer \<Rightarrow>
                      let m = fread_bytes m (Buffer_get_data_begin_addr buffer) bytes;
                          (m, buffer, success) = Buffer_remap m buffer
                      in if success \<noteq> 0 then (m, fst (Buffer_delete mem_pool buffer), None) else (m, mem_pool, Some buffer)
             else (m, MemPool_preset, None))"

definition Buffer_write_to_fp :: "mem \<Rightarrow> Buffer \<Rightarrow> bool \<Rightarrow> u8 list option \<times> bool" where
  "Buffer_write_to_fp m buffer written =
     (if Buffer_get_data_begin_addr buffer \<noteq> 0 \<and> Buffer_get_size buffer > 0 then
        if written then (Some (fwrite_bytes m (Buffer_get_data_begin_addr buffer) (Buffer_get_size buffer)), True)
        else (None, False)
      else (None, False))"

definition Buffer_write_to_fp_normalized_addr :: "mem \<Rightarrow> Buffer \<Rightarrow> u64 \<Rightarrow> bool \<Rightarrow> mem \<times> Buffer \<times> u8 list option \<times> bool" where
  "Buffer_write_to_fp_normalized_addr m buffer norm_base_addr written =
     (let cur_base_addr = Buffer_get_data_begin_addr buffer;
          data_size = Buffer_get_size buffer
      in if cur_base_addr \<noteq> 0 \<and> data_size > 0 then
           let slot_size = Buffer_get_slot_size buffer;
               (m, success) = (if cur_base_addr \<noteq> norm_base_addr then
                   let base_offset = (if norm_base_addr \<ge> cur_base_addr then norm_base_addr - cur_base_addr
                         else - (cur_base_addr - norm_base_addr));
                       (m, status) = ManagedBuffer_apply_addr_offset m cur_base_addr base_offset slot_size
                   in (m, status = 0)
                 else (m, True))
           in if success then
                let file = (if written then Some (fwrite_bytes m cur_base_addr data_size) else None);
                    success = written;
                    (m, buffer, success) = (if Buffer_needs_remapping m buffer then
                        let (m, buffer, ret) = Buffer_remap m buffer in (m, buffer, success \<and> ret = 0)
                      else (m, buffer, success))
                in (m, buffer, file, success)
              else (m, buffer, None, success)
         else (m, buffer, None, False))"

end
