(* ===== verification/Object_Buffer_New.thy ===== *)
theory Object_Buffer_New
  imports Object_Buffer_Ops
begin

section \<open>New buffers and copies of buffers\<close>

text \<open>
  What the creating functions promise: a new buffer is empty, aligned and inside the memory that was
  allocated for it; a copy of a buffer, directly or through a file, is a well-formed buffer with the same
  layout and the same words, except for its addresses, and shares no memory with the original.
  \<open>buffer_in m0 buffer n N L f m\<close> is the invariant of the handle: its fields describe a well-formed buffer of
  \<open>n\<close> words in a memory of \<open>N\<close> words; outside these, memory is \<open>m0\<close>.
\<close>

definition buffer_in :: "mem \<Rightarrow> Buffer \<Rightarrow> nat \<Rightarrow> nat \<Rightarrow> buffer_layout \<Rightarrow> (nat \<Rightarrow> u64) \<Rightarrow> mem \<Rightarrow> bool" where
  "buffer_in m0 buffer n N L f m \<longleftrightarrow> buf m0 (bf_data_addr buffer) N f m \<and> describes (bf_data_addr buffer) n L f \<and>
     n \<le> N \<and> fits (bf_data_addr buffer) N \<and> 8 \<le> unat (bf_data_addr buffer) \<and> bf_data_addr buffer mod 8 = 0 \<and>
     bf_data_size buffer = 8 * of_nat n \<and> bf_data_capacity buffer = 8 * of_nat N \<and> bf_slot_length buffer = 8 \<and>
     bf_object_addr buffer = word_addr (bf_data_addr buffer) (at_objs L + 2) \<and>
     bf_num_objects buffer = of_nat (num_objs L)"

lemma buffer_inD:
  assumes "buffer_in m0 buffer n N L f m"
  shows "buf m0 (bf_data_addr buffer) N f m" "describes (bf_data_addr buffer) n L f" "n \<le> N" "fits (bf_data_addr buffer) N"
    "8 \<le> unat (bf_data_addr buffer)" "bf_data_addr buffer mod 8 = 0" "bf_data_size buffer = 8 * of_nat n"
    "bf_data_capacity buffer = 8 * of_nat N" "bf_slot_length buffer = 8"
    "bf_object_addr buffer = word_addr (bf_data_addr buffer) (at_objs L + 2)" "bf_num_objects buffer = of_nat (num_objs L)"
  using assms by (simp_all add: buffer_in_def)

subsection \<open>The pool of a new buffer\<close>

lemma round_up_to_words:
  assumes "unat c + 8 < 2 ^ 64"
  shows "round_up_to c 8 = 8 * of_nat ((unat c + 7) div 8)"
proof -
  have r: "unat c \<le> unat (round_up_to c 8)" "unat (round_up_to c 8) < unat c + 8" "8 dvd unat (round_up_to c 8)"
    using round_up_to_bounds [of 8 c] assms by simp_all
  then obtain k where k: "unat (round_up_to c 8) = 8 * k" by (elim dvdE)
  have "k = (unat c + 7) div 8" using r(1,2) unfolding k by linarith
  then have "unat (round_up_to c 8) = 8 * ((unat c + 7) div 8)" using k by simp
  moreover have "8 * ((unat c + 7) div 8) < 2 ^ 64" using assms by linarith
  ultimately show ?thesis by (simp add: u64_eq_nat unat_words)
qed

lemma begin_offset_less:
  "mp_begin_offset (MemPool_init_aligned new_memory c 8 8) \<le> 7"
proof -
  have "unat (new_memory mod 8) < 8" by (simp add: unat_u64_mod)
  then have "8 - new_memory mod 8 \<le> 7" if "new_memory mod 8 \<noteq> 0"
    using that by (subst u64_le_nat, subst unat_u64_sub) (auto simp: u64_le_nat u64_eq_nat)
  then show ?thesis
    by (simp add: MemPool_init_aligned_def Let_def MemPool_preset_def MemPool_set_buffer_def MemPool_set_begin_pos_def
        MemPool_set_capacity_def MemPool_set_begin_offset_def MemPool_set_size_def MemPool_set_chunk_size_def)
qed

lemma new_pool:
  assumes "new_memory \<noteq> 0" "N = (unat c + 7) div 8" "unat new_memory + 8 * N + 16 < 2 ^ 64" "0 < c"
    and q: "q = MemPool_init_aligned new_memory c 8 8"
  shows "unat new_memory \<le> unat (mp_begin_pos q)" "unat (mp_begin_pos q) < unat new_memory + 8" "mp_begin_pos q mod 8 = 0"
    "8 \<le> unat (mp_begin_pos q)" "fits (mp_begin_pos q) N" "pool_ok q" "8 * of_nat N \<le> mp_capacity q" "mp_size q = 0" "mp_chunk_size q = 8"
    "mp_buffer q = new_memory"
proof -
  have c: "unat c + 16 < 2 ^ 64" using assms(2,3) by linarith
  have sum: "unat (8 + c) = 8 + unat c" using c by (subst unat_u64_add) simp_all
  have N: "8 * N < 2 ^ 64" "8 * Suc N < 2 ^ 64" using assms(3) by simp_all
  have "(unat (8 + c) + 7) div 8 = Suc N" using assms(2) sum by simp
  then have "round_up_to (8 + c) 8 = 8 * of_nat (Suc N)" using round_up_to_words [of "8 + c"] sum c by simp
  moreover have "round_up_to 16 8 = 16" by (simp add: round_up_to_def)
  moreover have "N = 1" if "\<not> c > 8"
    using that assms(2,4) by (simp add: u64_less_nat)
  ultimately have req: "init_request c 8 8 = 8 * of_nat (Suc N)"
    by (cases "c > 8") (simp_all add: init_request_def round_up_to_def Let_def)
  have req': "unat (init_request c 8 8) = 8 * Suc N" unfolding req by (rule unat_words [OF N(2)])
  have hyps: "(0 :: u64) < 8" "unat (8 :: u64) + (if c > 8 then unat c else unat (8 :: u64)) + unat (8 :: u64) < 2 ^ 64"
    "unat new_memory + unat (init_request c 8 8) < 2 ^ 64" unfolding req' using assms(3) c by simp_all
  note A = init_aligned_ok [OF assms(1) hyps(1,1,2,3), folded q]
  show ok: "pool_ok q" "mp_size q = 0" "mp_chunk_size q = 8" "mp_buffer q = new_memory" "mp_begin_pos q mod 8 = 0" using A by simp_all
  have off: "unat (mp_begin_offset q) \<le> 7" using begin_offset_less [of new_memory c] by (simp add: q u64_le_nat)
  have pos: "mp_begin_pos q = new_memory + mp_begin_offset q" using ok by (simp add: pool_ok_def)
  have "unat (mp_begin_pos q) = unat new_memory + unat (mp_begin_offset q)"
    unfolding pos using off assms(3) by (intro unat_u64_add) simp
  then show b: "unat new_memory \<le> unat (mp_begin_pos q)" "unat (mp_begin_pos q) < unat new_memory + 8" using off by simp_all
  have "unat (mp_begin_pos q) mod 8 = 0" using ok(5) by (simp add: u64_eq_nat unat_u64_mod)
  moreover have "unat new_memory \<noteq> 0" using assms(1) by (simp add: unat_eq_zero)
  ultimately show b8: "8 \<le> unat (mp_begin_pos q)" using b(1) by presburger
  have "mp_begin_pos q \<noteq> 0" using b8 by auto
  then show "fits (mp_begin_pos q) N" using b(2) assms(3) by (simp add: fits_def)
  have "unat (mp_begin_pos q) + unat (mp_capacity q) = unat new_memory + 8 * Suc N" using A unfolding req' by simp
  then show "8 * of_nat N \<le> mp_capacity q" using b(2) N by (simp add: u64_le_nat unat_words)
qed

lemma first_block:
  assumes "pool_ok q" "mp_size q = 0" "mp_chunk_size q = 8" "mp_begin_pos q mod 8 = 0" "8 * of_nat N \<le> mp_capacity q"
    and "N = (unat c + 7) div 8" "unat c + 16 < 2 ^ 64" "0 < c"
  shows "MemPool_append_aligned q c 8 =
    (q\<lparr>mp_size := 8 * of_nat N\<rparr>, \<lparr>res_p = mp_begin_pos q, res_offset = 0, res_length = 8 * of_nat N\<rparr>)"
proof -
  have "unat (least_common_multiple 8 8) = 8" by (subst unat_least_common_multiple) simp_all
  then have lcm: "Alignment_calculate_common 8 8 = 8" by (simp add: Alignment_calculate_common_def u64_eq_nat)
  have off: "MemPool_get_next_begin_offset q 8 = 0"
    using assms(2-4) by (simp add: MemPool_get_next_begin_offset_def MemPool_get_chunk_size_def MemPool_get_size_def
        MemPool_get_const_begin_pos_def MemPool_get_capacity_def lcm Let_def)
  have N: "8 * N < 2 ^ 64" "8 * N < 2 ^ 64 - 1" using assms(6,7) by linarith+
  have "(if c div 8 * 8 < c then c div 8 * 8 + 8 else c div 8 * 8) = round_up_to c 8" by (simp add: round_up_to_def)
  also have "\<dots> = 8 * of_nat N" using round_up_to_words [of c] assms(6,7) by simp
  finally have add: "(if c div 8 * 8 < c then c div 8 * 8 + 8 else c div 8 * 8) = 8 * of_nat N" .
  have "8 * of_nat N < U64_MAX" using N by (simp add: u64_less_nat unat_words)
  then have "(0 :: u64) < U64_MAX - 8 * of_nat N" by (simp add: u64_less_nat unat_u64_sub u64_le_nat)
  moreover have "mp_begin_pos q \<noteq> 0" using assms(1) unfolding pool_ok_def by blast
  ultimately show ?thesis
    unfolding MemPool_append_aligned_def off MemPool_get_chunk_size_def assms(3) Let_def add
    using assms(2,5,8) by (simp add: MemPool_get_begin_pos_def MemPool_get_const_begin_pos_def MemPool_get_capacity_def
        AllocResult_preset_def)
qed

subsection \<open>Flags of an owned buffer\<close>

text \<open>The flags of the buffers that the creating functions return: everything but deleting objects.\<close>

definition full_access :: "Buffer \<Rightarrow> bool" where
  "full_access buffer \<longleftrightarrow> bf_datastore_addr buffer \<noteq> 0 \<and> bf_datastore_flags buffer AND 0x1006F = 0x1006F"

lemma sub_flags: "x AND k = k \<Longrightarrow> k AND f = f \<Longrightarrow> x AND f = f" for x k f :: u64
  by (metis and.assoc)

lemma or_flags:
  fixes x k f :: u64
  assumes "k AND f = f"
  shows "(x OR k) AND f = f"
proof (rule bit_word_eqI)
  fix n
  have "bit k n" if "bit f n" using that assms by (metis bit_and_iff)
  then show "bit ((x OR k) AND f) n \<longleftrightarrow> bit f n" by (auto simp: bit_and_iff bit_or_iff)
qed

lemma full_access_allows:
  assumes "full_access buffer"
  shows "Buffer_has_datastore buffer" "Buffer_uses_datastore buffer" "Buffer_owns_datastore buffer" "Buffer_allow_clear buffer"
    "Buffer_allow_append_objects buffer" "Buffer_allow_modify_datastore_contents buffer" "Buffer_allow_remapping buffer"
    "Buffer_allow_resize buffer" "Buffer_uses_mempool_datastore buffer"
proof -
  have "Buffer_check_for_flags buffer f" if "0x1006F AND f = f" for f
    using assms that sub_flags [of _ "0x1006F" f] by (simp add: full_access_def Buffer_check_for_flags_def)
  then show "Buffer_has_datastore buffer" "Buffer_uses_datastore buffer" "Buffer_owns_datastore buffer" "Buffer_allow_clear buffer"
    "Buffer_allow_append_objects buffer" "Buffer_allow_modify_datastore_contents buffer" "Buffer_allow_remapping buffer"
    "Buffer_allow_resize buffer" "Buffer_uses_mempool_datastore buffer"
    using assms by (simp_all add: Buffer_has_datastore_def Buffer_uses_datastore_def Buffer_owns_datastore_def
        Buffer_allow_clear_def Buffer_allow_append_objects_def Buffer_allow_modify_datastore_contents_def
        Buffer_allow_remapping_def Buffer_allow_resize_def Buffer_uses_mempool_datastore_def buffer_flags full_access_def)
qed

subsection \<open>Initialising memory that is larger than the buffer\<close>

lemma buf_extend:
  assumes "buf m0 b N g m" "buf m b n f m'" "n \<le> N" "fits b N"
  shows "buf m0 b N (\<lambda>k. if k < n then f k else g k) m'"
  unfolding buf_def
proof (intro conjI allI impI)
  fix k assume k: "k < N"
  show "rd64 m' (word_addr b k) = (if k < n then f k else g k)"
  proof (cases "k < n")
    case False
    then have "rd64 m' (word_addr b k) = rd64 m (word_addr b k)"
      using k assms(4) by (intro rd64_cong buf_outside [OF assms(2)]) (simp add: unat_addr)
    then show ?thesis using False buf_read [OF assms(1) k] by simp
  qed (simp add: buf_read [OF assms(2)])
next
  fix i assume "i < unat b \<or> unat b + 8 * N \<le> i"
  then show "m' i = m0 i" using buf_outside [OF assms(1)] buf_outside [OF assms(2), of i] assms(3) by auto
qed

lemma fits_mono: "fits b N \<Longrightarrow> n \<le> N \<Longrightarrow> fits b n"
  by (auto simp: fits_def)

lemma init_within:
  assumes "buf m0 b N g m" "fits b N" "n = capacity_words os sl ps rs" "n \<le> N" "g 2 = 0 \<or> g 2 = 64"
    and "L = with_capacity os sl ps rs no_contents"
  shows "\<exists>m'. ManagedBuffer_init m b (of_nat os) (of_nat sl) (of_nat ps) (of_nat rs) (8 * of_nat N) 8 =
      (m', Some (8 * of_nat n), 0) \<and> buf m0 b N (\<lambda>k. if k < n then empty_words b n L k else g k) m'"
proof -
  have n: "2 < N" using assms(3,4) by (simp add: capacity_words_def)
  have "b + 16 = word_addr b 2" by (simp add: word_addr_def)
  then have hd: "rd64 m (b + 16) = 0 \<or> rd64 m (b + 16) = 64" using assms(5) buf_read [OF assms(1) n] by simp
  have N: "8 * N < 2 ^ 64" "8 * n < 2 ^ 64" using assms(2,4) by (simp_all add: fits_def)
  then have le: "8 * of_nat n \<le> (8 * of_nat N :: u64)" using assms(4) by (simp only: words_le)
  obtain m' where "ManagedBuffer_init m b (of_nat os) (of_nat sl) (of_nat ps) (of_nat rs) (8 * of_nat N) 8 = (m', Some (8 * of_nat n), 0)"
      "buf m b n (empty_words b n L) m'"
    using init_writes_empty_words [OF fits_mono [OF assms(2,4)] hd assms(3) le assms(6)] by blast
  then show ?thesis using buf_extend [OF assms(1) _ assms(4,2)] by blast
qed

lemma object_begin:
  assumes "buf m0 b N f m" "fits b N" "n \<le> N" "describes b n L f"
  shows "ManagedBuffer_get_const_objects_index_begin m b 8 = word_addr b (at_objs L + 2)"
    "ManagedBuffer_get_ptr_to_section_data m b 4 8 = word_addr b (at_objs L + 2)"
proof -
  have "header_in_place m b n L f m"
    using assms buf_part [OF assms(1,3)] fits_mono [OF assms(2,3)] by (simp add: header_in_place_def describes_def)
  from header_data(2) [OF this] show "ManagedBuffer_get_const_objects_index_begin m b 8 = word_addr b (at_objs L + 2)"
    "ManagedBuffer_get_ptr_to_section_data m b 4 8 = word_addr b (at_objs L + 2)"
    by (simp_all add: ManagedBuffer_get_const_objects_index_begin_def ManagedBuffer_get_ptr_to_section_data_def)
qed

lemma empty_within:
  assumes "n = capacity_words os sl ps rs" "L = with_capacity os sl ps rs no_contents"
  shows "describes b n L (\<lambda>k. if k < n then empty_words b n L k else g k)"
proof -
  have lo: "layout_ok n L" unfolding assms by (intro capacity_layout_ok) simp_all
  have d: "describes b n L (empty_words b n L)" by (rule empty_describes [OF lo]) (simp_all add: assms(2))
  then show ?thesis
    using layout_bounds [OF lo] by (simp add: describes_def header_at_def sections_ok_def objects_at_def ptrs_at_def ranges_at_def assms(2))
qed

subsection \<open>Resetting\<close>

definition empty_buffer_words :: "nat \<Rightarrow> nat \<Rightarrow> nat \<Rightarrow> nat \<Rightarrow> u64 \<Rightarrow> (nat \<Rightarrow> u64) \<Rightarrow> nat \<Rightarrow> u64" where
  "empty_buffer_words os sl ps rs b g k = (if k < capacity_words os sl ps rs
     then empty_words b (capacity_words os sl ps rs) (with_capacity os sl ps rs no_contents) k else g k)"

lemma with_capacity_objs: "num_objs (with_capacity os sl ps rs no_contents) = 0"
  by simp

lemma reset_gives_empty:
  assumes "buffer_in m0 buffer n N L g m" "full_access buffer" "capacity_words os sl ps rs \<le> N"
  shows "\<exists>m' buffer'. Buffer_reset_detailed_generic m buffer (of_nat os) (of_nat sl) (of_nat ps) (of_nat rs) = (m', buffer', 0) \<and>
    buffer_in m0 buffer' (capacity_words os sl ps rs) N (with_capacity os sl ps rs no_contents)
      (empty_buffer_words os sl ps rs (bf_data_addr buffer) g) m' \<and>
    full_access buffer' \<and> bf_data_addr buffer' = bf_data_addr buffer"
proof -
  define b where "b = bf_data_addr buffer"
  define n' where "n' = capacity_words os sl ps rs"
  define L' where "L' = with_capacity os sl ps rs no_contents"
  note B = buffer_inD [OF assms(1), folded b_def]
  have "g 2 = 64" using B(2) by (simp add: describes_def sections_ok_def)
  then obtain m' where m': "ManagedBuffer_init m b (of_nat os) (of_nat sl) (of_nat ps) (of_nat rs) (8 * of_nat N) 8 =
      (m', Some (8 * of_nat n'), 0)" "buf m0 b N (\<lambda>k. if k < n' then empty_words b n' L' k else g k) m'"
    using init_within [OF B(1,4) n'_def _ _ L'_def] assms(3) by (auto simp: n'_def)
  have n': "n' \<le> N" using assms(3) by (simp add: n'_def)
  note d = empty_within [OF n'_def L'_def, of b g]
  define buffer' where "buffer' = buffer\<lparr>bf_data_addr := b, bf_data_size := 8 * of_nat n', bf_data_capacity := 8 * of_nat N,
    bf_num_objects := 0, bf_object_addr := word_addr b (at_objs L' + 2)\<rparr>"
  have "Buffer_reset_detailed_generic m buffer (of_nat os) (of_nat sl) (of_nat ps) (of_nat rs) = (m', buffer', 0)"
    unfolding Buffer_reset_detailed_generic_def Buffer_get_data_begin_addr_def Buffer_get_slot_size_def Buffer_get_capacity_def
      b_def [symmetric] B(8,9) m'(1) Let_def
    using full_access_allows [OF assms(2)] object_begin(1) [OF m'(2) B(4) n' d]
    by (simp add: buffer'_def)
  moreover have "empty_buffer_words os sl ps rs (bf_data_addr buffer) g = (\<lambda>k. if k < n' then empty_words b n' L' k else g k)"
    by (simp add: empty_buffer_words_def n'_def L'_def b_def fun_eq_iff)
  moreover have "buffer_in m0 buffer' n' N L' (\<lambda>k. if k < n' then empty_words b n' L' k else g k) m'"
    unfolding buffer_in_def using m'(2) d n' B(4-6,9) by (simp add: buffer'_def L'_def)
  moreover have "full_access buffer'" using assms(2) by (simp add: full_access_def buffer'_def)
  ultimately show ?thesis by (auto simp: buffer'_def b_def n'_def L'_def)
qed

subsection \<open>Creating a buffer\<close>

text \<open>The memory that \<open>malloc\<close> returned is large enough for \<open>N\<close> words and lies in the address space.\<close>

definition new_room :: "u64 \<Rightarrow> u64 \<Rightarrow> nat \<Rightarrow> bool" where
  "new_room pool_addr new_memory N \<longleftrightarrow> pool_addr \<noteq> 0 \<and> new_memory \<noteq> 0 \<and> unat new_memory + 8 * N + 16 < 2 ^ 64"

definition placed_in :: "u64 \<Rightarrow> Buffer \<Rightarrow> bool" where
  "placed_in new_memory buffer \<longleftrightarrow> unat new_memory \<le> unat (bf_data_addr buffer) \<and>
     unat (bf_data_addr buffer) < unat new_memory + 8"

definition words_for :: "u64 \<Rightarrow> nat" where
  "words_for capacity = max 16 ((unat capacity + 7) div 8)"

lemma allocated_flags:
  "(flags OR BUFFER_USES_DATASTORE OR BUFFER_OWNS_DATASTORE OR BUFFER_DATASTORE_MEMPOOL OR BUFFER_DATASTORE_ALLOW_APPENDS OR
    BUFFER_DATASTORE_ALLOW_CLEAR OR BUFFER_DATASTORE_ALLOW_REMAPPING OR BUFFER_DATASTORE_ALLOW_RESIZE) AND 0x1006F = 0x1006F"
  by (rule or_flags) (simp add: buffer_flags)

lemma allocate_gives_empty:
  assumes "new_room pool_addr new_memory N" "N = words_for capacity"
    and flags: "flags AND BUFFER_DATASTORE_MEMPOOL = BUFFER_DATASTORE_MEMPOOL"
  shows "\<exists>m' mem_pool buffer. Buffer_allocate_generic m pool_addr new_memory capacity flags = (m', mem_pool, Some buffer) \<and>
    buffer_in m buffer 16 N (with_capacity 0 0 0 0 no_contents) (empty_buffer_words 0 0 0 0 (bf_data_addr buffer) (\<lambda>_. 0)) m' \<and>
    full_access buffer \<and> placed_in new_memory buffer"
proof -
  define c where "c = (if 128 \<le> capacity then capacity else 128)"
  have c: "N = (unat c + 7) div 8" "0 < c" "128 \<le> unat c"
    unfolding assms(2) words_for_def c_def by (auto simp: u64_le_nat u64_less_nat max_def)
  have nm: "new_memory \<noteq> 0" "unat new_memory + 8 * N + 16 < 2 ^ 64" "pool_addr \<noteq> 0" using assms(1) by (simp_all add: new_room_def)
  have c16: "unat c + 16 < 2 ^ 64" using c(1) nm(2) by linarith
  define q where "q = MemPool_init_aligned new_memory c 8 8"
  define p where "p = mp_begin_pos q"
  note Q = new_pool [OF nm(1) c(1) nm(2) c(2) q_def, folded p_def]
  have res: "MemPool_reserve_aligned m new_memory (MemPool_set_chunk_size MemPool_preset 8) c 8 = (m, q, True)"
    using Q(10) nm(1) c(2) by (simp add: MemPool_reserve_aligned_def MemPool_set_chunk_size_def MemPool_preset_def MemPool_get_capacity_def
        MemPool_get_chunk_size_def MemPool_get_const_buffer_def MemPool_get_const_begin_pos_def q_def Let_def)
  note app = first_block [OF Q(6,8,9) _ Q(7) c(1) c16 c(2), folded p_def, OF Q(3)]
  have N: "16 \<le> N" "0 < N" using c(1,3) by linarith+
  have N8: "8 * N < 2 ^ 64" using nm(2) by simp
  then have pos: "0 < (8 * of_nat N :: u64)" using N(2) by (simp add: u64_less_nat unat_words)
  have p0: "p \<noteq> 0" using Q(5) by (simp add: fits_def)
  define m1 where "m1 = mem_set m p (8 * of_nat N) 0"
  have m1: "buf m p N (\<lambda>_. 0) m1"
    using buf_fill [OF buf_self Q(5), of 0 N m] unfolding m1_def addr_0 by (auto elim: buf_cong)
  have cap: "16 = capacity_words 0 0 0 0" by (simp add: capacity_words_def)
  define L where "L = with_capacity 0 0 0 0 no_contents"
  obtain m2 where m2: "ManagedBuffer_init m1 p 0 0 0 0 (8 * of_nat N) 8 = (m2, Some (8 * of_nat 16), 0)"
      "buf m p N (\<lambda>k. if k < 16 then empty_words p 16 L k else 0) m2"
    using init_within [OF m1 Q(5) cap N(1) _ L_def] by auto
  note d = empty_within [OF cap L_def, of p "\<lambda>_. 0"]
  define flags' where "flags' = (flags OR BUFFER_USES_DATASTORE OR BUFFER_OWNS_DATASTORE OR BUFFER_DATASTORE_MEMPOOL OR
    BUFFER_DATASTORE_ALLOW_APPENDS OR BUFFER_DATASTORE_ALLOW_CLEAR OR BUFFER_DATASTORE_ALLOW_REMAPPING OR BUFFER_DATASTORE_ALLOW_RESIZE)"
  define buffer where "buffer = new_handle\<lparr>bf_data_addr := p, bf_data_size := 8 * of_nat 16, bf_data_capacity := 8 * of_nat N,
     bf_num_objects := 0, bf_object_addr := word_addr p (at_objs L + 2), bf_datastore_addr := pool_addr, bf_datastore_flags := flags'\<rparr>"
  have place: "in_place m2 p 16 L (\<lambda>k. if k < 16 then empty_words p 16 L k else 0) m2"
    using buf_part [OF m2(2) N(1)] fits_mono [OF Q(5) N(1)] Q(3,4) d by (simp add: in_place_def describes_def)
  have objs: "ManagedBuffer_get_section_num_entities m2 p 4 8 = 0"
    using section_counts(2) [OF place] by (simp add: L_def)
  have init: "Buffer_init_on_flat_memory m1 new_handle p (8 * of_nat N) = (m2, new_handle\<lparr>bf_data_addr := p, bf_data_size := 8 * of_nat 16,
      bf_data_capacity := 8 * of_nat N, bf_num_objects := 0, bf_object_addr := word_addr p (at_objs L + 2), bf_datastore_addr := p,
      bf_datastore_flags := BUFFER_DATASTORE_ALLOW_APPENDS OR BUFFER_USES_DATASTORE OR BUFFER_DATASTORE_ALLOW_CLEAR OR
        BUFFER_DATASTORE_ALLOW_DELETES OR BUFFER_DATASTORE_ALLOW_REMAPPING\<rparr>, 0)"
    unfolding Buffer_init_on_flat_memory_def Buffer_init_on_flat_memory_detailed_def Let_def Buffer_get_slot_size_def
    using m2(1) objs object_begin(2) [OF m2(2) Q(5) N(1) d] by (simp add: new_handle_def BUFFER_DEFAULT_SLOT_SIZE_def)
  have slot: "Buffer_get_slot_size new_handle = 8"
    by (simp add: Buffer_get_slot_size_def new_handle_def BUFFER_DEFAULT_SLOT_SIZE_def)
  have requ: "(if BUFFER_DEFAULT_HEADER_SIZE + 4 * (2 * ManagedBuffer_get_slot_based_length sizeof_address 8) \<le> capacity then capacity
      else BUFFER_DEFAULT_HEADER_SIZE + 4 * (2 * ManagedBuffer_get_slot_based_length sizeof_address 8)) = c"
    by (simp add: c_def ManagedBuffer_get_slot_based_length_def sizeof_address_def BUFFER_DEFAULT_HEADER_SIZE_def)
  have valid: "AllocResult_valid \<lparr>res_p = p, res_offset = 0, res_length = 8 * of_nat N\<rparr>"
    using pos p0 by (simp add: AllocResult_valid_def)
  have "Buffer_allocate_generic m pool_addr new_memory capacity flags = (m2, q\<lparr>mp_size := 8 * of_nat N\<rparr>, Some buffer)"
    unfolding Buffer_allocate_generic_def slot requ Let_def res app prod.case if_P [OF flags] AllocResult_get_pointer_def
      AllocResult_get_length_def if_P [OF valid] AllocResult.simps m1_def [symmetric] init
    by (simp add: buffer_def flags'_def)
  moreover have "buffer_in m buffer 16 N L (\<lambda>k. if k < 16 then empty_words p 16 L k else 0) m2"
    unfolding buffer_in_def using m2(2) d N Q(3-5) by (simp add: buffer_def L_def new_handle_def BUFFER_DEFAULT_SLOT_SIZE_def)
  moreover have "full_access buffer" using nm(3) allocated_flags [of flags] by (simp add: full_access_def buffer_def flags'_def)
  moreover have "placed_in new_memory buffer" using Q(1,2) by (simp add: placed_in_def buffer_def)
  moreover have "empty_buffer_words 0 0 0 0 (bf_data_addr buffer) (\<lambda>_. 0) = (\<lambda>k. if k < 16 then empty_words p 16 L k else 0)"
    by (simp add: fun_eq_iff empty_buffer_words_def L_def buffer_def flip: cap)
  ultimately show ?thesis unfolding L_def [symmetric] by (intro exI [of _ m2] exI conjI) simp_all
qed

lemma new_gives_empty:
  assumes "new_room pool_addr new_memory N" "N = words_for capacity"
  shows "\<exists>m' mem_pool buffer f. Buffer_new m pool_addr new_memory capacity = (m', mem_pool, Some buffer) \<and>
    buffer_in m buffer 16 N (with_capacity 0 0 0 0 no_contents) f m' \<and> full_access buffer \<and> placed_in new_memory buffer"
proof -
  obtain m1 mem_pool buffer where A: "Buffer_allocate_generic m pool_addr new_memory capacity BUFFER_DATASTORE_MEMPOOL =
      (m1, mem_pool, Some buffer)" "buffer_in m buffer 16 N (with_capacity 0 0 0 0 no_contents)
      (empty_buffer_words 0 0 0 0 (bf_data_addr buffer) (\<lambda>_. 0)) m1" "full_access buffer" "placed_in new_memory buffer"
    using allocate_gives_empty [OF assms] by (metis and.idem)
  have cap: "capacity_words 0 0 0 0 = 16" by (simp add: capacity_words_def)
  have "16 \<le> N" using A(2) by (rule buffer_inD)
  then obtain m2 buffer' where "Buffer_reset_generic m1 buffer = (m2, buffer', 0)" "full_access buffer'"
      "bf_data_addr buffer' = bf_data_addr buffer"
      "buffer_in m buffer' 16 N (with_capacity 0 0 0 0 no_contents) (empty_buffer_words 0 0 0 0 (bf_data_addr buffer)
        (empty_buffer_words 0 0 0 0 (bf_data_addr buffer) (\<lambda>_. 0))) m2"
    using reset_gives_empty [OF A(2,3), of 0 0 0 0] unfolding cap by (auto simp: Buffer_reset_generic_def)
  then show ?thesis using A(1,4) by (auto simp: Buffer_new_def placed_in_def)
qed

lemma slot_lengths:
  "ManagedBuffer_get_slot_based_length sizeof_address 8 = 8" "ManagedBuffer_get_slot_based_length sizeof_Object 8 = 24"
  by (simp_all add: ManagedBuffer_get_slot_based_length_def sizeof_address_def sizeof_Object_def)

lemma reset_too_large:
  assumes "buffer_in m0 buffer n N L g m" "full_access buffer" "N < capacity_words os sl ps rs"
    and "8 * capacity_words os sl ps rs < 2 ^ 64"
  shows "Buffer_reset_detailed_generic m buffer (of_nat os) (of_nat sl) (of_nat ps) (of_nat rs) = (m, buffer, - 1)"
proof -
  note B = buffer_inD [OF assms(1)]
  define b where "b = bf_data_addr buffer"
  have n: "2 < N" using B(2,3) layout_bounds(1) [of n L] by (simp add: describes_def)
  have "g 2 = 64" using B(2) by (simp add: describes_def sections_ok_def)
  moreover have "b + 16 = word_addr b 2" by (simp add: word_addr_def)
  ultimately have "rd64 m (b + 16) = 64" using buf_read [OF B(1) n] by (simp add: b_def)
  moreover have b: "b \<noteq> 0" using B(4) by (simp add: fits_def b_def)
  ultimately have hd: "ManagedBuffer_get_header_length m b 8 = 8 * of_nat 8" using header_length_64 by blast
  have sum: "8 * of_nat 8 + 8 * of_nat (sl + 2) + 8 * of_nat (3 * os + 2) + 8 * of_nat (ps + 2) + 8 * of_nat (2 * rs + 2) =
      (8 * of_nat (capacity_words os sl ps rs) :: u64)"
    unfolding capacity_words_def by simp
  have N: "8 * N < 2 ^ 64" using assms(3,4) by linarith
  have large: "\<not> 8 * of_nat (capacity_words os sl ps rs) \<le> (8 * of_nat N :: u64)"
    using assms(3) unfolding words_le [OF assms(4) N] by simp
  have "ManagedBuffer_init m b (of_nat os) (of_nat sl) (of_nat ps) (of_nat rs) (8 * of_nat N) 8 =
      (m, Some (8 * of_nat (capacity_words os sl ps rs)), - 1)"
    unfolding ManagedBuffer_init_def hd calculated_sizes Let_def sum using b large by simp
  then show ?thesis
    using full_access_allows [OF assms(2)] B(8,9)
    by (simp add: Buffer_reset_detailed_generic_def Buffer_get_data_begin_addr_def Buffer_get_slot_size_def Buffer_get_capacity_def b_def)
qed

lemma new_detailed_buffer:
  assumes "new_room pool_addr new_memory (16 + sl + 3 * os + ps + rs + 1)" "8 * capacity_words os sl ps rs + 8 < 2 ^ 64"
    and "flags AND BUFFER_DATASTORE_MEMPOOL = BUFFER_DATASTORE_MEMPOOL"
    and "Buffer_new_detailed m pool_addr new_memory (of_nat os) (of_nat sl) (of_nat ps) (of_nat rs) flags = (m', mem_pool, result)"
  shows "if rs \<le> 1 then \<exists>buffer f. result = Some buffer \<and> full_access buffer \<and> placed_in new_memory buffer \<and>
      buffer_in m buffer (capacity_words os sl ps rs) (16 + sl + 3 * os + ps + rs + 1) (with_capacity os sl ps rs no_contents) f m'
    else result = None"
proof -
  define N where "N = 16 + sl + 3 * os + ps + rs + 1"
  have N8: "8 * N < 2 ^ 64" using assms(2) by (simp add: N_def capacity_words_def)
  have words: "N = words_for (8 * of_nat N)" unfolding words_for_def unat_words [OF N8] by (simp add: N_def)
  obtain m1 pool1 buffer where A: "Buffer_allocate_generic m pool_addr new_memory (8 * of_nat N) flags = (m1, pool1, Some buffer)"
      "buffer_in m buffer 16 N (with_capacity 0 0 0 0 no_contents) (empty_buffer_words 0 0 0 0 (bf_data_addr buffer) (\<lambda>_. 0)) m1"
      "full_access buffer" "placed_in new_memory buffer"
    using allocate_gives_empty [OF assms(1) [folded N_def] words assms(3)] by blast
  have "8 * ManagedBuffer_get_slot_based_length sizeof_address 8 +
      2 * ManagedBuffer_get_slot_based_length sizeof_address 8 + of_nat sl * 8 +
      2 * ManagedBuffer_get_slot_based_length sizeof_address 8 + of_nat os * ManagedBuffer_get_slot_based_length sizeof_Object 8 +
      2 * ManagedBuffer_get_slot_based_length sizeof_address 8 + of_nat ps * ManagedBuffer_get_slot_based_length sizeof_address 8 +
      2 * ManagedBuffer_get_slot_based_length sizeof_address 8 + of_nat rs * 8 + 8 = (8 * of_nat N :: u64)"
    unfolding slot_lengths by (simp add: N_def algebra_simps)
  then have new: "Buffer_new_detailed m pool_addr new_memory (of_nat os) (of_nat sl) (of_nat ps) (of_nat rs) flags =
      (let (m2, buffer', status) = Buffer_reset_detailed_generic m1 buffer (of_nat os) (of_nat sl) (of_nat ps) (of_nat rs)
       in if status \<noteq> 0 then (m2, fst (Buffer_delete pool1 buffer'), None) else (m2, pool1, Some buffer'))"
    unfolding Buffer_new_detailed_def Let_def BUFFER_DEFAULT_SLOT_SIZE_def by (simp only: A(1) prod.case option.case)
  show ?thesis
  proof (cases "rs \<le> 1")
    case True
    then have "capacity_words os sl ps rs \<le> N" by (simp add: N_def capacity_words_def)
    then obtain m2 buffer' where R:
        "Buffer_reset_detailed_generic m1 buffer (of_nat os) (of_nat sl) (of_nat ps) (of_nat rs) = (m2, buffer', 0)"
        "buffer_in m buffer' (capacity_words os sl ps rs) N (with_capacity os sl ps rs no_contents)
          (empty_buffer_words os sl ps rs (bf_data_addr buffer) (empty_buffer_words 0 0 0 0 (bf_data_addr buffer) (\<lambda>_. 0))) m2"
        "full_access buffer'" "bf_data_addr buffer' = bf_data_addr buffer"
      using reset_gives_empty [OF A(2,3)] by blast
    have "placed_in new_memory buffer'" using A(4) R(4) by (simp add: placed_in_def)
    moreover have "m' = m2" "result = Some buffer'" using assms(4) unfolding new R(1) by simp_all
    ultimately show ?thesis unfolding if_P [OF True] N_def [symmetric] using R(2,3) by blast
  next
    case False
    then have "N < capacity_words os sl ps rs" by (simp add: N_def capacity_words_def)
    from reset_too_large [OF A(2,3) this] show ?thesis
      using False assms(2,4) unfolding new by simp
  qed
qed

text \<open>C20: A buffer created for given numbers of elements and at most one garbage range is empty and well formed, has these
  capacities, lies aligned in the memory that was allocated for it, and may be cleared, appended to, remapped and
  resized; deleting objects is not among these permissions. With two or more garbage ranges the creation fails,
  since the required length counts half of a garbage range.\<close>

theorem new_detailed_gives_empty_buffer:
  assumes "new_room pool_addr new_memory (16 + sl + 3 * os + ps + rs + 1)" "8 * capacity_words os sl ps rs + 8 < 2 ^ 64"
    and "flags AND BUFFER_DATASTORE_MEMPOOL = BUFFER_DATASTORE_MEMPOOL"
    and "Buffer_new_detailed m pool_addr new_memory (of_nat os) (of_nat sl) (of_nat ps) (of_nat rs) flags = (m', mem_pool, result)"
  shows "if rs \<le> 1 then \<exists>buffer f. result = Some buffer \<and> full_access buffer \<and> placed_in new_memory buffer \<and>
      Buffer_allow_clear buffer \<and> Buffer_allow_append_objects buffer \<and> Buffer_allow_remapping buffer \<and> Buffer_allow_resize buffer \<and>
      buffer_in m buffer (capacity_words os sl ps rs) (16 + sl + 3 * os + ps + rs + 1) (with_capacity os sl ps rs no_contents) f m'
    else result = None"
  using new_detailed_buffer [OF assms] full_access_allows by (auto split: if_splits)

text \<open>Without garbage ranges there is a buffer, with two of them there is none.\<close>

theorem new_detailed_gives_empty_buffer_witness:
  "(\<exists>buffer. snd (snd (Buffer_new_detailed (\<lambda>_. 0) 4096 8200 (of_nat 2) (of_nat 16) (of_nat 3) (of_nat 0) BUFFER_DATASTORE_MEMPOOL)) = Some buffer \<and>
     Buffer_allow_append_objects buffer \<and> bf_num_objects buffer = 0) \<and>
   snd (snd (Buffer_new_detailed (\<lambda>_. 0) 4096 8200 (of_nat 2) (of_nat 16) (of_nat 3) (of_nat 2) BUFFER_DATASTORE_MEMPOOL)) = None"
proof -
  have created: "if rs \<le> 1 then \<exists>buffer. snd (snd (Buffer_new_detailed (\<lambda>_. 0) 4096 8200 (of_nat 2) (of_nat 16) (of_nat 3) (of_nat rs)
        BUFFER_DATASTORE_MEMPOOL)) = Some buffer \<and> Buffer_allow_append_objects buffer \<and> bf_num_objects buffer = 0
      else snd (snd (Buffer_new_detailed (\<lambda>_. 0) 4096 8200 (of_nat 2) (of_nat 16) (of_nat 3) (of_nat rs) BUFFER_DATASTORE_MEMPOOL)) = None"
    if "rs \<le> 2" for rs
  proof -
    obtain m' mem_pool result where res:
      "Buffer_new_detailed (\<lambda>_. 0) 4096 8200 (of_nat 2) (of_nat 16) (of_nat 3) (of_nat rs) BUFFER_DATASTORE_MEMPOOL = (m', mem_pool, result)"
      using prod_cases3 by blast
    have "new_room 4096 8200 (16 + 16 + 3 * 2 + 3 + rs + 1)" "8 * capacity_words 2 16 3 rs + 8 < 2 ^ 64"
      using that by (simp_all add: new_room_def capacity_words_def)
    note R = new_detailed_gives_empty_buffer [OF this and.idem res]
    show ?thesis
    proof (cases "rs \<le> 1")
      case True
      then obtain buffer f where "result = Some buffer" "Buffer_allow_append_objects buffer"
          "buffer_in (\<lambda>_. 0) buffer (capacity_words 2 16 3 rs) (16 + 16 + 3 * 2 + 3 + rs + 1) (with_capacity 2 16 3 rs no_contents) f m'"
        using R by auto
      then show ?thesis using True buffer_inD(11) [of "\<lambda>_. 0" buffer] res by (fastforce simp: with_capacity_def no_contents_def)
    qed (use R res in simp)
  qed
  show ?thesis using created [of 0] created [of 2] by simp
qed

end
