(* ===== verification/Object_Buffer_Copies.thy ===== *)
theory Object_Buffer_Copies
  imports Object_Buffer_New
begin

section \<open>Copies of buffers\<close>

text \<open>
  Copying a buffer in memory and through a file. Either way the bytes arrive at another address and are
  remapped there; what is proved of remapping makes the copy a buffer with the same layout.
\<close>

subsection \<open>Transferred bytes\<close>

lemma buf_transfer:
  assumes "buf m0 a n f m" "fits a n" "fits b n" "\<And>i. i < 8 * n \<Longrightarrow> m' (unat b + i) = m (unat a + i)"
    and "\<And>i. i < unat b \<or> unat b + 8 * n \<le> i \<Longrightarrow> m' i = m1 i"
  shows "buf m1 b n f m'"
  unfolding buf_def
proof (intro conjI allI impI)
  fix k assume k: "k < n"
  have "rd64 m' (word_addr b k) = rd64 m (word_addr a k)"
  proof (rule rd64_shift)
    fix i :: nat assume "i < 8"
    then show "m' (unat (word_addr b k) + i) = m (unat (word_addr a k) + i)"
      using k assms(2,3) assms(4) [of "8 * k + i"] by (simp add: unat_addr add.assoc)
  qed
  then show "rd64 m' (word_addr b k) = f k" using buf_read [OF assms(1) k] by simp
qed (use assms(5) in simp)

lemma fread_fwrite:
  assumes "buf m0 a n f m" "fits a n" "fits b n"
  shows "buf m1 b n f (fread_bytes m1 b (fwrite_bytes m a (8 * of_nat n)))"
proof (rule buf_transfer [OF assms])
  have n: "unat (8 * of_nat n :: u64) = 8 * n" using assms(2) by (intro unat_words) (simp add: fits_def)
  then show "fread_bytes m1 b (fwrite_bytes m a (8 * of_nat n)) (unat b + i) = m (unat a + i)" if "i < 8 * n" for i
    using that by (simp add: fread_bytes_def fwrite_bytes_def)
  show "fread_bytes m1 b (fwrite_bytes m a (8 * of_nat n)) i = m1 i" if "i < unat b \<or> unat b + 8 * n \<le> i" for i
    using that n by (auto simp: fread_bytes_def fwrite_bytes_def)
qed

lemma describes_extend:
  assumes "describes b n L f"
  shows "describes b n L (\<lambda>k. if k < n then f k else g k)"
proof -
  have d: "layout_ok n L" "ptrs_at b L f" using assms by (simp_all add: describes_def)
  note bounds = layout_bounds [OF d(1)]
  have slots: "k < n" if "in_slots L k" for k using that bounds by (simp add: in_slots_def)
  have objs: "at_objs L + 2 + 3 * i + 2 < n" if "i < num_objs L" for i using that bounds by simp
  have "ptrs_at b L (\<lambda>k. if k < n then f k else g k)"
    using d(2) slots bounds by (auto simp: ptrs_at_def)
  then show ?thesis
    using assms bounds objs by (auto simp: describes_def header_at_def sections_ok_def objects_at_def ranges_at_def obj_words_def)
qed

subsection \<open>Taking over the bytes of a buffer\<close>

text \<open>The handle after remapping bytes of a buffer of address \<open>a\<close>, with the memory \<open>m1\<close> that holds them.\<close>

definition same_words :: "nat \<Rightarrow> buffer_layout \<Rightarrow> (nat \<Rightarrow> u64) \<Rightarrow> (nat \<Rightarrow> u64) \<Rightarrow> bool" where
  "same_words n L f f' \<longleftrightarrow> (\<forall>k<n. k \<notin> address_words L \<longrightarrow> f' k = f k)"

lemma take_over:
  assumes "describes a n L f" "buffer_in m0 buffer k N L0 g m" "buf m (bf_data_addr buffer) n f m1" "n \<le> N"
    and "b = bf_data_addr buffer"
  shows "\<exists>m' f'. ManagedBuffer_remap m1 b 8 = (m', 0) \<and> buf m0 b N f' m' \<and> describes b n L f' \<and> same_words n L f f' \<and>
    rd64 m' (word_addr b 0) = b \<and> rd64 m' (word_addr b 1) = 8 * of_nat n \<and> rd64 m' (word_addr b 2) = 64 \<and>
    ManagedBuffer_get_const_objects_index_begin m' b 8 = word_addr b (at_objs L + 2) \<and>
    ManagedBuffer_get_ptr_to_section_data m' b 4 8 = word_addr b (at_objs L + 2) \<and>
    ManagedBuffer_get_section_num_entities m' b 4 8 = of_nat (num_objs L)"
proof -
  note B = buffer_inD [OF assms(2), folded assms(5)]
  have m1: "buf m b n f m1" using assms(3,5) by simp
  obtain m' where m': "ManagedBuffer_remap m1 b 8 = (m', 0)" "buf m b n (shift (b - a) (address_words L) f) m'"
    using remap_relocation [OF assms(1) m1 fits_mono [OF B(4) assms(4)] B(5,6)] by blast
  define f' where "f' = (\<lambda>k. if k < n then shift (b - a) (address_words L) f k else g k)"
  have buf: "buf m0 b N f' m'" unfolding f'_def by (rule buf_extend [OF B(1) m'(2) assms(4) B(4)])
  have desc: "describes b n L f'" unfolding f'_def by (rule describes_extend [OF describes_shift [OF assms(1)]])
  then have d: "header_at b L f'" "sections_ok n L f'" "layout_ok n L" by (simp_all add: describes_def)
  have n: "6 < n" using layout_bounds [OF d(3)] by simp
  have place: "in_place m' b n L f' m'"
    using buf_part [OF buf assms(4)] fits_mono [OF B(4) assms(4)] B(5,6) d by (simp add: in_place_def)
  have "same_words n L f f'" by (simp add: same_words_def f'_def)
  moreover have "rd64 m' (word_addr b 0) = b" "rd64 m' (word_addr b 1) = 8 * of_nat n" "rd64 m' (word_addr b 2) = 64"
    using buf_read [OF buf, of 0] buf_read [OF buf, of 1] buf_read [OF buf, of 2] n assms(4) d(1,2)
    by (simp_all add: header_at_def sections_ok_def addr_0)
  ultimately show ?thesis
    using m'(1) buf desc object_begin [OF buf B(4) assms(4) desc] section_counts(2) [OF place] by blast
qed

lemma refresh_takes_over:
  assumes "describes a n L f" "buffer_in m0 buffer k N L0 g m" "full_access buffer" "buf m (bf_data_addr buffer) n f m1" "n \<le> N"
    and "a \<noteq> 0"
  shows "\<exists>m' buffer' f'. Buffer_refresh m1 buffer = (m', buffer', 0) \<and> buffer_in m0 buffer' n N L f' m' \<and> full_access buffer' \<and>
    bf_data_addr buffer' = bf_data_addr buffer \<and> same_words n L f f'"
proof -
  define b where "b = bf_data_addr buffer"
  note B = buffer_inD [OF assms(2), folded b_def]
  obtain m' f' where T: "ManagedBuffer_remap m1 b 8 = (m', 0)" "buf m0 b N f' m'" "describes b n L f'" "same_words n L f f'"
      "rd64 m' (word_addr b 1) = 8 * of_nat n"
      "ManagedBuffer_get_const_objects_index_begin m' b 8 = word_addr b (at_objs L + 2)"
      "ManagedBuffer_get_section_num_entities m' b 4 8 = of_nat (num_objs L)"
    using take_over [OF assms(1,2,4,5) b_def] by blast
  have h: "header_at a L f" "layout_ok n L" using assms(1) by (simp_all add: describes_def)
  have w0: "rd64 m1 b = a"
    using buf_read [OF assms(4), of 0] h layout_bounds(1) [OF h(2)] by (simp add: b_def header_at_def addr_0)
  have b: "b \<noteq> 0" using B(4) by (simp add: fits_def)
  have cap: "\<not> (8 * of_nat N :: u64) < 8 * of_nat n"
    using assms(5) B(4) by (subst words_less) (auto simp: fits_def)
  have len: "ManagedBuffer_get_buffer_length m' b 8 = 8 * of_nat n"
    using T(5) b by (simp add: ManagedBuffer_get_buffer_length_def word_addr_def)
  have remap: "(if ManagedBuffer_needs_remapping m1 b 8 then if Buffer_allow_remapping buffer then ManagedBuffer_remap m1 b 8
      else (m1, - 1) else (m1, 0)) = (m', 0)"
  proof (cases "a = b")
    case True
    have "ManagedBuffer_remap m1 b 8 = (m1, 0)"
      using True h fits_mono [OF B(4) assms(5)] layout_bounds(1) [OF h(2)] B(5,6)
      by (intro remap_in_place [OF assms(4) [folded b_def]]) simp_all
    then show ?thesis using T(1) True w0 by (simp add: ManagedBuffer_needs_remapping_def)
  next
    case False
    then show ?thesis
      using T(1) w0 assms(6) full_access_allows(7) [OF assms(3)] by (simp add: ManagedBuffer_needs_remapping_def)
  qed
  define buffer' where "buffer' = buffer\<lparr>bf_data_size := 8 * of_nat n, bf_object_addr := word_addr b (at_objs L + 2),
    bf_num_objects := of_nat (num_objs L)\<rparr>"
  have "Buffer_refresh m1 buffer = (m', buffer', 0)"
    unfolding Buffer_refresh_def Buffer_refresh_generic_def Buffer_get_slot_size_def Buffer_get_data_begin_addr_def B(9)
      b_def [symmetric] Let_def remap
    using full_access_allows(1,7) [OF assms(3)] b B(6,8) cap by (simp add: T(6,7) len buffer'_def)
  moreover have "buffer_in m0 buffer' n N L f' m'"
    unfolding buffer_in_def using T(2,3) assms(5) B(4-6,8,9) by (simp add: buffer'_def b_def)
  moreover have "full_access buffer'" using assms(3) by (simp add: full_access_def buffer'_def)
  ultimately show ?thesis using T(4) by (auto simp: buffer'_def)
qed

lemma remap_takes_over:
  assumes "describes a n L f" "buffer_in m0 buffer k N L0 g m" "full_access buffer" "buf m (bf_data_addr buffer) n f m1" "n \<le> N"
    and "a \<noteq> 0" "a \<noteq> bf_data_addr buffer"
  shows "\<exists>m' buffer' f'. Buffer_remap m1 buffer = (m', buffer', 0) \<and> buffer_in m0 buffer' n N L f' m' \<and> full_access buffer' \<and>
    bf_data_addr buffer' = bf_data_addr buffer \<and> same_words n L f f' \<and> m' = fst (ManagedBuffer_remap m1 (bf_data_addr buffer) 8)"
proof -
  define b where "b = bf_data_addr buffer"
  note B = buffer_inD [OF assms(2), folded b_def]
  obtain m' f' where T: "ManagedBuffer_remap m1 b 8 = (m', 0)" "buf m0 b N f' m'" "describes b n L f'" "same_words n L f f'"
      "rd64 m' (word_addr b 0) = b" "rd64 m' (word_addr b 1) = 8 * of_nat n" "rd64 m' (word_addr b 2) = 64"
      "ManagedBuffer_get_ptr_to_section_data m' b 4 8 = word_addr b (at_objs L + 2)"
      "ManagedBuffer_get_section_num_entities m' b 4 8 = of_nat (num_objs L)"
    using take_over [OF assms(1,2,4,5) b_def] by blast
  have h: "header_at a L f" "layout_ok n L" using assms(1) by (simp_all add: describes_def)
  have w0: "rd64 m1 (word_addr b 0) = a"
    using buf_read [OF assms(4), of 0] h layout_bounds(1) [OF h(2)] by (simp add: b_def header_at_def addr_0)
  have b: "b \<noteq> 0" using B(4) by (simp add: fits_def)
  define buffer' where "buffer' = buffer\<lparr>bf_data_addr := b, bf_data_size := 8 * of_nat n, bf_header_size := 64,
    bf_object_addr := word_addr b (at_objs L + 2), bf_num_objects := of_nat (num_objs L)\<rparr>"
  have "Buffer_remap m1 buffer = (m', buffer', 0)"
    unfolding Buffer_remap_def Buffer_remap_generic_def Buffer_get_slot_size_def Buffer_get_data_begin_addr_def B(9)
      b_def [symmetric] Let_def addr_begin w0 T(1)
    using full_access_allows(7) [OF assms(3)] b assms(6) assms(7) [folded b_def] by (simp add: T(5-9) buffer'_def del: One_nat_def)
  moreover have "buffer_in m0 buffer' n N L f' m'"
    unfolding buffer_in_def using T(2,3) assms(5) B(4-6,8,9) by (simp add: buffer'_def)
  moreover have "full_access buffer'" using assms(3) by (simp add: full_access_def buffer'_def)
  ultimately show ?thesis using T(1,4) by (auto simp: buffer'_def b_def)
qed

subsection \<open>Copying in memory\<close>

lemma buffer_words: "buffer_in m0 buffer n N L f m \<Longrightarrow> 16 \<le> n"
  using layout_bounds [of n L] by (auto simp: buffer_in_def describes_def layout_ok_def)

lemma words_for_words: "16 \<le> n \<Longrightarrow> 8 * n < 2 ^ 64 \<Longrightarrow> words_for (8 * of_nat n) = n"
  by (simp add: words_for_def unat_words)

lemma copied_words:
  assumes "buffer_in m0 original n N L f m" "new_room pool_addr new_memory N"
    and "unat (bf_data_addr original) + 8 * N \<le> unat new_memory \<or> unat new_memory + 8 * N + 8 \<le> unat (bf_data_addr original)"
  shows "\<exists>m' mem_pool copy f'. Buffer_new_from_copy m pool_addr new_memory original = (m', mem_pool, Some copy) \<and>
    buffer_in m copy n N L f' m' \<and> full_access copy \<and> placed_in new_memory copy \<and> same_words n L f f' \<and>
    (\<forall>i. unat (bf_data_addr original) \<le> i \<and> i < unat (bf_data_addr original) + 8 * N \<longrightarrow> m' i = m i)"
proof -
  define a where "a = bf_data_addr original"
  note A = buffer_inD [OF assms(1), folded a_def]
  have n: "16 \<le> N" "8 * N < 2 ^ 64" "8 * n < 2 ^ 64" using buffer_words [OF assms(1)] A(3,4) by (simp_all add: fits_def)
  have words: "N = words_for (8 * of_nat N)" using words_for_words [OF n(1,2)] by simp
  obtain m1 pool1 buffer g where new: "Buffer_new m pool_addr new_memory (8 * of_nat N) = (m1, pool1, Some buffer)"
      "buffer_in m buffer 16 N (with_capacity 0 0 0 0 no_contents) g m1" "full_access buffer" "placed_in new_memory buffer"
    using new_gives_empty [OF assms(2) words] by blast
  define b where "b = bf_data_addr buffer"
  note B = buffer_inD [OF new(2), folded b_def]
  have apart: "unat a + 8 * N \<le> unat b \<or> unat b + 8 * N \<le> unat a"
    using assms(3) new(4) by (auto simp: a_def b_def placed_in_def)
  have kept: "m1 i = m i" if "unat a \<le> i" "i < unat a + 8 * N" for i
    using that apart by (intro buf_outside [OF B(1)]) linarith
  have "buf m1 a n f m1"
    unfolding buf_def
  proof (intro conjI allI impI)
    fix k assume k: "k < n"
    have "rd64 m1 (word_addr a k) = rd64 m (word_addr a k)"
      using k A(3,4) by (intro rd64_cong kept) (simp_all add: unat_addr)
    then show "rd64 m1 (word_addr a k) = f k" using buf_read [OF A(1), of k] k A(3) by simp
  qed simp
  from buf_copy [OF this fits_mono [OF A(4,3)] fits_mono [OF B(4) A(3)]]
  have copied: "buf m1 b n f (mem_move m1 b a (8 * of_nat n))" .
  have a0: "a \<noteq> 0" "b \<noteq> 0" using A(4) B(4) by (simp_all add: fits_def)
  obtain m2 copy f' where R: "Buffer_refresh (mem_move m1 b a (8 * of_nat n)) buffer = (m2, copy, 0)" "buffer_in m copy n N L f' m2"
      "full_access copy" "bf_data_addr copy = bf_data_addr buffer" "same_words n L f f'"
    using refresh_takes_over [OF A(2) new(2,3) copied [unfolded b_def] A(3) a0(1), folded b_def] unfolding b_def by blast
  have pos: "(8 * of_nat n :: u64) > 0" "(8 * of_nat N :: u64) > 0"
    using n buffer_words [OF assms(1)] by (simp_all add: u64_less_nat unat_words)
  have "Buffer_new_from_copy m pool_addr new_memory original = (m2, pool1, Some copy)"
    unfolding Buffer_new_from_copy_def Buffer_get_capacity_def Buffer_get_slot_size_def Buffer_get_data_begin_addr_def
      Buffer_get_size_def A(7,8,9) a_def [symmetric] Let_def new(1)
    using pos a0 R(1) by (simp add: b_def)
  moreover have "m2 i = m i" if "unat a \<le> i" "i < unat a + 8 * N" for i
    using that apart R(4) by (intro buf_outside [OF buffer_inD(1) [OF R(2)]]) (auto simp: b_def)
  moreover have "placed_in new_memory copy" using new(4) R(4) by (simp add: placed_in_def)
  ultimately show ?thesis unfolding a_def using R(2,3,5) by blast
qed

text \<open>C12: Copying a buffer yields another buffer with the same layout and the same capacity, in the memory that was
  allocated for it: all words are the same except for the addresses, which lead into the copy. Nothing else
  in memory changes, in particular not the original.\<close>

theorem copy_is_deep:
  assumes "buffer_in m0 original n N L f m" "new_room pool_addr new_memory N"
    and "unat (bf_data_addr original) + 8 * N \<le> unat new_memory \<or> unat new_memory + 8 * N + 8 \<le> unat (bf_data_addr original)"
  shows "\<exists>m' mem_pool copy f'. Buffer_new_from_copy m pool_addr new_memory original = (m', mem_pool, Some copy) \<and>
    buffer_in m copy n N L f' m' \<and> full_access copy \<and> placed_in new_memory copy \<and> same_words n L f f' \<and>
    (\<forall>i. unat (bf_data_addr original) \<le> i \<and> i < unat (bf_data_addr original) + 8 * N \<longrightarrow> m' i = m i)"
  by (rule copied_words [OF assms])

text \<open>A handle of the sample buffer.\<close>

definition sample_handle :: "u64 \<Rightarrow> Buffer" where
  "sample_handle a = new_handle\<lparr>bf_data_addr := a, bf_data_size := 208, bf_data_capacity := 208,
     bf_object_addr := word_addr a (at_objs sample_layout + 2), bf_num_objects := of_nat (num_objs sample_layout),
     bf_datastore_flags := 0x1006F, bf_datastore_addr := 64\<rparr>"

lemma sample_full_access: "full_access (sample_handle a)"
  by (simp add: full_access_def sample_handle_def)

lemma sample_buffer_in:
  assumes "fits a 26" "8 \<le> unat a" "a mod 8 = 0"
  shows "buffer_in m (sample_handle a) 26 26 sample_layout (sample_words a) (put_words m a (sample_words a) 26)"
    "buffer_in m (sample_handle a) 26 26 (sample_layout\<lparr>ranges_to := []\<rparr>) (sample_clean_words a)
      (put_words m a (sample_clean_words a) 26)"
  using assms buf_put_words [OF assms(1)] sample_describes sample_clean_describes
  by (simp_all add: buffer_in_def sample_handle_def new_handle_def BUFFER_DEFAULT_SLOT_SIZE_def)

theorem copy_is_deep_witness:
  "snd (snd (Buffer_new_from_copy (put_words (\<lambda>_. 0) 4096 (sample_words 4096) 26) 64 8200 (sample_handle 4096))) \<noteq> None"
proof -
  have "fits 4096 26" "new_room 64 8200 26" by (simp_all add: fits_def new_room_def)
  moreover have "bf_data_addr (sample_handle 4096) = 4096" by (simp add: sample_handle_def)
  ultimately show ?thesis
    using copy_is_deep [OF sample_buffer_in(1) [of 4096 "\<lambda>_. 0"], of 64 8200] by fastforce
qed

subsection \<open>Copying through a file\<close>

lemma write_normalised:
  assumes "buffer_in m0 original n N L f m" "full_access original" "ranges_to L = []" "fits target n"
    and "b = bf_data_addr original"
  shows "\<exists>m1 original'. Buffer_write_to_fp_normalized_addr m original target True =
      (m, original', Some (fwrite_bytes m1 b (8 * of_nat n)), True) \<and>
    buf m b n (shift (target - b) (address_words L) f) m1 \<and>
    buffer_in m0 original' n N L f m \<and> full_access original'"
proof -
  note B = buffer_inD [OF assms(1), folded assms(5)]
  have d: "header_at b L f" "layout_ok n L" using B(2) by (simp_all add: describes_def)
  have n: "6 < n" using layout_bounds(1) [OF d(2)] .
  have b: "b \<noteq> 0" using B(4) by (simp add: fits_def)
  have bn: "buf m b n f m" by (rule buf_part [OF B(1,3)])
  have fits: "fits b n" by (rule fits_mono [OF B(4,3)])
  have n8: "8 * n < 2 ^ 64" using fits by (simp add: fits_def)
  have pos: "(8 * of_nat n :: u64) > 0" using n n8 by (simp add: u64_less_nat unat_words)
  note defs = Buffer_write_to_fp_normalized_addr_def Buffer_get_data_begin_addr_def Buffer_get_size_def
    Buffer_get_slot_size_def B(7,9) assms(5) [symmetric] Let_def
  show ?thesis
  proof (cases "target = b")
    case True
    have "rd64 m b = b" using buf_read [OF bn, of 0] n d(1) by (simp add: header_at_def addr_0)
    then have "\<not> Buffer_needs_remapping m original"
      using B(9) by (simp add: Buffer_needs_remapping_def Buffer_needs_remapping_generic_def ManagedBuffer_needs_remapping_def
          Buffer_get_data_begin_addr_def assms(5))
    then show ?thesis
      unfolding defs using True b pos assms(1,2) bn by (auto simp: shift_0)
  next
    case False
    define d where "d = target - b"
    have d0: "d \<noteq> 0" "b + d = target" using False by (simp_all add: d_def)
    obtain m1 where m1: "ManagedBuffer_apply_addr_offset m b d 8 = (m1, 0)" "buf m b n (shift d (address_words L) f) m1"
      using apply_offset_words [OF B(2) bn fits _ B(5,6) d0(1)] assms(3,4) unfolding d0(2)
      by (auto simp: offset_words_def address_words_def garbage_hits_def range_words_at_def)
    have target: "target \<noteq> 0" "target \<noteq> bf_data_addr original" using assms(4,5) False by (auto simp: fits_def)
    have desc: "describes target n L (shift d (address_words L) f)"
      using describes_shift [OF B(2), of target] by (simp add: d_def)
    obtain m' original' f' where R: "Buffer_remap m1 original = (m', original', 0)" "buffer_in m0 original' n N L f' m'"
        "full_access original'" "bf_data_addr original' = b" "m' = fst (ManagedBuffer_remap m1 b 8)"
      using remap_takes_over [OF desc assms(1,2) m1(2) [unfolded assms(5)] B(3) target] unfolding assms(5) by blast
    have "m' = m"
    proof -
      have "shift (b - target) (address_words L) (shift d (address_words L) f) = f"
        by (simp add: d_def shift_def fun_eq_iff)
      then have "buf m b n f m'"
        using remap_relocation [OF desc m1(2) fits B(5,6)] by (auto simp: R(5))
      then show ?thesis by (rule buf_unique [OF _ bn fits])
    qed
    have "rd64 m1 b = target"
      using buf_read [OF m1(2), of 0] n d by (simp add: addr_0 header_at_def address_words_def header_words_def d_def)
    then have needs: "Buffer_needs_remapping m1 original"
      using target B(9) full_access_allows(1,7) [OF assms(2)]
      by (simp add: Buffer_needs_remapping_def Buffer_needs_remapping_generic_def ManagedBuffer_needs_remapping_def
          Buffer_get_data_begin_addr_def Buffer_get_slot_size_def assms(5))
    have offset: "(if target \<ge> b then target - b else - (b - target)) = d" by (simp add: d_def)
    have "Buffer_write_to_fp_normalized_addr m original target True =
        (m, original', Some (fwrite_bytes m1 b (8 * of_nat n)), True)"
      unfolding defs offset using False b pos by (simp add: m1(1) needs R(1) \<open>m' = m\<close>)
    moreover have "buffer_in m0 original' n N L f m"
      using buffer_inD [OF R(2)] B(1-6) by (simp add: buffer_in_def R(4))
    ultimately show ?thesis using m1(2) R(3) unfolding d_def by blast
  qed
qed

lemma words_through_file:
  assumes "buffer_in m0 original n N L f m" "full_access original" "ranges_to L = []" "fits target n"
    and "new_room pool_addr new_memory n" "unat target < unat new_memory \<or> unat new_memory + 8 \<le> unat target"
  shows "\<exists>original' bytes. Buffer_write_to_fp_normalized_addr m original target True = (m, original', Some bytes, True) \<and>
    buffer_in m0 original' n N L f m \<and>
    (\<exists>m' mem_pool copy f'. Buffer_new_from_file other pool_addr new_memory (Some bytes) = (m', mem_pool, Some copy) \<and>
      buffer_in other copy n n L f' m' \<and> full_access copy \<and> placed_in new_memory copy \<and> same_words n L f f')"
proof -
  define a where "a = bf_data_addr original"
  note A = buffer_inD [OF assms(1), folded a_def]
  obtain m1 original' where W: "Buffer_write_to_fp_normalized_addr m original target True =
      (m, original', Some (fwrite_bytes m1 a (8 * of_nat n)), True)"
      "buf m a n (shift (target - a) (address_words L) f) m1" "buffer_in m0 original' n N L f m"
    using write_normalised [OF assms(1-4) a_def] by blast
  define bytes where "bytes = fwrite_bytes m1 a (8 * of_nat n)"
  have n: "16 \<le> n" "8 * n < 2 ^ 64" using buffer_words [OF assms(1)] assms(4) by (simp_all add: fits_def)
  have len: "of_nat (length bytes) = (8 * of_nat n :: u64)" using n(2) by (simp add: bytes_def fwrite_bytes_def unat_words)
  have pos: "(8 * of_nat n :: u64) > 0" using n by (simp add: u64_less_nat unat_words)
  obtain m2 pool2 buffer g where new: "Buffer_new other pool_addr new_memory (8 * of_nat n) = (m2, pool2, Some buffer)"
      "buffer_in other buffer 16 n (with_capacity 0 0 0 0 no_contents) g m2" "full_access buffer" "placed_in new_memory buffer"
    using new_gives_empty [OF assms(5), of "8 * of_nat n"] words_for_words [OF n] by metis
  define b where "b = bf_data_addr buffer"
  have fits: "fits a n" "fits b n" using fits_mono [OF A(4,3)] buffer_inD(4) [OF new(2)] by (simp_all add: b_def)
  have read: "buf m2 b n (shift (target - a) (address_words L) f) (fread_bytes m2 b bytes)"
    unfolding bytes_def by (rule fread_fwrite [OF W(2) fits])
  have target: "target \<noteq> 0" "target \<noteq> b" using assms(4,6) new(4) by (auto simp: fits_def placed_in_def b_def)
  obtain m3 copy f' where R: "Buffer_remap (fread_bytes m2 b bytes) buffer = (m3, copy, 0)" "buffer_in other copy n n L f' m3"
      "full_access copy" "bf_data_addr copy = b" "same_words n L (shift (target - a) (address_words L) f) f'"
    using remap_takes_over [OF describes_shift [OF A(2)] new(2,3) read [unfolded b_def] order_refl target(1) target(2) [unfolded b_def]]
    unfolding b_def by blast
  have "Buffer_new_from_file other pool_addr new_memory (Some bytes) = (m3, pool2, Some copy)"
    using pos by (simp add: Buffer_new_from_file_def len new(1) R(1) Buffer_get_data_begin_addr_def flip: b_def)
  moreover have "same_words n L f f'" using R(5) by (simp add: same_words_def)
  moreover have "placed_in new_memory copy" using new(4) R(4) by (simp add: placed_in_def b_def)
  ultimately show ?thesis using W(1,3) R(2,3) unfolding bytes_def by blast
qed

text \<open>C13: Writing a buffer without garbage ranges to a file, with its addresses normalised to any base, leaves the
  buffer as it was; reading the file, in whatever memory and at whatever address, except at the one that was
  chosen as base, yields a buffer with the same layout and the same words but for the addresses.\<close>

theorem file_round_trip:
  assumes "buffer_in m0 original n N L f m" "full_access original" "ranges_to L = []" "fits target n"
    and "new_room pool_addr new_memory n" "unat target < unat new_memory \<or> unat new_memory + 8 \<le> unat target"
  shows "\<exists>original' bytes. Buffer_write_to_fp_normalized_addr m original target True = (m, original', Some bytes, True) \<and>
    buffer_in m0 original' n N L f m \<and>
    (\<exists>m' mem_pool copy f'. Buffer_new_from_file other pool_addr new_memory (Some bytes) = (m', mem_pool, Some copy) \<and>
      buffer_in other copy n n L f' m' \<and> full_access copy \<and> placed_in new_memory copy \<and> same_words n L f f')"
  by (rule words_through_file [OF assms])

theorem file_round_trip_witness:
  "\<exists>original' bytes. Buffer_write_to_fp_normalized_addr (put_words (\<lambda>_. 0) 4096 (sample_clean_words 4096) 26) (sample_handle 4096)
      65536 True = (put_words (\<lambda>_. 0) 4096 (sample_clean_words 4096) 26, original', Some bytes, True) \<and>
    snd (snd (Buffer_new_from_file (\<lambda>_. 0) 64 8200 (Some bytes))) \<noteq> None"
proof -
  have "fits 4096 26" "new_room 64 8200 26" "fits 65536 26" by (simp_all add: fits_def new_room_def)
  then show ?thesis
    using file_round_trip [OF sample_buffer_in(2) [of 4096 "\<lambda>_. 0"] sample_full_access, of 65536 64 8200 "\<lambda>_. 0"]
    by fastforce
qed

end
