(* ===== verification/Object_Buffer_Add.thy ===== *)
theory Object_Buffer_Add
  imports Object_Buffer_Copies
begin

section \<open>Adding an object to a buffer\<close>

text \<open>
  An object of \<open>w\<close> words lies anywhere outside the buffer; some of its words, at the offsets \<open>o\<close>, point to
  arrays of \<open>k\<close> words elsewhere or are NULL. The theorem says that \<open>NS(Buffer_add_object)\<close> makes a complete copy
  at the end of the slots and records it, so that the buffer stays well-formed. The entries of the arrays have
  8 bytes, as those of all elements of the library, and the arrays are not empty.
\<close>

type_synonym attr_words = "(nat \<times> nat) list"

abbreviation attr_bytes :: "nat \<times> nat \<Rightarrow> u64 \<times> u64 \<times> u64" where
  "attr_bytes a \<equiv> (8 * of_nat (fst a), 8, of_nat (snd a))"

subsection \<open>The words of the new object\<close>

text \<open>\<open>F\<close> are the words of the buffer with the object copied to word \<open>so\<close>; the arrays go to \<open>dest\<close>, their
  records to \<open>out\<close>.\<close>

fun attr_dests :: "attr_words \<Rightarrow> nat \<Rightarrow> nat list" where
  "attr_dests [] dest = []"
| "attr_dests ((o', k) # attrs) dest = dest # attr_dests attrs (dest + k)"

abbreviation attr_total :: "attr_words \<Rightarrow> nat" where
  "attr_total attrs \<equiv> sum_list (map snd attrs)"

definition array_words :: "mem \<Rightarrow> u64 \<Rightarrow> nat \<Rightarrow> nat \<Rightarrow> (nat \<Rightarrow> u64) \<Rightarrow> nat \<Rightarrow> u64" where
  "array_words m source dest k F x =
     (if dest \<le> x \<and> x < dest + k then if source = 0 then 0 else rd64 m (word_addr source (x - dest)) else F x)"

fun add_words :: "mem \<Rightarrow> u64 \<Rightarrow> attr_words \<Rightarrow> (nat \<Rightarrow> u64) \<Rightarrow> nat \<Rightarrow> nat \<Rightarrow> nat \<Rightarrow> nat \<Rightarrow> u64" where
  "add_words m b [] F so dest out = F"
| "add_words m b ((o', k) # attrs) F so dest out =
     add_words m b attrs ((array_words m (F (so + o')) dest k F)(so + o' := word_addr b dest, out := word_addr b (so + o')))
       so (dest + k) (out + 1)"

lemma add_words_outside:
  "x \<notin> (\<lambda>(o', k). so + o') ` set attrs \<Longrightarrow> x < dest \<or> dest + attr_total attrs \<le> x \<Longrightarrow> x < out \<or> out + length attrs \<le> x \<Longrightarrow>
   add_words m b attrs F so dest out x = F x"
proof (induction attrs arbitrary: F dest out)
  case (Cons a attrs)
  obtain o' k where a: "a = (o', k)" by fastforce
  have "add_words m b (a # attrs) F so dest out x =
      ((array_words m (F (so + o')) dest k F)(so + o' := word_addr b dest, out := word_addr b (so + o'))) x"
    unfolding a add_words.simps using Cons.prems by (intro Cons.IH) (auto simp: a)
  then show ?case using Cons.prems by (auto simp: a array_words_def)
qed simp

text \<open>A word of the object that is at the offset of a pointer, its record and the words of its array.\<close>

definition attrs_apart :: "attr_words \<Rightarrow> nat \<Rightarrow> nat \<Rightarrow> nat \<Rightarrow> nat \<Rightarrow> bool" where
  "attrs_apart attrs w so dest out \<longleftrightarrow> distinct (map fst attrs) \<and> (\<forall>a\<in>set attrs. fst a < w) \<and> so + w \<le> dest \<and>
     dest + attr_total attrs \<le> out"

lemma attrs_apart_Cons:
  "attrs_apart ((o', k) # attrs) w so dest out \<Longrightarrow> attrs_apart attrs w so (dest + k) (out + 1)"
  by (auto simp: attrs_apart_def)

lemma add_words_attr:
  assumes "attrs_apart attrs w so dest out" "j < length attrs"
  shows "add_words m b attrs F so dest out (so + fst (attrs ! j)) = word_addr b (attr_dests attrs dest ! j) \<and>
    add_words m b attrs F so dest out (out + j) = word_addr b (so + fst (attrs ! j)) \<and>
    (\<forall>i < snd (attrs ! j). add_words m b attrs F so dest out (attr_dests attrs dest ! j + i) =
      (if F (so + fst (attrs ! j)) = 0 then 0 else rd64 m (word_addr (F (so + fst (attrs ! j))) i)))"
  using assms
proof (induction attrs arbitrary: F dest out j)
  case (Cons a attrs)
  obtain o' k where a: "a = (o', k)" by fastforce
  define F' where "F' = (array_words m (F (so + o')) dest k F)(so + o' := word_addr b dest, out := word_addr b (so + o'))"
  have apart: "attrs_apart attrs w so (dest + k) (out + 1)" using Cons.prems unfolding a by (blast intro: attrs_apart_Cons)
  have P: "o' \<notin> fst ` set attrs" "o' < w" "so + w \<le> dest" "dest + (k + attr_total attrs) \<le> out"
    using Cons.prems by (auto simp: attrs_apart_def a)
  have o_less: "\<And>a. a \<in> set attrs \<Longrightarrow> fst a < w" using Cons.prems by (auto simp: attrs_apart_def)
  have rest: "add_words m b (a # attrs) F so dest out = add_words m b attrs F' so (dest + k) (out + 1)"
    by (simp add: a F'_def)
  show ?case
  proof (cases j)
    case 0
    have "add_words m b attrs F' so (dest + k) (out + 1) (so + o') = F' (so + o')"
      using P by (intro add_words_outside) force+
    moreover have "add_words m b attrs F' so (dest + k) (out + 1) out = F' out"
      using P o_less by (intro add_words_outside) (fastforce simp: image_iff)+
    moreover have "add_words m b attrs F' so (dest + k) (out + 1) (dest + i) = F' (dest + i)" if "i < k" for i
      using P o_less that by (intro add_words_outside) (fastforce simp: image_iff)+
    ultimately show ?thesis using P unfolding rest 0 by (simp add: a F'_def array_words_def)
  next
    case (Suc j')
    have j': "j' < length attrs" using Cons.prems(2) Suc by simp
    then have o: "fst (attrs ! j') \<noteq> o'" "fst (attrs ! j') < w" using P(1) o_less by (metis nth_mem rev_image_eqI, simp)
    have "F' (so + fst (attrs ! j')) = F (so + fst (attrs ! j'))"
      using P o by (simp add: F'_def array_words_def)
    then show ?thesis using Cons.IH [OF apart j', of F'] Suc unfolding rest by (simp add: a)
  qed
qed simp

subsection \<open>The copying\<close>

text \<open>A range of \<open>k\<close> words outside the buffer.\<close>

definition source_ok :: "u64 \<Rightarrow> nat \<Rightarrow> u64 \<Rightarrow> nat \<Rightarrow> bool" where
  "source_ok b N source k \<longleftrightarrow> fits source k \<and> (unat source + 8 * k \<le> unat b \<or> unat b + 8 * N \<le> unat source)"

lemma copy_in:
  assumes "buf m0 b N F m" "fits b N" "dest + k \<le> N" "source_ok b N source k"
  shows "buf m0 b N (array_words m0 source dest k F) (mem_move m (word_addr b dest) source (8 * of_nat k))"
proof -
  have s: "fits source k" "unat source + 8 * k \<le> unat b \<or> unat b + 8 * N \<le> unat source" "source \<noteq> 0"
    using assms(4) by (simp_all add: source_ok_def fits_def)
  have k: "unat (8 * of_nat k :: u64) = 8 * k" using s(1) by (intro unat_words) (simp add: fits_def)
  have d: "unat (word_addr b dest) = unat b + 8 * dest" using assms(2,3) by (simp add: unat_addr)
  have outside: "m (unat source + i) = m0 (unat source + i)" if "i < 8 * k" for i
    using s(2) that by (intro buf_outside [OF assms(1)]) linarith
  have "rd64 (mem_move m (word_addr b dest) source (8 * of_nat k)) (word_addr b x) = array_words m0 source dest k F x"
    if x: "x < N" for x
  proof (cases "dest \<le> x \<and> x < dest + k")
    case True
    then obtain y where y: "x = dest + y" "y < k" by (metis add_less_cancel_left le_Suc_ex)
    have "rd64 (mem_move m (word_addr b dest) source (8 * of_nat k)) (word_addr b x) = rd64 m0 (word_addr source y)"
    proof (rule rd64_shift)
      fix t :: nat assume t: "t < 8"
      have "unat (word_addr b x) = unat b + 8 * dest + 8 * y" "unat (word_addr source y) = unat source + 8 * y"
        using x y assms(2) s(1) by (simp_all add: unat_addr)
      then show "mem_move m (word_addr b dest) source (8 * of_nat k) (unat (word_addr b x) + t) = m0 (unat (word_addr source y) + t)"
        using t y outside [of "8 * y + t"] by (simp add: mem_move_def d k add.assoc)
    qed
    then show ?thesis using True s(3) y by (simp add: array_words_def)
  next
    case False
    then have "rd64 (mem_move m (word_addr b dest) source (8 * of_nat k)) (word_addr b x) = rd64 m (word_addr b x)"
      using assms(2) x by (intro rd64_mem_move_outside) (auto simp: d k unat_addr)
    then show ?thesis unfolding array_words_def if_not_P [OF False] using buf_read [OF assms(1) x] by simp
  qed
  moreover have "mem_move m (word_addr b dest) source (8 * of_nat k) x = m0 x" if "x < unat b \<or> unat b + 8 * N \<le> x" for x
    using that assms(3) buf_outside [OF assms(1) that] by (auto simp: mem_move_def d k)
  ultimately show ?thesis by (simp add: buf_def)
qed

lemma array_words_null: "array_words m 0 dest k F = (\<lambda>x. if dest \<le> x \<and> x < dest + k then 0 else F x)"
  by (simp add: array_words_def fun_eq_iff)

lemma attr_extent: "ManagedBuffer_get_slot_based_length (8 * of_nat k) 8 = 8 * of_nat k" if "8 * k < (2 :: nat) ^ 64"
proof -
  have "unat (8 * of_nat k :: u64) = 8 * k" using that by (rule unat_words)
  then have "(8 * of_nat k :: u64) mod 8 = 0" by (simp add: u64_eq_nat unat_u64_mod)
  then show ?thesis by (simp add: ManagedBuffer_get_slot_based_length_def)
qed

definition sources_ok :: "u64 \<Rightarrow> nat \<Rightarrow> attr_words \<Rightarrow> (nat \<Rightarrow> u64) \<Rightarrow> nat \<Rightarrow> bool" where
  "sources_ok b N attrs F so \<longleftrightarrow> (\<forall>(o', k)\<in>set attrs. F (so + o') = 0 \<or> source_ok b N (F (so + o')) k)"

lemma sources_ok_Cons:
  assumes "sources_ok b N ((o', k) # attrs) F so" "attrs_apart ((o', k) # attrs) w so dest out"
  shows "sources_ok b N attrs ((array_words m s dest k F)(so + o' := x, out := y)) so"
proof -
  have "((array_words m s dest k F)(so + o' := x, out := y)) (so + p) = F (so + p)" if "(p, q) \<in> set attrs" for p q
  proof -
    have "p \<noteq> o'" "p < w" using that assms(2) by (force simp: attrs_apart_def image_iff)+
    then show ?thesis using assms(2) by (auto simp: attrs_apart_def array_words_def)
  qed
  then show ?thesis using assms(1) by (auto simp: sources_ok_def)
qed

lemma add_loop:
  assumes "buf m0 b N F m" "fits b N" "attrs_apart attrs w so dest out" "out + length attrs \<le> N" "sources_ok b N attrs F so"
  shows "buf m0 b N (add_words m0 b attrs F so dest out)
    (add_dataptrs_loop (map attr_bytes attrs) m (word_addr b so) (word_addr b dest) (word_addr b out) 8)"
  using assms
proof (induction attrs arbitrary: F m dest out)
  case (Cons a attrs)
  obtain o' k where a: "a = (o', k)" by fastforce
  have P: "o' < w" "so + w \<le> dest" "dest + k \<le> N" "out < N" "so + o' < N" "8 * k < 2 ^ 64"
    using Cons.prems(2,3,4) by (auto simp: attrs_apart_def a fits_def)
  have slot: "word_addr b so + 8 * of_nat o' = word_addr b (so + o')" "word_addr b (so + o') \<noteq> 0"
    using addr_neq_0 [OF Cons.prems(2)] P(5) by (simp_all add: addr_plus)
  define source where "source = F (so + o')"
  have rd: "rd64 m (word_addr b (so + o')) = source" using buf_read [OF Cons.prems(1) P(5)] by (simp add: source_def)
  define m1 where "m1 = (if source \<noteq> 0 then mem_move m (word_addr b dest) source (8 * of_nat k)
    else mem_set m (word_addr b dest) (8 * of_nat k) 0)"
  have m1: "buf m0 b N (array_words m0 source dest k F) m1"
  proof (cases "source = 0")
    case True
    then show ?thesis unfolding m1_def using buf_fill [OF Cons.prems(1,2) P(3)] by (simp add: array_words_null)
  next
    case False
    then have "source_ok b N source k" using Cons.prems(5) by (auto simp: sources_ok_def a source_def)
    then show ?thesis unfolding m1_def using False copy_in [OF Cons.prems(1,2) P(3)] by simp
  qed
  define m2 where "m2 = wr64 (wr64 m1 (word_addr b (so + o')) (word_addr b dest)) (word_addr b out) (word_addr b (so + o'))"
  have m2: "buf m0 b N ((array_words m0 source dest k F)(so + o' := word_addr b dest, out := word_addr b (so + o'))) m2"
    unfolding m2_def by (intro buf_write m1 Cons.prems P)
  have size: "(of_nat k * 8 :: u64) = 8 * of_nat k" by simp
  have step: "add_dataptrs_loop (map attr_bytes (a # attrs)) m (word_addr b so) (word_addr b dest) (word_addr b out) 8 =
      add_dataptrs_loop (map attr_bytes attrs) m2 (word_addr b so) (word_addr b (dest + k)) (word_addr b (out + 1)) 8"
    using slot(2) by (simp add: a size attr_extent [OF P(6)] slot(1) rd Let_def m2_def m1_def sizeof_address_def addr_plus)
  have rest: "attrs_apart attrs w so (dest + k) (out + 1)" "out + 1 + length attrs \<le> N"
    using Cons.prems(3,4) attrs_apart_Cons by (auto simp: a)
  show ?case
    unfolding step
    using Cons.IH [OF m2 Cons.prems(2) rest sources_ok_Cons [OF Cons.prems(5,3) [unfolded a]]]
    unfolding a source_def add_words.simps .
qed simp

subsection \<open>The layout after adding\<close>

abbreviation slots_end :: "buffer_layout \<Rightarrow> nat" where "slots_end L \<equiv> at_slots L + 2 + num_slots L"
abbreviation objs_end :: "buffer_layout \<Rightarrow> nat" where "objs_end L \<equiv> at_objs L + 2 + 3 * num_objs L"
abbreviation ptrs_end :: "buffer_layout \<Rightarrow> nat" where "ptrs_end L \<equiv> at_ptrs L + 2 + num_ptrs L"

definition added_layout :: "buffer_layout \<Rightarrow> nat \<Rightarrow> attr_words \<Rightarrow> buffer_layout" where
  "added_layout L w attrs = L\<lparr>num_slots := num_slots L + w + attr_total attrs, objs_to := objs_to L @ [slots_end L],
     ptrs_to := ptrs_to L @ zip (map (\<lambda>a. slots_end L + fst a) attrs) (attr_dests attrs (slots_end L + w))\<rparr>"

definition object_words :: "mem \<Rightarrow> u64 \<Rightarrow> buffer_layout \<Rightarrow> u64 \<Rightarrow> nat \<Rightarrow> u64 \<Rightarrow> nat \<Rightarrow> (nat \<Rightarrow> u64) \<Rightarrow> nat \<Rightarrow> u64" where
  "object_words m b L source w type_id extra f = (array_words m source (slots_end L) w f)
     (objs_end L := word_addr b (slots_end L), objs_end L + 1 := type_id, objs_end L + 2 := 8 * of_nat (w + extra))"

definition added_words :: "mem \<Rightarrow> u64 \<Rightarrow> buffer_layout \<Rightarrow> u64 \<Rightarrow> nat \<Rightarrow> u64 \<Rightarrow> attr_words \<Rightarrow> (nat \<Rightarrow> u64) \<Rightarrow> nat \<Rightarrow> u64" where
  "added_words m b L source w type_id attrs f =
     (add_words m b attrs (object_words m b L source w type_id (attr_total attrs) f) (slots_end L) (slots_end L + w) (ptrs_end L))
     (at_ptrs L + 1 := of_nat (num_ptrs L + length attrs), at_slots L + 1 := of_nat (num_slots L + w + attr_total attrs),
      at_objs L + 1 := of_nat (num_objs L + 1))"

text \<open>The buffer has room, and the attributes lie inside the object and lead to arrays outside the buffer.\<close>

definition addable :: "nat \<Rightarrow> buffer_layout \<Rightarrow> nat \<Rightarrow> attr_words \<Rightarrow> bool" where
  "addable n L w attrs \<longleftrightarrow> layout_ok n L \<and> 0 < w \<and> num_slots L + w + attr_total attrs + 2 \<le> max_slots L \<and>
     3 * (num_objs L + 1) + 2 \<le> max_objs L \<and> num_ptrs L + length attrs + 2 \<le> max_ptrs L \<and>
     distinct (map fst attrs) \<and> (\<forall>a\<in>set attrs. fst a < w \<and> 0 < snd a)"

lemma addable_bounds:
  assumes "addable n L w attrs"
  shows "slots_end L + w + attr_total attrs \<le> at_objs L" "objs_end L + 3 \<le> at_ptrs L" "ptrs_end L + length attrs \<le> at_ranges L"
    "attrs_apart attrs w (slots_end L) (slots_end L + w) (ptrs_end L)" "8 \<le> at_slots L" "at_ranges L + 2 + 2 * num_ranges L \<le> n"
    "0 < w"
  using assms by (auto simp: addable_def layout_ok_def attrs_apart_def)

lemma length_attr_dests [simp]: "length (attr_dests attrs dest) = length attrs"
  by (induction attrs dest rule: attr_dests.induct) simp_all

lemma attr_dests_bounds:
  "j < length attrs \<Longrightarrow> dest \<le> attr_dests attrs dest ! j \<and> attr_dests attrs dest ! j + snd (attrs ! j) \<le> dest + attr_total attrs"
proof (induction attrs dest arbitrary: j rule: attr_dests.induct)
  case (2 o' k attrs dest)
  then show ?case by (cases j) force+
qed simp

lemma added_words_same:
  assumes "addable n L w attrs" "x < slots_end L \<or> slots_end L + w + attr_total attrs \<le> x"
    "x < objs_end L \<or> objs_end L + 3 \<le> x" "x < ptrs_end L \<or> ptrs_end L + length attrs \<le> x"
    "x \<noteq> at_ptrs L + 1" "x \<noteq> at_slots L + 1" "x \<noteq> at_objs L + 1"
  shows "added_words m b L source w type_id attrs f x = f x"
proof -
  note B = addable_bounds [OF assms(1)]
  have "x \<notin> (\<lambda>(o', k). slots_end L + o') ` set attrs"
    using assms(1,2) by (fastforce simp: addable_def)
  then have "add_words m b attrs (object_words m b L source w type_id (attr_total attrs) f) (slots_end L) (slots_end L + w) (ptrs_end L) x =
      object_words m b L source w type_id (attr_total attrs) f x"
    using assms(2,4) by (intro add_words_outside) auto
  moreover have "x \<noteq> objs_end L" "x \<noteq> objs_end L + 1" "x \<noteq> objs_end L + 2" using assms(3) by linarith+
  moreover have "\<not> (slots_end L \<le> x \<and> x < slots_end L + w)" using assms(2) by linarith
  then have "array_words m source (slots_end L) w f x = f x" by (simp only: array_words_def if_False)
  ultimately show ?thesis using assms(5-7) by (simp only: added_words_def object_words_def fun_upd_def if_False)
qed

lemma added_words_entry:
  assumes "addable n L w attrs"
  shows "added_words m b L source w type_id attrs f (objs_end L) = word_addr b (slots_end L)"
    "added_words m b L source w type_id attrs f (objs_end L + 1) = type_id"
    "added_words m b L source w type_id attrs f (objs_end L + 2) = 8 * of_nat (w + attr_total attrs)"
proof -
  note B = addable_bounds [OF assms]
  have "add_words m b attrs F (slots_end L) (slots_end L + w) (ptrs_end L) x = F x" if "objs_end L \<le> x" "x < objs_end L + 3" for F x
  proof (rule add_words_outside)
    show "x \<notin> (\<lambda>(o', k). slots_end L + o') ` set attrs"
      using that B(1) assms by (fastforce simp: addable_def)
  qed (use that B in linarith)+
  then show "added_words m b L source w type_id attrs f (objs_end L) = word_addr b (slots_end L)"
    "added_words m b L source w type_id attrs f (objs_end L + 1) = type_id"
    "added_words m b L source w type_id attrs f (objs_end L + 2) = 8 * of_nat (w + attr_total attrs)"
    using B by (simp_all add: added_words_def object_words_def)
qed

lemma added_words_data:
  assumes "addable n L w attrs" "i < w" "i \<notin> fst ` set attrs" "source \<noteq> 0"
  shows "added_words m b L source w type_id attrs f (slots_end L + i) = rd64 m (word_addr source i)"
proof -
  note B = addable_bounds [OF assms(1)]
  have "add_words m b attrs F (slots_end L) (slots_end L + w) (ptrs_end L) (slots_end L + i) = F (slots_end L + i)" for F
    using assms(2,3) B by (intro add_words_outside) (force simp: image_iff)+
  then show ?thesis using assms(2,4) B by (simp add: added_words_def object_words_def array_words_def)
qed

lemma added_words_attr:
  assumes "addable n L w attrs" "j < length attrs" "source \<noteq> 0"
  shows "added_words m b L source w type_id attrs f (slots_end L + fst (attrs ! j)) =
      word_addr b (attr_dests attrs (slots_end L + w) ! j)"
    "added_words m b L source w type_id attrs f (ptrs_end L + j) = word_addr b (slots_end L + fst (attrs ! j))"
    "i < snd (attrs ! j) \<Longrightarrow> added_words m b L source w type_id attrs f (attr_dests attrs (slots_end L + w) ! j + i) =
      (let array = rd64 m (word_addr source (fst (attrs ! j))) in if array = 0 then 0 else rd64 m (word_addr array i))"
proof -
  note B = addable_bounds [OF assms(1)]
  define F where "F = object_words m b L source w type_id (attr_total attrs) f"
  note A = add_words_attr [OF B(4) assms(2), of m b F]
  have a: "fst (attrs ! j) < w" using assms(1,2) by (auto simp: addable_def)
  then have F: "F (slots_end L + fst (attrs ! j)) = rd64 m (word_addr source (fst (attrs ! j)))"
    using B assms(3) by (simp add: F_def object_words_def array_words_def)
  note D = attr_dests_bounds [OF assms(2), of "slots_end L + w"]
  show "added_words m b L source w type_id attrs f (slots_end L + fst (attrs ! j)) = word_addr b (attr_dests attrs (slots_end L + w) ! j)"
    "added_words m b L source w type_id attrs f (ptrs_end L + j) = word_addr b (slots_end L + fst (attrs ! j))"
    using A a B assms(2) by (simp_all add: added_words_def flip: F_def)
  show "added_words m b L source w type_id attrs f (attr_dests attrs (slots_end L + w) ! j + i) =
      (let array = rd64 m (word_addr source (fst (attrs ! j))) in if array = 0 then 0 else rd64 m (word_addr array i))"
    if "i < snd (attrs ! j)"
    using A a B assms(2) D that F by (simp add: added_words_def Let_def flip: F_def)
qed

lemma added_layout_simps [simp]:
  "at_slots (added_layout L w attrs) = at_slots L" "at_objs (added_layout L w attrs) = at_objs L"
  "at_ptrs (added_layout L w attrs) = at_ptrs L" "at_ranges (added_layout L w attrs) = at_ranges L"
  "max_slots (added_layout L w attrs) = max_slots L" "max_objs (added_layout L w attrs) = max_objs L"
  "max_ptrs (added_layout L w attrs) = max_ptrs L" "max_ranges (added_layout L w attrs) = max_ranges L"
  "num_slots (added_layout L w attrs) = num_slots L + w + attr_total attrs"
  "objs_to (added_layout L w attrs) = objs_to L @ [slots_end L]" "ranges_to (added_layout L w attrs) = ranges_to L"
  "num_ptrs (added_layout L w attrs) = num_ptrs L + length attrs"
  by (simp_all add: added_layout_def)

lemma added_ptrs:
  "i < num_ptrs L \<Longrightarrow> ptrs_to (added_layout L w attrs) ! i = ptrs_to L ! i"
  "j < length attrs \<Longrightarrow> ptrs_to (added_layout L w attrs) ! (num_ptrs L + j) =
    (slots_end L + fst (attrs ! j), attr_dests attrs (slots_end L + w) ! j)"
  by (simp_all add: added_layout_def nth_append)

lemma added_in_slots: "in_slots L k \<Longrightarrow> in_slots (added_layout L w attrs) k"
  by (simp add: in_slots_def)

lemma added_structure:
  assumes "describes b n L f" "addable n L w attrs"
  shows "header_at b (added_layout L w attrs) (added_words m b L source w type_id attrs f)"
    "sections_ok n (added_layout L w attrs) (added_words m b L source w type_id attrs f)"
    "layout_ok n (added_layout L w attrs)"
proof -
  note B = addable_bounds [OF assms(2)]
  have d: "header_at b L f" "sections_ok n L f" "layout_ok n L" using assms(1) by (simp_all add: describes_def)
  have same: "added_words m b L source w type_id attrs f x = f x"
    if "x < at_slots L \<or> x \<in> {at_slots L, at_objs L, at_ptrs L, at_ranges L, at_ranges L + 1}" for x
    using that B by (intro added_words_same [OF assms(2)]) auto
  show "header_at b (added_layout L w attrs) (added_words m b L source w type_id attrs f)"
    using d(1) B(5) by (simp add: header_at_def same)
  have "added_words m b L source w type_id attrs f (at_slots L + 1) = of_nat (num_slots L + w + attr_total attrs)"
    "added_words m b L source w type_id attrs f (at_objs L + 1) = of_nat (num_objs L + 1)"
    "added_words m b L source w type_id attrs f (at_ptrs L + 1) = of_nat (num_ptrs L + length attrs)"
    using B by (simp_all add: added_words_def)
  then show "sections_ok n (added_layout L w attrs) (added_words m b L source w type_id attrs f)"
    using d(2) B(5) by (simp add: sections_ok_def same)
  show "layout_ok n (added_layout L w attrs)"
    using assms(2) by (auto simp: layout_ok_def addable_def)
qed

lemma added_objects:
  assumes "describes b n L f" "addable n L w attrs" "8 * n < (2 :: nat) ^ 64"
  shows "objects_at b (added_layout L w attrs) (added_words m b L source w type_id attrs f)"
  unfolding objects_at_def
proof (intro allI impI)
  note B = addable_bounds [OF assms(2)]
  define F where "F = added_words m b L source w type_id attrs f"
  have o: "objects_at b L f" using assms(1) by (simp add: describes_def)
  have same: "F (at_objs L + 2 + 3 * i) = f (at_objs L + 2 + 3 * i)" "obj_words (added_layout L w attrs) F i = obj_words L f i"
    if "i < num_objs L" for i
    using that B unfolding F_def by (simp_all add: added_words_same [OF assms(2)] obj_words_def)
  have new: "unat (8 * of_nat (w + attr_total attrs) :: u64) = 8 * (w + attr_total attrs)"
  proof (intro unat_words)
    have "w + attr_total attrs \<le> n" using B(1,2,3,6) by simp
    then have "8 * (w + attr_total attrs) \<le> 8 * n" by simp
    then show "8 * (w + attr_total attrs) < 2 ^ 64" using assms(3) by (rule le_less_trans)
  qed
  fix i assume i: "i < num_objs (added_layout L w attrs)"
  show "added_words m b L source w type_id attrs f (at_objs (added_layout L w attrs) + 2 + 3 * i) = word_addr b (obj_at (added_layout L w attrs) i) \<and>
     at_slots (added_layout L w attrs) + 2 \<le> obj_at (added_layout L w attrs) i \<and>
     obj_at (added_layout L w attrs) i + obj_words (added_layout L w attrs) (added_words m b L source w type_id attrs f) i \<le>
       (if i + 1 < num_objs (added_layout L w attrs) then obj_at (added_layout L w attrs) (i + 1)
        else at_slots (added_layout L w attrs) + 2 + num_slots (added_layout L w attrs))"
  proof (cases "i < num_objs L")
    case True
    then have "f (at_objs L + 2 + 3 * i) = word_addr b (obj_at L i)" "at_slots L + 2 \<le> obj_at L i"
      "obj_at L i + obj_words L f i \<le> (if i + 1 < num_objs L then obj_at L (i + 1) else slots_end L)"
      using o by (simp_all add: objects_at_def)
    then show ?thesis
      using True same [OF True] unfolding F_def by (auto simp: nth_append split: if_splits)
  next
    case False
    then have "i = num_objs L" using i by simp
    moreover have "obj_words (added_layout L w attrs) F (num_objs L) = w + attr_total attrs"
      using added_words_entry(3) [OF assms(2), of m b source type_id f] new unfolding obj_words_def F_def
      by (simp add: add.assoc)
    ultimately show ?thesis
      using added_words_entry(1) [OF assms(2), of m b source type_id f] unfolding F_def by (simp add: add.assoc)
  qed
qed

lemma added_pointers:
  assumes "describes b n L f" "addable n L w attrs" "source \<noteq> 0"
  shows "ptrs_at b (added_layout L w attrs) (added_words m b L source w type_id attrs f)"
proof -
  note B = addable_bounds [OF assms(2)]
  define L' where "L' = added_layout L w attrs"
  define F where "F = added_words m b L source w type_id attrs f"
  have p: "inj_on (ptr_at L) {..<num_ptrs L}" "\<And>i. i < num_ptrs L \<Longrightarrow> f (at_ptrs L + 2 + i) = word_addr b (ptr_at L i) \<and>
      in_slots L (ptr_at L i) \<and> f (ptr_at L i) = word_addr b (target_of L i) \<and> in_slots L (target_of L i)"
    using assms(1) by (simp_all add: describes_def ptrs_at_def)
  have attr: "fst (attrs ! j) < w" "0 < snd (attrs ! j)" if "j < length attrs" for j
    using that assms(2) by (auto simp: addable_def)
  have old: "ptr_at L' i = ptr_at L i" "target_of L' i = target_of L i" if "i < num_ptrs L" for i
    using that by (simp_all add: L'_def added_ptrs)
  have new: "ptr_at L' (num_ptrs L + j) = slots_end L + fst (attrs ! j)"
    "target_of L' (num_ptrs L + j) = attr_dests attrs (slots_end L + w) ! j" if "j < length attrs" for j
    using that by (simp_all add: L'_def added_ptrs)
  have slots: "F x = f x" if "in_slots L x" for x
    using that B unfolding F_def in_slots_def by (intro added_words_same [OF assms(2)]) auto
  have table: "F (at_ptrs L + 2 + i) = f (at_ptrs L + 2 + i)" if "i < num_ptrs L" for i
    using that B unfolding F_def by (intro added_words_same [OF assms(2)]) auto
  have split: "(\<exists>j < length attrs. i = num_ptrs L + j)" if "i < num_ptrs L'" "\<not> i < num_ptrs L" for i
    using that by (auto simp: L'_def intro: exI [of _ "i - num_ptrs L"])
  have "inj_on (ptr_at L') {..<num_ptrs L'}"
  proof (rule inj_onI)
    fix i j assume ij: "i \<in> {..<num_ptrs L'}" "j \<in> {..<num_ptrs L'}" and eq: "ptr_at L' i = ptr_at L' j"
    have inside: "ptr_at L k < slots_end L" if "k < num_ptrs L" for k using p(2) [OF that] by (simp add: in_slots_def)
    have dist: "distinct (map fst attrs)" using assms(2) by (simp add: addable_def)
    show "i = j"
    proof (cases "i < num_ptrs L"; cases "j < num_ptrs L")
      assume "i < num_ptrs L" "j < num_ptrs L"
      then show ?thesis using eq p(1) by (simp add: old inj_on_def)
    next
      assume i: "i < num_ptrs L" and "\<not> j < num_ptrs L"
      then show ?thesis using eq split [of j] ij inside [OF i] by (auto simp: old new)
    next
      assume "\<not> i < num_ptrs L" and j: "j < num_ptrs L"
      then show ?thesis using eq split [of i] ij inside [OF j] by (auto simp: old new)
    next
      assume "\<not> i < num_ptrs L" "\<not> j < num_ptrs L"
      then obtain i' j' where "i = num_ptrs L + i'" "i' < length attrs" "j = num_ptrs L + j'" "j' < length attrs"
        using split ij by (metis lessThan_iff)
      then show ?thesis using eq dist by (simp add: new nth_eq_iff_index_eq [of "map fst attrs", symmetric])
    qed
  qed
  moreover have "F (at_ptrs L + 2 + i) = word_addr b (ptr_at L' i) \<and> in_slots L' (ptr_at L' i) \<and>
      F (ptr_at L' i) = word_addr b (target_of L' i) \<and> in_slots L' (target_of L' i)" if i: "i < num_ptrs L'" for i
  proof (cases "i < num_ptrs L")
    case True
    have "in_slots L' (ptr_at L i)" "in_slots L' (target_of L i)"
      using p(2) [OF True] added_in_slots unfolding L'_def by blast+
    then show ?thesis using p(2) [OF True] slots table [OF True] by (simp add: old [OF True])
  next
    case False
    then obtain j where j: "i = num_ptrs L + j" "j < length attrs" using split [OF i] by blast
    have "in_slots L' (slots_end L + fst (attrs ! j))" "in_slots L' (attr_dests attrs (slots_end L + w) ! j)"
      using attr [OF j(2)] attr_dests_bounds [OF j(2), of "slots_end L + w"] by (simp_all add: in_slots_def L'_def)
    then show ?thesis
      using added_words_attr(1,2) [OF assms(2) j(2) assms(3), of m b type_id f] new [OF j(2)] unfolding j(1) F_def
      by (simp add: add.assoc)
  qed
  ultimately show ?thesis unfolding ptrs_at_def L'_def F_def by simp
qed

lemma added_describes:
  assumes "describes b n L f" "addable n L w attrs" "source \<noteq> 0" "8 * n < (2 :: nat) ^ 64"
  shows "describes b n (added_layout L w attrs) (added_words m b L source w type_id attrs f)"
proof -
  note B = addable_bounds [OF assms(2)]
  have r: "ranges_at b L f" using assms(1) by (simp add: describes_def)
  have "ranges_at b (added_layout L w attrs) (added_words m b L source w type_id attrs f)"
    unfolding ranges_at_def
  proof (intro allI impI)
    fix i assume i: "i < num_ranges (added_layout L w attrs)"
    then have "added_words m b L source w type_id attrs f (at_ranges L + 2 + 2 * i) = f (at_ranges L + 2 + 2 * i)"
      using B by (intro added_words_same [OF assms(2)]) auto
    then show "added_words m b L source w type_id attrs f (at_ranges (added_layout L w attrs) + 2 + 2 * i) =
        word_addr b (range_at (added_layout L w attrs) i) \<and> in_slots (added_layout L w attrs) (range_at (added_layout L w attrs) i)"
      using r i added_in_slots by (simp add: ranges_at_def)
  qed
  then show ?thesis
    using added_structure [OF assms(1,2)] added_objects [OF assms(1,2,4)] added_pointers [OF assms(1-3)]
    by (simp add: describes_def)
qed

subsection \<open>The operation\<close>

lemma structure_kept:
  assumes "header_at b L f" "sections_ok n L f" "8 \<le> at_slots L"
    and "\<And>x. x < at_slots L + 2 \<or> x \<in> {at_objs L, at_objs L + 1, at_ptrs L, at_ptrs L + 1, at_ranges L, at_ranges L + 1} \<Longrightarrow> F x = f x"
  shows "header_at b L F" "sections_ok n L F"
  using assms by (simp_all add: header_at_def sections_ok_def)

lemma in_place_within:
  assumes "buf m0 b N F m" "n \<le> N" "fits b N" "8 \<le> unat b" "b mod 8 = 0" "header_at b L F" "sections_ok n L F" "layout_ok n L"
  shows "in_place m b n L F m"
  using assms buf_part [OF assms(1,2)] fits_mono [OF assms(3,2)] by (simp add: in_place_def)

lemma map_attr_bytes_Nil: "map attr_bytes attrs \<noteq> [] \<longleftrightarrow> attrs \<noteq> []"
  by simp

lemma store_object_words:
  assumes buf: "buf m0 b N f m" and desc: "describes b n L f" and b: "n \<le> N" "fits b N" "8 \<le> unat b" "b mod 8 = 0"
    and add: "addable n L w attrs" and source: "source_ok b N source w"
    and arrays: "\<And>o' k. (o', k) \<in> set attrs \<Longrightarrow> rd64 m0 (word_addr source o') = 0 \<or> source_ok b N (rd64 m0 (word_addr source o')) k"
  shows "\<exists>m'. store_object m b source (8 * of_nat w) type_id (map attr_bytes attrs) (8 * of_nat (w + attr_total attrs)) 8 =
      (m', word_addr b (objs_end L), 0) \<and>
    buf m0 b N (add_words m0 b attrs (object_words m0 b L source w type_id (attr_total attrs) f)
      (slots_end L) (slots_end L + w) (ptrs_end L)) m'"
proof -
  note B = addable_bounds [OF add]
  have d: "header_at b L f" "sections_ok n L f" "layout_ok n L" using desc by (simp_all add: describes_def)
  have N: "slots_end L + w \<le> N" "objs_end L + 2 < N" "ptrs_end L + length attrs \<le> N" "slots_end L \<le> N"
    using B b(1) by linarith+
  note place = in_place_within [OF buf b(1-4) d]
  define m1 where "m1 = mem_move m (word_addr b (slots_end L)) source (8 * of_nat w)"
  define F1 where "F1 = array_words m0 source (slots_end L) w f"
  have m1: "buf m0 b N F1 m1" unfolding F1_def m1_def by (rule copy_in [OF buf b(2) N(1) source])
  have same1: "F1 x = f x" if "x < at_slots L + 2 \<or> x \<in> {at_objs L, at_objs L + 1, at_ptrs L, at_ptrs L + 1, at_ranges L, at_ranges L + 1}" for x
    using that B unfolding F1_def array_words_def by auto
  have s1: "header_at b L F1" "sections_ok n L F1" by (rule structure_kept [OF d(1,2) B(5)]; rule same1; assumption)+
  note place1 = in_place_within [OF m1 b(1-4) s1 d(3)]
  define m2 where "m2 = store_obj_info m1 (word_addr b (objs_end L)) (word_addr b (slots_end L)) type_id (8 * of_nat (w + attr_total attrs))"
  define F2 where "F2 = object_words m0 b L source w type_id (attr_total attrs) f"
  have m2: "buf m0 b N F2 m2"
    unfolding F2_def m2_def object_words_def store_obj_info_def addr_plus F1_def [symmetric] using N(2)
    by (intro buf_write m1 b) simp_all
  have same2: "F2 x = F1 x" if "x < at_slots L + 2 \<or> x \<in> {at_objs L, at_objs L + 1, at_ptrs L, at_ptrs L + 1, at_ranges L, at_ranges L + 1}" for x
    using that B unfolding F2_def object_words_def F1_def [symmetric] by auto
  have s2: "header_at b L F2" "sections_ok n L F2" by (rule structure_kept [OF s1 B(5)]; rule same2; assumption)+
  note place2 = in_place_within [OF m2 b(1-4) s2 d(3)]
  have at: "word_addr b (at_slots L) + 8 * of_nat (num_slots L + 2) = word_addr b (slots_end L)"
    "word_addr b (at_objs L) + 8 * of_nat (3 * num_objs L + 2) = word_addr b (objs_end L)"
    "word_addr b (at_ptrs L) + 8 * of_nat (num_ptrs L + 2) = word_addr b (ptrs_end L)"
    "word_addr b (slots_end L) + 8 * of_nat w = word_addr b (slots_end L + w)"
    unfolding addr_plus by (simp_all add: ac_simps)
  have nz: "word_addr b (slots_end L) \<noteq> 0" "word_addr b (at_objs L) \<noteq> 0"
    using addr_neq_0 [OF b(2) N(4)] section_ptrs(6) [OF place] by blast+
  have w8: "8 * w < 2 ^ 64" using N(1) b(2) unfolding fits_def by linarith
  define m3 where "m3 = (if attrs \<noteq> [] then add_dataptrs_loop (map attr_bytes attrs) m2 (word_addr b (slots_end L))
    (word_addr b (slots_end L + w)) (word_addr b (ptrs_end L)) 8 else m2)"
  have src: "F2 (slots_end L + o') = rd64 m0 (word_addr source o')" if "o' < w" for o'
    using that source B(1) unfolding F2_def object_words_def array_words_def by (simp add: source_ok_def fits_def)
  have "sources_ok b N attrs F2 (slots_end L)"
    using arrays src add by (fastforce simp: sources_ok_def addable_def)
  from add_loop [OF m2 b(2) B(4) N(3) this]
  have m3: "buf m0 b N (add_words m0 b attrs F2 (slots_end L) (slots_end L + w) (ptrs_end L)) m3"
    using m2 unfolding m3_def by (cases "attrs = []") simp_all
  have "store_object m b source (8 * of_nat w) type_id (map attr_bytes attrs) (8 * of_nat (w + attr_total attrs)) 8 =
      (m3, word_addr b (objs_end L), 0)"
    unfolding store_object_def Let_def mutable_ptrs section_ptrs(1) [OF place] section_sizes(1) [OF place] at(1)
      section_ptrs(2) [OF place] if_P [OF nz(1)] prod.case m1_def [symmetric]
    unfolding section_sizes(2) [OF place1] at(2) attr_extent [OF w8] map_attr_bytes_Nil m2_def [symmetric]
      if_P [OF conjI [OF refl nz(2)]] prod.case
    unfolding m2_def [symmetric] section_ptrs(3) [OF place2] section_sizes(3) [OF place2] at(3,4)
    by (simp add: m3_def)
  then show ?thesis using m3 unfolding F2_def by blast
qed

lemma outside_words:
  assumes "buf m0 b N f m" "source_ok b N source k" "i < k"
  shows "rd64 m (word_addr source i) = rd64 m0 (word_addr source i)"
proof (rule rd64_cong)
  fix x assume x: "unat (word_addr source i) \<le> x" "x < unat (word_addr source i) + 8"
  have "unat (word_addr source i) = unat source + 8 * i" using assms(2,3) by (intro unat_addr) (auto simp: source_ok_def)
  then show "m x = m0 x" using x assms(2,3) by (intro buf_outside [OF assms(1)]) (auto simp: source_ok_def)
qed

lemma words_div_mod:
  assumes "8 * k < (2 :: nat) ^ 64"
  shows "(8 * of_nat k :: u64) div 8 = of_nat k" "(8 * of_nat k :: u64) mod 8 = 0"
proof -
  have k: "unat (8 * of_nat k :: u64) = 8 * k" "unat (of_nat k :: u64) = k"
    using assms by (rule unat_words) (rule unat_of_nat_u64, use assms in linarith)
  then show "(8 * of_nat k :: u64) div 8 = of_nat k" "(8 * of_nat k :: u64) mod 8 = 0"
    by (simp_all add: u64_eq_nat unat_u64_div unat_u64_mod)
qed

lemma predicted_slots:
  assumes "0 < w" "8 * (w + attr_total attrs) < (2 :: nat) ^ 64"
  shows "ManagedBuffer_predict_required_num_slots (8 * of_nat w) (map snd (map attr_bytes attrs)) 8 = of_nat (w + attr_total attrs)"
proof -
  have sum: "foldl (\<lambda>r (s, c). r + ManagedBuffer_get_slot_based_length (s * c) 8) (8 * of_nat v) (map snd (map attr_bytes attrs)) =
      8 * of_nat (v + attr_total attrs)" if "8 * (v + attr_total attrs) < (2 :: nat) ^ 64" for v
    using that
  proof (induction attrs arbitrary: v)
    case (Cons a attrs)
    have "8 * snd a < (2 :: nat) ^ 64" using Cons.prems by simp
    then have "(8 * of_nat v :: u64) + ManagedBuffer_get_slot_based_length (8 * of_nat (snd a)) 8 = 8 * of_nat (v + snd a)"
      by (simp add: attr_extent)
    then show ?case using Cons.IH [of "v + snd a"] Cons.prems by (simp add: add.assoc del: of_nat_add)
  qed simp
  have w8: "8 * w < (2 :: nat) ^ 64" using assms(2) by simp
  have pos: "(8 * of_nat w :: u64) > 0" using assms(1) w8 by (simp add: u64_less_nat unat_words)
  show ?thesis
    unfolding ManagedBuffer_predict_required_num_slots_def attr_extent [OF w8] Let_def sum [OF assms(2)]
    using pos words_div_mod [OF assms(2)] by (cases "attrs = []") simp_all
qed

lemma room_for_entities:
  assumes "in_place m0 b n L F m" "8 * n < (2 :: nat) ^ 64" "k \<le> n"
  shows "k + 2 \<le> max_slots L \<Longrightarrow> \<not> of_nat k > ManagedBuffer_get_section_max_num_entities m b 3 8"
    and "3 * k + 2 \<le> max_objs L \<Longrightarrow> \<not> of_nat k > ManagedBuffer_get_section_max_num_entities m b 4 8"
    and "k + 2 \<le> max_ptrs L \<Longrightarrow> \<not> of_nat k > ManagedBuffer_get_section_max_num_entities m b 5 8"
proof -
  have lo: "layout_ok n L" using assms(1) by (simp add: in_place_def)
  have w: "8 * max_slots L < 2 ^ 64" "2 \<le> max_slots L" "8 * max_objs L < 2 ^ 64" "2 \<le> max_objs L"
    "8 * max_ptrs L < 2 ^ 64" "2 \<le> max_ptrs L"
    using lo assms(2) by (simp_all add: layout_ok_def)
  have "k < 2 ^ 64" using assms(2,3) by linarith
  then have k: "unat (of_nat k :: u64) = k" by (rule unat_of_nat_u64)
  note max = section_counts(5-7) [OF assms(1)]
  show "\<not> of_nat k > ManagedBuffer_get_section_max_num_entities m b 3 8" if "k + 2 \<le> max_slots L"
    using that unfolding u64_less_nat k unat_max_entities [OF max(1) w(1,2)] by simp
  show "\<not> of_nat k > ManagedBuffer_get_section_max_num_entities m b 4 8" if "3 * k + 2 \<le> max_objs L"
  proof -
    have "k \<le> 8 * (max_objs L - 2) div 24" using that by linarith
    then show ?thesis unfolding u64_less_nat k unat_max_entities [OF max(2) w(3,4)] by simp
  qed
  show "\<not> of_nat k > ManagedBuffer_get_section_max_num_entities m b 5 8" if "k + 2 \<le> max_ptrs L"
    using that unfolding u64_less_nat k unat_max_entities [OF max(3) w(5,6)] by simp
qed

lemma set_count:
  assumes "buf m0 b N F m" "fits b N" "k \<in> {3, 4, 5, 6}" "6 < N" "F k = word_addr b j" "j + 1 < N"
  shows "buf m0 b N (F(j + 1 := x)) (ManagedBuffer_set_section_num_entities m b (of_nat k) x 8)"
proof -
  have "b \<noteq> 0" "k < N" "word_addr b j \<noteq> 0" using assms addr_neq_0 [OF assms(2), of j] by (auto simp: fits_def)
  then show ?thesis
    using set_section_words(2) [OF assms(1) _ assms(3) _ assms(5)] buf_write [OF assms(1,2,6)] by simp
qed

lemma add_object_words:
  assumes place: "buf m0 b N f m" "describes b n L f" "n \<le> N" "fits b N" "8 \<le> unat b" "b mod 8 = 0"
    and handle: "bf_data_addr buffer = b" "bf_slot_length buffer = 8" "full_access buffer"
    and add: "addable n L w attrs" and source: "source_ok b N source w"
    and arrays: "\<And>o' k. (o', k) \<in> set attrs \<Longrightarrow> rd64 m0 (word_addr source o') = 0 \<or> source_ok b N (rd64 m0 (word_addr source o')) k"
  shows "\<exists>m'. Buffer_add_object m new_memory mem_pool buffer source (8 * of_nat w) type_id (map attr_bytes attrs) =
      (m', mem_pool, buffer\<lparr>bf_num_objects := of_nat (num_objs L + 1)\<rparr>, word_addr b (objs_end L)) \<and>
    buf m0 b N (added_words m0 b L source w type_id attrs f) m'"
proof -
  note B = addable_bounds [OF add]
  define T where "T = w + attr_total attrs"
  have d: "header_at b L f" "sections_ok n L f" "layout_ok n L" using place(2) by (simp_all add: describes_def)
  note pl = in_place_within [OF place(1,3-6) d]
  have N: "8 * n < 2 ^ 64" "6 < N" using place(3,4) layout_bounds(1) [OF d(3)] by (simp_all add: fits_def)
  have T: "8 * T < 2 ^ 64" "T \<le> n" "num_slots L + T \<le> n" "num_objs L + 1 \<le> n" "num_ptrs L + length attrs \<le> n"
  proof -
    show "num_slots L + T \<le> n" "num_objs L + 1 \<le> n" "num_ptrs L + length attrs \<le> n" using B(1,2,3,6) by (simp_all add: T_def)
    then show "T \<le> n" by simp
    then have "8 * T \<le> 8 * n" by simp
    then show "8 * T < 2 ^ 64" using N(1) by (rule le_less_trans)
  qed
  note predicted = predicted_slots [OF B(7) T(1) [unfolded T_def], folded T_def]
  have size: "(of_nat T :: u64) * 8 = 8 * of_nat (w + attr_total attrs)" by (simp add: T_def algebra_simps)
  have requ: "\<not> (of_nat (num_objs L) + 1 > ManagedBuffer_get_section_max_num_entities m b 4 8 \<or>
      of_nat (num_slots L) + of_nat T > ManagedBuffer_get_section_max_num_entities m b 3 8 \<or>
      of_nat (num_ptrs L) + of_nat (length attrs) > ManagedBuffer_get_section_max_num_entities m b 5 8)"
    using room_for_entities(1) [OF pl N(1) T(3)] room_for_entities(2) [OF pl N(1) T(4)] room_for_entities(3) [OF pl N(1) T(5)]
      add by (simp add: addable_def T_def add.assoc add.commute [of 1])
  obtain m1 where S: "store_object m b source (8 * of_nat w) type_id (map attr_bytes attrs) (8 * of_nat (w + attr_total attrs)) 8 =
      (m1, word_addr b (objs_end L), 0)" "buf m0 b N (add_words m0 b attrs (object_words m0 b L source w type_id (attr_total attrs) f)
      (slots_end L) (slots_end L + w) (ptrs_end L)) m1"
    using store_object_words [OF place add source arrays] by blast
  define F where "F = add_words m0 b attrs (object_words m0 b L source w type_id (attr_total attrs) f) (slots_end L) (slots_end L + w) (ptrs_end L)"
  have F: "F x = f x" if "x < at_slots L + 2 \<or> x \<in> {at_objs L, at_objs L + 1, at_ptrs L, at_ptrs L + 1}" for x
  proof -
    have "x \<notin> (\<lambda>(o', k). slots_end L + o') ` set attrs" using that B(1,2) add by (fastforce simp: addable_def)
    then have "F x = object_words m0 b L source w type_id (attr_total attrs) f x"
      unfolding F_def using that B by (intro add_words_outside) auto
    also have "\<dots> = f x" using that B by (auto simp: object_words_def array_words_def)
    finally show ?thesis .
  qed
  have hw: "F 3 = word_addr b (at_slots L)" "F 4 = word_addr b (at_objs L)" "F 5 = word_addr b (at_ptrs L)"
    using d(1) B(5) by (simp_all add: F header_at_def)
  have ends: "at_slots L + 1 < N" "at_objs L + 1 < N" "at_ptrs L + 1 < N" using layout_bounds [OF d(3)] place(3) by linarith+
  define m2 where "m2 = (if attrs \<noteq> [] then ManagedBuffer_set_section_num_entities m1 b 5 (of_nat (num_ptrs L) + of_nat (length attrs)) 8 else m1)"
  define F2 where "F2 = F(at_ptrs L + 1 := of_nat (num_ptrs L + length attrs))"
  have "F (at_ptrs L + 1) = of_nat (num_ptrs L)" using F d(2) by (simp add: sections_ok_def)
  then have "F2 = F" if "attrs = []" unfolding F2_def using that by (intro fun_upd_idem) simp
  then have m2: "buf m0 b N F2 m2"
    using S(2) set_count [OF S(2) place(4) _ N(2), of 5 "at_ptrs L"] hw(3) ends(3) unfolding m2_def F2_def F_def [symmetric]
    by (cases "attrs = []") simp_all
  have hw2: "F2 3 = word_addr b (at_slots L)" using hw(1) B by (simp add: F2_def)
  define m3 where "m3 = ManagedBuffer_set_section_num_entities m2 b 3 (of_nat (num_slots L) + of_nat T) 8"
  define F3 where "F3 = F2(at_slots L + 1 := of_nat (num_slots L) + of_nat T)"
  have m3: "buf m0 b N F3 m3"
    using set_count [OF m2 place(4) _ N(2), of 3 "at_slots L"] hw2 ends(1) unfolding m3_def F3_def by simp
  have hw3: "F3 4 = word_addr b (at_objs L)" using hw(2) B by (simp add: F2_def F3_def)
  define m4 where "m4 = ManagedBuffer_set_section_num_entities m3 b 4 (of_nat (num_objs L) + 1) 8"
  have m4: "buf m0 b N (F3(at_objs L + 1 := of_nat (num_objs L) + 1)) m4"
    using set_count [OF m3 place(4) _ N(2), of 4 "at_objs L"] hw3 ends(2) unfolding m4_def by simp
  have words: "added_words m0 b L source w type_id attrs f =
      F3(at_objs L + 1 := of_nat (num_objs L) + 1)"
    unfolding added_words_def F3_def F2_def F_def T_def by (simp add: add.assoc add.commute [of 1])
  have nonzero: "source \<noteq> 0" using source by (simp add: source_ok_def fits_def)
  have "8 * w < (2 :: nat) ^ 64" using T(1) by (simp add: T_def)
  then have w0: "(8 * of_nat w :: u64) > 0" using B(7) by (simp add: u64_less_nat unat_words)
  have "Buffer_add_object m new_memory mem_pool buffer source (8 * of_nat w) type_id (map attr_bytes attrs) =
      (m4, mem_pool, buffer\<lparr>bf_num_objects := of_nat (num_objs L) + 1\<rparr>, word_addr b (objs_end L))"
    unfolding Buffer_add_object_def Buffer_add_object_generic_def Buffer_get_slot_size_def Buffer_get_data_begin_addr_def handle(1,2)
      Let_def section_counts(2-3) [OF pl] section_counts(1) [OF pl] predicted length_map if_not_P [OF requ] prod.case handle(1) size S(1)
      map_attr_bytes_Nil
    using full_access_allows(5) [OF handle(3)] nonzero w0 by (simp add: m2_def m3_def m4_def)
  then show ?thesis using m4 unfolding words by (simp add: add.commute)
qed

lemma add_object_result:
  assumes "buffer_in m0 buffer n N L f m" "full_access buffer" "b = bf_data_addr buffer"
    and "addable n L w attrs" "source_ok b N source w"
    and "\<forall>(o', k)\<in>set attrs. rd64 m (word_addr source o') = 0 \<or> source_ok b N (rd64 m (word_addr source o')) k"
  shows "\<exists>m'. Buffer_add_object m new_memory mem_pool buffer source (8 * of_nat w) type_id (map attr_bytes attrs) =
      (m', mem_pool, buffer\<lparr>bf_num_objects := of_nat (num_objs L + 1)\<rparr>, word_addr b (objs_end L)) \<and>
    buffer_in m0 (buffer\<lparr>bf_num_objects := of_nat (num_objs L + 1)\<rparr>) n N (added_layout L w attrs)
      (added_words m0 b L source w type_id attrs f) m' \<and>
    full_access (buffer\<lparr>bf_num_objects := of_nat (num_objs L + 1)\<rparr>)"
proof -
  note H = buffer_inD [OF assms(1), folded assms(3)]
  have pointers: "rd64 m (word_addr source o') = rd64 m0 (word_addr source o')" if "(o', k) \<in> set attrs" for o' k
    using that assms(4) outside_words [OF H(1) assms(5), of o'] by (auto simp: addable_def)
  have arrays: "rd64 m0 (word_addr source o') = 0 \<or> source_ok b N (rd64 m0 (word_addr source o')) k" if "(o', k) \<in> set attrs" for o' k
    using that assms(6) pointers [OF that] by auto
  obtain m' where m': "Buffer_add_object m new_memory mem_pool buffer source (8 * of_nat w) type_id (map attr_bytes attrs) =
      (m', mem_pool, buffer\<lparr>bf_num_objects := of_nat (num_objs L + 1)\<rparr>, word_addr b (objs_end L))"
      "buf m0 b N (added_words m0 b L source w type_id attrs f) m'"
    using add_object_words [OF H(1-6) assms(3) [symmetric] H(9) assms(2,4,5) arrays] by blast
  have source: "source \<noteq> 0" "8 * n < (2 :: nat) ^ 64" using assms(5) H(3,4) by (simp_all add: source_ok_def fits_def)
  have "describes b n (added_layout L w attrs) (added_words m0 b L source w type_id attrs f)"
    by (rule added_describes [OF H(2) assms(4) source])
  then have "buffer_in m0 (buffer\<lparr>bf_num_objects := of_nat (num_objs L + 1)\<rparr>) n N (added_layout L w attrs)
      (added_words m0 b L source w type_id attrs f) m'"
    using H m'(2) assms(3) by (simp add: buffer_in_def)
  moreover have "full_access (buffer\<lparr>bf_num_objects := of_nat (num_objs L + 1)\<rparr>)" using assms(2) by (simp add: full_access_def)
  ultimately show ?thesis using m'(1) by blast
qed

text \<open>C10: Adding an object to a buffer that has room for it makes a complete copy: the buffer stays well-formed and
  its other objects as they were; the words of the object follow them, its pointers lead to copies of the
  arrays inside the buffer, a NULL pointer to zeros; and the entry that is returned holds the type.\<close>

theorem add_object_copies:
  assumes "buffer_in m0 buffer n N L f m" "full_access buffer" "b = bf_data_addr buffer"
    and "addable n L w attrs" "source_ok b N source w"
    and "\<forall>(o', k)\<in>set attrs. rd64 m (word_addr source o') = 0 \<or> source_ok b N (rd64 m (word_addr source o')) k"
  shows "\<exists>m' buffer' f'. Buffer_add_object m new_memory mem_pool buffer source (8 * of_nat w) type_id (map attr_bytes attrs) =
      (m', mem_pool, buffer', word_addr b (objs_end L)) \<and>
    buffer_in m0 buffer' n N (added_layout L w attrs) f' m' \<and> full_access buffer' \<and>
    (\<forall>k. in_slots L k \<longrightarrow> f' k = f k) \<and> f' (objs_end L + 1) = type_id \<and>
    (\<forall>i<w. i \<notin> fst ` set attrs \<longrightarrow> f' (slots_end L + i) = rd64 m (word_addr source i)) \<and>
    (\<forall>j<length attrs. f' (slots_end L + fst (attrs ! j)) = word_addr b (attr_dests attrs (slots_end L + w) ! j) \<and>
      (\<forall>i< snd (attrs ! j). f' (attr_dests attrs (slots_end L + w) ! j + i) =
        (let array = rd64 m (word_addr source (fst (attrs ! j))) in if array = 0 then 0 else rd64 m (word_addr array i))))"
proof -
  note H = buffer_inD [OF assms(1), folded assms(3)]
  note B = addable_bounds [OF assms(4)]
  define f' where "f' = added_words m0 b L source w type_id attrs f"
  obtain m' where m': "Buffer_add_object m new_memory mem_pool buffer source (8 * of_nat w) type_id (map attr_bytes attrs) =
      (m', mem_pool, buffer\<lparr>bf_num_objects := of_nat (num_objs L + 1)\<rparr>, word_addr b (objs_end L))"
      "buffer_in m0 (buffer\<lparr>bf_num_objects := of_nat (num_objs L + 1)\<rparr>) n N (added_layout L w attrs) f' m'"
      "full_access (buffer\<lparr>bf_num_objects := of_nat (num_objs L + 1)\<rparr>)"
    using add_object_result [OF assms] unfolding f'_def by blast
  have source: "source \<noteq> 0" using assms(5) by (simp add: source_ok_def fits_def)
  have outside: "rd64 m (word_addr s i) = rd64 m0 (word_addr s i)" if "source_ok b N s k" "i < k" for s k i
    using that by (rule outside_words [OF H(1)])
  have "f' k = f k" if "in_slots L k" for k
    unfolding f'_def using that B by (intro added_words_same [OF assms(4)]) (auto simp: in_slots_def)
  moreover have "f' (slots_end L + i) = rd64 m (word_addr source i)" if "i < w" "i \<notin> fst ` set attrs" for i
    unfolding f'_def using added_words_data [OF assms(4) that source] outside [OF assms(5) that(1)] by simp
  moreover have "f' (slots_end L + fst (attrs ! j)) = word_addr b (attr_dests attrs (slots_end L + w) ! j) \<and>
      (\<forall>i< snd (attrs ! j). f' (attr_dests attrs (slots_end L + w) ! j + i) =
        (let array = rd64 m (word_addr source (fst (attrs ! j))) in if array = 0 then 0 else rd64 m (word_addr array i)))"
    if j: "j < length attrs" for j
  proof (intro conjI allI impI)
    have a: "(fst (attrs ! j), snd (attrs ! j)) \<in> set attrs" using j by simp
    then have "fst (attrs ! j) < w" using assms(4) by (auto simp: addable_def)
    then have pointer: "rd64 m (word_addr source (fst (attrs ! j))) = rd64 m0 (word_addr source (fst (attrs ! j)))"
      by (rule outside [OF assms(5)])
    show "f' (slots_end L + fst (attrs ! j)) = word_addr b (attr_dests attrs (slots_end L + w) ! j)"
      unfolding f'_def by (rule added_words_attr(1) [OF assms(4) j source])
    fix i assume i: "i < snd (attrs ! j)"
    show "f' (attr_dests attrs (slots_end L + w) ! j + i) =
        (let array = rd64 m (word_addr source (fst (attrs ! j))) in if array = 0 then 0 else rd64 m (word_addr array i))"
      using added_words_attr(3) [OF assms(4) j source i, of m0 b type_id f] assms(6) a outside i pointer
      by (auto simp: f'_def Let_def)
  qed
  moreover have "f' (objs_end L + 1) = type_id" unfolding f'_def by (rule added_words_entry(2) [OF assms(4)])
  ultimately show ?thesis using m' by blast
qed

text \<open>An empty buffer for two objects, and an object of two words, the second of which points to an array of two.\<close>

definition room_layout :: buffer_layout where
  "room_layout = with_capacity 2 16 3 1 no_contents"

definition room_handle :: Buffer where
  "room_handle = new_handle\<lparr>bf_data_addr := 4096, bf_data_size := 344, bf_data_capacity := 344,
     bf_object_addr := word_addr 4096 (at_objs room_layout + 2), bf_datastore_flags := 0x1006F, bf_datastore_addr := 64\<rparr>"

definition object_memory :: mem where
  "object_memory = put_words (wr64 (\<lambda>_. 0) 65544 131072) 4096 (empty_words 4096 43 room_layout) 43"

lemma room_buffer_in:
  "buffer_in (wr64 (\<lambda>_. 0) 65544 131072) room_handle 43 43 room_layout (empty_words 4096 43 room_layout) object_memory"
proof -
  have fits: "fits 4096 43" by (simp add: fits_def)
  have "layout_ok 43 room_layout" by (simp add: room_layout_def layout_ok_def)
  then have "describes 4096 43 room_layout (empty_words 4096 43 room_layout)"
    by (rule empty_describes) (simp_all add: room_layout_def)
  then show ?thesis
    using buf_put_words [OF fits] fits
    by (simp add: buffer_in_def room_handle_def new_handle_def BUFFER_DEFAULT_SLOT_SIZE_def object_memory_def room_layout_def)
qed

theorem add_object_copies_witness:
  "\<exists>m' buffer'. Buffer_add_object object_memory 0 MemPool_preset room_handle 65536 16 7 [(8, 8, 2)] =
    (m', MemPool_preset, buffer', 4320)"
proof -
  have b: "4096 = bf_data_addr room_handle" by (simp add: room_handle_def)
  have add: "addable 43 room_layout 2 [(1, 2)]" by (simp add: addable_def room_layout_def layout_ok_def)
  have src: "source_ok 4096 43 65536 2" "source_ok 4096 43 131072 2" by (simp_all add: source_ok_def fits_def)
  have "rd64 object_memory (word_addr 65536 1) = rd64 (wr64 (\<lambda>_. 0) 65544 131072) (word_addr 65536 1)"
    using buffer_inD(1) [OF room_buffer_in, folded b] src(1) by (rule outside_words) simp
  also have "\<dots> = 131072" by (simp add: word_addr_def)
  finally have arrays: "\<forall>(o', k)\<in>set [(1, 2)]. rd64 object_memory (word_addr 65536 o') = 0 \<or>
      source_ok 4096 43 (rd64 object_memory (word_addr 65536 o')) k" using src(2) by simp
  have access: "full_access room_handle" by (simp add: full_access_def room_handle_def)
  obtain m' buffer' where "Buffer_add_object object_memory 0 MemPool_preset room_handle 65536 (8 * of_nat 2) 7 (map attr_bytes [(1, 2)]) =
      (m', MemPool_preset, buffer', word_addr 4096 (objs_end room_layout))"
    using add_object_copies [OF room_buffer_in access b add src(1) arrays, of 0 MemPool_preset 7] by (elim exE conjE)
  then show ?thesis by (simp add: room_layout_def word_addr_def)
qed

end
