(* ===== verification/Particle_Buffers.thy ===== *)
theory Particle_Buffers
  imports Particle_Ids Object_Buffer_Add
begin

section \<open>Particle sets in buffers (particles.h)\<close>

text \<open>
  A particle set in memory is a structure of 22 words, the number of particles and 21 addresses of arrays.
  \<open>particles_at real_of m p\<close> is the set at address \<open>p\<close> as a record of lists, \<open>real_of\<close> being the number that
  a pattern of 64 bits stands for. The structures that the code builds on its stack before it adds them to a
  buffer are written at the address \<open>stack\<close>. Pointers to buffers are not NULL.
\<close>

definition OBJECT_TYPE_PARTICLE :: u64 where
  "OBJECT_TYPE_PARTICLE = 1"

definition PARTICLES_NUM_INDEX_DATAPTRS :: u64 where
  "PARTICLES_NUM_INDEX_DATAPTRS = 4"

definition PARTICLES_NUM_REAL_DATAPTRS :: u64 where
  "PARTICLES_NUM_REAL_DATAPTRS = 17"

definition PARTICLES_NUM_DATAPTRS :: u64 where
  "PARTICLES_NUM_DATAPTRS = 21"

definition sizeof_Particles :: u64 where
  "sizeof_Particles = 176"

subsection \<open>Particle sets in memory\<close>

definition num_particles_at :: "mem \<Rightarrow> u64 \<Rightarrow> i64" where
  "num_particles_at m p = sint (rd64 m p)"

text \<open>The word that holds the address of the array \<open>j\<close>, the address, and the words of the array.\<close>

definition array_at :: "mem \<Rightarrow> u64 \<Rightarrow> nat \<Rightarrow> u64" where
  "array_at m p j = rd64 m (word_addr p (j + 1))"

definition array_words_at :: "mem \<Rightarrow> u64 \<Rightarrow> nat \<Rightarrow> u64 list" where
  "array_words_at m p j = map (\<lambda>i. rd64 m (word_addr (array_at m p j) i)) [0..<nat (num_particles_at m p)]"

definition particles_at :: "(u64 \<Rightarrow> real) \<Rightarrow> mem \<Rightarrow> u64 \<Rightarrow> particles" where
  "particles_at real_of m p = \<lparr>num_particles = num_particles_at m p,
     p_q0 = map real_of (array_words_at m p 0), p_mass0 = map real_of (array_words_at m p 1),
     p_beta0 = map real_of (array_words_at m p 2), p_gamma0 = map real_of (array_words_at m p 3),
     p_p0c = map real_of (array_words_at m p 4), p_s = map real_of (array_words_at m p 5),
     p_x = map real_of (array_words_at m p 6), p_y = map real_of (array_words_at m p 7),
     p_px = map real_of (array_words_at m p 8), p_py = map real_of (array_words_at m p 9),
     p_zeta = map real_of (array_words_at m p 10), p_psigma = map real_of (array_words_at m p 11),
     p_delta = map real_of (array_words_at m p 12), p_rpp = map real_of (array_words_at m p 13),
     p_rvv = map real_of (array_words_at m p 14), p_chi = map real_of (array_words_at m p 15),
     p_charge_ratio = map real_of (array_words_at m p 16), p_particle_id = map sint (array_words_at m p 17),
     p_at_element_id = map sint (array_words_at m p 18), p_at_turn = map sint (array_words_at m p 19),
     p_state = map sint (array_words_at m p 20)\<rparr>"

text \<open>Writing a list of words, as the assignments to the members of a structure do.\<close>

fun write_words :: "mem \<Rightarrow> u64 \<Rightarrow> u64 list \<Rightarrow> mem" where
  "write_words m p [] = m"
| "write_words m p (w # ws) = write_words (wr64 m p w) (p + 8) ws"

definition Particles_preset :: "mem \<Rightarrow> u64 \<Rightarrow> mem" where
  "Particles_preset m particles = (if particles \<noteq> 0 then write_words m particles (replicate 22 0) else m)"

definition Particles_store_addresses :: "mem \<Rightarrow> u64 \<Rightarrow> u64 \<Rightarrow> mem" where
  "Particles_store_addresses m paddr p =
     (if paddr \<noteq> 0 \<and> p \<noteq> 0 then write_words m paddr (map (\<lambda>j. rd64 m (word_addr p j)) [0..<22]) else m)"

definition Particles_init_from_generic_addr :: "mem \<Rightarrow> u64 \<Rightarrow> u64 \<Rightarrow> mem" where
  "Particles_init_from_generic_addr m p paddr =
     (if paddr \<noteq> 0 \<and> p \<noteq> 0 then write_words m p (map (\<lambda>j. rd64 m (word_addr paddr j)) [0..<22]) else m)"

definition Particles_init_from_flat_arrays :: "mem \<Rightarrow> u64 \<Rightarrow> u64 \<Rightarrow> u64 \<Rightarrow> u64 \<Rightarrow> mem" where
  "Particles_init_from_flat_arrays m p number real_array index_array =
     (if p \<noteq> 0 \<and> real_array \<noteq> 0 \<and> index_array \<noteq> 0 \<and> sint number > 0 then
        write_words m p (number # map (\<lambda>j. real_array + 8 * (of_nat j * number)) [0..<17] @
          map (\<lambda>j. index_array + 8 * (of_nat j * number)) [0..<4])
      else m)"

text \<open>The range from \<open>start_index\<close> to \<open>end_index\<close> of every array is filled with zeros.\<close>

definition clear_arrays :: "mem \<Rightarrow> u64 \<Rightarrow> i64 \<Rightarrow> i64 \<Rightarrow> mem" where
  "clear_arrays m p start_index end_index =
     (if start_index \<ge> 0 \<and> end_index \<ge> start_index \<and> num_particles_at m p \<ge> end_index then
        fold (\<lambda>j m. mem_set m (array_at m p j + 8 * of_int start_index) (8 * of_int (end_index - start_index)) 0) [0..<21] m
      else m)"

subsection \<open>Adding particle sets to a buffer\<close>

text \<open>The tables of the offsets, sizes and counts of the 21 arrays.\<close>

definition particles_attributes :: "u64 \<Rightarrow> (u64 \<times> u64 \<times> u64) list" where
  "particles_attributes number = map (\<lambda>j. (8 * of_nat (j + 1), 8, number)) [0..<21]"

definition Particles_get_num_dataptrs :: u64 where
  "Particles_get_num_dataptrs = PARTICLES_NUM_DATAPTRS"

definition Particles_get_required_num_slots_on_managed_buffer :: "u64 \<Rightarrow> u64 \<Rightarrow> u64" where
  "Particles_get_required_num_slots_on_managed_buffer number slot_size =
     ManagedBuffer_predict_required_num_slots sizeof_Particles (map snd (particles_attributes number)) slot_size"

definition Particles_get_required_num_slots :: "Buffer \<Rightarrow> u64 \<Rightarrow> u64" where
  "Particles_get_required_num_slots buffer number =
     Particles_get_required_num_slots_on_managed_buffer number (Buffer_get_slot_size buffer)"

definition Particles_get_required_num_dataptrs :: "Buffer \<Rightarrow> u64 \<Rightarrow> u64" where
  "Particles_get_required_num_dataptrs buffer number = PARTICLES_NUM_DATAPTRS"

definition Particles_can_be_added :: "mem \<Rightarrow> Buffer \<Rightarrow> u64 \<Rightarrow> bool \<times> (u64 \<times> u64 \<times> u64) option" where
  "Particles_can_be_added m buffer number =
     Buffer_can_add_object m buffer sizeof_Particles (map snd (particles_attributes number))"

definition Particles_new :: "mem \<Rightarrow> u64 \<Rightarrow> u64 \<Rightarrow> MemPool \<Rightarrow> Buffer \<Rightarrow> u64 \<Rightarrow> mem \<times> MemPool \<times> Buffer \<times> u64" where
  "Particles_new m stack new_memory mem_pool buffer number =
     (let m = wr64 (Particles_preset m stack) stack number;
          (m, mem_pool, buffer, object) = Buffer_add_object m new_memory mem_pool buffer stack sizeof_Particles
            OBJECT_TYPE_PARTICLE (particles_attributes number)
      in (m, mem_pool, buffer, Object_get_begin_addr m object))"

text \<open>\<open>ptrs\<close> are the addresses of the 21 arrays, in the order of the structure.\<close>

definition Particles_add :: "mem \<Rightarrow> u64 \<Rightarrow> u64 \<Rightarrow> MemPool \<Rightarrow> Buffer \<Rightarrow> u64 \<Rightarrow> u64 list \<Rightarrow> mem \<times> MemPool \<times> Buffer \<times> u64" where
  "Particles_add m stack new_memory mem_pool buffer number ptrs =
     (let m = write_words m stack (number # ptrs);
          (m, mem_pool, buffer, object) = Buffer_add_object m new_memory mem_pool buffer stack sizeof_Particles
            OBJECT_TYPE_PARTICLE (particles_attributes number)
      in (m, mem_pool, buffer, Object_get_begin_addr m object))"

definition Particles_add_copy :: "mem \<Rightarrow> u64 \<Rightarrow> u64 \<Rightarrow> MemPool \<Rightarrow> Buffer \<Rightarrow> u64 \<Rightarrow> mem \<times> MemPool \<times> Buffer \<times> u64" where
  "Particles_add_copy m stack new_memory mem_pool buffer p =
     Particles_add m stack new_memory mem_pool buffer (rd64 m p) (map (array_at m p) [0..<21])"

subsection \<open>Reading the objects of a buffer\<close>

text \<open>The entries that a loop over the table of objects visits from \<open>it\<close> to before \<open>end\<close>.\<close>

definition index_entries :: "u64 \<Rightarrow> u64 \<Rightarrow> u64 list" where
  "index_entries it end' = map (\<lambda>k. it + sizeof_Object * of_nat k) [0..<unat (end' - it) div unat sizeof_Object]"

definition BufferIndex_get_const_particles :: "mem \<Rightarrow> u64 \<Rightarrow> u64" where
  "BufferIndex_get_const_particles m obj_index =
     (if obj_index \<noteq> 0 \<and> Object_get_type_id m obj_index = OBJECT_TYPE_PARTICLE \<and>
         Object_get_size m obj_index > sizeof_Particles then Object_get_begin_addr m obj_index else 0)"

definition BufferIndex_get_particles :: "mem \<Rightarrow> u64 \<Rightarrow> u64" where
  "BufferIndex_get_particles m index = BufferIndex_get_const_particles m index"

definition is_particles_entry :: "mem \<Rightarrow> u64 \<Rightarrow> bool" where
  "is_particles_entry m it \<longleftrightarrow> Object_get_type_id m it = OBJECT_TYPE_PARTICLE"

definition BufferIndex_get_total_num_of_particles_in_range :: "mem \<Rightarrow> u64 \<Rightarrow> u64 \<Rightarrow> i64" where
  "BufferIndex_get_total_num_of_particles_in_range m it end' =
     (if it \<noteq> 0 then sum_list (map (\<lambda>it. num_particles_at m (Object_get_begin_addr m it))
        (filter (is_particles_entry m) (index_entries it end'))) else 0)"

definition BufferIndex_get_total_num_of_particle_blocks_in_range :: "mem \<Rightarrow> u64 \<Rightarrow> u64 \<Rightarrow> u64" where
  "BufferIndex_get_total_num_of_particle_blocks_in_range m it end' =
     (if it \<noteq> 0 then of_nat (length (filter (\<lambda>it. is_particles_entry m it \<and> Object_get_begin_addr m it \<noteq> 0)
        (index_entries it end'))) else 0)"

text \<open>The loop returns the entry and its first index if it stops early, and otherwise the number of particles.\<close>

fun find_global_index :: "mem \<Rightarrow> i64 \<Rightarrow> i64 \<Rightarrow> i64 \<Rightarrow> u64 list \<Rightarrow> (u64 \<times> i64) + i64" where
  "find_global_index m global_index block_begin_index block_end_index [] = Inr block_end_index"
| "find_global_index m global_index block_begin_index block_end_index (it # rest) =
     (if is_particles_entry m it then
        let block_end_index = block_end_index + num_particles_at m (Object_get_begin_addr m it)
        in if block_begin_index \<le> global_index \<and> block_end_index > global_index then Inl (it, block_begin_index)
           else find_global_index m global_index block_end_index block_end_index rest
      else find_global_index m global_index block_begin_index block_end_index rest)"

definition BufferIndex_get_index_object_by_global_index_from_range :: "mem \<Rightarrow> i64 \<Rightarrow> i64 \<Rightarrow> u64 \<Rightarrow> u64 \<Rightarrow> u64 \<times> i64" where
  "BufferIndex_get_index_object_by_global_index_from_range m global_index begin_index_offset it end' =
     (case find_global_index m global_index begin_index_offset begin_index_offset (index_entries it end') of
        Inl (ptr_index, block_begin_index) \<Rightarrow> (ptr_index, block_begin_index)
      | Inr block_end_index \<Rightarrow> (end', block_end_index))"

subsection \<open>Managed buffers of particle sets\<close>

definition Particles_managed_buffer_get_num_of_particle_blocks :: "mem \<Rightarrow> u64 \<Rightarrow> u64 \<Rightarrow> u64" where
  "Particles_managed_buffer_get_num_of_particle_blocks m buffer slot_size =
     (if ManagedBuffer_get_num_objects m buffer slot_size > 0 then
        of_nat (length (filter (\<lambda>it. is_particles_entry m it \<and> Object_get_begin_addr m it \<noteq> 0 \<and>
            num_particles_at m (Object_get_begin_addr m it) > 0)
          (index_entries (ManagedBuffer_get_const_objects_index_begin m buffer slot_size)
             (ManagedBuffer_get_const_objects_index_end m buffer slot_size))))
      else 0)"

definition Particles_managed_buffer_is_particles_buffer :: "mem \<Rightarrow> u64 \<Rightarrow> u64 \<Rightarrow> bool" where
  "Particles_managed_buffer_is_particles_buffer m buffer slot_size \<longleftrightarrow>
     ManagedBuffer_get_num_objects m buffer slot_size > 0 \<and>
     ManagedBuffer_get_num_objects m buffer slot_size = Particles_managed_buffer_get_num_of_particle_blocks m buffer slot_size"

definition Particles_managed_buffer_get_const_particles :: "mem \<Rightarrow> u64 \<Rightarrow> u64 \<Rightarrow> u64 \<Rightarrow> u64" where
  "Particles_managed_buffer_get_const_particles m buffer particle_obj_index slot_size =
     BufferIndex_get_const_particles m
       (ManagedBuffer_get_const_objects_index_begin m buffer slot_size + sizeof_Object * particle_obj_index)"

definition Particles_managed_buffer_get_particles :: "mem \<Rightarrow> u64 \<Rightarrow> u64 \<Rightarrow> u64 \<Rightarrow> u64" where
  "Particles_managed_buffer_get_particles m buffer particle_obj_index slot_size =
     Particles_managed_buffer_get_const_particles m buffer particle_obj_index slot_size"

text \<open>The extrema only depend on ids, elements and turns, so that it does not matter how real numbers are read.\<close>

definition index_view :: "mem \<Rightarrow> u64 \<Rightarrow> particles" where
  "index_view m p = particles_at (\<lambda>_. 0) m p"

fun find_min_max_entries :: "mem \<Rightarrow> u64 list \<Rightarrow> min_max_ptrs \<Rightarrow> u64 \<Rightarrow> int \<times> min_max_ptrs \<times> u64" where
  "find_min_max_entries m [] q num_particle_blocks_found = (0, q, num_particle_blocks_found)"
| "find_min_max_entries m (it # rest) q num_particle_blocks_found =
     (if is_particles_entry m it \<and> Object_get_begin_addr m it > 0 \<and> Object_get_size m it \<ge> sizeof_Particles then
        let (success, q) = Particles_find_min_max_attributes (index_view m (Object_get_begin_addr m it)) q
        in if success = 0 then find_min_max_entries m rest q (num_particle_blocks_found + 1)
           else (success, q, num_particle_blocks_found)
      else find_min_max_entries m rest q num_particle_blocks_found)"

definition Particles_find_min_max_attributes_on_managed_buffer :: "mem \<Rightarrow> u64 \<Rightarrow> min_max_ptrs \<Rightarrow> u64 \<Rightarrow> int \<times> min_max_ptrs" where
  "Particles_find_min_max_attributes_on_managed_buffer m pbuffer q slot_size =
     (let (success, q, num_particle_blocks_found) = find_min_max_entries m
            (index_entries (ManagedBuffer_get_const_objects_index_begin m pbuffer slot_size)
               (ManagedBuffer_get_const_objects_index_end m pbuffer slot_size)) q 0
      in (if success = 0 \<and> num_particle_blocks_found = 0 then - 1 else success, q))"

fun find_min_max_sets :: "mem \<Rightarrow> u64 \<Rightarrow> u64 list \<Rightarrow> min_max_ptrs \<Rightarrow> u64 \<Rightarrow> int \<times> min_max_ptrs" where
  "find_min_max_sets m pbuffer [] q slot_size = (0, q)"
| "find_min_max_sets m pbuffer (it # rest) q slot_size =
     (let particles = Particles_managed_buffer_get_const_particles m pbuffer it slot_size;
          (success, q) = (if particles \<noteq> 0 then Particles_find_min_max_attributes (index_view m particles) q else (- 1, q))
      in if success \<noteq> 0 then (success, q) else find_min_max_sets m pbuffer rest q slot_size)"

text \<open>The indices of the sets as a list, \<open>None\<close> for NULL.\<close>

definition Particles_find_min_max_attributes_of_particles_set_on_managed_buffer ::
    "mem \<Rightarrow> u64 \<Rightarrow> u64 list option \<Rightarrow> min_max_ptrs \<Rightarrow> u64 \<Rightarrow> int \<times> min_max_ptrs" where
  "Particles_find_min_max_attributes_of_particles_set_on_managed_buffer m pbuffer indices q slot_size =
     (case indices of
        None \<Rightarrow> (- 1, q)
      | Some sets \<Rightarrow>
          if sets \<noteq> [] \<and> ManagedBuffer_get_num_objects m pbuffer slot_size > 0 then find_min_max_sets m pbuffer sets q slot_size
          else (- 1, q))"

definition Particles_buffer_find_min_max_attributes_of_particles_set ::
    "mem \<Rightarrow> Buffer \<Rightarrow> u64 list option \<Rightarrow> min_max_ptrs \<Rightarrow> int \<times> min_max_ptrs" where
  "Particles_buffer_find_min_max_attributes_of_particles_set m pbuffer indices q =
     Particles_find_min_max_attributes_of_particles_set_on_managed_buffer m (Buffer_get_data_begin_addr pbuffer) indices q
       (Buffer_get_slot_size pbuffer)"

definition Particles_buffer_find_min_max_attributes :: "mem \<Rightarrow> Buffer \<Rightarrow> min_max_ptrs \<Rightarrow> int \<times> min_max_ptrs" where
  "Particles_buffer_find_min_max_attributes m pbuffer q =
     Particles_find_min_max_attributes_on_managed_buffer m (Buffer_get_data_begin_addr pbuffer) q (Buffer_get_slot_size pbuffer)"

definition Particles_get_min_max_attributes :: "particles \<Rightarrow> min_max_ptrs \<Rightarrow> int \<times> min_max_ptrs" where
  "Particles_get_min_max_attributes particles q =
     Particles_find_min_max_attributes particles (Particles_init_min_max_attributes_for_find q)"

definition Particles_buffer_get_min_max_attributes_of_particles_set ::
    "mem \<Rightarrow> Buffer \<Rightarrow> u64 list option \<Rightarrow> min_max_ptrs \<Rightarrow> int \<times> min_max_ptrs" where
  "Particles_buffer_get_min_max_attributes_of_particles_set m pbuffer indices q =
     Particles_buffer_find_min_max_attributes_of_particles_set m pbuffer indices (Particles_init_min_max_attributes_for_find q)"

definition Particles_buffer_get_min_max_attributes :: "mem \<Rightarrow> Buffer \<Rightarrow> min_max_ptrs \<Rightarrow> int \<times> min_max_ptrs" where
  "Particles_buffer_get_min_max_attributes m pbuffer q =
     Particles_buffer_find_min_max_attributes m pbuffer (Particles_init_min_max_attributes_for_find q)"

subsection \<open>Buffers of particle sets\<close>

definition buffer_entries :: "Buffer \<Rightarrow> u64 list" where
  "buffer_entries buffer = index_entries (Buffer_get_objects_begin_addr buffer) (Buffer_get_objects_end_addr buffer)"

definition Particles_buffer_get_num_of_particle_blocks :: "mem \<Rightarrow> Buffer \<Rightarrow> u64" where
  "Particles_buffer_get_num_of_particle_blocks m buffer =
     (if Buffer_get_num_of_objects m buffer > 0 then
        of_nat (length (filter (\<lambda>it. is_particles_entry m it \<and> Object_get_begin_addr m it \<noteq> 0 \<and>
          0 < num_particles_at m (Object_get_begin_addr m it)) (buffer_entries buffer)))
      else 0)"

definition Buffer_is_particles_buffer :: "mem \<Rightarrow> Buffer \<Rightarrow> bool" where
  "Buffer_is_particles_buffer m buffer \<longleftrightarrow> Buffer_get_num_of_objects m buffer > 0 \<and>
     Buffer_get_num_of_objects m buffer = Particles_buffer_get_num_of_particle_blocks m buffer"

definition Particles_buffer_get_total_num_of_particles :: "mem \<Rightarrow> Buffer \<Rightarrow> i64" where
  "Particles_buffer_get_total_num_of_particles m buffer =
     (if Buffer_get_num_of_objects m buffer > 0 then
        sum_list (map (\<lambda>it. num_particles_at m (Object_get_begin_addr m it)) (filter (is_particles_entry m) (buffer_entries buffer)))
      else 0)"

definition Particles_buffer_get_const_particles :: "mem \<Rightarrow> Buffer \<Rightarrow> u64 \<Rightarrow> u64" where
  "Particles_buffer_get_const_particles m buffer particle_block_index =
     BufferIndex_get_const_particles m (Buffer_get_objects_begin_addr buffer + sizeof_Object * particle_block_index)"

definition Particles_buffer_get_particles :: "mem \<Rightarrow> Buffer \<Rightarrow> u64 \<Rightarrow> u64" where
  "Particles_buffer_get_particles m buffer particle_block_index =
     Particles_buffer_get_const_particles m buffer particle_block_index"

definition same_structure_entries :: "mem \<Rightarrow> u64 \<Rightarrow> u64 \<Rightarrow> bool" where
  "same_structure_entries m lhs_it rhs_it \<longleftrightarrow> is_particles_entry m lhs_it \<and> is_particles_entry m rhs_it \<and>
     num_particles_at m (BufferIndex_get_const_particles m lhs_it) = num_particles_at m (BufferIndex_get_const_particles m rhs_it)"

definition Particles_buffers_have_same_structure :: "mem \<Rightarrow> Buffer \<Rightarrow> Buffer \<Rightarrow> bool" where
  "Particles_buffers_have_same_structure m lhs rhs \<longleftrightarrow>
     Buffer_get_num_of_objects m lhs = Buffer_get_num_of_objects m rhs \<and>
     (let lhs_it = Buffer_get_objects_begin_addr lhs;
          lhs_end = Buffer_get_objects_end_addr lhs;
          rhs_it = Buffer_get_objects_begin_addr rhs
      in (lhs_it \<noteq> 0 \<and> lhs_end \<noteq> 0 \<and> rhs_it \<noteq> 0 \<or> lhs_it = 0 \<and> lhs_end = 0 \<and> rhs_it = 0) \<and>
         list_all (\<lambda>it. same_structure_entries m it (rhs_it + (it - lhs_it))) (index_entries lhs_it lhs_end))"

definition Particles_buffer_clear_particles :: "mem \<Rightarrow> Buffer \<Rightarrow> mem" where
  "Particles_buffer_clear_particles m buffer =
     (if Buffer_get_num_of_objects m buffer > 0 then
        fold (\<lambda>it m. if is_particles_entry m it
            then let p = Object_get_begin_addr m it in clear_arrays m p 0 (num_particles_at m p) else m)
          (buffer_entries buffer) m
      else m)"

text \<open>\<open>prev\<close> is the index before, if there is one.\<close>

fun total_on_sets :: "mem \<Rightarrow> Buffer \<Rightarrow> u64 option \<Rightarrow> u64 list \<Rightarrow> u64 \<Rightarrow> u64" where
  "total_on_sets m buffer prev [] total_num_particles = total_num_particles"
| "total_on_sets m buffer prev (index # rest) total_num_particles =
     (let particles = Particles_buffer_get_const_particles m buffer index
      in if (case prev of None \<Rightarrow> True | Some p \<Rightarrow> p < index) \<and> particles \<noteq> 0 then
           total_on_sets m buffer (Some index) rest (total_num_particles + rd64 m particles)
         else 0)"

definition Particles_buffer_get_total_num_of_particles_on_particle_sets :: "mem \<Rightarrow> Buffer \<Rightarrow> u64 list option \<Rightarrow> u64" where
  "Particles_buffer_get_total_num_of_particles_on_particle_sets m buffer psets =
     (case psets of
        None \<Rightarrow> 0
      | Some sets \<Rightarrow> if Buffer_is_particles_buffer m buffer \<and> sets \<noteq> [] then total_on_sets m buffer None sets 0 else 0)"

end
