(* ===== verification/Particle_Storage.thy ===== *)
theory Particle_Storage
  imports Particle_Buffers Object_Buffer_Copies
begin

section \<open>Buffers as lists of particle sets\<close>

text \<open>
  \<open>stored_sets\<close> reads a buffer as the list of the particle sets in it. Adding a set appends to the list, and
  copies of a buffer, directly or through a file, hold the same list. \<open>particle_buffer L f ns\<close> says that all
  objects of a buffer are particle sets, \<open>ns\<close> being their numbers of particles.
\<close>

definition stored_sets :: "(u64 \<Rightarrow> real) \<Rightarrow> mem \<Rightarrow> Buffer \<Rightarrow> particles list" where
  "stored_sets real_of m buffer = map (\<lambda>it. particles_at real_of m (Object_get_begin_addr m it)) (buffer_entries buffer)"

text \<open>A word of the slots that does not hold an address, and a set of \<open>k\<close> particles at word \<open>w\<close>.\<close>

definition plain :: "buffer_layout \<Rightarrow> nat \<Rightarrow> bool" where
  "plain L k \<longleftrightarrow> in_slots L k \<and> k \<notin> fst ` set (ptrs_to L)"

definition set_in :: "buffer_layout \<Rightarrow> (nat \<Rightarrow> u64) \<Rightarrow> nat \<Rightarrow> nat \<Rightarrow> bool" where
  "set_in L f w k \<longleftrightarrow> 0 < k \<and> k < 2 ^ 63 \<and> f w = of_nat k \<and> plain L w \<and>
     (\<forall>j<21. \<exists>d. (w + 1 + j, d) \<in> set (ptrs_to L) \<and> (\<forall>i<k. plain L (d + i)))"

definition particle_buffer :: "buffer_layout \<Rightarrow> (nat \<Rightarrow> u64) \<Rightarrow> nat list \<Rightarrow> bool" where
  "particle_buffer L f ns \<longleftrightarrow> length ns = num_objs L \<and> (\<forall>i<num_objs L.
     f (at_objs L + 2 + 3 * i + 1) = OBJECT_TYPE_PARTICLE \<and> f (at_objs L + 2 + 3 * i + 2) > sizeof_Particles \<and>
     set_in L f (obj_at L i) (ns ! i))"

lemma buffer_in_rebase:
  assumes "buffer_in m0 buffer n N L f m"
    and "\<And>i. unat (bf_data_addr buffer) \<le> i \<Longrightarrow> i < unat (bf_data_addr buffer) + 8 * N \<Longrightarrow> m1 i = m i"
  shows "buffer_in m1 buffer n N L f m1"
proof -
  have "rd64 m1 (word_addr (bf_data_addr buffer) k) = f k" if "k < N" for k
  proof -
    have "rd64 m1 (word_addr (bf_data_addr buffer) k) = rd64 m (word_addr (bf_data_addr buffer) k)"
      using that assms(2) buffer_inD(4) [OF assms(1)] by (intro rd64_cong) (simp_all add: unat_addr)
    then show ?thesis using that buf_read [OF buffer_inD(1) [OF assms(1)]] by simp
  qed
  then have "buf m1 (bf_data_addr buffer) N f m1" by (simp add: buf_def)
  then show ?thesis using assms(1) by (simp add: buffer_in_def)
qed

subsection \<open>Reading a set\<close>

lemma sint_of_nat: "k < 2 ^ 63 \<Longrightarrow> sint (of_nat k :: u64) = int k"
  by (simp add: signed_of_nat signed_take_bit_int_eq_self)

lemma particles_at_cong:
  assumes "rd64 m p = rd64 m' p'"
    and "\<And>j i. j < 21 \<Longrightarrow> i < nat (sint (rd64 m p)) \<Longrightarrow>
      rd64 m (word_addr (array_at m p j) i) = rd64 m' (word_addr (array_at m' p' j) i)"
  shows "particles_at real_of m p = particles_at real_of m' p'"
proof -
  have "array_words_at m p j = array_words_at m' p' j" if "j < 21" for j
    using assms that by (simp add: array_words_at_def num_particles_at_def)
  then show ?thesis using assms(1) by (simp add: particles_at_def num_particles_at_def)
qed

lemma set_words:
  assumes "buffer_in m0 buffer n N L f m" "set_in L f w k" "b = bf_data_addr buffer"
  shows "rd64 m (word_addr b w) = of_nat k"
    and "j < 21 \<Longrightarrow> (w + 1 + j, d) \<in> set (ptrs_to L) \<Longrightarrow> array_at m (word_addr b w) j = word_addr b d"
    and "j < 21 \<Longrightarrow> (w + 1 + j, d) \<in> set (ptrs_to L) \<Longrightarrow> plain L (d + i) \<Longrightarrow>
      rd64 m (word_addr (array_at m (word_addr b w) j) i) = f (d + i)"
proof -
  note B = buffer_inD [OF assms(1), folded assms(3)]
  have d: "layout_ok n L" "ptrs_at b L f" using B(2) by (simp_all add: describes_def)
  have less: "x < N" if "in_slots L x" for x using that layout_bounds [OF d(1)] B(3) by (simp add: in_slots_def)
  show "rd64 m (word_addr b w) = of_nat k"
    using assms(2) less by (subst buf_read [OF B(1)]) (auto simp: set_in_def plain_def)
  show array: "array_at m (word_addr b w) j = word_addr b d" if "j < 21" and p: "(w + 1 + j, d) \<in> set (ptrs_to L)"
  proof -
    obtain x where "x < num_ptrs L" "ptrs_to L ! x = (w + 1 + j, d)" using p by (auto simp: in_set_conv_nth)
    then have "in_slots L (w + 1 + j)" "f (w + 1 + j) = word_addr b d" using d(2) by (auto simp: ptrs_at_def)
    moreover have "word_addr (word_addr b w) (j + 1) = word_addr b (w + 1 + j)" by (simp add: word_addr_def algebra_simps)
    ultimately show ?thesis using buf_read [OF B(1) less] by (simp add: array_at_def)
  qed
  show "rd64 m (word_addr (array_at m (word_addr b w) j) i) = f (d + i)"
    if "j < 21" "(w + 1 + j, d) \<in> set (ptrs_to L)" "plain L (d + i)"
  proof -
    have "word_addr (word_addr b d) i = word_addr b (d + i)" by (simp add: word_addr_def algebra_simps)
    then show ?thesis using array [OF that(1,2)] buf_read [OF B(1) less, of "d + i"] that(3) by (simp add: plain_def)
  qed
qed

text \<open>A set that is in two buffers at the same word, with the same words but for addresses.\<close>

lemma set_in_both:
  assumes "buffer_in m0 buffer n N L f m" "buffer_in m1 buffer' n' N' L' f' m'" "set_in L f w k" "set_in L' f' w k"
    and "set (ptrs_to L) \<subseteq> set (ptrs_to L')" "\<And>x. plain L x \<Longrightarrow> plain L' x \<and> f' x = f x"
    and "b = bf_data_addr buffer" "b' = bf_data_addr buffer'"
  shows "particles_at real_of m (word_addr b w) = particles_at real_of m' (word_addr b' w)"
proof (rule particles_at_cong)
  note W = set_words [OF assms(1,3,7)] and W' = set_words [OF assms(2,4,8)]
  show "rd64 m (word_addr b w) = rd64 m' (word_addr b' w)" using W(1) W'(1) by simp
  fix j i :: nat assume "j < 21" and i: "i < nat (sint (rd64 m (word_addr b w)))"
  obtain d where d: "(w + 1 + j, d) \<in> set (ptrs_to L)" "\<forall>i<k. plain L (d + i)"
    using assms(3) \<open>j < 21\<close> unfolding set_in_def by blast
  have "i < k" using i W(1) assms(3) by (simp add: set_in_def sint_of_nat)
  then have "plain L (d + i)" using d(2) by simp
  then show "rd64 m (word_addr (array_at m (word_addr b w) j) i) = rd64 m' (word_addr (array_at m' (word_addr b' w) j) i)"
    using W(3) [OF \<open>j < 21\<close> d(1)] W'(3) [OF \<open>j < 21\<close>, of d i] d(1) assms(5,6) by auto
qed

subsection \<open>Reading the table of objects\<close>

lemma entry_words:
  assumes "buffer_in m0 buffer n N L f m" "i < num_objs L" "b = bf_data_addr buffer"
  shows "Object_get_begin_addr m (word_addr b (at_objs L + 2 + 3 * i)) = word_addr b (obj_at L i)"
    "Object_get_type_id m (word_addr b (at_objs L + 2 + 3 * i)) = f (at_objs L + 2 + 3 * i + 1)"
    "Object_get_size m (word_addr b (at_objs L + 2 + 3 * i)) = f (at_objs L + 2 + 3 * i + 2)"
    "word_addr b (at_objs L + 2 + 3 * i) \<noteq> 0"
proof -
  note B = buffer_inD [OF assms(1), folded assms(3)]
  have d: "layout_ok n L" "objects_at b L f" using B(2) by (simp_all add: describes_def)
  have less: "at_objs L + 2 + 3 * i + 2 < N" using assms(2) layout_bounds [OF d(1)] B(3) by simp
  then have "word_addr b (at_objs L + 2 + 3 * i) \<noteq> 0" by (intro addr_neq_0 [OF B(4)]) simp
  moreover have "rd64 m (word_addr b (at_objs L + 2 + 3 * i + x)) = f (at_objs L + 2 + 3 * i + x)" if "x \<le> 2" for x
    using that less by (intro buf_read [OF B(1)]) simp
  from this [of 0] this [of 1] this [of 2]
  have "rd64 m (word_addr b (at_objs L + 2 + 3 * i)) = f (at_objs L + 2 + 3 * i)"
    "rd64 m (word_addr b (at_objs L + 2 + 3 * i) + 8) = f (at_objs L + 2 + 3 * i + 1)"
    "rd64 m (word_addr b (at_objs L + 2 + 3 * i) + 16) = f (at_objs L + 2 + 3 * i + 2)"
    by (simp_all add: word_addr_def algebra_simps)
  ultimately show "Object_get_begin_addr m (word_addr b (at_objs L + 2 + 3 * i)) = word_addr b (obj_at L i)"
    "Object_get_type_id m (word_addr b (at_objs L + 2 + 3 * i)) = f (at_objs L + 2 + 3 * i + 1)"
    "Object_get_size m (word_addr b (at_objs L + 2 + 3 * i)) = f (at_objs L + 2 + 3 * i + 2)"
    "word_addr b (at_objs L + 2 + 3 * i) \<noteq> 0"
    using d(2) assms(2) by (simp_all add: objects_at_def Object_get_begin_addr_def Object_get_type_id_def Object_get_size_def)
qed

lemma entries:
  assumes "buffer_in m0 buffer n N L f m" "b = bf_data_addr buffer"
  shows "buffer_entries buffer = map (\<lambda>i. word_addr b (at_objs L + 2 + 3 * i)) [0..<num_objs L]"
proof -
  note B = buffer_inD [OF assms(1), folded assms(2)]
  have d: "layout_ok n L" using B(2) by (simp add: describes_def)
  have less: "at_objs L + 2 + 3 * num_objs L \<le> N" "3 * num_objs L \<le> N" using layout_bounds [OF d] B(3) by simp_all
  then have "word_addr b (at_objs L + 2) \<noteq> 0" by (intro addr_neq_0 [OF B(4)]) simp
  then have "Buffer_get_objects_end_addr buffer - Buffer_get_objects_begin_addr buffer = 24 * of_nat (num_objs L)"
    using B(9,10,11) by (simp add: Buffer_get_objects_begin_addr_def Buffer_get_objects_end_addr_def Buffer_get_slot_size_def
        ManagedBuffer_get_slot_based_length_def sizeof_Object_def Let_def)
  also have "\<dots> = 8 * of_nat (3 * num_objs L)" by simp
  finally have "unat (Buffer_get_objects_end_addr buffer - Buffer_get_objects_begin_addr buffer) = 8 * (3 * num_objs L)"
    using less(2) B(4) unat_words [of "3 * num_objs L"] by (simp add: fits_def)
  moreover have "word_addr b (at_objs L + 2) + 24 * of_nat i = word_addr b (at_objs L + 2 + 3 * i)" for i
    by (simp add: word_addr_def algebra_simps)
  ultimately show ?thesis
    using B(10) by (simp add: buffer_entries_def index_entries_def sizeof_Object_def Buffer_get_objects_begin_addr_def)
qed

lemma stored_sets_words:
  assumes "buffer_in m0 buffer n N L f m" "b = bf_data_addr buffer"
  shows "stored_sets real_of m buffer = map (\<lambda>i. particles_at real_of m (word_addr b (obj_at L i))) [0..<num_objs L]"
  unfolding stored_sets_def entries [OF assms] using entry_words(1) [OF assms(1) _ assms(2)] by simp

subsection \<open>Copies\<close>

lemma plain_not_address:
  assumes "layout_ok n L" "plain L k" shows "k \<notin> address_words L"
proof -
  have "k \<noteq> ptr_at L i" if "i < num_ptrs L" for i using assms(2) that by (force simp: plain_def)
  then show ?thesis using assms layout_bounds [OF assms(1)]
    by (auto simp: plain_def in_slots_def address_words_def header_words_def obj_words_at_def ptr_words_at_def range_words_at_def)
qed

lemma same_words_plain:
  assumes "same_words n L f f'" "layout_ok n L" "plain L k" shows "f' k = f k"
proof -
  have "k < n" using assms(3) layout_bounds [OF assms(2)] by (simp add: plain_def in_slots_def)
  then show ?thesis using assms plain_not_address by (simp add: same_words_def)
qed

lemma same_words_set: "same_words n L f f' \<Longrightarrow> layout_ok n L \<Longrightarrow> set_in L f w k \<Longrightarrow> set_in L f' w k"
  using same_words_plain [of n L f f' w] by (simp add: set_in_def)

lemma same_words_entries:
  assumes "same_words n L f f'" "describes b n L f" "i < num_objs L" "x = 1 \<or> x = 2"
  shows "f' (at_objs L + 2 + 3 * i + x) = f (at_objs L + 2 + 3 * i + x)"
proof -
  have d: "layout_ok n L" "ptrs_at b L f" using assms(2) by (simp_all add: describes_def)
  note B = layout_bounds [OF d(1)]
  define k where "k = at_objs L + 2 + 3 * i + x"
  have k: "at_objs L + 2 \<le> k" "k < at_ptrs L" "k < n" using assms(3,4) B unfolding k_def by auto
  have "k \<noteq> at_objs L + 2 + 3 * i'" for i' using assms(4) unfolding k_def by presburger
  moreover have "k \<noteq> ptr_at L p" if "p < num_ptrs L" for p
    using d that k B by (auto simp: ptrs_at_def in_slots_def)
  ultimately have "k \<notin> address_words L" using k B
    by (auto simp: address_words_def header_words_def obj_words_at_def ptr_words_at_def range_words_at_def)
  then show ?thesis using assms(1) k(3) unfolding same_words_def k_def by blast
qed

lemma same_words_buffer:
  assumes "same_words n L f f'" "describes b n L f" "particle_buffer L f ns"
  shows "particle_buffer L f' ns"
proof -
  have "layout_ok n L" using assms(2) by (simp add: describes_def)
  then show ?thesis
    using assms(3) same_words_entries [OF assms(1,2), of _ 1] same_words_entries [OF assms(1,2), of _ 2] same_words_set [OF assms(1)]
    by (simp add: particle_buffer_def)
qed

lemma same_sets:
  assumes "buffer_in m0 buffer n N L f m" "buffer_in m1 buffer' n N' L f' m'" "same_words n L f f'" "particle_buffer L f ns"
  shows "stored_sets real_of m' buffer' = stored_sets real_of m buffer" "particle_buffer L f' ns"
proof -
  have d: "describes (bf_data_addr buffer) n L f" "layout_ok n L" using buffer_inD(2) [OF assms(1)] by (simp_all add: describes_def)
  show "particle_buffer L f' ns" by (rule same_words_buffer [OF assms(3) d(1) assms(4)])
  have "particles_at real_of m (word_addr (bf_data_addr buffer) (obj_at L i)) =
      particles_at real_of m' (word_addr (bf_data_addr buffer') (obj_at L i))" if i: "i < num_objs L" for i
  proof -
    have s: "set_in L f (obj_at L i) (ns ! i)" using assms(4) i by (simp add: particle_buffer_def)
    show ?thesis using same_words_plain [OF assms(3) d(2)]
      by (intro set_in_both [OF assms(1,2) s same_words_set [OF assms(3) d(2) s]]) simp_all
  qed
  then show "stored_sets real_of m' buffer' = stored_sets real_of m buffer"
    by (simp add: stored_sets_words [OF assms(1) refl] stored_sets_words [OF assms(2) refl])
qed

text \<open>A copy of a buffer of particle sets holds the same list of particle sets, whatever numbers the bit patterns
  stand for, and the original still holds it, too.\<close>

theorem copy_holds_same_sets:
  assumes "buffer_in m0 original n N L f m" "particle_buffer L f ns" "new_room pool_addr new_memory N"
    and "unat (bf_data_addr original) + 8 * N \<le> unat new_memory \<or> unat new_memory + 8 * N + 8 \<le> unat (bf_data_addr original)"
  shows "\<exists>m' mem_pool copy. Buffer_new_from_copy m pool_addr new_memory original = (m', mem_pool, Some copy) \<and>
    stored_sets real_of m' copy = stored_sets real_of m original \<and>
    stored_sets real_of m' original = stored_sets real_of m original"
proof -
  obtain m' mem_pool copy f' where C: "Buffer_new_from_copy m pool_addr new_memory original = (m', mem_pool, Some copy)"
      "buffer_in m copy n N L f' m'" "same_words n L f f'"
      "\<forall>i. unat (bf_data_addr original) \<le> i \<and> i < unat (bf_data_addr original) + 8 * N \<longrightarrow> m' i = m i"
    using copied_words [OF assms(1,3,4)] by blast
  have "buffer_in m' original n N L f m'" using C(4) by (intro buffer_in_rebase [OF assms(1)]) simp
  moreover have "same_words n L f f" by (simp add: same_words_def)
  ultimately show ?thesis
    using C(1) same_sets(1) [OF assms(1) C(2,3) assms(2)] same_sets(1) [OF assms(1) _ _ assms(2)] by blast
qed

text \<open>C17: A buffer of particle sets that is written to a file for any base address and read back at another place
  holds the same list of particle sets, whatever numbers the bit patterns stand for.\<close>

theorem file_holds_same_sets:
  assumes "buffer_in m0 original n N L f m" "full_access original" "particle_buffer L f ns" "ranges_to L = []" "fits target n"
    and "new_room pool_addr new_memory n" "unat target < unat new_memory \<or> unat new_memory + 8 \<le> unat target"
  shows "\<exists>original' bytes. Buffer_write_to_fp_normalized_addr m original target True = (m, original', Some bytes, True) \<and>
    stored_sets real_of m original' = stored_sets real_of m original \<and>
    (\<exists>m' mem_pool copy. Buffer_new_from_file other pool_addr new_memory (Some bytes) = (m', mem_pool, Some copy) \<and>
      stored_sets real_of m' copy = stored_sets real_of m original)"
proof -
  obtain original' bytes m' mem_pool copy f' where W: "Buffer_write_to_fp_normalized_addr m original target True = (m, original', Some bytes, True)"
      "buffer_in m0 original' n N L f m" "Buffer_new_from_file other pool_addr new_memory (Some bytes) = (m', mem_pool, Some copy)"
      "buffer_in other copy n n L f' m'" "same_words n L f f'"
    using words_through_file [OF assms(1,2,4-7), of other] by blast
  have "same_words n L f f" by (simp add: same_words_def)
  then show ?thesis
    using W(1,3) same_sets(1) [OF assms(1) W(2) _ assms(3)] same_sets(1) [OF assms(1) W(4,5) assms(3)] by blast
qed

subsection \<open>Structures on the stack\<close>

lemma write_words_from:
  assumes "buf m0 p n F m" "fits p n" "k + length ws \<le> n"
  shows "buf m0 p n (\<lambda>x. if k \<le> x \<and> x < k + length ws then ws ! (x - k) else F x) (write_words m (word_addr p k) ws)"
  using assms
proof (induction ws arbitrary: k F m)
  case (Cons w ws)
  have "buf m0 p n (F(k := w)) (wr64 m (word_addr p k) w)" using Cons.prems by (intro buf_write) simp_all
  from Cons.IH [OF this Cons.prems(2), of "k + 1"]
  have "buf m0 p n (\<lambda>x. if k + 1 \<le> x \<and> x < k + 1 + length ws then ws ! (x - (k + 1)) else (F(k := w)) x)
      (write_words m (word_addr p k) (w # ws))"
    using Cons.prems(3) by (simp add: addr_plus)
  then show ?case by (rule buf_cong) (auto simp: nth_Cons')
qed (auto elim!: buf_cong)

lemma write_words: "fits p (length ws) \<Longrightarrow> buf m p (length ws) ((!) ws) (write_words m p ws)"
  using buf_cong [OF write_words_from [OF buf_self, of p "length ws" 0 ws m], of "(!) ws"] by (simp add: addr_0)

lemma zero_then_count:
  assumes "fits p 22"
  shows "buf m p 22 ((!) (x # replicate 21 0)) (wr64 (Particles_preset m p) p x)"
proof -
  have "buf m p 22 ((!) (replicate 22 0)) (write_words m p (replicate 22 0))" using write_words [of p "replicate 22 0"] assms by simp
  from buf_write [OF this assms, of 0 x]
  have "buf m p 22 (((!) (replicate 22 0))(0 := x)) (wr64 (Particles_preset m p) p x)"
    using assms by (simp add: Particles_preset_def addr_0 fits_def)
  then show ?thesis by (rule buf_cong) (simp add: nth_Cons' nth_append)
qed

subsection \<open>Adding a set\<close>

definition particle_attrs :: "nat \<Rightarrow> attr_words" where
  "particle_attrs k = map (\<lambda>j. (j + 1, k)) [0..<21]"

lemma particles_attributes_words: "particles_attributes (of_nat k) = map attr_bytes (particle_attrs k)"
  by (simp add: particles_attributes_def particle_attrs_def)

lemma attr_dests_equal: "j < length xs \<Longrightarrow> attr_dests (map (\<lambda>j. (g j, k)) xs) d ! j = d + j * k"
  by (induction xs arbitrary: d j) (auto simp: nth_Cons' algebra_simps split: nat_diff_split)

lemma particle_attrs:
  "length (particle_attrs k) = 21" "attr_total (particle_attrs k) = 21 * k" "j < 21 \<Longrightarrow> particle_attrs k ! j = (j + 1, k)"
  "j < 21 \<Longrightarrow> attr_dests (particle_attrs k) d ! j = d + j * k" "fst ` set (particle_attrs k) = {1..<22}"
  "set (particle_attrs k) = (\<lambda>j. (j + 1, k)) ` {0..<21}"
proof -
  show "attr_total (particle_attrs k) = 21 * k"
    by (simp add: particle_attrs_def comp_def sum_list_triv)
  show "fst ` set (particle_attrs k) = {1..<22}"
    by (simp add: particle_attrs_def image_image image_Suc_atLeastLessThan flip: atLeastLessThan_upt)
qed (simp_all add: particle_attrs_def attr_dests_equal del: upt_rec_numeral)

text \<open>There is room for a set of \<open>k\<close> particles, and an array of \<open>k\<close> words does not overlap buffer and stack.\<close>

definition particle_room :: "buffer_layout \<Rightarrow> nat \<Rightarrow> bool" where
  "particle_room L k \<longleftrightarrow> 0 < k \<and> num_slots L + 22 + 21 * k + 2 \<le> max_slots L \<and> 3 * (num_objs L + 1) + 2 \<le> max_objs L \<and>
     num_ptrs L + 21 + 2 \<le> max_ptrs L"

definition outside :: "u64 \<Rightarrow> nat \<Rightarrow> u64 \<Rightarrow> u64 \<Rightarrow> nat \<Rightarrow> bool" where
  "outside b N stack a k \<longleftrightarrow> source_ok b N a k \<and> (unat a + 8 * k \<le> unat stack \<or> unat stack + 176 \<le> unat a)"

lemma particle_room_addable:
  assumes "layout_ok n L" "particle_room L k" shows "addable n L 22 (particle_attrs k)"
proof -
  have "distinct (map fst (particle_attrs k))"
    by (simp add: particle_attrs_def comp_def distinct_map del: upt_rec_numeral)
  then show ?thesis using assms by (auto simp: addable_def particle_room_def particle_attrs)
qed

text \<open>The words after adding the set that the structure of 22 words at \<open>stack\<close> describes.\<close>

abbreviation added_set_layout :: "buffer_layout \<Rightarrow> nat \<Rightarrow> buffer_layout" where
  "added_set_layout L k \<equiv> added_layout L 22 (particle_attrs k)"

abbreviation added_set_words :: "mem \<Rightarrow> u64 \<Rightarrow> buffer_layout \<Rightarrow> u64 \<Rightarrow> nat \<Rightarrow> (nat \<Rightarrow> u64) \<Rightarrow> nat \<Rightarrow> u64" where
  "added_set_words m b L stack k f \<equiv> added_words m b L stack 22 OBJECT_TYPE_PARTICLE (particle_attrs k) f"

lemma added_set_ptrs:
  "set (ptrs_to (added_set_layout L k)) =
     set (ptrs_to L) \<union> (\<lambda>j. (slots_end L + 1 + j, slots_end L + 22 + j * k)) ` {0..<21}"
proof -
  define ps where "ps = zip (map (\<lambda>a. slots_end L + fst a) (particle_attrs k)) (attr_dests (particle_attrs k) (slots_end L + 22))"
  have "ps = map (\<lambda>j. (slots_end L + 1 + j, slots_end L + 22 + j * k)) [0..<21]"
    by (rule nth_equalityI) (simp_all add: ps_def particle_attrs del: upt_rec_numeral)
  then have "set ps = (\<lambda>j. (slots_end L + 1 + j, slots_end L + 22 + j * k)) ` {0..<21}" by (simp del: upt_rec_numeral)
  then show ?thesis unfolding ps_def by (simp add: added_layout_def)
qed

lemma added_set_plain:
  assumes "plain L x" "addable n L 22 (particle_attrs k)"
  shows "plain (added_set_layout L k) x" "added_set_words m b L stack k f x = f x"
proof -
  note B = addable_bounds [OF assms(2)]
  have x: "in_slots L x" "x < slots_end L" using assms(1) by (simp_all add: plain_def in_slots_def)
  have "x \<notin> fst ` set (ptrs_to (added_set_layout L k))"
    using assms(1) x(2) unfolding added_set_ptrs by (auto simp: plain_def image_iff)
  then show "plain (added_set_layout L k) x" using added_in_slots [OF x(1)] by (simp add: plain_def)
  show "added_set_words m b L stack k f x = f x"
    using x B by (intro added_words_same [OF assms(2)]) (auto simp: in_slots_def)
qed

lemma added_set_keeps:
  assumes "set_in L f w k'" "addable n L 22 (particle_attrs k)"
  shows "set_in (added_set_layout L k) (added_set_words m b L stack k f) w k'"
proof -
  have "\<exists>d. (w + 1 + j, d) \<in> set (ptrs_to (added_set_layout L k)) \<and> (\<forall>i<k'. plain (added_set_layout L k) (d + i))" if j: "j < 21" for j
  proof -
    obtain d where "(w + 1 + j, d) \<in> set (ptrs_to L)" "\<forall>i<k'. plain L (d + i)" using assms(1) j unfolding set_in_def by blast
    then show ?thesis using added_set_plain(1) [OF _ assms(2)] unfolding added_set_ptrs by blast
  qed
  then show ?thesis using assms(1) added_set_plain [OF _ assms(2), of w] by (simp add: set_in_def)
qed

lemma added_set_plain_new:
  assumes "addable n L 22 (particle_attrs k)" "\<And>p. p \<in> set (ptrs_to L) \<Longrightarrow> fst p < slots_end L"
  shows "plain (added_set_layout L k) (slots_end L)"
    and "j < 21 \<Longrightarrow> i < k \<Longrightarrow> plain (added_set_layout L k) (slots_end L + 22 + j * k + i)"
proof -
  have old: "x \<notin> fst ` set (ptrs_to L)" if "slots_end L \<le> x" for x using that assms(2) by fastforce
  have plain: "plain (added_set_layout L k) (slots_end L + x)" if "x = 0 \<or> 22 \<le> x" "x < 22 + 21 * k" for x
    using that old [of "slots_end L + x"] addable_bounds(1) [OF assms(1)]
    by (auto simp: plain_def added_set_ptrs in_slots_def particle_attrs image_iff)
  then show "plain (added_set_layout L k) (slots_end L)" using plain [of 0] by simp
  assume "j < 21" "i < k"
  then have "j * k + i < (j + 1) * k" by simp
  also have "\<dots> \<le> 21 * k" using \<open>j < 21\<close> by (intro mult_right_mono) simp_all
  finally show "plain (added_set_layout L k) (slots_end L + 22 + j * k + i)" using plain [of "22 + j * k + i"] by (simp add: add.assoc)
qed

lemma added_set_new:
  assumes "addable n L 22 (particle_attrs k)" "0 < k" "k < 2 ^ 63" "stack \<noteq> 0" "rd64 m (word_addr stack 0) = of_nat k"
    and "\<And>p. p \<in> set (ptrs_to L) \<Longrightarrow> fst p < slots_end L"
  shows "set_in (added_set_layout L k) (added_set_words m b L stack k f) (slots_end L) k"
proof -
  have "added_set_words m b L stack k f (slots_end L) = of_nat k"
    using added_words_data [OF assms(1), of 0 stack m b OBJECT_TYPE_PARTICLE f] assms(4,5) by (simp add: particle_attrs(5))
  moreover have "\<exists>d. (slots_end L + 1 + j, d) \<in> set (ptrs_to (added_set_layout L k)) \<and> (\<forall>i<k. plain (added_set_layout L k) (d + i))"
    if "j < 21" for j
    using that added_set_plain_new(2) [OF assms(1,6) that] unfolding added_set_ptrs by (intro exI [of _ "slots_end L + 22 + j * k"]) auto
  ultimately show ?thesis using assms(2,3) added_set_plain_new(1) [OF assms(1,6)] by (simp add: set_in_def)
qed

lemma added_set_buffer:
  assumes "describes b n L f" "particle_buffer L f ns" "particle_room L k" "22 + 21 * k < 2 ^ 61" "stack \<noteq> 0"
    and "rd64 m (word_addr stack 0) = of_nat k"
  shows "particle_buffer (added_set_layout L k) (added_set_words m b L stack k f) (ns @ [k])"
proof -
  have d: "layout_ok n L" "ptrs_at b L f" using assms(1) by (simp_all add: describes_def)
  note add = particle_room_addable [OF d(1) assms(3)]
  note B = addable_bounds [OF add]
  have ptrs: "fst p < slots_end L" if "p \<in> set (ptrs_to L)" for p
    using that d(2) by (auto simp: in_set_conv_nth ptrs_at_def in_slots_def)
  have "unat (8 * of_nat (22 + 21 * k) :: u64) = 8 * (22 + 21 * k)" using assms(4) by (intro unat_words) simp
  then have size: "added_set_words m b L stack k f (objs_end L + 2) > sizeof_Particles"
    using added_words_entry(3) [OF add] assms(3) by (simp add: particle_attrs sizeof_Particles_def u64_less_nat particle_room_def)
  have kept: "added_set_words m b L stack k f (at_objs L + 2 + 3 * i + x) = f (at_objs L + 2 + 3 * i + x)"
    if "i < num_objs L" "x = 1 \<or> x = 2" for i x
    using that B by (intro added_words_same [OF add]) auto
  have len: "length ns = num_objs L" using assms(2) by (simp add: particle_buffer_def)
  have "added_set_words m b L stack k f (at_objs L + 2 + 3 * i + 1) = OBJECT_TYPE_PARTICLE \<and>
      added_set_words m b L stack k f (at_objs L + 2 + 3 * i + 2) > sizeof_Particles \<and>
      set_in (added_set_layout L k) (added_set_words m b L stack k f) (obj_at (added_set_layout L k) i) ((ns @ [k]) ! i)"
    if "i < num_objs L + 1" for i
  proof (cases "i < num_objs L")
    case True
    then show ?thesis using assms(2) kept [OF True, of 1] kept [OF True, of 2] added_set_keeps [OF _ add] len
      by (simp add: particle_buffer_def nth_append)
  next
    case False
    then have i: "i = num_objs L" using that by simp
    have "set_in (added_set_layout L k) (added_set_words m b L stack k f) (slots_end L) k"
      using assms(3-6) ptrs by (intro added_set_new [OF add]) (simp_all add: particle_room_def)
    then show ?thesis using i size added_words_entry(2) [OF add] len by (simp add: nth_append)
  qed
  then show ?thesis using len by (simp add: particle_buffer_def)
qed

text \<open>What adding does when the structure \<open>of_nat k # ptrs\<close> is on the stack in the memory \<open>m1\<close>.\<close>

lemma add_set_from_stack:
  assumes "buffer_in m0 buffer n N L f m" "full_access buffer" "particle_buffer L f ns" "particle_room L k" "b = bf_data_addr buffer"
    and "source_ok b N stack 22" "buf m stack 22 ((!) (of_nat k # ptrs)) m1" "length ptrs = 21"
    and "\<forall>a\<in>set ptrs. a = 0 \<or> source_ok b N a k"
  shows "\<exists>m' buffer' f'. Buffer_add_object m1 new_memory mem_pool buffer stack sizeof_Particles OBJECT_TYPE_PARTICLE
        (particles_attributes (of_nat k)) = (m', mem_pool, buffer', word_addr b (objs_end L)) \<and>
    Object_get_begin_addr m' (word_addr b (objs_end L)) = word_addr b (slots_end L) \<and>
    buffer_in m1 buffer' n N (added_set_layout L k) f' m' \<and> full_access buffer' \<and> particle_buffer (added_set_layout L k) f' (ns @ [k]) \<and>
    bf_data_addr buffer' = b \<and> sint (of_nat k :: u64) = int k \<and>
    stored_sets real_of m' buffer' = stored_sets real_of m buffer @ [particles_at real_of m' (word_addr b (slots_end L))] \<and>
    rd64 m' (word_addr b (slots_end L)) = of_nat k \<and>
    (\<forall>j<21. \<forall>i<k. rd64 m' (word_addr (array_at m' (word_addr b (slots_end L)) j) i) =
      (if ptrs ! j = 0 then 0 else rd64 m1 (word_addr (ptrs ! j) i)))"
proof -
  have range: "m1 i = m i" if "unat b \<le> i" "i < unat b + 8 * N" for i
    using that assms(6) by (intro buf_outside [OF assms(7)]) (auto simp: source_ok_def)
  have at1: "buffer_in m1 buffer n N L f m1" using range assms(5) by (intro buffer_in_rebase [OF assms(1)]) simp
  note H = buffer_inD [OF at1, folded assms(5)]
  have d: "layout_ok n L" using H(2) by (simp add: describes_def)
  note add = particle_room_addable [OF d assms(4)]
  have stack: "rd64 m1 (word_addr stack j) = (of_nat k # ptrs) ! j" if "j < 22" for j
    by (rule buf_read [OF assms(7) that])
  have ptr: "rd64 m1 (word_addr stack (j + 1)) = ptrs ! j" if "j < 21" for j using stack [of "j + 1"] that by simp
  have sources: "\<forall>(o', k')\<in>set (particle_attrs k). rd64 m1 (word_addr stack o') = 0 \<or> source_ok b N (rd64 m1 (word_addr stack o')) k'"
    using assms(8,9) ptr by (auto simp: particle_attrs(6))
  define f' where "f' = added_set_words m1 b L stack k f"
  obtain m' where m': "Buffer_add_object m1 new_memory mem_pool buffer stack (8 * of_nat 22) OBJECT_TYPE_PARTICLE
        (map attr_bytes (particle_attrs k)) = (m', mem_pool, buffer\<lparr>bf_num_objects := of_nat (num_objs L + 1)\<rparr>, word_addr b (objs_end L))"
      "buffer_in m1 (buffer\<lparr>bf_num_objects := of_nat (num_objs L + 1)\<rparr>) n N (added_set_layout L k) f' m'"
      "full_access (buffer\<lparr>bf_num_objects := of_nat (num_objs L + 1)\<rparr>)"
    using add_object_result [OF at1 assms(2,5) add assms(6) sources] unfolding f'_def by blast
  define buffer' where "buffer' = buffer\<lparr>bf_num_objects := of_nat (num_objs L + 1)\<rparr>"
  have b': "b = bf_data_addr buffer'" using assms(5) by (simp add: buffer'_def)
  note in' = m'(2) [folded buffer'_def]
  have k: "22 + 21 * k < 2 ^ 61"
  proof -
    have "22 + 21 * k \<le> N" "8 * N < 2 ^ 64" using addable_bounds(1-3,6) [OF add] H(3,4) by (simp_all add: particle_attrs fits_def)
    then show ?thesis by simp
  qed
  have ptrs: "fst p < slots_end L" if "p \<in> set (ptrs_to L)" for p
    using that H(2) by (auto simp: describes_def in_set_conv_nth ptrs_at_def in_slots_def)
  have "stack \<noteq> 0" using assms(6) by (simp add: source_ok_def fits_def)
  then have pb: "particle_buffer (added_set_layout L k) f' (ns @ [k])"
    unfolding f'_def using stack [of 0] by (intro added_set_buffer [OF H(2) assms(3,4) k]) simp_all
  have old: "particles_at real_of m (word_addr b (obj_at L i)) = particles_at real_of m' (word_addr b (obj_at L i))"
    if "i < num_objs L" for i
  proof (rule set_in_both [OF assms(1) in'])
    show "set_in L f (obj_at L i) (ns ! i)" using assms(3) that by (simp add: particle_buffer_def)
    then show "set_in (added_set_layout L k) f' (obj_at L i) (ns ! i)" unfolding f'_def by (rule added_set_keeps [OF _ add])
    show "set (ptrs_to L) \<subseteq> set (ptrs_to (added_set_layout L k))" unfolding added_set_ptrs by blast
    show "plain (added_set_layout L k) x \<and> f' x = f x" if "plain L x" for x
      unfolding f'_def using added_set_plain [OF that add] by blast
  qed (simp_all add: assms(5) buffer'_def)
  have sets: "stored_sets real_of m' buffer' = stored_sets real_of m buffer @ [particles_at real_of m' (word_addr b (slots_end L))]"
    unfolding stored_sets_words [OF in' b'] stored_sets_words [OF assms(1,5)] using old by (simp add: nth_append)
  have new: "set_in (added_set_layout L k) f' (slots_end L) k"
    using pb [unfolded particle_buffer_def, THEN conjunct2, rule_format, of "num_objs L"] assms(3)
    by (simp add: particle_buffer_def nth_append)
  have entry: "Object_get_begin_addr m' (word_addr b (objs_end L)) = word_addr b (slots_end L)"
    using entry_words(1) [OF in' _ b', of "num_objs L"] by (simp add: nth_append)
  have arrays: "rd64 m' (word_addr (array_at m' (word_addr b (slots_end L)) j) i) =
      (if ptrs ! j = 0 then 0 else rd64 m1 (word_addr (ptrs ! j) i))" if j: "j < 21" and i: "i < k" for i j
  proof -
    have target: "(slots_end L + 1 + j, slots_end L + 22 + j * k) \<in> set (ptrs_to (added_set_layout L k))"
      using j unfolding added_set_ptrs by auto
    have "rd64 m' (word_addr (array_at m' (word_addr b (slots_end L)) j) i) = f' (slots_end L + 22 + j * k + i)"
      by (rule set_words(3) [OF in' new b' j target added_set_plain_new(2) [OF add ptrs j i]])
    also have "\<dots> = (if ptrs ! j = 0 then 0 else rd64 m1 (word_addr (ptrs ! j) i))"
      using added_words_attr(3) [OF add, of j stack i m1 b OBJECT_TYPE_PARTICLE f] j i \<open>stack \<noteq> 0\<close> ptr [OF j]
      by (simp add: particle_attrs f'_def Let_def)
    finally show ?thesis .
  qed
  show ?thesis
    using m'(1,3) in' pb sets entry arrays set_words(1) [OF in' new b'] assms(5) sint_of_nat [of k] k unfolding buffer'_def particles_attributes_words sizeof_Particles_def
    by auto
qed

text \<open>Memory outside the buffer and the stack stays as it is.\<close>

definition same_elsewhere :: "u64 \<Rightarrow> nat \<Rightarrow> u64 \<Rightarrow> mem \<Rightarrow> mem \<Rightarrow> bool" where
  "same_elsewhere b N stack m m' \<longleftrightarrow> (\<forall>i. (i < unat b \<or> unat b + 8 * N \<le> i) \<longrightarrow> (i < unat stack \<or> unat stack + 176 \<le> i) \<longrightarrow> m' i = m i)"

lemma same_elsewhere_through:
  assumes "buf m stack 22 g m1" "buffer_in m1 buffer' n N L f' m'" "bf_data_addr buffer' = b"
  shows "same_elsewhere b N stack m m'"
  using buf_outside [OF assms(1)] buf_outside [OF buffer_inD(1) [OF assms(2)]] assms(3) by (simp add: same_elsewhere_def)

lemma outside_stack:
  assumes "buf m stack 22 g m1" "outside b N stack a k" "i < k"
  shows "rd64 m1 (word_addr a i) = rd64 m (word_addr a i)"
proof -
  have "fits a k" using assms(2) by (simp add: outside_def source_ok_def)
  then show ?thesis using assms(2,3)
    by (intro rd64_cong buf_outside [OF assms(1)]) (auto simp: outside_def unat_addr)
qed

text \<open>C15: Adding a copy of a particle set to a buffer of particle sets that has room appends the set to the list of
  sets that the buffer holds, whatever numbers the bit patterns stand for. The buffer stays a well-formed
  buffer of particle sets, and memory outside it and the stack is not touched.\<close>

theorem add_copy_appends:
  assumes "buffer_in m0 buffer n N L f m" "full_access buffer" "particle_buffer L f ns" "particle_room L k"
    and "source_ok (bf_data_addr buffer) N stack 22" "rd64 m p = of_nat k"
    and "\<forall>j<21. outside (bf_data_addr buffer) N stack (array_at m p j) k"
  shows "\<exists>m' buffer' p' L' f'. Particles_add_copy m stack new_memory mem_pool buffer p = (m', mem_pool, buffer', p') \<and>
    stored_sets real_of m' buffer' = stored_sets real_of m buffer @ [particles_at real_of m p] \<and>
    particles_at real_of m' p' = particles_at real_of m p \<and>
    (\<exists>m1. buffer_in m1 buffer' n N L' f' m') \<and> full_access buffer' \<and> particle_buffer L' f' (ns @ [k]) \<and>
    same_elsewhere (bf_data_addr buffer) N stack m m'"
proof -
  define b where "b = bf_data_addr buffer"
  define ptrs where "ptrs = map (array_at m p) [0..<21]"
  have ptrs: "length ptrs = 21" "ptrs ! j = array_at m p j" if "j < 21" for j
    using that by (simp_all add: ptrs_def del: upt_rec_numeral)
  have len: "length ptrs = 21" by (simp add: ptrs_def)
  define m1 where "m1 = write_words m stack (of_nat k # ptrs)"
  have "fits stack 22" using assms(5) by (simp add: source_ok_def)
  then have stack: "buf m stack 22 ((!) (of_nat k # ptrs)) m1"
    unfolding m1_def using write_words [of stack "of_nat k # ptrs" m] len by simp
  have sources: "\<forall>a\<in>set ptrs. a = 0 \<or> source_ok b N a k"
    using assms(7) by (auto simp: ptrs_def b_def outside_def simp del: upt_rec_numeral)
  obtain m' buffer' f' where A: "Buffer_add_object m1 new_memory mem_pool buffer stack sizeof_Particles OBJECT_TYPE_PARTICLE
        (particles_attributes (of_nat k)) = (m', mem_pool, buffer', word_addr b (objs_end L))"
      "Object_get_begin_addr m' (word_addr b (objs_end L)) = word_addr b (slots_end L)"
      "buffer_in m1 buffer' n N (added_set_layout L k) f' m'" "full_access buffer'"
      "particle_buffer (added_set_layout L k) f' (ns @ [k])" "bf_data_addr buffer' = b" "sint (of_nat k :: u64) = int k"
      "stored_sets real_of m' buffer' = stored_sets real_of m buffer @ [particles_at real_of m' (word_addr b (slots_end L))]"
      "rd64 m' (word_addr b (slots_end L)) = of_nat k"
      "\<forall>j<21. \<forall>i<k. rd64 m' (word_addr (array_at m' (word_addr b (slots_end L)) j) i) =
        (if ptrs ! j = 0 then 0 else rd64 m1 (word_addr (ptrs ! j) i))"
    using add_set_from_stack [OF assms(1-4) b_def assms(5) [folded b_def] stack len sources] by blast
  have same: "particles_at real_of m' (word_addr b (slots_end L)) = particles_at real_of m p"
  proof (rule particles_at_cong)
    show "rd64 m' (word_addr b (slots_end L)) = rd64 m p" using A(9) assms(6) by simp
    fix j i :: nat assume j: "j < 21" and i: "i < nat (sint (rd64 m' (word_addr b (slots_end L))))"
    have out: "outside b N stack (array_at m p j) k" using assms(7) j by (simp add: b_def)
    have "i < k" using i A(7,9) by simp
    then show "rd64 m' (word_addr (array_at m' (word_addr b (slots_end L)) j) i) = rd64 m (word_addr (array_at m p j) i)"
      using A(10) j ptrs(2) [OF j] outside_stack [OF stack out] out by (simp add: outside_def source_ok_def fits_def)
  qed
  have "same_elsewhere b N stack m m'" by (rule same_elsewhere_through [OF stack A(3,6)])
  moreover have "Particles_add_copy m stack new_memory mem_pool buffer p = (m', mem_pool, buffer', word_addr b (slots_end L))"
    unfolding Particles_add_copy_def Particles_add_def assms(6) ptrs_def [symmetric] m1_def [symmetric] Let_def A(1) prod.case A(2) ..
  ultimately show ?thesis using A(3-5,8) same unfolding b_def by metis
qed

text \<open>C16: A new particle set in a buffer of particle sets that has room is appended to the list of sets that the
  buffer holds: it has the requested number of particles and zeros in all its arrays.\<close>

theorem new_appends_zeros:
  assumes "buffer_in m0 buffer n N L f m" "full_access buffer" "particle_buffer L f ns" "particle_room L k"
    and "source_ok (bf_data_addr buffer) N stack 22"
  shows "\<exists>m' buffer' p' L' f'. Particles_new m stack new_memory mem_pool buffer (of_nat k) = (m', mem_pool, buffer', p') \<and>
    stored_sets real_of m' buffer' = stored_sets real_of m buffer @ [particles_at real_of m' p'] \<and>
    num_particles_at m' p' = int k \<and> (\<forall>j<21. array_words_at m' p' j = replicate k 0) \<and>
    (\<exists>m1. buffer_in m1 buffer' n N L' f' m') \<and> full_access buffer' \<and> particle_buffer L' f' (ns @ [k]) \<and>
    same_elsewhere (bf_data_addr buffer) N stack m m'"
proof -
  define b where "b = bf_data_addr buffer"
  define ptrs :: "u64 list" where "ptrs = replicate 21 0"
  define m1 where "m1 = wr64 (Particles_preset m stack) stack (of_nat k)"
  have "fits stack 22" using assms(5) by (simp add: source_ok_def)
  from zero_then_count [OF this]
  have stack: "buf m stack 22 ((!) (of_nat k # ptrs)) m1" unfolding m1_def ptrs_def .
  have len: "length ptrs = 21" and sources: "\<forall>a\<in>set ptrs. a = 0 \<or> source_ok b N a k" by (simp_all add: ptrs_def)
  obtain m' buffer' f' where A: "Buffer_add_object m1 new_memory mem_pool buffer stack sizeof_Particles OBJECT_TYPE_PARTICLE
        (particles_attributes (of_nat k)) = (m', mem_pool, buffer', word_addr b (objs_end L))"
      "Object_get_begin_addr m' (word_addr b (objs_end L)) = word_addr b (slots_end L)"
      "buffer_in m1 buffer' n N (added_set_layout L k) f' m'" "full_access buffer'"
      "particle_buffer (added_set_layout L k) f' (ns @ [k])" "bf_data_addr buffer' = b" "sint (of_nat k :: u64) = int k"
      "stored_sets real_of m' buffer' = stored_sets real_of m buffer @ [particles_at real_of m' (word_addr b (slots_end L))]"
      "rd64 m' (word_addr b (slots_end L)) = of_nat k"
      "\<forall>j<21. \<forall>i<k. rd64 m' (word_addr (array_at m' (word_addr b (slots_end L)) j) i) =
        (if ptrs ! j = 0 then 0 else rd64 m1 (word_addr (ptrs ! j) i))"
    using add_set_from_stack [OF assms(1-4) b_def assms(5) [folded b_def] stack len sources] by blast
  have number: "num_particles_at m' (word_addr b (slots_end L)) = int k" using A(7,9) by (simp add: num_particles_at_def)
  have zeros: "array_words_at m' (word_addr b (slots_end L)) j = replicate k 0" if "j < 21" for j
    using A(10) that number by (intro replicate_eqI) (auto simp: array_words_at_def ptrs_def)
  have "same_elsewhere b N stack m m'" by (rule same_elsewhere_through [OF stack A(3,6)])
  moreover have "Particles_new m stack new_memory mem_pool buffer (of_nat k) = (m', mem_pool, buffer', word_addr b (slots_end L))"
    unfolding Particles_new_def m1_def [symmetric] Let_def A(1) prod.case A(2) ..
  ultimately show ?thesis using A(3-5,8) number zeros unfolding b_def by metis
qed

subsection \<open>The queries\<close>

lemma particle_entries:
  assumes "buffer_in m0 buffer n N L f m" "particle_buffer L f ns" "i < num_objs L"
    and e: "e = word_addr (bf_data_addr buffer) (at_objs L + 2 + 3 * i)"
  shows "is_particles_entry m e" "Object_get_begin_addr m e \<noteq> 0" "num_particles_at m (Object_get_begin_addr m e) = int (ns ! i)"
    "0 < ns ! i" "BufferIndex_get_const_particles m e = Object_get_begin_addr m e" "e \<noteq> 0"
proof -
  note E = entry_words [OF assms(1,3) refl, folded e]
  have p: "f (at_objs L + 2 + 3 * i + 1) = OBJECT_TYPE_PARTICLE" "f (at_objs L + 2 + 3 * i + 2) > sizeof_Particles"
    "set_in L f (obj_at L i) (ns ! i)"
    using assms(2,3) by (simp_all add: particle_buffer_def)
  then show "is_particles_entry m e" using E(2) by (simp add: is_particles_entry_def)
  show "0 < ns ! i" using p(3) by (simp add: set_in_def)
  show "num_particles_at m (Object_get_begin_addr m e) = int (ns ! i)"
    using set_words(1) [OF assms(1) p(3) refl] p(3) E(1) by (simp add: num_particles_at_def set_in_def sint_of_nat)
  show "BufferIndex_get_const_particles m e = Object_get_begin_addr m e" "e \<noteq> 0"
    using p E by (simp_all add: BufferIndex_get_const_particles_def)
  note B = buffer_inD [OF assms(1)]
  have "in_slots L (obj_at L i)" using p(3) by (simp add: set_in_def plain_def)
  then have "obj_at L i < n" using B(2) layout_bounds [of n L] by (simp add: describes_def in_slots_def)
  then show "Object_get_begin_addr m e \<noteq> 0" using E(1) addr_neq_0 [OF B(4), of "obj_at L i"] B(3) by simp
qed

lemma number_of_objects:
  assumes "buffer_in m0 buffer n N L f m"
  shows "Buffer_get_num_of_objects m buffer = of_nat (num_objs L)" "num_objs L < 2 ^ 63"
proof -
  note B = buffer_inD [OF assms]
  have d: "header_at (bf_data_addr buffer) L f" "sections_ok n L f" "layout_ok n L" using B(2) by (simp_all add: describes_def)
  show "Buffer_get_num_of_objects m buffer = of_nat (num_objs L)"
    using section_counts(2) [OF in_place_within [OF B(1,3,4,5,6) d]] B(9)
    by (simp add: Buffer_get_num_of_objects_def Buffer_get_data_begin_addr_def Buffer_get_slot_size_def)
  have "3 * num_objs L \<le> N" "8 * N < 2 ^ 64" using layout_bounds [OF d(3)] B(3,4) by (simp_all add: fits_def)
  then show "num_objs L < 2 ^ 63" by simp
qed

text \<open>C18: The queries of a buffer of particle sets answer what the list of its sets says: how many sets and particles
  there are, and where a set is.\<close>

theorem particle_buffer_queries:
  assumes "buffer_in m0 buffer n N L f m" "particle_buffer L f ns"
  shows "length (stored_sets real_of m buffer) = length ns \<and> map num_particles (stored_sets real_of m buffer) = map int ns \<and>
    Buffer_is_particles_buffer m buffer = (ns \<noteq> []) \<and>
    Particles_buffer_get_num_of_particle_blocks m buffer = of_nat (length ns) \<and>
    Particles_buffer_get_total_num_of_particles m buffer = int (sum_list ns) \<and>
    (\<forall>i<length ns. particles_at real_of m (Particles_buffer_get_const_particles m buffer (of_nat i)) = stored_sets real_of m buffer ! i)"
proof -
  define b where "b = bf_data_addr buffer"
  define e where "e i = word_addr b (at_objs L + 2 + 3 * i)" for i
  note P = particle_entries [OF assms _ e_def [unfolded b_def]]
  have len: "length ns = num_objs L" using assms(2) by (simp add: particle_buffer_def)
  have entries: "buffer_entries buffer = map e [0..<num_objs L]" unfolding e_def by (rule entries [OF assms(1) b_def])
  have sets: "stored_sets real_of m buffer = map (\<lambda>i. particles_at real_of m (Object_get_begin_addr m (e i))) [0..<num_objs L]"
    by (simp add: stored_sets_def entries)
  note num = number_of_objects [OF assms(1)]
  have pos: "of_nat (num_objs L) > (0 :: u64) \<longleftrightarrow> ns \<noteq> []"
    using num(2) len by (auto simp: u64_less_nat unat_of_nat_u64)
  have all: "filter (\<lambda>it. is_particles_entry m it \<and> Object_get_begin_addr m it \<noteq> 0 \<and> 0 < num_particles_at m (Object_get_begin_addr m it))
      (map e [0..<num_objs L]) = map e [0..<num_objs L]" "filter (is_particles_entry m) (map e [0..<num_objs L]) = map e [0..<num_objs L]"
    using P by (auto simp: filter_id_conv)
  have blocks: "Particles_buffer_get_num_of_particle_blocks m buffer = of_nat (length ns)"
    using pos len by (auto simp: Particles_buffer_get_num_of_particle_blocks_def num(1) entries all(1))
  have nums: "map (\<lambda>i. num_particles_at m (Object_get_begin_addr m (e i))) [0..<num_objs L] = map int ns"
    using P(3) len by (intro nth_equalityI) simp_all
  then have "map num_particles (stored_sets real_of m buffer) = map int ns"
    by (simp add: sets particles_at_def comp_def)
  moreover have "Particles_buffer_get_total_num_of_particles m buffer = int (sum_list ns)"
    using pos nums by (auto simp: Particles_buffer_get_total_num_of_particles_def num(1) entries all(2) comp_def simp flip: sum_list_of_nat)
  moreover have "Particles_buffer_get_const_particles m buffer (of_nat i) = Object_get_begin_addr m (e i)" if "i < num_objs L" for i
  proof -
    have "bf_object_addr buffer + 24 * of_nat i = e i"
      using buffer_inD(10) [OF assms(1)] by (simp add: e_def b_def word_addr_def algebra_simps)
    then show ?thesis
      using P(5) [OF that] by (simp add: Particles_buffer_get_const_particles_def Buffer_get_objects_begin_addr_def sizeof_Object_def)
  qed
  ultimately show ?thesis
    using blocks len pos by (auto simp: Buffer_is_particles_buffer_def num(1) sets)
qed

subsection \<open>Samples\<close>

text \<open>An empty buffer at 4096 with room for a set of one particle, a stack at 65536, and a set of one particle at 131072.\<close>

definition set_room :: buffer_layout where
  "set_room = with_capacity 1 43 21 0 no_contents"

definition set_handle :: Buffer where
  "set_handle = new_handle\<lparr>bf_data_addr := 4096, bf_data_size := 664, bf_data_capacity := 664,
     bf_object_addr := word_addr 4096 (at_objs set_room + 2), bf_datastore_flags := 0x1006F, bf_datastore_addr := 64\<rparr>"

definition one_particle :: mem where
  "one_particle = write_words (\<lambda>_. 0) 131072 (1 # map (\<lambda>j. 262144 + 8 * of_nat j) [0..<21])"

definition set_memory :: mem where
  "set_memory = put_words one_particle 4096 (empty_words 4096 83 set_room) 83"

lemma set_room:
  "buffer_in one_particle set_handle 83 83 set_room (empty_words 4096 83 set_room) set_memory" "full_access set_handle"
  "particle_buffer set_room (empty_words 4096 83 set_room) []" "particle_room set_room 1"
  "source_ok (bf_data_addr set_handle) 83 65536 22" "bf_data_addr set_handle = 4096" "ranges_to set_room = []"
proof -
  have fits: "fits 4096 83" by (simp add: fits_def)
  have "layout_ok 83 set_room" by (simp add: set_room_def layout_ok_def)
  then have "describes 4096 83 set_room (empty_words 4096 83 set_room)"
    by (rule empty_describes) (simp_all add: set_room_def)
  then show "buffer_in one_particle set_handle 83 83 set_room (empty_words 4096 83 set_room) set_memory"
    using buf_put_words [OF fits] fits
    by (simp add: buffer_in_def set_handle_def new_handle_def BUFFER_DEFAULT_SLOT_SIZE_def set_memory_def set_room_def)
  show "full_access set_handle" by (simp add: full_access_def set_handle_def)
  show "particle_buffer set_room (empty_words 4096 83 set_room) []" by (simp add: particle_buffer_def set_room_def)
  show "particle_room set_room 1" by (simp add: particle_room_def set_room_def)
qed (simp_all add: set_handle_def set_room_def source_ok_def fits_def)

lemma one_particle:
  "rd64 set_memory 131072 = of_nat 1"
  "\<forall>j<21. outside (bf_data_addr set_handle) 83 65536 (array_at set_memory 131072 j) 1"
proof -
  define ws :: "u64 list" where "ws = 1 # map (\<lambda>j. 262144 + 8 * of_nat j) [0..<21]"
  have len: "length ws = 22" by (simp add: ws_def)
  have read: "rd64 set_memory (word_addr 131072 i) = ws ! i" if "i < 22" for i
  proof -
    have "rd64 set_memory (word_addr 131072 i) = rd64 one_particle (word_addr 131072 i)"
      using buffer_inD(1) [OF set_room(1)] that by (intro outside_words [of _ 4096 83 _ _ 131072 22]) (simp_all add: set_room(6) source_ok_def fits_def)
    also have "\<dots> = ws ! i"
      using buf_read [OF write_words [of 131072 ws "\<lambda>_. 0"], of i] that len by (simp add: one_particle_def ws_def fits_def)
    finally show ?thesis .
  qed
  show "rd64 set_memory 131072 = of_nat 1" using read [of 0] by (simp add: addr_0 ws_def)
  have "array_at set_memory 131072 j = word_addr 262144 j" if "j < 21" for j
    using read [of "j + 1"] that by (simp add: array_at_def ws_def word_addr_def del: upt_rec_numeral)
  moreover have "fits 262144 21" by (simp add: fits_def)
  ultimately show "\<forall>j<21. outside (bf_data_addr set_handle) 83 65536 (array_at set_memory 131072 j) 1"
    by (auto simp: outside_def source_ok_def set_room(6) fits_def unat_addr [of 262144 21] addr_neq_0 [of 262144 21])
qed

theorem add_copy_appends_witness:
  "\<exists>m' buffer' p'. Particles_add_copy set_memory 65536 0 MemPool_preset set_handle 131072 = (m', MemPool_preset, buffer', p') \<and>
    length (stored_sets (\<lambda>_. 0) m' buffer') = Suc (length (stored_sets (\<lambda>_. 0) set_memory set_handle))"
  using add_copy_appends [OF set_room(1-5) one_particle, of 0 MemPool_preset "\<lambda>_. 0"] by fastforce

theorem new_appends_zeros_witness:
  "\<exists>m' buffer' p'. Particles_new set_memory 65536 0 MemPool_preset set_handle 1 = (m', MemPool_preset, buffer', p') \<and>
    length (stored_sets (\<lambda>_. 0) m' buffer') = Suc (length (stored_sets (\<lambda>_. 0) set_memory set_handle))"
  using new_appends_zeros [OF set_room(1-5), of 0 MemPool_preset "\<lambda>_. 0"] by fastforce

text \<open>A buffer with one set.\<close>

lemma one_set:
  obtains m0 m buffer L f where "buffer_in m0 buffer 83 83 L f m" "full_access buffer" "particle_buffer L f [1]" "ranges_to L = []"
    "bf_data_addr buffer = 4096"
proof -
  define m1 where "m1 = write_words set_memory 65536 (of_nat 1 # replicate 21 0)"
  have "fits 65536 22" by (simp add: fits_def)
  then have stack: "buf set_memory 65536 22 ((!) (of_nat 1 # replicate 21 0)) m1"
    unfolding m1_def using write_words [of 65536 "of_nat 1 # replicate 21 0" set_memory] by simp
  show thesis
    using add_set_from_stack [where real_of = "\<lambda>_. 0" and new_memory = 0 and mem_pool = MemPool_preset,
        OF set_room(1-4) refl set_room(5) stack] that set_room(6,7) by fastforce
qed

theorem copy_holds_same_sets_witness:
  "\<exists>m original m' mem_pool copy. Buffer_new_from_copy m 64 8200 original = (m', mem_pool, Some copy) \<and>
    stored_sets (\<lambda>_. 0) m' copy = stored_sets (\<lambda>_. 0) m original"
proof -
  obtain m0 m buffer L f where "buffer_in m0 buffer 83 83 L f m" "particle_buffer L f [1]" "bf_data_addr buffer = 4096"
    by (rule one_set) auto
  moreover have "new_room 64 8200 83" by (simp add: new_room_def)
  ultimately show ?thesis using copy_holds_same_sets [of m0 buffer 83 83 L f m "[1]" 64 8200 "\<lambda>_. 0"] by fastforce
qed

theorem file_holds_same_sets_witness:
  "\<exists>m original original' bytes. Buffer_write_to_fp_normalized_addr m original 262144 True = (m, original', Some bytes, True) \<and>
    (\<exists>m' mem_pool copy. Buffer_new_from_file (\<lambda>_. 0) 64 8200 (Some bytes) = (m', mem_pool, Some copy) \<and>
      stored_sets (\<lambda>_. 0) m' copy = stored_sets (\<lambda>_. 0) m original)"
proof -
  obtain m0 m buffer L f where B: "buffer_in m0 buffer 83 83 L f m" "full_access buffer" "particle_buffer L f [1]" "ranges_to L = []"
    by (rule one_set) auto
  have room: "fits 262144 83" "new_room 64 8200 83" by (simp_all add: new_room_def fits_def)
  show ?thesis using file_holds_same_sets [OF B room, of "\<lambda>_. 0" "\<lambda>_. 0"] by fastforce
qed

theorem particle_buffer_queries_witness:
  "\<exists>m buffer. Buffer_is_particles_buffer m buffer \<and> Particles_buffer_get_total_num_of_particles m buffer = 1"
proof -
  obtain m0 m buffer L f where "buffer_in m0 buffer 83 83 L f m" "particle_buffer L f [1]"
    by (rule one_set) auto
  then show ?thesis using particle_buffer_queries [of m0 buffer 83 83 L f m "[1]" "\<lambda>_. 0"] by auto
qed

end
