(* ===== verification/Struct_Storage.thy ===== *)
theory Struct_Storage
  imports Particle_Storage
begin

section \<open>Structures in buffers\<close>

text \<open>
  The objects of a buffer are structures of words, some of which are addresses of arrays in the buffer. A
  \<open>struct_shape\<close> is the number of words together with the offsets of the addresses and the lengths of the
  arrays; \<open>struct_at m p\<close> reads a structure of a shape at an address. Adding an object to a buffer appends to
  the list of the structures in it, copies of a buffer hold the same list.
\<close>

type_synonym struct_shape = "nat \<times> attr_words"

type_synonym struct_words = "u64 list \<times> u64 list list"

text \<open>An array that is not there reads as zeros, as the code copies it; addresses read as zeros.\<close>

definition array_read :: "mem \<Rightarrow> u64 \<Rightarrow> nat \<Rightarrow> u64 list" where
  "array_read m a k = (if a = 0 then replicate k 0 else map (\<lambda>i. rd64 m (word_addr a i)) [0..<k])"

definition struct_at :: "mem \<Rightarrow> u64 \<Rightarrow> struct_shape \<Rightarrow> struct_words" where
  "struct_at m p s = (map (\<lambda>j. if j \<in> fst ` set (snd s) then 0 else rd64 m (word_addr p j)) [0..<fst s],
     map (\<lambda>(o', k). array_read m (rd64 m (word_addr p o')) k) (snd s))"

lemma struct_at_cong:
  assumes "\<And>j. j < fst s \<Longrightarrow> j \<notin> fst ` set (snd s) \<Longrightarrow> rd64 m (word_addr p j) = rd64 m' (word_addr p' j)"
    and "\<And>o' k. (o', k) \<in> set (snd s) \<Longrightarrow>
      array_read m (rd64 m (word_addr p o')) k = array_read m' (rd64 m' (word_addr p' o')) k"
  shows "struct_at m p s = struct_at m' p' s"
  using assms by (auto simp: struct_at_def)

text \<open>A structure at word \<open>wd\<close> of a buffer: its words hold no addresses but for those of its arrays.\<close>

definition struct_in :: "buffer_layout \<Rightarrow> nat \<Rightarrow> struct_shape \<Rightarrow> bool" where
  "struct_in L wd s \<longleftrightarrow> (\<forall>j<fst s. j \<notin> fst ` set (snd s) \<longrightarrow> plain L (wd + j)) \<and>
     (\<forall>(o', k)\<in>set (snd s). \<exists>d. (wd + o', d) \<in> set (ptrs_to L) \<and> (\<forall>i<k. plain L (d + i)))"

text \<open>The objects of a buffer by type and shape.\<close>

definition objects_in :: "buffer_layout \<Rightarrow> (nat \<Rightarrow> u64) \<Rightarrow> (u64 \<times> struct_shape) list \<Rightarrow> bool" where
  "objects_in L f os \<longleftrightarrow> length os = num_objs L \<and> (\<forall>i<num_objs L.
     f (at_objs L + 2 + 3 * i + 1) = fst (os ! i) \<and> 8 * fst (snd (os ! i)) \<le> unat (f (at_objs L + 2 + 3 * i + 2)) \<and>
     struct_in L (obj_at L i) (snd (os ! i)))"

definition stored_objects :: "mem \<Rightarrow> Buffer \<Rightarrow> (u64 \<times> struct_shape) list \<Rightarrow> (u64 \<times> struct_words) list" where
  "stored_objects m buffer os = map (\<lambda>(it, ob). (Object_get_type_id m it, struct_at m (Object_get_begin_addr m it) (snd ob)))
     (zip (buffer_entries buffer) os)"

subsection \<open>Reading\<close>

lemma in_slots_less: "buffer_in m0 buffer n N L f m \<Longrightarrow> in_slots L x \<Longrightarrow> x < N"
  using layout_bounds [of n L] buffer_inD(2,3) [of m0 buffer n N L f m] by (auto simp: describes_def in_slots_def)

lemma word_addr_word_addr: "word_addr (word_addr b x) y = word_addr b (x + y)"
  by (simp add: word_addr_def algebra_simps)

lemma struct_words:
  assumes "buffer_in m0 buffer n N L f m" "b = bf_data_addr buffer"
  shows "plain L (wd + j) \<Longrightarrow> rd64 m (word_addr (word_addr b wd) j) = f (wd + j)"
    and "(wd + j, d) \<in> set (ptrs_to L) \<Longrightarrow> rd64 m (word_addr (word_addr b wd) j) = word_addr b d"
proof -
  note B = buffer_inD [OF assms(1), folded assms(2)]
  have read: "rd64 m (word_addr (word_addr b wd) j) = f (wd + j)" if "in_slots L (wd + j)"
    using buf_read [OF B(1)] in_slots_less [OF assms(1) that] by (simp add: word_addr_word_addr)
  then show "plain L (wd + j) \<Longrightarrow> rd64 m (word_addr (word_addr b wd) j) = f (wd + j)" by (simp add: plain_def)
  assume "(wd + j, d) \<in> set (ptrs_to L)"
  then obtain x where "x < num_ptrs L" "ptrs_to L ! x = (wd + j, d)" by (auto simp: in_set_conv_nth)
  then have "in_slots L (wd + j)" "f (wd + j) = word_addr b d"
    using B(2) by (auto simp: describes_def ptrs_at_def)
  then show "rd64 m (word_addr (word_addr b wd) j) = word_addr b d" using read by simp
qed

lemma plain_addr:
  assumes "buffer_in m0 buffer n N L f m" "b = bf_data_addr buffer" "in_slots L d"
  shows "word_addr b d \<noteq> 0"
  using addr_neq_0 [OF buffer_inD(4) [OF assms(1)], of d] in_slots_less [OF assms(1,3)] assms(2) by simp

lemma array_read_words:
  assumes "buffer_in m0 buffer n N L f m" "b = bf_data_addr buffer" "\<forall>i<k. plain L (d + i)"
  shows "array_read m (word_addr b d) k = map (\<lambda>i. f (d + i)) [0..<k]"
proof (cases "k = 0")
  case False
  then have "word_addr b d \<noteq> 0" using assms(3) by (intro plain_addr [OF assms(1,2)]) (auto simp: plain_def)
  then show ?thesis using struct_words(1) [OF assms(1,2), of d] assms(3) by (simp add: array_read_def)
qed (simp add: array_read_def)

lemma struct_in_both:
  assumes "buffer_in m0 buffer n N L f m" "buffer_in m1 buffer' n' N' L' f' m'" "struct_in L wd s"
    and "set (ptrs_to L) \<subseteq> set (ptrs_to L')" "\<And>x. plain L x \<Longrightarrow> plain L' x \<and> f' x = f x"
    and "b = bf_data_addr buffer" "b' = bf_data_addr buffer'"
  shows "struct_at m (word_addr b wd) s = struct_at m' (word_addr b' wd) s"
proof (rule struct_at_cong)
  note W = struct_words [OF assms(1,6)] and W' = struct_words [OF assms(2,7)]
  show "rd64 m (word_addr (word_addr b wd) j) = rd64 m' (word_addr (word_addr b' wd) j)"
    if "j < fst s" "j \<notin> fst ` set (snd s)" for j
    using W(1) [of wd j] W'(1) [of wd j] that assms(3,5) by (simp add: struct_in_def)
  fix o' k assume "(o', k) \<in> set (snd s)"
  then obtain d where d: "(wd + o', d) \<in> set (ptrs_to L)" "\<forall>i<k. plain L (d + i)"
    using assms(3) unfolding struct_in_def by blast
  then have "(wd + o', d) \<in> set (ptrs_to L')" "\<forall>i<k. plain L' (d + i)" using assms(4,5) by blast+
  then show "array_read m (rd64 m (word_addr (word_addr b wd) o')) k =
      array_read m' (rd64 m' (word_addr (word_addr b' wd) o')) k"
    using d assms(5) unfolding W(2) [OF d(1)] W'(2) [OF \<open>(wd + o', d) \<in> set (ptrs_to L')\<close>]
    by (simp add: array_read_words [OF assms(1,6)] array_read_words [OF assms(2,7)])
qed

lemma stored_objects_words:
  assumes "buffer_in m0 buffer n N L f m" "objects_in L f os" "b = bf_data_addr buffer"
  shows "stored_objects m buffer os = map (\<lambda>i. (fst (os ! i), struct_at m (word_addr b (obj_at L i)) (snd (os ! i)))) [0..<num_objs L]"
proof (rule nth_equalityI)
  show len: "length (stored_objects m buffer os) =
      length (map (\<lambda>i. (fst (os ! i), struct_at m (word_addr b (obj_at L i)) (snd (os ! i)))) [0..<num_objs L])"
    using assms(2) by (simp add: stored_objects_def entries [OF assms(1,3)] objects_in_def)
  fix i assume "i < length (stored_objects m buffer os)"
  then have i: "i < num_objs L" unfolding len by simp
  then show "stored_objects m buffer os ! i =
      map (\<lambda>i. (fst (os ! i), struct_at m (word_addr b (obj_at L i)) (snd (os ! i)))) [0..<num_objs L] ! i"
    using assms(2) entry_words(1,2) [OF assms(1) i assms(3)]
    by (simp add: stored_objects_def entries [OF assms(1,3)] objects_in_def)
qed

subsection \<open>Copies\<close>

lemma same_words_objects:
  assumes "same_words n L f f'" "describes b n L f" "objects_in L f os"
  shows "objects_in L f' os"
  using assms(3) same_words_entries [OF assms(1,2), of _ 1] same_words_entries [OF assms(1,2), of _ 2]
  by (simp add: objects_in_def)

lemma same_objects:
  assumes "buffer_in m0 buffer n N L f m" "buffer_in m1 buffer' n N' L f' m'" "same_words n L f f'" "objects_in L f os"
  shows "stored_objects m' buffer' os = stored_objects m buffer os" "objects_in L f' os"
proof -
  have d: "describes (bf_data_addr buffer) n L f" "layout_ok n L" using buffer_inD(2) [OF assms(1)] by (simp_all add: describes_def)
  show os: "objects_in L f' os" by (rule same_words_objects [OF assms(3) d(1) assms(4)])
  have "struct_at m (word_addr (bf_data_addr buffer) (obj_at L i)) (snd (os ! i)) =
      struct_at m' (word_addr (bf_data_addr buffer') (obj_at L i)) (snd (os ! i))" if "i < num_objs L" for i
    using assms(4) that same_words_plain [OF assms(3) d(2)]
    by (intro struct_in_both [OF assms(1,2)]) (simp_all add: objects_in_def)
  then show "stored_objects m' buffer' os = stored_objects m buffer os"
    by (simp add: stored_objects_words [OF assms(1,4) refl] stored_objects_words [OF assms(2) os refl])
qed

subsection \<open>Adding\<close>

lemma added_ptrs_set:
  "set (ptrs_to (added_layout L w attrs)) =
     set (ptrs_to L) \<union> set (zip (map (\<lambda>a. slots_end L + fst a) attrs) (attr_dests attrs (slots_end L + w)))"
  by (simp add: added_layout_def)

lemma added_ptr_offsets:
  "fst ` set (ptrs_to (added_layout L w attrs)) = fst ` set (ptrs_to L) \<union> (\<lambda>a. slots_end L + fst a) ` set attrs"
proof -
  have "map fst (zip (map (\<lambda>a. slots_end L + fst a) attrs) (attr_dests attrs (slots_end L + w))) = map (\<lambda>a. slots_end L + fst a) attrs"
    by simp
  then have "fst ` set (zip (map (\<lambda>a. slots_end L + fst a) attrs) (attr_dests attrs (slots_end L + w))) = (\<lambda>a. slots_end L + fst a) ` set attrs"
    by (metis image_set)
  then show ?thesis unfolding added_ptrs_set image_Un by simp
qed

lemma ptrs_before: "describes b n L f \<Longrightarrow> p \<in> set (ptrs_to L) \<Longrightarrow> fst p < slots_end L"
  by (auto simp: describes_def in_set_conv_nth ptrs_at_def in_slots_def)

lemma added_plain:
  assumes "plain L x" "addable n L w attrs"
  shows "plain (added_layout L w attrs) x" "added_words m b L source w type_id attrs f x = f x"
proof -
  note B = addable_bounds [OF assms(2)]
  have x: "in_slots L x" "x < slots_end L" using assms(1) by (simp_all add: plain_def in_slots_def)
  then show "plain (added_layout L w attrs) x"
    using assms(1) added_in_slots [OF x(1)] by (auto simp: plain_def added_ptr_offsets)
  show "added_words m b L source w type_id attrs f x = f x"
    using x B by (intro added_words_same [OF assms(2)]) (auto simp: in_slots_def)
qed

lemma added_struct_keeps:
  assumes "struct_in L wd s" "addable n L w attrs"
  shows "struct_in (added_layout L w attrs) wd s"
  using assms(1) added_plain(1) [OF _ assms(2)] unfolding struct_in_def added_ptrs_set by fast

lemma added_plain_from:
  assumes "describes b n L f" "addable n L w attrs" "slots_end L \<le> y" "y < slots_end L + w + attr_total attrs"
    and "\<And>a. a \<in> set attrs \<Longrightarrow> y \<noteq> slots_end L + fst a"
  shows "plain (added_layout L w attrs) y"
proof -
  have "y \<notin> fst ` set (ptrs_to L)" using ptrs_before [OF assms(1)] assms(3) by fastforce
  moreover have "in_slots (added_layout L w attrs) y" using assms(3,4) by (auto simp: in_slots_def)
  ultimately show ?thesis using assms(5) by (auto simp: plain_def added_ptr_offsets)
qed

lemma added_plain_new:
  assumes "describes b n L f" "addable n L w attrs" "x < w" "x \<notin> fst ` set attrs"
  shows "plain (added_layout L w attrs) (slots_end L + x)"
  using assms(3,4) by (intro added_plain_from [OF assms(1,2)]) auto

text \<open>The array of a pointer goes behind the structure.\<close>

lemma added_array:
  assumes "describes b n L f" "addable n L w attrs" "j < length attrs" "attrs ! j = (o', k)"
  shows "(slots_end L + o', attr_dests attrs (slots_end L + w) ! j) \<in> set (ptrs_to (added_layout L w attrs))"
    "\<forall>i<k. plain (added_layout L w attrs) (attr_dests attrs (slots_end L + w) ! j + i)"
proof -
  have "(slots_end L + o', attr_dests attrs (slots_end L + w) ! j) \<in>
      set (zip (map (\<lambda>a. slots_end L + fst a) attrs) (attr_dests attrs (slots_end L + w)))"
    using assms(3,4) by (force simp: set_zip)
  then show "(slots_end L + o', attr_dests attrs (slots_end L + w) ! j) \<in> set (ptrs_to (added_layout L w attrs))"
    unfolding added_ptrs_set by blast
  have o': "fst a < w" if "a \<in> set attrs" for a using assms(2) that by (simp add: addable_def)
  show "\<forall>i<k. plain (added_layout L w attrs) (attr_dests attrs (slots_end L + w) ! j + i)"
    using attr_dests_bounds [OF assms(3), of "slots_end L + w"] assms(4) o'
    by (intro allI impI added_plain_from [OF assms(1,2)]) fastforce+
qed

lemma added_struct_new:
  assumes "describes b n L f" "addable n L w attrs"
  shows "struct_in (added_layout L w attrs) (slots_end L) (w, attrs)"
proof -
  have "\<exists>d. (slots_end L + o', d) \<in> set (ptrs_to (added_layout L w attrs)) \<and> (\<forall>i<k. plain (added_layout L w attrs) (d + i))"
    if a: "(o', k) \<in> set attrs" for o' k
  proof -
    obtain j where j: "j < length attrs" "attrs ! j = (o', k)" using a by (auto simp: in_set_conv_nth)
    show ?thesis using added_array [OF assms j] by blast
  qed
  then show ?thesis using added_plain_new [OF assms] by (auto simp: struct_in_def)
qed

lemma added_objects_in:
  assumes "describes b n L f" "addable n L w attrs" "objects_in L f os" "8 * (w + attr_total attrs) < 2 ^ 64"
  shows "objects_in (added_layout L w attrs) (added_words m b L source w type_id attrs f) (os @ [(type_id, w, attrs)])"
proof -
  define f' where "f' = added_words m b L source w type_id attrs f"
  note B = addable_bounds [OF assms(2)] and E = added_words_entry [OF assms(2), of m b source type_id f, folded f'_def]
  have kept: "f' (at_objs L + 2 + 3 * i + x) = f (at_objs L + 2 + 3 * i + x)" if "i < num_objs L" "x = 1 \<or> x = 2" for i x
    unfolding f'_def using that B by (intro added_words_same [OF assms(2)]) auto
  have len: "length os = num_objs L" using assms(3) by (simp add: objects_in_def)
  have "unat (8 * of_nat (w + attr_total attrs) :: u64) = 8 * (w + attr_total attrs)" using assms(4) by (rule unat_words)
  then have size: "8 * w \<le> unat (f' (objs_end L + 2))" unfolding E(3) by simp
  have "f' (at_objs L + 2 + 3 * i + 1) = fst ((os @ [(type_id, w, attrs)]) ! i) \<and>
      8 * fst (snd ((os @ [(type_id, w, attrs)]) ! i)) \<le> unat (f' (at_objs L + 2 + 3 * i + 2)) \<and>
      struct_in (added_layout L w attrs) (obj_at (added_layout L w attrs) i) (snd ((os @ [(type_id, w, attrs)]) ! i))"
    if "i < num_objs L + 1" for i
  proof (cases "i < num_objs L")
    case True
    then show ?thesis
      using assms(3) kept [OF True, of 1] kept [OF True, of 2] added_struct_keeps [OF _ assms(2)] len
      by (simp add: objects_in_def nth_append)
  next
    case False
    then have "i = num_objs L" using that by simp
    then show ?thesis using E(2) size added_struct_new [OF assms(1,2)] len by (simp add: nth_append)
  qed
  then show ?thesis unfolding objects_in_def f'_def using len by simp
qed

lemma added_struct_at:
  assumes "buffer_in m1 buffer' n N (added_layout L w attrs) (added_words m b L source w type_id attrs f) m'"
    and "b = bf_data_addr buffer'" "describes b n L f" "addable n L w attrs" "source \<noteq> 0"
  shows "struct_at m' (word_addr b (slots_end L)) (w, attrs) = struct_at m source (w, attrs)"
proof (rule struct_at_cong)
  note W = struct_words [OF assms(1,2)]
  show "rd64 m' (word_addr (word_addr b (slots_end L)) j) = rd64 m (word_addr source j)"
    if "j < fst (w, attrs)" "j \<notin> fst ` set (snd (w, attrs))" for j
    using W(1) [OF added_plain_new [OF assms(3,4)]] that added_words_data [OF assms(4) _ _ assms(5), of j] by simp
  fix o' k assume "(o', k) \<in> set (snd (w, attrs))"
  then obtain j where j: "j < length attrs" "attrs ! j = (o', k)" by (auto simp: in_set_conv_nth)
  define d where "d = attr_dests attrs (slots_end L + w) ! j"
  note A = added_array [OF assms(3,4) j, folded d_def]
  have "array_read m' (rd64 m' (word_addr (word_addr b (slots_end L)) o')) k =
      map (\<lambda>i. added_words m b L source w type_id attrs f (d + i)) [0..<k]"
    unfolding W(2) [OF A(1)] by (rule array_read_words [OF assms(1,2) A(2)])
  also have "\<dots> = array_read m (rd64 m (word_addr source o')) k"
    using added_words_attr(3) [OF assms(4) j(1) assms(5), of _ m b type_id f, folded d_def] j(2)
    by (auto simp: array_read_def Let_def intro!: nth_equalityI)
  finally show "array_read m' (rd64 m' (word_addr (word_addr b (slots_end L)) o')) k = array_read m (rd64 m (word_addr source o')) k" .
qed

lemma add_struct:
  assumes "buffer_in m0 buffer n N L f m" "full_access buffer" "objects_in L f os" "b = bf_data_addr buffer"
    and "addable n L w attrs" "source_ok b N source w"
    and "\<forall>(o', k)\<in>set attrs. rd64 m (word_addr source o') = 0 \<or> source_ok b N (rd64 m (word_addr source o')) k"
  shows "\<exists>m' buffer' f'. Buffer_add_object m new_memory mem_pool buffer source (8 * of_nat w) type_id (map attr_bytes attrs) =
      (m', mem_pool, buffer', word_addr b (objs_end L)) \<and>
    Object_get_begin_addr m' (word_addr b (objs_end L)) = word_addr b (slots_end L) \<and> word_addr b (slots_end L) \<noteq> 0 \<and>
    buffer_in m buffer' n N (added_layout L w attrs) f' m' \<and> full_access buffer' \<and> bf_data_addr buffer' = b \<and>
    objects_in (added_layout L w attrs) f' (os @ [(type_id, w, attrs)]) \<and>
    stored_objects m' buffer' (os @ [(type_id, w, attrs)]) = stored_objects m buffer os @ [(type_id, struct_at m source (w, attrs))]"
proof -
  have at1: "buffer_in m buffer n N L f m" by (rule buffer_in_rebase [OF assms(1)]) simp
  note H = buffer_inD [OF at1, folded assms(4)]
  define f' where "f' = added_words m b L source w type_id attrs f"
  define buffer' where "buffer' = buffer\<lparr>bf_num_objects := of_nat (num_objs L + 1)\<rparr>"
  obtain m' where m': "Buffer_add_object m new_memory mem_pool buffer source (8 * of_nat w) type_id (map attr_bytes attrs) =
        (m', mem_pool, buffer', word_addr b (objs_end L))"
      "buffer_in m buffer' n N (added_layout L w attrs) f' m'" "full_access buffer'"
    using add_object_result [OF at1 assms(2,4,5,6,7)] unfolding f'_def buffer'_def by blast
  have b': "b = bf_data_addr buffer'" using assms(4) by (simp add: buffer'_def)
  have "source \<noteq> 0" using assms(6) by (simp add: source_ok_def fits_def)
  have "w + attr_total attrs \<le> N" "8 * N < 2 ^ 64" using addable_bounds(1-3,6) [OF assms(5)] H(3,4) by (simp_all add: fits_def)
  then have os: "objects_in (added_layout L w attrs) f' (os @ [(type_id, w, attrs)])"
    unfolding f'_def by (intro added_objects_in [OF H(2) assms(5,3)]) simp
  have old: "struct_at m (word_addr b (obj_at L i)) (snd (os ! i)) = struct_at m' (word_addr b (obj_at L i)) (snd (os ! i))"
    if "i < num_objs L" for i
  proof (rule struct_in_both [OF assms(1) m'(2) _ _ _ assms(4) b'])
    show "struct_in L (obj_at L i) (snd (os ! i))" using assms(3) that by (simp add: objects_in_def)
    show "set (ptrs_to L) \<subseteq> set (ptrs_to (added_layout L w attrs))" unfolding added_ptrs_set by blast
    show "plain (added_layout L w attrs) x \<and> f' x = f x" if "plain L x" for x
      unfolding f'_def using added_plain [OF that assms(5)] by blast
  qed
  have new: "struct_at m' (word_addr b (slots_end L)) (w, attrs) = struct_at m source (w, attrs)"
    using m'(2) unfolding f'_def by (rule added_struct_at [OF _ b' H(2) assms(5) \<open>source \<noteq> 0\<close>])
  have len: "length os = num_objs L" using assms(3) by (simp add: objects_in_def)
  have "stored_objects m' buffer' (os @ [(type_id, w, attrs)]) = stored_objects m buffer os @ [(type_id, struct_at m source (w, attrs))]"
    unfolding stored_objects_words [OF m'(2) os b'] stored_objects_words [OF assms(1,3,4)]
    using old new len by (simp add: nth_append)
  moreover have "Object_get_begin_addr m' (word_addr b (objs_end L)) = word_addr b (slots_end L)"
    using entry_words(1) [OF m'(2) _ b', of "num_objs L"] by (simp add: nth_append)
  moreover have "word_addr b (slots_end L) \<noteq> 0"
    using addable_bounds(1) [OF assms(5)] assms(5) by (intro plain_addr [OF m'(2) b']) (simp add: in_slots_def addable_def)
  ultimately show ?thesis using m' os b' by blast
qed

subsection \<open>Samples\<close>

text \<open>Natural numbers as bit patterns.\<close>

definition sample_real :: "u64 \<Rightarrow> real" where
  "sample_real w = of_nat (unat w)"

definition sample_bits :: "real \<Rightarrow> u64" where
  "sample_bits x = of_nat (nat \<lfloor>x\<rfloor>)"

end
