(* ===== verification/Element_Buffers.thy ===== *)
theory Element_Buffers
  imports Struct_Storage Track_Element
begin

section \<open>Elements in buffers\<close>

text \<open>
  The beam elements as objects of buffers (\<open>be_drift.[ch]\<close>, \<open>be_xyshift.[ch]\<close>, \<open>be_srotation.[ch]\<close>,
  \<open>be_dipedge.[ch]\<close>, \<open>be_cavity.[ch]\<close>, \<open>be_limit_*.[ch]\<close>, \<open>be_monitor.[ch]\<close>, \<open>be_beamfields.[ch]\<close>).

  For each element \<open>X\<close> with the structure as a record, \<open>X_words\<close> and \<open>X_of\<close> are its words in memory and
  back, \<open>bits_of\<close> and \<open>real_of\<close> writing and reading a number as a word. \<open>X_new\<close> and \<open>X_add\<close> fill a
  structure on the stack (\<open>temp\<close> is what it holds before, \<open>stack\<close> its address) and add it to the buffer,
  \<open>X_add_copy\<close> adds the structure at an address; the results are the memory, the memory pool, the buffer and
  the address of the structure in the buffer, 0 for NULL. \<open>X_attributes_offsets\<close> and its like fill an array;
  the list of its words is empty for NULL. Arguments that the code does not use are left out.
\<close>

text \<open>The number of slots of a number of bytes that \<open>NS(ManagedBuffer_get_slot_based_length)\<close> has rounded up.\<close>

type_synonym SIXTRL_REAL_T = real

definition slots_for :: "u64 \<Rightarrow> u64 \<Rightarrow> u64" where
  "slots_for num_bytes slot_size =
     (let num_slots = num_bytes div slot_size
      in if num_slots * slot_size < num_bytes then num_slots + 1 else num_slots)"

definition place_object ::
    "mem \<Rightarrow> u64 \<Rightarrow> MemPool \<Rightarrow> Buffer \<Rightarrow> u64 \<Rightarrow> u64 \<Rightarrow> u64 \<Rightarrow> (u64 \<times> u64 \<times> u64) list \<Rightarrow> mem \<times> MemPool \<times> Buffer \<times> u64" where
  "place_object m new_memory mem_pool buffer p object_size type_id attrs =
     (let (m, mem_pool, buffer, object) = Buffer_add_object m new_memory mem_pool buffer p object_size type_id attrs
      in (m, mem_pool, buffer, Object_get_begin_addr m object))"

definition add_from_stack ::
    "mem \<Rightarrow> u64 \<Rightarrow> u64 \<Rightarrow> MemPool \<Rightarrow> Buffer \<Rightarrow> u64 list \<Rightarrow> u64 \<Rightarrow> u64 \<Rightarrow> (u64 \<times> u64 \<times> u64) list \<Rightarrow>
     mem \<times> MemPool \<times> Buffer \<times> u64" where
  "add_from_stack m stack new_memory mem_pool buffer ws object_size type_id attrs =
     place_object (write_words m stack ws) new_memory mem_pool buffer stack object_size type_id attrs"

subsection \<open>Drifts\<close>

definition OBJECT_TYPE_DRIFT :: "u64" where
  "OBJECT_TYPE_DRIFT = 2"

definition sizeof_Drift :: "u64" where
  "sizeof_Drift = 8"

definition Drift_type_id :: "u64" where
  "Drift_type_id = OBJECT_TYPE_DRIFT"

definition Drift_num_dataptrs :: "u64" where
  "Drift_num_dataptrs = 0"

definition Drift_num_slots :: "u64 \<Rightarrow> u64" where
  "Drift_num_slots slot_size = slots_for (ManagedBuffer_get_slot_based_length sizeof_Drift slot_size) slot_size"

definition Drift_preset :: "Drift option \<Rightarrow> Drift option" where
  "Drift_preset drift = map_option (\<lambda>e. fst (Drift_clear e)) drift"

definition Drift_words :: "(real \<Rightarrow> u64) \<Rightarrow> Drift \<Rightarrow> u64 list" where
  "Drift_words bits_of e =
     [bits_of (Drift_length e)]"

definition Drift_of :: "(u64 \<Rightarrow> real) \<Rightarrow> u64 list \<Rightarrow> Drift" where
  "Drift_of real_of ws =
     \<lparr>Drift_length = real_of (ws ! 0)\<rparr>"

definition Drift_const_from_obj_index :: "mem \<Rightarrow> u64 \<Rightarrow> u64" where
  "Drift_const_from_obj_index m obj =
     (if obj \<noteq> 0 \<and> Object_get_type_id m obj = OBJECT_TYPE_DRIFT \<and> Object_get_size m obj \<ge> sizeof_Drift
      then Object_get_begin_addr m obj else 0)"

definition Drift_from_obj_index :: "mem \<Rightarrow> u64 \<Rightarrow> u64" where
  "Drift_from_obj_index m obj = Drift_const_from_obj_index m obj"

definition Drift_const_from_managed_buffer :: "mem \<Rightarrow> u64 \<Rightarrow> u64 \<Rightarrow> u64 \<Rightarrow> u64" where
  "Drift_const_from_managed_buffer m buffer_begin index slot_size =
     Drift_const_from_obj_index m (ManagedBuffer_get_const_object m buffer_begin index slot_size)"

definition Drift_const_from_buffer :: "mem \<Rightarrow> Buffer \<Rightarrow> u64 \<Rightarrow> u64" where
  "Drift_const_from_buffer m buffer index = Drift_const_from_obj_index m (Buffer_get_const_object m buffer index)"

definition Drift_from_managed_buffer :: "mem \<Rightarrow> u64 \<Rightarrow> u64 \<Rightarrow> u64 \<Rightarrow> u64" where
  "Drift_from_managed_buffer m buffer_begin index slot_size =
     Drift_from_obj_index m (ManagedBuffer_get_object m buffer_begin index slot_size)"

definition Drift_from_buffer :: "mem \<Rightarrow> Buffer \<Rightarrow> u64 \<Rightarrow> u64" where
  "Drift_from_buffer m buffer index = Drift_from_obj_index m (Buffer_get_object m buffer index)"

definition Drift_attributes_offsets :: "u64 list \<Rightarrow> u64 \<Rightarrow> u64 list \<times> arch_status" where
  "Drift_attributes_offsets offsets slot_size = (if slot_size > 0 then map (\<lambda>_. 0) offsets else offsets, 0)"

definition Drift_attributes_sizes :: "u64 list \<Rightarrow> u64 \<Rightarrow> u64 list \<times> arch_status" where
  "Drift_attributes_sizes sizes slot_size = (if slot_size > 0 then map (\<lambda>_. 0) sizes else sizes, 0)"

definition Drift_attributes_counts :: "u64 list \<Rightarrow> u64 \<Rightarrow> u64 list \<times> arch_status" where
  "Drift_attributes_counts counts slot_size = (if slot_size > 0 then map (\<lambda>_. 0) counts else counts, 0)"

definition Drift_can_be_added :: "Drift \<Rightarrow> mem \<Rightarrow> Buffer \<Rightarrow> bool \<times> (u64 \<times> u64 \<times> u64) option" where
  "Drift_can_be_added temp m buffer =
     (let (temp, status) = Drift_clear temp
      in if status = 0 \<and> Drift_num_dataptrs = 0 then Buffer_can_add_object m buffer sizeof_Drift [] else (False, None))"

definition Drift_new :: "(real \<Rightarrow> u64) \<Rightarrow> Drift \<Rightarrow> mem \<Rightarrow> u64 \<Rightarrow> u64 \<Rightarrow> MemPool \<Rightarrow> Buffer \<Rightarrow> mem \<times> MemPool \<times> Buffer \<times> u64" where
  "Drift_new bits_of temp m stack new_memory mem_pool buffer =
     (let (temp, status) = Drift_clear temp
      in if Drift_num_dataptrs = 0 \<and> status = 0 then
           add_from_stack m stack new_memory mem_pool buffer (Drift_words bits_of temp) sizeof_Drift Drift_type_id []
         else (m, mem_pool, buffer, 0))"

definition Drift_add :: "(real \<Rightarrow> u64) \<Rightarrow> Drift \<Rightarrow> mem \<Rightarrow> u64 \<Rightarrow> u64 \<Rightarrow> MemPool \<Rightarrow> Buffer \<Rightarrow> real \<Rightarrow> mem \<times> MemPool \<times> Buffer \<times> u64" where
  "Drift_add bits_of temp m stack new_memory mem_pool buffer len =
     (let (temp, status1) = Drift_set_length temp len
      in if Drift_num_dataptrs = 0 \<and> (status1) = 0 then
           add_from_stack m stack new_memory mem_pool buffer (Drift_words bits_of temp) sizeof_Drift Drift_type_id []
         else (m, mem_pool, buffer, 0))"

definition Drift_add_copy :: "mem \<Rightarrow> u64 \<Rightarrow> MemPool \<Rightarrow> Buffer \<Rightarrow> u64 \<Rightarrow> mem \<times> MemPool \<times> Buffer \<times> u64" where
  "Drift_add_copy m new_memory mem_pool buffer orig =
     (if orig \<noteq> 0 \<and> Drift_num_dataptrs = 0 then
        place_object m new_memory mem_pool buffer orig sizeof_Drift Drift_type_id []
      else (m, mem_pool, buffer, 0))"

definition OBJECT_TYPE_DRIFT_EXACT :: "u64" where
  "OBJECT_TYPE_DRIFT_EXACT = 3"

definition sizeof_DriftExact :: "u64" where
  "sizeof_DriftExact = 8"

definition DriftExact_type_id :: "u64" where
  "DriftExact_type_id = OBJECT_TYPE_DRIFT_EXACT"

definition DriftExact_num_dataptrs :: "u64" where
  "DriftExact_num_dataptrs = 0"

definition DriftExact_num_slots :: "u64 \<Rightarrow> u64" where
  "DriftExact_num_slots slot_size = slots_for (ManagedBuffer_get_slot_based_length sizeof_DriftExact slot_size) slot_size"

definition DriftExact_preset :: "DriftExact option \<Rightarrow> DriftExact option" where
  "DriftExact_preset drift = map_option (\<lambda>e. fst (DriftExact_clear e)) drift"

definition DriftExact_words :: "(real \<Rightarrow> u64) \<Rightarrow> DriftExact \<Rightarrow> u64 list" where
  "DriftExact_words bits_of e =
     [bits_of (DriftExact_length e)]"

definition DriftExact_of :: "(u64 \<Rightarrow> real) \<Rightarrow> u64 list \<Rightarrow> DriftExact" where
  "DriftExact_of real_of ws =
     \<lparr>DriftExact_length = real_of (ws ! 0)\<rparr>"

definition DriftExact_const_from_obj_index :: "mem \<Rightarrow> u64 \<Rightarrow> u64" where
  "DriftExact_const_from_obj_index m obj =
     (if obj \<noteq> 0 \<and> Object_get_type_id m obj = OBJECT_TYPE_DRIFT_EXACT \<and> Object_get_size m obj \<ge> sizeof_DriftExact
      then Object_get_begin_addr m obj else 0)"

definition DriftExact_from_obj_index :: "mem \<Rightarrow> u64 \<Rightarrow> u64" where
  "DriftExact_from_obj_index m obj = DriftExact_const_from_obj_index m obj"

definition DriftExact_const_from_managed_buffer :: "mem \<Rightarrow> u64 \<Rightarrow> u64 \<Rightarrow> u64 \<Rightarrow> u64" where
  "DriftExact_const_from_managed_buffer m buffer_begin index slot_size =
     DriftExact_const_from_obj_index m (ManagedBuffer_get_const_object m buffer_begin index slot_size)"

definition DriftExact_const_from_buffer :: "mem \<Rightarrow> Buffer \<Rightarrow> u64 \<Rightarrow> u64" where
  "DriftExact_const_from_buffer m buffer index = DriftExact_const_from_obj_index m (Buffer_get_const_object m buffer index)"

definition DriftExact_from_managed_buffer :: "mem \<Rightarrow> u64 \<Rightarrow> u64 \<Rightarrow> u64 \<Rightarrow> u64" where
  "DriftExact_from_managed_buffer m buffer_begin index slot_size =
     DriftExact_from_obj_index m (ManagedBuffer_get_object m buffer_begin index slot_size)"

definition DriftExact_from_buffer :: "mem \<Rightarrow> Buffer \<Rightarrow> u64 \<Rightarrow> u64" where
  "DriftExact_from_buffer m buffer index = DriftExact_from_obj_index m (Buffer_get_object m buffer index)"

definition DriftExact_attributes_offsets :: "u64 list \<Rightarrow> u64 \<Rightarrow> u64 list \<times> arch_status" where
  "DriftExact_attributes_offsets offsets slot_size = (if slot_size > 0 then map (\<lambda>_. 0) offsets else offsets, 0)"

definition DriftExact_attributes_sizes :: "u64 list \<Rightarrow> u64 \<Rightarrow> u64 list \<times> arch_status" where
  "DriftExact_attributes_sizes sizes slot_size = (if slot_size > 0 then map (\<lambda>_. 0) sizes else sizes, 0)"

definition DriftExact_attributes_counts :: "u64 list \<Rightarrow> u64 \<Rightarrow> u64 list \<times> arch_status" where
  "DriftExact_attributes_counts counts slot_size = (if slot_size > 0 then map (\<lambda>_. 0) counts else counts, 0)"

definition DriftExact_can_be_added :: "DriftExact \<Rightarrow> mem \<Rightarrow> Buffer \<Rightarrow> bool \<times> (u64 \<times> u64 \<times> u64) option" where
  "DriftExact_can_be_added temp m buffer =
     (let (temp, status) = DriftExact_clear temp
      in if status = 0 \<and> DriftExact_num_dataptrs = 0 then Buffer_can_add_object m buffer sizeof_DriftExact [] else (False, None))"

definition DriftExact_new :: "(real \<Rightarrow> u64) \<Rightarrow> DriftExact \<Rightarrow> mem \<Rightarrow> u64 \<Rightarrow> u64 \<Rightarrow> MemPool \<Rightarrow> Buffer \<Rightarrow> mem \<times> MemPool \<times> Buffer \<times> u64" where
  "DriftExact_new bits_of temp m stack new_memory mem_pool buffer =
     (let (temp, status) = DriftExact_clear temp
      in if DriftExact_num_dataptrs = 0 \<and> status = 0 then
           add_from_stack m stack new_memory mem_pool buffer (DriftExact_words bits_of temp) sizeof_DriftExact DriftExact_type_id []
         else (m, mem_pool, buffer, 0))"

definition DriftExact_add :: "(real \<Rightarrow> u64) \<Rightarrow> DriftExact \<Rightarrow> mem \<Rightarrow> u64 \<Rightarrow> u64 \<Rightarrow> MemPool \<Rightarrow> Buffer \<Rightarrow> real \<Rightarrow> mem \<times> MemPool \<times> Buffer \<times> u64" where
  "DriftExact_add bits_of temp m stack new_memory mem_pool buffer len =
     (let (temp, status1) = DriftExact_set_length temp len
      in if DriftExact_num_dataptrs = 0 \<and> (status1) = 0 then
           add_from_stack m stack new_memory mem_pool buffer (DriftExact_words bits_of temp) sizeof_DriftExact DriftExact_type_id []
         else (m, mem_pool, buffer, 0))"

definition DriftExact_add_copy :: "mem \<Rightarrow> u64 \<Rightarrow> MemPool \<Rightarrow> Buffer \<Rightarrow> u64 \<Rightarrow> mem \<times> MemPool \<times> Buffer \<times> u64" where
  "DriftExact_add_copy m new_memory mem_pool buffer orig =
     (if orig \<noteq> 0 \<and> DriftExact_num_dataptrs = 0 then
        place_object m new_memory mem_pool buffer orig sizeof_DriftExact DriftExact_type_id []
      else (m, mem_pool, buffer, 0))"

subsection \<open>Shifts, rotations and dipole edges\<close>

definition OBJECT_TYPE_XYSHIFT :: "u64" where
  "OBJECT_TYPE_XYSHIFT = 6"

definition sizeof_XYShift :: "u64" where
  "sizeof_XYShift = 16"

definition XYShift_type_id :: "u64" where
  "XYShift_type_id = OBJECT_TYPE_XYSHIFT"

definition XYShift_num_dataptrs :: "u64" where
  "XYShift_num_dataptrs = 0"

definition XYShift_num_slots :: "u64 \<Rightarrow> u64" where
  "XYShift_num_slots slot_size = slots_for (ManagedBuffer_get_slot_based_length sizeof_XYShift slot_size) slot_size"

definition XYShift_preset :: "XYShift option \<Rightarrow> XYShift option" where
  "XYShift_preset xyshift = map_option (\<lambda>e. fst (XYShift_clear e)) xyshift"

definition XYShift_words :: "(real \<Rightarrow> u64) \<Rightarrow> XYShift \<Rightarrow> u64 list" where
  "XYShift_words bits_of e =
     [bits_of (XYShift_dx e), bits_of (XYShift_dy e)]"

definition XYShift_of :: "(u64 \<Rightarrow> real) \<Rightarrow> u64 list \<Rightarrow> XYShift" where
  "XYShift_of real_of ws =
     \<lparr>XYShift_dx = real_of (ws ! 0), XYShift_dy = real_of (ws ! 1)\<rparr>"

definition XYShift_const_from_obj_index :: "mem \<Rightarrow> u64 \<Rightarrow> u64" where
  "XYShift_const_from_obj_index m obj =
     (if obj \<noteq> 0 \<and> Object_get_type_id m obj = OBJECT_TYPE_XYSHIFT \<and> Object_get_size m obj \<ge> sizeof_XYShift
      then Object_get_begin_addr m obj else 0)"

definition XYShift_from_obj_index :: "mem \<Rightarrow> u64 \<Rightarrow> u64" where
  "XYShift_from_obj_index m obj = XYShift_const_from_obj_index m obj"

definition XYShift_const_from_managed_buffer :: "mem \<Rightarrow> u64 \<Rightarrow> u64 \<Rightarrow> u64 \<Rightarrow> u64" where
  "XYShift_const_from_managed_buffer m buffer_begin index slot_size =
     XYShift_const_from_obj_index m (ManagedBuffer_get_const_object m buffer_begin index slot_size)"

definition XYShift_const_from_buffer :: "mem \<Rightarrow> Buffer \<Rightarrow> u64 \<Rightarrow> u64" where
  "XYShift_const_from_buffer m buffer index = XYShift_const_from_obj_index m (Buffer_get_const_object m buffer index)"

definition XYShift_from_managed_buffer :: "mem \<Rightarrow> u64 \<Rightarrow> u64 \<Rightarrow> u64 \<Rightarrow> u64" where
  "XYShift_from_managed_buffer m buffer_begin index slot_size =
     XYShift_from_obj_index m (ManagedBuffer_get_object m buffer_begin index slot_size)"

definition XYShift_from_buffer :: "mem \<Rightarrow> Buffer \<Rightarrow> u64 \<Rightarrow> u64" where
  "XYShift_from_buffer m buffer index = XYShift_from_obj_index m (Buffer_get_object m buffer index)"

definition XYShift_attributes_offsets :: "u64 list \<Rightarrow> u64 \<Rightarrow> u64 list \<times> arch_status" where
  "XYShift_attributes_offsets offsets slot_size = (map (\<lambda>_. 0) offsets, 0)"

definition XYShift_attributes_sizes :: "u64 list \<Rightarrow> u64 \<Rightarrow> u64 list \<times> arch_status" where
  "XYShift_attributes_sizes sizes slot_size = (map (\<lambda>_. 0) sizes, 0)"

definition XYShift_attributes_counts :: "u64 list \<Rightarrow> u64 \<Rightarrow> u64 list \<times> arch_status" where
  "XYShift_attributes_counts counts slot_size = (map (\<lambda>_. 0) counts, 0)"

definition XYShift_can_be_added :: "XYShift \<Rightarrow> mem \<Rightarrow> Buffer \<Rightarrow> bool \<times> (u64 \<times> u64 \<times> u64) option" where
  "XYShift_can_be_added temp m buffer =
     (let (temp, status) = XYShift_clear temp
      in if status = 0 \<and> XYShift_num_dataptrs = 0 then Buffer_can_add_object m buffer sizeof_XYShift [] else (False, None))"

definition XYShift_new :: "(real \<Rightarrow> u64) \<Rightarrow> XYShift \<Rightarrow> mem \<Rightarrow> u64 \<Rightarrow> u64 \<Rightarrow> MemPool \<Rightarrow> Buffer \<Rightarrow> mem \<times> MemPool \<times> Buffer \<times> u64" where
  "XYShift_new bits_of temp m stack new_memory mem_pool buffer =
     (let (temp, status) = XYShift_clear temp
      in if XYShift_num_dataptrs = 0 \<and> status = 0 then
           add_from_stack m stack new_memory mem_pool buffer (XYShift_words bits_of temp) sizeof_XYShift XYShift_type_id []
         else (m, mem_pool, buffer, 0))"

definition XYShift_add :: "(real \<Rightarrow> u64) \<Rightarrow> XYShift \<Rightarrow> mem \<Rightarrow> u64 \<Rightarrow> u64 \<Rightarrow> MemPool \<Rightarrow> Buffer \<Rightarrow> real \<Rightarrow> real \<Rightarrow> mem \<times> MemPool \<times> Buffer \<times> u64" where
  "XYShift_add bits_of temp m stack new_memory mem_pool buffer dx dy =
     (let (temp, status1) = XYShift_set_dx temp dx;
          (temp, status2) = XYShift_set_dy temp dy
      in if XYShift_num_dataptrs = 0 \<and> (status1 OR status2) = 0 then
           add_from_stack m stack new_memory mem_pool buffer (XYShift_words bits_of temp) sizeof_XYShift XYShift_type_id []
         else (m, mem_pool, buffer, 0))"

definition XYShift_add_copy :: "mem \<Rightarrow> u64 \<Rightarrow> MemPool \<Rightarrow> Buffer \<Rightarrow> u64 \<Rightarrow> mem \<times> MemPool \<times> Buffer \<times> u64" where
  "XYShift_add_copy m new_memory mem_pool buffer orig =
     (if orig \<noteq> 0 \<and> XYShift_num_dataptrs = 0 then
        place_object m new_memory mem_pool buffer orig sizeof_XYShift XYShift_type_id []
      else (m, mem_pool, buffer, 0))"

definition OBJECT_TYPE_SROTATION :: "u64" where
  "OBJECT_TYPE_SROTATION = 7"

definition sizeof_SRotation :: "u64" where
  "sizeof_SRotation = 16"

definition SRotation_type_id :: "u64" where
  "SRotation_type_id = OBJECT_TYPE_SROTATION"

definition SRotation_num_dataptrs :: "u64" where
  "SRotation_num_dataptrs = 0"

definition SRotation_num_slots :: "u64 \<Rightarrow> u64" where
  "SRotation_num_slots slot_size =
     (if slot_size > 0 then slots_for (ManagedBuffer_get_slot_based_length sizeof_SRotation slot_size) slot_size else 0)"

definition SRotation_preset :: "SRotation option \<Rightarrow> SRotation option" where
  "SRotation_preset srot = map_option (\<lambda>e. fst (SRotation_clear e)) srot"

definition SRotation_words :: "(real \<Rightarrow> u64) \<Rightarrow> SRotation \<Rightarrow> u64 list" where
  "SRotation_words bits_of e =
     [bits_of (SRotation_cos_angle e), bits_of (SRotation_sin_angle e)]"

definition SRotation_of :: "(u64 \<Rightarrow> real) \<Rightarrow> u64 list \<Rightarrow> SRotation" where
  "SRotation_of real_of ws =
     \<lparr>SRotation_cos_angle = real_of (ws ! 0), SRotation_sin_angle = real_of (ws ! 1)\<rparr>"

definition SRotation_const_from_obj_index :: "mem \<Rightarrow> u64 \<Rightarrow> u64" where
  "SRotation_const_from_obj_index m obj =
     (if obj \<noteq> 0 \<and> Object_get_type_id m obj = OBJECT_TYPE_SROTATION \<and> Object_get_size m obj \<ge> sizeof_SRotation
      then Object_get_begin_addr m obj else 0)"

definition SRotation_from_obj_index :: "mem \<Rightarrow> u64 \<Rightarrow> u64" where
  "SRotation_from_obj_index m obj = SRotation_const_from_obj_index m obj"

definition SRotation_const_from_manged_buffer :: "mem \<Rightarrow> u64 \<Rightarrow> u64 \<Rightarrow> u64 \<Rightarrow> u64" where
  "SRotation_const_from_manged_buffer m buffer_begin index slot_size =
     SRotation_const_from_obj_index m (ManagedBuffer_get_const_object m buffer_begin index slot_size)"

definition SRotation_const_from_buffer :: "mem \<Rightarrow> Buffer \<Rightarrow> u64 \<Rightarrow> u64" where
  "SRotation_const_from_buffer m buffer index = SRotation_const_from_obj_index m (Buffer_get_const_object m buffer index)"

definition SRotation_from_manged_buffer :: "mem \<Rightarrow> u64 \<Rightarrow> u64 \<Rightarrow> u64 \<Rightarrow> u64" where
  "SRotation_from_manged_buffer m buffer_begin index slot_size =
     SRotation_from_obj_index m (ManagedBuffer_get_object m buffer_begin index slot_size)"

definition SRotation_from_buffer :: "mem \<Rightarrow> Buffer \<Rightarrow> u64 \<Rightarrow> u64" where
  "SRotation_from_buffer m buffer index = SRotation_from_obj_index m (Buffer_get_object m buffer index)"

definition SRotation_attributes_offsets :: "u64 list \<Rightarrow> u64 \<Rightarrow> u64 list \<times> arch_status" where
  "SRotation_attributes_offsets offsets slot_size = (if slot_size > 0 then map (\<lambda>_. 0) offsets else offsets, 0)"

definition SRotation_attributes_sizes :: "u64 list \<Rightarrow> u64 \<Rightarrow> u64 list \<times> arch_status" where
  "SRotation_attributes_sizes sizes slot_size = (if slot_size > 0 then map (\<lambda>_. 0) sizes else sizes, 0)"

definition SRotation_attributes_counts :: "u64 list \<Rightarrow> u64 \<Rightarrow> u64 list \<times> arch_status" where
  "SRotation_attributes_counts counts slot_size = (if slot_size > 0 then map (\<lambda>_. 0) counts else counts, 0)"

definition SRotation_can_be_added :: "SRotation \<Rightarrow> mem \<Rightarrow> Buffer \<Rightarrow> bool \<times> (u64 \<times> u64 \<times> u64) option" where
  "SRotation_can_be_added temp m buffer =
     (let (temp, status) = SRotation_clear temp
      in if status = 0 \<and> SRotation_num_dataptrs = 0 then Buffer_can_add_object m buffer sizeof_SRotation [] else (False, None))"

definition SRotation_new :: "(real \<Rightarrow> u64) \<Rightarrow> SRotation \<Rightarrow> mem \<Rightarrow> u64 \<Rightarrow> u64 \<Rightarrow> MemPool \<Rightarrow> Buffer \<Rightarrow> mem \<times> MemPool \<times> Buffer \<times> u64" where
  "SRotation_new bits_of temp m stack new_memory mem_pool buffer =
     (let (temp, status) = SRotation_clear temp
      in if SRotation_num_dataptrs = 0 \<and> status = 0 then
           add_from_stack m stack new_memory mem_pool buffer (SRotation_words bits_of temp) sizeof_SRotation SRotation_type_id []
         else (m, mem_pool, buffer, 0))"

definition SRotation_add :: "(real \<Rightarrow> u64) \<Rightarrow> SRotation \<Rightarrow> mem \<Rightarrow> u64 \<Rightarrow> u64 \<Rightarrow> MemPool \<Rightarrow> Buffer \<Rightarrow> real \<Rightarrow> real \<Rightarrow> mem \<times> MemPool \<times> Buffer \<times> u64" where
  "SRotation_add bits_of temp m stack new_memory mem_pool buffer cos_angle sin_angle =
     (let (temp, status1) = SRotation_set_cos_angle temp cos_angle;
          (temp, status2) = SRotation_set_sin_angle temp sin_angle
      in if SRotation_num_dataptrs = 0 \<and> (status1 OR status2) = 0 then
           add_from_stack m stack new_memory mem_pool buffer (SRotation_words bits_of temp) sizeof_SRotation SRotation_type_id []
         else (m, mem_pool, buffer, 0))"

definition SRotation_add_copy :: "mem \<Rightarrow> u64 \<Rightarrow> MemPool \<Rightarrow> Buffer \<Rightarrow> u64 \<Rightarrow> mem \<times> MemPool \<times> Buffer \<times> u64" where
  "SRotation_add_copy m new_memory mem_pool buffer orig =
     (if orig \<noteq> 0 \<and> SRotation_num_dataptrs = 0 then
        place_object m new_memory mem_pool buffer orig sizeof_SRotation SRotation_type_id []
      else (m, mem_pool, buffer, 0))"

definition OBJECT_TYPE_DIPEDGE :: "u64" where
  "OBJECT_TYPE_DIPEDGE = 24"

definition sizeof_DipoleEdge :: "u64" where
  "sizeof_DipoleEdge = 16"

definition DipoleEdge_type_id :: "u64" where
  "DipoleEdge_type_id = OBJECT_TYPE_DIPEDGE"

definition DipoleEdge_num_dataptrs :: "u64" where
  "DipoleEdge_num_dataptrs = 0"

definition DipoleEdge_num_slots :: "u64 \<Rightarrow> u64" where
  "DipoleEdge_num_slots slot_size = slots_for (ManagedBuffer_get_slot_based_length sizeof_DipoleEdge slot_size) slot_size"

definition DipoleEdge_preset :: "DipoleEdge option \<Rightarrow> DipoleEdge option" where
  "DipoleEdge_preset dipedge = map_option (\<lambda>e. fst (DipoleEdge_clear e)) dipedge"

definition DipoleEdge_words :: "(real \<Rightarrow> u64) \<Rightarrow> DipoleEdge \<Rightarrow> u64 list" where
  "DipoleEdge_words bits_of e =
     [bits_of (DipoleEdge_r21 e), bits_of (DipoleEdge_r43 e)]"

definition DipoleEdge_of :: "(u64 \<Rightarrow> real) \<Rightarrow> u64 list \<Rightarrow> DipoleEdge" where
  "DipoleEdge_of real_of ws =
     \<lparr>DipoleEdge_r21 = real_of (ws ! 0), DipoleEdge_r43 = real_of (ws ! 1)\<rparr>"

definition DipoleEdge_const_from_obj_index :: "mem \<Rightarrow> u64 \<Rightarrow> u64" where
  "DipoleEdge_const_from_obj_index m obj =
     (if obj \<noteq> 0 \<and> Object_get_type_id m obj = OBJECT_TYPE_DIPEDGE \<and> Object_get_size m obj \<ge> sizeof_DipoleEdge
      then Object_get_begin_addr m obj else 0)"

definition DipoleEdge_from_obj_index :: "mem \<Rightarrow> u64 \<Rightarrow> u64" where
  "DipoleEdge_from_obj_index m obj = DipoleEdge_const_from_obj_index m obj"

definition DipoleEdge_const_from_managed_buffer :: "mem \<Rightarrow> u64 \<Rightarrow> u64 \<Rightarrow> u64 \<Rightarrow> u64" where
  "DipoleEdge_const_from_managed_buffer m buffer_begin index slot_size =
     DipoleEdge_const_from_obj_index m (ManagedBuffer_get_const_object m buffer_begin index slot_size)"

definition DipoleEdge_const_from_buffer :: "mem \<Rightarrow> Buffer \<Rightarrow> u64 \<Rightarrow> u64" where
  "DipoleEdge_const_from_buffer m buffer index = DipoleEdge_const_from_obj_index m (Buffer_get_const_object m buffer index)"

definition DipoleEdge_from_managed_buffer :: "mem \<Rightarrow> u64 \<Rightarrow> u64 \<Rightarrow> u64 \<Rightarrow> u64" where
  "DipoleEdge_from_managed_buffer m buffer_begin index slot_size =
     DipoleEdge_from_obj_index m (ManagedBuffer_get_object m buffer_begin index slot_size)"

definition DipoleEdge_from_buffer :: "mem \<Rightarrow> Buffer \<Rightarrow> u64 \<Rightarrow> u64" where
  "DipoleEdge_from_buffer m buffer index = DipoleEdge_from_obj_index m (Buffer_get_object m buffer index)"

definition DipoleEdge_attributes_offsets :: "u64 list \<Rightarrow> u64 \<Rightarrow> u64 list \<times> arch_status" where
  "DipoleEdge_attributes_offsets offsets slot_size = (if slot_size > 0 then map (\<lambda>_. 0) offsets else offsets, 0)"

definition DipoleEdge_attributes_sizes :: "u64 list \<Rightarrow> u64 \<Rightarrow> u64 list \<times> arch_status" where
  "DipoleEdge_attributes_sizes sizes slot_size = (if slot_size > 0 then map (\<lambda>_. 0) sizes else sizes, 0)"

definition DipoleEdge_attributes_counts :: "u64 list \<Rightarrow> u64 \<Rightarrow> u64 list \<times> arch_status" where
  "DipoleEdge_attributes_counts counts slot_size = (if slot_size > 0 then map (\<lambda>_. 0) counts else counts, 0)"

definition DipoleEdge_can_be_added :: "mem \<Rightarrow> Buffer \<Rightarrow> bool \<times> (u64 \<times> u64 \<times> u64) option" where
  "DipoleEdge_can_be_added m buffer = Buffer_can_add_object m buffer sizeof_DipoleEdge []"

definition DipoleEdge_new :: "(real \<Rightarrow> u64) \<Rightarrow> DipoleEdge \<Rightarrow> mem \<Rightarrow> u64 \<Rightarrow> u64 \<Rightarrow> MemPool \<Rightarrow> Buffer \<Rightarrow> mem \<times> MemPool \<times> Buffer \<times> u64" where
  "DipoleEdge_new bits_of temp m stack new_memory mem_pool buffer =
     (let (temp, status) = DipoleEdge_clear temp
      in if DipoleEdge_num_dataptrs = 0 \<and> status = 0 then
           add_from_stack m stack new_memory mem_pool buffer (DipoleEdge_words bits_of temp) sizeof_DipoleEdge DipoleEdge_type_id []
         else (m, mem_pool, buffer, 0))"

definition DipoleEdge_add :: "(real \<Rightarrow> u64) \<Rightarrow> DipoleEdge \<Rightarrow> mem \<Rightarrow> u64 \<Rightarrow> u64 \<Rightarrow> MemPool \<Rightarrow> Buffer \<Rightarrow> real \<Rightarrow> real \<Rightarrow> mem \<times> MemPool \<times> Buffer \<times> u64" where
  "DipoleEdge_add bits_of temp m stack new_memory mem_pool buffer r21 r43 =
     (let (temp, status1) = DipoleEdge_set_r21 temp r21;
          (temp, status2) = DipoleEdge_set_r43 temp r43
      in if DipoleEdge_num_dataptrs = 0 \<and> (status1 OR status2) = 0 then
           add_from_stack m stack new_memory mem_pool buffer (DipoleEdge_words bits_of temp) sizeof_DipoleEdge DipoleEdge_type_id []
         else (m, mem_pool, buffer, 0))"

definition DipoleEdge_add_copy :: "mem \<Rightarrow> u64 \<Rightarrow> MemPool \<Rightarrow> Buffer \<Rightarrow> u64 \<Rightarrow> mem \<times> MemPool \<times> Buffer \<times> u64" where
  "DipoleEdge_add_copy m new_memory mem_pool buffer orig =
     (if orig \<noteq> 0 \<and> DipoleEdge_num_dataptrs = 0 then
        place_object m new_memory mem_pool buffer orig sizeof_DipoleEdge DipoleEdge_type_id []
      else (m, mem_pool, buffer, 0))"

subsection \<open>Cavities\<close>

definition OBJECT_TYPE_CAVITY :: "u64" where
  "OBJECT_TYPE_CAVITY = 5"

definition sizeof_Cavity :: "u64" where
  "sizeof_Cavity = 24"

definition Cavity_type_id :: "u64" where
  "Cavity_type_id = OBJECT_TYPE_CAVITY"

definition Cavity_num_dataptrs :: "u64" where
  "Cavity_num_dataptrs = 0"

definition Cavity_num_slots :: "u64 \<Rightarrow> u64" where
  "Cavity_num_slots slot_size = slots_for (ManagedBuffer_get_slot_based_length sizeof_Cavity slot_size) slot_size"

definition Cavity_preset :: "Cavity option \<Rightarrow> Cavity option" where
  "Cavity_preset cavity = map_option (\<lambda>e. fst (Cavity_clear e)) cavity"

definition Cavity_words :: "(real \<Rightarrow> u64) \<Rightarrow> Cavity \<Rightarrow> u64 list" where
  "Cavity_words bits_of e =
     [bits_of (Cavity_voltage e), bits_of (Cavity_frequency e), bits_of (Cavity_lag e)]"

definition Cavity_of :: "(u64 \<Rightarrow> real) \<Rightarrow> u64 list \<Rightarrow> Cavity" where
  "Cavity_of real_of ws =
     \<lparr>Cavity_voltage = real_of (ws ! 0), Cavity_frequency = real_of (ws ! 1), Cavity_lag = real_of (ws ! 2)\<rparr>"

definition Cavity_const_from_obj_index :: "mem \<Rightarrow> u64 \<Rightarrow> u64" where
  "Cavity_const_from_obj_index m obj =
     (if obj \<noteq> 0 \<and> Object_get_type_id m obj = OBJECT_TYPE_CAVITY \<and> Object_get_size m obj \<ge> sizeof_Cavity
      then Object_get_begin_addr m obj else 0)"

definition Cavity_from_obj_index :: "mem \<Rightarrow> u64 \<Rightarrow> u64" where
  "Cavity_from_obj_index m obj = Cavity_const_from_obj_index m obj"

definition Cavity_const_from_manged_buffer :: "mem \<Rightarrow> u64 \<Rightarrow> u64 \<Rightarrow> u64 \<Rightarrow> u64" where
  "Cavity_const_from_manged_buffer m buffer_begin index slot_size =
     Cavity_const_from_obj_index m (ManagedBuffer_get_const_object m buffer_begin index slot_size)"

definition Cavity_const_from_buffer :: "mem \<Rightarrow> Buffer \<Rightarrow> u64 \<Rightarrow> u64" where
  "Cavity_const_from_buffer m buffer index = Cavity_const_from_obj_index m (Buffer_get_const_object m buffer index)"

definition Cavity_from_manged_buffer :: "mem \<Rightarrow> u64 \<Rightarrow> u64 \<Rightarrow> u64 \<Rightarrow> u64" where
  "Cavity_from_manged_buffer m buffer_begin index slot_size =
     Cavity_from_obj_index m (ManagedBuffer_get_object m buffer_begin index slot_size)"

definition Cavity_from_buffer :: "mem \<Rightarrow> Buffer \<Rightarrow> u64 \<Rightarrow> u64" where
  "Cavity_from_buffer m buffer index = Cavity_from_obj_index m (Buffer_get_object m buffer index)"

definition Cavity_attributes_offsets :: "u64 list \<Rightarrow> u64 \<Rightarrow> u64 list \<times> arch_status" where
  "Cavity_attributes_offsets offsets slot_size = (if slot_size > 0 then map (\<lambda>_. 0) offsets else offsets, 0)"

definition Cavity_attributes_sizes :: "u64 list \<Rightarrow> u64 \<Rightarrow> u64 list \<times> arch_status" where
  "Cavity_attributes_sizes sizes slot_size = (if slot_size > 0 then map (\<lambda>_. 0) sizes else sizes, 0)"

definition Cavity_attributes_counts :: "u64 list \<Rightarrow> u64 \<Rightarrow> u64 list \<times> arch_status" where
  "Cavity_attributes_counts counts slot_size = (if slot_size > 0 then map (\<lambda>_. 0) counts else counts, 0)"

definition Cavity_can_be_added :: "Cavity \<Rightarrow> mem \<Rightarrow> Buffer \<Rightarrow> bool \<times> (u64 \<times> u64 \<times> u64) option" where
  "Cavity_can_be_added temp m buffer =
     (let (temp, status) = Cavity_clear temp
      in if status = 0 \<and> Cavity_num_dataptrs = 0 then Buffer_can_add_object m buffer sizeof_Cavity [] else (False, None))"

definition Cavity_new :: "(real \<Rightarrow> u64) \<Rightarrow> Cavity \<Rightarrow> mem \<Rightarrow> u64 \<Rightarrow> u64 \<Rightarrow> MemPool \<Rightarrow> Buffer \<Rightarrow> mem \<times> MemPool \<times> Buffer \<times> u64" where
  "Cavity_new bits_of temp m stack new_memory mem_pool buffer =
     (let (temp, status) = Cavity_clear temp
      in if Cavity_num_dataptrs = 0 \<and> status = 0 then
           add_from_stack m stack new_memory mem_pool buffer (Cavity_words bits_of temp) sizeof_Cavity Cavity_type_id []
         else (m, mem_pool, buffer, 0))"

definition Cavity_add :: "(real \<Rightarrow> u64) \<Rightarrow> Cavity \<Rightarrow> mem \<Rightarrow> u64 \<Rightarrow> u64 \<Rightarrow> MemPool \<Rightarrow> Buffer \<Rightarrow> real \<Rightarrow> real \<Rightarrow> real \<Rightarrow> mem \<times> MemPool \<times> Buffer \<times> u64" where
  "Cavity_add bits_of temp m stack new_memory mem_pool buffer voltage frequency lag =
     (let (temp, status1) = Cavity_set_voltage temp voltage;
          (temp, status2) = Cavity_set_frequency temp frequency;
          (temp, status3) = Cavity_set_lag temp lag
      in if Cavity_num_dataptrs = 0 \<and> (status1 OR status2 OR status3) = 0 then
           add_from_stack m stack new_memory mem_pool buffer (Cavity_words bits_of temp) sizeof_Cavity Cavity_type_id []
         else (m, mem_pool, buffer, 0))"

definition Cavity_add_copy :: "mem \<Rightarrow> u64 \<Rightarrow> MemPool \<Rightarrow> Buffer \<Rightarrow> u64 \<Rightarrow> mem \<times> MemPool \<times> Buffer \<times> u64" where
  "Cavity_add_copy m new_memory mem_pool buffer orig =
     (if orig \<noteq> 0 \<and> Cavity_num_dataptrs = 0 then
        place_object m new_memory mem_pool buffer orig sizeof_Cavity Cavity_type_id []
      else (m, mem_pool, buffer, 0))"

subsection \<open>Apertures\<close>

definition OBJECT_TYPE_LIMIT_RECT :: "u64" where
  "OBJECT_TYPE_LIMIT_RECT = 11"

definition sizeof_LimitRect :: "u64" where
  "sizeof_LimitRect = 32"

definition LimitRect_type_id :: "u64" where
  "LimitRect_type_id = OBJECT_TYPE_LIMIT_RECT"

definition LimitRect_num_dataptrs :: "u64" where
  "LimitRect_num_dataptrs = 0"

definition LimitRect_num_slots :: "u64 \<Rightarrow> u64 \<Rightarrow> u64" where
  "LimitRect_num_slots limit slot_size =
     (if limit \<noteq> 0 \<and> slot_size > 0 then slots_for (ManagedBuffer_get_slot_based_length sizeof_LimitRect slot_size) slot_size else 0)"

definition LimitRect_preset :: "LimitRect option \<Rightarrow> LimitRect option" where
  "LimitRect_preset limit = map_option (\<lambda>e. fst (LimitRect_clear e)) limit"

definition LimitRect_words :: "(real \<Rightarrow> u64) \<Rightarrow> LimitRect \<Rightarrow> u64 list" where
  "LimitRect_words bits_of e =
     [bits_of (LimitRect_min_x e), bits_of (LimitRect_max_x e), bits_of (LimitRect_min_y e), bits_of (LimitRect_max_y e)]"

definition LimitRect_of :: "(u64 \<Rightarrow> real) \<Rightarrow> u64 list \<Rightarrow> LimitRect" where
  "LimitRect_of real_of ws =
     \<lparr>LimitRect_min_x = real_of (ws ! 0), LimitRect_max_x = real_of (ws ! 1), LimitRect_min_y = real_of (ws ! 2), LimitRect_max_y = real_of (ws ! 3)\<rparr>"

definition LimitRect_const_from_obj_index :: "mem \<Rightarrow> u64 \<Rightarrow> u64" where
  "LimitRect_const_from_obj_index m obj =
     (if obj \<noteq> 0 \<and> Object_get_type_id m obj = OBJECT_TYPE_LIMIT_RECT \<and> Object_get_size m obj \<ge> sizeof_LimitRect
      then Object_get_begin_addr m obj else 0)"

definition LimitRect_from_obj_index :: "mem \<Rightarrow> u64 \<Rightarrow> u64" where
  "LimitRect_from_obj_index m obj = LimitRect_const_from_obj_index m obj"

definition LimitRect_const_from_managed_buffer :: "mem \<Rightarrow> u64 \<Rightarrow> u64 \<Rightarrow> u64 \<Rightarrow> u64" where
  "LimitRect_const_from_managed_buffer m buffer_begin index slot_size =
     LimitRect_const_from_obj_index m (ManagedBuffer_get_const_object m buffer_begin index slot_size)"

definition LimitRect_const_from_buffer :: "mem \<Rightarrow> Buffer \<Rightarrow> u64 \<Rightarrow> u64" where
  "LimitRect_const_from_buffer m buffer index = LimitRect_const_from_obj_index m (Buffer_get_const_object m buffer index)"

definition LimitRect_from_managed_buffer :: "mem \<Rightarrow> u64 \<Rightarrow> u64 \<Rightarrow> u64 \<Rightarrow> u64" where
  "LimitRect_from_managed_buffer m buffer_begin index slot_size =
     LimitRect_from_obj_index m (ManagedBuffer_get_object m buffer_begin index slot_size)"

definition LimitRect_from_buffer :: "mem \<Rightarrow> Buffer \<Rightarrow> u64 \<Rightarrow> u64" where
  "LimitRect_from_buffer m buffer index = LimitRect_from_obj_index m (Buffer_get_object m buffer index)"

definition LimitRect_attributes_offsets :: "u64 list \<Rightarrow> u64 \<Rightarrow> u64 list \<times> arch_status" where
  "LimitRect_attributes_offsets offsets slot_size = (if slot_size > 0 then map (\<lambda>_. 0) offsets else offsets, 0)"

definition LimitRect_attributes_sizes :: "u64 list \<Rightarrow> u64 \<Rightarrow> u64 list \<times> arch_status" where
  "LimitRect_attributes_sizes sizes slot_size = (if slot_size > 0 then map (\<lambda>_. 0) sizes else sizes, 0)"

definition LimitRect_attributes_counts :: "u64 list \<Rightarrow> u64 \<Rightarrow> u64 list \<times> arch_status" where
  "LimitRect_attributes_counts counts slot_size = (if slot_size > 0 then map (\<lambda>_. 0) counts else counts, 0)"

definition LimitRect_can_be_added :: "LimitRect \<Rightarrow> mem \<Rightarrow> Buffer \<Rightarrow> bool \<times> (u64 \<times> u64 \<times> u64) option" where
  "LimitRect_can_be_added temp m buffer =
     (let (temp, status) = LimitRect_clear temp
      in if status = 0 \<and> LimitRect_num_dataptrs = 0 then Buffer_can_add_object m buffer sizeof_LimitRect [] else (False, None))"

definition LimitRect_new :: "(real \<Rightarrow> u64) \<Rightarrow> LimitRect \<Rightarrow> mem \<Rightarrow> u64 \<Rightarrow> u64 \<Rightarrow> MemPool \<Rightarrow> Buffer \<Rightarrow> mem \<times> MemPool \<times> Buffer \<times> u64" where
  "LimitRect_new bits_of temp m stack new_memory mem_pool buffer =
     (let (temp, status) = LimitRect_clear temp
      in if LimitRect_num_dataptrs = 0 \<and> status = 0 then
           add_from_stack m stack new_memory mem_pool buffer (LimitRect_words bits_of temp) sizeof_LimitRect LimitRect_type_id []
         else (m, mem_pool, buffer, 0))"

definition LimitRect_add :: "(real \<Rightarrow> u64) \<Rightarrow> LimitRect \<Rightarrow> mem \<Rightarrow> u64 \<Rightarrow> u64 \<Rightarrow> MemPool \<Rightarrow> Buffer \<Rightarrow> real \<Rightarrow> real \<Rightarrow> real \<Rightarrow> real \<Rightarrow> mem \<times> MemPool \<times> Buffer \<times> u64" where
  "LimitRect_add bits_of temp m stack new_memory mem_pool buffer min_x max_x min_y max_y =
     (let (temp, status1) = LimitRect_set_min_x temp min_x;
          (temp, status2) = LimitRect_set_max_x temp max_x;
          (temp, status3) = LimitRect_set_min_y temp min_y;
          (temp, status4) = LimitRect_set_max_y temp max_y
      in if LimitRect_num_dataptrs = 0 \<and> (status1 OR status2 OR status3 OR status4) = 0 then
           add_from_stack m stack new_memory mem_pool buffer (LimitRect_words bits_of temp) sizeof_LimitRect LimitRect_type_id []
         else (m, mem_pool, buffer, 0))"

definition LimitRect_add_copy :: "mem \<Rightarrow> u64 \<Rightarrow> MemPool \<Rightarrow> Buffer \<Rightarrow> u64 \<Rightarrow> mem \<times> MemPool \<times> Buffer \<times> u64" where
  "LimitRect_add_copy m new_memory mem_pool buffer orig =
     (if orig \<noteq> 0 \<and> LimitRect_num_dataptrs = 0 then
        place_object m new_memory mem_pool buffer orig sizeof_LimitRect LimitRect_type_id []
      else (m, mem_pool, buffer, 0))"

definition OBJECT_TYPE_LIMIT_ELLIPSE :: "u64" where
  "OBJECT_TYPE_LIMIT_ELLIPSE = 12"

definition sizeof_LimitEllipse :: "u64" where
  "sizeof_LimitEllipse = 24"

definition LimitEllipse_type_id :: "u64" where
  "LimitEllipse_type_id = OBJECT_TYPE_LIMIT_ELLIPSE"

definition LimitEllipse_num_dataptrs :: "u64" where
  "LimitEllipse_num_dataptrs = 0"

definition LimitEllipse_num_slots :: "u64 \<Rightarrow> u64" where
  "LimitEllipse_num_slots slot_size = slots_for (ManagedBuffer_get_slot_based_length sizeof_LimitEllipse slot_size) slot_size"

definition LimitEllipse_preset :: "LimitEllipse option \<Rightarrow> LimitEllipse option" where
  "LimitEllipse_preset limit = map_option (\<lambda>e. fst (LimitEllipse_clear e)) limit"

definition LimitEllipse_words :: "(real \<Rightarrow> u64) \<Rightarrow> LimitEllipse \<Rightarrow> u64 list" where
  "LimitEllipse_words bits_of e =
     [bits_of (LimitEllipse_x_half_axis_squ e), bits_of (LimitEllipse_y_half_axis_squ e), bits_of (LimitEllipse_half_axes_product_squ e)]"

definition LimitEllipse_of :: "(u64 \<Rightarrow> real) \<Rightarrow> u64 list \<Rightarrow> LimitEllipse" where
  "LimitEllipse_of real_of ws =
     \<lparr>LimitEllipse_x_half_axis_squ = real_of (ws ! 0), LimitEllipse_y_half_axis_squ = real_of (ws ! 1), LimitEllipse_half_axes_product_squ = real_of (ws ! 2)\<rparr>"

definition LimitEllipse_const_from_obj_index :: "mem \<Rightarrow> u64 \<Rightarrow> u64" where
  "LimitEllipse_const_from_obj_index m obj =
     (if obj \<noteq> 0 \<and> Object_get_type_id m obj = OBJECT_TYPE_LIMIT_ELLIPSE \<and> Object_get_size m obj \<ge> sizeof_LimitEllipse
      then Object_get_begin_addr m obj else 0)"

definition LimitEllipse_from_obj_index :: "mem \<Rightarrow> u64 \<Rightarrow> u64" where
  "LimitEllipse_from_obj_index m obj = LimitEllipse_const_from_obj_index m obj"

definition LimitEllipse_const_from_managed_buffer :: "mem \<Rightarrow> u64 \<Rightarrow> u64 \<Rightarrow> u64 \<Rightarrow> u64" where
  "LimitEllipse_const_from_managed_buffer m buffer_begin index slot_size =
     LimitEllipse_const_from_obj_index m (ManagedBuffer_get_const_object m buffer_begin index slot_size)"

definition LimitEllipse_const_from_buffer :: "mem \<Rightarrow> Buffer \<Rightarrow> u64 \<Rightarrow> u64" where
  "LimitEllipse_const_from_buffer m buffer index = LimitEllipse_const_from_obj_index m (Buffer_get_const_object m buffer index)"

definition LimitEllipse_from_managed_buffer :: "mem \<Rightarrow> u64 \<Rightarrow> u64 \<Rightarrow> u64 \<Rightarrow> u64" where
  "LimitEllipse_from_managed_buffer m buffer_begin index slot_size =
     LimitEllipse_from_obj_index m (ManagedBuffer_get_object m buffer_begin index slot_size)"

definition LimitEllipse_from_buffer :: "mem \<Rightarrow> Buffer \<Rightarrow> u64 \<Rightarrow> u64" where
  "LimitEllipse_from_buffer m buffer index = LimitEllipse_from_obj_index m (Buffer_get_object m buffer index)"

definition LimitEllipse_attributes_offsets :: "u64 list \<Rightarrow> u64 \<Rightarrow> u64 list \<times> arch_status" where
  "LimitEllipse_attributes_offsets offsets slot_size = (if slot_size > 0 then map (\<lambda>_. 0) offsets else offsets, 0)"

definition LimitEllipse_attributes_sizes :: "u64 list \<Rightarrow> u64 \<Rightarrow> u64 list \<times> arch_status" where
  "LimitEllipse_attributes_sizes sizes slot_size = (if slot_size > 0 then map (\<lambda>_. 0) sizes else sizes, 0)"

definition LimitEllipse_attributes_counts :: "u64 list \<Rightarrow> u64 \<Rightarrow> u64 list \<times> arch_status" where
  "LimitEllipse_attributes_counts counts slot_size = (if slot_size > 0 then map (\<lambda>_. 0) counts else counts, 0)"

definition LimitEllipse_can_be_added :: "LimitEllipse \<Rightarrow> mem \<Rightarrow> Buffer \<Rightarrow> bool \<times> (u64 \<times> u64 \<times> u64) option" where
  "LimitEllipse_can_be_added temp m buffer =
     (let (temp, status) = LimitEllipse_clear temp
      in if status = 0 \<and> LimitEllipse_num_dataptrs = 0 then Buffer_can_add_object m buffer sizeof_LimitEllipse [] else (False, None))"

definition LimitEllipse_new :: "(real \<Rightarrow> u64) \<Rightarrow> LimitEllipse \<Rightarrow> mem \<Rightarrow> u64 \<Rightarrow> u64 \<Rightarrow> MemPool \<Rightarrow> Buffer \<Rightarrow> mem \<times> MemPool \<times> Buffer \<times> u64" where
  "LimitEllipse_new bits_of temp m stack new_memory mem_pool buffer =
     (let (temp, status) = LimitEllipse_clear temp
      in if LimitEllipse_num_dataptrs = 0 \<and> status = 0 then
           add_from_stack m stack new_memory mem_pool buffer (LimitEllipse_words bits_of temp) sizeof_LimitEllipse LimitEllipse_type_id []
         else (m, mem_pool, buffer, 0))"

definition LimitEllipse_add :: "(real \<Rightarrow> u64) \<Rightarrow> LimitEllipse \<Rightarrow> mem \<Rightarrow> u64 \<Rightarrow> u64 \<Rightarrow> MemPool \<Rightarrow> Buffer \<Rightarrow> real \<Rightarrow> real \<Rightarrow> mem \<times> MemPool \<times> Buffer \<times> u64" where
  "LimitEllipse_add bits_of temp m stack new_memory mem_pool buffer x_semi_axis y_semi_axis =
     (let (temp, status1) = LimitEllipse_set_half_axes temp x_semi_axis y_semi_axis
      in if LimitEllipse_num_dataptrs = 0 \<and> (status1) = 0 then
           add_from_stack m stack new_memory mem_pool buffer (LimitEllipse_words bits_of temp) sizeof_LimitEllipse LimitEllipse_type_id []
         else (m, mem_pool, buffer, 0))"

definition LimitEllipse_add_copy :: "mem \<Rightarrow> u64 \<Rightarrow> MemPool \<Rightarrow> Buffer \<Rightarrow> u64 \<Rightarrow> mem \<times> MemPool \<times> Buffer \<times> u64" where
  "LimitEllipse_add_copy m new_memory mem_pool buffer orig =
     (if orig \<noteq> 0 \<and> LimitEllipse_num_dataptrs = 0 then
        place_object m new_memory mem_pool buffer orig sizeof_LimitEllipse LimitEllipse_type_id []
      else (m, mem_pool, buffer, 0))"

definition OBJECT_TYPE_LIMIT_RECT_ELLIPSE :: "u64" where
  "OBJECT_TYPE_LIMIT_RECT_ELLIPSE = 16"

definition sizeof_LimitRectEllipse :: "u64" where
  "sizeof_LimitRectEllipse = 40"

definition LimitRectEllipse_type_id :: "u64" where
  "LimitRectEllipse_type_id = OBJECT_TYPE_LIMIT_RECT_ELLIPSE"

definition LimitRectEllipse_num_dataptrs :: "u64" where
  "LimitRectEllipse_num_dataptrs = 0"

definition LimitRectEllipse_num_slots :: "u64 \<Rightarrow> u64" where
  "LimitRectEllipse_num_slots slot_size = slots_for (ManagedBuffer_get_slot_based_length sizeof_LimitRectEllipse slot_size) slot_size"

definition LimitRectEllipse_preset :: "LimitRectEllipse option \<Rightarrow> LimitRectEllipse option" where
  "LimitRectEllipse_preset limit = map_option (\<lambda>e. fst (LimitRectEllipse_clear e)) limit"

definition LimitRectEllipse_words :: "(real \<Rightarrow> u64) \<Rightarrow> LimitRectEllipse \<Rightarrow> u64 list" where
  "LimitRectEllipse_words bits_of e =
     [bits_of (LimitRectEllipse_max_x e), bits_of (LimitRectEllipse_max_y e), bits_of (LimitRectEllipse_a_squ e), bits_of (LimitRectEllipse_b_squ e), bits_of (LimitRectEllipse_a_squ_b_squ e)]"

definition LimitRectEllipse_of :: "(u64 \<Rightarrow> real) \<Rightarrow> u64 list \<Rightarrow> LimitRectEllipse" where
  "LimitRectEllipse_of real_of ws =
     \<lparr>LimitRectEllipse_max_x = real_of (ws ! 0), LimitRectEllipse_max_y = real_of (ws ! 1), LimitRectEllipse_a_squ = real_of (ws ! 2), LimitRectEllipse_b_squ = real_of (ws ! 3), LimitRectEllipse_a_squ_b_squ = real_of (ws ! 4)\<rparr>"

definition LimitRectEllipse_const_from_obj_index :: "mem \<Rightarrow> u64 \<Rightarrow> u64" where
  "LimitRectEllipse_const_from_obj_index m obj =
     (if Object_get_type_id m obj = OBJECT_TYPE_LIMIT_RECT_ELLIPSE \<and> Object_get_size m obj \<ge> sizeof_LimitRectEllipse
      then Object_get_begin_addr m obj else 0)"

definition LimitRectEllipse_from_obj_index :: "mem \<Rightarrow> u64 \<Rightarrow> u64" where
  "LimitRectEllipse_from_obj_index m obj = LimitRectEllipse_const_from_obj_index m obj"

definition LimitRectEllipse_const_from_managed_buffer :: "mem \<Rightarrow> u64 \<Rightarrow> u64 \<Rightarrow> u64 \<Rightarrow> u64" where
  "LimitRectEllipse_const_from_managed_buffer m buffer_begin index slot_size =
     LimitRectEllipse_const_from_obj_index m (ManagedBuffer_get_const_object m buffer_begin index slot_size)"

definition LimitRectEllipse_from_managed_buffer :: "mem \<Rightarrow> u64 \<Rightarrow> u64 \<Rightarrow> u64 \<Rightarrow> u64" where
  "LimitRectEllipse_from_managed_buffer m buffer_begin index slot_size =
     LimitRectEllipse_from_obj_index m (ManagedBuffer_get_object m buffer_begin index slot_size)"

definition LimitRectEllipse_attributes_offsets :: "u64 list \<Rightarrow> u64 \<Rightarrow> u64 list \<times> arch_status" where
  "LimitRectEllipse_attributes_offsets offsets slot_size = (if slot_size > 0 then map (\<lambda>_. 0) offsets else offsets, 0)"

definition LimitRectEllipse_attributes_sizes :: "u64 list \<Rightarrow> u64 \<Rightarrow> u64 list \<times> arch_status" where
  "LimitRectEllipse_attributes_sizes sizes slot_size = (if slot_size > 0 then map (\<lambda>_. 0) sizes else sizes, 0)"

definition LimitRectEllipse_attributes_counts :: "u64 list \<Rightarrow> u64 \<Rightarrow> u64 list \<times> arch_status" where
  "LimitRectEllipse_attributes_counts counts slot_size = (if slot_size > 0 then map (\<lambda>_. 0) counts else counts, 0)"

definition LimitRectEllipse_can_be_added :: "LimitRectEllipse \<Rightarrow> mem \<Rightarrow> Buffer \<Rightarrow> bool \<times> (u64 \<times> u64 \<times> u64) option" where
  "LimitRectEllipse_can_be_added temp m buffer =
     (let (temp, status) = LimitRectEllipse_clear temp
      in if status = 0 \<and> LimitRectEllipse_num_dataptrs = 0 then Buffer_can_add_object m buffer sizeof_LimitRectEllipse [] else (False, None))"

definition LimitRectEllipse_new :: "(real \<Rightarrow> u64) \<Rightarrow> LimitRectEllipse \<Rightarrow> mem \<Rightarrow> u64 \<Rightarrow> u64 \<Rightarrow> MemPool \<Rightarrow> Buffer \<Rightarrow> mem \<times> MemPool \<times> Buffer \<times> u64" where
  "LimitRectEllipse_new bits_of temp m stack new_memory mem_pool buffer =
     (let (temp, status) = LimitRectEllipse_clear temp
      in if LimitRectEllipse_num_dataptrs = 0 \<and> status = 0 then
           add_from_stack m stack new_memory mem_pool buffer (LimitRectEllipse_words bits_of temp) sizeof_LimitRectEllipse LimitRectEllipse_type_id []
         else (m, mem_pool, buffer, 0))"

definition LimitRectEllipse_add :: "(real \<Rightarrow> u64) \<Rightarrow> LimitRectEllipse \<Rightarrow> mem \<Rightarrow> u64 \<Rightarrow> u64 \<Rightarrow> MemPool \<Rightarrow> Buffer \<Rightarrow> real \<Rightarrow> real \<Rightarrow> real \<Rightarrow> real \<Rightarrow> mem \<times> MemPool \<times> Buffer \<times> u64" where
  "LimitRectEllipse_add bits_of temp m stack new_memory mem_pool buffer max_x max_y a_squ b_squ =
     (let (temp, status1) = LimitRectEllipse_set_max_x temp max_x;
          (temp, status2) = LimitRectEllipse_set_max_y temp max_y;
          (temp, status3) = LimitRectEllipse_set_a_squ temp a_squ;
          (temp, status4) = LimitRectEllipse_set_b_squ temp b_squ;
          (temp, status5) = LimitRectEllipse_set_a_squ_b_squ temp (a_squ * b_squ)
      in if max_x \<ge> 0 \<and> max_y \<ge> 0 \<and> a_squ \<ge> 0 \<and> b_squ \<ge> 0 \<and> LimitRectEllipse_num_dataptrs = 0 \<and> (status1 OR status2 OR status3 OR status4 OR status5) = 0 then
           add_from_stack m stack new_memory mem_pool buffer (LimitRectEllipse_words bits_of temp) sizeof_LimitRectEllipse LimitRectEllipse_type_id []
         else (m, mem_pool, buffer, 0))"

definition LimitRectEllipse_add_copy :: "mem \<Rightarrow> u64 \<Rightarrow> MemPool \<Rightarrow> Buffer \<Rightarrow> u64 \<Rightarrow> mem \<times> MemPool \<times> Buffer \<times> u64" where
  "LimitRectEllipse_add_copy m new_memory mem_pool buffer orig =
     (if orig \<noteq> 0 \<and> LimitRectEllipse_num_dataptrs = 0 then
        place_object m new_memory mem_pool buffer orig sizeof_LimitRectEllipse LimitRectEllipse_type_id []
      else (m, mem_pool, buffer, 0))"

subsection \<open>Monitors\<close>

definition OBJECT_TYPE_BEAM_MONITOR :: "u64" where
  "OBJECT_TYPE_BEAM_MONITOR = 10"

definition sizeof_BeamMonitor :: "u64" where
  "sizeof_BeamMonitor = 64"

definition BeamMonitor_type_id :: "u64" where
  "BeamMonitor_type_id = OBJECT_TYPE_BEAM_MONITOR"

definition BeamMonitor_num_dataptrs :: "u64" where
  "BeamMonitor_num_dataptrs = 0"

definition BeamMonitor_num_slots :: "u64 \<Rightarrow> u64" where
  "BeamMonitor_num_slots slot_size = slots_for (ManagedBuffer_get_slot_based_length sizeof_BeamMonitor slot_size) slot_size"

definition BeamMonitor_preset :: "BeamMonitor option \<Rightarrow> BeamMonitor option" where
  "BeamMonitor_preset monitor = map_option (\<lambda>e. fst (BeamMonitor_clear e)) monitor"

definition BeamMonitor_words :: "(real \<Rightarrow> u64) \<Rightarrow> BeamMonitor \<Rightarrow> u64 list" where
  "BeamMonitor_words bits_of e =
     [of_int (BeamMonitor_num_stores e), of_int (BeamMonitor_start e), of_int (BeamMonitor_skip e), BeamMonitor_out_address e, of_int (BeamMonitor_max_particle_id e), of_int (BeamMonitor_min_particle_id e), of_int (BeamMonitor_is_rolling_flag e), of_int (BeamMonitor_is_turn_ordered_flag e)]"

definition BeamMonitor_of :: "(u64 \<Rightarrow> real) \<Rightarrow> u64 list \<Rightarrow> BeamMonitor" where
  "BeamMonitor_of real_of ws =
     \<lparr>BeamMonitor_num_stores = sint (ws ! 0), BeamMonitor_start = sint (ws ! 1), BeamMonitor_skip = sint (ws ! 2), BeamMonitor_out_address = ws ! 3, BeamMonitor_max_particle_id = sint (ws ! 4), BeamMonitor_min_particle_id = sint (ws ! 5), BeamMonitor_is_rolling_flag = sint (ws ! 6), BeamMonitor_is_turn_ordered_flag = sint (ws ! 7)\<rparr>"

definition BeamMonitor_const_from_obj_index :: "mem \<Rightarrow> u64 \<Rightarrow> u64" where
  "BeamMonitor_const_from_obj_index m obj =
     (if obj \<noteq> 0 \<and> Object_get_type_id m obj = OBJECT_TYPE_BEAM_MONITOR \<and> Object_get_size m obj \<ge> sizeof_BeamMonitor
      then Object_get_begin_addr m obj else 0)"

definition BeamMonitor_from_obj_index :: "mem \<Rightarrow> u64 \<Rightarrow> u64" where
  "BeamMonitor_from_obj_index m obj = BeamMonitor_const_from_obj_index m obj"

definition BeamMonitor_const_from_managed_buffer :: "mem \<Rightarrow> u64 \<Rightarrow> u64 \<Rightarrow> u64 \<Rightarrow> u64" where
  "BeamMonitor_const_from_managed_buffer m buffer_begin index slot_size =
     BeamMonitor_const_from_obj_index m (ManagedBuffer_get_const_object m buffer_begin index slot_size)"

definition BeamMonitor_const_from_buffer :: "mem \<Rightarrow> Buffer \<Rightarrow> u64 \<Rightarrow> u64" where
  "BeamMonitor_const_from_buffer m buffer index = BeamMonitor_const_from_obj_index m (Buffer_get_const_object m buffer index)"

definition BeamMonitor_from_managed_buffer :: "mem \<Rightarrow> u64 \<Rightarrow> u64 \<Rightarrow> u64 \<Rightarrow> u64" where
  "BeamMonitor_from_managed_buffer m buffer_begin index slot_size =
     BeamMonitor_from_obj_index m (ManagedBuffer_get_object m buffer_begin index slot_size)"

definition BeamMonitor_from_buffer :: "mem \<Rightarrow> Buffer \<Rightarrow> u64 \<Rightarrow> u64" where
  "BeamMonitor_from_buffer m buffer index = BeamMonitor_from_obj_index m (Buffer_get_object m buffer index)"

definition BeamMonitor_attributes_offsets :: "u64 list \<Rightarrow> u64 \<Rightarrow> u64 list \<times> arch_status" where
  "BeamMonitor_attributes_offsets offsets slot_size = (if slot_size > 0 then map (\<lambda>_. 0) offsets else offsets, 0)"

definition BeamMonitor_attributes_sizes :: "u64 list \<Rightarrow> u64 \<Rightarrow> u64 list \<times> arch_status" where
  "BeamMonitor_attributes_sizes sizes slot_size = (if slot_size > 0 then map (\<lambda>_. 0) sizes else sizes, 0)"

definition BeamMonitor_attributes_counts :: "u64 list \<Rightarrow> u64 \<Rightarrow> u64 list \<times> arch_status" where
  "BeamMonitor_attributes_counts counts slot_size = (if slot_size > 0 then map (\<lambda>_. 0) counts else counts, 0)"

definition BeamMonitor_can_be_added :: "BeamMonitor \<Rightarrow> mem \<Rightarrow> Buffer \<Rightarrow> bool \<times> (u64 \<times> u64 \<times> u64) option" where
  "BeamMonitor_can_be_added temp m buffer =
     (let (temp, status) = BeamMonitor_clear temp
      in if status = 0 \<and> BeamMonitor_num_dataptrs = 0 then Buffer_can_add_object m buffer sizeof_BeamMonitor [] else (False, None))"

definition BeamMonitor_new :: "(real \<Rightarrow> u64) \<Rightarrow> BeamMonitor \<Rightarrow> mem \<Rightarrow> u64 \<Rightarrow> u64 \<Rightarrow> MemPool \<Rightarrow> Buffer \<Rightarrow> mem \<times> MemPool \<times> Buffer \<times> u64" where
  "BeamMonitor_new bits_of temp m stack new_memory mem_pool buffer =
     (let (temp, status) = BeamMonitor_clear temp
      in if BeamMonitor_num_dataptrs = 0 \<and> status = 0 then
           add_from_stack m stack new_memory mem_pool buffer (BeamMonitor_words bits_of temp) sizeof_BeamMonitor BeamMonitor_type_id []
         else (m, mem_pool, buffer, 0))"

definition BeamMonitor_add :: "(real \<Rightarrow> u64) \<Rightarrow> BeamMonitor \<Rightarrow> mem \<Rightarrow> u64 \<Rightarrow> u64 \<Rightarrow> MemPool \<Rightarrow> Buffer \<Rightarrow> i64 \<Rightarrow> i64 \<Rightarrow> i64 \<Rightarrow> u64 \<Rightarrow> i64 \<Rightarrow> i64 \<Rightarrow> bool \<Rightarrow> bool \<Rightarrow> mem \<times> MemPool \<times> Buffer \<times> u64" where
  "BeamMonitor_add bits_of temp m stack new_memory mem_pool buffer num_stores start skip out_address min_particle_id max_particle_id is_rolling is_turn_ordered =
     (let (temp, status1) = BeamMonitor_set_num_stores temp num_stores;
          (temp, status2) = BeamMonitor_set_start temp start;
          (temp, status3) = BeamMonitor_set_skip temp skip;
          (temp, status4) = BeamMonitor_set_out_address temp out_address;
          (temp, status5) = BeamMonitor_set_min_particle_id temp min_particle_id;
          (temp, status6) = BeamMonitor_set_max_particle_id temp max_particle_id;
          (temp, status7) = BeamMonitor_set_is_rolling temp is_rolling;
          (temp, status8) = BeamMonitor_set_is_turn_ordered temp is_turn_ordered
      in if BeamMonitor_num_dataptrs = 0 \<and> (status1 OR status2 OR status3 OR status4 OR status5 OR status6 OR status7 OR status8) = 0 then
           add_from_stack m stack new_memory mem_pool buffer (BeamMonitor_words bits_of temp) sizeof_BeamMonitor BeamMonitor_type_id []
         else (m, mem_pool, buffer, 0))"

definition BeamMonitor_add_copy :: "mem \<Rightarrow> u64 \<Rightarrow> MemPool \<Rightarrow> Buffer \<Rightarrow> u64 \<Rightarrow> mem \<times> MemPool \<times> Buffer \<times> u64" where
  "BeamMonitor_add_copy m new_memory mem_pool buffer orig =
     (if orig \<noteq> 0 \<and> BeamMonitor_num_dataptrs = 0 then
        place_object m new_memory mem_pool buffer orig sizeof_BeamMonitor BeamMonitor_type_id []
      else (m, mem_pool, buffer, 0))"

subsection \<open>Space charge\<close>

definition OBJECT_TYPE_SC_COASTING :: "u64" where
  "OBJECT_TYPE_SC_COASTING = 13"

definition sizeof_SCCoasting :: "u64" where
  "sizeof_SCCoasting = 72"

definition SCCoasting_type_id :: "u64" where
  "SCCoasting_type_id = OBJECT_TYPE_SC_COASTING"

definition SCCoasting_num_dataptrs :: "u64" where
  "SCCoasting_num_dataptrs = 0"

definition SCCoasting_num_slots :: "u64 \<Rightarrow> u64" where
  "SCCoasting_num_slots slot_size =
     (let num_slots = 0 in if num_slots > (0 :: u64) then slots_for (ManagedBuffer_get_slot_based_length sizeof_SCCoasting slot_size) slot_size else num_slots)"

definition SCCoasting_preset :: "SCCoasting option \<Rightarrow> SCCoasting option" where
  "SCCoasting_preset sc_elem = map_option (\<lambda>e. fst (SCCoasting_clear e)) sc_elem"

definition SCCoasting_words :: "(real \<Rightarrow> u64) \<Rightarrow> SCCoasting \<Rightarrow> u64 list" where
  "SCCoasting_words bits_of e =
     [bits_of (SCCoasting_number_of_particles e), bits_of (SCCoasting_circumference e), bits_of (SCCoasting_sigma_x e), bits_of (SCCoasting_sigma_y e), bits_of (SCCoasting_length e), bits_of (SCCoasting_x_co e), bits_of (SCCoasting_y_co e), bits_of (SCCoasting_min_sigma_diff e), SCCoasting_enabled_field e]"

definition SCCoasting_of :: "(u64 \<Rightarrow> real) \<Rightarrow> u64 list \<Rightarrow> SCCoasting" where
  "SCCoasting_of real_of ws =
     \<lparr>SCCoasting_number_of_particles = real_of (ws ! 0), SCCoasting_circumference = real_of (ws ! 1), SCCoasting_sigma_x = real_of (ws ! 2), SCCoasting_sigma_y = real_of (ws ! 3), SCCoasting_length = real_of (ws ! 4), SCCoasting_x_co = real_of (ws ! 5), SCCoasting_y_co = real_of (ws ! 6), SCCoasting_min_sigma_diff = real_of (ws ! 7), SCCoasting_enabled_field = ws ! 8\<rparr>"

definition SCCoasting_const_from_obj_index :: "mem \<Rightarrow> u64 \<Rightarrow> u64" where
  "SCCoasting_const_from_obj_index m obj =
     (if Object_get_type_id m obj = OBJECT_TYPE_SC_COASTING \<and> Object_get_size m obj \<ge> sizeof_SCCoasting
      then Object_get_begin_addr m obj else 0)"

definition SCCoasting_from_obj_index :: "mem \<Rightarrow> u64 \<Rightarrow> u64" where
  "SCCoasting_from_obj_index m obj = SCCoasting_const_from_obj_index m obj"

definition SCCoasting_const_from_managed_buffer :: "mem \<Rightarrow> u64 \<Rightarrow> u64 \<Rightarrow> u64 \<Rightarrow> u64" where
  "SCCoasting_const_from_managed_buffer m buffer_begin index slot_size =
     SCCoasting_const_from_obj_index m (ManagedBuffer_get_const_object m buffer_begin index slot_size)"

definition SCCoasting_const_from_buffer :: "mem \<Rightarrow> Buffer \<Rightarrow> u64 \<Rightarrow> u64" where
  "SCCoasting_const_from_buffer m buffer index = SCCoasting_const_from_obj_index m (Buffer_get_const_object m buffer index)"

definition SCCoasting_from_managed_buffer :: "mem \<Rightarrow> u64 \<Rightarrow> u64 \<Rightarrow> u64 \<Rightarrow> u64" where
  "SCCoasting_from_managed_buffer m buffer_begin index slot_size =
     SCCoasting_from_obj_index m (ManagedBuffer_get_object m buffer_begin index slot_size)"

definition SCCoasting_from_buffer :: "mem \<Rightarrow> Buffer \<Rightarrow> u64 \<Rightarrow> u64" where
  "SCCoasting_from_buffer m buffer index = SCCoasting_from_obj_index m (Buffer_get_object m buffer index)"

definition SCCoasting_attributes_offsets :: "u64 list \<Rightarrow> u64 \<Rightarrow> u64 list \<times> arch_status" where
  "SCCoasting_attributes_offsets offsets slot_size = (if slot_size > 0 then map (\<lambda>_. 0) offsets else offsets, 0)"

definition SCCoasting_attributes_sizes :: "u64 list \<Rightarrow> u64 \<Rightarrow> u64 list \<times> arch_status" where
  "SCCoasting_attributes_sizes sizes slot_size = (if slot_size > 0 then map (\<lambda>_. 0) sizes else sizes, 0)"

definition SCCoasting_attributes_counts :: "u64 list \<Rightarrow> u64 \<Rightarrow> u64 list \<times> arch_status" where
  "SCCoasting_attributes_counts counts slot_size = (if slot_size > 0 then map (\<lambda>_. 0) counts else counts, 0)"

definition SCCoasting_can_be_added :: "SCCoasting \<Rightarrow> mem \<Rightarrow> Buffer \<Rightarrow> bool \<times> (u64 \<times> u64 \<times> u64) option" where
  "SCCoasting_can_be_added temp m buffer =
     (let (temp, status) = SCCoasting_clear temp
      in if status = 0 \<and> SCCoasting_num_dataptrs = 0 then Buffer_can_add_object m buffer sizeof_SCCoasting [] else (False, None))"

definition SCCoasting_new :: "(real \<Rightarrow> u64) \<Rightarrow> SCCoasting \<Rightarrow> mem \<Rightarrow> u64 \<Rightarrow> u64 \<Rightarrow> MemPool \<Rightarrow> Buffer \<Rightarrow> mem \<times> MemPool \<times> Buffer \<times> u64" where
  "SCCoasting_new bits_of temp m stack new_memory mem_pool buffer =
     (let (temp, status) = SCCoasting_clear temp
      in if SCCoasting_num_dataptrs = 0 \<and> status = 0 then
           add_from_stack m stack new_memory mem_pool buffer (SCCoasting_words bits_of temp) sizeof_SCCoasting SCCoasting_type_id []
         else (m, mem_pool, buffer, 0))"

definition SCCoasting_add :: "(real \<Rightarrow> u64) \<Rightarrow> SCCoasting \<Rightarrow> mem \<Rightarrow> u64 \<Rightarrow> u64 \<Rightarrow> MemPool \<Rightarrow> Buffer \<Rightarrow> SIXTRL_REAL_T \<Rightarrow> SIXTRL_REAL_T \<Rightarrow> SIXTRL_REAL_T \<Rightarrow> SIXTRL_REAL_T \<Rightarrow> SIXTRL_REAL_T \<Rightarrow> SIXTRL_REAL_T \<Rightarrow> SIXTRL_REAL_T \<Rightarrow> SIXTRL_REAL_T \<Rightarrow> bool \<Rightarrow> mem \<times> MemPool \<times> Buffer \<times> u64" where
  "SCCoasting_add bits_of temp m stack new_memory mem_pool buffer number_of_particles circumference sigma_x sigma_y len x_co y_co min_sigma_diff enabled =
     (let (temp, status) = SCCoasting_clear temp;
          (temp, status1) = SCCoasting_set_number_of_particles temp number_of_particles;
          (temp, status2) = SCCoasting_set_circumference temp circumference;
          (temp, status3) = SCCoasting_set_sigma_x temp sigma_x;
          (temp, status4) = SCCoasting_set_sigma_y temp sigma_y;
          (temp, status5) = SCCoasting_set_length temp len;
          (temp, status6) = SCCoasting_set_x_co temp x_co;
          (temp, status7) = SCCoasting_set_y_co temp y_co;
          (temp, status8) = SCCoasting_set_min_sigma_diff temp min_sigma_diff;
          (temp, status9) = SCCoasting_set_enabled temp enabled
      in if SCCoasting_num_dataptrs = 0 \<and> (status OR status1 OR status2 OR status3 OR status4 OR status5 OR status6 OR status7 OR status8 OR status9) = 0 then
           add_from_stack m stack new_memory mem_pool buffer (SCCoasting_words bits_of temp) sizeof_SCCoasting SCCoasting_type_id []
         else (m, mem_pool, buffer, 0))"

definition SCCoasting_add_copy :: "mem \<Rightarrow> u64 \<Rightarrow> MemPool \<Rightarrow> Buffer \<Rightarrow> u64 \<Rightarrow> mem \<times> MemPool \<times> Buffer \<times> u64" where
  "SCCoasting_add_copy m new_memory mem_pool buffer orig =
     (if orig \<noteq> 0 \<and> SCCoasting_num_dataptrs = 0 then
        place_object m new_memory mem_pool buffer orig sizeof_SCCoasting SCCoasting_type_id []
      else (m, mem_pool, buffer, 0))"

definition OBJECT_TYPE_SC_QGAUSSIAN_PROF :: "u64" where
  "OBJECT_TYPE_SC_QGAUSSIAN_PROF = 14"

definition sizeof_SCQGaussProfile :: "u64" where
  "sizeof_SCQGaussProfile = 88"

definition SCQGaussProfile_type_id :: "u64" where
  "SCQGaussProfile_type_id = OBJECT_TYPE_SC_QGAUSSIAN_PROF"

definition SCQGaussProfile_num_dataptrs :: "u64" where
  "SCQGaussProfile_num_dataptrs = 0"

definition SCQGaussProfile_num_slots :: "u64 \<Rightarrow> u64" where
  "SCQGaussProfile_num_slots slot_size =
     (if slot_size > 0 then slots_for (ManagedBuffer_get_slot_based_length sizeof_SCQGaussProfile slot_size) slot_size else 0)"

definition SCQGaussProfile_preset :: "SCQGaussProfile option \<Rightarrow> SCQGaussProfile option" where
  "SCQGaussProfile_preset sc_elem = map_option (\<lambda>e. fst (SCQGaussProfile_clear e)) sc_elem"

definition SCQGaussProfile_words :: "(real \<Rightarrow> u64) \<Rightarrow> SCQGaussProfile \<Rightarrow> u64 list" where
  "SCQGaussProfile_words bits_of e =
     [bits_of (SCQGaussProfile_number_of_particles e), bits_of (SCQGaussProfile_bunchlength_rms e), bits_of (SCQGaussProfile_sigma_x e), bits_of (SCQGaussProfile_sigma_y e), bits_of (SCQGaussProfile_length e), bits_of (SCQGaussProfile_x_co e), bits_of (SCQGaussProfile_y_co e), bits_of (SCQGaussProfile_min_sigma_diff e), bits_of (SCQGaussProfile_q_param e), bits_of (SCQGaussProfile_cq e), SCQGaussProfile_enabled_field e]"

definition SCQGaussProfile_of :: "(u64 \<Rightarrow> real) \<Rightarrow> u64 list \<Rightarrow> SCQGaussProfile" where
  "SCQGaussProfile_of real_of ws =
     \<lparr>SCQGaussProfile_number_of_particles = real_of (ws ! 0), SCQGaussProfile_bunchlength_rms = real_of (ws ! 1), SCQGaussProfile_sigma_x = real_of (ws ! 2), SCQGaussProfile_sigma_y = real_of (ws ! 3), SCQGaussProfile_length = real_of (ws ! 4), SCQGaussProfile_x_co = real_of (ws ! 5), SCQGaussProfile_y_co = real_of (ws ! 6), SCQGaussProfile_min_sigma_diff = real_of (ws ! 7), SCQGaussProfile_q_param = real_of (ws ! 8), SCQGaussProfile_cq = real_of (ws ! 9), SCQGaussProfile_enabled_field = ws ! 10\<rparr>"

definition SCQGaussProfile_const_from_obj_index :: "mem \<Rightarrow> u64 \<Rightarrow> u64" where
  "SCQGaussProfile_const_from_obj_index m obj =
     (if Object_get_type_id m obj = OBJECT_TYPE_SC_QGAUSSIAN_PROF \<and> Object_get_size m obj \<ge> sizeof_SCQGaussProfile
      then Object_get_begin_addr m obj else 0)"

definition SCQGaussProfile_from_obj_index :: "mem \<Rightarrow> u64 \<Rightarrow> u64" where
  "SCQGaussProfile_from_obj_index m obj = SCQGaussProfile_const_from_obj_index m obj"

definition SCQGaussProfile_const_from_managed_buffer :: "mem \<Rightarrow> u64 \<Rightarrow> u64 \<Rightarrow> u64 \<Rightarrow> u64" where
  "SCQGaussProfile_const_from_managed_buffer m buffer_begin index slot_size =
     SCQGaussProfile_const_from_obj_index m (ManagedBuffer_get_const_object m buffer_begin index slot_size)"

definition SCQGaussProfile_const_from_buffer :: "mem \<Rightarrow> Buffer \<Rightarrow> u64 \<Rightarrow> u64" where
  "SCQGaussProfile_const_from_buffer m buffer index = SCQGaussProfile_const_from_obj_index m (Buffer_get_const_object m buffer index)"

definition SCQGaussProfile_from_managed_buffer :: "mem \<Rightarrow> u64 \<Rightarrow> u64 \<Rightarrow> u64 \<Rightarrow> u64" where
  "SCQGaussProfile_from_managed_buffer m buffer_begin index slot_size =
     SCQGaussProfile_from_obj_index m (ManagedBuffer_get_object m buffer_begin index slot_size)"

definition SCQGaussProfile_from_buffer :: "mem \<Rightarrow> Buffer \<Rightarrow> u64 \<Rightarrow> u64" where
  "SCQGaussProfile_from_buffer m buffer index = SCQGaussProfile_from_obj_index m (Buffer_get_object m buffer index)"

definition SCQGaussProfile_attributes_offsets :: "u64 list \<Rightarrow> u64 \<Rightarrow> u64 list \<times> arch_status" where
  "SCQGaussProfile_attributes_offsets offsets slot_size = (if slot_size > 0 then map (\<lambda>_. 0) offsets else offsets, 0)"

definition SCQGaussProfile_attributes_sizes :: "u64 list \<Rightarrow> u64 \<Rightarrow> u64 list \<times> arch_status" where
  "SCQGaussProfile_attributes_sizes sizes slot_size = (if slot_size > 0 then map (\<lambda>_. 0) sizes else sizes, 0)"

definition SCQGaussProfile_attributes_counts :: "u64 list \<Rightarrow> u64 \<Rightarrow> u64 list \<times> arch_status" where
  "SCQGaussProfile_attributes_counts counts slot_size = (if slot_size > 0 then map (\<lambda>_. 0) counts else counts, 0)"

definition SCQGaussProfile_can_be_added :: "SCQGaussProfile \<Rightarrow> mem \<Rightarrow> Buffer \<Rightarrow> bool \<times> (u64 \<times> u64 \<times> u64) option" where
  "SCQGaussProfile_can_be_added temp m buffer =
     (let (temp, status) = SCQGaussProfile_clear temp
      in if status = 0 \<and> SCQGaussProfile_num_dataptrs = 0 then Buffer_can_add_object m buffer sizeof_SCQGaussProfile [] else (False, None))"

definition SCQGaussProfile_new :: "(real \<Rightarrow> u64) \<Rightarrow> SCQGaussProfile \<Rightarrow> mem \<Rightarrow> u64 \<Rightarrow> u64 \<Rightarrow> MemPool \<Rightarrow> Buffer \<Rightarrow> mem \<times> MemPool \<times> Buffer \<times> u64" where
  "SCQGaussProfile_new bits_of temp m stack new_memory mem_pool buffer =
     (let (temp, status) = SCQGaussProfile_clear temp
      in if SCQGaussProfile_num_dataptrs = 0 \<and> status = 0 then
           add_from_stack m stack new_memory mem_pool buffer (SCQGaussProfile_words bits_of temp) sizeof_SCQGaussProfile SCQGaussProfile_type_id []
         else (m, mem_pool, buffer, 0))"

definition SCQGaussProfile_add :: "(real \<Rightarrow> u64) \<Rightarrow> SCQGaussProfile \<Rightarrow> mem \<Rightarrow> u64 \<Rightarrow> u64 \<Rightarrow> MemPool \<Rightarrow> Buffer \<Rightarrow> SIXTRL_REAL_T \<Rightarrow> SIXTRL_REAL_T \<Rightarrow> SIXTRL_REAL_T \<Rightarrow> SIXTRL_REAL_T \<Rightarrow> SIXTRL_REAL_T \<Rightarrow> SIXTRL_REAL_T \<Rightarrow> SIXTRL_REAL_T \<Rightarrow> SIXTRL_REAL_T \<Rightarrow> SIXTRL_REAL_T \<Rightarrow> bool \<Rightarrow> mem \<times> MemPool \<times> Buffer \<times> u64" where
  "SCQGaussProfile_add bits_of temp m stack new_memory mem_pool buffer number_of_particles bunchlength_rms sigma_x sigma_y len x_co y_co min_sigma_diff q_param enabled =
     (let (temp, status) = SCQGaussProfile_clear temp;
          (temp, status1) = SCQGaussProfile_set_number_of_particles temp number_of_particles;
          (temp, status2) = SCQGaussProfile_set_bunchlength_rms temp bunchlength_rms;
          (temp, status3) = SCQGaussProfile_set_sigma_x temp sigma_x;
          (temp, status4) = SCQGaussProfile_set_sigma_y temp sigma_y;
          (temp, status5) = SCQGaussProfile_set_length temp len;
          (temp, status6) = SCQGaussProfile_set_x_co temp x_co;
          (temp, status7) = SCQGaussProfile_set_y_co temp y_co;
          (temp, status8) = SCQGaussProfile_set_min_sigma_diff temp min_sigma_diff;
          (temp, status9) = SCQGaussProfile_set_q_param temp q_param;
          (temp, status10) = SCQGaussProfile_set_enabled temp enabled
      in if SCQGaussProfile_num_dataptrs = 0 \<and> (status OR status1 OR status2 OR status3 OR status4 OR status5 OR status6 OR status7 OR status8 OR status9 OR status10) = 0 then
           add_from_stack m stack new_memory mem_pool buffer (SCQGaussProfile_words bits_of temp) sizeof_SCQGaussProfile SCQGaussProfile_type_id []
         else (m, mem_pool, buffer, 0))"

definition SCQGaussProfile_add_copy :: "mem \<Rightarrow> u64 \<Rightarrow> MemPool \<Rightarrow> Buffer \<Rightarrow> u64 \<Rightarrow> mem \<times> MemPool \<times> Buffer \<times> u64" where
  "SCQGaussProfile_add_copy m new_memory mem_pool buffer orig =
     (if orig \<noteq> 0 \<and> SCQGaussProfile_num_dataptrs = 0 then
        place_object m new_memory mem_pool buffer orig sizeof_SCQGaussProfile SCQGaussProfile_type_id []
      else (m, mem_pool, buffer, 0))"

end
