(* ===== verification/Element_Buffers_Arrays.thy ===== *)
theory Element_Buffers_Arrays
  imports Element_Buffers
begin

section \<open>Elements with arrays in buffers\<close>

text \<open>
  The elements whose structures hold addresses (\<open>be_tricub.[ch]\<close>, \<open>be_multipole.[ch]\<close>, \<open>be_rfmultipole.[ch]\<close>,
  \<open>be_beamfields.[ch]\<close>). \<open>X_words\<close> takes the addresses as arguments, \<open>X_at\<close> reads a structure from memory; a
  structure that is NULL is \<open>None\<close>, or the address 0. Where only counts matter, \<open>X_at\<close> reads all numbers as 0.
  The addresses of a structure on the stack are the arguments of \<open>X_words\<close>, so that the setters for addresses,
  which always succeed, are left out of the functions that add an element.
  \<open>NS(LineDensityProfileData_can_be_added)\<close> is not modelled: it passes NULL for the tables, which are then read.
\<close>

subsection \<open>Tricubic elements\<close>

definition OBJECT_TYPE_TRICUB :: "u64" where
  "OBJECT_TYPE_TRICUB = 261"

definition sizeof_TriCub :: "u64" where
  "sizeof_TriCub = 64"

definition TriCub_type_id :: "u64" where
  "TriCub_type_id = OBJECT_TYPE_TRICUB"

definition TriCub_num_dataptrs :: "u64" where
  "TriCub_num_dataptrs = 0"

definition TriCub_num_slots :: "u64 \<Rightarrow> u64" where
  "TriCub_num_slots slot_size = slots_for (ManagedBuffer_get_slot_based_length sizeof_TriCub slot_size) slot_size"

definition TriCub_words :: "(real \<Rightarrow> u64) \<Rightarrow> u64 \<Rightarrow> TriCub \<Rightarrow> u64 list" where
  "TriCub_words bits_of data_addr e =
     [bits_of (TriCub_x_shift e), bits_of (TriCub_y_shift e), bits_of (TriCub_tau_shift e), bits_of (TriCub_dipolar_kick_px e), bits_of (TriCub_dipolar_kick_py e), bits_of (TriCub_dipolar_kick_ptau e), bits_of (TriCub_length e), data_addr]"

definition TriCub_of :: "(u64 \<Rightarrow> real) \<Rightarrow> u64 list \<Rightarrow> TriCub" where
  "TriCub_of real_of ws =
     \<lparr>TriCub_x_shift = real_of (ws ! 0), TriCub_y_shift = real_of (ws ! 1), TriCub_tau_shift = real_of (ws ! 2), TriCub_dipolar_kick_px = real_of (ws ! 3), TriCub_dipolar_kick_py = real_of (ws ! 4), TriCub_dipolar_kick_ptau = real_of (ws ! 5), TriCub_length = real_of (ws ! 6), TriCub_data_addr = None\<rparr>"

definition TriCub_const_from_obj_index :: "mem \<Rightarrow> u64 \<Rightarrow> u64" where
  "TriCub_const_from_obj_index m obj =
     (if Object_get_size m obj \<ge> sizeof_TriCub \<and> Object_get_type_id m obj = OBJECT_TYPE_TRICUB \<and> Object_get_begin_addr m obj \<noteq> 0
      then Object_get_begin_addr m obj else 0)"

definition TriCub_from_obj_index :: "mem \<Rightarrow> u64 \<Rightarrow> u64" where
  "TriCub_from_obj_index m obj = TriCub_const_from_obj_index m obj"

definition TriCub_const_from_managed_buffer :: "mem \<Rightarrow> u64 \<Rightarrow> u64 \<Rightarrow> u64 \<Rightarrow> u64" where
  "TriCub_const_from_managed_buffer m buffer_begin index slot_size =
     TriCub_const_from_obj_index m (ManagedBuffer_get_const_object m buffer_begin index slot_size)"

definition TriCub_const_from_buffer :: "mem \<Rightarrow> Buffer \<Rightarrow> u64 \<Rightarrow> u64" where
  "TriCub_const_from_buffer m buffer index = TriCub_const_from_obj_index m (Buffer_get_const_object m buffer index)"

definition TriCub_from_managed_buffer :: "mem \<Rightarrow> u64 \<Rightarrow> u64 \<Rightarrow> u64 \<Rightarrow> u64" where
  "TriCub_from_managed_buffer m buffer_begin index slot_size =
     TriCub_from_obj_index m (ManagedBuffer_get_object m buffer_begin index slot_size)"

definition TriCub_from_buffer :: "mem \<Rightarrow> Buffer \<Rightarrow> u64 \<Rightarrow> u64" where
  "TriCub_from_buffer m buffer index = TriCub_from_obj_index m (Buffer_get_object m buffer index)"

definition TriCub_attributes_offsets :: "u64 list \<Rightarrow> u64 \<Rightarrow> u64 list \<times> arch_status" where
  "TriCub_attributes_offsets offsets slot_size = (if slot_size > 0 then map (\<lambda>_. 0) offsets else offsets, 0)"

definition TriCub_attributes_sizes :: "u64 list \<Rightarrow> u64 \<Rightarrow> u64 list \<times> arch_status" where
  "TriCub_attributes_sizes sizes slot_size = (if slot_size > 0 then map (\<lambda>_. 0) sizes else sizes, 0)"

definition TriCub_attributes_counts :: "u64 list \<Rightarrow> u64 \<Rightarrow> u64 list \<times> arch_status" where
  "TriCub_attributes_counts counts slot_size = (if slot_size > 0 then map (\<lambda>_. 0) counts else counts, 0)"

definition TriCub_can_be_added :: "mem \<Rightarrow> Buffer \<Rightarrow> bool \<times> (u64 \<times> u64 \<times> u64) option" where
  "TriCub_can_be_added m buffer = Buffer_can_add_trivial_object m buffer sizeof_TriCub"

definition add_trivial_from_stack :: "mem \<Rightarrow> u64 \<Rightarrow> u64 \<Rightarrow> MemPool \<Rightarrow> Buffer \<Rightarrow> u64 list \<Rightarrow> u64 \<Rightarrow> u64 \<Rightarrow> mem \<times> MemPool \<times> Buffer \<times> u64" where
  "add_trivial_from_stack m stack new_memory mem_pool buffer ws object_size type_id =
     (let (m, mem_pool, buffer, object) = Buffer_add_trivial_object (write_words m stack ws) new_memory mem_pool buffer stack object_size type_id
      in (m, mem_pool, buffer, Object_get_begin_addr m object))"

definition TriCub_new :: "(real \<Rightarrow> u64) \<Rightarrow> TriCub \<Rightarrow> mem \<Rightarrow> u64 \<Rightarrow> u64 \<Rightarrow> MemPool \<Rightarrow> Buffer \<Rightarrow> mem \<times> MemPool \<times> Buffer \<times> u64" where
  "TriCub_new bits_of tricub m stack new_memory mem_pool buffer =
     add_trivial_from_stack m stack new_memory mem_pool buffer (TriCub_words bits_of 0 (the (TriCub_preset (Some tricub)))) sizeof_TriCub TriCub_type_id"

definition TriCub_add :: "(real \<Rightarrow> u64) \<Rightarrow> TriCub \<Rightarrow> mem \<Rightarrow> u64 \<Rightarrow> u64 \<Rightarrow> MemPool \<Rightarrow> Buffer \<Rightarrow> real \<Rightarrow> real \<Rightarrow> real \<Rightarrow> real \<Rightarrow> real \<Rightarrow> real \<Rightarrow> real \<Rightarrow> u64 \<Rightarrow> mem \<times> MemPool \<times> Buffer \<times> u64" where
  "TriCub_add bits_of tricub m stack new_memory mem_pool buffer x_shift y_shift tau_shift dipolar_kick_px dipolar_kick_py dipolar_kick_ptau len data_addr =
     (let tricub = the (TriCub_preset (Some tricub));
          (tricub, status1) = TriCub_set_x_shift tricub x_shift;
          (tricub, status2) = TriCub_set_y_shift tricub y_shift;
          (tricub, status3) = TriCub_set_tau_shift tricub tau_shift;
          (tricub, status4) = TriCub_set_dipolar_kick_px tricub dipolar_kick_px;
          (tricub, status5) = TriCub_set_dipolar_kick_py tricub dipolar_kick_py;
          (tricub, status6) = TriCub_set_dipolar_kick_ptau tricub dipolar_kick_ptau;
          (tricub, status7) = TriCub_set_length tricub len
      in if (status1 OR status2 OR status3 OR status4 OR status5 OR status6 OR status7) = 0 \<and> TriCub_num_dataptrs = 0 then
           add_trivial_from_stack m stack new_memory mem_pool buffer (TriCub_words bits_of data_addr tricub) sizeof_TriCub TriCub_type_id
         else (m, mem_pool, buffer, 0))"

definition TriCub_add_copy :: "mem \<Rightarrow> u64 \<Rightarrow> MemPool \<Rightarrow> Buffer \<Rightarrow> u64 \<Rightarrow> mem \<times> MemPool \<times> Buffer \<times> u64" where
  "TriCub_add_copy m new_memory mem_pool buffer orig =
     (if orig \<noteq> 0 \<and> TriCub_num_dataptrs = 0 then
        let (m, mem_pool, buffer, object) = Buffer_add_trivial_object m new_memory mem_pool buffer orig sizeof_TriCub TriCub_type_id
        in (m, mem_pool, buffer, Object_get_begin_addr m object)
      else (m, mem_pool, buffer, 0))"

definition OBJECT_TYPE_TRICUB_DATA :: "u64" where
  "OBJECT_TYPE_TRICUB_DATA = 260"

definition sizeof_TriCubData :: "u64" where
  "sizeof_TriCubData = 104"

definition TriCubData_type_id :: "u64" where
  "TriCubData_type_id = OBJECT_TYPE_TRICUB_DATA"

definition TriCubData_num_dataptrs :: "u64" where
  "TriCubData_num_dataptrs = 1"

definition TriCubData_ptr_offset :: "u64" where
  "TriCubData_ptr_offset = 96"

definition TriCubData_words :: "(real \<Rightarrow> u64) \<Rightarrow> u64 \<Rightarrow> TriCubData \<Rightarrow> u64 list" where
  "TriCubData_words bits_of table_addr e =
     [bits_of (TriCubData_x0 e), bits_of (TriCubData_dx e), of_int (TriCubData_nx e), bits_of (TriCubData_y0 e), bits_of (TriCubData_dy e), of_int (TriCubData_ny e), bits_of (TriCubData_z0 e), bits_of (TriCubData_dz e), of_int (TriCubData_nz e), of_int (TriCubData_mirror_x e), of_int (TriCubData_mirror_y e), of_int (TriCubData_mirror_z e), table_addr]"

definition TriCubData_at :: "(u64 \<Rightarrow> real) \<Rightarrow> mem \<Rightarrow> u64 \<Rightarrow> TriCubData" where
  "TriCubData_at real_of m p =
     (let ws = map (\<lambda>j. rd64 m (word_addr p j)) [0..<13]
      in \<lparr>TriCubData_x0 = real_of (ws ! 0), TriCubData_dx = real_of (ws ! 1), TriCubData_nx = sint (ws ! 2), TriCubData_y0 = real_of (ws ! 3), TriCubData_dy = real_of (ws ! 4), TriCubData_ny = sint (ws ! 5), TriCubData_z0 = real_of (ws ! 6), TriCubData_dz = real_of (ws ! 7), TriCubData_nz = sint (ws ! 8), TriCubData_mirror_x = sint (ws ! 9), TriCubData_mirror_y = sint (ws ! 10), TriCubData_mirror_z = sint (ws ! 11),
          TriCubData_table_addr = (if ws ! 12 = 0 then None else Some (map real_of
            (array_read m (ws ! 12) (nat (sint (ws ! 2) * sint (ws ! 5) * sint (ws ! 8) * 8)))))\<rparr>)"

definition TriCubData_num_slots :: "mem \<Rightarrow> u64 \<Rightarrow> u64 \<Rightarrow> u64" where
  "TriCubData_num_slots m data slot_size =
     (if data \<noteq> 0 \<and> slot_size > 0 then
        let num_bytes = ManagedBuffer_get_slot_based_length sizeof_TriCubData slot_size +
              ManagedBuffer_get_slot_based_length (8 * of_int (TriCubData_table_size (TriCubData_at (\<lambda>_. 0) m data))) slot_size
        in slots_for num_bytes slot_size
      else 0)"

definition TriCubData_const_from_obj_index :: "mem \<Rightarrow> u64 \<Rightarrow> u64" where
  "TriCubData_const_from_obj_index m obj =
     (if Object_get_size m obj \<ge> sizeof_TriCubData \<and> Object_get_type_id m obj = OBJECT_TYPE_TRICUB_DATA \<and> Object_get_begin_addr m obj \<noteq> 0
      then Object_get_begin_addr m obj else 0)"

definition TriCubData_from_obj_index :: "mem \<Rightarrow> u64 \<Rightarrow> u64" where
  "TriCubData_from_obj_index m obj = TriCubData_const_from_obj_index m obj"

definition TriCubData_const_from_managed_buffer :: "mem \<Rightarrow> u64 \<Rightarrow> u64 \<Rightarrow> u64 \<Rightarrow> u64" where
  "TriCubData_const_from_managed_buffer m buffer_begin index slot_size =
     TriCubData_const_from_obj_index m (ManagedBuffer_get_const_object m buffer_begin index slot_size)"

definition TriCubData_const_from_buffer :: "mem \<Rightarrow> Buffer \<Rightarrow> u64 \<Rightarrow> u64" where
  "TriCubData_const_from_buffer m buffer index = TriCubData_const_from_obj_index m (Buffer_get_const_object m buffer index)"

definition TriCubData_from_managed_buffer :: "mem \<Rightarrow> u64 \<Rightarrow> u64 \<Rightarrow> u64 \<Rightarrow> u64" where
  "TriCubData_from_managed_buffer m buffer_begin index slot_size =
     TriCubData_from_obj_index m (ManagedBuffer_get_object m buffer_begin index slot_size)"

definition TriCubData_from_buffer :: "mem \<Rightarrow> Buffer \<Rightarrow> u64 \<Rightarrow> u64" where
  "TriCubData_from_buffer m buffer index = TriCubData_from_obj_index m (Buffer_get_object m buffer index)"

definition TriCubData_attributes_offsets :: "u64 list \<Rightarrow> TriCubData \<Rightarrow> u64 \<Rightarrow> u64 list \<times> arch_status" where
  "TriCubData_attributes_offsets offsets data slot_size =
     (if of_nat (length offsets) \<ge> TriCubData_num_dataptrs \<and> TriCubData_num_dataptrs = 1 \<and> slot_size > 0 then (TriCubData_ptr_offset # map (\<lambda>_. 0) (tl offsets), 0) else (offsets, - 1))"

definition TriCubData_attributes_counts :: "u64 list \<Rightarrow> TriCubData \<Rightarrow> u64 \<Rightarrow> u64 list \<times> arch_status" where
  "TriCubData_attributes_counts counts data slot_size =
     (if of_nat (length counts) \<ge> TriCubData_num_dataptrs \<and> TriCubData_num_dataptrs = 1 \<and> slot_size > 0 then (of_int (TriCubData_table_size data) # map (\<lambda>_. 0) (tl counts), 0) else (counts, - 1))"

definition TriCubData_attributes_sizes :: "u64 list \<Rightarrow> TriCubData \<Rightarrow> u64 \<Rightarrow> u64 list \<times> arch_status" where
  "TriCubData_attributes_sizes sizes data slot_size =
     (if of_nat (length sizes) \<ge> TriCubData_num_dataptrs \<and> TriCubData_num_dataptrs = 1 \<and> slot_size > 0 then (8 # tl sizes, 0) else (sizes, - 1))"

definition TriCubData_can_be_added :: "TriCubData \<Rightarrow> mem \<Rightarrow> Buffer \<Rightarrow> i64 \<Rightarrow> i64 \<Rightarrow> i64 \<Rightarrow> bool \<times> (u64 \<times> u64 \<times> u64) option" where
  "TriCubData_can_be_added data m buffer nx ny nz =
     (let slot_size = Buffer_get_slot_size buffer;
          data = the (TriCubData_preset (Some data));
          (data, status1) = TriCubData_set_nx data nx;
          (data, status2) = TriCubData_set_ny data ny;
          (data, status3) = TriCubData_set_nz data nz
      in if (status1 OR status2 OR status3) = 0 \<and> TriCubData_num_dataptrs = 1 \<and> slot_size > 0 then
           let (sizes, status) = TriCubData_attributes_sizes [0] data slot_size;
               (counts, status) = (if status = 0 then TriCubData_attributes_counts [0] data slot_size else ([0], status))
           in if status = 0 then Buffer_can_add_object m buffer sizeof_TriCubData (zip sizes counts) else (False, None)
         else (False, None))"

definition TriCubData_new :: "(real \<Rightarrow> u64) \<Rightarrow> TriCubData \<Rightarrow> mem \<Rightarrow> u64 \<Rightarrow> u64 \<Rightarrow> MemPool \<Rightarrow> Buffer \<Rightarrow> i64 \<Rightarrow> i64 \<Rightarrow> i64 \<Rightarrow> mem \<times> MemPool \<times> Buffer \<times> u64" where
  "TriCubData_new bits_of data m stack new_memory mem_pool buffer nx ny nz =
     (let slot_size = Buffer_get_slot_size buffer;
          data = the (TriCubData_preset (Some data));
          (data, status1) = TriCubData_set_nx data nx;
          (data, status2) = TriCubData_set_ny data ny;
          (data, status3) = TriCubData_set_nz data nz
      in if (status1 OR status2 OR status3) = 0 \<and> TriCubData_num_dataptrs = 1 \<and> slot_size > 0 then
           let (sizes, status) = TriCubData_attributes_sizes [0] data slot_size;
               (counts, status) = (if status = 0 then TriCubData_attributes_counts [0] data slot_size else ([0], status));
               (offsets, status) = (if status = 0 then TriCubData_attributes_offsets [0] data slot_size else ([0], status))
           in if status = 0 then
                add_from_stack m stack new_memory mem_pool buffer (TriCubData_words bits_of 0 data) sizeof_TriCubData
                  TriCubData_type_id (zip offsets (zip sizes counts))
              else (m, mem_pool, buffer, 0)
         else (m, mem_pool, buffer, 0))"

definition TriCubData_add :: "(real \<Rightarrow> u64) \<Rightarrow> TriCubData \<Rightarrow> mem \<Rightarrow> u64 \<Rightarrow> u64 \<Rightarrow> MemPool \<Rightarrow> Buffer \<Rightarrow> real \<Rightarrow> real \<Rightarrow> i64 \<Rightarrow> real \<Rightarrow> real \<Rightarrow> i64 \<Rightarrow> real \<Rightarrow> real \<Rightarrow> i64 \<Rightarrow> i64 \<Rightarrow> i64 \<Rightarrow> i64 \<Rightarrow> u64 \<Rightarrow> mem \<times> MemPool \<times> Buffer \<times> u64" where
  "TriCubData_add bits_of data m stack new_memory mem_pool buffer x0 dx nx y0 dy ny z0 dz nz mirror_x mirror_y mirror_z table_addr =
     (let slot_size = Buffer_get_slot_size buffer;
          data = the (TriCubData_preset (Some data));
          (data, status1) = TriCubData_set_x0 data x0;
          (data, status2) = TriCubData_set_dx data dx;
          (data, status3) = TriCubData_set_nx data nx;
          (data, status4) = TriCubData_set_y0 data y0;
          (data, status5) = TriCubData_set_dy data dy;
          (data, status6) = TriCubData_set_ny data ny;
          (data, status7) = TriCubData_set_z0 data z0;
          (data, status8) = TriCubData_set_dz data dz;
          (data, status9) = TriCubData_set_nz data nz;
          (data, status10) = TriCubData_set_mirror_x data mirror_x;
          (data, status11) = TriCubData_set_mirror_y data mirror_y;
          (data, status12) = TriCubData_set_mirror_z data mirror_z
      in if (status1 OR status2 OR status3 OR status4 OR status5 OR status6 OR status7 OR status8 OR status9 OR status10 OR status11 OR status12) = 0 \<and> TriCubData_num_dataptrs = 1 \<and> slot_size > 0 then
           let (sizes, status) = TriCubData_attributes_sizes [0] data slot_size;
               (counts, status) = (if status = 0 then TriCubData_attributes_counts [0] data slot_size else ([0], status));
               (offsets, status) = (if status = 0 then TriCubData_attributes_offsets [0] data slot_size else ([0], status))
           in if status = 0 then
                add_from_stack m stack new_memory mem_pool buffer (TriCubData_words bits_of table_addr data) sizeof_TriCubData
                  TriCubData_type_id (zip offsets (zip sizes counts))
              else (m, mem_pool, buffer, 0)
         else (m, mem_pool, buffer, 0))"

definition TriCubData_add_copy :: "mem \<Rightarrow> u64 \<Rightarrow> MemPool \<Rightarrow> Buffer \<Rightarrow> u64 \<Rightarrow> mem \<times> MemPool \<times> Buffer \<times> u64" where
  "TriCubData_add_copy m new_memory mem_pool buffer orig =
     (let slot_size = Buffer_get_slot_size buffer; num_dataptrs = (0 :: u64); status = - 1 :: arch_status
      in if status = 0 \<and> num_dataptrs = 1 \<and> orig \<noteq> 0 \<and> slot_size > 0 then
           let data = TriCubData_at (\<lambda>_. 0) m orig;
               (sizes, status) = TriCubData_attributes_sizes [0] data slot_size;
               (counts, status) = (if status = 0 then TriCubData_attributes_counts [0] data slot_size else ([0], status));
               (offsets, status) = (if status = 0 then TriCubData_attributes_offsets [0] data slot_size else ([0], status))
           in if status = 0 then
                place_object m new_memory mem_pool buffer orig sizeof_TriCubData TriCubData_type_id (zip offsets (zip sizes counts))
              else (m, mem_pool, buffer, 0)
         else (m, mem_pool, buffer, 0))"

subsection \<open>Multipoles\<close>

definition OBJECT_TYPE_MULTIPOLE :: "u64" where
  "OBJECT_TYPE_MULTIPOLE = 4"

definition sizeof_Multipole :: "u64" where
  "sizeof_Multipole = 40"

definition Multipole_type_id :: "u64" where
  "Multipole_type_id = OBJECT_TYPE_MULTIPOLE"

definition Multipole_num_dataptrs :: "u64" where
  "Multipole_num_dataptrs = 1"

definition Multipole_preset :: "Multipole option \<Rightarrow> Multipole option" where
  "Multipole_preset multipole = map_option (\<lambda>e. fst (Multipole_clear e)) multipole"

definition Multipole_words :: "(real \<Rightarrow> u64) \<Rightarrow> u64 \<Rightarrow> Multipole \<Rightarrow> u64 list" where
  "Multipole_words bits_of bal_addr e =
     [of_int (Multipole_order e), bits_of (Multipole_length e), bits_of (Multipole_hxl e), bits_of (Multipole_hyl e), bal_addr]"

definition Multipole_of :: "(u64 \<Rightarrow> real) \<Rightarrow> u64 list \<Rightarrow> u64 list option \<Rightarrow> Multipole" where
  "Multipole_of real_of ws bal =
     \<lparr>Multipole_order = sint (ws ! 0), Multipole_length = real_of (ws ! 1), Multipole_hxl = real_of (ws ! 2),
      Multipole_hyl = real_of (ws ! 3), Multipole_bal_values = map_option (map real_of) bal\<rparr>"

definition Multipole_at :: "(u64 \<Rightarrow> real) \<Rightarrow> mem \<Rightarrow> u64 \<Rightarrow> Multipole" where
  "Multipole_at real_of m p =
     (let ws = map (\<lambda>j. rd64 m (word_addr p j)) [0..<5]
      in Multipole_of real_of ws
           (if ws ! 4 = 0 then None else Some (array_read m (ws ! 4) (nat (2 * sint (ws ! 0) + 2)))))"

definition Multipole_num_slots :: "mem \<Rightarrow> u64 \<Rightarrow> u64 \<Rightarrow> u64" where
  "Multipole_num_slots m multipole slot_size =
     (if multipole \<noteq> 0 \<and> slot_size > 0 then
        let num_bytes = ManagedBuffer_get_slot_based_length sizeof_Multipole slot_size;
            bal_length = Multipole_bal_length (Multipole_at (\<lambda>_. 0) m multipole);
            num_bytes = num_bytes + ManagedBuffer_get_slot_based_length (bal_length * 8) slot_size
        in slots_for num_bytes slot_size
      else 0)"

definition Multipole_const_from_obj_index :: "mem \<Rightarrow> u64 \<Rightarrow> u64" where
  "Multipole_const_from_obj_index m obj =
     (if obj \<noteq> 0 \<and> Object_get_type_id m obj = OBJECT_TYPE_MULTIPOLE \<and> Object_get_size m obj \<ge> sizeof_Multipole
      then Object_get_begin_addr m obj else 0)"

definition Multipole_from_obj_index :: "mem \<Rightarrow> u64 \<Rightarrow> u64" where
  "Multipole_from_obj_index m obj = Multipole_const_from_obj_index m obj"

definition Multipole_const_from_managed_buffer :: "mem \<Rightarrow> u64 \<Rightarrow> u64 \<Rightarrow> u64 \<Rightarrow> u64" where
  "Multipole_const_from_managed_buffer m buffer_begin index slot_size =
     Multipole_const_from_obj_index m (ManagedBuffer_get_const_object m buffer_begin index slot_size)"

definition Multipole_const_from_buffer :: "mem \<Rightarrow> Buffer \<Rightarrow> u64 \<Rightarrow> u64" where
  "Multipole_const_from_buffer m buffer index = Multipole_const_from_obj_index m (Buffer_get_const_object m buffer index)"

definition Multipole_from_managed_buffer :: "mem \<Rightarrow> u64 \<Rightarrow> u64 \<Rightarrow> u64 \<Rightarrow> u64" where
  "Multipole_from_managed_buffer m buffer_begin index slot_size =
     Multipole_from_obj_index m (ManagedBuffer_get_object m buffer_begin index slot_size)"

definition Multipole_from_buffer :: "mem \<Rightarrow> Buffer \<Rightarrow> u64 \<Rightarrow> u64" where
  "Multipole_from_buffer m buffer index = Multipole_from_obj_index m (Buffer_get_object m buffer index)"

definition Multipole_attributes_offsets :: "u64 list \<Rightarrow> Multipole option \<Rightarrow> u64 \<Rightarrow> u64 list \<times> arch_status" where
  "Multipole_attributes_offsets offsets multipole slot_size =
     (if offsets \<noteq> [] \<and> multipole \<noteq> None \<and> slot_size > 0 then (32 # map (\<lambda>_. 0) (tl offsets), 0) else (offsets, - 1))"

definition Multipole_attributes_sizes :: "u64 list \<Rightarrow> Multipole option \<Rightarrow> u64 \<Rightarrow> u64 list \<times> arch_status" where
  "Multipole_attributes_sizes sizes multipole slot_size =
     (if sizes \<noteq> [] \<and> multipole \<noteq> None \<and> slot_size > 0 then (8 # map (\<lambda>_. 0) (tl sizes), 0) else (sizes, - 1))"

definition Multipole_attributes_counts :: "u64 list \<Rightarrow> Multipole option \<Rightarrow> u64 \<Rightarrow> u64 list \<times> arch_status" where
  "Multipole_attributes_counts counts multipole slot_size =
     (if counts \<noteq> [] \<and> multipole \<noteq> None \<and> slot_size > 0 then (Multipole_bal_length (the multipole) # map (\<lambda>_. 0) (tl counts), 0) else (counts, - 1))"

definition Multipole_can_be_added :: "Multipole \<Rightarrow> mem \<Rightarrow> Buffer \<Rightarrow> i64 \<Rightarrow> bool \<times> (u64 \<times> u64 \<times> u64) option" where
  "Multipole_can_be_added data m buffer order =
     (let slot_size = Buffer_get_slot_size buffer;
          (data, status) = Multipole_clear data;
          (data, status1) = Multipole_set_order data order
      in if (status OR status1) = 0 \<and> Multipole_num_dataptrs = 1 \<and> slot_size > 0 \<and> order \<ge> 0 then
           let (sizes, status) = Multipole_attributes_sizes [0] (Some data) slot_size;
               (counts, status) = (if status = 0 then Multipole_attributes_counts [0] (Some data) slot_size else ([0], status))
           in if status = 0 then Buffer_can_add_object m buffer sizeof_Multipole (zip sizes counts) else (False, None)
         else (False, None))"

text \<open>
  The three tables of the arrays, in the order in which the functions that add an element fill them. The tables are
  not initialised when the slot size is 0; the model takes zeros there.
\<close>

definition Multipole_tables :: "Multipole \<Rightarrow> u64 \<Rightarrow> (u64 \<times> u64 \<times> u64) list \<times> arch_status" where
  "Multipole_tables data slot_size =
     (let (offsets, status) = Multipole_attributes_offsets [0] (Some data) slot_size;
          (sizes, status) = (if status = 0 then Multipole_attributes_sizes [0] (Some data) slot_size else ([0], status));
          (counts, status) = (if status = 0 then Multipole_attributes_counts [0] (Some data) slot_size else ([0], status))
      in (zip offsets (zip sizes counts), status))"

definition Multipole_new :: "(real \<Rightarrow> u64) \<Rightarrow> Multipole \<Rightarrow> mem \<Rightarrow> u64 \<Rightarrow> u64 \<Rightarrow> MemPool \<Rightarrow> Buffer \<Rightarrow> i64 \<Rightarrow> mem \<times> MemPool \<times> Buffer \<times> u64" where
  "Multipole_new bits_of data m stack new_memory mem_pool buffer order =
     (if order \<ge> 0 then
        let slot_size = Buffer_get_slot_size buffer;
            (data, status) = Multipole_clear data;
            (data, status1) = Multipole_set_order data order;
            status = status OR status1;
            (attrs, status) = (if Multipole_num_dataptrs = 1 \<and> status = 0 \<and> slot_size > 0 then Multipole_tables data slot_size
              else ([(0, 0, 0)], status))
        in if status = 0 then
             add_from_stack m stack new_memory mem_pool buffer (Multipole_words bits_of 0 data) sizeof_Multipole Multipole_type_id attrs
           else (m, mem_pool, buffer, 0)
      else (m, mem_pool, buffer, 0))"

definition Multipole_add :: "(real \<Rightarrow> u64) \<Rightarrow> Multipole \<Rightarrow> mem \<Rightarrow> u64 \<Rightarrow> u64 \<Rightarrow> MemPool \<Rightarrow> Buffer \<Rightarrow> i64 \<Rightarrow> real \<Rightarrow> real \<Rightarrow> real \<Rightarrow> u64 \<Rightarrow> mem \<times> MemPool \<times> Buffer \<times> u64" where
  "Multipole_add bits_of data m stack new_memory mem_pool buffer order len hxl hyl bal_addr =
     (if order \<ge> 0 then
        let slot_size = Buffer_get_slot_size buffer;
            (data, status) = Multipole_clear data;
            (data, status1) = Multipole_set_order data order;
            (data, status2) = Multipole_set_length data len;
            (data, status3) = Multipole_set_hxl data hxl;
            (data, status4) = Multipole_set_hyl data hyl;
            status = status OR status1 OR status2 OR status3 OR status4;
            (attrs, status) = (if Multipole_num_dataptrs = 1 \<and> status = 0 \<and> slot_size > 0 then Multipole_tables data slot_size
              else ([(0, 0, 0)], status))
        in if status = 0 then
             add_from_stack m stack new_memory mem_pool buffer (Multipole_words bits_of bal_addr data) sizeof_Multipole Multipole_type_id attrs
           else (m, mem_pool, buffer, 0)
      else (m, mem_pool, buffer, 0))"

definition Multipole_add_copy :: "mem \<Rightarrow> u64 \<Rightarrow> MemPool \<Rightarrow> Buffer \<Rightarrow> u64 \<Rightarrow> mem \<times> MemPool \<times> Buffer \<times> u64" where
  "Multipole_add_copy m new_memory mem_pool buffer orig =
     (if orig \<noteq> 0 then
        let slot_size = Buffer_get_slot_size buffer;
            (attrs, status) = (if Multipole_num_dataptrs = 1 \<and> slot_size > 0
              then Multipole_tables (Multipole_at (\<lambda>_. 0) m orig) slot_size else ([(0, 0, 0)], - 1))
        in if status = 0 then place_object m new_memory mem_pool buffer orig sizeof_Multipole Multipole_type_id attrs
           else (m, mem_pool, buffer, 0)
      else (m, mem_pool, buffer, 0))"

subsection \<open>RF multipoles\<close>

definition RFMultipole_set_order :: "RFMultipole \<Rightarrow> i64 \<Rightarrow> RFMultipole \<times> arch_status" where
  "RFMultipole_set_order mpole order = (mpole\<lparr>RFMultipole_order := order\<rparr>, 0)"

definition RFMultipole_set_voltage :: "RFMultipole \<Rightarrow> real \<Rightarrow> RFMultipole \<times> arch_status" where
  "RFMultipole_set_voltage mpole voltage = (mpole\<lparr>RFMultipole_voltage := voltage\<rparr>, 0)"

definition RFMultipole_set_frequency :: "RFMultipole \<Rightarrow> real \<Rightarrow> RFMultipole \<times> arch_status" where
  "RFMultipole_set_frequency mpole frequency = (mpole\<lparr>RFMultipole_frequency := frequency\<rparr>, 0)"

definition RFMultipole_set_lag :: "RFMultipole \<Rightarrow> real \<Rightarrow> RFMultipole \<times> arch_status" where
  "RFMultipole_set_lag mpole lag = (mpole\<lparr>RFMultipole_lag := lag\<rparr>, 0)"

definition RFMultipole_set_bal_addr :: "RFMultipole \<Rightarrow> real list \<Rightarrow> RFMultipole \<times> arch_status" where
  "RFMultipole_set_bal_addr mpole bal = (mpole\<lparr>RFMultipole_bal_values := bal\<rparr>, 0)"

definition RFMultipole_set_phase_addr :: "RFMultipole \<Rightarrow> real list \<Rightarrow> RFMultipole \<times> arch_status" where
  "RFMultipole_set_phase_addr mpole phase = (mpole\<lparr>RFMultipole_phase_values := phase\<rparr>, 0)"

definition RFMultipole_bal_length :: "RFMultipole \<Rightarrow> u64" where
  "RFMultipole_bal_length mpole = u64_of (2 * RFMultipole_order mpole + 2)"

definition RFMultipole_phase_length :: "RFMultipole \<Rightarrow> u64" where
  "RFMultipole_phase_length mpole = u64_of (2 * RFMultipole_order mpole + 2)"

definition RFMultipole_clear :: "RFMultipole \<Rightarrow> RFMultipole \<times> arch_status" where
  "RFMultipole_clear multipole =
     (let (multipole, status1) = RFMultipole_set_order multipole 0;
          (multipole, status2) = RFMultipole_set_voltage multipole 0;
          (multipole, status3) = RFMultipole_set_frequency multipole 0;
          (multipole, status4) = RFMultipole_set_lag multipole 0;
          (multipole, status5) = RFMultipole_set_bal_addr multipole [];
          (multipole, status6) = RFMultipole_set_phase_addr multipole []
      in (multipole, status1 OR status2 OR status3 OR status4 OR status5 OR status6))"

definition RFMultipole_preset :: "RFMultipole option \<Rightarrow> RFMultipole option" where
  "RFMultipole_preset multipole = map_option (\<lambda>e. fst (RFMultipole_clear e)) multipole"

definition OBJECT_TYPE_RF_MULTIPOLE :: "u64" where
  "OBJECT_TYPE_RF_MULTIPOLE = 256"

definition sizeof_RFMultipole :: "u64" where
  "sizeof_RFMultipole = 48"

definition RFMultipole_type_id :: "u64" where
  "RFMultipole_type_id = OBJECT_TYPE_RF_MULTIPOLE"

definition RFMultipole_num_dataptrs :: "u64" where
  "RFMultipole_num_dataptrs = 2"

definition RFMultipole_words :: "(real \<Rightarrow> u64) \<Rightarrow> u64 \<Rightarrow> u64 \<Rightarrow> RFMultipole \<Rightarrow> u64 list" where
  "RFMultipole_words bits_of bal_addr phase_addr e =
     [of_int (RFMultipole_order e), bits_of (RFMultipole_voltage e), bits_of (RFMultipole_frequency e), bits_of (RFMultipole_lag e),
      bal_addr, phase_addr]"

definition RFMultipole_of :: "(u64 \<Rightarrow> real) \<Rightarrow> u64 list \<Rightarrow> u64 list \<Rightarrow> u64 list \<Rightarrow> RFMultipole" where
  "RFMultipole_of real_of ws bal phase =
     \<lparr>RFMultipole_order = sint (ws ! 0), RFMultipole_voltage = real_of (ws ! 1), RFMultipole_frequency = real_of (ws ! 2),
      RFMultipole_lag = real_of (ws ! 3), RFMultipole_bal_values = map real_of bal, RFMultipole_phase_values = map real_of phase\<rparr>"

definition RFMultipole_at :: "(u64 \<Rightarrow> real) \<Rightarrow> mem \<Rightarrow> u64 \<Rightarrow> RFMultipole" where
  "RFMultipole_at real_of m p =
     (let ws = map (\<lambda>j. rd64 m (word_addr p j)) [0..<6]; k = nat (2 * sint (ws ! 0) + 2)
      in RFMultipole_of real_of ws (array_read m (ws ! 4) k) (array_read m (ws ! 5) k))"

definition RFMultipole_num_slots :: "mem \<Rightarrow> u64 \<Rightarrow> u64 \<Rightarrow> u64" where
  "RFMultipole_num_slots m mpole slot_size =
     (if slot_size > 0 \<and> mpole \<noteq> 0 then
        let num_bytes = ManagedBuffer_get_slot_based_length sizeof_RFMultipole slot_size;
            n_bal_vals = RFMultipole_bal_length (RFMultipole_at (\<lambda>_. 0) m mpole);
            n_phase_vals = RFMultipole_phase_length (RFMultipole_at (\<lambda>_. 0) m mpole);
            num_bytes = num_bytes + ManagedBuffer_get_slot_based_length (8 * n_bal_vals) slot_size;
            num_bytes = num_bytes + ManagedBuffer_get_slot_based_length (8 * n_phase_vals) slot_size
        in slots_for num_bytes slot_size
      else 0)"

definition RFMultipole_const_from_obj_index :: "mem \<Rightarrow> u64 \<Rightarrow> u64" where
  "RFMultipole_const_from_obj_index m obj =
     (if obj \<noteq> 0 \<and> Object_get_type_id m obj = OBJECT_TYPE_RF_MULTIPOLE \<and> Object_get_size m obj \<ge> sizeof_RFMultipole
      then Object_get_begin_addr m obj else 0)"

definition RFMultipole_from_obj_index :: "mem \<Rightarrow> u64 \<Rightarrow> u64" where
  "RFMultipole_from_obj_index m obj = RFMultipole_const_from_obj_index m obj"

definition RFMultipole_const_from_managed_buffer :: "mem \<Rightarrow> u64 \<Rightarrow> u64 \<Rightarrow> u64 \<Rightarrow> u64" where
  "RFMultipole_const_from_managed_buffer m buffer_begin index slot_size =
     RFMultipole_const_from_obj_index m (ManagedBuffer_get_const_object m buffer_begin index slot_size)"

definition RFMultipole_const_from_buffer :: "mem \<Rightarrow> Buffer \<Rightarrow> u64 \<Rightarrow> u64" where
  "RFMultipole_const_from_buffer m buffer index = RFMultipole_const_from_obj_index m (Buffer_get_const_object m buffer index)"

definition RFMultipole_from_managed_buffer :: "mem \<Rightarrow> u64 \<Rightarrow> u64 \<Rightarrow> u64 \<Rightarrow> u64" where
  "RFMultipole_from_managed_buffer m buffer_begin index slot_size =
     RFMultipole_from_obj_index m (ManagedBuffer_get_object m buffer_begin index slot_size)"

definition RFMultipole_from_buffer :: "mem \<Rightarrow> Buffer \<Rightarrow> u64 \<Rightarrow> u64" where
  "RFMultipole_from_buffer m buffer index = RFMultipole_from_obj_index m (Buffer_get_object m buffer index)"

definition RFMultipole_attributes_offsets :: "u64 list \<Rightarrow> RFMultipole option \<Rightarrow> u64 \<Rightarrow> u64 list \<times> arch_status" where
  "RFMultipole_attributes_offsets offsets mpole slot_size =
     (if mpole \<noteq> None \<and> slot_size > 0 \<and> of_nat (length offsets) \<ge> RFMultipole_num_dataptrs then (32 # 40 # drop 2 offsets, 0) else (offsets, - 1))"

definition RFMultipole_attributes_sizes :: "u64 list \<Rightarrow> RFMultipole option \<Rightarrow> u64 \<Rightarrow> u64 list \<times> arch_status" where
  "RFMultipole_attributes_sizes sizes mpole slot_size =
     (if mpole \<noteq> None \<and> slot_size > 0 \<and> of_nat (length sizes) \<ge> RFMultipole_num_dataptrs then (8 # 8 # drop 2 sizes, 0) else (sizes, - 1))"

definition RFMultipole_attributes_counts :: "u64 list \<Rightarrow> RFMultipole option \<Rightarrow> u64 \<Rightarrow> u64 list \<times> arch_status" where
  "RFMultipole_attributes_counts counts mpole slot_size =
     (if of_nat (length counts) \<ge> RFMultipole_num_dataptrs \<and> slot_size > 0 \<and> RFMultipole_order (the mpole) \<ge> 0 then (RFMultipole_bal_length (the mpole) # RFMultipole_phase_length (the mpole) # drop 2 counts, 0) else (counts, - 1))"

definition RFMultipole_tables :: "RFMultipole \<Rightarrow> u64 \<Rightarrow> (u64 \<times> u64 \<times> u64) list \<times> arch_status" where
  "RFMultipole_tables data slot_size =
     (let (offsets, status) = RFMultipole_attributes_offsets [0, 0] (Some data) slot_size;
          (sizes, status) = (if status = 0 then RFMultipole_attributes_sizes [0, 0] (Some data) slot_size else ([0, 0], status));
          (counts, status) = (if status = 0 then RFMultipole_attributes_counts [0, 0] (Some data) slot_size else ([0, 0], status))
      in (zip offsets (zip sizes counts), status))"

definition RFMultipole_can_be_added :: "RFMultipole \<Rightarrow> mem \<Rightarrow> Buffer \<Rightarrow> i64 \<Rightarrow> bool \<times> (u64 \<times> u64 \<times> u64) option" where
  "RFMultipole_can_be_added mpole m buffer order =
     (let slot_size = Buffer_get_slot_size buffer;
          (mpole, status) = RFMultipole_clear mpole;
          (mpole, status1) = RFMultipole_set_order mpole order
      in if (status OR status1) = 0 \<and> order \<ge> 0 \<and> RFMultipole_num_dataptrs = 2 then
           let (sizes, status) = RFMultipole_attributes_sizes [0, 0] (Some mpole) slot_size;
               (counts, status) = (if status = 0 then RFMultipole_attributes_counts [0, 0] (Some mpole) slot_size else ([0, 0], status))
           in if status = 0 then Buffer_can_add_object m buffer sizeof_RFMultipole (zip sizes counts) else (False, None)
         else (False, None))"

definition RFMultipole_new :: "(real \<Rightarrow> u64) \<Rightarrow> RFMultipole \<Rightarrow> mem \<Rightarrow> u64 \<Rightarrow> u64 \<Rightarrow> MemPool \<Rightarrow> Buffer \<Rightarrow> i64 \<Rightarrow> mem \<times> MemPool \<times> Buffer \<times> u64" where
  "RFMultipole_new bits_of mpole m stack new_memory mem_pool buffer order =
     (let slot_size = Buffer_get_slot_size buffer;
          (mpole, status) = RFMultipole_clear mpole;
          (mpole, status1) = RFMultipole_set_order mpole order
      in if (status OR status1) = 0 \<and> order \<ge> 0 \<and> RFMultipole_num_dataptrs = 2 then
           let (attrs, status) = RFMultipole_tables mpole slot_size
           in if status = 0 then
                add_from_stack m stack new_memory mem_pool buffer (RFMultipole_words bits_of 0 0 mpole) sizeof_RFMultipole
                  RFMultipole_type_id attrs
              else (m, mem_pool, buffer, 0)
         else (m, mem_pool, buffer, 0))"

definition RFMultipole_add :: "(real \<Rightarrow> u64) \<Rightarrow> RFMultipole \<Rightarrow> mem \<Rightarrow> u64 \<Rightarrow> u64 \<Rightarrow> MemPool \<Rightarrow> Buffer \<Rightarrow> i64 \<Rightarrow> real \<Rightarrow> real \<Rightarrow> real \<Rightarrow> u64 \<Rightarrow> u64 \<Rightarrow> mem \<times> MemPool \<times> Buffer \<times> u64" where
  "RFMultipole_add bits_of mpole m stack new_memory mem_pool buffer order voltage frequency lag bal_addr phase_addr =
     (let slot_size = Buffer_get_slot_size buffer;
          (mpole, status) = RFMultipole_clear mpole;
          (mpole, status1) = RFMultipole_set_order mpole order;
          (mpole, status2) = RFMultipole_set_voltage mpole voltage;
          (mpole, status3) = RFMultipole_set_frequency mpole frequency;
          (mpole, status4) = RFMultipole_set_lag mpole lag
      in if (status OR status1 OR status2 OR status3 OR status4) = 0 \<and> order \<ge> 0 \<and> RFMultipole_num_dataptrs = 2 then
           let (attrs, status) = RFMultipole_tables mpole slot_size
           in if status = 0 then
                add_from_stack m stack new_memory mem_pool buffer (RFMultipole_words bits_of bal_addr phase_addr mpole) sizeof_RFMultipole
                  RFMultipole_type_id attrs
              else (m, mem_pool, buffer, 0)
         else (m, mem_pool, buffer, 0))"

definition RFMultipole_add_copy :: "mem \<Rightarrow> u64 \<Rightarrow> MemPool \<Rightarrow> Buffer \<Rightarrow> u64 \<Rightarrow> mem \<times> MemPool \<times> Buffer \<times> u64" where
  "RFMultipole_add_copy m new_memory mem_pool buffer orig =
     (let slot_size = Buffer_get_slot_size buffer
      in if orig \<noteq> 0 \<and> RFMultipole_num_dataptrs = 2 then
           let (attrs, status) = RFMultipole_tables (RFMultipole_at (\<lambda>_. 0) m orig) slot_size
           in if status = 0 then
                place_object m new_memory mem_pool buffer orig sizeof_RFMultipole RFMultipole_type_id attrs
              else (m, mem_pool, buffer, 0)
         else (m, mem_pool, buffer, 0))"

subsection \<open>Beam-beam elements\<close>

definition BeamBeam4D_set_data_size :: "BeamBeam4D \<Rightarrow> u64 \<Rightarrow> BeamBeam4D \<times> arch_status" where
  "BeamBeam4D_set_data_size bb_elem data_size =
     (let min_bb4_data_size = ManagedBuffer_get_slot_based_length 88 8 div 8
      in if data_size = 0 \<or> data_size \<ge> min_bb4_data_size then (bb_elem\<lparr>BeamBeam4D_data_size := data_size\<rparr>, 0)
         else (bb_elem, - 1))"

definition BeamBeam4D_clear :: "BeamBeam4D \<Rightarrow> BeamBeam4D" where
  "BeamBeam4D_clear bb_elem =
     (let (bb_elem, status) = BeamBeam4D_set_data_addr bb_elem None;
          (bb_elem, status1) = BeamBeam4D_set_data_size bb_elem 0
      in bb_elem)"

definition BeamBeam4D_preset :: "BeamBeam4D option \<Rightarrow> BeamBeam4D option" where
  "BeamBeam4D_preset bb_elem = map_option (BeamBeam4D_clear) bb_elem"

definition OBJECT_TYPE_BEAM_BEAM_4D :: "u64" where
  "OBJECT_TYPE_BEAM_BEAM_4D = 8"

definition sizeof_BeamBeam4D :: "u64" where
  "sizeof_BeamBeam4D = 16"

definition BeamBeam4D_type_id :: "u64" where
  "BeamBeam4D_type_id = OBJECT_TYPE_BEAM_BEAM_4D"

definition BeamBeam4D_num_dataptrs :: "u64" where
  "BeamBeam4D_num_dataptrs = 1"

definition BeamBeam4D_words :: "u64 \<Rightarrow> BeamBeam4D \<Rightarrow> u64 list" where
  "BeamBeam4D_words data_addr e = [BeamBeam4D_data_size e, data_addr]"

definition BeamBeam4D_at :: "mem \<Rightarrow> u64 \<Rightarrow> BeamBeam4D" where
  "BeamBeam4D_at m p = \<lparr>BeamBeam4D_data_size = rd64 m p, BeamBeam4D_data = None\<rparr>"

definition BeamBeam4D_num_slots :: "mem \<Rightarrow> u64 \<Rightarrow> u64 \<Rightarrow> u64" where
  "BeamBeam4D_num_slots m elem slot_size =
     (if elem \<noteq> 0 \<and> slot_size > 0 then
        let num_bytes = ManagedBuffer_get_slot_based_length sizeof_BeamBeam4D slot_size;
            stored_data_size = BeamBeam4D_data_size (BeamBeam4D_at m elem) * 8
        in slots_for (num_bytes + stored_data_size) slot_size
      else 0)"

definition BeamBeam4D_const_from_obj_index :: "mem \<Rightarrow> u64 \<Rightarrow> u64" where
  "BeamBeam4D_const_from_obj_index m obj =
     (if Object_get_type_id m obj = OBJECT_TYPE_BEAM_BEAM_4D \<and> Object_get_size m obj \<ge> sizeof_BeamBeam4D
      then Object_get_begin_addr m obj else 0)"

definition BeamBeam4D_from_obj_index :: "mem \<Rightarrow> u64 \<Rightarrow> u64" where
  "BeamBeam4D_from_obj_index m obj = BeamBeam4D_const_from_obj_index m obj"

definition BeamBeam4D_const_from_managed_buffer :: "mem \<Rightarrow> u64 \<Rightarrow> u64 \<Rightarrow> u64 \<Rightarrow> u64" where
  "BeamBeam4D_const_from_managed_buffer m buffer_begin index slot_size =
     BeamBeam4D_const_from_obj_index m (ManagedBuffer_get_const_object m buffer_begin index slot_size)"

definition BeamBeam4D_const_from_buffer :: "mem \<Rightarrow> Buffer \<Rightarrow> u64 \<Rightarrow> u64" where
  "BeamBeam4D_const_from_buffer m buffer index = BeamBeam4D_const_from_obj_index m (Buffer_get_const_object m buffer index)"

definition BeamBeam4D_from_managed_buffer :: "mem \<Rightarrow> u64 \<Rightarrow> u64 \<Rightarrow> u64 \<Rightarrow> u64" where
  "BeamBeam4D_from_managed_buffer m buffer_begin index slot_size =
     BeamBeam4D_from_obj_index m (ManagedBuffer_get_object m buffer_begin index slot_size)"

definition BeamBeam4D_from_buffer :: "mem \<Rightarrow> Buffer \<Rightarrow> u64 \<Rightarrow> u64" where
  "BeamBeam4D_from_buffer m buffer index = BeamBeam4D_from_obj_index m (Buffer_get_object m buffer index)"

definition BeamBeam4D_attributes_offsets :: "u64 list \<Rightarrow> BeamBeam4D option \<Rightarrow> u64 \<Rightarrow> u64 list \<times> arch_status" where
  "BeamBeam4D_attributes_offsets offsets elem slot_size =
     (if offsets \<noteq> [] \<and> elem \<noteq> None \<and> slot_size > 0 then (8 # map (\<lambda>_. 0) (tl offsets), 0) else (offsets, - 1))"

definition BeamBeam4D_attributes_sizes :: "u64 list \<Rightarrow> BeamBeam4D option \<Rightarrow> u64 \<Rightarrow> u64 list \<times> arch_status" where
  "BeamBeam4D_attributes_sizes sizes elem slot_size =
     (if sizes \<noteq> [] \<and> elem \<noteq> None \<and> slot_size > 0 then (8 # map (\<lambda>_. 0) (tl sizes), 0) else (sizes, - 1))"

definition BeamBeam4D_attributes_counts :: "u64 list \<Rightarrow> BeamBeam4D option \<Rightarrow> u64 \<Rightarrow> u64 list \<times> arch_status" where
  "BeamBeam4D_attributes_counts counts elem slot_size =
     (if counts \<noteq> [] \<and> elem \<noteq> None \<and> slot_size > 0 then (BeamBeam4D_data_size (the elem) # map (\<lambda>_. 0) (tl counts), 0) else (counts, - 1))"

definition BeamBeam4D_tables :: "BeamBeam4D \<Rightarrow> u64 \<Rightarrow> (u64 \<times> u64 \<times> u64) list \<times> arch_status" where
  "BeamBeam4D_tables data slot_size =
     (let (sizes, status) = BeamBeam4D_attributes_sizes [0] (Some data) slot_size;
          (offsets, status) = (if status = 0 then BeamBeam4D_attributes_offsets [0] (Some data) slot_size else ([0], status));
          (counts, status) = (if status = 0 then BeamBeam4D_attributes_counts [0] (Some data) slot_size else ([0], status))
      in (zip offsets (zip sizes counts), status))"

definition BeamBeam4D_can_be_added :: "BeamBeam4D \<Rightarrow> mem \<Rightarrow> Buffer \<Rightarrow> u64 \<Rightarrow> bool \<times> (u64 \<times> u64 \<times> u64) option" where
  "BeamBeam4D_can_be_added temp m buffer data_size =
     (let (temp, status) = BeamBeam4D_set_data_size (the (BeamBeam4D_preset (Some temp))) data_size
      in if status = 0 then
           let slot_size = Buffer_get_slot_size buffer;
               (sizes, status) = BeamBeam4D_attributes_sizes [0] (Some temp) slot_size;
               (counts, status) = (if status = 0 then BeamBeam4D_attributes_counts [0] (Some temp) slot_size else ([0], status))
           in if status = 0 \<and> BeamBeam4D_num_dataptrs = 1 then Buffer_can_add_object m buffer sizeof_BeamBeam4D (zip sizes counts)
              else (False, None)
         else (False, None))"

definition BeamBeam4D_new :: "BeamBeam4D \<Rightarrow> mem \<Rightarrow> u64 \<Rightarrow> u64 \<Rightarrow> MemPool \<Rightarrow> Buffer \<Rightarrow> u64 \<Rightarrow> mem \<times> MemPool \<times> Buffer \<times> u64" where
  "BeamBeam4D_new temp m stack new_memory mem_pool buffer data_size =
     (let slot_size = Buffer_get_slot_size buffer;
          (temp, status) = BeamBeam4D_set_data_size (the (BeamBeam4D_preset (Some temp))) data_size;
          (attrs, status) = (if status = 0 then BeamBeam4D_tables temp slot_size else ([], status))
      in if status = 0 \<and> BeamBeam4D_num_dataptrs = 1 then
           add_from_stack m stack new_memory mem_pool buffer (BeamBeam4D_words 0 temp) sizeof_BeamBeam4D BeamBeam4D_type_id attrs
         else (m, mem_pool, buffer, 0))"

definition BeamBeam4D_add :: "BeamBeam4D \<Rightarrow> mem \<Rightarrow> u64 \<Rightarrow> u64 \<Rightarrow> MemPool \<Rightarrow> Buffer \<Rightarrow> u64 \<Rightarrow> u64 \<Rightarrow> mem \<times> MemPool \<times> Buffer \<times> u64" where
  "BeamBeam4D_add temp m stack new_memory mem_pool buffer data_size data_addr =
     (let slot_size = Buffer_get_slot_size buffer;
          (temp, status) = BeamBeam4D_set_data_size (the (BeamBeam4D_preset (Some temp))) data_size;
          (attrs, status) = (if status = 0 then BeamBeam4D_tables temp slot_size else ([], status))
      in if status = 0 \<and> BeamBeam4D_num_dataptrs = 1 then
           add_from_stack m stack new_memory mem_pool buffer (BeamBeam4D_words data_addr temp) sizeof_BeamBeam4D BeamBeam4D_type_id attrs
         else (m, mem_pool, buffer, 0))"

definition BeamBeam4D_add_copy :: "mem \<Rightarrow> u64 \<Rightarrow> MemPool \<Rightarrow> Buffer \<Rightarrow> u64 \<Rightarrow> mem \<times> MemPool \<times> Buffer \<times> u64" where
  "BeamBeam4D_add_copy m new_memory mem_pool buffer orig =
     (let slot_size = Buffer_get_slot_size buffer;
          elem = (if orig \<noteq> 0 then Some (BeamBeam4D_at m orig) else None);
          (sizes, status) = BeamBeam4D_attributes_sizes [0] elem slot_size;
          (offsets, status) = (if status = 0 then BeamBeam4D_attributes_offsets [0] elem slot_size else ([0], status));
          (counts, status) = (if status = 0 then BeamBeam4D_attributes_counts [0] elem slot_size else ([0], status))
      in if status = 0 \<and> BeamBeam4D_num_dataptrs = 1 then
           place_object m new_memory mem_pool buffer orig sizeof_BeamBeam4D BeamBeam4D_type_id (zip offsets (zip sizes counts))
         else (m, mem_pool, buffer, 0))"

text \<open>\<open>NS(BeamBeam6D_type_id)\<close> returns the type of the beam-beam 4D elements.\<close>

definition OBJECT_TYPE_BEAM_BEAM_6D :: "u64" where
  "OBJECT_TYPE_BEAM_BEAM_6D = 9"

definition sizeof_BeamBeam6D :: "u64" where
  "sizeof_BeamBeam6D = 16"

definition BeamBeam6D_type_id :: "u64" where
  "BeamBeam6D_type_id = OBJECT_TYPE_BEAM_BEAM_4D"

definition BeamBeam6D_num_dataptrs :: "u64" where
  "BeamBeam6D_num_dataptrs = 1"

definition BeamBeam6D_words :: "u64 \<Rightarrow> BeamBeam6D \<Rightarrow> u64 list" where
  "BeamBeam6D_words data_addr e = [BeamBeam6D_data_size e, data_addr]"

definition BeamBeam6D_at :: "mem \<Rightarrow> u64 \<Rightarrow> BeamBeam6D" where
  "BeamBeam6D_at m p = \<lparr>BeamBeam6D_data_size = rd64 m p, BeamBeam6D_data = None\<rparr>"

definition BeamBeam6D_num_slots :: "mem \<Rightarrow> u64 \<Rightarrow> u64 \<Rightarrow> u64" where
  "BeamBeam6D_num_slots m elem slot_size =
     (if elem \<noteq> 0 \<and> slot_size > 0 then
        let num_bytes = ManagedBuffer_get_slot_based_length sizeof_BeamBeam6D slot_size;
            stored_data_size = BeamBeam6D_data_size (BeamBeam6D_at m elem) * 8
        in slots_for (num_bytes + stored_data_size) slot_size
      else 0)"

definition BeamBeam6D_const_from_obj_index :: "mem \<Rightarrow> u64 \<Rightarrow> u64" where
  "BeamBeam6D_const_from_obj_index m obj =
     (if Object_get_type_id m obj = OBJECT_TYPE_BEAM_BEAM_6D \<and> Object_get_size m obj \<ge> sizeof_BeamBeam6D
      then Object_get_begin_addr m obj else 0)"

definition BeamBeam6D_from_obj_index :: "mem \<Rightarrow> u64 \<Rightarrow> u64" where
  "BeamBeam6D_from_obj_index m obj = BeamBeam6D_const_from_obj_index m obj"

definition BeamBeam6D_const_from_managed_buffer :: "mem \<Rightarrow> u64 \<Rightarrow> u64 \<Rightarrow> u64 \<Rightarrow> u64" where
  "BeamBeam6D_const_from_managed_buffer m buffer_begin index slot_size =
     BeamBeam6D_const_from_obj_index m (ManagedBuffer_get_const_object m buffer_begin index slot_size)"

definition BeamBeam6D_const_from_buffer :: "mem \<Rightarrow> Buffer \<Rightarrow> u64 \<Rightarrow> u64" where
  "BeamBeam6D_const_from_buffer m buffer index = BeamBeam6D_const_from_obj_index m (Buffer_get_const_object m buffer index)"

definition BeamBeam6D_from_managed_buffer :: "mem \<Rightarrow> u64 \<Rightarrow> u64 \<Rightarrow> u64 \<Rightarrow> u64" where
  "BeamBeam6D_from_managed_buffer m buffer_begin index slot_size =
     BeamBeam6D_from_obj_index m (ManagedBuffer_get_object m buffer_begin index slot_size)"

definition BeamBeam6D_from_buffer :: "mem \<Rightarrow> Buffer \<Rightarrow> u64 \<Rightarrow> u64" where
  "BeamBeam6D_from_buffer m buffer index = BeamBeam6D_from_obj_index m (Buffer_get_object m buffer index)"

definition BeamBeam6D_attributes_offsets :: "u64 list \<Rightarrow> BeamBeam6D option \<Rightarrow> u64 \<Rightarrow> u64 list \<times> arch_status" where
  "BeamBeam6D_attributes_offsets offsets elem slot_size =
     (if offsets \<noteq> [] \<and> elem \<noteq> None \<and> slot_size > 0 then (8 # map (\<lambda>_. 0) (tl offsets), 0) else (offsets, - 1))"

definition BeamBeam6D_attributes_sizes :: "u64 list \<Rightarrow> BeamBeam6D option \<Rightarrow> u64 \<Rightarrow> u64 list \<times> arch_status" where
  "BeamBeam6D_attributes_sizes sizes elem slot_size =
     (if sizes \<noteq> [] \<and> elem \<noteq> None \<and> slot_size > 0 then (8 # map (\<lambda>_. 0) (tl sizes), 0) else (sizes, - 1))"

definition BeamBeam6D_attributes_counts :: "u64 list \<Rightarrow> BeamBeam6D option \<Rightarrow> u64 \<Rightarrow> u64 list \<times> arch_status" where
  "BeamBeam6D_attributes_counts counts elem slot_size =
     (if counts \<noteq> [] \<and> elem \<noteq> None \<and> slot_size > 0 then (BeamBeam6D_data_size (the elem) # map (\<lambda>_. 0) (tl counts), 0) else (counts, - 1))"

definition BeamBeam6D_tables :: "BeamBeam6D \<Rightarrow> u64 \<Rightarrow> (u64 \<times> u64 \<times> u64) list \<times> arch_status" where
  "BeamBeam6D_tables data slot_size =
     (let (sizes, status) = BeamBeam6D_attributes_sizes [0] (Some data) slot_size;
          (offsets, status) = (if status = 0 then BeamBeam6D_attributes_offsets [0] (Some data) slot_size else ([0], status));
          (counts, status) = (if status = 0 then BeamBeam6D_attributes_counts [0] (Some data) slot_size else ([0], status))
      in (zip offsets (zip sizes counts), status))"

definition BeamBeam6D_can_be_added :: "BeamBeam6D \<Rightarrow> mem \<Rightarrow> Buffer \<Rightarrow> u64 \<Rightarrow> bool \<times> (u64 \<times> u64 \<times> u64) option" where
  "BeamBeam6D_can_be_added temp m buffer data_size =
     (let (temp, status) = BeamBeam6D_set_data_size (the (BeamBeam6D_preset (Some temp))) data_size
      in if status = 0 then
           let slot_size = Buffer_get_slot_size buffer;
               (sizes, status) = BeamBeam6D_attributes_sizes [0] (Some temp) slot_size;
               (counts, status) = (if status = 0 then BeamBeam6D_attributes_counts [0] (Some temp) slot_size else ([0], status))
           in if status = 0 \<and> BeamBeam6D_num_dataptrs = 1 then Buffer_can_add_object m buffer sizeof_BeamBeam6D (zip sizes counts)
              else (False, None)
         else (False, None))"

definition BeamBeam6D_new :: "BeamBeam6D \<Rightarrow> mem \<Rightarrow> u64 \<Rightarrow> u64 \<Rightarrow> MemPool \<Rightarrow> Buffer \<Rightarrow> u64 \<Rightarrow> mem \<times> MemPool \<times> Buffer \<times> u64" where
  "BeamBeam6D_new temp m stack new_memory mem_pool buffer data_size =
     (let slot_size = Buffer_get_slot_size buffer;
          (temp, status) = BeamBeam6D_set_data_size (the (BeamBeam6D_preset (Some temp))) data_size;
          (attrs, status) = (if status = 0 then BeamBeam6D_tables temp slot_size else ([], status))
      in if status = 0 \<and> BeamBeam6D_num_dataptrs = 1 then
           add_from_stack m stack new_memory mem_pool buffer (BeamBeam6D_words 0 temp) sizeof_BeamBeam6D BeamBeam6D_type_id attrs
         else (m, mem_pool, buffer, 0))"

definition BeamBeam6D_add :: "BeamBeam6D \<Rightarrow> mem \<Rightarrow> u64 \<Rightarrow> u64 \<Rightarrow> MemPool \<Rightarrow> Buffer \<Rightarrow> u64 \<Rightarrow> u64 \<Rightarrow> mem \<times> MemPool \<times> Buffer \<times> u64" where
  "BeamBeam6D_add temp m stack new_memory mem_pool buffer data_size data_addr =
     (let slot_size = Buffer_get_slot_size buffer;
          (temp, status) = BeamBeam6D_set_data_size (the (BeamBeam6D_preset (Some temp))) data_size;
          (attrs, status) = (if status = 0 then BeamBeam6D_tables temp slot_size else ([], status))
      in if status = 0 \<and> BeamBeam6D_num_dataptrs = 1 then
           add_from_stack m stack new_memory mem_pool buffer (BeamBeam6D_words data_addr temp) sizeof_BeamBeam6D BeamBeam6D_type_id attrs
         else (m, mem_pool, buffer, 0))"

definition BeamBeam6D_add_copy :: "mem \<Rightarrow> u64 \<Rightarrow> MemPool \<Rightarrow> Buffer \<Rightarrow> u64 \<Rightarrow> mem \<times> MemPool \<times> Buffer \<times> u64" where
  "BeamBeam6D_add_copy m new_memory mem_pool buffer orig =
     (let slot_size = Buffer_get_slot_size buffer;
          elem = (if orig \<noteq> 0 then Some (BeamBeam6D_at m orig) else None);
          (sizes, status) = BeamBeam6D_attributes_sizes [0] elem slot_size;
          (offsets, status) = (if status = 0 then BeamBeam6D_attributes_offsets [0] elem slot_size else ([0], status));
          (counts, status) = (if status = 0 then BeamBeam6D_attributes_counts [0] elem slot_size else ([0], status))
      in if status = 0 \<and> BeamBeam6D_num_dataptrs = 1 then
           place_object m new_memory mem_pool buffer orig sizeof_BeamBeam6D BeamBeam6D_type_id (zip offsets (zip sizes counts))
         else (m, mem_pool, buffer, 0))"

subsection \<open>Interpolated space charge\<close>

definition OBJECT_TYPE_SC_INTERPOLATED_PROF :: "u64" where
  "OBJECT_TYPE_SC_INTERPOLATED_PROF = 257"

definition sizeof_SCInterpolatedProfile :: "u64" where
  "sizeof_SCInterpolatedProfile = 80"

definition SCInterpolatedProfile_type_id :: "u64" where
  "SCInterpolatedProfile_type_id = OBJECT_TYPE_SC_INTERPOLATED_PROF"

definition SCInterpolatedProfile_num_dataptrs :: "u64" where
  "SCInterpolatedProfile_num_dataptrs = 0"

definition SCInterpolatedProfile_num_slots :: "u64 \<Rightarrow> u64" where
  "SCInterpolatedProfile_num_slots slot_size =
     (let num_slots = 0 in if num_slots > (0 :: u64) then slots_for (ManagedBuffer_get_slot_based_length sizeof_SCInterpolatedProfile slot_size) slot_size else num_slots)"

definition SCInterpolatedProfile_preset :: "SCInterpolatedProfile option \<Rightarrow> SCInterpolatedProfile option" where
  "SCInterpolatedProfile_preset sc_elem = map_option (\<lambda>e. fst (SCInterpolatedProfile_clear e)) sc_elem"

definition SCInterpolatedProfile_words :: "(real \<Rightarrow> u64) \<Rightarrow> u64 \<Rightarrow> SCInterpolatedProfile \<Rightarrow> u64 list" where
  "SCInterpolatedProfile_words bits_of interpol_data_addr e =
     [bits_of (SCInterpolatedProfile_number_of_particles e), bits_of (SCInterpolatedProfile_sigma_x e), bits_of (SCInterpolatedProfile_sigma_y e), bits_of (SCInterpolatedProfile_length e), bits_of (SCInterpolatedProfile_x_co e), bits_of (SCInterpolatedProfile_y_co e),
      interpol_data_addr, bits_of (SCInterpolatedProfile_line_density_prof_fallback e), bits_of (SCInterpolatedProfile_min_sigma_diff e), SCInterpolatedProfile_enabled_field e]"

definition SCInterpolatedProfile_of :: "(u64 \<Rightarrow> real) \<Rightarrow> u64 list \<Rightarrow> SCInterpolatedProfile" where
  "SCInterpolatedProfile_of real_of ws =
     \<lparr>SCInterpolatedProfile_number_of_particles = real_of (ws ! 0), SCInterpolatedProfile_sigma_x = real_of (ws ! 1), SCInterpolatedProfile_sigma_y = real_of (ws ! 2), SCInterpolatedProfile_length = real_of (ws ! 3), SCInterpolatedProfile_x_co = real_of (ws ! 4), SCInterpolatedProfile_y_co = real_of (ws ! 5),
      SCInterpolatedProfile_interpol_data = None, SCInterpolatedProfile_line_density_prof_fallback = real_of (ws ! 7), SCInterpolatedProfile_min_sigma_diff = real_of (ws ! 8), SCInterpolatedProfile_enabled_field = ws ! 9\<rparr>"

definition SCInterpolatedProfile_const_from_obj_index :: "mem \<Rightarrow> u64 \<Rightarrow> u64" where
  "SCInterpolatedProfile_const_from_obj_index m obj =
     (if Object_get_type_id m obj = OBJECT_TYPE_SC_INTERPOLATED_PROF \<and> Object_get_size m obj \<ge> sizeof_SCInterpolatedProfile
      then Object_get_begin_addr m obj else 0)"

definition SCInterpolatedProfile_from_obj_index :: "mem \<Rightarrow> u64 \<Rightarrow> u64" where
  "SCInterpolatedProfile_from_obj_index m obj = SCInterpolatedProfile_const_from_obj_index m obj"

definition SCInterpolatedProfile_const_from_managed_buffer :: "mem \<Rightarrow> u64 \<Rightarrow> u64 \<Rightarrow> u64 \<Rightarrow> u64" where
  "SCInterpolatedProfile_const_from_managed_buffer m buffer_begin index slot_size =
     SCInterpolatedProfile_const_from_obj_index m (ManagedBuffer_get_const_object m buffer_begin index slot_size)"

definition SCInterpolatedProfile_const_from_buffer :: "mem \<Rightarrow> Buffer \<Rightarrow> u64 \<Rightarrow> u64" where
  "SCInterpolatedProfile_const_from_buffer m buffer index = SCInterpolatedProfile_const_from_obj_index m (Buffer_get_const_object m buffer index)"

definition SCInterpolatedProfile_from_managed_buffer :: "mem \<Rightarrow> u64 \<Rightarrow> u64 \<Rightarrow> u64 \<Rightarrow> u64" where
  "SCInterpolatedProfile_from_managed_buffer m buffer_begin index slot_size =
     SCInterpolatedProfile_from_obj_index m (ManagedBuffer_get_object m buffer_begin index slot_size)"

definition SCInterpolatedProfile_from_buffer :: "mem \<Rightarrow> Buffer \<Rightarrow> u64 \<Rightarrow> u64" where
  "SCInterpolatedProfile_from_buffer m buffer index = SCInterpolatedProfile_from_obj_index m (Buffer_get_object m buffer index)"

text \<open>Here an array or an element that is NULL is a failure; \<open>None\<close> stands for it.\<close>

definition SCInterpolatedProfile_attributes_offsets :: "u64 list option \<Rightarrow> SCInterpolatedProfile option \<Rightarrow> u64 \<Rightarrow> u64 list option \<times> arch_status" where
  "SCInterpolatedProfile_attributes_offsets offsets_begin data slot_size =
     (if offsets_begin \<noteq> None \<and> data \<noteq> None \<and> slot_size > 0 then (map_option (map (\<lambda>_. 0)) offsets_begin, 0) else (offsets_begin, - 1))"

definition SCInterpolatedProfile_attributes_sizes :: "u64 list option \<Rightarrow> SCInterpolatedProfile option \<Rightarrow> u64 \<Rightarrow> u64 list option \<times> arch_status" where
  "SCInterpolatedProfile_attributes_sizes sizes_begin data slot_size =
     (if sizes_begin \<noteq> None \<and> data \<noteq> None \<and> slot_size > 0 then (map_option (map (\<lambda>_. 0)) sizes_begin, 0) else (sizes_begin, - 1))"

definition SCInterpolatedProfile_attributes_counts :: "u64 list option \<Rightarrow> SCInterpolatedProfile option \<Rightarrow> u64 \<Rightarrow> u64 list option \<times> arch_status" where
  "SCInterpolatedProfile_attributes_counts counts_begin data slot_size =
     (if counts_begin \<noteq> None \<and> data \<noteq> None \<and> slot_size > 0 then (map_option (map (\<lambda>_. 0)) counts_begin, 0) else (counts_begin, - 1))"

definition SCInterpolatedProfile_can_be_added :: "mem \<Rightarrow> Buffer \<Rightarrow> bool \<times> (u64 \<times> u64 \<times> u64) option" where
  "SCInterpolatedProfile_can_be_added m buffer = Buffer_can_add_object m buffer sizeof_SCInterpolatedProfile []"

definition SCInterpolatedProfile_new :: "(real \<Rightarrow> u64) \<Rightarrow> SCInterpolatedProfile \<Rightarrow> mem \<Rightarrow> u64 \<Rightarrow> u64 \<Rightarrow> MemPool \<Rightarrow> Buffer \<Rightarrow> mem \<times> MemPool \<times> Buffer \<times> u64" where
  "SCInterpolatedProfile_new bits_of sc_elem m stack new_memory mem_pool buffer =
     add_from_stack m stack new_memory mem_pool buffer (SCInterpolatedProfile_words bits_of 0 (the (SCInterpolatedProfile_preset (Some sc_elem)))) sizeof_SCInterpolatedProfile
       SCInterpolatedProfile_type_id []"

definition SCInterpolatedProfile_add :: "(real \<Rightarrow> u64) \<Rightarrow> SCInterpolatedProfile \<Rightarrow> mem \<Rightarrow> u64 \<Rightarrow> u64 \<Rightarrow> MemPool \<Rightarrow> Buffer \<Rightarrow> real \<Rightarrow> real \<Rightarrow> real \<Rightarrow> real \<Rightarrow> real \<Rightarrow> real \<Rightarrow> real \<Rightarrow> u64 \<Rightarrow> real \<Rightarrow> bool \<Rightarrow> mem \<times> MemPool \<times> Buffer \<times> u64" where
  "SCInterpolatedProfile_add bits_of sc_elem m stack new_memory mem_pool buffer
       number_of_particles sigma_x sigma_y len x_co y_co line_density_prof_fallback interpol_data_addr min_sigma_diff enabled =
     (let sc_elem = the (SCInterpolatedProfile_preset (Some sc_elem));
          sc_elem = fst (SCInterpolatedProfile_set_number_of_particles sc_elem number_of_particles);
          sc_elem = fst (SCInterpolatedProfile_set_sigma_x sc_elem sigma_x);
          sc_elem = fst (SCInterpolatedProfile_set_sigma_y sc_elem sigma_y);
          sc_elem = fst (SCInterpolatedProfile_set_length sc_elem len);
          sc_elem = fst (SCInterpolatedProfile_set_x_co sc_elem x_co);
          sc_elem = fst (SCInterpolatedProfile_set_y_co sc_elem y_co);
          sc_elem = fst (SCInterpolatedProfile_set_enabled sc_elem enabled);
          sc_elem = fst (SCInterpolatedProfile_set_line_density_prof_fallback sc_elem line_density_prof_fallback);
          sc_elem = fst (SCInterpolatedProfile_set_min_sigma_diff sc_elem min_sigma_diff)
      in add_from_stack m stack new_memory mem_pool buffer (SCInterpolatedProfile_words bits_of interpol_data_addr sc_elem) sizeof_SCInterpolatedProfile
           SCInterpolatedProfile_type_id [])"

definition SCInterpolatedProfile_add_copy :: "mem \<Rightarrow> u64 \<Rightarrow> MemPool \<Rightarrow> Buffer \<Rightarrow> u64 \<Rightarrow> mem \<times> MemPool \<times> Buffer \<times> u64" where
  "SCInterpolatedProfile_add_copy m new_memory mem_pool buffer sc_elem =
     place_object m new_memory mem_pool buffer sc_elem sizeof_SCInterpolatedProfile SCInterpolatedProfile_type_id []"

definition math_interpol_word :: "math_interpol \<Rightarrow> u64" where
  "math_interpol_word t =
     (case t of MATH_INTERPOL_LINEAR \<Rightarrow> 0 | MATH_INTERPOL_CUBIC \<Rightarrow> 1 | MATH_INTERPOL_NONE \<Rightarrow> 255)"

definition OBJECT_TYPE_LINE_DENSITY_PROF_DATA :: "u64" where
  "OBJECT_TYPE_LINE_DENSITY_PROF_DATA = 258"

definition sizeof_LineDensityProfileData :: "u64" where
  "sizeof_LineDensityProfileData = 56"

definition LineDensityProfileData_type_id :: "u64" where
  "LineDensityProfileData_type_id = OBJECT_TYPE_LINE_DENSITY_PROF_DATA"

definition LineDensityProfileData_num_dataptrs :: "u64" where
  "LineDensityProfileData_num_dataptrs = 2"

definition LineDensityProfileData_preset :: "LineDensityProfileData option \<Rightarrow> LineDensityProfileData option" where
  "LineDensityProfileData_preset data = map_option (\<lambda>e. fst (LineDensityProfileData_clear e)) data"

definition LineDensityProfileData_words :: "(real \<Rightarrow> u64) \<Rightarrow> u64 \<Rightarrow> u64 \<Rightarrow> LineDensityProfileData \<Rightarrow> u64 list" where
  "LineDensityProfileData_words bits_of values_addr derivatives_addr e =
     [math_interpol_word (LineDensityProfileData_method e), of_int (LineDensityProfileData_capacity e), values_addr, derivatives_addr,
      bits_of (LineDensityProfileData_z0 e), bits_of (LineDensityProfileData_dz e), of_int (LineDensityProfileData_num_values e)]"

definition LineDensityProfileData_capacity_at :: "mem \<Rightarrow> u64 \<Rightarrow> i64" where
  "LineDensityProfileData_capacity_at m p = sint (rd64 m (p + 8))"

definition LineDensityProfileData_num_slots :: "mem \<Rightarrow> u64 \<Rightarrow> u64 \<Rightarrow> u64" where
  "LineDensityProfileData_num_slots m data slot_size =
     (if slot_size > 0 then
        let required_size = ManagedBuffer_get_slot_based_length sizeof_LineDensityProfileData slot_size;
            required_size = (if data \<noteq> 0 \<and> LineDensityProfileData_capacity_at m data > 0
              then required_size + 2 * ManagedBuffer_get_slot_based_length (8 * u64_of (LineDensityProfileData_capacity_at m data)) slot_size
              else required_size)
        in slots_for required_size slot_size
      else 0)"

definition LineDensityProfileData_const_from_obj_index :: "mem \<Rightarrow> u64 \<Rightarrow> u64" where
  "LineDensityProfileData_const_from_obj_index m obj =
     (if Object_get_type_id m obj = OBJECT_TYPE_LINE_DENSITY_PROF_DATA \<and> Object_get_size m obj \<ge> sizeof_LineDensityProfileData
      then Object_get_begin_addr m obj else 0)"

definition LineDensityProfileData_from_obj_index :: "mem \<Rightarrow> u64 \<Rightarrow> u64" where
  "LineDensityProfileData_from_obj_index m obj = LineDensityProfileData_const_from_obj_index m obj"

definition LineDensityProfileData_const_from_managed_buffer :: "mem \<Rightarrow> u64 \<Rightarrow> u64 \<Rightarrow> u64 \<Rightarrow> u64" where
  "LineDensityProfileData_const_from_managed_buffer m buffer_begin index slot_size =
     LineDensityProfileData_const_from_obj_index m (ManagedBuffer_get_const_object m buffer_begin index slot_size)"

definition LineDensityProfileData_const_from_buffer_ext :: "mem \<Rightarrow> Buffer \<Rightarrow> u64 \<Rightarrow> u64" where
  "LineDensityProfileData_const_from_buffer_ext m buffer index = LineDensityProfileData_const_from_obj_index m (Buffer_get_const_object m buffer index)"

definition LineDensityProfileData_from_managed_buffer :: "mem \<Rightarrow> u64 \<Rightarrow> u64 \<Rightarrow> u64 \<Rightarrow> u64" where
  "LineDensityProfileData_from_managed_buffer m buffer_begin index slot_size =
     LineDensityProfileData_from_obj_index m (ManagedBuffer_get_object m buffer_begin index slot_size)"

definition LineDensityProfileData_from_buffer_ext :: "mem \<Rightarrow> Buffer \<Rightarrow> u64 \<Rightarrow> u64" where
  "LineDensityProfileData_from_buffer_ext m buffer index = LineDensityProfileData_from_obj_index m (Buffer_get_object m buffer index)"

text \<open>Of the element only the capacity matters, \<open>None\<close> for NULL.\<close>

definition LineDensityProfileData_attributes_offsets :: "u64 list \<Rightarrow> i64 option \<Rightarrow> u64 \<Rightarrow> u64 list \<times> arch_status" where
  "LineDensityProfileData_attributes_offsets offsets capacity slot_size =
     (if length offsets \<ge> 2 \<and> capacity \<noteq> None \<and> slot_size > 0 then (16 # 24 # map (\<lambda>_. 0) (drop 2 offsets), 0) else (offsets, - 1))"

definition LineDensityProfileData_attributes_sizes :: "u64 list \<Rightarrow> i64 option \<Rightarrow> u64 \<Rightarrow> u64 list \<times> arch_status" where
  "LineDensityProfileData_attributes_sizes sizes capacity slot_size =
     (if length sizes \<ge> 2 \<and> capacity \<noteq> None \<and> slot_size > 0 then (8 # 8 # map (\<lambda>_. 0) (drop 2 sizes), 0) else (sizes, - 1))"

definition LineDensityProfileData_attributes_counts :: "u64 list \<Rightarrow> i64 option \<Rightarrow> u64 \<Rightarrow> u64 list \<times> arch_status" where
  "LineDensityProfileData_attributes_counts counts capacity slot_size =
     (if length counts \<ge> 2 \<and> capacity \<noteq> None \<and> slot_size > 0 \<and> the capacity \<ge> 0 then (u64_of (the capacity) # u64_of (the capacity) # map (\<lambda>_. 0) (drop 2 counts), 0) else (counts, - 1))"

definition LineDensityProfileData_tables :: "i64 \<Rightarrow> u64 \<Rightarrow> (u64 \<times> u64 \<times> u64) list \<times> arch_status" where
  "LineDensityProfileData_tables capacity slot_size =
     (let (offsets, status) = LineDensityProfileData_attributes_offsets [0, 0] (Some capacity) slot_size;
          (sizes, status) = (if status = 0 then LineDensityProfileData_attributes_sizes [0, 0] (Some capacity) slot_size else ([0, 0], status));
          (counts, status) = (if status = 0 then LineDensityProfileData_attributes_counts [0, 0] (Some capacity) slot_size else ([0, 0], status))
      in (zip offsets (zip sizes counts), status))"

definition LineDensityProfileData_new :: "(real \<Rightarrow> u64) \<Rightarrow> LineDensityProfileData \<Rightarrow> mem \<Rightarrow> u64 \<Rightarrow> u64 \<Rightarrow> MemPool \<Rightarrow> Buffer \<Rightarrow> i64 \<Rightarrow> mem \<times> MemPool \<times> Buffer \<times> u64" where
  "LineDensityProfileData_new bits_of data m stack new_memory mem_pool buffer capacity =
     (if capacity > 0 then
        let slot_size = Buffer_get_slot_size buffer;
            (data, status) = LineDensityProfileData_clear data;
            (data, status1) = LineDensityProfileData_set_capacity data capacity;
            (data, status2) = LineDensityProfileData_set_num_values data capacity;
            status = status OR status1 OR status2;
            (attrs, status) = (if LineDensityProfileData_num_dataptrs = 2 \<and> status = 0 \<and> slot_size > 0
              then LineDensityProfileData_tables (LineDensityProfileData_capacity data) slot_size else ([(0, 0, 0), (0, 0, 0)], status))
        in if status = 0 then
             add_from_stack m stack new_memory mem_pool buffer (LineDensityProfileData_words bits_of 0 0 data) sizeof_LineDensityProfileData LineDensityProfileData_type_id attrs
           else (m, mem_pool, buffer, 0)
      else (m, mem_pool, buffer, 0))"

definition LineDensityProfileData_add :: "(real \<Rightarrow> u64) \<Rightarrow> LineDensityProfileData \<Rightarrow> mem \<Rightarrow> u64 \<Rightarrow> u64 \<Rightarrow> MemPool \<Rightarrow> Buffer \<Rightarrow> math_interpol \<Rightarrow> i64 \<Rightarrow> u64 \<Rightarrow> u64 \<Rightarrow> real \<Rightarrow> real \<Rightarrow> i64 \<Rightarrow> mem \<times> MemPool \<times> Buffer \<times> u64" where
  "LineDensityProfileData_add bits_of data m stack new_memory mem_pool buffer method num_values values_addr derivatives_addr z0 dz capacity =
     (let num_values = (if num_values < 0 then 0 else num_values);
          capacity = (if capacity < num_values \<and> num_values > 0 then num_values else capacity)
      in if capacity > 0 then
           let slot_size = Buffer_get_slot_size buffer;
               (data, status) = LineDensityProfileData_clear data;
               (data, status1) = LineDensityProfileData_set_capacity data capacity;
               (data, status2) = LineDensityProfileData_set_num_values data num_values;
               (data, status3) = LineDensityProfileData_set_method data method;
               (data, status4) = LineDensityProfileData_set_z0 data z0;
               (data, status5) = LineDensityProfileData_set_z0 data dz;
               status = status OR status1 OR status2 OR status3 OR status4 OR status5;
               (attrs, status) = (if LineDensityProfileData_num_dataptrs = 2 \<and> status = 0
                 then LineDensityProfileData_tables (LineDensityProfileData_capacity data) slot_size else ([(0, 0, 0), (0, 0, 0)], status))
           in if status = 0 then
                add_from_stack m stack new_memory mem_pool buffer (LineDensityProfileData_words bits_of values_addr derivatives_addr data) sizeof_LineDensityProfileData
                  LineDensityProfileData_type_id attrs
              else (m, mem_pool, buffer, 0)
         else (m, mem_pool, buffer, 0))"

definition LineDensityProfileData_add_copy :: "mem \<Rightarrow> u64 \<Rightarrow> MemPool \<Rightarrow> Buffer \<Rightarrow> u64 \<Rightarrow> mem \<times> MemPool \<times> Buffer \<times> u64" where
  "LineDensityProfileData_add_copy m new_memory mem_pool buffer data =
     (if data \<noteq> 0 then
        let slot_size = Buffer_get_slot_size buffer;
            (attrs, status) = (if LineDensityProfileData_num_dataptrs = 2 then LineDensityProfileData_tables (LineDensityProfileData_capacity_at m data) slot_size
              else ([(0, 0, 0), (0, 0, 0)], - 1))
        in if status = 0 then place_object m new_memory mem_pool buffer data sizeof_LineDensityProfileData LineDensityProfileData_type_id attrs
           else (m, mem_pool, buffer, 0)
      else (m, mem_pool, buffer, 0))"

end
