(* ===== verification/Lattice_Buffers.thy ===== *)
theory Lattice_Buffers
  imports Element_Buffers_Arrays
begin

section \<open>Buffers of beam elements (beam_elements.h)\<close>

text \<open>
  The functions that decide by the type of an object: what room a lattice needs, adding elements of the types of
  another lattice, copying a lattice into a buffer, and clearing. The macros that leave out the beam-beam and tricubic
  elements are not defined. A structure that is created on the stack holds what was there before; loops over the
  entries of a table of objects that may grow the buffer take the address of the new memory for each round.
\<close>

definition words_at :: "mem \<Rightarrow> u64 \<Rightarrow> nat \<Rightarrow> u64 list" where
  "words_at m p k = map (\<lambda>j. rd64 m (word_addr p j)) [0..<k]"

definition BeamElements_is_beam_element_obj :: "mem \<Rightarrow> u64 \<Rightarrow> bool" where
  "BeamElements_is_beam_element_obj m obj \<longleftrightarrow> obj \<noteq> 0 \<and> Object_get_type_id m obj \<in>
     {OBJECT_TYPE_DRIFT, OBJECT_TYPE_DRIFT_EXACT, OBJECT_TYPE_MULTIPOLE, OBJECT_TYPE_RF_MULTIPOLE, OBJECT_TYPE_XYSHIFT, OBJECT_TYPE_SROTATION, OBJECT_TYPE_CAVITY, OBJECT_TYPE_BEAM_BEAM_4D, OBJECT_TYPE_BEAM_BEAM_6D, OBJECT_TYPE_SC_COASTING, OBJECT_TYPE_SC_QGAUSSIAN_PROF, OBJECT_TYPE_SC_INTERPOLATED_PROF, OBJECT_TYPE_BEAM_MONITOR, OBJECT_TYPE_LIMIT_RECT, OBJECT_TYPE_LIMIT_ELLIPSE, OBJECT_TYPE_LIMIT_RECT_ELLIPSE, OBJECT_TYPE_DIPEDGE, OBJECT_TYPE_TRICUB}"

text \<open>An empty range counts as one of beam elements.\<close>

definition BeamElements_objects_range_are_all_beam_elements :: "mem \<Rightarrow> u64 \<Rightarrow> u64 \<Rightarrow> bool" where
  "BeamElements_objects_range_are_all_beam_elements m obj_it obj_end \<longleftrightarrow>
     obj_it \<noteq> 0 \<and> obj_end \<noteq> 0 \<and> obj_it \<le> obj_end \<and>
     list_all (BeamElements_is_beam_element_obj m) (index_entries obj_it obj_end)"

definition BeamElements_managed_buffer_is_beam_elements_buffer :: "mem \<Rightarrow> u64 \<Rightarrow> u64 \<Rightarrow> bool" where
  "BeamElements_managed_buffer_is_beam_elements_buffer m buffer slot_size \<longleftrightarrow>
     BeamElements_objects_range_are_all_beam_elements m
       (ManagedBuffer_get_const_objects_index_begin m buffer slot_size)
       (ManagedBuffer_get_const_objects_index_end m buffer slot_size)"

definition BeamElements_is_beam_elements_buffer :: "mem \<Rightarrow> Buffer \<Rightarrow> bool" where
  "BeamElements_is_beam_elements_buffer m buffer \<longleftrightarrow>
     BeamElements_managed_buffer_is_beam_elements_buffer m (Buffer_get_data_begin_addr buffer) (Buffer_get_slot_size buffer)"

subsection \<open>What a lattice needs\<close>

text \<open>The numbers of slots and of data pointers; for tricubic elements the functions are given NULL.\<close>

definition element_needs :: "mem \<Rightarrow> u64 \<Rightarrow> u64 \<Rightarrow> u64 \<Rightarrow> (u64 \<times> u64) option" where
  "element_needs m type_id elem slot_size =
     (if type_id = OBJECT_TYPE_DRIFT then Some (Drift_num_slots slot_size, Drift_num_dataptrs)
      else if type_id = OBJECT_TYPE_DRIFT_EXACT then Some (DriftExact_num_slots slot_size, DriftExact_num_dataptrs)
      else if type_id = OBJECT_TYPE_MULTIPOLE then Some (Multipole_num_slots m elem slot_size, Multipole_num_dataptrs)
      else if type_id = OBJECT_TYPE_RF_MULTIPOLE then Some (RFMultipole_num_slots m elem slot_size, RFMultipole_num_dataptrs)
      else if type_id = OBJECT_TYPE_XYSHIFT then Some (XYShift_num_slots slot_size, XYShift_num_dataptrs)
      else if type_id = OBJECT_TYPE_SROTATION then Some (SRotation_num_slots slot_size, SRotation_num_dataptrs)
      else if type_id = OBJECT_TYPE_CAVITY then Some (Cavity_num_slots slot_size, Cavity_num_dataptrs)
      else if type_id = OBJECT_TYPE_BEAM_BEAM_4D then Some (BeamBeam4D_num_slots m elem slot_size, BeamBeam4D_num_dataptrs)
      else if type_id = OBJECT_TYPE_BEAM_BEAM_6D then Some (BeamBeam6D_num_slots m elem slot_size, BeamBeam6D_num_dataptrs)
      else if type_id = OBJECT_TYPE_SC_COASTING then Some (SCCoasting_num_slots slot_size, SCCoasting_num_dataptrs)
      else if type_id = OBJECT_TYPE_SC_QGAUSSIAN_PROF then Some (SCQGaussProfile_num_slots slot_size, SCQGaussProfile_num_dataptrs)
      else if type_id = OBJECT_TYPE_SC_INTERPOLATED_PROF then Some (SCInterpolatedProfile_num_slots slot_size, SCInterpolatedProfile_num_dataptrs)
      else if type_id = OBJECT_TYPE_BEAM_MONITOR then Some (BeamMonitor_num_slots slot_size, BeamMonitor_num_dataptrs)
      else if type_id = OBJECT_TYPE_LIMIT_RECT then Some (LimitRect_num_slots elem slot_size, LimitRect_num_dataptrs)
      else if type_id = OBJECT_TYPE_LIMIT_ELLIPSE then Some (LimitEllipse_num_slots slot_size, LimitEllipse_num_dataptrs)
      else if type_id = OBJECT_TYPE_LIMIT_RECT_ELLIPSE then Some (LimitRectEllipse_num_slots slot_size, LimitRectEllipse_num_dataptrs)
      else if type_id = OBJECT_TYPE_DIPEDGE then Some (DipoleEdge_num_slots slot_size, DipoleEdge_num_dataptrs)
      else if type_id = OBJECT_TYPE_TRICUB then Some (TriCub_num_slots slot_size, TriCub_num_dataptrs)
      else if type_id = OBJECT_TYPE_TRICUB_DATA then Some (TriCubData_num_slots m 0 slot_size, TriCubData_num_dataptrs)
      else None)"

definition BeamElements_calc_buffer_parameters_for_object ::
    "mem \<Rightarrow> u64 \<Rightarrow> u64 \<times> u64 \<times> u64 \<Rightarrow> u64 \<Rightarrow> int \<times> u64 \<times> u64 \<times> u64" where
  "BeamElements_calc_buffer_parameters_for_object m obj params slot_size =
     (let (num_objects, num_slots, num_dataptrs) = params
      in if obj \<noteq> 0 \<and> slot_size > 0 then
           case element_needs m (Object_get_type_id m obj) (Object_get_begin_addr m obj) slot_size of
             Some (requ_num_slots, requ_num_dataptrs) \<Rightarrow>
               (0, num_objects + 1, num_slots + requ_num_slots, num_dataptrs + requ_num_dataptrs)
           | None \<Rightarrow> (- 1, params)
         else (- 1, params))"

fun calc_entries :: "mem \<Rightarrow> u64 list \<Rightarrow> u64 \<times> u64 \<times> u64 \<Rightarrow> u64 \<Rightarrow> int \<times> u64 \<times> u64 \<times> u64" where
  "calc_entries m [] params slot_size = (0, params)"
| "calc_entries m (src_it # rest) params slot_size =
     (let (ret, params) = BeamElements_calc_buffer_parameters_for_object m src_it params slot_size
      in if ret \<noteq> 0 then (ret, params) else calc_entries m rest params slot_size)"

definition BeamElements_calc_buffer_parameters_for_line ::
    "mem \<Rightarrow> u64 \<Rightarrow> u64 \<Rightarrow> u64 \<times> u64 \<times> u64 \<Rightarrow> u64 \<Rightarrow> int \<times> u64 \<times> u64 \<times> u64" where
  "BeamElements_calc_buffer_parameters_for_line m src_it src_end params slot_size =
     (if src_it \<noteq> 0 \<and> src_end \<noteq> 0 then calc_entries m (index_entries src_it src_end) params slot_size else (- 1, params))"

subsection \<open>Adding new elements\<close>

text \<open>The status that most types give, and the truth value that some do.\<close>

definition added_status :: "mem \<times> MemPool \<times> Buffer \<times> u64 \<Rightarrow> mem \<times> MemPool \<times> Buffer \<times> int" where
  "added_status r = (case r of (m, mem_pool, buffer, addr) \<Rightarrow> (m, mem_pool, buffer, if addr \<noteq> 0 then 0 else - 1))"

definition added_truth :: "mem \<times> MemPool \<times> Buffer \<times> u64 \<Rightarrow> mem \<times> MemPool \<times> Buffer \<times> int" where
  "added_truth r = (case r of (m, mem_pool, buffer, addr) \<Rightarrow> (m, mem_pool, buffer, if addr \<noteq> 0 then 1 else 0))"

definition BeamElements_add_single_new_to_buffer ::
    "(u64 \<Rightarrow> real) \<Rightarrow> (real \<Rightarrow> u64) \<Rightarrow> mem \<Rightarrow> u64 \<Rightarrow> u64 \<Rightarrow> MemPool \<Rightarrow> Buffer \<Rightarrow> u64 \<Rightarrow> mem \<times> MemPool \<times> Buffer \<times> int" where
  "BeamElements_add_single_new_to_buffer real_of bits_of m stack new_memory mem_pool buffer obj =
     (if obj \<noteq> 0 then
        let type_id = Object_get_type_id m obj; begin_addr = Object_get_begin_addr m obj
        in if type_id = OBJECT_TYPE_DRIFT then
             added_status (Drift_new bits_of (Drift_of real_of (words_at m stack 1)) m stack new_memory mem_pool buffer)
           else if type_id = OBJECT_TYPE_DRIFT_EXACT then
             added_status (DriftExact_new bits_of (DriftExact_of real_of (words_at m stack 1)) m stack new_memory mem_pool buffer)
           else if type_id = OBJECT_TYPE_MULTIPOLE then
             added_status (Multipole_new bits_of (Multipole_of real_of (words_at m stack 5) None) m stack new_memory mem_pool buffer (Multipole_order (Multipole_at (\<lambda>_. 0) m begin_addr)))
           else if type_id = OBJECT_TYPE_RF_MULTIPOLE then
             added_status (RFMultipole_new bits_of (RFMultipole_of real_of (words_at m stack 6) [] []) m stack new_memory mem_pool buffer (RFMultipole_order (RFMultipole_at (\<lambda>_. 0) m begin_addr)))
           else if type_id = OBJECT_TYPE_XYSHIFT then
             added_status (XYShift_new bits_of (XYShift_of real_of (words_at m stack 2)) m stack new_memory mem_pool buffer)
           else if type_id = OBJECT_TYPE_SROTATION then
             added_status (SRotation_new bits_of (SRotation_of real_of (words_at m stack 2)) m stack new_memory mem_pool buffer)
           else if type_id = OBJECT_TYPE_CAVITY then
             added_status (Cavity_new bits_of (Cavity_of real_of (words_at m stack 3)) m stack new_memory mem_pool buffer)
           else if type_id = OBJECT_TYPE_BEAM_BEAM_4D then
             added_truth (BeamBeam4D_new (BeamBeam4D_at m stack) m stack new_memory mem_pool buffer (BeamBeam4D_data_size (BeamBeam4D_at m begin_addr)))
           else if type_id = OBJECT_TYPE_BEAM_BEAM_6D then
             added_truth (BeamBeam6D_new (BeamBeam6D_at m stack) m stack new_memory mem_pool buffer (BeamBeam6D_data_size (BeamBeam6D_at m begin_addr)))
           else if type_id = OBJECT_TYPE_SC_COASTING then
             added_truth (SCCoasting_new bits_of (SCCoasting_of real_of (words_at m stack 9)) m stack new_memory mem_pool buffer)
           else if type_id = OBJECT_TYPE_SC_QGAUSSIAN_PROF then
             added_truth (SCQGaussProfile_new bits_of (SCQGaussProfile_of real_of (words_at m stack 11)) m stack new_memory mem_pool buffer)
           else if type_id = OBJECT_TYPE_SC_INTERPOLATED_PROF then
             added_truth (SCInterpolatedProfile_new bits_of (SCInterpolatedProfile_of real_of (words_at m stack 10)) m stack new_memory mem_pool buffer)
           else if type_id = OBJECT_TYPE_BEAM_MONITOR then
             added_truth (BeamMonitor_new bits_of (BeamMonitor_of real_of (words_at m stack 8)) m stack new_memory mem_pool buffer)
           else if type_id = OBJECT_TYPE_LIMIT_RECT then
             added_truth (LimitRect_new bits_of (LimitRect_of real_of (words_at m stack 4)) m stack new_memory mem_pool buffer)
           else if type_id = OBJECT_TYPE_LIMIT_ELLIPSE then
             added_truth (LimitEllipse_new bits_of (LimitEllipse_of real_of (words_at m stack 3)) m stack new_memory mem_pool buffer)
           else if type_id = OBJECT_TYPE_LIMIT_RECT_ELLIPSE then
             added_truth (LimitRectEllipse_new bits_of (LimitRectEllipse_of real_of (words_at m stack 5)) m stack new_memory mem_pool buffer)
           else if type_id = OBJECT_TYPE_DIPEDGE then
             added_truth (DipoleEdge_new bits_of (DipoleEdge_of real_of (words_at m stack 2)) m stack new_memory mem_pool buffer)
           else if type_id = OBJECT_TYPE_TRICUB then
             added_status (TriCub_new bits_of (TriCub_of real_of (words_at m stack 8)) m stack new_memory mem_pool buffer)
           else if type_id = OBJECT_TYPE_TRICUB_DATA then
             added_status (TriCubData_new bits_of (TriCubData_at real_of m stack) m stack new_memory mem_pool buffer (TriCubData_nx (TriCubData_at (\<lambda>_. 0) m begin_addr)) (TriCubData_ny (TriCubData_at (\<lambda>_. 0) m begin_addr)) (TriCubData_nz (TriCubData_at (\<lambda>_. 0) m begin_addr)))
           else (m, mem_pool, buffer, - 1)
      else (m, mem_pool, buffer, - 1))"

fun add_new_entries ::
    "(u64 \<Rightarrow> real) \<Rightarrow> (real \<Rightarrow> u64) \<Rightarrow> mem \<Rightarrow> u64 \<Rightarrow> (nat \<Rightarrow> u64) \<Rightarrow> MemPool \<Rightarrow> Buffer \<Rightarrow> u64 list \<Rightarrow> int \<Rightarrow>
     mem \<times> MemPool \<times> Buffer \<times> int" where
  "add_new_entries real_of bits_of m stack new_memory mem_pool buffer [] success = (m, mem_pool, buffer, success)"
| "add_new_entries real_of bits_of m stack new_memory mem_pool buffer (it # rest) success =
     (let (m, mem_pool, buffer, ret) = BeamElements_add_single_new_to_buffer real_of bits_of m stack (new_memory 0) mem_pool buffer it
      in if ret \<noteq> 0 then (m, mem_pool, buffer, success OR ret)
         else add_new_entries real_of bits_of m stack (\<lambda>k. new_memory (Suc k)) mem_pool buffer rest success)"

definition BeamElements_add_new_to_buffer ::
    "(u64 \<Rightarrow> real) \<Rightarrow> (real \<Rightarrow> u64) \<Rightarrow> mem \<Rightarrow> u64 \<Rightarrow> (nat \<Rightarrow> u64) \<Rightarrow> MemPool \<Rightarrow> Buffer \<Rightarrow> u64 \<Rightarrow> u64 \<Rightarrow>
     mem \<times> MemPool \<times> Buffer \<times> int" where
  "BeamElements_add_new_to_buffer real_of bits_of m stack new_memory mem_pool buffer it end' =
     (if it \<noteq> 0 \<and> end' \<noteq> 0 then
        add_new_entries real_of bits_of m stack new_memory mem_pool buffer (index_entries it end')
          (if index_entries it end' \<noteq> [] then 0 else - 1)
      else (m, mem_pool, buffer, - 1))"

subsection \<open>Copying a lattice\<close>

definition BeamElements_copy_single_to_buffer ::
    "mem \<Rightarrow> u64 \<Rightarrow> MemPool \<Rightarrow> Buffer \<Rightarrow> u64 \<Rightarrow> mem \<times> MemPool \<times> Buffer \<times> int" where
  "BeamElements_copy_single_to_buffer m new_memory mem_pool buffer obj =
     (if obj \<noteq> 0 then
        let type_id = Object_get_type_id m obj; begin_addr = Object_get_begin_addr m obj
        in if type_id = OBJECT_TYPE_DRIFT then
             added_status (Drift_add_copy m new_memory mem_pool buffer begin_addr)
           else if type_id = OBJECT_TYPE_DRIFT_EXACT then
             added_status (DriftExact_add_copy m new_memory mem_pool buffer begin_addr)
           else if type_id = OBJECT_TYPE_MULTIPOLE then
             added_status (Multipole_add_copy m new_memory mem_pool buffer begin_addr)
           else if type_id = OBJECT_TYPE_RF_MULTIPOLE then
             added_status (RFMultipole_add_copy m new_memory mem_pool buffer begin_addr)
           else if type_id = OBJECT_TYPE_XYSHIFT then
             added_status (XYShift_add_copy m new_memory mem_pool buffer begin_addr)
           else if type_id = OBJECT_TYPE_SROTATION then
             added_status (SRotation_add_copy m new_memory mem_pool buffer begin_addr)
           else if type_id = OBJECT_TYPE_CAVITY then
             added_status (Cavity_add_copy m new_memory mem_pool buffer begin_addr)
           else if type_id = OBJECT_TYPE_BEAM_BEAM_4D then
             added_truth (BeamBeam4D_add_copy m new_memory mem_pool buffer begin_addr)
           else if type_id = OBJECT_TYPE_BEAM_BEAM_6D then
             added_truth (BeamBeam6D_add_copy m new_memory mem_pool buffer begin_addr)
           else if type_id = OBJECT_TYPE_SC_COASTING then
             added_truth (SCCoasting_add_copy m new_memory mem_pool buffer begin_addr)
           else if type_id = OBJECT_TYPE_SC_QGAUSSIAN_PROF then
             added_truth (SCQGaussProfile_add_copy m new_memory mem_pool buffer begin_addr)
           else if type_id = OBJECT_TYPE_BEAM_MONITOR then
             added_status (BeamMonitor_add_copy m new_memory mem_pool buffer begin_addr)
           else if type_id = OBJECT_TYPE_LIMIT_RECT then
             added_status (LimitRect_add_copy m new_memory mem_pool buffer begin_addr)
           else if type_id = OBJECT_TYPE_LIMIT_ELLIPSE then
             added_status (LimitEllipse_add_copy m new_memory mem_pool buffer begin_addr)
           else if type_id = OBJECT_TYPE_LIMIT_RECT_ELLIPSE then
             added_status (LimitRectEllipse_add_copy m new_memory mem_pool buffer begin_addr)
           else if type_id = OBJECT_TYPE_DIPEDGE then
             added_status (DipoleEdge_add_copy m new_memory mem_pool buffer begin_addr)
           else if type_id = OBJECT_TYPE_TRICUB then
             added_status (TriCub_add_copy m new_memory mem_pool buffer begin_addr)
           else if type_id = OBJECT_TYPE_TRICUB_DATA then
             added_status (TriCubData_add_copy m new_memory mem_pool buffer begin_addr)
           else (m, mem_pool, buffer, - 1)
      else (m, mem_pool, buffer, - 1))"

fun copy_entries ::
    "mem \<Rightarrow> (nat \<Rightarrow> u64) \<Rightarrow> MemPool \<Rightarrow> Buffer \<Rightarrow> u64 list \<Rightarrow> int \<Rightarrow> mem \<times> MemPool \<times> Buffer \<times> int" where
  "copy_entries m new_memory mem_pool buffer [] success = (m, mem_pool, buffer, success)"
| "copy_entries m new_memory mem_pool buffer (it # rest) success =
     (let (m, mem_pool, buffer, ret) = BeamElements_copy_single_to_buffer m (new_memory 0) mem_pool buffer it
      in if ret \<noteq> 0 then (m, mem_pool, buffer, success OR ret)
         else copy_entries m (\<lambda>k. new_memory (Suc k)) mem_pool buffer rest success)"

definition BeamElements_copy_to_buffer ::
    "mem \<Rightarrow> (nat \<Rightarrow> u64) \<Rightarrow> MemPool \<Rightarrow> Buffer \<Rightarrow> u64 \<Rightarrow> u64 \<Rightarrow> mem \<times> MemPool \<times> Buffer \<times> int" where
  "BeamElements_copy_to_buffer m new_memory mem_pool buffer it end' =
     (if it \<noteq> 0 \<and> end' \<noteq> 0 then
        copy_entries m new_memory mem_pool buffer (index_entries it end') (if index_entries it end' \<noteq> [] then 0 else - 1)
      else (m, mem_pool, buffer, - 1))"

subsection \<open>Clearing elements in place\<close>

text \<open>
  The words of a cleared structure; \<open>NS(SCQGaussProfile_clear)\<close> leaves the smallest difference of the widths as it is,
  the functions for tricubic elements leave addresses as they are.
\<close>

definition cleared_words :: "(u64 \<Rightarrow> real) \<Rightarrow> (real \<Rightarrow> u64) \<Rightarrow> mem \<Rightarrow> u64 \<Rightarrow> u64 \<Rightarrow> u64 list" where
  "cleared_words real_of bits_of m type_id p =
     (if type_id = OBJECT_TYPE_DRIFT then Drift_words bits_of (fst (Drift_clear (Drift_of real_of (words_at m p 1))))
      else if type_id = OBJECT_TYPE_DRIFT_EXACT then DriftExact_words bits_of (fst (DriftExact_clear (DriftExact_of real_of (words_at m p 1))))
      else if type_id = OBJECT_TYPE_MULTIPOLE then Multipole_words bits_of 0 (fst (Multipole_clear (Multipole_of real_of (words_at m p 5) None)))
      else if type_id = OBJECT_TYPE_RF_MULTIPOLE then RFMultipole_words bits_of 0 0 (fst (RFMultipole_clear (RFMultipole_of real_of (words_at m p 6) [] [])))
      else if type_id = OBJECT_TYPE_XYSHIFT then XYShift_words bits_of (fst (XYShift_clear (XYShift_of real_of (words_at m p 2))))
      else if type_id = OBJECT_TYPE_SROTATION then SRotation_words bits_of (fst (SRotation_clear (SRotation_of real_of (words_at m p 2))))
      else if type_id = OBJECT_TYPE_CAVITY then Cavity_words bits_of (fst (Cavity_clear (Cavity_of real_of (words_at m p 3))))
      else if type_id = OBJECT_TYPE_BEAM_BEAM_4D then BeamBeam4D_words 0 (BeamBeam4D_clear (BeamBeam4D_at m p))
      else if type_id = OBJECT_TYPE_BEAM_BEAM_6D then BeamBeam6D_words 0 (BeamBeam6D_clear (BeamBeam6D_at m p))
      else if type_id = OBJECT_TYPE_SC_COASTING then SCCoasting_words bits_of (fst (SCCoasting_clear (SCCoasting_of real_of (words_at m p 9))))
      else if type_id = OBJECT_TYPE_SC_QGAUSSIAN_PROF then (SCQGaussProfile_words bits_of (fst (SCQGaussProfile_clear (SCQGaussProfile_of real_of (words_at m p 11)))))
        [7 := rd64 m (word_addr p 7)]
      else if type_id = OBJECT_TYPE_BEAM_MONITOR then BeamMonitor_words bits_of (fst (BeamMonitor_clear (BeamMonitor_of real_of (words_at m p 8))))
      else if type_id = OBJECT_TYPE_LIMIT_RECT then LimitRect_words bits_of (fst (LimitRect_clear (LimitRect_of real_of (words_at m p 4))))
      else if type_id = OBJECT_TYPE_LIMIT_ELLIPSE then LimitEllipse_words bits_of (fst (LimitEllipse_clear (LimitEllipse_of real_of (words_at m p 3))))
      else if type_id = OBJECT_TYPE_LIMIT_RECT_ELLIPSE then LimitRectEllipse_words bits_of (fst (LimitRectEllipse_clear (LimitRectEllipse_of real_of (words_at m p 5))))
      else if type_id = OBJECT_TYPE_DIPEDGE then DipoleEdge_words bits_of (fst (DipoleEdge_clear (DipoleEdge_of real_of (words_at m p 2))))
      else if type_id = OBJECT_TYPE_TRICUB then TriCub_words bits_of (rd64 m (word_addr p 7)) (fst (TriCub_clear (TriCub_of real_of (words_at m p 8))))
      else if type_id = OBJECT_TYPE_TRICUB_DATA then TriCubData_words bits_of (rd64 m (word_addr p 12)) (fst (TriCubData_clear (TriCubData_at real_of m p)))
      else [])"

definition BeamElements_clear_object :: "(u64 \<Rightarrow> real) \<Rightarrow> (real \<Rightarrow> u64) \<Rightarrow> mem \<Rightarrow> u64 \<Rightarrow> mem" where
  "BeamElements_clear_object real_of bits_of m obj =
     (if obj \<noteq> 0 \<and> Object_get_begin_addr m obj \<noteq> 0 then
        let type_id = Object_get_type_id m obj; obj_addr = Object_get_begin_addr m obj;
            m' = write_words m obj_addr (cleared_words real_of bits_of m type_id obj_addr);
            table_size = TriCubData_table_size (TriCubData_at (\<lambda>_. 0) m obj_addr); table = rd64 m (word_addr obj_addr 12)
        in if type_id = OBJECT_TYPE_TRICUB_DATA \<and> table_size > 0 \<and> table \<noteq> 0
           then write_words m' table (replicate (nat table_size) (bits_of 0)) else m'
      else m)"

definition BeamElements_clear_buffer :: "(u64 \<Rightarrow> real) \<Rightarrow> (real \<Rightarrow> u64) \<Rightarrow> mem \<Rightarrow> Buffer \<Rightarrow> mem" where
  "BeamElements_clear_buffer real_of bits_of m buffer =
     fold (\<lambda>it m. BeamElements_clear_object real_of bits_of m it) (buffer_entries buffer) m"

end
