(* ===== verification/Lattice_Storage.thy ===== *)
theory Lattice_Storage
  imports Lattice_Buffers
begin

section \<open>Buffers as lattices\<close>

text \<open>
  \<open>stored_elements\<close> reads a buffer as the list of the elements in it, as the tracking functions take it. The type
  of an object and the words of its structure say how long the structure is and which of its words are addresses of
  arrays; \<open>entry_object\<close> reads the structure with its arrays, \<open>element_of\<close> the element from that. Elements that refer
  to objects elsewhere (tricubic maps, interpolated profiles) and objects of other types are \<open>None\<close>.
\<close>

subsection \<open>Reading\<close>

definition element_width :: "u64 \<Rightarrow> nat" where
  "element_width type_id =
     (if type_id \<in> {OBJECT_TYPE_DRIFT, OBJECT_TYPE_DRIFT_EXACT} then 1
      else if type_id \<in> {OBJECT_TYPE_XYSHIFT, OBJECT_TYPE_SROTATION, OBJECT_TYPE_DIPEDGE, OBJECT_TYPE_BEAM_BEAM_4D} then 2
      else if type_id \<in> {OBJECT_TYPE_CAVITY, OBJECT_TYPE_LIMIT_ELLIPSE} then 3
      else if type_id = OBJECT_TYPE_LIMIT_RECT then 4
      else if type_id \<in> {OBJECT_TYPE_MULTIPOLE, OBJECT_TYPE_LIMIT_RECT_ELLIPSE} then 5
      else if type_id = OBJECT_TYPE_RF_MULTIPOLE then 6
      else if type_id \<in> {OBJECT_TYPE_BEAM_MONITOR, OBJECT_TYPE_TRICUB} then 8
      else if type_id = OBJECT_TYPE_SC_COASTING then 9
      else if type_id = OBJECT_TYPE_SC_INTERPOLATED_PROF then 10
      else if type_id = OBJECT_TYPE_SC_QGAUSSIAN_PROF then 11
      else 0)"

definition element_attrs :: "u64 \<Rightarrow> u64 list \<Rightarrow> attr_words" where
  "element_attrs type_id ws =
     (if type_id = OBJECT_TYPE_MULTIPOLE then [(4, nat (2 * sint (ws ! 0) + 2))]
      else if type_id = OBJECT_TYPE_RF_MULTIPOLE then [(4, nat (2 * sint (ws ! 0) + 2)), (5, nat (2 * sint (ws ! 0) + 2))]
      else if type_id = OBJECT_TYPE_BEAM_BEAM_4D then [(1, unat (ws ! 0))]
      else [])"

definition entry_shape :: "mem \<Rightarrow> u64 \<Rightarrow> struct_shape" where
  "entry_shape m it = (let type_id = Object_get_type_id m it; w = element_width type_id
     in (w, element_attrs type_id (words_at m (Object_get_begin_addr m it) w)))"

definition entry_object :: "mem \<Rightarrow> u64 \<Rightarrow> u64 \<times> struct_words" where
  "entry_object m it = (Object_get_type_id m it, struct_at m (Object_get_begin_addr m it) (entry_shape m it))"

definition BB4D_data_of :: "(u64 \<Rightarrow> real) \<Rightarrow> u64 list \<Rightarrow> BB4D_data" where
  "BB4D_data_of real_of ws =
     \<lparr>bb4_q_part = real_of (ws ! 0), bb4_N_part = real_of (ws ! 1), bb4_sigma_x = real_of (ws ! 2),
      bb4_sigma_y = real_of (ws ! 3), bb4_beta_s = real_of (ws ! 4), bb4_min_sigma_diff = real_of (ws ! 5),
      bb4_Delta_x = real_of (ws ! 6), bb4_Delta_y = real_of (ws ! 7), bb4_Dpx_sub = real_of (ws ! 8),
      bb4_Dpy_sub = real_of (ws ! 9), bb4_enabled = real_of (ws ! 10)\<rparr>"

definition element_of :: "(u64 \<Rightarrow> real) \<Rightarrow> u64 \<times> struct_words \<Rightarrow> beam_element option" where
  "element_of real_of ob = (case ob of (type_id, ws, arrays) \<Rightarrow>
     if type_id = OBJECT_TYPE_DRIFT then Some (BE_Drift (Drift_of real_of ws))
     else if type_id = OBJECT_TYPE_DRIFT_EXACT then Some (BE_DriftExact (DriftExact_of real_of ws))
     else if type_id = OBJECT_TYPE_MULTIPOLE then Some (BE_Multipole (Multipole_of real_of ws (Some (arrays ! 0))))
     else if type_id = OBJECT_TYPE_RF_MULTIPOLE then Some (BE_RFMultipole (RFMultipole_of real_of ws (arrays ! 0) (arrays ! 1)))
     else if type_id = OBJECT_TYPE_CAVITY then Some (BE_Cavity (Cavity_of real_of ws))
     else if type_id = OBJECT_TYPE_XYSHIFT then Some (BE_XYShift (XYShift_of real_of ws))
     else if type_id = OBJECT_TYPE_SROTATION then Some (BE_SRotation (SRotation_of real_of ws))
     else if type_id = OBJECT_TYPE_BEAM_MONITOR then Some (BE_BeamMonitor (BeamMonitor_of real_of ws))
     else if type_id = OBJECT_TYPE_LIMIT_RECT then Some (BE_LimitRect (LimitRect_of real_of ws))
     else if type_id = OBJECT_TYPE_LIMIT_ELLIPSE then Some (BE_LimitEllipse (LimitEllipse_of real_of ws))
     else if type_id = OBJECT_TYPE_LIMIT_RECT_ELLIPSE then Some (BE_LimitRectEllipse (LimitRectEllipse_of real_of ws))
     else if type_id = OBJECT_TYPE_DIPEDGE then Some (BE_DipoleEdge (DipoleEdge_of real_of ws))
     else if type_id = OBJECT_TYPE_SC_COASTING then Some (BE_SCCoasting (SCCoasting_of real_of ws))
     else if type_id = OBJECT_TYPE_SC_QGAUSSIAN_PROF then Some (BE_SCQGaussProfile (SCQGaussProfile_of real_of ws))
     else if type_id = OBJECT_TYPE_BEAM_BEAM_4D then
       Some (BE_BeamBeam4D \<lparr>BeamBeam4D_data_size = ws ! 0, BeamBeam4D_data = Some (BB4D_data_of real_of (arrays ! 0))\<rparr>)
     else None)"

definition stored_elements :: "(u64 \<Rightarrow> real) \<Rightarrow> mem \<Rightarrow> Buffer \<Rightarrow> beam_element option list" where
  "stored_elements real_of m buffer = map (\<lambda>it. element_of real_of (entry_object m it)) (buffer_entries buffer)"

lemmas element_types = OBJECT_TYPE_DRIFT_def OBJECT_TYPE_DRIFT_EXACT_def OBJECT_TYPE_MULTIPOLE_def OBJECT_TYPE_RF_MULTIPOLE_def
  OBJECT_TYPE_CAVITY_def OBJECT_TYPE_XYSHIFT_def OBJECT_TYPE_SROTATION_def OBJECT_TYPE_BEAM_MONITOR_def OBJECT_TYPE_LIMIT_RECT_def
  OBJECT_TYPE_LIMIT_ELLIPSE_def OBJECT_TYPE_LIMIT_RECT_ELLIPSE_def OBJECT_TYPE_DIPEDGE_def OBJECT_TYPE_SC_COASTING_def
  OBJECT_TYPE_SC_QGAUSSIAN_PROF_def OBJECT_TYPE_BEAM_BEAM_4D_def OBJECT_TYPE_BEAM_BEAM_6D_def OBJECT_TYPE_TRICUB_def
  OBJECT_TYPE_TRICUB_DATA_def OBJECT_TYPE_SC_INTERPOLATED_PROF_def OBJECT_TYPE_LINE_DENSITY_PROF_DATA_def

subsection \<open>Shapes\<close>

text \<open>The words that are addresses do not matter for the shape.\<close>

lemma element_attrs_masked:
  assumes "attrs = element_attrs type_id ws"
  shows "element_attrs type_id (map (\<lambda>j. if j \<in> fst ` set attrs then 0 else g j) [0..<element_width type_id]) =
    element_attrs type_id (map g [0..<element_width type_id])"
  by (simp add: assms element_attrs_def element_width_def element_types del: upt_rec_numeral)

lemma entry_shape_iff:
  "entry_shape m it = s \<longleftrightarrow> fst s = element_width (Object_get_type_id m it) \<and>
     snd s = element_attrs (Object_get_type_id m it) (fst (struct_at m (Object_get_begin_addr m it) s))"
proof -
  define t p where "t = Object_get_type_id m it" and "p = Object_get_begin_addr m it"
  obtain w attrs where s: "s = (w, attrs)" by (cases s)
  have masked: "fst (struct_at m p (w, attrs)) = map (\<lambda>j. if j \<in> fst ` set attrs then 0 else rd64 m (word_addr p j)) [0..<w]"
    by (simp add: struct_at_def)
  have "element_attrs t (map (\<lambda>j. rd64 m (word_addr p j)) [0..<element_width t]) = attrs \<longleftrightarrow>
      attrs = element_attrs t (map (\<lambda>j. if j \<in> fst ` set attrs then 0 else rd64 m (word_addr p j)) [0..<element_width t])"
    using element_attrs_masked [of attrs t _ "\<lambda>j. rd64 m (word_addr p j)"] by (metis (no_types))
  then show ?thesis
    unfolding t_def [symmetric] p_def [symmetric] s entry_shape_def Let_def words_at_def
    by (simp only: masked prod.inject fst_conv snd_conv eq_commute [of w "element_width t"] cong: conj_cong) auto
qed

text \<open>The objects of a buffer with their shapes, as the words in memory give them.\<close>

definition catalogue :: "mem \<Rightarrow> Buffer \<Rightarrow> (u64 \<times> struct_shape) list" where
  "catalogue m buffer = map (\<lambda>it. (Object_get_type_id m it, entry_shape m it)) (buffer_entries buffer)"

lemma catalogue_objects: "stored_objects m buffer (catalogue m buffer) = map (entry_object m) (buffer_entries buffer)"
  by (simp add: stored_objects_def catalogue_def entry_object_def zip_map2 zip_same_conv_map)

lemma stored_elements_objects:
  "stored_elements real_of m buffer = map (element_of real_of) (stored_objects m buffer (catalogue m buffer))"
  by (simp add: catalogue_objects stored_elements_def)

text \<open>A list of shapes is the one that the memory gives if the shapes fit the structures that are read with them.\<close>

definition fits_shape :: "u64 \<times> struct_shape \<Rightarrow> u64 \<times> struct_words \<Rightarrow> bool" where
  "fits_shape os ob \<longleftrightarrow> fst os = fst ob \<and> fst (snd os) = element_width (fst os) \<and>
     snd (snd os) = element_attrs (fst os) (fst (snd ob))"

lemma entry_fits:
  "(Object_get_type_id m it, entry_shape m it) = ob \<longleftrightarrow>
     fits_shape ob (Object_get_type_id m it, struct_at m (Object_get_begin_addr m it) (snd ob))"
  by (cases ob) (auto simp: fits_shape_def entry_shape_iff)

lemma catalogue_iff:
  assumes "length os = length (buffer_entries buffer)"
  shows "catalogue m buffer = os \<longleftrightarrow> list_all2 fits_shape os (stored_objects m buffer os)"
proof -
  have "catalogue m buffer = os \<longleftrightarrow> (\<forall>i<length os. (Object_get_type_id m (buffer_entries buffer ! i), entry_shape m (buffer_entries buffer ! i)) = os ! i)"
    using assms by (simp add: catalogue_def list_eq_iff_nth_eq)
  also have "\<dots> \<longleftrightarrow> (\<forall>i<length os. fits_shape (os ! i) (stored_objects m buffer os ! i))"
    using assms by (simp add: stored_objects_def entry_fits)
  finally show ?thesis using assms by (simp add: list_all2_conv_all_nth stored_objects_def)
qed

text \<open>A buffer is a lattice if the words of all structures but the addresses of their arrays are plain words.\<close>

definition lattice_in :: "buffer_layout \<Rightarrow> (nat \<Rightarrow> u64) \<Rightarrow> mem \<Rightarrow> Buffer \<Rightarrow> bool" where
  "lattice_in L f m buffer \<longleftrightarrow> objects_in L f (catalogue m buffer)"

subsection \<open>Adding an element\<close>

text \<open>The types for which copying an element reports success as 0 and whose structures can be copied as they are.\<close>

definition copied_types :: "u64 set" where
  "copied_types = {OBJECT_TYPE_DRIFT, OBJECT_TYPE_DRIFT_EXACT, OBJECT_TYPE_MULTIPOLE, OBJECT_TYPE_RF_MULTIPOLE, OBJECT_TYPE_XYSHIFT,
     OBJECT_TYPE_SROTATION, OBJECT_TYPE_CAVITY, OBJECT_TYPE_BEAM_MONITOR, OBJECT_TYPE_LIMIT_RECT, OBJECT_TYPE_LIMIT_ELLIPSE,
     OBJECT_TYPE_LIMIT_RECT_ELLIPSE, OBJECT_TYPE_DIPEDGE, OBJECT_TYPE_TRICUB}"

lemmas add_copy_defs = Drift_add_copy_def DriftExact_add_copy_def XYShift_add_copy_def SRotation_add_copy_def Cavity_add_copy_def
  BeamMonitor_add_copy_def LimitRect_add_copy_def LimitEllipse_add_copy_def LimitRectEllipse_add_copy_def DipoleEdge_add_copy_def
  TriCub_add_copy_def Buffer_add_trivial_object_def place_object_def

lemmas element_sizes = sizeof_Drift_def sizeof_DriftExact_def sizeof_XYShift_def sizeof_SRotation_def sizeof_Cavity_def
  sizeof_BeamMonitor_def sizeof_LimitRect_def sizeof_LimitEllipse_def sizeof_LimitRectEllipse_def sizeof_DipoleEdge_def
  sizeof_TriCub_def sizeof_Multipole_def sizeof_RFMultipole_def sizeof_SCCoasting_def sizeof_SCQGaussProfile_def sizeof_BeamBeam4D_def

lemmas element_type_ids = Drift_type_id_def DriftExact_type_id_def XYShift_type_id_def SRotation_type_id_def Cavity_type_id_def
  BeamMonitor_type_id_def LimitRect_type_id_def LimitEllipse_type_id_def LimitRectEllipse_type_id_def DipoleEdge_type_id_def
  TriCub_type_id_def Multipole_type_id_def RFMultipole_type_id_def SCCoasting_type_id_def SCQGaussProfile_type_id_def BeamBeam4D_type_id_def

lemmas element_dataptrs = Drift_num_dataptrs_def DriftExact_num_dataptrs_def XYShift_num_dataptrs_def SRotation_num_dataptrs_def
  Cavity_num_dataptrs_def BeamMonitor_num_dataptrs_def LimitRect_num_dataptrs_def LimitEllipse_num_dataptrs_def
  LimitRectEllipse_num_dataptrs_def DipoleEdge_num_dataptrs_def TriCub_num_dataptrs_def Multipole_num_dataptrs_def
  RFMultipole_num_dataptrs_def SCCoasting_num_dataptrs_def SCQGaussProfile_num_dataptrs_def BeamBeam4D_num_dataptrs_def

lemma order_words: "order \<ge> 0 \<Longrightarrow> u64_of (2 * order + 2) = of_nat (nat (2 * order + 2))"
  by (simp add: u64_of_def)

lemma multipole_tables:
  "Multipole_tables (Multipole_at g m p) 8 = (map attr_bytes [(4, nat (2 * sint (rd64 m (word_addr p 0)) + 2))], 0)"
proof -
  have "Multipole_order (Multipole_at g m p) = sint (rd64 m (word_addr p 0))"
    by (simp add: Multipole_at_def Multipole_of_def Let_def del: upt_rec_numeral)
  then show ?thesis
    using order_words [of "sint (rd64 m (word_addr p 0))"]
    by (simp add: Multipole_tables_def Multipole_attributes_offsets_def Multipole_attributes_sizes_def Multipole_attributes_counts_def
        Multipole_bal_length_def)
qed

lemma rf_multipole_tables:
  assumes "0 \<le> sint (rd64 m (word_addr p 0))"
  shows "RFMultipole_tables (RFMultipole_at g m p) 8 = (let k = nat (2 * sint (rd64 m (word_addr p 0)) + 2)
    in (map attr_bytes [(4, k), (5, k)], 0))"
proof -
  have "RFMultipole_order (RFMultipole_at g m p) = sint (rd64 m (word_addr p 0))"
    by (simp add: RFMultipole_at_def RFMultipole_of_def Let_def del: upt_rec_numeral)
  then show ?thesis
    using order_words [of "sint (rd64 m (word_addr p 0))"] assms
    by (simp add: RFMultipole_tables_def RFMultipole_attributes_offsets_def RFMultipole_attributes_sizes_def
        RFMultipole_attributes_counts_def RFMultipole_bal_length_def RFMultipole_phase_length_def RFMultipole_num_dataptrs_def Let_def)
qed

lemma copy_single:
  assumes "it \<noteq> 0" "Object_get_begin_addr m it = p" "p \<noteq> 0" "bf_slot_length buffer = 8" "Object_get_type_id m it = type_id"
    and "type_id \<in> copied_types" "entry_shape m it = (w, attrs)" "\<forall>a\<in>set attrs. 0 < snd a"
  shows "BeamElements_copy_single_to_buffer m new_memory mem_pool buffer it =
    added_status (place_object m new_memory mem_pool buffer p (8 * of_nat w) type_id (map attr_bytes attrs))"
proof -
  have slot: "Buffer_get_slot_size buffer = 8" using assms(4) by (simp add: Buffer_get_slot_size_def)
  have w: "w = element_width type_id" and attrs: "attrs = element_attrs type_id (words_at m p w)"
    using assms(2,5,7) by (auto simp: entry_shape_def Let_def)
  have first: "words_at m p w ! 0 = rd64 m (word_addr p 0)" if "0 < w" using that by (simp add: words_at_def)
  show ?thesis
  proof (cases "type_id = OBJECT_TYPE_MULTIPOLE \<or> type_id = OBJECT_TYPE_RF_MULTIPOLE")
    case True
    then have "0 < w" by (auto simp: w element_width_def element_types)
    note first = first [OF this]
    from True show ?thesis
    proof
      assume t: "type_id = OBJECT_TYPE_MULTIPOLE"
      then have "attrs = [(4, nat (2 * sint (rd64 m (word_addr p 0)) + 2))]" by (simp add: attrs element_attrs_def first)
      then show ?thesis using t
        by (simp add: BeamElements_copy_single_to_buffer_def assms(1,2,3,5) w element_types slot Multipole_add_copy_def multipole_tables
            Multipole_num_dataptrs_def Multipole_type_id_def sizeof_Multipole_def element_width_def)
    next
      assume t: "type_id = OBJECT_TYPE_RF_MULTIPOLE"
      then have a: "attrs = (let k = nat (2 * sint (rd64 m (word_addr p 0)) + 2) in [(4, k), (5, k)])"
        by (simp add: attrs element_attrs_def element_types first Let_def)
      then have "0 \<le> sint (rd64 m (word_addr p 0))" using assms(8) by (simp add: Let_def)
      then show ?thesis using t a
        by (simp add: BeamElements_copy_single_to_buffer_def assms(1,2,3,5) w element_types slot RFMultipole_add_copy_def
            rf_multipole_tables Let_def RFMultipole_num_dataptrs_def RFMultipole_type_id_def sizeof_RFMultipole_def element_width_def)
    qed
  next
    case False
    then have "attrs = []" using assms(6) by (auto simp: attrs element_attrs_def copied_types_def element_types)
    then show ?thesis
      using assms(6) False unfolding copied_types_def
      by (elim insertE emptyE) (simp_all add: BeamElements_copy_single_to_buffer_def assms(1,2,3,5) w add_copy_defs element_types
          element_sizes element_type_ids element_dataptrs element_width_def)
  qed
qed

lemma element_attrs_fields: "a \<in> set (element_attrs t ws) \<Longrightarrow> fst a < element_width t" "distinct (map fst (element_attrs t ws))"
  by (auto simp: element_attrs_def element_width_def element_types split: if_splits)

text \<open>Adding a structure of the type of an element that lies outside the buffer.\<close>

lemma place_element:
  assumes "buffer_in m0 buffer n N L f m" "full_access buffer" "lattice_in L f m buffer" "b = bf_data_addr buffer"
    and "addable n L w attrs" "source_ok b N p w" "w = element_width type_id" "attrs = element_attrs type_id (words_at m p w)"
    and "\<forall>(o', k)\<in>set attrs. rd64 m (word_addr p o') = 0 \<or> source_ok b N (rd64 m (word_addr p o')) k"
  shows "\<exists>m' buffer' f'. place_object m new_memory mem_pool buffer p (8 * of_nat w) type_id (map attr_bytes attrs) =
      (m', mem_pool, buffer', word_addr b (slots_end L)) \<and> word_addr b (slots_end L) \<noteq> 0 \<and>
    buffer_in m buffer' n N (added_layout L w attrs) f' m' \<and> full_access buffer' \<and> bf_data_addr buffer' = b \<and>
    lattice_in (added_layout L w attrs) f' m' buffer' \<and>
    map (entry_object m') (buffer_entries buffer') = map (entry_object m) (buffer_entries buffer) @ [(type_id, struct_at m p (w, attrs))]"
proof -
  define os where "os = catalogue m buffer"
  have os: "objects_in L f os" "length os = length (buffer_entries buffer)" using assms(3) by (simp_all add: lattice_in_def os_def catalogue_def)
  obtain m' buffer' f' where A: "Buffer_add_object m new_memory mem_pool buffer p (8 * of_nat w) type_id (map attr_bytes attrs) =
        (m', mem_pool, buffer', word_addr b (objs_end L))"
      "Object_get_begin_addr m' (word_addr b (objs_end L)) = word_addr b (slots_end L)" "word_addr b (slots_end L) \<noteq> 0"
      "buffer_in m buffer' n N (added_layout L w attrs) f' m'" "full_access buffer'" "bf_data_addr buffer' = b"
      "objects_in (added_layout L w attrs) f' (os @ [(type_id, w, attrs)])"
      "stored_objects m' buffer' (os @ [(type_id, w, attrs)]) = stored_objects m buffer os @ [(type_id, struct_at m p (w, attrs))]"
    using add_struct [OF assms(1,2) os(1) assms(4-6,9)] by blast
  have "list_all2 fits_shape os (stored_objects m buffer os)" using catalogue_iff [OF os(2)] os_def by blast
  moreover have "fits_shape (type_id, w, attrs) (type_id, struct_at m p (w, attrs))"
    using element_attrs_masked [OF assms(8), of "\<lambda>j. rd64 m (word_addr p j)"] assms(7,8)
    by (simp add: fits_shape_def struct_at_def words_at_def)
  ultimately have "list_all2 fits_shape (os @ [(type_id, w, attrs)]) (stored_objects m' buffer' (os @ [(type_id, w, attrs)]))"
    unfolding A(8) by (simp add: list_all2_appendI)
  moreover have "length (os @ [(type_id, w, attrs)]) = length (buffer_entries buffer')"
    using A(7) by (simp add: entries [OF A(4) refl] objects_in_def)
  ultimately have new: "catalogue m' buffer' = os @ [(type_id, w, attrs)]" using catalogue_iff by blast
  have "map (entry_object m') (buffer_entries buffer') = map (entry_object m) (buffer_entries buffer) @ [(type_id, struct_at m p (w, attrs))]"
    using A(8) catalogue_objects [of m' buffer', unfolded new] catalogue_objects [of m buffer] by (simp add: os_def)
  then show ?thesis using A new by (auto simp: place_object_def lattice_in_def)
qed

subsection \<open>Copying lattices\<close>

text \<open>
  There is room for structures of these shapes, and an entry of a table, its structure and the arrays of it lie outside
  the \<open>N\<close> words from \<open>b\<close> on.
\<close>

definition room_for :: "buffer_layout \<Rightarrow> struct_shape list \<Rightarrow> bool" where
  "room_for L ss \<longleftrightarrow> num_slots L + sum_list (map (\<lambda>(w, attrs). w + attr_total attrs) ss) + 2 \<le> max_slots L \<and>
     3 * (num_objs L + length ss) + 2 \<le> max_objs L \<and> num_ptrs L + sum_list (map (\<lambda>(w, attrs). length attrs) ss) + 2 \<le> max_ptrs L"

definition entry_outside :: "u64 \<Rightarrow> nat \<Rightarrow> mem \<Rightarrow> u64 \<Rightarrow> bool" where
  "entry_outside b N m it \<longleftrightarrow> source_ok b N it 3 \<and> source_ok b N (Object_get_begin_addr m it) (fst (entry_shape m it)) \<and>
     (\<forall>(o', k)\<in>set (snd (entry_shape m it)). 0 < k \<and>
       (rd64 m (word_addr (Object_get_begin_addr m it) o') = 0 \<or> source_ok b N (rd64 m (word_addr (Object_get_begin_addr m it) o')) k))"

lemma room_for_addable:
  assumes "room_for L (entry_shape m it # ss)" "layout_ok n L" "entry_shape m it = (w, attrs)" "0 < w" "\<forall>a\<in>set attrs. 0 < snd a"
  shows "addable n L w attrs" "room_for (added_layout L w attrs) ss"
proof -
  have "w = element_width (Object_get_type_id m it)" "attrs = element_attrs (Object_get_type_id m it) (words_at m (Object_get_begin_addr m it) w)"
    using assms(3) by (auto simp: entry_shape_def Let_def)
  then show "addable n L w attrs"
    using assms element_attrs_fields by (auto simp: addable_def room_for_def)
  show "room_for (added_layout L w attrs) ss" using assms(1,3) by (simp add: room_for_def)
qed

text \<open>Writing to the buffer does not change what lies outside.\<close>

lemma outside_unchanged:
  assumes "buf m b N f m'" "entry_outside b N m it"
  shows "entry_object m' it = entry_object m it" "entry_shape m' it = entry_shape m it" "entry_outside b N m' it"
    "Object_get_type_id m' it = Object_get_type_id m it" "Object_get_begin_addr m' it = Object_get_begin_addr m it"
proof -
  note out = outside_words [OF assms(1)]
  define p w attrs where "p = Object_get_begin_addr m it" and "w = fst (entry_shape m it)" and "attrs = snd (entry_shape m it)"
  have it: "source_ok b N it 3" "source_ok b N p w" using assms(2) by (simp_all add: entry_outside_def p_def w_def)
  have array: "rd64 m (word_addr p o') = 0 \<or> source_ok b N (rd64 m (word_addr p o')) k" if "(o', k) \<in> set attrs" for o' k
    using assms(2) that by (auto simp: entry_outside_def p_def attrs_def)
  have "rd64 m' it = rd64 m it" "rd64 m' (it + 8) = rd64 m (it + 8)"
    using out [OF it(1), of 0] out [OF it(1), of 1] by (simp_all add: word_addr_def)
  then show t: "Object_get_type_id m' it = Object_get_type_id m it" and p: "Object_get_begin_addr m' it = Object_get_begin_addr m it"
    by (simp_all add: Object_get_type_id_def Object_get_begin_addr_def)
  have w: "w = element_width (Object_get_type_id m it)" "entry_shape m it = (w, attrs)" by (simp_all add: w_def attrs_def entry_shape_def Let_def)
  have words: "rd64 m' (word_addr p j) = rd64 m (word_addr p j)" if "j < w" for j by (rule out [OF it(2) that])
  then have "words_at m' p w = words_at m p w" by (simp add: words_at_def)
  then show s: "entry_shape m' it = entry_shape m it" using w(1) by (simp add: entry_shape_def Let_def t p flip: p_def)
  have less: "o' < w" if "(o', k) \<in> set attrs" for o' k
    using that element_attrs_fields(1) [of "(o', k)"] by (auto simp: attrs_def w(1) entry_shape_def Let_def)
  have arrays: "array_read m' (rd64 m (word_addr p o')) k = array_read m (rd64 m (word_addr p o')) k" if "(o', k) \<in> set attrs" for o' k
    using array [OF that] by (auto simp: array_read_def out)
  have "struct_at m' p (w, attrs) = struct_at m p (w, attrs)"
    using words less arrays by (intro struct_at_cong) auto
  then show "entry_object m' it = entry_object m it" by (simp add: entry_object_def t p s w(2) flip: p_def)
  have "rd64 m' (word_addr p o') = rd64 m (word_addr p o')" if "(o', k) \<in> set attrs" for o' k
    using words less that by blast
  then show "entry_outside b N m' it"
    using assms(2) unfolding entry_outside_def s p p_def [symmetric] attrs_def [symmetric] by fastforce
qed

lemma place_entry:
  assumes "buffer_in m0 buffer n N L f m" "full_access buffer" "lattice_in L f m buffer" "b = bf_data_addr buffer"
    and "entry_outside b N m it" "entry_shape m it = (w, attrs)" "0 < w" "room_for L (entry_shape m it # ss)"
  shows "\<exists>m' buffer' L' f' a. place_object m new_memory mem_pool buffer (Object_get_begin_addr m it) (8 * of_nat w)
      (Object_get_type_id m it) (map attr_bytes attrs) = (m', mem_pool, buffer', a) \<and> a \<noteq> 0 \<and>
    buffer_in m buffer' n N L' f' m' \<and> full_access buffer' \<and> bf_data_addr buffer' = b \<and>
    lattice_in L' f' m' buffer' \<and> room_for L' ss \<and> ranges_to L' = ranges_to L \<and>
    map (entry_object m') (buffer_entries buffer') = map (entry_object m) (buffer_entries buffer) @ [entry_object m it]"
proof -
  define p type_id where "p = Object_get_begin_addr m it" and "type_id = Object_get_type_id m it"
  have fit: "w = element_width type_id" "attrs = element_attrs type_id (words_at m p w)"
    using assms(6) by (auto simp: entry_shape_def Let_def p_def type_id_def)
  have out: "source_ok b N p w"
    "\<forall>(o', k)\<in>set attrs. 0 < k \<and> (rd64 m (word_addr p o') = 0 \<or> source_ok b N (rd64 m (word_addr p o')) k)"
    using assms(5) by (simp_all add: entry_outside_def p_def assms(6))
  then have pos: "\<forall>a\<in>set attrs. 0 < snd a" and arrays: "\<forall>(o', k)\<in>set attrs. rd64 m (word_addr p o') = 0 \<or> source_ok b N (rd64 m (word_addr p o')) k"
    by auto
  have lo: "layout_ok n L" using buffer_inD(2) [OF assms(1)] by (simp add: describes_def)
  note room = room_for_addable [OF assms(8) lo assms(6,7) pos]
  obtain m' buffer' f' where P: "place_object m new_memory mem_pool buffer p (8 * of_nat w) type_id (map attr_bytes attrs) =
        (m', mem_pool, buffer', word_addr b (slots_end L))" "word_addr b (slots_end L) \<noteq> 0"
      "buffer_in m buffer' n N (added_layout L w attrs) f' m'" "full_access buffer'" "bf_data_addr buffer' = b"
      "lattice_in (added_layout L w attrs) f' m' buffer'"
      "map (entry_object m') (buffer_entries buffer') = map (entry_object m) (buffer_entries buffer) @ [(type_id, struct_at m p (w, attrs))]"
    using place_element [OF assms(1-4) room(1) out(1) fit arrays] by blast
  moreover have "entry_object m it = (type_id, struct_at m p (w, attrs))" by (simp add: entry_object_def assms(6) p_def type_id_def)
  moreover have "ranges_to (added_layout L w attrs) = ranges_to L" by (simp add: added_layout_def)
  ultimately show ?thesis
    using room(2) unfolding p_def [symmetric] type_id_def [symmetric]
    by (intro exI [of _ m'] exI [of _ buffer'] exI [of _ "added_layout L w attrs"] exI [of _ f'] exI [of _ "word_addr b (slots_end L)"]) simp
qed

lemma outside_begin:
  assumes "entry_outside b N m it"
  shows "it \<noteq> 0" "Object_get_begin_addr m it \<noteq> 0" "\<forall>a\<in>set (snd (entry_shape m it)). 0 < snd a"
  using assms by (auto simp: entry_outside_def source_ok_def fits_def)

lemma copied_width: "Object_get_type_id m it \<in> copied_types \<Longrightarrow> 0 < fst (entry_shape m it)"
  by (auto simp: entry_shape_def Let_def copied_types_def element_width_def element_types)

lemma copy_step:
  assumes "buffer_in m0 buffer n N L f m" "full_access buffer" "lattice_in L f m buffer" "b = bf_data_addr buffer"
    and "entry_outside b N m it" "Object_get_type_id m it \<in> copied_types" "room_for L (entry_shape m it # ss)"
  shows "\<exists>m' buffer' L' f'. BeamElements_copy_single_to_buffer m new_memory mem_pool buffer it = (m', mem_pool, buffer', 0) \<and>
    buffer_in m buffer' n N L' f' m' \<and> full_access buffer' \<and> bf_data_addr buffer' = b \<and>
    lattice_in L' f' m' buffer' \<and> room_for L' ss \<and> ranges_to L' = ranges_to L \<and>
    map (entry_object m') (buffer_entries buffer') = map (entry_object m) (buffer_entries buffer) @ [entry_object m it]"
proof -
  obtain w attrs where s: "entry_shape m it = (w, attrs)" by (cases "entry_shape m it")
  note out = outside_begin [OF assms(5), unfolded s snd_conv]
  have "BeamElements_copy_single_to_buffer m new_memory mem_pool buffer it = added_status (place_object m new_memory mem_pool buffer
      (Object_get_begin_addr m it) (8 * of_nat w) (Object_get_type_id m it) (map attr_bytes attrs))"
    by (rule copy_single [OF out(1) refl out(2) buffer_inD(9) [OF assms(1)] refl assms(6) s out(3)])
  moreover have "0 < w" using copied_width [OF assms(6)] s by simp
  ultimately show ?thesis
    using place_entry [OF assms(1-5) s _ assms(7), of new_memory mem_pool] by (fastforce simp: added_status_def)
qed

lemma copy_entries_append:
  assumes "buffer_in m0 buffer n N L f m" "full_access buffer" "lattice_in L f m buffer" "b = bf_data_addr buffer"
    and "\<forall>it\<in>set its. entry_outside b N m it \<and> Object_get_type_id m it \<in> copied_types" "room_for L (map (entry_shape m) its @ ss)"
  shows "\<exists>m' buffer' L' f'. copy_entries m new_memory mem_pool buffer its 0 = (m', mem_pool, buffer', 0) \<and>
    buffer_in m buffer' n N L' f' m' \<and> full_access buffer' \<and> bf_data_addr buffer' = b \<and> lattice_in L' f' m' buffer' \<and> ranges_to L' = ranges_to L \<and> room_for L' ss \<and>
    map (entry_object m') (buffer_entries buffer') = map (entry_object m) (buffer_entries buffer) @ map (entry_object m) its"
  using assms
proof (induction its arbitrary: m0 m buffer L f new_memory)
  case Nil
  then show ?case using buffer_in_rebase [OF Nil.prems(1), of m] by auto
next
  case (Cons it its)
  obtain m1 buffer1 L1 f1 where S: "BeamElements_copy_single_to_buffer m (new_memory 0) mem_pool buffer it = (m1, mem_pool, buffer1, 0)"
      "buffer_in m buffer1 n N L1 f1 m1" "full_access buffer1" "bf_data_addr buffer1 = b" "lattice_in L1 f1 m1 buffer1"
      "room_for L1 (map (entry_shape m) its @ ss)" "ranges_to L1 = ranges_to L"
      "map (entry_object m1) (buffer_entries buffer1) = map (entry_object m) (buffer_entries buffer) @ [entry_object m it]"
    using copy_step [OF Cons.prems(1-4), of it "map (entry_shape m) its @ ss" "new_memory 0" mem_pool] Cons.prems(5,6) by auto
  note same = outside_unchanged [OF buffer_inD(1) [OF S(2), unfolded S(4)]]
  have out: "\<forall>it'\<in>set its. entry_outside b N m1 it' \<and> Object_get_type_id m1 it' \<in> copied_types"
    using Cons.prems(5) same(3,4) by simp
  have shapes: "map (entry_shape m1) its = map (entry_shape m) its" and objects: "map (entry_object m1) its = map (entry_object m) its"
    using Cons.prems(5) same(1,2) by simp_all
  obtain m' buffer' L' f' where R: "copy_entries m1 (\<lambda>k. new_memory (Suc k)) mem_pool buffer1 its 0 = (m', mem_pool, buffer', 0)"
      "buffer_in m1 buffer' n N L' f' m'" "full_access buffer'" "bf_data_addr buffer' = b" "lattice_in L' f' m' buffer'" "ranges_to L' = ranges_to L1" "room_for L' ss"
      "map (entry_object m') (buffer_entries buffer') = map (entry_object m1) (buffer_entries buffer1) @ map (entry_object m1) its"
    using Cons.IH [OF S(2,3,5) S(4) [symmetric] out, of "\<lambda>k. new_memory (Suc k)"] S(6) shapes by auto
  have "buf m b N f' m'" using buffer_inD(1) [OF R(2)] buffer_inD(1) [OF S(2)] R(4) S(4) by (simp add: buf_def)
  then have "buffer_in m buffer' n N L' f' m'" using R(2,4) by (simp add: buffer_in_def)
  then show ?case using R S(1,7,8) objects by auto
qed

text \<open>The entries of a buffer that does not overlap the \<open>N\<close> words from \<open>b\<close> on.\<close>

definition apart :: "u64 \<Rightarrow> nat \<Rightarrow> Buffer \<Rightarrow> nat \<Rightarrow> bool" where
  "apart b N source N1 \<longleftrightarrow> unat (bf_data_addr source) + 8 * N1 \<le> unat b \<or> unat b + 8 * N \<le> unat (bf_data_addr source)"

lemma part_outside:
  assumes "fits c N1" "x + k \<le> N1" "0 < k" "unat c + 8 * N1 \<le> unat b \<or> unat b + 8 * N \<le> unat c"
  shows "source_ok b N (word_addr c x) k"
proof -
  have "unat (word_addr c x) = unat c + 8 * x" by (rule unat_addr [OF assms(1)]) (use assms(2) in linarith)
  moreover have "word_addr c x \<noteq> 0" using assms(1-3) by (intro addr_neq_0 [OF assms(1)]) simp
  ultimately show ?thesis using assms by (auto simp: source_ok_def fits_def)
qed

lemma entries_outside:
  assumes "buffer_in m1 source n1 N1 L1 f1 m" "lattice_in L1 f1 m source" "apart b N source N1" "it \<in> set (buffer_entries source)"
    and "0 < fst (entry_shape m it)" "\<forall>a\<in>set (snd (entry_shape m it)). 0 < snd a"
  shows "entry_outside b N m it"
proof -
  define c where "c = bf_data_addr source"
  note B = buffer_inD [OF assms(1), folded c_def]
  have lo: "layout_ok n1 L1" using B(2) by (simp add: describes_def)
  have part: "source_ok b N (word_addr c x) k" if "x + k \<le> N1" "0 < k" for x k
    using part_outside [OF B(4) that] assms(3) by (simp add: apart_def c_def)
  obtain i where i: "i < num_objs L1" "it = word_addr c (at_objs L1 + 2 + 3 * i)"
    using assms(4) entries [OF assms(1) c_def] by auto
  note E = entry_words [OF assms(1) i(1) c_def, folded i(2)]
  have "catalogue m source ! i = (Object_get_type_id m it, entry_shape m it)"
    using i by (simp add: catalogue_def entries [OF assms(1) c_def])
  moreover have "struct_in L1 (obj_at L1 i) (snd (catalogue m source ! i))"
    using assms(2) i(1) unfolding lattice_in_def objects_in_def by blast
  ultimately have st: "struct_in L1 (obj_at L1 i) (entry_shape m it)" by simp
  obtain w attrs where s: "entry_shape m it = (w, attrs)" by (cases "entry_shape m it")
  have in1: "x < N1" if "in_slots L1 x" for x by (rule in_slots_less [OF assms(1) that])
  have ptr: "in_slots L1 x" if "(x, d) \<in> set (ptrs_to L1)" for x d
    using that B(2) by (auto simp: describes_def ptrs_at_def in_set_conv_nth)
  have word: "obj_at L1 i + j < N1" if "j < w" for j
    using st that in1 ptr unfolding struct_in_def s by (cases "j \<in> fst ` set attrs") (fastforce simp: plain_def)+
  have it: "source_ok b N it 3" unfolding i(2) using i(1) layout_bounds [OF lo] B(3) by (intro part) simp_all
  have p: "source_ok b N (Object_get_begin_addr m it) w"
    unfolding E(1) using word [of "w - 1"] assms(5) s by (intro part) simp_all
  have "source_ok b N (rd64 m (word_addr (Object_get_begin_addr m it) o')) k" if a: "(o', k) \<in> set attrs" for o' k
  proof -
    obtain d where d: "(obj_at L1 i + o', d) \<in> set (ptrs_to L1)" "\<forall>j<k. plain L1 (d + j)"
      using st a unfolding struct_in_def s by auto
    have "0 < k" using assms(6) a s by auto
    then have "plain L1 (d + (k - 1))" using d(2) by (metis diff_less zero_less_one)
    then have "d + (k - 1) < N1" using in1 unfolding plain_def by blast
    then show ?thesis
      unfolding E(1) struct_words(2) [OF assms(1) c_def d(1)] using \<open>0 < k\<close> by (intro part) simp_all
  qed
  then show ?thesis using it p assms(6) s by (fastforce simp: entry_outside_def)
qed

text \<open>Two views of the same words are the same lattice.\<close>

lemma same_lattice:
  assumes "buffer_in m0 buffer n N L f m" "buffer_in m1 buffer' n N' L f' m'" "same_words n L f f'" "lattice_in L f m buffer"
  shows "map (entry_object m') (buffer_entries buffer') = map (entry_object m) (buffer_entries buffer)" "lattice_in L f' m' buffer'"
proof -
  define os where "os = catalogue m buffer"
  have os: "objects_in L f os" "length os = length (buffer_entries buffer)" using assms(4) by (simp_all add: lattice_in_def os_def catalogue_def)
  note S = same_objects [OF assms(1-3) os(1)]
  have "list_all2 fits_shape os (stored_objects m' buffer' os)" unfolding S(1) using catalogue_iff [OF os(2)] os_def by blast
  moreover have "length os = length (buffer_entries buffer')"
    using os(2) by (simp add: entries [OF assms(1) refl] entries [OF assms(2) refl])
  ultimately have new: "catalogue m' buffer' = os" using catalogue_iff by blast
  show "map (entry_object m') (buffer_entries buffer') = map (entry_object m) (buffer_entries buffer)"
    using S(1) catalogue_objects [of m' buffer', unfolded new] catalogue_objects [of m buffer] by (simp add: os_def)
  show "lattice_in L f' m' buffer'" using S(2) by (simp add: lattice_in_def new)
qed

lemma stored_elements_map:
  "map (entry_object m) (buffer_entries buffer) = obs \<Longrightarrow> stored_elements real_of m buffer = map (element_of real_of) obs"
  by (auto simp: stored_elements_def)

lemma lattice_rebase:
  assumes "buffer_in m0 buffer n N L f m" "lattice_in L f m buffer"
    and "\<And>i. unat (bf_data_addr buffer) \<le> i \<Longrightarrow> i < unat (bf_data_addr buffer) + 8 * N \<Longrightarrow> m1 i = m i"
  shows "buffer_in m1 buffer n N L f m1" "lattice_in L f m1 buffer"
    "map (entry_object m1) (buffer_entries buffer) = map (entry_object m) (buffer_entries buffer)"
proof -
  show b: "buffer_in m1 buffer n N L f m1" by (rule buffer_in_rebase [OF assms(1,3)])
  show "lattice_in L f m1 buffer" "map (entry_object m1) (buffer_entries buffer) = map (entry_object m) (buffer_entries buffer)"
    using same_lattice [OF assms(1) b _ assms(2)] by (simp_all add: same_words_def)
qed

lemma range_of_entries:
  assumes "buffer_in m0 buffer n N L f m"
  shows "index_entries (Buffer_get_objects_begin_addr buffer) (Buffer_get_objects_end_addr buffer) = buffer_entries buffer"
    "Buffer_get_objects_begin_addr buffer \<noteq> 0" "buffer_entries buffer \<noteq> [] \<Longrightarrow> Buffer_get_objects_end_addr buffer \<noteq> 0"
proof -
  note B = buffer_inD [OF assms]
  have "at_objs L + 2 < N" using B(2,3) layout_bounds [of n L] by (simp add: describes_def)
  then show b: "Buffer_get_objects_begin_addr buffer \<noteq> 0"
    using addr_neq_0 [OF B(4)] B(10) by (simp add: Buffer_get_objects_begin_addr_def)
  show "buffer_entries buffer \<noteq> [] \<Longrightarrow> Buffer_get_objects_end_addr buffer \<noteq> 0"
  proof -
    assume "buffer_entries buffer \<noteq> []"
    then have "0 < num_objs L" by (simp add: entries [OF assms refl])
    have "at_objs L + 2 + 3 * num_objs L < N" using B(2,3) layout_bounds [of n L] by (simp add: describes_def)
    then have "word_addr (bf_data_addr buffer) (at_objs L + 2 + 3 * num_objs L) \<noteq> 0" by (intro addr_neq_0 [OF B(4)]) simp
    moreover have "Buffer_get_objects_end_addr buffer = Buffer_get_objects_begin_addr buffer + 24 * of_nat (num_objs L)"
      using b B(9,10,11) by (simp add: Buffer_get_objects_begin_addr_def Buffer_get_objects_end_addr_def Buffer_get_slot_size_def
          ManagedBuffer_get_slot_based_length_def sizeof_Object_def Let_def)
    ultimately show ?thesis using B(10) by (simp add: Buffer_get_objects_begin_addr_def word_addr_def algebra_simps)
  qed
qed (simp add: buffer_entries_def)

text \<open>C6: Copying a lattice from one buffer into another one with enough room returns 0 and appends the elements of the
  source to those of the destination; the source keeps its elements, and elements with arrays get arrays of their own
  with the same numbers. This is for lattices of the thirteen element types whose copy reports success
  (\<open>copied_types\<close>: all but beam-beam, space charge and the data objects of tricubic maps and profiles), with
  multipoles of at least one coefficient.\<close>

theorem copying_appends_lattice:
  assumes "buffer_in m0 buffer n N L f m" "full_access buffer" "lattice_in L f m buffer"
    and "buffer_in m1 source n1 N1 L1 f1 m" "lattice_in L1 f1 m source" "apart (bf_data_addr buffer) N source N1"
    and "buffer_entries source \<noteq> []" "room_for L (map (entry_shape m) (buffer_entries source))"
    and "\<forall>it\<in>set (buffer_entries source). Object_get_type_id m it \<in> copied_types \<and> (\<forall>a\<in>set (snd (entry_shape m it)). 0 < snd a)"
  shows "\<exists>m' buffer'. BeamElements_copy_to_buffer m new_memory mem_pool buffer
      (Buffer_get_objects_begin_addr source) (Buffer_get_objects_end_addr source) = (m', mem_pool, buffer', 0) \<and>
    stored_elements real_of m' buffer' = stored_elements real_of m buffer @ stored_elements real_of m source \<and>
    stored_elements real_of m' source = stored_elements real_of m source"
proof -
  have out: "\<forall>it\<in>set (buffer_entries source). entry_outside (bf_data_addr buffer) N m it \<and> Object_get_type_id m it \<in> copied_types"
    using entries_outside [OF assms(4-6)] assms(9) copied_width by blast
  obtain m' buffer' L' f' where C: "copy_entries m new_memory mem_pool buffer (buffer_entries source) 0 = (m', mem_pool, buffer', 0)"
      "buffer_in m buffer' n N L' f' m'" "bf_data_addr buffer' = bf_data_addr buffer"
      "map (entry_object m') (buffer_entries buffer') = map (entry_object m) (buffer_entries buffer) @ map (entry_object m) (buffer_entries source)"
    using copy_entries_append [OF assms(1-3) refl out, of "[]" new_memory mem_pool] assms(8) by auto
  have "m' i = m i" if "unat (bf_data_addr source) \<le> i" "i < unat (bf_data_addr source) + 8 * N1" for i
    using that assms(6) C(3) by (intro buf_outside [OF buffer_inD(1) [OF C(2)]]) (auto simp: apart_def)
  note kept = lattice_rebase(3) [OF assms(4,5) this]
  note range = range_of_entries [OF assms(4)]
  have "BeamElements_copy_to_buffer m new_memory mem_pool buffer
      (Buffer_get_objects_begin_addr source) (Buffer_get_objects_end_addr source) = (m', mem_pool, buffer', 0)"
    using C(1) range assms(7) by (simp add: BeamElements_copy_to_buffer_def)
  then show ?thesis
    using stored_elements_map [OF C(4), of real_of] stored_elements_map [OF kept, of real_of] by (simp add: stored_elements_def)
qed

text \<open>C14: A lattice that is written to a file for any base address and read back at another place has the same elements,
  whatever numbers the bit patterns stand for, and so has every copy of its buffer.\<close>

theorem lattice_through_file:
  assumes "buffer_in m0 original n N L f m" "full_access original" "lattice_in L f m original" "ranges_to L = []" "fits target n"
    and "new_room pool_addr new_memory n" "unat target < unat new_memory \<or> unat new_memory + 8 \<le> unat target"
  shows "\<exists>original' bytes. Buffer_write_to_fp_normalized_addr m original target True = (m, original', Some bytes, True) \<and>
    stored_elements real_of m original' = stored_elements real_of m original \<and>
    (\<exists>m' mem_pool copy. Buffer_new_from_file other pool_addr new_memory (Some bytes) = (m', mem_pool, Some copy) \<and>
      stored_elements real_of m' copy = stored_elements real_of m original)"
proof -
  obtain original' bytes m' mem_pool copy f' where W: "Buffer_write_to_fp_normalized_addr m original target True = (m, original', Some bytes, True)"
      "buffer_in m0 original' n N L f m" "Buffer_new_from_file other pool_addr new_memory (Some bytes) = (m', mem_pool, Some copy)"
      "buffer_in other copy n n L f' m'" "same_words n L f f'"
    using words_through_file [OF assms(1,2,4-7), of other] by blast
  have "same_words n L f f" by (simp add: same_words_def)
  from stored_elements_map [OF same_lattice(1) [OF assms(1) W(2) this assms(3)], of real_of]
    stored_elements_map [OF same_lattice(1) [OF assms(1) W(4,5) assms(3)], of real_of]
  show ?thesis using W(1,3) by (simp add: stored_elements_def)
qed

end
