(* ===== verification/Lattice_Operations.thy ===== *)
theory Lattice_Operations
  imports Lattice_Storage Managed_Buffer_Clear
begin

section \<open>Operations on lattice buffers\<close>

text \<open>
  The operations that build a lattice as a step relation: adding elements, adding the elements of another lattice, and
  clearing. What the buffer holds is a list of elements that every step changes as its operation says; that the
  buffer is a well-formed lattice holding that list is an invariant.
\<close>

subsection \<open>Room\<close>

lemma buffer_counts:
  assumes "buffer_in m0 buffer n N L f m"
  shows "unat (Buffer_get_num_of_slots m buffer) = num_slots L" "unat (Buffer_get_num_of_objects m buffer) = num_objs L"
    "unat (Buffer_get_num_of_dataptrs m buffer) = num_ptrs L" "unat (Buffer_get_max_num_of_slots m buffer) = max_slots L - 2"
    "unat (Buffer_get_max_num_of_objects m buffer) = (max_objs L - 2) div 3" "unat (Buffer_get_max_num_of_dataptrs m buffer) = max_ptrs L - 2"
    "2 \<le> max_slots L" "2 \<le> max_objs L" "2 \<le> max_ptrs L"
proof -
  note B = buffer_inD [OF assms]
  have d: "header_at (bf_data_addr buffer) L f" "sections_ok n L f" "layout_ok n L" using B(2) by (simp_all add: describes_def)
  have place: "in_place m (bf_data_addr buffer) n L f m" by (rule in_place_within [OF B(1,3,4,5,6) d])
  note C = section_counts [OF place]
  have n: "8 * n < 2 ^ 64" using fits_mono [OF B(4,3)] by (simp add: fits_def)
  have w: "8 * max_slots L < 2 ^ 64" "2 \<le> max_slots L" "8 * max_objs L < 2 ^ 64" "2 \<le> max_objs L"
    "8 * max_ptrs L < 2 ^ 64" "2 \<le> max_ptrs L"
    using d(3) n by (simp_all add: layout_ok_def)
  have le: "num_slots L \<le> n" "num_objs L \<le> n" "num_ptrs L \<le> n" using layout_bounds [OF d(3)] by simp_all
  show "unat (Buffer_get_num_of_slots m buffer) = num_slots L" "unat (Buffer_get_num_of_objects m buffer) = num_objs L"
    "unat (Buffer_get_num_of_dataptrs m buffer) = num_ptrs L"
    using C(1-3) num_words [OF place] le B(9)
    by (simp_all add: Buffer_get_num_of_slots_def Buffer_get_num_of_objects_def Buffer_get_num_of_dataptrs_def
        Buffer_get_data_begin_addr_def Buffer_get_slot_size_def)
  note max = unat_max_entities [OF C(5) w(1,2)] unat_max_entities [OF C(6) w(3,4)] unat_max_entities [OF C(7) w(5,6)]
  have "8 * (max_objs L - 2) div 24 = (max_objs L - 2) div 3" by linarith
  then show "unat (Buffer_get_max_num_of_slots m buffer) = max_slots L - 2"
    "unat (Buffer_get_max_num_of_objects m buffer) = (max_objs L - 2) div 3"
    "unat (Buffer_get_max_num_of_dataptrs m buffer) = max_ptrs L - 2"
    using max B(9)
    by (simp_all add: Buffer_get_max_num_of_slots_def Buffer_get_max_num_of_objects_def Buffer_get_max_num_of_dataptrs_def
        Buffer_get_data_begin_addr_def Buffer_get_slot_size_def ManagedBuffer_get_section_entity_size_def
        ManagedBuffer_get_slot_based_length_def sizeof_Object_def sizeof_address_def)
qed (use assms in \<open>auto simp: buffer_in_def describes_def layout_ok_def\<close>)

text \<open>Room for structures of these shapes, as the numbers of the buffer tell.\<close>

definition has_room :: "mem \<Rightarrow> Buffer \<Rightarrow> struct_shape list \<Rightarrow> bool" where
  "has_room m buffer ss \<longleftrightarrow>
     unat (Buffer_get_num_of_slots m buffer) + sum_list (map (\<lambda>(w, attrs). w + attr_total attrs) ss) \<le> unat (Buffer_get_max_num_of_slots m buffer) \<and>
     unat (Buffer_get_num_of_objects m buffer) + length ss \<le> unat (Buffer_get_max_num_of_objects m buffer) \<and>
     unat (Buffer_get_num_of_dataptrs m buffer) + sum_list (map (\<lambda>(w, attrs). length attrs) ss) \<le> unat (Buffer_get_max_num_of_dataptrs m buffer)"

lemma has_room_iff: "buffer_in m0 buffer n N L f m \<Longrightarrow> has_room m buffer ss \<longleftrightarrow> room_for L ss"
  using buffer_counts [of m0 buffer n N L f m] by (auto simp: has_room_def room_for_def)

text \<open>C11: \<open>NS(Buffer_can_add_object)\<close> answers yes exactly if the slots, objects and data pointers of the buffer have
  room for the structure and its arrays.\<close>

theorem can_add_means_room:
  assumes "buffer_in m0 buffer n N L f m" "full_access buffer" "0 < w" "w + attr_total attrs < 2 ^ 60" "length attrs < 2 ^ 60"
  shows "fst (Buffer_can_add_object m buffer (8 * of_nat w) (map snd (map attr_bytes attrs))) = has_room m buffer [(w, attrs)]"
proof -
  note B = buffer_inD [OF assms(1)] and C = buffer_counts [OF assms(1)]
  have "layout_ok n L" "8 * n < 2 ^ 64" using B(2) fits_mono [OF B(4,3)] by (simp_all add: describes_def fits_def)
  then have small: "num_slots L < 2 ^ 61" "num_objs L < 2 ^ 61" "num_ptrs L < 2 ^ 61" using layout_bounds [of n L] by simp_all
  have "unat (8 * of_nat w :: u64) = 8 * w" using assms(4) by (intro unat_words) simp
  then have pos: "(8 * of_nat w :: u64) > 0" using assms(3) by (simp add: u64_less_nat)
  have slots: "Buffer_predict_required_num_slots buffer (8 * of_nat w) (map snd (map attr_bytes attrs)) = of_nat (w + attr_total attrs)"
    using predicted_slots [of w attrs] assms(3,4) B(9) by (simp add: Buffer_predict_required_num_slots_def Buffer_get_slot_size_def)
  have sums: "unat (Buffer_get_num_of_slots m buffer + of_nat (w + attr_total attrs)) = num_slots L + (w + attr_total attrs)"
    "unat (Buffer_get_num_of_objects m buffer + 1) = num_objs L + 1"
    "unat (Buffer_get_num_of_dataptrs m buffer + of_nat (length attrs)) = num_ptrs L + length attrs"
    using small assms(4,5) C(1-3) by (simp_all add: unat_u64_add unat_of_nat_u64 del: of_nat_add)
  show ?thesis
    using full_access_allows(5) [OF assms(2)] pos slots sums C(1-6)
    by (simp add: Buffer_can_add_object_def Let_def has_room_def u64_le_nat del: of_nat_add map_map)
qed

subsection \<open>Creating and clearing\<close>

lemma created_buffer:
  assumes "new_room pool_addr new_memory (16 + sl + 3 * os + ps + rs + 1)" "8 * capacity_words os sl ps rs + 8 < 2 ^ 64"
    and "flags AND BUFFER_DATASTORE_MEMPOOL = BUFFER_DATASTORE_MEMPOOL"
    and "Buffer_new_detailed m pool_addr new_memory (of_nat os) (of_nat sl) (of_nat ps) (of_nat rs) flags = (m', mem_pool, Some buffer)"
  shows "\<exists>n N L f. buffer_in m buffer n N L f m' \<and> full_access buffer \<and> num_objs L = 0 \<and> ranges_to L = []"
  using new_detailed_buffer [OF assms] by (fastforce simp: with_capacity_objs with_capacity_def split: if_splits)

lemma cleared_buffer:
  assumes "buffer_in m0 buffer n N L f m" "full_access buffer" "Buffer_clear m buffer zero = (m', buffer', status)"
  shows "\<exists>f'. buffer_in m buffer' n N (without_contents L) f' m' \<and> full_access buffer' \<and> bf_data_addr buffer' = bf_data_addr buffer"
proof -
  define b where "b = bf_data_addr buffer"
  note B = buffer_inD [OF assms(1), folded b_def]
  have self: "buf m b N f m" using B(1) by (simp add: buf_def)
  define g where "g = no_entities L (if zero then zeroed_contents L f else f)"
  have r: "m' = ManagedBuffer_clear m b zero 8" "buffer' = buffer\<lparr>bf_num_objects := 0\<rparr>"
    using assms(3) full_access_allows(1,4) [OF assms(2)] B(9)
    by (simp_all add: Buffer_clear_def Buffer_clear_generic_def Buffer_get_data_begin_addr_def Buffer_get_slot_size_def b_def)
  have words: "buf m b n g m'"
    unfolding g_def r by (rule clear_words [OF B(2) buf_part [OF self B(3)] fits_mono [OF B(4,3)] B(5,6)])
  define f' where "f' = (\<lambda>k. if k < n then g k else f k)"
  have "buf m b N f' m'" using buf_extend [OF self words B(3,4)] by (simp add: f'_def)
  moreover have "describes b n (without_contents L) f'"
    unfolding f'_def g_def by (rule describes_extend [OF cleared_describes [OF B(2)]])
  ultimately have "buffer_in m buffer' n N (without_contents L) f' m'"
    using B by (simp add: buffer_in_def b_def without_contents_def r(2))
  then show ?thesis using assms(2) by (auto simp: full_access_def r(2))
qed

subsection \<open>Adding\<close>

text \<open>An element whose structure is written to the stack first; its arrays lie outside the buffer and the stack.\<close>

definition stack_entry :: "mem \<Rightarrow> u64 \<times> u64 list \<Rightarrow> u64 \<times> struct_words" where
  "stack_entry m e = (case e of (type_id, ws) \<Rightarrow> let attrs = element_attrs type_id ws
     in (type_id, map (\<lambda>j. if j \<in> fst ` set attrs then 0 else ws ! j) [0..<length ws],
         map (\<lambda>(o', k). array_read m (ws ! o') k) attrs))"

definition arrays_apart :: "u64 \<Rightarrow> nat \<Rightarrow> u64 \<Rightarrow> u64 \<times> u64 list \<Rightarrow> bool" where
  "arrays_apart b N stack e \<longleftrightarrow> (case e of (type_id, ws) \<Rightarrow>
     \<forall>(o', k)\<in>set (element_attrs type_id ws). ws ! o' = 0 \<or> source_ok b N (ws ! o') k \<and> source_ok stack (length ws) (ws ! o') k)"

lemma add_element_from_stack:
  assumes "buffer_in m0 buffer n N L f m" "full_access buffer" "lattice_in L f m buffer" "b = bf_data_addr buffer"
    and "source_ok b N stack (length ws)" "length ws = element_width type_id" "ws \<noteq> []" "attrs = element_attrs type_id ws"
    and "\<forall>a\<in>set attrs. 0 < snd a" "arrays_apart b N stack (type_id, ws)" "has_room m buffer [(length ws, attrs)]"
  shows "\<exists>m1 m' buffer' L' f' a. add_from_stack m stack new_memory mem_pool buffer ws (8 * of_nat (length ws)) type_id (map attr_bytes attrs) =
      (m', mem_pool, buffer', a) \<and> a \<noteq> 0 \<and> buffer_in m1 buffer' n N L' f' m' \<and> full_access buffer' \<and> bf_data_addr buffer' = b \<and>
    lattice_in L' f' m' buffer' \<and> ranges_to L' = ranges_to L \<and>
    (\<forall>i. (i < unat b \<or> unat b + 8 * N \<le> i) \<and> (i < unat stack \<or> unat stack + 8 * length ws \<le> i) \<longrightarrow> m' i = m i) \<and>
    map (entry_object m') (buffer_entries buffer') = map (entry_object m) (buffer_entries buffer) @ [stack_entry m (type_id, ws)]"
proof -
  define m1 where "m1 = write_words m stack ws"
  have fits: "fits stack (length ws)" and away: "unat stack + 8 * length ws \<le> unat b \<or> unat b + 8 * N \<le> unat stack"
    using assms(5) by (simp_all add: source_ok_def)
  have st: "buf m stack (length ws) ((!) ws) m1" unfolding m1_def by (rule write_words [OF fits])
  have "m1 i = m i" if "unat (bf_data_addr buffer) \<le> i" "i < unat (bf_data_addr buffer) + 8 * N" for i
    using that away assms(4) by (intro buf_outside [OF st]) auto
  note R = lattice_rebase [OF assms(1,3) this]
  have read: "rd64 m1 (word_addr stack j) = ws ! j" if "j < length ws" for j by (rule buf_read [OF st that])
  have "words_at m1 stack (length ws) = map (\<lambda>j. ws ! j) [0..<length ws]"
    unfolding words_at_def by (intro map_cong refl) (simp add: read)
  then have words: "words_at m1 stack (length ws) = ws" by (simp only: map_nth)
  have less: "o' < length ws" if "(o', k) \<in> set attrs" for o' k
    using that element_attrs_fields(1) [of "(o', k)" type_id ws] unfolding assms(6,8) by simp
  have arrays: "ws ! o' = 0 \<or> source_ok b N (ws ! o') k \<and> source_ok stack (length ws) (ws ! o') k" if "(o', k) \<in> set attrs" for o' k
    using assms(10) that unfolding arrays_apart_def assms(8) by auto
  have "array_read m1 (rd64 m1 (word_addr stack o')) k = array_read m (ws ! o') k" if a: "(o', k) \<in> set attrs" for o' k
    using arrays [OF a] outside_words [OF st, of "ws ! o'" k] by (auto simp: array_read_def read [OF less [OF a]])
  then have "map (\<lambda>(o', k). array_read m1 (rd64 m1 (word_addr stack o')) k) attrs = map (\<lambda>(o', k). array_read m (ws ! o') k) attrs"
    by (intro map_cong refl) auto
  moreover have "map (\<lambda>j. if j \<in> fst ` set attrs then 0 else rd64 m1 (word_addr stack j)) [0..<length ws] =
      map (\<lambda>j. if j \<in> fst ` set attrs then 0 else ws ! j) [0..<length ws]"
    by (intro map_cong refl) (simp add: read)
  ultimately have entry: "(type_id, struct_at m1 stack (length ws, attrs)) = stack_entry m (type_id, ws)"
    unfolding struct_at_def stack_entry_def Let_def prod.case fst_conv snd_conv assms(8) [symmetric] by (simp only:)
  have lo: "layout_ok n L" using buffer_inD(2) [OF assms(1)] by (simp add: describes_def)
  have "room_for L [(length ws, attrs)]" using assms(11) by (simp add: has_room_iff [OF assms(1)])
  moreover have "0 < length ws" using assms(7) by simp
  moreover have "distinct (map fst attrs)" unfolding assms(8) by (rule element_attrs_fields(2))
  moreover have "\<forall>a\<in>set attrs. fst a < length ws \<and> 0 < snd a" using less assms(9) by auto
  ultimately have room: "addable n L (length ws) attrs" using lo by (simp add: addable_def room_for_def)
  have "rd64 m1 (word_addr stack o') = 0 \<or> source_ok b N (rd64 m1 (word_addr stack o')) k" if a: "(o', k) \<in> set attrs" for o' k
    unfolding read [OF less [OF a]] using arrays [OF a] by blast
  then have src: "\<forall>(o', k)\<in>set attrs. rd64 m1 (word_addr stack o') = 0 \<or> source_ok b N (rd64 m1 (word_addr stack o')) k"
    by blast
  have same: "attrs = element_attrs type_id (words_at m1 stack (length ws))" using assms(8) words by simp
  obtain m' buffer' f' where P: "place_object m1 new_memory mem_pool buffer stack (8 * of_nat (length ws)) type_id (map attr_bytes attrs) =
        (m', mem_pool, buffer', word_addr b (slots_end L))" "word_addr b (slots_end L) \<noteq> 0"
      "buffer_in m1 buffer' n N (added_layout L (length ws) attrs) f' m'" "full_access buffer'" "bf_data_addr buffer' = b"
      "lattice_in (added_layout L (length ws) attrs) f' m' buffer'"
      "map (entry_object m') (buffer_entries buffer') = map (entry_object m1) (buffer_entries buffer) @ [(type_id, struct_at m1 stack (length ws, attrs))]"
    using place_element [OF R(1) assms(2) R(2) assms(4) room assms(5,6) same src, of new_memory mem_pool] by blast
  have "m' i = m i" if "i < unat b \<or> unat b + 8 * N \<le> i" "i < unat stack \<or> unat stack + 8 * length ws \<le> i" for i
    using that buf_outside [OF buffer_inD(1) [OF P(3)], of i] buf_outside [OF st, of i] P(5) by simp
  moreover have "map (entry_object m') (buffer_entries buffer') = map (entry_object m) (buffer_entries buffer) @ [stack_entry m (type_id, ws)]"
    using P(7) R(3) entry by simp
  moreover have "ranges_to (added_layout L (length ws) attrs) = ranges_to L" by (simp add: added_layout_def)
  ultimately show ?thesis
    using P(1-6) unfolding add_from_stack_def m1_def [symmetric]
    by (intro exI [of _ m1] exI [of _ m'] exI [of _ buffer'] exI [of _ "added_layout L (length ws) attrs"] exI [of _ f']
        exI [of _ "word_addr b (slots_end L)"] conjI) simp_all
qed

subsection \<open>The operations\<close>

text \<open>Additions to a lattice: the operands that the functions are called with.\<close>

datatype lattice_op =
    Add_Drift real
  | Add_DriftExact real
  | Add_XYShift real real
  | Add_SRotation real real
  | Add_DipoleEdge real real
  | Add_Cavity real real real
  | Add_LimitRect real real real real
  | Add_LimitEllipse real real
  | Add_LimitRectEllipse real real real real
  | New_BeamMonitor
  | Add_Multipole int real real real u64
  | Add_RFMultipole int real real real u64 u64

text \<open>The structure on the stack holds what was there before.\<close>

definition run_op ::
    "(u64 \<Rightarrow> real) \<Rightarrow> (real \<Rightarrow> u64) \<Rightarrow> lattice_op \<Rightarrow> mem \<Rightarrow> u64 \<Rightarrow> u64 \<Rightarrow> MemPool \<Rightarrow> Buffer \<Rightarrow> mem \<times> MemPool \<times> Buffer \<times> u64" where
  "run_op real_of bits_of op m stack new_memory mem_pool buffer = (let ws = words_at m stack 8 in case op of
     Add_Drift len \<Rightarrow> Drift_add bits_of (Drift_of real_of ws) m stack new_memory mem_pool buffer len
   | Add_DriftExact len \<Rightarrow> DriftExact_add bits_of (DriftExact_of real_of ws) m stack new_memory mem_pool buffer len
   | Add_XYShift dx dy \<Rightarrow> XYShift_add bits_of (XYShift_of real_of ws) m stack new_memory mem_pool buffer dx dy
   | Add_SRotation c s \<Rightarrow> SRotation_add bits_of (SRotation_of real_of ws) m stack new_memory mem_pool buffer c s
   | Add_DipoleEdge r21 r43 \<Rightarrow> DipoleEdge_add bits_of (DipoleEdge_of real_of ws) m stack new_memory mem_pool buffer r21 r43
   | Add_Cavity v fr l \<Rightarrow> Cavity_add bits_of (Cavity_of real_of ws) m stack new_memory mem_pool buffer v fr l
   | Add_LimitRect x0 x1 y0 y1 \<Rightarrow> LimitRect_add bits_of (LimitRect_of real_of ws) m stack new_memory mem_pool buffer x0 x1 y0 y1
   | Add_LimitEllipse x y \<Rightarrow> LimitEllipse_add bits_of (LimitEllipse_of real_of ws) m stack new_memory mem_pool buffer x y
   | Add_LimitRectEllipse x y a b \<Rightarrow>
       LimitRectEllipse_add bits_of (LimitRectEllipse_of real_of ws) m stack new_memory mem_pool buffer x y a b
   | New_BeamMonitor \<Rightarrow> BeamMonitor_new bits_of (BeamMonitor_of real_of ws) m stack new_memory mem_pool buffer
   | Add_Multipole order len hxl hyl bal \<Rightarrow>
       Multipole_add bits_of (Multipole_of real_of ws None) m stack new_memory mem_pool buffer order len hxl hyl bal
   | Add_RFMultipole order v fr l bal phase \<Rightarrow>
       RFMultipole_add bits_of (RFMultipole_of real_of ws [] []) m stack new_memory mem_pool buffer order v fr l bal phase)"

text \<open>What the functions refuse.\<close>

fun accepted :: "lattice_op \<Rightarrow> bool" where
  "accepted (Add_LimitRectEllipse x y a b) \<longleftrightarrow> x \<ge> 0 \<and> y \<ge> 0 \<and> a \<ge> 0 \<and> b \<ge> 0"
| "accepted (Add_Multipole order len hxl hyl bal) \<longleftrightarrow> order \<ge> 0"
| "accepted (Add_RFMultipole order v fr l bal phase) \<longleftrightarrow> order \<ge> 0"
| "accepted _ \<longleftrightarrow> True"

text \<open>The numbers that are stored, the type and the words of the structure.\<close>

fun op_reals :: "lattice_op \<Rightarrow> real list" where
  "op_reals (Add_Drift len) = [len]"
| "op_reals (Add_DriftExact len) = [len]"
| "op_reals (Add_XYShift dx dy) = [dx, dy]"
| "op_reals (Add_SRotation c s) = [c, s]"
| "op_reals (Add_DipoleEdge r21 r43) = [r21, r43]"
| "op_reals (Add_Cavity v fr l) = [v, fr, l]"
| "op_reals (Add_LimitRect x0 x1 y0 y1) = [x0, x1, y0, y1]"
| "op_reals (Add_LimitEllipse x y) = [x * x, y * y, (x * x) * (y * y)]"
| "op_reals (Add_LimitRectEllipse x y a b) = [x, y, a, b, a * b]"
| "op_reals New_BeamMonitor = []"
| "op_reals (Add_Multipole order len hxl hyl bal) = [len, hxl, hyl]"
| "op_reals (Add_RFMultipole order v fr l bal phase) = [v, fr, l]"

fun op_struct :: "(real \<Rightarrow> u64) \<Rightarrow> lattice_op \<Rightarrow> u64 \<times> u64 list" where
  "op_struct bits_of (Add_Multipole order len hxl hyl bal) =
     (OBJECT_TYPE_MULTIPOLE, [of_int order, bits_of len, bits_of hxl, bits_of hyl, bal])"
| "op_struct bits_of (Add_RFMultipole order v fr l bal phase) =
     (OBJECT_TYPE_RF_MULTIPOLE, [of_int order, bits_of v, bits_of fr, bits_of l, bal, phase])"
| "op_struct bits_of New_BeamMonitor = (OBJECT_TYPE_BEAM_MONITOR, [0, 0, 1, 0, - 1, - 1, 0, 1])"
| "op_struct bits_of op = (case op of
     Add_Drift len \<Rightarrow> OBJECT_TYPE_DRIFT
   | Add_DriftExact len \<Rightarrow> OBJECT_TYPE_DRIFT_EXACT
   | Add_XYShift dx dy \<Rightarrow> OBJECT_TYPE_XYSHIFT
   | Add_SRotation c s \<Rightarrow> OBJECT_TYPE_SROTATION
   | Add_DipoleEdge r21 r43 \<Rightarrow> OBJECT_TYPE_DIPEDGE
   | Add_Cavity v fr l \<Rightarrow> OBJECT_TYPE_CAVITY
   | Add_LimitRect x0 x1 y0 y1 \<Rightarrow> OBJECT_TYPE_LIMIT_RECT
   | Add_LimitEllipse x y \<Rightarrow> OBJECT_TYPE_LIMIT_ELLIPSE
   | _ \<Rightarrow> OBJECT_TYPE_LIMIT_RECT_ELLIPSE, map bits_of (op_reals op))"

text \<open>The element that an operation is to add.\<close>

fun op_element :: "(u64 \<Rightarrow> real) \<Rightarrow> mem \<Rightarrow> lattice_op \<Rightarrow> beam_element" where
  "op_element real_of m (Add_Drift len) = BE_Drift \<lparr>Drift_length = len\<rparr>"
| "op_element real_of m (Add_DriftExact len) = BE_DriftExact \<lparr>DriftExact_length = len\<rparr>"
| "op_element real_of m (Add_XYShift dx dy) = BE_XYShift \<lparr>XYShift_dx = dx, XYShift_dy = dy\<rparr>"
| "op_element real_of m (Add_SRotation c s) = BE_SRotation \<lparr>SRotation_cos_angle = c, SRotation_sin_angle = s\<rparr>"
| "op_element real_of m (Add_DipoleEdge r21 r43) = BE_DipoleEdge \<lparr>DipoleEdge_r21 = r21, DipoleEdge_r43 = r43\<rparr>"
| "op_element real_of m (Add_Cavity v fr l) = BE_Cavity \<lparr>Cavity_voltage = v, Cavity_frequency = fr, Cavity_lag = l\<rparr>"
| "op_element real_of m (Add_LimitRect x0 x1 y0 y1) =
     BE_LimitRect \<lparr>LimitRect_min_x = x0, LimitRect_max_x = x1, LimitRect_min_y = y0, LimitRect_max_y = y1\<rparr>"
| "op_element real_of m (Add_LimitEllipse x y) = BE_LimitEllipse
     \<lparr>LimitEllipse_x_half_axis_squ = x * x, LimitEllipse_y_half_axis_squ = y * y, LimitEllipse_half_axes_product_squ = (x * x) * (y * y)\<rparr>"
| "op_element real_of m (Add_LimitRectEllipse x y a b) = BE_LimitRectEllipse
     \<lparr>LimitRectEllipse_max_x = x, LimitRectEllipse_max_y = y, LimitRectEllipse_a_squ = a, LimitRectEllipse_b_squ = b,
      LimitRectEllipse_a_squ_b_squ = a * b\<rparr>"
| "op_element real_of m New_BeamMonitor = BE_BeamMonitor
     \<lparr>BeamMonitor_num_stores = 0, BeamMonitor_start = 0, BeamMonitor_skip = 1, BeamMonitor_out_address = 0,
      BeamMonitor_max_particle_id = - 1, BeamMonitor_min_particle_id = - 1, BeamMonitor_is_rolling_flag = 0,
      BeamMonitor_is_turn_ordered_flag = 1\<rparr>"
| "op_element real_of m (Add_Multipole order len hxl hyl bal) = BE_Multipole
     \<lparr>Multipole_order = order, Multipole_length = len, Multipole_hxl = hxl, Multipole_hyl = hyl,
      Multipole_bal_values = Some (map real_of (array_read m bal (nat (2 * order + 2))))\<rparr>"
| "op_element real_of m (Add_RFMultipole order v fr l bal phase) = BE_RFMultipole
     \<lparr>RFMultipole_order = order, RFMultipole_voltage = v, RFMultipole_frequency = fr, RFMultipole_lag = l,
      RFMultipole_bal_values = map real_of (array_read m bal (nat (2 * order + 2))),
      RFMultipole_phase_values = map real_of (array_read m phase (nat (2 * order + 2)))\<rparr>"

text \<open>The operands are numbers that the fields can hold.\<close>

definition in_fields :: "(u64 \<Rightarrow> real) \<Rightarrow> (real \<Rightarrow> u64) \<Rightarrow> lattice_op \<Rightarrow> bool" where
  "in_fields real_of bits_of op \<longleftrightarrow> (\<forall>x\<in>set (op_reals op). real_of (bits_of x) = x) \<and>
     (case op of Add_Multipole order len hxl hyl bal \<Rightarrow> order < 2 ^ 60
      | Add_RFMultipole order v fr l bal phase \<Rightarrow> order < 2 ^ 60
      | _ \<Rightarrow> True)"

lemma run_op_refused: "\<not> accepted op \<Longrightarrow> run_op real_of bits_of op m stack new_memory mem_pool buffer = (m, mem_pool, buffer, 0)"
  by (cases op) (auto simp: run_op_def LimitRectEllipse_add_def Multipole_add_def RFMultipole_add_def Let_def split: prod.splits)

lemma op_width: "length (snd (op_struct bits_of op)) = element_width (fst (op_struct bits_of op))" "snd (op_struct bits_of op) \<noteq> []"
  by (cases op; simp add: element_width_def element_types)+

lemma op_attrs:
  "element_attrs (fst (op_struct bits_of op)) (snd (op_struct bits_of op)) = (case op of
     Add_Multipole order len hxl hyl bal \<Rightarrow> [(4, nat (2 * sint (of_int order :: u64) + 2))]
   | Add_RFMultipole order v fr l bal phase \<Rightarrow>
       [(4, nat (2 * sint (of_int order :: u64) + 2)), (5, nat (2 * sint (of_int order :: u64) + 2))]
   | _ \<Rightarrow> [])"
  by (cases op) (simp_all add: element_attrs_def element_types)

lemma small_order: "0 \<le> order \<Longrightarrow> order < 2 ^ 60 \<Longrightarrow> sint (of_int order :: u64) = order"
  by (simp add: int_word_sint)

lemmas setters = Drift_set_length_def DriftExact_set_length_def XYShift_set_dx_def XYShift_set_dy_def
  SRotation_set_cos_angle_def SRotation_set_sin_angle_def DipoleEdge_set_r21_def DipoleEdge_set_r43_def
  Cavity_set_voltage_def Cavity_set_frequency_def Cavity_set_lag_def
  LimitRect_set_min_x_def LimitRect_set_max_x_def LimitRect_set_min_y_def LimitRect_set_max_y_def
  LimitEllipse_set_half_axes_def LimitEllipse_set_half_axes_squ_def
  LimitRectEllipse_set_max_x_def LimitRectEllipse_set_max_y_def LimitRectEllipse_set_a_squ_def LimitRectEllipse_set_b_squ_def
  LimitRectEllipse_set_a_squ_b_squ_def

lemmas monitor_setters = BeamMonitor_set_num_stores_def BeamMonitor_set_start_def BeamMonitor_set_skip_def
  BeamMonitor_set_is_rolling_def BeamMonitor_set_is_turn_ordered_def BeamMonitor_set_out_address_def
  BeamMonitor_set_min_particle_id_def BeamMonitor_set_max_particle_id_def BeamMonitor_clear_def

lemmas multipole_setters = Multipole_clear_def Multipole_set_length_def Multipole_set_hxl_def Multipole_set_hyl_def
  Multipole_set_order_def Multipole_set_bal_addr_def RFMultipole_clear_def RFMultipole_set_order_def RFMultipole_set_voltage_def
  RFMultipole_set_frequency_def RFMultipole_set_lag_def RFMultipole_set_bal_addr_def RFMultipole_set_phase_addr_def

lemma cleared_multipole_tables:
  "Multipole_order e \<ge> 0 \<Longrightarrow> Multipole_tables e 8 = (map attr_bytes [(4, nat (2 * Multipole_order e + 2))], 0)"
  using order_words [of "Multipole_order e"]
  by (simp add: Multipole_tables_def Multipole_attributes_offsets_def Multipole_attributes_sizes_def Multipole_attributes_counts_def
      Multipole_bal_length_def)

lemma cleared_rf_multipole_tables:
  "RFMultipole_order e \<ge> 0 \<Longrightarrow> RFMultipole_tables e 8 = (map attr_bytes [(4, nat (2 * RFMultipole_order e + 2)), (5, nat (2 * RFMultipole_order e + 2))], 0)"
  using order_words [of "RFMultipole_order e"]
  by (simp add: RFMultipole_tables_def RFMultipole_attributes_offsets_def RFMultipole_attributes_sizes_def
      RFMultipole_attributes_counts_def RFMultipole_bal_length_def RFMultipole_phase_length_def RFMultipole_num_dataptrs_def)

lemma run_op_accepted:
  assumes "accepted op" "in_fields real_of bits_of op" "bf_slot_length buffer = 8" "op_struct bits_of op = (type_id, ws)"
  shows "run_op real_of bits_of op m stack new_memory mem_pool buffer =
    add_from_stack m stack new_memory mem_pool buffer ws (8 * of_nat (length ws)) type_id (map attr_bytes (element_attrs type_id ws))"
proof (cases op)
  case (Add_LimitEllipse x y)
  then show ?thesis
    using assms by (auto simp: run_op_def Let_def LimitEllipse_add_def setters element_dataptrs element_sizes element_type_ids
        LimitEllipse_words_def element_attrs_def element_types)
next
  case New_BeamMonitor
  then show ?thesis
    using assms by (auto simp: run_op_def Let_def BeamMonitor_new_def monitor_setters element_dataptrs element_sizes element_type_ids
        BeamMonitor_words_def element_attrs_def element_types)
next
  case (Add_Multipole order len hxl hyl bal)
  then have "sint (of_int order :: u64) = order" "order \<ge> 0" using assms(1,2) by (simp_all add: in_fields_def small_order)
  then show ?thesis
    using assms Add_Multipole by (auto simp: run_op_def Let_def Multipole_add_def multipole_setters element_dataptrs element_sizes
        element_type_ids Multipole_words_def element_attrs_def element_types Buffer_get_slot_size_def cleared_multipole_tables)
next
  case (Add_RFMultipole order v fr l bal phase)
  then have "sint (of_int order :: u64) = order" "order \<ge> 0" using assms(1,2) by (simp_all add: in_fields_def small_order)
  then show ?thesis
    using assms Add_RFMultipole by (auto simp: run_op_def Let_def RFMultipole_add_def multipole_setters element_dataptrs element_sizes
        element_type_ids RFMultipole_words_def element_attrs_def element_types Buffer_get_slot_size_def cleared_rf_multipole_tables)
qed (use assms in \<open>auto simp: run_op_def Let_def Drift_add_def DriftExact_add_def XYShift_add_def SRotation_add_def
    DipoleEdge_add_def Cavity_add_def LimitRect_add_def LimitRectEllipse_add_def setters element_dataptrs element_sizes
    element_type_ids Drift_words_def DriftExact_words_def XYShift_words_def SRotation_words_def DipoleEdge_words_def
    Cavity_words_def LimitRect_words_def LimitRectEllipse_words_def element_attrs_def element_types\<close>)

lemma op_entry:
  assumes "accepted op" "in_fields real_of bits_of op"
  shows "element_of real_of (stack_entry m (op_struct bits_of op)) = Some (op_element real_of m op)"
proof (cases op)
  case (Add_Multipole order len hxl hyl bal)
  then have "sint (of_int order :: u64) = order" using assms by (simp add: in_fields_def small_order)
  then show ?thesis
    using assms Add_Multipole by (simp add: stack_entry_def element_attrs_def element_of_def element_types Multipole_of_def in_fields_def
        upt_conv_Cons)
next
  case (Add_RFMultipole order v fr l bal phase)
  then have "sint (of_int order :: u64) = order" using assms by (simp add: in_fields_def small_order)
  then show ?thesis
    using assms Add_RFMultipole by (simp add: stack_entry_def element_attrs_def element_of_def element_types RFMultipole_of_def
        in_fields_def upt_conv_Cons)
qed (use assms in \<open>simp_all add: stack_entry_def element_attrs_def element_of_def element_types in_fields_def upt_conv_Cons
    Drift_of_def DriftExact_of_def XYShift_of_def SRotation_of_def DipoleEdge_of_def Cavity_of_def LimitRect_of_def
    LimitEllipse_of_def LimitRectEllipse_of_def BeamMonitor_of_def\<close>)

end
