(* ===== verification/Lattice_Runs.thy ===== *)
theory Lattice_Runs
  imports Lattice_Operations
begin

section \<open>Lattices that programs can build\<close>

text \<open>
  \<open>lattice_run real_of bits_of m buffer es\<close>: in the memory \<open>m\<close> the buffer has been created and filled by any sequence of
  the operations - adding elements, copying another lattice behind the elements that are there, clearing - with any
  changes of the memory outside the buffer in between, and the operations were to leave the elements \<open>es\<close>.
\<close>

definition inside :: "Buffer \<Rightarrow> nat \<Rightarrow> bool" where
  "inside buffer i \<longleftrightarrow> unat (bf_data_addr buffer) \<le> i \<and> i < unat (bf_data_addr buffer) + unat (bf_data_capacity buffer)"

abbreviation words_of :: "Buffer \<Rightarrow> nat" where
  "words_of buffer \<equiv> unat (bf_data_capacity buffer) div 8"

inductive lattice_run :: "(u64 \<Rightarrow> real) \<Rightarrow> (real \<Rightarrow> u64) \<Rightarrow> mem \<Rightarrow> Buffer \<Rightarrow> beam_element list \<Rightarrow> bool"
  for real_of bits_of where
  created: "new_room pool_addr new_memory (16 + sl + 3 * os + ps + rs + 1) \<Longrightarrow> 8 * capacity_words os sl ps rs + 8 < 2 ^ 64 \<Longrightarrow>
    flags AND BUFFER_DATASTORE_MEMPOOL = BUFFER_DATASTORE_MEMPOOL \<Longrightarrow>
    Buffer_new_detailed m pool_addr new_memory (of_nat os) (of_nat sl) (of_nat ps) (of_nat rs) flags = (m', mem_pool, Some buffer) \<Longrightarrow>
    lattice_run real_of bits_of m' buffer []"
| elsewhere: "lattice_run real_of bits_of m buffer es \<Longrightarrow> (\<And>i. inside buffer i \<Longrightarrow> m' i = m i) \<Longrightarrow>
    lattice_run real_of bits_of m' buffer es"
| added: "lattice_run real_of bits_of m buffer es \<Longrightarrow> accepted op \<Longrightarrow> in_fields real_of bits_of op \<Longrightarrow>
    op_struct bits_of op = (type_id, ws) \<Longrightarrow> source_ok (bf_data_addr buffer) (words_of buffer) stack (length ws) \<Longrightarrow>
    arrays_apart (bf_data_addr buffer) (words_of buffer) stack (type_id, ws) \<Longrightarrow>
    has_room m buffer [(length ws, element_attrs type_id ws)] \<Longrightarrow>
    run_op real_of bits_of op m stack new_memory mem_pool buffer = (m', mem_pool', buffer', a) \<Longrightarrow>
    lattice_run real_of bits_of m' buffer' (es @ [op_element real_of m op])"
| refused: "lattice_run real_of bits_of m buffer es \<Longrightarrow> \<not> accepted op \<Longrightarrow>
    run_op real_of bits_of op m stack new_memory mem_pool buffer = (m', mem_pool', buffer', a) \<Longrightarrow>
    lattice_run real_of bits_of m' buffer' es"
| copied: "lattice_run real_of bits_of m buffer es \<Longrightarrow> lattice_run real_of bits_of m source es' \<Longrightarrow>
    apart (bf_data_addr buffer) (words_of buffer) source (words_of source) \<Longrightarrow>
    has_room m buffer (map (entry_shape m) (buffer_entries source)) \<Longrightarrow> es' \<noteq> [] \<Longrightarrow>
    BeamElements_copy_to_buffer m news mem_pool buffer
      (Buffer_get_objects_begin_addr source) (Buffer_get_objects_end_addr source) = (m', mem_pool', buffer', status) \<Longrightarrow>
    lattice_run real_of bits_of m' buffer' (es @ es')"
| cleared: "lattice_run real_of bits_of m buffer es \<Longrightarrow> Buffer_clear m buffer zero = (m', buffer', status) \<Longrightarrow>
    lattice_run real_of bits_of m' buffer' []"

subsection \<open>The invariant\<close>

definition object_ok :: "u64 \<times> struct_words \<Rightarrow> bool" where
  "object_ok ob \<longleftrightarrow> fst ob \<in> copied_types \<and> [] \<notin> set (snd (snd ob))"

definition well_formed :: "(u64 \<Rightarrow> real) \<Rightarrow> mem \<Rightarrow> Buffer \<Rightarrow> beam_element list \<Rightarrow> bool" where
  "well_formed real_of m buffer es \<longleftrightarrow> (\<exists>m0 n N L f. buffer_in m0 buffer n N L f m \<and> full_access buffer \<and> lattice_in L f m buffer \<and>
     ranges_to L = [] \<and> (\<forall>it\<in>set (buffer_entries buffer). object_ok (entry_object m it)) \<and> stored_elements real_of m buffer = map Some es)"

lemma capacity: "buffer_in m0 buffer n N L f m \<Longrightarrow> unat (bf_data_capacity buffer) = 8 * N"
  using buffer_inD(4,8) [of m0 buffer n N L f m] unat_words [of N] by (simp add: fits_def)

lemma no_entries:
  assumes "buffer_in m0 buffer n N L f m" "num_objs L = 0"
  shows "buffer_entries buffer = []" "lattice_in L f m buffer"
proof -
  show e: "buffer_entries buffer = []" using entries [OF assms(1) refl] assms(2) by simp
  show "lattice_in L f m buffer" using e assms(2) by (simp add: lattice_in_def catalogue_def objects_in_def)
qed

lemma well_formed_empty:
  assumes "buffer_in m0 buffer n N L f m" "full_access buffer" "num_objs L = 0" "ranges_to L = []"
  shows "well_formed real_of m buffer []"
  using no_entries [OF assms(1,3)] assms(1,2,4) by (fastforce simp: well_formed_def stored_elements_def)

text \<open>The lists of the objects before and after.\<close>

lemma well_formed_objects:
  assumes "buffer_in m1 buffer' n N L f m'" "full_access buffer'" "lattice_in L f m' buffer'"
    and "map (entry_object m') (buffer_entries buffer') = obs" "\<forall>ob\<in>set obs. object_ok ob" "map (element_of real_of) obs = map Some es"
    and "ranges_to L = []"
  shows "well_formed real_of m' buffer' es"
proof -
  have "object_ok (entry_object m' it)" if "it \<in> set (buffer_entries buffer')" for it
    using that assms(4,5) by (metis image_eqI list.set_map)
  moreover have "stored_elements real_of m' buffer' = map Some es"
    using stored_elements_map [OF assms(4)] assms(6) by simp
  ultimately show ?thesis using assms(1-3,7) unfolding well_formed_def by blast
qed

lemma well_formedE:
  assumes "well_formed real_of m buffer es"
  obtains m0 n N L f obs where "buffer_in m0 buffer n N L f m" "full_access buffer" "lattice_in L f m buffer"
    "map (entry_object m) (buffer_entries buffer) = obs" "\<forall>ob\<in>set obs. object_ok ob" "map (element_of real_of) obs = map Some es"
    "words_of buffer = N" "ranges_to L = []"
proof -
  obtain m0 n N L f where B: "buffer_in m0 buffer n N L f m" "full_access buffer" "lattice_in L f m buffer"
      "\<forall>it\<in>set (buffer_entries buffer). object_ok (entry_object m it)" "stored_elements real_of m buffer = map Some es"
      "ranges_to L = []"
    using assms unfolding well_formed_def by blast
  show thesis
    by (rule that [OF B(1-3) refl]) (use B(4-6) capacity [OF B(1)] in \<open>simp_all add: stored_elements_def comp_def\<close>)
qed

lemma entry_arrays: "snd (snd (entry_object m it)) = map (\<lambda>(o', k). array_read m (rd64 m (word_addr (Object_get_begin_addr m it) o')) k) (snd (entry_shape m it))"
  by (simp add: entry_object_def struct_at_def)

lemma array_read_length: "length (array_read m a k) = k"
  by (simp add: array_read_def)

lemma entry_ok:
  assumes "object_ok (entry_object m it)"
  shows "Object_get_type_id m it \<in> copied_types" "\<forall>a\<in>set (snd (entry_shape m it)). 0 < snd a"
proof -
  show "Object_get_type_id m it \<in> copied_types" using assms by (simp add: object_ok_def entry_object_def)
  have "0 < k" if "(o', k) \<in> set (snd (entry_shape m it))" for o' k
  proof -
    define a where "a = rd64 m (word_addr (Object_get_begin_addr m it) o')"
    have "array_read m a k \<in> set (snd (snd (entry_object m it)))"
      using that by (force simp: entry_arrays a_def)
    then have "array_read m a k \<noteq> []" using assms by (auto simp: object_ok_def)
    then show ?thesis using array_read_length [of m a k] by (cases k) auto
  qed
  then show "\<forall>a\<in>set (snd (entry_shape m it)). 0 < snd a" by auto
qed


lemma well_formed_elsewhere:
  assumes "well_formed real_of m buffer es" "\<And>i. inside buffer i \<Longrightarrow> m' i = m i"
  shows "well_formed real_of m' buffer es"
proof -
  obtain m0 n N L f obs where B: "buffer_in m0 buffer n N L f m" "full_access buffer" "lattice_in L f m buffer"
      "map (entry_object m) (buffer_entries buffer) = obs" "\<forall>ob\<in>set obs. object_ok ob" "map (element_of real_of) obs = map Some es"
      "ranges_to L = []"
    using assms(1) by (rule well_formedE)
  have "m' i = m i" if "unat (bf_data_addr buffer) \<le> i" "i < unat (bf_data_addr buffer) + 8 * N" for i
    using assms(2) [of i] that by (simp add: inside_def capacity [OF B(1)])
  note R = lattice_rebase [OF B(1,3) this]
  show ?thesis by (rule well_formed_objects [OF R(1) B(2) R(2) R(3) [unfolded B(4)] B(5-7)])
qed

lemma op_type: "fst (op_struct bits_of op) \<in> copied_types"
  by (cases op) (simp_all add: copied_types_def)

lemma op_arrays:
  assumes "accepted op" "in_fields real_of bits_of op"
  shows "\<forall>a\<in>set (element_attrs (fst (op_struct bits_of op)) (snd (op_struct bits_of op))). 0 < snd a"
  unfolding op_attrs using assms by (auto simp: in_fields_def small_order split: lattice_op.splits)

lemma stack_entry_ok:
  assumes "type_id \<in> copied_types" "\<forall>a\<in>set (element_attrs type_id ws). 0 < snd a"
  shows "object_ok (stack_entry m (type_id, ws))"
proof -
  have "[] \<noteq> array_read m (ws ! o') k" if "(o', k) \<in> set (element_attrs type_id ws)" for o' k
    using assms(2) that array_read_length [of m "ws ! o'" k] by (cases "array_read m (ws ! o') k") auto
  then show ?thesis using assms(1) by (auto simp: object_ok_def stack_entry_def Let_def)
qed

lemma well_formed_added:
  assumes "well_formed real_of m buffer es" "accepted op" "in_fields real_of bits_of op"
    and "op_struct bits_of op = (type_id, ws)" "source_ok (bf_data_addr buffer) (words_of buffer) stack (length ws)"
    and "arrays_apart (bf_data_addr buffer) (words_of buffer) stack (type_id, ws)"
    and "has_room m buffer [(length ws, element_attrs type_id ws)]"
    and "run_op real_of bits_of op m stack new_memory mem_pool buffer = (m', mem_pool', buffer', a)"
  shows "well_formed real_of m' buffer' (es @ [op_element real_of m op])"
proof -
  obtain m0 n N L f obs where B: "buffer_in m0 buffer n N L f m" "full_access buffer" "lattice_in L f m buffer"
      "map (entry_object m) (buffer_entries buffer) = obs" "\<forall>ob\<in>set obs. object_ok ob" "map (element_of real_of) obs = map Some es"
      "words_of buffer = N" "ranges_to L = []"
    using assms(1) by (rule well_formedE)
  have ws: "length ws = element_width type_id" "ws \<noteq> []" "type_id \<in> copied_types" "\<forall>a\<in>set (element_attrs type_id ws). 0 < snd a"
    using op_width [of bits_of op] op_type [of bits_of op] op_arrays [OF assms(2,3)] assms(4) by simp_all
  have run: "add_from_stack m stack new_memory mem_pool buffer ws (8 * of_nat (length ws)) type_id
      (map attr_bytes (element_attrs type_id ws)) = (m', mem_pool', buffer', a)"
    using run_op_accepted [OF assms(2,3) buffer_inD(9) [OF B(1)] assms(4)] assms(8) by simp
  obtain m1 L' f' where A: "buffer_in m1 buffer' n N L' f' m'" "full_access buffer'" "lattice_in L' f' m' buffer'" "ranges_to L' = ranges_to L"
      "map (entry_object m') (buffer_entries buffer') = map (entry_object m) (buffer_entries buffer) @ [stack_entry m (type_id, ws)]"
    using add_element_from_stack [OF B(1-3) refl assms(5) [unfolded B(7)] ws(1,2) refl ws(4) assms(6) [unfolded B(7)] assms(7),
        of new_memory mem_pool] unfolding run by blast
  have "map (element_of real_of) (obs @ [stack_entry m (type_id, ws)]) = map Some (es @ [op_element real_of m op])"
    using B(6) op_entry [OF assms(2,3), of m] assms(4) by simp
  moreover have "\<forall>ob\<in>set (obs @ [stack_entry m (type_id, ws)]). object_ok ob" using B(5) stack_entry_ok [OF ws(3,4)] by simp
  ultimately show ?thesis using well_formed_objects [OF A(1-3) A(5) [unfolded B(4)]] A(4) B(8) by simp
qed

lemma well_formed_copied:
  assumes "well_formed real_of m buffer es" "well_formed real_of m source es'"
    and "apart (bf_data_addr buffer) (words_of buffer) source (words_of source)"
    and "has_room m buffer (map (entry_shape m) (buffer_entries source))" "es' \<noteq> []"
    and "BeamElements_copy_to_buffer m news mem_pool buffer
      (Buffer_get_objects_begin_addr source) (Buffer_get_objects_end_addr source) = (m', mem_pool', buffer', status)"
  shows "well_formed real_of m' buffer' (es @ es')" "status = 0"
proof -
  obtain m0 n N L f obs where B: "buffer_in m0 buffer n N L f m" "full_access buffer" "lattice_in L f m buffer"
      "map (entry_object m) (buffer_entries buffer) = obs" "\<forall>ob\<in>set obs. object_ok ob" "map (element_of real_of) obs = map Some es"
      "words_of buffer = N" "ranges_to L = []"
    using assms(1) by (rule well_formedE)
  obtain m1 n1 N1 L1 f1 obs' where S: "buffer_in m1 source n1 N1 L1 f1 m" "full_access source" "lattice_in L1 f1 m source"
      "map (entry_object m) (buffer_entries source) = obs'" "\<forall>ob\<in>set obs'. object_ok ob" "map (element_of real_of) obs' = map Some es'"
      "words_of source = N1"
    using assms(2) by (rule well_formedE)
  have "object_ok (entry_object m it)" if "it \<in> set (buffer_entries source)" for it using S(4,5) that by auto
  note ok = entry_ok [OF this]
  have out: "\<forall>it\<in>set (buffer_entries source). entry_outside (bf_data_addr buffer) N m it \<and> Object_get_type_id m it \<in> copied_types"
    using entries_outside [OF S(1,3) assms(3) [unfolded B(7) S(7)]] ok copied_width by blast
  have room: "room_for L (map (entry_shape m) (buffer_entries source))" using assms(4) has_room_iff [OF B(1)] by blast
  obtain m2 buffer2 L' f' where C: "copy_entries m news mem_pool buffer (buffer_entries source) 0 = (m2, mem_pool, buffer2, 0)"
      "buffer_in m buffer2 n N L' f' m2" "full_access buffer2" "lattice_in L' f' m2 buffer2" "ranges_to L' = ranges_to L"
      "map (entry_object m2) (buffer_entries buffer2) = map (entry_object m) (buffer_entries buffer) @ map (entry_object m) (buffer_entries source)"
    using copy_entries_append [OF B(1-3) refl out, of "[]" news mem_pool] room by auto
  have "buffer_entries source \<noteq> []" using S(4,6) assms(5) by auto
  then have r: "m' = m2" "buffer' = buffer2" "status = 0"
    using assms(6) C(1) range_of_entries [OF S(1)] by (simp_all add: BeamElements_copy_to_buffer_def)
  have "map (element_of real_of) (obs @ obs') = map Some (es @ es')" using B(6) S(6) by simp
  moreover have "\<forall>ob\<in>set (obs @ obs'). object_ok ob" using B(5) S(5) by auto
  ultimately show "well_formed real_of m' buffer' (es @ es')"
    using well_formed_objects [OF C(2-4) C(6) [unfolded B(4) S(4)]] r C(5) B(8) by simp
  show "status = 0" by (rule r(3))
qed

lemma run_well_formed: "lattice_run real_of bits_of m buffer es \<Longrightarrow> well_formed real_of m buffer es"
proof (induction rule: lattice_run.induct)
  case created
  from created_buffer [OF created] show ?case using well_formed_empty by blast
next
  case (elsewhere m buffer es m')
  show ?case by (rule well_formed_elsewhere [OF elsewhere(3,2)])
next
  case added
  show ?case by (rule well_formed_added [OF added.IH added.hyps(2-)])
next
  case (refused m buffer es op stack new_memory mem_pool m' mem_pool' buffer' a)
  then show ?case by (simp add: run_op_refused)
next
  case copied
  show ?case by (rule well_formed_copied(1) [OF copied.IH copied.hyps(3-)])
next
  case (cleared m buffer es zero m' buffer' status)
  obtain m0 n N L f where B: "buffer_in m0 buffer n N L f m" "full_access buffer" "ranges_to L = []"
    using cleared.IH by (rule well_formedE)
  obtain f' where "buffer_in m buffer' n N (without_contents L) f' m'" "full_access buffer'"
    using cleared_buffer [OF B(1,2) cleared.hyps(2)] by blast
  then show ?case by (rule well_formed_empty) (simp_all add: without_contents_def B(3))
qed

lemma managed_range:
  assumes "buffer_in m0 buffer n N L f m" "b = bf_data_addr buffer"
  shows "ManagedBuffer_get_const_objects_index_begin m b 8 = word_addr b (at_objs L + 2)"
    "ManagedBuffer_get_const_objects_index_end m b 8 = word_addr b (at_objs L + 2 + 3 * num_objs L)"
    "word_addr b (at_objs L + 2) \<noteq> 0" "word_addr b (at_objs L + 2 + 3 * num_objs L) \<noteq> 0"
    "word_addr b (at_objs L + 2) \<le> word_addr b (at_objs L + 2 + 3 * num_objs L)"
    "index_entries (word_addr b (at_objs L + 2)) (word_addr b (at_objs L + 2 + 3 * num_objs L)) = buffer_entries buffer"
proof -
  note B = buffer_inD [OF assms(1), folded assms(2)]
  have d: "header_at b L f" "sections_ok n L f" "layout_ok n L" using B(2) by (simp_all add: describes_def)
  have place: "in_place m b n L f m" using in_place_within [OF B(1,3,4,5,6) d] .
  have less: "at_objs L + 2 + 3 * num_objs L < N" using layout_bounds [OF d(3)] B(3) by simp
  note o = object_begin [OF B(1,4,3,2)]
  show "ManagedBuffer_get_const_objects_index_begin m b 8 = word_addr b (at_objs L + 2)" by (rule o(1))
  show "ManagedBuffer_get_const_objects_index_end m b 8 = word_addr b (at_objs L + 2 + 3 * num_objs L)"
    using o(2) section_counts(2) [OF place]
    by (simp add: ManagedBuffer_get_const_objects_index_end_def ManagedBuffer_get_ptr_to_section_data_def sizeof_Object_def word_addr_def
        algebra_simps)
  show "word_addr b (at_objs L + 2) \<noteq> 0" "word_addr b (at_objs L + 2 + 3 * num_objs L) \<noteq> 0"
    using less by (intro addr_neq_0 [OF B(4)]; simp)+
  show "word_addr b (at_objs L + 2) \<le> word_addr b (at_objs L + 2 + 3 * num_objs L)"
    using less unat_addr [OF B(4), of "at_objs L + 2"] unat_addr [OF B(4), of "at_objs L + 2 + 3 * num_objs L"]
    by (simp add: u64_le_nat)
  have "word_addr b (at_objs L + 2 + 3 * num_objs L) - word_addr b (at_objs L + 2) = 8 * of_nat (3 * num_objs L)"
    by (simp add: word_addr_def algebra_simps)
  moreover have "unat (8 * of_nat (3 * num_objs L) :: u64) = 8 * (3 * num_objs L)"
    using less B(4) by (intro unat_words) (simp add: fits_def)
  moreover have "word_addr b (at_objs L + 2) + 24 * of_nat i = word_addr b (at_objs L + 2 + 3 * i)" for i
    by (simp add: word_addr_def algebra_simps)
  ultimately show "index_entries (word_addr b (at_objs L + 2)) (word_addr b (at_objs L + 2 + 3 * num_objs L)) = buffer_entries buffer"
    by (simp add: index_entries_def sizeof_Object_def entries [OF assms])
qed


subsection \<open>Samples\<close>

text \<open>A buffer with room for two objects, and a buffer with one element in it.\<close>

lemma created_sample:
  assumes "p \<noteq> 0" "unat p < 2 ^ 60"
  obtains m' buffer n f where "lattice_run real_of bits_of m' buffer []" "placed_in p buffer" "full_access buffer"
    "buffer_in m buffer n 89 (with_capacity 2 64 2 0 no_contents) f m'" "words_of buffer = 89" "lattice_in (with_capacity 2 64 2 0 no_contents) f m' buffer"
proof -
  have room: "new_room 64 p (16 + 64 + 3 * 2 + 2 + 0 + 1)" "8 * capacity_words 2 64 2 0 + 8 < 2 ^ 64"
    using assms by (simp_all add: new_room_def capacity_words_def)
  obtain m' mem_pool result where new:
      "Buffer_new_detailed m 64 p (of_nat 2) (of_nat 64) (of_nat 2) (of_nat 0) BUFFER_DATASTORE_MEMPOOL = (m', mem_pool, result)"
    using prod_cases3 by blast
  from new_detailed_buffer [OF room and.idem new] obtain buffer f where B: "result = Some buffer" "full_access buffer" "placed_in p buffer"
      "buffer_in m buffer (capacity_words 2 64 2 0) 89 (with_capacity 2 64 2 0 no_contents) f m'"
    by auto
  from lattice_run.created [OF room and.idem new [unfolded B(1)], of real_of bits_of] B capacity [OF B(4)] no_entries(2) [OF B(4)]
  show thesis by (intro that) (simp_all add: with_capacity_objs)
qed

lemma one_element:
  assumes "p \<noteq> 0" "unat p + 800 \<le> unat stack" "unat (stack :: u64) < 2 ^ 60"
    and "accepted op" "in_fields real_of bits_of op" "op_struct bits_of op = (type_id, ws)"
    and "length ws + attr_total (element_attrs type_id ws) \<le> 16" "length ws \<le> 11" "length (element_attrs type_id ws) \<le> 2"
    and "\<forall>(o', k)\<in>set (element_attrs type_id ws). ws ! o' = 0"
  obtains m' buffer where "lattice_run real_of bits_of m' buffer [op_element real_of m' op]" "placed_in p buffer" "words_of buffer = 89"
proof -
  have "unat p < 2 ^ 60" using assms(2,3) by simp
  then obtain m n f buffer where B: "lattice_run real_of bits_of m buffer []" "placed_in p buffer" "full_access buffer"
      "buffer_in (\<lambda>_. 0) buffer n 89 (with_capacity 2 64 2 0 no_contents) f m" "words_of buffer = 89"
      "lattice_in (with_capacity 2 64 2 0 no_contents) f m buffer"
    by (rule created_sample [OF assms(1), of real_of bits_of "\<lambda>_. 0"])
  have "stack \<noteq> 0" using assms(2) by auto
  then have st: "source_ok (bf_data_addr buffer) 89 stack (length ws)"
    using B(2) assms(2,3,8) by (simp add: source_ok_def fits_def placed_in_def)
  have ap: "arrays_apart (bf_data_addr buffer) 89 stack (type_id, ws)" using assms(10) by (auto simp: arrays_apart_def)
  have room: "has_room m buffer [(length ws, element_attrs type_id ws)]"
    using assms(7,9) by (simp add: has_room_iff [OF B(4)] room_for_def with_capacity_def)
  have ws: "length ws = element_width type_id" "ws \<noteq> []" "\<forall>a\<in>set (element_attrs type_id ws). 0 < snd a"
    using op_width [of bits_of op] op_arrays [OF assms(4,5)] assms(6) by simp_all
  obtain m' mem_pool' buffer' a where run: "run_op real_of bits_of op m stack 0 MemPool_preset buffer = (m', mem_pool', buffer', a)"
    by (metis surj_pair)
  have "lattice_run real_of bits_of m' buffer' ([] @ [op_element real_of m op])"
    using lattice_run.added [OF B(1) assms(4-6) _ _ room run] st ap B(5) by simp
  moreover have "op_element real_of m op = op_element real_of m' op"
    using assms(6,10) by (cases op) (auto simp: element_attrs_def element_types array_read_def)
  moreover have "bf_data_addr buffer' = bf_data_addr buffer \<and> words_of buffer' = 89"
  proof -
    have "add_from_stack m stack 0 MemPool_preset buffer ws (8 * of_nat (length ws)) type_id
        (map attr_bytes (element_attrs type_id ws)) = (m', mem_pool', buffer', a)"
      using run_op_accepted [OF assms(4,5) buffer_inD(9) [OF B(4)] assms(6)] run by simp
    then obtain m1 L' f' where "buffer_in m1 buffer' n 89 L' f' m'" "bf_data_addr buffer' = bf_data_addr buffer"
      using add_element_from_stack [OF B(4,3,6) refl st ws(1,2) refl ws(3) ap room, of 0 MemPool_preset] by auto
    then show ?thesis using capacity by auto
  qed
  ultimately show thesis using that B(2) by (simp add: placed_in_def)
qed


lemma drift_entry:
  assumes "element_of real_of (entry_object m it) = Some (BE_Drift d)"
  shows "Object_get_type_id m it = OBJECT_TYPE_DRIFT" "entry_shape m it = (1, [])"
proof -
  show t: "Object_get_type_id m it = OBJECT_TYPE_DRIFT"
    using assms by (auto simp: element_of_def entry_object_def split: if_splits prod.splits)
  show "entry_shape m it = (1, [])"
    by (simp add: entry_shape_def t element_width_def element_attrs_def element_types)
qed

text \<open>A buffer with one flat element and an empty one in the same memory.\<close>

lemma two_buffers_with:
  assumes "length ws = element_width type_id" "ws \<noteq> []" "element_attrs type_id ws = []" "length ws \<le> 11"
  obtains m0 n f m1 n1 L1 f1 m buffer source where "buffer_in m0 buffer n 89 (with_capacity 2 64 2 0 no_contents) f m" "full_access buffer"
    "lattice_in (with_capacity 2 64 2 0 no_contents) f m buffer" "buffer_entries buffer = []"
    "buffer_in m1 source n1 89 L1 f1 m" "full_access source" "lattice_in L1 f1 m source" "apart (bf_data_addr buffer) 89 source 89"
    "map (entry_object m) (buffer_entries source) = [(type_id, ws, [])]" "placed_in 65536 source" "ranges_to L1 = []" "placed_in 8200 buffer"
proof -
  obtain m n f empty where B: "placed_in 65536 empty" "full_access empty"
      "buffer_in (\<lambda>_. 0) empty n 89 (with_capacity 2 64 2 0 no_contents) f m"
      "lattice_in (with_capacity 2 64 2 0 no_contents) f m empty"
    by (rule created_sample [of 65536 sample_real sample_bits "\<lambda>_. 0"]) auto
  have st: "source_ok (bf_data_addr empty) 89 131072 (length ws)" using B(1) assms(4) by (simp add: source_ok_def fits_def placed_in_def)
  have room: "has_room m empty [(length ws, [])]" using assms(4) by (simp add: has_room_iff [OF B(3)] room_for_def with_capacity_def)
  have ap: "arrays_apart (bf_data_addr empty) 89 131072 (type_id, ws)" by (simp add: arrays_apart_def assms(3))
  obtain m1 m' source L' f' where S: "buffer_in m1 source n 89 L' f' m'" "full_access source" "bf_data_addr source = bf_data_addr empty"
      "lattice_in L' f' m' source" "ranges_to L' = []" "map (entry_object m') (buffer_entries source) = [stack_entry m (type_id, ws)]"
    using add_element_from_stack [OF B(3,2,4) refl st assms(1,2) refl, of 0 MemPool_preset] ap room no_entries(1) [OF B(3)]
    by (auto simp: assms(3) with_capacity_def)
  have entry: "stack_entry m (type_id, ws) = (type_id, ws, [])" by (simp add: stack_entry_def assms(3) map_nth)
  obtain m'' n'' f'' buffer where D: "placed_in 8200 buffer" "full_access buffer"
      "buffer_in m' buffer n'' 89 (with_capacity 2 64 2 0 no_contents) f'' m''"
      "lattice_in (with_capacity 2 64 2 0 no_contents) f'' m'' buffer"
    by (rule created_sample [of 8200 sample_real sample_bits m']) auto
  have apart: "apart (bf_data_addr buffer) 89 source 89" using B(1) D(1) S(3) by (simp add: apart_def placed_in_def)
  have "m'' i = m' i" if "unat (bf_data_addr source) \<le> i" "i < unat (bf_data_addr source) + 8 * 89" for i
    using that apart by (intro buf_outside [OF buffer_inD(1) [OF D(3)]]) (auto simp: apart_def)
  note E = lattice_rebase [OF S(1,4) this]
  show thesis
    using that [OF D(3,2,4) no_entries(1) [OF D(3)] E(1) S(2) E(2) apart] E(3) S(3,5,6) B(1) D(1) entry
    by (simp add: with_capacity_objs placed_in_def)
qed

text \<open>The element is a drift.\<close>

lemma two_buffers:
  obtains m0 n f m1 n1 L1 f1 m buffer source where "buffer_in m0 buffer n 89 (with_capacity 2 64 2 0 no_contents) f m" "full_access buffer"
    "lattice_in (with_capacity 2 64 2 0 no_contents) f m buffer" "buffer_entries buffer = []"
    "buffer_in m1 source n1 89 L1 f1 m" "full_access source" "lattice_in L1 f1 m source" "apart (bf_data_addr buffer) 89 source 89"
    "stored_elements sample_real m source = [Some (BE_Drift \<lparr>Drift_length = 3\<rparr>)]" "placed_in 8200 buffer" "ranges_to L1 = []"
proof -
  obtain m0 n f m1 n1 L1 f1 m buffer source where T: "buffer_in m0 buffer n 89 (with_capacity 2 64 2 0 no_contents) f m" "full_access buffer"
      "lattice_in (with_capacity 2 64 2 0 no_contents) f m buffer" "buffer_entries buffer = []"
      "buffer_in m1 source n1 89 L1 f1 m" "full_access source" "lattice_in L1 f1 m source" "apart (bf_data_addr buffer) 89 source 89"
      "map (entry_object m) (buffer_entries source) = [(OBJECT_TYPE_DRIFT, [3], [])]" "ranges_to L1 = []" "placed_in 8200 buffer"
    by (rule two_buffers_with [of "[3]" OBJECT_TYPE_DRIFT]) (auto simp: element_width_def element_attrs_def element_types)
  have "stored_elements sample_real m source = [Some (BE_Drift \<lparr>Drift_length = 3\<rparr>)]"
    using stored_elements_map [OF T(9), of sample_real] by (simp add: element_of_def element_types Drift_of_def sample_real_def)
  then show thesis using that T(1-8,10,11) by blast
qed

lemma one_drift:
  assumes "stored_elements real_of m source = [Some (BE_Drift d)]"
  obtains it where "buffer_entries source = [it]" "Object_get_type_id m it = OBJECT_TYPE_DRIFT" "entry_shape m it = (1, [])"
proof -
  obtain it where "buffer_entries source = [it]" "element_of real_of (entry_object m it) = Some (BE_Drift d)"
    using assms by (auto simp: stored_elements_def)
  then show thesis using that drift_entry by blast
qed

theorem copying_appends_lattice_witness:
  "\<exists>m buffer source m' buffer'. BeamElements_copy_to_buffer m (\<lambda>_. 0) MemPool_preset buffer
      (Buffer_get_objects_begin_addr source) (Buffer_get_objects_end_addr source) = (m', MemPool_preset, buffer', 0) \<and>
    stored_elements sample_real m' buffer' = [Some (BE_Drift \<lparr>Drift_length = 3\<rparr>)]"
proof -
  obtain m0 n f m1 n1 L1 f1 m buffer source where T: "buffer_in m0 buffer n 89 (with_capacity 2 64 2 0 no_contents) f m" "full_access buffer"
      "lattice_in (with_capacity 2 64 2 0 no_contents) f m buffer" "buffer_entries buffer = []"
      "buffer_in m1 source n1 89 L1 f1 m" "lattice_in L1 f1 m source" "apart (bf_data_addr buffer) 89 source 89"
      "stored_elements sample_real m source = [Some (BE_Drift \<lparr>Drift_length = 3\<rparr>)]"
    by (rule two_buffers)
  obtain it where it: "buffer_entries source = [it]" "Object_get_type_id m it = OBJECT_TYPE_DRIFT" "entry_shape m it = (1, [])"
    using T(8) by (rule one_drift)
  have more: "buffer_entries source \<noteq> []" "room_for (with_capacity 2 64 2 0 no_contents) (map (entry_shape m) (buffer_entries source))"
    "\<forall>it\<in>set (buffer_entries source). Object_get_type_id m it \<in> copied_types \<and> (\<forall>a\<in>set (snd (entry_shape m it)). 0 < snd a)"
    using it by (simp_all add: room_for_def with_capacity_def copied_types_def)
  have "stored_elements sample_real m buffer = []" using T(4) by (simp add: stored_elements_def)
  then show ?thesis
    using copying_appends_lattice [OF T(1-3,5-7) more, of "\<lambda>_. 0" MemPool_preset sample_real] T(8) by fastforce
qed

theorem can_add_means_room_witness:
  "\<exists>m buffer. fst (Buffer_can_add_object m buffer (8 * of_nat 64) []) \<and> \<not> fst (Buffer_can_add_object m buffer (8 * of_nat 65) [])"
proof -
  obtain m0 n f m buffer where T: "buffer_in m0 buffer n 89 (with_capacity 2 64 2 0 no_contents) f m" "full_access buffer"
    by (rule two_buffers)
  have "has_room m buffer [(w, [])] \<longleftrightarrow> w \<le> 64" for w
    using has_room_iff [OF T(1)] by (simp add: room_for_def with_capacity_def)
  then show ?thesis using can_add_means_room [OF T, of 64 "[]"] can_add_means_room [OF T, of 65 "[]"] by auto
qed

theorem lattice_through_file_witness:
  "\<exists>m original original' bytes. Buffer_write_to_fp_normalized_addr m original 262144 True = (m, original', Some bytes, True) \<and>
    (\<exists>m' mem_pool copy. Buffer_new_from_file (\<lambda>_. 0) 64 8200 (Some bytes) = (m', mem_pool, Some copy) \<and>
      stored_elements sample_real m' copy = [Some (BE_Drift \<lparr>Drift_length = 3\<rparr>)])"
proof -
  obtain m1 n1 L1 f1 m source where T: "buffer_in m1 source n1 89 L1 f1 m" "full_access source" "lattice_in L1 f1 m source" "ranges_to L1 = []"
      "stored_elements sample_real m source = [Some (BE_Drift \<lparr>Drift_length = 3\<rparr>)]"
    by (rule two_buffers)
  have "n1 \<le> 89" using T(1) by (rule buffer_inD)
  then have room: "fits 262144 n1" "new_room 64 8200 n1" by (simp_all add: new_room_def fits_def)
  show ?thesis using lattice_through_file [OF T(1-4) room, where real_of = sample_real and other = "\<lambda>_. 0"] T(5) by fastforce
qed

end
