(* ===== verification/Lattice_Beam_Beam.thy ===== *)
theory Lattice_Beam_Beam
  imports Lattice_Runs
begin

section \<open>Lattices with beam-beam and space charge elements\<close>

text \<open>
  The functions that copy a lattice take any status that is not 0 for a failure, but for beam-beam and space charge
  elements the status of a copy is the truth value of the success. So copying stops after the first one of them;
  and 6D beam-beam elements are created with the type of 4D elements.
\<close>

subsection \<open>Copying stops\<close>

definition truth_types :: "u64 set" where
  "truth_types = {OBJECT_TYPE_BEAM_BEAM_4D, OBJECT_TYPE_SC_COASTING, OBJECT_TYPE_SC_QGAUSSIAN_PROF}"

lemma copy_single_truth:
  assumes "it \<noteq> 0" "Object_get_begin_addr m it = p" "p \<noteq> 0" "bf_slot_length buffer = 8" "Object_get_type_id m it = type_id"
    and "type_id \<in> truth_types" "entry_shape m it = (w, attrs)"
  shows "BeamElements_copy_single_to_buffer m new_memory mem_pool buffer it =
    added_truth (place_object m new_memory mem_pool buffer p (8 * of_nat w) type_id (map attr_bytes attrs))"
proof -
  have w: "w = element_width type_id" and attrs: "attrs = element_attrs type_id (words_at m p w)"
    using assms(2,5,7) by (auto simp: entry_shape_def Let_def)
  show ?thesis
  proof (cases "type_id = OBJECT_TYPE_BEAM_BEAM_4D")
    case True
    then have "attrs = [(1, unat (rd64 m p))]"
      by (simp add: attrs w element_attrs_def element_width_def element_types words_at_def addr_0)
    then show ?thesis using True assms(1-5)
      by (simp add: BeamElements_copy_single_to_buffer_def w element_types element_width_def BeamBeam4D_add_copy_def
          BeamBeam4D_attributes_sizes_def BeamBeam4D_attributes_offsets_def BeamBeam4D_attributes_counts_def BeamBeam4D_at_def
          Buffer_get_slot_size_def BeamBeam4D_num_dataptrs_def sizeof_BeamBeam4D_def BeamBeam4D_type_id_def)
  next
    case False
    then show ?thesis using assms(1-6) unfolding truth_types_def
      by (elim insertE emptyE) (simp_all add: BeamElements_copy_single_to_buffer_def w attrs element_types element_width_def
          element_attrs_def SCCoasting_add_copy_def SCQGaussProfile_add_copy_def element_sizes element_type_ids element_dataptrs)
  qed
qed

lemma truth_step:
  assumes "buffer_in m0 buffer n N L f m" "full_access buffer" "lattice_in L f m buffer" "b = bf_data_addr buffer"
    and "entry_outside b N m it" "Object_get_type_id m it \<in> truth_types" "room_for L [entry_shape m it]"
  shows "\<exists>m' buffer' L' f'. BeamElements_copy_single_to_buffer m new_memory mem_pool buffer it = (m', mem_pool, buffer', 1) \<and>
    buffer_in m buffer' n N L' f' m' \<and> bf_data_addr buffer' = b \<and>
    map (entry_object m') (buffer_entries buffer') = map (entry_object m) (buffer_entries buffer) @ [entry_object m it]"
proof -
  obtain w attrs where s: "entry_shape m it = (w, attrs)" by (cases "entry_shape m it")
  note out = outside_begin [OF assms(5), unfolded s snd_conv]
  have "BeamElements_copy_single_to_buffer m new_memory mem_pool buffer it = added_truth (place_object m new_memory mem_pool buffer
      (Object_get_begin_addr m it) (8 * of_nat w) (Object_get_type_id m it) (map attr_bytes attrs))"
    by (rule copy_single_truth [OF out(1) refl out(2) buffer_inD(9) [OF assms(1)] refl assms(6) s])
  moreover have "0 < w" using assms(6) s by (auto simp: truth_types_def entry_shape_def Let_def element_width_def element_types)
  ultimately show ?thesis
    using place_entry [OF assms(1-5) s _ assms(7), of new_memory mem_pool] by (fastforce simp: added_truth_def)
qed

lemma copy_entries_continue:
  "copy_entries m new_memory mem_pool buffer its 0 = (m', mem_pool', buffer', 0) \<Longrightarrow>
   copy_entries m new_memory mem_pool buffer (its @ its') 0 = copy_entries m' (\<lambda>k. new_memory (length its + k)) mem_pool' buffer' its' 0"
  by (induction its arbitrary: m new_memory mem_pool buffer) (auto simp: Let_def split: prod.splits if_splits)

text \<open>C23: Copying a lattice stops with status 1 after its first beam-beam 4D or space charge element: the elements in
  front of it and that element are appended to the destination, those behind it are not.\<close>

theorem copying_stops_at_beam_beam:
  assumes "buffer_in m0 buffer n N L f m" "full_access buffer" "lattice_in L f m buffer"
    and "buffer_in m1 source n1 N1 L1 f1 m" "lattice_in L1 f1 m source" "apart (bf_data_addr buffer) N source N1"
    and "buffer_entries source = its @ it # rest" "room_for L (map (entry_shape m) (its @ [it]))"
    and "\<forall>it\<in>set its. Object_get_type_id m it \<in> copied_types"
    and "Object_get_type_id m it \<in> {OBJECT_TYPE_BEAM_BEAM_4D, OBJECT_TYPE_SC_COASTING, OBJECT_TYPE_SC_QGAUSSIAN_PROF}"
    and "\<forall>it\<in>set (its @ [it]). \<forall>a\<in>set (snd (entry_shape m it)). 0 < snd a"
  shows "\<exists>m' buffer'. BeamElements_copy_to_buffer m new_memory mem_pool buffer
      (Buffer_get_objects_begin_addr source) (Buffer_get_objects_end_addr source) = (m', mem_pool, buffer', 1) \<and>
    stored_elements real_of m' buffer' =
      stored_elements real_of m buffer @ take (length its + 1) (stored_elements real_of m source)"
proof -
  have type: "Object_get_type_id m it \<in> truth_types" using assms(10) by (simp add: truth_types_def)
  then have "0 < fst (entry_shape m it)" by (auto simp: truth_types_def entry_shape_def Let_def element_width_def element_types)
  then have out: "entry_outside (bf_data_addr buffer) N m it"
    "\<forall>it\<in>set its. entry_outside (bf_data_addr buffer) N m it \<and> Object_get_type_id m it \<in> copied_types"
    using entries_outside [OF assms(4-6)] assms(7,9,11) copied_width by auto
  obtain m2 buffer2 L2 f2 where C: "copy_entries m new_memory mem_pool buffer its 0 = (m2, mem_pool, buffer2, 0)"
      "buffer_in m buffer2 n N L2 f2 m2" "full_access buffer2" "bf_data_addr buffer2 = bf_data_addr buffer" "lattice_in L2 f2 m2 buffer2"
      "room_for L2 [entry_shape m it]"
      "map (entry_object m2) (buffer_entries buffer2) = map (entry_object m) (buffer_entries buffer) @ map (entry_object m) its"
    using copy_entries_append [OF assms(1-3) refl out(2), of "[entry_shape m it]" new_memory mem_pool] assms(8) by auto
  note same = outside_unchanged [OF buffer_inD(1) [OF C(2), unfolded C(4)] out(1)]
  obtain m' buffer' where S: "BeamElements_copy_single_to_buffer m2 (new_memory (length its)) mem_pool buffer2 it = (m', mem_pool, buffer', 1)"
      "map (entry_object m') (buffer_entries buffer') = map (entry_object m2) (buffer_entries buffer2) @ [entry_object m2 it]"
    using truth_step [OF C(2,3,5) C(4) [symmetric] same(3), of "new_memory (length its)" mem_pool] C(6) same(2,4) type by auto
  have "copy_entries m new_memory mem_pool buffer (buffer_entries source) 0 = (m', mem_pool, buffer', 1)"
    unfolding assms(7) copy_entries_continue [OF C(1)] by (simp add: S(1))
  then have "BeamElements_copy_to_buffer m new_memory mem_pool buffer
      (Buffer_get_objects_begin_addr source) (Buffer_get_objects_end_addr source) = (m', mem_pool, buffer', 1)"
    using range_of_entries [OF assms(4)] assms(7) by (simp add: BeamElements_copy_to_buffer_def)
  moreover have "map (entry_object m') (buffer_entries buffer') =
      map (entry_object m) (buffer_entries buffer) @ map (entry_object m) (its @ [it])"
    using S(2) C(7) same(1) by simp
  from stored_elements_map [OF this, of real_of]
  have "stored_elements real_of m' buffer' =
      stored_elements real_of m buffer @ take (length its + 1) (stored_elements real_of m source)"
    by (simp add: stored_elements_def assms(7))
  ultimately show ?thesis by blast
qed

subsection \<open>6D elements\<close>

lemma beam_beam_6d_tables:
  "BeamBeam6D_tables e 8 = (map attr_bytes [(1, unat (BeamBeam6D_data_size e))], 0)"
  by (simp add: BeamBeam6D_tables_def BeamBeam6D_attributes_sizes_def BeamBeam6D_attributes_offsets_def
      BeamBeam6D_attributes_counts_def)

lemma last_entry_size:
  assumes "buffer_in m0 buffer n N L f m" "lattice_in L f m buffer" "buffer_entries buffer \<noteq> []" "it = last (buffer_entries buffer)"
  shows "8 * fst (entry_shape m it) \<le> unat (Object_get_size m it)"
proof -
  define i where "i = num_objs L - 1"
  have i: "i < num_objs L" using assms(3) by (simp add: i_def entries [OF assms(1) refl])
  then have it: "it = buffer_entries buffer ! i" "it = word_addr (bf_data_addr buffer) (at_objs L + 2 + 3 * i)"
    using assms(3,4) by (simp_all add: last_conv_nth i_def entries [OF assms(1) refl])
  have "8 * fst (snd (catalogue m buffer ! i)) \<le> unat (f (at_objs L + 2 + 3 * i + 2))"
    using assms(2) i unfolding lattice_in_def objects_in_def by blast
  moreover have "catalogue m buffer ! i = (Object_get_type_id m it, entry_shape m it)"
    using i it(1) by (simp add: catalogue_def entries [OF assms(1) refl])
  ultimately show ?thesis using entry_words(3) [OF assms(1) i refl] it(2) by simp
qed

text \<open>C24: A 6D beam-beam element that is added to a buffer becomes an object of the type of 4D elements: the function
  that looks for a 6D element in it finds none, the one for 4D elements takes it for one, and tracking would read its
  data as those of a 4D element.\<close>

theorem added_6D_element_is_4D:
  assumes "buffer_in m0 buffer n N L f m" "full_access buffer" "lattice_in L f m buffer"
    and "source_ok (bf_data_addr buffer) N stack 2" "of_nat bb6_data_slots \<le> data_size" "0 < data_size"
    and "data_addr = 0 \<or> source_ok (bf_data_addr buffer) N data_addr (unat data_size) \<and> source_ok stack 2 data_addr (unat data_size)"
    and "has_room m buffer [(2, [(1, unat data_size)])]"
  shows "\<exists>m' buffer' a it. BeamBeam6D_add elem m stack new_memory mem_pool buffer data_size data_addr = (m', mem_pool, buffer', a) \<and> a \<noteq> 0 \<and>
    buffer_entries buffer' \<noteq> [] \<and> it = last (buffer_entries buffer') \<and>
    BeamBeam6D_const_from_obj_index m' it = 0 \<and> BeamBeam4D_const_from_obj_index m' it = Object_get_begin_addr m' it \<and>
    stored_elements real_of m' buffer' = stored_elements real_of m buffer @
      [Some (BE_BeamBeam4D \<lparr>BeamBeam4D_data_size = data_size, BeamBeam4D_data = Some (BB4D_data_of real_of (array_read m data_addr (unat data_size)))\<rparr>)]"
proof -
  define attrs where "attrs = [(1 :: nat, unat data_size)]"
  define ws where "ws = [data_size, data_addr]"
  have shape: "length ws = element_width OBJECT_TYPE_BEAM_BEAM_4D" "ws \<noteq> []" "attrs = element_attrs OBJECT_TYPE_BEAM_BEAM_4D ws"
    by (simp_all add: ws_def attrs_def element_width_def element_attrs_def element_types)
  have pos: "\<forall>a\<in>set attrs. 0 < snd a" using assms(6) by (simp add: attrs_def u64_less_nat)
  have len: "length ws = 2" by (simp add: ws_def)
  have ap: "arrays_apart (bf_data_addr buffer) N stack (OBJECT_TYPE_BEAM_BEAM_4D, ws)"
    unfolding arrays_apart_def prod.case shape(3) [symmetric] len using assms(7) by (simp add: attrs_def ws_def)
  obtain m1 m' buffer' L' f' a where A: "add_from_stack m stack new_memory mem_pool buffer ws (8 * of_nat (length ws))
        OBJECT_TYPE_BEAM_BEAM_4D (map attr_bytes attrs) = (m', mem_pool, buffer', a)" "a \<noteq> 0"
      "buffer_in m1 buffer' n N L' f' m'" "lattice_in L' f' m' buffer'"
      "map (entry_object m') (buffer_entries buffer') = map (entry_object m) (buffer_entries buffer) @ [stack_entry m (OBJECT_TYPE_BEAM_BEAM_4D, ws)]"
    using add_element_from_stack [OF assms(1-3) refl _ shape pos ap, of new_memory mem_pool] assms(4,8) len by (auto simp: attrs_def)
  have run: "BeamBeam6D_add elem m stack new_memory mem_pool buffer data_size data_addr = (m', mem_pool, buffer', a)"
    using A(1) assms(5) buffer_inD(9) [OF assms(1)]
    by (simp add: BeamBeam6D_add_def BeamBeam6D_set_data_size_def Buffer_get_slot_size_def beam_beam_6d_tables attrs_def ws_def
        BeamBeam6D_num_dataptrs_def BeamBeam6D_words_def sizeof_BeamBeam6D_def BeamBeam6D_type_id_def)
  have entry: "stack_entry m (OBJECT_TYPE_BEAM_BEAM_4D, ws) = (OBJECT_TYPE_BEAM_BEAM_4D, [data_size, 0], [array_read m data_addr (unat data_size)])"
    by (simp add: stack_entry_def Let_def shape(3) [symmetric] attrs_def) (simp add: ws_def upt_conv_Cons)
  have ne: "buffer_entries buffer' \<noteq> []" using A(5) by auto
  define it where "it = last (buffer_entries buffer')"
  have "entry_object m' it = stack_entry m (OBJECT_TYPE_BEAM_BEAM_4D, ws)"
    using A(5) ne unfolding it_def by (metis last_map last_snoc)
  then have t: "Object_get_type_id m' it = OBJECT_TYPE_BEAM_BEAM_4D" by (simp add: entry entry_object_def)
  then have "fst (entry_shape m' it) = 2" by (simp add: entry_shape_def Let_def element_width_def element_types)
  then have "16 \<le> unat (Object_get_size m' it)" using last_entry_size [OF A(3,4) ne it_def] by simp
  then have "BeamBeam6D_const_from_obj_index m' it = 0" "BeamBeam4D_const_from_obj_index m' it = Object_get_begin_addr m' it"
    using t by (simp_all add: BeamBeam6D_const_from_obj_index_def BeamBeam4D_const_from_obj_index_def element_types
        sizeof_BeamBeam4D_def u64_le_nat)
  moreover have "element_of real_of (stack_entry m (OBJECT_TYPE_BEAM_BEAM_4D, ws)) = Some (BE_BeamBeam4D
      \<lparr>BeamBeam4D_data_size = data_size, BeamBeam4D_data = Some (BB4D_data_of real_of (array_read m data_addr (unat data_size)))\<rparr>)"
    unfolding entry by (simp add: element_of_def element_types)
  then have "stored_elements real_of m' buffer' = stored_elements real_of m buffer @ [Some (BE_BeamBeam4D
      \<lparr>BeamBeam4D_data_size = data_size, BeamBeam4D_data = Some (BB4D_data_of real_of (array_read m data_addr (unat data_size)))\<rparr>)]"
    using stored_elements_map [OF A(5), of real_of] by (simp add: stored_elements_def comp_def)
  ultimately show ?thesis using run A(2) ne it_def by blast
qed

subsection \<open>Samples\<close>

theorem copying_stops_at_beam_beam_witness:
  "\<exists>m buffer source m' buffer'. BeamElements_copy_to_buffer m (\<lambda>_. 0) MemPool_preset buffer
      (Buffer_get_objects_begin_addr source) (Buffer_get_objects_end_addr source) = (m', MemPool_preset, buffer', 1) \<and>
    length (stored_elements sample_real m' buffer') = 1"
proof -
  obtain m0 n f m1 n1 L1 f1 m buffer source where T: "buffer_in m0 buffer n 89 (with_capacity 2 64 2 0 no_contents) f m" "full_access buffer"
      "lattice_in (with_capacity 2 64 2 0 no_contents) f m buffer" "buffer_entries buffer = []"
      "buffer_in m1 source n1 89 L1 f1 m" "lattice_in L1 f1 m source" "apart (bf_data_addr buffer) 89 source 89"
      "map (entry_object m) (buffer_entries source) = [(OBJECT_TYPE_SC_COASTING, replicate 9 0, [])]"
    by (rule two_buffers_with [of "replicate 9 0" OBJECT_TYPE_SC_COASTING]) (auto simp: element_width_def element_attrs_def element_types)
  obtain it where it: "buffer_entries source = [] @ it # []" "Object_get_type_id m it = OBJECT_TYPE_SC_COASTING"
    using T(8) by (auto simp: entry_object_def)
  then have shape: "entry_shape m it = (9, [])"
    by (simp add: entry_shape_def Let_def element_width_def element_attrs_def element_types)
  have "stored_elements sample_real m buffer = []" "length (stored_elements sample_real m source) = 1"
    using T(4) it(1) by (simp_all add: stored_elements_def)
  then show ?thesis
    using copying_stops_at_beam_beam [OF T(1-3,5-7) it(1), of "\<lambda>_. 0" MemPool_preset sample_real] it(2) shape
    by (fastforce simp: room_for_def with_capacity_def)
qed

theorem added_6D_element_is_4D_witness:
  "\<exists>m m' buffer buffer' a it. BeamBeam6D_add \<lparr>BeamBeam6D_data_size = 0, BeamBeam6D_data = None\<rparr> m 131072 0 MemPool_preset buffer 38 0 =
      (m', MemPool_preset, buffer', a) \<and> BeamBeam6D_const_from_obj_index m' it = 0 \<and>
    BeamBeam4D_const_from_obj_index m' it = Object_get_begin_addr m' it"
proof -
  obtain m0 n f m buffer where T: "buffer_in m0 buffer n 89 (with_capacity 2 64 2 0 no_contents) f m" "full_access buffer"
      "lattice_in (with_capacity 2 64 2 0 no_contents) f m buffer" "placed_in 8200 buffer"
    by (rule two_buffers)
  have "source_ok (bf_data_addr buffer) 89 131072 2" using T(4) by (simp add: source_ok_def fits_def placed_in_def)
  moreover have "of_nat bb6_data_slots \<le> (38 :: u64)" by (simp add: bb6_data_slots_def)
  moreover have "has_room m buffer [(2, [(1, unat (38 :: u64))])]"
    by (simp add: has_room_iff [OF T(1)] room_for_def with_capacity_def)
  ultimately show ?thesis
    using added_6D_element_is_4D [OF T(1-3), of 131072 38 0 "\<lparr>BeamBeam6D_data_size = 0, BeamBeam6D_data = None\<rparr>" 0 MemPool_preset sample_real]
    by fastforce
qed

end
