(* ===== verification/RF_Multipole_Values.thy ===== *)
theory RF_Multipole_Values
  imports Element_Buffers_Arrays
begin

section \<open>Coefficients and phases of RF multipoles (be\_rfmultipole.h)\<close>

text \<open>
  The functions that read and write the arrays of an RF multipole through the addresses in its structure, on the byte
  memory in which the structure and its arrays lie. The loops over a range of addresses run until the iterator equals
  the end; the number of rounds is the distance in words.
\<close>

definition words_between :: "u64 \<Rightarrow> u64 \<Rightarrow> nat" where
  "words_between it end' = unat (end' - it) div 8"

subsection \<open>Addresses\<close>

definition RFMultipole_order_in :: "mem \<Rightarrow> u64 \<Rightarrow> i64" where
  "RFMultipole_order_in m mpole = sint (rd64 m mpole)"

definition RFMultipole_length_in :: "mem \<Rightarrow> u64 \<Rightarrow> u64" where
  "RFMultipole_length_in m mpole = u64_of (2 * RFMultipole_order_in m mpole + 2)"

definition RFMultipole_bal_addr :: "mem \<Rightarrow> u64 \<Rightarrow> u64" where
  "RFMultipole_bal_addr m mpole = rd64 m (word_addr mpole 4)"

definition RFMultipole_const_bal_begin :: "mem \<Rightarrow> u64 \<Rightarrow> u64" where
  "RFMultipole_const_bal_begin m mpole = RFMultipole_bal_addr m mpole"

definition RFMultipole_const_bal_end :: "mem \<Rightarrow> u64 \<Rightarrow> u64" where
  "RFMultipole_const_bal_end m mpole =
     (let bal_end = RFMultipole_const_bal_begin m mpole
      in if bal_end \<noteq> 0 then bal_end + 8 * RFMultipole_length_in m mpole else bal_end)"

definition RFMultipole_bal_begin :: "mem \<Rightarrow> u64 \<Rightarrow> u64" where
  "RFMultipole_bal_begin m mpole = RFMultipole_bal_addr m mpole"

definition RFMultipole_bal_end :: "mem \<Rightarrow> u64 \<Rightarrow> u64" where
  "RFMultipole_bal_end m mpole = RFMultipole_const_bal_end m mpole"

definition RFMultipole_phase_addr :: "mem \<Rightarrow> u64 \<Rightarrow> u64" where
  "RFMultipole_phase_addr m mpole = rd64 m (word_addr mpole 5)"

definition RFMultipole_const_phase_begin :: "mem \<Rightarrow> u64 \<Rightarrow> u64" where
  "RFMultipole_const_phase_begin m mpole = RFMultipole_phase_addr m mpole"

definition RFMultipole_const_phase_end :: "mem \<Rightarrow> u64 \<Rightarrow> u64" where
  "RFMultipole_const_phase_end m mpole =
     (let phase_end = RFMultipole_const_phase_begin m mpole
      in if phase_end \<noteq> 0 then phase_end + 8 * RFMultipole_length_in m mpole else phase_end)"

definition RFMultipole_phase_begin :: "mem \<Rightarrow> u64 \<Rightarrow> u64" where
  "RFMultipole_phase_begin m mpole = RFMultipole_phase_addr m mpole"

text \<open>The end of the phases is computed from the begin of the coefficients.\<close>

definition RFMultipole_phase_end :: "mem \<Rightarrow> u64 \<Rightarrow> u64" where
  "RFMultipole_phase_end m mpole =
     (let phase_values_end = RFMultipole_bal_begin m mpole
      in if phase_values_end \<noteq> 0 then phase_values_end + 8 * RFMultipole_length_in m mpole else phase_values_end)"

subsection \<open>Reading\<close>

definition RFMultipole_bal :: "(u64 \<Rightarrow> real) \<Rightarrow> mem \<Rightarrow> u64 \<Rightarrow> u64 \<Rightarrow> real" where
  "RFMultipole_bal real_of m mpole bal_index = real_of (rd64 m (RFMultipole_const_bal_begin m mpole + 8 * bal_index))"

definition RFMultipole_knl :: "(u64 \<Rightarrow> real) \<Rightarrow> mem \<Rightarrow> u64 \<Rightarrow> i64 \<Rightarrow> real" where
  "RFMultipole_knl real_of m mpole knl_index =
     (let bal_index = u64_of (2 * knl_index)
      in real_of (rd64 m (RFMultipole_const_bal_begin m mpole + 8 * bal_index)) * Math_factorial (u64_of knl_index))"

definition RFMultipole_ksl :: "(u64 \<Rightarrow> real) \<Rightarrow> mem \<Rightarrow> u64 \<Rightarrow> i64 \<Rightarrow> real" where
  "RFMultipole_ksl real_of m mpole ksl_index =
     (let bal_index = u64_of (2 * ksl_index + 1)
      in real_of (rd64 m (RFMultipole_const_bal_begin m mpole + 8 * bal_index)) * Math_factorial (u64_of ksl_index))"

definition RFMultipole_phase :: "(u64 \<Rightarrow> real) \<Rightarrow> mem \<Rightarrow> u64 \<Rightarrow> u64 \<Rightarrow> real" where
  "RFMultipole_phase real_of m mpole phase_index = real_of (rd64 m (RFMultipole_const_phase_begin m mpole + 8 * phase_index))"

definition RFMultipole_phase_n :: "(u64 \<Rightarrow> real) \<Rightarrow> mem \<Rightarrow> u64 \<Rightarrow> i64 \<Rightarrow> real" where
  "RFMultipole_phase_n real_of m mpole pn_index =
     real_of (rd64 m (RFMultipole_const_phase_begin m mpole + 8 * u64_of (2 * pn_index)))"

definition RFMultipole_phase_s :: "(u64 \<Rightarrow> real) \<Rightarrow> mem \<Rightarrow> u64 \<Rightarrow> i64 \<Rightarrow> real" where
  "RFMultipole_phase_s real_of m mpole ps_index =
     real_of (rd64 m (RFMultipole_const_phase_begin m mpole + 8 * u64_of (2 * ps_index + 1)))"

subsection \<open>Writing coefficients\<close>

definition RFMultipole_set_bal_value :: "(real \<Rightarrow> u64) \<Rightarrow> mem \<Rightarrow> u64 \<Rightarrow> u64 \<Rightarrow> real \<Rightarrow> mem \<times> arch_status" where
  "RFMultipole_set_bal_value bits_of m mpole bal_index bal_value =
     (wr64 m (RFMultipole_bal_begin m mpole + 8 * bal_index) (bits_of bal_value), 0)"

definition RFMultipole_set_all_bal_values :: "(real \<Rightarrow> u64) \<Rightarrow> mem \<Rightarrow> u64 \<Rightarrow> real \<Rightarrow> mem \<times> arch_status" where
  "RFMultipole_set_all_bal_values bits_of m mpole bal_value =
     (let bal_it = RFMultipole_bal_begin m mpole; bal_end = RFMultipole_bal_end m mpole
      in (fold (\<lambda>k m. wr64 m (word_addr bal_it k) (bits_of bal_value)) [0..<words_between bal_it bal_end] m, 0))"

definition RFMultipole_set_bal :: "mem \<Rightarrow> u64 \<Rightarrow> u64 \<Rightarrow> mem \<times> arch_status" where
  "RFMultipole_set_bal m mpole in_bal_it =
     (let bal_it = RFMultipole_bal_begin m mpole; bal_end = RFMultipole_bal_end m mpole
      in if bal_it \<noteq> 0 \<and> bal_end \<noteq> 0 \<and> bal_it \<le> bal_end \<and> in_bal_it \<noteq> 0 then
           (fold (\<lambda>k m. wr64 m (word_addr bal_it k) (rd64 m (word_addr in_bal_it k))) [0..<words_between bal_it bal_end] m, 0)
         else (m, - 1))"

text \<open>A single component is written only at the index of the order, by \<open>>=\<close> for \<open><=\<close>.\<close>

definition RFMultipole_set_knl_value :: "(real \<Rightarrow> u64) \<Rightarrow> mem \<Rightarrow> u64 \<Rightarrow> i64 \<Rightarrow> real \<Rightarrow> mem \<times> arch_status" where
  "RFMultipole_set_knl_value bits_of m mpole knl_index knl_value =
     (let bal_values = RFMultipole_bal_begin m mpole; bal_index = u64_of (2 * knl_index)
      in if bal_values \<noteq> 0 \<and> knl_index \<ge> 0 \<and> knl_index \<ge> RFMultipole_order_in m mpole \<and> bal_index < RFMultipole_length_in m mpole then
           (wr64 m (bal_values + 8 * bal_index) (bits_of (knl_value / Math_factorial (u64_of knl_index))), 0)
         else (m, - 1))"

definition RFMultipole_set_all_knl_values :: "(real \<Rightarrow> u64) \<Rightarrow> mem \<Rightarrow> u64 \<Rightarrow> real \<Rightarrow> mem \<times> arch_status" where
  "RFMultipole_set_all_knl_values bits_of m mpole knl_value =
     (let bal_values = RFMultipole_bal_begin m mpole; order = RFMultipole_order_in m mpole
      in if bal_values \<noteq> 0 then
           (fold (\<lambda>k m. wr64 m (word_addr bal_values (2 * k)) (bits_of (knl_value / Math_factorial (of_nat k)))) [0..<nat (order + 1)] m, 0)
         else (m, - 1))"

definition RFMultipole_set_knl :: "(u64 \<Rightarrow> real) \<Rightarrow> (real \<Rightarrow> u64) \<Rightarrow> mem \<Rightarrow> u64 \<Rightarrow> u64 \<Rightarrow> mem \<times> arch_status" where
  "RFMultipole_set_knl real_of bits_of m mpole in_knl_it =
     (let bal_values = RFMultipole_bal_begin m mpole; order = RFMultipole_order_in m mpole
      in if bal_values \<noteq> 0 \<and> in_knl_it \<noteq> 0 then
           (fold (\<lambda>k m. wr64 m (word_addr bal_values (2 * k))
              (bits_of (real_of (rd64 m (word_addr in_knl_it k)) / Math_factorial (of_nat k)))) [0..<nat (order + 1)] m, 0)
         else (m, - 1))"

definition RFMultipole_set_ksl_value :: "(real \<Rightarrow> u64) \<Rightarrow> mem \<Rightarrow> u64 \<Rightarrow> i64 \<Rightarrow> real \<Rightarrow> mem \<times> arch_status" where
  "RFMultipole_set_ksl_value bits_of m mpole ksl_index ksl_value =
     (let bal_values = RFMultipole_bal_begin m mpole; bal_index = u64_of (2 * ksl_index + 1)
      in if bal_values \<noteq> 0 \<and> ksl_index \<ge> 0 \<and> ksl_index \<ge> RFMultipole_order_in m mpole \<and> bal_index < RFMultipole_length_in m mpole then
           (wr64 m (bal_values + 8 * bal_index) (bits_of (ksl_value / Math_factorial (u64_of ksl_index))), 0)
         else (m, - 1))"

text \<open>The loops over the skew components start with component 1 at index 0, where the normal component 0 is.\<close>

definition RFMultipole_set_all_ksl_values :: "(real \<Rightarrow> u64) \<Rightarrow> mem \<Rightarrow> u64 \<Rightarrow> real \<Rightarrow> mem \<times> arch_status" where
  "RFMultipole_set_all_ksl_values bits_of m mpole ksl_value =
     (let bal_values = RFMultipole_bal_begin m mpole; order = RFMultipole_order_in m mpole
      in if bal_values \<noteq> 0 then
           (fold (\<lambda>k m. wr64 m (word_addr bal_values (2 * k)) (bits_of (ksl_value / Math_factorial (of_nat (k + 1))))) [0..<nat order] m, 0)
         else (m, - 1))"

definition RFMultipole_set_ksl :: "(u64 \<Rightarrow> real) \<Rightarrow> (real \<Rightarrow> u64) \<Rightarrow> mem \<Rightarrow> u64 \<Rightarrow> u64 \<Rightarrow> mem \<times> arch_status" where
  "RFMultipole_set_ksl real_of bits_of m mpole in_ksl_it =
     (let bal_values = RFMultipole_bal_begin m mpole; order = RFMultipole_order_in m mpole
      in if bal_values \<noteq> 0 \<and> in_ksl_it \<noteq> 0 then
           (fold (\<lambda>k m. wr64 m (word_addr bal_values (2 * k))
              (bits_of (real_of (rd64 m (word_addr in_ksl_it k)) / Math_factorial (of_nat (k + 1))))) [0..<nat order] m, 0)
         else (m, - 1))"

subsection \<open>Writing phases\<close>

definition RFMultipole_set_phase_value :: "(real \<Rightarrow> u64) \<Rightarrow> mem \<Rightarrow> u64 \<Rightarrow> u64 \<Rightarrow> real \<Rightarrow> mem \<times> arch_status" where
  "RFMultipole_set_phase_value bits_of m mpole phase_index phase_value =
     (wr64 m (RFMultipole_phase_begin m mpole + 8 * phase_index) (bits_of phase_value), 0)"

definition RFMultipole_set_all_phase_values :: "(real \<Rightarrow> u64) \<Rightarrow> mem \<Rightarrow> u64 \<Rightarrow> real \<Rightarrow> mem \<times> arch_status" where
  "RFMultipole_set_all_phase_values bits_of m mpole phase_value =
     (let phase_it = RFMultipole_phase_begin m mpole; phase_end = RFMultipole_phase_end m mpole
      in (fold (\<lambda>k m. wr64 m (word_addr phase_it k) (bits_of phase_value)) [0..<words_between phase_it phase_end] m, 0))"

text \<open>This function writes the coefficients.\<close>

definition RFMultipole_set_phase :: "mem \<Rightarrow> u64 \<Rightarrow> u64 \<Rightarrow> mem \<times> arch_status" where
  "RFMultipole_set_phase m mpole in_phase_it =
     (let phase_it = RFMultipole_bal_begin m mpole; phase_end = RFMultipole_bal_end m mpole
      in if phase_it \<noteq> 0 \<and> phase_end \<noteq> 0 \<and> phase_it \<le> phase_end \<and> in_phase_it \<noteq> 0 then
           (fold (\<lambda>k m. wr64 m (word_addr phase_it k) (rd64 m (word_addr in_phase_it k))) [0..<words_between phase_it phase_end] m, 0)
         else (m, - 1))"

definition RFMultipole_set_phase_n_value :: "(real \<Rightarrow> u64) \<Rightarrow> mem \<Rightarrow> u64 \<Rightarrow> i64 \<Rightarrow> real \<Rightarrow> mem \<times> arch_status" where
  "RFMultipole_set_phase_n_value bits_of m mpole pn_index pn_value =
     (let phase_values = RFMultipole_phase_begin m mpole; phase_index = u64_of (2 * pn_index)
      in if phase_values \<noteq> 0 \<and> pn_index \<ge> 0 \<and> pn_index \<ge> RFMultipole_order_in m mpole \<and> phase_index < RFMultipole_length_in m mpole then
           (wr64 m (phase_values + 8 * phase_index) (bits_of pn_value), 0)
         else (m, - 1))"

text \<open>The loops that write one value to all components index by the component.\<close>

definition RFMultipole_set_all_phase_n_values :: "(real \<Rightarrow> u64) \<Rightarrow> mem \<Rightarrow> u64 \<Rightarrow> real \<Rightarrow> mem \<times> arch_status" where
  "RFMultipole_set_all_phase_n_values bits_of m mpole pn_value =
     (let phase_values = RFMultipole_phase_begin m mpole; order = RFMultipole_order_in m mpole
      in if phase_values \<noteq> 0 then
           (fold (\<lambda>k m. wr64 m (word_addr phase_values k) (bits_of pn_value)) [0..<nat (order + 1)] m, 0)
         else (m, - 1))"

definition RFMultipole_set_phase_n :: "mem \<Rightarrow> u64 \<Rightarrow> u64 \<Rightarrow> mem \<times> arch_status" where
  "RFMultipole_set_phase_n m mpole in_pn_it =
     (let phase_values = RFMultipole_phase_begin m mpole; order = RFMultipole_order_in m mpole
      in if phase_values \<noteq> 0 \<and> in_pn_it \<noteq> 0 then
           (fold (\<lambda>k m. wr64 m (word_addr phase_values (2 * k)) (rd64 m (word_addr in_pn_it k))) [0..<nat (order + 1)] m, 0)
         else (m, - 1))"

definition RFMultipole_set_phase_s_value :: "(real \<Rightarrow> u64) \<Rightarrow> mem \<Rightarrow> u64 \<Rightarrow> i64 \<Rightarrow> real \<Rightarrow> mem \<times> arch_status" where
  "RFMultipole_set_phase_s_value bits_of m mpole ps_index ps_value =
     (let phase_values = RFMultipole_phase_begin m mpole; phase_index = u64_of (2 * ps_index + 1)
      in if phase_values \<noteq> 0 \<and> ps_index \<ge> 0 \<and> ps_index \<ge> RFMultipole_order_in m mpole \<and> phase_index < RFMultipole_length_in m mpole then
           (wr64 m (phase_values + 8 * phase_index) (bits_of ps_value), 0)
         else (m, - 1))"

definition RFMultipole_set_all_phase_s_values :: "(real \<Rightarrow> u64) \<Rightarrow> mem \<Rightarrow> u64 \<Rightarrow> real \<Rightarrow> mem \<times> arch_status" where
  "RFMultipole_set_all_phase_s_values bits_of m mpole ps_value =
     (let phase_values = RFMultipole_phase_begin m mpole; order = RFMultipole_order_in m mpole
      in if phase_values \<noteq> 0 then
           (fold (\<lambda>k m. wr64 m (word_addr phase_values k) (bits_of ps_value)) [1..<nat (order + 1)] m, 0)
         else (m, - 1))"

definition RFMultipole_set_phase_s :: "mem \<Rightarrow> u64 \<Rightarrow> u64 \<Rightarrow> mem \<times> arch_status" where
  "RFMultipole_set_phase_s m mpole in_ps_it =
     (let phase_values = RFMultipole_phase_begin m mpole; order = RFMultipole_order_in m mpole
      in if phase_values \<noteq> 0 \<and> in_ps_it \<noteq> 0 then
           (fold (\<lambda>k m. wr64 m (word_addr phase_values (2 * k)) (rd64 m (word_addr in_ps_it k))) [0..<nat order] m, 0)
         else (m, - 1))"

subsection \<open>Copying\<close>

definition RFMultipole_copy_values :: "mem \<Rightarrow> u64 \<Rightarrow> u64 \<Rightarrow> u64 \<Rightarrow> mem \<times> arch_status" where
  "RFMultipole_copy_values m in_it in_end dst_it =
     (if in_it \<noteq> 0 \<and> in_end \<noteq> 0 \<and> dst_it \<noteq> 0 then
        (fold (\<lambda>k m. wr64 m (word_addr dst_it k) (rd64 m (word_addr in_it k))) [0..<words_between in_it in_end] m, 0)
      else if in_it = 0 \<and> in_end = 0 \<and> dst_it = 0 then (m, 0)
      else (m, - 1))"

definition RFMultipole_copy :: "mem \<Rightarrow> u64 \<Rightarrow> u64 \<Rightarrow> mem \<times> arch_status" where
  "RFMultipole_copy m dst src =
     (if dst \<noteq> 0 \<and> src \<noteq> 0 then
        if dst \<noteq> src \<and> RFMultipole_order_in m dst = RFMultipole_order_in m src then
          let in_bal_it = RFMultipole_const_bal_begin m src; in_bal_end = RFMultipole_const_bal_end m src;
              dst_bal_it = RFMultipole_bal_begin m dst;
              (m, status) = RFMultipole_copy_values m (RFMultipole_const_phase_begin m src) (RFMultipole_const_phase_end m src)
                (RFMultipole_phase_begin m dst);
              (m, status) = (if status = 0 then RFMultipole_copy_values m in_bal_it in_bal_end dst_bal_it else (m, status))
          in if status = 0 then
               let m = wr64 m (word_addr dst 1) (rd64 m (word_addr src 1));
                   m = wr64 m (word_addr dst 2) (rd64 m (word_addr src 2));
                   m = wr64 m (word_addr dst 3) (rd64 m (word_addr src 3))
               in (m, 0)
             else (m, status)
        else if src = dst then (m, 0)
        else (m, - 1)
      else (m, - 1))"

subsection \<open>Every other word\<close>

lemma even_loop:
  assumes "buf m0 b N F m" "fits b N" "2 * K \<le> N"
    and "\<And>k. k < K \<Longrightarrow> \<forall>F' m'. buf m0 b N F' m' \<longrightarrow> v m' k = w k"
  shows "buf m0 b N (\<lambda>x. if even x \<and> x < 2 * K then w (x div 2) else F x) (fold (\<lambda>k m. wr64 m (word_addr b (2 * k)) (v m k)) [0..<K] m)"
  using assms(3,4)
proof (induction K)
  case (Suc K)
  define m1 where "m1 = fold (\<lambda>k m. wr64 m (word_addr b (2 * k)) (v m k)) [0..<K] m"
  have m1: "buf m0 b N (\<lambda>x. if even x \<and> x < 2 * K then w (x div 2) else F x) m1"
    unfolding m1_def using Suc by simp
  then have "v m1 K = w K" using Suc.prems(2) [of K] by blast
  then have "fold (\<lambda>k m. wr64 m (word_addr b (2 * k)) (v m k)) [0..<Suc K] m = wr64 m1 (word_addr b (2 * K)) (w K)"
    by (simp add: m1_def)
  moreover have "buf m0 b N ((\<lambda>x. if even x \<and> x < 2 * K then w (x div 2) else F x)(2 * K := w K)) (wr64 m1 (word_addr b (2 * K)) (w K))"
    using Suc.prems(1) by (intro buf_write [OF m1 assms(2)]) simp
  ultimately show ?case by (auto elim!: buf_cong simp: less_Suc_eq)
qed (use assms(1) in simp)

text \<open>An RF multipole at an address, its coefficients in an array of their own elsewhere.\<close>

definition rf_values_at :: "mem \<Rightarrow> u64 \<Rightarrow> nat \<Rightarrow> u64 \<Rightarrow> bool" where
  "rf_values_at m mpole order b \<longleftrightarrow> RFMultipole_order_in m mpole = int order \<and> RFMultipole_bal_addr m mpole = b \<and> b \<noteq> 0 \<and>
     fits b (2 * order + 2) \<and> source_ok b (2 * order + 2) mpole 6"

lemma rf_values_kept:
  assumes "rf_values_at m mpole order b" "buf m b (2 * order + 2) F m'"
  shows "rf_values_at m' mpole order b"
proof -
  have out: "source_ok b (2 * order + 2) mpole 6" using assms(1) by (simp add: rf_values_at_def)
  have "rd64 m' (word_addr mpole j) = rd64 m (word_addr mpole j)" if "j < 6" for j by (rule outside_words [OF assms(2) out that])
  from this [of 0] this [of 4] show ?thesis
    using assms(1) by (simp add: rf_values_at_def RFMultipole_order_in_def RFMultipole_bal_addr_def addr_0)
qed

lemma small_index: "0 \<le> n \<Longrightarrow> u64_of n = of_nat (nat n)"
  by (simp add: u64_of_def)

lemma rf_components:
  assumes "rf_values_at m mpole order b" "n \<le> order"
  shows "RFMultipole_knl real_of m mpole (int n) = real_of (rd64 m (word_addr b (2 * n))) * Math_factorial (of_nat n)"
    "RFMultipole_ksl real_of m mpole (int n) = real_of (rd64 m (word_addr b (2 * n + 1))) * Math_factorial (of_nat n)"
  using assms small_index [of "2 * int n"] small_index [of "2 * int n + 1"] small_index [of "int n"]
  by (simp_all add: RFMultipole_knl_def RFMultipole_ksl_def RFMultipole_const_bal_begin_def rf_values_at_def word_addr_def nat_add_distrib nat_mult_distrib)

text \<open>C25: Setting all skew components of an RF multipole writes them over the normal ones, shifted by one: afterwards the
  normal component \<open>n\<close> is the given value times \<open>n! / (n + 1)!\<close>, and the skew components are what they were.\<close>

theorem skew_overwrites_normal:
  assumes "rf_values_at m mpole order b"
    and "\<forall>n<order. real_of (bits_of (v / Math_factorial (of_nat (n + 1)))) = v / Math_factorial (of_nat (n + 1))"
  shows "\<exists>m'. RFMultipole_set_all_ksl_values bits_of m mpole v = (m', 0) \<and>
    (\<forall>n<order. RFMultipole_knl real_of m' mpole (int n) = v / Math_factorial (of_nat (n + 1)) * Math_factorial (of_nat n)) \<and>
    (\<forall>n\<le>order. RFMultipole_ksl real_of m' mpole (int n) = RFMultipole_ksl real_of m mpole (int n))"
proof -
  define w where "w k = bits_of (v / Math_factorial (of_nat (k + 1)))" for k :: nat
  define m' where "m' = fold (\<lambda>k m. wr64 m (word_addr b (2 * k)) (w k)) [0..<order] m"
  have fits: "fits b (2 * order + 2)" using assms(1) by (simp add: rf_values_at_def)
  have run: "RFMultipole_set_all_ksl_values bits_of m mpole v = (m', 0)"
    using assms(1) by (simp add: RFMultipole_set_all_ksl_values_def rf_values_at_def RFMultipole_bal_begin_def m'_def w_def)
  have words: "buf m b (2 * order + 2) (\<lambda>x. if even x \<and> x < 2 * order then w (x div 2) else rd64 m (word_addr b x)) m'"
    unfolding m'_def by (rule even_loop [OF buf_self fits]) simp_all
  note new = rf_components [OF rf_values_kept [OF assms(1) words]] and old = rf_components [OF assms(1)]
  have "RFMultipole_knl real_of m' mpole (int n) = v / Math_factorial (of_nat (n + 1)) * Math_factorial (of_nat n)" if "n < order" for n
    using new(1) [of n real_of] that buf_read [OF words, of "2 * n"] assms(2) by (simp add: w_def)
  moreover have "RFMultipole_ksl real_of m' mpole (int n) = RFMultipole_ksl real_of m mpole (int n)" if "n \<le> order" for n
    using new(2) [OF that, of real_of] old(2) [OF that, of real_of] that buf_read [OF words, of "2 * n + 1"] by simp
  ultimately show ?thesis using run by blast
qed

text \<open>Normal components that are set from an array outside the multipole are read back as they were given, and the
  skew components keep their values.\<close>

theorem rf_knl_round_trip:
  assumes "rf_values_at m mpole order b" "source_ok b (2 * order + 2) values (order + 1)"
    and "\<forall>n\<le>order. real_of (bits_of (real_of (rd64 m (word_addr values n)) / Math_factorial (of_nat n))) =
      real_of (rd64 m (word_addr values n)) / Math_factorial (of_nat n)"
  shows "\<exists>m'. RFMultipole_set_knl real_of bits_of m mpole values = (m', 0) \<and>
    (\<forall>n\<le>order. RFMultipole_knl real_of m' mpole (int n) = real_of (rd64 m (word_addr values n)) \<and>
      RFMultipole_ksl real_of m' mpole (int n) = RFMultipole_ksl real_of m mpole (int n))"
proof -
  define w where "w k = bits_of (real_of (rd64 m (word_addr values k)) / Math_factorial (of_nat k))" for k :: nat
  define m' where "m' = fold (\<lambda>k m. wr64 m (word_addr b (2 * k)) (bits_of (real_of (rd64 m (word_addr values k)) / Math_factorial (of_nat k))))
    [0..<order + 1] m"
  have fits: "fits b (2 * order + 2)" using assms(1) by (simp add: rf_values_at_def)
  have "nat (int order + 1) = order + 1" by simp
  then have run: "RFMultipole_set_knl real_of bits_of m mpole values = (m', 0)"
    using assms(1,2) by (simp add: RFMultipole_set_knl_def rf_values_at_def RFMultipole_bal_begin_def m'_def source_ok_def fits_def del: upt_Suc)
  have words: "buf m b (2 * order + 2) (\<lambda>x. if even x \<and> x < 2 * (order + 1) then w (x div 2) else rd64 m (word_addr b x)) m'"
    unfolding m'_def
  proof (rule even_loop [OF buf_self fits], simp, intro allI impI)
    fix k F' m2 assume k: "k < order + 1" and "buf m b (2 * order + 2) F' m2"
    then show "bits_of (real_of (rd64 m2 (word_addr values k)) / Math_factorial (of_nat k)) = w k"
      using outside_words [of m b "2 * order + 2" F' m2, OF _ assms(2) k] by (simp add: w_def)
  qed
  note new = rf_components [OF rf_values_kept [OF assms(1) words]] and old = rf_components [OF assms(1)]
  have "RFMultipole_knl real_of m' mpole (int n) = real_of (rd64 m (word_addr values n))" if "n \<le> order" for n
    using new(1) [OF that, of real_of] that buf_read [OF words, of "2 * n"] assms(3) Math_factorial_pos [of "of_nat n"] by (simp add: w_def)
  moreover have "RFMultipole_ksl real_of m' mpole (int n) = RFMultipole_ksl real_of m mpole (int n)" if "n \<le> order" for n
    using new(2) [OF that, of real_of] old(2) [OF that, of real_of] that buf_read [OF words, of "2 * n + 1"] by simp
  ultimately show ?thesis using run by blast
qed

subsection \<open>A sample\<close>

text \<open>A multipole of order 1 at 4096 with its coefficients at 8192, two numbers at 16384.\<close>

definition sample_rf :: mem where
  "sample_rf = write_words (write_words (\<lambda>_. 0) 4096 [1, 0, 0, 0, 8192, 0]) 16384 [5, 7]"

lemma sample_rf:
  "rf_values_at sample_rf 4096 1 8192" "source_ok 8192 (2 * 1 + 2) 16384 (1 + 1)"
  "rd64 sample_rf (word_addr 16384 0) = 5" "rd64 sample_rf (word_addr 16384 1) = 7"
proof -
  define ws vs :: "u64 list" where "ws = [1, 0, 0, 0, 8192, 0]" and "vs = [5, 7]"
  define m where "m = write_words (\<lambda>_. 0) 4096 ws"
  have f: "fits 4096 6" "fits 16384 2" by (simp_all add: fits_def)
  have len: "length ws = 6" "length vs = 2" by (simp_all add: ws_def vs_def)
  have m: "buf (\<lambda>_. 0) 4096 6 ((!) ws) m" unfolding m_def using write_words [of 4096 ws] f len by simp
  have "sample_rf = write_words m 16384 vs" by (simp only: m_def sample_rf_def ws_def vs_def)
  then have s: "buf m 16384 2 ((!) vs) sample_rf" using write_words [of 16384 vs m] f len by simp
  have out: "source_ok 16384 2 4096 6" by (simp add: source_ok_def fits_def)
  have read: "rd64 sample_rf (word_addr 4096 j) = ws ! j" if "j < 6" for j
    using outside_words [OF s out that] buf_read [OF m that] by simp
  show "rf_values_at sample_rf 4096 1 8192"
    using read [of 0] read [of 4] by (simp add: rf_values_at_def RFMultipole_order_in_def RFMultipole_bal_addr_def addr_0 fits_def source_ok_def ws_def)
  show "source_ok 8192 (2 * 1 + 2) 16384 (1 + 1)" by (simp add: source_ok_def fits_def)
  show "rd64 sample_rf (word_addr 16384 0) = 5" "rd64 sample_rf (word_addr 16384 1) = 7"
    using buf_read [OF s, of 0] buf_read [OF s, of 1] by (simp_all add: vs_def)
qed

theorem skew_overwrites_normal_witness:
  "\<exists>m'. RFMultipole_set_all_ksl_values sample_bits sample_rf 4096 6 = (m', 0) \<and> RFMultipole_knl sample_real m' 4096 0 = 6"
proof -
  have "Math_factorial 1 = 1" "Math_factorial 0 = 1" by (simp_all add: Math_factorial.simps)
  then show ?thesis
    using skew_overwrites_normal [OF sample_rf(1), of sample_real sample_bits 6] by (fastforce simp: sample_real_def sample_bits_def)
qed

theorem rf_knl_round_trip_witness:
  "\<exists>m'. RFMultipole_set_knl sample_real sample_bits sample_rf 4096 16384 = (m', 0) \<and>
    RFMultipole_knl sample_real m' 4096 0 = 5 \<and> RFMultipole_knl sample_real m' 4096 1 = 7"
proof -
  have f: "Math_factorial 1 = 1" "Math_factorial 0 = 1" by (simp_all add: Math_factorial.simps)
  have "sample_real (sample_bits (sample_real (rd64 sample_rf (word_addr 16384 n)) / Math_factorial (of_nat n))) =
      sample_real (rd64 sample_rf (word_addr 16384 n)) / Math_factorial (of_nat n)" if "n \<le> 1" for n
    using that sample_rf(3,4) f by (cases n) (simp_all add: sample_real_def sample_bits_def)
  then obtain m' where "RFMultipole_set_knl sample_real sample_bits sample_rf 4096 16384 = (m', 0)"
      "\<forall>n\<le>1. RFMultipole_knl sample_real m' 4096 (int n) = sample_real (rd64 sample_rf (word_addr 16384 n))"
    using rf_knl_round_trip [OF sample_rf(1,2), of sample_real sample_bits] by blast
  then show ?thesis using sample_rf(3,4) by (intro exI [of _ m']) (auto dest: spec [of _ 0] spec [of _ 1] simp: sample_real_def)
qed

end
