(* ===== verification/Monitor_Outputs.thy ===== *)
theory Monitor_Outputs
  imports Element_Buffers
begin

section \<open>Beam monitors and their output (be\_monitor.h, be\_monitor/output\_buffer.[ch])\<close>

text \<open>
  Finding the monitors of a lattice in memory, and giving them their output: \<open>prepare\<close> adds a particle set to the
  output buffer for every monitor that records, \<open>assign\<close> stores the addresses of these sets in the monitors. Loops
  over objects run over the entries of the table of objects. \<open>new_memory k\<close> is what \<open>malloc\<close> returns the \<open>k\<close>-th
  time, \<open>stack\<close> the place of the structures on the stack. Results through pointers are \<open>None\<close> where the code
  writes nothing.
\<close>

subsection \<open>Monitors in memory\<close>

definition monitor_at :: "mem \<Rightarrow> u64 \<Rightarrow> BeamMonitor" where
  "monitor_at m p = BeamMonitor_of (\<lambda>_. 0) (map (\<lambda>j. rd64 m (word_addr p j)) [0..<8])"

definition set_out_address_at :: "mem \<Rightarrow> u64 \<Rightarrow> u64 \<Rightarrow> mem" where
  "set_out_address_at m monitor out_address = wr64 m (word_addr monitor 3) out_address"

definition set_max_particle_id_at :: "mem \<Rightarrow> u64 \<Rightarrow> i64 \<Rightarrow> mem" where
  "set_max_particle_id_at m monitor max_particle_id = wr64 m (word_addr monitor 4) (of_int max_particle_id)"

definition set_min_particle_id_at :: "mem \<Rightarrow> u64 \<Rightarrow> i64 \<Rightarrow> mem" where
  "set_min_particle_id_at m monitor min_particle_id = wr64 m (word_addr monitor 5) (of_int min_particle_id)"

definition is_monitor_entry :: "mem \<Rightarrow> u64 \<Rightarrow> bool" where
  "is_monitor_entry m it \<longleftrightarrow> Object_get_type_id m it = OBJECT_TYPE_BEAM_MONITOR"

subsection \<open>Finding monitors\<close>

text \<open>The indices found, at most \<open>k\<close>, the entries that have not been looked at, and the status.\<close>

fun find_monitor_indices :: "mem \<Rightarrow> nat \<Rightarrow> u64 \<Rightarrow> u64 list \<Rightarrow> u64 list \<times> u64 list \<times> arch_status" where
  "find_monitor_indices m k next_index [] = ([], [], 0)"
| "find_monitor_indices m k next_index (obj_it # rest) =
     (if k = 0 then ([], obj_it # rest, 0)
      else if is_monitor_entry m obj_it \<and> Object_get_begin_addr m obj_it > 0 \<and> Object_get_size m obj_it \<ge> sizeof_BeamMonitor then
        let (indices, left, status) = find_monitor_indices m (k - 1) (next_index + 1) rest
        in (next_index # indices, left, status)
      else if is_monitor_entry m obj_it then ([], obj_it # rest, - 1)
      else find_monitor_indices m k (next_index + 1) rest)"

text \<open>\<open>given\<close> says that the array for the indices is not NULL.\<close>

definition BeamMonitor_get_beam_monitor_indices_from_index_range ::
    "mem \<Rightarrow> u64 \<Rightarrow> u64 \<Rightarrow> u64 \<Rightarrow> u64 \<Rightarrow> bool \<Rightarrow> u64 list \<times> arch_status" where
  "BeamMonitor_get_beam_monitor_indices_from_index_range m obj_it obj_end start_index max_num_of_indices given =
     (if obj_it \<noteq> 0 \<and> obj_end \<noteq> 0 \<and> obj_end \<ge> obj_it \<and> max_num_of_indices > 0 \<and> given then
        let (indices, left, status) = find_monitor_indices m (unat max_num_of_indices) start_index (index_entries obj_it obj_end)
        in (indices, if status = 0 \<and> of_nat (length indices) = max_num_of_indices \<and> left \<noteq> [] then - 1 else status)
      else ([], - 1))"

definition BeamMonitor_get_beam_monitor_indices_from_managed_buffer ::
    "mem \<Rightarrow> u64 \<Rightarrow> u64 \<Rightarrow> bool \<Rightarrow> u64 \<Rightarrow> u64 list \<times> arch_status" where
  "BeamMonitor_get_beam_monitor_indices_from_managed_buffer m buffer max_num_of_indices given slot_size =
     (if buffer \<noteq> 0 \<and> slot_size > 0 \<and> \<not> ManagedBuffer_needs_remapping m buffer slot_size \<and>
         ManagedBuffer_get_num_objects m buffer slot_size > 0 then
        BeamMonitor_get_beam_monitor_indices_from_index_range m (ManagedBuffer_get_const_objects_index_begin m buffer slot_size)
          (ManagedBuffer_get_const_objects_index_end m buffer slot_size) 0 max_num_of_indices given
      else ([], - 1))"

definition is_monitor_obj :: "mem \<Rightarrow> u64 \<Rightarrow> bool" where
  "is_monitor_obj m obj_it \<longleftrightarrow> is_monitor_entry m obj_it \<and> BeamMonitor_const_from_obj_index m obj_it \<noteq> 0"

definition BeamMonitor_are_present_in_obj_index_range :: "mem \<Rightarrow> u64 \<Rightarrow> u64 \<Rightarrow> bool" where
  "BeamMonitor_are_present_in_obj_index_range m obj_it obj_end \<longleftrightarrow>
     obj_it \<noteq> 0 \<and> obj_end \<noteq> 0 \<and> list_ex (is_monitor_obj m) (index_entries obj_it obj_end)"

definition BeamMonitor_are_present_in_managed_buffer :: "mem \<Rightarrow> u64 \<Rightarrow> u64 \<Rightarrow> bool" where
  "BeamMonitor_are_present_in_managed_buffer m buffer slot_size \<longleftrightarrow>
     BeamMonitor_are_present_in_obj_index_range m (ManagedBuffer_get_const_objects_index_begin m buffer slot_size)
       (ManagedBuffer_get_const_objects_index_end m buffer slot_size)"

definition BeamMonitor_num_monitors_in_obj_index_range :: "mem \<Rightarrow> u64 \<Rightarrow> u64 \<Rightarrow> u64" where
  "BeamMonitor_num_monitors_in_obj_index_range m obj_it obj_end =
     (if obj_it \<noteq> 0 \<and> obj_end \<noteq> 0 then of_nat (length (filter (is_monitor_obj m) (index_entries obj_it obj_end))) else 0)"

definition BeamMonitor_num_monitors_in_managed_buffer :: "mem \<Rightarrow> u64 \<Rightarrow> u64 \<Rightarrow> u64" where
  "BeamMonitor_num_monitors_in_managed_buffer m buffer slot_size =
     BeamMonitor_num_monitors_in_obj_index_range m (ManagedBuffer_get_const_objects_index_begin m buffer slot_size)
       (ManagedBuffer_get_const_objects_index_end m buffer slot_size)"

text \<open>The indices written, at most as many as there is room for, and the number of monitors.\<close>

fun monitor_indices :: "mem \<Rightarrow> u64 \<Rightarrow> u64 list \<Rightarrow> u64 list" where
  "monitor_indices m be_index [] = []"
| "monitor_indices m be_index (obj_it # rest) =
     (if is_monitor_obj m obj_it then be_index # monitor_indices m (be_index + 1) rest else monitor_indices m (be_index + 1) rest)"

definition BeamMonitor_monitor_indices_from_obj_index_range ::
    "mem \<Rightarrow> bool \<Rightarrow> u64 \<Rightarrow> u64 \<Rightarrow> u64 \<Rightarrow> u64 \<Rightarrow> u64 list \<times> u64" where
  "BeamMonitor_monitor_indices_from_obj_index_range m given max_num_of_indices obj_it obj_end start_index =
     (if obj_it \<noteq> 0 \<and> obj_end \<noteq> 0 \<and> given \<and> max_num_of_indices > 0 then
        let indices = monitor_indices m start_index (index_entries obj_it obj_end)
        in (take (unat max_num_of_indices) indices, of_nat (length indices))
      else ([], 0))"

definition BeamMonitor_monitor_indices_from_managed_buffer :: "mem \<Rightarrow> bool \<Rightarrow> u64 \<Rightarrow> u64 \<Rightarrow> u64 \<Rightarrow> u64 list \<times> u64" where
  "BeamMonitor_monitor_indices_from_managed_buffer m given max_num_of_indices buffer slot_size =
     BeamMonitor_monitor_indices_from_obj_index_range m given max_num_of_indices
       (ManagedBuffer_get_const_objects_index_begin m buffer slot_size) (ManagedBuffer_get_const_objects_index_end m buffer slot_size) 0"

definition monitor_reset_at :: "mem \<Rightarrow> u64 \<Rightarrow> mem" where
  "monitor_reset_at m monitor =
     (if monitor \<noteq> 0 then
        set_max_particle_id_at (set_min_particle_id_at (set_out_address_at m monitor 0) monitor (- 1)) monitor (- 1)
      else m)"

definition reset_monitor_entry :: "u64 \<Rightarrow> mem \<times> arch_status \<Rightarrow> mem \<times> arch_status" where
  "reset_monitor_entry obj_it r = (case r of (m, status) \<Rightarrow>
     if is_monitor_entry m obj_it then
       let be_monitor = BeamMonitor_from_obj_index m obj_it
       in (monitor_reset_at m be_monitor, if be_monitor \<noteq> 0 then status else - 1)
     else (m, status))"

definition BeamMonitor_reset_all_in_obj_index_range :: "mem \<Rightarrow> u64 \<Rightarrow> u64 \<Rightarrow> mem \<times> arch_status" where
  "BeamMonitor_reset_all_in_obj_index_range m obj_it obj_end =
     (if obj_it \<noteq> 0 \<and> obj_end \<noteq> 0 then fold reset_monitor_entry (index_entries obj_it obj_end) (m, 0) else (m, 0))"

definition BeamMonitor_reset_all_in_managed_buffer :: "mem \<Rightarrow> u64 \<Rightarrow> u64 \<Rightarrow> mem \<times> arch_status" where
  "BeamMonitor_reset_all_in_managed_buffer m buffer_begin slot_size =
     BeamMonitor_reset_all_in_obj_index_range m (ManagedBuffer_get_objects_index_begin m buffer_begin slot_size)
       (ManagedBuffer_get_objects_index_end m buffer_begin slot_size)"

definition BeamMonitor_are_present_in_buffer :: "mem \<Rightarrow> Buffer \<Rightarrow> bool" where
  "BeamMonitor_are_present_in_buffer m buffer \<longleftrightarrow>
     BeamMonitor_are_present_in_obj_index_range m (Buffer_get_objects_begin_addr buffer) (Buffer_get_objects_end_addr buffer)"

definition BeamMonitor_num_monitors_in_buffer :: "mem \<Rightarrow> Buffer \<Rightarrow> u64" where
  "BeamMonitor_num_monitors_in_buffer m buffer =
     BeamMonitor_num_monitors_in_obj_index_range m (Buffer_get_objects_begin_addr buffer) (Buffer_get_objects_end_addr buffer)"

definition BeamMonitor_monitor_indices_from_buffer :: "mem \<Rightarrow> bool \<Rightarrow> u64 \<Rightarrow> Buffer \<Rightarrow> u64 list \<times> u64" where
  "BeamMonitor_monitor_indices_from_buffer m given max_num_of_indices buffer =
     BeamMonitor_monitor_indices_from_obj_index_range m given max_num_of_indices
       (Buffer_get_objects_begin_addr buffer) (Buffer_get_objects_end_addr buffer) 0"

definition BeamMonitor_reset_all_in_buffer :: "mem \<Rightarrow> Buffer \<Rightarrow> mem \<times> arch_status" where
  "BeamMonitor_reset_all_in_buffer m buffer =
     BeamMonitor_reset_all_in_obj_index_range m (Buffer_get_objects_begin_addr buffer) (Buffer_get_objects_end_addr buffer)"

subsection \<open>The range of particle ids\<close>

definition BeamMonitor_setup_for_particles :: "mem \<Rightarrow> u64 \<Rightarrow> particles \<Rightarrow> mem \<times> arch_status" where
  "BeamMonitor_setup_for_particles m monitor p =
     (case Particles_get_min_max_particle_id_value_no_duplicate_check p (Some 0) (Some (- 1)) of
        (status, Some min_id, Some max_id) \<Rightarrow>
          if monitor \<noteq> 0 \<and> status = 0 \<and> min_id \<ge> 0 \<and> max_id \<ge> min_id then
            (set_out_address_at (set_max_particle_id_at (set_min_particle_id_at m monitor min_id) monitor max_id) monitor 0, 0)
          else (m, - 1)
      | _ \<Rightarrow> (m, - 1))"

definition setup_monitor_entry :: "i64 \<Rightarrow> i64 \<Rightarrow> u64 \<Rightarrow> mem \<Rightarrow> mem" where
  "setup_monitor_entry min_particle_id max_particle_id be_it m =
     (if is_monitor_entry m be_it then
        let monitor = Object_get_begin_addr m be_it
        in set_out_address_at (set_max_particle_id_at (set_min_particle_id_at m monitor min_particle_id) monitor max_particle_id) monitor 0
      else m)"

definition BeamMonitor_setup_managed_buffer_for_particles_all :: "mem \<Rightarrow> u64 \<Rightarrow> particles \<Rightarrow> u64 \<Rightarrow> mem \<times> arch_status" where
  "BeamMonitor_setup_managed_buffer_for_particles_all m belements p slot_size =
     (let be_it = ManagedBuffer_get_objects_index_begin m belements slot_size;
          be_end = ManagedBuffer_get_objects_index_end m belements slot_size
      in case Particles_get_min_max_particle_id_value_no_duplicate_check p (Some 0) (Some (- 1)) of
           (status, Some min_particle_id, Some max_particle_id) \<Rightarrow>
             if be_it \<noteq> 0 \<and> be_end \<noteq> 0 \<and> slot_size \<noteq> 0 \<and> status = 0 then
               (fold (setup_monitor_entry min_particle_id max_particle_id) (index_entries be_it be_end) m, 0)
             else (m, - 1)
         | _ \<Rightarrow> (m, - 1))"

definition BeamMonitor_setup_for_particles_all :: "mem \<Rightarrow> Buffer \<Rightarrow> particles \<Rightarrow> mem \<times> arch_status" where
  "BeamMonitor_setup_for_particles_all m belements_buffer p =
     BeamMonitor_setup_managed_buffer_for_particles_all m (Buffer_get_data_begin_addr belements_buffer) p
       (Buffer_get_slot_size belements_buffer)"

subsection \<open>Assigning the output\<close>

definition particles_per_turn :: "BeamMonitor \<Rightarrow> u64" where
  "particles_per_turn monitor =
     (if BeamMonitor_max_particle_id monitor \<ge> BeamMonitor_min_particle_id monitor
      then u64_of (BeamMonitor_max_particle_id monitor - BeamMonitor_min_particle_id monitor + 1) else 0)"

fun assign_outputs :: "mem \<Rightarrow> i64 \<Rightarrow> u64 \<Rightarrow> u64 \<Rightarrow> u64 list \<Rightarrow> mem \<times> arch_status" where
  "assign_outputs m first_turn_id out_it out_end [] = (m, 0)"
| "assign_outputs m first_turn_id out_it out_end (be_it # rest) =
     (let addr = Object_get_begin_addr m be_it
      in if is_monitor_entry m be_it \<and> addr \<noteq> 0 then
           let monitor = monitor_at m addr;
               nn = BeamMonitor_num_stores monitor;
               start = BeamMonitor_start monitor
           in if nn > 0 \<and> start \<ge> first_turn_id \<and> out_it \<noteq> out_end then
                let particles = BufferIndex_get_const_particles m out_it;
                    num_stored_particles = (if particles \<noteq> 0 then rd64 m particles else 0);
                    stored_particles_per_turn = particles_per_turn monitor
                in if nn > 0 \<and> stored_particles_per_turn > 0 \<and> particles \<noteq> 0 \<and>
                      stored_particles_per_turn * u64_of nn \<le> num_stored_particles then
                     assign_outputs (set_out_address_at m addr (Object_get_begin_addr m out_it)) first_turn_id
                       (out_it + sizeof_Object) out_end rest
                   else if nn > 0 \<and> stored_particles_per_turn > 0 then (m, - 1)
                   else assign_outputs m first_turn_id out_it out_end rest
              else if out_it = out_end then (m, - 1)
              else assign_outputs m first_turn_id out_it out_end rest
         else assign_outputs m first_turn_id out_it out_end rest)"

definition BeamMonitor_assign_managed_output_buffer :: "mem \<Rightarrow> u64 \<Rightarrow> u64 \<Rightarrow> i64 \<Rightarrow> u64 \<Rightarrow> u64 \<Rightarrow> mem \<times> arch_status" where
  "BeamMonitor_assign_managed_output_buffer m beam_elements out_buffer min_turn_id out_buffer_index_offset slot_size =
     (let out_it = ManagedBuffer_get_objects_index_begin m out_buffer slot_size;
          out_end = ManagedBuffer_get_objects_index_end m out_buffer slot_size;
          be_it = ManagedBuffer_get_objects_index_begin m beam_elements slot_size;
          be_end = ManagedBuffer_get_objects_index_end m beam_elements slot_size;
          out_it = out_it + sizeof_Object * out_buffer_index_offset
      in if out_end \<ge> out_it then assign_outputs m min_turn_id out_it out_end (index_entries be_it be_end) else (m, - 1))"

definition BeamMonitor_assign_output_buffer_from_offset :: "mem \<Rightarrow> Buffer \<Rightarrow> Buffer \<Rightarrow> i64 \<Rightarrow> u64 \<Rightarrow> mem \<times> arch_status" where
  "BeamMonitor_assign_output_buffer_from_offset m belements_buffer out_buffer min_turn_id out_buffer_index_offset =
     BeamMonitor_assign_managed_output_buffer m (Buffer_get_data_begin_addr belements_buffer)
       (Buffer_get_data_begin_addr out_buffer) min_turn_id out_buffer_index_offset (Buffer_get_slot_size out_buffer)"

definition BeamMonitor_assign_output_buffer :: "mem \<Rightarrow> Buffer \<Rightarrow> Buffer \<Rightarrow> i64 \<Rightarrow> u64 \<Rightarrow> mem \<times> arch_status" where
  "BeamMonitor_assign_output_buffer m belements_buffer out_buffer min_turn_id until_turn_elem_by_elem =
     (if min_turn_id \<ge> 0 \<and> until_turn_elem_by_elem > u64_of min_turn_id \<and> Buffer_get_num_of_objects m belements_buffer > 1 then
        BeamMonitor_assign_output_buffer_from_offset m belements_buffer out_buffer min_turn_id 1
      else if min_turn_id \<ge> 0 \<and> (until_turn_elem_by_elem = 0 \<or> until_turn_elem_by_elem \<le> u64_of min_turn_id) then
        BeamMonitor_assign_output_buffer_from_offset m belements_buffer out_buffer min_turn_id 0
      else (m, - 1))"

subsection \<open>What room the output needs\<close>

definition required_store_particles :: "i64 \<Rightarrow> u64 \<Rightarrow> BeamMonitor \<Rightarrow> u64" where
  "required_store_particles first_turn_id num_particles_to_store monitor =
     (let skip = BeamMonitor_skip monitor; start = BeamMonitor_start monitor; num_stores = BeamMonitor_num_stores monitor
      in if start \<ge> first_turn_id \<or> BeamMonitor_is_rolling monitor then num_particles_to_store * u64_of num_stores
         else if start < first_turn_id \<and> skip \<ge> 1 then
           let already_tracked = first_turn_id - start;
               already_stored = 1 + already_tracked div skip
           in if num_stores > already_stored then num_particles_to_store * u64_of (num_stores - already_stored) else 0
         else 0)"

definition add_requirement ::
    "mem \<Rightarrow> i64 \<Rightarrow> u64 \<Rightarrow> u64 \<Rightarrow> u64 \<Rightarrow> u64 \<times> u64 \<times> u64 \<Rightarrow> u64 \<times> u64 \<times> u64" where
  "add_requirement m first_turn_id num_particles_to_store out_buffer_slot_size be_it r = (case r of (n_objects, n_slots, n_dataptrs) \<Rightarrow>
     if is_monitor_entry m be_it \<and> Object_get_begin_addr m be_it > 0 then
       let required = required_store_particles first_turn_id num_particles_to_store (monitor_at m (Object_get_begin_addr m be_it))
       in if required > 0 then
            (n_objects + 1, n_slots + Particles_get_required_num_slots_on_managed_buffer required out_buffer_slot_size,
             n_dataptrs + Particles_get_num_dataptrs)
          else r
     else r)"

text \<open>The numbers of objects, slots, data pointers and garbage ranges.\<close>

definition BeamMonitor_calculate_output_buffer_params_detailed ::
    "mem \<Rightarrow> Buffer \<Rightarrow> i64 \<Rightarrow> i64 \<Rightarrow> i64 \<Rightarrow> u64 \<Rightarrow> (u64 \<times> u64 \<times> u64 \<times> u64) option" where
  "BeamMonitor_calculate_output_buffer_params_detailed m belements min_part_id max_part_id min_turn_id out_buffer_slot_size =
     (if min_turn_id \<ge> 0 \<and> min_part_id \<ge> 0 \<and> min_part_id \<le> max_part_id then
        let num_particles_to_store = u64_of (max_part_id - min_part_id) + 1;
            (n_objects, n_slots, n_dataptrs) =
              fold (add_requirement m min_turn_id num_particles_to_store out_buffer_slot_size) (buffer_entries belements) (0, 0, 0)
        in Some (n_objects, n_slots, n_dataptrs, 0)
      else None)"

definition id_turn_ptrs :: min_max_ptrs where
  "id_turn_ptrs = \<lparr>ptr_min_particle_id = Some 0, ptr_max_particle_id = Some 0, ptr_min_at_element = None, ptr_max_at_element = None,
     ptr_min_at_turn = Some 0, ptr_max_at_turn = None\<rparr>"

definition BeamMonitor_calculate_output_buffer_params :: "mem \<Rightarrow> Buffer \<Rightarrow> particles \<Rightarrow> u64 \<Rightarrow> (u64 \<times> u64 \<times> u64 \<times> u64) option" where
  "BeamMonitor_calculate_output_buffer_params m belements p out_buffer_slot_size =
     (let (status, q) = Particles_find_min_max_attributes p id_turn_ptrs
      in if status = 0 then
           BeamMonitor_calculate_output_buffer_params_detailed m belements (the (ptr_min_particle_id q)) (the (ptr_max_particle_id q))
             (the (ptr_min_at_turn q)) out_buffer_slot_size
         else None)"

definition BeamMonitor_calculate_output_buffer_params_for_particle_sets ::
    "mem \<Rightarrow> Buffer \<Rightarrow> Buffer \<Rightarrow> u64 list option \<Rightarrow> u64 \<Rightarrow> (u64 \<times> u64 \<times> u64 \<times> u64) option" where
  "BeamMonitor_calculate_output_buffer_params_for_particle_sets m belements pb indices out_buffer_slot_size =
     (let (status, q) = Particles_buffer_get_min_max_attributes_of_particles_set m pb indices id_turn_ptrs
      in if status = 0 then
           BeamMonitor_calculate_output_buffer_params_detailed m belements (the (ptr_min_particle_id q)) (the (ptr_max_particle_id q))
             (the (ptr_min_at_turn q)) out_buffer_slot_size
         else None)"

subsection \<open>Preparing the output buffer\<close>

fun prepare_entries ::
    "mem \<Rightarrow> u64 \<Rightarrow> (nat \<Rightarrow> u64) \<Rightarrow> MemPool \<Rightarrow> Buffer \<Rightarrow> i64 \<Rightarrow> i64 \<Rightarrow> i64 \<Rightarrow> u64 \<Rightarrow> u64 list \<Rightarrow>
     mem \<times> MemPool \<times> Buffer \<times> arch_status" where
  "prepare_entries m stack new_memory mem_pool output_buffer min_part_id max_part_id first_turn_id num_particles_per_turn [] =
     (m, mem_pool, output_buffer, 0)"
| "prepare_entries m stack new_memory mem_pool output_buffer min_part_id max_part_id first_turn_id num_particles_per_turn (be_it # rest) =
     (let addr = Object_get_begin_addr m be_it; monitor = monitor_at m addr;
          start = BeamMonitor_start monitor; nstores = BeamMonitor_num_stores monitor
      in if is_monitor_entry m be_it \<and> addr > 0 \<and> start \<ge> first_turn_id \<and> nstores > 0 then
           let num_particles_to_store = num_particles_per_turn * u64_of nstores;
               (m, mem_pool, output_buffer, particles) =
                 Particles_new m stack (new_memory 0) mem_pool output_buffer num_particles_to_store
           in if particles \<noteq> 0 then
                let m = set_min_particle_id_at m addr min_part_id;
                    m = set_max_particle_id_at m addr max_part_id;
                    m = set_out_address_at m addr 0
                in prepare_entries m stack (\<lambda>k. new_memory (Suc k)) mem_pool output_buffer min_part_id max_part_id first_turn_id
                     num_particles_per_turn rest
              else (m, mem_pool, output_buffer, - 1)
         else prepare_entries m stack new_memory mem_pool output_buffer min_part_id max_part_id first_turn_id num_particles_per_turn rest)"

text \<open>The last component is the index of the first new object.\<close>

definition BeamMonitor_prepare_output_buffer_detailed ::
    "mem \<Rightarrow> u64 \<Rightarrow> (nat \<Rightarrow> u64) \<Rightarrow> MemPool \<Rightarrow> Buffer \<Rightarrow> Buffer \<Rightarrow> i64 \<Rightarrow> i64 \<Rightarrow> i64 \<Rightarrow>
     mem \<times> MemPool \<times> Buffer \<times> arch_status \<times> u64 option" where
  "BeamMonitor_prepare_output_buffer_detailed m stack new_memory mem_pool belements output_buffer min_part_id max_part_id min_turn_id =
     (let out_buffer_index_offset = Buffer_get_num_of_objects m output_buffer
      in if min_turn_id < 0 \<or> min_part_id < 0 \<or> max_part_id < min_part_id then (m, mem_pool, output_buffer, - 1, None)
         else
           let (m, mem_pool, output_buffer, status) = prepare_entries m stack new_memory mem_pool output_buffer min_part_id max_part_id
                 min_turn_id (u64_of (1 + max_part_id - min_part_id)) (buffer_entries belements)
           in (m, mem_pool, output_buffer, status, if status = 0 then Some out_buffer_index_offset else None))"

definition BeamMonitor_prepare_output_buffer ::
    "mem \<Rightarrow> u64 \<Rightarrow> (nat \<Rightarrow> u64) \<Rightarrow> MemPool \<Rightarrow> Buffer \<Rightarrow> Buffer \<Rightarrow> particles \<Rightarrow>
     mem \<times> MemPool \<times> Buffer \<times> arch_status \<times> u64 option" where
  "BeamMonitor_prepare_output_buffer m stack new_memory mem_pool belements output_buffer p =
     (let (status, q) = Particles_get_min_max_attributes p id_turn_ptrs
      in if status = 0 then
           BeamMonitor_prepare_output_buffer_detailed m stack new_memory mem_pool belements output_buffer (the (ptr_min_particle_id q))
             (the (ptr_max_particle_id q)) (the (ptr_min_at_turn q))
         else (m, mem_pool, output_buffer, status, None))"

definition BeamMonitor_prepare_output_buffer_for_particle_sets ::
    "mem \<Rightarrow> u64 \<Rightarrow> (nat \<Rightarrow> u64) \<Rightarrow> MemPool \<Rightarrow> Buffer \<Rightarrow> Buffer \<Rightarrow> Buffer \<Rightarrow> u64 list option \<Rightarrow>
     mem \<times> MemPool \<times> Buffer \<times> arch_status \<times> u64 option" where
  "BeamMonitor_prepare_output_buffer_for_particle_sets m stack new_memory mem_pool belements output_buffer pbuffer indices =
     (let (status, q) = Particles_buffer_get_min_max_attributes_of_particles_set m pbuffer indices id_turn_ptrs
      in if status = 0 then
           BeamMonitor_prepare_output_buffer_detailed m stack new_memory mem_pool belements output_buffer (the (ptr_min_particle_id q))
             (the (ptr_max_particle_id q)) (the (ptr_min_at_turn q))
         else (m, mem_pool, output_buffer, status, None))"

end
