(* ===== verification/Monitor_Assignment.thy ===== *)
theory Monitor_Assignment
  imports Monitor_Outputs Lattice_Runs
begin

section \<open>Every recording monitor gets its own output\<close>

text \<open>
  A lattice in memory is read as the list of its monitors, \<open>None\<close> for the other elements. On these lists the two passes
  over the lattice are functions: \<open>prepared\<close> sets the range of particle ids and asks for an output of a certain size
  (\<open>requests\<close>) for each monitor that records, \<open>assigned\<close> hands out the outputs in order. The loops over the bytes of the
  lattice and the output buffer refine them.
\<close>

definition stored_monitors :: "mem \<Rightarrow> Buffer \<Rightarrow> BeamMonitor option list" where
  "stored_monitors m buffer =
     map (\<lambda>it. if is_monitor_entry m it then Some (monitor_at m (Object_get_begin_addr m it)) else None) (buffer_entries buffer)"

definition recording :: "i64 \<Rightarrow> BeamMonitor \<Rightarrow> bool" where
  "recording first_turn_id monitor \<longleftrightarrow> BeamMonitor_num_stores monitor > 0 \<and> BeamMonitor_start monitor \<ge> first_turn_id"

definition recorders :: "i64 \<Rightarrow> BeamMonitor option list \<Rightarrow> BeamMonitor list" where
  "recorders first_turn_id ms = filter (recording first_turn_id) (List.map_filter id ms)"

definition requests :: "i64 \<Rightarrow> i64 \<Rightarrow> i64 \<Rightarrow> BeamMonitor option list \<Rightarrow> nat list" where
  "requests first_turn_id min_id max_id ms =
     map (\<lambda>monitor. nat ((1 + max_id - min_id) * BeamMonitor_num_stores monitor)) (recorders first_turn_id ms)"

definition prepared :: "i64 \<Rightarrow> i64 \<Rightarrow> i64 \<Rightarrow> BeamMonitor \<Rightarrow> BeamMonitor" where
  "prepared first_turn_id min_id max_id monitor =
     (if recording first_turn_id monitor
      then monitor\<lparr>BeamMonitor_min_particle_id := min_id, BeamMonitor_max_particle_id := max_id, BeamMonitor_out_address := 0\<rparr>
      else monitor)"

fun assigned :: "i64 \<Rightarrow> BeamMonitor option list \<Rightarrow> u64 list \<Rightarrow> BeamMonitor option list" where
  "assigned first_turn_id [] as = []"
| "assigned first_turn_id (None # ms) as = None # assigned first_turn_id ms as"
| "assigned first_turn_id (Some monitor # ms) as =
     (if recording first_turn_id monitor
      then Some (monitor\<lparr>BeamMonitor_out_address := hd as\<rparr>) # assigned first_turn_id ms (tl as)
      else Some monitor # assigned first_turn_id ms as)"

text \<open>The last monitor of the lattice records, or there is none.\<close>

definition last_monitor_records :: "i64 \<Rightarrow> BeamMonitor option list \<Rightarrow> bool" where
  "last_monitor_records first_turn_id ms \<longleftrightarrow>
     (let monitors = List.map_filter id ms in monitors = [] \<or> recording first_turn_id (last monitors))"

lemma recorders_simps [simp]:
  "recorders t [] = []" "recorders t (None # ms) = recorders t ms"
  "recorders t (Some x # ms) = (if recording t x then x # recorders t ms else recorders t ms)"
  by (simp_all add: recorders_def List.map_filter_simps)

lemma requests_simps [simp]:
  "requests t lo hi [] = []" "requests t lo hi (None # ms) = requests t lo hi ms"
  "requests t lo hi (Some x # ms) =
     (if recording t x then nat ((1 + hi - lo) * BeamMonitor_num_stores x) # requests t lo hi ms else requests t lo hi ms)"
  by (simp_all add: requests_def)

lemma last_monitor_records_simps [simp]:
  "last_monitor_records t []" "last_monitor_records t (None # ms) = last_monitor_records t ms"
  "last_monitor_records t (Some x # ms) \<longleftrightarrow> (if List.map_filter id ms = [] then recording t x else last_monitor_records t ms)"
  by (simp_all add: last_monitor_records_def List.map_filter_simps)

subsection \<open>Writing to the lattice\<close>

text \<open>The monitors in the words of a buffer: long enough, and without addresses of arrays.\<close>

definition monitor_type :: "buffer_layout \<Rightarrow> (nat \<Rightarrow> u64) \<Rightarrow> nat \<Rightarrow> bool" where
  "monitor_type L f i \<longleftrightarrow> f (at_objs L + 2 + 3 * i + 1) = OBJECT_TYPE_BEAM_MONITOR"

definition monitors_in :: "buffer_layout \<Rightarrow> (nat \<Rightarrow> u64) \<Rightarrow> bool" where
  "monitors_in L f \<longleftrightarrow> (\<forall>i<num_objs L. monitor_type L f i \<longrightarrow>
     64 \<le> unat (f (at_objs L + 2 + 3 * i + 2)) \<and> (\<forall>j<8. plain L (obj_at L i + j)))"

definition monitor_words :: "buffer_layout \<Rightarrow> (nat \<Rightarrow> u64) \<Rightarrow> nat \<Rightarrow> BeamMonitor" where
  "monitor_words L f i = BeamMonitor_of (\<lambda>_. 0) (map (\<lambda>j. f (obj_at L i + j)) [0..<8])"

definition monitor_list :: "buffer_layout \<Rightarrow> (nat \<Rightarrow> u64) \<Rightarrow> BeamMonitor option list" where
  "monitor_list L f = map (\<lambda>i. if monitor_type L f i then Some (monitor_words L f i) else None) [0..<num_objs L]"

definition holds :: "Buffer \<Rightarrow> nat \<Rightarrow> nat \<Rightarrow> buffer_layout \<Rightarrow> (nat \<Rightarrow> u64) \<Rightarrow> mem \<Rightarrow> bool" where
  "holds buffer n N L f m \<longleftrightarrow> (\<exists>m0. buffer_in m0 buffer n N L f m) \<and> monitors_in L f"

lemma plain_write:
  assumes "describes b n L f" "plain L k"
  shows "describes b n L (f(k := v))"
proof -
  have d: "layout_ok n L" "ptrs_at b L f" using assms(1) by (simp_all add: describes_def)
  note B = layout_bounds [OF d(1)]
  have k: "at_slots L + 2 \<le> k" "k < at_slots L + 2 + num_slots L" using assms(2) by (simp_all add: plain_def in_slots_def)
  have "k \<noteq> ptr_at L i" if "i < num_ptrs L" for i using assms(2) that by (force simp: plain_def)
  then have "ptrs_at b L (f(k := v))" using d(2) k B by (auto simp: ptrs_at_def)
  moreover have "header_at b L (f(k := v))" "sections_ok n L (f(k := v))"
    using assms(1) k B by (auto simp: describes_def header_at_def sections_ok_def)
  moreover have "obj_words L (f(k := v)) i = obj_words L f i" for i using k B by (simp add: obj_words_def)
  then have "objects_at b L (f(k := v))" using assms(1) k B by (auto simp: describes_def objects_at_def)
  moreover have "ranges_at b L (f(k := v))" using assms(1) k B by (auto simp: describes_def ranges_at_def)
  ultimately show ?thesis using d(1) by (simp add: describes_def)
qed

lemma plain_write_buffer:
  assumes "buffer_in m0 buffer n N L f m" "plain L k"
  shows "buffer_in m0 buffer n N L (f(k := v)) (wr64 m (word_addr (bf_data_addr buffer) k) v)"
proof -
  note B = buffer_inD [OF assms(1)]
  have "k < N" using in_slots_less [OF assms(1)] assms(2) by (simp add: plain_def)
  then show ?thesis using buf_write [OF B(1,4)] plain_write [OF B(2) assms(2)] assms(1) by (simp add: buffer_in_def)
qed

text \<open>The structures of two monitors do not overlap, and neither does the table of objects.\<close>

lemma objects_in_order:
  assumes "describes b n L f" "i < j" "j < num_objs L"
  shows "obj_at L i + obj_words L f i \<le> obj_at L j"
  using assms(2,3)
proof (induction j)
  case (Suc j)
  have o: "objects_at b L f" using assms(1) by (simp add: describes_def)
  have step: "obj_at L k + obj_words L f k \<le> obj_at L (Suc k)" if "Suc k < num_objs L" for k
    using o that by (auto simp: objects_at_def dest!: spec [of _ k])
  show ?case
  proof (cases "i = j")
    case False
    then have "obj_at L i + obj_words L f i \<le> obj_at L j" using Suc by simp
    then show ?thesis using step [OF Suc.prems(2)] by simp
  qed (use step Suc.prems in simp)
qed simp

lemma monitors_disjoint:
  assumes "describes b n L f" "monitors_in L f" "i < num_objs L" "monitor_type L f i" "i' < num_objs L" "monitor_type L f i'" "i \<noteq> i'"
    and "j < 8" "j' < 8"
  shows "obj_at L i + j \<noteq> obj_at L i' + j'"
proof -
  have long: "8 \<le> obj_words L f k" if "k < num_objs L" "monitor_type L f k" for k
    using assms(2) that by (auto simp: monitors_in_def obj_words_def)
  show ?thesis
  proof (cases "i < i'")
    case True
    then show ?thesis using objects_in_order [OF assms(1) True assms(5)] long [OF assms(3,4)] assms(8) by simp
  next
    case False
    then have "i' < i" using assms(7) by simp
    then show ?thesis using objects_in_order [OF assms(1) _ assms(3)] long [OF assms(5,6)] assms(9) by fastforce
  qed
qed

lemma table_kept:
  assumes "layout_ok n L" "plain L k"
  shows "(f(k := v)) (at_objs L + 2 + x) = f (at_objs L + 2 + x)"
  using assms layout_bounds [OF assms(1)] by (simp add: plain_def in_slots_def)

lemma monitor_write:
  assumes "holds buffer n N L f m" "i < num_objs L" "monitor_type L f i" "j < 8" "b = bf_data_addr buffer"
    and "f' = f(obj_at L i + j := v)" "m' = wr64 m (word_addr (word_addr b (obj_at L i)) j) v"
  shows "holds buffer n N L f' m'" "monitor_type L f' = monitor_type L f"
    and "monitor_words L f' i = BeamMonitor_of (\<lambda>_. 0) ((map (\<lambda>j. f (obj_at L i + j)) [0..<8])[j := v])"
    and "i' < num_objs L \<Longrightarrow> monitor_type L f i' \<Longrightarrow> i' \<noteq> i \<Longrightarrow> monitor_words L f' i' = monitor_words L f i'"
    and "x < unat b \<or> unat b + 8 * N \<le> x \<Longrightarrow> m' x = m x"
proof -
  obtain m0 where B: "buffer_in m0 buffer n N L f m" and M: "monitors_in L f" using assms(1) by (auto simp: holds_def)
  have d: "describes b n L f" "layout_ok n L" using buffer_inD(2) [OF B] assms(5) by (simp_all add: describes_def)
  have p: "plain L (obj_at L i + j)" using M assms(2-4) by (simp add: monitors_in_def)
  have t: "f' (at_objs L + 2 + 3 * k + 1) = f (at_objs L + 2 + 3 * k + 1)" "f' (at_objs L + 2 + 3 * k + 2) = f (at_objs L + 2 + 3 * k + 2)" for k
    using table_kept [OF d(2) p, of f v "3 * k + 1"] table_kept [OF d(2) p, of f v "3 * k + 2"] by (simp_all add: assms(6) add.assoc)
  then show T: "monitor_type L f' = monitor_type L f" by (simp add: monitor_type_def fun_eq_iff)
  have B': "buffer_in m0 buffer n N L f' m'"
    using plain_write_buffer [OF B p, of v] by (simp add: assms(5-7) word_addr_word_addr)
  then show "holds buffer n N L f' m'" using M t T by (auto simp: holds_def monitors_in_def)
  show "monitor_words L f' i = BeamMonitor_of (\<lambda>_. 0) ((map (\<lambda>j. f (obj_at L i + j)) [0..<8])[j := v])"
    unfolding monitor_words_def using assms(4) by (intro arg_cong [of _ _ "BeamMonitor_of _"] nth_equalityI) (auto simp: assms(6) nth_list_update)
  show "monitor_words L f' i' = monitor_words L f i'" if "i' < num_objs L" "monitor_type L f i'" "i' \<noteq> i"
    unfolding monitor_words_def using monitors_disjoint [OF d(1) M that(1,2) assms(2,3) that(3) _ assms(4)]
    by (intro arg_cong [of _ _ "BeamMonitor_of _"] map_cong refl) (simp add: assms(6))
  show "m' x = m x" if "x < unat b \<or> unat b + 8 * N \<le> x"
    using buf_outside [OF buffer_inD(1) [OF B']] buf_outside [OF buffer_inD(1) [OF B]] that assms(5) by simp
qed

subsection \<open>Reading the lattice\<close>

lemma monitor_entry:
  assumes "holds buffer n N L f m" "i < num_objs L" "b = bf_data_addr buffer" "e = word_addr b (at_objs L + 2 + 3 * i)"
  shows "is_monitor_entry m e \<longleftrightarrow> monitor_type L f i" "Object_get_begin_addr m e = word_addr b (obj_at L i)"
    and "monitor_type L f i \<Longrightarrow> word_addr b (obj_at L i) \<noteq> 0"
    and "monitor_type L f i \<Longrightarrow> monitor_at m (word_addr b (obj_at L i)) = monitor_words L f i"
proof -
  obtain m0 where B: "buffer_in m0 buffer n N L f m" and M: "monitors_in L f" using assms(1) by (auto simp: holds_def)
  note E = entry_words [OF B assms(2,3), folded assms(4)]
  show "is_monitor_entry m e \<longleftrightarrow> monitor_type L f i" "Object_get_begin_addr m e = word_addr b (obj_at L i)"
    using E(1,2) by (simp_all add: is_monitor_entry_def monitor_type_def)
  assume "monitor_type L f i"
  then have p: "plain L (obj_at L i + j)" if "j < 8" for j using M assms(2) that by (simp add: monitors_in_def)
  have "in_slots L (obj_at L i)" using p [of 0] by (simp add: plain_def)
  then show "word_addr b (obj_at L i) \<noteq> 0" by (rule plain_addr [OF B assms(3)])
  show "monitor_at m (word_addr b (obj_at L i)) = monitor_words L f i"
    unfolding monitor_at_def monitor_words_def using struct_words(1) [OF B assms(3) p]
    by (intro arg_cong [of _ _ "BeamMonitor_of _"] map_cong) simp_all
qed

lemma stored_monitor_list:
  assumes "holds buffer n N L f m"
  shows "stored_monitors m buffer = monitor_list L f"
proof -
  obtain m0 where "buffer_in m0 buffer n N L f m" using assms by (auto simp: holds_def)
  then have "stored_monitors m buffer = map (\<lambda>i. if is_monitor_entry m (word_addr (bf_data_addr buffer) (at_objs L + 2 + 3 * i))
      then Some (monitor_at m (Object_get_begin_addr m (word_addr (bf_data_addr buffer) (at_objs L + 2 + 3 * i)))) else None) [0..<num_objs L]"
    by (simp add: stored_monitors_def entries)
  then show ?thesis using monitor_entry [OF assms _ refl refl] by (simp add: monitor_list_def)
qed

lemma monitor_list_length [simp]: "length (monitor_list L f) = num_objs L"
  by (simp add: monitor_list_def)

lemma monitor_list_drop:
  assumes "i < num_objs L"
  shows "drop i (monitor_list L f) = (if monitor_type L f i then Some (monitor_words L f i) else None) # drop (Suc i) (monitor_list L f)"
proof -
  have "monitor_list L f ! i = (if monitor_type L f i then Some (monitor_words L f i) else None)"
    using assms by (simp add: monitor_list_def)
  then show ?thesis using assms Cons_nth_drop_Suc [of i "monitor_list L f"] by simp
qed

lemma lattice_monitors:
  assumes "buffer_in m0 buffer n N L f m" "lattice_in L f m buffer"
  shows "holds buffer n N L f m"
proof -
  have "64 \<le> unat (f (at_objs L + 2 + 3 * i + 2)) \<and> (\<forall>j<8. plain L (obj_at L i + j))"
    if i: "i < num_objs L" and t: "monitor_type L f i" for i
  proof -
    define it where "it = word_addr (bf_data_addr buffer) (at_objs L + 2 + 3 * i)"
    have "Object_get_type_id m it = OBJECT_TYPE_BEAM_MONITOR"
      using entry_words(2) [OF assms(1) i refl] t by (simp add: it_def monitor_type_def)
    then have "entry_shape m it = (8, [])"
      by (simp add: entry_shape_def element_width_def element_attrs_def element_types)
    moreover have "catalogue m buffer ! i = (Object_get_type_id m it, entry_shape m it)"
      using i by (simp add: catalogue_def entries [OF assms(1) refl] it_def)
    ultimately have c: "catalogue m buffer ! i = (OBJECT_TYPE_BEAM_MONITOR, 8, [])"
      using \<open>Object_get_type_id m it = OBJECT_TYPE_BEAM_MONITOR\<close> by simp
    have "8 * fst (snd (catalogue m buffer ! i)) \<le> unat (f (at_objs L + 2 + 3 * i + 2))"
      "struct_in L (obj_at L i) (snd (catalogue m buffer ! i))"
      using assms(2) i by (simp_all add: lattice_in_def objects_in_def)
    then show ?thesis unfolding c by (simp add: struct_in_def)
  qed
  then show ?thesis using assms(1) by (auto simp: holds_def monitors_in_def)
qed

subsection \<open>Setting the fields of a monitor\<close>

lemma monitor_list_update:
  assumes "i < num_objs L" "monitor_type L f i" "monitor_type L f' = monitor_type L f" "monitor_words L f' i = x"
    and "\<And>i'. i' < num_objs L \<Longrightarrow> monitor_type L f i' \<Longrightarrow> i' \<noteq> i \<Longrightarrow> monitor_words L f' i' = monitor_words L f i'"
  shows "monitor_list L f' = (monitor_list L f)[i := Some x]"
  by (rule nth_equalityI) (use assms in \<open>auto simp: monitor_list_def nth_list_update\<close>)

lemma monitor_set:
  assumes "holds buffer n N L f m" "i < num_objs L" "monitor_type L f i" "j < 8" "b = bf_data_addr buffer"
    and "m' = wr64 m (word_addr (word_addr b (obj_at L i)) j) v"
  obtains f' where "holds buffer n N L f' m'" "monitor_type L f' = monitor_type L f"
    "monitor_words L f' i = BeamMonitor_of (\<lambda>_. 0) ((map (\<lambda>j. f (obj_at L i + j)) [0..<8])[j := v])"
    "monitor_list L f' = (monitor_list L f)[i := Some (monitor_words L f' i)]"
    "\<forall>x. x < unat b \<or> unat b + 8 * N \<le> x \<longrightarrow> m' x = m x"
proof -
  note W = monitor_write [OF assms(1-5) refl assms(6)]
  show thesis by (rule that [OF W(1-3) monitor_list_update [OF assms(2,3) W(2) refl W(4)]]) (use W(5) in auto)
qed

lemma small_id: "0 \<le> x \<Longrightarrow> x < 2 ^ 63 \<Longrightarrow> sint (of_int x :: u64) = x"
  by (simp add: signed_of_int signed_take_bit_int_eq_self)

lemma set_out_address:
  assumes "holds buffer n N L f m" "i < num_objs L" "monitor_type L f i" "b = bf_data_addr buffer"
  obtains f' where "holds buffer n N L f' (set_out_address_at m (word_addr b (obj_at L i)) a)"
    "monitor_list L f' = (monitor_list L f)[i := Some (monitor_words L f i\<lparr>BeamMonitor_out_address := a\<rparr>)]"
    "\<forall>x. x < unat b \<or> unat b + 8 * N \<le> x \<longrightarrow> set_out_address_at m (word_addr b (obj_at L i)) a x = m x"
    "monitor_type L f' = monitor_type L f" "monitor_words L f' i = monitor_words L f i\<lparr>BeamMonitor_out_address := a\<rparr>"
proof -
  define m' where "m' = set_out_address_at m (word_addr b (obj_at L i)) a"
  obtain f' where F: "holds buffer n N L f' m'" "monitor_type L f' = monitor_type L f"
      "monitor_words L f' i = BeamMonitor_of (\<lambda>_. 0) ((map (\<lambda>j. f (obj_at L i + j)) [0..<8])[3 := a])"
      "monitor_list L f' = (monitor_list L f)[i := Some (monitor_words L f' i)]"
      "\<forall>x. x < unat b \<or> unat b + 8 * N \<le> x \<longrightarrow> m' x = m x"
    by (rule monitor_set [OF assms(1-3) _ assms(4) m'_def [unfolded set_out_address_at_def]]) simp_all
  have w: "monitor_words L f' i = monitor_words L f i\<lparr>BeamMonitor_out_address := a\<rparr>"
    unfolding F(3) by (simp add: monitor_words_def BeamMonitor_of_def del: upt_rec_numeral)
  show thesis by (rule that [OF F(1) [unfolded m'_def] _ F(5) [unfolded m'_def] F(2) w]) (simp add: F(4) w)
qed

lemma set_ids:
  assumes "holds buffer n N L f m" "i < num_objs L" "monitor_type L f i" "b = bf_data_addr buffer"
    and "0 \<le> lo" "lo < 2 ^ 63" "0 \<le> hi" "hi < 2 ^ 63" "p = word_addr b (obj_at L i)"
    and "m' = set_out_address_at (set_max_particle_id_at (set_min_particle_id_at m p lo) p hi) p 0"
  obtains f' where "holds buffer n N L f' m'"
    "monitor_list L f' = (monitor_list L f)[i := Some (monitor_words L f i
       \<lparr>BeamMonitor_min_particle_id := lo, BeamMonitor_max_particle_id := hi, BeamMonitor_out_address := 0\<rparr>)]"
    "\<forall>x. x < unat b \<or> unat b + 8 * N \<le> x \<longrightarrow> m' x = m x"
proof -
  define m1 where "m1 = set_min_particle_id_at m p lo"
  define m2 where "m2 = set_max_particle_id_at m1 p hi"
  obtain f1 where F: "holds buffer n N L f1 m1" "monitor_type L f1 = monitor_type L f"
      "monitor_words L f1 i = BeamMonitor_of (\<lambda>_. 0) ((map (\<lambda>j. f (obj_at L i + j)) [0..<8])[5 := of_int lo])"
      "monitor_list L f1 = (monitor_list L f)[i := Some (monitor_words L f1 i)]" "\<forall>x. x < unat b \<or> unat b + 8 * N \<le> x \<longrightarrow> m1 x = m x"
    by (rule monitor_set [OF assms(1-3) _ assms(4) m1_def [unfolded set_min_particle_id_at_def assms(9)]]) auto
  have t1: "monitor_type L f1 i" using F(2) assms(3) by simp
  obtain f2 where G: "holds buffer n N L f2 m2" "monitor_type L f2 = monitor_type L f1"
      "monitor_words L f2 i = BeamMonitor_of (\<lambda>_. 0) ((map (\<lambda>j. f1 (obj_at L i + j)) [0..<8])[4 := of_int hi])"
      "monitor_list L f2 = (monitor_list L f1)[i := Some (monitor_words L f2 i)]" "\<forall>x. x < unat b \<or> unat b + 8 * N \<le> x \<longrightarrow> m2 x = m1 x"
    by (rule monitor_set [OF F(1) assms(2) t1 _ assms(4) m2_def [unfolded set_max_particle_id_at_def assms(9)]]) auto
  have w1: "monitor_words L f1 i = monitor_words L f i\<lparr>BeamMonitor_min_particle_id := lo\<rparr>"
    unfolding F(3) using small_id [OF assms(5,6)] by (simp add: monitor_words_def BeamMonitor_of_def del: upt_rec_numeral)
  have w2: "monitor_words L f2 i = monitor_words L f1 i\<lparr>BeamMonitor_max_particle_id := hi\<rparr>"
    unfolding G(3) using small_id [OF assms(7,8)] by (simp add: monitor_words_def BeamMonitor_of_def del: upt_rec_numeral)
  obtain f3 where H: "holds buffer n N L f3 m'"
      "monitor_list L f3 = (monitor_list L f2)[i := Some (monitor_words L f2 i\<lparr>BeamMonitor_out_address := 0\<rparr>)]"
      "\<forall>x. x < unat b \<or> unat b + 8 * N \<le> x \<longrightarrow> m' x = m2 x"
    unfolding assms(10,9) m1_def [unfolded assms(9), symmetric] m2_def [unfolded assms(9), symmetric]
    by (rule set_out_address [OF G(1) assms(2) _ assms(4)]) (use G(2) t1 in auto)
  show thesis
    by (rule that [OF H(1)]) (use H(2,3) G(4,5) F(4,5) w1 w2 in simp_all)
qed

subsection \<open>The output buffer\<close>

definition outputs :: "Buffer \<Rightarrow> nat \<Rightarrow> nat \<Rightarrow> buffer_layout \<Rightarrow> (nat \<Rightarrow> u64) \<Rightarrow> nat list \<Rightarrow> mem \<Rightarrow> bool" where
  "outputs buffer n N L f ns m \<longleftrightarrow> (\<exists>m0. buffer_in m0 buffer n N L f m) \<and> full_access buffer \<and> particle_buffer L f ns"

text \<open>Room for particle sets of these sizes.\<close>

definition output_room :: "buffer_layout \<Rightarrow> nat list \<Rightarrow> bool" where
  "output_room L ks \<longleftrightarrow> 0 \<notin> set ks \<and> num_slots L + sum_list (map (\<lambda>k. 22 + 21 * k) ks) + 2 \<le> max_slots L \<and>
     3 * (num_objs L + length ks) + 2 \<le> max_objs L \<and> num_ptrs L + 21 * length ks + 2 \<le> max_ptrs L"

lemma output_room_Cons:
  assumes "output_room L (k # ks)"
  shows "particle_room L k" "output_room (added_set_layout L k) ks"
proof -
  have "length (zip (map (\<lambda>a. slots_end L + fst a) (particle_attrs k)) (attr_dests (particle_attrs k) (slots_end L + 22))) = 21"
    by (simp add: particle_attrs)
  then show "particle_room L k" "output_room (added_set_layout L k) ks"
    using assms by (simp_all add: output_room_def particle_room_def added_layout_def particle_attrs)
qed

lemma outputs_elsewhere:
  assumes "outputs buffer n N L f ns m" "\<And>i. unat (bf_data_addr buffer) \<le> i \<Longrightarrow> i < unat (bf_data_addr buffer) + 8 * N \<Longrightarrow> m' i = m i"
  shows "outputs buffer n N L f ns m'"
  using assms buffer_in_rebase [of _ buffer n N L f m m'] unfolding outputs_def by blast

lemma holds_elsewhere:
  assumes "holds buffer n N L f m" "\<And>i. unat (bf_data_addr buffer) \<le> i \<Longrightarrow> i < unat (bf_data_addr buffer) + 8 * N \<Longrightarrow> m' i = m i"
  shows "holds buffer n N L f m'"
  using assms buffer_in_rebase [of _ buffer n N L f m m'] unfolding holds_def by blast

lemma new_output:
  assumes "outputs buffer n N L f ns m" "particle_room L k" "b = bf_data_addr buffer" "source_ok b N stack 22"
  shows "\<exists>m' buffer' f' p. Particles_new m stack new_memory mem_pool buffer (of_nat k) = (m', mem_pool, buffer', p) \<and> p \<noteq> 0 \<and>
    outputs buffer' n N (added_set_layout L k) f' (ns @ [k]) m' \<and> bf_data_addr buffer' = b \<and> same_elsewhere b N stack m m'"
proof -
  obtain m0 where B: "buffer_in m0 buffer n N L f m" "full_access buffer" "particle_buffer L f ns" using assms(1) by (auto simp: outputs_def)
  define m1 where "m1 = wr64 (Particles_preset m stack) stack (of_nat k)"
  have "fits stack 22" using assms(4) by (simp add: source_ok_def)
  from zero_then_count [OF this]
  have stack: "buf m stack 22 ((!) (of_nat k # replicate 21 0)) m1" unfolding m1_def .
  obtain m' buffer' f' where A: "Buffer_add_object m1 new_memory mem_pool buffer stack sizeof_Particles OBJECT_TYPE_PARTICLE
        (particles_attributes (of_nat k)) = (m', mem_pool, buffer', word_addr b (objs_end L))"
      "Object_get_begin_addr m' (word_addr b (objs_end L)) = word_addr b (slots_end L)"
      "buffer_in m1 buffer' n N (added_set_layout L k) f' m'" "full_access buffer'"
      "particle_buffer (added_set_layout L k) f' (ns @ [k])" "bf_data_addr buffer' = b"
    using add_set_from_stack [OF B assms(2-4) stack, where real_of = "\<lambda>_. 0"] by fastforce
  have "obj_at (added_set_layout L k) (num_objs L) = slots_end L" by (simp add: nth_append)
  moreover have "in_slots (added_set_layout L k) (slots_end L)" by (simp add: in_slots_def particle_attrs)
  ultimately have "word_addr b (slots_end L) \<noteq> 0" using plain_addr [OF A(3) A(6) [symmetric]] by simp
  moreover have "Particles_new m stack new_memory mem_pool buffer (of_nat k) = (m', mem_pool, buffer', word_addr b (slots_end L))"
    unfolding Particles_new_def m1_def [symmetric] Let_def A(1) prod.case A(2) ..
  ultimately show ?thesis using A(3-6) same_elsewhere_through [OF stack A(3,6)] unfolding outputs_def by blast
qed

subsection \<open>Preparing\<close>

lemma prepared_id [simp]: "\<not> recording t x \<Longrightarrow> prepared t lo hi x = x"
  by (simp add: prepared_def)

lemma requested_number:
  assumes "0 \<le> lo" "lo \<le> hi"
  shows "u64_of (1 + hi - lo) * u64_of x = of_int ((1 + hi - lo) * x)"
  by (simp add: u64_of_def)

lemma prepare_loop:
  assumes "holds lattice n N L f m" "outputs outb n' N' L' f' ns m" "b = bf_data_addr lattice" "b' = bf_data_addr outb"
    and "unat b + 8 * N \<le> unat b' \<or> unat b' + 8 * N' \<le> unat b" "source_ok b' N' stack 22" "source_ok b N stack 22"
    and "0 \<le> lo" "lo \<le> hi" "hi < 2 ^ 63" "i \<le> num_objs L"
    and "output_room L' (requests t lo hi (drop i (monitor_list L f)))"
  shows "\<exists>m2 outb' f2 L2 f2'. prepare_entries m stack new_memory mem_pool outb lo hi t (u64_of (1 + hi - lo))
        (map (\<lambda>i. word_addr b (at_objs L + 2 + 3 * i)) [i..<num_objs L]) = (m2, mem_pool, outb', 0) \<and>
    holds lattice n N L f2 m2 \<and> bf_data_addr outb' = b' \<and>
    monitor_list L f2 = take i (monitor_list L f) @ map (map_option (prepared t lo hi)) (drop i (monitor_list L f)) \<and>
    outputs outb' n' N' L2 f2' (ns @ requests t lo hi (drop i (monitor_list L f))) m2"
  using assms(1,2,4,11,12)
proof (induction "num_objs L - i" arbitrary: i f m outb L' f' ns new_memory)
  case 0
  then have "i = num_objs L" by simp
  then show ?case using 0 by auto
next
  case (Suc d)
  have i: "i < num_objs L" using Suc.hyps(2) by simp
  define e where "e = word_addr b (at_objs L + 2 + 3 * i)"
  define p where "p = word_addr b (obj_at L i)"
  define x where "x = monitor_words L f i"
  note E = monitor_entry [OF Suc.prems(1) i assms(3) e_def, folded p_def x_def]
  note D = monitor_list_drop [OF i, of f, folded x_def]
  have d: "d = num_objs L - Suc i" using Suc.hyps(2) by simp
  have run: "map (\<lambda>i. word_addr b (at_objs L + 2 + 3 * i)) [i..<num_objs L] = e # map (\<lambda>i. word_addr b (at_objs L + 2 + 3 * i)) [Suc i..<num_objs L]"
    using i by (simp add: upt_conv_Cons e_def)
  have take: "take (Suc i) (monitor_list L g) = take i (monitor_list L g) @ [monitor_list L g ! i]" for g
    using i by (simp add: take_Suc_conv_app_nth)
  have nth: "monitor_list L f ! i = (if monitor_type L f i then Some x else None)" using i by (simp add: monitor_list_def x_def)
  show ?case
  proof (cases "monitor_type L f i \<and> recording t x")
    case True
    define k where "k = nat ((1 + hi - lo) * BeamMonitor_num_stores x)"
    have r: "requests t lo hi (drop i (monitor_list L f)) = k # requests t lo hi (drop (Suc i) (monitor_list L f))"
      using True by (simp add: D k_def)
    have k: "u64_of (1 + hi - lo) * u64_of (BeamMonitor_num_stores x) = of_nat k"
      using requested_number [OF assms(8,9)] True assms(8,9) by (simp add: k_def recording_def)
    note room = output_room_Cons [OF Suc.prems(5) [unfolded r]]
    obtain m1 outb1 f1 q where P: "Particles_new m stack (new_memory 0) mem_pool outb (of_nat k) = (m1, mem_pool, outb1, q)" "q \<noteq> 0"
        "outputs outb1 n' N' (added_set_layout L' k) f1 (ns @ [k]) m1" "bf_data_addr outb1 = b'" "same_elsewhere b' N' stack m m1"
      using new_output [OF Suc.prems(2) room(1) Suc.prems(3) assms(6), of "new_memory 0" mem_pool] by blast
    have h1: "holds lattice n N L f m1"
      using P(5) assms(3,5,7) by (intro holds_elsewhere [OF Suc.prems(1)]) (auto simp: same_elsewhere_def source_ok_def)
    define m2 where "m2 = set_out_address_at (set_max_particle_id_at (set_min_particle_id_at m1 p lo) p hi) p 0"
    have ids: "lo < 2 ^ 63" "0 \<le> hi" and t: "monitor_type L f i" using assms(8-10) True by simp_all
    obtain g where G: "holds lattice n N L g m2" "monitor_list L g = (monitor_list L f)[i := Some (prepared t lo hi x)]"
        "\<forall>z. z < unat b \<or> unat b + 8 * N \<le> z \<longrightarrow> m2 z = m1 z"
      by (rule set_ids [OF h1 i t assms(3,8) ids assms(10) p_def m2_def]) (use True in \<open>simp add: prepared_def x_def\<close>)
    have out: "outputs outb1 n' N' (added_set_layout L' k) f1 (ns @ [k]) m2"
      using G(3) assms(5) P(4) by (intro outputs_elsewhere [OF P(3)]) auto
    have rest: "drop (Suc i) (monitor_list L g) = drop (Suc i) (monitor_list L f)" by (simp add: G(2))
    from Suc.hyps(1) [OF d G(1) out P(4) [symmetric], of "\<lambda>k. new_memory (Suc k)"] i room(2)
    obtain m3 outb' f2 L2 f2' where IH: "prepare_entries m2 stack (\<lambda>k. new_memory (Suc k)) mem_pool outb1 lo hi t (u64_of (1 + hi - lo))
          (map (\<lambda>i. word_addr b (at_objs L + 2 + 3 * i)) [Suc i..<num_objs L]) = (m3, mem_pool, outb', 0)"
        "holds lattice n N L f2 m3" "bf_data_addr outb' = b'"
        "monitor_list L f2 = take (Suc i) (monitor_list L g) @ map (map_option (prepared t lo hi)) (drop (Suc i) (monitor_list L f))"
        "outputs outb' n' N' L2 f2' ((ns @ [k]) @ requests t lo hi (drop (Suc i) (monitor_list L f))) m3"
      unfolding rest by auto
    have all: "prepare_entries m stack new_memory mem_pool outb lo hi t (u64_of (1 + hi - lo))
        (map (\<lambda>i. word_addr b (at_objs L + 2 + 3 * i)) [i..<num_objs L]) = (m3, mem_pool, outb', 0)"
      unfolding run using True E P(1,2) IH(1) by (simp add: recording_def k Let_def word_neq_0_conv flip: m2_def)
    have "take (Suc i) (monitor_list L g) = take i (monitor_list L f) @ [Some (prepared t lo hi x)]"
      using i unfolding G(2) by (simp add: take_Suc_conv_app_nth)
    then have "monitor_list L f2 = take i (monitor_list L f) @ map (map_option (prepared t lo hi)) (drop i (monitor_list L f))"
      using IH(4) True by (simp add: D)
    moreover have "outputs outb' n' N' L2 f2' (ns @ requests t lo hi (drop i (monitor_list L f))) m3" using IH(5) by (simp add: r)
    ultimately show ?thesis using IH(2,3) all by blast
  next
    case False
    then have r: "requests t lo hi (drop i (monitor_list L f)) = requests t lo hi (drop (Suc i) (monitor_list L f))" by (simp add: D)
    have same: "map_option (prepared t lo hi) (monitor_list L f ! i) = monitor_list L f ! i" using False by (auto simp: nth)
    from Suc.hyps(1) [OF d Suc.prems(1-3), of new_memory] i Suc.prems(5) [unfolded r]
    obtain m3 outb' f2 L2 f2' where IH: "prepare_entries m stack new_memory mem_pool outb lo hi t (u64_of (1 + hi - lo))
          (map (\<lambda>i. word_addr b (at_objs L + 2 + 3 * i)) [Suc i..<num_objs L]) = (m3, mem_pool, outb', 0)"
        "holds lattice n N L f2 m3" "bf_data_addr outb' = b'"
        "monitor_list L f2 = take (Suc i) (monitor_list L f) @ map (map_option (prepared t lo hi)) (drop (Suc i) (monitor_list L f))"
        "outputs outb' n' N' L2 f2' (ns @ requests t lo hi (drop (Suc i) (monitor_list L f))) m3"
      by auto
    have all: "prepare_entries m stack new_memory mem_pool outb lo hi t (u64_of (1 + hi - lo))
        (map (\<lambda>i. word_addr b (at_objs L + 2 + 3 * i)) [i..<num_objs L]) = (m3, mem_pool, outb', 0)"
      unfolding run using False E IH(1) by (auto simp: recording_def Let_def)
    have "monitor_list L f2 = take i (monitor_list L f) @ map (map_option (prepared t lo hi)) (drop i (monitor_list L f))"
      using IH(4) same i by (simp add: take flip: Cons_nth_drop_Suc)
    then show ?thesis using IH(2,3,5) all unfolding r by blast
  qed
qed

subsection \<open>Assigning\<close>

lemma output_entry:
  assumes "outputs outb n N L f ns m" "r < length ns" "b = bf_data_addr outb" "e = word_addr b (at_objs L + 2 + 3 * r)"
  shows "BufferIndex_get_const_particles m e = word_addr b (obj_at L r)" "word_addr b (obj_at L r) \<noteq> 0"
    "Object_get_begin_addr m e = word_addr b (obj_at L r)" "rd64 m (word_addr b (obj_at L r)) = of_nat (ns ! r)"
    "e + sizeof_Object = word_addr b (at_objs L + 2 + 3 * Suc r)" "r < num_objs L"
    "e \<noteq> word_addr b (at_objs L + 2 + 3 * length ns)"
proof -
  obtain m0 where B: "buffer_in m0 outb n N L f m" "particle_buffer L f ns" using assms(1) by (auto simp: outputs_def)
  have len: "length ns = num_objs L" using B(2) by (simp add: particle_buffer_def)
  then show r: "r < num_objs L" using assms(2) by simp
  note P = particle_entries [OF B r assms(4) [unfolded assms(3)]]
  show a: "Object_get_begin_addr m e = word_addr b (obj_at L r)" using entry_words(1) [OF B(1) r assms(3)] assms(4) by simp
  then show "BufferIndex_get_const_particles m e = word_addr b (obj_at L r)" "word_addr b (obj_at L r) \<noteq> 0" using P(2,5) by simp_all
  show "rd64 m (word_addr b (obj_at L r)) = of_nat (ns ! r)"
    using set_words(1) [OF B(1) _ assms(3)] B(2) r by (simp add: particle_buffer_def)
  show "e + sizeof_Object = word_addr b (at_objs L + 2 + 3 * Suc r)" by (simp add: assms(4) word_addr_def sizeof_Object_def algebra_simps)
  note D = buffer_inD [OF B(1), folded assms(3)]
  have "layout_ok n L" using D(2) by (simp add: describes_def)
  then have "at_objs L + 2 + 3 * num_objs L < N" using layout_bounds [of n L] D(3) by simp
  then show "e \<noteq> word_addr b (at_objs L + 2 + 3 * length ns)"
    using r len addr_inj [OF D(4), of "at_objs L + 2 + 3 * r" "at_objs L + 2 + 3 * num_objs L"] by (simp add: assms(4))
qed

lemma no_recorders_assigned: "recorders t ms = [] \<Longrightarrow> assigned t ms as = ms"
  by (induction t ms as rule: assigned.induct) (simp_all split: if_splits)

lemma last_monitor_records_recorders: "last_monitor_records t ms \<Longrightarrow> recorders t ms = [] \<Longrightarrow> List.map_filter id ms = []"
  by (auto simp: last_monitor_records_def recorders_def filter_empty_conv Let_def dest: last_in_set)

lemma requests_of_recorders:
  "\<forall>x\<in>set (recorders t ms). BeamMonitor_min_particle_id x = lo \<and> BeamMonitor_max_particle_id x = hi \<Longrightarrow> lo \<le> hi \<Longrightarrow> hi < 2 ^ 63 \<Longrightarrow> 0 \<le> lo \<Longrightarrow>
   x \<in> set (recorders t ms) \<Longrightarrow> particles_per_turn x = u64_of (1 + hi - lo) \<and> particles_per_turn x > 0 \<and>
   particles_per_turn x * u64_of (BeamMonitor_num_stores x) = of_nat (nat ((1 + hi - lo) * BeamMonitor_num_stores x))"
proof -
  assume a: "\<forall>x\<in>set (recorders t ms). BeamMonitor_min_particle_id x = lo \<and> BeamMonitor_max_particle_id x = hi" "lo \<le> hi" "hi < 2 ^ 63"
    "0 \<le> lo" "x \<in> set (recorders t ms)"
  have p: "particles_per_turn x = u64_of (1 + hi - lo)" using a(1,2,5) by (simp add: particles_per_turn_def algebra_simps)
  have "unat (u64_of (1 + hi - lo)) = nat (1 + hi - lo)" using a(2-4) by (intro unat_u64_of) simp_all
  then have "particles_per_turn x > 0" using a(2) unfolding p by (simp add: u64_less_nat)
  moreover have "0 < BeamMonitor_num_stores x" using a(5) by (simp add: recorders_def recording_def)
  ultimately show ?thesis using p requested_number [OF a(4,2)] a(2) by simp
qed

lemma assign_loop:
  assumes "holds lattice n N L f m" "outputs outb n' N' L' f' ns m" "b = bf_data_addr lattice" "b' = bf_data_addr outb"
    and "unat b + 8 * N \<le> unat b' \<or> unat b' + 8 * N' \<le> unat b" "0 \<le> lo" "lo \<le> hi" "hi < 2 ^ 63" "i \<le> num_objs L" "r \<le> length ns"
    and "drop r ns = requests t lo hi (drop i (monitor_list L f))"
    and "\<forall>x\<in>set (recorders t (drop i (monitor_list L f))). BeamMonitor_min_particle_id x = lo \<and> BeamMonitor_max_particle_id x = hi"
  shows "\<exists>m2 f2. assign_outputs m t (word_addr b' (at_objs L' + 2 + 3 * r)) (word_addr b' (at_objs L' + 2 + 3 * length ns))
        (map (\<lambda>i. word_addr b (at_objs L + 2 + 3 * i)) [i..<num_objs L]) =
        (m2, if last_monitor_records t (drop i (monitor_list L f)) then 0 else - 1) \<and>
    holds lattice n N L f2 m2 \<and> outputs outb n' N' L' f' ns m2 \<and>
    monitor_list L f2 = take i (monitor_list L f) @ assigned t (drop i (monitor_list L f)) (map (\<lambda>r. word_addr b' (obj_at L' r)) [r..<length ns])"
  using assms(1,2,9-12)
proof (induction "num_objs L - i" arbitrary: i f m r)
  case 0
  then have "i = num_objs L" by simp
  then show ?case using 0 by auto
next
  case (Suc d)
  have i: "i < num_objs L" using Suc.hyps(2) by simp
  define e where "e = word_addr b (at_objs L + 2 + 3 * i)"
  define p where "p = word_addr b (obj_at L i)"
  define x where "x = monitor_words L f i"
  note E = monitor_entry [OF Suc.prems(1) i assms(3) e_def, folded p_def x_def]
  note D = monitor_list_drop [OF i, of f, folded x_def]
  have d: "d = num_objs L - Suc i" using Suc.hyps(2) by simp
  define out where "out r = word_addr b' (at_objs L' + 2 + 3 * r)" for r
  define es where "es = map (\<lambda>i. word_addr b (at_objs L + 2 + 3 * i)) [Suc i..<num_objs L]"
  have run: "map (\<lambda>i. word_addr b (at_objs L + 2 + 3 * i)) [i..<num_objs L] = e # es"
    using i by (simp add: upt_conv_Cons e_def es_def)
  define as where "as r = map (\<lambda>r. word_addr b' (obj_at L' r)) [r..<length ns]" for r
  have nth: "monitor_list L f ! i = (if monitor_type L f i then Some x else None)" using i by (simp add: monitor_list_def x_def)
  note IH = Suc.hyps(1) [OF d, folded out_def es_def as_def]
  note goal = out_def [symmetric] as_def [symmetric]
  consider (other) "\<not> monitor_type L f i" | (idle) "monitor_type L f i" "\<not> recording t x" | (records) "monitor_type L f i" "recording t x"
    by blast
  then show ?case
  proof cases
    case other
    then have "assign_outputs m t (out r) (out (length ns)) (e # es) = assign_outputs m t (out r) (out (length ns)) es"
      using E(1) by (simp add: Let_def)
    moreover from IH [OF Suc.prems(1,2) _ Suc.prems(4)] other i Suc.prems(5,6)
    obtain m2 f2 where "assign_outputs m t (out r) (out (length ns)) es = (m2, if last_monitor_records t (drop (Suc i) (monitor_list L f)) then 0 else - 1)"
        "holds lattice n N L f2 m2" "outputs outb n' N' L' f' ns m2"
        "monitor_list L f2 = take (Suc i) (monitor_list L f) @ assigned t (drop (Suc i) (monitor_list L f)) (as r)"
      by (auto simp: D)
    ultimately show ?thesis unfolding run goal using other i nth by (auto simp: D take_Suc_conv_app_nth)
  next
    case idle
    show ?thesis
    proof (cases "r = length ns")
      case True
      then have "recorders t (drop i (monitor_list L f)) = []" using Suc.prems(5) by (simp add: requests_def)
      then have none: "assigned t (drop i (monitor_list L f)) (as r) = drop i (monitor_list L f)" "\<not> last_monitor_records t (drop i (monitor_list L f))"
        using no_recorders_assigned last_monitor_records_recorders [of t "drop i (monitor_list L f)"] idle by (auto simp: D List.map_filter_simps)
      have "assign_outputs m t (out r) (out (length ns)) (e # es) = (m, - 1)"
        using E idle(1) True by (simp add: Let_def)
      then show ?thesis unfolding run goal using none Suc.prems(1,2) by auto
    next
      case False
      then have r: "r < length ns" using Suc.prems(4) by simp
      note O = output_entry [OF Suc.prems(2) r assms(4) out_def]
      have "requests t lo hi (drop (Suc i) (monitor_list L f)) \<noteq> []" using Suc.prems(5) r idle by (auto simp: D)
      then have "recorders t (drop (Suc i) (monitor_list L f)) \<noteq> []" by (auto simp: requests_def)
      then have more: "List.map_filter id (drop (Suc i) (monitor_list L f)) \<noteq> []" by (auto simp: recorders_def)
      have "out r \<noteq> out (length ns)" using O(7) by (simp add: out_def)
      then have "assign_outputs m t (out r) (out (length ns)) (e # es) = assign_outputs m t (out r) (out (length ns)) es"
        using E idle by (auto simp: Let_def recording_def)
      moreover from IH [OF Suc.prems(1,2) _ Suc.prems(4)] idle i Suc.prems(5,6)
      obtain m2 f2 where "assign_outputs m t (out r) (out (length ns)) es = (m2, if last_monitor_records t (drop (Suc i) (monitor_list L f)) then 0 else - 1)"
          "holds lattice n N L f2 m2" "outputs outb n' N' L' f' ns m2"
          "monitor_list L f2 = take (Suc i) (monitor_list L f) @ assigned t (drop (Suc i) (monitor_list L f)) (as r)"
        by (auto simp: D)
      ultimately show ?thesis unfolding run goal using idle i nth more by (auto simp: D take_Suc_conv_app_nth)
    qed
  next
    case records
    have req: "drop r ns = nat ((1 + hi - lo) * BeamMonitor_num_stores x) # requests t lo hi (drop (Suc i) (monitor_list L f))"
      using Suc.prems(5) records by (simp add: D)
    then have r: "r < length ns" by (metis drop_all linorder_not_less list.distinct(1))
    note O = output_entry [OF Suc.prems(2) r assms(4) out_def]
    have "drop r ns = ns ! r # drop (Suc r) ns" using r by (simp add: Cons_nth_drop_Suc)
    then have k: "ns ! r = nat ((1 + hi - lo) * BeamMonitor_num_stores x)"
      and rest: "drop (Suc r) ns = requests t lo hi (drop (Suc i) (monitor_list L f))" using req by simp_all
    have "x \<in> set (recorders t (drop i (monitor_list L f)))" using records by (simp add: D)
    note R = requests_of_recorders [OF Suc.prems(6) assms(7,8,6) this]
    define m1 where "m1 = set_out_address_at m p (word_addr b' (obj_at L' r))"
    obtain g where G: "holds lattice n N L g m1"
        "monitor_list L g = (monitor_list L f)[i := Some (x\<lparr>BeamMonitor_out_address := word_addr b' (obj_at L' r)\<rparr>)]"
        "\<forall>z. z < unat b \<or> unat b + 8 * N \<le> z \<longrightarrow> m1 z = m z"
      unfolding m1_def p_def x_def by (rule set_out_address [OF Suc.prems(1) i records(1) assms(3)]) blast
    have out: "outputs outb n' N' L' f' ns m1"
      using G(3) assms(4,5) by (intro outputs_elsewhere [OF Suc.prems(2)]) auto
    have tail: "drop (Suc i) (monitor_list L g) = drop (Suc i) (monitor_list L f)" by (simp add: G(2))
    have "out r \<noteq> out (length ns)" using O(7) by (simp add: out_def)
    then have "assign_outputs m t (out r) (out (length ns)) (e # es) = assign_outputs m1 t (out (Suc r)) (out (length ns)) es"
      using E records O(1-5) R [THEN conjunct2] k by (simp add: Let_def recording_def m1_def out_def)
    moreover from IH [OF G(1) out _ _ _ _, of "Suc r"] i r rest Suc.prems(6) records
    obtain m2 f2 where "assign_outputs m1 t (out (Suc r)) (out (length ns)) es = (m2, if last_monitor_records t (drop (Suc i) (monitor_list L f)) then 0 else - 1)"
        "holds lattice n N L f2 m2" "outputs outb n' N' L' f' ns m2"
        "monitor_list L f2 = take (Suc i) (monitor_list L g) @ assigned t (drop (Suc i) (monitor_list L f)) (as (Suc r))"
      unfolding tail by (auto simp: D)
    moreover have "take (Suc i) (monitor_list L g) =
        take i (monitor_list L f) @ [Some (x\<lparr>BeamMonitor_out_address := word_addr b' (obj_at L' r)\<rparr>)]"
      using i unfolding G(2) by (simp add: take_Suc_conv_app_nth)
    moreover have "as r = word_addr b' (obj_at L' r) # as (Suc r)" using r by (simp add: as_def upt_conv_Cons)
    moreover have "last_monitor_records t (drop i (monitor_list L f)) = last_monitor_records t (drop (Suc i) (monitor_list L f))"
      using records by (auto simp: D last_monitor_records_def)
    ultimately show ?thesis unfolding run goal using records by (auto simp: D)
  qed
qed

subsection \<open>The output of a lattice\<close>

lemma prepared_fields [simp]:
  "BeamMonitor_num_stores (prepared t lo hi x) = BeamMonitor_num_stores x"
  "BeamMonitor_start (prepared t lo hi x) = BeamMonitor_start x" "recording t (prepared t lo hi x) = recording t x"
  by (simp_all add: prepared_def recording_def)

lemma prepared_monitors: "List.map_filter id (map (map_option (prepared t lo hi)) ms) = map (prepared t lo hi) (List.map_filter id ms)"
  by (induction ms) (auto simp: List.map_filter_simps split: option.splits)

lemma prepared_requests [simp]: "requests t lo hi (map (map_option (prepared t lo hi)) ms) = requests t lo hi ms"
  by (simp add: requests_def recorders_def prepared_monitors filter_map o_def)

lemma prepared_last [simp]: "last_monitor_records t (map (map_option (prepared t lo hi)) ms) = last_monitor_records t ms"
  by (cases "List.map_filter id ms = []") (simp_all add: last_monitor_records_def prepared_monitors last_map Let_def)

lemma prepared_ids:
  "x \<in> set (recorders t (map (map_option (prepared t lo hi)) ms)) \<Longrightarrow> BeamMonitor_min_particle_id x = lo \<and> BeamMonitor_max_particle_id x = hi"
  by (auto simp: recorders_def prepared_monitors) (simp_all add: prepared_def)

text \<open>The numbers of particles of the sets in a buffer, and the addresses of the sets.\<close>

definition output_sizes :: "mem \<Rightarrow> Buffer \<Rightarrow> u64 list" where
  "output_sizes m buffer = map (\<lambda>it. rd64 m (Object_get_begin_addr m it)) (buffer_entries buffer)"

definition output_addresses :: "mem \<Rightarrow> Buffer \<Rightarrow> u64 list" where
  "output_addresses m buffer = map (Object_get_begin_addr m) (buffer_entries buffer)"

lemma outputs_read:
  assumes "outputs buffer n N L f ns m"
  shows "output_sizes m buffer = map of_nat ns" "output_addresses m buffer = map (\<lambda>r. word_addr (bf_data_addr buffer) (obj_at L r)) [0..<length ns]"
    and "length ns = num_objs L" "Buffer_get_num_of_objects m buffer = of_nat (length ns)" "bf_slot_length buffer = 8"
    and "ManagedBuffer_get_objects_index_begin m (bf_data_addr buffer) 8 = word_addr (bf_data_addr buffer) (at_objs L + 2)"
    "ManagedBuffer_get_objects_index_end m (bf_data_addr buffer) 8 = word_addr (bf_data_addr buffer) (at_objs L + 2 + 3 * length ns)"
proof -
  obtain m0 where B: "buffer_in m0 buffer n N L f m" "particle_buffer L f ns" using assms by (auto simp: outputs_def)
  show len: "length ns = num_objs L" using B(2) by (simp add: particle_buffer_def)
  note E = output_entry [OF assms _ refl refl]
  show "output_sizes m buffer = map of_nat ns"
    unfolding output_sizes_def entries [OF B(1) refl] by (rule nth_equalityI) (use E(3,4) len in simp_all)
  show "output_addresses m buffer = map (\<lambda>r. word_addr (bf_data_addr buffer) (obj_at L r)) [0..<length ns]"
    unfolding output_addresses_def entries [OF B(1) refl] by (rule nth_equalityI) (use E(3) len in simp_all)
  show "Buffer_get_num_of_objects m buffer = of_nat (length ns)"
    using buffer_counts(2) [OF B(1), symmetric] len by simp
  show "bf_slot_length buffer = 8" by (rule buffer_inD [OF B(1)])
  show "ManagedBuffer_get_objects_index_begin m (bf_data_addr buffer) 8 = word_addr (bf_data_addr buffer) (at_objs L + 2)"
    "ManagedBuffer_get_objects_index_end m (bf_data_addr buffer) 8 = word_addr (bf_data_addr buffer) (at_objs L + 2 + 3 * length ns)"
    using managed_range(1,2) [OF B(1) refl]
    by (simp_all add: ManagedBuffer_get_objects_index_begin_def ManagedBuffer_get_objects_index_end_def len)
qed

lemma outputs_distinct:
  assumes "outputs buffer n N L f ns m"
  shows "distinct (output_addresses m buffer)"
proof -
  obtain m0 where B: "buffer_in m0 buffer n N L f m" "particle_buffer L f ns" using assms by (auto simp: outputs_def)
  note D = buffer_inD [OF B(1)]
  have less: "obj_at L r < obj_at L r'" if "r < r'" "r' < num_objs L" for r r'
  proof -
    have "f (at_objs L + 2 + 3 * r + 2) > sizeof_Particles" using B(2) that by (simp add: particle_buffer_def)
    then have "176 < unat (f (at_objs L + 2 + 3 * r + 2))" by (simp add: sizeof_Particles_def u64_less_nat)
    then have "0 < obj_words L f r" unfolding obj_words_def by linarith
    then show ?thesis using objects_in_order [OF D(2) that] by simp
  qed
  have "plain L (obj_at L r)" if "r < num_objs L" for r using B(2) that by (simp add: particle_buffer_def set_in_def)
  then have bound: "obj_at L r < N" if "r < num_objs L" for r using in_slots_less [OF B(1)] that by (simp add: plain_def)
  show ?thesis
    unfolding outputs_read(2) [OF assms] outputs_read(3) [OF assms] distinct_conv_nth
  proof (intro allI impI)
    fix r r' assume "r < length (map (\<lambda>r. word_addr (bf_data_addr buffer) (obj_at L r)) [0..<num_objs L])"
      "r' < length (map (\<lambda>r. word_addr (bf_data_addr buffer) (obj_at L r)) [0..<num_objs L])" "r \<noteq> r'"
    moreover from this have "obj_at L r \<noteq> obj_at L r'" using less [of r r'] less [of r' r] by (cases "r < r'") simp_all
    ultimately show "map (\<lambda>r. word_addr (bf_data_addr buffer) (obj_at L r)) [0..<num_objs L] ! r \<noteq>
        map (\<lambda>r. word_addr (bf_data_addr buffer) (obj_at L r)) [0..<num_objs L] ! r'"
      using addr_inj [OF D(4), of "obj_at L r" "obj_at L r'"] bound [of r] bound [of r'] by simp
  qed
qed

lemma holds_range:
  assumes "holds buffer n N L f m" "b = bf_data_addr buffer"
  shows "index_entries (ManagedBuffer_get_objects_index_begin m b 8) (ManagedBuffer_get_objects_index_end m b 8) =
      map (\<lambda>i. word_addr b (at_objs L + 2 + 3 * i)) [0..<num_objs L]"
    and "buffer_entries buffer = map (\<lambda>i. word_addr b (at_objs L + 2 + 3 * i)) [0..<num_objs L]"
proof -
  obtain m0 where B: "buffer_in m0 buffer n N L f m" using assms(1) by (auto simp: holds_def)
  show e: "buffer_entries buffer = map (\<lambda>i. word_addr b (at_objs L + 2 + 3 * i)) [0..<num_objs L]" by (rule entries [OF B assms(2)])
  show "index_entries (ManagedBuffer_get_objects_index_begin m b 8) (ManagedBuffer_get_objects_index_end m b 8) =
      map (\<lambda>i. word_addr b (at_objs L + 2 + 3 * i)) [0..<num_objs L]"
    using managed_range [OF B assms(2)] e
    by (simp add: ManagedBuffer_get_objects_index_begin_def ManagedBuffer_get_objects_index_end_def)
qed

text \<open>The first pass over the lattice.\<close>

lemma prepare_lattice:
  assumes "holds lattice n N L f m" "outputs outb n' N' L' f' ns m"
    and "unat (bf_data_addr lattice) + 8 * N \<le> unat (bf_data_addr outb) \<or> unat (bf_data_addr outb) + 8 * N' \<le> unat (bf_data_addr lattice)"
    and "source_ok (bf_data_addr outb) N' stack 22" "source_ok (bf_data_addr lattice) N stack 22"
    and "0 \<le> min_turn_id" "0 \<le> lo" "lo \<le> hi" "hi < 2 ^ 63" "output_room L' (requests min_turn_id lo hi (monitor_list L f))"
  shows "\<exists>m1 outb' f1 L1 f1'. BeamMonitor_prepare_output_buffer_detailed m stack new_memory mem_pool lattice outb lo hi min_turn_id =
        (m1, mem_pool, outb', 0, Some (of_nat (length ns))) \<and>
    holds lattice n N L f1 m1 \<and> bf_data_addr outb' = bf_data_addr outb \<and>
    monitor_list L f1 = map (map_option (prepared min_turn_id lo hi)) (monitor_list L f) \<and>
    outputs outb' n' N' L1 f1' (ns @ requests min_turn_id lo hi (monitor_list L f)) m1"
proof -
  note P = prepare_loop [OF assms(1,2) refl refl assms(3-5,7-9), of 0 min_turn_id, simplified, OF assms(10), of new_memory mem_pool]
  show ?thesis
    using P assms(6-8) outputs_read(4) [OF assms(2)] holds_range(2) [OF assms(1) refl]
    by (fastforce simp: BeamMonitor_prepare_output_buffer_detailed_def Let_def)
qed

text \<open>The second pass.\<close>

lemma assign_lattice:
  assumes "holds lattice n N L f m" "outputs outb n' N' L' f' (ns @ ks) m"
    and "unat (bf_data_addr lattice) + 8 * N \<le> unat (bf_data_addr outb) \<or> unat (bf_data_addr outb) + 8 * N' \<le> unat (bf_data_addr lattice)"
    and "0 \<le> lo" "lo \<le> hi" "hi < 2 ^ 63"
    and "monitor_list L f = map (map_option (prepared t lo hi)) ms" "ks = requests t lo hi ms"
  shows "\<exists>m2 f2. BeamMonitor_assign_output_buffer_from_offset m lattice outb t (of_nat (length ns)) =
        (m2, if last_monitor_records t ms then 0 else - 1) \<and>
    holds lattice n N L f2 m2 \<and> outputs outb n' N' L' f' (ns @ ks) m2 \<and>
    monitor_list L f2 = assigned t (map (map_option (prepared t lo hi)) ms) (drop (length ns) (output_addresses m2 outb))"
proof -
  define b' where "b' = bf_data_addr outb"
  define out where "out r = word_addr b' (at_objs L' + 2 + 3 * r)" for r
  have ids: "\<forall>x\<in>set (recorders t (drop 0 (monitor_list L f))). BeamMonitor_min_particle_id x = lo \<and> BeamMonitor_max_particle_id x = hi"
    using prepared_ids by (fastforce simp: assms(7))
  have req: "drop (length ns) (ns @ ks) = requests t lo hi (drop 0 (monitor_list L f))" by (simp add: assms(7,8))
  obtain m2 f2 where A: "assign_outputs m t (out (length ns)) (out (length (ns @ ks)))
        (map (\<lambda>i. word_addr (bf_data_addr lattice) (at_objs L + 2 + 3 * i)) [0..<num_objs L]) =
        (m2, if last_monitor_records t ms then 0 else - 1)"
      "holds lattice n N L f2 m2" "outputs outb n' N' L' f' (ns @ ks) m2"
      "monitor_list L f2 = assigned t (map (map_option (prepared t lo hi)) ms) (map (\<lambda>r. word_addr b' (obj_at L' r)) [length ns..<length (ns @ ks)])"
    using assign_loop [OF assms(1,2) refl b'_def assms(3) [folded b'_def] assms(4-6) _ _ req ids] by (auto simp: assms(7) out_def)
  have "out 0 + sizeof_Object * of_nat (length ns) = out (length ns)"
    by (simp add: out_def word_addr_def sizeof_Object_def algebra_simps)
  moreover have "out (length ns) \<le> out (length (ns @ ks))"
  proof -
    obtain m0 where B: "buffer_in m0 outb n' N' L' f' m" using assms(2) by (auto simp: outputs_def)
    note D = buffer_inD [OF B, folded b'_def]
    have "layout_ok n' L'" using D(2) by (simp add: describes_def)
    then have "at_objs L' + 2 + 3 * length (ns @ ks) < N'"
      using layout_bounds [of n' L'] D(3) outputs_read(3) [OF assms(2)] by simp
    then show ?thesis using unat_addr [OF D(4), of "at_objs L' + 2 + 3 * length ns"] unat_addr [OF D(4), of "at_objs L' + 2 + 3 * length (ns @ ks)"]
      by (simp add: out_def u64_le_nat)
  qed
  ultimately have "BeamMonitor_assign_output_buffer_from_offset m lattice outb t (of_nat (length ns)) =
      (m2, if last_monitor_records t ms then 0 else - 1)"
    using A(1) outputs_read(5-7) [OF assms(2)] holds_range(1) [OF assms(1) refl]
    by (simp add: BeamMonitor_assign_output_buffer_from_offset_def BeamMonitor_assign_managed_output_buffer_def Buffer_get_data_begin_addr_def
        Buffer_get_slot_size_def Let_def out_def flip: b'_def)
  moreover have "map (\<lambda>r. word_addr b' (obj_at L' r)) [length ns..<length (ns @ ks)] = drop (length ns) (output_addresses m2 outb)"
    by (simp add: outputs_read(2) [OF A(3)] b'_def drop_map)
  ultimately show ?thesis using A(2-4) by auto
qed

text \<open>C34: Preparing an output buffer for the monitors of a lattice and assigning it afterwards gives every recording monitor
  a particle set of its own: with room for the requested sets, preparation succeeds and returns the number of sets the
  buffer had, the sets are kept, one set is added for each monitor that records - of as many particles as ids in the range,
  times the stores of the monitor -, and the monitors get the range of ids; assigning at the returned offset then stores the
  addresses of the new sets in these monitors, in order, and changes nothing else in the monitors and the sizes. The status
  of the assignment, however, is 0 exactly if the last monitor of the lattice records; otherwise it is -1 although every
  recording monitor has its output.\<close>

theorem prepared_outputs_assigned:
  assumes "buffer_in m0 lattice n N L f m" "lattice_in L f m lattice" "outputs outb n' N' L' f' ns m"
    and "unat (bf_data_addr lattice) + 8 * N \<le> unat (bf_data_addr outb) \<or> unat (bf_data_addr outb) + 8 * N' \<le> unat (bf_data_addr lattice)"
    and "source_ok (bf_data_addr outb) N' stack 22" "source_ok (bf_data_addr lattice) N stack 22"
    and "0 \<le> min_turn_id" "0 \<le> lo" "lo \<le> hi" "hi < 2 ^ 63" "monitors = stored_monitors m lattice"
    and "output_room L' (requests min_turn_id lo hi monitors)"
  shows "\<exists>m1 outb' m2. BeamMonitor_prepare_output_buffer_detailed m stack new_memory mem_pool lattice outb lo hi min_turn_id =
      (m1, mem_pool, outb', 0, Some (of_nat (length ns))) \<and>
    BeamMonitor_assign_output_buffer_from_offset m1 lattice outb' min_turn_id (of_nat (length ns)) =
      (m2, if last_monitor_records min_turn_id monitors then 0 else - 1) \<and>
    output_sizes m1 outb' = output_sizes m outb @ map of_nat (requests min_turn_id lo hi monitors) \<and>
    output_sizes m2 outb' = output_sizes m1 outb' \<and> distinct (output_addresses m2 outb') \<and>
    stored_monitors m1 lattice = map (map_option (prepared min_turn_id lo hi)) monitors \<and>
    stored_monitors m2 lattice = assigned min_turn_id (stored_monitors m1 lattice) (drop (length ns) (output_addresses m2 outb'))"
proof -
  note h = lattice_monitors [OF assms(1,2)]
  have ms: "monitors = monitor_list L f" using stored_monitor_list [OF h] assms(11) by simp
  obtain m1 outb' f1 L1 f1' where P: "BeamMonitor_prepare_output_buffer_detailed m stack new_memory mem_pool lattice outb lo hi min_turn_id =
        (m1, mem_pool, outb', 0, Some (of_nat (length ns)))"
      "holds lattice n N L f1 m1" "bf_data_addr outb' = bf_data_addr outb"
      "monitor_list L f1 = map (map_option (prepared min_turn_id lo hi)) monitors"
      "outputs outb' n' N' L1 f1' (ns @ requests min_turn_id lo hi monitors) m1"
    using prepare_lattice [OF h assms(3-10) assms(12) [unfolded ms]] unfolding ms by blast
  obtain m2 f2 where A: "BeamMonitor_assign_output_buffer_from_offset m1 lattice outb' min_turn_id (of_nat (length ns)) =
        (m2, if last_monitor_records min_turn_id monitors then 0 else - 1)"
      "holds lattice n N L f2 m2" "outputs outb' n' N' L1 f1' (ns @ requests min_turn_id lo hi monitors) m2"
      "monitor_list L f2 = assigned min_turn_id (map (map_option (prepared min_turn_id lo hi)) monitors) (drop (length ns) (output_addresses m2 outb'))"
    using assign_lattice [OF P(2,5) assms(4) [folded P(3)] assms(8-10) P(4) refl] by blast
  show ?thesis
    using P(1) A(1) stored_monitor_list [OF P(2)] stored_monitor_list [OF A(2)] P(4) A(4)
      outputs_read(1) [OF P(5)] outputs_read(1) [OF A(3)] outputs_read(1) [OF assms(3)] outputs_distinct [OF A(3)] by simp
qed

text \<open>A lattice of one monitor that stores one turn, and an empty output buffer with room for one set of one particle.\<close>

lemma one_monitor:
  obtains m0 n f m lattice L n' f' where "buffer_in m0 lattice n 89 L f m" "lattice_in L f m lattice"
    "outputs set_handle n' 83 set_room f' [] m" "placed_in 65536 lattice"
    "stored_monitors m lattice = [Some (BeamMonitor_of (\<lambda>_. 0) [1, 0, 1, 0, - 1, - 1, 0, 0])]"
proof -
  define ws :: "u64 list" where "ws = [1, 0, 1, 0, - 1, - 1, 0, 0]"
  obtain m n f empty where B: "placed_in 65536 empty" "full_access empty"
      "buffer_in set_memory empty n 89 (with_capacity 2 64 2 0 no_contents) f m"
      "lattice_in (with_capacity 2 64 2 0 no_contents) f m empty"
    by (rule created_sample [of 65536 sample_real sample_bits set_memory]) auto
  have ty: "element_attrs OBJECT_TYPE_BEAM_MONITOR ws = []" "element_width OBJECT_TYPE_BEAM_MONITOR = 8"
    by (simp_all add: element_attrs_def element_width_def element_types)
  have ws: "length ws = element_width OBJECT_TYPE_BEAM_MONITOR" "length ws = 8" "ws \<noteq> []" by (simp_all add: ty ws_def)
  have st: "source_ok (bf_data_addr empty) 89 131072 (length ws)" using B(1) by (simp add: ws(2) source_ok_def fits_def placed_in_def)
  have room: "has_room m empty [(length ws, [])]" by (simp add: ws(2) has_room_iff [OF B(3)] room_for_def with_capacity_def)
  have ap: "arrays_apart (bf_data_addr empty) 89 131072 (OBJECT_TYPE_BEAM_MONITOR, ws)" by (simp add: arrays_apart_def ty)
  obtain m1 m' lattice L' f' where S: "buffer_in m1 lattice n 89 L' f' m'" "full_access lattice" "bf_data_addr lattice = bf_data_addr empty"
      "lattice_in L' f' m' lattice"
      "\<forall>i. (i < unat (bf_data_addr empty) \<or> unat (bf_data_addr empty) + 8 * 89 \<le> i) \<and>
        (i < unat (131072 :: u64) \<or> unat (131072 :: u64) + 8 * length ws \<le> i) \<longrightarrow> m' i = m i"
      "map (entry_object m') (buffer_entries lattice) = [stack_entry m (OBJECT_TYPE_BEAM_MONITOR, ws)]"
    using add_element_from_stack [OF B(3,2,4) refl st ws(1,3) refl, of 0 MemPool_preset] ap room no_entries(1) [OF B(3)]
    by (auto simp: ty with_capacity_def)
  have out: "outputs set_handle 83 83 set_room (empty_words 4096 83 set_room) [] set_memory"
    using set_room(1-3) unfolding outputs_def by blast
  have "m' i = set_memory i" if "unat (bf_data_addr set_handle) \<le> i" "i < unat (bf_data_addr set_handle) + 8 * 83" for i
  proof -
    have i: "i < 4760" using that(2) by (simp add: set_room(6))
    then have "m i = set_memory i" using B(1) by (intro buf_outside [OF buffer_inD(1) [OF B(3)]]) (simp add: placed_in_def)
    then show ?thesis using S(5) i B(1) by (simp add: placed_in_def)
  qed
  then have out': "outputs set_handle 83 83 set_room (empty_words 4096 83 set_room) [] m'" by (rule outputs_elsewhere [OF out])
  have entry: "stack_entry m (OBJECT_TYPE_BEAM_MONITOR, ws) = (OBJECT_TYPE_BEAM_MONITOR, ws, [])"
    by (simp add: stack_entry_def ty map_nth)
  obtain it where it: "buffer_entries lattice = [it]" "entry_object m' it = (OBJECT_TYPE_BEAM_MONITOR, ws, [])"
    using S(6) unfolding entry by auto
  then have t: "Object_get_type_id m' it = OBJECT_TYPE_BEAM_MONITOR" by (simp add: entry_object_def)
  then have "entry_shape m' it = (8, [])" by (simp add: entry_shape_def element_attrs_def element_width_def element_types)
  then have "monitor_at m' (Object_get_begin_addr m' it) = BeamMonitor_of (\<lambda>_. 0) ws"
    using it(2) by (simp add: entry_object_def struct_at_def monitor_at_def)
  then have "stored_monitors m' lattice = [Some (BeamMonitor_of (\<lambda>_. 0) ws)]"
    by (simp add: stored_monitors_def it(1) is_monitor_entry_def t)
  then show thesis using that [OF S(1,4) out'] B(1) S(3) by (simp add: ws_def placed_in_def)
qed

theorem prepared_outputs_assigned_witness:
  "\<exists>m lattice m1 outb' m2 monitor. BeamMonitor_prepare_output_buffer_detailed m 131072 (\<lambda>_. 0) MemPool_preset lattice set_handle 7 7 0 =
      (m1, MemPool_preset, outb', 0, Some 0) \<and>
    BeamMonitor_assign_output_buffer_from_offset m1 lattice outb' 0 0 = (m2, 0) \<and> output_sizes m2 outb' = [1] \<and>
    stored_monitors m2 lattice = [Some monitor] \<and> BeamMonitor_min_particle_id monitor = 7 \<and>
    output_addresses m2 outb' = [BeamMonitor_out_address monitor]"
proof -
  obtain m0 n f m lattice L n' f' where S: "buffer_in m0 lattice n 89 L f m" "lattice_in L f m lattice"
      "outputs set_handle n' 83 set_room f' [] m" "placed_in 65536 lattice"
      "stored_monitors m lattice = [Some (BeamMonitor_of (\<lambda>_. 0) [1, 0, 1, 0, - 1, - 1, 0, 0])]"
    by (rule one_monitor)
  define monitor where "monitor = BeamMonitor_of (\<lambda>_. 0) [1, 0, 1, 0, - 1, - 1, 0, 0]"
  have ms: "[Some monitor] = stored_monitors m lattice" by (simp add: S(5) monitor_def)
  have rec: "recording 0 monitor" "requests 0 7 7 [Some monitor] = [1]" by (simp_all add: recording_def monitor_def BeamMonitor_of_def)
  have apart: "unat (bf_data_addr lattice) + 8 * 89 \<le> unat (bf_data_addr set_handle) \<or>
      unat (bf_data_addr set_handle) + 8 * 83 \<le> unat (bf_data_addr lattice)"
    "source_ok (bf_data_addr set_handle) 83 131072 22" "source_ok (bf_data_addr lattice) 89 131072 22"
    using S(4) by (simp_all add: set_room(6) placed_in_def source_ok_def fits_def)
  have room: "output_room set_room (requests 0 7 7 [Some monitor])" unfolding rec by (simp add: output_room_def set_room_def with_capacity_def no_contents_def)
  obtain m1 outb' m2 where R: "BeamMonitor_prepare_output_buffer_detailed m 131072 (\<lambda>_. 0) MemPool_preset lattice set_handle 7 7 0 =
        (m1, MemPool_preset, outb', 0, Some 0)"
      "BeamMonitor_assign_output_buffer_from_offset m1 lattice outb' 0 0 = (m2, 0)"
      "output_sizes m2 outb' = output_sizes m set_handle @ [1]" "output_sizes m2 outb' = output_sizes m1 outb'"
      "stored_monitors m2 lattice = assigned 0 [Some (prepared 0 7 7 monitor)] (output_addresses m2 outb')"
    using prepared_outputs_assigned [OF S(1-3) apart _ _ _ _ ms room, of "\<lambda>_. 0" MemPool_preset] rec
    by (auto simp: List.map_filter_simps)
  have sizes: "output_sizes m2 outb' = [1]" using R(3) outputs_read(1) [OF S(3)] by simp
  then obtain a where a: "output_addresses m2 outb' = [a]" by (auto simp: output_sizes_def output_addresses_def)
  have "stored_monitors m2 lattice = [Some (prepared 0 7 7 monitor\<lparr>BeamMonitor_out_address := a\<rparr>)]"
    using R(5) a rec by simp
  then show ?thesis using R(1,2) sizes a rec by (fastforce simp: prepared_def)
qed

end
