(* ===== verification/Spec2Isabelle.thy ===== *)
theory Spec2Isabelle
  imports Alignment Math_Factorial Track_Snapshots Track_Schedule Track_Outputs Managed_Buffer_Offset Mem_Pool Lattice_Beam_Beam RF_Multipole_Values Monitor_Assignment
begin

text \<open>
  SixTrackLib: a verified model of its particle tracking and of its buffers

  SixTrackLib tracks particles through the lattice of an accelerator. Its core is a set of inline C functions
  under \<open>src/sixtracklib/common\<close> that every back end (CPU, OpenCL, CUDA) compiles: particle sets, beam elements
  with their maps, the tracking loops, the monitors that record particles, and the flat buffers in which all of
  them are stored, sent to devices and written to files. This library models that core and proves what makes it
  correct. A definition has the name of the C function it models, without the \<open>NS()\<close> prefix macro.

  The parts of the program and their theories

  \<^item> Sx_Prelude, Word_Arrays: 64-bit words, byte memory with word access, lemmas on loops and ranges of words.
  \<^item> Alignment (\<open>buffer/alignment.h\<close>): logarithms, greatest common divisors and common alignments on words.
  \<^item> Particles, Particle_Ops (\<open>particles.h\<close>): the structure of arrays of particles, every getter and setter,
    and the operations: energy and momentum updates, states and turns, copying, clearing and comparing sets.
  \<^item> Math_Factorial, Math_Interpol, Gauss_Fields (\<open>internal/\<close>, \<open>be_beamfields/\<close>): factorials, linear and cubic
    interpolation, the complex error function and the fields of Gaussian charge distributions.
  \<^item> Elements (\<open>be_drift\<close>, \<open>be_xyshift\<close>, \<open>be_srotation\<close>, \<open>be_dipedge\<close>, \<open>be_cavity\<close>), Multipole
    (\<open>be_multipole\<close>, \<open>be_rfmultipole\<close>), Apertures (\<open>be_limit\<close>), Beam_Fields and Beam_Beam6D
    (\<open>be_beamfields\<close>), Tri_Cub_Coefficients and Tri_Cub (\<open>be_tricub\<close>): each element as a record with its
    operations, and its tracking function on one particle of a set.
  \<^item> Store_Index, Beam_Monitor (\<open>be_monitor\<close>), Elem_By_Elem (\<open>output/elem_by_elem_config.h\<close>): where the
    snapshot of a particle goes in an output particle set.
  \<^item> Track_Element, Track, Track_Results, Track_Schedule, Track_Snapshots, Track_Outputs (\<open>track/\<close>): the dispatcher over element
    types with its build configuration, the loops over elements, turns and particles, the partition of the
    particles over work items, tracking in pieces, element by element output, what monitors leave in their outputs.
  \<^item> Managed_Buffer_Layout, Managed_Buffer_Remap, Managed_Buffer_Moves, Managed_Buffer_Offset, Managed_Buffer,
    Managed_Buffer_Reserve, Managed_Buffer_Clear (\<open>buffer/managed_buffer_minimal.h\<close>,
    \<open>buffer/managed_buffer_remap.h\<close>, \<open>buffer/managed_buffer.h\<close>): the flat buffer with its sections of slots,
    objects, data pointers and garbage ranges; remapping after a move, changing capacities, clearing.
  \<^item> Mem_Pool (\<open>buffer/mem_pool.h\<close>, \<open>buffer/mem_pool.c\<close>): the allocator of aligned blocks.
  \<^item> Object_Buffer, Object_Buffer_Ops (\<open>buffer.h\<close>, \<open>buffer/buffer.c\<close>, \<open>buffer/buffer_generic.h\<close>): the handle
    that owns a managed buffer in a pool, with its flags, and all its operations; Object_Buffer_New,
    Object_Buffer_Copies, Object_Buffer_Add: what creating, copying, storing in a file and adding an object do.
  \<^item> Particle_Ids (\<open>particles/particles.c\<close>): the merge sort that looks for the range of the particle ids.
  \<^item> Particle_Buffers, Particle_Storage (\<open>particles.h\<close>, \<open>particles/particles.c\<close>): particle sets in memory and in object
    buffers; a buffer of particle sets as a list of sets.
  \<^item> Element_Buffers, Element_Buffers_Arrays (\<open>be_*/be_*.h\<close>, \<open>be_*/be_*.c\<close>): for every element type the words of its
    structure, what room it takes, finding it in a buffer and adding one (\<open>can_be_added\<close>, \<open>new\<close>, \<open>add\<close>, \<open>add_copy\<close>);
    RF_Multipole_Values: the arrays of an RF multipole behind its addresses;
    Lattice_Buffers (\<open>beam_elements.h\<close>): the functions on whole lattices that decide by the type of an object.
  \<^item> Struct_Storage, Lattice_Storage: structures with arrays in buffers, and a buffer as a list of elements;
    Lattice_Operations, Lattice_Runs, Lattice_Beam_Beam: lattices built by the operations, as a step relation, and
    where copying them stops.
  \<^item> Monitor_Outputs, Monitor_Assignment (\<open>be_monitor/be_monitor.h\<close>, \<open>be_monitor/output_buffer.h\<close>,
    \<open>be_monitor/output_buffer.c\<close>): the monitors of a lattice in memory, the output buffer that is prepared for them
    and the assignment of its particle sets to the monitors.

  How they interact. A tracking loop reads elements in order and passes each to the dispatcher; the dispatcher
  calls the tracking function of the element type, which reads and writes one entry of the particle set, and
  afterwards checks the global aperture. Monitors and element by element tracking copy entries into the particle
  sets of an output, at an index computed from particle, element and turn. The managed buffer is independent of
  what it stores: it knows the addresses of objects and the places that hold pointers. The object buffer is a
  handle for a managed buffer in a memory pool; it lets the pool grow and then remaps the managed buffer.

  How state corresponds to the code

  \<^item> A set of particles is a record of lists, an element is a record with the fields of its C struct. A
    pointer that may be NULL is an \<open>option\<close> or an address that may be 0. An output parameter is a result.
  \<^item> A tracking function takes the particle set and an index and returns the set and the status 0 or -1. The
    locale \<open>particle_kernel\<close> is the interface between elements and loops: the function changes one entry only,
    and changes it as a map on a single particle does. Every element interprets it.
  \<^item> During tracking the state is a world: the particle set and the particle sets of the outputs, by address.
  \<^item> A managed buffer is a range of a byte memory (a map from 64-bit addresses to bytes). \<open>describes\<close> relates
    the bytes to a \<open>buffer_layout\<close>, the abstract contents: where the sections are, the tables of objects, the
    places of data pointers, the garbage ranges. The operations read and write the bytes as the code does.
  \<^item> An object buffer is a byte memory, a pool and a handle (\<open>buffer_in\<close> is the invariant that joins them). The
    addresses that \<open>malloc\<close> returns are arguments, files are lists of bytes.
  \<^item> A particle set in memory is read as a record by \<open>particles_at real_of\<close>: \<open>real_of\<close> is the number that a pattern of
    64 bits stands for, any function. \<open>stored_sets\<close> is the list of the sets in a buffer. Structures that the code
    builds on its stack before it adds them to a buffer are written at an address that is an argument.
    \<open>stored_elements real_of\<close> reads a buffer as the list of elements that tracking takes in the same way.
  \<^item> Unsigned 64-bit integers are words with their wrap-around. Signed ones (indices, turns, ids) are integers,
    which is exact as long as the code does not overflow them, which in C is undefined.
  \<^item> Floating point numbers are real numbers. Rounding, infinities and NaN are not modelled; theorems on the
    maps are about the formulas that the code evaluates.
  \<^item> Build options are arguments (\<open>track_config\<close>) or have their default value.

  What the lemmas show

  \<^item> Tracking: the loop over turns ends and reaches its turn, tracking can be cut along turns and along the
    lattice, tracking in pieces of any lengths gets every particle on (less the turns whose last piece
    fails), any partition of the particles over work items gives the particles and the status of the sequential loop, and
    the same outputs where particles do not share places in them (locale \<open>output_tracker\<close>), and element
    by element output is a faithful log of the passages, readable through the index function.
  \<^item> Outputs: the index functions keep snapshots apart within the announced size, and where they do not.
  \<^item> Elements: each map in closed form; the multipole against the field polynomial; the boost of the beam-beam
    lens and its inverse, the propagated beam matrix and its derivatives; the tricubic coefficients against
    Hermite interpolation, its continuity, and the kick as a gradient; the natural spline.
  \<^item> Buffers: a remapped buffer means at its new address what it meant at the old one, nothing outside is
    written, and the way back restores every byte; initialising, reserving and clearing keep the buffer well
    formed and keep, or empty, the contents. Adding an object copies it with all its arrays and redirects the
    pointers, copies of buffers are deep, and a file brings back the same contents. The blocks of a pool are
    aligned and disjoint (locale \<open>front_allocator\<close>, interpreted on the pool).
  \<^item> Particle sets in buffers: adding a set appends it to the list of the sets, copies and files hold the same
    list, and the queries answer what the list says.
  \<^item> Lattices in buffers: however a lattice has been created, filled, copied and cleared, its buffer is one of beam
    elements that holds the list of the elements added (an invariant of all runs of the operations); copies append
    lists, files bring them back, and the test for room answers exactly whether there is room.
  \<^item> Outputs in buffers: preparing an output buffer for a lattice and assigning it gives every recording monitor a
    particle set of its own, of the requested size; the loops over the bytes refine functions on lists of monitors.
  \<^item> Error behaviour is stated where the code does not do what it is for: lost particles that move during element
    by element tracking, colliding snapshots, the garbage section after an address offset, the end of a profile,
    copies of lattices that stop behind a beam-beam element, 6D elements stored with the type of 4D elements, skew
    components of RF multipoles written over the normal ones.

  Termination, fuel and bounds. Loops over arrays are structural. The loop over turns is a
  \<open>partial_function\<close>, its termination is a property. The slot size is an argument of the buffer operations; the
  properties of buffers are proved for the slot size 8, the default, for buffers that do not wrap around the
  address space. Word lengths are those of a 64-bit host.

  Not modelled: the C++ classes (views of the C structures, track jobs, controllers), OpenCL, CUDA, SIMD and MPFR
  variants (the same inline functions, or device management), file handles, the printing functions, the preparation
  of element by element output in an object buffer, objects for strings, arrays and address patches, alternative
  implementations of the complex error function that a build option selects, vendored headers.
\<close>

end
